(* ===== verification/Prelude.thy ===== *)
theory Prelude
  imports Main "HOL-Library.Char_ord" "HOL-Library.List_Lexorder"
begin

text \<open>
  The prelude of the development: the model of the Python values that every component uses.
  Exceptions are values of \<open>py_error\<close> in a sum type, \<open>str\<close> is a list of characters (one
  \<open>char\<close> is one code point below 256), JSON documents are a datatype, and slices with
  negative bounds, \<open>strip\<close>, \<open>upper\<close> and \<open>lower\<close> are written out. The collection
  \<open>py\<close> gathers the equations that evaluate these helpers.
\<close>

named_theorems py \<open>equations of the Python helpers\<close>

section \<open>Exceptions\<close>

text \<open>An exception of the source is a value; the string is the argument of \<open>ValueError\<close>.\<close>

datatype py_error =
    ValueError string
  | KeyError string
  | TypeError
  | OverflowError
  | ZeroDivisionError
  | OtherError string

type_synonym 'a res = "py_error + 'a"

fun bind_res :: "'a res \<Rightarrow> ('a \<Rightarrow> 'b res) \<Rightarrow> 'b res" where
  "bind_res (Inl e) f = Inl e"
| "bind_res (Inr x) f = f x"

lemma bind_res_Inr_iff: "bind_res m f = Inr y \<longleftrightarrow> (\<exists>x. m = Inr x \<and> f x = Inr y)"
  by (cases m) auto

lemma bind_res_Inl_iff: "bind_res m f = Inl e \<longleftrightarrow> m = Inl e \<or> (\<exists>x. m = Inr x \<and> f x = Inl e)"
  by (cases m) auto

section \<open>Slices\<close>

text \<open>
  \<open>xs[i:]\<close> and \<open>xs[:i]\<close> for any integer \<open>i\<close>: a negative bound counts from the end and
  is clipped at 0. So \<open>xs[-0:]\<close> is all of \<open>xs\<close>.
\<close>

definition slice_bound :: "int \<Rightarrow> 'a list \<Rightarrow> nat" where
  "slice_bound i xs = (if i < 0 then nat (int (length xs) + i) else nat i)"

definition slice_from :: "int \<Rightarrow> 'a list \<Rightarrow> 'a list" where
  "slice_from i xs = drop (slice_bound i xs) xs"

definition slice_to :: "int \<Rightarrow> 'a list \<Rightarrow> 'a list" where
  "slice_to i xs = take (slice_bound i xs) xs"

lemma slice_to_from [simp]: "slice_to i xs @ slice_from i xs = xs"
  by (simp add: slice_to_def slice_from_def)

lemma set_slice_from: "set (slice_from i xs) \<subseteq> set xs"
  by (simp add: slice_from_def set_drop_subset)

lemma set_slice_to: "set (slice_to i xs) \<subseteq> set xs"
  by (simp add: slice_to_def set_take_subset)

lemma slice_from_neg:
  "0 < n \<Longrightarrow> slice_from (- int n) xs = drop (length xs - n) xs"
  by (simp add: slice_from_def slice_bound_def nat_diff_distrib')

lemma slice_to_neg:
  "0 < n \<Longrightarrow> slice_to (- int n) xs = take (length xs - n) xs"
  by (simp add: slice_to_def slice_bound_def nat_diff_distrib')

lemma length_slice_from_neg: "0 < n \<Longrightarrow> length (slice_from (- int n) xs) = min n (length xs)"
  by (simp add: slice_from_neg)

text \<open>Position \<open>i\<close> of \<open>xs\<close> is among its last \<open>n\<close>, or before them.\<close>

definition among_last :: "nat \<Rightarrow> nat \<Rightarrow> 'a list \<Rightarrow> bool" where
  "among_last n i xs = (i < length xs \<and> length xs \<le> i + n)"

lemma set_drop_nth: "set (drop k xs) = {xs ! i | i. k \<le> i \<and> i < length xs}"
proof (intro set_eqI iffI)
  fix x assume "x \<in> set (drop k xs)"
  then obtain j where j: "j < length xs - k" "x = drop k xs ! j"
    by (auto simp: in_set_conv_nth)
  then show "x \<in> {xs ! i | i. k \<le> i \<and> i < length xs}"
    by (intro CollectI exI[of _ "k + j"]) auto
next
  fix x assume "x \<in> {xs ! i | i. k \<le> i \<and> i < length xs}"
  then obtain i where "k \<le> i" "i < length xs" "x = xs ! i" by blast
  then show "x \<in> set (drop k xs)"
    by (auto simp: in_set_conv_nth intro!: exI[of _ "i - k"])
qed

lemma set_take_nth: "set (take k xs) = {xs ! i | i. i < k \<and> i < length xs}"
proof (intro set_eqI iffI)
  fix x assume "x \<in> set (take k xs)"
  then obtain j where "j < length xs" "j < k" "x = xs ! j"
    by (auto simp: in_set_conv_nth)
  then show "x \<in> {xs ! i | i. i < k \<and> i < length xs}" by blast
next
  fix x assume "x \<in> {xs ! i | i. i < k \<and> i < length xs}"
  then obtain i where "i < k" "i < length xs" "x = xs ! i" by blast
  then show "x \<in> set (take k xs)"
    by (auto simp: in_set_conv_nth intro!: exI[of _ i])
qed

lemma set_slice_from_neg: "0 < n \<Longrightarrow> set (slice_from (- int n) xs) = {xs ! i | i. among_last n i xs}"
  unfolding slice_from_neg set_drop_nth among_last_def
  by (rule Collect_cong) (auto simp: le_diff_conv)

lemma set_slice_to_neg: "0 < n \<Longrightarrow> set (slice_to (- int n) xs) = {xs ! i | i. i + n < length xs}"
  unfolding slice_to_neg set_take_nth
  by (rule Collect_cong) auto

section \<open>Characters and strings\<close>

abbreviation ord_of :: "char \<Rightarrow> nat" where
  "ord_of c \<equiv> of_char c"

definition is_digit :: "char \<Rightarrow> bool" where
  "is_digit c = (48 \<le> ord_of c \<and> ord_of c \<le> 57)"

definition is_lower :: "char \<Rightarrow> bool" where
  "is_lower c = (97 \<le> ord_of c \<and> ord_of c \<le> 122)"

definition is_upper :: "char \<Rightarrow> bool" where
  "is_upper c = (65 \<le> ord_of c \<and> ord_of c \<le> 90)"

definition is_letter :: "char \<Rightarrow> bool" where
  "is_letter c = (is_lower c \<or> is_upper c)"

text \<open>The code points below 256 for which \<open>str.isspace\<close> (and \<open>\s\<close> of \<open>re\<close>) holds.\<close>

definition is_space :: "char \<Rightarrow> bool" where
  "is_space c = (let n = ord_of c in
     (9 \<le> n \<and> n \<le> 13) \<or> (28 \<le> n \<and> n \<le> 32) \<or> n = 133 \<or> n = 160)"

definition newline :: char where
  "newline = char_of (10 :: nat)"

definition upper_char :: "char \<Rightarrow> char" where
  "upper_char c = (if is_lower c then char_of (ord_of c - 32) else c)"

definition lower_char :: "char \<Rightarrow> char" where
  "lower_char c = (if is_upper c then char_of (ord_of c + 32) else c)"

text \<open>\<open>str.upper\<close>, \<open>str.lower\<close> (on ASCII letters) and \<open>str.strip\<close>.\<close>

definition upper :: "string \<Rightarrow> string" where
  "upper s = map upper_char s"

definition lower :: "string \<Rightarrow> string" where
  "lower s = map lower_char s"

definition lstrip :: "string \<Rightarrow> string" where
  "lstrip s = dropWhile is_space s"

definition strip :: "string \<Rightarrow> string" where
  "strip s = rev (dropWhile is_space (rev (dropWhile is_space s)))"

lemma not_lower_upper_char: "\<not> is_lower (upper_char c)"
  by (auto simp: upper_char_def is_lower_def)

lemma upper_char_idem [simp]: "upper_char (upper_char c) = upper_char c"
  using not_lower_upper_char[of c] unfolding upper_char_def[of "upper_char c"] by simp

lemma upper_idem [simp]: "upper (upper s) = upper s"
  by (simp add: upper_def)

lemma length_upper [simp]: "length (upper s) = length s"
  by (simp add: upper_def)

lemma upper_append: "upper (s @ t) = upper s @ upper t"
  by (simp add: upper_def)

lemma strip_Nil [simp]: "strip [] = []"
  by (simp add: strip_def)

lemma dropWhile_idem: "dropWhile P (dropWhile P xs) = dropWhile P xs"
  by (induction xs) auto

lemma hd_dropWhile_not: "dropWhile P xs \<noteq> [] \<Longrightarrow> \<not> P (hd (dropWhile P xs))"
  by (induction xs) auto

lemma dropWhile_eq_self: "xs = [] \<or> \<not> P (hd xs) \<Longrightarrow> dropWhile P xs = xs"
  by (cases xs) auto

lemma hd_rev_dropWhile_rev:
  assumes "ys \<noteq> []" "\<not> P (hd ys)"
  shows "dropWhile P (rev (dropWhile P (rev ys))) = rev (dropWhile P (rev ys))"
proof (rule dropWhile_eq_self)
  from assms obtain y zs where ys: "ys = y # zs" and "\<not> P y"
    by (cases ys) auto
  then have "dropWhile P (rev ys) = dropWhile P (rev zs) @ [y]"
    by (simp add: dropWhile_append3 dropWhile_append)
  with \<open>\<not> P y\<close> show "rev (dropWhile P (rev ys)) = [] \<or> \<not> P (hd (rev (dropWhile P (rev ys))))"
    by simp
qed

lemma dropWhile_ne_Nil: "x \<in> set xs \<Longrightarrow> \<not> P x \<Longrightarrow> \<exists>y \<in> set (dropWhile P xs). \<not> P y"
  by (induction xs) auto

lemma ne_NilI: "x \<in> set xs \<Longrightarrow> xs \<noteq> []"
  by auto

lemma strip_eq_Nil_iff: "strip s = [] \<longleftrightarrow> (\<forall>c \<in> set s. is_space c)"
proof (cases "\<forall>c \<in> set s. is_space c")
  case True
  then have drop: "dropWhile is_space s = []" by simp
  have "strip s = []" unfolding strip_def by (subst drop) simp
  with True show ?thesis by blast
next
  case False
  then obtain c where "c \<in> set s" "\<not> is_space c" by blast
  then obtain d where d: "d \<in> set (dropWhile is_space s)" "\<not> is_space d"
    using dropWhile_ne_Nil[where P = is_space] by meson
  then have "d \<in> set (rev (dropWhile is_space s))" by simp
  then obtain e where "e \<in> set (dropWhile is_space (rev (dropWhile is_space s)))"
    using d(2) dropWhile_ne_Nil[where P = is_space] by meson
  then have "dropWhile is_space (rev (dropWhile is_space s)) \<noteq> []"
    by (rule ne_NilI)
  then have "strip s \<noteq> []" unfolding strip_def by (simp only: rev_is_Nil_conv not_False_eq_True)
  with False show ?thesis by blast
qed

lemma strip_idem [simp]: "strip (strip s) = strip s"
proof (cases "dropWhile is_space s = []")
  case True
  have "strip s = []" unfolding strip_def by (subst True) simp
  then show ?thesis by simp
next
  case False
  then have "dropWhile is_space (strip s) = strip s"
    unfolding strip_def by (intro hd_rev_dropWhile_rev False hd_dropWhile_not)
  then show ?thesis
    by (simp add: strip_def dropWhile_idem)
qed

text \<open>\<open>str.startswith\<close>, \<open>str.removeprefix\<close> and the test \<open>needle in haystack\<close>.\<close>

fun starts_with :: "string \<Rightarrow> string \<Rightarrow> bool" where
  "starts_with [] s = True"
| "starts_with (p # ps) [] = False"
| "starts_with (p # ps) (c # cs) = (p = c \<and> starts_with ps cs)"

definition remove_prefix :: "string \<Rightarrow> string \<Rightarrow> string" where
  "remove_prefix p s = (if starts_with p s then drop (length p) s else s)"

fun contains :: "string \<Rightarrow> string \<Rightarrow> bool" where
  "contains p [] = (p = [])"
| "contains p (c # cs) = (starts_with p (c # cs) \<or> contains p cs)"

lemma starts_with_iff: "starts_with p s \<longleftrightarrow> (\<exists>t. s = p @ t)"
  by (induction p s rule: starts_with.induct) auto

lemma starts_with_append [simp]: "starts_with p (p @ t)"
  by (simp add: starts_with_iff)

lemma remove_prefix_append [simp]: "remove_prefix p (p @ t) = t"
  by (simp add: remove_prefix_def)

lemma contains_iff: "contains p s \<longleftrightarrow> (\<exists>a b. s = a @ p @ b)"
proof (induction p s rule: contains.induct)
  case (1 p)
  show ?case by auto
next
  case (2 p c cs)
  have "(\<exists>a b. c # cs = a @ p @ b) \<longleftrightarrow> starts_with p (c # cs) \<or> (\<exists>a b. cs = a @ p @ b)"
    unfolding starts_with_iff by (metis append_Cons append_Nil list.exhaust list.inject)
  with 2 show ?case by simp
qed

section \<open>JSON values\<close>

text \<open>
  The documents the code stores: \<open>dict\<close> is an association list in insertion order. Numbers
  are Python integers (no floating-point number is stored by the code modelled here).
\<close>

datatype json =
    JNull
  | JBool bool
  | JInt int
  | JStr string
  | JArr "json list"
  | JObj "(string \<times> json) list"

fun is_dict :: "json \<Rightarrow> bool" where
  "is_dict (JObj _) = True"
| "is_dict _ = False"

text \<open>The truth value \<open>bool(x)\<close> of a value.\<close>

fun truthy :: "json \<Rightarrow> bool" where
  "truthy JNull = False"
| "truthy (JBool b) = b"
| "truthy (JInt i) = (i \<noteq> 0)"
| "truthy (JStr s) = (s \<noteq> [])"
| "truthy (JArr xs) = (xs \<noteq> [])"
| "truthy (JObj kvs) = (kvs \<noteq> [])"

definition truthy_opt :: "json option \<Rightarrow> bool" where
  "truthy_opt x = (case x of None \<Rightarrow> False | Some v \<Rightarrow> truthy v)"

section \<open>Association lists in insertion order\<close>

text \<open>A \<open>dict\<close> whose order the code observes: a store keeps the position of a key it already has.\<close>

fun dict_set :: "'k \<Rightarrow> 'v \<Rightarrow> ('k \<times> 'v) list \<Rightarrow> ('k \<times> 'v) list" where
  "dict_set k v [] = [(k, v)]"
| "dict_set k v ((k', v') # kvs) = (if k' = k then (k, v) # kvs else (k', v') # dict_set k v kvs)"

lemma map_of_dict_set [simp]: "map_of (dict_set k v d) = (map_of d)(k \<mapsto> v)"
  by (induction k v d rule: dict_set.induct) auto

lemma dom_map_of_dict_set: "fst ` set (dict_set k v d) = insert k (fst ` set d)"
  by (induction k v d rule: dict_set.induct) auto

lemma distinct_dict_set: "distinct (map fst d) \<Longrightarrow> distinct (map fst (dict_set k v d))"
  by (induction k v d rule: dict_set.induct) (auto simp: dom_map_of_dict_set image_iff)

lemma map_of_filter_key: "map_of (filter (\<lambda>p. fst p \<noteq> k) d) = (map_of d)(k := None)"
  by (induction d) (auto simp: fun_eq_iff)

text \<open>\<open>d.update(kvs)\<close>, and \<open>{**d, **kvs}\<close>.\<close>

fun dict_update :: "('k \<times> 'v) list \<Rightarrow> ('k \<times> 'v) list \<Rightarrow> ('k \<times> 'v) list" where
  "dict_update d [] = d"
| "dict_update d ((k, v) # kvs) = dict_update (dict_set k v d) kvs"

text \<open>\<open>sorted(xs)\<close> of a Python set given by the list of its elements.\<close>

definition sorted_set :: "'a::linorder list \<Rightarrow> 'a list" where
  "sorted_set xs = sort (remdups xs)"

lemma set_sorted_set [simp]: "set (sorted_set xs) = set xs"
  by (simp add: sorted_set_def)

lemma sorted_sorted_set [simp]: "sorted (sorted_set xs)"
  by (simp add: sorted_set_def)

lemma distinct_sorted_set [simp]: "distinct (sorted_set xs)"
  by (simp add: sorted_set_def)

lemma sorted_set_cong: "set xs = set ys \<Longrightarrow> sorted_set xs = sorted_set ys"
  by (rule sorted_distinct_set_unique) auto

end
