(* ===== verification/ScrapeCadence.thy ===== *)
theory ScrapeCadence
  imports Prelude
begin

text \<open>
  \<open>services/scrape_cadence.py\<close>: the effective scrape cadence of a jurisdiction. The
  configured cadence is a floor and the override kept in Redis may only raise it. A run of the
  history is the record \<open>run_record\<close> (the keys the readers look up). The specification is
  the type \<open>cadence\<close> with its order: \<open>resolve_cadence\<close> computes a maximum there.
\<close>

section \<open>Data\<close>

definition NIGHTLY :: string where "NIGHTLY = ''nightly''"
definition WEEKLY :: string where "WEEKLY = ''weekly''"

text \<open>\<open>_ORDER\<close>: a higher number is more frequent.\<close>

definition cadence_order :: "string \<Rightarrow> nat option" where
  "cadence_order s = (if s = WEEKLY then Some 0 else if s = NIGHTLY then Some 1 else None)"

text \<open>One run of the rolling history; \<open>bills_new\<close> is absent when the run was not measured.\<close>

record run_record =
  success :: bool
  failure_reason :: "string option"
  bills_new :: "int option"

section \<open>Operations\<close>

definition cadence_from_yaml :: "(string \<times> json) list option \<Rightarrow> string" where
  "cadence_from_yaml cfg =
     (if truthy_opt (map_of (case cfg of None \<Rightarrow> [] | Some c \<Rightarrow> c) ''sync_day'')
      then WEEKLY else NIGHTLY)"

definition resolve_cadence :: "string \<Rightarrow> string option \<Rightarrow> string" where
  "resolve_cadence floor override =
     (let floor = (if cadence_order floor = None then WEEKLY else floor) in
      case override of
        None \<Rightarrow> floor
      | Some ov \<Rightarrow>
          (if cadence_order ov = None then floor
           else if the (cadence_order ov) > the (cadence_order floor) then ov else floor))"

text \<open>\<open>[r for r in history if r.get("bills_new") is not None]\<close>, with the figure read.\<close>

definition measured :: "run_record list \<Rightarrow> run_record list" where
  "measured history = filter (\<lambda>r. bills_new r \<noteq> None) history"

definition new_bills :: "run_record \<Rightarrow> int" where
  "new_bills r = (case bills_new r of None \<Rightarrow> 0 | Some n \<Rightarrow> n)"

definition should_escalate :: "run_record list \<Rightarrow> int \<Rightarrow> bool" where
  "should_escalate history window =
     (let ms = measured history in
      if ms = [] then False
      else list_ex (\<lambda>r. new_bills r > 0) (slice_from (- window) ms))"

definition has_failure_reason :: "run_record \<Rightarrow> bool" where
  "has_failure_reason r = (case failure_reason r of None \<Rightarrow> False | Some s \<Rightarrow> s \<noteq> [])"

definition demotion_looks_reasonable :: "run_record list \<Rightarrow> int \<Rightarrow> bool" where
  "demotion_looks_reasonable history quiet_window =
     (let ms = measured history in
      if int (length ms) < quiet_window then False
      else
        let recent = slice_from (- quiet_window) ms in
        if list_ex (\<lambda>r. new_bills r > 0) recent then False
        else if \<not> list_all (\<lambda>r. success r \<and> \<not> has_failure_reason r) recent then False
        else list_ex (\<lambda>r. new_bills r > 0) (slice_to (- quiet_window) ms))"

datatype review_action = Escalate | NoAction

record verdict =
  v_jurisdiction :: string
  v_floor :: string
  v_previous :: string
  v_effective :: string
  v_action :: review_action
  v_excluded :: bool
  v_demotion_advice :: bool

definition cadence_review ::
  "string \<Rightarrow> string \<Rightarrow> string option \<Rightarrow> run_record list \<Rightarrow> int \<Rightarrow> int \<Rightarrow> string list \<Rightarrow> verdict" where
  "cadence_review jurisdiction floor current_override history escalate_window quiet_window excluded =
     (let is_excluded = (jurisdiction \<in> set excluded);
          previous = resolve_cadence floor current_override;
          escalated = (\<not> is_excluded \<and> previous = WEEKLY \<and> should_escalate history escalate_window);
          effective = (if escalated then NIGHTLY else previous)
      in \<lparr> v_jurisdiction = jurisdiction, v_floor = floor, v_previous = previous,
           v_effective = effective, v_action = (if escalated then Escalate else NoAction),
           v_excluded = is_excluded,
           v_demotion_advice =
             (effective = NIGHTLY \<and> demotion_looks_reasonable history quiet_window) \<rparr>)"

section \<open>Specification: cadences as an ordered type\<close>

datatype cadence = Weekly | Nightly

instantiation cadence :: linorder
begin

definition less_eq_cadence :: "cadence \<Rightarrow> cadence \<Rightarrow> bool" where
  "less_eq_cadence a b = (a = Weekly \<or> b = Nightly)"

definition less_cadence :: "cadence \<Rightarrow> cadence \<Rightarrow> bool" where
  "less_cadence a b = (a = Weekly \<and> b = Nightly)"

instance
proof
  fix x y z :: cadence
  show "x < y \<longleftrightarrow> x \<le> y \<and> \<not> y \<le> x"
    by (cases x; cases y) (auto simp: less_eq_cadence_def less_cadence_def)
  show "x \<le> x" by (cases x) (auto simp: less_eq_cadence_def)
  show "x \<le> y \<Longrightarrow> y \<le> z \<Longrightarrow> x \<le> z" by (auto simp: less_eq_cadence_def)
  show "x \<le> y \<Longrightarrow> y \<le> x \<Longrightarrow> x = y" by (cases x; cases y) (auto simp: less_eq_cadence_def)
  show "x \<le> y \<or> y \<le> x" by (cases x; cases y) (auto simp: less_eq_cadence_def)
qed

end

text \<open>What a stored string means: an unrecognised one counts as weekly.\<close>

definition cadence_of :: "string \<Rightarrow> cadence" where
  "cadence_of s = (if s = NIGHTLY then Nightly else Weekly)"

definition cadence_of_override :: "string option \<Rightarrow> cadence" where
  "cadence_of_override ov = (case ov of None \<Rightarrow> Weekly | Some s \<Rightarrow> cadence_of s)"

lemma names_neq [simp]: "NIGHTLY \<noteq> WEEKLY" "WEEKLY \<noteq> NIGHTLY"
  by (auto simp: NIGHTLY_def WEEKLY_def)

lemma cadence_order_simps [simp]:
  "cadence_order WEEKLY = Some 0" "cadence_order NIGHTLY = Some 1"
  by (simp_all add: cadence_order_def)

lemma cadence_order_None: "cadence_order s = None \<longleftrightarrow> s \<noteq> WEEKLY \<and> s \<noteq> NIGHTLY"
  by (simp add: cadence_order_def)

lemma resolve_cadence_cases:
  "resolve_cadence floor override =
     (if floor = NIGHTLY \<or> override = Some NIGHTLY then NIGHTLY else WEEKLY)"
  by (auto simp: resolve_cadence_def cadence_order_def Let_def split: option.splits)

lemma resolve_cadence_valid: "resolve_cadence floor override \<in> {WEEKLY, NIGHTLY}"
  by (simp add: resolve_cadence_cases)

text \<open>the effective cadence is the maximum of the floor and the override, and junk in
  either place counts as weekly: automation can only raise the configured cadence.\<close>

lemma resolve_cadence_is_max:
  "cadence_of (resolve_cadence floor override) = max (cadence_of floor) (cadence_of_override override)"
  by (auto simp: resolve_cadence_cases cadence_of_def cadence_of_override_def max_def
      less_eq_cadence_def split: option.splits)

section \<open>Properties of the review\<close>

lemma measured_bills_new: "r \<in> set (measured h) \<Longrightarrow> bills_new r = Some (new_bills r)"
  by (auto simp: measured_def new_bills_def)

lemma should_escalate_iff:
  assumes "0 < window"
  shows "should_escalate h (int window) \<longleftrightarrow>
    (\<exists>i. among_last window i (measured h) \<and> 0 < new_bills (measured h ! i))"
proof (cases "measured h = []")
  case True
  then show ?thesis by (simp add: should_escalate_def among_last_def)
next
  case False
  then show ?thesis
    by (auto simp: should_escalate_def Let_def list_ex_iff set_slice_from_neg[OF assms])
qed

lemma demotion_looks_reasonable_iff:
  assumes "0 < q"
  shows "demotion_looks_reasonable h (int q) \<longleftrightarrow>
    q \<le> length (measured h) \<and>
    (\<forall>i. among_last q i (measured h) \<longrightarrow>
       new_bills (measured h ! i) \<le> 0 \<and> success (measured h ! i) \<and>
       \<not> has_failure_reason (measured h ! i)) \<and>
    (\<exists>i. i + q < length (measured h) \<and> 0 < new_bills (measured h ! i))"
  unfolding demotion_looks_reasonable_def Let_def list_ex_iff list_all_iff
    set_slice_from_neg[OF assms] set_slice_to_neg[OF assms]
  by (auto simp: not_less)

text \<open>a review never lowers the cadence in force. It escalates exactly when the
  jurisdiction is not excluded, sits at weekly, and one of its last \<open>w\<close> measured runs
  imported new bills; then, and only then, the cadence changes, and it becomes nightly.\<close>

lemma cadence_review_escalation:
  assumes "0 < w"
  shows "let v = cadence_review j floor ov h (int w) q excl in
    cadence_of (v_previous v) \<le> cadence_of (v_effective v) \<and>
    (v_action v = Escalate \<longleftrightarrow> v_effective v \<noteq> v_previous v) \<and>
    (v_action v = Escalate \<longleftrightarrow>
       j \<notin> set excl \<and> cadence_of floor = Weekly \<and> cadence_of_override ov = Weekly \<and>
       (\<exists>i. among_last w i (measured h) \<and> 0 < new_bills (measured h ! i))) \<and>
    (v_action v = Escalate \<longrightarrow> v_effective v = NIGHTLY)"
  using assms
  by (auto simp: cadence_review_def Let_def should_escalate_iff resolve_cadence_cases cadence_of_def
      cadence_of_override_def less_eq_cadence_def split: option.splits)

definition sample_run :: "int option \<Rightarrow> run_record" where
  "sample_run n = \<lparr>success = True, failure_reason = None, bills_new = n\<rparr>"

lemma cadence_review_escalation_witness:
  "let v = cadence_review ''fl'' WEEKLY None
       [sample_run (Some 0), sample_run None, sample_run (Some 3), sample_run (Some 0)] (int 2) 4 [''mi''] in
   v_action v = Escalate \<and> v_effective v = NIGHTLY"
proof -
  let ?h = "[sample_run (Some 0), sample_run None, sample_run (Some 3), sample_run (Some 0)]"
  have m: "measured ?h = [sample_run (Some 0), sample_run (Some 3), sample_run (Some 0)]"
    by (simp add: measured_def sample_run_def)
  have "\<exists>i. among_last 2 i (measured ?h) \<and> 0 < new_bills (measured ?h ! i)"
    unfolding m by (rule exI[of _ 1]) (simp add: among_last_def new_bills_def sample_run_def)
  moreover have "cadence_of WEEKLY = Weekly" "cadence_of_override None = Weekly"
    by (simp_all add: cadence_of_def cadence_of_override_def)
  ultimately show ?thesis
    using cadence_review_escalation[of 2 "''fl''" WEEKLY None ?h 4 "[''mi'']"]
    by (simp add: Let_def)
qed

text \<open>demotion is advised only for a jurisdiction that is nightly, healthy and quiet: at
  least \<open>q\<close> measured runs, each of the last \<open>q\<close> successful with no failure reason and no
  new bill, and an earlier run that did import new bills. A jurisdiction whose runs fail, or
  that never filed, is never advised down.\<close>

lemma cadence_review_demotion_advice:
  assumes "0 < q"
  shows "v_demotion_advice (cadence_review j floor ov h w (int q) excl) \<longleftrightarrow>
    v_effective (cadence_review j floor ov h w (int q) excl) = NIGHTLY \<and>
    q \<le> length (measured h) \<and>
    (\<forall>i. among_last q i (measured h) \<longrightarrow>
       new_bills (measured h ! i) \<le> 0 \<and> success (measured h ! i) \<and>
       \<not> has_failure_reason (measured h ! i)) \<and>
    (\<exists>i. i + q < length (measured h) \<and> 0 < new_bills (measured h ! i))"
  by (simp add: cadence_review_def Let_def demotion_looks_reasonable_iff[OF assms])

lemma cadence_review_demotion_advice_witness:
  "v_demotion_advice (cadence_review ''fl'' NIGHTLY None
     [sample_run (Some 5), sample_run (Some 0), sample_run None, sample_run (Some 0)] 2 (int 2) [])"
proof -
  let ?h = "[sample_run (Some 5), sample_run (Some 0), sample_run None, sample_run (Some 0)]"
  have m: "measured ?h = [sample_run (Some 5), sample_run (Some 0), sample_run (Some 0)]"
    by (simp add: measured_def sample_run_def)
  have "v_effective (cadence_review ''fl'' NIGHTLY None ?h 2 (int 2) []) = NIGHTLY"
    by (simp add: cadence_review_def Let_def resolve_cadence_cases)
  moreover have "\<forall>i. among_last 2 i (measured ?h) \<longrightarrow>
       new_bills (measured ?h ! i) \<le> 0 \<and> success (measured ?h ! i) \<and>
       \<not> has_failure_reason (measured ?h ! i)"
    unfolding m
    by (auto simp: among_last_def sample_run_def new_bills_def has_failure_reason_def nth_Cons
        split: nat.splits)
  moreover have "\<exists>i. i + 2 < length (measured ?h) \<and> 0 < new_bills (measured ?h ! i)"
    unfolding m by (rule exI[of _ 0]) (simp add: sample_run_def new_bills_def)
  ultimately show ?thesis
    using cadence_review_demotion_advice[of 2 "''fl''" NIGHTLY None ?h 2 "[]"]
    by (simp add: m)
qed

end
