(* ===== verification/CalendarData.thy ===== *)
theory CalendarData
  imports Prelude
begin

text \<open>
  The table \<open>legislative_data\<close> of \<open>services/legislative_calendar.py\<close>, entry by entry: for
  each state the start pattern and the duration in weeks of its session in odd and in even
  years, and the two flags. The source writes one literal; it is cut into five lists here.
\<close>

record session_rule =
  start_pattern :: "string option"
  duration_weeks :: int
  session_notes :: string

record state_info =
  odd_year :: session_rule
  even_year :: session_rule
  full_time :: bool
  biennial_odd_only :: bool

abbreviation rule :: "string option \<Rightarrow> int \<Rightarrow> string \<Rightarrow> session_rule" where
  "rule p w n \<equiv> \<lparr>start_pattern = p, duration_weeks = w, session_notes = n\<rparr>"

definition states_1 :: "(string \<times> state_info) list" where
  "states_1 = [
     (''AL'', \<lparr>odd_year = (rule (Some ''first_monday_february'') 15 ''''),
        even_year = (rule (Some ''second_monday_january'') 11 ''''),
        full_time = False, biennial_odd_only = False\<rparr>),
     (''AK'', \<lparr>odd_year = (rule (Some ''third_monday_january'') 17 ''''),
        even_year = (rule (Some ''third_monday_january'') 17 ''''),
        full_time = False, biennial_odd_only = False\<rparr>),
     (''AZ'', \<lparr>odd_year = (rule (Some ''second_monday_january'') 24 ''''),
        even_year = (rule (Some ''second_monday_january'') 15 ''''),
        full_time = False, biennial_odd_only = False\<rparr>),
     (''AR'', \<lparr>odd_year = (rule (Some ''second_monday_january'') 16 ''''),
        even_year = (rule (Some ''second_monday_april'') 4 ''''),
        full_time = False, biennial_odd_only = False\<rparr>),
     (''CA'', \<lparr>odd_year = (rule (Some ''first_monday_december_prev'') 40 ''Full-time legislature''),
        even_year = (rule (Some ''first_monday_january'') 35 ''Full-time legislature''),
        full_time = True, biennial_odd_only = False\<rparr>),
     (''CO'', \<lparr>odd_year = (rule (Some ''second_monday_january'') 17 ''''),
        even_year = (rule (Some ''second_monday_january'') 18 ''''),
        full_time = False, biennial_odd_only = False\<rparr>),
     (''CT'', \<lparr>odd_year = (rule (Some ''second_monday_january'') 21 ''''),
        even_year = (rule (Some ''first_monday_february'') 13 ''''),
        full_time = False, biennial_odd_only = False\<rparr>),
     (''DE'', \<lparr>odd_year = (rule (Some ''second_monday_january'') 24 ''''),
        even_year = (rule (Some ''second_monday_january'') 24 ''''),
        full_time = False, biennial_odd_only = False\<rparr>),
     (''FL'', \<lparr>odd_year = (rule (Some ''first_monday_march'') 15 ''''),
        even_year = (rule (Some ''second_monday_january'') 9 ''''),
        full_time = False, biennial_odd_only = False\<rparr>),
     (''GA'', \<lparr>odd_year = (rule (Some ''second_monday_january'') 12 ''''),
        even_year = (rule (Some ''second_monday_january'') 13 ''''),
        full_time = False, biennial_odd_only = False\<rparr>)]"

definition states_2 :: "(string \<times> state_info) list" where
  "states_2 = [
     (''HI'', \<lparr>odd_year = (rule (Some ''third_monday_january'') 15 ''''),
        even_year = (rule (Some ''third_monday_january'') 16 ''''),
        full_time = False, biennial_odd_only = False\<rparr>),
     (''ID'', \<lparr>odd_year = (rule (Some ''second_monday_january'') 13 ''''),
        even_year = (rule (Some ''second_monday_january'') 13 ''''),
        full_time = False, biennial_odd_only = False\<rparr>),
     (''IL'', \<lparr>odd_year = (rule (Some ''second_monday_january'') 52 ''Full-time legislature''),
        even_year = (rule (Some ''second_monday_january'') 52 ''Full-time legislature''),
        full_time = True, biennial_odd_only = False\<rparr>),
     (''IN'', \<lparr>odd_year = (rule (Some ''second_monday_january'') 15 ''''),
        even_year = (rule (Some ''first_monday_december_prev'') 15 ''Starts in December''),
        full_time = False, biennial_odd_only = False\<rparr>),
     (''IA'', \<lparr>odd_year = (rule (Some ''second_monday_january'') 17 ''''),
        even_year = (rule (Some ''second_monday_january'') 15 ''''),
        full_time = False, biennial_odd_only = False\<rparr>),
     (''KS'', \<lparr>odd_year = (rule (Some ''second_monday_january'') 13 ''''),
        even_year = (rule (Some ''second_monday_january'') 13 ''''),
        full_time = False, biennial_odd_only = False\<rparr>),
     (''KY'', \<lparr>odd_year = (rule (Some ''first_monday_january'') 12 ''''),
        even_year = (rule (Some ''first_monday_january'') 15 ''''),
        full_time = False, biennial_odd_only = False\<rparr>),
     (''LA'', \<lparr>odd_year = (rule (Some ''second_monday_april'') 9 ''''),
        even_year = (rule (Some ''second_monday_march'') 12 ''''),
        full_time = False, biennial_odd_only = False\<rparr>),
     (''ME'', \<lparr>odd_year = (rule (Some ''first_monday_december_prev'') 15 ''Starts in December''),
        even_year = (rule (Some ''first_monday_january'') 15 ''''),
        full_time = False, biennial_odd_only = False\<rparr>),
     (''MD'', \<lparr>odd_year = (rule (Some ''second_monday_january'') 13 ''''),
        even_year = (rule (Some ''second_monday_january'') 14 ''''),
        full_time = False, biennial_odd_only = False\<rparr>)]"

definition states_3 :: "(string \<times> state_info) list" where
  "states_3 = [
     (''MA'', \<lparr>odd_year = (rule (Some ''first_monday_january'') 52 ''Full-time legislature''),
        even_year = (rule (Some ''first_monday_january'') 52 ''Full-time legislature''),
        full_time = True, biennial_odd_only = False\<rparr>),
     (''MI'', \<lparr>odd_year = (rule (Some ''second_monday_january'') 52 ''Full-time legislature''),
        even_year = (rule (Some ''second_monday_january'') 52 ''Full-time legislature''),
        full_time = True, biennial_odd_only = False\<rparr>),
     (''MN'', \<lparr>odd_year = (rule (Some ''second_monday_january'') 18 ''''),
        even_year = (rule (Some ''third_monday_february'') 13 ''''),
        full_time = False, biennial_odd_only = False\<rparr>),
     (''MS'', \<lparr>odd_year = (rule (Some ''first_monday_january'') 13 ''''),
        even_year = (rule (Some ''first_monday_january'') 13 ''''),
        full_time = False, biennial_odd_only = False\<rparr>),
     (''MO'', \<lparr>odd_year = (rule (Some ''second_monday_january'') 18 ''''),
        even_year = (rule (Some ''first_monday_january'') 19 ''''),
        full_time = False, biennial_odd_only = False\<rparr>),
     (''MT'', \<lparr>odd_year = (rule (Some ''first_monday_january'') 17 ''Meets only in odd years''),
        even_year = (rule None 0 ''No regular session in even years''),
        full_time = False, biennial_odd_only = True\<rparr>),
     (''NE'', \<lparr>odd_year = (rule (Some ''second_monday_january'') 21 ''''),
        even_year = (rule (Some ''first_monday_january'') 15 ''''),
        full_time = False, biennial_odd_only = False\<rparr>),
     (''NV'', \<lparr>odd_year = (rule (Some ''first_monday_february'') 17 ''Meets only in odd years''),
        even_year = (rule None 0 ''No regular session in even years''),
        full_time = False, biennial_odd_only = True\<rparr>),
     (''NH'', \<lparr>odd_year = (rule (Some ''second_monday_january'') 24 ''''),
        even_year = (rule (Some ''first_monday_january'') 26 ''''),
        full_time = False, biennial_odd_only = False\<rparr>),
     (''NJ'', \<lparr>odd_year = (rule (Some ''second_monday_january'') 52 ''Full-time legislature''),
        even_year = (rule (Some ''second_monday_january'') 52 ''Full-time legislature''),
        full_time = True, biennial_odd_only = False\<rparr>)]"

definition states_4 :: "(string \<times> state_info) list" where
  "states_4 = [
     (''NM'', \<lparr>odd_year = (rule (Some ''third_monday_january'') 9 ''''),
        even_year = (rule (Some ''third_monday_january'') 4 ''''),
        full_time = False, biennial_odd_only = False\<rparr>),
     (''NY'', \<lparr>odd_year = (rule (Some ''second_monday_january'') 23 ''Full-time legislature''),
        even_year = (rule (Some ''first_monday_january'') 52 ''Full-time legislature''),
        full_time = True, biennial_odd_only = False\<rparr>),
     (''NC'', \<lparr>odd_year = (rule (Some ''second_monday_january'') 52 ''''),
        even_year = (rule (Some ''third_monday_april'') 15 ''''),
        full_time = False, biennial_odd_only = False\<rparr>),
     (''ND'', \<lparr>odd_year = (rule (Some ''first_monday_january'') 17 ''Meets only in odd years''),
        even_year = (rule None 0 ''No regular session in even years''),
        full_time = False, biennial_odd_only = True\<rparr>),
     (''OH'', \<lparr>odd_year = (rule (Some ''first_monday_january'') 52 ''Full-time legislature''),
        even_year = (rule (Some ''first_monday_january'') 52 ''Full-time legislature''),
        full_time = True, biennial_odd_only = False\<rparr>),
     (''OK'', \<lparr>odd_year = (rule (Some ''first_monday_february'') 17 ''''),
        even_year = (rule (Some ''first_monday_february'') 17 ''''),
        full_time = False, biennial_odd_only = False\<rparr>),
     (''OR'', \<lparr>odd_year = (rule (Some ''third_monday_january'') 22 ''''),
        even_year = (rule (Some ''first_monday_february'') 5 ''''),
        full_time = False, biennial_odd_only = False\<rparr>),
     (''PA'', \<lparr>odd_year = (rule (Some ''first_monday_january'') 52 ''Full-time legislature''),
        even_year = (rule (Some ''first_monday_january'') 48 ''Full-time legislature''),
        full_time = True, biennial_odd_only = False\<rparr>),
     (''RI'', \<lparr>odd_year = (rule (Some ''first_monday_january'') 24 ''''),
        even_year = (rule (Some ''first_monday_january'') 26 ''''),
        full_time = False, biennial_odd_only = False\<rparr>),
     (''SC'', \<lparr>odd_year = (rule (Some ''second_monday_january'') 19 ''''),
        even_year = (rule (Some ''second_monday_january'') 17 ''''),
        full_time = False, biennial_odd_only = False\<rparr>)]"

definition states_5 :: "(string \<times> state_info) list" where
  "states_5 = [
     (''SD'', \<lparr>odd_year = (rule (Some ''second_monday_january'') 11 ''''),
        even_year = (rule (Some ''second_monday_january'') 11 ''''),
        full_time = False, biennial_odd_only = False\<rparr>),
     (''TN'', \<lparr>odd_year = (rule (Some ''second_monday_january'') 14 ''''),
        even_year = (rule (Some ''second_monday_january'') 15 ''''),
        full_time = False, biennial_odd_only = False\<rparr>),
     (''TX'', \<lparr>odd_year = (rule (Some ''second_monday_january'') 20 ''Meets only in odd years''),
        even_year = (rule None 0 ''No regular session in even years''),
        full_time = False, biennial_odd_only = True\<rparr>),
     (''UT'', \<lparr>odd_year = (rule (Some ''third_monday_january'') 7 ''''),
        even_year = (rule (Some ''third_monday_january'') 7 ''''),
        full_time = False, biennial_odd_only = False\<rparr>),
     (''VT'', \<lparr>odd_year = (rule (Some ''second_monday_january'') 23 ''''),
        even_year = (rule (Some ''first_monday_january'') 18 ''''),
        full_time = False, biennial_odd_only = False\<rparr>),
     (''VA'', \<lparr>odd_year = (rule (Some ''second_monday_january'') 6 ''''),
        even_year = (rule (Some ''second_monday_january'') 9 ''''),
        full_time = False, biennial_odd_only = False\<rparr>),
     (''WA'', \<lparr>odd_year = (rule (Some ''second_monday_january'') 15 ''''),
        even_year = (rule (Some ''second_monday_january'') 9 ''''),
        full_time = False, biennial_odd_only = False\<rparr>),
     (''WV'', \<lparr>odd_year = (rule (Some ''second_monday_february'') 9 ''''),
        even_year = (rule (Some ''second_monday_january'') 9 ''''),
        full_time = False, biennial_odd_only = False\<rparr>),
     (''WI'', \<lparr>odd_year = (rule (Some ''first_monday_january'') 52 ''Full-time legislature''),
        even_year = (rule (Some ''second_monday_january'') 52 ''Full-time legislature''),
        full_time = True, biennial_odd_only = False\<rparr>),
     (''WY'', \<lparr>odd_year = (rule (Some ''second_monday_january'') 8 ''''),
        even_year = (rule (Some ''second_monday_february'') 4 ''''),
        full_time = False, biennial_odd_only = False\<rparr>)]"

definition legislative_data :: "(string \<times> state_info) list" where
  "legislative_data = states_1 @ states_2 @ states_3 @ states_4 @ states_5"

end
