(* ===== verification/PyDate.thy ===== *)
theory PyDate
  imports Prelude
begin

text \<open>
  The part of Python's \<open>datetime\<close> the code uses: a \<open>date\<close> is its proleptic Gregorian
  ordinal (1 January of year 1 is 1), ordered by it. \<open>mk_date\<close> is the constructor with its
  range checks, \<open>add_days\<close> adds a \<open>timedelta\<close> and overflows outside years 1 to 9999,
  \<open>weekday\<close> counts from Monday, \<open>year_of\<close> and \<open>month_of\<close> invert the constructor,
  and \<open>strptime_ymd\<close> parses \<open>%Y-%m-%d\<close> with the digits the library's pattern accepts.
\<close>

section \<open>Dates as ordinals\<close>

datatype date = Date (ordinal: int)

instantiation date :: linorder
begin

definition less_eq_date :: "date \<Rightarrow> date \<Rightarrow> bool" where
  "less_eq_date a b = (ordinal a \<le> ordinal b)"

definition less_date :: "date \<Rightarrow> date \<Rightarrow> bool" where
  "less_date a b = (ordinal a < ordinal b)"

instance
  by standard (auto simp: less_eq_date_def less_date_def date.expand)

end

definition max_ordinal :: int where
  "max_ordinal = 3652059"

definition is_leap :: "int \<Rightarrow> bool" where
  "is_leap y = (y mod 4 = 0 \<and> (y mod 100 \<noteq> 0 \<or> y mod 400 = 0))"

definition days_before_year :: "int \<Rightarrow> int" where
  "days_before_year y =
     (y - 1) * 365 + (y - 1) div 4 - (y - 1) div 100 + (y - 1) div 400"

definition leap_day :: "int \<Rightarrow> int" where
  "leap_day y = (if is_leap y then 1 else 0)"

definition days_in_month :: "int \<Rightarrow> int \<Rightarrow> int" where
  "days_in_month y m =
     (if m = 2 then 28 + leap_day y else if m \<in> {4, 6, 9, 11} then 30 else 31)"

definition days_before_month :: "int \<Rightarrow> int \<Rightarrow> int" where
  "days_before_month y m =
     (if m \<le> 1 then 0 else if m = 2 then 31 else
        leap_day y +
        (if m = 3 then 59 else if m = 4 then 90 else if m = 5 then 120 else if m = 6 then 151
         else if m = 7 then 181 else if m = 8 then 212 else if m = 9 then 243
         else if m = 10 then 273 else if m = 11 then 304 else 334))"

definition ymd_ordinal :: "int \<Rightarrow> int \<Rightarrow> int \<Rightarrow> int" where
  "ymd_ordinal y m d = days_before_year y + days_before_month y m + d"

text \<open>\<open>date(y, m, d)\<close>.\<close>

definition mk_date :: "int \<Rightarrow> int \<Rightarrow> int \<Rightarrow> date res" where
  "mk_date y m d =
     (if 1 \<le> y \<and> y \<le> 9999 \<and> 1 \<le> m \<and> m \<le> 12 \<and> 1 \<le> d \<and> d \<le> days_in_month y m
      then Inr (Date (ymd_ordinal y m d))
      else Inl (ValueError ''day is out of range for month''))"

text \<open>\<open>d + timedelta(days=k)\<close>.\<close>

definition add_days :: "date \<Rightarrow> int \<Rightarrow> date res" where
  "add_days d k =
     (if 1 \<le> ordinal d + k \<and> ordinal d + k \<le> max_ordinal
      then Inr (Date (ordinal d + k)) else Inl OverflowError)"

definition diff_days :: "date \<Rightarrow> date \<Rightarrow> int" where
  "diff_days a b = ordinal a - ordinal b"

definition weekday :: "date \<Rightarrow> int" where
  "weekday d = (ordinal d + 6) mod 7"

text \<open>The library's inversion: cycles of 400, 100, 4 and 1 years, then the month.\<close>

definition year_of :: "date \<Rightarrow> int" where
  "year_of d =
     (let n = ordinal d - 1;
          n400 = n div 146097; n = n mod 146097;
          n100 = n div 36524; n = n mod 36524;
          n4 = n div 1461; n = n mod 1461;
          n1 = n div 365;
          year = n400 * 400 + n100 * 100 + n4 * 4 + n1 + 1
      in if n1 = 4 \<or> n100 = 4 then year - 1 else year)"

definition month_index :: "int \<Rightarrow> int \<Rightarrow> int" where
  "month_index y k =
     1 + int (length (filter (\<lambda>m. days_before_month y m < k) [2, 3, 4, 5, 6, 7, 8, 9, 10, 11, 12]))"

definition month_of :: "date \<Rightarrow> int" where
  "month_of d = month_index (year_of d) (ordinal d - days_before_year (year_of d))"

section \<open>The constructor and its inverse\<close>

lemma leap_day_bounds: "0 \<le> leap_day y \<and> leap_day y \<le> 1"
  by (simp add: leap_day_def)

lemma div_mod_unique:
  fixes b q r :: int
  assumes "0 \<le> r" "r < b"
  shows "(b * q + r) div b = q" "(b * q + r) mod b = r"
  using assms by (simp_all add: div_pos_pos_trivial)

lemma year_cycles:
  fixes q :: int
  obtains a b c d where
    "q = 400 * a + 100 * b + 4 * c + d" "0 \<le> b" "b < 4" "0 \<le> c" "c < 25" "0 \<le> d" "d < 4"
proof -
  define a r where "a = q div 400" and "r = q mod 400"
  define b s where "b = r div 100" and "s = r mod 100"
  define c d where "c = s div 4" and "d = s mod 4"
  have "q = 400 * a + r" "r = 100 * b + s" "s = 4 * c + d"
    by (simp_all add: a_def r_def b_def s_def c_def d_def)
  moreover have "0 \<le> r" "r < 400" "0 \<le> s" "s < 100" "0 \<le> d" "d < 4"
    by (simp_all add: r_def s_def d_def)
  ultimately show thesis
    by (intro that[of a b c d]) linarith+
qed

lemma days_before_year_cycles:
  assumes "y - 1 = 400 * a + 100 * b + 4 * c + d" "0 \<le> b" "b < 4" "0 \<le> c" "c < 25" "0 \<le> d" "d < 4"
  shows "days_before_year y = 146097 * a + 36524 * b + 1461 * c + 365 * d"
proof -
  have "y - 1 = 4 * (100 * a + 25 * b + c) + d"
    "y - 1 = 100 * (4 * a + b) + (4 * c + d)"
    "y - 1 = 400 * a + (100 * b + 4 * c + d)"
    using assms by simp_all
  then have "(y - 1) div 4 = 100 * a + 25 * b + c" "(y - 1) div 100 = 4 * a + b" "(y - 1) div 400 = a"
    using div_mod_unique(1)[of d 4 "100 * a + 25 * b + c"]
      div_mod_unique(1)[of "4 * c + d" 100 "4 * a + b"]
      div_mod_unique(1)[of "100 * b + 4 * c + d" 400 a] assms
    by simp_all
  then show ?thesis
    unfolding days_before_year_def using assms(1) by simp
qed

lemma mod_eq_0_upto: "0 < t \<Longrightarrow> t \<le> n \<Longrightarrow> t mod n = 0 \<longleftrightarrow> t = n" for t n :: int
  by (cases "t = n") (simp_all add: mod_pos_pos_trivial)

lemma is_leap_cycles:
  assumes "y - 1 = 400 * a + 100 * b + 4 * c + d" "0 \<le> b" "b < 4" "0 \<le> c" "c < 25" "0 \<le> d" "d < 4"
  shows "is_leap y \<longleftrightarrow> d = 3 \<and> (c \<noteq> 24 \<or> b = 3)"
proof -
  have y: "y = 4 * (100 * a + 25 * b + c) + (d + 1)"
    "y = 100 * (4 * a + b) + (4 * c + d + 1)"
    "y = 400 * a + (100 * b + 4 * c + d + 1)"
    using assms(1) by simp_all
  have m4: "y mod 4 = 0 \<longleftrightarrow> d + 1 = 4"
    unfolding y(1) mod_mult_self4 using assms(6,7) by (intro mod_eq_0_upto) linarith+
  have m100: "y mod 100 = 0 \<longleftrightarrow> 4 * c + d + 1 = 100"
    unfolding y(2) mod_mult_self4 using assms(4-7) by (intro mod_eq_0_upto) linarith+
  have m400: "y mod 400 = 0 \<longleftrightarrow> 100 * b + 4 * c + d + 1 = 400"
    unfolding y(3) mod_mult_self4 using assms(2-7) by (intro mod_eq_0_upto) linarith+
  have "d + 1 = 4 \<and> (4 * c + d + 1 \<noteq> 100 \<or> 100 * b + 4 * c + d + 1 = 400) \<longleftrightarrow>
    d = 3 \<and> (c \<noteq> 24 \<or> b = 3)"
    using assms(2-7) by (cases "d = 3"; cases "c = 24"; cases "b = 3"; simp)
  then show ?thesis
    unfolding is_leap_def m4 m100 m400 .
qed

lemma year_of_days_before_year:
  assumes "1 \<le> k" "k \<le> 365 + leap_day y"
  shows "year_of (Date (days_before_year y + k)) = y"
proof -
  obtain a b c d where yc: "y - 1 = 400 * a + 100 * b + 4 * c + d"
      "0 \<le> b" "b < 4" "0 \<le> c" "c < 25" "0 \<le> d" "d < 4"
    by (rule year_cycles)
  define r where "r = k - 1"
  have r: "0 \<le> r" "r \<le> 364 + leap_day y" using assms by (simp_all add: r_def)
  have leap: "r = 365 \<Longrightarrow> d = 3 \<and> (c \<noteq> 24 \<or> b = 3)" "r \<le> 365"
    using r is_leap_cycles[OF yc] by (auto simp: leap_day_def split: if_splits)
  let ?m = "36524 * b + (1461 * c + 365 * d + r)"
  have n: "ordinal (Date (days_before_year y + k)) - 1 = 146097 * a + ?m"
    by (simp add: days_before_year_cycles[OF yc] r_def)
  have m: "0 \<le> ?m" "?m < 146097" using yc leap(2) r(1) by linarith+
  note n400 = div_mod_unique[OF m, of a]
  show ?thesis
  proof (cases "c = 24 \<and> d = 3 \<and> r = 365")
    case True
    then have "b = 3" using leap by simp
    with True have "?m = 36524 * 4 + 0" by simp
    then have "?m div 36524 = 4" "?m mod 36524 = 0" by simp_all
    with True \<open>b = 3\<close> yc(1) show ?thesis
      unfolding year_of_def n Let_def n400 by simp
  next
    case False
    let ?l = "1461 * c + (365 * d + r)"
    have l: "0 \<le> 1461 * c + 365 * d + r" "1461 * c + 365 * d + r < 36524"
      using yc leap r False by (auto; linarith)+
    note n100 = div_mod_unique[OF l, of b]
    have j: "0 \<le> 365 * d + r" "365 * d + r < 1461" using yc leap r by linarith+
    note n4 = div_mod_unique[OF j, of c, folded add.assoc]
    show ?thesis
    proof (cases "r = 365")
      case True
      then have "d = 3" using leap by simp
      with True have "(365 * d + r) div 365 = 4" by simp
      with True \<open>d = 3\<close> yc show ?thesis
        unfolding year_of_def n Let_def n400 n100 n4 by simp
    next
      case False
      then have "(365 * d + r) div 365 = d" using div_mod_unique[of r 365 d] leap r by simp
      with yc show ?thesis
        unfolding year_of_def n Let_def n400 n100 n4 by simp
    qed
  qed
qed

lemma div_carry:
  fixes b q r :: int
  assumes "0 \<le> r" "r < b"
  shows "(b * q + (r + 1)) div b = q + (if r + 1 = b then 1 else 0)"
proof (cases "r + 1 = b")
  case True
  then have "b * q + (r + 1) = b * (q + 1) + 0" by (simp add: algebra_simps)
  then show ?thesis using True assms div_mod_unique(1)[of 0 b "q + 1"] by simp
next
  case False
  then show ?thesis using assms div_mod_unique(1)[of "r + 1" b q] by simp
qed

lemma days_before_year_Suc: "days_before_year (y + 1) = days_before_year y + 365 + leap_day y"
proof -
  obtain a b c d where yc: "y - 1 = 400 * a + 100 * b + 4 * c + d"
      "0 \<le> b" "b < 4" "0 \<le> c" "c < 25" "0 \<le> d" "d < 4"
    by (rule year_cycles)
  have y: "y = 4 * (100 * a + 25 * b + c) + (d + 1)"
    "y = 100 * (4 * a + b) + ((4 * c + d) + 1)"
    "y = 400 * a + ((100 * b + 4 * c + d) + 1)"
    using yc(1) by simp_all
  have q4: "y div 4 = 100 * a + 25 * b + c + (if d + 1 = 4 then 1 else 0)"
    by (subst y(1), rule div_carry) (use yc in linarith)+
  have q100: "y div 100 = 4 * a + b + (if 4 * c + d + 1 = 100 then 1 else 0)"
    by (subst y(2), rule div_carry) (use yc in linarith)+
  have q400: "y div 400 = a + (if 100 * b + 4 * c + d + 1 = 400 then 1 else 0)"
    by (subst y(3), rule div_carry) (use yc in linarith)+
  have "days_before_year (y + 1) = y * 365 + y div 4 - y div 100 + y div 400"
    by (simp add: days_before_year_def)
  also have "\<dots> = days_before_year y + 365 + leap_day y"
    unfolding q4 q100 q400 days_before_year_cycles[OF yc] leap_day_def is_leap_cycles[OF yc]
    using yc by (cases "d = 3"; cases "c = 24"; cases "b = 3"; simp)
  finally show ?thesis .
qed

lemma month_cases:
  assumes "1 \<le> m" "m \<le> (12 :: int)"
  obtains "m = 1" | "m = 2" | "m = 3" | "m = 4" | "m = 5" | "m = 6"
    | "m = 7" | "m = 8" | "m = 9" | "m = 10" | "m = 11" | "m = 12"
proof -
  from assms have "m = 1 \<or> m = 2 \<or> m = 3 \<or> m = 4 \<or> m = 5 \<or> m = 6
    \<or> m = 7 \<or> m = 8 \<or> m = 9 \<or> m = 10 \<or> m = 11 \<or> m = 12" by presburger
  then show thesis using that by blast
qed

lemma leap_day_cases: "leap_day y = 0 \<or> leap_day y = 1"
  by (simp add: leap_day_def)

text \<open>A valid day of month \<open>m\<close> lies inside year \<open>y\<close>, and \<open>month_of\<close> counts back to \<open>m\<close>.\<close>

lemma day_of_year_bounds:
  assumes "1 \<le> m" "m \<le> 12" "1 \<le> d" "d \<le> days_in_month y m"
  shows "1 \<le> days_before_month y m + d \<and> days_before_month y m + d \<le> 365 + leap_day y"
  using assms(1,2)
proof (cases rule: month_cases)
qed (use assms(3,4) leap_day_bounds[of y] in
  \<open>simp_all add: days_before_month_def days_in_month_def\<close>)

lemma year_of_ymd:
  assumes "1 \<le> m" "m \<le> 12" "1 \<le> d" "d \<le> days_in_month y m"
  shows "year_of (Date (ymd_ordinal y m d)) = y"
  using year_of_days_before_year[of "days_before_month y m + d" y] day_of_year_bounds[OF assms]
  by (simp add: ymd_ordinal_def add.assoc)

lemma month_index_ymd:
  assumes "1 \<le> m" "m \<le> 12" "1 \<le> d" "d \<le> days_in_month y m"
  shows "month_index y (days_before_month y m + d) = m"
  using assms(1,2)
proof (cases rule: month_cases)
qed (use assms(3,4) leap_day_cases[of y] in
  \<open>auto simp: month_index_def days_before_month_def days_in_month_def\<close>)

lemma month_of_ymd:
  assumes "1 \<le> m" "m \<le> 12" "1 \<le> d" "d \<le> days_in_month y m"
  shows "month_of (Date (ymd_ordinal y m d)) = m"
proof -
  have "ymd_ordinal y m d - days_before_year y = days_before_month y m + d"
    by (simp add: ymd_ordinal_def)
  then show ?thesis
    using month_index_ymd[OF assms] by (simp add: month_of_def year_of_ymd[OF assms])
qed

lemma mk_date_InrD:
  assumes "mk_date y m d = Inr D"
  shows "1 \<le> y" "y \<le> 9999" "1 \<le> m" "m \<le> 12" "1 \<le> d" "d \<le> days_in_month y m"
    "D = Date (ymd_ordinal y m d)" "year_of D = y" "month_of D = m"
  using assms by (auto simp: mk_date_def year_of_ymd month_of_ymd split: if_splits)

lemma days_before_year_mono: "x \<le> y \<Longrightarrow> days_before_year x \<le> days_before_year y"
proof (induction y rule: int_ge_induct)
  case base
  show ?case by simp
next
  case (step y)
  then show ?case using days_before_year_Suc[of y] leap_day_bounds[of y] by linarith
qed

section \<open>Arithmetic and comparison\<close>

lemma weekday_range: "0 \<le> weekday d" "weekday d < 7"
  by (simp_all add: weekday_def)

lemma add_days_Inr: "add_days d k = Inr d' \<Longrightarrow> ordinal d' = ordinal d + k"
  by (auto simp: add_days_def split: if_splits)

lemma add_days_ok:
  "1 \<le> ordinal d + k \<Longrightarrow> ordinal d + k \<le> max_ordinal \<Longrightarrow> add_days d k = Inr (Date (ordinal d + k))"
  by (simp add: add_days_def)

lemma ymd_ordinal_range:
  assumes "1 \<le> y" "y \<le> 9999" "1 \<le> m" "m \<le> 12" "1 \<le> d" "d \<le> days_in_month y m"
  shows "1 \<le> ymd_ordinal y m d \<and> ymd_ordinal y m d \<le> max_ordinal"
proof -
  have "days_before_year (y + 1) \<le> days_before_year 10000" "days_before_year 1 \<le> days_before_year y"
    using assms(1,2) by (auto intro: days_before_year_mono)
  moreover have "days_before_year 10000 = max_ordinal" "days_before_year 1 = 0"
    by (simp_all add: days_before_year_def max_ordinal_def)
  ultimately show ?thesis
    using day_of_year_bounds[OF assms(3-6)] days_before_year_Suc[of y]
    by (simp add: ymd_ordinal_def)
qed

lemma days_in_month_ge: "28 \<le> days_in_month y m"
  using leap_day_bounds[of y] by (simp add: days_in_month_def)

text \<open>Adding days that stay inside the month.\<close>

lemma add_days_in_month:
  assumes "1 \<le> y" "y \<le> 9999" "1 \<le> m" "m \<le> 12" "1 \<le> d + k" "d + k \<le> days_in_month y m"
  shows "add_days (Date (ymd_ordinal y m d)) k = Inr (Date (ymd_ordinal y m (d + k)))"
proof -
  have e: "ymd_ordinal y m d + k = ymd_ordinal y m (d + k)" by (simp add: ymd_ordinal_def)
  show ?thesis
    using ymd_ordinal_range[OF assms] by (simp add: add_days_def e)
qed

section \<open>Parsing\<close>

definition digit_val :: "char \<Rightarrow> int" where
  "digit_val c = int (ord_of c) - 48"

definition in_digits :: "int \<Rightarrow> int \<Rightarrow> char \<Rightarrow> bool" where
  "in_digits lo hi c = (is_digit c \<and> lo \<le> digit_val c \<and> digit_val c \<le> hi)"

text \<open>The fields \<open>1[0-2]|0[1-9]|[1-9]\<close> of \<open>%m\<close> and \<open>3[0-1]|[1-2][0-9]|0[1-9]|[1-9]| [1-9]\<close> of \<open>%d\<close>.\<close>

fun month_field :: "string \<Rightarrow> int option" where
  "month_field [c] = (if in_digits 1 9 c then Some (digit_val c) else None)"
| "month_field [c, d] =
     (if c = CHR ''1'' \<and> in_digits 0 2 d then Some (10 + digit_val d)
      else if c = CHR ''0'' \<and> in_digits 1 9 d then Some (digit_val d) else None)"
| "month_field _ = None"

fun day_field :: "string \<Rightarrow> int option" where
  "day_field [c] = (if in_digits 1 9 c then Some (digit_val c) else None)"
| "day_field [c, d] =
     (if c = CHR ''3'' \<and> in_digits 0 1 d then Some (30 + digit_val d)
      else if in_digits 1 2 c \<and> is_digit d then Some (10 * digit_val c + digit_val d)
      else if (c = CHR ''0'' \<or> c = CHR '' '') \<and> in_digits 1 9 d then Some (digit_val d)
      else None)"
| "day_field _ = None"

text \<open>\<open>datetime.strptime(s, "%Y-%m-%d").date()\<close>; \<open>None\<close> is \<open>ValueError\<close>.\<close>

fun strptime_ymd :: "string \<Rightarrow> date option" where
  "strptime_ymd (y1 # y2 # y3 # y4 # dash # rest) =
     (let mpart = takeWhile (\<lambda>c. c \<noteq> CHR ''-'') rest;
          dpart = drop (Suc (length mpart)) rest in
      if is_digit y1 \<and> is_digit y2 \<and> is_digit y3 \<and> is_digit y4 \<and> dash = CHR ''-''
         \<and> length mpart < length rest
      then
        (case (month_field mpart, day_field dpart) of
           (Some m, Some d) \<Rightarrow>
             (case mk_date (1000 * digit_val y1 + 100 * digit_val y2 + 10 * digit_val y3 + digit_val y4) m d of
                Inr D \<Rightarrow> Some D | Inl _ \<Rightarrow> None)
         | _ \<Rightarrow> None)
      else None)"
| "strptime_ymd _ = None"

lemma strptime_ymd_valid:
  "strptime_ymd s = Some D \<Longrightarrow> \<exists>y m d. mk_date y m d = Inr D"
  by (induction s rule: strptime_ymd.induct)
    (auto simp: Let_def split: if_splits option.splits sum.splits)

lemma strptime_sample: "strptime_ymd ''2026-04-20'' = Some (Date (ymd_ordinal 2026 4 20))"
  by code_simp

section \<open>Order of dates and years\<close>

lemma in_some_year: "\<exists>y. days_before_year y < n \<and> n \<le> days_before_year (y + 1)"
proof (induction n rule: int_induct[where k = 1])
  case base
  have "days_before_year 1 = 0" "days_before_year 2 = 365" by (simp_all add: days_before_year_def)
  then show ?case by (intro exI[of _ 1]) simp
next
  case (step1 n)
  then obtain y where y: "days_before_year y < n" "n \<le> days_before_year (y + 1)" by blast
  have "days_before_year (y + 1) < days_before_year (y + 1 + 1)"
    using leap_day_bounds[of "y + 1"] days_before_year_Suc[of "y + 1"] by linarith
  with y show ?case
    by (cases "n + 1 \<le> days_before_year (y + 1)") (auto intro: exI[of _ y] exI[of _ "y + 1"])
next
  case (step2 n)
  then obtain y where y: "days_before_year y < n" "n \<le> days_before_year (y + 1)" by blast
  have "days_before_year (y - 1) < days_before_year (y - 1 + 1)"
    using leap_day_bounds[of "y - 1"] days_before_year_Suc[of "y - 1"] by linarith
  with y show ?case
    by (cases "days_before_year y < n - 1") (auto intro: exI[of _ y] exI[of _ "y - 1"])
qed

lemma year_of_bounds:
  "days_before_year (year_of d) < ordinal d \<and> ordinal d \<le> days_before_year (year_of d + 1)"
proof -
  obtain y where y: "days_before_year y < ordinal d" "ordinal d \<le> days_before_year (y + 1)"
    using in_some_year by blast
  have "year_of (Date (days_before_year y + (ordinal d - days_before_year y))) = y"
    using y by (intro year_of_days_before_year) (simp_all add: days_before_year_Suc)
  then have "year_of d = y" by simp
  with y show ?thesis by simp
qed

lemma year_of_mono: "a \<le> b \<Longrightarrow> year_of a \<le> year_of b"
proof (rule ccontr)
  assume ab: "a \<le> b" and "\<not> year_of a \<le> year_of b"
  then have "days_before_year (year_of b + 1) \<le> days_before_year (year_of a)"
    by (intro days_before_year_mono) simp
  with ab year_of_bounds[of a] year_of_bounds[of b] show False
    by (simp add: less_eq_date_def)
qed

lemma year_of_less: "year_of a < year_of b \<Longrightarrow> a < b"
  using year_of_mono[of b a] by fastforce

end
