(* ===== verification/LegislativeCalendar.thy ===== *)
theory LegislativeCalendar
  imports CalendarData PyDate
begin

text \<open>
  \<open>services/legislative_calendar.py\<close>: when is a state legislature in session? Live session
  data from OpenStates answers where it covers the date asked about, the table of
  \<open>CalendarData\<close> otherwise; \<open>is_in_session\<close> can widen a session by the weeks before it in
  which bills are already published. \<open>ValueError\<close> and \<open>OverflowError\<close> of the source are
  values of \<open>res\<close>; \<open>check_date\<close> is always given (the default is the clock).
\<close>

section \<open>State and data\<close>

record live_session =
  ls_start :: "string option"
  ls_end :: "string option"
  ls_classification :: string
  ls_identifier :: string
  ls_name :: string

text \<open>\<open>_live_sessions\<close>: upper-case state code to its sessions.\<close>

record calendar =
  live_sessions :: "string \<rightharpoonup> live_session list"

definition new_calendar :: calendar where
  "new_calendar = \<lparr>live_sessions = Map.empty\<rparr>"

record session_dates =
  sd_state_code :: string
  sd_year :: int
  sd_start :: "date option"
  sd_end :: "date option"
  sd_type :: string
  sd_notes :: string
  sd_full_time :: bool
  sd_biennial :: bool
  sd_weeks :: int
  sd_length_days :: int

definition DEFAULT_PREFILING_DAYS :: int where
  "DEFAULT_PREFILING_DAYS = 42"

definition PREFILING_DAYS_BY_STATE :: "(string \<times> int) list" where
  "PREFILING_DAYS_BY_STATE = []"

section \<open>Dates of a session from its pattern\<close>

definition get_nth_weekday :: "int \<Rightarrow> int \<Rightarrow> int \<Rightarrow> int \<Rightarrow> date res" where
  "get_nth_weekday year month wday n =
     bind_res (mk_date year month 1) (\<lambda>first_day.
       let days_ahead = wday - weekday first_day;
           days_ahead = (if days_ahead < 0 then days_ahead + 7 else days_ahead) in
       bind_res (add_days first_day days_ahead) (\<lambda>first_occurrence.
         bind_res (add_days first_occurrence (7 * (n - 1))) (\<lambda>nth_occurrence.
           if month_of nth_occurrence \<noteq> month
           then Inl (ValueError ''No such occurrence of weekday'')
           else Inr nth_occurrence)))"

definition parse_start_pattern :: "string option \<Rightarrow> int \<Rightarrow> date option res" where
  "parse_start_pattern pattern year =
     (case pattern of
        None \<Rightarrow> Inr None
      | Some p \<Rightarrow>
         (let monday = 0; nth = (\<lambda>y m n. bind_res (get_nth_weekday y m monday n) (\<lambda>d. Inr (Some d))) in
          if p = ''first_monday_january'' then nth year 1 1
          else if p = ''second_monday_january'' then nth year 1 2
          else if p = ''third_monday_january'' then nth year 1 3
          else if p = ''first_monday_february'' then nth year 2 1
          else if p = ''second_monday_february'' then nth year 2 2
          else if p = ''third_monday_february'' then nth year 2 3
          else if p = ''first_monday_march'' then nth year 3 1
          else if p = ''second_monday_march'' then nth year 3 2
          else if p = ''first_monday_april'' then nth year 4 1
          else if p = ''second_monday_april'' then nth year 4 2
          else if p = ''third_monday_april'' then nth year 4 3
          else if p = ''first_monday_december_prev'' then nth (year - 1) 12 1
          else Inl (ValueError ''Unknown start pattern'')))"

definition calculate_end_date :: "date option \<Rightarrow> int \<Rightarrow> date option res" where
  "calculate_end_date start_date weeks =
     (case start_date of
        None \<Rightarrow> Inr None
      | Some s \<Rightarrow>
          (if weeks = 0 then Inr None
           else bind_res (add_days s (7 * weeks)) (\<lambda>end_period.
             let to_friday = 4 - weekday end_period;
                 to_friday = (if to_friday < 0 then to_friday - 7 else to_friday) in
             bind_res (add_days end_period to_friday) (\<lambda>e. Inr (Some e)))))"

section \<open>Live data\<close>

text \<open>\<open>warm_cache\<close>: returns the calendar and the number of states loaded.\<close>

fun warm_cache :: "calendar \<Rightarrow> (string \<times> live_session list) list \<Rightarrow> calendar \<times> nat" where
  "warm_cache cal [] = (cal, 0)"
| "warm_cache cal ((code, sessions) # rest) =
     (if sessions \<noteq> [] then
        (let (cal', loaded) =
           warm_cache (cal\<lparr>live_sessions := (live_sessions cal)(upper code \<mapsto> sessions)\<rparr>) rest
         in (cal', Suc loaded))
      else warm_cache cal rest)"

definition parse_date_str :: "string option \<Rightarrow> date option" where
  "parse_date_str s =
     (case s of None \<Rightarrow> None | Some t \<Rightarrow> (if t = [] then None else strptime_ymd t))"

text \<open>\<open>re.findall\<close> of four digits: runs found from the left, without overlap.\<close>

fun find_years :: "string \<Rightarrow> int list" where
  "find_years (a # b # c # d # rest) =
     (if is_digit a \<and> is_digit b \<and> is_digit c \<and> is_digit d
      then (1000 * digit_val a + 100 * digit_val b + 10 * digit_val c + digit_val d) # find_years rest
      else find_years (b # c # d # rest))"
| "find_years _ = []"

definition covered_years :: "live_session list \<Rightarrow> int list" where
  "covered_years sessions =
     concat (map (\<lambda>s. map year_of
       (List.map_filter id [parse_date_str (ls_start s), parse_date_str (ls_end s)])) sessions)"

text \<open>
  Is one session active on the date? The start is moved back by the pre-filing days; a past end
  still counts when the identifier spans the year asked about.
\<close>

definition session_active :: "live_session \<Rightarrow> date \<Rightarrow> int \<Rightarrow> bool res" where
  "session_active s check prefiling =
     (case parse_date_str (ls_start s) of
        None \<Rightarrow> Inr False
      | Some st \<Rightarrow>
          bind_res (if prefiling \<noteq> 0 then add_days st (- prefiling) else Inr st) (\<lambda>eff.
            Inr (eff \<le> check \<and>
              ((case parse_date_str (ls_end s) of None \<Rightarrow> True | Some e \<Rightarrow> check \<le> e) \<or>
               (let ys = find_years (ls_identifier s) in
                length ys > 1 \<and> hd ys \<le> year_of check \<and> year_of check \<le> last ys)))))"

fun any_active :: "live_session list \<Rightarrow> date \<Rightarrow> int \<Rightarrow> bool res" where
  "any_active [] check prefiling = Inr False"
| "any_active (s # ss) check prefiling =
     bind_res (session_active s check prefiling) (\<lambda>b.
       if b then Inr True else any_active ss check prefiling)"

definition check_live_sessions :: "calendar \<Rightarrow> string \<Rightarrow> date \<Rightarrow> int \<Rightarrow> bool option res" where
  "check_live_sessions cal code check prefiling =
     (case live_sessions cal (upper code) of
        None \<Rightarrow> Inr None
      | Some sessions \<Rightarrow>
          (if sessions = [] then Inr None
           else bind_res (any_active sessions check prefiling) (\<lambda>active.
             if active then Inr (Some True)
             else
               (let needed = year_of check # (if prefiling \<noteq> 0 then [year_of check + 1] else []) in
                if set needed \<subseteq> set (covered_years sessions) then Inr (Some False)
                else Inr None))))"

section \<open>Session dates of a year\<close>

fun find_live :: "live_session list \<Rightarrow> int \<Rightarrow> (live_session \<times> date \<times> date) option" where
  "find_live [] year = None"
| "find_live (s # ss) year =
     (case (parse_date_str (ls_start s), parse_date_str (ls_end s)) of
        (Some st, Some en) \<Rightarrow>
          (if year_of st \<le> year \<and> year \<le> year_of en then Some (s, st, en) else find_live ss year)
      | _ \<Rightarrow> find_live ss year)"

definition heuristic_session_dates :: "string \<Rightarrow> state_info \<Rightarrow> int \<Rightarrow> session_dates res" where
  "heuristic_session_dates code info year =
     (let is_odd_year = (year mod 2 = 1);
          rule = (if is_odd_year then odd_year info else even_year info) in
      if biennial_odd_only info \<and> \<not> is_odd_year then
        Inr \<lparr>sd_state_code = code, sd_year = year, sd_start = None, sd_end = None,
             sd_type = ''no_session'', sd_notes = session_notes rule,
             sd_full_time = full_time info, sd_biennial = True, sd_weeks = 0, sd_length_days = 0\<rparr>
      else
        bind_res (parse_start_pattern (start_pattern rule) year) (\<lambda>start_date.
        bind_res (calculate_end_date start_date (duration_weeks rule)) (\<lambda>end_date.
          Inr \<lparr>sd_state_code = code, sd_year = year, sd_start = start_date, sd_end = end_date,
               sd_type = (if start_date \<noteq> None then ''regular'' else ''no_session''),
               sd_notes = session_notes rule, sd_full_time = full_time info,
               sd_biennial = biennial_odd_only info, sd_weeks = duration_weeks rule,
               sd_length_days = (case (start_date, end_date) of
                  (Some s, Some e) \<Rightarrow> diff_days e s + 1 | _ \<Rightarrow> 0)\<rparr>)))"

definition get_session_dates :: "calendar \<Rightarrow> string \<Rightarrow> int \<Rightarrow> session_dates res" where
  "get_session_dates cal state_code year =
     (let code = strip (upper state_code) in
      case map_of legislative_data code of
        None \<Rightarrow> Inl (ValueError ''Invalid state code'')
      | Some info \<Rightarrow>
          if year < 1900 \<or> 2100 < year then Inl (ValueError ''Invalid year'')
          else
            (case find_live (case live_sessions cal code of None \<Rightarrow> [] | Some ss \<Rightarrow> ss) year of
               Some (s, st, en) \<Rightarrow>
                 Inr \<lparr>sd_state_code = code, sd_year = year, sd_start = Some st, sd_end = Some en,
                      sd_type = ls_classification s, sd_notes = ls_name s,
                      sd_full_time = full_time info, sd_biennial = biennial_odd_only info,
                      sd_weeks = diff_days en st div 7, sd_length_days = diff_days en st + 1\<rparr>
             | None \<Rightarrow> heuristic_session_dates code info year))"

section \<open>Queries\<close>

definition get_all_states :: "string list" where
  "get_all_states = sort (map fst legislative_data)"

definition is_full_time_legislature :: "string \<Rightarrow> bool res" where
  "is_full_time_legislature state_code =
     (case map_of legislative_data (strip (upper state_code)) of
        None \<Rightarrow> Inl (ValueError ''Invalid state code'') | Some info \<Rightarrow> Inr (full_time info))"

definition is_biennial_state :: "string \<Rightarrow> bool res" where
  "is_biennial_state state_code =
     (case map_of legislative_data (strip (upper state_code)) of
        None \<Rightarrow> Inl (ValueError ''Invalid state code'') | Some info \<Rightarrow> Inr (biennial_odd_only info))"

definition prefiling_days :: "string \<Rightarrow> int" where
  "prefiling_days state_code =
     (case map_of PREFILING_DAYS_BY_STATE (strip (upper state_code)) of
        None \<Rightarrow> DEFAULT_PREFILING_DAYS | Some n \<Rightarrow> n)"

text \<open>\<open>except ValueError: return False\<close>; any other exception leaves the caller.\<close>

definition or_false_on_value_error :: "'a res \<Rightarrow> ('a \<Rightarrow> bool res) \<Rightarrow> bool res" where
  "or_false_on_value_error m f =
     (case m of Inl (ValueError _) \<Rightarrow> Inr False | Inl e \<Rightarrow> Inl e | Inr x \<Rightarrow> f x)"

text \<open>Is the pre-filing window of the following year's session open?\<close>

definition next_window_open :: "calendar \<Rightarrow> string \<Rightarrow> date \<Rightarrow> int \<Rightarrow> bool res" where
  "next_window_open cal state_code check window =
     or_false_on_value_error (get_session_dates cal state_code (year_of check + 1)) (\<lambda>nxt.
       case sd_start nxt of
         None \<Rightarrow> Inr False
       | Some s \<Rightarrow> bind_res (add_days s (- window)) (\<lambda>w. Inr (w \<le> check)))"

definition heuristic_in_session :: "calendar \<Rightarrow> string \<Rightarrow> date \<Rightarrow> int \<Rightarrow> bool res" where
  "heuristic_in_session cal state_code check window =
     or_false_on_value_error (get_session_dates cal state_code (year_of check)) (\<lambda>session.
       case (sd_start session, sd_end session) of
         (Some st, Some en) \<Rightarrow>
           bind_res (add_days st (- window)) (\<lambda>start.
             if start \<le> check \<and> check \<le> en then Inr True
             else if window \<noteq> 0 \<and> en < check then next_window_open cal state_code check window
             else Inr False)
       | _ \<Rightarrow> if window \<noteq> 0 then next_window_open cal state_code check window else Inr False)"

definition is_in_session :: "calendar \<Rightarrow> string \<Rightarrow> date \<Rightarrow> bool \<Rightarrow> bool res" where
  "is_in_session cal state_code check include_prefiling =
     (let window = (if include_prefiling then prefiling_days state_code else 0) in
      bind_res (check_live_sessions cal state_code check window) (\<lambda>live.
        case live of
          Some b \<Rightarrow> Inr b
        | None \<Rightarrow> heuristic_in_session cal state_code check window))"

fun filter_active :: "calendar \<Rightarrow> date \<Rightarrow> string list \<Rightarrow> string list res" where
  "filter_active cal check [] = Inr []"
| "filter_active cal check (c # cs) =
     bind_res (is_in_session cal c check False) (\<lambda>b.
       bind_res (filter_active cal check cs) (\<lambda>rest. Inr (if b then c # rest else rest)))"

definition get_active_states :: "calendar \<Rightarrow> date \<Rightarrow> string list res" where
  "get_active_states cal check = filter_active cal check get_all_states"

section \<open>The n-th weekday of a month\<close>

lemma weekday_add: "weekday (Date (n + k)) = (weekday (Date n) + k) mod 7"
  by (simp add: weekday_def mod_simps algebra_simps)

lemma get_nth_weekday_Inr:
  assumes "1 \<le> y" "y \<le> 9999" "1 \<le> m" "m \<le> 12" "0 \<le> w" "w < 7" "1 \<le> n" "n \<le> 4"
  obtains d where "7 * (n - 1) < d" "d \<le> 7 * n"
    "get_nth_weekday y m w n = Inr (Date (ymd_ordinal y m d))"
    "weekday (Date (ymd_ordinal y m d)) = w"
proof -
  let ?f = "Date (ymd_ordinal y m 1)"
  define a where "a = (if w - weekday ?f < 0 then w - weekday ?f + 7 else w - weekday ?f)"
  have a: "0 \<le> a" "a < 7" "(weekday ?f + a) mod 7 = w"
    using assms(5,6) weekday_range[of ?f] by (auto simp: a_def)
  let ?d = "1 + a + 7 * (n - 1)"
  have d1: "1 \<le> ?d" using a(1) assms(7) by simp
  have "?d \<le> 28" using a(2) assms(8) by simp
  then have d2: "?d \<le> days_in_month y m" using days_in_month_ge[of y m] by (rule order_trans)
  note d = d1 d2
  have first: "mk_date y m 1 = Inr ?f"
    using assms days_in_month_ge[of y m] by (simp add: mk_date_def)
  have occ: "add_days ?f a = Inr (Date (ymd_ordinal y m (1 + a)))"
    using a(1,2) days_in_month_ge[of y m] by (intro add_days_in_month assms(1-4)) simp_all
  have nth: "add_days (Date (ymd_ordinal y m (1 + a))) (7 * (n - 1)) = Inr (Date (ymd_ordinal y m ?d))"
    using d by (intro add_days_in_month assms(1-4)) simp_all
  have month: "month_of (Date (ymd_ordinal y m ?d)) = m"
    using d assms(3,4) by (intro month_of_ymd)
  have "get_nth_weekday y m w n = Inr (Date (ymd_ordinal y m ?d))"
    unfolding get_nth_weekday_def first bind_res.simps Let_def a_def[symmetric] occ nth month
    by simp
  moreover have "weekday (Date (ymd_ordinal y m ?d)) = w"
  proof -
    have "ymd_ordinal y m ?d = ymd_ordinal y m 1 + (a + 7 * (n - 1))"
      by (simp add: ymd_ordinal_def)
    then have "weekday (Date (ymd_ordinal y m ?d)) = (weekday ?f + (a + 7 * (n - 1))) mod 7"
      by (simp only: weekday_add)
    also have "\<dots> = (weekday ?f + a) mod 7"
      by (metis add.assoc mod_mult_self2)
    finally show ?thesis using a(3) by simp
  qed
  ultimately show thesis
    using a assms(7,8) by (intro that[of ?d]) auto
qed

lemma get_nth_weekday_spec:
  assumes "1 \<le> y" "y \<le> 9999" "1 \<le> m" "m \<le> 12" "0 \<le> w" "w < 7" "1 \<le> n" "n \<le> 4"
  shows "\<exists>D d. get_nth_weekday y m w n = Inr D \<and> mk_date y m d = Inr D \<and>
    7 * (n - 1) < d \<and> d \<le> 7 * n \<and> weekday D = w \<and> year_of D = y \<and> month_of D = m"
proof -
  obtain d where d: "7 * (n - 1) < d" "d \<le> 7 * n"
    "get_nth_weekday y m w n = Inr (Date (ymd_ordinal y m d))"
    "weekday (Date (ymd_ordinal y m d)) = w"
    by (rule get_nth_weekday_Inr[OF assms])
  have "1 \<le> d" using d(1) assms(7) by simp
  moreover have "d \<le> days_in_month y m" using d(2) assms(8) days_in_month_ge[of y m] by linarith
  ultimately have mk: "mk_date y m d = Inr (Date (ymd_ordinal y m d))"
    using assms by (simp add: mk_date_def)
  show ?thesis
    using d(1,2,4) mk_date_InrD(8,9)[OF mk] by (intro exI conjI) (rule d(3) mk)+
qed

text \<open>for \<open>n\<close> up to 4 the computation never fails and returns the n-th given weekday of
  the month: the date lies in that year and month, falls on that weekday, and its day of month
  is in the n-th block of seven days.\<close>

lemma get_nth_weekday_correct:
  assumes "1 \<le> y" "y \<le> 9999" "1 \<le> m" "m \<le> 12" "0 \<le> w" "w < 7" "1 \<le> n" "n \<le> 4"
  shows "\<exists>D d. get_nth_weekday y m w n = Inr D \<and> mk_date y m d = Inr D \<and>
    7 * (n - 1) < d \<and> d \<le> 7 * n \<and> weekday D = w \<and> year_of D = y \<and> month_of D = m"
  by (rule get_nth_weekday_spec[OF assms])

lemma get_nth_weekday_correct_witness:
  "\<exists>D d. get_nth_weekday 2026 1 0 2 = Inr D \<and> mk_date 2026 1 d = Inr D \<and>
    7 < d \<and> d \<le> 14 \<and> weekday D = 0 \<and> year_of D = 2026 \<and> month_of D = 1"
  using get_nth_weekday_correct[of 2026 1 0 2] by simp

section \<open>The session of a year\<close>

definition known_patterns :: "string list" where
  "known_patterns =
     [''first_monday_january'', ''second_monday_january'', ''third_monday_january'',
      ''first_monday_february'', ''second_monday_february'', ''third_monday_february'',
      ''first_monday_march'', ''second_monday_march'', ''first_monday_april'',
      ''second_monday_april'', ''third_monday_april'', ''first_monday_december_prev'']"

definition rule_ok :: "session_rule \<Rightarrow> bool" where
  "rule_ok r = (case start_pattern r of None \<Rightarrow> False
     | Some p \<Rightarrow> p \<in> set known_patterns \<and> 1 \<le> duration_weeks r \<and> duration_weeks r \<le> 52)"

definition entry_ok :: "string \<times> state_info \<Rightarrow> bool" where
  "entry_ok e = (rule_ok (odd_year (snd e)) \<and>
     (biennial_odd_only (snd e) \<or> rule_ok (even_year (snd e))) \<and>
     strip (upper (fst e)) = fst e \<and> upper (fst e) = fst e)"

lemma table_ok: "list_all entry_ok legislative_data"
  by code_simp

lemma table_distinct: "distinct (map fst legislative_data)"
  by code_simp

lemma table_lookup:
  assumes "(code, info) \<in> set legislative_data"
  shows "map_of legislative_data (strip (upper code)) = Some info" "strip (upper code) = code"
    "rule_ok (odd_year info)" "biennial_odd_only info \<or> rule_ok (even_year info)"
    "upper code = code"
  using assms table_ok table_distinct by (auto simp: list_all_iff entry_ok_def)

lemma nth_monday:
  assumes "1899 \<le> y" "y \<le> 2100" "1 \<le> m" "m \<le> 12" "1 \<le> n" "n \<le> 4"
  shows "\<exists>D. get_nth_weekday y m 0 n = Inr D \<and> weekday D = 0 \<and> year_of D = y \<and>
    month_of D = m \<and> 400 \<le> ordinal D \<and> ordinal D + 800 \<le> max_ordinal"
proof -
  have "1 \<le> y" "y \<le> 9999" using assms(1,2) by simp_all
  from get_nth_weekday_spec[OF this assms(3,4) _ _ assms(5,6), of 0]
  obtain D d where D: "get_nth_weekday y m 0 n = Inr D" "mk_date y m d = Inr D" "weekday D = 0"
      "year_of D = y" "month_of D = m" by force
  have o: "ordinal D = ymd_ordinal y m d" using mk_date_InrD(7)[OF D(2)] by simp
  have b: "1 \<le> days_before_month y m + d \<and> days_before_month y m + d \<le> 365 + leap_day y"
    by (intro day_of_year_bounds mk_date_InrD[OF D(2)])
  have "days_before_year 1899 \<le> days_before_year y" "days_before_year y \<le> days_before_year 2100"
    using assms(1,2) by (auto intro: days_before_year_mono)
  moreover have "days_before_year 1899 = 693230" "days_before_year 2100 = 766644"
    by (simp_all add: days_before_year_def)
  ultimately have "400 \<le> ordinal D \<and> ordinal D + 800 \<le> max_ordinal"
    using b leap_day_bounds[of y] by (simp add: o ymd_ordinal_def max_ordinal_def)
  with D show ?thesis by blast
qed

lemma known_pattern_start:
  assumes "1900 \<le> y" "y \<le> 2100" "p \<in> set known_patterns"
  shows "\<exists>D. parse_start_pattern (Some p) y = Inr (Some D) \<and> weekday D = 0 \<and>
    (if p = ''first_monday_december_prev'' then year_of D = y - 1 \<and> month_of D = 12
     else year_of D = y) \<and> 400 \<le> ordinal D \<and> ordinal D + 800 \<le> max_ordinal"
proof -
  have ex: "\<exists>D. bind_res (get_nth_weekday y m 0 n) (\<lambda>d. Inr (Some d)) = Inr (Some D) \<and>
      weekday D = 0 \<and> year_of D = y \<and> 400 \<le> ordinal D \<and> ordinal D + 800 \<le> max_ordinal"
    if "1 \<le> m" "m \<le> 12" "1 \<le> n" "n \<le> 4" for m n
    using nth_monday[of y m n] that assms(1,2) by auto
  have dec: "\<exists>D. bind_res (get_nth_weekday (y - 1) 12 0 1) (\<lambda>d. Inr (Some d)) = Inr (Some D) \<and>
      weekday D = 0 \<and> year_of D = y - 1 \<and> month_of D = 12 \<and>
      400 \<le> ordinal D \<and> ordinal D + 800 \<le> max_ordinal"
    using nth_monday[of "y - 1" 12 1] assms(1,2) by auto
  from assms(3) show ?thesis
    unfolding known_patterns_def list.set insert_iff empty_iff
    by (elim disjE) (simp_all add: parse_start_pattern_def Let_def ex dec)
qed

lemma friday_of_end:
  assumes "weekday D = 0" "w \<noteq> 0" "1 \<le> ordinal D + 7 * w" "ordinal D + 7 * w + 4 \<le> max_ordinal"
  shows "calculate_end_date (Some D) w = Inr (Some (Date (ordinal D + (7 * w + 4)))) \<and>
    weekday (Date (ordinal D + (7 * w + 4))) = 4"
proof -
  have D: "weekday (Date (ordinal D)) = 0" using assms(1) by simp
  have w: "weekday (Date (ordinal D + 7 * w)) = 0"
    unfolding weekday_add D by simp
  have "weekday (Date (ordinal D + (7 * w + 4))) = 4"
    unfolding weekday_add D by presburger
  then show ?thesis
    using assms(2-4) by (simp add: calculate_end_date_def add_days_def w Let_def add.assoc)
qed

text \<open>The session the table gives for a year, when it gives one.\<close>

definition regular_session :: "session_rule \<Rightarrow> int \<Rightarrow> session_dates \<Rightarrow> bool" where
  "regular_session r y sd \<longleftrightarrow>
     (\<exists>s e. sd_start sd = Some s \<and> sd_end sd = Some e \<and> weekday s = 0 \<and> weekday e = 4 \<and>
        1 \<le> duration_weeks r \<and> ordinal e = ordinal s + 7 * duration_weeks r + 4 \<and>
        400 \<le> ordinal s \<and> ordinal e \<le> max_ordinal \<and>
        (if start_pattern r = Some ''first_monday_december_prev''
         then year_of s = y - 1 \<and> month_of s = 12 else year_of s = y) \<and>
        sd_length_days sd = 7 * duration_weeks r + 5 \<and> sd_type sd = ''regular'')"

lemma heuristic_regular:
  assumes "rule_ok (if y mod 2 = 1 then odd_year info else even_year info)" (is "rule_ok ?r")
    "1900 \<le> y" "y \<le> 2100" "y mod 2 = 1 \<or> \<not> biennial_odd_only info"
  shows "\<exists>sd. heuristic_session_dates code info y = Inr sd \<and> regular_session ?r y sd"
proof -
  from assms(1) obtain p where p: "start_pattern ?r = Some p" "p \<in> set known_patterns"
      and w: "1 \<le> duration_weeks ?r" "duration_weeks ?r \<le> 52"
    by (auto simp: rule_ok_def split: option.splits)
  from known_pattern_start[OF assms(2,3) p(2)]
  obtain D where D: "parse_start_pattern (Some p) y = Inr (Some D)" "weekday D = 0"
      "if p = ''first_monday_december_prev'' then year_of D = y - 1 \<and> month_of D = 12 else year_of D = y"
      "400 \<le> ordinal D" "ordinal D + 800 \<le> max_ordinal" by blast
  have fri: "calculate_end_date (Some D) (duration_weeks ?r) =
      Inr (Some (Date (ordinal D + (7 * duration_weeks ?r + 4)))) \<and>
    weekday (Date (ordinal D + (7 * duration_weeks ?r + 4))) = 4"
    using D(4,5) w by (intro friday_of_end D(2)) linarith+
  have "heuristic_session_dates code info y = Inr \<lparr>sd_state_code = code, sd_year = y,
      sd_start = Some D, sd_end = Some (Date (ordinal D + (7 * duration_weeks ?r + 4))),
      sd_type = ''regular'', sd_notes = session_notes ?r, sd_full_time = full_time info,
      sd_biennial = biennial_odd_only info, sd_weeks = duration_weeks ?r,
      sd_length_days = 7 * duration_weeks ?r + 5\<rparr>"
    using assms(4) unfolding heuristic_session_dates_def Let_def p(1) D(1) bind_res.simps conjunct1[OF fri]
    by (auto simp: diff_days_def)
  then show ?thesis
    using D fri p(1) w by (simp add: regular_session_def)
qed

lemma heuristic_off_year:
  assumes "y mod 2 \<noteq> 1" "biennial_odd_only info"
  shows "\<exists>sd. heuristic_session_dates code info y = Inr sd \<and> sd_start sd = None \<and>
    sd_end sd = None \<and> sd_length_days sd = 0 \<and> sd_type sd = ''no_session''"
  using assms by (simp add: heuristic_session_dates_def)

text \<open>No live session of the state spans the year.\<close>

definition no_live :: "calendar \<Rightarrow> string \<Rightarrow> int \<Rightarrow> bool" where
  "no_live cal code y \<longleftrightarrow>
     find_live (case live_sessions cal code of None \<Rightarrow> [] | Some ss \<Rightarrow> ss) y = None"

lemma get_session_dates_heuristic:
  assumes "(code, info) \<in> set legislative_data" "1900 \<le> y" "y \<le> 2100" "no_live cal code y"
  shows "get_session_dates cal code y = heuristic_session_dates code info y"
  using assms table_lookup[OF assms(1)] by (simp add: get_session_dates_def no_live_def)

lemma get_session_dates_table:
  assumes "(code, info) \<in> set legislative_data" "1900 \<le> y" "y \<le> 2100" "no_live cal code y"
  shows "\<exists>sd. get_session_dates cal code y = Inr sd \<and>
    (if biennial_odd_only info \<and> y mod 2 \<noteq> 1
     then sd_start sd = None \<and> sd_end sd = None \<and> sd_length_days sd = 0 \<and> sd_type sd = ''no_session''
     else regular_session (if y mod 2 = 1 then odd_year info else even_year info) y sd)"
proof (cases "biennial_odd_only info \<and> y mod 2 \<noteq> 1")
  case True
  then show ?thesis
    using heuristic_off_year[of y info code] get_session_dates_heuristic[OF assms] by auto
next
  case False
  then have "rule_ok (if y mod 2 = 1 then odd_year info else even_year info)"
    using table_lookup(3,4)[OF assms(1)] by auto
  from heuristic_regular[OF this assms(2,3)] False show ?thesis
    by (auto simp: get_session_dates_heuristic[OF assms])
qed


definition florida :: state_info where
  "florida = \<lparr>odd_year = rule (Some ''first_monday_march'') 15 '''',
     even_year = rule (Some ''second_monday_january'') 9 '''',
     full_time = False, biennial_odd_only = False\<rparr>"

lemma florida_in_table: "(''FL'', florida) \<in> set legislative_data"
  by (simp add: legislative_data_def states_1_def florida_def)


section \<open>Answers about a date\<close>

lemma add_days_0: "1 \<le> ordinal d \<Longrightarrow> ordinal d \<le> max_ordinal \<Longrightarrow> add_days d 0 = Inr d"
  by (cases d) (simp add: add_days_def)

lemma parse_date_str_range:
  assumes "parse_date_str s = Some d"
  shows "1 \<le> ordinal d" "ordinal d \<le> max_ordinal"
proof -
  from assms obtain y m k where "mk_date y m k = Inr d"
    by (auto simp: parse_date_str_def split: option.splits if_splits dest: strptime_ymd_valid)
  from mk_date_InrD[OF this] show "1 \<le> ordinal d" "ordinal d \<le> max_ordinal"
    using ymd_ordinal_range[of y m k] by auto
qed

lemma find_live_SomeD:
  assumes "find_live ss y = Some (s, st, en)"
  shows "s \<in> set ss" "parse_date_str (ls_start s) = Some st" "parse_date_str (ls_end s) = Some en"
  using assms by (induction ss) (auto split: option.splits if_splits)

text \<open>Where a session start comes from: a live session or the table.\<close>

lemma get_session_dates_start:
  assumes "get_session_dates cal c y = Inr sd" "sd_start sd = Some st"
  shows "(\<exists>ss s. live_sessions cal (strip (upper c)) = Some ss \<and> s \<in> set ss \<and>
      parse_date_str (ls_start s) = Some st) \<or> 400 \<le> ordinal st \<and> ordinal st \<le> max_ordinal"
proof -
  let ?c = "strip (upper c)"
  from assms(1) obtain info where info: "map_of legislative_data ?c = Some info"
      and y: "1900 \<le> y" "y \<le> 2100"
    by (auto simp: get_session_dates_def Let_def split: option.splits if_splits)
  have tab: "(?c, info) \<in> set legislative_data" using info by (rule map_of_SomeD)
  show ?thesis
  proof (cases "no_live cal ?c y")
    case True
    have "get_session_dates cal ?c y = get_session_dates cal c y"
      using table_lookup(2)[OF tab] by (simp add: get_session_dates_def)
    then show ?thesis
      using get_session_dates_table[OF tab y True] assms
      by (auto simp: regular_session_def split: if_splits)
  next
    case False
    then obtain s st' en' where f: "find_live (case live_sessions cal ?c of None \<Rightarrow> [] | Some ss \<Rightarrow> ss) y
        = Some (s, st', en')" by (auto simp: no_live_def)
    then have "st' = st" using assms info y by (auto simp: get_session_dates_def Let_def)
    with find_live_SomeD[OF f] show ?thesis
      by (cases "live_sessions cal ?c") auto
  qed
qed

lemma get_session_dates_errors:
  "get_session_dates cal c y = Inl e \<Longrightarrow> \<exists>msg. e = ValueError msg"
proof -
  assume err: "get_session_dates cal c y = Inl e"
  let ?c = "strip (upper c)"
  show ?thesis
  proof (cases "map_of legislative_data ?c")
    case None
    then show ?thesis using err by (auto simp: get_session_dates_def)
  next
    case (Some info)
    have tab: "(?c, info) \<in> set legislative_data" using Some by (rule map_of_SomeD)
    have same: "get_session_dates cal ?c y = get_session_dates cal c y"
      using table_lookup(2)[OF tab] by (simp add: get_session_dates_def)
    show ?thesis
    proof (cases "1900 \<le> y \<and> y \<le> 2100 \<and> no_live cal ?c y")
      case True
      then show ?thesis using get_session_dates_table[OF tab, of y cal] err same by auto
    next
      case False
      then show ?thesis
        using err Some by (auto simp: get_session_dates_def no_live_def Let_def split: if_splits)
    qed
  qed
qed

lemma get_session_dates_start_range:
  assumes "get_session_dates cal c y = Inr sd" "sd_start sd = Some st"
  shows "1 \<le> ordinal st" "ordinal st \<le> max_ordinal"
  using get_session_dates_start[OF assms] by (auto dest: parse_date_str_range)

lemma session_active_0: "\<exists>b. session_active s d 0 = Inr b"
proof (cases "parse_date_str (ls_start s)")
  case (Some st)
  with parse_date_str_range[OF Some] add_days_0[of st] show ?thesis
    by (auto simp: session_active_def Let_def split: option.splits)
qed (auto simp: session_active_def)

lemma any_active_0: "\<exists>b. any_active ss d 0 = Inr b"
proof (induction ss)
  case (Cons s ss)
  obtain b where "session_active s d 0 = Inr b" using session_active_0 by blast
  with Cons show ?case by (cases b) auto
qed auto

lemma check_live_sessions_0: "\<exists>lv. check_live_sessions cal c d 0 = Inr lv"
proof (cases "live_sessions cal (upper c)")
  case (Some ss)
  obtain b where "any_active ss d 0 = Inr b" using any_active_0 by blast
  with Some show ?thesis by (simp add: check_live_sessions_def Let_def)
qed (simp add: check_live_sessions_def)

lemma is_in_session_total: "\<exists>b. is_in_session cal c d False = Inr b"
proof -
  obtain lv where lv: "check_live_sessions cal c d 0 = Inr lv"
    using check_live_sessions_0 by blast
  have "\<exists>b. heuristic_in_session cal c d 0 = Inr b"
  proof (cases "get_session_dates cal c (year_of d)")
    case (Inl e)
    then show ?thesis
      using get_session_dates_errors[OF Inl] by (auto simp: heuristic_in_session_def or_false_on_value_error_def)
  next
    case (Inr sd)
    then show ?thesis
      using get_session_dates_start_range[OF Inr]
      by (auto simp: heuristic_in_session_def or_false_on_value_error_def add_days_0 split: option.splits)
  qed
  then show ?thesis
    by (auto simp: is_in_session_def lv split: option.splits)
qed

lemma filter_active_eq:
  "filter_active cal d cs = Inr (filter (\<lambda>c. is_in_session cal c d False = Inr True) cs)"
proof (induction cs)
  case (Cons c cs)
  then show ?case using is_in_session_total[of cal c d] by auto
qed simp

text \<open>listing the active states never fails and returns, in alphabetical order and without
  repetition, exactly the states of the table that are in session on the date.\<close>

lemma get_active_states_correct:
  "\<exists>xs. get_active_states cal d = Inr xs \<and> sorted xs \<and> distinct xs \<and>
    set xs = {c \<in> fst ` set legislative_data. is_in_session cal c d False = Inr True}"
proof -
  have "distinct get_all_states" "sorted get_all_states"
    using table_distinct by (simp_all add: get_all_states_def)
  moreover have "set get_all_states = fst ` set legislative_data"
    by (simp add: get_all_states_def)
  ultimately show ?thesis
    by (auto simp: get_active_states_def filter_active_eq intro: sorted_filter[of id, simplified])
qed

section \<open>Stale live data\<close>

lemma any_active_False:
  "(\<forall>s \<in> set ss. session_active s d 0 = Inr False) \<Longrightarrow> any_active ss d 0 = Inr False"
  by (induction ss) auto

lemma set_given: "set (List.map_filter id [a, b]) = {t. a = Some t \<or> b = Some t}"
  by (cases a; cases b) (auto simp: List.map_filter_def)

lemma covered_years_iff:
  "y \<in> set (covered_years ss) \<longleftrightarrow>
     (\<exists>s \<in> set ss. \<exists>t. (parse_date_str (ls_start s) = Some t \<or> parse_date_str (ls_end s) = Some t) \<and> year_of t = y)"
  by (auto simp: covered_years_def set_given simp del: List.map_filter_simps)

text \<open>Sessions none of which is active and none of which mentions the year span it neither.\<close>

lemma find_live_stale:
  assumes "\<forall>s \<in> set ss. session_active s d 0 = Inr False" "year_of d \<notin> set (covered_years ss)"
  shows "find_live ss (year_of d) = None"
proof (rule ccontr)
  assume "find_live ss (year_of d) \<noteq> None"
  then obtain s st en where f: "find_live ss (year_of d) = Some (s, st, en)" by auto
  note s = find_live_SomeD[OF f]
  have le: "year_of st \<le> year_of d \<and> year_of d \<le> year_of en"
    using f by (induction ss) (auto split: option.splits if_splits)
  have "year_of st \<noteq> year_of d" "year_of en \<noteq> year_of d"
    using assms(2) s by (auto simp: covered_years_iff)
  with le have "st < d" "d < en" by (simp_all add: year_of_less)
  then have "session_active s d 0 = Inr True"
    using s by (simp add: session_active_def less_imp_le)
  with assms(1) s(1) show False by simp
qed

lemma is_in_session_stale:
  assumes "upper code = strip (upper code)" "live_sessions cal (upper code) = Some ss"
    "\<forall>s \<in> set ss. session_active s d 0 = Inr False" "year_of d \<notin> set (covered_years ss)"
  shows "is_in_session cal code d False = is_in_session new_calendar code d False"
proof -
  have "check_live_sessions cal code d 0 = Inr None"
    using assms by (simp add: check_live_sessions_def any_active_False Let_def)
  moreover have "check_live_sessions new_calendar code d 0 = Inr None"
    by (simp add: check_live_sessions_def new_calendar_def)
  moreover have "get_session_dates cal code (year_of d) = get_session_dates new_calendar code (year_of d)"
    using find_live_stale[OF assms(3,4)] assms(1,2)
    by (simp only: get_session_dates_def new_calendar_def Let_def calendar.simps option.case find_live.simps
          assms(1)[symmetric] assms(2))
  ultimately show ?thesis
    by (simp add: is_in_session_def heuristic_in_session_def cong: option.case_cong if_cong)
qed

text \<open>live session data that is not active on the date and whose dates do not mention the
  year asked about never changes the answer: \<open>is_in_session\<close> returns what it returns with
  no live data at all.\<close>

lemma stale_live_data_is_ignored:
  assumes "upper code = strip (upper code)" "live_sessions cal (upper code) = Some ss"
    "\<forall>s \<in> set ss. session_active s d 0 = Inr False" "year_of d \<notin> set (covered_years ss)"
  shows "is_in_session cal code d False = is_in_session new_calendar code d False"
  by (rule is_in_session_stale[OF assms])

definition arkansas_2023 :: live_session where
  "arkansas_2023 = \<lparr>ls_start = Some ''2023-01-09'', ls_end = Some ''2023-05-01'',
     ls_classification = ''primary'', ls_identifier = ''2023'', ls_name = ''''\<rparr>"

lemma stale_live_data_is_ignored_witness:
  "is_in_session \<lparr>live_sessions = [''AR'' \<mapsto> [arkansas_2023]]\<rparr> ''AR'' (Date (ymd_ordinal 2026 4 20)) False =
   is_in_session new_calendar ''AR'' (Date (ymd_ordinal 2026 4 20)) False"
proof (rule stale_live_data_is_ignored)
  show "upper ''AR'' = strip (upper ''AR'')" by code_simp
  have "upper ''AR'' = ''AR''" by code_simp
  then show "live_sessions \<lparr>live_sessions = [''AR'' \<mapsto> [arkansas_2023]]\<rparr> (upper ''AR'') = Some [arkansas_2023]"
    by simp
  have "session_active arkansas_2023 (Date (ymd_ordinal 2026 4 20)) 0 = Inr False"
    by code_simp
  then show "\<forall>s \<in> set [arkansas_2023]. session_active s (Date (ymd_ordinal 2026 4 20)) 0 = Inr False"
    by simp
  have "covered_years [arkansas_2023] = [2023, 2023]" "year_of (Date (ymd_ordinal 2026 4 20)) = 2026"
    by code_simp+
  then show "year_of (Date (ymd_ordinal 2026 4 20)) \<notin> set (covered_years [arkansas_2023])"
    by simp
qed

section \<open>Sessions that open in December\<close>

definition december :: "session_rule \<Rightarrow> bool" where
  "december r = (start_pattern r = Some ''first_monday_december_prev'')"

definition opens_in_january :: "session_rule \<Rightarrow> bool" where
  "opens_in_january r = (start_pattern r \<in>
     {Some ''first_monday_january'', Some ''second_monday_january'', Some ''third_monday_january''} \<and>
     duration_weeks r \<le> 40)"

definition december_entry :: "string \<times> state_info \<Rightarrow> bool" where
  "december_entry e =
     ((december (odd_year (snd e)) \<longrightarrow>
        4 \<le> duration_weeks (odd_year (snd e)) \<and>
        (biennial_odd_only (snd e) \<or> opens_in_january (even_year (snd e)))) \<and>
      (\<not> biennial_odd_only (snd e) \<and> december (even_year (snd e)) \<longrightarrow>
        4 \<le> duration_weeks (even_year (snd e)) \<and> opens_in_january (odd_year (snd e))))"

lemma december_table: "list_all december_entry legislative_data"
  by code_simp

lemma january_start:
  assumes "1900 \<le> y" "y \<le> 2100" "opens_in_january r"
  shows "\<exists>D. parse_start_pattern (start_pattern r) y = Inr (Some D) \<and>
    ordinal D \<le> days_before_year y + 21"
proof -
  have ex: "\<exists>D. get_nth_weekday y 1 0 n = Inr D \<and> ordinal D \<le> days_before_year y + 21"
    if n: "1 \<le> n" "n \<le> 3" for n
  proof -
    obtain D d where "get_nth_weekday y 1 0 n = Inr D" "mk_date y 1 d = Inr D" "d \<le> 7 * n"
      using get_nth_weekday_spec[of y 1 0 n] n assms(1,2) by auto
    with n show ?thesis
      using mk_date_InrD(7)[of y 1 d D] by (simp add: ymd_ordinal_def days_before_month_def)
  qed
  from assms(3) show ?thesis
    using ex[of 1] ex[of 2] ex[of 3]
    by (auto simp: opens_in_january_def parse_start_pattern_def)
qed

lemma calculate_end_bound:
  assumes "calculate_end_date (Some s) w = Inr (Some e)"
  shows "ordinal e \<le> ordinal s + 7 * w + 4"
  using assms by (auto simp: calculate_end_date_def bind_res_Inr_iff Let_def weekday_def
      dest!: add_days_Inr split: if_splits)

text \<open>Early in January at the latest to 41 weeks later: the session is over before December.\<close>

lemma january_session_over:
  assumes "1900 \<le> y" "y \<le> 2100" "opens_in_january r" "rule_ok r"
    "r = (if y mod 2 = 1 then odd_year info else even_year info)"
    "y mod 2 = 1 \<or> \<not> biennial_odd_only info"
  shows "\<exists>sd s e. heuristic_session_dates code info y = Inr sd \<and> sd_start sd = Some s \<and>
    sd_end sd = Some e \<and> 400 \<le> ordinal s \<and> ordinal s \<le> max_ordinal \<and> ordinal e < days_before_year y + 334"
proof -
  obtain D where D: "parse_start_pattern (start_pattern r) y = Inr (Some D)" "ordinal D \<le> days_before_year y + 21"
    using january_start[OF assms(1-3)] by blast
  have ok: "rule_ok (if y mod 2 = 1 then odd_year info else even_year info)"
    using assms(4) unfolding assms(5) .
  obtain sd where sd: "heuristic_session_dates code info y = Inr sd" "regular_session r y sd"
    using heuristic_regular[OF ok assms(1,2,6)] unfolding assms(5)[symmetric] by blast
  have start: "sd_start sd = Some D"
    using sd(1) D(1) assms(5,6) by (auto simp: heuristic_session_dates_def Let_def bind_res_Inr_iff)
  from sd(2) start obtain e where e: "sd_end sd = Some e" "ordinal e = ordinal D + 7 * duration_weeks r + 4"
      "400 \<le> ordinal D" "ordinal e \<le> max_ordinal" "1 \<le> duration_weeks r"
    by (auto simp: regular_session_def)
  have "duration_weeks r \<le> 40" using assms(3) by (simp add: opens_in_january_def)
  with sd(1) start e D(2) show ?thesis by auto
qed

lemma december_start:
  assumes "1901 \<le> y" "y \<le> 2100"
    "parse_start_pattern (Some ''first_monday_december_prev'') y = Inr (Some D)"
  shows "days_before_year (y - 1) + 334 < ordinal D \<and> ordinal D \<le> days_before_year (y - 1) + 342"
proof -
  obtain d where "get_nth_weekday (y - 1) 12 0 1 = Inr D" "mk_date (y - 1) 12 d = Inr D" "0 < d" "d \<le> 7"
    using get_nth_weekday_spec[of "y - 1" 12 0 1] assms by (auto simp: parse_start_pattern_def bind_res_Inr_iff)
  then show ?thesis
    using mk_date_InrD(7)[of "y - 1" 12 d D] leap_day_bounds[of "y - 1"]
    by (simp add: ymd_ordinal_def days_before_month_def)
qed

abbreviation rule_of_year :: "state_info \<Rightarrow> int \<Rightarrow> session_rule" where
  "rule_of_year info y \<equiv> (if y mod 2 = 1 then odd_year info else even_year info)"

lemma december_rules:
  assumes "(code, info) \<in> set legislative_data" "december (rule_of_year info y)"
    "y mod 2 = 1 \<or> \<not> biennial_odd_only info"
  shows "4 \<le> duration_weeks (rule_of_year info y)"
    "(y - 1) mod 2 = 1 \<or> \<not> biennial_odd_only info \<Longrightarrow>
      opens_in_january (rule_of_year info (y - 1)) \<and> rule_ok (rule_of_year info (y - 1))"
proof -
  have e: "december_entry (code, info)" using assms(1) december_table by (auto simp: list_all_iff)
  have p: "(y - 1) mod 2 = 1 \<longleftrightarrow> y mod 2 \<noteq> 1" by presburger
  show "4 \<le> duration_weeks (rule_of_year info y)"
    using e assms(2,3) by (cases "y mod 2 = 1") (simp_all add: december_entry_def)
  show "opens_in_january (rule_of_year info (y - 1)) \<and> rule_ok (rule_of_year info (y - 1))"
    if "(y - 1) mod 2 = 1 \<or> \<not> biennial_odd_only info"
    using e assms(2,3) that table_lookup(3,4)[OF assms(1)] unfolding p
    by (cases "y mod 2 = 1") (auto simp: december_entry_def)
qed

lemma no_session_data_heuristic:
  assumes "(code, info) \<in> set legislative_data" "1900 \<le> y" "y \<le> 2100" "live_sessions cal code = None"
  shows "get_session_dates cal code y = heuristic_session_dates code info y"
  by (rule get_session_dates_heuristic) (use assms in \<open>simp_all add: no_live_def\<close>)

lemma december_of_previous_year:
  assumes "(code, info) \<in> set legislative_data" "1901 \<le> y" "y \<le> 2100"
    "december (rule_of_year info y)" "y mod 2 = 1 \<or> \<not> biennial_odd_only info"
    "live_sessions cal code = None" "days_before_year (y - 1) + 334 < ordinal d" "year_of d = y - 1"
  shows "is_in_session cal code d False = Inr False"
proof -
  have y1: "1900 \<le> y - 1" "y - 1 \<le> 2100" using assms(2,3) by simp_all
  have "check_live_sessions cal code d 0 = Inr None"
    using table_lookup(5)[OF assms(1)] assms(6) by (simp add: check_live_sessions_def)
  moreover have "heuristic_in_session cal code d 0 = Inr False"
  proof (cases "(y - 1) mod 2 = 1 \<or> \<not> biennial_odd_only info")
    case True
    note r = december_rules(2)[OF assms(1,4,5) True]
    obtain sd s e where sd: "heuristic_session_dates code info (y - 1) = Inr sd" "sd_start sd = Some s"
        "sd_end sd = Some e" "400 \<le> ordinal s" "ordinal s \<le> max_ordinal"
        "ordinal e < days_before_year (y - 1) + 334"
      using january_session_over[OF y1 conjunct1[OF r] conjunct2[OF r] refl True] by blast
    have "\<not> d \<le> e" using sd(6) assms(7) by (simp add: less_eq_date_def)
    then show ?thesis
      using sd assms(8) no_session_data_heuristic[OF assms(1) y1 assms(6)]
      by (simp add: heuristic_in_session_def or_false_on_value_error_def add_days_0)
  next
    case False
    then obtain sd where "heuristic_session_dates code info (y - 1) = Inr sd" "sd_start sd = None"
      using heuristic_off_year[of "y - 1" info code] by auto
    then show ?thesis
      using assms(8) no_session_data_heuristic[OF assms(1) y1 assms(6)]
      by (simp add: heuristic_in_session_def or_false_on_value_error_def)
  qed
  ultimately show ?thesis by (simp add: is_in_session_def)
qed

lemma december_session:
  assumes "(code, info) \<in> set legislative_data" "1901 \<le> y" "y \<le> 2100"
    "december (rule_of_year info y)" "y mod 2 = 1 \<or> \<not> biennial_odd_only info"
    "live_sessions cal code = None"
  shows "\<exists>sd s e. get_session_dates cal code y = Inr sd \<and> sd_start sd = Some s \<and> sd_end sd = Some e \<and>
    year_of s = y - 1 \<and> month_of s = 12 \<and> days_before_year (y - 1) + 334 < ordinal s \<and>
    days_before_year y \<le> ordinal e"
proof -
  let ?r = "rule_of_year info y"
  have y: "1900 \<le> y" using assms(2) by simp
  have ok: "rule_ok ?r" using table_lookup(3,4)[OF assms(1)] assms(5) by auto
  have pat: "start_pattern ?r = Some ''first_monday_december_prev''"
    using assms(4) by (simp add: december_def)
  obtain sd where sd: "heuristic_session_dates code info y = Inr sd" "regular_session ?r y sd"
    using heuristic_regular[OF ok y assms(3,5)] by blast
  obtain D where D: "parse_start_pattern (Some ''first_monday_december_prev'') y = Inr (Some D)"
      "sd_start sd = Some D"
    using sd(1) assms(5) pat sd(2)
    by (auto simp: heuristic_session_dates_def Let_def bind_res_Inr_iff regular_session_def split: if_splits)
  note b = december_start[OF assms(2,3) D(1)]
  have y11: "days_before_year y = days_before_year (y - 1) + 365 + leap_day (y - 1)"
    using days_before_year_Suc[of "y - 1"] by simp
  have w: "4 \<le> duration_weeks ?r" by (rule december_rules(1)[OF assms(1,4,5)])
  obtain e where e: "sd_end sd = Some e" "ordinal e = ordinal D + 7 * duration_weeks ?r + 4"
      "year_of D = y - 1" "month_of D = 12"
    using sd(2) D(2) pat unfolding regular_session_def by auto
  have "days_before_year y \<le> ordinal e"
    using e(2) w b y11 leap_day_bounds[of "y - 1"] by linarith
  with sd(1) D(2) e b no_session_data_heuristic[OF assms(1) y assms(3,6)] show ?thesis by auto
qed

text \<open>the sessions that open in December (California, Indiana, Maine) are not seen before New Year.
  The session \<open>get_session_dates\<close> gives for year \<open>y\<close> starts in December of \<open>y - 1\<close>, but without live
  data \<open>is_in_session\<close>, which asks only for the session of the calendar year of the date, answers
  that the state is not in session on every later day of that December.\<close>

lemma december_opening_not_seen:
  assumes "(code, info) \<in> set legislative_data" "1901 \<le> y" "y \<le> 2100"
    "december (rule_of_year info y)" "y mod 2 = 1 \<or> \<not> biennial_odd_only info"
    "live_sessions cal code = None"
  shows "\<exists>sd s e. get_session_dates cal code y = Inr sd \<and> sd_start sd = Some s \<and> sd_end sd = Some e \<and>
    year_of s = y - 1 \<and> month_of s = 12 \<and>
    (\<forall>d. s \<le> d \<and> year_of d = y - 1 \<longrightarrow> d \<le> e \<and> is_in_session cal code d False = Inr False)"
proof -
  obtain sd s e where s: "get_session_dates cal code y = Inr sd" "sd_start sd = Some s" "sd_end sd = Some e"
      "year_of s = y - 1" "month_of s = 12" "days_before_year (y - 1) + 334 < ordinal s"
      "days_before_year y \<le> ordinal e"
    using december_session[OF assms] by blast
  have "d \<le> e \<and> is_in_session cal code d False = Inr False" if "s \<le> d" "year_of d = y - 1" for d
    using december_of_previous_year[OF assms, of d] that s(6,7) year_of_bounds[of d]
    by (simp add: less_eq_date_def)
  with s show ?thesis by blast
qed

definition california :: state_info where
  "california = the (map_of legislative_data ''CA'')"

lemma december_opening_not_seen_witness:
  "\<exists>sd s e. get_session_dates new_calendar ''CA'' 2027 = Inr sd \<and> sd_start sd = Some s \<and> sd_end sd = Some e \<and>
    year_of s = 2027 - 1 \<and> month_of s = 12 \<and>
    (\<forall>d. s \<le> d \<and> year_of d = 2027 - 1 \<longrightarrow> d \<le> e \<and> is_in_session new_calendar ''CA'' d False = Inr False)"
proof (rule december_opening_not_seen)
  have "map_of legislative_data ''CA'' = Some california"
    by (simp add: california_def legislative_data_def states_1_def)
  then show "(''CA'', california) \<in> set legislative_data" by (rule map_of_SomeD)
  show "december (rule_of_year california 2027)"
    by (simp add: december_def california_def legislative_data_def states_1_def)
qed (simp_all add: new_calendar_def)

end
