(* ===== verification/Chunking.thy ===== *)
theory Chunking
  imports Prelude
begin

text \<open>
  \<open>ingestion/chunking.py\<close>: cutting a text into chunks of bounded token count. The tokenizer
  (the tiktoken package) and the HTML parser (BeautifulSoup) are not part of the repository:
  \<open>encode\<close> and \<open>decode\<close>, from text to tokens and back, and \<open>html_text\<close>, the text of a page
  with its scripts and navigation removed, are parameters. An exception of theirs leaves every
  function unchanged; what is modelled is the run in which they return. The settings
  \<open>chunk_size\<close> and \<open>chunk_overlap\<close> are Python integers, of any sign.
\<close>

section \<open>Data\<close>

record 'm chunk =
  chunk_content :: string
  chunk_index :: nat
  token_count :: nat
  start_char :: nat
  end_char :: nat
  chunk_metadata :: "'m option"

record 't tokenizer =
  encode :: "string \<Rightarrow> 't list"
  decode :: "'t list \<Rightarrow> string"

record 't service =
  chunk_size :: int
  chunk_overlap :: int
  encoding :: "'t tokenizer"

abbreviation enc :: "'t service \<Rightarrow> string \<Rightarrow> 't list" where
  "enc sv \<equiv> encode (encoding sv)"

abbreviation dec :: "'t service \<Rightarrow> 't list \<Rightarrow> string" where
  "dec sv \<equiv> decode (encoding sv)"

section \<open>Regular expressions\<close>

text \<open>
  \<open>re.sub\<close> of a class of characters repeated at least \<open>k\<close> times: greedy, from the left, so it
  replaces the maximal runs of length at least \<open>k\<close>.
\<close>

function sub_runs :: "(char \<Rightarrow> bool) \<Rightarrow> nat \<Rightarrow> string \<Rightarrow> string \<Rightarrow> string" where
  "sub_runs P k rep [] = []"
| "sub_runs P k rep (c # cs) =
     (if P c
      then (let run = c # takeWhile P cs in
            (if k \<le> length run then rep else run) @ sub_runs P k rep (dropWhile P cs))
      else c # sub_runs P k rep cs)"
  by pat_completeness auto
termination
  by (relation "measure (\<lambda>(P, k, rep, s). length s)") (auto simp: le_imp_less_Suc length_dropWhile_le)

text \<open>The separator \<open>\n\n+|\n\s*\n\<close> at a newline: the length of the match after it, if there is one.\<close>

definition separator :: "string \<Rightarrow> nat option" where
  "separator rest =
     (case rest of
        [] \<Rightarrow> None
      | c # _ \<Rightarrow>
          if c = newline then Some (length (takeWhile (\<lambda>x. x = newline) rest))
          else
            (let ws = takeWhile is_space rest in
             if newline \<in> set ws then Some (length ws - length (takeWhile (\<lambda>x. x \<noteq> newline) (rev ws)))
             else None))"

text \<open>\<open>re.split\<close>; \<open>acc\<close> is the current piece, reversed.\<close>

function split_paras :: "string \<Rightarrow> string \<Rightarrow> string list" where
  "split_paras acc [] = [rev acc]"
| "split_paras acc (c # cs) =
     (if c = newline
      then (case separator cs of
              Some k \<Rightarrow> rev acc # split_paras [] (drop k cs)
            | None \<Rightarrow> split_paras (c # acc) cs)
      else split_paras (c # acc) cs)"
  by pat_completeness auto
termination
  by (relation "measure (\<lambda>(acc, s). length s)") auto

section \<open>Cleaning and splitting\<close>

definition clean_text :: "string \<Rightarrow> string" where
  "clean_text text =
     strip (sub_runs (\<lambda>c. c = newline) 3 [newline, newline] (sub_runs is_space 1 '' '' text))"

definition split_into_paragraphs :: "string \<Rightarrow> string list" where
  "split_into_paragraphs text =
     map strip (filter (\<lambda>p. strip p \<noteq> []) (split_paras [] text))"

section \<open>Chunks of tokens\<close>

definition slice :: "int \<Rightarrow> int \<Rightarrow> 'a list \<Rightarrow> 'a list" where
  "slice i j xs = drop (slice_bound i xs) (take (slice_bound j xs) xs)"

text \<open>The loop of \<open>_chunk_by_tokens\<close>; \<open>idx\<close> is the number of chunks so far.\<close>

function chunk_loop :: "'t service \<Rightarrow> 'm option \<Rightarrow> 't list \<Rightarrow> int \<Rightarrow> nat \<Rightarrow> 'm chunk list" where
  "chunk_loop sv md tokens start idx =
     (if start < int (length tokens)
      then
        (let end_pos = min (start + chunk_size sv) (int (length tokens));
             chunk_tokens = slice start end_pos tokens;
             c = \<lparr>chunk_content = dec sv chunk_tokens, chunk_index = idx,
                  token_count = length chunk_tokens,
                  start_char = length (dec sv (slice_to start tokens)),
                  end_char = length (dec sv (slice_to end_pos tokens)),
                  chunk_metadata = md\<rparr> in
         if int (length tokens) \<le> end_pos then [c]
         else
           (let new_start = end_pos - chunk_overlap sv;
                new_start = (if new_start \<le> start then start + 1 else new_start) in
            c # chunk_loop sv md tokens new_start (Suc idx)))
      else [])"
  by pat_completeness auto
termination
  by (relation "measure (\<lambda>(sv, md, tokens, start, idx). nat (int (length tokens) - start))")
    (auto simp: Let_def)

declare chunk_loop.simps [simp del]

definition chunk_by_tokens :: "'t service \<Rightarrow> string \<Rightarrow> 'm option \<Rightarrow> 'm chunk list" where
  "chunk_by_tokens sv text md = chunk_loop sv md (enc sv text) 0 0"

section \<open>Chunks of paragraphs\<close>

definition get_overlap_content :: "'t service \<Rightarrow> string list \<Rightarrow> string" where
  "get_overlap_content sv paragraphs =
     (if paragraphs = [] then []
      else
        (let last_para = last paragraphs in
         if int (length (enc sv last_para)) \<le> chunk_overlap sv then last_para
         else dec sv (slice_from (- chunk_overlap sv) (enc sv last_para))))"

record 'm para_state =
  ps_chunks :: "'m chunk list"
  current_chunk :: "string list"
  current_tokens :: nat
  current_start :: nat
  char_position :: nat

fun join :: "string \<Rightarrow> string list \<Rightarrow> string" where
  "join sep [] = []"
| "join sep [s] = s"
| "join sep (s # t # rest) = s @ sep @ join sep (t # rest)"

text \<open>The chunk made of the paragraphs collected so far.\<close>

definition collected :: "'m para_state \<Rightarrow> 'm option \<Rightarrow> 'm chunk" where
  "collected st md =
     \<lparr>chunk_content = join [newline, newline] (current_chunk st), chunk_index = length (ps_chunks st),
      token_count = current_tokens st, start_char = current_start st, end_char = char_position st,
      chunk_metadata = md\<rparr>"

text \<open>The sub-chunks of a large paragraph, renumbered and moved to its position.\<close>

fun append_sub :: "nat \<Rightarrow> 'm chunk list \<Rightarrow> 'm chunk list \<Rightarrow> 'm chunk list" where
  "append_sub pos chunks [] = chunks"
| "append_sub pos chunks (c # cs) =
     append_sub pos (chunks @ [c\<lparr>chunk_index := length chunks, start_char := start_char c + pos,
                                  end_char := end_char c + pos\<rparr>]) cs"

text \<open>The branch for a paragraph larger than a chunk.\<close>

definition flush :: "'m option \<Rightarrow> 'm para_state \<Rightarrow> 'm para_state" where
  "flush md st =
     (if current_chunk st \<noteq> []
      then st\<lparr>ps_chunks := ps_chunks st @ [collected st md], current_chunk := [],
              current_tokens := 0, current_start := char_position st\<rparr>
      else st)"

definition large_paragraph :: "'t service \<Rightarrow> 'm option \<Rightarrow> string \<Rightarrow> 'm para_state \<Rightarrow> 'm para_state" where
  "large_paragraph sv md paragraph st =
     (let st = flush md st;
          sub = chunk_by_tokens sv paragraph md;
          pos = char_position st + length paragraph + 2 in
      st\<lparr>ps_chunks := append_sub (char_position st) (ps_chunks st) sub,
         char_position := pos, current_start := pos\<rparr>)"

definition close_with_overlap :: "'t service \<Rightarrow> 'm option \<Rightarrow> 'm para_state \<Rightarrow> 'm para_state" where
  "close_with_overlap sv md st =
     (let overlap_content = get_overlap_content sv (current_chunk st) in
      st\<lparr>ps_chunks := ps_chunks st @ [collected st md],
         current_chunk := (if overlap_content \<noteq> [] then [overlap_content] else []),
         current_tokens := (if overlap_content \<noteq> [] then length (enc sv overlap_content) else 0),
         current_start := char_position st\<rparr>)"

definition paragraph_step :: "'t service \<Rightarrow> 'm option \<Rightarrow> string \<Rightarrow> 'm para_state \<Rightarrow> 'm para_state" where
  "paragraph_step sv md paragraph st =
     (let para_tokens = length (enc sv paragraph) in
      if int para_tokens > chunk_size sv then large_paragraph sv md paragraph st
      else
        (let st = (if int (current_tokens st + para_tokens) > chunk_size sv \<and> current_chunk st \<noteq> []
                   then close_with_overlap sv md st else st) in
         st\<lparr>current_chunk := current_chunk st @ [paragraph],
            current_tokens := current_tokens st + para_tokens,
            char_position := char_position st + length paragraph + 2\<rparr>))"

definition paragraph_start :: "'m para_state" where
  "paragraph_start =
     \<lparr>ps_chunks = [], current_chunk = [], current_tokens = 0, current_start = 0, char_position = 0\<rparr>"

definition chunk_by_paragraphs :: "'t service \<Rightarrow> string list \<Rightarrow> 'm option \<Rightarrow> 'm chunk list" where
  "chunk_by_paragraphs sv paragraphs md =
     (let st = fold (paragraph_step sv md) paragraphs paragraph_start in
      if current_chunk st \<noteq> [] then ps_chunks st @ [collected st md] else ps_chunks st)"

section \<open>Entry points\<close>

definition chunk_text :: "'t service \<Rightarrow> string \<Rightarrow> 'm option \<Rightarrow> 'm chunk list" where
  "chunk_text sv text md =
     (if strip text = [] then []
      else
        (let text = clean_text text;
             paragraphs = split_into_paragraphs text in
         if paragraphs \<noteq> [] then chunk_by_paragraphs sv paragraphs md
         else chunk_by_tokens sv text md))"

definition chunk_html :: "(string \<Rightarrow> string) \<Rightarrow> 't service \<Rightarrow> string \<Rightarrow> 'm option \<Rightarrow> 'm chunk list" where
  "chunk_html html_text sv html md = chunk_text sv (html_text html) md"

definition chunk_pdf_text :: "'t service \<Rightarrow> string \<Rightarrow> 'm option \<Rightarrow> 'm chunk list" where
  "chunk_pdf_text sv text md =
     (let text = sub_runs (\<lambda>c. c = newline) 3 [newline, newline] text;
          text = sub_runs (\<lambda>c. c = CHR '' '' \<or> c = char_of (9 :: nat)) 1 '' '' text in
      chunk_text sv text md)"

definition count_tokens :: "'t service \<Rightarrow> string \<Rightarrow> nat" where
  "count_tokens sv text = length (enc sv text)"

section \<open>The windows of the token loop\<close>

text \<open>The chunk of the tokens from \<open>a\<close> up to \<open>b\<close>.\<close>

definition window_chunk :: "'t service \<Rightarrow> 'm option \<Rightarrow> 't list \<Rightarrow> nat \<times> nat \<times> nat \<Rightarrow> 'm chunk" where
  "window_chunk sv md tokens w =
     (case w of (i, a, b) \<Rightarrow>
        \<lparr>chunk_content = dec sv (drop a (take b tokens)), chunk_index = i, token_count = b - a,
         start_char = length (dec sv (take a tokens)), end_char = length (dec sv (take b tokens)),
         chunk_metadata = md\<rparr>)"

text \<open>
  What the windows promise for \<open>n\<close> tokens: each is a non-empty run of at most \<open>s\<close> tokens, no
  token is lost, and a window that is not the last holds exactly \<open>s\<close> tokens and shares its last
  \<open>min v (s - 1)\<close> with the next one.
\<close>

definition windows_ok :: "nat \<Rightarrow> nat \<Rightarrow> nat \<Rightarrow> (nat \<times> nat) list \<Rightarrow> bool" where
  "windows_ok s v n ws \<longleftrightarrow>
     (\<forall>(a, b) \<in> set ws. a < b \<and> b \<le> n \<and> b \<le> a + s) \<and>
     (\<forall>k < n. \<exists>(a, b) \<in> set ws. a \<le> k \<and> k < b) \<and>
     (\<forall>i. Suc i < length ws \<longrightarrow> snd (ws ! i) = fst (ws ! i) + s \<and>
        snd (ws ! i) = fst (ws ! Suc i) + min v (s - 1))"

fun chained :: "nat \<Rightarrow> nat \<Rightarrow> nat \<Rightarrow> nat \<Rightarrow> (nat \<times> nat) list \<Rightarrow> bool" where
  "chained s v n a [] = False"
| "chained s v n a [(x, y)] = (x = a \<and> y = n \<and> a < n \<and> n \<le> a + s)"
| "chained s v n a ((x, y) # w # ws) =
     (x = a \<and> y = a + s \<and> a + s < n \<and> chained s v n (a + s - min v (s - 1)) (w # ws))"

lemma chained_hd: "chained s v n a (w # ws) \<Longrightarrow> fst w = a"
  by (cases ws; cases w) auto

lemma chained_windows:
  assumes "chained s v n a ws" "1 \<le> s"
  shows "\<forall>(x, y) \<in> set ws. x < y \<and> y \<le> n \<and> y \<le> x + s"
    "\<forall>k. a \<le> k \<and> k < n \<longrightarrow> (\<exists>(x, y) \<in> set ws. x \<le> k \<and> k < y)"
  using assms
proof (induction s v n a ws rule: chained.induct)
  case (3 s v n a x y w ws)
  { case 1 with 3 show ?case by auto }
  { case 2
    have IH: "\<forall>k. a + s - min v (s - 1) \<le> k \<and> k < n \<longrightarrow> (\<exists>(x, y) \<in> set (w # ws). x \<le> k \<and> k < y)"
      using 3(2) 2 by simp
    note ch = 2(1)
    show ?case
    proof (intro allI impI)
      fix k assume k: "a \<le> k \<and> k < n"
      show "\<exists>(x, y) \<in> set ((x, y) # w # ws). x \<le> k \<and> k < y"
      proof (cases "k < a + s")
        case True
        with k ch show ?thesis by auto
      next
        case False
        then have "a + s - min v (s - 1) \<le> k \<and> k < n" using k by simp
        with IH show ?thesis by (metis (no_types, lifting) list.set_intros(2))
      qed
    qed }
qed auto

lemma chained_overlap:
  assumes "chained s v n a ws" "1 \<le> s" "Suc i < length ws"
  shows "snd (ws ! i) = fst (ws ! i) + s \<and> snd (ws ! i) = fst (ws ! Suc i) + min v (s - 1)"
  using assms
proof (induction s v n a ws arbitrary: i rule: chained.induct)
  case (3 s v n a x y w ws)
  show ?case
  proof (cases i)
    case 0
    have "fst w = a + s - min v (s - 1)" using 3(2) by (intro chained_hd[of s v n _ w ws]) simp
    with 3(2,3) 0 show ?thesis by simp
  next
    case (Suc j)
    have "chained s v n (a + s - min v (s - 1)) (w # ws)" "Suc j < length (w # ws)"
      using 3(2,4) Suc by simp_all
    from 3(1)[OF this(1) 3(3) this(2)] show ?thesis
      unfolding Suc nth_Cons_Suc .
  qed
qed auto

lemma chained_ok: "chained s v n 0 ws \<Longrightarrow> 1 \<le> s \<Longrightarrow> windows_ok s v n ws"
  unfolding windows_ok_def
  by (intro conjI allI impI chained_windows(1)
      chained_windows(2)[of s v n 0 ws, THEN spec, THEN mp]
      conjunct1[OF chained_overlap] conjunct2[OF chained_overlap]) simp_all

lemma slice_window:
  "a \<le> b \<Longrightarrow> slice (int a) (int b) xs = drop a (take b xs)"
  by (simp add: slice_def slice_bound_def)

lemma window_chunk_eq:
  assumes "a \<le> b" "b \<le> length tokens"
  shows "\<lparr>chunk_content = dec sv (slice (int a) (int b) tokens), chunk_index = i,
      token_count = length (slice (int a) (int b) tokens),
      start_char = length (dec sv (slice_to (int a) tokens)),
      end_char = length (dec sv (slice_to (int b) tokens)), chunk_metadata = md\<rparr> =
    window_chunk sv md tokens (i, a, b)"
  using assms by (simp add: window_chunk_def slice_window slice_to_def slice_bound_def)

lemma chunk_loop_windows:
  assumes "chunk_size sv = int s" "chunk_overlap sv = int v" "1 \<le> s" "a < length tokens"
  shows "\<exists>ws. chunk_loop sv md tokens (int a) idx = map (window_chunk sv md tokens) (enumerate idx ws) \<and>
    chained s v (length tokens) a ws"
  using assms(4)
proof (induction "length tokens - a" arbitrary: a idx rule: less_induct)
  case less
  let ?n = "length tokens"
  show ?case
  proof (cases "?n \<le> a + s")
    case True
    then have "min (int a + int s) (int ?n) = int ?n" by simp
    with less.prems True assms(1) show ?thesis
      by (intro exI[of _ "[(a, ?n)]"])
        (simp add: chunk_loop.simps[of sv md tokens "int a"] window_chunk_eq less_imp_le)
  next
    case False
    define a' where "a' = a + s - min v (s - 1)"
    have a': "a < a'" "a' < ?n" using False \<open>1 \<le> s\<close> by (auto simp: a'_def)
    have m: "min (int a + int s) (int ?n) = int (a + s)" using False by simp
    have step: "(if int (a + s) - int v \<le> int a then int a + 1 else int (a + s) - int v) = int a'"
      using \<open>1 \<le> s\<close> by (auto simp: a'_def)
    obtain ws where ws: "chunk_loop sv md tokens (int a') (Suc idx) =
        map (window_chunk sv md tokens) (enumerate (Suc idx) ws)" "chained s v ?n a' ws"
      using less.hyps[of a' "Suc idx"] a' by fastforce
    have "chunk_loop sv md tokens (int a) idx =
        window_chunk sv md tokens (idx, a, a + s) # chunk_loop sv md tokens (int a') (Suc idx)"
      unfolding chunk_loop.simps[of sv md tokens "int a"] Let_def assms(1,2) m step
      using less.prems False by (simp add: window_chunk_eq del: of_nat_add)
    with ws a' False show ?thesis
      by (intro exI[of _ "(a, a + s) # ws"]) (cases ws; simp add: a'_def)
  qed
qed

lemma chunk_by_tokens_contract:
  assumes "1 \<le> chunk_size sv" "0 \<le> chunk_overlap sv"
  shows "\<exists>ws. chunk_by_tokens sv text md =
      map (window_chunk sv md (enc sv text)) (enumerate 0 ws) \<and>
    windows_ok (nat (chunk_size sv)) (nat (chunk_overlap sv)) (length (enc sv text)) ws"
proof (cases "enc sv text = []")
  case True
  then show ?thesis
    by (intro exI[of _ "[]"]) (simp add: chunk_by_tokens_def chunk_loop.simps windows_ok_def)
next
  case False
  then have n: "0 < length (enc sv text)" by simp
  have "chunk_size sv = int (nat (chunk_size sv))" "chunk_overlap sv = int (nat (chunk_overlap sv))"
    using assms by simp_all
  moreover have s: "1 \<le> nat (chunk_size sv)" using assms(1) by simp
  ultimately obtain ws where "chunk_loop sv md (enc sv text) (int 0) 0 =
      map (window_chunk sv md (enc sv text)) (enumerate 0 ws)"
      "chained (nat (chunk_size sv)) (nat (chunk_overlap sv)) (length (enc sv text)) 0 ws"
    using chunk_loop_windows n by blast
  with chained_ok[OF _ s] show ?thesis
    by (auto simp: chunk_by_tokens_def)
qed

text \<open>C2: token chunking with a positive size: the chunks, numbered from 0, are windows of at
  most \<open>chunk_size\<close> tokens, every token of the text lies in one of them, and consecutive chunks
  share exactly \<open>chunk_overlap\<close> tokens (\<open>chunk_size - 1\<close> when the overlap is not smaller).\<close>

theorem chunk_by_tokens_windows:
  assumes "1 \<le> chunk_size sv" "0 \<le> chunk_overlap sv"
  shows "\<exists>ws. chunk_by_tokens sv text md =
      map (window_chunk sv md (enc sv text)) (enumerate 0 ws) \<and>
    windows_ok (nat (chunk_size sv)) (nat (chunk_overlap sv)) (length (enc sv text)) ws"
  by (rule chunk_by_tokens_contract[OF assms])

text \<open>A tokenizer of one token per character.\<close>

definition char_service :: "char service" where
  "char_service = \<lparr>chunk_size = 4, chunk_overlap = 1, encoding = \<lparr>encode = id, decode = id\<rparr>\<rparr>"

lemma chunk_by_tokens_windows_witness:
  "\<exists>ws. chunk_by_tokens char_service ''abcdefgh'' (None :: json option) =
      map (window_chunk char_service None ''abcdefgh'') (enumerate 0 ws) \<and> windows_ok 4 1 (length ''abcdefgh'') ws"
  using chunk_by_tokens_windows[of char_service "''abcdefgh''" "None :: json option"]
  by (simp add: char_service_def)

section \<open>Nothing is lost between paragraphs\<close>

definition numbered :: "'m chunk list \<Rightarrow> bool" where
  "numbered cs \<longleftrightarrow> map chunk_index cs = [0..<length cs]"

lemma numbered_append: "numbered cs \<Longrightarrow> chunk_index c = length cs \<Longrightarrow> numbered (cs @ [c])"
  by (simp add: numbered_def)

lemma numbered_append_sub: "numbered cs \<Longrightarrow> numbered (append_sub pos cs sub)"
  by (induction pos cs sub rule: append_sub.induct) (simp_all add: numbered_append)

lemma contents_append_sub:
  "map chunk_content (append_sub pos cs sub) = map chunk_content cs @ map chunk_content sub"
  by (induction pos cs sub rule: append_sub.induct) simp_all

lemma join_member: "p \<in> set ps \<Longrightarrow> \<exists>a b. join sep ps = a @ p @ b"
proof (induction sep ps rule: join.induct)
  case (3 sep s t rest)
  show ?case
  proof (cases "p = s")
    case True
    then show ?thesis by (intro exI[of _ "[]"] exI) simp
  next
    case False
    with 3 obtain a b where "join sep (t # rest) = a @ p @ b" by auto
    then show ?thesis by (intro exI[of _ "s @ sep @ a"] exI[of _ b]) simp
  qed
qed (auto intro: exI[of _ "[]"])

text \<open>
  A paragraph is kept by a list of chunks: inside one of them when it fits into a chunk,
  otherwise by all its token chunks.
\<close>

definition kept :: "'t service \<Rightarrow> 'm option \<Rightarrow> string \<Rightarrow> 'm chunk list \<Rightarrow> bool" where
  "kept sv md p cs \<longleftrightarrow>
     (if int (length (enc sv p)) \<le> chunk_size sv
      then \<exists>c \<in> set cs. contains p (chunk_content c)
      else chunk_content ` set (chunk_by_tokens sv p md) \<subseteq> chunk_content ` set cs)"

text \<open>The invariant of the loop: every paragraph \<open>seen\<close> is kept or waits to be collected.\<close>

definition para_inv :: "'t service \<Rightarrow> 'm option \<Rightarrow> string set \<Rightarrow> 'm para_state \<Rightarrow> bool" where
  "para_inv sv md seen st \<longleftrightarrow> numbered (ps_chunks st) \<and>
     (\<forall>p \<in> seen. kept sv md p (ps_chunks st) \<or>
        p \<in> set (current_chunk st) \<and> int (length (enc sv p)) \<le> chunk_size sv)"

lemma kept_mono:
  "kept sv md p cs \<Longrightarrow> chunk_content ` set cs \<subseteq> chunk_content ` set ds \<Longrightarrow> kept sv md p ds"
  by (auto simp: kept_def image_subset_iff split: if_splits) (metis imageE image_eqI)+

lemma para_inv_collect:
  assumes "para_inv sv md seen st" "ps_chunks st' = ps_chunks st @ [collected st md]"
  shows "numbered (ps_chunks st')" "p \<in> seen \<Longrightarrow> kept sv md p (ps_chunks st')"
proof -
  show "numbered (ps_chunks st')"
    using assms by (auto simp: para_inv_def collected_def intro: numbered_append)
  have cur: "contains p (chunk_content (collected st md))" if "p \<in> set (current_chunk st)"
    using join_member[OF that, of "[newline, newline]"] by (simp add: collected_def contains_iff)
  assume "p \<in> seen"
  then consider "kept sv md p (ps_chunks st)"
    | "p \<in> set (current_chunk st)" "int (length (enc sv p)) \<le> chunk_size sv"
    using assms(1) by (auto simp: para_inv_def)
  then show "kept sv md p (ps_chunks st')"
  proof cases
    case 1
    then show ?thesis by (rule kept_mono) (use assms(2) in auto)
  next
    case 2
    then show ?thesis using cur assms(2) by (simp add: kept_def)
  qed
qed

lemma contents_image_append_sub:
  "chunk_content ` set (append_sub pos cs sub) = chunk_content ` set cs \<union> chunk_content ` set sub"
  using arg_cong[OF contents_append_sub[of pos cs sub], of set] by simp

lemma para_inv_flush:
  assumes "para_inv sv md seen st"
  shows "numbered (ps_chunks (flush md st))" "p \<in> seen \<Longrightarrow> kept sv md p (ps_chunks (flush md st))"
    "current_chunk (flush md st) = []"
  using para_inv_collect[OF assms, of "flush md st"] assms
  by (cases "current_chunk st = []"; auto simp: flush_def para_inv_def)+

lemma para_inv_large:
  assumes "para_inv sv md seen st" "chunk_size sv < int (length (enc sv p))"
  shows "para_inv sv md (insert p seen) (large_paragraph sv md p st)"
proof -
  note f = para_inv_flush[OF assms(1)]
  have img: "chunk_content ` set (ps_chunks (large_paragraph sv md p st)) =
      chunk_content ` set (ps_chunks (flush md st)) \<union> chunk_content ` set (chunk_by_tokens sv p md)"
    by (simp add: large_paragraph_def Let_def contents_image_append_sub)
  have "kept sv md q (ps_chunks (large_paragraph sv md p st))" if "q \<in> seen" for q
    using f(2)[OF that] by (rule kept_mono) (simp add: img)
  moreover have "kept sv md p (ps_chunks (large_paragraph sv md p st))"
    using assms(2) by (simp add: kept_def img)
  moreover have "numbered (ps_chunks (large_paragraph sv md p st))"
    using f(1) by (simp add: large_paragraph_def Let_def numbered_append_sub)
  ultimately show ?thesis by (auto simp: para_inv_def)
qed

lemma para_inv_close:
  assumes "para_inv sv md seen st"
  shows "para_inv sv md seen (close_with_overlap sv md st)"
  using para_inv_collect[OF assms, of "close_with_overlap sv md st"]
  by (auto simp: para_inv_def close_with_overlap_def Let_def)

lemma para_inv_step:
  assumes "para_inv sv md seen st"
  shows "para_inv sv md (insert p seen) (paragraph_step sv md p st)"
proof (cases "chunk_size sv < int (length (enc sv p))")
  case True
  then show ?thesis using para_inv_large[OF assms] by (simp add: paragraph_step_def)
next
  case False
  have add: "para_inv sv md (insert p seen) (s\<lparr>current_chunk := current_chunk s @ [p],
      current_tokens := t, char_position := k\<rparr>)" if "para_inv sv md seen s" for s t k
    using that False by (auto simp: para_inv_def)
  from False assms para_inv_close[OF assms] show ?thesis
    by (auto simp: paragraph_step_def Let_def intro!: add)
qed

lemma para_inv_fold:
  "para_inv sv md seen st \<Longrightarrow> para_inv sv md (seen \<union> set ps) (fold (paragraph_step sv md) ps st)"
proof (induction ps arbitrary: seen st)
  case (Cons p ps)
  have "para_inv sv md (insert p seen \<union> set ps) (fold (paragraph_step sv md) ps (paragraph_step sv md p st))"
    by (rule Cons.IH[OF para_inv_step[OF Cons.prems]])
  then show ?case by simp
qed simp

lemma chunk_by_paragraphs_inv:
  "numbered (chunk_by_paragraphs sv ps md) \<and> (\<forall>p \<in> set ps. kept sv md p (chunk_by_paragraphs sv ps md))"
proof -
  define st where "st = fold (paragraph_step sv md) ps paragraph_start"
  have "para_inv sv md {} (paragraph_start :: 'a para_state)"
    by (simp add: para_inv_def paragraph_start_def numbered_def)
  then have inv: "para_inv sv md (set ps) st"
    unfolding st_def using para_inv_fold[of sv md "{}" paragraph_start ps] by simp
  have "chunk_by_paragraphs sv ps md =
      (if current_chunk st \<noteq> [] then ps_chunks st @ [collected st md] else ps_chunks st)"
    by (simp add: chunk_by_paragraphs_def st_def Let_def)
  then show ?thesis
    using inv para_inv_collect[OF inv, of "st\<lparr>ps_chunks := ps_chunks st @ [collected st md]\<rparr>"]
    by (auto simp: para_inv_def)
qed

text \<open>paragraph chunking numbers its chunks from 0 without a gap and loses no paragraph: one
  that fits into a chunk is part of the content of some chunk, a larger one has every one of
  its token chunks in the result.\<close>

lemma chunk_by_paragraphs_complete:
  "map chunk_index (chunk_by_paragraphs sv ps md) = [0..<length (chunk_by_paragraphs sv ps md)] \<and>
   (\<forall>p \<in> set ps. kept sv md p (chunk_by_paragraphs sv ps md))"
  using chunk_by_paragraphs_inv[of sv ps md] by (simp add: numbered_def)

lemma chunk_by_paragraphs_complete_witness:
  "kept char_service None ''abcdefgh'' (chunk_by_paragraphs char_service [''ab'', ''abcdefgh''] (None :: json option))"
  using chunk_by_paragraphs_complete[of char_service "[''ab'', ''abcdefgh'']" "None :: json option"] by simp

section \<open>Cleaning leaves one paragraph\<close>

lemma sub_runs_keeps: "\<not> P c \<Longrightarrow> c \<in> set s \<Longrightarrow> c \<in> set (sub_runs P k rep s)"
proof (induction P k rep s rule: sub_runs.induct)
  case (2 P k rep d cs)
  show ?case
  proof (cases "P d")
    case True
    then have "c \<in> set cs" using 2 by auto
    then have "c \<in> set (dropWhile P cs)"
      using 2(3) by (induction cs) auto
    with True 2 show ?thesis by (simp add: Let_def)
  next
    case False
    with 2 show ?thesis by auto
  qed
qed simp

lemma sub_runs_removes: "P c \<Longrightarrow> c \<notin> set rep \<Longrightarrow> c \<notin> set (sub_runs P 1 rep s)"
  by (induction P "1 :: nat" rep s rule: sub_runs.induct) (auto simp: Let_def)

lemma sub_runs_none: "\<forall>c \<in> set s. \<not> P c \<Longrightarrow> sub_runs P k rep s = s"
  by (induction s) simp_all

lemma set_strip: "set (strip s) \<subseteq> set s"
proof
  fix c assume "c \<in> set (strip s)"
  then have "c \<in> set (dropWhile is_space s)"
    unfolding strip_def set_rev using set_dropWhileD by fastforce
  then show "c \<in> set s" by (rule set_dropWhileD)
qed

lemma space_newline [simp]: "is_space newline" "newline \<noteq> CHR '' ''"
  by code_simp+

lemma no_newline_clean: "newline \<notin> set (clean_text text)"
proof -
  let ?t = "sub_runs is_space 1 '' '' text"
  have n: "newline \<notin> set ?t" by (rule sub_runs_removes) simp_all
  then have "sub_runs (\<lambda>c. c = newline) 3 [newline, newline] ?t = ?t"
    by (intro sub_runs_none) auto
  with n show ?thesis unfolding clean_text_def using set_strip[of ?t] by auto
qed

lemma clean_ne: "strip text \<noteq> [] \<Longrightarrow> clean_text text \<noteq> []"
proof -
  assume "strip text \<noteq> []"
  then obtain c where c: "c \<in> set text" "\<not> is_space c" by (auto simp: strip_eq_Nil_iff)
  then have "c \<noteq> newline" by auto
  with c have "c \<in> set (sub_runs (\<lambda>c. c = newline) 3 [newline, newline] (sub_runs is_space 1 '' '' text))"
    by (intro sub_runs_keeps) auto
  with c(2) show ?thesis unfolding clean_text_def strip_eq_Nil_iff by blast
qed

lemma split_no_newline: "newline \<notin> set s \<Longrightarrow> split_paras acc s = [rev acc @ s]"
  by (induction s arbitrary: acc) auto

lemma strip_clean: "strip (clean_text text) = clean_text text"
  by (simp add: clean_text_def)

lemma one_paragraph: "strip text \<noteq> [] \<Longrightarrow> split_into_paragraphs (clean_text text) = [clean_text text]"
  using clean_ne[of "text"]
  by (simp add: split_into_paragraphs_def split_no_newline no_newline_clean strip_clean)

fun numbered_from :: "nat \<Rightarrow> 'm chunk list \<Rightarrow> bool" where
  "numbered_from i [] = True"
| "numbered_from i (c # cs) = (chunk_index c = i \<and> numbered_from (Suc i) cs)"

lemma append_sub_renumbered: "numbered_from (length cs) sub \<Longrightarrow> append_sub 0 cs sub = cs @ sub"
  by (induction "0 :: nat" cs sub rule: append_sub.induct) simp_all

lemma chunk_loop_indices: "numbered_from i (chunk_loop sv md tokens a i)"
  by (induction sv md tokens a i rule: chunk_loop.induct)
    (subst chunk_loop.simps, simp add: Let_def)

lemma chunk_text_flat:
  "chunk_text sv text md =
     (if strip text = [] then []
      else
        (let t = clean_text text in
         if int (count_tokens sv t) \<le> chunk_size sv
         then [\<lparr>chunk_content = t, chunk_index = 0, token_count = count_tokens sv t, start_char = 0,
                end_char = length t + 2, chunk_metadata = md\<rparr>]
         else chunk_by_tokens sv t md))"
proof (cases "strip text = []")
  case False
  define t where "t = clean_text text"
  have "append_sub 0 [] (chunk_by_tokens sv t md) = chunk_by_tokens sv t md"
    using append_sub_renumbered[of "[]"] chunk_loop_indices[of 0 sv md "enc sv t" 0]
    by (simp add: chunk_by_tokens_def)
  with False show ?thesis
    unfolding chunk_text_def Let_def t_def[symmetric] one_paragraph[OF False, folded t_def]
    by (simp add: chunk_by_paragraphs_def paragraph_start_def paragraph_step_def Let_def count_tokens_def
        large_paragraph_def flush_def collected_def)
qed (simp add: chunk_text_def)

text \<open>the paragraph step of \<open>chunk_text\<close> has no effect: cleaning leaves no newline, so there is
  exactly one paragraph, and the result is one chunk with the whole cleaned text when it fits
  (with an end two characters past the text) and its token chunks otherwise.\<close>

lemma chunk_text_never_splits_paragraphs:
  "chunk_text sv text md =
     (if strip text = [] then []
      else
        (let t = clean_text text in
         if int (count_tokens sv t) \<le> chunk_size sv
         then [\<lparr>chunk_content = t, chunk_index = 0, token_count = count_tokens sv t, start_char = 0,
                end_char = length t + 2, chunk_metadata = md\<rparr>]
         else chunk_by_tokens sv t md))"
  by (rule chunk_text_flat)

end
