(* ===== verification/UnionFind.thy ===== *)
theory UnionFind
  imports Prelude
begin

text \<open>
  The class \<open>UnionFind\<close> of \<open>webflow_cms/services/duplicate_bills.py\<close>: a forest of parent links
  with path compression and union by rank. \<open>find\<close> follows the links, which would not end on a
  cycle: it is a partial function, and on the forests the operations build it is proved to
  return. The abstract state is the partition into the trees of the forest.
\<close>

section \<open>Operations\<close>

record 'a uf =
  parent :: "'a \<rightharpoonup> 'a"
  rank :: "'a \<rightharpoonup> nat"

definition uf_empty :: "'a uf" where
  "uf_empty = \<lparr>parent = Map.empty, rank = Map.empty\<rparr>"

definition add_node :: "'a \<Rightarrow> 'a uf \<Rightarrow> 'a uf" where
  "add_node x uf =
     (if parent uf x = None
      then uf\<lparr>parent := (parent uf)(x \<mapsto> x), rank := (rank uf)(x \<mapsto> 0)\<rparr> else uf)"

text \<open>\<open>None\<close>: the recursion does not end.\<close>

partial_function (option) uf_find :: "'a \<Rightarrow> 'a uf \<Rightarrow> ('a \<times> 'a uf) option" where
  "uf_find x uf =
     (let uf = add_node x uf in
      case parent uf x of
        None \<Rightarrow> Some (x, uf)
      | Some p \<Rightarrow>
          if p = x then Some (x, uf)
          else
            Option.bind (uf_find p uf) (\<lambda>(r, uf).
              Some (r, uf\<lparr>parent := (parent uf)(x \<mapsto> r)\<rparr>)))"

definition rank_of :: "'a uf \<Rightarrow> 'a \<Rightarrow> nat" where
  "rank_of uf x = (case rank uf x of None \<Rightarrow> 0 | Some n \<Rightarrow> n)"

text \<open>The link of two different roots.\<close>

definition link :: "'a \<Rightarrow> 'a \<Rightarrow> 'a uf \<Rightarrow> 'a uf" where
  "link px py uf =
     (let (px, py) = (if rank_of uf px < rank_of uf py then (py, px) else (px, py));
          uf = uf\<lparr>parent := (parent uf)(py \<mapsto> px)\<rparr> in
      if rank_of uf px = rank_of uf py then uf\<lparr>rank := (rank uf)(px \<mapsto> rank_of uf px + 1)\<rparr> else uf)"

definition uf_union :: "'a \<Rightarrow> 'a \<Rightarrow> 'a uf \<Rightarrow> 'a uf option" where
  "uf_union x y uf =
     (case uf_find x uf of
        None \<Rightarrow> None
      | Some (px, uf) \<Rightarrow>
          (case uf_find y uf of
             None \<Rightarrow> None
           | Some (py, uf) \<Rightarrow> Some (if px = py then uf else link px py uf)))"

section \<open>Forests\<close>

text \<open>The root of a node: the end of its chain of parents.\<close>

inductive root_of :: "'a uf \<Rightarrow> 'a \<Rightarrow> 'a \<Rightarrow> bool" for uf where
  root: "parent uf x = Some x \<Longrightarrow> root_of uf x x"
| step: "parent uf x = Some p \<Longrightarrow> p \<noteq> x \<Longrightarrow> root_of uf p r \<Longrightarrow> root_of uf x r"

inductive_cases root_ofE: "root_of uf x r"

text \<open>Ranks grow along the links, so there is no cycle.\<close>

definition forest :: "'a uf \<Rightarrow> bool" where
  "forest uf \<longleftrightarrow> finite (dom (parent uf)) \<and> dom (rank uf) = dom (parent uf) \<and>
     (\<forall>x p. parent uf x = Some p \<longrightarrow> p \<in> dom (parent uf) \<and> (p \<noteq> x \<longrightarrow> rank_of uf x < rank_of uf p))"

lemma forestD:
  "forest uf \<Longrightarrow> parent uf x = Some p \<Longrightarrow> p \<in> dom (parent uf)"
  "forest uf \<Longrightarrow> parent uf x = Some p \<Longrightarrow> p \<noteq> x \<Longrightarrow> rank_of uf x < rank_of uf p"
  by (auto simp: forest_def)

lemma forest_empty: "forest uf_empty"
  by (simp add: forest_def uf_empty_def)

lemma root_of_unique: "root_of uf x r \<Longrightarrow> root_of uf x s \<Longrightarrow> r = s"
proof (induction arbitrary: s rule: root_of.induct)
  case (root x)
  from root(2,1) show ?case by cases simp_all
next
  case (step x p r)
  from step(5,1,2) step.IH show ?case by cases simp_all
qed

lemma root_of_iff: "root_of uf a r \<Longrightarrow> root_of uf a s \<longleftrightarrow> s = r"
  by (metis root_of_unique)

lemma root_of_root: "root_of uf x r \<Longrightarrow> parent uf r = Some r"
  by (induction rule: root_of.induct) auto

lemma root_of_self: "root_of uf x r \<Longrightarrow> root_of uf r r"
  by (simp add: root_of.root root_of_root)

lemma root_of_dom: "root_of uf x r \<Longrightarrow> x \<in> dom (parent uf) \<and> r \<in> dom (parent uf)"
  by (induction rule: root_of.induct) auto

lemma root_of_rank: "forest uf \<Longrightarrow> root_of uf x r \<Longrightarrow> x \<noteq> r \<Longrightarrow> rank_of uf x < rank_of uf r"
proof (rotate_tac 1, induction rule: root_of.induct)
  case (step x p r)
  have "rank_of uf x < rank_of uf p" using forestD(2)[OF _ step(1,2)] step.prems by blast
  moreover have "rank_of uf p \<le> rank_of uf r"
    using step.IH step.prems by (cases "p = r") auto
  ultimately show ?case by simp
qed simp

lemma forest_bounded: "forest uf \<Longrightarrow> \<exists>k. \<forall>x \<in> dom (parent uf). rank_of uf x \<le> k"
  using finite_nat_set_iff_bounded_le[of "rank_of uf ` dom (parent uf)"] by (auto simp: forest_def)

lemma root_of_ex:
  assumes "forest uf" "x \<in> dom (parent uf)"
  shows "\<exists>r. root_of uf x r"
proof -
  obtain k where k: "\<forall>x \<in> dom (parent uf). rank_of uf x \<le> k" using forest_bounded[OF assms(1)] by blast
  from assms(2) show ?thesis
  proof (induction "k - rank_of uf x" arbitrary: x rule: less_induct)
    case less
    then obtain p where p: "parent uf x = Some p" by auto
    show ?case
    proof (cases "p = x")
      case False
      have "p \<in> dom (parent uf)" "rank_of uf x < rank_of uf p"
        using forestD[OF assms(1) p] False by auto
      moreover have "rank_of uf p \<le> k" using k calculation(1) by blast
      ultimately have "\<exists>r. root_of uf p r" by (intro less.hyps) auto
      with p False show ?thesis by (auto intro: root_of.step)
    qed (use p in \<open>auto intro: root_of.root\<close>)
  qed
qed

section \<open>Adding a node and compressing a path keep the partition\<close>

lemma add_node_dom [simp]: "dom (parent (add_node x uf)) = insert x (dom (parent uf))"
  by (auto simp: add_node_def)

lemma add_node_forest: "forest uf \<Longrightarrow> forest (add_node x uf)"
  by (auto simp: add_node_def forest_def rank_of_def split: if_splits option.splits)

lemma add_node_old: "x \<in> dom (parent uf) \<Longrightarrow> add_node x uf = uf"
  by (auto simp: add_node_def)

lemma root_of_add_node:
  assumes "forest uf"
  shows "root_of (add_node x uf) z r \<longleftrightarrow>
    root_of uf z r \<or> z = x \<and> r = x \<and> x \<notin> dom (parent uf)"
proof (cases "parent uf x")
  case (Some p)
  then show ?thesis by (auto simp: add_node_def)
next
  case None
  have "root_of (add_node x uf) z r \<Longrightarrow> root_of uf z r \<or> z = x \<and> r = x"
    by (induction rule: root_of.induct)
      (use None forestD(1)[OF assms] in \<open>auto simp: add_node_def intro: root_of.intros split: if_splits\<close>)
  moreover have "root_of uf z r \<Longrightarrow> root_of (add_node x uf) z r"
  proof (induction rule: root_of.induct)
    case (root y)
    then show ?case using None by (intro root_of.root) (auto simp: add_node_def)
  next
    case (step y p r)
    then have "parent (add_node x uf) y = Some p" using None by (auto simp: add_node_def)
    from root_of.step[OF this step(2,4)] show ?case .
  qed
  moreover have "root_of (add_node x uf) x x" using None by (intro root_of.root) (simp add: add_node_def)
  ultimately show ?thesis using None by auto
qed

abbreviation set_parent :: "'a \<Rightarrow> 'a \<Rightarrow> 'a uf \<Rightarrow> 'a uf" where
  "set_parent x r uf \<equiv> uf\<lparr>parent := (parent uf)(x \<mapsto> r)\<rparr>"

lemma compress_forest:
  assumes "forest uf" "root_of uf x r"
  shows "forest (set_parent x r uf)"
proof -
  have r: "r \<in> dom (parent uf)" "x \<in> dom (parent uf)" using root_of_dom[OF assms(2)] by auto
  then have d: "dom (parent (set_parent x r uf)) = dom (parent uf)"
    by (simp add: insert_absorb)
  have k: "rank_of (set_parent x r uf) = rank_of uf" by (rule ext) (simp add: rank_of_def)
  show ?thesis
    unfolding forest_def d k
  proof (intro conjI allI impI)
    fix z p assume z: "parent (set_parent x r uf) z = Some p"
    show "p \<in> dom (parent uf)"
      using z r forestD(1)[OF assms(1), of z p] by (cases "z = x") auto
    show "rank_of uf z < rank_of uf p" if "p \<noteq> z"
      using z that root_of_rank[OF assms] forestD(2)[OF assms(1), of z p] by (cases "z = x") auto
  qed (use assms(1) in \<open>auto simp: forest_def\<close>)
qed

lemma compress_roots:
  assumes "forest uf" "root_of uf x r" "x \<noteq> r"
  shows "root_of (set_parent x r uf) z s \<longleftrightarrow> root_of uf z s"
proof -
  let ?uf = "set_parent x r uf"
  have r: "root_of ?uf r r" using root_of_root[OF assms(2)] assms(3) by (intro root_of.root) simp
  have x: "root_of ?uf x r" by (rule root_of.step[OF _ _ r]) (use assms(3) in auto)
  have keep: "root_of uf z s \<Longrightarrow> root_of ?uf z s" for z s
  proof (induction rule: root_of.induct)
    case (root y)
    have "y \<noteq> x"
    proof
      assume "y = x"
      then have "root_of uf x x" using root by (intro root_of.root) simp
      then show False using root_of_unique[OF assms(2)] assms(3) by simp
    qed
    with root show ?case by (intro root_of.root) simp
  next
    case (step y p s)
    show ?case
    proof (cases "y = x")
      case True
      have "root_of uf x s" using root_of.step[OF step(1,2,3)] True by simp
      then have "s = r" using root_of_unique[OF assms(2)] by blast
      then show ?thesis using x by (simp only: True)
    next
      case False
      then have "parent ?uf y = Some p" using step(1) by simp
      from root_of.step[OF this step(2,4)] show ?thesis .
    qed
  qed
  show ?thesis
  proof
    assume s: "root_of ?uf z s"
    have "z \<in> dom (parent uf)" using root_of_dom[OF s] root_of_dom[OF assms(2)] by auto
    then obtain t where t: "root_of uf z t" using root_of_ex[OF assms(1)] by blast
    with keep[OF t] s have "s = t" by (simp add: root_of_unique)
    with t show "root_of uf z s" by simp
  qed (rule keep)
qed

section \<open>find\<close>

text \<open>\<open>find\<close> returns the root and changes neither the roots nor the ranks.\<close>

lemma uf_find_known:
  assumes "root_of uf x r" "forest uf"
  shows "\<exists>uf'. uf_find x uf = Some (r, uf') \<and> forest uf' \<and> dom (parent uf') = dom (parent uf) \<and>
    (\<forall>z s. root_of uf' z s \<longleftrightarrow> root_of uf z s)"
  using assms
proof (induction rule: root_of.induct)
  case (root x)
  then show ?case
    by (subst uf_find.simps) (auto simp: add_node_old domI Let_def)
next
  case (step x p r)
  obtain uf' where IH: "uf_find p uf = Some (r, uf')" "forest uf'" "dom (parent uf') = dom (parent uf)"
      "\<forall>z s. root_of uf' z s \<longleftrightarrow> root_of uf z s" using step by blast
  have x: "root_of uf' x r" using IH(4) root_of.step[OF step(1,2,3)] by blast
  have ne: "x \<noteq> r" using root_of_root[OF step(3)] step(1,2) by auto
  have "uf_find x uf = Some (r, set_parent x r uf')"
    using step(1,2) IH(1) by (subst uf_find.simps) (simp add: add_node_old domI Let_def)
  moreover have "dom (parent (set_parent x r uf')) = dom (parent uf)"
    using IH(3) step(1) by auto
  ultimately show ?case
    using compress_forest[OF IH(2) x] compress_roots[OF IH(2) x ne] IH(4) by auto
qed

lemma uf_find_adds: "uf_find x uf = uf_find x (add_node x uf)"
proof -
  have "add_node x (add_node x uf) = add_node x uf" by (rule add_node_old) simp
  then show ?thesis by (subst (1 2) uf_find.simps) simp
qed

lemma uf_find_total:
  assumes "forest uf"
  shows "\<exists>r uf'. uf_find x uf = Some (r, uf') \<and> forest uf' \<and> root_of uf' x r \<and>
    dom (parent uf') = insert x (dom (parent uf)) \<and>
    (\<forall>z s. root_of uf' z s \<longleftrightarrow> root_of (add_node x uf) z s)"
proof -
  note f = add_node_forest[OF assms, of x]
  obtain r where r: "root_of (add_node x uf) x r" using root_of_ex[OF f, of x] by auto
  from uf_find_known[OF r f] r show ?thesis
    unfolding uf_find_adds[of x uf] by auto
qed

section \<open>Linking two roots merges two trees\<close>

lemma root_of_parent: "parent uf' = parent uf \<Longrightarrow> root_of uf' z s \<longleftrightarrow> root_of uf z s"
proof -
  have "root_of a z s \<Longrightarrow> parent b = parent a \<Longrightarrow> root_of b z s" for a b :: "'a uf"
  proof (induction rule: root_of.induct)
    case (step x p r)
    then show ?case by (intro root_of.step[of b x p r]) simp_all
  qed (simp add: root_of.root)
  then show "parent uf' = parent uf \<Longrightarrow> root_of uf' z s \<longleftrightarrow> root_of uf z s" by metis
qed

lemma hang_roots:
  assumes "forest uf" "root_of uf w w" "root_of uf l l" "w \<noteq> l"
  shows "root_of (set_parent l w uf) z s \<longleftrightarrow> (if root_of uf z l then s = w else root_of uf z s)"
proof -
  let ?uf = "set_parent l w uf"
  have w: "root_of ?uf w w" using root_of_root[OF assms(2)] assms(4) by (intro root_of.root) simp
  have l: "root_of ?uf l w" by (rule root_of.step[OF _ _ w]) (use assms(4) in auto)
  have keep: "root_of uf z t \<Longrightarrow> root_of ?uf z (if t = l then w else t)" for z t
  proof (induction rule: root_of.induct)
    case (root y)
    show ?case
    proof (cases "y = l")
      case True
      show ?thesis unfolding True if_P[OF refl] by (rule l)
    next
      case False
      then show ?thesis using root by (simp add: root_of.root)
    qed
  next
    case (step y p t)
    have "y \<noteq> l" using step(1,2) root_of_root[OF assms(3)] by auto
    then have "parent ?uf y = Some p" using step(1) by simp
    from root_of.step[OF this step(2,4)] show ?case .
  qed
  show ?thesis
  proof (cases "z \<in> dom (parent uf)")
    case True
    then obtain t where t: "root_of uf z t" using root_of_ex[OF assms(1)] by blast
    note k = root_of_iff[OF keep[OF t]]
    show ?thesis unfolding k root_of_iff[OF t] by simp
  next
    case False
    then have "\<not> root_of ?uf z s" "\<not> root_of uf z s" "\<not> root_of uf z l"
      using root_of_dom[of ?uf z s] root_of_dom[of uf z] root_of_dom[OF assms(3)] by auto
    then show ?thesis by simp
  qed
qed

lemma link_parent:
  "parent (link px py uf) =
     (if rank_of uf px < rank_of uf py then (parent uf)(px \<mapsto> py) else (parent uf)(py \<mapsto> px))"
  by (simp add: link_def Let_def)

lemma hang_forest:
  assumes "forest uf" "parent uf w = Some w" "parent uf l = Some l" "w \<noteq> l"
    "parent uf' = (parent uf)(l \<mapsto> w)" "dom (rank uf') = dom (parent uf)"
    "\<And>z. rank_of uf' z = (if z = w then k else rank_of uf z)" "rank_of uf w \<le> k" "rank_of uf l < k"
  shows "forest uf'"
proof -
  have d: "dom (parent uf') = dom (parent uf)" using assms(3,5) by (auto simp: insert_absorb)
  show ?thesis
    unfolding forest_def d
  proof (intro conjI allI impI)
    fix z p assume z: "parent uf' z = Some p"
    show "p \<in> dom (parent uf)"
      using z assms(2,5) forestD(1)[OF assms(1), of z p] by (cases "z = l") auto
    assume "p \<noteq> z"
    show "rank_of uf' z < rank_of uf' p"
    proof (cases "z = l")
      case True
      then have "p = w" using z assms(5) by simp
      with True assms(4,7,9) show ?thesis by simp
    next
      case False
      then have p: "parent uf z = Some p" using z assms(5) by simp
      with \<open>p \<noteq> z\<close> assms(2) have "z \<noteq> w" by auto
      moreover have "rank_of uf z < rank_of uf p" using forestD(2)[OF assms(1) p \<open>p \<noteq> z\<close>] .
      ultimately show ?thesis using assms(7,8) by auto
    qed
  qed (use assms(1,6) in \<open>auto simp: forest_def\<close>)
qed

lemma link_forest:
  assumes "forest uf" "root_of uf px px" "root_of uf py py" "px \<noteq> py"
  shows "forest (link px py uf)"
proof -
  have p: "parent uf px = Some px" "parent uf py = Some py"
    using root_of_root[OF assms(2)] root_of_root[OF assms(3)] by simp_all
  have d: "dom (rank uf) = dom (parent uf)" using assms(1) by (simp add: forest_def)
  have k: "rank_of (set_parent l w uf) z = rank_of uf z" for z w l by (simp add: rank_of_def)
  consider "rank_of uf px < rank_of uf py" | "rank_of uf px = rank_of uf py" | "rank_of uf py < rank_of uf px"
    by linarith
  then show ?thesis
  proof cases
    case 1
    then have "link px py uf = set_parent px py uf" by (simp add: link_def k)
    then show ?thesis
      using 1 assms(4) d by (intro hang_forest[OF assms(1) p(2,1), of _ "rank_of uf py"]) (simp_all add: k)
  next
    case 2
    then have l: "link px py uf = (set_parent py px uf)\<lparr>rank := (rank uf)(px \<mapsto> rank_of uf px + 1)\<rparr>"
      by (simp add: link_def k Let_def)
    show ?thesis
      unfolding l using 2 assms(4) d p
      by (intro hang_forest[OF assms(1) p, of _ "rank_of uf px + 1"]) (auto simp: rank_of_def)
  next
    case 3
    then have "link px py uf = set_parent py px uf" by (simp add: link_def k)
    then show ?thesis
      using 3 assms(4) d by (intro hang_forest[OF assms(1) p, of _ "rank_of uf px"]) (simp_all add: k)
  qed
qed

section \<open>The partition\<close>

text \<open>Two nodes are in the same class: they have the same root.\<close>

definition same :: "'a uf \<Rightarrow> 'a \<Rightarrow> 'a \<Rightarrow> bool" where
  "same uf a b \<longleftrightarrow> (\<exists>r. root_of uf a r \<and> root_of uf b r)"

definition nodes :: "'a uf \<Rightarrow> 'a set" where
  "nodes uf = dom (parent uf)"

lemma root_of_none: "a \<notin> nodes uf \<Longrightarrow> \<not> root_of uf a s"
  using root_of_dom[of uf a s] by (auto simp: nodes_def)

lemma root_of_node: "forest uf \<Longrightarrow> a \<in> nodes uf \<Longrightarrow> \<exists>r. root_of uf a r"
  unfolding nodes_def by (rule root_of_ex)

lemma same_nodes: "same uf a b \<Longrightarrow> a \<in> nodes uf \<and> b \<in> nodes uf"
  using root_of_none by (fastforce simp: same_def)

lemma same_root: "root_of uf a r \<Longrightarrow> root_of uf b s \<Longrightarrow> same uf a b \<longleftrightarrow> r = s"
  unfolding same_def by (auto simp: root_of_iff)

lemma same_sym: "same uf a b \<Longrightarrow> same uf b a"
  by (auto simp: same_def)

lemma same_trans: "same uf a b \<Longrightarrow> same uf b c \<Longrightarrow> same uf a c"
  unfolding same_def by (metis root_of_unique)

lemma same_refl: "forest uf \<Longrightarrow> a \<in> nodes uf \<Longrightarrow> same uf a a"
  unfolding same_def using root_of_node[of uf a] by simp

lemma swap_roots:
  "w \<noteq> l \<Longrightarrow> ((if ra = l then w else ra) = (if rb = l then w else rb)) =
     (ra = rb \<or> ra = w \<and> rb = l \<or> ra = l \<and> rb = w)"
  by (cases "ra = l"; cases "rb = l") auto

lemma same_hang:
  assumes "forest uf" "parent uf' = (parent uf)(l \<mapsto> w)" "root_of uf w w" "root_of uf l l" "w \<noteq> l"
  shows "same uf' a b \<longleftrightarrow> same uf a b \<or> same uf a w \<and> same uf b l \<or> same uf a l \<and> same uf b w"
proof -
  have r: "root_of uf' z s \<longleftrightarrow> (if root_of uf z l then s = w else root_of uf z s)" for z s
    using hang_roots[OF assms(1,3-5)] root_of_parent[of uf' "set_parent l w uf"] assms(2) by simp
  show ?thesis
  proof (cases "a \<in> nodes uf \<and> b \<in> nodes uf")
    case True
    then obtain ra rb where ab: "root_of uf a ra" "root_of uf b rb" using root_of_node[OF assms(1)] by blast
    have "same uf' a b \<longleftrightarrow> (if ra = l then w else ra) = (if rb = l then w else rb)"
      unfolding same_def r root_of_iff[OF ab(1)] root_of_iff[OF ab(2)] by auto
    then show ?thesis
      unfolding same_root[OF ab] same_root[OF ab(1) assms(3)] same_root[OF ab(1) assms(4)]
        same_root[OF ab(2) assms(3)] same_root[OF ab(2) assms(4)]
      by (simp only: swap_roots[OF assms(5)])
  next
    case False
    then have "\<not> same uf' a b" unfolding same_def r by (auto simp: root_of_none)
    with False same_nodes show ?thesis by metis
  qed
qed

lemma same_link:
  assumes "forest uf" "root_of uf px px" "root_of uf py py" "px \<noteq> py"
  shows "same (link px py uf) a b \<longleftrightarrow>
    same uf a b \<or> same uf a px \<and> same uf b py \<or> same uf a py \<and> same uf b px"
proof (cases "rank_of uf px < rank_of uf py")
  case True
  then have "parent (link px py uf) = (parent uf)(px \<mapsto> py)" by (simp add: link_parent)
  from same_hang[OF assms(1) this assms(3,2)] assms(4) show ?thesis by blast
next
  case False
  then have "parent (link px py uf) = (parent uf)(py \<mapsto> px)" by (simp add: link_parent)
  from same_hang[OF assms(1) this assms(2,3,4)] show ?thesis by blast
qed

lemma same_add_node:
  assumes "forest uf"
  shows "same (add_node x uf) a b \<longleftrightarrow> same uf a b \<or> a = x \<and> b = x"
proof (cases "x \<in> nodes uf")
  case True
  then show ?thesis using same_refl[OF assms True] by (auto simp: add_node_old nodes_def)
next
  case False
  then have "x \<notin> dom (parent uf)" by (simp add: nodes_def)
  then show ?thesis
    unfolding same_def root_of_add_node[OF assms] using root_of_none[OF False]
    by (auto dest: root_of_dom)
qed

section \<open>The contract and its use\<close>

text \<open>What a caller needs: the unions of a list of pairs, and the representatives of a list.\<close>

fun union_pairs :: "('a \<Rightarrow> 'a \<Rightarrow> 's \<Rightarrow> 's option) \<Rightarrow> ('a \<times> 'a) list \<Rightarrow> 's \<Rightarrow> 's option" where
  "union_pairs un [] s = Some s"
| "union_pairs un ((x, y) # ps) s =
     (case un x y s of None \<Rightarrow> None | Some s' \<Rightarrow> union_pairs un ps s')"

fun find_each :: "('a \<Rightarrow> 's \<Rightarrow> ('a \<times> 's) option) \<Rightarrow> 'a list \<Rightarrow> 's \<Rightarrow> 'a list option" where
  "find_each fnd [] s = Some []"
| "find_each fnd (x # xs) s =
     (case fnd x s of
        None \<Rightarrow> None
      | Some (r, s') \<Rightarrow>
          (case find_each fnd xs s' of None \<Rightarrow> None | Some rs \<Rightarrow> Some (r # rs)))"

lemma equivclp_insert:
  "equivclp (\<lambda>a b. R a b \<or> a = x \<and> b = y) a b \<longleftrightarrow>
     equivclp R a b \<or> equivclp R a x \<and> equivclp R y b \<or> equivclp R a y \<and> equivclp R x b"
  (is "equivclp ?R a b \<longleftrightarrow> ?Q b")
proof
  have tr: "equivclp R b c" if "R b c \<or> R c b" for b c
    using that by (auto intro: r_into_equivclp converse_r_into_equivclp)
  assume "equivclp ?R a b"
  then show "?Q b"
  proof (induction rule: equivclp_induct)
    case (step b c)
    show ?case
    proof (cases "R b c \<or> R c b")
      case True
      from step.IH tr[OF True] show ?thesis by (meson equivclp_trans)
    next
      case False
      with step(2) have "b = x \<and> c = y \<or> b = y \<and> c = x" by blast
      with step.IH show ?thesis by (meson equivclp_refl equivclp_sym equivclp_trans)
    qed
  qed simp
next
  have m: "equivclp R b c \<Longrightarrow> equivclp ?R b c" for b c
    by (induction rule: equivclp_induct) (auto intro: equivclp_trans r_into_equivclp converse_r_into_equivclp)
  have xy: "equivclp ?R x y" "equivclp ?R y x" by (auto intro: r_into_equivclp converse_r_into_equivclp)
  assume "?Q b"
  then show "equivclp ?R a b" using m xy by (meson equivclp_trans)
qed

lemma equivclp_none: "equivclp (\<lambda>a b. False) a b \<longleftrightarrow> a = b"
proof
  show "equivclp (\<lambda>a b. False) a b \<Longrightarrow> a = b" by (induction rule: equivclp_induct) simp_all
qed simp

locale disjoint_sets =
  fixes inv :: "'s \<Rightarrow> bool" and rep :: "'s \<Rightarrow> 'a \<Rightarrow> 'a \<Rightarrow> bool"
    and fnd :: "'a \<Rightarrow> 's \<Rightarrow> ('a \<times> 's) option" and un :: "'a \<Rightarrow> 'a \<Rightarrow> 's \<Rightarrow> 's option"
    and related :: "'s \<Rightarrow> 'a \<Rightarrow> 'a \<Rightarrow> bool"
  assumes related_rep: "inv s \<Longrightarrow> rep s a r \<Longrightarrow> rep s b q \<Longrightarrow> related s a b \<longleftrightarrow> r = q"
    and find_law: "inv s \<Longrightarrow> \<exists>r s'. fnd x s = Some (r, s') \<and> inv s' \<and> rep s' x r \<and>
      (\<forall>a b. related s' a b = related s a b) \<and> (\<forall>a q. rep s a q \<longrightarrow> rep s' a q)"
    and union_law: "inv s \<Longrightarrow> \<exists>s'. un x y s = Some s' \<and> inv s' \<and>
      (\<forall>a b. related s' a b \<longleftrightarrow>
         related s a b \<or> related s a x \<and> related s y b \<or> related s a y \<and> related s x b)"
begin

lemma union_pairs_closure:
  assumes "inv s" "related s = equivclp R"
  shows "\<exists>s'. union_pairs un ps s = Some s' \<and> inv s' \<and>
    related s' = equivclp (\<lambda>a b. R a b \<or> (a, b) \<in> set ps)"
  using assms
proof (induction ps arbitrary: s R)
  case (Cons p ps)
  obtain x y where p: "p = (x, y)" by (cases p)
  obtain s' where s': "un x y s = Some s'" "inv s'" and
      r: "\<forall>a b. related s' a b \<longleftrightarrow>
         related s a b \<or> related s a x \<and> related s y b \<or> related s a y \<and> related s x b"
    using union_law[OF Cons.prems(1)] by blast
  have "related s' = equivclp (\<lambda>a b. R a b \<or> a = x \<and> b = y)"
    by (intro ext) (simp only: r Cons.prems(2) equivclp_insert)
  from Cons.IH[OF s'(2) this] show ?case
    using s'(1) by (auto simp: p disj_assoc)
qed simp

lemma find_each_groups:
  assumes "inv s"
  shows "\<exists>rs. find_each fnd xs s = Some rs \<and> length rs = length xs \<and>
    (\<exists>s'. inv s' \<and> related s' = related s \<and> (\<forall>a q. rep s a q \<longrightarrow> rep s' a q) \<and> list_all2 (rep s') xs rs)"
  using assms
proof (induction xs arbitrary: s)
  case (Cons x xs)
  obtain r s1 where s1: "fnd x s = Some (r, s1)" "inv s1" "rep s1 x r"
      "\<forall>a b. related s1 a b = related s a b" "\<forall>a q. rep s a q \<longrightarrow> rep s1 a q"
    using find_law[OF Cons.prems] by blast
  obtain rs s' where IH: "find_each fnd xs s1 = Some rs" "length rs = length xs" "inv s'"
      "related s' = related s1" "\<forall>a q. rep s1 a q \<longrightarrow> rep s' a q" "list_all2 (rep s') xs rs"
    using Cons.IH[OF s1(2)] by blast
  have "related s1 = related s" using s1(4) by blast
  with s1 IH show ?case by (intro exI[of _ "r # rs"] conjI exI[of _ s']) auto
qed (auto intro: exI[of _ s])

text \<open>After the unions, two elements get the same representative iff a chain of pairs joins them.\<close>

lemma classes_of_pairs:
  assumes "inv s" "related s = (=)"
  shows "\<exists>s' rs. union_pairs un ps s = Some s' \<and> find_each fnd xs s' = Some rs \<and>
    length rs = length xs \<and>
    (\<forall>i < length xs. \<forall>j < length xs.
       rs ! i = rs ! j \<longleftrightarrow> equivclp (\<lambda>a b. (a, b) \<in> set ps) (xs ! i) (xs ! j))"
proof -
  have "related s = equivclp (\<lambda>a b. False)"
    unfolding assms(2) by (intro ext) (simp only: equivclp_none)
  from union_pairs_closure[OF assms(1) this] obtain s' where
    s': "union_pairs un ps s = Some s'" "inv s'" "related s' = equivclp (\<lambda>a b. (a, b) \<in> set ps)"
    by auto
  obtain rs s'' where rs: "find_each fnd xs s' = Some rs" "length rs = length xs" "inv s''"
      "related s'' = related s'" "list_all2 (rep s'') xs rs"
    using find_each_groups[OF s'(2), of xs] by blast
  have "rs ! i = rs ! j \<longleftrightarrow> equivclp (\<lambda>a b. (a, b) \<in> set ps) (xs ! i) (xs ! j)"
    if "i < length xs" "j < length xs" for i j
    using related_rep[OF rs(3) list_all2_nthD[OF rs(5) that(1)] list_all2_nthD[OF rs(5) that(2)]]
    unfolding rs(4) s'(3) by simp
  with s'(1) rs(1,2) show ?thesis by blast
qed

end

section \<open>The forest keeps the contract\<close>

lemma find_correct:
  assumes "forest uf"
  shows "\<exists>r uf'. uf_find x uf = Some (r, uf') \<and> forest uf' \<and> root_of uf' x r \<and>
    (\<forall>a b. same uf' a b \<longleftrightarrow> same uf a b \<or> a = x \<and> b = x) \<and>
    (\<forall>a q. root_of uf a q \<longrightarrow> root_of uf' a q)"
proof -
  obtain r uf' where uf': "uf_find x uf = Some (r, uf')" "forest uf'" "root_of uf' x r"
      and k: "\<forall>z s. root_of uf' z s \<longleftrightarrow> root_of (add_node x uf) z s"
    using uf_find_total[OF assms, of x] by blast
  have "same uf' = same (add_node x uf)" by (intro ext) (simp add: same_def k)
  moreover have "\<forall>a q. root_of uf a q \<longrightarrow> root_of uf' a q"
    by (simp add: k root_of_add_node[OF assms])
  ultimately show ?thesis
    using uf' by (auto simp: same_add_node[OF assms])
qed

lemma union_correct:
  assumes "forest uf"
  shows "\<exists>uf'. uf_union x y uf = Some uf' \<and> forest uf' \<and> same uf' x y \<and>
    (\<forall>a b. same uf' a b \<or> a = b \<longleftrightarrow>
       (same uf a b \<or> a = b) \<or> (same uf a x \<or> a = x) \<and> (same uf y b \<or> y = b) \<or>
       (same uf a y \<or> a = y) \<and> (same uf x b \<or> x = b))"
proof -
  obtain px u1 where 1: "uf_find x uf = Some (px, u1)" "forest u1" "root_of u1 x px"
      and s1: "\<And>a b. same u1 a b \<longleftrightarrow> same uf a b \<or> a = x \<and> b = x"
    using find_correct[OF assms, of x] by blast
  obtain py u2 where 2: "uf_find y u1 = Some (py, u2)" "forest u2" "root_of u2 y py"
      and s2: "\<And>a b. same u2 a b \<longleftrightarrow> same u1 a b \<or> a = y \<and> b = y"
      and k2: "\<And>a q. root_of u1 a q \<Longrightarrow> root_of u2 a q"
    using find_correct[OF 1(2), of y] by blast
  note x2 = k2[OF 1(3)]
  define u3 where "u3 = (if px = py then u2 else link px py u2)"
  have un: "uf_union x y uf = Some u3" using 1(1) 2(1) by (simp add: uf_union_def u3_def)
  have f: "forest u3"
    using 2(2) link_forest[OF 2(2) root_of_self[OF x2] root_of_self[OF 2(3)]] by (simp add: u3_def)
  have same_rep: "same u2 a r \<longleftrightarrow> same u2 a z" if "root_of u2 z r" for a z r
  proof -
    have "same u2 z r" using same_root[OF that root_of_self[OF that]] by simp
    then show ?thesis using same_sym same_trans by metis
  qed
  note pxy = same_rep[OF x2] same_rep[OF 2(3)]
  have s3: "same u3 a b \<longleftrightarrow> same u2 a b \<or> same u2 a x \<and> same u2 y b \<or> same u2 a y \<and> same u2 x b" for a b
  proof (cases "px = py")
    case True
    then have "same u2 x y" using same_root[OF x2 2(3)] by simp
    then show ?thesis using True by (simp add: u3_def) (meson same_sym same_trans)
  next
    case False
    have "same u3 a b \<longleftrightarrow> same u2 a b \<or> same u2 a px \<and> same u2 b py \<or> same u2 a py \<and> same u2 b px"
      using same_link[OF 2(2) root_of_self[OF x2] root_of_self[OF 2(3)] False] False by (simp add: u3_def)
    then show ?thesis unfolding pxy by (meson same_sym)
  qed
  have "same u3 x y" unfolding s3 s2 s1 by blast
  moreover have "same u3 a b \<or> a = b \<longleftrightarrow>
       (same uf a b \<or> a = b) \<or> (same uf a x \<or> a = x) \<and> (same uf y b \<or> y = b) \<or>
       (same uf a y \<or> a = y) \<and> (same uf x b \<or> x = b)" for a b
    unfolding s3 s2 s1 using same_sym same_trans by metis
  ultimately show ?thesis using un f by blast
qed

interpretation uf: disjoint_sets forest root_of uf_find uf_union "\<lambda>uf a b. same uf a b \<or> a = b"
proof unfold_locales
  fix uf :: "'a uf" and a b r q x y
  assume f: "forest uf"
  show "(same uf a b \<or> a = b) \<longleftrightarrow> r = q" if "root_of uf a r" "root_of uf b q"
    using same_root[OF that] that root_of_unique by metis
  show "\<exists>r s'. uf_find x uf = Some (r, s') \<and> forest s' \<and> root_of s' x r \<and>
      (\<forall>a b. (same s' a b \<or> a = b) = (same uf a b \<or> a = b)) \<and> (\<forall>a q. root_of uf a q \<longrightarrow> root_of s' a q)"
    using find_correct[OF f, of x] by fastforce
  show "\<exists>s'. uf_union x y uf = Some s' \<and> forest s' \<and>
      (\<forall>a b. (same s' a b \<or> a = b) \<longleftrightarrow>
         (same uf a b \<or> a = b) \<or> (same uf a x \<or> a = x) \<and> (same uf y b \<or> y = b) \<or>
         (same uf a y \<or> a = y) \<and> (same uf x b \<or> x = b))"
    using union_correct[OF f, of x y] by blast
qed

text \<open>a union on a forest always returns, keeps the forest (ranks grow along the links, so no
  later \<open>find\<close> can run forever) and merges exactly the two classes of its arguments.\<close>

lemma uf_union_merges:
  assumes "forest uf"
  shows "\<exists>uf'. uf_union x y uf = Some uf' \<and> forest uf' \<and> same uf' x y \<and>
    (\<forall>a b. same uf' a b \<or> a = b \<longleftrightarrow>
       (same uf a b \<or> a = b) \<or> (same uf a x \<or> a = x) \<and> (same uf y b \<or> y = b) \<or>
       (same uf a y \<or> a = y) \<and> (same uf x b \<or> x = b))"
  by (rule union_correct[OF assms])

lemma uf_union_merges_witness:
  "\<exists>uf'. uf_union (1 :: nat) 2 uf_empty = Some uf' \<and> forest uf' \<and> same uf' 1 2"
  using uf_union_merges[OF forest_empty, of 1 2] by blast

end
