(* ===== verification/WebflowUtils.thy ===== *)
theory WebflowUtils
  imports Prelude
begin

text \<open>
  \<open>webflow_cms/utils.py\<close>, \<open>constants.py\<close> and \<open>models.py\<close>: items of the content management
  system, the names of their fields, and the pure helpers on titles, slugs and addresses.
  An item always has an identifier (Webflow assigns it); \<open>fieldData\<close> may be absent. The fields
  the code treats as text hold a string or are absent.
\<close>

section \<open>Items\<close>

type_synonym fields = "(string \<times> json) list"

record item =
  item_id :: string
  is_archived :: bool
  is_draft :: bool
  field_data :: "fields option"

text \<open>\<open>item.get("fieldData") or {}\<close>, \<open>data.get(f)\<close> as a value, as a text and as a list.\<close>

definition data_of :: "item \<Rightarrow> fields" where
  "data_of it = (case field_data it of None \<Rightarrow> [] | Some d \<Rightarrow> d)"

definition get_text :: "fields \<Rightarrow> string \<Rightarrow> string option" where
  "get_text d f = (case map_of d f of Some (JStr s) \<Rightarrow> Some s | _ \<Rightarrow> None)"

definition filled :: "fields \<Rightarrow> string \<Rightarrow> bool" where
  "filled d f = truthy_opt (map_of d f)"

text \<open>\<open>data.get(f) or []\<close> of a multi-reference field.\<close>

definition get_list :: "fields \<Rightarrow> string \<Rightarrow> json list" where
  "get_list d f = (case map_of d f of Some (JArr xs) \<Rightarrow> xs | _ \<Rightarrow> [])"

definition KEY_FIELDS :: "string list" where
  "KEY_FIELDS =
     [''name'', ''slug'', ''open-states-url-2'', ''gov-url'', ''map-url'', ''voatzid'', ''session-code'',
      ''bill-prefix'', ''bill-number'', ''post-body'', ''category'', ''kialo-url'', ''support'', ''oppose'',
      ''description'', ''member-organizations'', ''organizations-oppose'']"

definition MAP_BASE_URL :: string where
  "MAP_BASE_URL = ''https://mapapp.digitaldemocracyproject.org/ddp-mapapp-new/''"

definition ABOUT_FIELD_MAP :: "(string \<times> string) list" where
  "ABOUT_FIELD_MAP =
     [(''description'', ''description-4''), (''type'', ''type-2''), (''policies'', ''policies-2''),
      (''funding'', ''funding-2''), (''affiliates'', ''affiliates-2'')]"

definition item_label :: "item \<Rightarrow> json" where
  "item_label it =
     (let d = data_of it in
      if filled d ''name'' then the (map_of d ''name'')
      else if filled d ''slug'' then the (map_of d ''slug'')
      else JStr (item_id it))"

section \<open>Addresses\<close>

record parsed_url =
  jurisdiction :: string
  session_code :: string
  bill_prefix :: string
  bill_number :: string

text \<open>
  The regular expression \<open>https?://openstates\.org/([^/]+)/bills/([^/]+)/([A-Za-z]+)(\d+)/?\<close> with
  \<open>re.match\<close>: each group is a maximal run, and what follows the digits is not looked at.
\<close>

definition not_slash :: "char \<Rightarrow> bool" where
  "not_slash c = (c \<noteq> CHR ''/'')"

definition match_path :: "string \<Rightarrow> parsed_url option" where
  "match_path s =
     (let jur = takeWhile not_slash s; r1 = dropWhile not_slash s;
          r2 = drop 7 r1;
          sess = takeWhile not_slash r2; r3 = dropWhile not_slash r2;
          r4 = drop 1 r3;
          pre = takeWhile is_letter r4; r5 = dropWhile is_letter r4;
          num = takeWhile is_digit r5 in
      if jur \<noteq> [] \<and> starts_with ''/bills/'' r1 \<and> sess \<noteq> [] \<and> r3 \<noteq> [] \<and> pre \<noteq> [] \<and> num \<noteq> []
      then Some \<lparr>jurisdiction = upper jur, session_code = sess, bill_prefix = upper pre, bill_number = num\<rparr>
      else None)"

definition parse_open_states_url :: "string option \<Rightarrow> parsed_url option" where
  "parse_open_states_url url =
     (case url of
        None \<Rightarrow> None
      | Some u \<Rightarrow>
          if starts_with ''https://openstates.org/'' u then match_path (drop 23 u)
          else if starts_with ''http://openstates.org/'' u then match_path (drop 22 u)
          else None)"

definition build_map_url :: "parsed_url \<Rightarrow> string" where
  "build_map_url p =
     MAP_BASE_URL @ ''?mapInteractionLevel=mini'' @ ''&jurisdictionIso2='' @ jurisdiction p @
     ''&selectedBill='' @ (bill_prefix p @ bill_number p) @ ''&censusYear=2020'' @
     ''&sessionCode='' @ session_code p"

text \<open>\<open>rstrip("/")\<close>\<close>

definition rstrip_slash :: "string \<Rightarrow> string" where
  "rstrip_slash s = rev (dropWhile (\<lambda>c. c = CHR ''/'') (rev s))"

definition is_compliant_map_url :: "string option \<Rightarrow> string \<Rightarrow> bool" where
  "is_compliant_map_url existing expected =
     (case existing of
        None \<Rightarrow> False
      | Some e \<Rightarrow> e \<noteq> [] \<and> rstrip_slash (strip e) = rstrip_slash (strip expected))"

section \<open>Titles and slugs\<close>

text \<open>
  \<open>re.sub\<close> of \<open>([A-Za-z]+)\s+(\d+)\<close> by \<open>\1\2\<close>: a run of spaces between a letter and a digit goes.
\<close>

definition gap :: "char \<Rightarrow> string \<Rightarrow> bool" where
  "gap c cs = (is_letter c \<and> takeWhile is_space cs \<noteq> [] \<and>
     (case dropWhile is_space cs of [] \<Rightarrow> False | d # _ \<Rightarrow> is_digit d))"

function join_number :: "string \<Rightarrow> string" where
  "join_number [] = []"
| "join_number (c # cs) =
     (if gap c cs then c # join_number (dropWhile is_space cs) else c # join_number cs)"
  by pat_completeness auto
termination
  by (relation "measure length") (auto simp: le_imp_less_Suc length_dropWhile_le)

definition normalize_title :: "string option \<Rightarrow> string option" where
  "normalize_title title =
     (case title of
        None \<Rightarrow> None
      | Some t \<Rightarrow> if t = [] then None else Some (upper (join_number (strip t))))"

text \<open>
  \<open>re.search(r"-([a-z0-9]{4,6})$", slug)\<close>: the group has no hyphen, so it is what follows the last
  hyphen. \<open>$\<close> also matches before a final newline.
\<close>

definition slug_suffix :: "string \<Rightarrow> string option" where
  "slug_suffix slug =
     (let body = (if slug \<noteq> [] \<and> last slug = newline then butlast slug else slug);
          suffix = rev (takeWhile (\<lambda>c. c \<noteq> CHR ''-'') (rev body)) in
      if CHR ''-'' \<in> set body \<and> 4 \<le> length suffix \<and> length suffix \<le> 6 \<and>
         list_all (\<lambda>c. is_lower c \<or> is_digit c) suffix
      then Some suffix else None)"

definition has_random_slug_suffix :: "string option \<Rightarrow> bool" where
  "has_random_slug_suffix slug =
     (case slug of
        None \<Rightarrow> False
      | Some s \<Rightarrow>
          (case slug_suffix s of
             None \<Rightarrow> False
           | Some suffix \<Rightarrow>
               (let has_letters = list_ex is_letter suffix; has_numbers = list_ex is_digit suffix in
                if has_letters \<and> has_numbers then True
                else if has_letters \<and> \<not> has_numbers then
                  (if suffix \<in> set [''bills'', ''draft'', ''final'', ''intro'', ''amend''] then False
                   else length suffix \<ge> 5 \<and> length (filter (\<lambda>c. c \<in> set ''aeiou'') suffix) \<le> 1)
                else False)))"

section \<open>Completeness\<close>

record completeness =
  populated_count :: nat
  empty_count :: nat
  total_fields :: nat
  populated_fields :: "string list"
  empty_fields :: "string list"

fun split_fields :: "fields \<Rightarrow> string list \<Rightarrow> string list \<times> string list" where
  "split_fields d [] = ([], [])"
| "split_fields d (f # fs) =
     (let (populated, empty) = split_fields d fs in
      if filled d f then (f # populated, empty) else (populated, f # empty))"

definition analyze_field_completeness :: "fields \<Rightarrow> completeness" where
  "analyze_field_completeness d =
     (let (populated, empty) = split_fields d KEY_FIELDS in
      \<lparr>populated_count = length populated, empty_count = length empty,
       total_fields = length KEY_FIELDS, populated_fields = populated, empty_fields = empty\<rparr>)"

section \<open>The rich text about an organization\<close>

definition SECTIONS :: "string list" where
  "SECTIONS = [''Description'', ''Type'', ''Policies'', ''Funding'', ''Affiliates'']"

text \<open>A section name and a colon at the head of the text.\<close>

fun section_head :: "string list \<Rightarrow> string \<Rightarrow> string option" where
  "section_head [] s = None"
| "section_head (n # ns) s = (if starts_with (n @ '':'') s then Some n else section_head ns s)"

text \<open>
  The regular expression finds, at the start of a line, a name and a colon, and takes the text up
  to the next such line or the end. \<open>bol\<close>: at the start of a line; \<open>cur\<close>: the open section with
  its text so far, reversed.
\<close>

function about_sections :: "bool \<Rightarrow> (string \<times> string) option \<Rightarrow> string \<Rightarrow> (string \<times> string) list" where
  "about_sections bol cur [] =
     (case cur of None \<Rightarrow> [] | Some (n, acc) \<Rightarrow> [(n, rev acc)])"
| "about_sections bol cur (c # cs) =
     (case (if bol then section_head SECTIONS (c # cs) else None) of
        Some n \<Rightarrow>
          (case cur of None \<Rightarrow> [] | Some (m, acc) \<Rightarrow> [(m, rev acc)]) @
          about_sections False (Some (n, [])) (drop (length n) cs)
      | None \<Rightarrow>
          about_sections (c = newline) (case cur of None \<Rightarrow> None | Some (m, acc) \<Rightarrow> Some (m, c # acc)) cs)"
  by pat_completeness auto
termination
  by (relation "measure (\<lambda>(bol, cur, s). length s)") auto

definition parse_about_organization :: "string \<Rightarrow> (string \<times> string) list" where
  "parse_about_organization text =
     fold (\<lambda>(n, v) d. dict_set (lower n) (strip v) d) (about_sections True None text) []"

section \<open>Parsing an address gives back its parts\<close>

lemma takeWhile_run: "\<forall>c \<in> set xs. P c \<Longrightarrow> ys = [] \<or> \<not> P (hd ys) \<Longrightarrow> takeWhile P (xs @ ys) = xs"
  by (induction xs) (cases ys; auto)+

lemma dropWhile_run: "\<forall>c \<in> set xs. P c \<Longrightarrow> ys = [] \<or> \<not> P (hd ys) \<Longrightarrow> dropWhile P (xs @ ys) = ys"
  by (induction xs) (cases ys; auto)+

lemma digit_not_letter: "is_digit c \<Longrightarrow> \<not> is_letter c"
  by (simp add: is_digit_def is_letter_def is_lower_def is_upper_def)

lemma digit_not_space: "is_digit c \<Longrightarrow> \<not> is_space c"
  by (simp add: is_digit_def is_space_def Let_def)

lemma letter_not_space: "is_letter c \<Longrightarrow> \<not> is_space c"
  by (auto simp: is_letter_def is_lower_def is_upper_def is_space_def Let_def)

lemma match_path_parts:
  assumes "j \<noteq> []" "\<forall>c \<in> set j. not_slash c" "s \<noteq> []" "\<forall>c \<in> set s. not_slash c"
    "p \<noteq> []" "\<forall>c \<in> set p. is_letter c" "n \<noteq> []" "\<forall>c \<in> set n. is_digit c"
    "rest = [] \<or> \<not> is_digit (hd rest)"
  shows "match_path (j @ ''/bills/'' @ s @ ''/'' @ p @ n @ rest) =
    Some \<lparr>jurisdiction = upper j, session_code = s, bill_prefix = upper p, bill_number = n\<rparr>"
proof -
  let ?r4 = "p @ n @ rest"
  let ?r2 = "s @ ''/'' @ ?r4"
  have 1: "takeWhile not_slash (j @ ''/bills/'' @ ?r2) = j" "dropWhile not_slash (j @ ''/bills/'' @ ?r2) = ''/bills/'' @ ?r2"
    using assms(2) by (intro takeWhile_run dropWhile_run; simp add: not_slash_def)+
  have 2: "takeWhile not_slash ?r2 = s" "dropWhile not_slash ?r2 = ''/'' @ ?r4"
    using assms(4) by (intro takeWhile_run dropWhile_run; simp add: not_slash_def)+
  obtain d n' where n: "n = d # n'" "is_digit d" using assms(7,8) by (cases n) auto
  have 3: "takeWhile is_letter ?r4 = p" "dropWhile is_letter ?r4 = n @ rest"
    using assms(6) n by (intro takeWhile_run dropWhile_run; simp add: digit_not_letter)+
  have 4: "takeWhile is_digit (n @ rest) = n" using assms(8,9) by (rule takeWhile_run)
  have 5: "drop 7 (''/bills/'' @ ?r2) = ?r2" "drop 1 (''/'' @ ?r4) = ?r4" by simp_all
  show ?thesis
    unfolding match_path_def Let_def 1 5(1) 2 5(2) 3 4 using assms(1,3,5,7) by simp
qed

text \<open>an Open States address whose parts are well formed is parsed into exactly its parts, the
  jurisdiction and the prefix in upper case, whatever follows the number.\<close>

lemma parse_open_states_url_parts:
  assumes "j \<noteq> []" "\<forall>c \<in> set j. not_slash c" "s \<noteq> []" "\<forall>c \<in> set s. not_slash c"
    "p \<noteq> []" "\<forall>c \<in> set p. is_letter c" "n \<noteq> []" "\<forall>c \<in> set n. is_digit c"
    "rest = [] \<or> \<not> is_digit (hd rest)" "scheme \<in> {''https'', ''http''}"
  shows "parse_open_states_url
      (Some (scheme @ ''://openstates.org/'' @ j @ ''/bills/'' @ s @ ''/'' @ p @ n @ rest)) =
    Some \<lparr>jurisdiction = upper j, session_code = s, bill_prefix = upper p, bill_number = n\<rparr>"
  using assms(10) match_path_parts[OF assms(1-9)]
  by (elim insertE emptyE) (simp_all add: parse_open_states_url_def)

lemma parse_open_states_url_parts_witness:
  "parse_open_states_url (Some (''https'' @ ''://openstates.org/'' @ ''ut'' @ ''/bills/'' @ ''2026'' @ ''/'' @ ''hb'' @ ''12'' @ ''/'')) =
   Some \<lparr>jurisdiction = upper ''ut'', session_code = ''2026'', bill_prefix = upper ''hb'', bill_number = ''12''\<rparr>"
  by (rule parse_open_states_url_parts)
    (simp_all add: not_slash_def is_letter_def is_lower_def is_upper_def is_digit_def)

section \<open>The normal form of titles\<close>

text \<open>A letter, spaces and a digit is what \<open>normalize_title\<close> closes up.\<close>

fun gap_free :: "string \<Rightarrow> bool" where
  "gap_free [] = True"
| "gap_free (c # cs) = (\<not> gap c cs \<and> gap_free cs)"

lemma join_number_gap_free: "gap_free s \<Longrightarrow> join_number s = s"
  by (induction s) simp_all

lemma takeWhile_same_hd: "xs = [] \<or> \<not> P (hd xs) \<Longrightarrow> takeWhile P xs = []"
  by (cases xs) auto

lemma join_number_Nil_iff [simp]: "join_number s = [] \<longleftrightarrow> s = []"
  by (cases s) simp_all

lemma hd_join_number: "s \<noteq> [] \<Longrightarrow> hd (join_number s) = hd s"
  by (cases s) simp_all

lemma gap_letter: "gap c cs \<Longrightarrow> is_letter c"
  by (simp add: gap_def)

lemma join_number_spaces:
  "\<forall>c \<in> set ws. is_space c \<Longrightarrow> join_number (ws @ s) = ws @ join_number s"
  by (induction ws) (auto dest: gap_letter letter_not_space)

lemma spaces_join_number:
  "takeWhile is_space (join_number s) = takeWhile is_space s \<and>
   dropWhile is_space (join_number s) = join_number (dropWhile is_space s)"
proof -
  define ws r where "ws = takeWhile is_space s" and "r = dropWhile is_space s"
  have s: "s = ws @ r" by (simp add: ws_def r_def)
  have ws: "\<forall>c \<in> set ws. is_space c" by (auto simp: ws_def dest: set_takeWhileD)
  have r: "r = [] \<or> \<not> is_space (hd r)" using hd_dropWhile_not[of is_space s] by (auto simp: r_def)
  then have jr: "join_number r = [] \<or> \<not> is_space (hd (join_number r))"
    by (auto simp: hd_join_number)
  show ?thesis
    unfolding s join_number_spaces[OF ws] takeWhile_run[OF ws r] dropWhile_run[OF ws r]
      takeWhile_run[OF ws jr] dropWhile_run[OF ws jr] by simp
qed

lemma gap_join_number: "gap c (join_number cs) = gap c cs"
proof -
  have "(case join_number r of [] \<Rightarrow> False | d # _ \<Rightarrow> is_digit d) =
      (case r of [] \<Rightarrow> False | d # _ \<Rightarrow> is_digit d)" for r
    by (cases r) simp_all
  then show ?thesis by (simp add: gap_def spaces_join_number)
qed

lemma no_gap_digit: "gap c cs \<Longrightarrow> \<not> gap c (dropWhile is_space cs)"
  by (auto simp: gap_def digit_not_space split: list.splits)

lemma gap_free_join_number: "gap_free (join_number s)"
  by (induction s rule: join_number.induct) (simp_all add: gap_join_number no_gap_digit)

lemma is_letter_upper [simp]: "is_letter (upper_char c) = is_letter c"
  by (auto simp: upper_char_def is_letter_def is_lower_def is_upper_def)

lemma is_digit_upper [simp]: "is_digit (upper_char c) = is_digit c"
  by (auto simp: upper_char_def is_digit_def is_lower_def)

lemma is_space_upper [simp]: "is_space (upper_char c) = is_space c"
  by (auto simp: upper_char_def is_space_def is_lower_def Let_def)

lemma gap_upper: "gap (upper_char c) (upper cs) = gap c cs"
proof -
  have f: "is_space \<circ> upper_char = is_space" by (rule ext) simp
  have t: "takeWhile is_space (upper cs) = upper (takeWhile is_space cs)"
      "dropWhile is_space (upper cs) = upper (dropWhile is_space cs)"
    by (simp_all add: upper_def takeWhile_map dropWhile_map f)
  have "(case upper r of [] \<Rightarrow> False | d # _ \<Rightarrow> is_digit d) =
      (case r of [] \<Rightarrow> False | d # _ \<Rightarrow> is_digit d)" for r
    by (cases r) (simp_all add: upper_def)
  then show ?thesis by (simp add: gap_def t) (simp add: upper_def)
qed

lemma gap_free_upper: "gap_free (upper s) = gap_free s"
proof (induction s)
  case (Cons c cs)
  have "upper (c # cs) = upper_char c # upper cs" by (simp add: upper_def)
  then show ?case by (simp add: gap_upper Cons.IH)
qed (simp add: upper_def)

text \<open>A text without outer spaces: neither \<open>strip\<close> nor the end of the code changes that.\<close>

definition trimmed :: "string \<Rightarrow> bool" where
  "trimmed s \<longleftrightarrow> s = [] \<or> (\<not> is_space (hd s) \<and> \<not> is_space (last s))"

lemma trimmed_strip: "trimmed s \<Longrightarrow> strip s = s"
  by (auto simp: trimmed_def strip_def dropWhile_eq_self hd_rev)

lemma strip_trimmed: "trimmed (strip s)"
proof (cases "strip s = []")
  case False
  have a: "dropWhile is_space s \<noteq> []"
  proof
    assume "dropWhile is_space s = []"
    then have "strip s = []" unfolding strip_def by (simp only: rev.simps dropWhile.simps)
    with False show False by simp
  qed
  have "dropWhile is_space (strip s) = strip s"
    unfolding strip_def by (intro hd_rev_dropWhile_rev a hd_dropWhile_not)
  then have "\<not> is_space (hd (strip s))"
    using hd_dropWhile_not[of is_space "strip s"] False by simp
  moreover have "\<not> is_space (last (strip s))"
    using hd_dropWhile_not[of is_space "rev (dropWhile is_space s)"] False
    by (simp add: strip_def last_rev)
  ultimately show ?thesis by (simp add: trimmed_def)
qed (simp add: trimmed_def)

lemma last_dropWhile: "dropWhile P xs \<noteq> [] \<Longrightarrow> last (dropWhile P xs) = last xs"
  by (metis last_appendR takeWhile_dropWhile_id)

lemma gap_ne: "gap c cs \<Longrightarrow> dropWhile is_space cs \<noteq> []"
  unfolding gap_def by (cases "dropWhile is_space cs") simp_all

lemma last_join_number: "s \<noteq> [] \<Longrightarrow> last (join_number s) = last s"
proof (induction s rule: join_number.induct)
  case (2 c cs)
  show ?case
  proof (cases "gap c cs")
    case True
    note ne = gap_ne[OF True]
    then have "cs \<noteq> []" by auto
    have "last (join_number (dropWhile is_space cs)) = last cs"
      using 2(1)[OF True ne] last_dropWhile[OF ne] by simp
    with True ne \<open>cs \<noteq> []\<close> show ?thesis
      by (simp only: join_number.simps if_True last_ConsR join_number_Nil_iff not_False_eq_True)
  next
    case False
    with 2 show ?thesis by (cases "cs = []") simp_all
  qed
qed simp

lemma trimmed_join_number: "trimmed s \<Longrightarrow> trimmed (join_number s)"
  by (auto simp: trimmed_def hd_join_number last_join_number)

lemma trimmed_upper: "trimmed (upper s) = trimmed s"
  by (auto simp: trimmed_def upper_def hd_map last_map)

lemma normal_form_fixed:
  assumes "normalize_title (Some t) = Some u" "u \<noteq> []"
  shows "normalize_title (Some u) = Some u"
proof -
  have u: "u = upper (join_number (strip t))"
    using assms(1) by (simp add: normalize_title_def split: if_splits)
  have "trimmed u" unfolding u trimmed_upper by (intro trimmed_join_number strip_trimmed)
  moreover have "gap_free u" unfolding u gap_free_upper by (rule gap_free_join_number)
  ultimately have "join_number (strip u) = u" by (simp add: trimmed_strip join_number_gap_free)
  then show ?thesis using assms(2) by (simp add: normalize_title_def u)
qed

text \<open>the normal form of a title is a fixed point: normalizing it again changes nothing, so
  titles can be compared by their normal forms however often they were normalized.\<close>

lemma normalize_title_idempotent:
  assumes "normalize_title (Some t) = Some u" "u \<noteq> []"
  shows "normalize_title (Some u) = Some u"
  by (rule normal_form_fixed[OF assms])

lemma normalize_title_idempotent_witness:
  "normalize_title (Some ''HB123'') = Some ''HB123''"
proof (rule normalize_title_idempotent)
  show "normalize_title (Some '' hb  123 '') = Some ''HB123''" by code_simp
qed simp

end
