(* ===== verification/WebflowClient.thy ===== *)
theory WebflowClient
  imports WebflowUtils
begin

text \<open>
  \<open>webflow_cms/client.py\<close>: the client of the content management service. The service is not part
  of the repository: a \<open>world\<close> gives, for a state of any type, the answer to a request and the
  effect of sleeping. A call may raise (\<open>Inl\<close>) and may never return (\<open>None\<close>), which the retry
  loop and the page loop can do. Addresses are kept structured, answers are the documents the
  code distinguishes.
\<close>

section \<open>Actions\<close>

record reference =
  ref_id :: "string option"
  ref_coll :: "string option"

text \<open>\<open>WebflowConflictError\<close> with its references, \<open>WebflowAPIError\<close> with its status, any other.\<close>

datatype werror =
    Conflict "reference list"
  | ApiError int
  | Raised string

type_synonym ('s, 'a) act = "'s \<Rightarrow> ((werror + 'a) \<times> 's) option"

definition ret :: "'a \<Rightarrow> ('s, 'a) act" where
  "ret x s = Some (Inr x, s)"

definition raise :: "werror \<Rightarrow> ('s, 'a) act" where
  "raise e s = Some (Inl e, s)"

definition bind_act :: "('s, 'a) act \<Rightarrow> ('a \<Rightarrow> ('s, 'b) act) \<Rightarrow> ('s, 'b) act" where
  "bind_act m f s =
     Option.bind (m s) (\<lambda>(r, s'). case r of Inl e \<Rightarrow> Some (Inl e, s') | Inr x \<Rightarrow> f x s')"

text \<open>\<open>try: m except e: h e\<close>\<close>

definition catch :: "('s, 'a) act \<Rightarrow> (werror \<Rightarrow> ('s, 'a) act) \<Rightarrow> ('s, 'a) act" where
  "catch m h s =
     Option.bind (m s) (\<lambda>(r, s'). case r of Inl e \<Rightarrow> h e s' | Inr x \<Rightarrow> Some (Inr x, s'))"

named_theorems act \<open>evaluation of actions\<close>

lemma ret_act [act]: "ret x s = Some (Inr x, s)"
  by (simp add: ret_def)

lemma raise_act [act]: "raise e s = Some (Inl e, s)"
  by (simp add: raise_def)

lemma bind_act_Some:
  "bind_act m f s = Some (r, t) \<longleftrightarrow>
     (\<exists>e. m s = Some (Inl e, t) \<and> r = Inl e) \<or> (\<exists>x s'. m s = Some (Inr x, s') \<and> f x s' = Some (r, t))"
  by (cases "m s") (auto simp: bind_act_def split: sum.splits)

lemma catch_Some:
  "catch m h s = Some (r, t) \<longleftrightarrow>
     (\<exists>x. m s = Some (Inr x, t) \<and> r = Inr x) \<or> (\<exists>e s'. m s = Some (Inl e, s') \<and> h e s' = Some (r, t))"
  by (cases "m s") (auto simp: catch_def split: sum.splits)

lemma bind_act_simps [act]:
  "m s = Some (Inr x, s') \<Longrightarrow> bind_act m f s = f x s'"
  "m s = Some (Inl e, s') \<Longrightarrow> bind_act m f s = Some (Inl e, s')"
  "m s = None \<Longrightarrow> bind_act m f s = None"
  by (simp_all add: bind_act_def)

lemma catch_simps [act]:
  "m s = Some (Inr x, s') \<Longrightarrow> catch m h s = Some (Inr x, s')"
  "m s = Some (Inl e, s') \<Longrightarrow> catch m h s = h e s'"
  "m s = None \<Longrightarrow> catch m h s = None"
  by (simp_all add: catch_def)

section \<open>Requests\<close>

datatype http_method = GET | PATCH | DELETE

datatype address = ItemsLive string | ItemLive string string

text \<open>The body of a \<open>PATCH\<close>: the two flags when they are sent, and the fields.\<close>

record payload =
  pl_flags :: "(bool \<times> bool) option"
  pl_fields :: fields

record request =
  rq_method :: http_method
  rq_address :: address
  rq_params :: "(nat \<times> nat) option"
  rq_body :: "payload option"

text \<open>
  The body of an answer: not JSON, a page of items, one item, a conflict document (code
  \<open>conflict\<close> and \<open>details\<close>), or another JSON document.
\<close>

datatype body =
    NotJson
  | ItemPage "item list"
  | ItemDoc item
  | ConflictDoc "reference list"
  | OtherDoc

record response =
  status :: int
  resp_body :: body

record 's world =
  send :: "request \<Rightarrow> 's \<Rightarrow> (string + response) \<times> 's"
  sleep :: "nat \<Rightarrow> 's \<Rightarrow> 's"

definition PAGE_LIMIT :: nat where
  "PAGE_LIMIT = 100"

definition MAX_BACKOFF_SECONDS :: nat where
  "MAX_BACKOFF_SECONDS = 60"

definition TRANSIENT_STATUS_CODES :: "int list" where
  "TRANSIENT_STATUS_CODES = [429, 502]"

section \<open>One request\<close>

text \<open>What a final answer gives: the response (\<open>None\<close> for an allowed 404) or an exception.\<close>

definition conclude :: "bool \<Rightarrow> response \<Rightarrow> werror + response option" where
  "conclude allow_404 resp =
     (if allow_404 \<and> status resp = 404 then Inr None
      else if status resp = 409 then
        (case resp_body resp of ConflictDoc refs \<Rightarrow> Inl (Conflict refs) | _ \<Rightarrow> Inl (ApiError 409))
      else if status resp = 200 \<or> status resp = 204 then Inr (Some resp)
      else if 400 \<le> status resp \<and> status resp < 600 then Inl (ApiError (status resp))
      else Inr (Some resp))"

partial_function (option) request_with_retry ::
  "'s world \<Rightarrow> request \<Rightarrow> bool \<Rightarrow> nat \<Rightarrow> ('s, response option) act" where
  "request_with_retry W rq allow_404 backoff s =
     (case send W rq s of
        (Inl err, s') \<Rightarrow> Some (Inl (Raised err), s')
      | (Inr resp, s') \<Rightarrow>
          if status resp \<in> set TRANSIENT_STATUS_CODES
          then request_with_retry W rq allow_404 (min (backoff * 2) MAX_BACKOFF_SECONDS)
                 (sleep W backoff s')
          else Some (conclude allow_404 resp, s'))"

text \<open>The loop starts with a backoff of one second.\<close>

definition request :: "'s world \<Rightarrow> request \<Rightarrow> bool \<Rightarrow> ('s, response option) act" where
  "request W rq allow_404 = request_with_retry W rq allow_404 1"

section \<open>Operations\<close>

definition get_page :: "string \<Rightarrow> nat \<Rightarrow> request" where
  "get_page coll offset =
     \<lparr>rq_method = GET, rq_address = ItemsLive coll, rq_params = Some (PAGE_LIMIT, offset), rq_body = None\<rparr>"

text \<open>\<open>resp.json()\<close> raises unless the body is JSON; \<open>data.get("items", [])\<close> on another document is [].\<close>

definition page_items :: "response option \<Rightarrow> werror + item list" where
  "page_items r =
     (case r of
        None \<Rightarrow> Inl (Raised ''NoneType has no attribute json'')
      | Some resp \<Rightarrow>
          (case resp_body resp of
             NotJson \<Rightarrow> Inl (Raised ''JSONDecodeError'') | ItemPage xs \<Rightarrow> Inr xs | _ \<Rightarrow> Inr []))"

partial_function (option) fetch_pages ::
  "'s world \<Rightarrow> string \<Rightarrow> item list \<Rightarrow> nat \<Rightarrow> ('s, item list) act" where
  "fetch_pages W coll items offset s =
     Option.bind (request W (get_page coll offset) False s) (\<lambda>(r, s').
       case r of
         Inl e \<Rightarrow> Some (Inl e, s')
       | Inr resp \<Rightarrow>
           (case page_items resp of
              Inl e \<Rightarrow> Some (Inl e, s')
            | Inr batch \<Rightarrow>
                if length batch < PAGE_LIMIT then Some (Inr (items @ batch), s')
                else fetch_pages W coll (items @ batch) (offset + PAGE_LIMIT) s'))"

definition fetch_all_live_items :: "'s world \<Rightarrow> string \<Rightarrow> ('s, item list) act" where
  "fetch_all_live_items W coll = fetch_pages W coll [] 0"

definition fetch_item :: "'s world \<Rightarrow> string \<Rightarrow> string \<Rightarrow> ('s, item option) act" where
  "fetch_item W coll iid =
     bind_act
       (request W \<lparr>rq_method = GET, rq_address = ItemLive coll iid, rq_params = None, rq_body = None\<rparr> True)
       (\<lambda>r. case r of
          None \<Rightarrow> ret None
        | Some resp \<Rightarrow>
            (case resp_body resp of
               NotJson \<Rightarrow> raise (Raised ''JSONDecodeError'')
             | ItemDoc it \<Rightarrow> ret (Some it)
             | _ \<Rightarrow> ret None))"

definition patch :: "'s world \<Rightarrow> string \<Rightarrow> string \<Rightarrow> payload \<Rightarrow> ('s, response option) act" where
  "patch W coll iid pl =
     request W \<lparr>rq_method = PATCH, rq_address = ItemLive coll iid, rq_params = None, rq_body = Some pl\<rparr> False"

text \<open>The callers of the updates ignore the item they return; an answer that is not JSON raises.\<close>

definition json_answer :: "response option \<Rightarrow> ('s, unit) act" where
  "json_answer r =
     (case r of
        None \<Rightarrow> raise (Raised ''NoneType has no attribute json'')
      | Some resp \<Rightarrow> if resp_body resp = NotJson then raise (Raised ''JSONDecodeError'') else ret ())"

definition update_item_fields :: "'s world \<Rightarrow> string \<Rightarrow> item \<Rightarrow> fields \<Rightarrow> ('s, unit) act" where
  "update_item_fields W coll it fs =
     bind_act (patch W coll (item_id it) \<lparr>pl_flags = Some (is_archived it, is_draft it), pl_fields = fs\<rparr>) json_answer"

definition update_item_field :: "'s world \<Rightarrow> string \<Rightarrow> string \<Rightarrow> string \<Rightarrow> json \<Rightarrow> ('s, unit) act" where
  "update_item_field W coll iid f v =
     bind_act (patch W coll iid \<lparr>pl_flags = None, pl_fields = [(f, v)]\<rparr>) json_answer"

definition delete_item :: "'s world \<Rightarrow> string \<Rightarrow> string \<Rightarrow> ('s, bool) act" where
  "delete_item W coll iid =
     bind_act
       (request W \<lparr>rq_method = DELETE, rq_address = ItemLive coll iid, rq_params = None, rq_body = None\<rparr> False)
       (\<lambda>_. ret True)"

text \<open>The fields of an item that hold the target, without it.\<close>

definition fields_without :: "string \<Rightarrow> fields \<Rightarrow> fields" where
  "fields_without target d =
     List.map_filter (\<lambda>(f, v).
       case v of
         JArr xs \<Rightarrow> if JStr target \<in> set xs then Some (f, JArr (filter (\<lambda>x. x \<noteq> JStr target) xs)) else None
       | _ \<Rightarrow> None) d"

definition remove_reference :: "'s world \<Rightarrow> string \<Rightarrow> string \<Rightarrow> string \<Rightarrow> ('s, bool) act" where
  "remove_reference W coll iid target =
     bind_act (fetch_item W coll iid) (\<lambda>found.
       case found of
         None \<Rightarrow> ret False
       | Some it \<Rightarrow>
           (let fs = fields_without target (data_of it) in
            if fs = [] then ret True
            else bind_act (patch W coll iid \<lparr>pl_flags = None, pl_fields = fs\<rparr>) (\<lambda>_. ret True)))"

fun find_item_collection :: "'s world \<Rightarrow> string \<Rightarrow> string list \<Rightarrow> ('s, string option) act" where
  "find_item_collection W iid [] = ret None"
| "find_item_collection W iid (c # cs) =
     bind_act (fetch_item W c iid) (\<lambda>found.
       if found \<noteq> None then ret (Some c) else find_item_collection W iid cs)"

section \<open>Retry and backoff\<close>

text \<open>A server that gives the answers of a script, one per request, and a clock that notes the sleeps.\<close>

definition scripted :: "((string + response) list \<times> nat list) world" where
  "scripted =
     \<lparr>send = (\<lambda>rq (answers, slept).
        case answers of [] \<Rightarrow> (Inl ''ConnectionError'', ([], slept)) | a # rest \<Rightarrow> (a, (rest, slept))),
      sleep = (\<lambda>n (answers, slept). (answers, slept @ [n]))\<rparr>"

definition transient :: "response \<Rightarrow> bool" where
  "transient r = (status r \<in> set TRANSIENT_STATUS_CODES)"

lemma backoff_step: "min (min (2 ^ k) MAX_BACKOFF_SECONDS * 2) MAX_BACKOFF_SECONDS = min (2 ^ Suc k) MAX_BACKOFF_SECONDS"
  by (simp add: MAX_BACKOFF_SECONDS_def min_def)

lemma retry_from:
  assumes "\<forall>r \<in> set ts. transient r" "\<not> transient r"
  shows "request_with_retry scripted rq a (min (2 ^ k) MAX_BACKOFF_SECONDS) (map Inr ts @ Inr r # rest, slept) =
    Some (conclude a r, (rest, slept @ map (\<lambda>i. min (2 ^ i) MAX_BACKOFF_SECONDS) [k..<k + length ts]))"
  using assms(1)
proof (induction ts arbitrary: k slept)
  case Nil
  then show ?case
    using assms(2) by (subst request_with_retry.simps) (simp add: scripted_def transient_def)
next
  case (Cons t ts)
  have "[k..<k + length (t # ts)] = k # [Suc k..<Suc k + length ts]"
    by (simp add: upt_conv_Cons del: upt_Suc)
  then show ?case
    using Cons.prems Cons.IH[of "Suc k" "slept @ [min (2 ^ k) MAX_BACKOFF_SECONDS]"]
    by (subst request_with_retry.simps)
      (simp add: scripted_def transient_def backoff_step del: upt_Suc power_Suc)
qed

lemma request_scripted:
  assumes "\<forall>r \<in> set ts. transient r" "\<not> transient r"
  shows "request scripted rq a (map Inr ts @ Inr r # rest, slept) =
    Some (conclude a r, (rest, slept @ map (\<lambda>i. min (2 ^ i) 60) [0..<length ts]))"
  using retry_from[OF assms, where k = 0 and slept = slept]
  by (simp add: request_def MAX_BACKOFF_SECONDS_def)

text \<open>after \<open>n\<close> transient answers (429, 502) and one final one, the client has sent
  \<open>n + 1\<close> requests, slept 1, 2, 4, \<dots> seconds, never more than 60 at a time, and returns what the
  final answer gives: the transient answers leave no trace in the result.\<close>

lemma retry_backs_off:
  assumes "\<forall>r \<in> set ts. transient r" "\<not> transient r"
  shows "request scripted rq a (map Inr ts @ Inr r # rest, slept) =
    Some (conclude a r, (rest, slept @ map (\<lambda>i. min (2 ^ i) 60) [0..<length ts]))"
  by (rule request_scripted[OF assms])

lemma retry_backs_off_witness:
  "request scripted (get_page ''bills'' 0) False
     (map Inr [\<lparr>status = 429, resp_body = NotJson\<rparr>, \<lparr>status = 502, resp_body = NotJson\<rparr>] @
      Inr \<lparr>status = 200, resp_body = OtherDoc\<rparr> # [], []) =
   Some (conclude False \<lparr>status = 200, resp_body = OtherDoc\<rparr>, ([], [] @ map (\<lambda>i. min (2 ^ i) 60) [0..<Suc (Suc 0)]))"
  using retry_backs_off[of "[\<lparr>status = 429, resp_body = NotJson\<rparr>, \<lparr>status = 502, resp_body = NotJson\<rparr>]"
      "\<lparr>status = 200, resp_body = OtherDoc\<rparr>" "get_page ''bills'' 0" False "[]" "[]"]
  by (simp add: transient_def TRANSIENT_STATUS_CODES_def del: upt_Suc)

lemma retry_result_final:
  "request_with_retry W rq a b s = Some y \<Longrightarrow>
   (\<forall>s. \<exists>r s'. send W rq s = (Inr r, s') \<and> transient r) \<longrightarrow> False"
proof (induction rule: request_with_retry.raw_induct[rotated, consumes 1])
  case (1 f W rq a b s y)
  show ?case
  proof
    assume all: "\<forall>s. \<exists>r s'. send W rq s = (Inr r, s') \<and> transient r"
    then obtain r s' where "send W rq s = (Inr r, s')" "transient r" by blast
    with 1(2) have "f W rq a (min (b * 2) MAX_BACKOFF_SECONDS) (sleep W b s') = Some y"
      by (simp add: transient_def)
    from 1(1)[OF this] all show False by blast
  qed
qed

text \<open>there is no limit on the number of retries: when the service answers 429 for ever, a request,
  and with it every operation of the client, never returns.\<close>

lemma retry_without_limit:
  assumes "\<forall>s. \<exists>r s'. send W rq s = (Inr r, s') \<and> transient r"
  shows "request W rq a s = None"
proof (cases "request W rq a s")
  case (Some y)
  then have "request_with_retry W rq a 1 s = Some y" by (simp add: request_def)
  from retry_result_final[OF this] assms show ?thesis by blast
qed

definition rate_limited :: "unit world" where
  "rate_limited = \<lparr>send = (\<lambda>rq s. (Inr \<lparr>status = 429, resp_body = NotJson\<rparr>, s)), sleep = (\<lambda>n s. s)\<rparr>"

lemma retry_without_limit_witness: "request rate_limited (get_page ''bills'' 0) False () = None"
  by (rule retry_without_limit) (simp add: rate_limited_def transient_def TRANSIENT_STATUS_CODES_def)

section \<open>Pages\<close>

lemma request_final:
  "send W rq s = (Inr r, s') \<Longrightarrow> \<not> transient r \<Longrightarrow> request W rq a s = Some (conclude a r, s')"
  unfolding request_def by (subst request_with_retry.simps) (simp add: transient_def)

lemma fetch_pages_all:
  assumes "\<And>off. send W (get_page coll off) s = (Inr \<lparr>status = 200, resp_body = ItemPage (take PAGE_LIMIT (drop off L))\<rparr>, s)"
    "off \<le> length L"
  shows "fetch_pages W coll (take off L) off s = Some (Inr L, s)"
  using assms(2)
proof (induction "length L - off" arbitrary: off rule: less_induct)
  case less
  let ?batch = "take PAGE_LIMIT (drop off L)"
  have rq: "request W (get_page coll off) False s = Some (Inr (Some \<lparr>status = 200, resp_body = ItemPage ?batch\<rparr>), s)"
    using request_final[OF assms(1)] by (simp add: transient_def TRANSIENT_STATUS_CODES_def conclude_def)
  have split: "take off L @ ?batch = take (off + PAGE_LIMIT) L" by (simp add: take_add)
  show ?case
  proof (cases "length ?batch < PAGE_LIMIT")
    case True
    then have "take (off + PAGE_LIMIT) L = L" by auto
    with split have "take off L @ ?batch = L" by simp
    with rq show ?thesis
      unfolding fetch_pages.simps[of W coll _ off]
      by (simp only: Option.bind.simps prod.case sum.case page_items_def option.case response.simps body.case
          if_P[OF True])
  next
    case False
    then have "off + PAGE_LIMIT \<le> length L" "0 < PAGE_LIMIT" by (auto simp: PAGE_LIMIT_def)
    then have "fetch_pages W coll (take (off + PAGE_LIMIT) L) (off + PAGE_LIMIT) s = Some (Inr L, s)"
      by (intro less.hyps) auto
    with rq split show ?thesis
      unfolding fetch_pages.simps[of W coll _ off]
      by (simp only: Option.bind.simps prod.case sum.case page_items_def option.case response.simps body.case
          if_not_P[OF False])
  qed
qed

text \<open>C3: from a service that gives, for any offset, the next 100 items of a collection, the page
  loop returns the whole collection, in order, without repetition or loss, whatever its length,
  and it does return.\<close>

theorem fetch_all_live_items_complete:
  assumes "\<And>off. send W (get_page coll off) s =
    (Inr \<lparr>status = 200, resp_body = ItemPage (take PAGE_LIMIT (drop off L))\<rparr>, s)"
  shows "fetch_all_live_items W coll s = Some (Inr L, s)"
  using fetch_pages_all[OF assms, of 0] by (simp add: fetch_all_live_items_def)

section \<open>Removing a reference\<close>

text \<open>What the service does with the fields of a \<open>PATCH\<close>.\<close>

definition merge_fields :: "fields \<Rightarrow> fields \<Rightarrow> fields" where
  "merge_fields fs d = fold (\<lambda>(f, v) d. dict_set f v d) fs d"

lemma map_of_merge: "map_of (merge_fields fs d) = map_of d ++ map_of (rev fs)"
  by (induction fs arbitrary: d) (auto simp: merge_fields_def)

lemma map_of_rev_distinct: "distinct (map fst fs) \<Longrightarrow> map_of (rev fs) = map_of fs"
  by (subst map_of_inject_set) (simp_all add: rev_map[symmetric])

lemma map_of_merge_distinct:
  "distinct (map fst fs) \<Longrightarrow> map_of (merge_fields fs d) f = (case map_of fs f of None \<Rightarrow> map_of d f | Some v \<Rightarrow> Some v)"
  by (simp add: map_of_merge map_add_def map_of_rev_distinct split: option.splits)

lemma fields_without_lookup:
  "distinct (map fst d) \<Longrightarrow> map_of (fields_without t d) f =
     (case map_of d f of
        Some (JArr xs) \<Rightarrow> if JStr t \<in> set xs then Some (JArr (filter (\<lambda>x. x \<noteq> JStr t) xs)) else None
      | _ \<Rightarrow> None)"
proof (induction d)
  case (Cons p d)
  obtain g v where p: "p = (g, v)" by (cases p)
  have none: "map_of (fields_without t d) f = None" if "f = g"
    using Cons that p by (simp add: map_of_eq_None_iff[THEN iffD2])
  show ?case
    using Cons none by (cases v) (auto simp: p fields_without_def)
qed (simp add: fields_without_def)

lemma fields_without_distinct: "distinct (map fst d) \<Longrightarrow> distinct (map fst (fields_without t d))"
proof (induction d)
  case (Cons p d)
  have "fst ` set (fields_without t d) \<subseteq> fst ` set d"
    by (force simp: fields_without_def List.map_filter_def split: json.splits if_splits)
  with Cons show ?case
    by (cases p; cases "snd p") (auto simp: fields_without_def)
qed (simp add: fields_without_def)

lemma get_list_without:
  assumes "distinct (map fst d)"
  shows "get_list (merge_fields (fields_without t d) d) f = filter (\<lambda>x. x \<noteq> JStr t) (get_list d f)"
proof -
  have "filter (\<lambda>x. x \<noteq> JStr t) xs = xs" if "JStr t \<notin> set xs" for xs
    using that by (auto simp: filter_id_conv)
  then show ?thesis
    by (auto simp: get_list_def map_of_merge_distinct[OF fields_without_distinct[OF assms]]
        fields_without_lookup[OF assms] split: option.splits json.splits)
qed

section \<open>A service that keeps its items\<close>

text \<open>
  The laws of the service, for a state of any type with an observation \<open>lookup\<close>: reading an item,
  merging the fields of a \<open>PATCH\<close>, and deleting unless another item refers to it.
\<close>

definition get_one :: "string \<Rightarrow> string \<Rightarrow> request" where
  "get_one coll iid = \<lparr>rq_method = GET, rq_address = ItemLive coll iid, rq_params = None, rq_body = None\<rparr>"

definition patch_one :: "string \<Rightarrow> string \<Rightarrow> payload \<Rightarrow> request" where
  "patch_one coll iid pl = \<lparr>rq_method = PATCH, rq_address = ItemLive coll iid, rq_params = None, rq_body = Some pl\<rparr>"

definition delete_one :: "string \<Rightarrow> string \<Rightarrow> request" where
  "delete_one coll iid = \<lparr>rq_method = DELETE, rq_address = ItemLive coll iid, rq_params = None, rq_body = None\<rparr>"

definition patched :: "fields \<Rightarrow> item \<Rightarrow> item" where
  "patched fs it = it\<lparr>field_data := Some (merge_fields fs (data_of it))\<rparr>"

locale cms_service =
  fixes W :: "'s world" and lookup :: "'s \<Rightarrow> string \<Rightarrow> string \<Rightarrow> item option"
  assumes read_law: "send W (get_one c i) s =
      (Inr (case lookup s c i of
              None \<Rightarrow> \<lparr>status = 404, resp_body = OtherDoc\<rparr>
            | Some it \<Rightarrow> \<lparr>status = 200, resp_body = ItemDoc it\<rparr>), s)"
    and patch_law: "lookup s c i = Some it \<Longrightarrow>
      \<exists>s'. send W (patch_one c i pl) s = (Inr \<lparr>status = 200, resp_body = ItemDoc (patched (pl_fields pl) it)\<rparr>, s') \<and>
        (\<forall>c' i'. lookup s' c' i' = (if c' = c \<and> i' = i then Some (patched (pl_fields pl) it) else lookup s c' i'))"
    and delete_law: "lookup s c i = Some it \<Longrightarrow>
      (\<exists>s'. send W (delete_one c i) s = (Inr \<lparr>status = 204, resp_body = NotJson\<rparr>, s') \<and>
        (\<forall>c' i'. lookup s' c' i' = (if c' = c \<and> i' = i then None else lookup s c' i'))) \<or>
      (\<exists>refs. send W (delete_one c i) s = (Inr \<lparr>status = 409, resp_body = ConflictDoc refs\<rparr>, s))"
begin

lemma fetch_item_lookup: "fetch_item W c i s = Some (Inr (lookup s c i), s)"
proof -
  have "request W (get_one c i) True s =
      Some (Inr (case lookup s c i of None \<Rightarrow> None | Some it \<Rightarrow> Some \<lparr>status = 200, resp_body = ItemDoc it\<rparr>), s)"
    by (subst request_final[OF read_law])
      (auto simp: transient_def TRANSIENT_STATUS_CODES_def conclude_def split: option.splits)
  then show ?thesis
    by (auto simp: fetch_item_def get_one_def[symmetric] act split: option.splits)
qed

lemma patch_lookup:
  assumes "lookup s c i = Some it"
  shows "\<exists>s'. patch W c i pl s = Some (Inr (Some \<lparr>status = 200, resp_body = ItemDoc (patched (pl_fields pl) it)\<rparr>), s') \<and>
    (\<forall>c' i'. lookup s' c' i' = (if c' = c \<and> i' = i then Some (patched (pl_fields pl) it) else lookup s c' i'))"
proof -
  obtain s' where s': "send W (patch_one c i pl) s = (Inr \<lparr>status = 200, resp_body = ItemDoc (patched (pl_fields pl) it)\<rparr>, s')"
      and l: "\<forall>c' i'. lookup s' c' i' = (if c' = c \<and> i' = i then Some (patched (pl_fields pl) it) else lookup s c' i')"
    using patch_law[OF assms] by blast
  have "patch W c i pl s = Some (Inr (Some \<lparr>status = 200, resp_body = ItemDoc (patched (pl_fields pl) it)\<rparr>), s')"
    unfolding patch_def patch_one_def[symmetric]
    by (subst request_final[OF s']) (simp_all add: transient_def TRANSIENT_STATUS_CODES_def conclude_def)
  then show ?thesis using l by blast
qed

lemma update_item_field_lookup:
  assumes "lookup s c i = Some it"
  shows "\<exists>s'. update_item_field W c i f v s = Some (Inr (), s') \<and>
    (\<forall>c' i'. lookup s' c' i' = (if c' = c \<and> i' = i then Some (patched [(f, v)] it) else lookup s c' i'))"
proof -
  obtain s' where "patch W c i \<lparr>pl_flags = None, pl_fields = [(f, v)]\<rparr> s =
      Some (Inr (Some \<lparr>status = 200, resp_body = ItemDoc (patched [(f, v)] it)\<rparr>), s')"
    "\<forall>c' i'. lookup s' c' i' = (if c' = c \<and> i' = i then Some (patched [(f, v)] it) else lookup s c' i')"
    using patch_lookup[OF assms, of "\<lparr>pl_flags = None, pl_fields = [(f, v)]\<rparr>"] by auto
  then show ?thesis by (auto simp: update_item_field_def json_answer_def act)
qed

lemma delete_item_lookup:
  assumes "lookup s c i = Some it"
  shows "(\<exists>s'. delete_item W c i s = Some (Inr True, s') \<and>
      (\<forall>c' i'. lookup s' c' i' = (if c' = c \<and> i' = i then None else lookup s c' i'))) \<or>
    (\<exists>refs. delete_item W c i s = Some (Inl (Conflict refs), s))"
  using delete_law[OF assms]
proof (elim disjE exE conjE)
  fix s' assume a: "send W (delete_one c i) s = (Inr \<lparr>status = 204, resp_body = NotJson\<rparr>, s')"
    "\<forall>c' i'. lookup s' c' i' = (if c' = c \<and> i' = i then None else lookup s c' i')"
  have "request W (delete_one c i) False s = Some (Inr (Some \<lparr>status = 204, resp_body = NotJson\<rparr>), s')"
    by (subst request_final[OF a(1)]) (simp_all add: transient_def TRANSIENT_STATUS_CODES_def conclude_def)
  then show ?thesis using a(2) by (auto simp: delete_item_def delete_one_def[symmetric] act)
next
  fix refs assume a: "send W (delete_one c i) s = (Inr \<lparr>status = 409, resp_body = ConflictDoc refs\<rparr>, s)"
  have "request W (delete_one c i) False s = Some (Inl (Conflict refs), s)"
    by (subst request_final[OF a]) (simp_all add: transient_def TRANSIENT_STATUS_CODES_def conclude_def)
  then show ?thesis by (auto simp: delete_item_def delete_one_def[symmetric] act)
qed

lemma remove_reference_lookup:
  assumes "lookup s c i = Some it" "distinct (map fst (data_of it))"
  shows "\<exists>s' it'. remove_reference W c i t s = Some (Inr True, s') \<and> lookup s' c i = Some it' \<and>
    (\<forall>f. get_list (data_of it') f = filter (\<lambda>x. x \<noteq> JStr t) (get_list (data_of it) f)) \<and>
    (\<forall>c' i'. (c', i') \<noteq> (c, i) \<longrightarrow> lookup s' c' i' = lookup s c' i')"
proof (cases "fields_without t (data_of it) = []")
  case True
  then have "\<forall>f. get_list (data_of it) f = filter (\<lambda>x. x \<noteq> JStr t) (get_list (data_of it) f)"
    using get_list_without[OF assms(2), of t] by (simp add: merge_fields_def)
  with True assms(1) show ?thesis
    by (intro exI[of _ s] exI[of _ it]) (simp add: remove_reference_def act fetch_item_lookup)
next
  case False
  let ?fs = "fields_without t (data_of it)"
  obtain s' where s': "patch W c i \<lparr>pl_flags = None, pl_fields = ?fs\<rparr> s =
      Some (Inr (Some \<lparr>status = 200, resp_body = ItemDoc (patched ?fs it)\<rparr>), s')"
    "\<forall>c' i'. lookup s' c' i' = (if c' = c \<and> i' = i then Some (patched ?fs it) else lookup s c' i')"
    using patch_lookup[OF assms(1), of "\<lparr>pl_flags = None, pl_fields = ?fs\<rparr>"] by auto
  have "remove_reference W c i t s = Some (Inr True, s')"
    using False assms(1) s'(1) by (simp add: remove_reference_def act fetch_item_lookup Let_def)
  with s'(2) show ?thesis
    using get_list_without[OF assms(2)]
    by (intro exI[of _ s'] exI[of _ "patched ?fs it"]) (auto simp: patched_def data_of_def)
qed

end

text \<open>
  A reference service, in memory: the items in order, each with its collection. An item is
  deleted unless another one refers to it, as the service documents.
\<close>

type_synonym store = "(string \<times> item) list"

definition is_at :: "string \<Rightarrow> string \<Rightarrow> string \<times> item \<Rightarrow> bool" where
  "is_at c i e = (fst e = c \<and> item_id (snd e) = i)"

definition stored :: "store \<Rightarrow> string \<Rightarrow> string \<Rightarrow> item option" where
  "stored st c i = map_option snd (find (is_at c i) st)"

definition refers :: "string \<Rightarrow> item \<Rightarrow> bool" where
  "refers i it = list_ex (\<lambda>(f, v). case v of JArr xs \<Rightarrow> JStr i \<in> set xs | _ \<Rightarrow> False) (data_of it)"

definition answer_200 :: "body \<Rightarrow> string + response" where
  "answer_200 b = Inr \<lparr>status = 200, resp_body = b\<rparr>"

definition not_found :: "string + response" where
  "not_found = Inr \<lparr>status = 404, resp_body = OtherDoc\<rparr>"

definition memory_send :: "request \<Rightarrow> store \<Rightarrow> (string + response) \<times> store" where
  "memory_send rq st =
     (case rq_address rq of
        ItemsLive c \<Rightarrow>
          (case rq_params rq of
             None \<Rightarrow> (not_found, st)
           | Some (limit, offset) \<Rightarrow>
               (answer_200 (ItemPage (take limit (drop offset (map snd (filter (\<lambda>e. fst e = c) st))))), st))
      | ItemLive c i \<Rightarrow>
          (case stored st c i of
             None \<Rightarrow> (not_found, st)
           | Some it \<Rightarrow>
               (case rq_method rq of
                  GET \<Rightarrow> (answer_200 (ItemDoc it), st)
                | PATCH \<Rightarrow>
                    (case rq_body rq of
                       None \<Rightarrow> (not_found, st)
                     | Some pl \<Rightarrow>
                         (answer_200 (ItemDoc (patched (pl_fields pl) it)),
                          map (\<lambda>e. if is_at c i e then (fst e, patched (pl_fields pl) it) else e) st))
                | DELETE \<Rightarrow>
                    (let holders = filter (\<lambda>e. refers i (snd e)) st in
                     if holders = [] then
                       (Inr \<lparr>status = 204, resp_body = NotJson\<rparr>, filter (\<lambda>e. \<not> is_at c i e) st)
                     else
                       (Inr \<lparr>status = 409, resp_body = ConflictDoc
                          (map (\<lambda>e. \<lparr>ref_id = Some (item_id (snd e)), ref_coll = Some (fst e)\<rparr>) holders)\<rparr>, st)))))"

definition memory_world :: "store world" where
  "memory_world = \<lparr>send = memory_send, sleep = (\<lambda>n st. st)\<rparr>"

lemma stored_id: "stored st c i = Some it \<Longrightarrow> item_id it = i"
  by (induction st) (auto simp: stored_def is_at_def split: if_splits)

lemma stored_patch:
  assumes "stored st c i = Some it"
  shows "stored (map (\<lambda>e. if is_at c i e then (fst e, patched fs it) else e) st) c' i' =
    (if c' = c \<and> i' = i then Some (patched fs it) else stored st c' i')"
proof -
  have at: "is_at c' i' (a, patched fs it) \<longleftrightarrow> a = c' \<and> i = i'" for a c' i'
    using stored_id[OF assms] by (auto simp: is_at_def patched_def)
  have same: "find (is_at c i) st \<noteq> None \<Longrightarrow>
      stored (map (\<lambda>e. if is_at c i e then (fst e, patched fs it) else e) st) c i = Some (patched fs it)" for st
  proof (induction st)
    case (Cons e st)
    then show ?case by (cases "is_at c i e") (auto simp: stored_def at, auto simp: is_at_def)
  qed simp
  have other: "stored (map (\<lambda>e. if is_at c i e then (fst e, patched fs it) else e) st) c' i' = stored st c' i'"
    if "\<not> (c' = c \<and> i' = i)" for st
  proof (induction st)
    case (Cons e st)
    have "\<not> is_at c' i' e" if "is_at c i e" using that \<open>\<not> (c' = c \<and> i' = i)\<close> by (auto simp: is_at_def)
    moreover have "\<not> is_at c' i' (fst e, patched fs it)" if "is_at c i e"
      using that \<open>\<not> (c' = c \<and> i' = i)\<close> unfolding at by (auto simp: is_at_def)
    ultimately show ?case using Cons by (cases "is_at c i e") (simp_all add: stored_def)
  qed (simp add: stored_def)
  show ?thesis
  proof (cases "c' = c \<and> i' = i")
    case True
    then show ?thesis using same[of st] assms by (auto simp: stored_def)
  next
    case False
    show ?thesis unfolding if_not_P[OF False] by (rule other[OF False])
  qed
qed

lemma stored_delete:
  "stored (filter (\<lambda>e. \<not> is_at c i e) st) c' i' = (if c' = c \<and> i' = i then None else stored st c' i')"
  by (induction st) (auto simp: stored_def is_at_def)

interpretation mem: cms_service memory_world stored
proof unfold_locales
  fix s :: store and c i it pl
  show "send memory_world (get_one c i) s =
      (Inr (case stored s c i of None \<Rightarrow> \<lparr>status = 404, resp_body = OtherDoc\<rparr>
            | Some it \<Rightarrow> \<lparr>status = 200, resp_body = ItemDoc it\<rparr>), s)"
    by (auto simp: memory_world_def memory_send_def get_one_def not_found_def answer_200_def split: option.splits)
  assume st: "stored s c i = Some it"
  show "\<exists>s'. send memory_world (patch_one c i pl) s =
        (Inr \<lparr>status = 200, resp_body = ItemDoc (patched (pl_fields pl) it)\<rparr>, s') \<and>
      (\<forall>c' i'. stored s' c' i' = (if c' = c \<and> i' = i then Some (patched (pl_fields pl) it) else stored s c' i'))"
    using st by (simp add: memory_world_def memory_send_def patch_one_def answer_200_def stored_patch)
  show "(\<exists>s'. send memory_world (delete_one c i) s = (Inr \<lparr>status = 204, resp_body = NotJson\<rparr>, s') \<and>
        (\<forall>c' i'. stored s' c' i' = (if c' = c \<and> i' = i then None else stored s c' i'))) \<or>
      (\<exists>refs. send memory_world (delete_one c i) s = (Inr \<lparr>status = 409, resp_body = ConflictDoc refs\<rparr>, s))"
    using st by (simp add: memory_world_def memory_send_def delete_one_def stored_delete Let_def)
qed

text \<open>removing a reference through the client takes the target out of every multi-reference
  field of the item and nothing else: the other references keep their order, and no other item
  changes.\<close>

lemma remove_reference_exact:
  assumes "stored st c i = Some it" "distinct (map fst (data_of it))"
  shows "\<exists>st' it'. remove_reference memory_world c i t st = Some (Inr True, st') \<and> stored st' c i = Some it' \<and>
    (\<forall>f. get_list (data_of it') f = filter (\<lambda>x. x \<noteq> JStr t) (get_list (data_of it) f)) \<and>
    (\<forall>c' i'. (c', i') \<noteq> (c, i) \<longrightarrow> stored st' c' i' = stored st c' i')"
  by (rule mem.remove_reference_lookup[OF assms])

definition sample_org :: item where
  "sample_org = \<lparr>item_id = ''o1'', is_archived = False, is_draft = False,
     field_data = Some [(''name'', JStr ''Org''), (''bills-support'', JArr [JStr ''b1'', JStr ''b2''])]\<rparr>"

lemma remove_reference_exact_witness:
  "\<exists>st' it'. remove_reference memory_world ''orgs'' ''o1'' ''b1'' [(''orgs'', sample_org)] = Some (Inr True, st') \<and>
    stored st' ''orgs'' ''o1'' = Some it' \<and> get_list (data_of it') ''bills-support'' = [JStr ''b2'']"
  using remove_reference_exact[of "[(''orgs'', sample_org)]" "''orgs''" "''o1''" sample_org "''b1''"]
  by (auto simp: stored_def is_at_def sample_org_def data_of_def get_list_def)

lemma fetch_all_live_items_complete_witness:
  "fetch_all_live_items memory_world ''orgs'' [(''orgs'', sample_org)] = Some (Inr [sample_org], [(''orgs'', sample_org)])"
  by (rule fetch_all_live_items_complete)
    (simp add: memory_world_def memory_send_def get_page_def answer_200_def)

end
