(* ===== verification/DuplicateBills.thy ===== *)
theory DuplicateBills
  imports UnionFind WebflowClient
begin

text \<open>
  \<open>webflow_cms/services/duplicate_bills.py\<close>: finding duplicate and companion bills among the
  items of a collection, and resolving a group: the populated fields of the anomalous items are
  copied to the item to keep, then the anomalous items are deleted, their incoming references
  first when the service refuses. The pauses between calls are not modelled.
\<close>

section \<open>Finding duplicates\<close>

text \<open>\<open>defaultdict(list)\<close>: append to the list of a key, in insertion order of the keys.\<close>

fun dict_append :: "'k \<Rightarrow> 'v \<Rightarrow> ('k \<times> 'v list) list \<Rightarrow> ('k \<times> 'v list) list" where
  "dict_append k v [] = [(k, [v])]"
| "dict_append k v ((k', vs) # d) = (if k' = k then (k', vs @ [v]) # d else (k', vs) # dict_append k v d)"

record bill_info =
  bi_id :: string
  bi_name :: string
  bi_slug :: "string option"
  open_states_url :: "string option"
  gov_url :: "string option"
  is_hidden :: json
  has_random_suffix :: bool
  bi_fields :: fields
  bi_completeness :: completeness
  original_item :: item

record scan =
  item_data :: "(string \<times> bill_info) list"
  by_normalized_title :: "(string \<times> string list) list"
  by_open_states_url :: "(string \<times> string list) list"
  by_gov_url :: "(string \<times> string list) list"

definition given :: "string option \<Rightarrow> string" where
  "given s = (case s of None \<Rightarrow> [] | Some t \<Rightarrow> t)"

definition bill_info_of :: "item \<Rightarrow> bill_info" where
  "bill_info_of it =
     (let data = data_of it in
      \<lparr>bi_id = item_id it, bi_name = given (get_text data ''name''), bi_slug = get_text data ''slug'',
       open_states_url = get_text data ''open-states-url-2'', gov_url = get_text data ''gov-url'',
       is_hidden = (case map_of data ''public'' of None \<Rightarrow> JBool False | Some v \<Rightarrow> v),
       has_random_suffix = has_random_slug_suffix (get_text data ''slug''),
       bi_fields = data, bi_completeness = analyze_field_completeness data, original_item = it\<rparr>)"

definition append_under :: "string \<Rightarrow> string \<Rightarrow> (string \<times> string list) list \<Rightarrow> (string \<times> string list) list" where
  "append_under key iid d = (if key \<noteq> [] then dict_append key iid d else d)"

text \<open>The keys under which an item is filed; an empty one files it nowhere.\<close>

definition title_key :: "item \<Rightarrow> string" where
  "title_key it = given (normalize_title (get_text (data_of it) ''name''))"

definition url_key :: "item \<Rightarrow> string" where
  "url_key it = strip (given (get_text (data_of it) ''open-states-url-2''))"

definition gov_key :: "item \<Rightarrow> string" where
  "gov_key it = strip (given (get_text (data_of it) ''gov-url''))"

definition has_name :: "item \<Rightarrow> bool" where
  "has_name it = (given (get_text (data_of it) ''name'') \<noteq> [])"

definition scan_item :: "item \<Rightarrow> scan \<Rightarrow> scan" where
  "scan_item it sc =
     (if \<not> has_name it then sc
      else
        \<lparr>item_data = dict_set (item_id it) (bill_info_of it) (item_data sc),
         by_normalized_title = append_under (title_key it) (item_id it) (by_normalized_title sc),
         by_open_states_url = append_under (url_key it) (item_id it) (by_open_states_url sc),
         by_gov_url = append_under (gov_key it) (item_id it) (by_gov_url sc)\<rparr>)"

definition scan_items :: "item list \<Rightarrow> scan" where
  "scan_items items = fold scan_item items
     \<lparr>item_data = [], by_normalized_title = [], by_open_states_url = [], by_gov_url = []\<rparr>"

text \<open>The unions of the identifiers filed under one key: the first with each of the others.\<close>

definition star :: "string list \<Rightarrow> (string \<times> string) list" where
  "star ids = (if length ids > 1 then map (\<lambda>i. (hd ids, i)) (tl ids) else [])"

definition duplicate_pairs :: "scan \<Rightarrow> (string \<times> string) list" where
  "duplicate_pairs sc =
     concat (map (star \<circ> snd) (by_normalized_title sc)) @ concat (map (star \<circ> snd) (by_open_states_url sc))"

text \<open>The groups by root, and those with more than one item.\<close>

definition grouped :: "scan \<Rightarrow> (string \<times> bill_info list) list option" where
  "grouped sc =
     (case union_pairs uf_union (duplicate_pairs sc) uf_empty of
        None \<Rightarrow> None
      | Some uf \<Rightarrow>
          (case find_each uf_find (map fst (item_data sc)) uf of
             None \<Rightarrow> None
           | Some roots \<Rightarrow>
               Some (fold (\<lambda>(r, info) d. dict_append r info d) (zip roots (map snd (item_data sc))) [])))"

definition duplicate_groups :: "(string \<times> bill_info list) list \<Rightarrow> (string \<times> bill_info list) list" where
  "duplicate_groups groups = filter (\<lambda>g. length (snd g) > 1) groups"

definition companion_groups :: "scan \<Rightarrow> string set \<Rightarrow> (string \<times> bill_info list) list" where
  "companion_groups sc in_dup =
     List.map_filter (\<lambda>(url, ids).
       let infos = map (\<lambda>i. the (map_of (item_data sc) i)) (filter (\<lambda>i. i \<notin> in_dup) ids) in
       if length infos < 2 then None
       else if card (set (map (\<lambda>b. strip (given (open_states_url b)))
                 (filter (\<lambda>b. given (open_states_url b) \<noteq> []) infos))) \<ge> 2
       then Some (url, infos) else None) (by_gov_url sc)"

record dup_group =
  dg_label :: string
  group_type :: string
  match_reasons :: "string list"
  dg_items :: "bill_info list"

text \<open>The first item with the most populated fields: head of the stable descending sort.\<close>

fun fullest :: "bill_info \<Rightarrow> bill_info list \<Rightarrow> bill_info" where
  "fullest b [] = b"
| "fullest b (c # cs) =
     (if populated_count (bi_completeness c) > populated_count (bi_completeness b) then fullest c cs else fullest b cs)"

definition label_of :: "string \<Rightarrow> bill_info list \<Rightarrow> string" where
  "label_of fallback infos =
     (let t = given (normalize_title (Some (bi_name (fullest (hd infos) (tl infos))))) in
      if t \<noteq> [] then t else fallback)"

fun comma_join :: "string list \<Rightarrow> string" where
  "comma_join [] = []"
| "comma_join [s] = s"
| "comma_join (s # t # rest) = s @ '', '' @ comma_join (t # rest)"

definition reasons :: "bill_info list \<Rightarrow> string list" where
  "reasons infos =
     (let titles = sorted_set (map (\<lambda>b. given (normalize_title (Some (bi_name b)))) infos);
          urls = remdups (map (\<lambda>b. given (open_states_url b)) (filter (\<lambda>b. given (open_states_url b) \<noteq> []) infos)) in
      (if length titles \<le> 1 then [''same title''] else [''different titles: '' @ comma_join titles]) @
      (if length urls = 1 then [''shared open-states-url''] else []))"

definition label_duplicate :: "string \<times> bill_info list \<Rightarrow> dup_group" where
  "label_duplicate g =
     \<lparr>dg_label = label_of (''group-'' @ fst g) (snd g), group_type = ''duplicate'',
      match_reasons = reasons (snd g), dg_items = snd g\<rparr>"

definition label_companion :: "string \<times> bill_info list \<Rightarrow> dup_group" where
  "label_companion g =
     \<lparr>dg_label = label_of (''companions-'' @ take 20 (fst g)) (snd g), group_type = ''companion'',
      match_reasons = [''shared gov-url'', ''different open-states-urls (likely House/Senate companions)''],
      dg_items = snd g\<rparr>"

definition duplicates_of :: "item list \<Rightarrow> dup_group list option" where
  "duplicates_of items =
     (let sc = scan_items items in
      case grouped sc of
        None \<Rightarrow> None
      | Some groups \<Rightarrow>
          (let dups = duplicate_groups groups;
               in_dup = set (concat (map (map bi_id \<circ> snd) dups)) in
           Some (map label_duplicate dups @ map label_companion (companion_groups sc in_dup))))"

definition find_duplicates :: "'s world \<Rightarrow> string \<Rightarrow> ('s, dup_group list) act" where
  "find_duplicates W coll =
     bind_act (fetch_all_live_items W coll) (\<lambda>items s.
       case duplicates_of items of None \<Rightarrow> None | Some gs \<Rightarrow> Some (Inr gs, s))"

section \<open>Resolving a group\<close>

record delete_result =
  dr_item_id :: string
  dr_item_name :: json
  deleted :: bool
  references_removed :: nat
  references_failed :: nat
  dr_error :: string

text \<open>\<open>str(exc)\<close>.\<close>

definition error_text :: "werror \<Rightarrow> string" where
  "error_text e = (case e of Conflict _ \<Rightarrow> ''Conflict'' | ApiError _ \<Rightarrow> ''API error'' | Raised m \<Rightarrow> m)"

definition SKIP_FIELDS :: "string list" where
  "SKIP_FIELDS = [''name'', ''slug'', ''id'', ''_id'', ''_archived'', ''_draft'', ''created-on'', ''updated-on'', ''published-on'']"

definition MULTI_REF :: "string list" where
  "MULTI_REF = [''member-organizations'', ''organizations-oppose'', ''bills-support'', ''bills-oppose'']"

definition list_value :: "json option \<Rightarrow> json list" where
  "list_value v = (case v of Some (JArr xs) \<Rightarrow> xs | _ \<Rightarrow> [])"

definition is_list :: "json \<Rightarrow> bool" where
  "is_list v = (case v of JArr _ \<Rightarrow> True | _ \<Rightarrow> False)"

definition empty_value :: "json option \<Rightarrow> bool" where
  "empty_value v = (v = None \<or> v = Some JNull \<or> v = Some (JStr []) \<or> v = Some (JArr []))"

text \<open>What one source field sends to the target, if anything.\<close>

definition migrated :: "fields \<Rightarrow> string \<times> json \<Rightarrow> (string \<times> json) option" where
  "migrated target fv =
     (case fv of (f, src_val) \<Rightarrow>
        if f \<in> set SKIP_FIELDS \<or> \<not> truthy src_val then None
        else
          (let tgt_val = map_of target f in
           if f \<in> set MULTI_REF \<and> is_list src_val then
             (let tgt_list = list_value tgt_val;
                  to_add = filter (\<lambda>x. x \<notin> set tgt_list) (list_value (Some src_val)) in
              if to_add \<noteq> [] then Some (f, JArr (tgt_list @ to_add)) else None)
           else if empty_value tgt_val then Some (f, src_val) else None))"

definition fields_to_update :: "fields \<Rightarrow> fields \<Rightarrow> fields" where
  "fields_to_update source target = List.map_filter (migrated target) source"

definition migrate_fields :: "'s world \<Rightarrow> string \<Rightarrow> fields \<Rightarrow> fields \<Rightarrow> string \<Rightarrow> ('s, unit) act" where
  "migrate_fields W coll source target target_id =
     (case fields_to_update source target of
        [] \<Rightarrow> ret ()
      | (f, v) # rest \<Rightarrow>
          bind_act (update_item_field W coll target_id f v) (\<lambda>_.
            if rest \<noteq> []
            then bind_act (patch W coll target_id \<lparr>pl_flags = None, pl_fields = (f, v) # rest\<rparr>) (\<lambda>_. ret ())
            else ret ()))"

text \<open>The references of a conflict, one after the other; the counts of removed and failed ones.\<close>

fun remove_references :: "'s world \<Rightarrow> string \<Rightarrow> reference list \<Rightarrow> nat \<Rightarrow> nat \<Rightarrow> ('s, nat \<times> nat) act" where
  "remove_references W target [] removed failed = ret (removed, failed)"
| "remove_references W target (r # rs) removed failed =
     (if given (ref_id r) = [] \<or> given (ref_coll r) = []
      then remove_references W target rs removed (failed + 1)
      else
        bind_act
          (catch (bind_act (remove_reference W (given (ref_coll r)) (given (ref_id r)) target) (\<lambda>_. ret True))
             (\<lambda>_. ret False))
          (\<lambda>ok. if ok then remove_references W target rs (removed + 1) failed
                else remove_references W target rs removed (failed + 1)))"

definition delete_failed :: "string \<Rightarrow> json \<Rightarrow> nat \<Rightarrow> nat \<Rightarrow> string \<Rightarrow> delete_result" where
  "delete_failed iid name removed failed err =
     \<lparr>dr_item_id = iid, dr_item_name = name, deleted = False, references_removed = removed,
      references_failed = failed, dr_error = err\<rparr>"

definition delete_done :: "string \<Rightarrow> json \<Rightarrow> nat \<Rightarrow> nat \<Rightarrow> delete_result" where
  "delete_done iid name removed failed =
     \<lparr>dr_item_id = iid, dr_item_name = name, deleted = True, references_removed = removed,
      references_failed = failed, dr_error = []\<rparr>"

definition delete_with_reference_handling :: "'s world \<Rightarrow> string \<Rightarrow> string \<Rightarrow> json \<Rightarrow> ('s, delete_result) act" where
  "delete_with_reference_handling W coll iid name =
     catch (bind_act (delete_item W coll iid) (\<lambda>_. ret (delete_done iid name 0 0)))
       (\<lambda>exc.
          case exc of
            Conflict refs \<Rightarrow>
              bind_act (remove_references W iid refs 0 0) (\<lambda>(removed, failed).
                catch (bind_act (delete_item W coll iid) (\<lambda>_. ret (delete_done iid name removed failed)))
                  (\<lambda>exc2. ret (delete_failed iid name removed failed (error_text exc2))))
          | _ \<Rightarrow> ret (delete_failed iid name 0 0 (error_text exc)))"

text \<open>The loop over the anomalous items; \<open>correct_data\<close> is what the item to keep held at the start.\<close>

fun resolve_each ::
  "'s world \<Rightarrow> string \<Rightarrow> string \<Rightarrow> fields \<Rightarrow> bool \<Rightarrow> bool \<Rightarrow> string list \<Rightarrow> ('s, delete_result list) act" where
  "resolve_each W coll correct_id correct_data migrate delete [] = ret []"
| "resolve_each W coll correct_id correct_data migrate delete (anom_id # rest) =
     bind_act (fetch_item W coll anom_id) (\<lambda>found.
       bind_act
         (case found of
            None \<Rightarrow> ret (delete_failed anom_id (JStr ''(not found)'') 0 0 (''Item '' @ anom_id @ '' not found''))
          | Some anom \<Rightarrow>
              bind_act (if migrate then migrate_fields W coll (data_of anom) correct_data correct_id else ret ())
                (\<lambda>_. if delete then delete_with_reference_handling W coll anom_id (item_label anom)
                     else ret (delete_failed anom_id (item_label anom) 0 0 [])))
         (\<lambda>r. bind_act (resolve_each W coll correct_id correct_data migrate delete rest) (\<lambda>rs. ret (r # rs))))"

definition resolve_group ::
  "'s world \<Rightarrow> string \<Rightarrow> string \<Rightarrow> string list \<Rightarrow> bool \<Rightarrow> bool \<Rightarrow> ('s, delete_result list) act" where
  "resolve_group W coll correct_id anomalous migrate delete =
     bind_act (fetch_item W coll correct_id) (\<lambda>found.
       case found of
         None \<Rightarrow> raise (Raised (''Correct item '' @ correct_id @ '' not found''))
       | Some correct \<Rightarrow> resolve_each W coll correct_id (data_of correct) migrate delete anomalous)"

section \<open>Grouping by key\<close>

definition group_by :: "('k \<times> 'v) list \<Rightarrow> ('k \<times> 'v list) list" where
  "group_by kvs = fold (\<lambda>(k, v) d. dict_append k v d) kvs []"

definition under :: "'k \<Rightarrow> ('k \<times> 'v) list \<Rightarrow> 'v list" where
  "under k kvs = map snd (filter (\<lambda>p. fst p = k) kvs)"

lemma dict_append_lookup:
  "map_of (dict_append k v d) k' = (if k' = k then Some ((case map_of d k of None \<Rightarrow> [] | Some vs \<Rightarrow> vs) @ [v]) else map_of d k')"
  by (induction k v d rule: dict_append.induct) auto

lemma dict_append_keys: "fst ` set (dict_append k v d) = insert k (fst ` set d)"
  by (induction k v d rule: dict_append.induct) auto

lemma dict_append_distinct: "distinct (map fst d) \<Longrightarrow> distinct (map fst (dict_append k v d))"
  by (induction k v d rule: dict_append.induct) (auto simp: dict_append_keys image_iff)

lemma group_by_snoc: "group_by (kvs @ [(k, v)]) = dict_append k v (group_by kvs)"
  by (simp add: group_by_def)

lemma group_by_distinct: "distinct (map fst (group_by kvs))"
proof (induction kvs rule: rev_induct)
  case (snoc p kvs)
  then show ?case by (cases p) (simp add: group_by_snoc dict_append_distinct)
qed (simp add: group_by_def)

lemma group_by_lookup:
  "map_of (group_by kvs) k = (if under k kvs = [] then None else Some (under k kvs))"
proof (induction kvs rule: rev_induct)
  case (snoc p kvs)
  then show ?case by (cases p) (auto simp: group_by_snoc dict_append_lookup under_def)
qed (simp add: group_by_def under_def)

lemma group_by_mem:
  "(k, vs) \<in> set (group_by kvs) \<longleftrightarrow> vs = under k kvs \<and> vs \<noteq> []"
  unfolding map_of_eq_Some_iff[OF group_by_distinct, symmetric] group_by_lookup by auto

section \<open>What the scan collects\<close>

definition keyed :: "(item \<Rightarrow> string) \<Rightarrow> item list \<Rightarrow> (string \<times> string) list" where
  "keyed key items = map (\<lambda>it. (key it, item_id it)) (filter (\<lambda>it. has_name it \<and> key it \<noteq> []) items)"

lemma append_under_group:
  "append_under key iid (group_by kvs) = (if key \<noteq> [] then group_by (kvs @ [(key, iid)]) else group_by kvs)"
  by (simp add: append_under_def group_by_snoc)

lemma scan_items_eq:
  assumes "distinct (map item_id items)"
  shows "scan_items items =
    \<lparr>item_data = map (\<lambda>it. (item_id it, bill_info_of it)) (filter has_name items),
     by_normalized_title = group_by (keyed title_key items),
     by_open_states_url = group_by (keyed url_key items),
     by_gov_url = group_by (keyed gov_key items)\<rparr>"
  using assms
proof (induction items rule: rev_induct)
  case (snoc it items)
  have set_new: "dict_set k v d = d @ [(k, v)]" if "k \<notin> fst ` set d" for k and v :: bill_info and d
    using that by (induction k v d rule: dict_set.induct) auto
  have new: "item_id it \<notin> fst ` set (map (\<lambda>it. (item_id it, bill_info_of it)) (filter has_name items))"
    using snoc.prems by (auto simp: image_iff)
  have IH: "scan_items items =
    \<lparr>item_data = map (\<lambda>it. (item_id it, bill_info_of it)) (filter has_name items),
     by_normalized_title = group_by (keyed title_key items),
     by_open_states_url = group_by (keyed url_key items),
     by_gov_url = group_by (keyed gov_key items)\<rparr>" using snoc by simp
  have keyed_snoc: "keyed key (items @ [it]) =
      keyed key items @ (if has_name it \<and> key it \<noteq> [] then [(key it, item_id it)] else [])" for key
    by (simp add: keyed_def)
  have filed: "group_by (keyed key (items @ [it])) =
      (if has_name it then append_under (key it) (item_id it) (group_by (keyed key items)) else group_by (keyed key items))" for key
    unfolding keyed_snoc append_under_group by simp
  have "scan_items (items @ [it]) = scan_item it (scan_items items)" by (simp add: scan_items_def)
  then show ?case
    unfolding IH scan_item_def filed by (simp add: set_new[OF new])
qed (simp add: scan_items_def keyed_def group_by_def)

section \<open>Shared keys and the pairs joined\<close>

text \<open>Two of the items are filed under the same title or the same address.\<close>

definition shares_key :: "item list \<Rightarrow> string \<Rightarrow> string \<Rightarrow> bool" where
  "shares_key items a b \<longleftrightarrow>
     (\<exists>x \<in> set items. \<exists>y \<in> set items. item_id x = a \<and> item_id y = b \<and> has_name x \<and> has_name y \<and>
        (title_key x = title_key y \<and> title_key x \<noteq> [] \<or> url_key x = url_key y \<and> url_key x \<noteq> []))"

definition same_group :: "(string \<times> string) list \<Rightarrow> string \<Rightarrow> string \<Rightarrow> bool" where
  "same_group kvs a b \<longleftrightarrow> (\<exists>k. (k, a) \<in> set kvs \<and> (k, b) \<in> set kvs)"

definition stars :: "(string \<times> string) list \<Rightarrow> (string \<times> string) list" where
  "stars kvs = concat (map (star \<circ> snd) (group_by kvs))"

lemma under_mem: "v \<in> set (under k kvs) \<longleftrightarrow> (k, v) \<in> set kvs"
  by (force simp: under_def)

lemma in_star: "(a, b) \<in> set (star ids) \<longleftrightarrow> length ids > 1 \<and> a = hd ids \<and> b \<in> set (tl ids)"
  by (auto simp: star_def)

lemma stars_same: "(a, b) \<in> set (stars kvs) \<Longrightarrow> same_group kvs a b"
proof -
  assume "(a, b) \<in> set (stars kvs)"
  then obtain k where k: "under k kvs \<noteq> []" "(a, b) \<in> set (star (under k kvs))"
    by (auto simp: stars_def group_by_mem)
  then have "a \<in> set (under k kvs)" "b \<in> set (under k kvs)"
    by (auto simp: in_star dest: list.set_sel(2))
  then show ?thesis by (auto simp: same_group_def under_mem)
qed

lemma same_stars: "same_group kvs a b \<Longrightarrow> equivclp (\<lambda>a b. (a, b) \<in> set (stars kvs)) a b"
proof -
  assume "same_group kvs a b"
  then obtain k where k: "a \<in> set (under k kvs)" "b \<in> set (under k kvs)"
    by (auto simp: same_group_def under_mem)
  have hub: "equivclp (\<lambda>a b. (a, b) \<in> set (stars kvs)) (hd (under k kvs)) x" if "x \<in> set (under k kvs)" for x
  proof (cases "x = hd (under k kvs)")
    case False
    then have "x \<in> set (tl (under k kvs))" "length (under k kvs) > 1"
      using that by (cases "under k kvs"; auto)+
    then have "(hd (under k kvs), x) \<in> set (star (under k kvs))" by (simp add: in_star)
    moreover have "(k, under k kvs) \<in> set (group_by kvs)" using that by (auto simp: group_by_mem)
    ultimately have "(hd (under k kvs), x) \<in> set (stars kvs)" by (force simp: stars_def)
    then show ?thesis by (rule r_into_equivclp)
  qed simp
  show ?thesis by (rule equivclp_trans[OF equivclp_sym[OF hub[OF k(1)]] hub[OF k(2)]])
qed

lemma equivclp_mono_into:
  assumes "\<And>a b. R a b \<Longrightarrow> equivclp S a b" "equivclp R a b"
  shows "equivclp S a b"
  using assms(2)
proof (induction rule: equivclp_induct)
  case (step y z)
  have "equivclp S y z"
    using step(2) assms(1)[of y z] equivclp_sym[OF assms(1)[of z y]] by blast
  with step.IH show ?case by (rule equivclp_trans)
qed simp

lemma pairs_closure:
  assumes "distinct (map item_id items)"
  shows "equivclp (\<lambda>a b. (a, b) \<in> set (duplicate_pairs (scan_items items))) = equivclp (shares_key items)"
proof -
  let ?T = "keyed title_key items" and ?U = "keyed url_key items"
  have pairs: "set (duplicate_pairs (scan_items items)) = set (stars ?T) \<union> set (stars ?U)"
    by (simp add: duplicate_pairs_def scan_items_eq[OF assms] stars_def)
  have share: "shares_key items a b \<longleftrightarrow> same_group ?T a b \<or> same_group ?U a b" for a b
    by (auto simp: shares_key_def same_group_def keyed_def) 
  have m: "equivclp R a b \<Longrightarrow> (\<And>a b. R a b \<Longrightarrow> S a b) \<Longrightarrow> equivclp S a b" for R S :: "string \<Rightarrow> string \<Rightarrow> bool" and a b
    by (rule equivclp_mono_into[of R S]) auto
  show ?thesis
  proof (intro ext iffI)
    fix a b
    show "equivclp (shares_key items) a b"
      if "equivclp (\<lambda>a b. (a, b) \<in> set (duplicate_pairs (scan_items items))) a b"
      using that by (rule m) (auto simp: pairs share dest: stars_same)
    show "equivclp (\<lambda>a b. (a, b) \<in> set (duplicate_pairs (scan_items items))) a b"
      if "equivclp (shares_key items) a b"
    proof (rule equivclp_mono_into[OF _ that])
      fix a b assume "shares_key items a b"
      then show "equivclp (\<lambda>a b. (a, b) \<in> set (duplicate_pairs (scan_items items))) a b"
        unfolding share by (elim disjE; intro m[OF same_stars]) (auto simp: pairs)
    qed
  qed
qed

section \<open>The groups are the classes\<close>

lemma grouped_eq:
  assumes "distinct (map item_id items)"
  shows "\<exists>rs. grouped (scan_items items) = Some (group_by (zip rs (map bill_info_of (filter has_name items)))) \<and>
    length rs = length (filter has_name items) \<and>
    (\<forall>i < length rs. \<forall>j < length rs. rs ! i = rs ! j \<longleftrightarrow>
       equivclp (shares_key items) (item_id (filter has_name items ! i)) (item_id (filter has_name items ! j)))"
proof -
  let ?n = "filter has_name items" and ?sc = "scan_items items"
  have e: "(\<lambda>a b :: string. same uf_empty a b \<or> a = b) = (=)"
    by (auto simp: fun_eq_iff same_def uf_empty_def elim: root_of.cases)
  obtain uf rs where 1: "union_pairs uf_union (duplicate_pairs ?sc) uf_empty = Some uf"
      "find_each uf_find (map item_id ?n) uf = Some rs" "length rs = length (map item_id ?n)"
      "\<forall>i < length (map item_id ?n). \<forall>j < length (map item_id ?n).
         rs ! i = rs ! j \<longleftrightarrow> equivclp (\<lambda>a b. (a, b) \<in> set (duplicate_pairs ?sc)) (map item_id ?n ! i) (map item_id ?n ! j)"
    using uf.classes_of_pairs[OF forest_empty e, of "duplicate_pairs ?sc" "map item_id ?n"] by blast
  have ids: "map fst (item_data ?sc) = map item_id ?n" "map snd (item_data ?sc) = map bill_info_of ?n"
    by (simp_all add: scan_items_eq[OF assms])
  have "grouped ?sc = Some (group_by (zip rs (map bill_info_of ?n)))"
    unfolding grouped_def ids 1(1) option.case 1(2) group_by_def ..
  with 1(3,4) show ?thesis
    unfolding pairs_closure[OF assms] by (intro exI[of _ rs]) simp
qed

lemma set_under_zip:
  assumes "length rs = length xs"
  shows "set (under r (zip rs (map f xs))) = {f (xs ! i) | i. i < length rs \<and> rs ! i = r}"
proof (intro set_eqI iffI)
  fix y assume "y \<in> set (under r (zip rs (map f xs)))"
  then have "(r, y) \<in> set (zip rs (map f xs))" by (simp add: under_mem)
  then obtain i where "i < length rs" "i < length (map f xs)" "rs ! i = r" "map f xs ! i = y"
    by (auto simp: set_zip)
  then show "y \<in> {f (xs ! i) | i. i < length rs \<and> rs ! i = r}" by auto
next
  fix y assume "y \<in> {f (xs ! i) | i. i < length rs \<and> rs ! i = r}"
  then obtain i where i: "i < length rs" "rs ! i = r" "y = f (xs ! i)" by blast
  then have "zip rs (map f xs) ! i = (r, y)" "i < length (zip rs (map f xs))" using assms by simp_all
  then have "(r, y) \<in> set (zip rs (map f xs))" by (metis nth_mem)
  then show "y \<in> set (under r (zip rs (map f xs)))" by (simp add: under_mem)
qed

lemma two_in_list: "x \<in> set xs \<Longrightarrow> y \<in> set xs \<Longrightarrow> x \<noteq> y \<Longrightarrow> length xs > 1"
  by (cases xs; cases "tl xs") auto

definition ids_of :: "dup_group \<Rightarrow> string set" where
  "ids_of g = bi_id ` set (dg_items g)"

lemma duplicate_labels:
  "(\<exists>g \<in> set (map label_duplicate dups @ map label_companion comps). group_type g = ''duplicate'' \<and> A \<subseteq> ids_of g) \<longleftrightarrow>
   (\<exists>d \<in> set dups. A \<subseteq> bi_id ` set (snd d))"
proof -
  have "group_type (label_duplicate d) = ''duplicate''" "ids_of (label_duplicate d) = bi_id ` set (snd d)"
      "group_type (label_companion d) \<noteq> ''duplicate''" for d
    by (simp_all add: label_duplicate_def label_companion_def ids_of_def)
  then show ?thesis by (simp add: bex_Un)
qed

lemma duplicates_of_classes:
  assumes "distinct (map item_id items)"
  shows "\<exists>gs. duplicates_of items = Some gs \<and>
    (\<forall>x \<in> set items. \<forall>y \<in> set items. has_name x \<and> has_name y \<and> item_id x \<noteq> item_id y \<longrightarrow>
       ((\<exists>g \<in> set gs. group_type g = ''duplicate'' \<and> {item_id x, item_id y} \<subseteq> ids_of g) \<longleftrightarrow>
        equivclp (shares_key items) (item_id x) (item_id y)))"
proof -
  let ?n = "filter has_name items"
  obtain rs where rs: "grouped (scan_items items) = Some (group_by (zip rs (map bill_info_of ?n)))"
      "length rs = length ?n"
      "\<forall>i < length rs. \<forall>j < length rs. rs ! i = rs ! j \<longleftrightarrow>
         equivclp (shares_key items) (item_id (?n ! i)) (item_id (?n ! j))"
    using grouped_eq[OF assms] by blast
  define kvs where "kvs = zip rs (map bill_info_of ?n)"
  define dups where "dups = duplicate_groups (group_by kvs)"
  define comps where "comps = companion_groups (scan_items items) (set (concat (map (map bi_id \<circ> snd) dups)))"
  have gs: "duplicates_of items = Some (map label_duplicate dups @ map label_companion comps)"
    using rs(1) by (simp add: duplicates_of_def kvs_def dups_def comps_def Let_def)
  have bid: "bi_id (bill_info_of it) = item_id it" for it by (simp add: bill_info_of_def Let_def)
  have "(\<exists>g \<in> set (map label_duplicate dups @ map label_companion comps).
        group_type g = ''duplicate'' \<and> {item_id x, item_id y} \<subseteq> ids_of g) \<longleftrightarrow>
      equivclp (shares_key items) (item_id x) (item_id y)"
    if xy: "x \<in> set items" "y \<in> set items" "has_name x" "has_name y" "item_id x \<noteq> item_id y" for x y
  proof -
    have "x \<in> set ?n" using xy by simp
    then obtain i where i: "i < length rs" "?n ! i = x" using rs(2) by (metis in_set_conv_nth)
    have "y \<in> set ?n" using xy by simp
    then obtain j where j: "j < length rs" "?n ! j = y" using rs(2) by (metis in_set_conv_nth)
    have uniq: "k = l" if "k < length rs" "l < length rs" "item_id (?n ! k) = item_id (?n ! l)" for k l
    proof -
      have "distinct (map item_id ?n)" using assms by (simp add: distinct_map_filter)
      from nth_eq_iff_index_eq[OF this, of k l] that rs(2) show ?thesis by simp
    qed
    have mem: "item_id z \<in> bi_id ` set (under r kvs) \<longleftrightarrow> rs ! k = r"
      if "k < length rs" "?n ! k = z" for k z r
    proof -
      have "set (under r kvs) = {bill_info_of (?n ! l) | l. l < length rs \<and> rs ! l = r}"
        unfolding kvs_def by (rule set_under_zip[OF rs(2)])
      then have "bi_id ` set (under r kvs) = {item_id (?n ! l) | l. l < length rs \<and> rs ! l = r}"
        by (auto simp: bid image_iff) (metis bid)
      then show ?thesis using that uniq by auto
    qed
    have "(\<exists>g \<in> set (map label_duplicate dups @ map label_companion comps).
        group_type g = ''duplicate'' \<and> {item_id x, item_id y} \<subseteq> ids_of g) \<longleftrightarrow>
      (\<exists>d \<in> set dups. {item_id x, item_id y} \<subseteq> bi_id ` set (snd d))"
      by (rule duplicate_labels)
    also have "\<dots> \<longleftrightarrow> (\<exists>r. {item_id x, item_id y} \<subseteq> bi_id ` set (under r kvs))"
    proof
      assume "\<exists>d \<in> set dups. {item_id x, item_id y} \<subseteq> bi_id ` set (snd d)"
      then show "\<exists>r. {item_id x, item_id y} \<subseteq> bi_id ` set (under r kvs)"
        by (auto simp: dups_def duplicate_groups_def group_by_mem)
    next
      assume "\<exists>r. {item_id x, item_id y} \<subseteq> bi_id ` set (under r kvs)"
      then obtain r where r: "{item_id x, item_id y} \<subseteq> bi_id ` set (under r kvs)" by blast
      then obtain u v where uv: "u \<in> set (under r kvs)" "v \<in> set (under r kvs)" "bi_id u = item_id x" "bi_id v = item_id y"
        by (metis image_iff insert_subset)
      then have "length (under r kvs) > 1" using xy(5) by (intro two_in_list[of u _ v]) auto
      moreover have "(r, under r kvs) \<in> set (group_by kvs)" using uv(1) by (auto simp: group_by_mem)
      ultimately show "\<exists>d \<in> set dups. {item_id x, item_id y} \<subseteq> bi_id ` set (snd d)"
        using r by (intro bexI[of _ "(r, under r kvs)"]) (simp_all add: dups_def duplicate_groups_def)
    qed
    also have "\<dots> \<longleftrightarrow> rs ! i = rs ! j" using mem[OF i] mem[OF j] by auto
    also have "\<dots> \<longleftrightarrow> equivclp (shares_key items) (item_id x) (item_id y)" using rs(3) i j by blast
    finally show ?thesis .
  qed
  with gs show ?thesis by blast
qed

text \<open>C4: on a collection whose identifiers are distinct the search for duplicates always returns,
  and two named items are reported in a common duplicate group exactly when a chain of items
  joins them, each sharing with the next its normalized title or its (trimmed) Open States address.\<close>

theorem duplicate_groups_are_classes:
  assumes "distinct (map item_id items)"
  shows "\<exists>gs. duplicates_of items = Some gs \<and>
    (\<forall>x \<in> set items. \<forall>y \<in> set items. has_name x \<and> has_name y \<and> item_id x \<noteq> item_id y \<longrightarrow>
       ((\<exists>g \<in> set gs. group_type g = ''duplicate'' \<and> {item_id x, item_id y} \<subseteq> ids_of g) \<longleftrightarrow>
        equivclp (shares_key items) (item_id x) (item_id y)))"
  by (rule duplicates_of_classes[OF assms])

definition titled :: "string \<Rightarrow> string \<Rightarrow> item" where
  "titled iid name = \<lparr>item_id = iid, is_archived = False, is_draft = False,
     field_data = Some [(''name'', JStr name)]\<rparr>"

lemma duplicate_groups_are_classes_witness:
  "\<exists>gs. duplicates_of [titled ''a'' ''HB 12'', titled ''b'' ''hb12''] = Some gs \<and>
    (\<exists>g \<in> set gs. group_type g = ''duplicate'' \<and> {''a'', ''b''} \<subseteq> ids_of g)"
proof -
  let ?items = "[titled ''a'' ''HB 12'', titled ''b'' ''hb12'']"
  have k: "title_key (titled ''a'' ''HB 12'') = ''HB12''" "title_key (titled ''b'' ''hb12'') = ''HB12''"
      "has_name (titled ''a'' ''HB 12'')" "has_name (titled ''b'' ''hb12'')"
      "item_id (titled ''a'' ''HB 12'') = ''a''" "item_id (titled ''b'' ''hb12'') = ''b''"
    by code_simp+
  have "shares_key ?items ''a'' ''b''"
    unfolding shares_key_def
    by (rule bexI[of _ "titled ''a'' ''HB 12''"], rule bexI[of _ "titled ''b'' ''hb12''"]) (simp_all add: k)
  then have "equivclp (shares_key ?items) ''a'' ''b''" by (rule r_into_equivclp)
  moreover have "distinct (map item_id ?items)" by (simp add: k)
  ultimately show ?thesis
    using duplicate_groups_are_classes[of ?items] k by fastforce
qed

section \<open>Migration and deletion on a service that keeps its items\<close>

lemma map_filter_keys:
  "(\<And>f v g w. h (f, v) = Some (g, w) \<Longrightarrow> g = f) \<Longrightarrow> fst ` set (List.map_filter h d) \<subseteq> fst ` set d"
  by (force simp: List.map_filter_def)

lemma map_filter_lookup:
  assumes "distinct (map fst d)" "\<And>f v g w. h (f, v) = Some (g, w) \<Longrightarrow> g = f"
  shows "map_of (List.map_filter h d) f =
    (case map_of d f of None \<Rightarrow> None | Some v \<Rightarrow> map_option snd (h (f, v)))"
  using assms(1)
proof (induction d)
  case (Cons p d)
  obtain g v where p: "p = (g, v)" by (cases p)
  have "fst ` set (List.map_filter h d) \<subseteq> fst ` set d" by (rule map_filter_keys) (rule assms(2))
  then have "g \<notin> fst ` set (List.map_filter h d)" using Cons p by auto
  then have none: "map_of (List.map_filter h d) g = None" by (simp add: map_of_eq_None_iff)
  show ?case
    using Cons none assms(2)[of g v] by (cases "h (g, v)") (auto simp: p)
qed simp

lemma map_filter_distinct:
  assumes "distinct (map fst d)" "\<And>f v g w. h (f, v) = Some (g, w) \<Longrightarrow> g = f"
  shows "distinct (map fst (List.map_filter h d))"
  using assms(1)
proof (induction d)
  case (Cons p d)
  have "fst ` set (List.map_filter h d) \<subseteq> fst ` set d" by (rule map_filter_keys) (rule assms(2))
  then show ?case
    using Cons assms(2)[of "fst p" "snd p"]
    by (cases "h p") (force simp: prod_eq_iff)+
qed simp

lemma migrated_key: "migrated target (f, v) = Some (g, w) \<Longrightarrow> g = f"
  by (auto simp: migrated_def Let_def split: if_splits)

lemma fields_to_update_lookup:
  "distinct (map fst source) \<Longrightarrow> map_of (fields_to_update source target) f =
     (case map_of source f of None \<Rightarrow> None | Some v \<Rightarrow> map_option snd (migrated target (f, v)))"
  unfolding fields_to_update_def by (rule map_filter_lookup) (auto dest: migrated_key)

lemma fields_to_update_distinct: "distinct (map fst source) \<Longrightarrow> distinct (map fst (fields_to_update source target))"
  unfolding fields_to_update_def by (rule map_filter_distinct) (auto dest: migrated_key)

lemma data_of_patched: "data_of (patched fs it) = merge_fields fs (data_of it)"
  by (simp add: patched_def data_of_def)

text \<open>The fields after an update: those sent, and the others as they were.\<close>

definition updated_by :: "fields \<Rightarrow> item \<Rightarrow> item \<Rightarrow> bool" where
  "updated_by fs it it' \<longleftrightarrow>
     (\<forall>f. map_of (data_of it') f = (case map_of fs f of None \<Rightarrow> map_of (data_of it) f | Some v \<Rightarrow> Some v))"

context cms_service
begin

lemma migrate_fields_lookup:
  assumes "lookup s c i = Some it" "distinct (map fst source)"
  shows "\<exists>s' it'. migrate_fields W c source target i s = Some (Inr (), s') \<and> lookup s' c i = Some it' \<and>
    updated_by (fields_to_update source target) it it' \<and>
    (\<forall>c' i'. (c', i') \<noteq> (c, i) \<longrightarrow> lookup s' c' i' = lookup s c' i')"
proof (cases "fields_to_update source target")
  case Nil
  with assms(1) show ?thesis
    by (intro exI[of _ s] exI[of _ it]) (simp add: migrate_fields_def act updated_by_def)
next
  case (Cons fv rest)
  obtain f v where fv: "fv = (f, v)" by (cases fv)
  have d: "distinct (map fst ((f, v) # rest))"
    using fields_to_update_distinct[OF assms(2), of target] Cons fv by simp
  obtain s1 where s1: "update_item_field W c i f v s = Some (Inr (), s1)"
      "\<forall>c' i'. lookup s1 c' i' = (if c' = c \<and> i' = i then Some (patched [(f, v)] it) else lookup s c' i')"
    using update_item_field_lookup[OF assms(1), of f v] by blast
  show ?thesis
  proof (cases "rest = []")
    case True
    have "migrate_fields W c source target i s = Some (Inr (), s1)"
      using Cons fv True s1(1) by (simp add: migrate_fields_def act)
    moreover have "updated_by [(f, v)] it (patched [(f, v)] it)"
      by (simp add: updated_by_def data_of_patched map_of_merge_distinct)
    ultimately show ?thesis using s1(2) Cons fv True by auto
  next
    case False
    let ?it1 = "patched [(f, v)] it" and ?pl = "\<lparr>pl_flags = None, pl_fields = (f, v) # rest\<rparr>"
    have "lookup s1 c i = Some ?it1" using s1(2) by simp
    from patch_lookup[OF this, of ?pl] obtain s2 where
      s2: "patch W c i ?pl s1 = Some (Inr (Some \<lparr>status = 200, resp_body = ItemDoc (patched ((f, v) # rest) ?it1)\<rparr>), s2)"
        "\<forall>c' i'. lookup s2 c' i' = (if c' = c \<and> i' = i then Some (patched ((f, v) # rest) ?it1) else lookup s1 c' i')"
      by auto
    have "migrate_fields W c source target i s = Some (Inr (), s2)"
      using Cons fv False s1(1) s2(1) by (simp add: migrate_fields_def act)
    moreover have "updated_by ((f, v) # rest) it (patched ((f, v) # rest) ?it1)"
      using d by (simp add: updated_by_def data_of_patched map_of_merge_distinct split: option.splits)
    ultimately show ?thesis using s1(2) s2(2) Cons fv by auto
  qed
qed

lemma remove_references_keeps:
  "\<exists>r s'. remove_references W t refs removed failed s = Some (Inr r, s') \<and>
    (\<forall>c i. lookup s' c i = None \<longleftrightarrow> lookup s c i = None)"
proof (induction refs arbitrary: removed failed s)
  case (Cons r refs)
  show ?case
  proof (cases "given (ref_id r) = [] \<or> given (ref_coll r) = []")
    case True
    then show ?thesis using Cons.IH by simp
  next
    case False
    let ?c = "given (ref_coll r)" and ?i = "given (ref_id r)"
    have "\<exists>b s1. remove_reference W ?c ?i t s = Some (Inr b, s1) \<and>
        (\<forall>c i. lookup s1 c i = None \<longleftrightarrow> lookup s c i = None)"
    proof (cases "lookup s ?c ?i")
      case None
      then show ?thesis by (simp add: remove_reference_def act fetch_item_lookup ex_bool_eq)
    next
      case (Some it)
      let ?fs = "fields_without t (data_of it)" and ?pl = "\<lambda>fs. \<lparr>pl_flags = None, pl_fields = fs\<rparr>"
      obtain s1 where "patch W ?c ?i (?pl ?fs) s =
            Some (Inr (Some \<lparr>status = 200, resp_body = ItemDoc (patched (pl_fields (?pl ?fs)) it)\<rparr>), s1)"
          "\<forall>c' i'. lookup s1 c' i' = (if c' = ?c \<and> i' = ?i then Some (patched (pl_fields (?pl ?fs)) it) else lookup s c' i')"
        using patch_lookup[OF Some] by blast
      with Some show ?thesis
        by (cases "?fs = []") (auto simp: remove_reference_def act fetch_item_lookup Let_def)
    qed
    then obtain b s1 where b: "remove_reference W ?c ?i t s = Some (Inr b, s1)"
        "\<forall>c i. lookup s1 c i = None \<longleftrightarrow> lookup s c i = None" by blast
    obtain r' s' where "remove_references W t refs (removed + 1) failed s1 = Some (Inr r', s')"
        "\<forall>c i. lookup s' c i = None \<longleftrightarrow> lookup s1 c i = None" using Cons.IH by blast
    with False b show ?thesis by (simp add: act)
  qed
qed (simp add: act)

lemma delete_with_references_lookup:
  assumes "lookup s c i = Some it"
  shows "\<exists>res s'. delete_with_reference_handling W c i name s = Some (Inr res, s') \<and>
    dr_item_id res = i \<and> (deleted res \<longleftrightarrow> lookup s' c i = None)"
  using delete_item_lookup[OF assms]
proof (elim disjE exE conjE)
  fix s' assume "delete_item W c i s = Some (Inr True, s')"
    "\<forall>c' i'. lookup s' c' i' = (if c' = c \<and> i' = i then None else lookup s c' i')"
  then show ?thesis by (simp add: delete_with_reference_handling_def act delete_done_def)
next
  fix refs assume del: "delete_item W c i s = Some (Inl (Conflict refs), s)"
  obtain rm fl s1 where s1: "remove_references W i refs 0 0 s = Some (Inr (rm, fl), s1)"
      "\<forall>c i. lookup s1 c i = None \<longleftrightarrow> lookup s c i = None"
    using remove_references_keeps[of i refs 0 0 s] by auto
  have "lookup s1 c i \<noteq> None" using s1(2) assms by simp
  then obtain it1 where it1: "lookup s1 c i = Some it1" by blast
  from delete_item_lookup[OF it1] show ?thesis
    using del s1(1) it1
    by (elim disjE exE conjE)
      (simp_all add: delete_with_reference_handling_def act delete_done_def delete_failed_def)
qed

text \<open>Two anomalous items: the second update starts from the data read before the first.\<close>

lemma resolve_two:
  assumes "lookup s coll c = Some itc" "lookup s coll a = Some ita" "lookup s coll b = Some itb"
    "a \<noteq> c" "b \<noteq> c" "distinct (map fst (data_of ita))" "distinct (map fst (data_of itb))"
  shows "\<exists>rs s' it1 it2. resolve_group W coll c [a, b] True False s = Some (Inr rs, s') \<and>
    lookup s' coll c = Some it2 \<and>
    updated_by (fields_to_update (data_of ita) (data_of itc)) itc it1 \<and>
    updated_by (fields_to_update (data_of itb) (data_of itc)) it1 it2"
proof -
  obtain s1 it1 where 1: "migrate_fields W coll (data_of ita) (data_of itc) c s = Some (Inr (), s1)"
      "lookup s1 coll c = Some it1" "updated_by (fields_to_update (data_of ita) (data_of itc)) itc it1"
      "\<forall>c' i'. (c', i') \<noteq> (coll, c) \<longrightarrow> lookup s1 c' i' = lookup s c' i'"
    using migrate_fields_lookup[OF assms(1,6), of "data_of itc"] by blast
  have b: "lookup s1 coll b = Some itb" using 1(4) assms(3,5) by simp
  obtain s2 it2 where 2: "migrate_fields W coll (data_of itb) (data_of itc) c s1 = Some (Inr (), s2)"
      "lookup s2 coll c = Some it2" "updated_by (fields_to_update (data_of itb) (data_of itc)) it1 it2"
    using migrate_fields_lookup[OF 1(2) assms(7), of "data_of itc"] by blast
  show ?thesis
    using 1(1,3) 2 b assms(1-3)
    by (intro exI[of _ "[delete_failed a (item_label ita) 0 0 [], delete_failed b (item_label itb) 0 0 []]"]
        exI[of _ s2] exI[of _ it1] exI[of _ it2])
      (simp add: resolve_group_def act fetch_item_lookup)
qed

end

section \<open>What a migration keeps\<close>

lemma multi_not_skipped: "f \<in> set MULTI_REF \<Longrightarrow> f \<notin> set SKIP_FIELDS"
  by (auto simp: MULTI_REF_def SKIP_FIELDS_def)

lemma updated_populated:
  assumes "updated_by (fields_to_update source d) it it'" "distinct (map fst source)"
    "\<not> empty_value (map_of d f)" "f \<notin> set MULTI_REF"
  shows "map_of (data_of it') f = map_of (data_of it) f"
proof -
  have "map_of (fields_to_update source d) f = None"
    using assms(3,4) by (auto simp: fields_to_update_lookup[OF assms(2)] migrated_def Let_def split: option.splits)
  then show ?thesis using assms(1) by (simp add: updated_by_def)
qed

lemma updated_empty:
  assumes "updated_by (fields_to_update source d) it it'" "distinct (map fst source)"
    "empty_value (map_of d f)" "f \<notin> set MULTI_REF" "f \<notin> set SKIP_FIELDS" "filled source f"
  shows "map_of (data_of it') f = map_of source f"
proof -
  obtain v where v: "map_of source f = Some v" "truthy v"
    using assms(6) by (auto simp: filled_def truthy_opt_def split: option.splits)
  then have "map_of (fields_to_update source d) f = Some v"
    using assms(3-5) by (simp add: fields_to_update_lookup[OF assms(2)] migrated_def Let_def)
  then show ?thesis using assms(1) v(1) by (simp add: updated_by_def)
qed

abbreviation new_refs :: "fields \<Rightarrow> fields \<Rightarrow> string \<Rightarrow> json list" where
  "new_refs source d f \<equiv> filter (\<lambda>x. x \<notin> set (get_list d f)) (get_list source f)"

lemma list_value_get: "list_value (map_of d f) = get_list d f"
  by (simp add: list_value_def get_list_def)

lemma updated_multi_new:
  assumes "updated_by (fields_to_update source d) it it'" "distinct (map fst source)"
    "f \<in> set MULTI_REF" "new_refs source d f \<noteq> []"
  shows "get_list (data_of it') f = get_list d f @ new_refs source d f"
proof -
  have "get_list source f \<noteq> []" using assms(4) by auto
  then obtain xs where xs: "map_of source f = Some (JArr xs)" "xs \<noteq> []"
    unfolding get_list_def[of source] by (auto split: option.splits json.splits)
  then have new: "filter (\<lambda>x. x \<notin> set (get_list d f)) xs \<noteq> []" using assms(4) by (simp add: get_list_def)
  have "migrated d (f, JArr xs) = Some (f, JArr (get_list d f @ filter (\<lambda>x. x \<notin> set (get_list d f)) xs))"
    using assms(3) multi_not_skipped[OF assms(3)] xs(2) new
    by (simp add: migrated_def Let_def is_list_def list_value_get) (simp add: list_value_def)
  then have "map_of (fields_to_update source d) f =
      Some (JArr (get_list d f @ filter (\<lambda>x. x \<notin> set (get_list d f)) xs))"
    using xs(1) by (simp add: fields_to_update_lookup[OF assms(2)])
  then show ?thesis using assms(1) xs(1) by (simp add: updated_by_def get_list_def)
qed

lemma updated_multi_old:
  assumes "updated_by (fields_to_update source d) it it'" "distinct (map fst source)"
    "f \<in> set MULTI_REF" "new_refs source d f = []" "data_of it = d"
  shows "get_list (data_of it') f = get_list d f"
proof (cases "map_of source f")
  case None
  then have "map_of (fields_to_update source d) f = None" by (simp add: fields_to_update_lookup[OF assms(2)])
  then show ?thesis using assms(1,5) by (simp add: updated_by_def get_list_def)
next
  case (Some v)
  show ?thesis
  proof (cases "is_list v")
    case True
    then obtain xs where v: "v = JArr xs" by (auto simp: is_list_def split: json.splits)
    have "migrated d (f, v) = None"
      using Some assms(3,4) v
      by (simp add: migrated_def Let_def is_list_def list_value_get) (simp add: list_value_def get_list_def)
    then have "map_of (fields_to_update source d) f = None"
      using Some by (simp add: fields_to_update_lookup[OF assms(2)])
    then show ?thesis using assms(1,5) by (simp add: updated_by_def get_list_def)
  next
    case False
    then consider "map_of (fields_to_update source d) f = None"
      | "map_of (fields_to_update source d) f = Some v" "empty_value (map_of d f)"
      using Some by (cases "f \<in> set SKIP_FIELDS \<or> \<not> truthy v"; cases "empty_value (map_of d f)")
        (auto simp: fields_to_update_lookup[OF assms(2)] migrated_def Let_def)
    then show ?thesis
    proof cases
      case 1
      then show ?thesis using assms(1,5) by (simp add: updated_by_def get_list_def)
    next
      case 2
      then have "get_list d f = []" by (auto simp: empty_value_def get_list_def)
      moreover have "get_list (data_of it') f = []"
        using 2(1) False assms(1) by (auto simp: updated_by_def get_list_def is_list_def split: json.splits)
      ultimately show ?thesis by simp
    qed
  qed
qed

text \<open>migrating from one item: a populated single field of the target is never overwritten, an
  empty one takes the populated value of the source, and each multi-reference field keeps its
  references in order and gains exactly the new ones of the source. No other item changes.\<close>

lemma migrate_fields_exact:
  assumes "stored st c i = Some it" "distinct (map fst source)"
  shows "\<exists>st' it'. migrate_fields memory_world c source (data_of it) i st = Some (Inr (), st') \<and>
    stored st' c i = Some it' \<and>
    (\<forall>f. \<not> empty_value (map_of (data_of it) f) \<and> f \<notin> set MULTI_REF \<longrightarrow>
       map_of (data_of it') f = map_of (data_of it) f) \<and>
    (\<forall>f. empty_value (map_of (data_of it) f) \<and> f \<notin> set MULTI_REF \<and> f \<notin> set SKIP_FIELDS \<and> filled source f \<longrightarrow>
       map_of (data_of it') f = map_of source f) \<and>
    (\<forall>f \<in> set MULTI_REF. get_list (data_of it') f = get_list (data_of it) f @ new_refs source (data_of it) f) \<and>
    (\<forall>c' i'. (c', i') \<noteq> (c, i) \<longrightarrow> stored st' c' i' = stored st c' i')"
proof -
  obtain st' it' where m: "migrate_fields memory_world c source (data_of it) i st = Some (Inr (), st')"
      "stored st' c i = Some it'" and u: "updated_by (fields_to_update source (data_of it)) it it'"
      and o: "\<forall>c' i'. (c', i') \<noteq> (c, i) \<longrightarrow> stored st' c' i' = stored st c' i'"
    using mem.migrate_fields_lookup[OF assms, of "data_of it"] by blast
  have "get_list (data_of it') f = get_list (data_of it) f @ new_refs source (data_of it) f"
    if f: "f \<in> set MULTI_REF" for f
  proof (cases "new_refs source (data_of it) f = []")
    case True
    then show ?thesis using updated_multi_old[OF u assms(2) f True refl] by simp
  next
    case False
    then show ?thesis using updated_multi_new[OF u assms(2) f] by simp
  qed
  with m o updated_populated[OF u assms(2)] updated_empty[OF u assms(2)] show ?thesis
    by (intro exI[of _ st'] exI[of _ it'] conjI) (assumption | blast)+
qed

definition bill :: "string \<Rightarrow> string list \<Rightarrow> item" where
  "bill iid orgs = \<lparr>item_id = iid, is_archived = False, is_draft = False,
     field_data = Some [(''member-organizations'', JArr (map JStr orgs))]\<rparr>"

lemma migrate_fields_exact_witness:
  "\<exists>st' it'. migrate_fields memory_world ''bills'' (data_of (bill ''a'' [''x'', ''z''])) (data_of (bill ''c'' [''z''])) ''c''
      [(''bills'', bill ''c'' [''z''])] = Some (Inr (), st') \<and>
    stored st' ''bills'' ''c'' = Some it' \<and> get_list (data_of it') ''member-organizations'' = [JStr ''z'', JStr ''x'']"
  using migrate_fields_exact[of "[(''bills'', bill ''c'' [''z''])]" "''bills''" "''c''" "bill ''c'' [''z'']"
      "data_of (bill ''a'' [''x'', ''z''])"]
  by (auto simp: stored_def is_at_def bill_def data_of_def get_list_def MULTI_REF_def)

text \<open>resolving a group with two anomalous items loses references: each update is computed from
  the fields the correct item had at the start, so when both items bring new references to a
  multi-reference field, the second update replaces what the first one added.\<close>

lemma resolve_group_loses_references:
  assumes "stored st coll c = Some itc" "stored st coll a = Some ita" "stored st coll b = Some itb"
    "a \<noteq> c" "b \<noteq> c" "distinct (map fst (data_of ita))" "distinct (map fst (data_of itb))"
    "f \<in> set MULTI_REF" "new_refs (data_of itb) (data_of itc) f \<noteq> []"
    "x \<in> set (get_list (data_of ita) f)" "x \<notin> set (get_list (data_of itb) f)" "x \<notin> set (get_list (data_of itc) f)"
  shows "\<exists>rs st' it'. resolve_group memory_world coll c [a, b] True False st = Some (Inr rs, st') \<and>
    stored st' coll c = Some it' \<and> x \<notin> set (get_list (data_of it') f)"
proof -
  obtain rs st' it1 it2 where r: "resolve_group memory_world coll c [a, b] True False st = Some (Inr rs, st')"
      "stored st' coll c = Some it2" "updated_by (fields_to_update (data_of itb) (data_of itc)) it1 it2"
    using mem.resolve_two[OF assms(1-7)] by blast
  have "get_list (data_of it2) f = get_list (data_of itc) f @ new_refs (data_of itb) (data_of itc) f"
    by (rule updated_multi_new[OF r(3) assms(7-9)])
  with r(1,2) assms(11,12) show ?thesis by auto
qed

lemma resolve_group_loses_references_witness:
  "\<exists>rs st' it'. resolve_group memory_world ''bills'' ''c'' [''a'', ''b''] True False
      [(''bills'', bill ''c'' []), (''bills'', bill ''a'' [''x'']), (''bills'', bill ''b'' [''y''])] = Some (Inr rs, st') \<and>
    stored st' ''bills'' ''c'' = Some it' \<and> JStr ''x'' \<notin> set (get_list (data_of it') ''member-organizations'')"
  by (rule resolve_group_loses_references[where ita = "bill ''a'' [''x'']" and itb = "bill ''b'' [''y'']" and itc = "bill ''c'' []"])
    (simp_all add: stored_def is_at_def bill_def data_of_def get_list_def MULTI_REF_def)

text \<open>deleting an item, with the removal of its incoming references when the service refuses,
  always ends in a result, and the result says \<open>deleted\<close> exactly when the item is gone.\<close>

lemma delete_result_is_true:
  assumes "stored st c i = Some it"
  shows "\<exists>res st'. delete_with_reference_handling memory_world c i name st = Some (Inr res, st') \<and>
    dr_item_id res = i \<and> (deleted res \<longleftrightarrow> stored st' c i = None)"
  by (rule mem.delete_with_references_lookup[OF assms])

lemma delete_result_is_true_witness:
  "\<exists>res st'. delete_with_reference_handling memory_world ''orgs'' ''o1'' JNull [(''orgs'', sample_org)] = Some (Inr res, st') \<and>
    dr_item_id res = ''o1'' \<and> (deleted res \<longleftrightarrow> stored st' ''orgs'' ''o1'' = None)"
  by (rule delete_result_is_true[of _ _ _ sample_org]) (simp add: stored_def is_at_def sample_org_def)

end
