(* ===== verification/WebflowServices.thy ===== *)
theory WebflowServices
  imports DuplicateBills
begin

text \<open>
  The remaining services of \<open>webflow_cms/services\<close>: filling the session code, the map address and
  the government address of bills (\<open>fill_session_code.py\<close>, \<open>fill_map_url.py\<close>,
  \<open>fill_gov_url.py\<close>), deleting one item (\<open>delete_item.py\<close>), and the synchronization of the
  references between bills and organizations (\<open>bill_org_sync.py\<close>). Pauses are not modelled.
\<close>

section \<open>Filling fields\<close>

record update_result =
  ur_item_id :: string
  ur_item_name :: json
  fields_updated :: fields
  success :: bool
  ur_error :: string

record fill_result =
  total_items :: nat
  items_already_filled :: nat
  items_updated :: nat
  items_skipped :: nat
  items_failed :: nat
  updates :: "update_result list"

text \<open>What the scan decides for one item.\<close>

datatype plan = Skip | Filled | Update fields

definition plan_session_code :: "item \<Rightarrow> plan" where
  "plan_session_code it =
     (let data = data_of it; url = get_text data ''open-states-url-2'' in
      if given url = [] then Skip
      else if filled data ''session-code'' \<and> filled data ''bill-prefix'' \<and> filled data ''bill-number'' then Filled
      else
        (case parse_open_states_url url of
           None \<Rightarrow> Skip
         | Some p \<Rightarrow>
             (let fs = (if \<not> filled data ''session-code'' then [(''session-code'', JStr (session_code p))] else []) @
                       (if \<not> filled data ''bill-prefix'' then [(''bill-prefix'', JStr (bill_prefix p))] else []) @
                       (if \<not> filled data ''bill-number'' then [(''bill-number'', JStr (bill_number p))] else []) in
              if fs = [] then Filled else Update fs)))"

definition plan_map_url :: "item \<Rightarrow> plan" where
  "plan_map_url it =
     (let data = data_of it; url = get_text data ''open-states-url-2'' in
      if \<not> filled data ''voatzid'' then Skip
      else if given url = [] then Skip
      else
        (case parse_open_states_url url of
           None \<Rightarrow> Skip
         | Some p \<Rightarrow>
             (let expected = build_map_url p; existing = get_text data ''map-url'' in
              if given existing = [] then Update [(''map-url'', JStr expected), (''public'', JBool False)]
              else if \<not> is_compliant_map_url existing expected
              then Update [(''map-url'', JStr expected), (''public'', JBool False)]
              else if filled data ''public'' then Update [(''public'', JBool False)]
              else Filled)))"

text \<open>The loop shared by the two services.\<close>

definition noted :: "item \<Rightarrow> fields \<Rightarrow> bool \<Rightarrow> string \<Rightarrow> fill_result \<Rightarrow> fill_result" where
  "noted it fs ok err r =
     (let r = r\<lparr>updates := updates r @ [\<lparr>ur_item_id = item_id it, ur_item_name = item_label it,
                 fields_updated = fs, success = ok, ur_error = err\<rparr>]\<rparr> in
      if ok then r\<lparr>items_updated := items_updated r + 1\<rparr> else r\<lparr>items_failed := items_failed r + 1\<rparr>)"

fun fill_each :: "'s world \<Rightarrow> string \<Rightarrow> bool \<Rightarrow> (item \<Rightarrow> plan) \<Rightarrow> item list \<Rightarrow> fill_result \<Rightarrow> ('s, fill_result) act" where
  "fill_each W coll dry_run plan [] r = ret r"
| "fill_each W coll dry_run plan (it # rest) r =
     (case plan it of
        Skip \<Rightarrow> fill_each W coll dry_run plan rest (r\<lparr>items_skipped := items_skipped r + 1\<rparr>)
      | Filled \<Rightarrow> fill_each W coll dry_run plan rest (r\<lparr>items_already_filled := items_already_filled r + 1\<rparr>)
      | Update fs \<Rightarrow>
          (if dry_run then fill_each W coll dry_run plan rest (noted it fs True [] r)
           else
             bind_act
               (catch (bind_act (update_item_fields W coll it fs) (\<lambda>_. ret (noted it fs True [] r)))
                  (\<lambda>exc. ret (noted it [] False (error_text exc) r)))
               (\<lambda>r'. fill_each W coll dry_run plan rest r')))"

definition new_result :: "nat \<Rightarrow> fill_result" where
  "new_result n =
     \<lparr>total_items = n, items_already_filled = 0, items_updated = 0, items_skipped = 0, items_failed = 0,
      updates = []\<rparr>"

definition fill :: "(item \<Rightarrow> plan) \<Rightarrow> 's world \<Rightarrow> string \<Rightarrow> bool \<Rightarrow> ('s, fill_result) act" where
  "fill plan W coll dry_run =
     bind_act (fetch_all_live_items W coll) (\<lambda>items.
       fill_each W coll dry_run plan items (new_result (length items)))"

definition fill_session_code :: "'s world \<Rightarrow> string \<Rightarrow> bool \<Rightarrow> ('s, fill_result) act" where
  "fill_session_code = fill plan_session_code"

definition fill_map_url :: "'s world \<Rightarrow> string \<Rightarrow> bool \<Rightarrow> ('s, fill_result) act" where
  "fill_map_url = fill plan_map_url"

definition find_missing :: "'s world \<Rightarrow> string \<Rightarrow> ('s, item list \<times> item list) act" where
  "find_missing W coll =
     bind_act (fetch_all_live_items W coll) (\<lambda>items.
       ret (filter (\<lambda>it. \<not> filled (data_of it) ''gov-url'') items, items))"

definition fill_item :: "'s world \<Rightarrow> string \<Rightarrow> item \<Rightarrow> string \<Rightarrow> ('s, update_result) act" where
  "fill_item W coll it url =
     catch
       (bind_act (update_item_fields W coll it [(''gov-url'', JStr url)]) (\<lambda>_.
          ret \<lparr>ur_item_id = item_id it, ur_item_name = item_label it,
               fields_updated = [(''gov-url'', JStr url)], success = True, ur_error = []\<rparr>))
       (\<lambda>exc. ret \<lparr>ur_item_id = item_id it, ur_item_name = item_label it, fields_updated = [],
                    success = False, ur_error = error_text exc\<rparr>)"

fun fill_batch_each :: "'s world \<Rightarrow> string \<Rightarrow> (item \<times> string) list \<Rightarrow> fill_result \<Rightarrow> ('s, fill_result) act" where
  "fill_batch_each W coll [] r = ret r"
| "fill_batch_each W coll ((it, url) # rest) r =
     bind_act (fill_item W coll it url) (\<lambda>u.
       let r = r\<lparr>updates := updates r @ [u]\<rparr> in
       fill_batch_each W coll rest
         (if success u then r\<lparr>items_updated := items_updated r + 1\<rparr>
          else r\<lparr>items_failed := items_failed r + 1\<rparr>))"

definition fill_batch :: "'s world \<Rightarrow> string \<Rightarrow> (item \<times> string) list \<Rightarrow> ('s, fill_result) act" where
  "fill_batch W coll items_and_urls =
     fill_batch_each W coll items_and_urls (new_result (length items_and_urls))"

section \<open>Deleting one item\<close>

text \<open>The references of the conflict; a missing collection is searched for.\<close>

fun remove_refs :: "'s world \<Rightarrow> string \<Rightarrow> string \<Rightarrow> string list \<Rightarrow> reference list \<Rightarrow> nat \<Rightarrow> nat \<Rightarrow> ('s, nat \<times> nat) act" where
  "remove_refs W coll iid fallback [] removed failed = ret (removed, failed)"
| "remove_refs W coll iid fallback (r # rs) removed failed =
     (if given (ref_id r) = [] then remove_refs W coll iid fallback rs removed (failed + 1)
      else
        bind_act
          (if given (ref_coll r) = []
           then find_item_collection W (given (ref_id r)) (coll # filter (\<lambda>c. c \<noteq> coll) fallback)
           else ret (ref_coll r))
          (\<lambda>found.
             if given found = [] then remove_refs W coll iid fallback rs removed (failed + 1)
             else
               bind_act
                 (catch (bind_act (remove_reference W (given found) (given (ref_id r)) iid) (\<lambda>_. ret True))
                    (\<lambda>_. ret False))
                 (\<lambda>ok. if ok then remove_refs W coll iid fallback rs (removed + 1) failed
                       else remove_refs W coll iid fallback rs removed (failed + 1))))"

definition remove_refs_and_delete ::
  "'s world \<Rightarrow> string \<Rightarrow> string \<Rightarrow> json \<Rightarrow> reference list \<Rightarrow> string list \<Rightarrow> ('s, delete_result) act" where
  "remove_refs_and_delete W coll iid name refs fallback =
     bind_act (remove_refs W coll iid fallback refs 0 0) (\<lambda>(removed, failed).
       catch (bind_act (delete_item W coll iid) (\<lambda>_. ret (delete_done iid name removed failed)))
         (\<lambda>exc. ret (delete_failed iid name removed failed (error_text exc))))"

definition name_for_delete :: "string \<Rightarrow> item option \<Rightarrow> json" where
  "name_for_delete iid found =
     (case found of
        None \<Rightarrow> JStr ''(not found)''
      | Some it \<Rightarrow>
          (let fd = data_of it in
           if filled fd ''name'' then the (map_of fd ''name'')
           else if filled fd ''slug'' then the (map_of fd ''slug'') else JStr iid))"

definition delete_service ::
  "'s world \<Rightarrow> string \<Rightarrow> string \<Rightarrow> string list \<Rightarrow> bool \<Rightarrow> ('s, delete_result) act" where
  "delete_service W coll iid fallback force =
     bind_act (fetch_item W coll iid) (\<lambda>found.
       let name = name_for_delete iid found in
       catch (bind_act (delete_item W coll iid) (\<lambda>_. ret (delete_done iid name 0 0)))
         (\<lambda>exc.
            case exc of
              Conflict refs \<Rightarrow>
                (if \<not> force then ret (delete_failed iid name 0 0 ''Item has incoming references'')
                 else remove_refs_and_delete W coll iid name refs fallback)
            | _ \<Rightarrow> raise exc))"

section \<open>Bills and organizations\<close>

record sync_result =
  bills_processed :: nat
  orgs_updated :: nat
  bills_updated :: nat
  references_added :: nat
  errors :: "string list"

text \<open>Which side an update touches, with the texts of its messages.\<close>

datatype side = ToOrg | ToBill

definition side_name :: "side \<Rightarrow> string" where
  "side_name sd = (case sd of ToOrg \<Rightarrow> ''Org '' | ToBill \<Rightarrow> ''Bill '')"

definition count_update :: "side \<Rightarrow> sync_result \<Rightarrow> sync_result" where
  "count_update sd r =
     (let r = r\<lparr>references_added := references_added r + 1\<rparr> in
      case sd of
        ToOrg \<Rightarrow> r\<lparr>orgs_updated := orgs_updated r + 1\<rparr>
      | ToBill \<Rightarrow> r\<lparr>bills_updated := bills_updated r + 1\<rparr>)"

definition note_error :: "string \<Rightarrow> sync_result \<Rightarrow> sync_result" where
  "note_error msg r = r\<lparr>errors := errors r @ [msg]\<rparr>"

type_synonym item_map = "string \<rightharpoonup> item"

text \<open>
  \<open>_sync_ref_to_org\<close> and \<open>_sync_ref_to_bill\<close>, which differ in the counter and the texts: add
  \<open>ref\<close> to the list \<open>field\<close> of the item \<open>target\<close>, in the service and in the local copy. A local
  copy without \<open>fieldData\<close> raises after the update was sent.
\<close>

definition sync_ref ::
  "'s world \<Rightarrow> side \<Rightarrow> string \<Rightarrow> string \<Rightarrow> string \<Rightarrow> string \<Rightarrow> item_map \<times> sync_result \<Rightarrow>
   ('s, item_map \<times> sync_result) act" where
  "sync_ref W sd coll target ref field st =
     (case st of (m, r) \<Rightarrow>
        case m target of
          None \<Rightarrow> ret (m, note_error (side_name sd @ target @ '' not found'') r)
        | Some it \<Rightarrow>
            (let current = get_list (data_of it) field in
             if JStr ref \<in> set current then ret (m, r)
             else
               (let new_list = JArr (current @ [JStr ref]);
                    failed = ret (m, note_error (''Failed to update '' @ side_name sd @ target) r) in
                catch
                  (bind_act (update_item_fields W coll it [(field, new_list)]) (\<lambda>_.
                     case field_data it of
                       None \<Rightarrow> raise (Raised ''KeyError'')
                     | Some d \<Rightarrow>
                         ret (m(target \<mapsto> it\<lparr>field_data := Some (dict_set field new_list d)\<rparr>), count_update sd r)))
                  (\<lambda>exc. failed))))"

fun sync_refs ::
  "'s world \<Rightarrow> side \<Rightarrow> string \<Rightarrow> (string \<times> string \<times> string) list \<Rightarrow> item_map \<times> sync_result \<Rightarrow>
   ('s, item_map \<times> sync_result) act" where
  "sync_refs W sd coll [] st = ret st"
| "sync_refs W sd coll ((target, ref, field) # ops) st =
     bind_act (sync_ref W sd coll target ref field st) (sync_refs W sd coll ops)"

text \<open>The identifiers in a multi-reference field.\<close>

definition refs_in :: "item \<Rightarrow> string \<Rightarrow> string list" where
  "refs_in it f = List.map_filter (\<lambda>v. case v of JStr s \<Rightarrow> Some s | _ \<Rightarrow> None) (get_list (data_of it) f)"

text \<open>The updates of a pass: for one item, those of its supporting and then its opposing list.\<close>

definition bill_ops :: "item \<Rightarrow> (string \<times> string \<times> string) list" where
  "bill_ops b =
     map (\<lambda>o_id. (o_id, item_id b, ''bills-support'')) (refs_in b ''member-organizations'') @
     map (\<lambda>o_id. (o_id, item_id b, ''bills-oppose'')) (refs_in b ''organizations-oppose'')"

definition org_ops :: "item \<Rightarrow> (string \<times> string \<times> string) list" where
  "org_ops org =
     map (\<lambda>b_id. (b_id, item_id org, ''member-organizations'')) (refs_in org ''bills-support'') @
     map (\<lambda>b_id. (b_id, item_id org, ''organizations-oppose'')) (refs_in org ''bills-oppose'')"

definition map_of_items :: "item list \<Rightarrow> item_map" where
  "map_of_items items = fold (\<lambda>it m. m(item_id it \<mapsto> it)) items Map.empty"

text \<open>
  The two passes. The local copies of the organizations are the objects of the list, so the second
  pass reads what the first one added. The result carries the local copies.
\<close>

definition sync_bill_org_references ::
  "'s world \<Rightarrow> string \<Rightarrow> string \<Rightarrow> ('s, sync_result \<times> item_map \<times> item_map) act" where
  "sync_bill_org_references W bills_coll orgs_coll =
     bind_act (fetch_all_live_items W bills_coll) (\<lambda>bills.
     bind_act (fetch_all_live_items W orgs_coll) (\<lambda>orgs.
       let result = \<lparr>bills_processed = length bills, orgs_updated = 0, bills_updated = 0,
                     references_added = 0, errors = []\<rparr> in
       bind_act (sync_refs W ToOrg orgs_coll (concat (map bill_ops bills)) (map_of_items orgs, result))
         (\<lambda>(org_map, result).
       bind_act
         (sync_refs W ToBill bills_coll
            (concat (map (\<lambda>org. org_ops (case org_map (item_id org) of None \<Rightarrow> org | Some x \<Rightarrow> x)) orgs))
            (map_of_items bills, result))
         (\<lambda>(bill_map, result). ret (result, bill_map, org_map)))))"

text \<open>\<open>check_missing_fields\<close>: the hook is posted with \<open>post\<close>, which may raise; its answer only counts.\<close>

definition missing_of :: "string list \<Rightarrow> item \<Rightarrow> string list" where
  "missing_of fields_to_check org = filter (\<lambda>f. \<not> filled (data_of org) f) fields_to_check"

fun check_each ::
  "(string \<Rightarrow> json \<Rightarrow> string list \<Rightarrow> 's \<Rightarrow> (string + int) \<times> 's) \<Rightarrow> bool \<Rightarrow> string list \<Rightarrow> item list \<Rightarrow>
   ('s, (string \<times> json \<times> string list) list \<times> nat) act" where
  "check_each post hooks to_check [] s = Some (Inr ([], 0), s)"
| "check_each post hooks to_check (org # orgs) s =
     (let missing = missing_of to_check org in
      if missing = [] then check_each post hooks to_check orgs s
      else
        (let (sent, s) =
           (if hooks
            then (case post (item_id org) (item_label org) missing s of
                    (Inl _, s) \<Rightarrow> (0, s) | (Inr code, s) \<Rightarrow> (if code = 200 then 1 else 0, s))
            else (0, s)) in
         bind_act (check_each post hooks to_check orgs)
           (\<lambda>(rest, n). ret ((item_id org, item_label org, missing) # rest, sent + n)) s))"

definition check_missing_fields ::
  "'s world \<Rightarrow> (string \<Rightarrow> json \<Rightarrow> string list \<Rightarrow> 's \<Rightarrow> (string + int) \<times> 's) \<Rightarrow> bool \<Rightarrow> string \<Rightarrow> string list \<Rightarrow>
   ('s, (string \<times> json \<times> string list) list) act" where
  "check_missing_fields W post hooks coll to_check =
     bind_act (fetch_all_live_items W coll) (\<lambda>orgs.
     bind_act (check_each post hooks to_check orgs) (\<lambda>(results, _). ret results))"

fun update_sections :: "'s world \<Rightarrow> string \<Rightarrow> item \<Rightarrow> (string \<times> string) list \<Rightarrow> ('s, unit) act" where
  "update_sections W coll org [] = ret ()"
| "update_sections W coll org ((section, content) # rest) =
     (case map_of ABOUT_FIELD_MAP section of
        None \<Rightarrow> update_sections W coll org rest
      | Some slug \<Rightarrow>
          bind_act (update_item_fields W coll org [(slug, JStr content)]) (\<lambda>_. update_sections W coll org rest))"

fun parse_about_each :: "'s world \<Rightarrow> string \<Rightarrow> item list \<Rightarrow> nat \<Rightarrow> ('s, nat) act" where
  "parse_about_each W coll [] updated = ret updated"
| "parse_about_each W coll (org # orgs) updated =
     (let about = given (get_text (data_of org) ''about-organization'');
          parsed = parse_about_organization about in
      if about = [] \<or> filled (data_of org) ''description-4'' \<or> parsed = []
      then parse_about_each W coll orgs updated
      else bind_act (update_sections W coll org parsed) (\<lambda>_. parse_about_each W coll orgs (updated + 1)))"

definition parse_about_fields :: "'s world \<Rightarrow> string \<Rightarrow> ('s, nat) act" where
  "parse_about_fields W coll =
     bind_act (fetch_all_live_items W coll) (\<lambda>orgs. parse_about_each W coll orgs 0)"

section \<open>The counts of a fill\<close>

definition counted :: "fill_result \<Rightarrow> nat" where
  "counted r = items_already_filled r + items_updated r + items_skipped r + items_failed r"

definition consistent :: "fill_result \<Rightarrow> bool" where
  "consistent r \<longleftrightarrow> length (updates r) = items_updated r + items_failed r \<and>
     length (filter success (updates r)) = items_updated r"

lemma noted_counts [simp]:
  "counted (noted it fs ok err r) = counted r + 1" "total_items (noted it fs ok err r) = total_items r"
  "consistent r \<Longrightarrow> consistent (noted it fs ok err r)"
  by (simp_all add: noted_def counted_def consistent_def Let_def)

lemma fill_each_counts:
  "fill_each W coll dry plan items r s = Some (Inr r', s') \<Longrightarrow> consistent r \<Longrightarrow>
   counted r' = counted r + length items \<and> total_items r' = total_items r \<and> consistent r'"
proof (induction items arbitrary: r s)
  case Nil
  then show ?case by (simp add: act)
next
  case (Cons it items)
  show ?case
  proof (cases "plan it")
    case Skip
    with Cons show ?thesis by (force simp: counted_def consistent_def)
  next
    case Filled
    with Cons show ?thesis by (force simp: counted_def consistent_def)
  next
    case (Update fs)
    have "\<exists>ok fs' err s1. fill_each W coll dry plan items (noted it fs' ok err r) s1 = Some (Inr r', s')"
    proof (cases dry)
      case True
      with Cons.prems(1) Update show ?thesis by auto
    next
      case False
      with Cons.prems(1) Update show ?thesis
        by (auto simp: bind_act_Some catch_Some act)
    qed
    then obtain ok fs' err s1 where "fill_each W coll dry plan items (noted it fs' ok err r) s1 = Some (Inr r', s')"
      by blast
    from Cons.IH[OF this] Cons.prems(2) show ?thesis by simp
  qed
qed

section \<open>A fill reaches its goal\<close>

definition items_of :: "string \<Rightarrow> store \<Rightarrow> item list" where
  "items_of coll st = map snd (filter (\<lambda>e. fst e = coll) st)"

definition applied :: "(item \<Rightarrow> plan) \<Rightarrow> item \<Rightarrow> item" where
  "applied plan it = (case plan it of Update fs \<Rightarrow> patched fs it | _ \<Rightarrow> it)"

definition wants_update :: "(item \<Rightarrow> plan) \<Rightarrow> item \<Rightarrow> bool" where
  "wants_update plan it = (case plan it of Update _ \<Rightarrow> True | _ \<Rightarrow> False)"

lemma fetch_memory: "fetch_all_live_items memory_world coll st = Some (Inr (items_of coll st), st)"
proof -
  have "send memory_world (get_page coll off) st =
      (Inr \<lparr>status = 200, resp_body = ItemPage (take PAGE_LIMIT (drop off (items_of coll st)))\<rparr>, st)" for off
    by (simp add: memory_world_def memory_send_def get_page_def answer_200_def items_of_def)
  from fetch_pages_all[OF this, of 0] show ?thesis by (simp add: fetch_all_live_items_def)
qed

lemma stored_items_of:
  "distinct (map item_id (items_of coll st)) \<Longrightarrow> it \<in> set (items_of coll st) \<Longrightarrow>
   stored st coll (item_id it) = Some it"
  by (induction st) (auto simp: items_of_def stored_def is_at_def image_iff split: if_splits)

lemma update_memory:
  assumes "stored st coll (item_id it) = Some it0"
  shows "update_item_fields memory_world coll it fs st =
    Some (Inr (), map (\<lambda>e. if is_at coll (item_id it) e then (fst e, patched fs it0) else e) st)"
proof -
  let ?pl = "\<lparr>pl_flags = Some (is_archived it, is_draft it), pl_fields = fs\<rparr>"
  let ?st = "map (\<lambda>e. if is_at coll (item_id it) e then (fst e, patched fs it0) else e) st"
  have sent: "send memory_world (patch_one coll (item_id it) ?pl) st =
      (Inr \<lparr>status = 200, resp_body = ItemDoc (patched fs it0)\<rparr>, ?st)"
    using assms by (simp add: memory_world_def memory_send_def patch_one_def answer_200_def)
  have "patch memory_world coll (item_id it) ?pl st =
      Some (Inr (Some \<lparr>status = 200, resp_body = ItemDoc (patched fs it0)\<rparr>), ?st)"
    unfolding patch_def patch_one_def[symmetric]
    by (subst request_final[OF sent]) (simp_all add: transient_def TRANSIENT_STATUS_CODES_def conclude_def)
  then show ?thesis by (simp add: update_item_fields_def json_answer_def act)
qed

lemma items_of_update:
  "items_of coll (map (\<lambda>e. if is_at coll i e then (fst e, x) else e) st) =
   map (\<lambda>y. if item_id y = i then x else y) (items_of coll st)"
  by (induction st) (auto simp: items_of_def is_at_def)

lemma patched_id [simp]: "item_id (patched fs it) = item_id it"
  by (simp add: patched_def)

lemma applied_id [simp]: "item_id (applied plan it) = item_id it"
  by (simp add: applied_def split: plan.splits)

lemma fill_each_memory:
  assumes "distinct (map item_id (ready @ todo))" "items_of coll st = map (applied plan) ready @ todo"
  shows "\<exists>r' st'. fill_each memory_world coll False plan todo r st = Some (Inr r', st') \<and>
    items_of coll st' = map (applied plan) (ready @ todo) \<and> items_failed r' = items_failed r \<and>
    items_updated r' = items_updated r + length (filter (wants_update plan) todo) \<and>
    (filter (wants_update plan) todo = [] \<longrightarrow> st' = st)"
  using assms
proof (induction todo arbitrary: ready r st)
  case Nil
  then show ?case by (simp add: act)
next
  case (Cons it todo)
  have d: "distinct (map item_id ((ready @ [it]) @ todo))" using Cons.prems(1) by simp
  show ?case
  proof (cases "plan it")
    case (Update fs)
    have "distinct (map item_id (items_of coll st))" "it \<in> set (items_of coll st)"
      using Cons.prems by (simp_all add: comp_def)
    note up = update_memory[OF stored_items_of[OF this], of fs]
    let ?st = "map (\<lambda>e. if is_at coll (item_id it) e then (fst e, patched fs it) else e) st"
    have "map (\<lambda>y. if item_id y = item_id it then patched fs it else y) (map (applied plan) ready @ it # todo) =
        map (applied plan) (ready @ [it]) @ todo"
    proof -
      have "item_id it \<notin> item_id ` set ready" "item_id it \<notin> item_id ` set todo"
        using Cons.prems(1) by auto
      then have "\<forall>x \<in> set ready. item_id (applied plan x) \<noteq> item_id it"
          "\<forall>y \<in> set todo. item_id y \<noteq> item_id it" by (auto simp: image_iff)
      moreover have "applied plan it = patched fs it" using Update by (simp add: applied_def)
      ultimately show ?thesis by (simp add: map_idI)
    qed
    then have "items_of coll ?st = map (applied plan) (ready @ [it]) @ todo"
      by (simp only: items_of_update Cons.prems(2))
    from Cons.IH[OF d this, of "noted it fs True [] r"] Update up show ?thesis
      by (auto simp: act wants_update_def noted_def Let_def)
  next
    case Skip
    have "items_of coll st = map (applied plan) (ready @ [it]) @ todo"
      using Cons.prems(2) Skip by (simp add: applied_def)
    from Cons.IH[OF d this, of "r\<lparr>items_skipped := items_skipped r + 1\<rparr>"] Skip show ?thesis
      by (auto simp: wants_update_def)
  next
    case Filled
    have "items_of coll st = map (applied plan) (ready @ [it]) @ todo"
      using Cons.prems(2) Filled by (simp add: applied_def)
    from Cons.IH[OF d this, of "r\<lparr>items_already_filled := items_already_filled r + 1\<rparr>"] Filled show ?thesis
      by (auto simp: wants_update_def)
  qed
qed

lemma fill_memory:
  assumes "distinct (map item_id (items_of coll st))"
  shows "\<exists>r st'. fill plan memory_world coll False st = Some (Inr r, st') \<and>
    items_of coll st' = map (applied plan) (items_of coll st) \<and> items_failed r = 0 \<and>
    items_updated r = length (filter (wants_update plan) (items_of coll st)) \<and>
    (filter (wants_update plan) (items_of coll st) = [] \<longrightarrow> st' = st)"
  using fill_each_memory[of "[]" "items_of coll st" coll st plan "new_result (length (items_of coll st))"] assms
  by (auto simp: fill_def act fetch_memory new_result_def)

text \<open>A plan that is fulfilled once its update is applied.\<close>

definition settles :: "(item \<Rightarrow> plan) \<Rightarrow> bool" where
  "settles plan \<longleftrightarrow> (\<forall>it fs. plan it = Update fs \<longrightarrow> plan (patched fs it) = Filled)"

lemma fill_converges:
  assumes "settles plan" "distinct (map item_id (items_of coll st))"
  shows "\<exists>r st'. fill plan memory_world coll False st = Some (Inr r, st') \<and> items_failed r = 0 \<and>
    items_of coll st' = map (applied plan) (items_of coll st) \<and>
    (\<forall>it \<in> set (items_of coll st'). \<not> wants_update plan it) \<and>
    (\<exists>r2. fill plan memory_world coll False st' = Some (Inr r2, st') \<and> items_updated r2 = 0)"
proof -
  obtain r st' where f: "fill plan memory_world coll False st = Some (Inr r, st')"
      "items_of coll st' = map (applied plan) (items_of coll st)" "items_failed r = 0"
    using fill_memory[OF assms(2), of plan] by blast
  have "\<not> wants_update plan (applied plan it)" for it
    using assms(1) by (auto simp: settles_def wants_update_def applied_def split: plan.splits)
  then have none: "\<forall>it \<in> set (items_of coll st'). \<not> wants_update plan it"
    using f(2) by simp
  moreover have "distinct (map item_id (items_of coll st'))"
    using assms(2) f(2) by (simp add: comp_def)
  from fill_memory[OF this, of plan] none have
    "\<exists>r2. fill plan memory_world coll False st' = Some (Inr r2, st') \<and> items_updated r2 = 0"
    by (auto simp: filter_empty_conv)
  ultimately show ?thesis using f by blast
qed

lemma get_text_patched:
  "distinct (map fst fs) \<Longrightarrow> get_text (data_of (patched fs it)) f =
     (case map_of fs f of None \<Rightarrow> get_text (data_of it) f | Some (JStr s) \<Rightarrow> Some s | _ \<Rightarrow> None)"
  by (auto simp: get_text_def data_of_patched map_of_merge_distinct split: option.splits)

lemma filled_patched:
  "distinct (map fst fs) \<Longrightarrow> filled (data_of (patched fs it)) f =
     (case map_of fs f of None \<Rightarrow> filled (data_of it) f | Some v \<Rightarrow> truthy v)"
  by (auto simp: filled_def truthy_opt_def data_of_patched map_of_merge_distinct split: option.splits)

lemma match_path_nonempty:
  "match_path s = Some p \<Longrightarrow> session_code p \<noteq> [] \<and> bill_prefix p \<noteq> [] \<and> bill_number p \<noteq> []"
  by (auto simp: match_path_def Let_def upper_def split: if_splits)

lemma parse_nonempty:
  "parse_open_states_url u = Some p \<Longrightarrow> session_code p \<noteq> [] \<and> bill_prefix p \<noteq> [] \<and> bill_number p \<noteq> []"
  by (auto simp: parse_open_states_url_def split: option.splits if_splits dest: match_path_nonempty)

lemma build_map_url_ne: "build_map_url p \<noteq> []"
  by (simp add: build_map_url_def MAP_BASE_URL_def)

lemma map_url_settles: "settles plan_map_url"
  unfolding settles_def
proof (intro allI impI)
  fix it fs assume u: "plan_map_url it = Update fs"
  then obtain p where v: "filled (data_of it) ''voatzid''" "given (get_text (data_of it) ''open-states-url-2'') \<noteq> []"
      "parse_open_states_url (get_text (data_of it) ''open-states-url-2'') = Some p"
    by (auto simp: plan_map_url_def Let_def split: if_splits option.splits)
  consider "fs = [(''map-url'', JStr (build_map_url p)), (''public'', JBool False)]"
    | "fs = [(''public'', JBool False)]" "given (get_text (data_of it) ''map-url'') \<noteq> []"
      "is_compliant_map_url (get_text (data_of it) ''map-url'') (build_map_url p)"
    using u v by (auto simp: plan_map_url_def Let_def split: if_splits)
  then show "plan_map_url (patched fs it) = Filled"
  proof cases
    case 1
    then show ?thesis using v build_map_url_ne[of p]
      by (simp add: plan_map_url_def Let_def get_text_patched filled_patched given_def is_compliant_map_url_def)
  next
    case 2
    then show ?thesis using v
      by (simp add: plan_map_url_def Let_def get_text_patched filled_patched)
  qed
qed

lemma session_code_settles: "settles plan_session_code"
  unfolding settles_def
proof (intro allI impI)
  fix it fs assume u: "plan_session_code it = Update fs"
  let ?d = "data_of it"
  obtain p where v: "given (get_text ?d ''open-states-url-2'') \<noteq> []"
      "parse_open_states_url (get_text ?d ''open-states-url-2'') = Some p"
    using u by (auto simp: plan_session_code_def Let_def split: if_splits option.splits)
  have fs: "fs = (if \<not> filled ?d ''session-code'' then [(''session-code'', JStr (session_code p))] else []) @
                 (if \<not> filled ?d ''bill-prefix'' then [(''bill-prefix'', JStr (bill_prefix p))] else []) @
                 (if \<not> filled ?d ''bill-number'' then [(''bill-number'', JStr (bill_number p))] else [])"
    using u v by (simp add: plan_session_code_def Let_def split: if_splits)
  have d: "distinct (map fst fs)" by (simp add: fs)
  have "get_text (data_of (patched fs it)) ''open-states-url-2'' = get_text ?d ''open-states-url-2''"
    by (simp add: get_text_patched[OF d]) (simp add: fs)
  moreover have "filled (data_of (patched fs it)) ''session-code'' \<and> filled (data_of (patched fs it)) ''bill-prefix'' \<and>
      filled (data_of (patched fs it)) ''bill-number''"
    using parse_nonempty[OF v(2)] by (simp add: filled_patched[OF d]) (simp add: fs)
  ultimately show "plan_session_code (patched fs it) = Filled"
    using v(1) by (simp add: plan_session_code_def Let_def)
qed

text \<open>one run of the map-address service repairs the whole collection: it returns without a
  failed item, afterwards every eligible bill has a compliant map address and is visible (no item
  is due for an update), and a second run changes nothing.\<close>

lemma fill_map_url_converges:
  assumes "distinct (map item_id (items_of coll st))"
  shows "\<exists>r st'. fill_map_url memory_world coll False st = Some (Inr r, st') \<and> items_failed r = 0 \<and>
    items_of coll st' = map (applied plan_map_url) (items_of coll st) \<and>
    (\<forall>it \<in> set (items_of coll st'). \<not> wants_update plan_map_url it) \<and>
    (\<exists>r2. fill_map_url memory_world coll False st' = Some (Inr r2, st') \<and> items_updated r2 = 0)"
  unfolding fill_map_url_def by (rule fill_converges[OF map_url_settles assms])

definition unmapped_bill :: item where
  "unmapped_bill = \<lparr>item_id = ''b1'', is_archived = False, is_draft = False,
     field_data = Some [(''name'', JStr ''HB 12''), (''voatzid'', JStr ''v1''),
       (''open-states-url-2'', JStr ''https://openstates.org/ut/bills/2026/HB12/''), (''public'', JBool True)]\<rparr>"

lemma fill_map_url_converges_witness:
  "\<exists>r st'. fill_map_url memory_world ''bills'' False [(''bills'', unmapped_bill)] = Some (Inr r, st') \<and>
    (\<forall>it \<in> set (items_of ''bills'' st'). \<not> wants_update plan_map_url it)"
  using fill_map_url_converges[of "''bills''" "[(''bills'', unmapped_bill)]"] by (auto simp: items_of_def)

text \<open>the same for the session codes: after one run no bill with a parseable address lacks its
  session code, prefix or number, and a second run changes nothing.\<close>

lemma fill_session_code_converges:
  assumes "distinct (map item_id (items_of coll st))"
  shows "\<exists>r st'. fill_session_code memory_world coll False st = Some (Inr r, st') \<and> items_failed r = 0 \<and>
    items_of coll st' = map (applied plan_session_code) (items_of coll st) \<and>
    (\<forall>it \<in> set (items_of coll st'). \<not> wants_update plan_session_code it) \<and>
    (\<exists>r2. fill_session_code memory_world coll False st' = Some (Inr r2, st') \<and> items_updated r2 = 0)"
  unfolding fill_session_code_def by (rule fill_converges[OF session_code_settles assms])

lemma fill_session_code_converges_witness:
  "\<exists>r st'. fill_session_code memory_world ''bills'' False [(''bills'', unmapped_bill)] = Some (Inr r, st') \<and>
    (\<forall>it \<in> set (items_of ''bills'' st'). \<not> wants_update plan_session_code it)"
  using fill_session_code_converges[of "''bills''" "[(''bills'', unmapped_bill)]"] by (auto simp: items_of_def)

text \<open>whatever the service answers, a fill that returns accounts for every item exactly once
  (filled, updated, skipped or failed) and lists exactly its updated and failed items.\<close>

lemma fill_counts_add_up:
  assumes "fill plan W coll dry s = Some (Inr r, s')"
  shows "items_already_filled r + items_updated r + items_skipped r + items_failed r = total_items r \<and>
    length (updates r) = items_updated r + items_failed r \<and>
    length (filter success (updates r)) = items_updated r"
proof -
  obtain items s1 where "fill_each W coll dry plan items (new_result (length items)) s1 = Some (Inr r, s')"
    using assms by (auto simp: fill_def bind_act_Some)
  from fill_each_counts[OF this] show ?thesis
    by (simp add: new_result_def counted_def consistent_def)
qed

lemma fill_counts_add_up_witness:
  "\<exists>r st'. fill plan_map_url memory_world ''bills'' False [(''bills'', unmapped_bill)] = Some (Inr r, st') \<and>
    items_already_filled r + items_updated r + items_skipped r + items_failed r = total_items r"
proof -
  have "distinct (map item_id (items_of ''bills'' [(''bills'', unmapped_bill)]))" by (simp add: items_of_def)
  from fill_memory[OF this] obtain r st' where
    "fill plan_map_url memory_world ''bills'' False [(''bills'', unmapped_bill)] = Some (Inr r, st')" by blast
  with fill_counts_add_up[OF this] show ?thesis by blast
qed

section \<open>Synchronized references agree\<close>

definition refset :: "item_map \<Rightarrow> string \<Rightarrow> string \<Rightarrow> string set" where
  "refset m t f = (case m t of None \<Rightarrow> {} | Some it \<Rightarrow> set (refs_in it f))"

lemma refs_in_mem: "r \<in> set (refs_in it f) \<longleftrightarrow> JStr r \<in> set (get_list (data_of it) f)"
proof -
  have "r \<in> set (List.map_filter (\<lambda>v. case v of JStr s \<Rightarrow> Some s | _ \<Rightarrow> None) xs) \<longleftrightarrow> JStr r \<in> set xs" for xs
    by (induction xs) (auto split: json.splits)
  then show ?thesis by (simp add: refs_in_def)
qed

lemma refs_in_set:
  "field_data it = Some d \<Longrightarrow>
   set (refs_in (it\<lparr>field_data := Some (dict_set f (JArr (get_list (data_of it) f @ [JStr r])) d)\<rparr>) g) =
   set (refs_in it g) \<union> (if g = f then {r} else {})"
  by (auto simp: set_eq_iff refs_in_mem data_of_def get_list_def)

text \<open>A step that reports no error has its target and adds exactly its reference.\<close>

definition keeps_ids :: "item_map \<Rightarrow> bool" where
  "keeps_ids m \<longleftrightarrow> (\<forall>t it. m t = Some it \<longrightarrow> item_id it = t)"

lemma errors_count [simp]: "errors (count_update sd r) = errors r"
  by (simp add: count_update_def Let_def split: side.splits)

lemma errors_note [simp]: "errors (note_error msg r) = errors r @ [msg]"
  by (simp add: note_error_def)

lemma sync_ref_effect:
  assumes "sync_ref W sd coll target ref field (m, r) s = Some (Inr (m', r'), s')"
  shows "\<exists>tail. errors r' = errors r @ tail"
    "errors r' = errors r \<Longrightarrow> target \<in> dom m \<and> dom m' = dom m \<and>
       (keeps_ids m \<longrightarrow> keeps_ids m') \<and>
       (\<forall>t f. refset m' t f = refset m t f \<union> (if t = target \<and> f = field then {ref} else {}))"
proof -
  have "(\<exists>tail. errors r' = errors r @ tail) \<and> (errors r' = errors r \<longrightarrow> target \<in> dom m \<and> dom m' = dom m \<and>
       (keeps_ids m \<longrightarrow> keeps_ids m') \<and>
       (\<forall>t f. refset m' t f = refset m t f \<union> (if t = target \<and> f = field then {ref} else {})))"
  proof (cases "m target")
    case None
    then show ?thesis using assms by (auto simp: sync_ref_def act)
  next
    case (Some it)
    show ?thesis
    proof (cases "JStr ref \<in> set (get_list (data_of it) field)")
      case True
      then have "m' = m" "r' = r" using assms Some by (simp_all add: sync_ref_def act Let_def)
      moreover have "ref \<in> refset m target field" using True Some by (simp add: refset_def refs_in_mem)
      ultimately show ?thesis using Some by auto
    next
      case False
      from assms Some False consider
        d where "field_data it = Some d" "r' = count_update sd r"
          "m' = m(target \<mapsto> it\<lparr>field_data := Some (dict_set field (JArr (get_list (data_of it) field @ [JStr ref])) d)\<rparr>)"
        | "m' = m" "\<exists>msg. r' = note_error msg r"
        by (auto simp: sync_ref_def act Let_def catch_Some bind_act_Some split: option.splits)
      then show ?thesis
      proof cases
        case 1
        then show ?thesis using Some refs_in_set[OF 1(1), of field ref]
          by (auto simp: refset_def keeps_ids_def)
      qed auto
    qed
  qed
  then show "\<exists>tail. errors r' = errors r @ tail"
    "errors r' = errors r \<Longrightarrow> target \<in> dom m \<and> dom m' = dom m \<and> (keeps_ids m \<longrightarrow> keeps_ids m') \<and>
       (\<forall>t f. refset m' t f = refset m t f \<union> (if t = target \<and> f = field then {ref} else {}))"
    by blast+
qed

lemma sync_refs_effect:
  assumes "sync_refs W sd coll ops (m, r) s = Some (Inr (m', r'), s')"
  shows "(\<exists>tail. errors r' = errors r @ tail) \<and>
    (errors r' = errors r \<longrightarrow> fst ` set ops \<subseteq> dom m \<and> dom m' = dom m \<and>
       (keeps_ids m \<longrightarrow> keeps_ids m') \<and>
       (\<forall>t f. refset m' t f = refset m t f \<union> {x. (t, x, f) \<in> set ops}))"
  using assms
proof (induction ops arbitrary: m r s)
  case Nil
  then show ?case by (simp add: act)
next
  case (Cons op ops)
  obtain target ref field where op: "op = (target, ref, field)" by (cases op)
  from Cons.prems obtain m1 r1 s1 where 1: "sync_ref W sd coll target ref field (m, r) s = Some (Inr (m1, r1), s1)"
      and 2: "sync_refs W sd coll ops (m1, r1) s1 = Some (Inr (m', r'), s')"
    by (auto simp: op bind_act_Some)
  obtain t1 where t1: "errors r1 = errors r @ t1" using sync_ref_effect(1)[OF 1] by blast
  obtain t2 where t2: "errors r' = errors r1 @ t2" using Cons.IH[OF 2] by blast
  show ?case
  proof (intro conjI impI)
    show "\<exists>tail. errors r' = errors r @ tail" using t1 t2 by simp
    assume "errors r' = errors r"
    then have "errors r1 = errors r" "errors r' = errors r1" using t1 t2 by simp_all
    note a = sync_ref_effect(2)[OF 1 this(1)]
    from Cons.IH[OF 2] \<open>errors r' = errors r1\<close> have b: "fst ` set ops \<subseteq> dom m1" "dom m' = dom m1"
        "keeps_ids m1 \<longrightarrow> keeps_ids m'" "\<forall>t f. refset m' t f = refset m1 t f \<union> {x. (t, x, f) \<in> set ops}" by auto
    show "fst ` set (op # ops) \<subseteq> dom m" "dom m' = dom m" "keeps_ids m \<Longrightarrow> keeps_ids m'"
      using a b by (auto simp: op)
    show "\<forall>t f. refset m' t f = refset m t f \<union> {x. (t, x, f) \<in> set (op # ops)}"
      using a b(4) by (auto simp: op)
  qed
qed

lemma map_of_items_eq:
  "distinct (map item_id items) \<Longrightarrow> map_of_items items t = Some it \<longleftrightarrow> it \<in> set items \<and> item_id it = t"
proof (induction items rule: rev_induct)
  case (snoc x items)
  then have IH: "map_of_items items t = Some it \<longleftrightarrow> it \<in> set items \<and> item_id it = t" by simp
  have "map_of_items (items @ [x]) = (map_of_items items)(item_id x \<mapsto> x)" by (simp add: map_of_items_def)
  then show ?case using snoc.prems IH by (auto simp: image_iff)
qed (simp add: map_of_items_def)

lemma refset_map_of_items:
  "distinct (map item_id items) \<Longrightarrow> it \<in> set items \<Longrightarrow> refset (map_of_items items) (item_id it) f = set (refs_in it f)"
  using map_of_items_eq[of items "item_id it" it] by (simp add: refset_def)

lemma keeps_ids_map_of_items: "distinct (map item_id items) \<Longrightarrow> keeps_ids (map_of_items items)"
  by (simp add: keeps_ids_def map_of_items_eq)

definition bill_side :: "string \<Rightarrow> string" where
  "bill_side f = (if f = ''bills-support'' then ''member-organizations'' else ''organizations-oppose'')"

lemma bill_ops_mem:
  "(t, x, f) \<in> set (bill_ops b) \<longleftrightarrow>
     x = item_id b \<and> f \<in> {''bills-support'', ''bills-oppose''} \<and> t \<in> set (refs_in b (bill_side f))"
  by (auto simp: bill_ops_def bill_side_def)

lemma org_ops_mem:
  "(t, x, bill_side f) \<in> set (org_ops org) \<longleftrightarrow> x = item_id org \<and> t \<in> set (refs_in org f)"
  if "f \<in> {''bills-support'', ''bills-oppose''}"
  using that by (auto simp: org_ops_def bill_side_def)

lemma sync_agrees:
  assumes "fetch_all_live_items W bc s = Some (Inr bills, s1)" "fetch_all_live_items W oc s1 = Some (Inr orgs, s2)"
    "distinct (map item_id bills)" "distinct (map item_id orgs)"
    "sync_bill_org_references W bc oc s = Some (Inr (r, bm, om), s')" "errors r = []"
    "b \<in> set bills" "org \<in> set orgs" "f \<in> {''bills-support'', ''bills-oppose''}"
  shows "(item_id org \<in> refset bm (item_id b) (bill_side f) \<longleftrightarrow> item_id b \<in> refset om (item_id org) f) \<and>
    (item_id b \<in> refset om (item_id org) f \<longleftrightarrow>
       item_id org \<in> set (refs_in b (bill_side f)) \<or> item_id b \<in> set (refs_in org f))"
proof -
  let ?r0 = "\<lparr>bills_processed = length bills, orgs_updated = 0, bills_updated = 0, references_added = 0, errors = []\<rparr>"
  let ?upd = "\<lambda>om org. case om (item_id org) of None \<Rightarrow> org | Some x \<Rightarrow> x"
  from assms(5) obtain r1 s3 where
    p1: "sync_refs W ToOrg oc (concat (map bill_ops bills)) (map_of_items orgs, ?r0) s2 = Some (Inr (om, r1), s3)" and
    p2: "sync_refs W ToBill bc (concat (map (\<lambda>org. org_ops (?upd om org)) orgs)) (map_of_items bills, r1) s3 = Some (Inr (bm, r), s')"
    using assms(1,2) by (auto simp: sync_bill_org_references_def bind_act_Some act Let_def)
  have e1: "errors r1 = errors ?r0" and e2: "errors r = errors r1"
    using sync_refs_effect[OF p1] sync_refs_effect[OF p2] assms(6) by auto
  from sync_refs_effect[OF p1] e1 have
    o1: "dom om = dom (map_of_items orgs)" "keeps_ids om"
      "\<And>t f. refset om t f = refset (map_of_items orgs) t f \<union> {x. (t, x, f) \<in> set (concat (map bill_ops bills))}"
    using keeps_ids_map_of_items[OF assms(4)] by blast+
  from sync_refs_effect[OF p2] e2 have
    o2: "\<And>t f. refset bm t f = refset (map_of_items bills) t f \<union>
        {x. (t, x, f) \<in> set (concat (map (\<lambda>org. org_ops (?upd om org)) orgs))}" by blast
  have own: "c \<in> set bills \<Longrightarrow> item_id c = item_id b \<Longrightarrow> c = b" for c
    using assms(3,7) by (auto simp: distinct_map inj_on_def)
  have own': "c \<in> set orgs \<Longrightarrow> item_id c = item_id org \<Longrightarrow> c = org" for c
    using assms(4,8) by (auto simp: distinct_map inj_on_def)
  have om: "item_id b \<in> refset om (item_id org) f \<longleftrightarrow>
      item_id b \<in> set (refs_in org f) \<or> item_id org \<in> set (refs_in b (bill_side f))"
  proof -
    have "(item_id org, item_id b, f) \<in> set (concat (map bill_ops bills)) \<longleftrightarrow> item_id org \<in> set (refs_in b (bill_side f))"
    proof
      assume "(item_id org, item_id b, f) \<in> set (concat (map bill_ops bills))"
      then obtain c where "c \<in> set bills" "(item_id org, item_id b, f) \<in> set (bill_ops c)" by auto
      moreover from this(2) have "item_id c = item_id b" by (simp add: bill_ops_mem)
      ultimately show "item_id org \<in> set (refs_in b (bill_side f))" using own[of c] by (simp add: bill_ops_mem)
    next
      assume "item_id org \<in> set (refs_in b (bill_side f))"
      then have "(item_id org, item_id b, f) \<in> set (bill_ops b)" using assms(9) by (simp add: bill_ops_mem)
      then show "(item_id org, item_id b, f) \<in> set (concat (map bill_ops bills))" using assms(7) by auto
    qed
    then show ?thesis unfolding o1(3) refset_map_of_items[OF assms(4,8)] by blast
  qed
  have upd: "item_id (?upd om c) = item_id c \<and> set (refs_in (?upd om c) f) = refset om (item_id c) f"
    if "c \<in> set orgs" for c
  proof -
    have "item_id c \<in> dom om" using map_of_items_eq[OF assms(4)] that o1(1) by blast
    then obtain y where "om (item_id c) = Some y" by blast
    then show ?thesis using o1(2) by (simp add: refset_def keeps_ids_def)
  qed
  have "item_id org \<in> refset bm (item_id b) (bill_side f) \<longleftrightarrow>
      item_id org \<in> set (refs_in b (bill_side f)) \<or> item_id b \<in> refset om (item_id org) f"
  proof -
    have "(item_id b, item_id org, bill_side f) \<in> set (concat (map (\<lambda>org. org_ops (?upd om org)) orgs)) \<longleftrightarrow>
        item_id b \<in> refset om (item_id org) f"
    proof
      assume "(item_id b, item_id org, bill_side f) \<in> set (concat (map (\<lambda>org. org_ops (?upd om org)) orgs))"
      then obtain c where c: "c \<in> set orgs" "(item_id b, item_id org, bill_side f) \<in> set (org_ops (?upd om c))" by auto
      then have "item_id c = item_id org" "item_id b \<in> refset om (item_id c) f"
        using upd[OF c(1)] by (simp_all add: org_ops_mem[OF assms(9)])
      then show "item_id b \<in> refset om (item_id org) f" by simp
    next
      assume "item_id b \<in> refset om (item_id org) f"
      then have "(item_id b, item_id org, bill_side f) \<in> set (org_ops (?upd om org))"
        using upd[OF assms(8)] by (simp add: org_ops_mem[OF assms(9)])
      then show "(item_id b, item_id org, bill_side f) \<in> set (concat (map (\<lambda>org. org_ops (?upd om org)) orgs))"
        using assms(8) by auto
    qed
    then show ?thesis unfolding o2 refset_map_of_items[OF assms(3,7)] by blast
  qed
  with om show ?thesis by blast
qed


definition sample_org2 :: item where
  "sample_org2 = \<lparr>item_id = ''o2'', is_archived = False, is_draft = False,
     field_data = Some [(''bills-support'', JArr [JStr ''b2''])]\<rparr>"

definition sample_store :: store where
  "sample_store = [(''bills'', bill ''b2'' []), (''orgs'', sample_org2)]"

lemma sample_items:
  "items_of ''bills'' sample_store = [bill ''b2'' []]" "items_of ''orgs'' sample_store = [sample_org2]"
  "item_id (bill ''b2'' []) = ''b2''" "item_id sample_org2 = ''o2''"
  by (simp_all add: items_of_def sample_store_def bill_def sample_org2_def)

lemma sample_ops:
  "bill_ops (bill ''b2'' []) = []" "org_ops sample_org2 = [(''b2'', ''o2'', ''member-organizations'')]"
  by (simp_all add: bill_ops_def org_ops_def refs_in_def bill_def sample_org2_def data_of_def get_list_def)

lemma sample_stored: "stored sample_store ''bills'' (item_id (bill ''b2'' [])) = Some (bill ''b2'' [])"
  by (simp add: sample_store_def stored_def is_at_def bill_def)

lemma sample_sync:
  "\<exists>r bm om st. sync_bill_org_references memory_world ''bills'' ''orgs'' sample_store = Some (Inr (r, bm, om), st) \<and>
    errors r = []"
proof -
  have d: "field_data (bill ''b2'' []) = Some [(''member-organizations'', JArr [])]"
      "get_list (data_of (bill ''b2'' [])) ''member-organizations'' = []"
    by (simp_all add: bill_def data_of_def get_list_def)
  note up = update_memory[OF sample_stored, of "[(''member-organizations'', JArr [JStr ''o2''])]"]
  show ?thesis
    by (simp add: sync_bill_org_references_def act fetch_memory sample_items sample_ops map_of_items_def
        sync_ref_def d up Let_def)
qed


section \<open>Deleting one item\<close>

context cms_service
begin

lemma find_item_collection_total: "\<exists>r. find_item_collection W i cs s = Some (Inr r, s)"
  by (induction cs) (auto simp: act fetch_item_lookup)

lemma remove_refs_keeps:
  "\<exists>r s'. remove_refs W c t fb refs removed failed s = Some (Inr r, s') \<and>
    (\<forall>c i. lookup s' c i = None \<longleftrightarrow> lookup s c i = None)"
proof (induction refs arbitrary: removed failed s)
  case (Cons r refs)
  show ?case
  proof (cases "given (ref_id r) = []")
    case True
    then show ?thesis using Cons.IH by simp
  next
    case False
    let ?search = "if given (ref_coll r) = [] then find_item_collection W (given (ref_id r)) (c # filter (\<lambda>x. x \<noteq> c) fb)
        else ret (ref_coll r)"
    obtain found where found: "?search s = Some (Inr found, s)"
      using find_item_collection_total[of "given (ref_id r)" "c # filter (\<lambda>x. x \<noteq> c) fb" s]
      by (cases "given (ref_coll r) = []") (simp_all add: ret_def del: find_item_collection.simps, blast)
    show ?thesis
    proof (cases "given found = []")
      case True
      then show ?thesis using False found Cons.IH[of removed "failed + 1" s] by (simp add: bind_act_simps(1)[of ?search s, OF found])
    next
      case g: False
      let ?attempt = "catch (bind_act (remove_reference W (given found) (given (ref_id r)) t) (\<lambda>_. ret True)) (\<lambda>_. ret False)"
      obtain ok s1 where ok: "?attempt s = Some (Inr ok, s1)"
          "\<forall>c i. lookup s1 c i = None \<longleftrightarrow> lookup s c i = None"
      proof -
        obtain x s1 where x: "remove_references W t [\<lparr>ref_id = Some (given (ref_id r)), ref_coll = Some (given found)\<rparr>] 0 0 s = Some (Inr x, s1)"
            "\<forall>c i. lookup s1 c i = None \<longleftrightarrow> lookup s c i = None"
          using remove_references_keeps by blast
        then obtain ok where "?attempt s = Some (Inr ok, s1)"
          using False g by (auto simp: given_def bind_act_Some act split: if_splits)
        then show thesis using x(2) by (rule that)
      qed
      obtain y s' where "remove_refs W c t fb refs (if ok then removed + 1 else removed) (if ok then failed else failed + 1) s1 = Some (Inr y, s')"
          "\<forall>c i. lookup s' c i = None \<longleftrightarrow> lookup s1 c i = None" using Cons.IH by blast
      with False found g ok show ?thesis
        by (auto simp: bind_act_simps(1)[of ?search s, OF found] bind_act_simps(1)[of ?attempt s, OF ok(1)] split: if_splits)
    qed
  qed
qed (simp add: act)

lemma delete_service_lookup:
  assumes "lookup s c i = Some it"
  shows "\<exists>res s'. delete_service W c i fb force s = Some (Inr res, s') \<and>
    (deleted res \<longleftrightarrow> lookup s' c i = None) \<and> (\<not> force \<and> \<not> deleted res \<longrightarrow> s' = s)"
  using delete_item_lookup[OF assms]
proof (elim disjE exE conjE)
  fix s' assume "delete_item W c i s = Some (Inr True, s')"
    "\<forall>c' i'. lookup s' c' i' = (if c' = c \<and> i' = i then None else lookup s c' i')"
  then show ?thesis by (simp add: delete_service_def act fetch_item_lookup delete_done_def Let_def)
next
  fix refs assume del: "delete_item W c i s = Some (Inl (Conflict refs), s)"
  show ?thesis
  proof (cases force)
    case False
    with del assms show ?thesis by (simp add: delete_service_def act fetch_item_lookup delete_failed_def Let_def)
  next
    case True
    obtain rm fl s1 where s1: "remove_refs W c i fb refs 0 0 s = Some (Inr (rm, fl), s1)"
        "\<forall>c i. lookup s1 c i = None \<longleftrightarrow> lookup s c i = None"
      using remove_refs_keeps[of c i fb refs 0 0 s] by auto
    have "lookup s1 c i \<noteq> None" using s1(2) assms by simp
    then obtain it1 where it1: "lookup s1 c i = Some it1" by blast
    from delete_item_lookup[OF it1] show ?thesis
      using del s1(1) it1 True
      by (elim disjE exE conjE)
        (simp_all add: delete_service_def act fetch_item_lookup remove_refs_and_delete_def delete_done_def delete_failed_def Let_def)
  qed
qed

end

text \<open>deleting an item by the service always ends in a result that says \<open>deleted\<close> exactly when
  the item is gone; without \<open>force_remove_references\<close> a refused deletion changes nothing at all.\<close>

lemma delete_service_result:
  assumes "stored st c i = Some it"
  shows "\<exists>res st'. delete_service memory_world c i fb force st = Some (Inr res, st') \<and>
    (deleted res \<longleftrightarrow> stored st' c i = None) \<and> (\<not> force \<and> \<not> deleted res \<longrightarrow> st' = st)"
  by (rule mem.delete_service_lookup[OF assms])

lemma delete_service_result_witness:
  "\<exists>res st'. delete_service memory_world ''bills'' ''b2'' [] False sample_store = Some (Inr res, st') \<and>
    (deleted res \<longleftrightarrow> stored st' ''bills'' ''b2'' = None) \<and> (\<not> deleted res \<longrightarrow> st' = sample_store)"
  using delete_service_result[of sample_store "''bills''" "''b2''" "bill ''b2'' []" "[]" False]
  by (simp add: stored_def is_at_def sample_store_def bill_def)

end
