(* ===== verification/Redis.thy ===== *)
theory Redis
  imports Prelude
begin

text \<open>
  The interface of the Redis server as the code uses it. The server is not part of the
  repository: a client is a record of commands, each of which may raise (\<open>None\<close>). The locale
  \<open>redis_service\<close> states what the commands promise when they answer, for servers of any state
  type with an observation \<open>view\<close> of their keys; a command that raised promises nothing about
  the writes it was asked for. An in-memory server, which may be down, keeps these laws.
\<close>

section \<open>Texts and entries\<close>

text \<open>
  A stored text: the rendering of a JSON value by \<open>json.dumps\<close>, or a text that is not JSON.
  \<open>json.loads\<close> gives the value back, and raises on the other texts.
\<close>

datatype rtext = JsonText json | RawText string

definition loads :: "rtext \<Rightarrow> json option" where
  "loads t = (case t of JsonText v \<Rightarrow> Some v | RawText _ \<Rightarrow> None)"

definition text_empty :: "rtext \<Rightarrow> bool" where
  "text_empty t = (t = RawText [])"

datatype rvalue = Text rtext | SetVal "string set" | ListVal "rtext list"

text \<open>A value with the seconds left until it expires, if it expires.\<close>

type_synonym entry = "rvalue \<times> nat option"

type_synonym keyspace = "string \<rightharpoonup> entry"

section \<open>Commands\<close>

type_synonym ('r, 'a) command = "'r \<Rightarrow> 'a option \<times> 'r"

record 'r redis =
  r_ping :: "('r, unit) command"
  r_publish :: "string \<Rightarrow> string \<Rightarrow> ('r, int) command"
  r_set :: "string \<Rightarrow> rtext \<Rightarrow> nat option \<Rightarrow> bool \<Rightarrow> ('r, bool) command"
  r_get :: "string \<Rightarrow> ('r, rtext option) command"
  r_mget :: "string list \<Rightarrow> ('r, rtext option list) command"
  r_delete :: "string \<Rightarrow> ('r, unit) command"
  r_expire :: "string \<Rightarrow> nat \<Rightarrow> ('r, unit) command"
  r_ttls :: "string list \<Rightarrow> ('r, int list) command"
  r_persist :: "string list \<Rightarrow> ('r, unit) command"
  r_keys :: "string \<Rightarrow> ('r, string list) command"
  r_sadd :: "string \<Rightarrow> string list \<Rightarrow> ('r, unit) command"
  r_smembers :: "string \<Rightarrow> ('r, string set) command"
  r_smismember :: "string \<Rightarrow> string list \<Rightarrow> ('r, bool list) command"
  r_scard :: "string \<Rightarrow> ('r, nat) command"
  r_copy :: "string \<Rightarrow> string \<Rightarrow> ('r, unit) command"
  r_sunionstore :: "string \<Rightarrow> string \<Rightarrow> ('r, unit) command"
  r_rpush :: "string \<Rightarrow> rtext \<Rightarrow> ('r, unit) command"
  r_ltrim :: "string \<Rightarrow> int \<Rightarrow> ('r, unit) command"
  r_lrange :: "string \<Rightarrow> ('r, rtext list) command"

text \<open>\<open>r_keys p\<close> is \<open>KEYS p*\<close>, \<open>r_ltrim k i\<close> is \<open>LTRIM k i -1\<close>, \<open>r_lrange k\<close> is \<open>LRANGE k 0 -1\<close>.
  \<open>r_ttls\<close>, \<open>r_mget\<close> and \<open>r_persist\<close> are the pipelines of one command per key.\<close>

definition ttl_of :: "keyspace \<Rightarrow> string \<Rightarrow> int" where
  "ttl_of v k = (case v k of None \<Rightarrow> -2 | Some (_, None) \<Rightarrow> -1 | Some (_, Some n) \<Rightarrow> int n)"

definition set_at :: "keyspace \<Rightarrow> string \<Rightarrow> string set" where
  "set_at v k = (case v k of Some (SetVal s, _) \<Rightarrow> s | _ \<Rightarrow> {})"

definition list_at :: "keyspace \<Rightarrow> string \<Rightarrow> rtext list" where
  "list_at v k = (case v k of Some (ListVal xs, _) \<Rightarrow> xs | _ \<Rightarrow> [])"

definition text_at :: "keyspace \<Rightarrow> string \<Rightarrow> rtext option" where
  "text_at v k = (case v k of Some (Text t, _) \<Rightarrow> Some t | _ \<Rightarrow> None)"

definition expiry :: "keyspace \<Rightarrow> string \<Rightarrow> nat option" where
  "expiry v k = (case v k of None \<Rightarrow> None | Some (_, e) \<Rightarrow> e)"

text \<open>Removing the expiry of some keys, and setting that of one.\<close>

definition persisted :: "string set \<Rightarrow> keyspace \<Rightarrow> keyspace" where
  "persisted ks v k = (case v k of None \<Rightarrow> None | Some (x, e) \<Rightarrow> Some (x, if k \<in> ks then None else e))"

definition expiring :: "string \<Rightarrow> nat \<Rightarrow> keyspace \<Rightarrow> keyspace" where
  "expiring k n v = (case v k of None \<Rightarrow> v | Some (x, _) \<Rightarrow> v(k \<mapsto> (x, Some n)))"

section \<open>What the commands promise\<close>

locale redis_service =
  fixes R :: "'r redis" and view :: "'r \<Rightarrow> keyspace"
  assumes set_law: "r_set R k t ex nx r = (Some w, r') \<Longrightarrow>
      (w \<longrightarrow> (nx \<longrightarrow> view r k = None) \<and> view r' = (view r)(k \<mapsto> (Text t, ex))) \<and>
      (\<not> w \<longrightarrow> nx \<and> view r k \<noteq> None \<and> view r' = view r)"
    and get_law: "r_get R k r = (res_get, r') \<Longrightarrow> view r' = view r \<and>
      (\<forall>t. res_get = Some (Some t) \<longrightarrow> text_at (view r) k = Some t) \<and> (res_get = Some None \<longrightarrow> view r k = None)"
    and mget_law: "r_mget R ks r = (res_mget, r') \<Longrightarrow> view r' = view r \<and>
      (\<forall>ts. res_mget = Some ts \<longrightarrow> ts = map (text_at (view r)) ks)"
    and delete_law: "r_delete R k r = (Some u, r') \<Longrightarrow> view r' = (view r)(k := None)"
    and expire_law: "r_expire R k n r = (Some u, r') \<Longrightarrow> view r' = expiring k n (view r)"
    and ttls_law: "r_ttls R ks r = (res_ttls, r') \<Longrightarrow> view r' = view r \<and>
      (\<forall>ts. res_ttls = Some ts \<longrightarrow> ts = map (ttl_of (view r)) ks)"
    and persist_law: "r_persist R ks r = (Some u, r') \<Longrightarrow> view r' = persisted (set ks) (view r)"
    and keys_law: "r_keys R p r = (res_keys, r') \<Longrightarrow> view r' = view r \<and>
      (\<forall>ks. res_keys = Some ks \<longrightarrow> set ks = {k \<in> dom (view r). starts_with p k})"
    and sadd_law: "r_sadd R k es r = (Some u, r') \<Longrightarrow>
      view r' = (view r)(k \<mapsto> (SetVal (set_at (view r) k \<union> set es), expiry (view r) k))"
    and smembers_law: "r_smembers R k r = (res_smembers, r') \<Longrightarrow> view r' = view r \<and>
      (\<forall>s. res_smembers = Some s \<longrightarrow> s = set_at (view r) k)"
    and smismember_law: "r_smismember R k es r = (res_smismember, r') \<Longrightarrow> view r' = view r \<and>
      (\<forall>bs. res_smismember = Some bs \<longrightarrow> bs = map (\<lambda>x. x \<in> set_at (view r) k) es)"
    and copy_law: "r_copy R a b r = (Some u, r') \<Longrightarrow>
      view r' = (case view r a of None \<Rightarrow> view r | Some e \<Rightarrow> (view r)(b \<mapsto> e))"
    and sunionstore_law: "r_sunionstore R b a r = (Some u, r') \<Longrightarrow> view r' = (view r)
      (b := (if set_at (view r) a = {} then None else Some (SetVal (set_at (view r) a), None)))"
    and scard_law: "r_scard R k r = (res_scard, r') \<Longrightarrow> view r' = view r \<and>
      (\<forall>n. res_scard = Some n \<longrightarrow> n = card (set_at (view r) k))"
    and rpush_law: "r_rpush R k t r = (Some u, r') \<Longrightarrow>
      view r' = (view r)(k \<mapsto> (ListVal (list_at (view r) k @ [t]), expiry (view r) k))"
    and ltrim_law: "r_ltrim R k i r = (Some u, r') \<Longrightarrow> view r k = Some (ListVal xs, e) \<Longrightarrow>
      view r' = (view r)(k := (if slice_from i xs = [] then None else Some (ListVal (slice_from i xs), e)))"
    and lrange_law: "r_lrange R k r = (res_lrange, r') \<Longrightarrow> view r' = view r \<and>
      (\<forall>xs. res_lrange = Some xs \<longrightarrow> xs = list_at (view r) k)"

section \<open>An in-memory server\<close>

record memory =
  up :: bool
  content :: "(string \<times> entry) list"

definition mem_view :: "memory \<Rightarrow> keyspace" where
  "mem_view m = map_of (content m)"

text \<open>A command of a server that is down, or used on a value of the wrong kind, raises.\<close>

definition store_at :: "string \<Rightarrow> entry \<Rightarrow> memory \<Rightarrow> memory" where
  "store_at k e m = m\<lparr>content := dict_set k e (content m)\<rparr>"

definition drop_key :: "string \<Rightarrow> memory \<Rightarrow> memory" where
  "drop_key k m = m\<lparr>content := filter (\<lambda>p. fst p \<noteq> k) (content m)\<rparr>"

definition when_up :: "('a \<times> memory) option \<Rightarrow> memory \<Rightarrow> 'a option \<times> memory" where
  "when_up res m = (if \<not> up m then (None, m) else case res of None \<Rightarrow> (None, m) | Some (x, m') \<Rightarrow> (Some x, m'))"

definition as_set :: "memory \<Rightarrow> string \<Rightarrow> string set option" where
  "as_set m k = (case mem_view m k of None \<Rightarrow> Some {} | Some (SetVal s, _) \<Rightarrow> Some s | _ \<Rightarrow> None)"

definition as_list :: "memory \<Rightarrow> string \<Rightarrow> rtext list option" where
  "as_list m k = (case mem_view m k of None \<Rightarrow> Some [] | Some (ListVal s, _) \<Rightarrow> Some s | _ \<Rightarrow> None)"

definition as_text :: "memory \<Rightarrow> string \<Rightarrow> rtext option option" where
  "as_text m k = (case mem_view m k of None \<Rightarrow> Some None | Some (Text t, _) \<Rightarrow> Some (Some t) | _ \<Rightarrow> None)"

fun persist_all :: "string list \<Rightarrow> memory \<Rightarrow> memory" where
  "persist_all [] m = m"
| "persist_all (k # ks) m =
     persist_all ks (case mem_view m k of None \<Rightarrow> m | Some (v, _) \<Rightarrow> store_at k (v, None) m)"

definition set_on :: "string \<Rightarrow> string list \<Rightarrow> memory \<Rightarrow> (unit \<times> memory) option" where
  "set_on k xs m =
     (case as_set m k of
        None \<Rightarrow> None
      | Some s \<Rightarrow> Some ((), store_at k (SetVal (s \<union> set xs), expiry (mem_view m) k) m))"

definition mem_redis :: "memory redis" where
  "mem_redis =
     \<lparr>r_ping = (\<lambda>m. when_up (Some ((), m)) m),
      r_publish = (\<lambda>_ _ m. when_up (Some (0, m)) m),
      r_set = (\<lambda>k t ex nx m. when_up
        (Some (if nx \<and> mem_view m k \<noteq> None then (False, m) else (True, store_at k (Text t, ex) m))) m),
      r_get = (\<lambda>k m. when_up (case as_text m k of None \<Rightarrow> None | Some t \<Rightarrow> Some (t, m)) m),
      r_mget = (\<lambda>ks m. when_up (case those (map (as_text m) ks) of None \<Rightarrow> None | Some ts \<Rightarrow> Some (ts, m)) m),
      r_delete = (\<lambda>k m. when_up (Some ((), drop_key k m)) m),
      r_expire = (\<lambda>k n m. when_up
        (Some ((), case mem_view m k of None \<Rightarrow> m | Some (v, _) \<Rightarrow> store_at k (v, Some n) m)) m),
      r_ttls = (\<lambda>ks m. when_up (Some (map (ttl_of (mem_view m)) ks, m)) m),
      r_persist = (\<lambda>ks m. when_up (Some ((), persist_all ks m)) m),
      r_keys = (\<lambda>p m. when_up (Some (filter (starts_with p) (map fst (content m)), m)) m),
      r_sadd = (\<lambda>k xs m. when_up (set_on k xs m) m),
      r_smembers = (\<lambda>k m. when_up (case as_set m k of None \<Rightarrow> None | Some s \<Rightarrow> Some (s, m)) m),
      r_smismember = (\<lambda>k xs m. when_up
        (case as_set m k of None \<Rightarrow> None | Some s \<Rightarrow> Some (map (\<lambda>x. x \<in> s) xs, m)) m),
      r_scard = (\<lambda>k m. when_up (case as_set m k of None \<Rightarrow> None | Some s \<Rightarrow> Some (card s, m)) m),
      r_copy = (\<lambda>a b m. when_up
        (Some ((), case mem_view m a of None \<Rightarrow> m | Some e \<Rightarrow> store_at b e m)) m),
      r_sunionstore = (\<lambda>b a m. when_up
        (case as_set m a of
           None \<Rightarrow> None
         | Some s \<Rightarrow> Some ((), if s = {} then drop_key b m else store_at b (SetVal s, None) m)) m),
      r_rpush = (\<lambda>k t m. when_up
        (case as_list m k of
           None \<Rightarrow> None
         | Some xs \<Rightarrow> Some ((), store_at k (ListVal (xs @ [t]), expiry (mem_view m) k) m)) m),
      r_ltrim = (\<lambda>k i m. when_up
        (case mem_view m k of
           None \<Rightarrow> Some ((), m)
         | Some (ListVal xs, e) \<Rightarrow>
             Some ((), if slice_from i xs = [] then drop_key k m else store_at k (ListVal (slice_from i xs), e) m)
         | _ \<Rightarrow> None) m),
      r_lrange = (\<lambda>k m. when_up (case as_list m k of None \<Rightarrow> None | Some xs \<Rightarrow> Some (xs, m)) m)\<rparr>"

lemma view_store_at [simp]: "mem_view (store_at k e m) = (mem_view m)(k \<mapsto> e)"
  by (simp add: mem_view_def store_at_def)

lemma view_drop_key [simp]: "mem_view (drop_key k m) = (mem_view m)(k := None)"
  by (simp add: mem_view_def drop_key_def map_of_filter_key)

lemma up_store_at [simp]: "up (store_at k e m) = up m"
  by (simp add: store_at_def)

lemma up_drop_key [simp]: "up (drop_key k m) = up m"
  by (simp add: drop_key_def)

lemma when_up_Some:
  "when_up res m = (Some x, m') \<longleftrightarrow> up m \<and> res = Some (x, m')"
  by (cases res) (auto simp: when_up_def)

lemma when_up_read:
  "when_up (Some (x, m)) m = (res, m') \<longleftrightarrow> m' = m \<and> res = (if up m then Some x else None)"
  by (auto simp: when_up_def)

lemma when_up_view:
  assumes "when_up res m = (y, m')" "\<And>x n. res = Some (x, n) \<Longrightarrow> n = m"
  shows "m' = m" "y = Some x \<Longrightarrow> res = Some (x, m)"
  using assms by (auto simp: when_up_def split: if_splits option.splits)

lemma persist_all_view: "mem_view (persist_all ks m) = persisted (set ks) (mem_view m)"
proof (induction ks arbitrary: m)
  case Nil
  show ?case by (rule ext) (auto simp: persisted_def split: option.splits)
next
  case (Cons k ks)
  show ?case
    unfolding persist_all.simps Cons.IH
    by (rule ext) (auto simp: persisted_def split: option.splits prod.splits)
qed

lemma those_as_text: "those (map (as_text m) ks) = Some ts \<Longrightarrow> ts = map (text_at (mem_view m)) ks"
  by (induction ks arbitrary: ts)
    (auto simp: as_text_def text_at_def split: option.splits prod.splits rvalue.splits)

interpretation mem_redis: redis_service mem_redis mem_view
proof unfold_locales
  fix k ks t ex nx r w r' res p xs u n a b i e
  show "r_set mem_redis k t ex nx r = (Some w, r') \<Longrightarrow>
      (w \<longrightarrow> (nx \<longrightarrow> mem_view r k = None) \<and> mem_view r' = (mem_view r)(k \<mapsto> (Text t, ex))) \<and>
      (\<not> w \<longrightarrow> nx \<and> mem_view r k \<noteq> None \<and> mem_view r' = mem_view r)"
    by (cases "mem_view r k") (auto simp: mem_redis_def when_up_Some split: if_splits)
  show "r_get mem_redis k r = (res, r') \<Longrightarrow> mem_view r' = mem_view r \<and>
      (\<forall>t. res = Some (Some t) \<longrightarrow> text_at (mem_view r) k = Some t) \<and> (res = Some None \<longrightarrow> mem_view r k = None)" for res
    by (auto simp: mem_redis_def when_up_def as_text_def text_at_def split: if_splits option.splits prod.splits rvalue.splits)
  show "r_mget mem_redis ks r = (res, r') \<Longrightarrow> mem_view r' = mem_view r \<and>
      (\<forall>ts. res = Some ts \<longrightarrow> ts = map (text_at (mem_view r)) ks)" for res
    by (auto simp: mem_redis_def when_up_def those_as_text split: if_splits option.splits)
  show "r_delete mem_redis k r = (Some u, r') \<Longrightarrow> mem_view r' = (mem_view r)(k := None)"
    by (auto simp: mem_redis_def when_up_Some)
  show "r_expire mem_redis k n r = (Some u, r') \<Longrightarrow> mem_view r' = expiring k n (mem_view r)"
    by (auto simp: mem_redis_def when_up_Some expiring_def split: option.splits)
  show "r_ttls mem_redis ks r = (res, r') \<Longrightarrow> mem_view r' = mem_view r \<and>
      (\<forall>ts. res = Some ts \<longrightarrow> ts = map (ttl_of (mem_view r)) ks)" for res
    by (auto simp: mem_redis_def when_up_read)
  show "r_persist mem_redis ks r = (Some u, r') \<Longrightarrow> mem_view r' = persisted (set ks) (mem_view r)"
    by (auto simp: mem_redis_def when_up_Some persist_all_view)
  show "r_keys mem_redis p r = (res, r') \<Longrightarrow> mem_view r' = mem_view r \<and>
      (\<forall>ks. res = Some ks \<longrightarrow> set ks = {k \<in> dom (mem_view r). starts_with p k})" for res
    by (auto simp: mem_redis_def when_up_read mem_view_def dom_map_of_conv_image_fst)
  show "r_sadd mem_redis k xs r = (Some u, r') \<Longrightarrow>
      mem_view r' = (mem_view r)(k \<mapsto> (SetVal (set_at (mem_view r) k \<union> set xs), expiry (mem_view r) k))" for xs
    by (auto simp: mem_redis_def when_up_Some set_on_def as_set_def set_at_def split: option.splits prod.splits rvalue.splits)
  show "r_smembers mem_redis k r = (res, r') \<Longrightarrow> mem_view r' = mem_view r \<and>
      (\<forall>s. res = Some s \<longrightarrow> s = set_at (mem_view r) k)" for res
    by (auto simp: mem_redis_def when_up_def as_set_def set_at_def split: if_splits option.splits prod.splits rvalue.splits)
  show "r_smismember mem_redis k xs r = (res, r') \<Longrightarrow> mem_view r' = mem_view r \<and>
      (\<forall>bs. res = Some bs \<longrightarrow> bs = map (\<lambda>x. x \<in> set_at (mem_view r) k) xs)" for res xs
    by (auto simp: mem_redis_def when_up_def as_set_def set_at_def split: if_splits option.splits prod.splits rvalue.splits)
  show "r_copy mem_redis a b r = (Some u, r') \<Longrightarrow>
      mem_view r' = (case mem_view r a of None \<Rightarrow> mem_view r | Some e \<Rightarrow> (mem_view r)(b \<mapsto> e))" for a b
    by (auto simp: mem_redis_def when_up_Some split: option.splits)
  show "r_sunionstore mem_redis b a r = (Some u, r') \<Longrightarrow> mem_view r' = (mem_view r)
      (b := (if set_at (mem_view r) a = {} then None else Some (SetVal (set_at (mem_view r) a), None)))" for a b
    by (auto simp: mem_redis_def when_up_Some as_set_def set_at_def split: option.splits prod.splits rvalue.splits if_splits)
  show "r_scard mem_redis k r = (res, r') \<Longrightarrow> mem_view r' = mem_view r \<and>
      (\<forall>n. res = Some n \<longrightarrow> n = card (set_at (mem_view r) k))" for res
    by (auto simp: mem_redis_def when_up_def as_set_def set_at_def split: if_splits option.splits prod.splits rvalue.splits)
  show "r_rpush mem_redis k t r = (Some u, r') \<Longrightarrow>
      mem_view r' = (mem_view r)(k \<mapsto> (ListVal (list_at (mem_view r) k @ [t]), expiry (mem_view r) k))"
    by (auto simp: mem_redis_def when_up_Some as_list_def list_at_def split: option.splits prod.splits rvalue.splits)
  show "r_ltrim mem_redis k i r = (Some u, r') \<Longrightarrow> mem_view r k = Some (ListVal xs, e) \<Longrightarrow>
      mem_view r' = (mem_view r)(k := (if slice_from i xs = [] then None else Some (ListVal (slice_from i xs), e)))" for xs e
    by (auto simp: mem_redis_def when_up_Some split: if_splits)
  show "r_lrange mem_redis k r = (res, r') \<Longrightarrow> mem_view r' = mem_view r \<and>
      (\<forall>xs. res = Some xs \<longrightarrow> xs = list_at (mem_view r) k)" for res
    by (auto simp: mem_redis_def when_up_def as_list_def list_at_def split: if_splits option.splits prod.splits rvalue.splits)
qed

end
