(* ===== verification/SessionLock.thy ===== *)
theory SessionLock
  imports Redis
begin

text \<open>
  The overlap lock of the scraper-triggered LegBot runs
  (\<open>pipelines/scraper_triggered_legbot.py\<close>). The first part is the function itself: the Redis
  client, the run id (\<open>uuid4().hex\<close>), the lease time and the pipeline are parameters. The second part
  is the lease as a step relation: several runs, the heartbeat and the release of each split into the
  commands the code sends, and a clock that lets the lease expire.
\<close>

section \<open>The trigger\<close>

definition LOCK_KEY_PREFIX :: string where
  "LOCK_KEY_PREFIX = ''ddp_sync:scraper_triggered_legbot:lock:''"

definition lock_key :: "string \<Rightarrow> string \<Rightarrow> string" where
  "lock_key jurisdiction_iso2 session_code = LOCK_KEY_PREFIX @ upper jurisdiction_iso2 @ '':'' @ upper session_code"

text \<open>What \<open>run_legbot_pipeline\<close> does: return a \<open>dict\<close>, raise \<open>ValueError\<close>, or raise something else.\<close>

datatype legbot_outcome = Completed "(string \<times> json) list" | BadInput string | Broken string

text \<open>The dictionaries the trigger returns; \<open>Finished\<close> carries the merged one.\<close>

datatype trigger_result =
    TriggerDisabled
  | RedisUnavailable
  | AlreadyRunning "rtext option"
  | InvalidRequest string
  | PipelineError string
  | Finished "(string \<times> json) list"

definition renew_lock_if_owned :: "'r redis \<Rightarrow> string \<Rightarrow> string \<Rightarrow> nat \<Rightarrow> 'r \<Rightarrow> bool \<times> 'r" where
  "renew_lock_if_owned R key run_id ttl r =
     (case r_get R key r of
        (None, r') \<Rightarrow> (False, r')
      | (Some current, r') \<Rightarrow>
          if current \<noteq> Some (RawText run_id) then (False, r')
          else (case r_expire R key ttl r' of (None, r'') \<Rightarrow> (False, r'') | (Some _, r'') \<Rightarrow> (True, r'')))"

definition acquire_lock :: "'r redis \<Rightarrow> string \<Rightarrow> string \<Rightarrow> nat \<Rightarrow> 'r \<Rightarrow> (bool \<times> rtext option) option \<times> 'r" where
  "acquire_lock R key run_id ttl r =
     (case r_set R key (RawText run_id) (Some ttl) True r of
        (None, r') \<Rightarrow> (None, r')
      | (Some acquired, r') \<Rightarrow>
          if acquired then (Some (True, None), r')
          else (case r_get R key r' of
                  (None, r'') \<Rightarrow> (None, r'')
                | (Some existing, r'') \<Rightarrow> (Some (False, existing), r'')))"

definition release_lock :: "'r redis \<Rightarrow> string \<Rightarrow> string \<Rightarrow> 'r \<Rightarrow> 'r" where
  "release_lock R key run_id r =
     (case r_get R key r of
        (None, r') \<Rightarrow> r'
      | (Some current, r') \<Rightarrow>
          if current = Some (RawText run_id) then snd (r_delete R key r') else r')"

text \<open>\<open>{"success": True, "run_id": run_id, **result}\<close>\<close>

definition finished_dict :: "string \<Rightarrow> (string \<times> json) list \<Rightarrow> (string \<times> json) list" where
  "finished_dict run_id result =
     fold (\<lambda>(k, v). dict_set k v) result [(''success'', JBool True), (''run_id'', JStr run_id)]"

text \<open>
  \<open>pipeline\<close> takes the server to its state when the pipeline is over and the heartbeat cancelled:
  whatever the run, its renewals and every other process did in between.
\<close>

definition trigger_scraper_session_pipeline ::
  "'r redis option \<Rightarrow> bool \<Rightarrow> bool \<Rightarrow> nat \<Rightarrow> string \<Rightarrow> ('r \<Rightarrow> legbot_outcome \<times> 'r)
    \<Rightarrow> string \<Rightarrow> string \<Rightarrow> 'r \<Rightarrow> trigger_result \<times> 'r" where
  "trigger_scraper_session_pipeline c require_trigger_enabled trigger_enabled lock_ttl run_id pipeline
     jurisdiction_iso2 session_code r =
     (if require_trigger_enabled \<and> \<not> trigger_enabled then (TriggerDisabled, r)
      else case c of
        None \<Rightarrow> (RedisUnavailable, r)
      | Some R \<Rightarrow>
          (let key = lock_key jurisdiction_iso2 session_code in
           case acquire_lock R key run_id lock_ttl r of
             (None, r') \<Rightarrow> (RedisUnavailable, r')
           | (Some (False, existing), r') \<Rightarrow> (AlreadyRunning existing, r')
           | (Some (True, _), r') \<Rightarrow>
               (let (outcome, r'') = pipeline r' in
                (case outcome of
                   Completed result \<Rightarrow> Finished (finished_dict run_id result)
                 | BadInput detail \<Rightarrow> InvalidRequest detail
                 | Broken detail \<Rightarrow> PipelineError detail,
                 release_lock R key run_id r''))))"

context redis_service
begin

lemma acquire_lock_effect:
  assumes "acquire_lock R key run_id ttl r = (Some (got, existing), r')"
  shows "got \<Longrightarrow> view r key = None \<and> view r' = (view r)(key \<mapsto> (Text (RawText run_id), Some ttl))"
    and "\<not> got \<Longrightarrow> view r key \<noteq> None \<and> view r' = view r \<and>
      (\<forall>t. existing = Some t \<longrightarrow> text_at (view r) key = Some t)"
proof -
  obtain w r1 where s: "r_set R key (RawText run_id) (Some ttl) True r = (Some w, r1)"
    using assms by (auto simp: acquire_lock_def split: prod.splits option.splits)
  show "got \<Longrightarrow> view r key = None \<and> view r' = (view r)(key \<mapsto> (Text (RawText run_id), Some ttl))"
    using assms set_law[OF s] by (auto simp: acquire_lock_def s split: prod.splits option.splits if_splits)
  show "\<not> got \<Longrightarrow> view r key \<noteq> None \<and> view r' = view r \<and>
      (\<forall>t. existing = Some t \<longrightarrow> text_at (view r) key = Some t)"
    using assms set_law[OF s] get_law[of key r1]
    by (auto simp: acquire_lock_def s split: prod.splits option.splits if_splits)
qed

lemma acquire_lock_held:
  assumes "view r key \<noteq> None" "acquire_lock R key run_id ttl r = (Some (got, existing), r')"
  shows "\<not> got"
  using acquire_lock_effect(1)[OF assms(2)] assms(1) by blast

lemma release_lock_effect:
  shows "text_at (view r) key \<noteq> Some (RawText run_id) \<Longrightarrow> view (release_lock R key run_id r) = view r"
    and "view r key = Some (Text (RawText run_id), e) \<Longrightarrow>
      fst (r_get R key r) \<noteq> None \<Longrightarrow> fst (r_delete R key (snd (r_get R key r))) \<noteq> None \<Longrightarrow>
      view (release_lock R key run_id r) = (view r)(key := None)"
proof -
  obtain x r1 where g: "r_get R key r = (x, r1)" by (cases "r_get R key r")
  obtain y r2 where d: "r_delete R key r1 = (y, r2)" by (cases "r_delete R key r1")
  show "text_at (view r) key \<noteq> Some (RawText run_id) \<Longrightarrow> view (release_lock R key run_id r) = view r"
    using get_law[OF g] by (auto simp: release_lock_def g split: option.splits)
  assume "view r key = Some (Text (RawText run_id), e)" "fst (r_get R key r) \<noteq> None"
    "fst (r_delete R key (snd (r_get R key r))) \<noteq> None"
  moreover from this obtain u where "y = Some u" by (auto simp: g d)
  ultimately show "view (release_lock R key run_id r) = (view r)(key := None)"
    using get_law[OF g] delete_law[of key r1 u r2] by (auto simp: release_lock_def g d text_at_def)
qed

lemma renew_lock_effect:
  assumes "renew_lock_if_owned R key run_id ttl r = (done_it, r')"
  shows "done_it \<Longrightarrow> view r' = (view r)(key \<mapsto> (Text (RawText run_id), Some ttl))"
    and "text_at (view r) key \<noteq> Some (RawText run_id) \<Longrightarrow> \<not> done_it \<and> view r' = view r"
proof -
  obtain x r1 where g: "r_get R key r = (x, r1)" by (cases "r_get R key r")
  obtain y r2 where e: "r_expire R key ttl r1 = (y, r2)" by (cases "r_expire R key ttl r1")
  note law = get_law[OF g]
  show "view r' = (view r)(key \<mapsto> (Text (RawText run_id), Some ttl))" if done_it
  proof -
    have x: "x = Some (Some (RawText run_id))" and y: "y = Some ()" and r': "r' = r2"
      using assms that by (auto simp: renew_lock_if_owned_def g e split: option.splits if_splits)
    then have "text_at (view r) key = Some (RawText run_id)" "view r1 = view r" using law by auto
    then show ?thesis
      using expire_law[OF e[unfolded y]]
      by (auto simp: r' expiring_def text_at_def split: option.splits prod.splits rvalue.splits)
  qed
  show "\<not> done_it \<and> view r' = view r" if "text_at (view r) key \<noteq> Some (RawText run_id)"
    using assms that law by (auto simp: renew_lock_if_owned_def g split: option.splits if_splits)
qed

end

section \<open>Properties of the trigger\<close>

definition ran :: "trigger_result \<Rightarrow> bool" where
  "ran res = (case res of Finished _ \<Rightarrow> True | InvalidRequest _ \<Rightarrow> True | PipelineError _ \<Rightarrow> True | _ \<Rightarrow> False)"

definition result_of :: "string \<Rightarrow> legbot_outcome \<Rightarrow> trigger_result" where
  "result_of run_id outcome =
     (case outcome of
        Completed result \<Rightarrow> Finished (finished_dict run_id result)
      | BadInput detail \<Rightarrow> InvalidRequest detail
      | Broken detail \<Rightarrow> PipelineError detail)"

lemma trigger_cases:
  fixes r :: 'r
  assumes "trigger_scraper_session_pipeline (Some R) req enabled ttl run_id pipeline iso2 session r = (res, r')"
  obtains (disabled) "req" "\<not> enabled" "res = TriggerDisabled" "r' = r"
  | (unavailable) "req \<longrightarrow> enabled" "acquire_lock R (lock_key iso2 session) run_id ttl r = (None, r')" "res = RedisUnavailable"
  | (rejected) existing where "req \<longrightarrow> enabled"
      "acquire_lock R (lock_key iso2 session) run_id ttl r = (Some (False, existing), r')"
      "res = AlreadyRunning existing"
  | (ran) r0 existing where "acquire_lock R (lock_key iso2 session) run_id ttl r = (Some (True, existing), r0)"
      "res = result_of run_id (fst (pipeline r0))"
      "r' = release_lock R (lock_key iso2 session) run_id (snd (pipeline r0))"
proof (cases "req \<and> \<not> enabled")
  case True
  then show ?thesis using assms disabled by (simp add: trigger_scraper_session_pipeline_def)
next
  case on: False
  obtain a r0 where a: "acquire_lock R (lock_key iso2 session) run_id ttl r = (a, r0)"
    by (cases "acquire_lock R (lock_key iso2 session) run_id ttl r")
  show ?thesis
  proof (cases a)
    case None
    then show ?thesis using assms on unavailable a
      by (simp add: trigger_scraper_session_pipeline_def)
  next
    case (Some p)
    obtain got existing where p: "p = (got, existing)" by (cases p)
    obtain out r1 where o: "pipeline r0 = (out, r1)" by (cases "pipeline r0")
    show ?thesis
    proof (cases got)
      case True
      then have "res = result_of run_id out" "r' = release_lock R (lock_key iso2 session) run_id r1"
        using assms on by (simp_all add: trigger_scraper_session_pipeline_def a Some p o result_of_def if_not_P)
      with ran[of existing r0] a Some p True o show ?thesis by simp
    next
      case False
      then show ?thesis using assms on rejected[of existing] a Some p
        by (simp add: trigger_scraper_session_pipeline_def)
    qed
  qed
qed

lemma ran_result_of [simp]: "ran (result_of run_id outcome)"
  by (cases outcome) (simp_all add: ran_def result_of_def)

lemma ran_simps [simp]:
  "\<not> ran TriggerDisabled" "\<not> ran RedisUnavailable" "\<not> ran (AlreadyRunning x)"
  by (simp_all add: ran_def)

lemma trigger_overlap_safe_facts:
  assumes "redis_service R view"
    and "trigger_scraper_session_pipeline (Some R) req enabled ttl run_id pipeline iso2 session r = (res, r')"
    and "key = lock_key (upper iso2) (upper session)"
  shows "view r key \<noteq> None \<Longrightarrow> \<not> ran res \<and>
      trigger_scraper_session_pipeline (Some R) req enabled ttl run_id pipeline2 iso2 session r = (res, r')"
    and "res = AlreadyRunning existing \<Longrightarrow> view r' = view r \<and> view r key \<noteq> None \<and>
      (\<forall>t. existing = Some t \<longrightarrow> text_at (view r) key = Some t)"
    and "ran res \<Longrightarrow> view r key = None \<and> (\<exists>r0 r1.
        view r0 = (view r)(key \<mapsto> (Text (RawText run_id), Some ttl)) \<and>
        (let (outcome, r1') = pipeline r0 in r1 = r1' \<and> res = result_of run_id outcome) \<and>
        (text_at (view r1) key \<noteq> Some (RawText run_id) \<longrightarrow> view r' = view r1) \<and>
        (text_at (view r1) key = Some (RawText run_id) \<and> fst (r_get R key r1) \<noteq> None \<and>
           fst (r_delete R key (snd (r_get R key r1))) \<noteq> None \<longrightarrow> view r' = (view r1)(key := None)))"
proof -
  have key: "lock_key iso2 session = key"
    by (simp add: assms(3) lock_key_def)
  note acq = redis_service.acquire_lock_effect[OF assms(1)]
  note calls = assms(2)[unfolded key]
  show "\<not> ran res \<and>
      trigger_scraper_session_pipeline (Some R) req enabled ttl run_id pipeline2 iso2 session r = (res, r')"
    if held: "view r key \<noteq> None"
    using assms(2)
  proof (cases rule: trigger_cases)
    case (ran r0 existing)
    with held acq(1)[OF ran(1)[unfolded key]] show ?thesis by simp
  qed (simp_all add: trigger_scraper_session_pipeline_def)
  show "view r' = view r \<and> view r key \<noteq> None \<and> (\<forall>t. existing = Some t \<longrightarrow> text_at (view r) key = Some t)"
    if res: "res = AlreadyRunning existing"
    using assms(2)
  proof (cases rule: trigger_cases)
    case (rejected ex)
    with res acq(2)[OF rejected(2)[unfolded key]] show ?thesis by simp
  qed (use res in \<open>auto simp: result_of_def split: legbot_outcome.splits\<close>)
  show "view r key = None \<and> (\<exists>r0 r1.
        view r0 = (view r)(key \<mapsto> (Text (RawText run_id), Some ttl)) \<and>
        (let (outcome, r1') = pipeline r0 in r1 = r1' \<and> res = result_of run_id outcome) \<and>
        (text_at (view r1) key \<noteq> Some (RawText run_id) \<longrightarrow> view r' = view r1) \<and>
        (text_at (view r1) key = Some (RawText run_id) \<and> fst (r_get R key r1) \<noteq> None \<and>
           fst (r_delete R key (snd (r_get R key r1))) \<noteq> None \<longrightarrow> view r' = (view r1)(key := None)))"
    if ok: "ran res"
    using assms(2)
  proof (cases rule: trigger_cases)
    case (ran r0 existing)
    note rel = redis_service.release_lock_effect[OF assms(1)]
    let ?r1 = "snd (pipeline r0)"
    have held: "\<exists>e. view ?r1 key = Some (Text (RawText run_id), e)" if "text_at (view ?r1) key = Some (RawText run_id)"
      using that by (auto simp: text_at_def split: option.splits prod.splits rvalue.splits)
    from acq(1)[OF ran(1)[unfolded key]] ran(2,3) rel[of ?r1 key run_id] held show ?thesis
      unfolding key by (intro conjI exI[of _ r0] exI[of _ ?r1]) (auto simp: Let_def split_beta)
  qed (use ok in auto)
qed


definition demo_server :: memory where
  "demo_server = \<lparr>up = True, content = []\<rparr>"


section \<open>The lease as a state machine\<close>

text \<open>
  Several runs for one session share the key. A run waits until it is triggered; while it is
  running its heartbeat is asleep, or has checked that the run owns the lease and is about to renew it
  (\<open>GET\<close> and \<open>EXPIRE\<close> are two commands); after the pipeline it releases: \<open>GET\<close>, then, fenced by
  the comparison, \<open>DELETE\<close>. Run ids are distinct (\<open>uuid4\<close>), so a run is its number.
\<close>

datatype beat = Asleep | Checked

datatype phase = Waiting | Running beat | Releasing | Fenced | Over | Crashed

record lease_state =
  clock :: nat
  lease :: "(nat \<times> nat) option"
  phase :: "nat \<Rightarrow> phase"

definition lease_init :: lease_state where
  "lease_init = \<lparr>clock = 0, lease = None, phase = (\<lambda>_. Waiting)\<rparr>"

definition owner :: "lease_state \<Rightarrow> nat option" where
  "owner s = map_option fst (lease s)"

definition move :: "nat \<Rightarrow> phase \<Rightarrow> lease_state \<Rightarrow> lease_state" where
  "move i p s = s\<lparr>phase := (phase s)(i := p)\<rparr>"

text \<open>The server's clock: a lease whose time is over is dropped.\<close>

definition pass_time :: "lease_state \<Rightarrow> lease_state" where
  "pass_time s =
     s\<lparr>clock := clock s + 1,
       lease := (case lease s of None \<Rightarrow> None | Some (i, e) \<Rightarrow> if e \<le> clock s + 1 then None else Some (i, e))\<rparr>"

fun is_running :: "phase \<Rightarrow> bool" where
  "is_running (Running _) = True"
| "is_running _ = False"

text \<open>
  The timing assumption: the lease never runs out while its owner is in a phase of \<open>P\<close>. For running
  owners the heartbeat is to provide it (a renewal every 120 seconds of a lease of 600).
\<close>

definition in_time :: "(phase \<Rightarrow> bool) \<Rightarrow> lease_state \<Rightarrow> bool" where
  "in_time P s = (case lease s of None \<Rightarrow> True | Some (i, e) \<Rightarrow> P (phase s i) \<longrightarrow> clock s + 1 < e)"

inductive lease_step :: "(phase \<Rightarrow> bool) \<Rightarrow> nat \<Rightarrow> lease_state \<Rightarrow> lease_state \<Rightarrow> bool" for P ttl where
  acquire: "phase s i = Waiting \<Longrightarrow> lease s = None \<Longrightarrow>
    lease_step P ttl s (move i (Running Asleep) s\<lparr>lease := Some (i, clock s + ttl)\<rparr>)"
| reject: "phase s i = Waiting \<Longrightarrow> lease s \<noteq> None \<Longrightarrow> lease_step P ttl s (move i Over s)"
| beat_check: "phase s i = Running Asleep \<Longrightarrow>
    lease_step P ttl s (move i (Running (if owner s = Some i then Checked else Asleep)) s)"
| beat_renew: "phase s i = Running Checked \<Longrightarrow>
    lease_step P ttl s (move i (Running Asleep) s
      \<lparr>lease := map_option (\<lambda>(j, _). (j, clock s + ttl)) (lease s)\<rparr>)"
| beat_fail: "phase s i = Running b \<Longrightarrow> lease_step P ttl s (move i (Running Asleep) s)"
| finish: "phase s i = Running b \<Longrightarrow> lease_step P ttl s (move i Releasing s)"
| release_check: "phase s i = Releasing \<Longrightarrow>
    lease_step P ttl s (move i (if owner s = Some i then Fenced else Over) s)"
| release_delete: "phase s i = Fenced \<Longrightarrow> lease_step P ttl s (move i Over s\<lparr>lease := None\<rparr>)"
| release_fail: "phase s i = Releasing \<or> phase s i = Fenced \<Longrightarrow> lease_step P ttl s (move i Over s)"
| crash: "is_running (phase s i) \<or> phase s i = Releasing \<or> phase s i = Fenced \<Longrightarrow>
    lease_step P ttl s (move i Crashed s)"
| tick: "in_time P s \<Longrightarrow> lease_step P ttl s (pass_time s)"

inductive lease_reach :: "(phase \<Rightarrow> bool) \<Rightarrow> nat \<Rightarrow> lease_state \<Rightarrow> lease_state \<Rightarrow> bool" for P ttl s where
  here: "lease_reach P ttl s s"
| further: "lease_reach P ttl s t \<Longrightarrow> lease_step P ttl t u \<Longrightarrow> lease_reach P ttl s u"

inductive_cases lease_stepE: "lease_step P ttl s t"

lemma phase_move [simp]: "phase (move i p s) j = (if j = i then p else phase s j)"
  by (simp add: move_def)

lemma lease_move [simp]: "lease (move i p s) = lease s" "clock (move i p s) = clock s" "owner (move i p s) = owner s"
  by (simp_all add: move_def owner_def)

lemma pass_time_simps [simp]:
  "phase (pass_time s) = phase s" "clock (pass_time s) = Suc (clock s)"
  by (simp_all add: pass_time_def)

lemma lease_reach_trans: "lease_reach P ttl t u \<Longrightarrow> lease_reach P ttl s t \<Longrightarrow> lease_reach P ttl s u"
  by (induction rule: lease_reach.induct) (auto intro: lease_reach.intros)

text \<open>The phases in which the owner must still have the lease.\<close>

definition needs_lease :: "phase \<Rightarrow> bool" where
  "needs_lease p = (is_running p \<or> p = Fenced)"

text \<open>
  The invariant: a run that is running, or fenced before its delete, owns the lease; a lease in the
  store is of a run that was triggered, and is not past.
\<close>

definition lease_inv :: "nat \<Rightarrow> lease_state \<Rightarrow> bool" where
  "lease_inv ttl s =
     ((\<forall>i. needs_lease (phase s i) \<longrightarrow> owner s = Some i) \<and>
      (\<forall>i e. lease s = Some (i, e) \<longrightarrow> clock s < e \<and> e \<le> clock s + ttl \<and> phase s i \<noteq> Waiting))"

lemma lease_step_inv:
  assumes "lease_step needs_lease ttl s t" "lease_inv ttl s" "0 < ttl"
  shows "lease_inv ttl t"
  using assms
proof (cases rule: lease_step.cases)
  case (release_delete i)
  then have "needs_lease (phase s j) \<Longrightarrow> j = i" for j
    using assms(2) by (metis lease_inv_def needs_lease_def option.inject)
  with release_delete assms(2) show ?thesis
    by (auto simp: lease_inv_def owner_def needs_lease_def move_def)
next
  case (tick)
  then show ?thesis
    using assms(2,3)
    by (auto simp: lease_inv_def pass_time_def in_time_def owner_def needs_lease_def split: option.splits)
qed (use assms(2,3) in \<open>auto simp: lease_inv_def owner_def needs_lease_def move_def split: if_splits\<close>)

lemma lease_init_inv: "lease_inv ttl lease_init"
  by (simp add: lease_inv_def lease_init_def needs_lease_def owner_def)

lemma lease_reach_inv:
  assumes "lease_reach needs_lease ttl s t" "lease_inv ttl s" "0 < ttl"
  shows "lease_inv ttl t"
  using assms by (induction rule: lease_reach.induct) (auto intro: lease_step_inv)

text \<open>A crashed run stays crashed, and nothing moves the end of its lease.\<close>

lemma crashed_step:
  assumes "lease_step needs_lease ttl s t" "lease_inv ttl s" "phase s i = Crashed"
  shows "phase t i = Crashed" and "lease t = Some (i, e) \<Longrightarrow> lease s = Some (i, e)"
proof -
  have checked: "phase s j = Running Checked \<Longrightarrow> owner s \<noteq> Some i" for j
    using assms(2,3) by (metis is_running.simps(1) lease_inv_def needs_lease_def option.inject phase.distinct(17))
  show "phase t i = Crashed"
    using assms(1,3) by (cases rule: lease_step.cases) auto
  show "lease t = Some (i, e) \<Longrightarrow> lease s = Some (i, e)"
    using assms(1)
  proof (cases rule: lease_step.cases)
    case (acquire j)
    then show "lease t = Some (i, e) \<Longrightarrow> lease s = Some (i, e)" using assms(3) by auto
  next
    case (beat_renew j)
    then show "lease t = Some (i, e) \<Longrightarrow> lease s = Some (i, e)"
      using checked[of j] by (auto simp: owner_def split: option.splits)
  next
    case tick
    then show "lease t = Some (i, e) \<Longrightarrow> lease s = Some (i, e)"
      by (auto simp: pass_time_def split: option.splits if_splits)
  qed auto
qed

lemma crashed_reach:
  assumes "lease_reach needs_lease ttl s t" "lease_inv ttl s" "0 < ttl" "phase s i = Crashed"
  shows "phase t i = Crashed \<and> (\<forall>e. lease t = Some (i, e) \<longrightarrow> lease s = Some (i, e))"
  using assms
proof (induction rule: lease_reach.induct)
  case here
  then show ?case by simp
next
  case (further t u)
  then have "lease_inv ttl t" by (blast intro: lease_reach_inv)
  with further show ?case using crashed_step[OF further.hyps(2)] by blast
qed

section \<open>Properties of the lease\<close>

lemma lease_is_exclusive_facts:
  assumes "lease_reach needs_lease ttl lease_init s" "0 < ttl"
  shows "is_running (phase s i) \<Longrightarrow> is_running (phase s j) \<Longrightarrow> i = j"
    and "is_running (phase s i) \<Longrightarrow> owner s = Some i"
    and "is_running (phase s i) \<Longrightarrow> lease_step needs_lease ttl s t \<Longrightarrow> phase s j = Waiting \<Longrightarrow> \<not> is_running (phase t j)"
proof -
  have inv: "lease_inv ttl s"
    using lease_reach_inv[OF assms(1) lease_init_inv assms(2)] .
  show own: "owner s = Some i" if "is_running (phase s i)" for i
    using inv that by (simp add: lease_inv_def needs_lease_def)
  show "i = j" if "is_running (phase s i)" "is_running (phase s j)"
    using own[OF that(1)] own[OF that(2)] by simp
  show "\<not> is_running (phase t j)" if "is_running (phase s i)" "lease_step needs_lease ttl s t" "phase s j = Waiting"
    using that(2)
  proof (cases rule: lease_step.cases)
    case (acquire k)
    then show ?thesis using own[OF that(1)] by (simp add: owner_def)
  qed (use that(3) in \<open>auto split: if_splits\<close>)
qed

text \<open>C8: Mutual exclusion. If the lease never runs out while its owner is running its pipeline or is
  between the check and the delete of its release, then in every reachable state at most one run is
  running, that run owns the lease, and every later trigger is rejected. It holds for any interleaving
  of any number of runs, failed renewals, failed releases and crashes included.\<close>

theorem lease_is_exclusive:
  assumes "lease_reach needs_lease ttl lease_init s" "0 < ttl"
  shows "(is_running (phase s i) \<and> is_running (phase s j) \<longrightarrow> i = j) \<and>
    (is_running (phase s i) \<longrightarrow> owner s = Some i) \<and>
    (is_running (phase s i) \<and> lease_step needs_lease ttl s t \<and> phase s j = Waiting \<longrightarrow> \<not> is_running (phase t j))"
  using lease_is_exclusive_facts[OF assms] by blast

lemma lease_is_exclusive_witness:
  "owner (move 7 (Running Asleep) lease_init\<lparr>lease := Some (7, 600)\<rparr>) = Some 7"
proof -
  let ?s = "move 7 (Running Asleep) lease_init\<lparr>lease := Some (7, 600)\<rparr>"
  have "lease_step needs_lease 600 lease_init (move 7 (Running Asleep) lease_init\<lparr>lease := Some (7, clock lease_init + 600)\<rparr>)"
    by (rule lease_step.acquire) (simp_all add: lease_init_def)
  then have "lease_reach needs_lease 600 lease_init ?s"
    using lease_reach.further[OF lease_reach.here] by (simp add: lease_init_def)
  from lease_is_exclusive[OF this, of 7] show ?thesis by (simp add: move_def)
qed


lemma pass_times:
  assumes "\<And>k. k < n \<Longrightarrow> in_time P ((pass_time ^^ k) s)"
  shows "lease_reach P ttl s ((pass_time ^^ n) s)"
  using assms by (induction n) (auto intro: lease_reach.intros lease_step.tick)

lemma pass_time_lease:
  assumes "lease s = Some (i, e)" "clock s + n < e"
  shows "(pass_time ^^ n) s = s\<lparr>clock := clock s + n\<rparr>"
  using assms by (induction n) (simp_all add: pass_time_def)

lemma in_time_pass:
  assumes "lease s = Some (i, e)" "clock s + n < e" "k < n"
  shows "in_time P ((pass_time ^^ k) s)"
  using assms by (subst pass_time_lease) (auto simp: in_time_def)

lemma pass_times_lease:
  assumes "lease s = Some (i, e)" "clock s + n < e"
  shows "lease_reach P ttl s (s\<lparr>clock := clock s + n\<rparr>)"
  using pass_times[of n P s ttl] in_time_pass[OF assms] pass_time_lease[OF assms] by simp

lemma lease_further: "lease_reach P ttl s t \<Longrightarrow> lease_step P ttl t u \<Longrightarrow> u = u' \<Longrightarrow> lease_reach P ttl s u'"
  by (auto intro: lease_reach.further)

text \<open>C10: The fence of the release is not atomic. Even if every lease outlives its running pipeline, as
  the heartbeat is to guarantee, two runs of one session can be running at once: a run whose pipeline is
  over checks that it owns the lease, the lease of 600 seconds runs out before its delete, a second run
  takes the lock, the late delete removes the lock of the second run, and a third run starts.\<close>

theorem late_release_lets_two_run:
  "\<exists>s. lease_reach is_running 600 lease_init s \<and> is_running (phase s 1) \<and> is_running (phase s 2) \<and> owner s \<noteq> Some 1"
proof -
  let ?ph = "(\<lambda>_. Waiting)(0 := Fenced)"
  let ?s1 = "\<lparr>clock = 0, lease = Some (0, 600), phase = (\<lambda>_. Waiting)(0 := Running Asleep)\<rparr>"
  let ?s2 = "?s1\<lparr>clock := 599\<rparr>"
  let ?s3 = "\<lparr>clock = 599, lease = Some (0, 600), phase = ?ph\<rparr>"
  let ?s4 = "\<lparr>clock = 600, lease = None, phase = ?ph\<rparr>"
  let ?s5 = "\<lparr>clock = 600, lease = Some (1, 1200), phase = ?ph(1 := Running Asleep)\<rparr>"
  let ?s6 = "\<lparr>clock = 600, lease = None, phase = ?ph(1 := Running Asleep, 0 := Over)\<rparr>"
  let ?s7 = "\<lparr>clock = 600, lease = Some (2, 1200), phase = ?ph(1 := Running Asleep, 0 := Over, 2 := Running Asleep)\<rparr>"
  have "lease_reach is_running 600 lease_init ?s1"
    by (rule lease_further[OF lease_reach.here lease_step.acquire[where i = 0]])
      (simp_all add: lease_init_def move_def)
  moreover have "lease_reach is_running 600 ?s1 ?s2"
    using pass_times_lease[of ?s1 0 600 599 is_running 600] by simp
  ultimately have "lease_reach is_running 600 lease_init ?s2"
    by (blast intro: lease_reach_trans)
  then have "lease_reach is_running 600 lease_init (move 0 Releasing ?s2)"
    by (rule lease_further[OF _ lease_step.finish[where i = 0 and b = Asleep]]) simp_all
  then have "lease_reach is_running 600 lease_init ?s3"
    by (rule lease_further[OF _ lease_step.release_check[where i = 0]])
      (simp_all add: move_def owner_def)
  then have "lease_reach is_running 600 lease_init ?s4"
    by (rule lease_further[OF _ lease_step.tick]) (simp_all add: in_time_def pass_time_def)
  then have "lease_reach is_running 600 lease_init ?s5"
    by (rule lease_further[OF _ lease_step.acquire[where i = 1]]) (simp_all add: move_def)
  then have "lease_reach is_running 600 lease_init ?s6"
    by (rule lease_further[OF _ lease_step.release_delete[where i = 0]]) (simp_all add: move_def)
  then have "lease_reach is_running 600 lease_init ?s7"
    by (rule lease_further[OF _ lease_step.acquire[where i = 2]]) (simp_all add: move_def)
  then show ?thesis
    by (intro exI[of _ ?s7]) (simp add: owner_def)
qed


end
