(* ===== verification/PyJson.thy ===== *)
theory PyJson
  imports Prelude
begin

text \<open>
  What Python does with a value read from a JSON or YAML document: \<open>str\<close> and \<open>repr\<close>, \<open>int\<close>, hashing,
  iteration, \<open>in\<close>, subscripts, and \<open>.get\<close>, each with the exception it raises on a value of another
  shape. Mapping keys are strings.
\<close>

section \<open>The text of a value\<close>

text \<open>\<open>str\<close> of an integer.\<close>

fun nat_str :: "nat \<Rightarrow> string" where
  "nat_str n = (if n < 10 then [char_of (48 + n)] else nat_str (n div 10) @ [char_of (48 + n mod 10)])"

declare nat_str.simps [simp del]

definition int_str :: "int \<Rightarrow> string" where
  "int_str i = (if i < 0 then ''-'' @ nat_str (nat (- i)) else nat_str (nat i))"

text \<open>\<open>repr\<close> of a string: the quote is \<open>'\<close> unless only that one occurs, and what is not
  printable is escaped.\<close>

definition quote1 :: char where "quote1 = char_of (39 :: nat)"
definition quote2 :: char where "quote2 = char_of (34 :: nat)"
definition backslash :: char where "backslash = char_of (92 :: nat)"

definition hex_digit :: "nat \<Rightarrow> char" where
  "hex_digit n = (if n < 10 then char_of (48 + n) else char_of (87 + n))"

definition repr_char :: "char \<Rightarrow> char \<Rightarrow> string" where
  "repr_char q c = (let n = ord_of c in
     if c = q \<or> c = backslash then [backslash, c]
     else if n = 10 then [backslash, CHR ''n'']
     else if n = 13 then [backslash, CHR ''r'']
     else if n = 9 then [backslash, CHR ''t'']
     else if n < 32 \<or> (127 \<le> n \<and> n \<le> 160) \<or> n = 173
       then [backslash, CHR ''x'', hex_digit (n div 16), hex_digit (n mod 16)]
     else [c])"

definition repr_str :: "string \<Rightarrow> string" where
  "repr_str s = (let q = (if quote1 \<in> set s \<and> quote2 \<notin> set s then quote2 else quote1) in
     [q] @ concat (map (repr_char q) s) @ [q])"

fun commas :: "string list \<Rightarrow> string" where
  "commas [] = []"
| "commas [x] = x"
| "commas (x # y # xs) = x @ '', '' @ commas (y # xs)"

fun json_repr :: "json \<Rightarrow> string" where
  "json_repr JNull = ''None''"
| "json_repr (JBool b) = (if b then ''True'' else ''False'')"
| "json_repr (JInt i) = int_str i"
| "json_repr (JStr s) = repr_str s"
| "json_repr (JArr xs) = ''['' @ commas (map json_repr xs) @ '']''"
| "json_repr (JObj kvs) = ''{'' @ commas (map (\<lambda>(k, v). repr_str k @ '': '' @ json_repr v) kvs) @ ''}''"

definition json_str :: "json \<Rightarrow> string" where
  "json_str v = (case v of JStr s \<Rightarrow> s | _ \<Rightarrow> json_repr v)"

text \<open>\<open>int\<close> of a value: a numeral may have a sign, surrounding space, and single underscores
  between its digits.\<close>

fun digits_val :: "nat \<Rightarrow> string \<Rightarrow> nat option" where
  "digits_val acc [] = None"
| "digits_val acc [c] = (if is_digit c then Some (10 * acc + (ord_of c - 48)) else None)"
| "digits_val acc (c # d # cs) =
     (if \<not> is_digit c then None
      else if d = CHR ''_'' then digits_val (10 * acc + (ord_of c - 48)) cs
      else digits_val (10 * acc + (ord_of c - 48)) (d # cs))"

definition int_of_text :: "string \<Rightarrow> int res" where
  "int_of_text s =
     (let (neg, ds) = (case strip s of
          c # cs \<Rightarrow> if c = CHR ''-'' then (True, cs) else if c = CHR ''+'' then (False, cs) else (False, c # cs)
        | [] \<Rightarrow> (False, [])) in
      case digits_val 0 ds of
        None \<Rightarrow> Inl (ValueError ''invalid literal for int()'')
      | Some n \<Rightarrow> Inr (if neg then - int n else int n))"

definition json_int :: "json \<Rightarrow> int res" where
  "json_int v =
     (case v of
        JInt i \<Rightarrow> Inr i
      | JBool b \<Rightarrow> Inr (if b then 1 else 0)
      | JStr s \<Rightarrow> int_of_text s
      | _ \<Rightarrow> Inl TypeError)"

text \<open>Equality and hashing of values as keys: \<open>True == 1\<close>, and a list or dict has no hash.\<close>

definition json_key :: "json \<Rightarrow> json res" where
  "json_key v =
     (case v of
        JBool b \<Rightarrow> Inr (JInt (if b then 1 else 0))
      | JArr _ \<Rightarrow> Inl TypeError
      | JObj _ \<Rightarrow> Inl TypeError
      | _ \<Rightarrow> Inr v)"

fun map_res :: "('a \<Rightarrow> 'b res) \<Rightarrow> 'a list \<Rightarrow> 'b list res" where
  "map_res f [] = Inr []"
| "map_res f (x # xs) = bind_res (f x) (\<lambda>y. bind_res (map_res f xs) (\<lambda>ys. Inr (y # ys)))"

section \<open>Reading a document\<close>

text \<open>\<open>d.get(k)\<close> of a dict: \<open>JNull\<close> when the key is missing.\<close>

definition dict_get :: "(string \<times> json) list \<Rightarrow> string \<Rightarrow> json" where
  "dict_get d k = (case map_of d k of None \<Rightarrow> JNull | Some v \<Rightarrow> v)"

text \<open>Iterating over a value: a dict gives its keys, a string its characters.\<close>

definition json_iter :: "json \<Rightarrow> json list res" where
  "json_iter v =
     (case v of
        JArr xs \<Rightarrow> Inr xs
      | JObj kvs \<Rightarrow> Inr (map (JStr \<circ> fst) kvs)
      | JStr s \<Rightarrow> Inr (map (\<lambda>c. JStr [c]) s)
      | _ \<Rightarrow> Inl TypeError)"

text \<open>\<open>v.get(k, dflt)\<close> of any value, and \<open>v or {}\<close>.\<close>

definition attr_get :: "json \<Rightarrow> string \<Rightarrow> json \<Rightarrow> json res" where
  "attr_get v k dflt =
     (case v of
        JObj d \<Rightarrow> Inr (case map_of d k of None \<Rightarrow> dflt | Some x \<Rightarrow> x)
      | _ \<Rightarrow> Inl (OtherError ''AttributeError''))"

definition or_empty :: "json \<Rightarrow> json" where
  "or_empty v = (if truthy v then v else JObj [])"

text \<open>\<open>v or None\<close>.\<close>

definition or_null :: "json \<Rightarrow> json" where
  "or_null v = (if truthy v then v else JNull)"

text \<open>\<open>v[k]\<close> with a string key.\<close>

definition subscript :: "json \<Rightarrow> string \<Rightarrow> json res" where
  "subscript v k =
     (case v of
        JObj d \<Rightarrow> (case map_of d k of None \<Rightarrow> Inl (KeyError k) | Some x \<Rightarrow> Inr x)
      | _ \<Rightarrow> Inl TypeError)"

text \<open>\<open>s in v\<close> for a string \<open>s\<close>: an element of a list, a key of a dict, a part of a string.\<close>

definition str_in :: "string \<Rightarrow> json \<Rightarrow> bool res" where
  "str_in s v =
     (case v of
        JArr xs \<Rightarrow> Inr (JStr s \<in> set xs)
      | JObj d \<Rightarrow> Inr (s \<in> fst ` set d)
      | JStr t \<Rightarrow> Inr (contains s t)
      | _ \<Rightarrow> Inl TypeError)"

text \<open>\<open>int(v)\<close> for a value of a document, \<open>TypeError\<close> and \<open>ValueError\<close> caught.\<close>

definition int_or :: "int \<Rightarrow> json \<Rightarrow> int" where
  "int_or d v = (case json_int v of Inl _ \<Rightarrow> d | Inr i \<Rightarrow> i)"

text \<open>\<open>os.path.join(a, b)\<close> of a relative \<open>b\<close>.\<close>

definition path_join :: "string \<Rightarrow> string \<Rightarrow> string" where
  "path_join a b = (if a = [] \<or> last a = CHR ''/'' then a @ b else a @ ''/'' @ b)"

text \<open>\<open>s.split()\<close>, the word read so far reversed.\<close>

fun split_words :: "string \<Rightarrow> string \<Rightarrow> string list" where
  "split_words [] acc = (if acc = [] then [] else [rev acc])"
| "split_words (c # cs) acc =
     (if is_space c then (if acc = [] then split_words cs [] else rev acc # split_words cs [])
      else split_words cs (c # acc))"

text \<open>\<open>str.splitlines\<close>: what ends a line, and the lines.\<close>

definition ends_line :: "char \<Rightarrow> bool" where
  "ends_line c = (let n = ord_of c in (10 \<le> n \<and> n \<le> 13) \<or> (28 \<le> n \<and> n \<le> 30) \<or> n = 133)"

fun split_lines :: "string \<Rightarrow> string \<Rightarrow> string list" where
  "split_lines [] acc = (if acc = [] then [] else [rev acc])"
| "split_lines (c # cs) acc =
     (if ends_line c
      then rev acc # (if ord_of c = 13 \<and> cs \<noteq> [] \<and> ord_of (hd cs) = 10 then split_lines (tl cs) [] else split_lines cs [])
      else split_lines cs (c # acc))"

text \<open>\<open>json.dumps(v)\<close>: non-ASCII characters are escaped, a repeated key stays as it is in the list.\<close>

definition json_char :: "char \<Rightarrow> string" where
  "json_char c =
     (let n = ord_of c in
      if c = quote2 \<or> c = backslash then [backslash, c]
      else if n = 10 then [backslash, CHR ''n''] else if n = 13 then [backslash, CHR ''r'']
      else if n = 9 then [backslash, CHR ''t''] else if n = 8 then [backslash, CHR ''b'']
      else if n = 12 then [backslash, CHR ''f'']
      else if n < 32 \<or> 126 < n
      then [backslash, CHR ''u'', CHR ''0'', CHR ''0'', hex_digit (n div 16), hex_digit (n mod 16)]
      else [c])"

definition json_quoted :: "string \<Rightarrow> string" where
  "json_quoted s = [quote2] @ concat (map json_char s) @ [quote2]"

fun json_dumps :: "json \<Rightarrow> string" where
  "json_dumps JNull = ''null''"
| "json_dumps (JBool b) = (if b then ''true'' else ''false'')"
| "json_dumps (JInt i) = int_str i"
| "json_dumps (JStr s) = json_quoted s"
| "json_dumps (JArr xs) = ''['' @ commas (map json_dumps xs) @ '']''"
| "json_dumps (JObj kvs) = ''{'' @ commas (map (\<lambda>(k, v). json_quoted k @ '': '' @ json_dumps v) kvs) @ ''}''"

text \<open>The long dash, by the bytes of its encoding.\<close>

definition em_dash :: string where "em_dash = map char_of [226::nat, 128, 148]"

text \<open>\<open>str(e)\<close> of an exception; where the text is not the program's own only the name is kept.\<close>

definition exception_text :: "py_error \<Rightarrow> string" where
  "exception_text e = (case e of
      ValueError s \<Rightarrow> s | KeyError k \<Rightarrow> repr_str k | TypeError \<Rightarrow> ''TypeError'' | OverflowError \<Rightarrow> ''OverflowError''
    | ZeroDivisionError \<Rightarrow> ''ZeroDivisionError'' | OtherError s \<Rightarrow> s)"

text \<open>\<open>v or ""\<close>, of which a method of \<open>str\<close> is called.\<close>

definition text_or_empty :: "json \<Rightarrow> string res" where
  "text_or_empty v = (if \<not> truthy v then Inr [] else case v of JStr s \<Rightarrow> Inr s | _ \<Rightarrow> Inl (OtherError ''AttributeError''))"

lemma attr_get_JObj [simp]:
  "attr_get (JObj d) k dflt = Inr (case map_of d k of None \<Rightarrow> dflt | Some x \<Rightarrow> x)"
  by (simp add: attr_get_def)

lemma subscript_JObj [simp]:
  "subscript (JObj d) k = (case map_of d k of None \<Rightarrow> Inl (KeyError k) | Some x \<Rightarrow> Inr x)"
  by (simp add: subscript_def)

lemma str_in_JArr [simp]: "str_in s (JArr xs) = Inr (JStr s \<in> set xs)"
  by (simp add: str_in_def)

lemma json_iter_JArr [simp]: "json_iter (JArr xs) = Inr xs"
  by (simp add: json_iter_def)

lemma map_res_Inr_length: "map_res f xs = Inr ys \<Longrightarrow> length ys = length xs"
  by (induction xs arbitrary: ys) (auto simp: bind_res_Inr_iff)

end
