(* ===== verification/OrgGates.thy ===== *)
theory OrgGates
  imports PyJson
begin

text \<open>
  The two release gates of organization resolution (\<open>pipelines/org_resolution_gates.py\<close>). The
  fixture is the parsed JSON file, so its malformed shapes are values here and the checks that refuse
  them are modelled; a value read from it stays a \<open>json\<close> (\<open>JNull\<close> is \<open>None\<close>). The share
  \<open>min_recall\<close> is a fraction \<open>(p, q)\<close> and recall is compared with it by cross
  multiplication (the code divides floats; for fewer than 2^49 positives the two comparisons agree).
  The messages of the exceptions are shortened. \<open>render\<close> and \<open>to_dict\<close> are not modelled.
\<close>

section \<open>A scored case\<close>

definition POSITIVE :: string where "POSITIVE = ''positive''"
definition NEGATIVE :: string where "NEGATIVE = ''negative''"
definition EXACT :: string where "EXACT = ''exact''"
definition UNMAPPED :: string where "UNMAPPED = ''unmapped:''"
definition MIN_RECALL :: "nat \<times> nat" where "MIN_RECALL = (4, 5)"
definition MIN_ELIGIBLE :: nat where "MIN_ELIGIBLE = 200"
definition MIN_NON_NULL :: nat where "MIN_NON_NULL = 30"

record case_result =
  case_id :: json
  kind :: json
  expected_org_id :: json
  answered_org_id :: "int option"
  tier :: string
  held_out :: bool
  expected_group_id :: json
  answered_group_id :: json
  answered_is_stub :: bool

text \<open>The constructor with its \<open>__post_init__\<close>.\<close>

definition case_result_new :: "case_result \<Rightarrow> case_result res" where
  "case_result_new r =
     (if kind r \<notin> {JStr POSITIVE, JStr NEGATIVE, JStr EXACT} then Inl (ValueError ''unknown kind'')
      else if (kind r = JStr NEGATIVE) \<noteq> (expected_org_id r = JNull)
        then Inl (ValueError ''a negative has no expected organization, the others need one'')
      else if (kind r = JStr NEGATIVE) \<noteq> (expected_group_id r = JNull)
        then Inl (ValueError ''a negative has no expected group, the others need one'')
      else if (answered_org_id r = None) \<noteq> (answered_group_id r = JNull)
        then Inl (ValueError ''an answer needs its group (and a null answer has none)'')
      else Inr r)"

definition is_wrong :: "case_result \<Rightarrow> bool" where
  "is_wrong r = (answered_org_id r \<noteq> None \<and>
     (expected_group_id r = JNull \<or> answered_group_id r \<noteq> expected_group_id r))"

definition is_correct :: "case_result \<Rightarrow> bool" where
  "is_correct r = (answered_org_id r \<noteq> None \<and> \<not> is_wrong r)"

definition is_correct_positive :: "case_result \<Rightarrow> bool" where
  "is_correct_positive r = (kind r = JStr POSITIVE \<and> is_correct r)"

definition is_other_record :: "case_result \<Rightarrow> bool" where
  "is_other_record r = (is_correct r \<and>
     map_option (\<lambda>a. Inr (JInt a)) (answered_org_id r) \<noteq> Some (json_key (expected_org_id r)))"

section \<open>The fixture\<close>

record groups =
  org_groups :: "(string \<times> json) list"
  organizations :: int
  verdicts_source :: json
  seed_sha256 :: json
  stub_org_ids :: "json list option"

definition bad_group :: "json \<Rightarrow> bool" where
  "bad_group v = (case v of JStr s \<Rightarrow> s = [] \<or> starts_with UNMAPPED s | _ \<Rightarrow> True)"

text \<open>One turn of the loop over the cases; \<open>seen\<close> are the ids so far.\<close>

definition check_case :: "(string \<times> json) list \<Rightarrow> json list \<Rightarrow> json \<Rightarrow> json list res" where
  "check_case gs seen c =
     (case c of
        JObj d \<Rightarrow>
          (case map_of d ''case_id'' of
             None \<Rightarrow> Inl (KeyError ''case_id'')
           | Some cid \<Rightarrow>
               bind_res (json_key cid) (\<lambda>k.
                 let org_id = dict_get d ''expected_org_id''; grp = dict_get d ''expected_group_id'' in
                 if k \<in> set seen then Inl (ValueError ''case appears twice'')
                 else if org_id = JNull
                   then (if grp \<noteq> JNull then Inl (ValueError ''case expects no organization but names a group'')
                         else Inr (seen @ [k]))
                 else if map_of gs (json_str org_id) \<noteq> Some grp \<or> grp = JNull
                   then Inl (ValueError ''org_groups puts that organization in another group'')
                 else Inr (seen @ [k])))
      | _ \<Rightarrow> Inl TypeError)"

fun check_cases :: "(string \<times> json) list \<Rightarrow> json list \<Rightarrow> json list \<Rightarrow> unit res" where
  "check_cases gs seen [] = Inr ()"
| "check_cases gs seen (c # cs) =
     bind_res (check_case gs seen c) (\<lambda>seen. check_cases gs seen cs)"

definition check_fixture :: "(string \<times> json) list \<Rightarrow> (string \<times> json) list \<Rightarrow> unit res" where
  "check_fixture loaded gs =
     (if filter (\<lambda>(_, v). bad_group v) gs \<noteq> []
        then Inl (ValueError ''org_groups has an empty, non-text or reserved group'')
      else bind_res (json_iter (case map_of loaded ''cases'' of None \<Rightarrow> JArr [] | Some v \<Rightarrow> v))
        (check_cases gs []))"

definition from_loaded :: "(string \<times> json) list \<Rightarrow> groups res" where
  "from_loaded loaded =
     (case (dict_get loaded ''seed_version'', dict_get loaded ''org_groups'') of
        (JInt i, JObj gs) \<Rightarrow>
          if i \<noteq> 2 then Inl (ValueError ''this loaded.json has no org_groups'')
          else bind_res (check_fixture loaded gs) (\<lambda>_.
            bind_res (json_int (case map_of loaded ''organizations'' of None \<Rightarrow> JInt 0 | Some v \<Rightarrow> v)) (\<lambda>n.
            bind_res (case dict_get loaded ''stub_org_ids'' of
                JNull \<Rightarrow> Inr None
              | v \<Rightarrow> bind_res (json_iter v) (\<lambda>xs. bind_res (map_res json_key xs) (\<lambda>ks. Inr (Some ks)))) (\<lambda>stubs.
            Inr \<lparr>org_groups = gs, organizations = n,
                 verdicts_source =
                   (if truthy (dict_get loaded ''verdicts_source'') then dict_get loaded ''verdicts_source''
                    else JStr ''provisional''),
                 seed_sha256 = (case map_of loaded ''seed_sha256'' of None \<Rightarrow> JStr [] | Some v \<Rightarrow> v),
                 stub_org_ids = stubs\<rparr>)))
      | _ \<Rightarrow> Inl (ValueError ''this loaded.json has no org_groups''))"

definition is_stub :: "groups \<Rightarrow> int \<Rightarrow> bool" where
  "is_stub G org_id = (case stub_org_ids G of Some ks \<Rightarrow> JInt org_id \<in> set ks | None \<Rightarrow> organizations G < org_id)"

definition group_of :: "groups \<Rightarrow> int \<Rightarrow> json" where
  "group_of G org_id =
     (case map_of (org_groups G) (int_str org_id) of None \<Rightarrow> JStr (UNMAPPED @ int_str org_id) | Some g \<Rightarrow> g)"

definition group_result :: "groups \<Rightarrow> (string \<times> json) list \<Rightarrow> int option \<Rightarrow> string \<Rightarrow> case_result res" where
  "group_result G c answered t =
     (case (map_of c ''case_id'', map_of c ''kind'', map_of c ''expected_org_id'') of
        (None, _, _) \<Rightarrow> Inl (KeyError ''case_id'')
      | (_, None, _) \<Rightarrow> Inl (KeyError ''kind'')
      | (_, _, None) \<Rightarrow> Inl (KeyError ''expected_org_id'')
      | (Some i, Some k, Some e) \<Rightarrow>
          case_result_new \<lparr>case_id = i, kind = k, expected_org_id = e, answered_org_id = answered, tier = t,
            held_out = truthy (dict_get c ''held_out''),
            expected_group_id = dict_get c ''expected_group_id'',
            answered_group_id = (case answered of None \<Rightarrow> JNull | Some a \<Rightarrow> group_of G a),
            answered_is_stub = (case answered of None \<Rightarrow> False | Some a \<Rightarrow> is_stub G a)\<rparr>)"

definition meta :: "groups \<Rightarrow> (string \<times> json) list" where
  "meta G = [(''seed_sha256'', seed_sha256 G), (''seed_version'', JInt 2),
     (''verdicts_source'', verdicts_source G), (''scoring_version'', JStr ''2'')]"

section \<open>The offline gate\<close>

type_synonym counter = "(string \<times> nat) list"

definition count_up :: "string \<Rightarrow> counter \<Rightarrow> counter" where
  "count_up k c = dict_set k (case map_of c k of None \<Rightarrow> 1 | Some n \<Rightarrow> n + 1) c"

definition tier_step :: "case_result \<Rightarrow> (string \<times> counter) list \<Rightarrow> (string \<times> counter) list" where
  "tier_step r by_tier =
     (let c = count_up ''cases'' (case map_of by_tier (tier r) of None \<Rightarrow> [] | Some c \<Rightarrow> c);
          c = (if is_wrong r then count_up ''wrong'' c
               else if answered_org_id r \<noteq> None then count_up ''correct'' c else c) in
      dict_set (tier r) c by_tier)"

record offline_report =
  scored_pass :: bool
  wrong_matches :: "case_result list"
  positives :: nat
  positives_correct :: nat
  by_tier :: "(string \<times> counter) list"
  exact_cases :: nat
  exact_correct :: nat
  other_record_picks :: nat
  other_record_stub_picks :: nat
  report_meta :: "(string \<times> json) list"

definition evaluate_offline_gate ::
  "case_result list \<Rightarrow> nat \<times> nat \<Rightarrow> (string \<times> json) list \<Rightarrow> offline_report" where
  "evaluate_offline_gate results min_recall m =
     (let pos = filter (\<lambda>r. kind r = JStr POSITIVE) results;
          exact = filter (\<lambda>r. kind r = JStr EXACT) results;
          wrong = filter is_wrong results;
          correct = length (filter is_correct_positive pos);
          other = filter is_other_record results in
      \<lparr>scored_pass = (pos \<noteq> [] \<and> wrong = [] \<and> fst min_recall * length pos \<le> snd min_recall * correct),
       wrong_matches = wrong,
       positives = length pos,
       positives_correct = correct,
       by_tier = fold tier_step results [],
       exact_cases = length exact,
       exact_correct = length (filter is_correct exact),
       other_record_picks = length other,
       other_record_stub_picks = length (filter answered_is_stub other),
       report_meta = m\<rparr>)"

definition provisional :: "offline_report \<Rightarrow> bool" where
  "provisional rep = (report_meta rep \<noteq> [] \<and> dict_get (report_meta rep) ''verdicts_source'' \<noteq> JStr ''reviewed'')"

definition passed :: "offline_report \<Rightarrow> bool" where
  "passed rep = (scored_pass rep \<and> \<not> provisional rep)"

section \<open>The shadow gate\<close>

record attempt =
  attempt_id :: int
  choice :: "int option"
  input_name :: string
  eligible :: bool

record shadow_report =
  sh_passed :: bool
  sh_eligible :: nat
  sh_non_null :: nat
  awaiting_review :: "attempt list"
  sh_wrong :: "attempt list"
  non_null_attempts :: "attempt list"

definition evaluate_shadow_gate ::
  "attempt list \<Rightarrow> (int \<rightharpoonup> string) \<Rightarrow> nat \<Rightarrow> nat \<Rightarrow> shadow_report res" where
  "evaluate_shadow_gate attempts reviews min_eligible min_non_null =
     (if \<not> distinct (map attempt_id attempts)
      then Inl (ValueError ''duplicate attempt ids: one review could cover several suggestions'')
      else
        let elig = filter eligible attempts;
            non_null = filter (\<lambda>a. choice a \<noteq> None) elig;
            awaiting = filter (\<lambda>a. reviews (attempt_id a) \<notin> {Some ''right'', Some ''wrong''}) non_null;
            wrong = filter (\<lambda>a. reviews (attempt_id a) = Some ''wrong'') non_null in
        Inr \<lparr>sh_passed = (min_eligible \<le> length elig \<and> min_non_null \<le> length non_null \<and> awaiting = [] \<and> wrong = []),
             sh_eligible = length elig,
             sh_non_null = length non_null,
             awaiting_review = awaiting,
             sh_wrong = wrong,
             non_null_attempts = non_null\<rparr>)"

section \<open>Facts about the fixture\<close>

lemma check_cases_all:
  assumes "check_cases gs seen cs = Inr ()" "c \<in> set cs"
  shows "\<exists>seen seen'. check_case gs seen c = Inr seen'"
  using assms by (induction gs seen cs rule: check_cases.induct) (auto simp: bind_res_Inr_iff)

lemma check_case_group:
  assumes "check_case gs seen (JObj c) = Inr seen'"
  shows "if dict_get c ''expected_org_id'' = JNull then dict_get c ''expected_group_id'' = JNull
    else map_of gs (json_str (dict_get c ''expected_org_id'')) = Some (dict_get c ''expected_group_id'')
      \<and> dict_get c ''expected_group_id'' \<noteq> JNull"
  using assms
  by (auto simp: check_case_def bind_res_Inr_iff Let_def split: option.splits if_splits)

lemma check_fixture_groups:
  assumes "check_fixture loaded gs = Inr ()" "map_of gs k = Some g"
  shows "\<exists>s. g = JStr s \<and> s \<noteq> [] \<and> \<not> starts_with UNMAPPED s"
proof -
  have "\<not> bad_group g"
    using assms(1) map_of_SomeD[OF assms(2)]
    by (auto simp: check_fixture_def filter_empty_conv split: if_splits)
  then show ?thesis by (auto simp: bad_group_def split: json.splits)
qed

lemma from_loaded_checked:
  assumes "from_loaded loaded = Inr G"
  shows "check_fixture loaded (org_groups G) = Inr ()"
  using assms by (auto simp: from_loaded_def bind_res_Inr_iff split: json.splits if_splits)

lemma group_of_cases:
  assumes "check_fixture loaded (org_groups G) = Inr ()" "map_of (org_groups G) k = Some g"
  shows "group_of G a = g \<longleftrightarrow> map_of (org_groups G) (int_str a) = Some g"
  using check_fixture_groups[OF assms] by (auto simp: group_of_def split: option.splits)

lemma group_result_fields:
  assumes "group_result G c answered t = Inr r"
  shows "expected_org_id r = dict_get c ''expected_org_id'' \<and>
    expected_group_id r = dict_get c ''expected_group_id'' \<and> answered_org_id r = answered \<and>
    answered_group_id r = (case answered of None \<Rightarrow> JNull | Some a \<Rightarrow> group_of G a)"
  using assms by (auto simp: group_result_def case_result_new_def dict_get_def split: option.splits if_splits)

definition count_of :: "string \<Rightarrow> counter option \<Rightarrow> nat" where
  "count_of k c = (case c of None \<Rightarrow> 0 | Some d \<Rightarrow> (case map_of d k of None \<Rightarrow> 0 | Some n \<Rightarrow> n))"

lemma count_of_up: "count_of k (Some (count_up j c)) = count_of k (Some c) + (if k = j then 1 else 0)"
  by (simp add: count_of_def count_up_def split: option.splits)

lemma count_of_step:
  "count_of k (map_of (tier_step r ts) t) = count_of k (map_of ts t) +
     (if t = tier r \<and> (k = ''cases'' \<or> k = ''wrong'' \<and> is_wrong r \<or> k = ''correct'' \<and> is_correct r) then 1 else 0)"
proof -
  have start: "count_of k (Some (case map_of ts (tier r) of None \<Rightarrow> [] | Some c \<Rightarrow> c)) = count_of k (map_of ts (tier r))"
    by (simp add: count_of_def split: option.splits)
  show ?thesis
    using start by (auto simp: tier_step_def Let_def count_of_up is_correct_def)
qed

lemma count_of_tiers:
  "count_of k (map_of (fold tier_step rs ts) t) = count_of k (map_of ts t) +
     length (filter (\<lambda>r. t = tier r \<and> (k = ''cases'' \<or> k = ''wrong'' \<and> is_wrong r \<or> k = ''correct'' \<and> is_correct r)) rs)"
  by (induction rs arbitrary: ts) (simp_all add: count_of_step)

section \<open>Properties\<close>

text \<open>Scoring compares organizations. For a case of a fixture that \<open>from_loaded\<close> accepted, a
  non-null answer scores as correct exactly when the fixture knows the answered record and puts it in the
  same group as the expected organization's record, and as wrong otherwise. So an answer the fixture does not
  know is wrong whatever the group labels are, and on a negative case every answer is wrong.\<close>

lemma answers_scored_by_group:
  assumes "from_loaded loaded = Inr G"
    and "dict_get loaded ''cases'' = JArr cs" "JObj c \<in> set cs"
    and "group_result G c (Some a) t = Inr r"
  shows "(is_correct r \<longleftrightarrow> dict_get c ''expected_org_id'' \<noteq> JNull \<and>
      (\<exists>g. map_of (org_groups G) (int_str a) = Some g \<and>
           map_of (org_groups G) (json_str (dict_get c ''expected_org_id'')) = Some g)) \<and>
    (is_wrong r \<longleftrightarrow> \<not> is_correct r)"
proof -
  have fixture: "check_fixture loaded (org_groups G) = Inr ()"
    by (rule from_loaded_checked[OF assms(1)])
  have "map_of loaded ''cases'' = Some (JArr cs)"
    using assms(2) by (auto simp: dict_get_def split: option.splits)
  then have "check_cases (org_groups G) [] cs = Inr ()"
    using fixture by (simp add: check_fixture_def json_iter_def split: if_splits)
  from check_cases_all[OF this assms(3)] obtain seen seen' where
    "check_case (org_groups G) seen (JObj c) = Inr seen'" by blast
  note grp = check_case_group[OF this]
  note fields = group_result_fields[OF assms(4)]
  have wrong: "is_wrong r \<longleftrightarrow> \<not> is_correct r"
    using fields by (auto simp: is_correct_def)
  show ?thesis
  proof (cases "dict_get c ''expected_org_id'' = JNull")
    case True
    with grp fields show ?thesis by (auto simp: is_correct_def is_wrong_def)
  next
    case False
    with grp have known: "map_of (org_groups G) (json_str (dict_get c ''expected_org_id'')) =
        Some (dict_get c ''expected_group_id'')" "dict_get c ''expected_group_id'' \<noteq> JNull"
      by simp_all
    with fields have "is_correct r \<longleftrightarrow> group_of G a = dict_get c ''expected_group_id''"
      by (auto simp: is_correct_def is_wrong_def)
    with group_of_cases[OF fixture known(1)] known False wrong show ?thesis by auto
  qed
qed

definition demo_case :: "(string \<times> json) list" where
  "demo_case = [(''case_id'', JStr ''c1''), (''kind'', JStr ''positive''), (''expected_org_id'', JInt 1),
     (''expected_group_id'', JStr ''g1'')]"

definition demo_loaded :: "(string \<times> json) list" where
  "demo_loaded = [(''seed_version'', JInt 2), (''org_groups'', JObj [(''1'', JStr ''g1''), (''2'', JStr ''g1'')]),
     (''cases'', JArr [JObj demo_case])]"

definition demo_groups :: groups where
  "demo_groups = \<lparr>org_groups = [(''1'', JStr ''g1''), (''2'', JStr ''g1'')], organizations = 0,
     verdicts_source = JStr ''provisional'', seed_sha256 = JStr [], stub_org_ids = None\<rparr>"

lemma answers_scored_by_group_witness:
  "map_sum id (\<lambda>r. (is_correct r, is_other_record r)) (group_result demo_groups demo_case (Some 2) ''model'') = Inr (True, True)"
proof -
  have strs: "int_str 1 = ''1''" "int_str 2 = ''2''"
    by code_simp+
  have loaded: "from_loaded demo_loaded = Inr demo_groups"
    by (simp add: from_loaded_def demo_loaded_def demo_groups_def dict_get_def check_fixture_def bad_group_def
        UNMAPPED_def json_iter_def check_case_def demo_case_def json_key_def json_str_def json_int_def strs Let_def)
  define r where "r = \<lparr>case_id = JStr ''c1'', kind = JStr ''positive'', expected_org_id = JInt 1, answered_org_id = Some 2,
     tier = ''model'', held_out = False, expected_group_id = JStr ''g1'', answered_group_id = JStr ''g1'',
     answered_is_stub = True\<rparr>"
  have result: "group_result demo_groups demo_case (Some 2) ''model'' = Inr r"
    by (simp add: group_result_def demo_groups_def demo_case_def dict_get_def case_result_new_def group_of_def
        strs POSITIVE_def NEGATIVE_def EXACT_def is_stub_def r_def)
  have "is_correct r"
    using answers_scored_by_group[OF loaded _ _ result, of "[JObj demo_case]"]
    by (simp add: demo_loaded_def dict_get_def demo_groups_def demo_case_def json_str_def strs)
  moreover have "is_other_record r \<longleftrightarrow> is_correct r"
    by (simp add: is_other_record_def r_def json_key_def)
  ultimately show ?thesis by (simp add: result)
qed

text \<open>The offline gate. It passes exactly when there is a positive case, no case at all is answered
  wrongly, the share of positives answered correctly reaches the threshold, and the fixture's verdicts are
  reviewed (when its identity is given); so with a positive threshold it cannot be passed by never
  answering. For every tier the report counts its cases, its wrong and its correct answers, and
  what remains are null answers.\<close>

lemma offline_gate_exact:
  assumes "rep = evaluate_offline_gate results (p, q) m"
  shows "(passed rep \<longleftrightarrow>
      (\<exists>r \<in> set results. kind r = JStr POSITIVE) \<and> (\<forall>r \<in> set results. \<not> is_wrong r) \<and>
      p * length (filter (\<lambda>r. kind r = JStr POSITIVE) results) \<le> q * length (filter is_correct_positive results) \<and>
      (m = [] \<or> dict_get m ''verdicts_source'' = JStr ''reviewed'')) \<and>
    (passed rep \<and> 0 < p \<longrightarrow> (\<exists>r \<in> set results. is_correct_positive r)) \<and>
    (\<forall>t. count_of ''cases'' (map_of (by_tier rep) t) = length (filter (\<lambda>r. tier r = t) results) \<and>
      count_of ''wrong'' (map_of (by_tier rep) t) = length (filter (\<lambda>r. tier r = t \<and> is_wrong r) results) \<and>
      count_of ''correct'' (map_of (by_tier rep) t) = length (filter (\<lambda>r. tier r = t \<and> is_correct r) results) \<and>
      count_of ''cases'' (map_of (by_tier rep) t) = count_of ''wrong'' (map_of (by_tier rep) t) +
        count_of ''correct'' (map_of (by_tier rep) t) + length (filter (\<lambda>r. tier r = t \<and> answered_org_id r = None) results))"
proof -
  have correct: "filter is_correct_positive (filter (\<lambda>r. kind r = JStr POSITIVE) results) = filter is_correct_positive results"
    by (auto simp: is_correct_positive_def conj_commute intro!: filter_cong)
  have pass: "passed rep \<longleftrightarrow>
      (\<exists>r \<in> set results. kind r = JStr POSITIVE) \<and> (\<forall>r \<in> set results. \<not> is_wrong r) \<and>
      p * length (filter (\<lambda>r. kind r = JStr POSITIVE) results) \<le> q * length (filter is_correct_positive results) \<and>
      (m = [] \<or> dict_get m ''verdicts_source'' = JStr ''reviewed'')"
    unfolding assms passed_def provisional_def evaluate_offline_gate_def Let_def correct
    by (auto simp: filter_empty_conv correct)
  have nulls: "passed rep \<and> 0 < p \<longrightarrow> (\<exists>r \<in> set results. is_correct_positive r)"
  proof (intro impI, rule ccontr)
    assume a: "passed rep \<and> 0 < p" "\<not> (\<exists>r \<in> set results. is_correct_positive r)"
    then have "filter is_correct_positive results = []" by (simp add: filter_empty_conv)
    moreover have "p * length (filter (\<lambda>r. kind r = JStr POSITIVE) results) \<le> q * length (filter is_correct_positive results)"
      "\<exists>r \<in> set results. kind r = JStr POSITIVE"
      using a pass by blast+
    ultimately show False using a by (auto simp: filter_empty_conv)
  qed
  have tiers: "by_tier rep = fold tier_step results []"
    by (simp add: assms evaluate_offline_gate_def Let_def)
  have counts: "count_of ''cases'' (map_of (by_tier rep) t) = length (filter (\<lambda>r. tier r = t) results)"
    "count_of ''wrong'' (map_of (by_tier rep) t) = length (filter (\<lambda>r. tier r = t \<and> is_wrong r) results)"
    "count_of ''correct'' (map_of (by_tier rep) t) = length (filter (\<lambda>r. tier r = t \<and> is_correct r) results)" for t
    unfolding tiers count_of_tiers by (simp_all add: count_of_def eq_commute[of t])
  have sum: "length (filter (\<lambda>r. tier r = t) rs) = length (filter (\<lambda>r. tier r = t \<and> is_wrong r) rs) +
      length (filter (\<lambda>r. tier r = t \<and> is_correct r) rs) + length (filter (\<lambda>r. tier r = t \<and> answered_org_id r = None) rs)"
    for t and rs :: "case_result list"
    by (induction rs) (auto simp: is_correct_def is_wrong_def)
  show ?thesis
    using pass nulls sum by (simp only: counts) blast
qed

lemma offline_gate_exact_witness:
  "passed (evaluate_offline_gate [\<lparr>case_id = JStr ''c1'', kind = JStr POSITIVE, expected_org_id = JInt 1, answered_org_id = Some 2,
     tier = ''model'', held_out = False, expected_group_id = JStr ''g1'', answered_group_id = JStr ''g1'',
     answered_is_stub = True\<rparr>] MIN_RECALL [])"
  using offline_gate_exact[OF refl, of "[\<lparr>case_id = JStr ''c1'', kind = JStr POSITIVE, expected_org_id = JInt 1, answered_org_id = Some 2,
     tier = ''model'', held_out = False, expected_group_id = JStr ''g1'', answered_group_id = JStr ''g1'',
     answered_is_stub = True\<rparr>]" 4 5 "[]"]
  by (simp add: is_wrong_def is_correct_positive_def is_correct_def MIN_RECALL_def)

text \<open>The shadow gate. When it passes, at least \<open>min_non_null\<close> different attempts are eligible,
  suggested an organization and were each reviewed right, no other eligible suggestion exists, and there
  were \<open>min_eligible\<close> eligible attempts; it passes whenever these hold. It raises exactly when
  attempt ids repeat, since one review could then cover several suggestions.\<close>

lemma shadow_gate_exact:
  shows "case evaluate_shadow_gate attempts reviews min_eligible min_non_null of
      Inl e \<Rightarrow> \<not> distinct (map attempt_id attempts)
    | Inr rep \<Rightarrow> distinct (map attempt_id attempts) \<and>
        (sh_passed rep \<longleftrightarrow>
          min_eligible \<le> card {attempt_id a | a. a \<in> set attempts \<and> eligible a} \<and>
          min_non_null \<le> card {attempt_id a | a. a \<in> set attempts \<and> eligible a \<and> choice a \<noteq> None \<and> reviews (attempt_id a) = Some ''right''} \<and>
          {a \<in> set attempts. eligible a \<and> choice a \<noteq> None \<and> reviews (attempt_id a) \<noteq> Some ''right''} = {})"
proof (cases "distinct (map attempt_id attempts)")
  case False
  then show ?thesis by (simp add: evaluate_shadow_gate_def)
next
  case True
  have len: "length (filter P attempts) = card {attempt_id a | a. a \<in> set attempts \<and> P a}" for P
  proof -
    have "distinct (map attempt_id (filter P attempts))"
      using True by (induction attempts) auto
    then have "length (filter P attempts) = card (set (map attempt_id (filter P attempts)))"
      by (metis distinct_card length_map)
    also have "set (map attempt_id (filter P attempts)) = {attempt_id a | a. a \<in> set attempts \<and> P a}"
      by auto
    finally show ?thesis .
  qed
  let ?bad = "\<lambda>a. eligible a \<and> choice a \<noteq> None \<and> reviews (attempt_id a) \<noteq> Some ''right''"
  have right: "{attempt_id a | a. a \<in> set attempts \<and> eligible a \<and> choice a \<noteq> None \<and> reviews (attempt_id a) = Some ''right''}
      = {attempt_id a | a. a \<in> set attempts \<and> eligible a \<and> choice a \<noteq> None}" if "\<forall>a \<in> set attempts. \<not> ?bad a"
    using that by blast
  have pass: "sh_passed rep \<longleftrightarrow> min_eligible \<le> card {attempt_id a | a. a \<in> set attempts \<and> eligible a} \<and>
      min_non_null \<le> card {attempt_id a | a. a \<in> set attempts \<and> eligible a \<and> choice a \<noteq> None} \<and>
      (\<forall>a \<in> set attempts. \<not> ?bad a)"
    if "evaluate_shadow_gate attempts reviews min_eligible min_non_null = Inr rep" for rep
  proof -
    let ?nn = "filter (\<lambda>a. choice a \<noteq> None) (filter eligible attempts)"
    have "sh_passed rep \<longleftrightarrow> min_eligible \<le> length (filter eligible attempts) \<and> min_non_null \<le> length ?nn \<and>
        filter (\<lambda>a. reviews (attempt_id a) \<notin> {Some ''right'', Some ''wrong''}) ?nn = [] \<and>
        filter (\<lambda>a. reviews (attempt_id a) = Some ''wrong'') ?nn = []"
      using that[symmetric] True
      by (simp only: evaluate_shadow_gate_def Let_def not_True_eq_False if_False sum.inject shadow_report.select_convs)
    moreover have "filter (\<lambda>a. reviews (attempt_id a) \<notin> {Some ''right'', Some ''wrong''}) ?nn = [] \<and>
        filter (\<lambda>a. reviews (attempt_id a) = Some ''wrong'') ?nn = [] \<longleftrightarrow> (\<forall>a \<in> set attempts. \<not> ?bad a)"
      unfolding filter_empty_conv set_filter by (auto simp del: not_None_eq)
    moreover have "length ?nn = card {attempt_id a | a. a \<in> set attempts \<and> eligible a \<and> choice a \<noteq> None}"
      by (simp add: len)
    ultimately show ?thesis by (simp only: len)
  qed
  obtain rep where rep: "evaluate_shadow_gate attempts reviews min_eligible min_non_null = Inr rep"
    using True by (simp add: evaluate_shadow_gate_def Let_def)
  show ?thesis
    using pass[OF rep] right True by (auto simp: rep)
qed

end
