(* ===== verification/GroupKill.thy ===== *)
theory GroupKill
  imports Prelude
begin

text \<open>
  \<open>_run_with_group_kill\<close> of \<open>pipelines/openstates_scrape.py\<close>: a process with a wall-clock limit and a
  watchdog thread that kills its group when the number of files it writes has not changed for the stall
  window. The two threads and the process are one sequence of events in the order they happen: a look of
  the watchdog (with the count and the clock it reads), the kill signal it then sends, the process leaving, the
  limit passing, and the pipes being drained, which is when \<open>communicate\<close> returns. Clock readings are
  integers of one unit; the captured output is not part of the model.
\<close>

section \<open>The run\<close>

text \<open>\<open>_count\<close>: the length of the listing, and -1 when there is no directory.\<close>

definition count_files :: "string list option \<Rightarrow> int" where
  "count_files listing = (case listing of None \<Rightarrow> -1 | Some names \<Rightarrow> int (length names))"

datatype gk_event = Poll int int | Kill | Exits int | Expires | Drained

record watched =
  last_count :: int
  last_change :: int
  watching :: bool
  stall_found :: bool
  exit_code :: "int option"
  over_time :: bool

definition SIGKILLED :: int where "SIGKILLED = -9"

text \<open>A process that has left keeps its code; one that is still there is gone after a kill.\<close>

definition killed :: "watched \<Rightarrow> watched" where
  "killed s = (if exit_code s = None then s\<lparr>exit_code := Some SIGKILLED\<rparr> else s)"

fun watch_step :: "int \<Rightarrow> int \<Rightarrow> int \<Rightarrow> watched \<Rightarrow> watched" where
  "watch_step stall_seconds now_count now_time s =
     (if \<not> watching s then s
      else if now_count \<noteq> last_count s then s\<lparr>last_count := now_count, last_change := now_time\<rparr>
      else if stall_seconds \<le> now_time - last_change s
      then (if exit_code s \<noteq> None then s\<lparr>watching := False\<rparr>
            else s\<lparr>watching := False, stall_found := True\<rparr>)
      else s)"

text \<open>The kill of the watchdog comes after its decision; the process may have left in between.\<close>

fun gk_step :: "int \<Rightarrow> gk_event \<Rightarrow> watched \<Rightarrow> watched" where
  "gk_step stall_seconds (Poll n t) s = watch_step stall_seconds n t s"
| "gk_step stall_seconds Kill s = (if stall_found s then killed s else s)"
| "gk_step stall_seconds (Exits rc) s = (if exit_code s = None then s\<lparr>exit_code := Some rc\<rparr> else s)"
| "gk_step stall_seconds Expires s = killed (s\<lparr>over_time := True\<rparr>)"
| "gk_step stall_seconds Drained s = s"

text \<open>The result is the return code, \<open>timed_out\<close> and \<open>stalled\<close>; \<open>None\<close> while the run goes on.\<close>

fun gk_run :: "int \<Rightarrow> gk_event list \<Rightarrow> watched \<Rightarrow> (int \<times> bool \<times> bool) option" where
  "gk_run stall_seconds [] s = None"
| "gk_run stall_seconds (e # es) s =
     (case (e, exit_code s) of
        (Drained, Some rc) \<Rightarrow> Some (rc, over_time s, stall_found s)
      | _ \<Rightarrow> gk_run stall_seconds es (gk_step stall_seconds e s))"

definition gk_start :: "bool \<Rightarrow> int \<Rightarrow> int \<Rightarrow> int \<Rightarrow> watched" where
  "gk_start progress_dir stall_seconds n t =
     \<lparr>last_count = n, last_change = t, watching = (progress_dir \<and> stall_seconds \<noteq> 0), stall_found = False,
      exit_code = None, over_time = False\<rparr>"

text \<open>\<open>Popen\<close> raises before anything is watched.\<close>

definition run_with_group_kill ::
  "string option \<Rightarrow> bool \<Rightarrow> int \<Rightarrow> int \<Rightarrow> int \<Rightarrow> gk_event list \<Rightarrow> (int \<times> bool \<times> bool) option res" where
  "run_with_group_kill popen_error progress_dir stall_seconds n t es =
     (case popen_error of
        Some e \<Rightarrow> Inl (OtherError e)
      | None \<Rightarrow> Inr (gk_run stall_seconds es (gk_start progress_dir stall_seconds n t)))"

section \<open>What the watchdog has seen\<close>

fun looks :: "gk_event list \<Rightarrow> (int \<times> int) list" where
  "looks [] = []"
| "looks (Poll n t # es) = (n, t) # looks es"
| "looks (e # es) = looks es"

lemma looks_append [simp]: "looks (xs @ ys) = looks xs @ looks ys"
  by (induction xs rule: looks.induct) auto

text \<open>The count has been \<open>n\<close> at every look since \<open>since\<close>.\<close>

definition unchanged_since :: "int \<Rightarrow> int \<Rightarrow> gk_event list \<Rightarrow> int \<Rightarrow> int \<Rightarrow> bool" where
  "unchanged_since n0 t0 es n since =
     (\<exists>p q. (n0, t0) # looks es = p @ (n, since) # q \<and> (\<forall>x \<in> set q. fst x = n))"

text \<open>The process left, or was killed, by none of these events.\<close>

definition left_alone :: "gk_event list \<Rightarrow> bool" where
  "left_alone es = (Expires \<notin> set es \<and> (\<forall>rc. Exits rc \<notin> set es))"

definition stall_at :: "int \<Rightarrow> int \<Rightarrow> int \<Rightarrow> gk_event list \<Rightarrow> int \<Rightarrow> bool" where
  "stall_at stall_seconds n0 t0 es t =
     (\<exists>pre n since post. es = pre @ Poll n t # post \<and> left_alone pre \<and> unchanged_since n0 t0 pre n since \<and>
       stall_seconds \<le> t - since)"

text \<open>The look at which the count last became \<open>n\<close>.\<close>

definition changed_at :: "int \<Rightarrow> int \<Rightarrow> gk_event list \<Rightarrow> int \<Rightarrow> int \<Rightarrow> bool" where
  "changed_at n0 t0 es n since =
     (unchanged_since n0 t0 es n since \<and> (\<forall>s. unchanged_since n0 t0 es n s \<longrightarrow> since \<le> s))"

definition clock_ok :: "int \<Rightarrow> gk_event list \<Rightarrow> bool" where
  "clock_ok t0 es = sorted (t0 # map snd (looks es))"

text \<open>The state after a sequence of events.\<close>

abbreviation after :: "int \<Rightarrow> int \<Rightarrow> int \<Rightarrow> gk_event list \<Rightarrow> watched" where
  "after S n0 t0 es \<equiv> fold (gk_step S) es (gk_start True S n0 t0)"

lemma looks_snoc:
  "looks (es @ [e]) = looks es @ (case e of Poll n t \<Rightarrow> [(n, t)] | _ \<Rightarrow> [])"
  by (cases e) auto

lemma unchanged_last: "unchanged_since n0 t0 es n since \<Longrightarrow> fst (last ((n0, t0) # looks es)) = n"
proof -
  assume "unchanged_since n0 t0 es n since"
  then obtain p q where a: "(n0, t0) # looks es = p @ (n, since) # q" "\<forall>x \<in> set q. fst x = n"
    by (auto simp: unchanged_since_def)
  have "fst (last (p @ (n, since) # q)) = n" using a(2) by auto
  then show ?thesis using a(1) by metis
qed

lemma unchanged_Nil [simp]: "unchanged_since n0 t0 [] n since \<longleftrightarrow> n = n0 \<and> since = t0"
  by (auto simp: unchanged_since_def Cons_eq_append_conv)

lemma unchanged_poll [simp]:
  "unchanged_since n0 t0 (es @ [Poll n t]) n' since \<longleftrightarrow> n' = n \<and> (since = t \<or> unchanged_since n0 t0 es n since)"
  (is "?l \<longleftrightarrow> ?r")
proof
  assume ?l
  then obtain p q where a: "((n0, t0) # looks es) @ [(n, t)] = p @ (n', since) # q" "\<forall>x \<in> set q. fst x = n'"
    by (auto simp: unchanged_since_def)
  show ?r
  proof (cases q rule: rev_cases)
    case Nil
    then show ?thesis using a by simp
  next
    case (snoc q' x)
    then have "((n0, t0) # looks es) @ [(n, t)] = (p @ (n', since) # q') @ [x]" using a(1) by simp
    then have "(n0, t0) # looks es = p @ (n', since) # q'" "x = (n, t)" unfolding append1_eq_conv by simp_all
    then show ?thesis using a(2) snoc by (auto simp: unchanged_since_def)
  qed
next
  assume ?r
  then show ?l
  proof
    assume n: "n' = n" and "since = t \<or> unchanged_since n0 t0 es n since"
    from this(2) show ?l
    proof
      assume "since = t"
      with n show ?l unfolding unchanged_since_def
        by (intro exI[of _ "(n0, t0) # looks es"] exI[of _ "[]"]) simp
    next
      assume "unchanged_since n0 t0 es n since"
      then obtain p q where "(n0, t0) # looks es = p @ (n, since) # q" "\<forall>x \<in> set q. fst x = n"
        by (auto simp: unchanged_since_def)
      with n show ?l unfolding unchanged_since_def by (intro exI[of _ p] exI[of _ "q @ [(n, t)]"]) auto
    qed
  qed
qed

lemma unchanged_other: "\<forall>n t. e \<noteq> Poll n t \<Longrightarrow> unchanged_since n0 t0 (es @ [e]) n since = unchanged_since n0 t0 es n since"
  by (cases e) (auto simp: unchanged_since_def)

lemma stall_at_snoc:
  "(\<exists>t. stall_at S n0 t0 (es @ [e]) t) \<longleftrightarrow> (\<exists>t. stall_at S n0 t0 es t) \<or>
     (\<exists>n t since. e = Poll n t \<and> left_alone es \<and> unchanged_since n0 t0 es n since \<and> S \<le> t - since)"
  (is "?l \<longleftrightarrow> ?a \<or> ?b")
proof
  assume ?l
  then obtain t pre n since post where a: "es @ [e] = pre @ Poll n t # post" "left_alone pre"
      "unchanged_since n0 t0 pre n since" "S \<le> t - since"
    by (auto simp: stall_at_def)
  show "?a \<or> ?b"
  proof (cases post rule: rev_cases)
    case Nil
    then show ?thesis using a by auto
  next
    case (snoc post' x)
    then have "es = pre @ Poll n t # post'" using a(1) by (simp flip: append_Cons append_assoc)
    then show ?thesis using a(2-4) unfolding stall_at_def by blast
  qed
next
  assume "?a \<or> ?b"
  then show ?l
  proof
    assume ?a
    then show ?l unfolding stall_at_def by (metis append.assoc append_Cons)
  next
    assume ?b
    then show ?l unfolding stall_at_def by blast
  qed
qed

lemma clock_ok_snoc: "clock_ok t0 (es @ [Poll n t]) \<Longrightarrow> clock_ok t0 es \<and> (\<forall>x \<in> set ((n0, t0) # looks es). snd x \<le> t)"
  by (auto simp: clock_ok_def sorted_append)

lemma unchanged_seen: "unchanged_since n0 t0 es n since \<Longrightarrow> (n, since) \<in> set ((n0, t0) # looks es)"
  unfolding unchanged_since_def by (metis in_set_conv_decomp)

text \<open>What holds of the state after any events: what was found is exactly the first stall.\<close>

lemma watch_invariant:
  assumes "clock_ok t0 es" "S \<noteq> 0"
  shows "let s = after S n0 t0 es in
    (stall_found s \<longleftrightarrow> (\<exists>t. stall_at S n0 t0 es t)) \<and>
    (exit_code s = None \<longrightarrow> left_alone es) \<and> (left_alone es \<and> exit_code s \<noteq> None \<longrightarrow> stall_found s) \<and>
    (\<not> watching s \<longrightarrow> stall_found s \<or> \<not> left_alone es) \<and> (stall_found s \<longrightarrow> \<not> watching s) \<and>
    (watching s \<longrightarrow> unchanged_since n0 t0 es (last_count s) (last_change s) \<and>
      (\<forall>since. unchanged_since n0 t0 es (last_count s) since \<longrightarrow> last_change s \<le> since))"
  using assms(1)
proof (induction es rule: rev_induct)
  case Nil
  then show ?case using assms(2) by (auto simp: gk_start_def left_alone_def stall_at_def)
next
  case (snoc e es)
  let ?s = "after S n0 t0 es"
  have ok: "clock_ok t0 es" using snoc.prems by (cases e) (auto simp: clock_ok_def sorted_append)
  note IH = snoc.IH[OF ok, unfolded Let_def]
  show ?case
  proof (cases e)
    case (Poll n t)
    have fwd: "last_change ?s \<le> t" if "watching ?s"
      using IH that unchanged_seen clock_ok_snoc[of t0 es n t n0] snoc.prems Poll by fastforce
    have la: "left_alone (es @ [e]) = left_alone es" by (simp add: Poll left_alone_def)
    have uniq: "n' = last_count ?s" if "watching ?s" "unchanged_since n0 t0 es n' since" for n' since
      using IH that unchanged_last[of n0 t0 es] by metis
    have found: "(\<exists>n t since. e = Poll n t \<and> left_alone es \<and> unchanged_since n0 t0 es n since \<and> S \<le> t - since) \<longleftrightarrow>
        left_alone es \<and> (\<exists>since. unchanged_since n0 t0 es n since \<and> S \<le> t - since)"
      by (auto simp: Poll)
    consider (off) "\<not> watching ?s" | (changed) "watching ?s" "n \<noteq> last_count ?s"
      | (short) "watching ?s" "n = last_count ?s" "\<not> S \<le> t - last_change ?s"
      | (late) "watching ?s" "n = last_count ?s" "S \<le> t - last_change ?s" by blast
    then show ?thesis
    proof cases
      case off
      then have "stall_found ?s \<or> \<not> left_alone es" using IH by blast
      then show ?thesis using IH off unfolding Let_def stall_at_snoc la found by (simp add: Poll) blast
    next
      case changed
      then have "\<not> unchanged_since n0 t0 es n since" for since using uniq by metis
      then show ?thesis using IH changed fwd unfolding Let_def stall_at_snoc la found by (auto simp: Poll)
    next
      case short
      have "\<not> (unchanged_since n0 t0 es n since \<and> S \<le> t - since)" for since
        using IH short by force
      then show ?thesis using IH short fwd unfolding Let_def stall_at_snoc la found by (auto simp: Poll)
    next
      case late
      have "unchanged_since n0 t0 es n (last_change ?s)" using IH late by metis
      then have "(\<exists>since. unchanged_since n0 t0 es n since \<and> S \<le> t - since)" using late by blast
      then show ?thesis using IH late unfolding Let_def stall_at_snoc la found by (cases "exit_code ?s") (auto simp: Poll)
    qed
  next
    case Kill
    then show ?thesis using IH unchanged_other[of e n0 t0 es]
      unfolding Let_def stall_at_snoc by (auto simp: killed_def left_alone_def)
  next
    case (Exits rc)
    then show ?thesis using IH unchanged_other[of e n0 t0 es]
      unfolding Let_def stall_at_snoc by (auto simp: killed_def left_alone_def)
  next
    case Expires
    then show ?thesis using IH unchanged_other[of e n0 t0 es]
      unfolding Let_def stall_at_snoc by (auto simp: killed_def left_alone_def)
  next
    case Drained
    then show ?thesis using IH unchanged_other[of e n0 t0 es]
      unfolding Let_def stall_at_snoc by (auto simp: killed_def left_alone_def)
  qed
qed

text \<open>With looks at most \<open>p\<close> apart a stall is found soon after the window is over.\<close>

definition paced :: "int \<Rightarrow> int \<Rightarrow> gk_event list \<Rightarrow> bool" where
  "paced p t0 es = successively (\<lambda>x y. y - x \<le> p) (t0 # map snd (looks es))"

lemma watching_not_due:
  assumes "0 < S" "watching (after S n0 t0 es)"
  shows "snd (last ((n0, t0) # looks es)) - last_change (after S n0 t0 es) < S"
  using assms(2)
proof (induction es rule: rev_induct)
  case (snoc e es)
  have "watching (gk_step S e s) \<Longrightarrow> watching s" for s
    by (cases e) (auto simp: killed_def split: if_splits)
  then have "watching (after S n0 t0 es)" using snoc.prems by simp
  with snoc show ?case using assms(1) by (cases e) (auto simp: killed_def split: if_splits)
qed (use assms(1) in \<open>simp add: gk_start_def\<close>)

lemma stall_found_soon:
  assumes "0 < S" "clock_ok t0 es" "paced p t0 es" "stall_found (after S n0 t0 es)"
  shows "\<exists>pre n t since post. es = pre @ Poll n t # post \<and> left_alone pre \<and> changed_at n0 t0 pre n since \<and>
    S \<le> t - since \<and> t - since < S + p"
  using assms(2-4)
proof (induction es rule: rev_induct)
  case (snoc e es)
  let ?s = "after S n0 t0 es"
  have ok: "clock_ok t0 es" using snoc.prems(1) by (cases e) (auto simp: clock_ok_def sorted_append)
  have pc: "paced p t0 es" "\<forall>n t. e = Poll n t \<longrightarrow> t - snd (last ((n0, t0) # looks es)) \<le> p"
    using snoc.prems(2) by (cases e; auto simp: paced_def successively_append_iff last_map simp flip: append_Cons)+
  show ?case
  proof (cases "stall_found ?s")
    case True
    from snoc.IH[OF ok pc(1) True] show ?thesis by (metis append.assoc append_Cons)
  next
    case False
    then obtain n t where e: "e = Poll n t" "watching ?s" "n = last_count ?s" "S \<le> t - last_change ?s" "exit_code ?s = None"
      using snoc.prems(3) by (cases e) (auto simp: killed_def split: if_splits)
    note inv = watch_invariant[OF ok, of S n0, unfolded Let_def]
    have "left_alone es" "changed_at n0 t0 es n (last_change ?s)" using inv assms(1) e by (auto simp: changed_at_def)
    moreover have "t - last_change ?s < S + p"
      using watching_not_due[OF assms(1) e(2)] pc(2) e(1) by force
    ultimately show ?thesis using e(1,4) by blast
  qed
qed (simp add: gk_start_def)

section \<open>The result\<close>

lemma gk_run_steps:
  assumes "Drained \<notin> set es"
  shows "gk_run S (es @ [Drained]) s = Some (rc, over, st) \<longleftrightarrow>
    exit_code (fold (gk_step S) es s) = Some rc \<and> over_time (fold (gk_step S) es s) = over \<and>
    stall_found (fold (gk_step S) es s) = st"
  using assms by (induction es arbitrary: s) (auto split: gk_event.splits option.splits)

lemma over_time_iff: "over_time (fold (gk_step S) es s) \<longleftrightarrow> over_time s \<or> Expires \<in> set es"
proof (induction es arbitrary: s)
  case (Cons e es)
  have "over_time (gk_step S e s) \<longleftrightarrow> over_time s \<or> e = Expires"
    by (cases e) (auto simp: killed_def)
  then show ?case using Cons by auto
qed simp

lemma own_exit:
  assumes "exit_code (after S n0 t0 es) = Some rc" "rc \<noteq> SIGKILLED"
  shows "Exits rc \<in> set es"
proof -
  have "exit_code (fold (gk_step S) es s) = Some rc \<Longrightarrow> exit_code s = Some rc \<or> Exits rc \<in> set es" for s
  proof (induction es arbitrary: s)
    case (Cons e es)
    have "exit_code (gk_step S e s) = Some rc \<Longrightarrow> exit_code s = Some rc \<or> e = Exits rc"
      using assms(2) by (cases e) (auto simp: killed_def split: if_splits)
    then show ?case using Cons by auto
  qed simp
  from this[OF assms(1)] show ?thesis by (simp add: gk_start_def)
qed

text \<open>C13: The watchdog is exact. For a run that ends, with a clock that does not go back: it is reported as stalled
  exactly when the watchdog looked while the process was still there and the count had not changed for the
  stall window; so a process that left by itself before that look is never reported as stalled, and a process
  that keeps writing is not killed by the watchdog. When two looks are at most \<open>p\<close> apart, a stalled
  process is found before \<open>stall + p\<close> has passed since the last change. It is reported as timed out exactly when
  the limit passed, and a return code that is not the one of the kill signal is the process's own.\<close>

theorem watchdog_exact:
  assumes "run_with_group_kill None True S n0 t0 (es @ [Drained]) = Inr (Some (rc, timed_out, stalled))"
    and "Drained \<notin> set es" "clock_ok t0 es" "0 < S"
  shows "(stalled \<longleftrightarrow> (\<exists>t. stall_at S n0 t0 es t)) \<and> (timed_out \<longleftrightarrow> Expires \<in> set es) \<and>
    (rc \<noteq> SIGKILLED \<longrightarrow> Exits rc \<in> set es) \<and>
    (left_alone es \<longrightarrow> stalled \<and> rc = SIGKILLED) \<and>
    (\<forall>p. paced p t0 es \<and> stalled \<longrightarrow> (\<exists>pre n t since post. es = pre @ Poll n t # post \<and> left_alone pre \<and>
      changed_at n0 t0 pre n since \<and> S \<le> t - since \<and> t - since < S + p))"
proof -
  have r: "exit_code (after S n0 t0 es) = Some rc" "over_time (after S n0 t0 es) = timed_out"
    "stall_found (after S n0 t0 es) = stalled"
    using assms(1,2) by (auto simp: run_with_group_kill_def gk_run_steps)
  have "S \<noteq> 0" using assms(4) by simp
  note inv = watch_invariant[OF assms(3) this, of n0, unfolded Let_def]
  have "stalled \<longleftrightarrow> (\<exists>t. stall_at S n0 t0 es t)" using inv r(3) by blast
  moreover have "timed_out \<longleftrightarrow> Expires \<in> set es" using r(2) by (auto simp: over_time_iff gk_start_def)
  moreover have own: "rc \<noteq> SIGKILLED \<Longrightarrow> Exits rc \<in> set es" using own_exit[OF r(1)] .
  moreover have "left_alone es \<longrightarrow> stalled \<and> rc = SIGKILLED"
    using inv r own by (auto simp: left_alone_def)
  moreover have "\<forall>p. paced p t0 es \<and> stalled \<longrightarrow> (\<exists>pre n t since post. es = pre @ Poll n t # post \<and> left_alone pre \<and>
      changed_at n0 t0 pre n since \<and> S \<le> t - since \<and> t - since < S + p)"
    using stall_found_soon[OF assms(4,3)] r(3) by blast
  ultimately show ?thesis by blast
qed

definition stalled_run :: "gk_event list" where
  "stalled_run = [Poll 5 30, Poll 7 60, Poll 7 2730, Poll 7 2760, Kill]"

lemma watchdog_exact_witness:
  "run_with_group_kill None True 2700 0 0 (stalled_run @ [Drained]) = Inr (Some (SIGKILLED, False, True)) \<and>
   (\<exists>t. stall_at 2700 0 0 stalled_run t)"
proof -
  have r: "run_with_group_kill None True 2700 0 0 (stalled_run @ [Drained]) = Inr (Some (SIGKILLED, False, True))"
    by (simp add: run_with_group_kill_def stalled_run_def gk_start_def killed_def)
  have "Drained \<notin> set stalled_run" "clock_ok 0 stalled_run" by (simp_all add: stalled_run_def clock_ok_def)
  from watchdog_exact[OF r this] r show ?thesis by simp
qed

end
