(* ===== verification/RateLimiter.thy ===== *)
theory RateLimiter
  imports PyJson Complex_Main
begin

text \<open>
  The shared rate limiter (\<open>services/rate_limiter.py\<close>). Times are rational numbers of seconds. A call of
  \<open>apply\<close> holds the lock while it computes and sleeps, so calls are a sequence; each call is given the two
  readings of the wall clock it makes, before and after the sleep. The configuration file is what
  opening and parsing it gives: absent, unreadable, or a document.
\<close>

section \<open>Configuration\<close>

record rate_limit_config =
  requests_per_minute :: int
  delay_between_requests_ms :: int
  max_retry_attempts :: int
  retry_backoff_seconds :: int

definition default_config :: rate_limit_config where
  "default_config = \<lparr>requests_per_minute = 120, delay_between_requests_ms = 500, max_retry_attempts = 3,
     retry_backoff_seconds = 5\<rparr>"

datatype config_file = NoFile | Unreadable | Parsed json

record yaml_config =
  y_requests_per_minute :: json
  y_delay :: json
  y_attempts :: json
  y_backoff :: json

text \<open>The values of the file are not checked: they are kept as they are.\<close>

definition parsed_config :: "json \<Rightarrow> yaml_config res" where
  "parsed_config doc =
     (let data = (if truthy doc then doc else JObj []) in
      bind_res (attr_get data ''rate_limit'' (JObj [])) (\<lambda>rate_limit.
      bind_res (attr_get data ''retry'' (JObj [])) (\<lambda>retry.
      bind_res (attr_get rate_limit ''requests_per_minute'' (JInt 120)) (\<lambda>rpm.
      bind_res (attr_get rate_limit ''delay_between_bills_ms'' (JInt 500)) (\<lambda>legacy.
      bind_res (attr_get rate_limit ''delay_between_requests_ms'' legacy) (\<lambda>delay.
      bind_res (attr_get retry ''max_attempts'' (JInt 3)) (\<lambda>attempts.
      bind_res (attr_get retry ''backoff_seconds'' (JInt 5)) (\<lambda>backoff.
        Inr \<lparr>y_requests_per_minute = rpm, y_delay = delay, y_attempts = attempts, y_backoff = backoff\<rparr>))))))))"

definition as_yaml :: "rate_limit_config \<Rightarrow> yaml_config" where
  "as_yaml c = \<lparr>y_requests_per_minute = JInt (requests_per_minute c), y_delay = JInt (delay_between_requests_ms c),
     y_attempts = JInt (max_retry_attempts c), y_backoff = JInt (retry_backoff_seconds c)\<rparr>"

definition from_yaml :: "config_file \<Rightarrow> yaml_config" where
  "from_yaml f =
     (case f of
        NoFile \<Rightarrow> as_yaml default_config
      | Unreadable \<Rightarrow> as_yaml default_config
      | Parsed doc \<Rightarrow> (case parsed_config doc of Inl _ \<Rightarrow> as_yaml default_config | Inr c \<Rightarrow> c))"

section \<open>The limiter\<close>

record limiter =
  config :: rate_limit_config
  last_request_time :: rat
  enforced_sleeps :: nat

definition new_limiter :: "rate_limit_config option \<Rightarrow> limiter" where
  "new_limiter c = \<lparr>config = (case c of None \<Rightarrow> default_config | Some c \<Rightarrow> c), last_request_time = 0, enforced_sleeps = 0\<rparr>"

text \<open>The gap between two calls: \<open>ZeroDivisionError\<close> for a budget of 0.\<close>

definition min_delay_seconds :: "rate_limit_config \<Rightarrow> rat res" where
  "min_delay_seconds c =
     (if requests_per_minute c = 0 then Inl ZeroDivisionError
      else Inr (max (of_int (delay_between_requests_ms c) / 1000) (60 / of_int (requests_per_minute c))))"

text \<open>The time slept, if any, given the clock at the start; then the clock after it.\<close>

definition sleep_time :: "limiter \<Rightarrow> rat \<Rightarrow> rat option res" where
  "sleep_time l current_time =
     bind_res (min_delay_seconds (config l)) (\<lambda>gap.
       let elapsed = current_time - last_request_time l in
       Inr (if elapsed < gap \<and> last_request_time l > 0 then Some (gap - elapsed) else None))"

definition apply_limit :: "rat \<Rightarrow> rat \<Rightarrow> limiter \<Rightarrow> limiter res" where
  "apply_limit before after l =
     bind_res (sleep_time l before) (\<lambda>slept.
       Inr (l\<lparr>last_request_time := after,
             enforced_sleeps := enforced_sleeps l + (if slept = None then 0 else 1)\<rparr>))"

text \<open>A sequence of calls, one after the other.\<close>

fun apply_all :: "(rat \<times> rat) list \<Rightarrow> limiter \<Rightarrow> limiter res" where
  "apply_all [] l = Inr l"
| "apply_all ((before, after) # calls) l = bind_res (apply_limit before after l) (apply_all calls)"

section \<open>The clock\<close>

text \<open>What the calls rely on: a sleep lasts at least as long as asked, on the clock that is read.\<close>

fun clock_runs :: "(rat \<times> rat) list \<Rightarrow> limiter \<Rightarrow> bool" where
  "clock_runs [] l = True"
| "clock_runs ((before, after) # calls) l =
     (0 < after \<and>
      (case sleep_time l before of Inl _ \<Rightarrow> True | Inr None \<Rightarrow> before \<le> after | Inr (Some d) \<Rightarrow> before + d \<le> after) \<and>
      (case apply_limit before after l of Inl _ \<Rightarrow> True | Inr l' \<Rightarrow> clock_runs calls l'))"

lemma apply_limit_gap:
  assumes "apply_limit before after l = Inr l'" "clock_runs ((before, after) # calls) l"
    and "min_delay_seconds (config l) = Inr gap" "0 < last_request_time l"
  shows "last_request_time l + gap \<le> after"
proof -
  have "case sleep_time l before of Inl _ \<Rightarrow> True | Inr None \<Rightarrow> before \<le> after | Inr (Some d) \<Rightarrow> before + d \<le> after"
    using assms(2) by simp
  then show ?thesis using assms(3,4) by (auto simp: sleep_time_def Let_def split: if_splits)
qed

lemma apply_limit_keeps:
  assumes "apply_limit before after l = Inr l'"
  shows "config l' = config l" "last_request_time l' = after"
  using assms by (auto simp: apply_limit_def bind_res_Inr_iff)

lemma apply_all_spaced:
  assumes "apply_all calls l = Inr l'" "clock_runs calls l" "min_delay_seconds (config l) = Inr gap"
  shows "successively (\<lambda>s t. s + gap \<le> t) (map snd calls) \<and>
    (0 < last_request_time l \<longrightarrow> (\<forall>c cs. calls = c # cs \<longrightarrow> last_request_time l + gap \<le> snd c))"
  using assms
proof (induction calls arbitrary: l)
  case (Cons c calls)
  obtain before after where c: "c = (before, after)" by (cases c)
  obtain l1 where l1: "apply_limit before after l = Inr l1" "apply_all calls l1 = Inr l'"
    using Cons.prems(1) by (auto simp: c bind_res_Inr_iff)
  have k: "config l1 = config l" "last_request_time l1 = after" using apply_limit_keeps[OF l1(1)] .
  have "clock_runs calls l1" "0 < after" using Cons.prems(2) l1 by (auto simp: c)
  with Cons.IH[OF l1(2)] Cons.prems(3) k
  have "successively (\<lambda>s t. s + gap \<le> t) (map snd calls)" "\<forall>d cs. calls = d # cs \<longrightarrow> after + gap \<le> snd d"
    by auto
  then have "successively (\<lambda>s t. s + gap \<le> t) (map snd (c # calls))"
    by (cases calls) (auto simp: c)
  moreover have "last_request_time l + gap \<le> after" if "0 < last_request_time l"
    using apply_limit_gap[OF l1(1) Cons.prems(2)[unfolded c] Cons.prems(3) that] .
  ultimately show ?case by (auto simp: c)
qed simp

lemma spaced_nth:
  fixes gap :: rat
  assumes "successively (\<lambda>s t. s + gap \<le> t) ts" "i + n < length ts"
  shows "ts ! i + of_nat n * gap \<le> ts ! (i + n)"
  using assms(2)
proof (induction n)
  case (Suc n)
  have "ts ! (i + n) + gap \<le> ts ! Suc (i + n)"
    using successively_nth[OF assms(1), of "i + n"] Suc.prems by simp
  with Suc show ?case by (simp add: algebra_simps)
qed simp

lemma spaced_window:
  fixes gap :: rat
  assumes "successively (\<lambda>s t. s + gap \<le> t) ts" "width \<le> of_nat m * gap" "0 < gap"
  shows "card {i. i < length ts \<and> x \<le> ts ! i \<and> ts ! i < x + width} \<le> m"
proof (cases "{i. i < length ts \<and> x \<le> ts ! i \<and> ts ! i < x + width} = {}")
  case False
  let ?I = "{i. i < length ts \<and> x \<le> ts ! i \<and> ts ! i < x + width}"
  define k where "k = Min ?I"
  have fin: "finite ?I" by simp
  have k: "k \<in> ?I" unfolding k_def using fin False by (rule Min_in)
  have "?I \<subseteq> {k..<k + m}"
  proof
    fix i assume i: "i \<in> ?I"
    then have ki: "k \<le> i" unfolding k_def by (intro Min_le fin)
    have "ts ! k + of_nat (i - k) * gap \<le> ts ! i"
      using spaced_nth[OF assms(1), of k "i - k"] ki i by simp
    moreover have "ts ! i < x + width" "x \<le> ts ! k" using k i by simp_all
    ultimately have "of_nat (i - k) * gap < of_nat m * gap" using assms(2) by linarith
    then have "i - k < m" using assms(3) by (simp add: mult_less_cancel_right)
    with ki show "i \<in> {k..<k + m}" by auto
  qed
  then show ?thesis using card_mono[of "{k..<k + m}" ?I] by simp
next
  case True
  show ?thesis unfolding True by simp
qed

lemma apply_all_returns:
  assumes "requests_per_minute (config l) \<noteq> 0"
  shows "\<exists>l'. apply_all calls l = Inr l' \<and> config l' = config l"
  using assms
proof (induction calls arbitrary: l)
  case (Cons c calls)
  obtain before after where c: "c = (before, after)" by (cases c)
  obtain l1 where l1: "apply_limit before after l = Inr l1" "config l1 = config l"
    using Cons.prems by (auto simp: apply_limit_def sleep_time_def min_delay_seconds_def Let_def)
  then show ?case using Cons.IH[of l1] Cons.prems by (simp add: c)
qed simp

text \<open>C14: The budget is kept. For a positive budget and a sleep that lasts as long as asked, any sequence of calls returns;
  two calls that are \<open>n\<close> apart in the sequence are let through at least \<open>n\<close> times
  the larger of the two configured gaps apart; so no minute, wherever it starts, holds more calls than
  \<open>requests_per_minute\<close>. A budget of 0 raises \<open>ZeroDivisionError\<close> at the first call.\<close>

theorem rate_limit_kept:
  assumes "clock_runs calls l" "0 \<le> requests_per_minute (config l)"
  shows "if requests_per_minute (config l) = 0
    then calls \<noteq> [] \<longrightarrow> apply_all calls l = Inl ZeroDivisionError
    else (\<exists>l'. apply_all calls l = Inr l') \<and>
      (\<forall>i n. i + n < length calls \<longrightarrow>
        snd (calls ! i) + of_nat n * max (of_int (delay_between_requests_ms (config l)) / 1000)
          (60 / of_int (requests_per_minute (config l))) \<le> snd (calls ! (i + n))) \<and>
      (\<forall>x. card {i. i < length calls \<and> x \<le> snd (calls ! i) \<and> snd (calls ! i) < x + 60}
        \<le> nat (requests_per_minute (config l)))"
proof (cases "requests_per_minute (config l) = 0")
  case True
  then show ?thesis
    by (cases calls) (auto simp: apply_limit_def sleep_time_def min_delay_seconds_def)
next
  case False
  let ?rpm = "requests_per_minute (config l)"
  let ?gap = "max (of_int (delay_between_requests_ms (config l)) / 1000) (60 / of_int ?rpm) :: rat"
  have pos: "0 < ?rpm" using False assms(2) by simp
  obtain l' where l': "apply_all calls l = Inr l'" using apply_all_returns[OF False] by blast
  have g: "min_delay_seconds (config l) = Inr ?gap" using False by (simp add: min_delay_seconds_def)
  have sp: "successively (\<lambda>s t. s + ?gap \<le> t) (map snd calls)"
    using apply_all_spaced[OF l' assms(1) g] by blast
  have gap: "60 / of_int ?rpm \<le> ?gap" "0 < ?gap" using pos by (auto simp: less_max_iff_disj)
  have "of_nat (nat ?rpm) * (60 / of_int ?rpm) \<le> of_nat (nat ?rpm) * ?gap"
    by (intro mult_left_mono gap(1)) simp
  then have w: "60 \<le> of_nat (nat ?rpm) * ?gap" using pos by simp
  have "snd (calls ! i) + of_nat n * ?gap \<le> snd (calls ! (i + n))" if "i + n < length calls" for i n
    using spaced_nth[OF sp, of i n] that by simp
  moreover have "card {i. i < length calls \<and> x \<le> snd (calls ! i) \<and> snd (calls ! i) < x + 60} \<le> nat ?rpm" for x
  proof -
    have "{i. i < length calls \<and> x \<le> snd (calls ! i) \<and> snd (calls ! i) < x + 60} =
        {i. i < length (map snd calls) \<and> x \<le> map snd calls ! i \<and> map snd calls ! i < x + 60}"
      by auto
    then show ?thesis using spaced_window[OF sp w gap(2), of x] by simp
  qed
  ultimately show ?thesis using False l' by simp
qed

definition busy_calls :: "(rat \<times> rat) list" where
  "busy_calls = [(1000, 1000), (1000, 1030), (1031, 1060)]"

lemma rate_limit_kept_witness:
  "(\<exists>l'. apply_all busy_calls (new_limiter (Some (default_config\<lparr>requests_per_minute := 2\<rparr>))) = Inr l') \<and>
   card {i. i < length busy_calls \<and> 1000 \<le> snd (busy_calls ! i) \<and> snd (busy_calls ! i) < 1000 + 60} \<le> 2"
proof -
  have "clock_runs busy_calls (new_limiter (Some (default_config\<lparr>requests_per_minute := 2\<rparr>)))"
    by (simp add: busy_calls_def new_limiter_def default_config_def sleep_time_def apply_limit_def
        min_delay_seconds_def Let_def)
  note kept = rate_limit_kept[OF this]
  have rpm: "requests_per_minute (config (new_limiter (Some (default_config\<lparr>requests_per_minute := 2\<rparr>)))) = 2"
    by (simp add: new_limiter_def)
  have "card {i. i < length busy_calls \<and> x \<le> snd (busy_calls ! i) \<and> snd (busy_calls ! i) < x + 60} \<le> 2" for x
    using kept unfolding rpm by simp
  moreover have "\<exists>l'. apply_all busy_calls (new_limiter (Some (default_config\<lparr>requests_per_minute := 2\<rparr>))) = Inr l'"
    using kept unfolding rpm by simp
  ultimately show ?thesis by blast
qed

end
