(* ===== verification/Files.thy ===== *)
theory Files
  imports Prelude
begin

text \<open>
  The file system as the scrape pipeline uses it, in the manner of \<open>Redis\<close>: the operating system is a
  record of operations on a state, each of which may raise \<open>OSError\<close> (\<open>None\<close>). The locale
  \<open>file_service\<close> states what they promise over the files a state shows; an in-memory file system, some
  of whose paths may refuse to be written, keeps these laws.
\<close>

section \<open>Files and operations\<close>

text \<open>A file: its text (\<open>None\<close> when its bytes cannot be decoded) and the second it was last changed.\<close>

type_synonym file_entry = "string option \<times> int"

type_synonym file_view = "string \<rightharpoonup> file_entry"

type_synonym ('f, 'a) operation = "'f \<Rightarrow> 'a option \<times> 'f"

record 'f files =
  f_time :: "'f \<Rightarrow> int"
  f_exists :: "string \<Rightarrow> 'f \<Rightarrow> bool"
  f_isdir :: "string \<Rightarrow> 'f \<Rightarrow> bool"
  f_mtime :: "string \<Rightarrow> ('f, int) operation"
  f_read :: "string \<Rightarrow> ('f, string option) operation"
  f_write :: "string \<Rightarrow> string \<Rightarrow> ('f, unit) operation"
  f_remove :: "string \<Rightarrow> ('f, unit) operation"
  f_makedirs :: "string \<Rightarrow> ('f, unit) operation"

definition same_but :: "string \<Rightarrow> file_view \<Rightarrow> file_view \<Rightarrow> bool" where
  "same_but p v v' = (\<forall>q. q \<noteq> p \<longrightarrow> v' q = v q)"

locale file_service =
  fixes F :: "'f files" and view :: "'f \<Rightarrow> file_view"
  assumes exists_law: "f_exists F p f \<longleftrightarrow> view f p \<noteq> None"
    and mtime_law: "f_mtime F p f = (res_mtime, f') \<Longrightarrow> view f' = view f \<and> f_time F f \<le> f_time F f' \<and>
      (\<forall>t. res_mtime = Some t \<longrightarrow> (\<exists>c. view f p = Some (c, t)))"
    and read_law: "f_read F p f = (res_read, f') \<Longrightarrow> view f' = view f \<and> f_time F f \<le> f_time F f' \<and>
      (\<forall>c. res_read = Some c \<longrightarrow> (\<exists>t. view f p = Some (c, t)))"
    and write_law: "f_write F p s f = (res_write, f') \<Longrightarrow> same_but p (view f) (view f') \<and> f_time F f \<le> f_time F f' \<and>
      (res_write \<noteq> None \<longrightarrow> (\<exists>t. view f' p = Some (Some s, t) \<and> f_time F f \<le> t \<and> t \<le> f_time F f'))"
    and remove_law: "f_remove F p f = (res_remove, f') \<Longrightarrow> same_but p (view f) (view f') \<and> f_time F f \<le> f_time F f' \<and>
      (res_remove \<noteq> None \<longrightarrow> view f' p = None) \<and> (res_remove = None \<longrightarrow> view f' = view f)"
    and makedirs_law: "f_makedirs F p f = (res_makedirs, f') \<Longrightarrow> view f' = view f \<and> f_time F f \<le> f_time F f'"

section \<open>An in-memory file system\<close>

record disk =
  now :: int
  dirs :: "string list"
  stored_files :: "(string \<times> file_entry) list"
  read_only :: "string list"

definition disk_view :: "disk \<Rightarrow> file_view" where
  "disk_view d = map_of (stored_files d)"

definition disk_files :: "disk files" where
  "disk_files =
     \<lparr>f_time = now,
      f_exists = (\<lambda>p d. disk_view d p \<noteq> None),
      f_isdir = (\<lambda>p d. p \<in> set (dirs d)),
      f_mtime = (\<lambda>p d. (map_option snd (disk_view d p), d)),
      f_read = (\<lambda>p d. (map_option fst (disk_view d p), d)),
      f_write = (\<lambda>p s d. if p \<in> set (read_only d) then (None, d)
        else (Some (), d\<lparr>stored_files := dict_set p (Some s, now d) (stored_files d)\<rparr>)),
      f_remove = (\<lambda>p d. if p \<in> set (read_only d) \<or> disk_view d p = None then (None, d)
        else (Some (), d\<lparr>stored_files := filter (\<lambda>e. fst e \<noteq> p) (stored_files d)\<rparr>)),
      f_makedirs = (\<lambda>p d. (Some (), d\<lparr>dirs := p # dirs d\<rparr>))\<rparr>"

interpretation disk: file_service disk_files disk_view
proof unfold_locales
  fix p f f' s
  show "f_exists disk_files p f \<longleftrightarrow> disk_view f p \<noteq> None"
    by (simp add: disk_files_def)
  show "f_mtime disk_files p f = (res, f') \<Longrightarrow> disk_view f' = disk_view f \<and> f_time disk_files f \<le> f_time disk_files f' \<and>
      (\<forall>t. res = Some t \<longrightarrow> (\<exists>c. disk_view f p = Some (c, t)))" for res
    by (auto simp: disk_files_def)
  show "f_read disk_files p f = (res, f') \<Longrightarrow> disk_view f' = disk_view f \<and> f_time disk_files f \<le> f_time disk_files f' \<and>
      (\<forall>c. res = Some c \<longrightarrow> (\<exists>t. disk_view f p = Some (c, t)))" for res
    by (auto simp: disk_files_def)
  show "f_write disk_files p s f = (res, f') \<Longrightarrow> same_but p (disk_view f) (disk_view f') \<and>
      f_time disk_files f \<le> f_time disk_files f' \<and>
      (res \<noteq> None \<longrightarrow> (\<exists>t. disk_view f' p = Some (Some s, t) \<and> f_time disk_files f \<le> t \<and> t \<le> f_time disk_files f'))" for res
    by (auto simp: disk_files_def disk_view_def same_but_def split: if_splits)
  show "f_remove disk_files p f = (res, f') \<Longrightarrow> same_but p (disk_view f) (disk_view f') \<and>
      f_time disk_files f \<le> f_time disk_files f' \<and> (res \<noteq> None \<longrightarrow> disk_view f' p = None) \<and>
      (res = None \<longrightarrow> disk_view f' = disk_view f)" for res
    by (auto simp: disk_files_def disk_view_def same_but_def map_of_filter_key split: if_splits)
  show "f_makedirs disk_files p f = (res, f') \<Longrightarrow> disk_view f' = disk_view f \<and> f_time disk_files f \<le> f_time disk_files f'" for res
    by (auto simp: disk_files_def disk_view_def)
qed

end
