(* ===== verification/Enrollment.thy ===== *)
theory Enrollment
  imports PyJson
begin

text \<open>
  The dual read of the jurisdiction manifest (\<open>services/jurisdiction_enrollment.py\<close>). The file
  system and the environment of a call are a record: the time a path was last changed (\<open>None\<close> when
  \<open>os.stat\<close> raises), and what opening and parsing it gives. The module's two globals, the cache by
  path and the set of lines already logged, are the state; \<open>logged\<close> is also the log, in order. The
  locks of the module only guard the two globals and are not modelled.
\<close>

section \<open>Environment and state\<close>

datatype yaml_read = ReadFailed | Yaml json

record world =
  mtime :: "string \<Rightarrow> nat option"
  yaml_at :: "string \<Rightarrow> yaml_read"
  mode_var :: string
  root_var :: string

datatype log_key =
    LogMissing string
  | LogShape string nat
  | LogParse string nat
  | LogEntry string string
  | LogDiffers string "string list" "string list"

record enrollment =
  cache :: "string \<rightharpoonup> nat \<times> json option"
  logged :: "log_key list"

definition log_once :: "log_key \<Rightarrow> enrollment \<Rightarrow> enrollment" where
  "log_once k st = (if k \<in> set (logged st) then st else st\<lparr>logged := logged st @ [k]\<rparr>)"

definition MANIFEST_FILENAME :: string where "MANIFEST_FILENAME = ''jurisdictions.yaml''"

section \<open>The manifest\<close>

text \<open>A manifest that can be used: a non-empty mapping of mappings.\<close>

definition usable :: "json \<Rightarrow> bool" where
  "usable v = (case v of JObj d \<Rightarrow> d \<noteq> [] \<and> (\<forall>p \<in> set d. is_dict (snd p)) | _ \<Rightarrow> False)"

definition read_manifest :: "world \<Rightarrow> string \<Rightarrow> nat \<Rightarrow> enrollment \<Rightarrow> json option \<times> enrollment" where
  "read_manifest w path t st =
     (case yaml_at w path of
        ReadFailed \<Rightarrow> (None, log_once (LogParse path t) st)
      | Yaml v \<Rightarrow> if usable v then (Some v, st) else (None, log_once (LogShape path t) st))"

definition load_manifest :: "world \<Rightarrow> string \<Rightarrow> enrollment \<Rightarrow> json option \<times> enrollment" where
  "load_manifest w root st =
     (let path = path_join root MANIFEST_FILENAME in
      case mtime w path of
        None \<Rightarrow> (None, log_once (LogMissing path) st)
      | Some t \<Rightarrow>
          if map_option fst (cache st path) = Some t then (snd (the (cache st path)), st)
          else (let (data, st) = read_manifest w path t st in
                (data, st\<lparr>cache := (cache st)(path \<mapsto> (t, data))\<rparr>)))"

section \<open>Features\<close>

text \<open>
  For each feature, does an entry belong to it (a value whose truth is taken), and does ddp-sync spell the
  federal jurisdiction \<open>usa\<close> there.
\<close>

definition UNSCHEDULED_STATUSES :: "string list" where
  "UNSCHEDULED_STATUSES = [''paused'', ''probing'']"

definition nested :: "string \<Rightarrow> string \<Rightarrow> json \<Rightarrow> json res" where
  "nested a b e = bind_res (subscript e a) (\<lambda>x. subscript x b)"

definition on_tier :: "string \<Rightarrow> json \<Rightarrow> json res" where
  "on_tier t e =
     bind_res (subscript e ''tier'') (\<lambda>x.
       if x \<noteq> JStr t then Inr (JBool False)
       else bind_res (subscript e ''status'') (\<lambda>s.
         Inr (JBool (s \<notin> JStr ` set UNSCHEDULED_STATUSES))))"

definition FEATURES :: "(string \<times> (json \<Rightarrow> json res) \<times> bool) list" where
  "FEATURES =
     [(''archive'', nested ''archive'' ''scheduled'', False),
      (''embedding'', nested ''enrollment'' ''embedding'', False),
      (''search_refresh'', nested ''enrollment'' ''search_refresh'', False),
      (''cloud_path'', nested ''enrollment'' ''cloud_path'', True),
      (''replica_routing'', nested ''enrollment'' ''replica_routing'', False),
      (''legbot_replica'', nested ''enrollment'' ''legbot_replica'', False),
      (''scrape_primary'', on_tier ''primary'', True),
      (''scrape_secondary'', on_tier ''secondary'', True)]"

text \<open>\<open>[c for c, entry in manifest.items() if predicate(entry)]\<close>, up to the first exception.\<close>

fun belonging :: "(json \<Rightarrow> json res) \<Rightarrow> (string \<times> json) list \<Rightarrow> string list res" where
  "belonging p [] = Inr []"
| "belonging p ((c, e) # es) =
     bind_res (p e) (\<lambda>b. bind_res (belonging p es) (\<lambda>cs. Inr (if truthy b then c # cs else cs)))"

definition spelled :: "bool \<Rightarrow> string \<Rightarrow> string" where
  "spelled uses_usa c = (if uses_usa \<and> c = ''us'' then ''usa'' else c)"

text \<open>An unknown feature is a \<open>KeyError\<close>; the entries only raise \<open>KeyError\<close> and \<open>TypeError\<close>.\<close>

definition manifest_codes :: "world \<Rightarrow> string \<Rightarrow> string \<Rightarrow> enrollment \<Rightarrow> string list option res \<times> enrollment" where
  "manifest_codes w feature root st =
     (case map_of FEATURES feature of
        None \<Rightarrow> (Inl (KeyError feature), st)
      | Some (predicate, uses_usa) \<Rightarrow>
          (case load_manifest w root st of
             (None, st) \<Rightarrow> (Inr None, st)
           | (Some manifest, st) \<Rightarrow>
               (case belonging predicate (case manifest of JObj d \<Rightarrow> d | _ \<Rightarrow> []) of
                  Inl _ \<Rightarrow> (Inr None, log_once (LogEntry root feature) st)
                | Inr codes \<Rightarrow> (Inr (Some (sort (map (spelled uses_usa) codes))), st))))"

definition DEFAULT_ROOT :: string where
  "DEFAULT_ROOT = ''/Users/agentsmith/Developer/repos/ddp-open-states''"

definition default_root :: "world \<Rightarrow> string" where
  "default_root w = (if root_var w \<noteq> [] then root_var w else DEFAULT_ROOT)"

definition manifest_name :: "world \<Rightarrow> string \<Rightarrow> string option \<Rightarrow> enrollment \<Rightarrow> string option \<times> enrollment" where
  "manifest_name w code root st =
     (let (manifest, st) = load_manifest w
            (case root of Some r \<Rightarrow> if r \<noteq> [] then r else default_root w | None \<Rightarrow> default_root w) st;
          entry = dict_get (case manifest of Some (JObj d) \<Rightarrow> d | _ \<Rightarrow> []) (lower (strip code));
          name = (case entry of JObj d \<Rightarrow> dict_get d ''name'' | _ \<Rightarrow> JNull) in
      (case name of JStr s \<Rightarrow> if strip s \<noteq> [] then Some (strip s) else None | _ \<Rightarrow> None, st))"

section \<open>Enrollment\<close>

definition authoritative :: "world \<Rightarrow> bool" where
  "authoritative w = (lower (strip (mode_var w)) = ''authoritative'')"

definition code_of :: "json \<Rightarrow> string" where
  "code_of c = lower (strip (json_str c))"

definition listed_codes :: "json \<Rightarrow> string list res" where
  "listed_codes v = bind_res (json_iter v) (\<lambda>cs. Inr (map code_of cs))"

definition minus :: "string list \<Rightarrow> string list \<Rightarrow> string list" where
  "minus xs ys = sorted_set (filter (\<lambda>x. x \<notin> set ys) xs)"

text \<open>\<open>yaml_codes\<close> is \<open>JNull\<close> when the yaml has no list; the answer \<open>None\<close> is "neither can say".\<close>

definition enrolled :: "world \<Rightarrow> string \<Rightarrow> json \<Rightarrow> string \<Rightarrow> enrollment \<Rightarrow> string list option res \<times> enrollment" where
  "enrolled w feature yaml_codes root st =
     (case manifest_codes w feature root st of
        (Inl e, st) \<Rightarrow> (Inl e, st)
      | (Inr manifest, st) \<Rightarrow>
          if yaml_codes = JNull then (Inr manifest, st)
          else (case listed_codes yaml_codes of
             Inl e \<Rightarrow> (Inl e, st)
           | Inr have_codes \<Rightarrow>
               (case manifest of
                  None \<Rightarrow> (Inr (Some have_codes), st)
                | Some codes \<Rightarrow>
                    (let only_yaml = minus have_codes codes; only_manifest = minus codes have_codes;
                         st = (if only_yaml \<noteq> [] \<or> only_manifest \<noteq> []
                               then log_once (LogDiffers feature only_yaml only_manifest) st else st) in
                     (Inr (Some (if authoritative w then codes else have_codes)), st)))))"

section \<open>The whole configuration\<close>

text \<open>\<open>listed(block, *keys)\<close>: \<open>None\<close> as soon as a level is not a dict or has no such key.\<close>

definition level :: "json \<Rightarrow> string \<Rightarrow> json" where
  "level block k = (case block of JObj d \<Rightarrow> dict_get d k | _ \<Rightarrow> JNull)"

definition listed :: "json \<Rightarrow> string list \<Rightarrow> string list option res" where
  "listed block ks =
     (let v = fold (\<lambda>k b. level b k) ks block in
      if v = JNull then Inr None else bind_res (listed_codes v) (\<lambda>cs. Inr (Some cs)))"

definition enabled_primary :: "json \<Rightarrow> string list option" where
  "enabled_primary primary =
     (case primary of
        JObj d \<Rightarrow> Some (sort (map (lower \<circ> fst) (filter (\<lambda>p. level (snd p) ''enabled'' = JBool True) d)))
      | _ \<Rightarrow> None)"

definition config_lists :: "json \<Rightarrow> (string \<times> string list option) list res" where
  "config_lists config =
     bind_res (attr_get config ''openstates_archive'' JNull) (\<lambda>a.
     bind_res (attr_get config ''openstates_scrape'' JNull) (\<lambda>s.
       let archive = or_empty a; scrape = or_empty s in
       bind_res (attr_get scrape ''primary'' JNull) (\<lambda>primary.
       bind_res (listed archive [''jurisdictions'']) (\<lambda>l1.
       bind_res (listed archive [''knowledge_base_embedding'', ''jurisdictions'']) (\<lambda>l2.
       bind_res (listed archive [''bill_search_refresh'', ''jurisdictions'']) (\<lambda>l3.
       bind_res (listed scrape [''cloud_path'', ''jurisdictions'']) (\<lambda>l4.
       bind_res (listed scrape [''secondary'', ''jurisdictions'']) (\<lambda>l6.
         Inr [(''archive'', l1), (''embedding'', l2), (''search_refresh'', l3), (''cloud_path'', l4),
              (''scrape_primary'', enabled_primary primary), (''scrape_secondary'', l6)]))))))))"

text \<open>A disagreement: the feature, what only the yaml has, what only the manifest has.\<close>

type_synonym disagreement = "string \<times> string list \<times> string list"

fun disagreements_of ::
  "world \<Rightarrow> string \<Rightarrow> (string \<times> string list option) list \<Rightarrow> enrollment \<Rightarrow> disagreement list res \<times> enrollment" where
  "disagreements_of w root [] st = (Inr [], st)"
| "disagreements_of w root ((feature, have_codes) # fs) st =
     (case manifest_codes w feature root st of
        (Inl e, st) \<Rightarrow> (Inl e, st)
      | (Inr want, st) \<Rightarrow>
          (case disagreements_of w root fs st of
             (Inl e, st) \<Rightarrow> (Inl e, st)
           | (Inr out, st) \<Rightarrow>
               (case (have_codes, want) of
                  (Some h, Some m) \<Rightarrow>
                    (if set h = set m then (Inr out, st) else (Inr ((feature, minus h m, minus m h) # out), st))
                | _ \<Rightarrow> (Inr out, st))))"

definition config_disagreements :: "world \<Rightarrow> json \<Rightarrow> string \<Rightarrow> enrollment \<Rightarrow> disagreement list res \<times> enrollment" where
  "config_disagreements w config root st =
     (case config_lists config of
        Inl e \<Rightarrow> (Inl e, st)
      | Inr fs \<Rightarrow> disagreements_of w root fs st)"

text \<open>The log lines of this function repeat at every call, so they are not part of the state.\<close>

definition log_config_disagreements :: "world \<Rightarrow> json \<Rightarrow> string \<Rightarrow> enrollment \<Rightarrow> nat \<times> enrollment" where
  "log_config_disagreements w config root st =
     (case config_disagreements w config root st of
        (Inl _, st) \<Rightarrow> (0, st)
      | (Inr found, st) \<Rightarrow> (length found, if found = [] then snd (load_manifest w root st) else st))"

section \<open>The state is well formed\<close>

text \<open>
  What every operation keeps: no line is logged twice, and a manifest in the cache can be used.
\<close>

definition enrollment_ok :: "enrollment \<Rightarrow> bool" where
  "enrollment_ok st = (distinct (logged st) \<and> (\<forall>path t v. cache st path = Some (t, Some v) \<longrightarrow> usable v))"

text \<open>Nothing is forgotten: the log only grows.\<close>

definition later :: "enrollment \<Rightarrow> enrollment \<Rightarrow> bool" where
  "later st st' = (\<exists>ks. logged st' = logged st @ ks)"

lemma later_refl [simp]: "later st st"
  by (simp add: later_def)

lemma later_trans: "later a b \<Longrightarrow> later b c \<Longrightarrow> later a c"
  by (auto simp: later_def)

lemma log_once_ok: "enrollment_ok st \<Longrightarrow> enrollment_ok (log_once k st) \<and> later st (log_once k st)"
  by (auto simp: enrollment_ok_def later_def log_once_def)

lemma log_once_cache [simp]: "cache (log_once k st) = cache st"
  by (simp add: log_once_def)

lemma later_cache [simp]: "later st (st'\<lparr>cache := c\<rparr>) \<longleftrightarrow> later st st'"
  by (simp add: later_def)

lemma load_manifest_ok:
  assumes "enrollment_ok st" "load_manifest w root st = (m, st')"
  shows "enrollment_ok st' \<and> later st st' \<and> (\<forall>v. m = Some v \<longrightarrow> usable v)"
proof (cases "mtime w (path_join root MANIFEST_FILENAME)")
  case None
  then show ?thesis using assms log_once_ok by (auto simp: load_manifest_def Let_def)
next
  case (Some t)
  let ?path = "path_join root MANIFEST_FILENAME"
  show ?thesis
  proof (cases "map_option fst (cache st ?path) = Some t")
    case True
    then show ?thesis using assms Some by (auto simp: load_manifest_def Let_def enrollment_ok_def)
  next
    case False
    obtain d st1 where r: "read_manifest w ?path t st = (d, st1)" by (cases "read_manifest w ?path t st")
    have "enrollment_ok st1 \<and> later st st1 \<and> (\<forall>v. d = Some v \<longrightarrow> usable v)"
      using r assms(1) log_once_ok by (auto simp: read_manifest_def split: yaml_read.splits if_splits)
    then show ?thesis
      using assms(2) Some False r by (auto simp: load_manifest_def Let_def enrollment_ok_def split: if_splits)
  qed
qed

lemma manifest_codes_ok:
  assumes "enrollment_ok st" "manifest_codes w feature root st = (m, st')"
  shows "enrollment_ok st' \<and> later st st'"
  using assms load_manifest_ok[OF assms(1), of w root] log_once_ok later_trans
  by (auto simp: manifest_codes_def split: option.splits prod.splits sum.splits)

lemma enrolled_ok:
  assumes "enrollment_ok st" "enrolled w feature y root st = (m, st')"
  shows "enrollment_ok st' \<and> later st st'"
proof -
  obtain c st1 where c: "manifest_codes w feature root st = (c, st1)" by (cases "manifest_codes w feature root st")
  then have "enrollment_ok st1 \<and> later st st1" by (rule manifest_codes_ok[OF assms(1)])
  with c assms(2) log_once_ok later_trans show ?thesis
    by (fastforce simp: enrolled_def Let_def split: sum.splits option.splits if_splits)
qed

lemma disagreements_ok:
  "enrollment_ok st \<Longrightarrow> disagreements_of w root fs st = (m, st') \<Longrightarrow> enrollment_ok st' \<and> later st st'"
proof (induction fs arbitrary: st m st')
  case Nil
  then show ?case by simp
next
  case (Cons f fs)
  obtain feature h where f: "f = (feature, h)" by (cases f)
  obtain c st1 where c: "manifest_codes w feature root st = (c, st1)" by (cases "manifest_codes w feature root st")
  have ok1: "enrollment_ok st1 \<and> later st st1" by (rule manifest_codes_ok[OF Cons.prems(1) c])
  obtain d st2 where d: "disagreements_of w root fs st1 = (d, st2)" by (cases "disagreements_of w root fs st1")
  have "enrollment_ok st2 \<and> later st1 st2" using Cons.IH[OF _ d] ok1 by blast
  moreover have "st' = st1 \<or> st' = st2"
    using Cons.prems(2) by (auto simp: f c d split: sum.splits option.splits if_splits)
  ultimately show ?case using ok1 later_trans by blast
qed

lemma log_config_disagreements_ok:
  assumes "enrollment_ok st" "log_config_disagreements w config root st = (n, st')"
  shows "enrollment_ok st' \<and> later st st'"
proof -
  obtain d st1 where d: "config_disagreements w config root st = (d, st1)"
    by (cases "config_disagreements w config root st")
  have ok1: "enrollment_ok st1 \<and> later st st1"
    using d assms(1) disagreements_ok by (auto simp: config_disagreements_def split: sum.splits)
  obtain m st2 where m: "load_manifest w root st1 = (m, st2)" by (cases "load_manifest w root st1")
  have "enrollment_ok st2 \<and> later st1 st2" using load_manifest_ok[OF _ m] ok1 by blast
  moreover have "st' = st1 \<or> st' = st2"
    using assms(2) by (auto simp: log_config_disagreements_def d m split: sum.splits if_splits)
  ultimately show ?thesis using ok1 later_trans by blast
qed

section \<open>What the manifest answers\<close>

lemma belonging_exact:
  assumes "belonging p es = Inr cs"
  shows "cs = map fst (filter (\<lambda>(c, e). \<exists>b. p e = Inr b \<and> truthy b) es)"
    and "\<forall>(c, e) \<in> set es. \<exists>b. p e = Inr b"
  using assms by (induction p es arbitrary: cs rule: belonging.induct) (auto simp: bind_res_Inr_iff)

lemma belonging_Inr:
  "\<forall>(c, e) \<in> set es. \<exists>b. p e = Inr b \<Longrightarrow> \<exists>cs. belonging p es = Inr cs"
proof (induction p es rule: belonging.induct)
  case (1 p)
  show ?case by simp
next
  case (2 p c e es)
  from 2 obtain cs b where "belonging p es = Inr cs" "p e = Inr b" by auto
  then show ?case by simp
qed

lemma usable_obj: "usable v \<Longrightarrow> \<exists>d. v = JObj d \<and> d \<noteq> []"
  by (auto simp: usable_def split: json.splits)

text \<open>\<open>manifest_codes\<close> of a known feature never raises, and answers a sorted list.\<close>

lemma manifest_codes_total:
  assumes "feature \<in> fst ` set FEATURES"
  shows "\<exists>m. fst (manifest_codes w feature root st) = Inr m \<and> (\<forall>cs. m = Some cs \<longrightarrow> sorted cs)"
proof -
  obtain predicate uses_usa where f: "map_of FEATURES feature = Some (predicate, uses_usa)"
    using assms by (metis eq_snd_iff map_of_eq_None_iff not_Some_eq)
  obtain m st1 where "load_manifest w root st = (m, st1)" by (cases "load_manifest w root st")
  then show ?thesis
    by (auto simp: manifest_codes_def f split: option.splits sum.splits)
qed

lemma log_once_id: "k \<in> set (logged st) \<Longrightarrow> log_once k st = st"
  by (simp add: log_once_def)

lemma log_once_mem [simp]: "k \<in> set (logged (log_once k st))"
  by (simp add: log_once_def)

lemma log_once_sub: "set (logged (log_once k st)) \<subseteq> set (logged st2) \<Longrightarrow> log_once k st2 = st2"
  using log_once_mem[of k st] by (intro log_once_id) blast

text \<open>A second load in an unchanged world is answered from the cache, and logs nothing.\<close>

lemma load_manifest_settled:
  assumes "load_manifest w root st = (m, st1)"
    and "cache st2 = cache st1" "set (logged st1) \<subseteq> set (logged st2)"
  shows "load_manifest w root st2 = (m, st2)"
proof (cases "mtime w (path_join root MANIFEST_FILENAME)")
  case None
  with assms have "LogMissing (path_join root MANIFEST_FILENAME) \<in> set (logged st2)" "m = None"
    by (auto simp: load_manifest_def Let_def)
  then show ?thesis using None by (simp add: load_manifest_def Let_def log_once_id)
next
  case (Some t)
  then have "cache st1 (path_join root MANIFEST_FILENAME) = Some (t, m)"
    using assms(1) by (auto simp: load_manifest_def Let_def split: if_splits prod.splits)
  then show ?thesis using Some assms(2) by (simp add: load_manifest_def Let_def)
qed

lemma manifest_codes_settled:
  assumes "manifest_codes w feature root st = (m, st1)"
    and "cache st2 = cache st1" "set (logged st1) \<subseteq> set (logged st2)"
  shows "manifest_codes w feature root st2 = (m, st2)"
proof (cases "map_of FEATURES feature")
  case None
  then show ?thesis using assms(1) by (simp add: manifest_codes_def)
next
  case (Some f)
  obtain p usa where f: "f = (p, usa)" by (cases f)
  obtain d st0 where l: "load_manifest w root st = (d, st0)" by (cases "load_manifest w root st")
  have st0: "cache st1 = cache st0 \<and> set (logged st0) \<subseteq> set (logged st1)"
    using assms(1) by (auto simp: manifest_codes_def Some f l log_once_def split: option.splits sum.splits)
  have "load_manifest w root st2 = (d, st2)"
    using load_manifest_settled[OF l, of st2] st0 assms(2,3) by auto
  then show ?thesis
    using assms(1,3) by (auto simp: manifest_codes_def Some f l log_once_sub split: option.splits sum.splits)
qed

lemma enrolled_settled:
  assumes "enrolled w feature y root st = (r, st1)"
  shows "enrolled w feature y root st1 = (r, st1)"
proof -
  obtain m st0 where c: "manifest_codes w feature root st = (m, st0)" by (cases "manifest_codes w feature root st")
  have later: "cache st1 = cache st0 \<and> set (logged st0) \<subseteq> set (logged st1)"
    using assms c by (auto simp: enrolled_def Let_def log_once_def split: sum.splits option.splits if_splits)
  then have "manifest_codes w feature root st1 = (m, st1)"
    using manifest_codes_settled[OF c] by simp
  with assms c show ?thesis
    by (auto simp: enrolled_def Let_def log_once_id split: sum.splits option.splits if_splits)
qed

section \<open>Properties\<close>


definition demo_world :: world where
  "demo_world = \<lparr>mtime = (\<lambda>_. Some 7), yaml_at = (\<lambda>_. Yaml (JObj
     [(''ut'', JObj [(''tier'', JStr ''primary''), (''status'', JStr ''live'')]),
      (''us'', JObj [(''tier'', JStr ''primary''), (''status'', JStr ''live'')]),
      (''va'', JObj [(''tier'', JStr ''primary''), (''status'', JStr ''paused'')])])),
     mode_var = '' Authoritative'', root_var = []\<rparr>"

definition no_state :: enrollment where
  "no_state = \<lparr>cache = Map.empty, logged = []\<rparr>"


text \<open>What a consumer gets. For a known feature and a yaml list, \<open>enrolled\<close> never raises and always has a list: in
  shadow mode it is the yaml's own list, whatever the manifest says or fails to say; in authoritative mode it
  is the manifest's, sorted and with ddp-sync's spelling of the federal jurisdiction, exactly the
  entries that belong, and the yaml's list when the manifest cannot answer. Only a yaml without a list can have no
  answer. Asking again in an unchanged world gives the same answer, reads no file again and logs nothing more.\<close>

lemma enrolled_answers:
  assumes "enrollment_ok st" "map_of FEATURES feature = Some (p, usa)"
    and "y \<noteq> JNull" "listed_codes y = Inr have_codes"
  shows "fst (enrolled w feature y root st) = Inr (Some (if authoritative w
        then (case fst (load_manifest w root st) of
            Some (JObj d) \<Rightarrow>
              if \<forall>(c, e) \<in> set d. \<exists>b. p e = Inr b
              then sort (map (spelled usa \<circ> fst) (filter (\<lambda>(c, e). p e \<in> Inr ` Collect truthy) d))
              else have_codes
          | _ \<Rightarrow> have_codes)
        else have_codes)) \<and>
    (fst (enrolled w feature JNull root st) = Inr None \<longrightarrow>
      fst (enrolled w feature y root st) = Inr (Some have_codes)) \<and>
    (\<forall>z r st1. enrolled w feature z root st = (r, st1) \<longrightarrow> enrolled w feature z root st1 = (r, st1))"
proof -
  obtain m st1 where l: "load_manifest w root st = (m, st1)" by (cases "load_manifest w root st")
  define codes where "codes = (case m of
      Some (JObj d) \<Rightarrow>
        if \<forall>(c, e) \<in> set d. \<exists>b. p e = Inr b
        then Some (sort (map (spelled usa \<circ> fst) (filter (\<lambda>(c, e). p e \<in> Inr ` Collect truthy) d)))
        else None
    | _ \<Rightarrow> None)"
  have obj: "m = None \<or> (\<exists>d. m = Some (JObj d))"
    using load_manifest_ok[OF assms(1) l] usable_obj by (cases m) blast+
  have filtered: "filter (\<lambda>(c, e). p e \<in> Inr ` Collect truthy) d = filter (\<lambda>(c, e). \<exists>b. p e = Inr b \<and> truthy b) d" for d
    by (rule filter_cong) auto
  have c: "fst (manifest_codes w feature root st) = Inr codes"
  proof (cases m)
    case None
    then show ?thesis by (simp add: manifest_codes_def assms(2) l codes_def)
  next
    case (Some v)
    with obj obtain d where m: "m = Some (JObj d)" by blast
    show ?thesis
    proof (cases "\<forall>(c, e) \<in> set d. \<exists>b. p e = Inr b")
      case True
      then obtain cs where b: "belonging p d = Inr cs" using belonging_Inr by blast
      have "cs = map fst (filter (\<lambda>(c, e). \<exists>b. p e = Inr b \<and> truthy b) d)"
        by (rule belonging_exact(1)[OF b])
      then show ?thesis
        using True by (simp add: manifest_codes_def assms(2) l m b codes_def filtered)
    next
      case False
      then obtain e where "belonging p d = Inl e"
        using belonging_exact(2)[of p d] by (cases "belonging p d") blast+
      then show ?thesis
        using False by (simp add: manifest_codes_def assms(2) l m codes_def)
    qed
  qed
  obtain st2 where mc: "manifest_codes w feature root st = (Inr codes, st2)"
    using c by (metis fst_conv surj_pair)
  have answer: "fst (enrolled w feature y root st) =
      Inr (Some (if authoritative w then (case codes of None \<Rightarrow> have_codes | Some cs \<Rightarrow> cs) else have_codes))"
    using assms(3,4) by (auto simp: enrolled_def mc Let_def split: option.splits)
  have "(case codes of None \<Rightarrow> have_codes | Some cs \<Rightarrow> cs) = (case fst (load_manifest w root st) of
            Some (JObj d) \<Rightarrow>
              if \<forall>(c, e) \<in> set d. \<exists>b. p e = Inr b
              then sort (map (spelled usa \<circ> fst) (filter (\<lambda>(c, e). p e \<in> Inr ` Collect truthy) d))
              else have_codes
          | _ \<Rightarrow> have_codes)"
    using obj by (auto simp: codes_def l)
  moreover have "fst (enrolled w feature JNull root st) = Inr None \<Longrightarrow> codes = None"
    by (simp add: enrolled_def mc)
  ultimately show ?thesis
    using answer enrolled_settled by auto
qed

definition demo_entries :: "(string \<times> json) list" where
  "demo_entries =
     [(''ut'', JObj [(''tier'', JStr ''primary''), (''status'', JStr ''live'')]),
      (''us'', JObj [(''tier'', JStr ''primary''), (''status'', JStr ''live'')]),
      (''va'', JObj [(''tier'', JStr ''primary''), (''status'', JStr ''paused'')])]"

lemma enrolled_answers_witness:
  "fst (enrolled demo_world ''scrape_primary'' (JArr [JStr ''fl'']) ''/r'' no_state) = Inr (Some [''usa'', ''ut''])"
proof -
  have ok: "enrollment_ok no_state" by (simp add: enrollment_ok_def no_state_def)
  have feature: "map_of FEATURES ''scrape_primary'' = Some (on_tier ''primary'', True)"
    by (simp add: FEATURES_def)
  have yaml: "listed_codes (JArr [JStr ''fl'']) = Inr [''fl'']"
    by (simp add: listed_codes_def code_of_def json_str_def) code_simp
  have mode: "authoritative demo_world"
    by (simp add: authoritative_def demo_world_def) code_simp
  have manifest: "fst (load_manifest demo_world ''/r'' no_state) = Some (JObj demo_entries)"
    by (simp add: load_manifest_def demo_world_def no_state_def read_manifest_def usable_def demo_entries_def)
  have belong: "on_tier ''primary'' (JObj [(''tier'', JStr ''primary''), (''status'', JStr s)]) = Inr (JBool (s \<notin> {''paused'', ''probing''}))" for s
    by (auto simp: on_tier_def UNSCHEDULED_STATUSES_def)
  have entries: "\<forall>(c, e) \<in> set demo_entries. \<exists>b. on_tier ''primary'' e = Inr b"
    by (simp add: demo_entries_def belong)
  have chosen: "map (spelled True \<circ> fst) (filter (\<lambda>(c, e). on_tier ''primary'' e \<in> Inr ` Collect truthy) demo_entries) = [''ut'', ''usa'']"
    by (simp add: demo_entries_def belong image_iff spelled_def)
  have "sort [''ut'', ''usa''] = [''usa'', ''ut'']" by code_simp
  then show ?thesis
    using enrolled_answers[OF ok feature _ yaml, of demo_world "''/r''", THEN conjunct1] mode manifest entries chosen by simp
qed

end
