(* ===== verification/ScrapeGates.thy ===== *)
theory ScrapeGates
  imports Enrollment
begin

text \<open>
  The per-jurisdiction decisions of the scrape pipeline that are read from \<open>sync_schedule.yaml\<close>
  (\<open>pipelines/openstates_scrape.py\<close>): which jurisdictions are opted into which mechanism, who owns a
  jurisdiction, and whether a first scrape is refused because no legislators are loaded. The configuration is a
  document, \<open>JNull\<close> when there is none, and a block of the wrong shape raises.
\<close>

section \<open>Reading a block\<close>

text \<open>\<open>(config or {}).get(a, {}).get(b, {})\<close>\<close>

fun block_at :: "json \<Rightarrow> string list \<Rightarrow> json res" where
  "block_at v [] = Inr v"
| "block_at v (k # ks) = bind_res (attr_get v k (JObj [])) (\<lambda>b. block_at b ks)"

definition block_enabled :: "json \<Rightarrow> bool res" where
  "block_enabled cfg = bind_res (attr_get cfg ''enabled'' (JBool False)) (\<lambda>v. Inr (truthy v))"

definition listed_in :: "string \<Rightarrow> json \<Rightarrow> string \<Rightarrow> bool res" where
  "listed_in jurisdiction cfg key = bind_res (attr_get cfg key (JArr [])) (str_in jurisdiction)"

text \<open>The shape of every opt-in: an enabled block, and a list the jurisdiction is in.\<close>

definition opted_in :: "json \<Rightarrow> string list \<Rightarrow> string \<Rightarrow> bool res" where
  "opted_in config ks jurisdiction =
     bind_res (block_at (or_empty config) ks) (\<lambda>cfg.
     bind_res (block_enabled cfg) (\<lambda>on.
       if \<not> on then Inr False else listed_in jurisdiction cfg ''jurisdictions''))"

section \<open>The gates\<close>

definition get_root :: "world \<Rightarrow> json \<Rightarrow> string res" where
  "get_root w config =
     (if root_var w \<noteq> [] then Inr (root_var w)
      else bind_res (attr_get (or_empty config) ''openstates_root'' (JStr DEFAULT_ROOT)) (\<lambda>v.
        case v of JStr s \<Rightarrow> Inr s | _ \<Rightarrow> Inl TypeError))"

definition scrapebot_eligible :: "string \<Rightarrow> json \<Rightarrow> bool res" where
  "scrapebot_eligible jurisdiction config = opted_in config [''secondary'', ''scrapebot_fallback''] jurisdiction"

definition sweep_import_eligible :: "string \<Rightarrow> json \<Rightarrow> bool res" where
  "sweep_import_eligible jurisdiction config = opted_in config [''sweep_import''] jurisdiction"

definition retry_eligible :: "string \<Rightarrow> json \<Rightarrow> bool res" where
  "retry_eligible jurisdiction config =
     bind_res (block_at (or_empty config) [''scrape_retry'']) (\<lambda>cfg.
     bind_res (block_enabled cfg) (\<lambda>on.
       if \<not> on then Inr False
       else bind_res (listed_in jurisdiction cfg ''jurisdictions_excluded'') (\<lambda>out.
         if out then Inr False else listed_in jurisdiction cfg ''jurisdictions'')))"

definition cloud_path_jurisdictions :: "world \<Rightarrow> json \<Rightarrow> json \<Rightarrow> enrollment \<Rightarrow> string list res \<times> enrollment" where
  "cloud_path_jurisdictions w cloud_cfg config st =
     (case bind_res (attr_get cloud_cfg ''jurisdictions'' (JArr [])) (\<lambda>y. bind_res (get_root w config) (\<lambda>root. Inr (y, root))) of
        Inl e \<Rightarrow> (Inl e, st)
      | Inr (y, root) \<Rightarrow>
          (case enrolled w ''cloud_path'' y root st of
             (Inl e, st) \<Rightarrow> (Inl e, st)
           | (Inr codes, st) \<Rightarrow> (Inr (case codes of None \<Rightarrow> [] | Some l \<Rightarrow> l), st)))"

definition cloud_path_owns :: "world \<Rightarrow> string \<Rightarrow> json \<Rightarrow> enrollment \<Rightarrow> bool res \<times> enrollment" where
  "cloud_path_owns w jurisdiction config st =
     (case bind_res (block_at (or_empty config) [''cloud_path'']) (\<lambda>cfg. bind_res (block_enabled cfg) (\<lambda>on. Inr (cfg, on))) of
        Inl e \<Rightarrow> (Inl e, st)
      | Inr (cfg, on) \<Rightarrow>
          if \<not> on then (Inr False, st)
          else (case cloud_path_jurisdictions w cfg config st of
             (Inl e, st) \<Rightarrow> (Inl e, st)
           | (Inr l, st) \<Rightarrow> (Inr (jurisdiction \<in> set l), st)))"

definition memory_backend_enabled :: "world \<Rightarrow> string \<Rightarrow> json \<Rightarrow> enrollment \<Rightarrow> bool res \<times> enrollment" where
  "memory_backend_enabled w jurisdiction config st =
     (case block_at (or_empty config) [''cloud_path''] of
        Inl e \<Rightarrow> (Inl e, st)
      | Inr cfg \<Rightarrow>
          (case cloud_path_jurisdictions w cfg config st of
             (Inl e, st) \<Rightarrow> (Inl e, st)
           | (Inr l, st) \<Rightarrow>
               (if jurisdiction \<in> set l then Inr True
                else listed_in jurisdiction cfg ''memory_backend_jurisdictions'', st)))"

definition full_walk_eligible :: "string \<Rightarrow> json \<Rightarrow> (bool \<times> int) res" where
  "full_walk_eligible jurisdiction config =
     bind_res (block_at (or_empty config) [''full_walk'']) (\<lambda>cfg.
     bind_res (block_enabled cfg) (\<lambda>on.
       if \<not> on then Inr (False, 0)
       else bind_res (listed_in jurisdiction cfg ''jurisdictions'') (\<lambda>member.
         if \<not> member then Inr (False, 0)
         else bind_res (attr_get cfg ''interval_days'' (JInt 30)) (\<lambda>v.
           let interval_days = int_or 0 v in
           if interval_days \<le> 0 then Inr (False, 0) else Inr (True, interval_days)))))"

section \<open>People before the first scrape\<close>

definition STATES_THAT_NEED_PEOPLE :: "string list" where
  "STATES_THAT_NEED_PEOPLE = [''scraping'', ''validating'', ''archived'']"

datatype refusal = PeopleCountUnreadable string | NoPeople string

text \<open>
  \<open>skip\<close> and \<open>checked\<close> are the two context variables, \<open>count\<close> what api-v3 answers for the code (\<open>None\<close>
  when it cannot be read).
\<close>

definition people_check_refusal ::
  "world \<Rightarrow> bool \<Rightarrow> bool \<Rightarrow> (string \<Rightarrow> int option) \<Rightarrow> string \<Rightarrow> json \<Rightarrow> enrollment \<Rightarrow> refusal option res \<times> enrollment" where
  "people_check_refusal w skip checked count jurisdiction config st =
     (let code = (if lower jurisdiction = ''usa'' then ''us'' else lower jurisdiction) in
      case get_root w config of
        Inl e \<Rightarrow> (Inl e, st)
      | Inr root \<Rightarrow>
          (let (manifest, st) = load_manifest w root st;
               entry = dict_get (case manifest of Some (JObj d) \<Rightarrow> d | _ \<Rightarrow> []) code in
           (if \<not> is_dict entry \<or> level entry ''status'' \<notin> JStr ` set STATES_THAT_NEED_PEOPLE then Inr None
            else if skip \<or> checked then Inr None
            else Inr (case count code of
                None \<Rightarrow> Some (PeopleCountUnreadable code)
              | Some n \<Rightarrow> if n = 0 then Some (NoPeople code) else None), st)))"

section \<open>Facts about the gates\<close>

lemma opted_in_None [simp]: "ks \<noteq> [] \<Longrightarrow> opted_in JNull ks jurisdiction = Inr False"
proof -
  have "block_at (JObj []) ks = Inr (JObj [])" by (induction ks) auto
  then show ?thesis by (simp add: opted_in_def or_empty_def block_enabled_def)
qed

lemma retry_excluded:
  assumes "block_at (or_empty config) [''scrape_retry''] = Inr cfg"
    and "listed_in jurisdiction cfg ''jurisdictions_excluded'' = Inr True"
  shows "retry_eligible jurisdiction config = Inr b \<Longrightarrow> \<not> b"
  using assms by (auto simp: retry_eligible_def bind_res_Inr_iff split: if_splits)

lemma cloud_owner_has_memory:
  assumes "cloud_path_owns w jurisdiction config st = (Inr True, st1)"
  shows "fst (memory_backend_enabled w jurisdiction config st) = Inr True"
  using assms
  by (auto simp: cloud_path_owns_def memory_backend_enabled_def bind_res_Inr_iff bind_res_Inl_iff
      split: sum.splits if_splits prod.splits)

lemma full_walk_interval:
  "full_walk_eligible jurisdiction config = Inr (on, days) \<Longrightarrow> if on then 0 < days else days = 0"
  by (auto simp: full_walk_eligible_def bind_res_Inr_iff Let_def split: if_splits)

section \<open>Properties\<close>

text \<open>The gates are closed by default and consistent. Without a configuration no jurisdiction is opted into anything;
  a jurisdiction on the exclusion list is never retried, even when it is also on the list of retried ones; a forced
  full walk always has a positive interval, so a bad value in the yaml turns it off; a jurisdiction the cloud path owns
  has its memory in the shared store; and a jurisdiction whose manifest status is scraping, validating or
  archived is let through only by an explicit override, an earlier check, or a count of legislators that was
  read and is not zero.\<close>

lemma gates_fail_closed:
  shows "scrapebot_eligible j JNull = Inr False \<and> sweep_import_eligible j JNull = Inr False \<and>
      retry_eligible j JNull = Inr False \<and> full_walk_eligible j JNull = Inr (False, 0) \<and>
      cloud_path_owns w j JNull st = (Inr False, st) \<and>
    (\<forall>config cfg xs. block_at (or_empty config) [''scrape_retry''] = Inr (JObj cfg) \<and>
        map_of cfg ''jurisdictions_excluded'' = Some (JArr xs) \<and> JStr j \<in> set xs \<longrightarrow>
      retry_eligible j config \<noteq> Inr True) \<and>
    (\<forall>config on days. full_walk_eligible j config = Inr (on, days) \<longrightarrow> (if on then 0 < days else days = 0)) \<and>
    (\<forall>config st1. cloud_path_owns w j config st = (Inr True, st1) \<longrightarrow>
      fst (memory_backend_enabled w j config st) = Inr True) \<and>
    (\<forall>config root d e st1. get_root w config = Inr root \<and> fst (load_manifest w root st) = Some (JObj d) \<and>
        map_of d (if lower j = ''usa'' then ''us'' else lower j) = Some (JObj e) \<and>
        dict_get e ''status'' \<in> {JStr ''scraping'', JStr ''validating'', JStr ''archived''} \<and>
        people_check_refusal w skip checked count j config st = (Inr None, st1) \<longrightarrow>
      skip \<or> checked \<or> (\<exists>n. count (if lower j = ''usa'' then ''us'' else lower j) = Some n \<and> n \<noteq> 0))"
proof (intro conjI allI impI)
  show "scrapebot_eligible j JNull = Inr False" "sweep_import_eligible j JNull = Inr False"
    by (simp_all add: scrapebot_eligible_def sweep_import_eligible_def)
  show "retry_eligible j JNull = Inr False" "full_walk_eligible j JNull = Inr (False, 0)"
    "cloud_path_owns w j JNull st = (Inr False, st)"
    by (simp_all add: retry_eligible_def full_walk_eligible_def cloud_path_owns_def or_empty_def block_enabled_def)
  fix config cfg xs
  assume "block_at (or_empty config) [''scrape_retry''] = Inr (JObj cfg) \<and>
        map_of cfg ''jurisdictions_excluded'' = Some (JArr xs) \<and> JStr j \<in> set xs"
  then show "retry_eligible j config \<noteq> Inr True"
    using retry_excluded[of config "JObj cfg" j True] by (auto simp: listed_in_def)
next
  fix config on days
  assume "full_walk_eligible j config = Inr (on, days)"
  then show "if on then 0 < days else days = 0" by (rule full_walk_interval)
next
  fix config st1
  assume "cloud_path_owns w j config st = (Inr True, st1)"
  then show "fst (memory_backend_enabled w j config st) = Inr True" by (rule cloud_owner_has_memory)
next
  fix config root d e st1
  assume a: "get_root w config = Inr root \<and> fst (load_manifest w root st) = Some (JObj d) \<and>
        map_of d (if lower j = ''usa'' then ''us'' else lower j) = Some (JObj e) \<and>
        dict_get e ''status'' \<in> {JStr ''scraping'', JStr ''validating'', JStr ''archived''} \<and>
        people_check_refusal w skip checked count j config st = (Inr None, st1)"
  obtain m st2 where l: "load_manifest w root st = (m, st2)" by (cases "load_manifest w root st")
  define code where "code = (if lower j = ''usa'' then ''us'' else lower j)"
  have "m = Some (JObj d)" using a l by simp
  moreover have "dict_get d code = JObj e" using a by (simp add: dict_get_def code_def)
  moreover have "level (JObj e) ''status'' \<in> JStr ` set STATES_THAT_NEED_PEOPLE"
    using a by (auto simp: level_def STATES_THAT_NEED_PEOPLE_def)
  ultimately have "skip \<or> checked \<or> (case count code of None \<Rightarrow> Some (PeopleCountUnreadable code)
      | Some n \<Rightarrow> if n = 0 then Some (NoPeople code) else None) = None"
    using a l by (auto simp: people_check_refusal_def Let_def code_def[symmetric] split: if_splits)
  then show "skip \<or> checked \<or> (\<exists>n. count (if lower j = ''usa'' then ''us'' else lower j) = Some n \<and> n \<noteq> 0)"
    by (auto simp: code_def[symmetric] split: option.splits if_splits)
qed

definition retry_config :: json where
  "retry_config = JObj [(''scrape_retry'', JObj [(''enabled'', JBool True), (''jurisdictions'', JArr [JStr ''mi'', JStr ''ma'']),
     (''jurisdictions_excluded'', JArr [JStr ''mi''])])]"

lemma gates_fail_closed_witness:
  "retry_eligible ''mi'' retry_config = Inr False \<and> retry_eligible ''ma'' retry_config = Inr True"
proof -
  have "retry_eligible ''mi'' retry_config \<noteq> Inr True"
    using gates_fail_closed[of "''mi''" demo_world no_state False False "\<lambda>_. None"]
    by (simp add: retry_config_def or_empty_def)
  moreover have "\<exists>b. retry_eligible ''mi'' retry_config = Inr b" "retry_eligible ''ma'' retry_config = Inr True"
    by (simp_all add: retry_eligible_def retry_config_def or_empty_def block_enabled_def listed_in_def ex_bool_eq)
  ultimately show ?thesis by (metis (full_types))
qed

end
