(* ===== verification/RedisStore.thy ===== *)
theory RedisStore
  imports Redis
begin

text \<open>
  The shared state store (\<open>services/redis_store.py\<close>). Every method takes the client,
  \<open>None\<close> when the store is not connected, and threads the state of the server; a command that
  raised leaves the method by its \<open>except\<close> branch. A value read back is a \<open>json\<close>, where
  \<open>JNull\<close> is Python's \<open>None\<close>. The client is built with \<open>decode_responses=True\<close>, so no
  value is \<open>bytes\<close>; log lines are not modelled.
\<close>

section \<open>Keys and expiries\<close>

definition ACTIVE_JURISDICTIONS_KEY :: string where "ACTIVE_JURISDICTIONS_KEY = ''ddp:active_jurisdictions''"
definition SYNC_CHECKPOINT_PREFIX :: string where "SYNC_CHECKPOINT_PREFIX = ''ddp:sync:checkpoint:''"
definition SYNC_CHECKPOINT_TTL :: nat where "SYNC_CHECKPOINT_TTL = 86400"
definition BILL_VERSION_PREFIX :: string where "BILL_VERSION_PREFIX = ''ddp:bill_version:''"
definition BILL_VERSION_TTL :: nat where "BILL_VERSION_TTL = 86400 * 90"
definition KB_EMBED_WATERMARK_PREFIX :: string where "KB_EMBED_WATERMARK_PREFIX = ''ddp:kb_embed:since:''"
definition KB_EMBED_WATERMARK_TTL :: nat where "KB_EMBED_WATERMARK_TTL = 86400 * 30"
definition KB_BACKFILL_CHECKPOINT_PREFIX :: string where "KB_BACKFILL_CHECKPOINT_PREFIX = ''ddp:kb_backfill:''"
definition KB_BACKFILL_CHECKPOINT_TTL :: nat where "KB_BACKFILL_CHECKPOINT_TTL = 86400 * 90"
definition BILL_STATUS_PREFIX :: string where "BILL_STATUS_PREFIX = ''ddp:bill_status:''"
definition BILL_STATUS_TTL :: nat where "BILL_STATUS_TTL = 86400 * 90"
definition FLOW_STATUS_PREFIX :: string where "FLOW_STATUS_PREFIX = ''ddp:flow:''"
definition FLOW_STATUS_TTL :: nat where "FLOW_STATUS_TTL = 86400 * 7"
definition SYNC_TASK_PREFIX :: string where "SYNC_TASK_PREFIX = ''ddp:sync:task:''"
definition SYNC_TASK_TTL :: nat where "SYNC_TASK_TTL = 86400"
definition VERIFY_RUN_PREFIX :: string where "VERIFY_RUN_PREFIX = ''ddp:verify_org_citations:run:''"
definition VERIFY_RUN_TTL :: nat where "VERIFY_RUN_TTL = 86400 * 7"
definition SLACK_CITATIONS_PROCESSED_KEY :: string where
  "SLACK_CITATIONS_PROCESSED_KEY = ''ddp:slack_citations:processed''"
definition LEGBOT_TASK_PREFIX :: string where "LEGBOT_TASK_PREFIX = ''ddp:legbot:task:''"
definition LEGBOT_TASK_TTL :: nat where "LEGBOT_TASK_TTL = 86400 * 7"
definition RUN_HISTORY_PREFIX :: string where "RUN_HISTORY_PREFIX = ''ddp:flow_history:''"
definition RUN_HISTORY_TTL :: nat where "RUN_HISTORY_TTL = 86400 * 30"
definition CADENCE_PREFIX :: string where "CADENCE_PREFIX = ''ddp:scrape_cadence:''"

section \<open>Connection\<close>

text \<open>\<open>connect\<close>: the client is kept when it was made and answers the ping.\<close>

definition connect :: "'r redis option \<Rightarrow> 'r \<Rightarrow> 'r redis option \<times> 'r" where
  "connect from_url r =
     (case from_url of
        None \<Rightarrow> (None, r)
      | Some R \<Rightarrow> (case r_ping R r of (None, r') \<Rightarrow> (None, r') | (Some _, r') \<Rightarrow> (Some R, r')))"

definition is_available :: "'r redis option \<Rightarrow> bool" where
  "is_available c = (c \<noteq> None)"

definition publish :: "'r redis option \<Rightarrow> string \<Rightarrow> string \<Rightarrow> 'r \<Rightarrow> int \<times> 'r" where
  "publish c channel message r =
     (case c of
        None \<Rightarrow> (0, r)
      | Some R \<Rightarrow> (case r_publish R channel message r of (None, r') \<Rightarrow> (0, r') | (Some n, r') \<Rightarrow> (n, r')))"

section \<open>JSON values\<close>

text \<open>The two shapes shared by the methods that keep one JSON value under a key.\<close>

definition put_json :: "'r redis option \<Rightarrow> string \<Rightarrow> json \<Rightarrow> nat option \<Rightarrow> 'r \<Rightarrow> bool \<times> 'r" where
  "put_json c k v ex r =
     (case c of
        None \<Rightarrow> (False, r)
      | Some R \<Rightarrow> (case r_set R k (JsonText v) ex False r of (None, r') \<Rightarrow> (False, r') | (Some _, r') \<Rightarrow> (True, r')))"

definition get_json :: "'r redis option \<Rightarrow> string \<Rightarrow> 'r \<Rightarrow> json \<times> 'r" where
  "get_json c k r =
     (case c of
        None \<Rightarrow> (JNull, r)
      | Some R \<Rightarrow> (case r_get R k r of
          (Some (Some t), r') \<Rightarrow>
            (if text_empty t then JNull else case loads t of None \<Rightarrow> JNull | Some v \<Rightarrow> v, r')
        | (_, r') \<Rightarrow> (JNull, r')))"

definition del_key :: "'r redis option \<Rightarrow> string \<Rightarrow> 'r \<Rightarrow> bool \<times> 'r" where
  "del_key c k r =
     (case c of
        None \<Rightarrow> (False, r)
      | Some R \<Rightarrow> (case r_delete R k r of (None, r') \<Rightarrow> (False, r') | (Some _, r') \<Rightarrow> (True, r')))"

definition set_sync_task :: "'r redis option \<Rightarrow> string \<Rightarrow> json \<Rightarrow> 'r \<Rightarrow> 'r" where
  "set_sync_task c task_id task_data r =
     snd (put_json c (SYNC_TASK_PREFIX @ task_id) task_data (Some SYNC_TASK_TTL) r)"

definition get_sync_task :: "'r redis option \<Rightarrow> string \<Rightarrow> 'r \<Rightarrow> json \<times> 'r" where
  "get_sync_task c task_id r = get_json c (SYNC_TASK_PREFIX @ task_id) r"

definition set_verify_run :: "'r redis option \<Rightarrow> string \<Rightarrow> json \<Rightarrow> 'r \<Rightarrow> 'r" where
  "set_verify_run c run_id run_data r =
     snd (put_json c (VERIFY_RUN_PREFIX @ run_id) run_data (Some VERIFY_RUN_TTL) r)"

definition get_verify_run :: "'r redis option \<Rightarrow> string \<Rightarrow> 'r \<Rightarrow> json \<times> 'r" where
  "get_verify_run c run_id r = get_json c (VERIFY_RUN_PREFIX @ run_id) r"

definition set_legbot_task :: "'r redis option \<Rightarrow> string \<Rightarrow> json \<Rightarrow> 'r \<Rightarrow> 'r" where
  "set_legbot_task c task_id task_data r =
     snd (put_json c (LEGBOT_TASK_PREFIX @ task_id) task_data (Some LEGBOT_TASK_TTL) r)"

definition get_legbot_task :: "'r redis option \<Rightarrow> string \<Rightarrow> 'r \<Rightarrow> json \<times> 'r" where
  "get_legbot_task c task_id r = get_json c (LEGBOT_TASK_PREFIX @ task_id) r"

definition delete_legbot_task :: "'r redis option \<Rightarrow> string \<Rightarrow> 'r \<Rightarrow> 'r" where
  "delete_legbot_task c task_id r = snd (del_key c (LEGBOT_TASK_PREFIX @ task_id) r)"

definition get_all_legbot_task_ids :: "'r redis option \<Rightarrow> 'r \<Rightarrow> string list \<times> 'r" where
  "get_all_legbot_task_ids c r =
     (case c of
        None \<Rightarrow> ([], r)
      | Some R \<Rightarrow> (case r_keys R LEGBOT_TASK_PREFIX r of
          (None, r') \<Rightarrow> ([], r')
        | (Some ks, r') \<Rightarrow> (map (remove_prefix LEGBOT_TASK_PREFIX) ks, r')))"

definition set_bill_status :: "'r redis option \<Rightarrow> string \<Rightarrow> json \<Rightarrow> 'r \<Rightarrow> 'r" where
  "set_bill_status c webflow_id status_data r =
     snd (put_json c (BILL_STATUS_PREFIX @ webflow_id) status_data (Some BILL_STATUS_TTL) r)"

definition get_bill_status :: "'r redis option \<Rightarrow> string \<Rightarrow> 'r \<Rightarrow> json \<times> 'r" where
  "get_bill_status c webflow_id r = get_json c (BILL_STATUS_PREFIX @ webflow_id) r"

definition set_flow_status :: "'r redis option \<Rightarrow> string \<Rightarrow> json \<Rightarrow> 'r \<Rightarrow> 'r" where
  "set_flow_status c flow_name status_data r =
     snd (put_json c (FLOW_STATUS_PREFIX @ flow_name) status_data (Some FLOW_STATUS_TTL) r)"

definition get_flow_status :: "'r redis option \<Rightarrow> string \<Rightarrow> 'r \<Rightarrow> json \<times> 'r" where
  "get_flow_status c flow_name r = get_json c (FLOW_STATUS_PREFIX @ flow_name) r"

section \<open>Slack citations\<close>

definition get_processed_slack_citations ::
  "'r redis option \<Rightarrow> string list \<Rightarrow> 'r \<Rightarrow> string set option \<times> 'r" where
  "get_processed_slack_citations c message_ts r =
     (case c of
        None \<Rightarrow> (None, r)
      | Some R \<Rightarrow>
          if message_ts = [] then (Some {}, r)
          else (case r_smismember R SLACK_CITATIONS_PROCESSED_KEY message_ts r of
            (None, r') \<Rightarrow> (None, r')
          | (Some flags, r') \<Rightarrow> (Some (set (map fst (filter snd (zip message_ts flags)))), r')))"

definition mark_slack_citations_processed :: "'r redis option \<Rightarrow> string list \<Rightarrow> 'r \<Rightarrow> bool \<times> 'r" where
  "mark_slack_citations_processed c message_ts r =
     (case c of
        None \<Rightarrow> (message_ts = [], r)
      | Some R \<Rightarrow>
          if message_ts = [] then (True, r)
          else (case r_sadd R SLACK_CITATIONS_PROCESSED_KEY message_ts r of
            (None, r') \<Rightarrow> (False, r')
          | (Some _, r') \<Rightarrow> (True, r')))"

section \<open>Checkpoints and jurisdictions\<close>

definition add_sync_checkpoint :: "'r redis option \<Rightarrow> string \<Rightarrow> string \<Rightarrow> 'r \<Rightarrow> 'r" where
  "add_sync_checkpoint c task_id item_id r =
     (case c of
        None \<Rightarrow> r
      | Some R \<Rightarrow> (let key = SYNC_CHECKPOINT_PREFIX @ task_id in
          (case r_sadd R key [item_id] r of
             (None, r') \<Rightarrow> r'
           | (Some _, r') \<Rightarrow> snd (r_expire R key SYNC_CHECKPOINT_TTL r'))))"

definition members_of :: "'r redis option \<Rightarrow> string \<Rightarrow> 'r \<Rightarrow> string set \<times> 'r" where
  "members_of c k r =
     (case c of
        None \<Rightarrow> ({}, r)
      | Some R \<Rightarrow> (case r_smembers R k r of (None, r') \<Rightarrow> ({}, r') | (Some s, r') \<Rightarrow> (s, r')))"

definition get_sync_checkpoints :: "'r redis option \<Rightarrow> string \<Rightarrow> 'r \<Rightarrow> string set \<times> 'r" where
  "get_sync_checkpoints c task_id r = members_of c (SYNC_CHECKPOINT_PREFIX @ task_id) r"

text \<open>The body of the outer \<open>try\<close>: \<open>None\<close> when a command of it raised.\<close>

definition copy_checkpoint_keys :: "'r redis \<Rightarrow> string \<Rightarrow> string \<Rightarrow> ('r, nat) command" where
  "copy_checkpoint_keys R src_key dst_key r =
     (case (case r_copy R src_key dst_key r of
              (Some _, r') \<Rightarrow> (Some (), r')
            | (None, r') \<Rightarrow> r_sunionstore R dst_key src_key r') of
        (None, r') \<Rightarrow> (None, r')
      | (Some _, r') \<Rightarrow>
          (case r_expire R dst_key SYNC_CHECKPOINT_TTL r' of
             (None, r'') \<Rightarrow> (None, r'')
           | (Some _, r'') \<Rightarrow> r_scard R dst_key r''))"

definition copy_sync_checkpoints :: "'r redis option \<Rightarrow> string \<Rightarrow> string \<Rightarrow> 'r \<Rightarrow> nat \<times> 'r" where
  "copy_sync_checkpoints c from_task_id to_task_id r =
     (case c of
        None \<Rightarrow> (0, r)
      | Some R \<Rightarrow>
          (case copy_checkpoint_keys R (SYNC_CHECKPOINT_PREFIX @ from_task_id)
                  (SYNC_CHECKPOINT_PREFIX @ to_task_id) r of
             (None, r') \<Rightarrow> (0, r')
           | (Some n, r') \<Rightarrow> (n, r')))"

definition add_active_jurisdiction :: "'r redis option \<Rightarrow> string \<Rightarrow> 'r \<Rightarrow> 'r" where
  "add_active_jurisdiction c code r =
     (case c of None \<Rightarrow> r | Some R \<Rightarrow> snd (r_sadd R ACTIVE_JURISDICTIONS_KEY [upper code] r))"

definition get_active_jurisdictions :: "'r redis option \<Rightarrow> 'r \<Rightarrow> string set \<times> 'r" where
  "get_active_jurisdictions c r = members_of c ACTIVE_JURISDICTIONS_KEY r"

section \<open>Bill versions\<close>

definition bill_version_key :: "string \<Rightarrow> string" where
  "bill_version_key webflow_id = BILL_VERSION_PREFIX @ webflow_id"

definition set_bill_version ::
  "'r redis option \<Rightarrow> string \<Rightarrow> json \<Rightarrow> bool \<Rightarrow> bool \<Rightarrow> 'r \<Rightarrow> bool \<times> 'r" where
  "set_bill_version c webflow_id version_data persistent only_if_absent r =
     (case c of
        None \<Rightarrow> (False, r)
      | Some R \<Rightarrow>
          (case r_set R (bill_version_key webflow_id) (JsonText version_data)
                  (if persistent then None else Some BILL_VERSION_TTL) only_if_absent r of
             (None, r') \<Rightarrow> (False, r')
           | (Some written, r') \<Rightarrow> (if only_if_absent then written else True, r')))"

definition get_bill_version :: "'r redis option \<Rightarrow> string \<Rightarrow> 'r \<Rightarrow> json \<times> 'r" where
  "get_bill_version c webflow_id r = get_json c (bill_version_key webflow_id) r"

text \<open>\<open>range(0, len(ids), 1000)\<close> with the slices \<open>ids[start:start + 1000]\<close>.\<close>

function chunks :: "nat \<Rightarrow> 'a list \<Rightarrow> 'a list list" where
  "chunks n xs = (if xs = [] \<or> n = 0 then [] else take n xs # chunks n (drop n xs))"
  by auto
termination by (relation "measure (length \<circ> snd)") auto

declare chunks.simps [simp del]

definition missing_in :: "(string \<times> int) list \<Rightarrow> string list" where
  "missing_in ttls = map fst (filter (\<lambda>(_, t). t = -2) ttls)"

definition expiring_in :: "(string \<times> int) list \<Rightarrow> string list" where
  "expiring_in ttls = map fst (filter (\<lambda>(_, t). t \<noteq> -2 \<and> 0 \<le> t) ttls)"

fun unrecorded_loop :: "'r redis \<Rightarrow> bool \<Rightarrow> string list list \<Rightarrow> string list \<Rightarrow> ('r, string list) command" where
  "unrecorded_loop R persist_expiring [] missing r = (Some missing, r)"
| "unrecorded_loop R persist_expiring (chunk # later) missing r =
     (case r_ttls R (map bill_version_key chunk) r of
        (None, r') \<Rightarrow> (None, r')
      | (Some ttls, r') \<Rightarrow>
          (let missing = missing @ missing_in (zip chunk ttls); expiring = expiring_in (zip chunk ttls) in
           if expiring \<noteq> [] \<and> persist_expiring
           then (case r_persist R (map bill_version_key expiring) r' of
                   (None, r'') \<Rightarrow> (None, r'')
                 | (Some _, r'') \<Rightarrow> unrecorded_loop R persist_expiring later missing r'')
           else unrecorded_loop R persist_expiring later missing r'))"

definition find_unrecorded_bill_versions ::
  "'r redis option \<Rightarrow> string list \<Rightarrow> bool \<Rightarrow> 'r \<Rightarrow> string list option \<times> 'r" where
  "find_unrecorded_bill_versions c ids persist_expiring r =
     (case c of
        None \<Rightarrow> (None, r)
      | Some R \<Rightarrow> unrecorded_loop R persist_expiring (chunks 1000 ids) [] r)"

text \<open>One entry of \<open>get_bill_versions\<close>: only a \<open>dict\<close> is kept, anything else is \<open>None\<close>.\<close>

definition recorded_version :: "rtext option \<Rightarrow> json" where
  "recorded_version raw =
     (case raw of
        None \<Rightarrow> JNull
      | Some t \<Rightarrow>
          if text_empty t then JNull
          else (case loads t of None \<Rightarrow> JNull | Some v \<Rightarrow> if is_dict v then v else JNull))"

fun versions_loop ::
  "'r redis \<Rightarrow> string list list \<Rightarrow> (string \<times> json) list \<Rightarrow> ('r, (string \<times> json) list) command" where
  "versions_loop R [] found r = (Some found, r)"
| "versions_loop R (chunk # later) found r =
     (case r_mget R (map bill_version_key chunk) r of
        (None, r') \<Rightarrow> (None, r')
      | (Some raws, r') \<Rightarrow>
          versions_loop R later
            (fold (\<lambda>(bill_id, raw). dict_set bill_id (recorded_version raw)) (zip chunk raws) found) r')"

definition get_bill_versions ::
  "'r redis option \<Rightarrow> string list \<Rightarrow> 'r \<Rightarrow> (string \<times> json) list option \<times> 'r" where
  "get_bill_versions c ids r =
     (case c of None \<Rightarrow> (None, r) | Some R \<Rightarrow> versions_loop R (chunks 1000 ids) [] r)"

section \<open>Knowledge-base watermarks and checkpoints\<close>

definition read_text :: "'r redis option \<Rightarrow> string \<Rightarrow> 'r \<Rightarrow> rtext option \<times> 'r" where
  "read_text c k r =
     (case c of
        None \<Rightarrow> (None, r)
      | Some R \<Rightarrow> (case r_get R k r of (None, r') \<Rightarrow> (None, r') | (Some v, r') \<Rightarrow> (v, r')))"

definition put_text :: "'r redis option \<Rightarrow> string \<Rightarrow> string \<Rightarrow> nat option \<Rightarrow> 'r \<Rightarrow> bool \<times> 'r" where
  "put_text c k s ex r =
     (case c of
        None \<Rightarrow> (False, r)
      | Some R \<Rightarrow> (case r_set R k (RawText s) ex False r of (None, r') \<Rightarrow> (False, r') | (Some _, r') \<Rightarrow> (True, r')))"

definition get_kb_embed_watermark :: "'r redis option \<Rightarrow> string \<Rightarrow> 'r \<Rightarrow> rtext option \<times> 'r" where
  "get_kb_embed_watermark c jurisdiction r =
     read_text c (KB_EMBED_WATERMARK_PREFIX @ lower jurisdiction) r"

definition set_kb_embed_watermark :: "'r redis option \<Rightarrow> string \<Rightarrow> string \<Rightarrow> 'r \<Rightarrow> bool \<times> 'r" where
  "set_kb_embed_watermark c jurisdiction iso_timestamp r =
     put_text c (KB_EMBED_WATERMARK_PREFIX @ lower jurisdiction) iso_timestamp (Some KB_EMBED_WATERMARK_TTL) r"

definition kb_backfill_key :: "string \<Rightarrow> string \<Rightarrow> string" where
  "kb_backfill_key jurisdiction stage = KB_BACKFILL_CHECKPOINT_PREFIX @ lower jurisdiction @ '':'' @ stage"

definition get_kb_backfill_checkpoint :: "'r redis option \<Rightarrow> string \<Rightarrow> string \<Rightarrow> 'r \<Rightarrow> json \<times> 'r" where
  "get_kb_backfill_checkpoint c jurisdiction stage r =
     (case c of
        None \<Rightarrow> (JNull, r)
      | Some R \<Rightarrow> (case r_get R (kb_backfill_key jurisdiction stage) r of
          (Some (Some t), r') \<Rightarrow>
            (case loads t of None \<Rightarrow> JNull | Some v \<Rightarrow> if is_dict v then v else JNull, r')
        | (_, r') \<Rightarrow> (JNull, r')))"

definition set_kb_backfill_checkpoint ::
  "'r redis option \<Rightarrow> string \<Rightarrow> string \<Rightarrow> json \<Rightarrow> 'r \<Rightarrow> bool \<times> 'r" where
  "set_kb_backfill_checkpoint c jurisdiction stage data r =
     put_json c (kb_backfill_key jurisdiction stage) data (Some KB_BACKFILL_CHECKPOINT_TTL) r"

definition delete_kb_backfill_checkpoint :: "'r redis option \<Rightarrow> string \<Rightarrow> string \<Rightarrow> 'r \<Rightarrow> bool \<times> 'r" where
  "delete_kb_backfill_checkpoint c jurisdiction stage r = del_key c (kb_backfill_key jurisdiction stage) r"

section \<open>Cadences and run histories\<close>

definition get_scrape_cadence :: "'r redis option \<Rightarrow> string \<Rightarrow> 'r \<Rightarrow> rtext option \<times> 'r" where
  "get_scrape_cadence c jurisdiction r = read_text c (CADENCE_PREFIX @ jurisdiction) r"

definition set_scrape_cadence :: "'r redis option \<Rightarrow> string \<Rightarrow> string \<Rightarrow> 'r \<Rightarrow> bool \<times> 'r" where
  "set_scrape_cadence c jurisdiction cadence r =
     (if cadence \<notin> {''nightly'', ''weekly''} then (False, r)
      else put_text c (CADENCE_PREFIX @ jurisdiction) cadence None r)"

definition run_history_key :: "string \<Rightarrow> string \<Rightarrow> string" where
  "run_history_key flow_name jurisdiction = RUN_HISTORY_PREFIX @ flow_name @ '':'' @ jurisdiction"

definition append_run_history ::
  "'r redis option \<Rightarrow> string \<Rightarrow> string \<Rightarrow> json \<Rightarrow> int \<Rightarrow> 'r \<Rightarrow> 'r" where
  "append_run_history c flow_name jurisdiction entry max_len r =
     (case c of
        None \<Rightarrow> r
      | Some R \<Rightarrow> (let key = run_history_key flow_name jurisdiction in
          (case r_rpush R key (JsonText entry) r of
             (None, r') \<Rightarrow> r'
           | (Some _, r') \<Rightarrow>
               (case r_ltrim R key (- max_len) r' of
                  (None, r'') \<Rightarrow> r''
                | (Some _, r'') \<Rightarrow> snd (r_expire R key RUN_HISTORY_TTL r'')))))"

text \<open>\<open>[json.loads(r) for r in raw]\<close>: one text that is not JSON makes the answer empty.\<close>

definition get_run_history :: "'r redis option \<Rightarrow> string \<Rightarrow> string \<Rightarrow> 'r \<Rightarrow> json list \<times> 'r" where
  "get_run_history c flow_name jurisdiction r =
     (case c of
        None \<Rightarrow> ([], r)
      | Some R \<Rightarrow> (case r_lrange R (run_history_key flow_name jurisdiction) r of
          (None, r') \<Rightarrow> ([], r')
        | (Some raw, r') \<Rightarrow>
            (case those (map loads raw) of None \<Rightarrow> ([], r') | Some vs \<Rightarrow> (vs, r'))))"

section \<open>Facts about the helpers\<close>

lemma concat_chunks: "0 < n \<Longrightarrow> concat (chunks n xs) = xs"
  by (induction n xs rule: chunks.induct) (subst chunks.simps, auto)

lemma missing_in_ttls:
  "missing_in (zip ids (map (ttl_of v \<circ> bill_version_key) ids)) = filter (\<lambda>i. v (bill_version_key i) = None) ids"
  by (induction ids) (auto simp: missing_in_def ttl_of_def split: option.splits)

lemma expiring_in_ttls:
  "expiring_in (zip ids (map (ttl_of v \<circ> bill_version_key) ids)) =
     filter (\<lambda>i. expiry v (bill_version_key i) \<noteq> None) ids"
  by (induction ids) (auto simp: expiring_in_def ttl_of_def expiry_def split: option.splits)

lemma persisted_Un: "persisted A (persisted B v) = persisted (A \<union> B) v"
  by (auto simp: persisted_def fun_eq_iff split: option.splits prod.splits)

lemma persisted_cong: "(\<And>k. expiry v k \<noteq> None \<Longrightarrow> k \<in> A \<longleftrightarrow> k \<in> B) \<Longrightarrow> persisted A v = persisted B v"
proof (rule ext)
  fix k
  assume same: "\<And>k. expiry v k \<noteq> None \<Longrightarrow> k \<in> A \<longleftrightarrow> k \<in> B"
  show "persisted A v k = persisted B v k"
    using same[of k] by (cases "expiry v k") (auto simp: persisted_def expiry_def split: option.splits prod.splits)
qed

lemma persisted_empty [simp]: "persisted {} v = v"
  by (auto simp: persisted_def fun_eq_iff split: option.splits prod.splits)

lemma persisted_absent [simp]: "persisted A v k = None \<longleftrightarrow> v k = None"
  by (auto simp: persisted_def split: option.splits prod.splits)

lemma persisted_expiring:
  "persisted (bill_version_key ` set (filter (\<lambda>i. expiry v (bill_version_key i) \<noteq> None) ids)) v =
     persisted (bill_version_key ` set ids) v"
  by (rule persisted_cong) auto

lemma those_loads [simp]: "those (map loads (map JsonText vs)) = Some vs"
  by (induction vs) (auto simp: loads_def)

text \<open>The last \<open>n\<close> elements of a list.\<close>

definition last_n :: "nat \<Rightarrow> 'a list \<Rightarrow> 'a list" where
  "last_n n xs = drop (length xs - n) xs"

lemma slice_last_n: "0 < n \<Longrightarrow> slice_from (- int n) xs = last_n n xs"
  by (simp add: slice_from_neg last_n_def)

lemma last_n_last_n: "last_n n (last_n n xs @ [x]) = last_n n (xs @ [x])"
  by (cases "length xs \<le> n") (auto simp: last_n_def min_def Suc_diff_le drop_Cons')

lemma last_n_snoc_ne [simp]: "0 < n \<Longrightarrow> last_n n (xs @ [x]) \<noteq> []"
  by (simp add: last_n_def)

lemma map_last_n: "map f (last_n n xs) = last_n n (map f xs)"
  by (simp add: last_n_def drop_map)

lemma those_loads_comp [simp]: "those (map (loads \<circ> JsonText) vs) = Some vs"
  by (induction vs) (auto simp: loads_def)

lemma set_at_upd [simp]: "set_at (v(k \<mapsto> (SetVal s, e))) k = s"
  by (simp add: set_at_def)

section \<open>What the methods do on a server that keeps the laws\<close>

context redis_service
begin

lemma put_json_stores:
  "put_json (Some R) k v ex r = (True, r') \<Longrightarrow> view r' = (view r)(k \<mapsto> (Text (JsonText v), ex))"
  by (auto simp: put_json_def split: prod.splits option.splits dest: set_law)

lemma get_json_reads:
  assumes "get_json (Some R) k r = (x, r')"
  shows "view r' = view r"
    and "view r k = Some (Text (JsonText v), e) \<Longrightarrow> fst (r_get R k r) \<noteq> None \<Longrightarrow> x = v"
    and "x \<noteq> JNull \<Longrightarrow> text_at (view r) k = Some (JsonText x)"
  using assms get_law[of k r "fst (r_get R k r)" "snd (r_get R k r)"]
  by (auto simp: get_json_def text_at_def text_empty_def loads_def
      split: prod.splits option.splits rtext.splits if_splits)

lemma set_bill_version_effect:
  assumes "set_bill_version (Some R) i v persistent only_if_absent r = (b, r')"
  shows "b \<Longrightarrow> view r' = (view r)(bill_version_key i \<mapsto>
            (Text (JsonText v), if persistent then None else Some BILL_VERSION_TTL))"
    and "b \<Longrightarrow> only_if_absent \<Longrightarrow> view r (bill_version_key i) = None"
    and "\<not> b \<Longrightarrow> fst (r_set R (bill_version_key i) (JsonText v)
            (if persistent then None else Some BILL_VERSION_TTL) only_if_absent r) \<noteq> None \<Longrightarrow>
          only_if_absent \<and> view r (bill_version_key i) \<noteq> None \<and> view r' = view r"
  using assms
  by (auto simp: set_bill_version_def split: prod.splits option.splits if_splits dest: set_law)

lemma unrecorded_loop_exact:
  "unrecorded_loop R p chs missing r = (Some ms, r') \<Longrightarrow>
     ms = missing @ filter (\<lambda>i. view r (bill_version_key i) = None) (concat chs) \<and>
     view r' = (if p then persisted (bill_version_key ` set (concat chs)) (view r) else view r)"
proof (induction chs arbitrary: missing r)
  case Nil
  then show ?case by simp
next
  case (Cons ch chs)
  obtain ttls r1 where t: "r_ttls R (map bill_version_key ch) r = (Some ttls, r1)"
    using Cons.prems by (auto split: prod.splits option.splits)
  have v1: "view r1 = view r" and ttls: "ttls = map (ttl_of (view r) \<circ> bill_version_key) ch"
    using ttls_law[OF t] by auto
  let ?new = "filter (\<lambda>i. view r (bill_version_key i) = None) ch"
  let ?exp = "filter (\<lambda>i. expiry (view r) (bill_version_key i) \<noteq> None) ch"
  show ?case
  proof (cases "?exp \<noteq> [] \<and> p")
    case True
    then obtain u r2 where p: "r_persist R (map bill_version_key ?exp) r1 = (Some u, r2)"
      and rest: "unrecorded_loop R p chs (missing @ ?new) r2 = (Some ms, r')"
      using Cons.prems by (auto simp: t ttls missing_in_ttls expiring_in_ttls Let_def split: prod.splits option.splits)
    have "view r2 = persisted (bill_version_key ` set ?exp) (view r1)"
      using persist_law[OF p] by simp
    then have v2: "view r2 = persisted (bill_version_key ` set ch) (view r)"
      unfolding v1 persisted_expiring .
    from Cons.IH[OF rest] show ?thesis
      by (simp add: v2 True persisted_Un image_Un Un_commute)
  next
    case False
    then have rest: "unrecorded_loop R p chs (missing @ ?new) r1 = (Some ms, r')"
      using Cons.prems by (auto simp: t ttls missing_in_ttls expiring_in_ttls Let_def split: if_splits)
    have "p \<Longrightarrow> persisted (bill_version_key ` set ch) (view r) = view r"
      using False persisted_expiring[of "view r" ch] by simp
    then have "p \<Longrightarrow> persisted (bill_version_key ` set ch \<union> A) (view r) = persisted A (view r)" for A
      using persisted_Un[of A "bill_version_key ` set ch" "view r"] by (simp add: Un_commute)
    with Cons.IH[OF rest] show ?thesis
      by (simp add: v1 image_Un)
  qed
qed

lemma find_unrecorded_exact:
  assumes "find_unrecorded_bill_versions (Some R) ids p r = (Some ms, r')"
  shows "ms = filter (\<lambda>i. view r (bill_version_key i) = None) ids"
    and "view r' = (if p then persisted (bill_version_key ` set ids) (view r) else view r)"
  using unrecorded_loop_exact[of p "chunks 1000 ids" "[]" r ms r'] assms
  by (simp_all add: find_unrecorded_bill_versions_def concat_chunks)

lemma versions_loop_exact:
  "versions_loop R chs found r = (Some d, r') \<Longrightarrow> view r' = view r \<and>
     map_of d = (\<lambda>i. if i \<in> set (concat chs) then Some (recorded_version (text_at (view r) (bill_version_key i)))
                     else map_of found i)"
proof (induction chs arbitrary: found r)
  case Nil
  then show ?case by (simp add: fun_eq_iff)
next
  case (Cons ch chs)
  have upd: "map_of (fold (\<lambda>(i, raw). dict_set i (recorded_version raw))
      (zip ids (map (text_at v \<circ> bill_version_key) ids)) d0) =
      (\<lambda>i. if i \<in> set ids then Some (recorded_version (text_at v (bill_version_key i))) else map_of d0 i)"
    for ids v d0
    by (induction ids arbitrary: d0) (auto simp: fun_eq_iff)
  obtain raws r1 where m: "r_mget R (map bill_version_key ch) r = (Some raws, r1)"
    using Cons.prems by (auto split: prod.splits option.splits)
  have v1: "view r1 = view r" and raws: "raws = map (text_at (view r) \<circ> bill_version_key) ch"
    using mget_law[OF m] by auto
  have "versions_loop R chs (fold (\<lambda>(i, raw). dict_set i (recorded_version raw)) (zip ch raws) found) r1
      = (Some d, r')"
    using Cons.prems m by simp
  from Cons.IH[OF this] show ?case
    by (auto simp: v1 raws upd fun_eq_iff)
qed

end

context redis_service
begin

lemma processed_reads:
  assumes "get_processed_slack_citations (Some R) ids r = (res, r')"
  shows "view r' = view r"
    and "res = Some s \<Longrightarrow> s = set ids \<inter> set_at (view r) SLACK_CITATIONS_PROCESSED_KEY"
proof -
  have flags: "set (map fst (filter snd (zip ids (map (\<lambda>x. x \<in> s) ids)))) = set ids \<inter> s" for ids :: "string list" and s
    by (induction ids) auto
  show "view r' = view r" "res = Some s \<Longrightarrow> s = set ids \<inter> set_at (view r) SLACK_CITATIONS_PROCESSED_KEY"
    using assms smismember_law[of SLACK_CITATIONS_PROCESSED_KEY ids r]
    by (auto simp: get_processed_slack_citations_def flags simp del: set_map split: if_splits prod.splits option.splits)
qed

lemma mark_stores:
  "mark_slack_citations_processed (Some R) ids r = (True, r') \<Longrightarrow>
     set_at (view r') SLACK_CITATIONS_PROCESSED_KEY = set_at (view r) SLACK_CITATIONS_PROCESSED_KEY \<union> set ids"
  by (auto simp: mark_slack_citations_processed_def split: if_splits prod.splits option.splits
      dest: sadd_law)

lemma copy_checkpoints_exact:
  assumes "copy_checkpoint_keys R src_key dst_key r = (Some n, r')"
    and "view r src_key = Some (SetVal s, e)" "s \<noteq> {}"
    and "r_copy R src_key dst_key r = (c, r1)" "c = None \<Longrightarrow> view r1 = view r"
  shows "view r' = (view r)(dst_key \<mapsto> (SetVal s, Some SYNC_CHECKPOINT_TTL))" "n = card s"
proof -
  define step where "step = (case r_copy R src_key dst_key r of (Some _, r') \<Rightarrow> (Some (), r')
      | (None, r') \<Rightarrow> r_sunionstore R dst_key src_key r')"
  obtain x r2 where copied: "step = (x, r2)" by (cases step)
  from assms(1) obtain u where x: "x = Some u"
    by (cases x) (simp_all add: copy_checkpoint_keys_def flip: step_def add: copied)
  obtain y r3 where expired: "r_expire R dst_key SYNC_CHECKPOINT_TTL r2 = (y, r3)"
    by (cases "r_expire R dst_key SYNC_CHECKPOINT_TTL r2")
  from assms(1) obtain u' where y: "y = Some u'" and counted: "r_scard R dst_key r3 = (Some n, r')"
    by (cases y) (simp_all add: copy_checkpoint_keys_def flip: step_def add: copied x expired)
  have at: "set_at (view r) src_key = s" using assms(2) by (simp add: set_at_def)
  have "\<exists>e'. view r2 = (view r)(dst_key \<mapsto> (SetVal s, e'))"
  proof (cases c)
    case None
    then have "r_sunionstore R dst_key src_key r1 = (Some u, r2)" "view r1 = view r"
      using copied assms(4,5) x by (simp_all add: step_def)
    then show ?thesis using sunionstore_law[of dst_key src_key r1] at assms(3) by auto
  next
    case (Some w)
    then have "r_copy R src_key dst_key r = (Some w, r2)" using copied assms(4) by (simp add: step_def)
    then show ?thesis using copy_law[of src_key dst_key r] assms(2) by auto
  qed
  then have v3: "view r3 = (view r)(dst_key \<mapsto> (SetVal s, Some SYNC_CHECKPOINT_TTL))"
    using expire_law[OF expired[unfolded y]] by (auto simp: expiring_def)
  then show "view r' = (view r)(dst_key \<mapsto> (SetVal s, Some SYNC_CHECKPOINT_TTL))" "n = card s"
    using scard_law[OF counted] by (auto simp: set_at_def)
qed

end

text \<open>
  A server that answers: in its good states the list commands used on a list (or on no value)
  do not raise, and leave it in a good state.
\<close>

definition is_list_key :: "keyspace \<Rightarrow> string \<Rightarrow> bool" where
  "is_list_key v k = (case v k of None \<Rightarrow> True | Some (ListVal _, _) \<Rightarrow> True | _ \<Rightarrow> False)"

locale answering_redis = redis_service +
  fixes good :: "'a \<Rightarrow> bool"
  assumes rpush_answers: "good r \<Longrightarrow> is_list_key (view r) k \<Longrightarrow> \<exists>u r'. r_rpush R k t r = (Some u, r') \<and> good r'"
    and ltrim_answers: "good r \<Longrightarrow> is_list_key (view r) k \<Longrightarrow> \<exists>u r'. r_ltrim R k i r = (Some u, r') \<and> good r'"
    and expire_answers: "good r \<Longrightarrow> \<exists>u r'. r_expire R k n r = (Some u, r') \<and> good r'"
    and lrange_answers: "good r \<Longrightarrow> is_list_key (view r) k \<Longrightarrow> \<exists>xs r'. r_lrange R k r = (Some xs, r') \<and> good r'"

context answering_redis
begin

lemma append_keeps_last:
  assumes "good r" "view r (run_history_key f j) = None \<and> ts = [] \<or> view r (run_history_key f j) = Some (ListVal ts, e)"
    and "0 < n"
  shows "good (append_run_history (Some R) f j v (int n) r)"
    and "view (append_run_history (Some R) f j v (int n) r) =
      (view r)(run_history_key f j \<mapsto> (ListVal (last_n n (ts @ [JsonText v])), Some RUN_HISTORY_TTL))"
proof -
  let ?k = "run_history_key f j"
  have at: "list_at (view r) ?k = ts" "is_list_key (view r) ?k"
    using assms(2) by (auto simp: list_at_def is_list_key_def)
  obtain u r1 where p: "r_rpush R ?k (JsonText v) r = (Some u, r1)" and "good r1"
    using rpush_answers[OF assms(1) at(2)] by blast
  have v1: "view r1 = (view r)(?k \<mapsto> (ListVal (ts @ [JsonText v]), expiry (view r) ?k))"
    using rpush_law[OF p] at(1) by simp
  have l1: "is_list_key (view r1) ?k" by (simp add: v1 is_list_key_def)
  obtain u' r2 where t: "r_ltrim R ?k (- int n) r1 = (Some u', r2)" and "good r2"
    using ltrim_answers[OF \<open>good r1\<close> l1] by blast
  have v2: "view r2 = (view r)(?k \<mapsto> (ListVal (last_n n (ts @ [JsonText v])), expiry (view r) ?k))"
    using ltrim_law[OF t, of "ts @ [JsonText v]" "expiry (view r) ?k"] assms(3)
    by (simp add: v1 slice_last_n)
  obtain u'' r3 where e: "r_expire R ?k RUN_HISTORY_TTL r2 = (Some u'', r3)" and "good r3"
    using expire_answers[OF \<open>good r2\<close>] by blast
  have res: "append_run_history (Some R) f j v (int n) r = r3"
    by (simp add: append_run_history_def p t e)
  then show "good (append_run_history (Some R) f j v (int n) r)" using \<open>good r3\<close> by simp
  show "view (append_run_history (Some R) f j v (int n) r) =
      (view r)(?k \<mapsto> (ListVal (last_n n (ts @ [JsonText v])), Some RUN_HISTORY_TTL))"
    using expire_law[OF e] by (simp add: res v2 expiring_def)
qed

lemma appends_keep_last:
  assumes "good r" "view r (run_history_key f j) = Some (ListVal (map JsonText (last_n n old)), e)" "0 < n"
  shows "good (fold (\<lambda>v. append_run_history (Some R) f j v (int n)) vs r) \<and>
    (\<exists>e'. view (fold (\<lambda>v. append_run_history (Some R) f j v (int n)) vs r) (run_history_key f j) =
       Some (ListVal (map JsonText (last_n n (old @ vs))), e'))"
  using assms(1,2)
proof (induction vs arbitrary: r old e)
  case Nil
  then show ?case by simp
next
  case (Cons v vs)
  let ?r = "append_run_history (Some R) f j v (int n) r"
  have "good ?r" "view ?r (run_history_key f j) =
      Some (ListVal (map JsonText (last_n n (old @ [v]))), Some RUN_HISTORY_TTL)"
    using append_keeps_last[of r f j "map JsonText (last_n n old)" e n v] Cons.prems assms(3)
      last_n_last_n[of n "map JsonText old" "JsonText v"]
    by (simp_all add: map_last_n)
  from Cons.IH[OF this] show ?case by simp
qed

lemma history_keeps_last:
  assumes "good r" "view r (run_history_key f j) = None" "0 < n"
  shows "fst (get_run_history (Some R) f j (fold (\<lambda>v. append_run_history (Some R) f j v (int n)) vs r)) = last_n n vs"
proof -
  let ?k = "run_history_key f j" and ?r = "fold (\<lambda>v. append_run_history (Some R) f j v (int n)) vs r"
  have "good ?r \<and> list_at (view ?r) ?k = map JsonText (last_n n vs) \<and> is_list_key (view ?r) ?k"
  proof (cases vs)
    case Nil
    then show ?thesis using assms by (simp add: list_at_def is_list_key_def last_n_def)
  next
    case (Cons v ws)
    let ?r1 = "append_run_history (Some R) f j v (int n) r"
    have "good ?r1" "view ?r1 ?k = Some (ListVal (map JsonText (last_n n [v])), Some RUN_HISTORY_TTL)"
      using append_keeps_last[of r f j "[]" None n v] assms by (simp_all add: map_last_n)
    from appends_keep_last[OF this assms(3), of ws] show ?thesis
      by (auto simp: Cons list_at_def is_list_key_def)
  qed
  then obtain xs r' where l: "r_lrange R ?k ?r = (Some xs, r')" and "xs = map JsonText (last_n n vs)"
    using lrange_answers[of ?r ?k] lrange_law[of ?k ?r] by metis
  then show ?thesis by (simp add: get_run_history_def)
qed

end

interpretation mem_redis: answering_redis mem_redis mem_view up
proof unfold_locales
  fix r :: memory and k t i n
  assume u: "up r"
  show "\<exists>u r'. r_expire mem_redis k n r = (Some u, r') \<and> up r'"
    using u by (auto simp: mem_redis_def when_up_def split: option.splits)
  assume l: "is_list_key (mem_view r) k"
  then have a: "as_list r k \<noteq> None"
    by (auto simp: is_list_key_def as_list_def split: option.splits prod.splits rvalue.splits)
  show "\<exists>u r'. r_rpush mem_redis k t r = (Some u, r') \<and> up r'"
    using u a by (auto simp: mem_redis_def when_up_def split: option.splits)
  show "\<exists>u r'. r_ltrim mem_redis k i r = (Some u, r') \<and> up r'"
    using u l by (auto simp: mem_redis_def when_up_def is_list_key_def split: option.splits prod.splits rvalue.splits)
  show "\<exists>xs r'. r_lrange mem_redis k r = (Some xs, r') \<and> up r'"
    using u a by (auto simp: mem_redis_def when_up_def split: option.splits)
qed

section \<open>Properties\<close>

text \<open>C6: Recording a bill version on any server that keeps the laws of the Redis commands. When
  \<open>set_bill_version\<close> reports that it wrote, exactly the entry of that bill changed: it holds the
  given version, without an expiry when it is persistent and for 90 days otherwise; with
  \<open>only_if_absent\<close> there was no entry before, so no record of another writer is replaced; and
  \<open>get_bill_version\<close> gives the version back unless the read raises, without changing anything.
  When it reports that it did not write although the server answered, there was an entry,
  \<open>only_if_absent\<close> was asked, and nothing changed.\<close>

theorem bill_version_record:
  assumes "redis_service R view"
    and "set_bill_version (Some R) i v persistent only_if_absent r = (b, r')"
  shows "(b \<longrightarrow>
      view r' = (view r)(bill_version_key i \<mapsto> (Text (JsonText v), if persistent then None else Some (86400 * 90))) \<and>
      (only_if_absent \<longrightarrow> view r (bill_version_key i) = None) \<and>
      view (snd (get_bill_version (Some R) i r')) = view r' \<and>
      (fst (r_get R (bill_version_key i) r') \<noteq> None \<longrightarrow> fst (get_bill_version (Some R) i r') = v)) \<and>
    (\<not> b \<and> fst (r_set R (bill_version_key i) (JsonText v)
        (if persistent then None else Some (86400 * 90)) only_if_absent r) \<noteq> None \<longrightarrow>
      only_if_absent \<and> view r (bill_version_key i) \<noteq> None \<and> view r' = view r)"
proof (intro conjI impI)
  note set_facts = redis_service.set_bill_version_effect[OF assms, unfolded BILL_VERSION_TTL_def]
  note get_facts = redis_service.get_json_reads[OF assms(1) prod.collapse[symmetric]]
  assume b
  show v: "view r' = (view r)(bill_version_key i \<mapsto> (Text (JsonText v), if persistent then None else Some (86400 * 90)))"
    using set_facts(1) \<open>b\<close> .
  show "view r (bill_version_key i) = None" if only_if_absent
    using set_facts(2) \<open>b\<close> that .
  show "view (snd (get_bill_version (Some R) i r')) = view r'"
    unfolding get_bill_version_def by (rule get_facts(1))
  assume "fst (r_get R (bill_version_key i) r') \<noteq> None"
  then show "fst (get_bill_version (Some R) i r') = v"
    unfolding get_bill_version_def by (rule get_facts(2)[rotated]) (simp add: v)
next
  note set_facts = redis_service.set_bill_version_effect[OF assms, unfolded BILL_VERSION_TTL_def]
  assume n: "\<not> b \<and> fst (r_set R (bill_version_key i) (JsonText v)
        (if persistent then None else Some (86400 * 90)) only_if_absent r) \<noteq> None"
  show only_if_absent "view r (bill_version_key i) \<noteq> None" "view r' = view r"
    using set_facts(3) n by blast+
qed

definition demo_memory :: memory where
  "demo_memory = \<lparr>up = True, content =
     [(bill_version_key ''old'', Text (JsonText (JObj [(''text_url'', JStr ''u'')])), Some 60),
      (bill_version_key ''kept'', Text (JsonText (JObj [])), None)]\<rparr>"

definition demo_version :: json where
  "demo_version = JObj [(''version_date'', JStr ''2026-01-05'')]"

lemma bill_version_record_witness:
  "fst (set_bill_version (Some mem_redis) ''new'' demo_version True True demo_memory) \<and>
   fst (get_bill_version (Some mem_redis) ''new''
     (snd (set_bill_version (Some mem_redis) ''new'' demo_version True True demo_memory))) = demo_version"
proof -
  let ?s = "set_bill_version (Some mem_redis) ''new'' demo_version True True demo_memory"
  have s: "fst ?s" "up (snd ?s)" "mem_view (snd ?s) (bill_version_key ''new'') = Some (Text (JsonText demo_version), None)"
    by (simp_all add: set_bill_version_def mem_redis_def when_up_def demo_memory_def mem_view_def store_at_def
        bill_version_key_def BILL_VERSION_PREFIX_def)
  have "fst (r_get mem_redis (bill_version_key ''new'') (snd ?s)) \<noteq> None"
    using s by (simp add: mem_redis_def when_up_def as_text_def)
  with s(1) bill_version_record[OF mem_redis.redis_service_axioms prod.collapse[symmetric],
      of "''new''" demo_version True True demo_memory]
  show ?thesis by blast
qed

lemma find_unrecorded_is_exact_facts:
  assumes "redis_service R view"
    and "find_unrecorded_bill_versions (Some R) ids persist_expiring r = (Some ms, r')"
  shows "ms = filter (\<lambda>i. view r (bill_version_key i) = None) ids"
    and "view r' = (if persist_expiring then persisted (bill_version_key ` set ids) (view r) else view r)"
    and "persist_expiring \<Longrightarrow> i \<in> set ids \<Longrightarrow> expiry (view r') (bill_version_key i) = None"
    and "find_unrecorded_bill_versions (Some R) ids p r' = (Some ms', r'') \<Longrightarrow> ms' = ms"
proof -
  note exact = redis_service.find_unrecorded_exact[OF assms(1)]
  show ms: "ms = filter (\<lambda>i. view r (bill_version_key i) = None) ids"
    by (rule exact(1)[OF assms(2)])
  show v: "view r' = (if persist_expiring then persisted (bill_version_key ` set ids) (view r) else view r)"
    by (rule exact(2)[OF assms(2)])
  show "expiry (view r') (bill_version_key i) = None" if "persist_expiring" "i \<in> set ids"
    using that by (simp add: v expiry_def persisted_def split: option.splits prod.splits)
  show "ms' = ms" if "find_unrecorded_bill_versions (Some R) ids p r' = (Some ms', r'')"
    using exact(1)[OF that] by (simp add: ms v)
qed

text \<open>The unrecorded bills. When \<open>find_unrecorded_bill_versions\<close> answers, its answer is exactly
  the ids without an entry, in their order and with their repetitions, however many chunks of 1000
  the ids need; the entries of the others lose their expiry and nothing else changes, and with
  \<open>persist_expiring=False\<close> nothing changes at all. So a second pass over the same ids finds no
  expiring entry, and gives the same answer.\<close>

lemma find_unrecorded_is_exact:
  assumes "redis_service R view"
    and "find_unrecorded_bill_versions (Some R) ids persist_expiring r = (Some ms, r')"
  shows "ms = filter (\<lambda>i. view r (bill_version_key i) = None) ids \<and>
    view r' = (if persist_expiring then persisted (bill_version_key ` set ids) (view r) else view r) \<and>
    (persist_expiring \<longrightarrow> (\<forall>i \<in> set ids. expiry (view r') (bill_version_key i) = None)) \<and>
    (\<forall>p ms' r''. find_unrecorded_bill_versions (Some R) ids p r' = (Some ms', r'') \<longrightarrow> ms' = ms)"
  using find_unrecorded_is_exact_facts[OF assms] by metis

lemma find_unrecorded_is_exact_witness:
  "fst (find_unrecorded_bill_versions (Some mem_redis) [''a'', ''old'', ''b'', ''kept'', ''a''] True demo_memory)
     = Some [''a'', ''b'', ''a'']"
proof -
  let ?ids = "[''a'', ''old'', ''b'', ''kept'', ''a'']"
  let ?f = "find_unrecorded_bill_versions (Some mem_redis) ?ids True demo_memory"
  have "chunks 1000 ?ids = [?ids]"
    by (simp add: chunks.simps)
  then have "fst ?f \<noteq> None"
    by (simp add: find_unrecorded_bill_versions_def mem_redis_def when_up_def demo_memory_def Let_def)
  then obtain ms where f: "?f = (Some ms, snd ?f)"
    by (metis option.exhaust_sel prod.collapse)
  have "ms = filter (\<lambda>i. mem_view demo_memory (bill_version_key i) = None) ?ids"
    using find_unrecorded_is_exact[OF mem_redis.redis_service_axioms f] by blast
  then have "ms = [''a'', ''b'', ''a'']"
    by (simp add: demo_memory_def mem_view_def bill_version_key_def)
  with f show ?thesis by (metis fst_conv)
qed

lemma get_bill_versions_pointwise_facts:
  assumes "redis_service R view"
    and "get_bill_versions (Some R) ids r = (Some d, r')"
  shows "view r' = view r"
    and "map_of d i = (if i \<in> set ids then Some (recorded_version (text_at (view r) (bill_version_key i))) else None)"
    and "map_of d i = Some v \<Longrightarrow> v \<noteq> JNull \<Longrightarrow> fst (r_get R (bill_version_key i) r) \<noteq> None \<Longrightarrow>
      fst (get_bill_version (Some R) i r) = v"
proof -
  have exact: "view r' = view r \<and> map_of d =
      (\<lambda>i. if i \<in> set ids then Some (recorded_version (text_at (view r) (bill_version_key i))) else None)"
    using redis_service.versions_loop_exact[OF assms(1), of "chunks 1000 ids" "[]" r d r'] assms(2)
    by (auto simp: get_bill_versions_def concat_chunks fun_eq_iff)
  then show "view r' = view r" by blast
  from exact show at: "map_of d i =
      (if i \<in> set ids then Some (recorded_version (text_at (view r) (bill_version_key i))) else None)"
    by simp
  assume "map_of d i = Some v" "v \<noteq> JNull" and answers: "fst (r_get R (bill_version_key i) r) \<noteq> None"
  then have "recorded_version (text_at (view r) (bill_version_key i)) = v"
    by (simp add: at split: if_splits)
  with \<open>v \<noteq> JNull\<close> have "text_at (view r) (bill_version_key i) = Some (JsonText v)"
    by (auto simp: recorded_version_def loads_def split: option.splits if_splits rtext.splits)
  then obtain e where "view r (bill_version_key i) = Some (Text (JsonText v), e)"
    by (auto simp: text_at_def split: option.splits prod.splits rvalue.splits)
  from redis_service.get_json_reads(2)[OF assms(1) prod.collapse[symmetric] this answers]
  show "fst (get_bill_version (Some R) i r) = v"
    by (simp add: get_bill_version_def)
qed

text \<open>Reading many bill versions. When \<open>get_bill_versions\<close> answers, it changes nothing and has
  exactly one value for every id asked for, and that value is what the record of the bill holds if it is
  a \<open>dict\<close> and \<open>None\<close> otherwise; so it agrees with \<open>get_bill_version\<close> on every bill whose record is
  a \<open>dict\<close>, whenever the single read answers.\<close>

lemma get_bill_versions_pointwise:
  assumes "redis_service R view"
    and "get_bill_versions (Some R) ids r = (Some d, r')"
  shows "view r' = view r \<and>
    map_of d i = (if i \<in> set ids then Some (recorded_version (text_at (view r) (bill_version_key i))) else None) \<and>
    (map_of d i = Some v \<and> v \<noteq> JNull \<and> fst (r_get R (bill_version_key i) r) \<noteq> None \<longrightarrow>
      fst (get_bill_version (Some R) i r) = v)"
  using get_bill_versions_pointwise_facts[OF assms] by metis

lemma get_bill_versions_pointwise_witness:
  "map_option (\<lambda>d. map_of d ''old'') (fst (get_bill_versions (Some mem_redis) [''a'', ''old''] demo_memory))
     = Some (Some (JObj [(''text_url'', JStr ''u'')]))"
proof -
  let ?f = "get_bill_versions (Some mem_redis) [''a'', ''old''] demo_memory"
  have "chunks 1000 [''a'', ''old''] = [[''a'', ''old'']]"
    by (simp add: chunks.simps)
  then have "fst ?f \<noteq> None"
    by (simp add: get_bill_versions_def mem_redis_def when_up_def demo_memory_def as_text_def mem_view_def
        bill_version_key_def)
  then obtain d where f: "?f = (Some d, snd ?f)"
    by (metis option.exhaust_sel prod.collapse)
  have "map_of d ''old'' = Some (JObj [(''text_url'', JStr ''u'')])"
    using get_bill_versions_pointwise[OF mem_redis.redis_service_axioms f, of "''old''" JNull]
    by (simp add: demo_memory_def mem_view_def text_at_def bill_version_key_def recorded_version_def text_empty_def loads_def)
  with f show ?thesis
    by (metis fst_conv option.simps(9))
qed

text \<open>The rolling run history. On a server that answers, starting from no history, any number
  of \<open>append_run_history\<close> with the same positive \<open>max_len\<close> leaves exactly the last \<open>max_len\<close>
  records, oldest first, for \<open>get_run_history\<close>.\<close>

lemma run_history_keeps_last:
  assumes "answering_redis R view good" "good r"
    and "view r (run_history_key flow_name jurisdiction) = None" "0 < max_len"
  shows "fst (get_run_history (Some R) flow_name jurisdiction
      (fold (\<lambda>v. append_run_history (Some R) flow_name jurisdiction v (int max_len)) entries r)) =
    drop (length entries - max_len) entries"
  using answering_redis.history_keeps_last[OF assms] by (simp add: last_n_def)

lemma run_history_keeps_last_witness:
  "fst (get_run_history (Some mem_redis) ''f'' ''mi''
      (fold (\<lambda>v. append_run_history (Some mem_redis) ''f'' ''mi'' v (int 2)) [JInt 1, JInt 2, JInt 3] demo_memory)) =
    [JInt 2, JInt 3]"
  using run_history_keeps_last[OF mem_redis.answering_redis_axioms, of demo_memory "''f''" "''mi''" 2
      "[JInt 1, JInt 2, JInt 3]"]
  by (simp add: demo_memory_def mem_view_def run_history_key_def bill_version_key_def
      BILL_VERSION_PREFIX_def RUN_HISTORY_PREFIX_def)

lemma slack_citations_marked_facts:
  assumes "redis_service R view"
    and "mark_slack_citations_processed (Some R) marked r = (True, r1)"
    and "get_processed_slack_citations (Some R) asked r1 = (answer, r2)"
  shows "view r2 = view r1"
    and "answer = Some s \<Longrightarrow>
      s = set asked \<inter> (set_at (view r) SLACK_CITATIONS_PROCESSED_KEY \<union> set marked)"
    and "asked \<noteq> [] \<Longrightarrow>
      answer = None \<longleftrightarrow> fst (r_smismember R SLACK_CITATIONS_PROCESSED_KEY asked r1) = None"
    and "get_processed_slack_citations None asked r1 = (None, r1)"
proof -
  note processed = redis_service.processed_reads[OF assms(1,3)]
  show "view r2 = view r1" by (rule processed(1))
  show "s = set asked \<inter> (set_at (view r) SLACK_CITATIONS_PROCESSED_KEY \<union> set marked)" if "answer = Some s"
    using processed(2)[OF that] redis_service.mark_stores[OF assms(1,2)] by simp
  show "answer = None \<longleftrightarrow> fst (r_smismember R SLACK_CITATIONS_PROCESSED_KEY asked r1) = None" if "asked \<noteq> []"
    using assms(3) that by (auto simp: get_processed_slack_citations_def split: prod.splits option.splits)
  show "get_processed_slack_citations None asked r1 = (None, r1)"
    by (simp add: get_processed_slack_citations_def)
qed

text \<open>Handled Slack citations. When \<open>mark_slack_citations_processed\<close> reports success, every later
  answer of \<open>get_processed_slack_citations\<close> contains the marked ones it was asked about, and
  otherwise exactly what was handled before; it only reads. An outage is \<open>None\<close>, never an empty
  answer: with no client, or when the read raises, a non-empty question has no answer.\<close>

lemma slack_citations_marked:
  assumes "redis_service R view"
    and "mark_slack_citations_processed (Some R) marked r = (True, r1)"
    and "get_processed_slack_citations (Some R) asked r1 = (answer, r2)"
  shows "view r2 = view r1 \<and>
    (\<forall>s. answer = Some s \<longrightarrow>
      s = set asked \<inter> (set_at (view r) SLACK_CITATIONS_PROCESSED_KEY \<union> set marked)) \<and>
    (asked \<noteq> [] \<longrightarrow>
      (answer = None \<longleftrightarrow> fst (r_smismember R SLACK_CITATIONS_PROCESSED_KEY asked r1) = None)) \<and>
    get_processed_slack_citations (None :: 'r redis option) asked r1 = (None, r1)"
  using slack_citations_marked_facts[OF assms] by blast

lemma slack_citations_marked_witness:
  "fst (get_processed_slack_citations (Some mem_redis) [''1.0'', ''2.0'']
      (snd (mark_slack_citations_processed (Some mem_redis) [''2.0''] demo_memory))) = Some {''2.0''}"
proof -
  let ?m = "mark_slack_citations_processed (Some mem_redis) [''2.0''] demo_memory"
  let ?g = "get_processed_slack_citations (Some mem_redis) [''1.0'', ''2.0''] (snd ?m)"
  have absent: "mem_view demo_memory SLACK_CITATIONS_PROCESSED_KEY = None" "up demo_memory"
    by (simp_all add: demo_memory_def mem_view_def bill_version_key_def BILL_VERSION_PREFIX_def
        SLACK_CITATIONS_PROCESSED_KEY_def)
  then have m: "?m = (True, snd ?m)"
    by (simp add: mark_slack_citations_processed_def mem_redis_def when_up_def set_on_def as_set_def)
  have "fst ?g \<noteq> None"
    using absent by (simp add: mark_slack_citations_processed_def get_processed_slack_citations_def
        mem_redis_def when_up_def set_on_def as_set_def)
  then obtain s where g: "?g = (Some s, snd ?g)"
    by (metis option.exhaust_sel prod.collapse)
  have "s = {''2.0''}"
    using slack_citations_marked[OF mem_redis.redis_service_axioms m g] absent
    by (auto simp: set_at_def)
  with g show ?thesis by (metis fst_conv)
qed

lemma copy_sync_checkpoints_exact_facts:
  assumes "redis_service R view"
    and "copy_sync_checkpoints (Some R) from_task_id to_task_id r = (n, r')" "0 < n"
    and "view r (SYNC_CHECKPOINT_PREFIX @ from_task_id) = Some (SetVal s, e)" "s \<noteq> {}"
    and "r_copy R (SYNC_CHECKPOINT_PREFIX @ from_task_id) (SYNC_CHECKPOINT_PREFIX @ to_task_id) r = (c, r1)"
    and "c = None \<Longrightarrow> view r1 = view r"
  shows "view r' = (view r)(SYNC_CHECKPOINT_PREFIX @ to_task_id \<mapsto> (SetVal s, Some 86400))" "n = card s"
proof -
  have "copy_checkpoint_keys R (SYNC_CHECKPOINT_PREFIX @ from_task_id) (SYNC_CHECKPOINT_PREFIX @ to_task_id) r = (Some n, r')"
    using assms(2,3) by (auto simp: copy_sync_checkpoints_def split: prod.splits option.splits)
  from redis_service.copy_checkpoints_exact[OF assms(1) this assms(4-7)]
  show "view r' = (view r)(SYNC_CHECKPOINT_PREFIX @ to_task_id \<mapsto> (SetVal s, Some 86400))" "n = card s"
    by (simp_all add: SYNC_CHECKPOINT_TTL_def)
qed

text \<open>Resuming from checkpoints. When the previous task has checkpoints and the copy returns a
  positive count, the new task has exactly those checkpoints, for 24 hours, the count is their number,
  and no other key changed. This holds with \<open>COPY\<close> and with the \<open>SUNIONSTORE\<close> fallback, provided a
  \<open>COPY\<close> the server refused changed nothing.\<close>

lemma copy_sync_checkpoints_exact:
  assumes "redis_service R view"
    and "copy_sync_checkpoints (Some R) from_task_id to_task_id r = (n, r')" "0 < n"
    and "view r (SYNC_CHECKPOINT_PREFIX @ from_task_id) = Some (SetVal s, e)" "s \<noteq> {}"
    and "r_copy R (SYNC_CHECKPOINT_PREFIX @ from_task_id) (SYNC_CHECKPOINT_PREFIX @ to_task_id) r = (c, r1)"
    and "c = None \<Longrightarrow> view r1 = view r"
  shows "view r' = (view r)(SYNC_CHECKPOINT_PREFIX @ to_task_id \<mapsto> (SetVal s, Some 86400)) \<and> n = card s"
  using copy_sync_checkpoints_exact_facts[OF assms] by blast

definition demo_checkpoints :: memory where
  "demo_checkpoints = \<lparr>up = True, content = [(SYNC_CHECKPOINT_PREFIX @ ''t1'', SetVal {''a'', ''b''}, Some 5)]\<rparr>"

lemma copy_sync_checkpoints_exact_witness:
  "fst (copy_sync_checkpoints (Some mem_redis) ''t1'' ''t2'' demo_checkpoints) = 2 \<and>
   mem_view (snd (copy_sync_checkpoints (Some mem_redis) ''t1'' ''t2'' demo_checkpoints)) (SYNC_CHECKPOINT_PREFIX @ ''t2'')
     = Some (SetVal {''a'', ''b''}, Some 86400)"
proof -
  let ?c = "copy_sync_checkpoints (Some mem_redis) ''t1'' ''t2'' demo_checkpoints"
  let ?y = "r_copy mem_redis (SYNC_CHECKPOINT_PREFIX @ ''t1'') (SYNC_CHECKPOINT_PREFIX @ ''t2'') demo_checkpoints"
  have y: "?y = (Some (), snd ?y)"
    by (simp add: mem_redis_def when_up_def demo_checkpoints_def mem_view_def)
  have "fst ?c = 2"
    by (simp add: copy_sync_checkpoints_def copy_checkpoint_keys_def mem_redis_def when_up_def demo_checkpoints_def
        mem_view_def store_at_def as_set_def)
  then have n: "0 < fst ?c" by simp
  have src: "mem_view demo_checkpoints (SYNC_CHECKPOINT_PREFIX @ ''t1'') = Some (SetVal {''a'', ''b''}, Some 5)"
    by (simp add: demo_checkpoints_def mem_view_def)
  have "mem_view (snd ?c) = (mem_view demo_checkpoints)
      (SYNC_CHECKPOINT_PREFIX @ ''t2'' \<mapsto> (SetVal {''a'', ''b''}, Some 86400))" "fst ?c = card {''a'', ''b''}"
    using copy_sync_checkpoints_exact[OF mem_redis.redis_service_axioms prod.collapse[symmetric] n src _ y]
    by simp_all
  then show ?thesis by simp
qed

end
