(* ===== verification/ScrapeHistory.thy ===== *)
theory ScrapeHistory
  imports ScrapeCadence RedisStore PyJson
begin

text \<open>
  What a scrape leaves behind and what is decided from it (\<open>pipelines/openstates_scrape.py\<close>): the
  reason of a failure, the tail of the shared log, the filing figures of a run, and the two checks over
  the rolling history of runs in Redis. A run is the \<open>run_record\<close> of \<open>ScrapeCadence\<close>; \<open>run_json\<close>
  is the record as it is appended, and \<open>run_of_json\<close> what the readers' \<open>.get\<close> calls see of it. The file of a
  log or marker is its content, \<open>None\<close> when opening or reading it raises \<open>OSError\<close>.
\<close>

section \<open>Reasons and figures\<close>

definition WAF_BLOCK_MARKERS :: "string list" where
  "WAF_BLOCK_MARKERS = [''consecutive waf blocks detected'', ''waf block detected'']"

definition SCRAPER_LOG_TAIL_BYTES :: nat where "SCRAPER_LOG_TAIL_BYTES = 8192"

text \<open>The log is bytes; \<open>decode(errors="replace")\<close> of a byte is its character here.\<close>

definition scraper_log_size :: "string option \<Rightarrow> nat" where
  "scraper_log_size log = (case log of None \<Rightarrow> 0 | Some c \<Rightarrow> length c)"

definition read_scraper_log_tail :: "string option \<Rightarrow> nat \<Rightarrow> nat \<Rightarrow> string" where
  "read_scraper_log_tail log since_offset tail_bytes =
     (case log of
        None \<Rightarrow> []
      | Some c \<Rightarrow>
          (let size = length c;
               start = (if since_offset \<le> size then since_offset else 0);
               start = max start (size - tail_bytes) in
           drop start c))"

definition classify_failure_reason :: "string \<Rightarrow> string \<Rightarrow> string" where
  "classify_failure_reason error output_tail =
     (if error = ''timeout'' then ''timeout''
      else let haystack = lower output_tail in
        if list_ex (\<lambda>marker. contains marker haystack) WAF_BLOCK_MARKERS then ''waf_block''
        else if starts_with ''exit_code_'' error then ''nonzero_exit_other''
        else ''network_error'')"

definition scrape_key_for :: "string \<Rightarrow> string" where
  "scrape_key_for label = map (\<lambda>c. if c = CHR '' '' \<or> c = CHR ''='' then CHR ''_'' else c) label"

record filing_counts =
  fc_new :: int
  fc_updated :: int
  fc_noop :: int
  fc_mode :: string

text \<open>\<open>line.split(":")\<close>\<close>

fun split_colon :: "string \<Rightarrow> string list" where
  "split_colon [] = [[]]"
| "split_colon (c # cs) =
     (case split_colon cs of
        [] \<Rightarrow> [[c]]
      | p # ps \<Rightarrow> if c = CHR '':'' then [] # p # ps else (c # p) # ps)"

definition read_filing_counts :: "string option \<Rightarrow> filing_counts option" where
  "read_filing_counts marker =
     (case marker of
        None \<Rightarrow> None
      | Some line \<Rightarrow>
          (case split_colon (strip line) of
             [st, a, b, c, mode] \<Rightarrow>
               (if st \<noteq> ''ok'' then None
                else (case (int_of_text a, int_of_text b, int_of_text c) of
                   (Inr i, Inr j, Inr k) \<Rightarrow> Some \<lparr>fc_new = i, fc_updated = j, fc_noop = k, fc_mode = mode\<rparr>
                 | _ \<Rightarrow> None))
           | _ \<Rightarrow> None))"

section \<open>Decisions over the history\<close>

definition blocked_in :: "run_record list \<Rightarrow> nat" where
  "blocked_in recent = length (filter (\<lambda>r. failure_reason r = Some ''waf_block'') recent)"

definition should_escalate_block :: "run_record list \<Rightarrow> int \<Rightarrow> int \<Rightarrow> bool" where
  "should_escalate_block history window threshold =
     (threshold \<le> int (blocked_in (slice_from (- window) history)))"

definition should_alert_quiet :: "run_record list \<Rightarrow> int \<Rightarrow> bool" where
  "should_alert_quiet history window =
     (let ms = measured history in
      if int (length ms) < window then False
      else let recent = slice_from (- window) ms in
        if list_ex (\<lambda>r. new_bills r > 0) recent then False
        else list_ex (\<lambda>r. new_bills r > 0) (slice_to (- window) ms))"

section \<open>Recording a batch\<close>

text \<open>The result of one scrape, as the recorder reads it, and the record appended for it.\<close>

record scrape_result =
  sr_success :: bool
  sr_failure_reason :: "string option"
  sr_label :: "string option"

definition opt_json :: "string option \<Rightarrow> json" where
  "opt_json x = (case x of None \<Rightarrow> JNull | Some s \<Rightarrow> JStr s)"

definition run_json :: "string \<Rightarrow> scrape_result \<Rightarrow> filing_counts option \<Rightarrow> json" where
  "run_json timestamp res counts =
     JObj ([(''timestamp'', JStr timestamp), (''success'', JBool (sr_success res)),
            (''failure_reason'', opt_json (sr_failure_reason res))] @
       (case counts of
          None \<Rightarrow> []
        | Some c \<Rightarrow> [(''bills_new'', JInt (fc_new c)), (''bills_updated'', JInt (fc_updated c)),
                     (''scrape_mode'', JStr (fc_mode c))]))"

definition run_of_json :: "json \<Rightarrow> run_record" where
  "run_of_json v = (case v of
      JObj d \<Rightarrow>
        \<lparr>success = truthy (dict_get d ''success''),
         failure_reason = (case dict_get d ''failure_reason'' of JStr s \<Rightarrow> Some s | _ \<Rightarrow> None),
         bills_new = (case dict_get d ''bills_new'' of JInt i \<Rightarrow> Some i | _ \<Rightarrow> None)\<rparr>
    | _ \<Rightarrow> \<lparr>success = False, failure_reason = None, bills_new = None\<rparr>)"

definition counted :: "(string \<Rightarrow> string option) \<Rightarrow> string \<Rightarrow> scrape_result \<Rightarrow> filing_counts option" where
  "counted markers jurisdiction res =
     (if sr_success res
      then read_filing_counts (markers (scrape_key_for
             (case sr_label res of None \<Rightarrow> jurisdiction | Some l \<Rightarrow> l)))
      else None)"

datatype history_alert = SustainedBlock string nat int | QuietJurisdiction string int

record check_config =
  ck_window :: int
  ck_threshold :: int
  ck_filing_enabled :: bool
  ck_quiet_window :: int

text \<open>\<open>_check_sustained_blocking\<close>; \<open>markers\<close> is the \<open>.imported\<close> file of a key.\<close>

fun check_sustained_blocking ::
  "'r redis option \<Rightarrow> (string \<Rightarrow> string option) \<Rightarrow> string \<Rightarrow> check_config \<Rightarrow> string \<Rightarrow>
    (string \<times> scrape_result) list \<Rightarrow> 'r \<Rightarrow> history_alert list \<times> 'r" where
  "check_sustained_blocking c markers now cfg flow_key [] r = ([], r)"
| "check_sustained_blocking c markers now cfg flow_key ((jurisdiction, res) # rest) r =
     (let r = append_run_history c flow_key jurisdiction (run_json now res (counted markers jurisdiction res))
                (max (ck_window cfg) 20) r;
          (raw, r) = get_run_history c flow_key jurisdiction r;
          history = map run_of_json raw;
          blocks = (if should_escalate_block history (ck_window cfg) (ck_threshold cfg)
                    then [SustainedBlock jurisdiction (blocked_in (slice_from (- ck_window cfg) history)) (ck_window cfg)]
                    else []);
          quiet = (if ck_filing_enabled cfg \<and> should_alert_quiet history (ck_quiet_window cfg)
                   then [QuietJurisdiction jurisdiction (ck_quiet_window cfg)] else []);
          (alerts, r) = check_sustained_blocking c markers now cfg flow_key rest r
      in (blocks @ quiet @ alerts, r))"

text \<open>The configuration block, with its defaults.\<close>

definition DEFAULT_ESCALATION_WINDOW :: int where "DEFAULT_ESCALATION_WINDOW = 4"
definition DEFAULT_ESCALATION_THRESHOLD :: int where "DEFAULT_ESCALATION_THRESHOLD = 3"
definition DEFAULT_QUIET_WINDOW :: int where "DEFAULT_QUIET_WINDOW = 3"

section \<open>Facts about suffixes\<close>

lemma last_n_suffix: "m \<le> n \<Longrightarrow> last_n m (last_n n xs) = last_n m xs"
  by (simp add: last_n_def) (rule arg_cong[where f = "\<lambda>k. drop k xs"], arith)

lemma slice_from_int: "0 < w \<Longrightarrow> slice_from (- w) xs = last_n (nat w) xs"
  using slice_from_neg[of "nat w" xs] by (simp add: last_n_def)

lemma slice_to_int: "0 < w \<Longrightarrow> slice_to (- w) xs = take (length xs - nat w) xs"
  using slice_to_neg[of "nat w" xs] by simp

lemma measured_last_n: "\<exists>k. measured (last_n n h) = last_n k (measured h)"
proof -
  have "h = take (length h - n) h @ last_n n h" by (simp add: last_n_def)
  then have "measured h = measured (take (length h - n) h) @ measured (last_n n h)"
    unfolding measured_def by (metis filter_append)
  then have "measured (last_n n h) = last_n (length (measured (last_n n h))) (measured h)"
    by (simp add: last_n_def)
  then show ?thesis by blast
qed

text \<open>A history capped at its last \<open>n\<close> runs decides a sustained block as the whole history does.\<close>

lemma capped_block:
  assumes "0 < w" "nat w \<le> n"
  shows "should_escalate_block (last_n n h) w t \<longleftrightarrow> should_escalate_block h w t"
    and "blocked_in (slice_from (- w) (last_n n h)) = blocked_in (slice_from (- w) h)"
  using assms by (simp_all add: should_escalate_block_def slice_from_int last_n_suffix)

text \<open>And it never raises a quiet alert that the whole history would not raise.\<close>

lemma capped_quiet:
  assumes "0 < w" "should_alert_quiet (last_n n h) w"
  shows "should_alert_quiet h w"
proof -
  obtain k where k: "measured (last_n n h) = last_n k (measured h)" using measured_last_n by blast
  let ?m = "measured h" and ?s = "last_n k (measured h)"
  have "nat w \<le> length (measured (last_n n h))"
    using assms by (auto simp: should_alert_quiet_def Let_def split: if_splits)
  then have len: "nat w \<le> length ?s" by (simp only: k)
  moreover have "length ?s \<le> k" by (simp add: last_n_def)
  ultimately have len: "nat w \<le> length ?s" "nat w \<le> k" by simp_all
  have "last_n (nat w) ?s = last_n (nat w) ?m" using last_n_suffix[OF len(2)] .
  moreover have "take (length ?s - nat w) ?s = drop (length ?m - k) (take (length ?m - nat w) ?m)"
    by (simp add: last_n_def drop_take add.commute)
  then have "set (take (length ?s - nat w) ?s) \<subseteq> set (take (length ?m - nat w) ?m)"
    by (metis set_drop_subset)
  moreover have "length ?s \<le> length ?m" by (simp add: last_n_def)
  ultimately show ?thesis
    using assms by (auto simp: should_alert_quiet_def Let_def k slice_from_int slice_to_int list_ex_iff split: if_splits)
qed

lemma run_of_run_json [simp]:
  "run_of_json (run_json now res counts) =
     \<lparr>success = sr_success res, failure_reason = sr_failure_reason res, bills_new = map_option fc_new counts\<rparr>"
  by (auto simp: run_of_json_def run_json_def dict_get_def opt_json_def split: option.splits)

section \<open>Many runs of one jurisdiction\<close>

text \<open>A run of a jurisdiction: the markers on disk when it is recorded, the time, and its result.\<close>

type_synonym run = "(string \<Rightarrow> string option) \<times> string \<times> scrape_result"

definition seen :: "string \<Rightarrow> run \<Rightarrow> run_record" where
  "seen jurisdiction = (\<lambda>(markers, now, res). run_of_json (run_json now res (counted markers jurisdiction res)))"

fun check_runs ::
  "'r redis option \<Rightarrow> check_config \<Rightarrow> string \<Rightarrow> string \<Rightarrow> run list \<Rightarrow> 'r \<Rightarrow> history_alert list list \<times> 'r" where
  "check_runs c cfg flow_key jurisdiction [] r = ([], r)"
| "check_runs c cfg flow_key jurisdiction ((markers, now, res) # runs) r =
     (let (alerts, r) = check_sustained_blocking c markers now cfg flow_key [(jurisdiction, res)] r;
          (more, r) = check_runs c cfg flow_key jurisdiction runs r
      in (alerts # more, r))"

definition decide :: "check_config \<Rightarrow> string \<Rightarrow> run_record list \<Rightarrow> history_alert list" where
  "decide cfg jurisdiction history =
     (if should_escalate_block history (ck_window cfg) (ck_threshold cfg)
      then [SustainedBlock jurisdiction (blocked_in (slice_from (- ck_window cfg) history)) (ck_window cfg)] else []) @
     (if ck_filing_enabled cfg \<and> should_alert_quiet history (ck_quiet_window cfg)
      then [QuietJurisdiction jurisdiction (ck_quiet_window cfg)] else [])"

definition history_at :: "keyspace \<Rightarrow> string \<Rightarrow> nat \<Rightarrow> json list \<Rightarrow> bool" where
  "history_at v k n h = (v k = None \<and> h = [] \<or> (\<exists>e. v k = Some (ListVal (map JsonText (last_n n h)), e)))"

context answering_redis
begin

lemma check_one_run:
  assumes "good r" "history_at (view r) (run_history_key flow_key j) n h" "n = nat (max (ck_window cfg) 20)"
    and "v = run_json now res (counted markers j res)"
    and "check_sustained_blocking (Some R) markers now cfg flow_key [(j, res)] r = (alerts, r')"
  shows "good r' \<and> history_at (view r') (run_history_key flow_key j) n (h @ [v]) \<and>
    alerts = decide cfg j (map run_of_json (last_n n (h @ [v])))"
proof -
  let ?k = "run_history_key flow_key j"
  let ?r1 = "append_run_history (Some R) flow_key j v (int n) r"
  have n: "0 < n" "int n = max (ck_window cfg) 20" using assms(3) by auto
  have start: "view r ?k = None \<and> map JsonText (last_n n h) = [] \<or>
      (\<exists>e. view r ?k = Some (ListVal (map JsonText (last_n n h)), e))"
    using assms(2) by (auto simp: history_at_def last_n_def)
  have ap: "good ?r1 \<and> view ?r1 ?k = Some (ListVal (map JsonText (last_n n (h @ [v]))), Some RUN_HISTORY_TTL)"
  proof -
    have "\<exists>e. view r ?k = None \<and> map JsonText (last_n n h) = [] \<or> view r ?k = Some (ListVal (map JsonText (last_n n h)), e)"
      using start by blast
    then obtain e where "view r ?k = None \<and> map JsonText (last_n n h) = [] \<or> view r ?k = Some (ListVal (map JsonText (last_n n h)), e)" ..
    from append_keeps_last[OF assms(1) this n(1), of v] show ?thesis
      using last_n_last_n[of n "map JsonText h" "JsonText v"] by (simp add: map_last_n)
  qed
  then have "is_list_key (view ?r1) ?k" by (simp add: is_list_key_def)
  with ap obtain xs r2 where l: "r_lrange R ?k ?r1 = (Some xs, r2)" "good r2" using lrange_answers by blast
  have "view r2 = view ?r1" "xs = map JsonText (last_n n (h @ [v]))"
    using lrange_law[OF l(1)] ap by (auto simp: list_at_def)
  moreover from this have "get_run_history (Some R) flow_key j ?r1 = (last_n n (h @ [v]), r2)"
    using those_loads[of "last_n n (h @ [v])"] l by (simp add: get_run_history_def del: map_map)
  ultimately show ?thesis
    using assms(5) ap l(2) by (auto simp: assms(4)[symmetric] n(2)[symmetric] decide_def history_at_def Let_def)
qed

lemma check_runs_decide:
  assumes "good r" "history_at (view r) (run_history_key flow_key j) n h" "n = nat (max (ck_window cfg) 20)"
    and "k < length runs"
  shows "fst (check_runs (Some R) cfg flow_key j runs r) ! k =
    decide cfg j (last_n n (map run_of_json h @ map (seen j) (take (Suc k) runs)))"
  using assms(1,2,4)
proof (induction runs arbitrary: r h k)
  case Nil
  then show ?case by simp
next
  case (Cons run runs)
  obtain markers now res where run: "run = (markers, now, res)" by (cases run)
  define v where "v = run_json now res (counted markers j res)"
  obtain alerts r1 where one: "check_sustained_blocking (Some R) markers now cfg flow_key [(j, res)] r = (alerts, r1)"
    by (cases "check_sustained_blocking (Some R) markers now cfg flow_key [(j, res)] r")
  note step = check_one_run[OF Cons.prems(1,2) assms(3) v_def one]
  have seen: "seen j run = run_of_json v" by (simp add: seen_def run v_def)
  obtain more r2 where rest: "check_runs (Some R) cfg flow_key j runs r1 = (more, r2)"
    by (cases "check_runs (Some R) cfg flow_key j runs r1")
  have all: "fst (check_runs (Some R) cfg flow_key j (run # runs) r) = alerts # more"
    by (simp add: run one rest del: check_sustained_blocking.simps)
  show ?case
  proof (cases k)
    case 0
    then show ?thesis using step by (simp add: all seen map_last_n)
  next
    case (Suc k')
    have "fst (check_runs (Some R) cfg flow_key j runs r1) ! k' =
        decide cfg j (last_n n (map run_of_json (h @ [v]) @ map (seen j) (take (Suc k') runs)))"
      using Cons.IH[of r1 "h @ [v]" k'] step Cons.prems(3) Suc by simp
    then show ?thesis unfolding all rest Suc by (simp add: rest seen)
  qed
qed

end

section \<open>Properties\<close>

text \<open>C12: The rolling history in Redis decides as the whole history would. On a server that answers, starting
  without a history, record any number of runs of one jurisdiction one after the other. After each of them a
  sustained-block alert is raised exactly when the threshold is reached among the last \<open>window\<close> of ALL
  runs so far, and counts exactly those; a quiet alert is only raised when it would be on all runs so far. The cap
  of 20 kept runs (or the window, when larger) never changes the first decision.\<close>

theorem capped_history_decides:
  assumes "answering_redis R view good" "good r"
    and "view r (run_history_key flow_key j) = None"
    and "0 < ck_window cfg" "0 < ck_quiet_window cfg" "k < length runs"
  shows "set (fst (check_runs (Some R) cfg flow_key j runs r) ! k) \<subseteq>
      set (decide cfg j (map (seen j) (take (Suc k) runs))) \<and>
    (\<forall>b w. SustainedBlock j b w \<in> set (fst (check_runs (Some R) cfg flow_key j runs r) ! k) \<longleftrightarrow>
      SustainedBlock j b w \<in> set (decide cfg j (map (seen j) (take (Suc k) runs))))"
proof -
  let ?n = "nat (max (ck_window cfg) 20)" and ?h = "map (seen j) (take (Suc k) runs)"
  have "history_at (view r) (run_history_key flow_key j) ?n []"
    using assms(3) by (simp add: history_at_def)
  from answering_redis.check_runs_decide[OF assms(1,2) this refl assms(6)]
  have alerts: "fst (check_runs (Some R) cfg flow_key j runs r) ! k = decide cfg j (last_n ?n ?h)"
    by simp
  have w: "nat (ck_window cfg) \<le> ?n" by simp
  note block = capped_block[OF assms(4) w, of ?h]
  note quiet = capped_quiet[OF assms(5), of ?n ?h]
  show ?thesis
    unfolding alerts decide_def using quiet by (auto simp: block)
qed

definition demo_block :: "string \<Rightarrow> run" where
  "demo_block reason = ((\<lambda>_. None), ''t'', \<lparr>sr_success = False, sr_failure_reason = Some reason, sr_label = None\<rparr>)"

definition demo_check :: check_config where
  "demo_check = \<lparr>ck_window = 2, ck_threshold = 2, ck_filing_enabled = True, ck_quiet_window = 1\<rparr>"

lemma capped_history_decides_witness:
  "SustainedBlock ''mi'' 2 2 \<in> set (fst (check_runs (Some mem_redis) demo_check ''f'' ''mi''
     [demo_block ''timeout'', demo_block ''waf_block'', demo_block ''waf_block''] demo_memory) ! 2)"
proof -
  let ?runs = "[demo_block ''timeout'', demo_block ''waf_block'', demo_block ''waf_block'']"
  have absent: "mem_view demo_memory (run_history_key ''f'' ''mi'') = None" "up demo_memory"
    by (simp_all add: demo_memory_def mem_view_def run_history_key_def RUN_HISTORY_PREFIX_def
        bill_version_key_def BILL_VERSION_PREFIX_def)
  have seen: "seen ''mi'' (demo_block s) = \<lparr>success = False, failure_reason = Some s, bills_new = None\<rparr>" for s
    by (simp add: seen_def demo_block_def counted_def)
  have "SustainedBlock ''mi'' 2 2 \<in> set (decide demo_check ''mi'' (map (seen ''mi'') (take (Suc 2) ?runs)))"
    by (simp add: decide_def demo_check_def should_escalate_block_def blocked_in_def seen slice_from_def slice_bound_def)
  then show ?thesis
    using capped_history_decides[OF mem_redis.answering_redis_axioms absent(2,1), of demo_check 2 ?runs]
    by (simp add: demo_check_def del: check_runs.simps)
qed

text \<open>A quiet alert needs both halves. For a positive window it is raised exactly when at least \<open>window\<close> runs were measured, the last \<open>window\<close> measured runs imported nothing new, and an
  earlier measured run did; so runs without a measurement change nothing, a run that files clears the
  alert at once, and a jurisdiction that never filed is never reported.\<close>

lemma quiet_alert_exact:
  assumes "0 < window"
  shows "(should_alert_quiet history window \<longleftrightarrow>
      (let ms = measured history in nat window \<le> length ms \<and>
        (\<forall>i < length ms. length ms \<le> i + nat window \<longrightarrow> new_bills (ms ! i) \<le> 0) \<and>
        (\<exists>i. i + nat window < length ms \<and> 0 < new_bills (ms ! i)))) \<and>
    should_alert_quiet (filter (\<lambda>r. bills_new r \<noteq> None) history) window = should_alert_quiet history window \<and>
    (\<forall>r. 0 < new_bills r \<longrightarrow> \<not> should_alert_quiet (history @ [r]) window) \<and>
    ((\<forall>r \<in> set history. new_bills r \<le> 0) \<longrightarrow> \<not> should_alert_quiet history window)"
proof -
  have n: "0 < nat window" using assms by simp
  have exact: "should_alert_quiet history window \<longleftrightarrow>
      (let ms = measured history in nat window \<le> length ms \<and>
        (\<forall>i < length ms. length ms \<le> i + nat window \<longrightarrow> new_bills (ms ! i) \<le> 0) \<and>
        (\<exists>i. i + nat window < length ms \<and> 0 < new_bills (ms ! i)))" for history
  proof -
    let ?ms = "measured history"
    have "should_alert_quiet history window \<longleftrightarrow> nat window \<le> length ?ms \<and>
        (\<forall>x \<in> set (slice_from (- window) ?ms). \<not> 0 < new_bills x) \<and> (\<exists>x \<in> set (slice_to (- window) ?ms). 0 < new_bills x)"
      using assms by (auto simp: should_alert_quiet_def Let_def list_ex_iff simp del: not_less not_le)
    also have "(\<forall>x \<in> set (slice_from (- window) ?ms). \<not> 0 < new_bills x) \<longleftrightarrow>
        (\<forall>i < length ?ms. length ?ms \<le> i + nat window \<longrightarrow> new_bills (?ms ! i) \<le> 0)"
      using set_slice_from_neg[OF n, of ?ms] assms by (auto simp: among_last_def)
    also have "(\<exists>x \<in> set (slice_to (- window) ?ms). 0 < new_bills x) \<longleftrightarrow>
        (\<exists>i. i + nat window < length ?ms \<and> 0 < new_bills (?ms ! i))"
      using set_slice_to_neg[OF n, of ?ms] assms by auto
    finally show ?thesis by (simp only: Let_def)
  qed
  have "measured (filter (\<lambda>r. bills_new r \<noteq> None) history) = measured history"
    by (simp add: measured_def)
  moreover have "\<not> should_alert_quiet (history @ [r]) window" if "0 < new_bills r" for r
  proof
    assume a: "should_alert_quiet (history @ [r]) window"
    have m: "measured (history @ [r]) = measured history @ [r]"
      using that by (auto simp: measured_def new_bills_def split: option.splits)
    have "new_bills r \<le> 0"
      using a n unfolding exact m Let_def by (auto dest!: spec[of _ "length (measured history)"])
    with that show False by simp
  qed
  moreover have "\<not> should_alert_quiet history window" if "\<forall>r \<in> set history. new_bills r \<le> 0"
  proof
    assume "should_alert_quiet history window"
    then obtain i where "i < length (measured history)" "0 < new_bills (measured history ! i)"
      unfolding exact Let_def by (meson add_lessD1)
    moreover have "measured history ! i \<in> set history"
      using calculation(1) nth_mem[of i "measured history"] by (auto simp: measured_def)
    ultimately show False using that by fastforce
  qed
  ultimately show ?thesis using exact by (auto simp: should_alert_quiet_def)
qed

definition demo_filed :: "int \<Rightarrow> run_record" where
  "demo_filed n = \<lparr>success = True, failure_reason = None, bills_new = Some n\<rparr>"

lemma quiet_alert_exact_witness:
  "should_alert_quiet [demo_filed 5, demo_filed 0, demo_filed 0] 2 \<and>
   \<not> should_alert_quiet [demo_filed 5, demo_filed 0, demo_filed 0, demo_filed 1] 2"
proof -
  have "should_alert_quiet [demo_filed 5, demo_filed 0, demo_filed 0] 2"
    by (simp add: should_alert_quiet_def measured_def demo_filed_def slice_from_def slice_to_def slice_bound_def new_bills_def)
  moreover have "\<not> should_alert_quiet ([demo_filed 5, demo_filed 0, demo_filed 0] @ [demo_filed 1]) 2"
    using quiet_alert_exact[of 2 "[demo_filed 5, demo_filed 0, demo_filed 0]"] by (simp add: demo_filed_def new_bills_def)
  ultimately show ?thesis by simp
qed

end
