(* ===== verification/FullWalk.thy ===== *)
theory FullWalk
  imports Files ScrapeGates ScrapeHistory
begin

text \<open>
  The periodic full walk (\<open>_maybe_force_full_walk\<close>, \<open>_restore_full_walk_marker\<close> and
  \<open>_record_full_walk\<close> of \<open>pipelines/openstates_scrape.py\<close>) over the files of \<open>Files\<close>. Removing the
  \<open>.ts\<close> marker is what forces a walk; the \<open>.fullwalk\<close> stamp records that one was done. Times are whole
  seconds. A marker whose bytes are not text raises \<open>UnicodeDecodeError\<close>, which is not an
  \<open>OSError\<close>.
\<close>

section \<open>Operations\<close>

record forced_walk =
  ts_path :: string
  previous_marker :: "string option"

definition last_run_dir :: "string \<Rightarrow> string" where
  "last_run_dir root = path_join (path_join root ''logs'') ''last-run''"

definition marker_path :: "string \<Rightarrow> string \<Rightarrow> string" where
  "marker_path root label = path_join (last_run_dir root) (scrape_key_for label @ ''.ts'')"

definition stamp_path :: "string \<Rightarrow> string \<Rightarrow> string" where
  "stamp_path root label = path_join (last_run_dir root) (scrape_key_for label @ ''.fullwalk'')"

text \<open>The delete, with what was read before it: the whole part of the function after the walk is due.\<close>

definition clear_marker :: "'f files \<Rightarrow> string \<Rightarrow> 'f \<Rightarrow> forced_walk option res \<times> 'f" where
  "clear_marker F ts f =
     (if \<not> f_exists F ts f then (Inr (Some \<lparr>ts_path = ts, previous_marker = None\<rparr>), f)
      else (let (got, f) = f_read F ts f in
        case got of
          Some None \<Rightarrow> (Inl (OtherError ''UnicodeDecodeError''), f)
        | _ \<Rightarrow>
          (case f_remove F ts f of
             (None, f) \<Rightarrow> (Inr None, f)
           | (Some _, f) \<Rightarrow> (Inr (Some \<lparr>ts_path = ts, previous_marker = Option.bind got id\<rparr>), f))))"

definition maybe_force_full_walk ::
  "'f files \<Rightarrow> bool \<times> int \<Rightarrow> string \<Rightarrow> string \<Rightarrow> 'f \<Rightarrow> forced_walk option res \<times> 'f" where
  "maybe_force_full_walk F eligible label root f =
     (let (on, interval_days) = eligible; ts = marker_path root label; stamp = stamp_path root label in
      if \<not> on then (Inr None, f)
      else if \<not> f_isdir F root f then (Inr None, f)
      else (let now = f_time F f in
        if f_exists F stamp f
        then (case f_mtime F stamp f of
                (None, f) \<Rightarrow> (Inr None, f)
              | (Some t, f) \<Rightarrow> if now - t < interval_days * 86400 then (Inr None, f) else clear_marker F ts f)
        else clear_marker F ts f))"

definition restore_full_walk_marker :: "'f files \<Rightarrow> forced_walk \<Rightarrow> 'f \<Rightarrow> 'f" where
  "restore_full_walk_marker F forced f =
     (case previous_marker forced of
        None \<Rightarrow> f
      | Some c \<Rightarrow> if f_exists F (ts_path forced) f then f else snd (f_write F (ts_path forced) c f))"

definition record_full_walk :: "'f files \<Rightarrow> string \<Rightarrow> string \<Rightarrow> string \<Rightarrow> 'f \<Rightarrow> 'f" where
  "record_full_walk F isoformat label root f =
     (case f_makedirs F (last_run_dir root) f of
        (None, f) \<Rightarrow> f
      | (Some _, f) \<Rightarrow> snd (f_write F (stamp_path root label) isoformat f))"

section \<open>What they do to the files\<close>

lemma stamp_ne_marker [simp]: "stamp_path root label \<noteq> marker_path root label" "marker_path root label \<noteq> stamp_path root label"
proof -
  have "path_join d (k @ ''.fullwalk'') \<noteq> path_join d (k @ ''.ts'')" for d k
    by (simp add: path_join_def)
  then show "stamp_path root label \<noteq> marker_path root label" "marker_path root label \<noteq> stamp_path root label"
    unfolding stamp_path_def marker_path_def by metis+
qed

context file_service
begin

lemma absent: "\<not> f_exists F p f \<Longrightarrow> view f p = None"
  using exists_law[of p f] by blast

lemma written: "same_but p (view f) (view (snd (f_write F p s f)))" "f_time F f \<le> f_time F (snd (f_write F p s f))"
    "fst (f_write F p s f) \<noteq> None \<Longrightarrow> \<exists>t. view (snd (f_write F p s f)) p = Some (Some s, t)"
  using write_law[OF prod.collapse[symmetric], where p = p and s = s and f = f] by auto

lemma clear_marker_effect:
  assumes "clear_marker F ts f = (r, f')"
  shows "same_but ts (view f) (view f')" and "f_time F f \<le> f_time F f'"
    and "r = Inr (Some w) \<Longrightarrow> ts_path w = ts \<and> view f' ts = None \<and>
      (\<forall>c. previous_marker w = Some c \<longrightarrow> (\<exists>t. view f ts = Some (Some c, t)))"
proof -
  obtain got f1 where r: "f_read F ts f = (got, f1)" by (cases "f_read F ts f")
  obtain gone f2 where m: "f_remove F ts f1 = (gone, f2)" by (cases "f_remove F ts f1")
  note read = read_law[OF r] and remove = remove_law[OF m]
  show "same_but ts (view f) (view f')" "f_time F f \<le> f_time F f'"
    using assms read remove by (auto simp: clear_marker_def r m same_but_def split: if_splits option.splits)
  show "r = Inr (Some w) \<Longrightarrow> ts_path w = ts \<and> view f' ts = None \<and>
      (\<forall>c. previous_marker w = Some c \<longrightarrow> (\<exists>t. view f ts = Some (Some c, t)))"
    using assms read remove absent[of ts f]
    by (auto simp: clear_marker_def r m split: if_splits option.splits simp del: not_None_eq)
qed

lemma force_effect:
  assumes "maybe_force_full_walk F eligible label root f = (r, f')"
  shows "same_but (marker_path root label) (view f) (view f')" and "f_time F f \<le> f_time F f'"
    and "r = Inr (Some w) \<Longrightarrow> fst eligible \<and> ts_path w = marker_path root label \<and> view f' (marker_path root label) = None \<and>
      (\<forall>c. previous_marker w = Some c \<longrightarrow> (\<exists>t. view f (marker_path root label) = Some (Some c, t)))"
    and "r = Inr (Some w) \<Longrightarrow> view f (stamp_path root label) = Some (s, t) \<Longrightarrow> snd eligible * 86400 \<le> f_time F f - t"
proof -
  let ?ts = "marker_path root label" and ?stamp = "stamp_path root label"
  obtain on days where e: "eligible = (on, days)" by (cases eligible)
  obtain t f1 where m: "f_mtime F ?stamp f = (t, f1)" by (cases "f_mtime F ?stamp f")
  note mt = mtime_law[OF m]
  have cases: "(r = Inr None \<and> (f' = f \<or> f' = f1)) \<or> (on \<and> clear_marker F ?ts f = (r, f') \<and> view f ?stamp = None) \<or>
      (on \<and> clear_marker F ?ts f1 = (r, f') \<and> (\<exists>t'. t = Some t' \<and> days * 86400 \<le> f_time F f - t'))"
    using assms exists_law[of ?stamp f]
    by (auto simp: maybe_force_full_walk_def e m Let_def split: if_splits option.splits)
  show "same_but ?ts (view f) (view f')" "f_time F f \<le> f_time F f'"
    using cases mt clear_marker_effect(1,2)[of ?ts f r f'] clear_marker_effect(1,2)[of ?ts f1 r f']
    by (auto simp: same_but_def)
  show "r = Inr (Some w) \<Longrightarrow> fst eligible \<and> ts_path w = ?ts \<and> view f' ?ts = None \<and>
      (\<forall>c. previous_marker w = Some c \<longrightarrow> (\<exists>t. view f ?ts = Some (Some c, t)))"
    using cases mt clear_marker_effect(3)[of ?ts f r f' w] clear_marker_effect(3)[of ?ts f1 r f' w] by (auto simp: e)
  show "r = Inr (Some w) \<Longrightarrow> view f ?stamp = Some (s, t) \<Longrightarrow> snd eligible * 86400 \<le> f_time F f - t" for s t
    using cases mt by (auto simp: e)
qed

lemma not_due:
  assumes "view f (stamp_path root label) = Some (s, t)" "f_time F f - t < days * 86400"
  shows "\<exists>f'. maybe_force_full_walk F (on, days) label root f = (Inr None, f') \<and> view f' = view f"
proof -
  obtain r f1 where m: "f_mtime F (stamp_path root label) f = (r, f1)" by (cases "f_mtime F (stamp_path root label) f")
  show ?thesis
    using assms mtime_law[OF m] exists_law[of "stamp_path root label" f]
    by (auto simp: maybe_force_full_walk_def Let_def m split: option.splits)
qed

lemma restore_effect:
  shows "same_but (ts_path w) (view f) (view (restore_full_walk_marker F w f))"
    and "view f (ts_path w) \<noteq> None \<or> previous_marker w = None \<Longrightarrow> view (restore_full_walk_marker F w f) = view f"
    and "view f (ts_path w) = None \<Longrightarrow> previous_marker w = Some c \<Longrightarrow> fst (f_write F (ts_path w) c f) \<noteq> None \<Longrightarrow>
      \<exists>t. view (restore_full_walk_marker F w f) (ts_path w) = Some (Some c, t)"
    and "f_time F f \<le> f_time F (restore_full_walk_marker F w f)"
proof -
  show "same_but (ts_path w) (view f) (view (restore_full_walk_marker F w f))"
    "f_time F f \<le> f_time F (restore_full_walk_marker F w f)"
    using written(1,2)[where p = "ts_path w" and f = f] by (auto simp: restore_full_walk_marker_def same_but_def split: option.splits)
  show "view f (ts_path w) \<noteq> None \<or> previous_marker w = None \<Longrightarrow> view (restore_full_walk_marker F w f) = view f"
    using exists_law[of "ts_path w" f] by (auto simp: restore_full_walk_marker_def split: option.splits)
  show "view f (ts_path w) = None \<Longrightarrow> previous_marker w = Some c \<Longrightarrow> fst (f_write F (ts_path w) c f) \<noteq> None \<Longrightarrow>
      \<exists>t. view (restore_full_walk_marker F w f) (ts_path w) = Some (Some c, t)"
    using exists_law[of "ts_path w" f] written(3)[where p = "ts_path w" and s = c and f = f] by (auto simp: restore_full_walk_marker_def)
qed

lemma record_effect:
  shows "same_but (stamp_path root label) (view f) (view (record_full_walk F stamp_text label root f))"
    and "f_time F f \<le> f_time F (record_full_walk F stamp_text label root f)"
proof -
  obtain r f1 where m: "f_makedirs F (last_run_dir root) f = (r, f1)" by (cases "f_makedirs F (last_run_dir root) f")
  note md = makedirs_law[OF m] and wl = written(1,2)[where p = "stamp_path root label" and s = stamp_text and f = f1]
  show "same_but (stamp_path root label) (view f) (view (record_full_walk F stamp_text label root f))"
    "f_time F f \<le> f_time F (record_full_walk F stamp_text label root f)"
    using md wl by (auto simp: record_full_walk_def m same_but_def split: option.splits)
qed

text \<open>A marker that can be read is saved before it is removed.\<close>

lemma clear_saves:
  assumes "clear_marker F ts f = (Inr (Some w), f')" "view f ts = Some (x, t)"
    and "\<And>g. view g ts \<noteq> None \<Longrightarrow> fst (f_read F ts g) \<noteq> None"
  shows "previous_marker w = x \<and> x \<noteq> None"
proof -
  obtain got f1 where r: "f_read F ts f = (got, f1)" by (cases "f_read F ts f")
  have "fst (f_read F ts f) \<noteq> None" using assms(2,3) by simp
  then have got: "got = Some x" using read_law[OF r] assms(2) r by auto
  have "f_exists F ts f" using exists_law[of ts f] assms(2) by simp
  then show ?thesis
    using assms(1) by (cases x) (auto simp: clear_marker_def r got split: option.splits prod.splits)
qed

lemma clear_none_keeps: "clear_marker F ts f = (Inr None, f') \<Longrightarrow> view f' = view f"
proof -
  assume a: "clear_marker F ts f = (Inr None, f')"
  obtain got f1 where r: "f_read F ts f = (got, f1)" by (cases "f_read F ts f")
  obtain gone f2 where m: "f_remove F ts f1 = (gone, f2)" by (cases "f_remove F ts f1")
  show ?thesis
    using a read_law[OF r] remove_law[OF m] by (auto simp: clear_marker_def r m split: if_splits option.splits)
qed

lemma force_none_keeps:
  assumes "maybe_force_full_walk F eligible label root f = (Inr None, f')"
  shows "view f' = view f"
proof -
  obtain m f1 where m: "f_mtime F (stamp_path root label) f = (m, f1)" by (cases "f_mtime F (stamp_path root label) f")
  have "f' = f \<or> f' = f1 \<or> clear_marker F (marker_path root label) f = (Inr None, f') \<or>
      clear_marker F (marker_path root label) f1 = (Inr None, f')"
    using assms by (auto simp: maybe_force_full_walk_def m Let_def split: if_splits option.splits prod.splits)
  then show ?thesis using mtime_law[OF m] clear_none_keeps by metis
qed

lemma force_saves:
  assumes "maybe_force_full_walk F eligible label root f = (Inr (Some w), f')"
    and "view f (marker_path root label) = Some (x, t)"
    and "\<And>g. view g (marker_path root label) \<noteq> None \<Longrightarrow> fst (f_read F (marker_path root label) g) \<noteq> None"
  shows "previous_marker w = x \<and> x \<noteq> None"
proof -
  obtain m f1 where m: "f_mtime F (stamp_path root label) f = (m, f1)" by (cases "f_mtime F (stamp_path root label) f")
  have "clear_marker F (marker_path root label) f = (Inr (Some w), f') \<or>
      clear_marker F (marker_path root label) f1 = (Inr (Some w), f')"
    using assms(1) by (auto simp: maybe_force_full_walk_def m Let_def split: if_splits option.splits prod.splits)
  moreover have "view f1 = view f" using mtime_law[OF m] by simp
  ultimately show ?thesis using clear_saves assms(2,3) by metis
qed

text \<open>The stamp is left alone, or written at the time of the record.\<close>

lemma record_stamps:
  assumes "\<And>g c. fst (f_write F (stamp_path root label) c g) \<noteq> None"
  shows "view (record_full_walk F s label root f) (stamp_path root label) = view f (stamp_path root label) \<or>
    (\<exists>t. view (record_full_walk F s label root f) (stamp_path root label) = Some (Some s, t) \<and> f_time F f \<le> t)"
proof -
  obtain r f1 where m: "f_makedirs F (last_run_dir root) f = (r, f1)" by (cases "f_makedirs F (last_run_dir root) f")
  obtain w f2 where wr: "f_write F (stamp_path root label) s f1 = (w, f2)" by (cases "f_write F (stamp_path root label) s f1")
  have "w \<noteq> None" using assms[of s f1] wr by simp
  then show ?thesis
    using makedirs_law[OF m] write_law[OF wr] by (cases r) (auto simp: record_full_walk_def m wr)
qed

end

end
