(* ===== verification/Scrapebot.thy ===== *)
theory Scrapebot
  imports PyJson Files
begin

text \<open>
  The ScrapeBot client (\<open>services/scrapebot_client.py\<close>): dispatch a task that mints cookies, poll it until it
  ends, read its result from disk, and seed the cookie cache of a jurisdiction. The service is a parameter:
  the answer to the POST and to each GET, which raise when \<open>httpx\<close>, \<open>raise_for_status\<close> or \<open>json\<close> do.
  The clock is in whole seconds; between two looks at it a poll sleeps 5 seconds and may take longer.
\<close>

section \<open>Dispatching\<close>

text \<open>\<open>ScrapeBotDispatchError\<close>, or any other exception.\<close>

datatype mint_error = Dispatch string | Escaped py_error

text \<open>What \<open>json.loads(read_text())\<close> gives: \<open>OSError\<close> or \<open>JSONDecodeError\<close>, another exception, a value.\<close>

datatype result_file = NoResult | BadBytes | Result json

record mint_service =
  cams_artifacts_dir :: string
  created :: "json res"
  task_status :: "nat \<Rightarrow> json res"
  lag :: "nat \<Rightarrow> nat"
  result_of :: "string \<Rightarrow> result_file"

definition POLL_INTERVAL_SECONDS :: int where "POLL_INTERVAL_SECONDS = 5"
definition DEFAULT_TIMEOUT_SECONDS :: int where "DEFAULT_TIMEOUT_SECONDS = 240"
definition SESSION_COOKIE_TTL_SECONDS :: int where "SESSION_COOKIE_TTL_SECONDS = 3600"

definition TERMINAL_STATUSES :: "json list" where
  "TERMINAL_STATUSES = [JStr ''completed'', JStr ''failed'', JStr ''cancelled'']"

text \<open>The polls from the \<open>k\<close>-th on, with \<open>left\<close> seconds to the deadline; the number of polls made is kept.\<close>

function poll_status :: "mint_service \<Rightarrow> nat \<Rightarrow> int \<Rightarrow> (mint_error + json) \<times> nat" where
  "poll_status m k left =
     (if left \<le> 0 then (Inl (Dispatch ''did not finish''), k)
      else (case bind_res (task_status m k) (\<lambda>body. subscript body ''status'') of
          Inl e \<Rightarrow> (Inl (Escaped e), Suc k)
        | Inr st \<Rightarrow>
            if st \<in> set TERMINAL_STATUSES then (Inr st, Suc k)
            else poll_status m (Suc k) (left - POLL_INTERVAL_SECONDS - int (lag m k))))"
  by pat_completeness auto

termination
  by (relation "measure (\<lambda>(m, k, left). nat left)") (auto simp: POLL_INTERVAL_SECONDS_def)

declare poll_status.simps [simp del]

definition read_result :: "mint_service \<Rightarrow> json \<Rightarrow> mint_error + json \<times> json" where
  "read_result m task_id =
     (case result_of m (json_str task_id) of
        NoResult \<Rightarrow> Inl (Dispatch ''Could not read task_result.json'')
      | BadBytes \<Rightarrow> Inl (Escaped (OtherError ''UnicodeDecodeError''))
      | Result snapshot \<Rightarrow>
          (case bind_res (attr_get snapshot ''cookies'' JNull) (\<lambda>c.
                bind_res (attr_get snapshot ''user_agent'' JNull) (\<lambda>u. Inr (c, u))) of
             Inl e \<Rightarrow> Inl (Escaped e)
           | Inr (cookies, user_agent) \<Rightarrow>
               if \<not> truthy cookies \<or> \<not> truthy user_agent then Inl (Dispatch ''missing cookies/user_agent'')
               else Inr (cookies, user_agent)))"

definition dispatch_mint_cookies :: "mint_service \<Rightarrow> int \<Rightarrow> (mint_error + json \<times> json) \<times> nat" where
  "dispatch_mint_cookies m timeout_seconds =
     (if cams_artifacts_dir m = [] then (Inl (Dispatch ''CAMS_ARTIFACTS_DIR is not configured''), 0)
      else (case bind_res (created m) (\<lambda>body. subscript body ''task_id'') of
          Inl e \<Rightarrow> (Inl (Escaped e), 0)
        | Inr task_id \<Rightarrow>
            (case poll_status m 0 timeout_seconds of
               (Inl e, n) \<Rightarrow> (Inl e, n)
             | (Inr st, n) \<Rightarrow>
                 if st \<noteq> JStr ''completed'' then (Inl (Dispatch ''ended with another status''), n)
                 else (read_result m task_id, n))))"

section \<open>The cookie cache\<close>

definition cache_dir :: "string \<Rightarrow> string" where
  "cache_dir root = path_join (path_join root ''openstates-scrapers'') ''_cache''"

definition cache_path_for :: "string \<Rightarrow> string \<Rightarrow> string" where
  "cache_path_for jurisdiction root = path_join (cache_dir root) (jurisdiction @ ''_waf_cookies.json'')"

text \<open>
  The name and the entry of one cookie; a cookie that does not expire gets the time of a session. A number is
  compared with 0, \<open>True\<close> counts as 1, and the other values cannot be compared. A name that is not a
  string is written as its JSON text.
\<close>

definition cookie_expiry :: "int \<Rightarrow> json \<Rightarrow> json res" where
  "cookie_expiry now_s v =
     (if \<not> truthy v then Inr (JInt (now_s + SESSION_COOKIE_TTL_SECONDS))
      else (case v of
          JInt i \<Rightarrow> Inr (JInt (if i \<le> 0 then now_s + SESSION_COOKIE_TTL_SECONDS else i))
        | JBool b \<Rightarrow> Inr v
        | _ \<Rightarrow> Inl TypeError))"

definition cookie_entry :: "int \<Rightarrow> json \<Rightarrow> (string \<times> json) res" where
  "cookie_entry now_s c =
     bind_res (attr_get c ''expires'' JNull) (\<lambda>v.
     bind_res (cookie_expiry now_s v) (\<lambda>expires.
     bind_res (subscript c ''value'') (\<lambda>value.
     bind_res (subscript c ''name'') (\<lambda>name.
     bind_res (json_key name) (\<lambda>_.
       Inr (case name of JStr s \<Rightarrow> s | _ \<Rightarrow> json_dumps name, JObj [(''value'', value), (''expires'', expires)]))))))"

definition cookie_cache :: "int \<Rightarrow> json \<Rightarrow> json \<Rightarrow> json res" where
  "cookie_cache now_s cookies user_agent =
     bind_res (json_iter cookies) (\<lambda>cs.
     bind_res (map_res (cookie_entry now_s) cs) (\<lambda>es.
       let data = fold (\<lambda>(n, e) d. dict_set n e d) es [] in
       Inr (JObj (dict_set ''_meta'' (JObj [(''user_agent'', user_agent), (''minted_at'', JInt now_s)]) data))))"

text \<open>\<open>OSError\<close> is an exception like the others here.\<close>

definition write_cookie_cache :: "'f files \<Rightarrow> string \<Rightarrow> string \<Rightarrow> json \<Rightarrow> json \<Rightarrow> 'f \<Rightarrow> py_error option \<times> 'f" where
  "write_cookie_cache F root cache_path cookies user_agent f =
     (case cookie_cache (f_time F f) cookies user_agent of
        Inl e \<Rightarrow> (Some e, f)
      | Inr data \<Rightarrow>
          (case f_makedirs F (cache_dir root) f of
             (None, f) \<Rightarrow> (Some (OtherError ''OSError''), f)
           | (Some _, f) \<Rightarrow>
               (case f_write F cache_path (json_dumps data) f of
                  (None, f) \<Rightarrow> (Some (OtherError ''OSError''), f)
                | (Some _, f) \<Rightarrow> (None, f))))"

section \<open>Facts\<close>

lemma poll_status_bound:
  "snd (poll_status m k left) * 5 \<le> k * 5 + (if left \<le> 0 then 0 else nat left + 4)"
proof (induction m k left rule: poll_status.induct)
  case (1 m k left)
  show ?case
  proof (cases "left \<le> 0")
    case True
    then show ?thesis by (subst poll_status.simps) simp
  next
    case False
    show ?thesis
    proof (cases "bind_res (task_status m k) (\<lambda>body. subscript body ''status'')")
      case (Inl e)
      then show ?thesis using False by (subst poll_status.simps) simp
    next
      case (Inr st)
      have "nat (left - POLL_INTERVAL_SECONDS - int (lag m k)) \<le> nat left - 5"
        by (simp add: POLL_INTERVAL_SECONDS_def)
      then show ?thesis
        using "1.IH"[OF False Inr] False Inr by (subst poll_status.simps) (auto split: if_splits simp: POLL_INTERVAL_SECONDS_def)
    qed
  qed
qed

lemma dispatch_polls: "snd (dispatch_mint_cookies m DEFAULT_TIMEOUT_SECONDS) \<le> 48"
  using poll_status_bound[of m 0 DEFAULT_TIMEOUT_SECONDS]
  by (auto simp: dispatch_mint_cookies_def DEFAULT_TIMEOUT_SECONDS_def split: sum.splits prod.splits)

text \<open>Only cookies and a user agent that are not empty are handed on.\<close>

lemma dispatch_usable:
  "dispatch_mint_cookies m t = (Inr (cookies, user_agent), n) \<Longrightarrow> truthy cookies \<and> truthy user_agent"
  by (auto simp: dispatch_mint_cookies_def read_result_def bind_res_Inr_iff
      split: if_splits sum.splits prod.splits result_file.splits)

context file_service
begin

lemma write_cookie_cache_effect:
  assumes "write_cookie_cache F root p cookies ua f = (r, f')"
  shows "same_but p (view f) (view f')" and "f_time F f \<le> f_time F f'"
proof -
  obtain d f1 where m: "f_makedirs F (cache_dir root) f = (d, f1)" by (cases "f_makedirs F (cache_dir root) f")
  note md = makedirs_law[OF m]
  have "same_but p (view f) (view f') \<and> f_time F f \<le> f_time F f'"
  proof (cases "cookie_cache (f_time F f) cookies ua")
    case (Inl e)
    then show ?thesis using assms by (auto simp: write_cookie_cache_def same_but_def)
  next
    case (Inr data)
    obtain w f2 where wr: "f_write F p (json_dumps data) f1 = (w, f2)" by (cases "f_write F p (json_dumps data) f1")
    show ?thesis
      using assms md write_law[OF wr] Inr by (auto simp: write_cookie_cache_def m wr same_but_def split: option.splits)
  qed
  then show "same_but p (view f) (view f')" "f_time F f \<le> f_time F f'" by simp_all
qed

end

end
