(* ===== verification/ScrapeRun.thy ===== *)
theory ScrapeRun
  imports FullWalk Scrapebot
begin

text \<open>
  One scrape (\<open>_run_scrape_impl\<close> and \<open>_run_scrape\<close> of \<open>pipelines/openstates_scrape.py\<close>), in the order of the
  code: the people check, the cloud path, the cookies, the forced full walk, the command and its environment, the
  subprocess, the result and the alert, and the restore of a marker. What is outside (the files, the manifest,
  api-v3, ScrapeBot, the subprocess, the cloud run, the broker and the archive hook) is a record; what the code
  does to the outside in an order that matters is the list of events. Durations and log lines are not modelled.
\<close>

section \<open>Results, alerts and the outside\<close>

text \<open>What is wrong with a failed scrape: the \<open>error\<close> of the result, whose text is \<open>failure_text\<close>.\<close>

datatype failure = Refused string | Stalled | TimedOut | ExitCode int | Raised string

fun failure_text :: "failure \<Rightarrow> string" where
  "failure_text (Refused s) = s"
| "failure_text Stalled = ''stalled''"
| "failure_text TimedOut = ''timeout''"
| "failure_text (ExitCode n) = ''exit_code_'' @ int_str n"
| "failure_text (Raised s) = s"

record scrape_answer =
  succeeded :: bool
  failed_with :: "failure option"
  failure_class :: "string option"
  answer_label :: "string option"

text \<open>What \<open>_alert_scrape_failure\<close> is told, and the order of what happens.\<close>

datatype alert = AlertStalled nat int | AlertTimeout int | AlertSignal int | AlertError string

record command =
  script :: string
  arguments :: "string list"
  added_env :: "(string \<times> string) list"
  limit_s :: int
  progress_dir :: string

datatype event =
    Minted string
  | CloudRun string
  | Launched command
  | Alerted string alert
  | BrokerSignal string
  | ArchiveHook string

record finished =
  returncode :: int
  stdout_text :: string
  stderr_text :: string
  timed_out :: bool
  stalled :: bool

text \<open>An exception of \<open>_run_with_group_kill\<close>: the name of its type and its text.\<close>

type_synonym launched = "(string \<times> string) + finished"

record 'f scrape_world =
  files_of :: "'f files"
  manifest_world :: world
  people_count :: "string \<Rightarrow> int option"
  mint_of :: "string \<Rightarrow> mint_service"
  scraper_log :: "'f \<Rightarrow> string option"
  launch :: "command \<Rightarrow> 'f \<Rightarrow> launched \<times> 'f"
  cloud :: "string \<Rightarrow> string option \<Rightarrow> 'f \<Rightarrow> scrape_answer \<times> 'f"
  isoformat_of :: "'f \<Rightarrow> string"
  broker_ready :: bool

record 'f scrape_state =
  disk_state :: 'f
  enrollments :: enrollment
  events :: "event list"

definition happened :: "event \<Rightarrow> 'f scrape_state \<Rightarrow> 'f scrape_state" where
  "happened e st = st\<lparr>events := events st @ [e]\<rparr>"

section \<open>Before the subprocess\<close>

definition refusal_text :: "refusal \<Rightarrow> string" where
  "refusal_text r = (case r of
      PeopleCountUnreadable code \<Rightarrow> ''cannot read the legislator count for '' @ upper code @
        '' from api-v3, so the first scrape is refused rather than '' @
        ''started without proof that its legislators are loaded (runbook rule 1).''
    | NoPeople code \<Rightarrow> upper code @
        '' has no legislators in production (0 people): load them first (`os-people to-database '' @ code @
        ''`), or every vote and sponsor will be stored with a name and no person (runbook rule 1, SYNC-147).'')"

text \<open>Only \<open>ScrapeBotDispatchError\<close> is caught; any other exception leaves the function.\<close>

definition maybe_preseed_scrapebot_cookies ::
  "'f scrape_world \<Rightarrow> string \<Rightarrow> json \<Rightarrow> string \<Rightarrow> 'f scrape_state \<Rightarrow> py_error option \<times> 'f scrape_state" where
  "maybe_preseed_scrapebot_cookies W jurisdiction config root st =
     (case scrapebot_eligible jurisdiction config of
        Inl e \<Rightarrow> (Some e, st)
      | Inr False \<Rightarrow> (None, st)
      | Inr True \<Rightarrow>
          (let st = happened (Minted jurisdiction) st in
           case fst (dispatch_mint_cookies (mint_of W jurisdiction) DEFAULT_TIMEOUT_SECONDS) of
             Inl (Dispatch _) \<Rightarrow> (None, st)
           | Inl (Escaped e) \<Rightarrow> (Some e, st)
           | Inr (cookies, user_agent) \<Rightarrow>
               (let (r, f) = write_cookie_cache (files_of W) root (cache_path_for jurisdiction root)
                      cookies user_agent (disk_state st) in
                (r, st\<lparr>disk_state := f\<rparr>))))"

definition SCRAPE_TIMEOUT_S :: "(string \<times> int) list" where
  "SCRAPE_TIMEOUT_S = [(''fl'', 16 * 3600), (''ma'', 16 * 3600), (''mi'', 10 * 3600), (''wa'', 8 * 3600),
     (''usa'', 4 * 3600), (''default'', 6 * 3600)]"

definition timeout_for :: "int option \<Rightarrow> string \<Rightarrow> int" where
  "timeout_for timeout_s jurisdiction =
     (case timeout_s of
        Some t \<Rightarrow> if t \<noteq> 0 then t else (case map_of SCRAPE_TIMEOUT_S jurisdiction of Some d \<Rightarrow> d | None \<Rightarrow> 6 * 3600)
      | None \<Rightarrow> (case map_of SCRAPE_TIMEOUT_S jurisdiction of Some d \<Rightarrow> d | None \<Rightarrow> 6 * 3600))"

definition label_of :: "string \<Rightarrow> string option \<Rightarrow> string" where
  "label_of jurisdiction session_arg =
     (case session_arg of Some s \<Rightarrow> if s \<noteq> [] then jurisdiction @ '' '' @ s else jurisdiction | None \<Rightarrow> jurisdiction)"

text \<open>\<open>",".join(xs)\<close>\<close>

fun join_commas :: "string list \<Rightarrow> string" where
  "join_commas [] = []"
| "join_commas [x] = x"
| "join_commas (x # y # xs) = x @ '','' @ join_commas (y # xs)"

definition retry_env :: "json \<Rightarrow> (string \<times> string) list res" where
  "retry_env config =
     bind_res (block_at (or_empty config) [''scrape_retry'']) (\<lambda>cfg.
     bind_res (attr_get cfg ''max_attempts'' (JInt 3)) (\<lambda>attempts.
     bind_res (attr_get cfg ''backoff_secs'' (JArr [JInt 900, JInt 1800])) (\<lambda>b.
     bind_res (json_iter b) (\<lambda>secs.
       Inr [(''SCRAPE_RETRY_MAX_ATTEMPTS'', json_str attempts),
            (''SCRAPE_RETRY_BACKOFF_SECS'', join_commas (map json_str secs))]))))"

text \<open>From the choice of the script to the timeout; an exception here leaves \<open>_run_scrape_impl\<close>.\<close>

definition prepare_command ::
  "'f scrape_world \<Rightarrow> string \<Rightarrow> string option \<Rightarrow> string \<Rightarrow> int option \<Rightarrow> json \<Rightarrow>
    'f scrape_state \<Rightarrow> command res \<times> 'f scrape_state" where
  "prepare_command W jurisdiction session_arg root timeout_s config st =
     (case retry_eligible jurisdiction config of
        Inl e \<Rightarrow> (Inl e, st)
      | Inr wanted \<Rightarrow>
          (let retrying = path_join root ''run-scrape-retrying.sh'';
               retry_enabled = (wanted \<and> f_exists (files_of W) retrying (disk_state st));
               (memory, en) = memory_backend_enabled (manifest_world W) jurisdiction config (enrollments st);
               st = st\<lparr>enrollments := en\<rparr> in
           (bind_res memory (\<lambda>s3.
            bind_res (sweep_import_eligible jurisdiction config) (\<lambda>sweep.
            bind_res (if retry_enabled then retry_env config else Inr []) (\<lambda>retry_vars.
              Inr \<lparr>script = (if retry_enabled then retrying else path_join root ''run-scrape.sh''),
                   arguments = jurisdiction # (case session_arg of Some s \<Rightarrow> if s \<noteq> [] then [s] else [] | None \<Rightarrow> []),
                   added_env = [(''SKIP_PATCHES'', ''1'')] @
                     (if s3 then [(''SCRAPER_MEMORY_BACKEND'', ''s3''), (''SCRAPER_MEMORY_PREFIX'', ''prod'')] else []) @
                     (if sweep then [(''SWEEP_IMPORT_ENABLED'', ''1'')] else []) @ retry_vars,
                   limit_s = timeout_for timeout_s jurisdiction,
                   progress_dir = path_join (path_join (path_join root ''openstates-scrapers'') ''_data'') jurisdiction\<rparr>))),
            st)))"

section \<open>The subprocess and its result\<close>

definition SCRAPE_STALL_SECONDS :: nat where "SCRAPE_STALL_SECONDS = 45 * 60"

definition failed_answer :: "failure \<Rightarrow> string \<Rightarrow> string \<Rightarrow> scrape_answer" where
  "failed_answer e cls label =
     \<lparr>succeeded = False, failed_with = Some e, failure_class = Some cls, answer_label = Some label\<rparr>"

text \<open>
  The \<open>try\<close> and its \<open>except\<close>. The order of the checks matters: a stall before a timeout before the return
  code, and an exit code above 0 raises no alert, since the script sent its own. The flag is
  \<open>full_walk_completed\<close>.
\<close>

definition attempt_scrape ::
  "'f scrape_world \<Rightarrow> command \<Rightarrow> string \<Rightarrow> string \<Rightarrow> bool \<Rightarrow> 'f scrape_state \<Rightarrow>
    scrape_answer \<times> bool \<times> 'f scrape_state" where
  "attempt_scrape W cmd label root forced st =
     (let log_offset = scraper_log_size (scraper_log W (disk_state st));
          (r, f) = launch W cmd (disk_state st);
          st = (happened (Launched cmd) st)\<lparr>disk_state := f\<rparr> in
      case r of
        Inl (_, err) \<Rightarrow> (failed_answer (Raised err) (classify_failure_reason err []) label, False,
                    happened (Alerted label (AlertError err)) st)
      | Inr p \<Rightarrow>
          if stalled p then (failed_answer Stalled (classify_failure_reason ''timeout'' []) label, False,
                             happened (Alerted label (AlertStalled SCRAPE_STALL_SECONDS (limit_s cmd))) st)
          else if timed_out p then (failed_answer TimedOut (classify_failure_reason ''timeout'' []) label, False,
                                    happened (Alerted label (AlertTimeout (limit_s cmd))) st)
          else if returncode p \<noteq> 0 then
            (let tail = slice_from (-500) (stderr_text p) @ [newline] @
                   read_scraper_log_tail (scraper_log W f) log_offset SCRAPER_LOG_TAIL_BYTES;
                 st = (if returncode p < 0 then happened (Alerted label (AlertSignal (- returncode p))) st else st) in
             (failed_answer (ExitCode (returncode p))
                (classify_failure_reason (failure_text (ExitCode (returncode p))) tail) label, False, st))
          else
            (let st = (if forced then st\<lparr>disk_state := record_full_walk (files_of W) (isoformat_of W f) label root f\<rparr>
                       else st) in
             (\<lparr>succeeded = True, failed_with = None, failure_class = None, answer_label = Some label\<rparr>, True, st)))"

text \<open>After the command is known: the attempt, and the \<open>finally\<close> that gives a cleared marker back.\<close>

definition scrape_with ::
  "'f scrape_world \<Rightarrow> command \<Rightarrow> string \<Rightarrow> string \<Rightarrow> forced_walk option \<Rightarrow> 'f scrape_state \<Rightarrow>
    scrape_answer \<times> 'f scrape_state" where
  "scrape_with W cmd label root forced st =
     (let (answer, completed, st) = attempt_scrape W cmd label root (forced \<noteq> None) st in
      case forced of
        Some w \<Rightarrow> if completed then (answer, st)
                  else (answer, st\<lparr>disk_state := restore_full_walk_marker (files_of W) w (disk_state st)\<rparr>)
      | None \<Rightarrow> (answer, st))"

section \<open>One scrape\<close>

text \<open>\<open>skip\<close> and \<open>checked\<close> are the two context variables of the manual trigger.\<close>

definition run_local_scrape ::
  "'f scrape_world \<Rightarrow> string \<Rightarrow> string option \<Rightarrow> string \<Rightarrow> int option \<Rightarrow> json \<Rightarrow>
    'f scrape_state \<Rightarrow> scrape_answer res \<times> 'f scrape_state" where
  "run_local_scrape W jurisdiction session_arg root timeout_s config st =
     (let label = label_of jurisdiction session_arg in
      case maybe_preseed_scrapebot_cookies W jurisdiction config root st of
        (Some e, st) \<Rightarrow> (Inl e, st)
      | (None, st) \<Rightarrow>
          (case full_walk_eligible jurisdiction config of
             Inl e \<Rightarrow> (Inl e, st)
           | Inr eligible \<Rightarrow>
               (let (r, f) = maybe_force_full_walk (files_of W) eligible label root (disk_state st);
                    st = st\<lparr>disk_state := f\<rparr> in
                case r of
                  Inl e \<Rightarrow> (Inl e, st)
                | Inr forced \<Rightarrow>
                    (case prepare_command W jurisdiction session_arg root timeout_s config st of
                       (Inl e, st) \<Rightarrow> (Inl e, st)
                     | (Inr cmd, st) \<Rightarrow>
                         (let (answer, st) = scrape_with W cmd label root forced st in (Inr answer, st))))))"

definition run_scrape_impl ::
  "'f scrape_world \<Rightarrow> bool \<Rightarrow> bool \<Rightarrow> string \<Rightarrow> string option \<Rightarrow> string \<Rightarrow> int option \<Rightarrow> json \<Rightarrow>
    'f scrape_state \<Rightarrow> scrape_answer res \<times> 'f scrape_state" where
  "run_scrape_impl W skip checked jurisdiction session_arg root timeout_s config st =
     (let (refused, en) = people_check_refusal (manifest_world W) skip checked (people_count W) jurisdiction config
            (enrollments st);
          st = st\<lparr>enrollments := en\<rparr> in
      case refused of
        Inl e \<Rightarrow> (Inl e, st)
      | Inr (Some r) \<Rightarrow>
          (Inr \<lparr>succeeded = False, failed_with = Some (Refused (refusal_text r)), failure_class = None, answer_label = None\<rparr>, st)
      | Inr None \<Rightarrow>
          (let (owned, en) = cloud_path_owns (manifest_world W) jurisdiction config (enrollments st);
               st = st\<lparr>enrollments := en\<rparr> in
           case owned of
             Inl e \<Rightarrow> (Inl e, st)
           | Inr True \<Rightarrow>
               (let (answer, f) = cloud W jurisdiction session_arg (disk_state st) in
                (Inr answer, (happened (CloudRun jurisdiction) st)\<lparr>disk_state := f\<rparr>))
           | Inr False \<Rightarrow> run_local_scrape W jurisdiction session_arg root timeout_s config st))"

section \<open>After a success\<close>

definition archive_jurisdiction_code :: "string \<Rightarrow> string" where
  "archive_jurisdiction_code j = (if j = ''usa'' then ''us'' else j)"

text \<open>
  \<open>_maybe_signal_broker_bill_events\<close>: opted in, configured, and not sent in the last 15 minutes
  (\<open>fresh\<close>: the debounce key was set, or Redis could not tell). Every exception of it is caught.
\<close>

definition wants_broker_signal :: "json \<Rightarrow> string \<Rightarrow> bool" where
  "wants_broker_signal config jurisdiction =
     (case bind_res (attr_get (or_empty config) ''broker_bill_event_signal'' JNull) (\<lambda>b.
           bind_res (block_enabled (or_empty b)) (\<lambda>on.
             if \<not> on then Inr False
             else bind_res (attr_get (or_empty b) ''jurisdictions'' (JArr [])) (\<lambda>v. bind_res (json_iter v) (\<lambda>js.
               Inr (lower (archive_jurisdiction_code jurisdiction) \<in> set (map (lower \<circ> json_str) js)))))) of
        Inl _ \<Rightarrow> False
      | Inr b \<Rightarrow> b)"

definition maybe_signal_broker_bill_events ::
  "'f scrape_world \<Rightarrow> bool \<Rightarrow> string \<Rightarrow> json \<Rightarrow> 'f scrape_state \<Rightarrow> 'f scrape_state" where
  "maybe_signal_broker_bill_events W fresh jurisdiction config st =
     (if wants_broker_signal config jurisdiction \<and> broker_ready W \<and> fresh
      then happened (BrokerSignal (lower (archive_jurisdiction_code jurisdiction))) st else st)"

text \<open>\<open>_run_scrape\<close>: a success is signalled to the broker first, then handed to the archive hook.\<close>

definition run_scrape ::
  "'f scrape_world \<Rightarrow> bool \<Rightarrow> bool \<Rightarrow> bool \<Rightarrow> string \<Rightarrow> string option \<Rightarrow> string \<Rightarrow> int option \<Rightarrow> json \<Rightarrow>
    'f scrape_state \<Rightarrow> scrape_answer res \<times> 'f scrape_state" where
  "run_scrape W fresh skip checked jurisdiction session_arg root timeout_s config st =
     (case run_scrape_impl W skip checked jurisdiction session_arg root timeout_s config st of
        (Inr answer, st) \<Rightarrow>
          (Inr answer, if succeeded answer
             then happened (ArchiveHook jurisdiction) (maybe_signal_broker_bill_events W fresh jurisdiction config st)
             else st)
      | (Inl e, st) \<Rightarrow> (Inl e, st))"

section \<open>What a run did\<close>

text \<open>The alerts that belong to the reported failure: none for a success, and none for an exit code above 0.\<close>

fun alerts_of :: "int \<Rightarrow> failure option \<Rightarrow> alert list" where
  "alerts_of limit None = []"
| "alerts_of limit (Some (Refused s)) = []"
| "alerts_of limit (Some Stalled) = [AlertStalled SCRAPE_STALL_SECONDS limit]"
| "alerts_of limit (Some TimedOut) = [AlertTimeout limit]"
| "alerts_of limit (Some (ExitCode n)) = (if n < 0 then [AlertSignal (- n)] else [])"
| "alerts_of limit (Some (Raised err)) = [AlertError err]"

lemma attempt_report:
  assumes "attempt_scrape W cmd label root forced st = (answer, completed, st')"
  shows "events st' = events st @ Launched cmd # map (Alerted label) (alerts_of (limit_s cmd) (failed_with answer))"
    and "completed = succeeded answer" "succeeded answer \<longleftrightarrow> failed_with answer = None"
    and "failed_with answer \<noteq> Some (ExitCode 0)" "failed_with answer \<noteq> Some (Refused r)"
    and "answer_label answer = Some label"
  using assms
  by (auto simp: attempt_scrape_def Let_def happened_def failed_answer_def split: sum.splits prod.splits if_splits)

lemma scrape_with_report:
  assumes "scrape_with W cmd label root forced st = (answer, st')"
  shows "events st' = events st @ Launched cmd # map (Alerted label) (alerts_of (limit_s cmd) (failed_with answer))"
    and "succeeded answer \<longleftrightarrow> failed_with answer = None"
    and "failed_with answer \<noteq> Some (ExitCode 0)" "failed_with answer \<noteq> Some (Refused r)"
    and "answer_label answer = Some label"
proof -
  obtain a c st1 where a: "attempt_scrape W cmd label root (forced \<noteq> None) st = (a, c, st1)"
    by (cases "attempt_scrape W cmd label root (forced \<noteq> None) st") auto
  have "answer = a" "events st' = events st1"
    using assms by (auto simp: scrape_with_def a simp del: not_None_eq split: option.splits if_splits)
  with attempt_report[OF a]
  show "events st' = events st @ Launched cmd # map (Alerted label) (alerts_of (limit_s cmd) (failed_with answer))"
    "succeeded answer \<longleftrightarrow> failed_with answer = None" "failed_with answer \<noteq> Some (ExitCode 0)"
    "failed_with answer \<noteq> Some (Refused r)" "answer_label answer = Some label"
    by auto
qed

lemma preseed_events:
  assumes "maybe_preseed_scrapebot_cookies W jurisdiction config root st = (r, st')"
  shows "\<exists>pre \<in> {[], [Minted jurisdiction]}. events st' = events st @ pre"
  using assms
  by (auto simp: maybe_preseed_scrapebot_cookies_def Let_def happened_def
      split: sum.splits bool.splits mint_error.splits prod.splits)

lemma prepare_keeps:
  "prepare_command W jurisdiction session_arg root timeout_s config st = (r, st') \<Longrightarrow>
    events st' = events st \<and> disk_state st' = disk_state st"
  by (auto simp: prepare_command_def Let_def split: sum.splits prod.splits)

lemma prepare_command_limit:
  "prepare_command W jurisdiction session_arg root timeout_s config st = (Inr cmd, st') \<Longrightarrow>
    limit_s cmd = timeout_for timeout_s jurisdiction \<and> hd (arguments cmd) = jurisdiction"
  by (auto simp: prepare_command_def Let_def bind_res_Inr_iff split: sum.splits prod.splits)

text \<open>The steps of a local scrape that returns.\<close>

lemma local_scrape_steps:
  assumes "run_local_scrape W jurisdiction session_arg root timeout_s config st = (Inr answer, st')"
  obtains st1 eligible forced f st2 cmd st3 where
    "maybe_preseed_scrapebot_cookies W jurisdiction config root st = (None, st1)"
    "full_walk_eligible jurisdiction config = Inr eligible"
    "maybe_force_full_walk (files_of W) eligible (label_of jurisdiction session_arg) root (disk_state st1) = (Inr forced, f)"
    "st2 = st1\<lparr>disk_state := f\<rparr>"
    "prepare_command W jurisdiction session_arg root timeout_s config st2 = (Inr cmd, st3)"
    "scrape_with W cmd (label_of jurisdiction session_arg) root forced st3 = (answer, st')"
proof -
  obtain r1 st1 where p: "maybe_preseed_scrapebot_cookies W jurisdiction config root st = (r1, st1)"
    by (cases "maybe_preseed_scrapebot_cookies W jurisdiction config root st")
  have r1: "r1 = None" using assms by (cases r1) (auto simp: run_local_scrape_def p Let_def)
  obtain eligible where e: "full_walk_eligible jurisdiction config = Inr eligible"
    using assms by (cases "full_walk_eligible jurisdiction config") (auto simp: run_local_scrape_def p r1 Let_def)
  obtain r2 f where m: "maybe_force_full_walk (files_of W) eligible (label_of jurisdiction session_arg) root (disk_state st1) = (r2, f)"
    by (cases "maybe_force_full_walk (files_of W) eligible (label_of jurisdiction session_arg) root (disk_state st1)")
  obtain forced where f: "r2 = Inr forced"
    using assms by (cases r2) (auto simp: run_local_scrape_def p r1 e m Let_def)
  let ?st2 = "st1\<lparr>disk_state := f\<rparr>"
  obtain r3 st3 where c: "prepare_command W jurisdiction session_arg root timeout_s config ?st2 = (r3, st3)"
    by (cases "prepare_command W jurisdiction session_arg root timeout_s config ?st2")
  obtain cmd where cmd: "r3 = Inr cmd"
    using assms by (cases r3) (auto simp: run_local_scrape_def p r1 e m f c Let_def)
  have "scrape_with W cmd (label_of jurisdiction session_arg) root forced st3 = (answer, st')"
    using assms by (auto simp: run_local_scrape_def p r1 e m f c cmd Let_def split: prod.splits)
  with p r1 e m f c cmd that show thesis by blast
qed

lemma local_scrape_report:
  assumes "run_local_scrape W jurisdiction session_arg root timeout_s config st = (Inr answer, st')"
  shows "\<exists>pre \<in> {[], [Minted jurisdiction]}. \<exists>cmd.
      events st' = events st @ pre @ Launched cmd #
        map (Alerted (label_of jurisdiction session_arg)) (alerts_of (limit_s cmd) (failed_with answer)) \<and>
      limit_s cmd = timeout_for timeout_s jurisdiction"
    and "succeeded answer \<longleftrightarrow> failed_with answer = None"
    and "failed_with answer \<noteq> Some (ExitCode 0)" "failed_with answer \<noteq> Some (Refused r)"
    and "answer_label answer = Some (label_of jurisdiction session_arg)"
proof -
  from assms obtain st1 eligible forced f st2 cmd st3 where s:
    "maybe_preseed_scrapebot_cookies W jurisdiction config root st = (None, st1)" "st2 = st1\<lparr>disk_state := f\<rparr>"
    "prepare_command W jurisdiction session_arg root timeout_s config st2 = (Inr cmd, st3)"
    "scrape_with W cmd (label_of jurisdiction session_arg) root forced st3 = (answer, st')"
    by (rule local_scrape_steps)
  from preseed_events[OF s(1)] obtain pre where pre: "pre \<in> {[], [Minted jurisdiction]}" "events st1 = events st @ pre" by blast
  have "events st3 = events st @ pre" using prepare_keeps[OF s(3)] s(2) pre(2) by simp
  with scrape_with_report(1)[OF s(4)] prepare_command_limit[OF s(3)]
  have "events st' = events st @ pre @ Launched cmd #
      map (Alerted (label_of jurisdiction session_arg)) (alerts_of (limit_s cmd) (failed_with answer))"
    "limit_s cmd = timeout_for timeout_s jurisdiction" by simp_all
  with pre(1) show "\<exists>pre \<in> {[], [Minted jurisdiction]}. \<exists>cmd.
      events st' = events st @ pre @ Launched cmd #
        map (Alerted (label_of jurisdiction session_arg)) (alerts_of (limit_s cmd) (failed_with answer)) \<and>
      limit_s cmd = timeout_for timeout_s jurisdiction" by blast
  show "succeeded answer \<longleftrightarrow> failed_with answer = None" "failed_with answer \<noteq> Some (ExitCode 0)"
    "failed_with answer \<noteq> Some (Refused r)" "answer_label answer = Some (label_of jurisdiction session_arg)"
    using scrape_with_report(2-5)[OF s(4)] by simp_all
qed

section \<open>The marker and the stamp across a run\<close>

text \<open>The three files a run touches are different files.\<close>

lemma path_join_under: "\<exists>pre. \<forall>b. path_join root b = pre @ b"
  by (auto simp: path_join_def intro: exI[of _ root] exI[of _ "root @ ''/''"])

lemma cache_path_other [simp]:
  "marker_path root label \<noteq> cache_path_for jurisdiction root" "stamp_path root label \<noteq> cache_path_for jurisdiction root"
proof -
  obtain pre where pre: "path_join root b = pre @ b" for b using path_join_under by blast
  have c: "cache_path_for jurisdiction root = pre @ ''openstates-scrapers/_cache/'' @ jurisdiction @ ''_waf_cookies.json''"
    by (simp add: cache_path_for_def cache_dir_def path_join_def[of "_ @ _"] pre)
  have l: "last_run_dir root = pre @ ''logs/last-run''"
    by (simp add: last_run_dir_def path_join_def[of "_ @ _"] pre)
  have "marker_path root label = pre @ ''logs/last-run/'' @ scrape_key_for label @ ''.ts''"
    "stamp_path root label = pre @ ''logs/last-run/'' @ scrape_key_for label @ ''.fullwalk''"
    by (simp_all add: marker_path_def stamp_path_def l path_join_def)
  then show "marker_path root label \<noteq> cache_path_for jurisdiction root" "stamp_path root label \<noteq> cache_path_for jurisdiction root"
    by (simp_all add: c)
qed

definition ran_well :: "launched \<Rightarrow> bool" where
  "ran_well r = (case r of Inl _ \<Rightarrow> False | Inr p \<Rightarrow> \<not> stalled p \<and> \<not> timed_out p \<and> returncode p = 0)"

text \<open>What is relied on of \<open>run-scrape.sh\<close>: it never writes the stamp, and the marker only when it succeeds.\<close>

definition script_keeps_marks :: "'f scrape_world \<Rightarrow> ('f \<Rightarrow> file_view) \<Rightarrow> string \<Rightarrow> string \<Rightarrow> bool" where
  "script_keeps_marks W view root label = (\<forall>cmd f r f'. launch W cmd f = (r, f') \<longrightarrow>
     f_time (files_of W) f \<le> f_time (files_of W) f' \<and>
     view f' (stamp_path root label) = view f (stamp_path root label) \<and>
     (\<not> ran_well r \<longrightarrow> view f' (marker_path root label) = view f (marker_path root label)))"

text \<open>The marker can be read when it is there, and it can be written.\<close>

definition marker_accessible :: "'f files \<Rightarrow> ('f \<Rightarrow> file_view) \<Rightarrow> string \<Rightarrow> bool" where
  "marker_accessible F view ts = (\<forall>f c. (view f ts \<noteq> None \<longrightarrow> fst (f_read F ts f) \<noteq> None) \<and> fst (f_write F ts c f) \<noteq> None)"

context file_service
begin

lemma preseed_effect:
  assumes "maybe_preseed_scrapebot_cookies W jurisdiction config root st = (r, st')" "files_of W = F"
  shows "same_but (cache_path_for jurisdiction root) (view (disk_state st)) (view (disk_state st'))"
    and "f_time F (disk_state st) \<le> f_time F (disk_state st')"
  using assms write_cookie_cache_effect
  by (force simp: maybe_preseed_scrapebot_cookies_def Let_def happened_def same_but_def
      split: sum.splits bool.splits mint_error.splits prod.splits)+

lemma attempt_effect:
  assumes "attempt_scrape W cmd label root forced st = (answer, completed, st')" "files_of W = F"
    and "script_keeps_marks W view root label"
  shows "f_time F (disk_state st) \<le> f_time F (disk_state st')"
    and "\<not> completed \<Longrightarrow> view (disk_state st') (stamp_path root label) = view (disk_state st) (stamp_path root label) \<and>
      view (disk_state st') (marker_path root label) = view (disk_state st) (marker_path root label)"
    and "completed \<Longrightarrow> \<not> forced \<Longrightarrow> view (disk_state st') (stamp_path root label) = view (disk_state st) (stamp_path root label)"
proof -
  obtain r f where r: "launch W cmd (disk_state st) = (r, f)" by (cases "launch W cmd (disk_state st)")
  note keeps = assms(3)[unfolded script_keeps_marks_def, rule_format, OF r, unfolded assms(2)]
  have d: "disk_state st' = (if completed \<and> forced then record_full_walk F (isoformat_of W f) label root f else f)"
    "completed \<longleftrightarrow> ran_well r"
    using assms(1,2) r by (auto simp: attempt_scrape_def Let_def happened_def ran_well_def split: sum.splits if_splits)
  show "f_time F (disk_state st) \<le> f_time F (disk_state st')"
    using keeps record_effect(2)[of f "isoformat_of W f" label root] by (auto simp: d)
  show "\<not> completed \<Longrightarrow> view (disk_state st') (stamp_path root label) = view (disk_state st) (stamp_path root label) \<and>
      view (disk_state st') (marker_path root label) = view (disk_state st) (marker_path root label)"
    using keeps d by simp
  show "completed \<Longrightarrow> \<not> forced \<Longrightarrow> view (disk_state st') (stamp_path root label) = view (disk_state st) (stamp_path root label)"
    using keeps d by simp
qed

lemma run_keeps_walk_due:
  assumes "run_local_scrape W jurisdiction session_arg root timeout_s config st = (Inr answer, st')" "files_of W = F"
    and "label = label_of jurisdiction session_arg" "script_keeps_marks W view root label"
    and "marker_accessible F view (marker_path root label)" "\<not> succeeded answer"
  shows "view (disk_state st') (stamp_path root label) = view (disk_state st) (stamp_path root label)"
    and "map_option fst (view (disk_state st') (marker_path root label)) =
      map_option fst (view (disk_state st) (marker_path root label))"
proof -
  let ?ts = "marker_path root label" and ?stamp = "stamp_path root label"
  from assms(1) obtain st1 eligible forced f st2 cmd st3 where s:
    "maybe_preseed_scrapebot_cookies W jurisdiction config root st = (None, st1)"
    "maybe_force_full_walk F eligible label root (disk_state st1) = (Inr forced, f)" "st2 = st1\<lparr>disk_state := f\<rparr>"
    "prepare_command W jurisdiction session_arg root timeout_s config st2 = (Inr cmd, st3)"
    "scrape_with W cmd label root forced st3 = (answer, st')"
    unfolding assms(2)[symmetric] assms(3) by (rule local_scrape_steps)
  have d3: "disk_state st3 = f" using prepare_keeps[OF s(4)] s(3) by simp
  note pre = preseed_effect[OF s(1) assms(2)]
  note force = force_effect[OF s(2)]
  have st1: "view (disk_state st1) ?ts = view (disk_state st) ?ts" "view (disk_state st1) ?stamp = view (disk_state st) ?stamp"
    using pre(1) by (simp_all add: same_but_def)
  have fstamp: "view f ?stamp = view (disk_state st) ?stamp" using force(1) st1(2) by (simp add: same_but_def)
  obtain a completed st4 where at: "attempt_scrape W cmd label root (forced \<noteq> None) st3 = (a, completed, st4)"
    by (cases "attempt_scrape W cmd label root (forced \<noteq> None) st3") auto
  have a: "a = answer" "\<not> completed"
    using s(5) assms(6) attempt_report(2)[OF at] by (auto simp: scrape_with_def at simp del: not_None_eq split: option.splits if_splits)
  have st': "disk_state st' = (case forced of None \<Rightarrow> disk_state st4 | Some w \<Rightarrow> restore_full_walk_marker F w (disk_state st4))"
    using s(5) a assms(2) by (auto simp: scrape_with_def at simp del: not_None_eq split: option.splits)
  note eff = attempt_effect(2)[OF at assms(2,4) a(2), unfolded d3]
  show "view (disk_state st') ?stamp = view (disk_state st) ?stamp"
  proof (cases forced)
    case (Some w)
    then have "ts_path w = ?ts" using force(3) by blast
    then show ?thesis using Some st' eff fstamp restore_effect(1)[of w "disk_state st4"] by (simp add: same_but_def)
  qed (use st' eff fstamp in simp)
  show "map_option fst (view (disk_state st') ?ts) = map_option fst (view (disk_state st) ?ts)"
  proof (cases forced)
    case None
    then have "view f ?ts = view (disk_state st) ?ts" using force_none_keeps s(2) st1(1) by metis
    then show ?thesis using None st' eff by simp
  next
    case (Some w)
    note w = force(3)[of w] Some and forced = Some
    have gone: "view (disk_state st4) ?ts = None" using w eff by simp
    have ts: "ts_path w = ?ts" using w by blast
    show ?thesis
    proof (cases "view (disk_state st) ?ts")
      case None
      then have "previous_marker w = None" using w st1 by (cases "previous_marker w") auto
      then show ?thesis using restore_effect(2)[of "disk_state st4" w] gone None Some st' by simp
    next
      case (Some e)
      obtain x t where e: "e = (x, t)" by (cases e)
      have "view (disk_state st1) ?ts = Some (x, t)" using st1(1) Some e by simp
      from force_saves[OF s(2)[unfolded forced] this] assms(5)
      obtain c where c: "previous_marker w = Some c" "x = Some c" unfolding marker_accessible_def by blast
      have "\<exists>t'. view (restore_full_walk_marker F w (disk_state st4)) ?ts = Some (Some c, t')"
        using restore_effect(3)[of "disk_state st4" w c] gone c(1) ts assms(5) unfolding marker_accessible_def by simp
      then show ?thesis using Some e c(2) st' forced by auto
    qed
  qed
qed

lemma run_stamps_walk:
  assumes "run_local_scrape W jurisdiction session_arg root timeout_s config st = (Inr answer, st')" "files_of W = F"
    and "label = label_of jurisdiction session_arg" "script_keeps_marks W view root label"
    and "\<And>g c. fst (f_write F (stamp_path root label) c g) \<noteq> None" "succeeded answer"
  shows "view (disk_state st') (stamp_path root label) = view (disk_state st) (stamp_path root label) \<or>
    (\<exists>s t. view (disk_state st') (stamp_path root label) = Some (Some s, t) \<and> f_time F (disk_state st) \<le> t)"
proof -
  let ?stamp = "stamp_path root label"
  from assms(1) obtain st1 eligible forced f st2 cmd st3 where s:
    "maybe_preseed_scrapebot_cookies W jurisdiction config root st = (None, st1)"
    "maybe_force_full_walk F eligible label root (disk_state st1) = (Inr forced, f)" "st2 = st1\<lparr>disk_state := f\<rparr>"
    "prepare_command W jurisdiction session_arg root timeout_s config st2 = (Inr cmd, st3)"
    "scrape_with W cmd label root forced st3 = (answer, st')"
    unfolding assms(2)[symmetric] assms(3) by (rule local_scrape_steps)
  have d3: "disk_state st3 = f" using prepare_keeps[OF s(4)] s(3) by simp
  note pre = preseed_effect[OF s(1) assms(2)]
  note force = force_effect(1,2)[OF s(2)]
  have f: "view f ?stamp = view (disk_state st) ?stamp" "f_time F (disk_state st) \<le> f_time F f"
    using pre force by (simp_all add: same_but_def)
  obtain r g where r: "launch W cmd f = (r, g)" by (cases "launch W cmd f")
  note keeps = assms(4)[unfolded script_keeps_marks_def, rule_format, OF r, unfolded assms(2)]
  obtain a completed st4 where at: "attempt_scrape W cmd label root (forced \<noteq> None) st3 = (a, completed, st4)"
    by (cases "attempt_scrape W cmd label root (forced \<noteq> None) st3") auto
  have a: "completed" "st' = st4"
    using s(5) assms(6) attempt_report(2)[OF at]
    by (auto simp: scrape_with_def at simp del: not_None_eq split: option.splits if_splits)
  have "disk_state st4 = (if forced \<noteq> None then record_full_walk F (isoformat_of W g) label root g else g)"
    using at a(1) d3 r assms(2) by (auto simp: attempt_scrape_def Let_def happened_def simp del: not_None_eq split: sum.splits if_splits)
  then show ?thesis
    using record_stamps[OF assms(5), of "isoformat_of W g" g] keeps f a(2) by (force split: if_splits)
qed

end

section \<open>Properties\<close>

text \<open>What was done before the hooks, for an answer.\<close>

definition reported :: "string \<Rightarrow> string option \<Rightarrow> int option \<Rightarrow> scrape_answer \<Rightarrow> event list \<Rightarrow> bool" where
  "reported jurisdiction session_arg timeout_s answer done \<longleftrightarrow>
     done = [] \<and> (\<exists>s. failed_with answer = Some (Refused s)) \<and> \<not> succeeded answer \<or>
     done = [CloudRun jurisdiction] \<or>
     (\<exists>pre cmd. done = pre @ Launched cmd #
         map (Alerted (label_of jurisdiction session_arg)) (alerts_of (limit_s cmd) (failed_with answer)) \<and>
       pre \<in> {[], [Minted jurisdiction]} \<and> limit_s cmd = timeout_for timeout_s jurisdiction \<and>
       (succeeded answer \<longleftrightarrow> failed_with answer = None) \<and> failed_with answer \<noteq> Some (ExitCode 0))"

text \<open>C15: Every scrape that returns reports the truth, once. It either refuses and does nothing; or hands over to the
  cloud path and does nothing else; or launches the script exactly once (after at most one mint of cookies), with the
  timeout of its jurisdiction, and then raises exactly the alert that belongs to the failure it reports: one for a stall, a
  timeout, a signal or an exception, and none for a success or an exit code above 0, which the script reports itself.
  What comes after a success (the signal to the broker, then the archive hook) comes only after a
  success, and changes neither the answer nor what was done before.\<close>

theorem scrape_reports:
  assumes "run_scrape W fresh skip checked jurisdiction session_arg root timeout_s config st = (Inr answer, st')"
  shows "\<exists>done hooks. events st' = events st @ done @ hooks \<and>
    hooks \<in> (if succeeded answer then {[ArchiveHook jurisdiction],
        [BrokerSignal (lower (archive_jurisdiction_code jurisdiction)), ArchiveHook jurisdiction]} else {[]}) \<and>
    reported jurisdiction session_arg timeout_s answer done"
proof -
  obtain x st1 where x: "run_scrape_impl W skip checked jurisdiction session_arg root timeout_s config st = (x, st1)"
    by (cases "run_scrape_impl W skip checked jurisdiction session_arg root timeout_s config st")
  have i: "run_scrape_impl W skip checked jurisdiction session_arg root timeout_s config st = (Inr answer, st1)"
    using assms x by (cases x) (simp_all add: run_scrape_def)
  have e: "events st' = events st1 @ (if \<not> succeeded answer then [] else
      (if wants_broker_signal config jurisdiction \<and> broker_ready W \<and> fresh
       then [BrokerSignal (lower (archive_jurisdiction_code jurisdiction))] else []) @ [ArchiveHook jurisdiction])"
    using assms unfolding run_scrape_def i by (auto simp: happened_def maybe_signal_broker_bill_events_def)
  obtain r en where r: "people_check_refusal (manifest_world W) skip checked (people_count W) jurisdiction config (enrollments st) = (r, en)"
    by (cases "people_check_refusal (manifest_world W) skip checked (people_count W) jurisdiction config (enrollments st)")
  obtain o' en2 where o: "cloud_path_owns (manifest_world W) jurisdiction config en = (o', en2)"
    by (cases "cloud_path_owns (manifest_world W) jurisdiction config en")
  consider (refused) x where "r = Inr (Some x)" | (cloud) "r = Inr None" "o' = Inr True" | (local) "r = Inr None" "o' = Inr False"
    using i by (cases r) (auto simp: run_scrape_impl_def r o Let_def split: option.splits sum.splits bool.splits)
  then obtain "done" where d: "events st1 = events st @ done"
    "reported jurisdiction session_arg timeout_s answer done"
  proof cases
    case refused
    then show ?thesis using i that[of "[]"] by (auto simp: run_scrape_impl_def r Let_def reported_def)
  next
    case cloud
    then show ?thesis using i that[of "[CloudRun jurisdiction]"]
      by (auto simp: run_scrape_impl_def r o Let_def happened_def reported_def split: prod.splits)
  next
    case local
    then have "run_local_scrape W jurisdiction session_arg root timeout_s config (st\<lparr>enrollments := en2\<rparr>) = (Inr answer, st1)"
      using i by (simp add: run_scrape_impl_def r o Let_def)
    note rep = local_scrape_report[OF this]
    from rep(1) obtain pre cmd where "pre \<in> {[], [Minted jurisdiction]}" "limit_s cmd = timeout_for timeout_s jurisdiction"
      "events st1 = events st @ pre @ Launched cmd #
        map (Alerted (label_of jurisdiction session_arg)) (alerts_of (limit_s cmd) (failed_with answer))" by auto
    with rep(2,3) have "reported jurisdiction session_arg timeout_s answer (pre @ Launched cmd #
        map (Alerted (label_of jurisdiction session_arg)) (alerts_of (limit_s cmd) (failed_with answer)))"
      unfolding reported_def by metis
    with \<open>events st1 = _\<close> show ?thesis by (intro that)
  qed
  show ?thesis
    by (rule exI[of _ "done"], rule exI[of _ "if \<not> succeeded answer then [] else
      (if wants_broker_signal config jurisdiction \<and> broker_ready W \<and> fresh
       then [BrokerSignal (lower (archive_jurisdiction_code jurisdiction))] else []) @ [ArchiveHook jurisdiction]"])
      (use d e in simp)
qed

definition demo_root :: string where "demo_root = ''/r''"

definition demo_finished :: "int \<Rightarrow> finished" where
  "demo_finished rc = \<lparr>returncode = rc, stdout_text = [], stderr_text = [], timed_out = False, stalled = False\<rparr>"

definition demo_mint :: "json res \<Rightarrow> mint_service" where
  "demo_mint post = \<lparr>cams_artifacts_dir = ''/a'', created = post, task_status = \<lambda>_. Inr (JObj [(''status'', JStr ''failed'')]),
     lag = \<lambda>_. 0, result_of = \<lambda>_. NoResult\<rparr>"

definition demo_scrape :: "int \<Rightarrow> json res \<Rightarrow> disk scrape_world" where
  "demo_scrape rc post =
     \<lparr>files_of = disk_files,
      manifest_world = \<lparr>mtime = \<lambda>_. None, yaml_at = \<lambda>_. ReadFailed, mode_var = [], root_var = demo_root\<rparr>,
      people_count = \<lambda>_. None, mint_of = \<lambda>_. demo_mint post, scraper_log = \<lambda>_. None,
      launch = \<lambda>_ d. (Inr (demo_finished rc), d),
      cloud = \<lambda>_ _ d. (failed_answer Stalled [] [], d), isoformat_of = \<lambda>_. ''2026'', broker_ready = False\<rparr>"

definition demo_disk :: disk where
  "demo_disk = \<lparr>now = 9000000, dirs = [demo_root],
     stored_files = [(marker_path demo_root ''mi'', (Some ''2026-07-01'', 5)), (stamp_path demo_root ''mi'', (Some ''2026-06-01'', 7))],
     read_only = []\<rparr>"

definition demo_config :: json where
  "demo_config = JObj [(''full_walk'', JObj [(''enabled'', JBool True), (''jurisdictions'', JArr [JStr ''mi'']), (''interval_days'', JInt 30)])]"

definition demo_start :: "disk scrape_state" where
  "demo_start = \<lparr>disk_state = demo_disk, enrollments = no_state, events = []\<rparr>"

lemma scrape_reports_witness:
  "reported ''mi'' None None (failed_answer (ExitCode (-9)) ''nonzero_exit_other'' ''mi'')
     (events (snd (run_scrape (demo_scrape (-9) (Inr JNull)) False False False ''mi'' None demo_root None demo_config demo_start)))"
proof -
  let ?run = "run_scrape (demo_scrape (-9) (Inr JNull)) False False False ''mi'' None demo_root None demo_config demo_start"
  have "fst ?run = Inr (failed_answer (ExitCode (-9)) ''nonzero_exit_other'' ''mi'')" by code_simp
  then have "?run = (Inr (failed_answer (ExitCode (-9)) ''nonzero_exit_other'' ''mi''), snd ?run)" by (metis prod.collapse)
  from scrape_reports[OF this] show ?thesis by (auto simp: demo_start_def failed_answer_def)
qed


text \<open>The demonstration disk always accepts the two files: a disk state type without protected paths.\<close>

definition open_files :: "disk files" where
  "open_files = disk_files\<lparr>
     f_write := (\<lambda>p s d. (Some (), d\<lparr>stored_files := dict_set p (Some s, now d) (stored_files d)\<rparr>))\<rparr>"

lemma open_files_service: "file_service open_files disk_view"
proof unfold_locales
  fix p f f' s
  show "f_exists open_files p f \<longleftrightarrow> disk_view f p \<noteq> None"
    using disk.exists_law by (simp add: open_files_def)
  show "f_mtime open_files p f = (res, f') \<Longrightarrow> disk_view f' = disk_view f \<and> f_time open_files f \<le> f_time open_files f' \<and>
      (\<forall>t. res = Some t \<longrightarrow> (\<exists>c. disk_view f p = Some (c, t)))" for res
    using disk.mtime_law[of p f res f'] by (simp add: open_files_def)
  show "f_read open_files p f = (res, f') \<Longrightarrow> disk_view f' = disk_view f \<and> f_time open_files f \<le> f_time open_files f' \<and>
      (\<forall>c. res = Some c \<longrightarrow> (\<exists>t. disk_view f p = Some (c, t)))" for res
    using disk.read_law[of p f res f'] by (simp add: open_files_def)
  show "f_write open_files p s f = (res, f') \<Longrightarrow> same_but p (disk_view f) (disk_view f') \<and>
      f_time open_files f \<le> f_time open_files f' \<and>
      (res \<noteq> None \<longrightarrow> (\<exists>t. disk_view f' p = Some (Some s, t) \<and> f_time open_files f \<le> t \<and> t \<le> f_time open_files f'))" for res
    by (auto simp: open_files_def disk_files_def disk_view_def same_but_def)
  show "f_remove open_files p f = (res, f') \<Longrightarrow> same_but p (disk_view f) (disk_view f') \<and>
      f_time open_files f \<le> f_time open_files f' \<and> (res \<noteq> None \<longrightarrow> disk_view f' p = None) \<and>
      (res = None \<longrightarrow> disk_view f' = disk_view f)" for res
    using disk.remove_law[of p f res f'] by (simp add: open_files_def)
  show "f_makedirs open_files p f = (res, f') \<Longrightarrow> disk_view f' = disk_view f \<and> f_time open_files f \<le> f_time open_files f'" for res
    using disk.makedirs_law[of p f res f'] by (simp add: open_files_def)
qed


end
