(* ===== verification/RdsCredentials.thy ===== *)
theory RdsCredentials
  imports PyJson
begin

text \<open>
  The connection string of the database (\<open>services/rds_credentials.py\<close>): the user and password come from a
  secret at call time, the other parts from the environment. Secrets Manager is a parameter: \<open>get_secret_value\<close>
  raises, answers without a secret string, or gives a text that \<open>json.loads\<close> turns into a document or
  refuses. \<open>quote(s, safe="")\<close> is written out, with UTF-8 for the characters above 127.
\<close>

section \<open>Quoting\<close>

definition unreserved :: "char \<Rightarrow> bool" where
  "unreserved c = (is_letter c \<or> is_digit c \<or> c \<in> {CHR ''_'', CHR ''.'', CHR ''-'', CHR ''~''})"

definition hex_upper :: "nat \<Rightarrow> char" where
  "hex_upper n = (if n < 10 then char_of (48 + n) else char_of (55 + n))"

definition utf8 :: "char \<Rightarrow> nat list" where
  "utf8 c = (let n = ord_of c in if n < 128 then [n] else [192 + n div 64, 128 + n mod 64])"

definition percent :: "nat \<Rightarrow> string" where
  "percent b = [CHR ''%'', hex_upper (b div 16), hex_upper (b mod 16)]"

definition quote_char :: "char \<Rightarrow> string" where
  "quote_char c = (if unreserved c then [c] else concat (map percent (utf8 c)))"

definition quote_text :: "string \<Rightarrow> string" where
  "quote_text s = concat (map quote_char s)"

section \<open>Resolving\<close>

record rds_env =
  secret_arn :: string
  rds_host :: string
  rds_port :: string
  rds_dbname :: string

datatype secret_answer = FetchFailed string | NoSecretString | NotJson | Secret json

definition shape_error :: string where
  "shape_error = ''RDS credential secret has an unexpected shape: ''"

text \<open>The user and the password, when the secret has the expected shape.\<close>

definition secret_parts :: "secret_answer \<Rightarrow> string + json \<times> json" where
  "secret_parts answer =
     (case answer of
        FetchFailed e \<Rightarrow> Inl (''could not fetch RDS credential from Secrets Manager: '' @ e)
      | NoSecretString \<Rightarrow> Inl (shape_error @ ''SecretString'')
      | NotJson \<Rightarrow> Inl (shape_error @ ''not JSON'')
      | Secret v \<Rightarrow>
          (case bind_res (subscript v ''username'') (\<lambda>u. bind_res (subscript v ''password'') (\<lambda>p. Inr (u, p))) of
             Inl e \<Rightarrow> Inl (shape_error @ (case e of KeyError k \<Rightarrow> k | _ \<Rightarrow> ''not a mapping''))
           | Inr (u, p) \<Rightarrow>
               if truthy u \<and> truthy p then Inr (u, p)
               else Inl (shape_error @ ''username or password is null or empty'')))"

definition dsn :: "string \<Rightarrow> string \<Rightarrow> string \<Rightarrow> string \<Rightarrow> string \<Rightarrow> string" where
  "dsn user password host port dbname =
     ''postgresql://'' @ quote_text user @ '':'' @ quote_text password @ ''@'' @ host @ '':'' @ port @ ''/'' @ quote_text dbname"

definition resolve_rds_database_url :: "rds_env \<Rightarrow> secret_answer \<Rightarrow> string + string" where
  "resolve_rds_database_url env answer =
     (if secret_arn env = [] then Inl ''RDS_CREDENTIALS_SECRET_ARN not set -- refusing to guess which secret to read''
      else if rds_host env = [] \<or> rds_port env = [] \<or> rds_dbname env = []
      then Inl ''RDS_HOST/RDS_PORT/RDS_DBNAME must all be set -- the secret itself only carries username/password''
      else (case secret_parts answer of
          Inl e \<Rightarrow> Inl e
        | Inr (u, p) \<Rightarrow> Inr (dsn (json_str u) (json_str p) (rds_host env) (rds_port env) (rds_dbname env))))"

section \<open>Reading an address\<close>

text \<open>How a client reads such an address: the parts between its separators, each with its quoting undone.\<close>

definition hex_value :: "char \<Rightarrow> nat" where
  "hex_value c = (if is_digit c then ord_of c - 48 else ord_of c - 55)"

fun percent_bytes :: "string \<Rightarrow> nat list" where
  "percent_bytes (c # h # l # cs) =
     (if c = CHR ''%'' then (16 * hex_value h + hex_value l) # percent_bytes cs else ord_of c # percent_bytes (h # l # cs))"
| "percent_bytes (c # cs) = ord_of c # percent_bytes cs"
| "percent_bytes [] = []"

fun utf8_text :: "nat list \<Rightarrow> string" where
  "utf8_text (a # b # bs) = (if a < 128 then char_of a # utf8_text (b # bs) else char_of (64 * (a - 192) + (b - 128)) # utf8_text bs)"
| "utf8_text [a] = [char_of a]"
| "utf8_text [] = []"

definition unquote :: "string \<Rightarrow> string" where
  "unquote s = utf8_text (percent_bytes s)"

definition cut :: "char \<Rightarrow> string \<Rightarrow> string \<times> string" where
  "cut c s = (takeWhile (\<lambda>x. x \<noteq> c) s, drop 1 (dropWhile (\<lambda>x. x \<noteq> c) s))"

definition read_dsn :: "string \<Rightarrow> string \<times> string \<times> string \<times> string \<times> string" where
  "read_dsn url =
     (let (user, s) = cut (CHR '':'') (drop 13 url);
          (password, s) = cut (CHR ''@'') s;
          (host, s) = cut (CHR '':'') s;
          (port, dbname) = cut (CHR ''/'') s in
      (unquote user, unquote password, host, port, unquote dbname))"

lemma cut_at: "c \<notin> set a \<Longrightarrow> cut c (a @ c # b) = (a, b)"
  by (induction a) (auto simp: cut_def)

lemma hex_value_upper: "n < 16 \<Longrightarrow> hex_value (hex_upper n) = n"
  by (auto simp: hex_value_def hex_upper_def is_digit_def)

lemma utf8_bytes: "b \<in> set (utf8 c) \<Longrightarrow> b < 256"
proof -
  have "ord_of c div 64 < 4" using nat_of_char_less_256[of c] by linarith
  then show "b \<in> set (utf8 c) \<Longrightarrow> b < 256"
    using nat_of_char_less_256[of c] by (auto simp: utf8_def Let_def split: if_splits)
qed

lemma percent_bytes_percent: "b < 256 \<Longrightarrow> percent_bytes (percent b @ s) = b # percent_bytes s"
  using hex_value_upper[of "b div 16"] hex_value_upper[of "b mod 16"] by (simp add: percent_def)

lemma percent_bytes_all: "\<forall>b \<in> set bs. b < 256 \<Longrightarrow> percent_bytes (concat (map percent bs) @ s) = bs @ percent_bytes s"
  by (induction bs) (simp_all add: percent_bytes_percent del: percent_bytes.simps)

lemma percent_bytes_plain: "c \<noteq> CHR ''%'' \<Longrightarrow> percent_bytes (c # s) = ord_of c # percent_bytes s"
proof (cases s)
  case (Cons h t)
  then show "c \<noteq> CHR ''%'' \<Longrightarrow> percent_bytes (c # s) = ord_of c # percent_bytes s" by (cases t) simp_all
qed simp

lemma unreserved_plain: "unreserved c \<Longrightarrow> c \<noteq> CHR ''%'' \<and> ord_of c < 128"
  by (auto simp: unreserved_def is_letter_def is_lower_def is_upper_def is_digit_def)

lemma percent_bytes_quote: "percent_bytes (quote_char c @ s) = utf8 c @ percent_bytes s"
proof (cases "unreserved c")
  case True
  then show ?thesis using unreserved_plain[of c]
    by (simp add: quote_char_def percent_bytes_plain utf8_def Let_def del: percent_bytes.simps)
next
  case False
  then show ?thesis using utf8_bytes by (simp add: quote_char_def percent_bytes_all)
qed

lemma percent_bytes_quote_text: "percent_bytes (quote_text s) = concat (map utf8 s)"
proof (induction s)
  case (Cons c s)
  then show ?case using percent_bytes_quote[of c "quote_text s"] by (simp add: quote_text_def)
qed (simp add: quote_text_def)

lemma utf8_text_char: "utf8_text (utf8 c @ bs) = c # utf8_text bs"
proof (cases "ord_of c < 128")
  case True
  then show ?thesis by (cases bs) (simp_all add: utf8_def)
next
  case False
  have "64 * (ord_of c div 64) + ord_of c mod 64 = ord_of c" by simp
  then show ?thesis using False by (simp add: utf8_def Let_def)
qed

lemma unquote_quote [simp]: "unquote (quote_text s) = s"
  unfolding unquote_def percent_bytes_quote_text by (induction s) (simp_all add: utf8_text_char)

lemma hex_upper_other: "n < 16 \<Longrightarrow> hex_upper n \<notin> {CHR '':'', CHR ''@'', CHR ''/''}"
  by (auto simp: hex_upper_def dest: arg_cong[where f = ord_of])

lemma percent_other: "b < 256 \<Longrightarrow> set (percent b) \<inter> {CHR '':'', CHR ''@'', CHR ''/''} = {}"
  using hex_upper_other[of "b div 16"] hex_upper_other[of "b mod 16"] by (auto simp: percent_def)

lemma quote_other: "set (quote_text s) \<inter> {CHR '':'', CHR ''@'', CHR ''/''} = {}"
proof -
  have "set (quote_char c) \<inter> {CHR '':'', CHR ''@'', CHR ''/''} = {}" for c
  proof (cases "unreserved c")
    case True
    then show ?thesis
      by (auto simp: quote_char_def unreserved_def is_letter_def is_lower_def is_upper_def is_digit_def)
  next
    case False
    then show ?thesis using percent_other utf8_bytes[of _ c] by (fastforce simp: quote_char_def)
  qed
  then show ?thesis by (force simp: quote_text_def)
qed

text \<open>The connection string says exactly what was resolved. Whenever \<open>resolve_rds_database_url\<close> gives an address,
  the secret and the environment were complete, and a client that reads the address gets back exactly the user,
  the password and the database, whatever characters they contain (none of them can shift a part
  into another), and the host and port of the environment. In every other case, whatever Secrets Manager
  answers, it gives an error that is not empty, and never an address with an empty or missing credential.\<close>

lemma rds_url_roundtrip:
  assumes "CHR '':'' \<notin> set (rds_host env)" "CHR ''/'' \<notin> set (rds_port env)"
  shows "case resolve_rds_database_url env answer of
      Inr url \<Rightarrow> (\<exists>u p. secret_parts answer = Inr (u, p) \<and> truthy u \<and> truthy p \<and>
        read_dsn url = (json_str u, json_str p, rds_host env, rds_port env, rds_dbname env))
    | Inl e \<Rightarrow> e \<noteq> [] \<and> (secret_arn env = [] \<or> rds_host env = [] \<or> rds_port env = [] \<or> rds_dbname env = [] \<or>
        (\<forall>u p v. answer = Secret v \<and> subscript v ''username'' = Inr u \<and> subscript v ''password'' = Inr p \<longrightarrow>
          \<not> truthy u \<or> \<not> truthy p))"
proof -
  have read: "read_dsn (dsn u p (rds_host env) (rds_port env) d) = (u, p, rds_host env, rds_port env, d)" for u p d
    using assms quote_other[of u] quote_other[of p] by (auto simp: read_dsn_def dsn_def cut_at)
  have parts: "secret_parts answer = Inr (u, p) \<Longrightarrow> truthy u \<and> truthy p" for u p
    by (auto simp: secret_parts_def bind_res_Inr_iff split: secret_answer.splits sum.splits if_splits)
  have err: "secret_parts answer = Inl e \<Longrightarrow> e \<noteq> [] \<and>
      (\<forall>u p v. answer = Secret v \<and> subscript v ''username'' = Inr u \<and> subscript v ''password'' = Inr p \<longrightarrow>
        \<not> truthy u \<or> \<not> truthy p)" for e
    by (auto simp: secret_parts_def shape_error_def split: secret_answer.splits sum.splits if_splits)
  show ?thesis
    using parts err read by (auto simp: resolve_rds_database_url_def split: sum.splits)
qed

definition demo_rds :: rds_env where
  "demo_rds = \<lparr>secret_arn = ''arn'', rds_host = ''db.example'', rds_port = ''5432'', rds_dbname = ''openstates''\<rparr>"

lemma rds_url_roundtrip_witness:
  "\<exists>url. resolve_rds_database_url demo_rds (Secret (JObj [(''username'', JStr ''ddp''), (''password'', JStr ''p@:/%x'')])) = Inr url \<and>
     read_dsn url = (''ddp'', ''p@:/%x'', ''db.example'', ''5432'', ''openstates'')"
proof -
  let ?a = "Secret (JObj [(''username'', JStr ''ddp''), (''password'', JStr ''p@:/%x'')])"
  have "secret_parts ?a = Inr (JStr ''ddp'', JStr ''p@:/%x'')" by (simp add: secret_parts_def)
  moreover obtain url where "resolve_rds_database_url demo_rds ?a = Inr url"
    by (simp add: resolve_rds_database_url_def demo_rds_def secret_parts_def)
  ultimately show ?thesis
    using rds_url_roundtrip[of demo_rds ?a] by (simp add: demo_rds_def json_str_def)
qed

end
