(* ===== verification/ScrapeJobs.thy ===== *)
theory ScrapeJobs
  imports ScrapeRun RdsCredentials
begin

text \<open>
  The jobs of \<open>pipelines/openstates_scrape.py\<close> that the scheduler and the trigger routes call. A job reads and
  writes three things: the state of \<open>ScrapeRun\<close>, Redis, and nothing else; the start and end of a job are given as
  texts, durations and log lines are not modelled. The scrapes of a batch run at the same time in the code; each
  touches only its own files, and here they run one after the other in the order of the list.
\<close>

section \<open>Documents\<close>

definition answer_fields :: "scrape_answer \<Rightarrow> (string \<times> json) list" where
  "answer_fields a =
     [(''success'', JBool (succeeded a))] @
     (case failed_with a of
        None \<Rightarrow> []
      | Some (Refused s) \<Rightarrow> [(''error'', JStr s), (''refused'', JStr ''no_legislators_in_production'')]
      | Some e \<Rightarrow> [(''error'', JStr (failure_text e)), (''failure_reason'', opt_json (failure_class a))]) @
     (case answer_label a of None \<Rightarrow> [] | Some l \<Rightarrow> [(''jurisdiction'', JStr l)])"

record span =
  started_at :: string
  completed_at :: string

definition flow_fields :: "string \<Rightarrow> span \<Rightarrow> string \<Rightarrow> (string \<times> json) list" where
  "flow_fields flow t st = [(''flow'', JStr flow), (''started_at'', JStr (started_at t)),
     (''completed_at'', JStr (completed_at t)), (''status'', JStr st)]"

definition write_flow_status :: "'r redis option \<Rightarrow> string \<Rightarrow> (string \<times> json) list \<Rightarrow> 'r \<Rightarrow> 'r" where
  "write_flow_status c flow_key kvs r = set_flow_status c flow_key (JObj kvs) r"

definition failures_in :: "scrape_answer list \<Rightarrow> nat" where
  "failures_in results = length (filter (\<lambda>a. \<not> succeeded a) results)"

record batch_answer =
  batch_ok :: bool
  batch_of :: "json list"
  batch_results :: "scrape_answer list"
  batch_failed :: nat

definition batch_answer_of :: "json list \<Rightarrow> scrape_answer list \<Rightarrow> batch_answer" where
  "batch_answer_of items results =
     \<lparr>batch_ok = (failures_in results = 0), batch_of = items, batch_results = results, batch_failed = failures_in results\<rparr>"

definition batch_fields :: "string \<Rightarrow> string \<Rightarrow> span \<Rightarrow> batch_answer \<Rightarrow> (string \<times> json) list" where
  "batch_fields flow items_key t b =
     flow_fields flow t (if batch_ok b then ''completed'' else ''completed_with_errors'') @
     [(items_key, JArr (batch_of b)), (''total'', JInt (int (length (batch_results b)))),
      (''failed'', JInt (int (batch_failed b))),
      (''results'', JArr (map (JObj \<circ> answer_fields) (batch_results b)))]"

section \<open>Single jobs\<close>

definition run_one_job ::
  "'f scrape_world \<Rightarrow> 'r redis option \<Rightarrow> bool \<Rightarrow> span \<Rightarrow> string \<Rightarrow> string \<Rightarrow> int \<Rightarrow> json \<Rightarrow>
    'f scrape_state \<Rightarrow> 'r \<Rightarrow> scrape_answer res \<times> 'f scrape_state \<times> 'r" where
  "run_one_job W c fresh t flow jurisdiction timeout_s config st r =
     (case get_root (manifest_world W) config of
        Inl e \<Rightarrow> (Inl e, st, r)
      | Inr root \<Rightarrow>
          (case run_scrape W fresh False False jurisdiction None root (Some timeout_s) config st of
             (Inl e, st) \<Rightarrow> (Inl e, st, r)
           | (Inr a, st) \<Rightarrow>
               (Inr a, st, write_flow_status c flow
                  (flow_fields flow t (if succeeded a then ''completed'' else ''failed'') @ answer_fields a) r)))"

definition run_fl_scrapes_job ::
  "'f scrape_world \<Rightarrow> 'r redis option \<Rightarrow> bool \<Rightarrow> span \<Rightarrow> json \<Rightarrow>
    'f scrape_state \<Rightarrow> 'r \<Rightarrow> scrape_answer res \<times> 'f scrape_state \<times> 'r" where
  "run_fl_scrapes_job W c fresh t config st r =
     run_one_job W c fresh t ''openstates_fl_scrapes'' ''fl'' (16 * 3600) config st r"

definition run_wa_scrape_job ::
  "'f scrape_world \<Rightarrow> 'r redis option \<Rightarrow> bool \<Rightarrow> span \<Rightarrow> json \<Rightarrow>
    'f scrape_state \<Rightarrow> 'r \<Rightarrow> scrape_answer res \<times> 'f scrape_state \<times> 'r" where
  "run_wa_scrape_job W c fresh t config st r =
     run_one_job W c fresh t ''openstates_wa_scrape'' ''wa'' (8 * 3600) config st r"

definition run_single_scrape_job ::
  "'f scrape_world \<Rightarrow> bool \<Rightarrow> string \<Rightarrow> json \<Rightarrow> bool \<Rightarrow> bool \<Rightarrow>
    'f scrape_state \<Rightarrow> scrape_answer res \<times> 'f scrape_state" where
  "run_single_scrape_job W fresh jurisdiction config skip_people_check people_checked st =
     (case get_root (manifest_world W) config of
        Inl e \<Rightarrow> (Inl e, st)
      | Inr root \<Rightarrow> run_scrape W fresh skip_people_check people_checked jurisdiction None root None config st)"

section \<open>Batches\<close>

text \<open>The sessions of the federal jurisdiction, one after the other: an exception ends the loop.\<close>

fun run_sessions ::
  "'f scrape_world \<Rightarrow> bool \<Rightarrow> string \<Rightarrow> json \<Rightarrow> json list \<Rightarrow> 'f scrape_state \<Rightarrow>
    scrape_answer list res \<times> 'f scrape_state" where
  "run_sessions W fresh root config [] st = (Inr [], st)"
| "run_sessions W fresh root config (s # ss) st =
     (case run_scrape W fresh False False ''usa'' (Some (''session='' @ json_str s)) root (Some (4 * 3600)) config st of
        (Inl e, st) \<Rightarrow> (Inl e, st)
      | (Inr a, st) \<Rightarrow>
          (case run_sessions W fresh root config ss st of
             (Inl e, st) \<Rightarrow> (Inl e, st)
           | (Inr answers, st) \<Rightarrow> (Inr (a # answers), st)))"

definition usa_sessions :: "json \<Rightarrow> json list res" where
  "usa_sessions config =
     bind_res (block_at (or_empty config) [''primary'', ''usa'']) (\<lambda>usa.
     bind_res (attr_get usa ''sessions'' (JArr [JStr ''119 chamber=lower'', JStr ''119 chamber=upper''])) json_iter)"

definition run_usa_scrapes_job ::
  "'f scrape_world \<Rightarrow> 'r redis option \<Rightarrow> bool \<Rightarrow> span \<Rightarrow> json \<Rightarrow>
    'f scrape_state \<Rightarrow> 'r \<Rightarrow> batch_answer res \<times> 'f scrape_state \<times> 'r" where
  "run_usa_scrapes_job W c fresh t config st r =
     (case bind_res (get_root (manifest_world W) config) (\<lambda>root. bind_res (usa_sessions config) (\<lambda>ss. Inr (root, ss))) of
        Inl e \<Rightarrow> (Inl e, st, r)
      | Inr (root, sessions) \<Rightarrow>
          (case run_sessions W fresh root config sessions st of
             (Inl e, st) \<Rightarrow> (Inl e, st, r)
           | (Inr results, st) \<Rightarrow>
               (let b = batch_answer_of sessions results in
                (Inr b, st, write_flow_status c ''openstates_usa_scrapes''
                   (batch_fields ''openstates_usa_scrapes'' ''sessions'' t b) r))))"

text \<open>\<open>asyncio.gather\<close> without \<open>return_exceptions\<close>: every scrape runs, and one exception is raised in place of all results.\<close>

fun run_each ::
  "'f scrape_world \<Rightarrow> (string \<Rightarrow> bool) \<Rightarrow> string \<Rightarrow> json \<Rightarrow> string list \<Rightarrow> 'f scrape_state \<Rightarrow>
    scrape_answer res list \<times> 'f scrape_state" where
  "run_each W fresh root config [] st = ([], st)"
| "run_each W fresh root config (j # js) st =
     (let (x, st) = run_scrape W (fresh j) False False j None root None config st;
          (xs, st) = run_each W fresh root config js st in (x # xs, st))"

fun gather :: "'a res list \<Rightarrow> 'a list res" where
  "gather [] = Inr []"
| "gather (Inl e # xs) = Inl e"
| "gather (Inr a # xs) = bind_res (gather xs) (\<lambda>ys. Inr (a # ys))"

text \<open>The settings of the two history checks; a setting that is not an integer is a \<open>TypeError\<close> here.\<close>

definition int_setting :: "json \<Rightarrow> int res" where
  "int_setting v = (case v of JInt i \<Rightarrow> Inr i | JBool b \<Rightarrow> Inr (if b then 1 else 0) | _ \<Rightarrow> Inl TypeError)"

definition check_config_of :: "json \<Rightarrow> check_config res" where
  "check_config_of config =
     bind_res (block_at (or_empty config) [''secondary'', ''escalation'']) (\<lambda>esc.
     bind_res (bind_res (attr_get esc ''window_size'' (JInt DEFAULT_ESCALATION_WINDOW)) int_setting) (\<lambda>window.
     bind_res (bind_res (attr_get esc ''threshold'' (JInt DEFAULT_ESCALATION_THRESHOLD)) int_setting) (\<lambda>threshold.
     bind_res (block_at (or_empty config) [''filing_activity'']) (\<lambda>filing.
     bind_res (block_enabled filing) (\<lambda>on.
     bind_res (bind_res (attr_get filing ''quiet_window'' (JInt DEFAULT_QUIET_WINDOW)) int_setting) (\<lambda>quiet.
       Inr \<lparr>ck_window = window, ck_threshold = threshold, ck_filing_enabled = on, ck_quiet_window = quiet\<rparr>))))))"

definition history_result :: "scrape_answer \<Rightarrow> scrape_result" where
  "history_result a = \<lparr>sr_success = succeeded a, sr_failure_reason = failure_class a, sr_label = answer_label a\<rparr>"

definition SECONDARY_FALLBACK :: "string list" where
  "SECONDARY_FALLBACK = [''va'', ''mi'', ''ma'', ''ut'', ''az'', ''nc'']"

definition secondary_jurisdictions ::
  "world \<Rightarrow> string \<Rightarrow> json \<Rightarrow> string list option \<Rightarrow> enrollment \<Rightarrow> string list res \<times> enrollment" where
  "secondary_jurisdictions w root config given en =
     (case given of
        Some js \<Rightarrow> (Inr js, en)
      | None \<Rightarrow>
          (case bind_res (attr_get (or_empty config) ''secondary'' JNull) (\<lambda>s. attr_get (or_empty s) ''jurisdictions'' JNull) of
             Inl e \<Rightarrow> (Inl e, en)
           | Inr y \<Rightarrow>
               (case enrolled w ''scrape_secondary'' y root en of
                  (Inl e, en) \<Rightarrow> (Inl e, en)
                | (Inr None, en) \<Rightarrow> (Inr SECONDARY_FALLBACK, en)
                | (Inr (Some js), en) \<Rightarrow> (Inr js, en))))"

text \<open>\<open>markers\<close> is the \<open>.imported\<close> file of a key, as in \<open>check_sustained_blocking\<close>.\<close>

definition record_batch ::
  "'r redis option \<Rightarrow> (string \<Rightarrow> string option) \<Rightarrow> span \<Rightarrow> check_config \<Rightarrow> string \<Rightarrow> string list \<Rightarrow> scrape_answer list \<Rightarrow>
    'r \<Rightarrow> history_alert list \<times> 'r" where
  "record_batch c markers t cfg status_key jurisdictions results r =
     (let (alerts, r) = check_sustained_blocking c markers (completed_at t) cfg ''openstates_secondary_scrapes''
            (zip jurisdictions (map history_result results)) r in
      (alerts, write_flow_status c status_key (batch_fields status_key ''jurisdictions'' t
         (batch_answer_of (map JStr jurisdictions) results)) r))"

definition run_secondary_scrapes_job ::
  "'f scrape_world \<Rightarrow> 'r redis option \<Rightarrow> (string \<Rightarrow> bool) \<Rightarrow> (string \<Rightarrow> string option) \<Rightarrow> span \<Rightarrow> json \<Rightarrow>
    string list option \<Rightarrow> string option \<Rightarrow> 'f scrape_state \<Rightarrow> 'r \<Rightarrow>
    (batch_answer \<times> history_alert list) res \<times> 'f scrape_state \<times> 'r" where
  "run_secondary_scrapes_job W c fresh markers t config given flow_status_key st r =
     (case get_root (manifest_world W) config of
        Inl e \<Rightarrow> (Inl e, st, r)
      | Inr root \<Rightarrow>
          (let (js, en) = secondary_jurisdictions (manifest_world W) root config given (enrollments st);
               st = st\<lparr>enrollments := en\<rparr> in
           case js of
             Inl e \<Rightarrow> (Inl e, st, r)
           | Inr jurisdictions \<Rightarrow>
               (let (runs, st) = run_each W fresh root config jurisdictions st in
                case bind_res (gather runs) (\<lambda>results. bind_res (check_config_of config) (\<lambda>cfg. Inr (results, cfg))) of
                  Inl e \<Rightarrow> (Inl e, st, r)
                | Inr (results, cfg) \<Rightarrow>
                    (let status_key = (case flow_status_key of Some k \<Rightarrow> if k \<noteq> [] then k else ''openstates_secondary_scrapes''
                           | None \<Rightarrow> ''openstates_secondary_scrapes'');
                         (alerts, r) = record_batch c markers t cfg status_key jurisdictions results r in
                     (Inr (batch_answer_of (map JStr jurisdictions) results, alerts), st, r)))))"

section \<open>The script jobs\<close>

record job_answer =
  job_ok :: bool
  job_error :: "string option"

definition job_failed :: "string \<Rightarrow> job_answer" where
  "job_failed e = \<lparr>job_ok = False, job_error = Some e\<rparr>"

text \<open>
  What the patch and the people jobs share: run a script, and for a timeout or an exit code other than 0 write a
  failed status and then alert; an exception is reported in the answer only.
\<close>

definition script_command :: "string list \<Rightarrow> (string \<times> string) list \<Rightarrow> int \<Rightarrow> command" where
  "script_command cmd env timeout_s =
     \<lparr>script = hd cmd, arguments = tl cmd, added_env = env, limit_s = timeout_s, progress_dir = []\<rparr>"

definition run_script_job ::
  "'f scrape_world \<Rightarrow> 'r redis option \<Rightarrow> span \<Rightarrow> string \<Rightarrow> string \<Rightarrow> command \<Rightarrow>
    'f scrape_state \<Rightarrow> 'r \<Rightarrow> job_answer \<times> 'f scrape_state \<times> 'r" where
  "run_script_job W c t flow label cmd st r =
     (let (x, f) = launch W cmd (disk_state st);
          st = (happened (Launched cmd) st)\<lparr>disk_state := f\<rparr> in
      case x of
        Inl (_, err) \<Rightarrow> (job_failed err, st, r)
      | Inr p \<Rightarrow>
          if timed_out p then
            (job_failed ''timeout'', happened (Alerted label (AlertError (''timed out after '' @ int_str (limit_s cmd) @ ''s''))) st,
             write_flow_status c flow (flow_fields flow t ''failed'' @ [(''error'', JStr ''timeout'')]) r)
          else if returncode p \<noteq> 0 then
            (let e = ''exit_code_'' @ int_str (returncode p);
                 tail = slice_from (-500) (stderr_text p) in
             (job_failed e, happened (Alerted label (AlertError
                (''exited '' @ int_str (returncode p) @ '': '' @ slice_from (-200) tail))) st,
              write_flow_status c flow (flow_fields flow t ''failed'' @ [(''error'', JStr e)]) r))
          else (\<lparr>job_ok = True, job_error = None\<rparr>, st, write_flow_status c flow (flow_fields flow t ''completed'') r))"

definition run_patch_refresh_job ::
  "'f scrape_world \<Rightarrow> 'r redis option \<Rightarrow> span \<Rightarrow> json \<Rightarrow> 'f scrape_state \<Rightarrow> 'r \<Rightarrow> job_answer res \<times> 'f scrape_state \<times> 'r" where
  "run_patch_refresh_job W c t config st r =
     (case get_root (manifest_world W) config of
        Inl e \<Rightarrow> (Inl e, st, r)
      | Inr root \<Rightarrow>
          (let (a, st, r) = run_script_job W c t ''openstates_patch_refresh'' ''patch refresh''
                 (script_command [''/bin/bash'', path_join root ''apply-local-patches.sh''] [] 300) st r in
           (Inr a, st, r)))"

definition run_people_refresh_job ::
  "'f scrape_world \<Rightarrow> 'r redis option \<Rightarrow> string + string \<Rightarrow> span \<Rightarrow> json \<Rightarrow> 'f scrape_state \<Rightarrow> 'r \<Rightarrow>
    job_answer res \<times> 'f scrape_state \<times> 'r" where
  "run_people_refresh_job W c rds t config st r =
     (case get_root (manifest_world W) config of
        Inl e \<Rightarrow> (Inl e, st, r)
      | Inr root \<Rightarrow>
          (case rds of
             Inl rds_error \<Rightarrow>
               (let e = ''cannot resolve an RDS target: '' @ rds_error in
                (Inr (job_failed e), st, write_flow_status c ''openstates_people_refresh''
                   (flow_fields ''openstates_people_refresh'' t ''failed'' @ [(''error'', JStr e)]) r))
           | Inr url \<Rightarrow>
               (let (a, st, r) = run_script_job W c t ''openstates_people_refresh'' ''people refresh''
                      (script_command [''/bin/bash'', path_join root ''run-people-refresh.sh'']
                         [(''DATABASE_URL'', url), (''DATABASE_URL_OVERRIDE'', url)] 3600) st r in
                (Inr a, st, r))))"

text \<open>The two \<open>git\<close> commands that read the checkout: their output, or an exception.\<close>

record 'f people_git =
  git_log :: "'f \<Rightarrow> string option"
  git_branch :: "'f \<Rightarrow> string option"

definition people_head :: "'f people_git \<Rightarrow> 'f \<Rightarrow> (string \<times> string) option" where
  "people_head G f =
     (case git_log G f of
        None \<Rightarrow> None
      | Some out \<Rightarrow> (case split_words out [] of [sha, date] \<Rightarrow> Some (sha, date) | _ \<Rightarrow> None))"

definition people_branch :: "'f people_git \<Rightarrow> 'f \<Rightarrow> string" where
  "people_branch G f = (case git_branch G f of None \<Rightarrow> [] | Some out \<Rightarrow> strip out)"

definition head_fields :: "string \<Rightarrow> (string \<times> string) option \<Rightarrow> (string \<times> json) list" where
  "head_fields when_read h = [(''head_sha_'' @ when_read, opt_json (map_option fst h)),
     (''head_commit_date_'' @ when_read, opt_json (map_option snd h))]"

text \<open>\<open>_finish\<close>: every path ends here; a failure writes its status and then alerts.\<close>

definition pull_finish ::
  "'r redis option \<Rightarrow> span \<Rightarrow> string \<Rightarrow> string option \<Rightarrow> (string \<times> json) list \<Rightarrow> 'f scrape_state \<Rightarrow> 'r \<Rightarrow>
    job_answer \<times> 'f scrape_state \<times> 'r" where
  "pull_finish c t people_dir error extra st r =
     (let stat = (case error of None \<Rightarrow> ''completed'' | Some _ \<Rightarrow> ''failed'');
          r = write_flow_status c ''openstates_people_pull'' (flow_fields ''openstates_people_pull'' t stat @
            [(''error'', opt_json error), (''path'', JStr people_dir)] @ extra) r in
      (\<lparr>job_ok = (error = None), job_error = error\<rparr>,
       (case error of None \<Rightarrow> st
        | Some e \<Rightarrow> happened (Alerted ''people pull'' (AlertError (if e = [] then ''unknown error'' else e))) st), r))"

definition run_people_pull_job ::
  "'f scrape_world \<Rightarrow> 'f people_git \<Rightarrow> 'r redis option \<Rightarrow> span \<Rightarrow> json \<Rightarrow> 'f scrape_state \<Rightarrow> 'r \<Rightarrow>
    job_answer res \<times> 'f scrape_state \<times> 'r" where
  "run_people_pull_job W G c t config st r =
     (case get_root (manifest_world W) config of
        Inl e \<Rightarrow> (Inl e, st, r)
      | Inr root \<Rightarrow>
          (let people_dir = path_join root ''people'';
               before = people_head G (disk_state st);
               cmd = script_command [''git'', ''-C'', people_dir, ''pull'', ''--ff-only''] [(''GIT_TERMINAL_PROMPT'', ''0'')] 300;
               (x, f) = launch W cmd (disk_state st);
               st = (happened (Launched cmd) st)\<lparr>disk_state := f\<rparr>;
               (a, st, r) = (case x of
                   Inl (name, err) \<Rightarrow> pull_finish c t people_dir (Some (name @ '': '' @ err)) [] st r
                 | Inr p \<Rightarrow>
                     if timed_out p then pull_finish c t people_dir (Some ''timed out after 300s'') [] st r
                     else if returncode p \<noteq> 0
                     then pull_finish c t people_dir (Some (''exit_code_'' @ int_str (returncode p) @ '': '' @
                            strip (slice_from (-300) (stderr_text p)))) [] st r
                     else (let out = split_lines (strip (stdout_text p)) [] in
                       pull_finish c t people_dir None
                         ([(''branch'', JStr (people_branch G f)), (''summary'', JStr (if out = [] then [] else last out))] @
                          head_fields ''before'' before @ head_fields ''after'' (people_head G f)) st r)) in
           (Inr a, st, r)))"

section \<open>Batches that end and batches that raise\<close>

lemma gather_Inr_iff: "gather xs = Inr ys \<longleftrightarrow> xs = map Inr ys"
proof (induction xs arbitrary: ys rule: gather.induct)
  case (3 a xs)
  show ?case by (cases ys) (auto simp: bind_res_Inr_iff 3)
qed auto

lemma gather_Inl: "Inl e \<in> set xs \<Longrightarrow> \<exists>e'. gather xs = Inl e' \<and> Inl e' \<in> set xs"
  by (induction xs rule: gather.induct) auto

lemma run_each_length: "length (fst (run_each W fresh root config js st)) = length js"
  by (induction W fresh root config js st rule: run_each.induct) (auto simp: Let_def split: prod.splits)

text \<open>An exception of \<open>_run_scrape\<close> in any state is one of the results, wherever the jurisdiction is in the list.\<close>

lemma run_each_raises:
  assumes "j \<in> set js" "\<And>st. \<exists>e st'. run_scrape W (fresh j) False False j None root None config st = (Inl e, st')"
  shows "\<exists>e. Inl e \<in> set (fst (run_each W fresh root config js st))"
  using assms(1)
proof (induction js arbitrary: st)
  case (Cons i js)
  obtain x st1 where x: "run_scrape W (fresh i) False False i None root None config st = (x, st1)"
    by (cases "run_scrape W (fresh i) False False i None root None config st")
  obtain xs st2 where xs: "run_each W fresh root config js st1 = (xs, st2)" by (cases "run_each W fresh root config js st1")
  have r: "fst (run_each W fresh root config (i # js) st) = x # xs" by (simp add: x xs)
  show ?case
  proof (cases "i = j")
    case True
    then obtain e where "x = Inl e" using assms(2)[of st] x by auto
    then show ?thesis using r by auto
  next
    case False
    then show ?thesis using Cons.IH[of st1] Cons.prems r xs by auto
  qed
qed simp

text \<open>A jurisdiction that goes through ScrapeBot, that is not refused and not owned by the cloud path.\<close>

definition minted_locally :: "'f scrape_world \<Rightarrow> json \<Rightarrow> string \<Rightarrow> bool" where
  "minted_locally W config j = (scrapebot_eligible j config = Inr True \<and>
     (\<forall>en. fst (people_check_refusal (manifest_world W) False False (people_count W) j config en) = Inr None) \<and>
     (\<forall>en. fst (cloud_path_owns (manifest_world W) j config en) = Inr False))"

text \<open>An exception of ScrapeBot other than its own leaves the scrape before anything is launched.\<close>

lemma mint_error_escapes:
  assumes "minted_locally W config j"
    and "fst (dispatch_mint_cookies (mint_of W j) DEFAULT_TIMEOUT_SECONDS) = Inl (Escaped e)"
  shows "\<exists>st'. run_scrape W fr False False j session_arg root timeout_s config st = (Inl e, st') \<and>
    events st' = events st @ [Minted j] \<and> disk_state st' = disk_state st"
proof -
  obtain en where p: "people_check_refusal (manifest_world W) False False (people_count W) j config (enrollments st) = (Inr None, en)"
    using assms(1) by (metis minted_locally_def prod.collapse)
  obtain en2 where c: "cloud_path_owns (manifest_world W) j config en = (Inr False, en2)"
    using assms(1) by (metis minted_locally_def prod.collapse)
  have m: "maybe_preseed_scrapebot_cookies W j config root st2 = (Some e, happened (Minted j) st2)" for st2
    using assms by (simp add: maybe_preseed_scrapebot_cookies_def minted_locally_def)
  show ?thesis
    by (simp add: run_scrape_def run_scrape_impl_def run_local_scrape_def p c m happened_def Let_def)
qed

section \<open>Properties\<close>

text \<open>A batch is reported as a whole or not at all. When the job returns, its results are the answers of every
  scrape in the order of the list, \<open>failed\<close> counts the failed ones and \<open>success\<close> means there are none. When any scrape
  raises, the job raises and leaves Redis as it was: no history and no status is recorded for any
  jurisdiction of the batch, although all of them ran. One HTTP error of ScrapeBot (anything but its own
  \<open>ScrapeBotDispatchError\<close>) is enough, and then the scrape it should only have prepared is not launched.\<close>

lemma batch_all_or_nothing:
  assumes "get_root (manifest_world W) config = Inr root"
    and "run_secondary_scrapes_job W c fresh markers t config (Some js) flow_key st r = (out, st', r')"
  shows "(case out of
      Inr (b, alerts) \<Rightarrow>
        fst (run_each W fresh root config js st) = map Inr (batch_results b) \<and> length (batch_results b) = length js \<and>
        batch_failed b = card {i. i < length js \<and> \<not> succeeded (batch_results b ! i)} \<and>
        (batch_ok b \<longleftrightarrow> (\<forall>a \<in> set (batch_results b). succeeded a))
    | Inl e \<Rightarrow> r' = r) \<and>
    ((\<exists>e. Inl e \<in> set (fst (run_each W fresh root config js st))) \<longrightarrow> (\<exists>e. out = Inl e)) \<and>
    (\<forall>j e. j \<in> set js \<and> minted_locally W config j \<and>
        fst (dispatch_mint_cookies (mint_of W j) DEFAULT_TIMEOUT_SECONDS) = Inl (Escaped e) \<longrightarrow>
      (\<exists>e'. out = Inl e') \<and> r' = r \<and>
      (\<forall>st. \<exists>st2. run_scrape W (fresh j) False False j None root None config st = (Inl e, st2) \<and>
        events st2 = events st @ [Minted j]))"
proof -
  obtain runs st1 where runs: "run_each W fresh root config js st = (runs, st1)"
    by (cases "run_each W fresh root config js st")
  have same: "st\<lparr>enrollments := enrollments st\<rparr> = st" by simp
  have out: "(out, st', r') = (case bind_res (gather runs) (\<lambda>results. bind_res (check_config_of config) (\<lambda>cfg. Inr (results, cfg))) of
      Inl e \<Rightarrow> (Inl e, st1, r)
    | Inr (results, cfg) \<Rightarrow>
        (let status_key = (case flow_key of Some k \<Rightarrow> if k \<noteq> [] then k else ''openstates_secondary_scrapes''
               | None \<Rightarrow> ''openstates_secondary_scrapes'');
             (alerts, r) = record_batch c markers t cfg status_key js results r in
         (Inr (batch_answer_of (map JStr js) results, alerts), st1, r)))"
    using assms by (simp add: run_secondary_scrapes_job_def secondary_jurisdictions_def Let_def runs)
  have fail: "\<exists>e. out = Inl e \<and> r' = r" if "Inl e \<in> set runs" for e
    using gather_Inl[OF that] out by auto
  have first: "case out of
      Inr (b, alerts) \<Rightarrow>
        runs = map Inr (batch_results b) \<and> length (batch_results b) = length js \<and>
        batch_failed b = card {i. i < length js \<and> \<not> succeeded (batch_results b ! i)} \<and>
        (batch_ok b \<longleftrightarrow> (\<forall>a \<in> set (batch_results b). succeeded a))
    | Inl e \<Rightarrow> r' = r"
  proof (cases "bind_res (gather runs) (\<lambda>results. bind_res (check_config_of config) (\<lambda>cfg. Inr (results, cfg)))")
    case (Inl e)
    then show ?thesis using out by simp
  next
    case (Inr p)
    obtain results cfg where p: "p = (results, cfg)" by (cases p)
    then have g: "runs = map Inr results" using Inr gather_Inr_iff[of runs results] by (auto simp: bind_res_Inr_iff)
    have len: "length results = length js" using run_each_length[of W fresh root config js st] g runs by simp
    have "\<exists>alerts. out = Inr (batch_answer_of (map JStr js) results, alerts)"
      using out Inr p by (auto simp: Let_def split: prod.splits)
    then show ?thesis
      using g len by (auto simp: batch_answer_of_def failures_in_def length_filter_conv_card all_set_conv_all_nth)
  qed
  have mint: "(\<exists>e'. out = Inl e') \<and> r' = r \<and>
      (\<forall>st. \<exists>st2. run_scrape W (fresh j) False False j None root None config st = (Inl e, st2) \<and> events st2 = events st @ [Minted j])"
    if j: "j \<in> set js" "minted_locally W config j"
      "fst (dispatch_mint_cookies (mint_of W j) DEFAULT_TIMEOUT_SECONDS) = Inl (Escaped e)" for j e
  proof -
    note esc = mint_error_escapes[OF j(2,3), of "fresh j" None root None]
    then have raises: "\<exists>e' st2. run_scrape W (fresh j) False False j None root None config s = (Inl e', st2)" for s by blast
    have "\<exists>e. Inl e \<in> set (fst (run_each W fresh root config js st))" by (rule run_each_raises[where fresh = fresh]) (rule j(1), rule raises)
    then obtain e' where "Inl e' \<in> set runs" using runs by auto
    from fail[OF this] esc show ?thesis by blast
  qed
  have "(\<exists>e. Inl e \<in> set runs) \<longrightarrow> (\<exists>e. out = Inl e)" using fail by blast
  with first mint show ?thesis unfolding runs fst_conv by blast
qed

definition mint_config :: json where
  "mint_config = JObj [(''secondary'', JObj [(''scrapebot_fallback'',
     JObj [(''enabled'', JBool True), (''jurisdictions'', JArr [JStr ''mi''])])])]"

lemma minted_demo: "minted_locally (demo_scrape 0 post) mint_config ''mi''"
proof -
  have "fst (people_check_refusal (manifest_world (demo_scrape 0 post)) False False count ''mi'' mint_config en) = Inr None" for count en
    by (simp add: people_check_refusal_def demo_scrape_def get_root_def demo_root_def load_manifest_def Let_def dict_get_def)
  moreover have "fst (cloud_path_owns w ''mi'' mint_config en) = Inr False" for w en
    by (simp add: cloud_path_owns_def mint_config_def or_empty_def block_enabled_def)
  ultimately show ?thesis
    by (auto simp: minted_locally_def scrapebot_eligible_def opted_in_def mint_config_def or_empty_def block_enabled_def listed_in_def)
qed

lemma batch_all_or_nothing_witness:
  "\<exists>e. fst (run_secondary_scrapes_job (demo_scrape 0 (Inl (OtherError ''HTTPStatusError''))) (None :: memory redis option)
     (\<lambda>_. True) (\<lambda>_. None) \<lparr>started_at = [], completed_at = []\<rparr> mint_config (Some [''va'', ''mi'', ''ut'']) None demo_start demo_memory)
   = Inl e"
proof -
  let ?W = "demo_scrape 0 (Inl (OtherError ''HTTPStatusError''))"
  let ?job = "run_secondary_scrapes_job ?W (None :: memory redis option) (\<lambda>_. True) (\<lambda>_. None)
     \<lparr>started_at = [], completed_at = []\<rparr> mint_config (Some [''va'', ''mi'', ''ut'']) None demo_start demo_memory"
  obtain out st' r' where job: "?job = (out, st', r')" by (cases ?job) auto
  have root: "get_root (manifest_world ?W) mint_config = Inr demo_root"
    by (simp add: get_root_def demo_scrape_def demo_root_def)
  have "fst (dispatch_mint_cookies (mint_of ?W ''mi'') DEFAULT_TIMEOUT_SECONDS) = Inl (Escaped (OtherError ''HTTPStatusError''))"
    by (simp add: dispatch_mint_cookies_def demo_scrape_def demo_mint_def)
  then show ?thesis
    using batch_all_or_nothing[OF root job] minted_demo by (auto simp: job)
qed

end
