(* ===== verification/Inflight.thy ===== *)
theory Inflight
  imports Redis PyJson
begin

text \<open>
  The record of Fargate jobs in flight (\<open>pipelines/inflight_fargate_jobs.py\<close>): one Redis hash with a field
  per run. The synchronous client is a parameter with its own small interface: the locale \<open>hash_service\<close> says
  what the commands promise about the fields a state shows; the in-memory hash below keeps the laws. The state of
  the module is the server and whether its client has been made.
\<close>

section \<open>The hash\<close>

type_synonym fields = "string \<rightharpoonup> rtext"

record 'h hash_client =
  h_ping :: "('h, unit) command"
  h_set :: "string \<Rightarrow> rtext \<Rightarrow> ('h, unit) command"
  h_del :: "string \<Rightarrow> ('h, unit) command"
  h_getall :: "('h, (string \<times> rtext) list) command"

locale hash_service =
  fixes H :: "'h hash_client" and fields_of :: "'h \<Rightarrow> fields"
  assumes ping_law: "h_ping H h = (res_ping, h') \<Longrightarrow> fields_of h' = fields_of h"
    and hset_law: "h_set H k t h = (res_hset, h') \<Longrightarrow>
      (res_hset \<noteq> None \<longrightarrow> fields_of h' = (fields_of h)(k \<mapsto> t)) \<and> (\<forall>i. i \<noteq> k \<longrightarrow> fields_of h' i = fields_of h i)"
    and hdel_law: "h_del H k h = (res_hdel, h') \<Longrightarrow>
      (res_hdel \<noteq> None \<longrightarrow> fields_of h' = (fields_of h)(k := None)) \<and> (\<forall>i. i \<noteq> k \<longrightarrow> fields_of h' i = fields_of h i)"
    and hgetall_law: "h_getall H h = (res_getall, h') \<Longrightarrow> fields_of h' = fields_of h \<and>
      (\<forall>kvs. res_getall = Some kvs \<longrightarrow> distinct (map fst kvs) \<and> map_of kvs = fields_of h)"

section \<open>The module\<close>

record 'h tracker =
  has_client :: bool
  hash :: 'h

text \<open>\<open>_get_client\<close>: a client that answered once is kept; a failure is not remembered.\<close>

definition get_client :: "'h hash_client \<Rightarrow> 'h tracker \<Rightarrow> bool \<times> 'h tracker" where
  "get_client H tr =
     (if has_client tr then (True, tr)
      else (case h_ping H (hash tr) of
          (None, h) \<Rightarrow> (False, tr\<lparr>hash := h\<rparr>)
        | (Some _, h) \<Rightarrow> (True, tr\<lparr>has_client := True, hash := h\<rparr>)))"

definition job_record :: "string \<Rightarrow> string \<Rightarrow> string option \<Rightarrow> string \<Rightarrow> json \<Rightarrow> string \<Rightarrow> json" where
  "job_record run_id jurisdiction session_arg task_arn fargate_cfg root =
     JObj [(''run_id'', JStr run_id), (''jurisdiction'', JStr jurisdiction),
       (''session_arg'', (case session_arg of None \<Rightarrow> JNull | Some s \<Rightarrow> JStr s)), (''task_arn'', JStr task_arn),
       (''fargate_cfg'', fargate_cfg), (''openstates_root'', JStr root)]"

definition record_started :: "'h hash_client \<Rightarrow> string \<Rightarrow> json \<Rightarrow> 'h tracker \<Rightarrow> 'h tracker" where
  "record_started H run_id job tr =
     (case get_client H tr of
        (False, tr) \<Rightarrow> tr
      | (True, tr) \<Rightarrow> tr\<lparr>hash := snd (h_set H run_id (JsonText job) (hash tr))\<rparr>)"

definition clear_record :: "'h hash_client \<Rightarrow> string \<Rightarrow> 'h tracker \<Rightarrow> 'h tracker" where
  "clear_record H run_id tr =
     (case get_client H tr of
        (False, tr) \<Rightarrow> tr
      | (True, tr) \<Rightarrow> tr\<lparr>hash := snd (h_del H run_id (hash tr))\<rparr>)"

text \<open>Fields that are not JSON are skipped.\<close>

fun parsed_records :: "(string \<times> rtext) list \<Rightarrow> (string \<times> json) list" where
  "parsed_records [] = []"
| "parsed_records ((k, t) # kvs) =
     (case loads t of None \<Rightarrow> parsed_records kvs | Some v \<Rightarrow> (k, v) # parsed_records kvs)"

definition list_inflight :: "'h hash_client \<Rightarrow> 'h tracker \<Rightarrow> (string \<times> json) list \<times> 'h tracker" where
  "list_inflight H tr =
     (case get_client H tr of
        (False, tr) \<Rightarrow> ([], tr)
      | (True, tr) \<Rightarrow>
          (case h_getall H (hash tr) of
             (None, h) \<Rightarrow> ([], tr\<lparr>hash := h\<rparr>)
           | (Some kvs, h) \<Rightarrow> (parsed_records kvs, tr\<lparr>hash := h\<rparr>)))"

section \<open>What is recorded is listed\<close>

lemma set_parsed_records: "set (parsed_records kvs) = {(k, v). \<exists>t. (k, t) \<in> set kvs \<and> loads t = Some v}"
  by (induction kvs rule: parsed_records.induct) (auto split: option.splits)

text \<open>A server that answers every command.\<close>

locale answering_hash = hash_service +
  assumes ping_ok: "fst (h_ping H h) \<noteq> None"
    and set_ok: "fst (h_set H k t h) \<noteq> None"
    and del_ok: "fst (h_del H k h) \<noteq> None"
    and getall_ok: "fst (h_getall H h) \<noteq> None"
begin

lemma get_client_ok: "get_client H tr = (b, tr') \<Longrightarrow> b \<and> fields_of (hash tr') = fields_of (hash tr)"
  using ping_ok[of "hash tr"] ping_law[of "hash tr"]
  by (auto simp: get_client_def split: if_splits prod.splits option.splits)

lemma record_started_fields:
  "fields_of (hash (record_started H run_id job tr)) = (fields_of (hash tr))(run_id \<mapsto> JsonText job)"
proof -
  obtain b tr1 where c: "get_client H tr = (b, tr1)" by (cases "get_client H tr")
  obtain u h where s: "h_set H run_id (JsonText job) (hash tr1) = (u, h)" by (cases "h_set H run_id (JsonText job) (hash tr1)")
  have "u \<noteq> None" using set_ok[of run_id "JsonText job" "hash tr1"] s by simp
  then show ?thesis using get_client_ok[OF c] hset_law[OF s] by (simp add: record_started_def c s)
qed

lemma clear_record_fields: "fields_of (hash (clear_record H run_id tr)) = (fields_of (hash tr))(run_id := None)"
proof -
  obtain b tr1 where c: "get_client H tr = (b, tr1)" by (cases "get_client H tr")
  obtain u h where s: "h_del H run_id (hash tr1) = (u, h)" by (cases "h_del H run_id (hash tr1)")
  have "u \<noteq> None" using del_ok[of run_id "hash tr1"] s by simp
  then show ?thesis using get_client_ok[OF c] hdel_law[OF s] by (simp add: clear_record_def c s)
qed

lemma list_inflight_exact:
  "set (fst (list_inflight H tr)) = {(k, v). \<exists>t. fields_of (hash tr) k = Some t \<and> loads t = Some v} \<and>
   fields_of (hash (snd (list_inflight H tr))) = fields_of (hash tr)"
proof -
  obtain b tr1 where c: "get_client H tr = (b, tr1)" by (cases "get_client H tr")
  obtain u h where s: "h_getall H (hash tr1) = (u, h)" by (cases "h_getall H (hash tr1)")
  have "u \<noteq> None" using getall_ok[of "hash tr1"] s by simp
  then obtain kvs where u: "u = Some kvs" by blast
  have kvs: "distinct (map fst kvs)" "map_of kvs = fields_of (hash tr)" "fields_of h = fields_of (hash tr)"
    using hgetall_law[OF s] get_client_ok[OF c] u by auto
  have "(k, t) \<in> set kvs \<longleftrightarrow> fields_of (hash tr) k = Some t" for k t
    using kvs(1) by (simp add: kvs(2)[symmetric])
  then show ?thesis
    using get_client_ok[OF c] kvs(3) by (auto simp: list_inflight_def c s u set_parsed_records)
qed

end

section \<open>An in-memory hash\<close>

type_synonym mem_fields = "(string \<times> rtext) list"

definition mem_hash :: "mem_fields hash_client" where
  "mem_hash = \<lparr>h_ping = (\<lambda>h. (Some (), h)), h_set = (\<lambda>k t h. (Some (), dict_set k t h)),
     h_del = (\<lambda>k h. (Some (), filter (\<lambda>p. fst p \<noteq> k) h)),
     h_getall = (\<lambda>h. (Some (map (\<lambda>k. (k, the (map_of h k))) (remdups (map fst h))), h))\<rparr>"

lemma map_of_remdups_keys: "map_of (map (\<lambda>k. (k, the (map_of h k))) (remdups (map fst h))) = map_of h"
proof
  fix k
  show "map_of (map (\<lambda>k. (k, the (map_of h k))) (remdups (map fst h))) k = map_of h k"
  proof (cases "k \<in> fst ` set h")
    case True
    then obtain v where "map_of h k = Some v" by (metis map_of_eq_None_iff not_None_eq)
    with True show ?thesis by (simp add: map_of_map_restrict restrict_map_def)
  next
    case False
    then have "map_of h k = None" by (simp add: map_of_eq_None_iff)
    with False show ?thesis by (simp add: map_of_map_restrict restrict_map_def)
  qed
qed

interpretation mem_hash: answering_hash mem_hash map_of
proof unfold_locales
  fix h h' k t
  show "h_ping mem_hash h = (res, h') \<Longrightarrow> map_of h' = map_of h" for res
    by (simp add: mem_hash_def)
  show "h_set mem_hash k t h = (res, h') \<Longrightarrow>
      (res \<noteq> None \<longrightarrow> map_of h' = (map_of h)(k \<mapsto> t)) \<and> (\<forall>i. i \<noteq> k \<longrightarrow> map_of h' i = map_of h i)" for res
    by (auto simp: mem_hash_def)
  show "h_del mem_hash k h = (res, h') \<Longrightarrow>
      (res \<noteq> None \<longrightarrow> map_of h' = (map_of h)(k := None)) \<and> (\<forall>i. i \<noteq> k \<longrightarrow> map_of h' i = map_of h i)" for res
    by (auto simp: mem_hash_def map_of_filter_key)
  show "h_getall mem_hash h = (res, h') \<Longrightarrow> map_of h' = map_of h \<and>
      (\<forall>kvs. res = Some kvs \<longrightarrow> distinct (map fst kvs) \<and> map_of kvs = map_of h)" for res
    by (auto simp: mem_hash_def map_of_remdups_keys comp_def)
qed (simp_all add: mem_hash_def)

end
