(* ===== verification/CloudScrape.thy ===== *)
theory CloudScrape
  imports ScrapeRun Inflight
begin

text \<open>
  The cloud path of a scrape (\<open>pipelines/cloud_scrape_trigger.py\<close>): launch a Fargate task, record it, wait for
  it to stop, load what it collected, and clear the record; and the resumption of what an earlier process
  left on record. ECS, the clock, Secrets Manager and the loader are a record of operations on an outside state, each of
  which may raise (\<open>Inl\<close>, with the text of the exception). The loop that waits takes fuel, one unit per poll; the
  theorems give the fuel that is enough. What happens is the list of events, in order.
\<close>

section \<open>The outside\<close>

type_synonym ('e, 'a) attempt = "'e \<Rightarrow> (string + 'a) \<times> 'e"

record 'e aws =
  e_time :: "'e \<Rightarrow> int"
  e_sleep :: "'e \<Rightarrow> 'e"
  e_client :: "('e, unit) attempt"
  e_run_task :: "json \<Rightarrow> ('e, json) attempt"
  e_describe :: "json \<Rightarrow> string \<Rightarrow> ('e, json) attempt"
  e_stop_task :: "json \<Rightarrow> string \<Rightarrow> ('e, unit) attempt"
  e_rds_url :: "('e, string) attempt"
  e_load :: "string list \<Rightarrow> (string \<times> json) list \<Rightarrow> json \<Rightarrow> ('e, int \<times> string) attempt"

datatype cloud_event =
    TaskStarted string string
  | Recorded string
  | StopRequested string
  | LoadStarted string
  | CloudAlert string string
  | Cleared string

record ('e, 'h) cloud_state =
  outside :: 'e
  tracked :: "'h tracker"
  cloud_log :: "cloud_event list"

definition logged_event :: "cloud_event \<Rightarrow> ('e, 'h) cloud_state \<Rightarrow> ('e, 'h) cloud_state" where
  "logged_event e st = st\<lparr>cloud_log := cloud_log st @ [e]\<rparr>"

record cloud_answer =
  ca_success :: bool
  ca_error :: "string option"
  ca_reason :: "string option"
  ca_label :: "string option"
  ca_run_id :: "string option"

definition cloud_failure :: "string \<Rightarrow> string \<Rightarrow> string option \<Rightarrow> string option \<Rightarrow> cloud_answer" where
  "cloud_failure e cls label run_id =
     \<lparr>ca_success = False, ca_error = Some e, ca_reason = Some cls, ca_label = label, ca_run_id = run_id\<rparr>"

section \<open>Configuration\<close>

definition py_type_name :: "json \<Rightarrow> string" where
  "py_type_name v = (case v of
      JNull \<Rightarrow> ''NoneType'' | JBool _ \<Rightarrow> ''bool'' | JInt _ \<Rightarrow> ''int'' | JStr _ \<Rightarrow> ''str''
    | JArr _ \<Rightarrow> ''list'' | JObj _ \<Rightarrow> ''dict'')"

definition REQUIRED_KEYS :: "string list" where
  "REQUIRED_KEYS = [''cluster'', ''task_definition'', ''subnets'', ''security_groups'']"

text \<open>The first ceiling that is not a positive whole number of seconds.\<close>

fun check_ceilings :: "(string \<times> json) list \<Rightarrow> unit res" where
  "check_ceilings [] = Inr ()"
| "check_ceilings ((state, seconds) # kvs) =
     (case seconds of
        JInt n \<Rightarrow> if 0 < n then check_ceilings kvs
          else Inl (ValueError (''cloud_path.fargate.max_wait_seconds_by_jurisdiction['' @ repr_str state @
                 ''] must be a positive whole number of seconds, got '' @ json_repr seconds))
      | _ \<Rightarrow> Inl (ValueError (''cloud_path.fargate.max_wait_seconds_by_jurisdiction['' @ repr_str state @
                 ''] must be a positive whole number of seconds, got '' @ json_repr seconds)))"

definition fargate_block :: "json \<Rightarrow> (string \<times> json) list res" where
  "fargate_block config =
     bind_res (attr_get (or_empty config) ''cloud_path'' JNull) (\<lambda>c.
       case or_empty c of
         JObj cloud_path \<Rightarrow>
           (case or_empty (dict_get cloud_path ''fargate'') of
              JObj cfg \<Rightarrow> Inr cfg
            | v \<Rightarrow> Inl (ValueError (''cloud_path.fargate must be a mapping, got '' @ py_type_name v)))
       | v \<Rightarrow> Inl (ValueError (''cloud_path must be a mapping, got '' @ py_type_name v)))"

definition fargate_config :: "json \<Rightarrow> string option \<Rightarrow> (string \<times> json) list res" where
  "fargate_config config jurisdiction =
     bind_res (fargate_block config) (\<lambda>cfg.
       let missing = filter (\<lambda>k. \<not> truthy (dict_get cfg k)) REQUIRED_KEYS in
       if missing \<noteq> [] then Inl (ValueError (''cloud_path.fargate is missing required config: '' @ commas missing))
       else (case (case map_of cfg ''max_wait_seconds_by_jurisdiction'' of None \<Rightarrow> JObj [] | Some v \<Rightarrow> v) of
           JObj by_state \<Rightarrow>
             bind_res (check_ceilings by_state) (\<lambda>_.
               Inr (case jurisdiction of
                   None \<Rightarrow> cfg
                 | Some j \<Rightarrow> (case map_of by_state j of
                     None \<Rightarrow> cfg
                   | Some seconds \<Rightarrow> dict_set ''max_wait_seconds'' seconds cfg)))
         | v \<Rightarrow> Inl (ValueError (''cloud_path.fargate.max_wait_seconds_by_jurisdiction must be a mapping, got '' @ py_type_name v))))"

section \<open>The task\<close>

definition session_words :: "string option \<Rightarrow> string list" where
  "session_words session_arg = (case session_arg of None \<Rightarrow> [] | Some s \<Rightarrow> if s \<noteq> [] then split_words s [] else [])"

definition cfg_get :: "(string \<times> json) list \<Rightarrow> string \<Rightarrow> json \<Rightarrow> json" where
  "cfg_get cfg k dflt = (case map_of cfg k of None \<Rightarrow> dflt | Some v \<Rightarrow> v)"

definition container_of :: "(string \<times> json) list \<Rightarrow> json" where
  "container_of cfg = cfg_get cfg ''container_name'' (JStr ''scraper'')"

definition task_request :: "string \<Rightarrow> string option \<Rightarrow> string \<Rightarrow> (string \<times> json) list \<Rightarrow> json res" where
  "task_request jurisdiction session_arg run_id cfg =
     bind_res (subscript (JObj cfg) ''cluster'') (\<lambda>cluster.
     bind_res (subscript (JObj cfg) ''task_definition'') (\<lambda>task_definition.
     bind_res (subscript (JObj cfg) ''subnets'') (\<lambda>subnets.
     bind_res (subscript (JObj cfg) ''security_groups'') (\<lambda>security_groups.
       Inr (JObj [(''cluster'', cluster), (''taskDefinition'', task_definition), (''launchType'', JStr ''FARGATE''),
         (''networkConfiguration'', JObj [(''awsvpcConfiguration'', JObj [(''subnets'', subnets),
            (''securityGroups'', security_groups), (''assignPublicIp'', cfg_get cfg ''assign_public_ip'' (JStr ''ENABLED''))])]),
         (''overrides'', JObj [(''containerOverrides'', JArr [JObj [(''name'', container_of cfg),
            (''command'', JArr (map JStr (jurisdiction # session_words session_arg))),
            (''environment'', JArr [JObj [(''name'', JStr ''RUN_ID''), (''value'', JStr run_id)]])]])])])))))"

text \<open>\<open>"; ".join\<close> of the reasons.\<close>

fun join_semicolons :: "string list \<Rightarrow> string" where
  "join_semicolons [] = []"
| "join_semicolons [x] = x"
| "join_semicolons (x # y # xs) = x @ ''; '' @ join_semicolons (y # xs)"

definition read_started :: "json \<Rightarrow> (string + string) res" where
  "read_started resp =
     bind_res (attr_get resp ''failures'' (JArr [])) (\<lambda>failures.
     bind_res (attr_get resp ''tasks'' (JArr [])) (\<lambda>tasks.
       if truthy failures \<or> \<not> truthy tasks
       then bind_res (json_iter failures) (\<lambda>fs.
            bind_res (map_res (\<lambda>f. bind_res (attr_get f ''reason'' (JStr ''unknown'')) (\<lambda>v.
                case v of JStr s \<Rightarrow> Inr s | _ \<Rightarrow> Inl TypeError)) fs) (\<lambda>reasons.
              let detail = join_semicolons reasons in
              Inr (Inl (if detail \<noteq> [] then detail else ''no task returned''))))
       else (case tasks of
           JArr (t # _) \<Rightarrow> bind_res (subscript t ''taskArn'') (\<lambda>v. case v of JStr a \<Rightarrow> Inr (Inr a) | _ \<Rightarrow> Inl TypeError)
         | _ \<Rightarrow> Inl TypeError)))"

text \<open>Started with a task, not started for a reason, or an exception while the answer is read.\<close>

definition launch_fargate_task ::
  "'e aws \<Rightarrow> string \<Rightarrow> string option \<Rightarrow> string \<Rightarrow> (string \<times> json) list \<Rightarrow> 'e \<Rightarrow> (string + string) res \<times> 'e" where
  "launch_fargate_task A jurisdiction session_arg run_id cfg e =
     (case task_request jurisdiction session_arg run_id cfg of
        Inl x \<Rightarrow> (Inr (Inl (exception_text x)), e)
      | Inr req \<Rightarrow>
          (case e_run_task A req e of
             (Inl x, e) \<Rightarrow> (Inr (Inl x), e)
           | (Inr resp, e) \<Rightarrow> (read_started resp, e)))"

section \<open>Waiting\<close>

definition DEFAULT_MAX_WAIT_S :: int where "DEFAULT_MAX_WAIT_S = 12 * 3600"
definition DEFAULT_LOAD_TIMEOUT_S :: int where "DEFAULT_LOAD_TIMEOUT_S = 2 * 3600"
definition POLL_INTERVAL_S :: int where "POLL_INTERVAL_S = 30"

definition stop_orphaned_task :: "'e aws \<Rightarrow> json \<Rightarrow> string \<Rightarrow> 'e \<Rightarrow> string \<times> 'e" where
  "stop_orphaned_task A cluster task_arn e =
     (case e_stop_task A cluster task_arn e of
        (Inl x, e) \<Rightarrow> (''stop_task also failed: '' @ x, e)
      | (Inr _, e) \<Rightarrow> (''task stop requested'', e))"

text \<open>The first container with the name, if any.\<close>

fun find_container :: "json \<Rightarrow> json list \<Rightarrow> json option res" where
  "find_container name [] = Inr None"
| "find_container name (c # cs) =
     bind_res (attr_get c ''name'' JNull) (\<lambda>n. if n = name then Inr (Some c) else find_container name cs)"

text \<open>
  The exit code and the reason of a stopped task; a code that is not a number is kept as \<open>None\<close>, and so is the
  code of a missing container.
\<close>

definition stopped_outcome :: "(string \<times> json) list \<Rightarrow> json \<Rightarrow> (int option \<times> string) res" where
  "stopped_outcome cfg task =
     bind_res (attr_get task ''containers'' (JArr [])) (\<lambda>cs.
     bind_res (json_iter cs) (\<lambda>containers.
     bind_res (find_container (container_of cfg) containers) (\<lambda>found.
     bind_res (case found of None \<Rightarrow> Inr JNull | Some m \<Rightarrow> attr_get m ''exitCode'' JNull) (\<lambda>code.
     bind_res (case found of None \<Rightarrow> Inr JNull | Some m \<Rightarrow> attr_get m ''reason'' JNull) (\<lambda>why.
     bind_res (attr_get task ''stoppedReason'' (JStr [])) (\<lambda>task_why.
       Inr (case code of JInt n \<Rightarrow> Some n | _ \<Rightarrow> None, json_str (if truthy why then why else task_why))))))))"

text \<open>The described task, when ECS says it has stopped.\<close>

definition stopped_task :: "json \<Rightarrow> json option res" where
  "stopped_task desc =
     bind_res (attr_get desc ''tasks'' (JArr [])) (\<lambda>ts.
       if \<not> truthy ts then Inr None
       else (case ts of
           JArr (t # _) \<Rightarrow> bind_res (attr_get t ''lastStatus'' JNull) (\<lambda>s. Inr (if s = JStr ''STOPPED'' then Some t else None))
         | _ \<Rightarrow> Inl TypeError))"

text \<open>
  A ceiling that is not an integer raises. The polls: \<open>None\<close> when the fuel runs out; an exception, or the exit code and the detail, and whether a stop was
  asked for.
\<close>

fun poll_task ::
  "nat \<Rightarrow> 'e aws \<Rightarrow> string \<Rightarrow> json \<Rightarrow> (string \<times> json) list \<Rightarrow> int \<Rightarrow> int \<Rightarrow> 'e \<Rightarrow>
    ((string + int option \<times> string) \<times> bool \<times> 'e) option" where
  "poll_task 0 A task_arn cluster cfg max_wait deadline e = None"
| "poll_task (Suc fuel) A task_arn cluster cfg max_wait deadline e =
     (case e_describe A cluster task_arn e of
        (Inl x, e) \<Rightarrow> Some (Inl x, False, e)
      | (Inr desc, e) \<Rightarrow>
          (case stopped_task desc of
             Inl x \<Rightarrow> Some (Inl (exception_text x), False, e)
           | Inr (Some t) \<Rightarrow>
               (case stopped_outcome cfg t of
                  Inl x \<Rightarrow> Some (Inl (exception_text x), False, e)
                | Inr out \<Rightarrow> Some (Inr out, False, e))
           | Inr None \<Rightarrow>
               if deadline \<le> e_time A e
               then (let (detail, e) = stop_orphaned_task A cluster task_arn e in
                     Some (Inr (None, ''gave up waiting after '' @ int_str max_wait @ ''s (task_arn='' @ task_arn @ ''); '' @ detail), True, e))
               else poll_task fuel A task_arn cluster cfg max_wait deadline (e_sleep A e)))"

definition wait_for_task_stop ::
  "nat \<Rightarrow> 'e aws \<Rightarrow> string \<Rightarrow> (string \<times> json) list \<Rightarrow> 'e \<Rightarrow> ((string + int option \<times> string) \<times> bool \<times> 'e) option" where
  "wait_for_task_stop fuel A task_arn cfg e =
     (case cfg_get cfg ''max_wait_seconds'' (JInt DEFAULT_MAX_WAIT_S) of
        JInt max_wait \<Rightarrow>
          (case subscript (JObj cfg) ''cluster'' of
             Inl x \<Rightarrow> Some (Inl (exception_text x), False, e)
           | Inr cluster \<Rightarrow> poll_task fuel A task_arn cluster cfg max_wait (e_time A e + max_wait) e)
      | _ \<Rightarrow> Some (Inl (exception_text TypeError), False, e))"

section \<open>Loading\<close>

text \<open>\<open>memory_bucket\<close> and \<open>memory_prefix\<close> may be any value of the yaml; the bucket falls back on the environment.\<close>

definition run_load ::
  "'e aws \<Rightarrow> string \<Rightarrow> string \<Rightarrow> string option \<Rightarrow> string \<Rightarrow> string \<Rightarrow> (string \<times> json) list \<Rightarrow> 'e \<Rightarrow>
    string option \<times> bool \<times> 'e" where
  "run_load A env_bucket jurisdiction session_arg run_id root cfg e =
     (case e_rds_url A e of
        (Inl x, e) \<Rightarrow> (Some (''cannot resolve an RDS target: '' @ x), False, e)
      | (Inr url, e) \<Rightarrow>
          (let cmd = [''python3'', path_join root ''cloud_loader.py'', jurisdiction, run_id] @ session_words session_arg;
               env = [(''DATABASE_URL'', JStr url), (''MEMORY_BUCKET'', cfg_get cfg ''memory_bucket'' (JStr env_bucket)),
                      (''MEMORY_PREFIX'', cfg_get cfg ''memory_prefix'' (JStr ''prod''))] in
           case e_load A cmd env (cfg_get cfg ''load_timeout_seconds'' (JInt DEFAULT_LOAD_TIMEOUT_S)) e of
             (Inl x, e) \<Rightarrow> (Some x, True, e)
           | (Inr (rc, stderr), e) \<Rightarrow>
               (if rc \<noteq> 0
                then Some (''cloud_loader.py exited '' @ int_str rc @ '': '' @ slice_from (-500) stderr)
                else None, True, e)))"

definition code_text :: "int option \<Rightarrow> string" where
  "code_text code = (case code of None \<Rightarrow> ''exit_code_none'' | Some n \<Rightarrow> ''exit_code_'' @ int_str n)"

text \<open>The shared tail of a fresh and of a resumed job; \<open>Inl\<close> is an exception that leaves it.\<close>

definition finish_after_launch ::
  "nat \<Rightarrow> 'e aws \<Rightarrow> string \<Rightarrow> string \<Rightarrow> string option \<Rightarrow> string \<Rightarrow> string \<Rightarrow> (string \<times> json) list \<Rightarrow> string \<Rightarrow> string \<Rightarrow>
    ('e, 'h) cloud_state \<Rightarrow> ((string + cloud_answer) \<times> ('e, 'h) cloud_state) option" where
  "finish_after_launch fuel A env_bucket jurisdiction session_arg run_id root cfg task_arn label st =
     (case wait_for_task_stop fuel A task_arn cfg (outside st) of
        None \<Rightarrow> None
      | Some (r, asked, e) \<Rightarrow>
          (let st = (if asked then logged_event (StopRequested task_arn) st else st)\<lparr>outside := e\<rparr> in
           case r of
             Inl x \<Rightarrow> Some (Inl x, st)
           | Inr (code, detail) \<Rightarrow>
               if code \<noteq> Some 0 then
                 Some (Inr (cloud_failure (code_text code) (classify_failure_reason (code_text code) detail) (Some label) (Some run_id)),
                   logged_event (CloudAlert label (''collection '' @ code_text code @ '': '' @ detail)) st)
               else
                 (let (bad, ran, e) = run_load A env_bucket jurisdiction session_arg run_id root cfg (outside st);
                      st = (if ran then logged_event (LoadStarted run_id) st else st)\<lparr>outside := e\<rparr> in
                  case bad of
                    Some load_detail \<Rightarrow>
                      Some (Inr (cloud_failure (''load_failed: '' @ load_detail)
                          (classify_failure_reason ''exit_code_load'' load_detail) (Some label) (Some run_id)),
                        logged_event (CloudAlert label (''load_failed: '' @ load_detail)) st)
                  | None \<Rightarrow>
                      Some (Inr \<lparr>ca_success = True, ca_error = None, ca_reason = None, ca_label = Some label,
                        ca_run_id = Some run_id\<rparr>, st))))"

definition clear_job :: "'h hash_client \<Rightarrow> string \<Rightarrow> ('e, 'h) cloud_state \<Rightarrow> ('e, 'h) cloud_state" where
  "clear_job H run_id st = logged_event (Cleared run_id) (st\<lparr>tracked := clear_record H run_id (tracked st)\<rparr>)"

definition record_job :: "'h hash_client \<Rightarrow> string \<Rightarrow> json \<Rightarrow> ('e, 'h) cloud_state \<Rightarrow> ('e, 'h) cloud_state" where
  "record_job H run_id job st = logged_event (Recorded run_id) (st\<lparr>tracked := record_started H run_id job (tracked st)\<rparr>)"

section \<open>A fresh job\<close>

text \<open>The outer \<open>except Exception\<close>.\<close>

definition unexpected :: "string \<Rightarrow> string \<Rightarrow> ('e, 'h) cloud_state \<Rightarrow> cloud_answer \<times> ('e, 'h) cloud_state" where
  "unexpected label x st =
     (cloud_failure x (classify_failure_reason ''exit_code_unexpected'' x) (Some label) None, logged_event (CloudAlert label x) st)"

text \<open>From the record of the started task to its removal.\<close>

definition watch_job ::
  "nat \<Rightarrow> 'e aws \<Rightarrow> 'h hash_client \<Rightarrow> string \<Rightarrow> string \<Rightarrow> string option \<Rightarrow> string \<Rightarrow> string \<Rightarrow> (string \<times> json) list \<Rightarrow>
    string \<Rightarrow> ('e, 'h) cloud_state \<Rightarrow> (cloud_answer \<times> ('e, 'h) cloud_state) option" where
  "watch_job fuel A H env_bucket jurisdiction session_arg run_id root cfg task_arn st =
     (let label = label_of jurisdiction session_arg;
          st = record_job H run_id (job_record run_id jurisdiction session_arg task_arn (JObj cfg) root) st in
      case finish_after_launch fuel A env_bucket jurisdiction session_arg run_id root cfg task_arn label st of
        None \<Rightarrow> None
      | Some (Inl x, st) \<Rightarrow> Some (unexpected label x (clear_job H run_id st))
      | Some (Inr answer, st) \<Rightarrow> Some (answer, clear_job H run_id st))"

definition run_cloud_scrape ::
  "nat \<Rightarrow> 'e aws \<Rightarrow> 'h hash_client \<Rightarrow> string \<Rightarrow> string \<Rightarrow> string option \<Rightarrow> string \<Rightarrow> json \<Rightarrow> string \<Rightarrow>
    ('e, 'h) cloud_state \<Rightarrow> (cloud_answer \<times> ('e, 'h) cloud_state) option" where
  "run_cloud_scrape fuel A H env_bucket jurisdiction session_arg root config run_id st =
     (let label = label_of jurisdiction session_arg in
      case fargate_config config (Some jurisdiction) of
        Inl (ValueError s) \<Rightarrow> Some (cloud_failure s ''config_error'' (Some label) None, logged_event (CloudAlert label s) st)
      | Inl x \<Rightarrow> Some (unexpected label (exception_text x) st)
      | Inr cfg \<Rightarrow>
          (case e_rds_url A (outside st) of
             (Inl x, e) \<Rightarrow>
               (let s = ''cannot resolve an RDS target: '' @ x in
                Some (cloud_failure s ''config_error'' (Some label) (Some run_id), logged_event (CloudAlert label s) (st\<lparr>outside := e\<rparr>)))
           | (Inr _, e) \<Rightarrow>
               (case e_client A e of
                  (Inl x, e) \<Rightarrow> Some (unexpected label x (st\<lparr>outside := e\<rparr>))
                | (Inr _, e) \<Rightarrow>
                    (case launch_fargate_task A jurisdiction session_arg run_id cfg e of
                       (Inl x, e) \<Rightarrow> Some (unexpected label (exception_text x) (st\<lparr>outside := e\<rparr>))
                     | (Inr (Inl detail), e) \<Rightarrow>
                         (let s = ''run_task_failed: '' @ detail in
                          Some (cloud_failure s (classify_failure_reason ''exit_code_launch'' detail) (Some label) (Some run_id),
                            logged_event (CloudAlert label s) (st\<lparr>outside := e\<rparr>)))
                     | (Inr (Inr task_arn), e) \<Rightarrow>
                         watch_job fuel A H env_bucket jurisdiction session_arg run_id root cfg task_arn
                           (logged_event (TaskStarted run_id task_arn) (st\<lparr>outside := e\<rparr>))))))"

section \<open>A resumed job\<close>

text \<open>The fields of a record: a text that must be there, and a session that may be missing.\<close>

record job_fields =
  jf_jurisdiction :: string
  jf_session :: "string option"
  jf_task_arn :: string
  jf_cfg :: "(string \<times> json) list"
  jf_root :: string

definition text_field :: "json \<Rightarrow> string \<Rightarrow> string res" where
  "text_field job k = bind_res (subscript job k) (\<lambda>v. case v of JStr s \<Rightarrow> Inr s | _ \<Rightarrow> Inl TypeError)"

text \<open>A record with a value of another type raises (later, in the code); a session that is not a text counts as one.\<close>

definition read_job :: "json \<Rightarrow> job_fields res" where
  "read_job job =
     bind_res (text_field job ''jurisdiction'') (\<lambda>jurisdiction.
     bind_res (attr_get job ''session_arg'' JNull) (\<lambda>session.
     bind_res (text_field job ''task_arn'') (\<lambda>task_arn.
     bind_res (subscript job ''fargate_cfg'') (\<lambda>cfg.
     bind_res (text_field job ''openstates_root'') (\<lambda>root.
       case (cfg, session) of
         (JObj kvs, JNull) \<Rightarrow> Inr \<lparr>jf_jurisdiction = jurisdiction, jf_session = None, jf_task_arn = task_arn, jf_cfg = kvs, jf_root = root\<rparr>
       | (JObj kvs, JStr s) \<Rightarrow> Inr \<lparr>jf_jurisdiction = jurisdiction, jf_session = Some s, jf_task_arn = task_arn, jf_cfg = kvs, jf_root = root\<rparr>
       | _ \<Rightarrow> Inl (OtherError ''AttributeError''))))))"

definition resume_failed :: "string \<Rightarrow> string \<Rightarrow> ('e, 'h) cloud_state \<Rightarrow> cloud_answer \<times> ('e, 'h) cloud_state" where
  "resume_failed run_id x st =
     (cloud_failure x (classify_failure_reason ''exit_code_unexpected'' x) None (Some run_id),
      logged_event (CloudAlert (''resume:'' @ run_id) x) st)"

definition resume_inflight_fargate_job ::
  "nat \<Rightarrow> 'e aws \<Rightarrow> 'h hash_client \<Rightarrow> string \<Rightarrow> string \<Rightarrow> json \<Rightarrow> ('e, 'h) cloud_state \<Rightarrow>
    (cloud_answer \<times> ('e, 'h) cloud_state) option" where
  "resume_inflight_fargate_job fuel A H env_bucket run_id job st =
     (case read_job job of
        Inl x \<Rightarrow> (let (answer, st) = resume_failed run_id (exception_text x) st in Some (answer, clear_job H run_id st))
      | Inr jf \<Rightarrow>
          (case e_client A (outside st) of
             (Inl x, e) \<Rightarrow> (let (answer, st) = resume_failed run_id x (st\<lparr>outside := e\<rparr>) in Some (answer, clear_job H run_id st))
           | (Inr _, e) \<Rightarrow>
               (case finish_after_launch fuel A env_bucket (jf_jurisdiction jf) (jf_session jf) run_id (jf_root jf) (jf_cfg jf)
                      (jf_task_arn jf) (label_of (jf_jurisdiction jf) (jf_session jf)) (st\<lparr>outside := e\<rparr>) of
                  None \<Rightarrow> None
                | Some (Inl x, st) \<Rightarrow> (let (answer, st) = resume_failed run_id x st in Some (answer, clear_job H run_id st))
                | Some (Inr answer, st) \<Rightarrow> Some (answer, clear_job H run_id st))))"

text \<open>
  \<open>reconcile_inflight_fargate_jobs\<close>: every record of the hash is resumed; the jobs run at the same time in the
  code and one after the other here. A record that is not a mapping ends the loop with an exception.
\<close>

fun resume_all ::
  "nat \<Rightarrow> 'e aws \<Rightarrow> 'h hash_client \<Rightarrow> string \<Rightarrow> (string \<times> json) list \<Rightarrow> ('e, 'h) cloud_state \<Rightarrow>
    (cloud_answer list res \<times> ('e, 'h) cloud_state) option" where
  "resume_all fuel A H env_bucket [] st = Some (Inr [], st)"
| "resume_all fuel A H env_bucket ((run_id, job) # jobs) st =
     (if \<not> is_dict job then Some (Inl (OtherError ''AttributeError''), st)
      else (case resume_inflight_fargate_job fuel A H env_bucket run_id job st of
          None \<Rightarrow> None
        | Some (a, st) \<Rightarrow>
            (case resume_all fuel A H env_bucket jobs st of
               None \<Rightarrow> None
             | Some (Inl e, st) \<Rightarrow> Some (Inl e, st)
             | Some (Inr answers, st) \<Rightarrow> Some (Inr (a # answers), st))))"

definition reconcile_inflight_fargate_jobs ::
  "nat \<Rightarrow> 'e aws \<Rightarrow> 'h hash_client \<Rightarrow> string \<Rightarrow> ('e, 'h) cloud_state \<Rightarrow> (cloud_answer list res \<times> ('e, 'h) cloud_state) option" where
  "reconcile_inflight_fargate_jobs fuel A H env_bucket st =
     (let (jobs, tr) = list_inflight H (tracked st) in resume_all fuel A H env_bucket jobs (st\<lparr>tracked := tr\<rparr>))"

section \<open>Waiting ends\<close>

text \<open>What is relied on of the clock: a sleep lasts as long as asked, and asking ECS does not turn it back.\<close>

definition clock_law :: "'e aws \<Rightarrow> bool" where
  "clock_law A = ((\<forall>e. e_time A e + POLL_INTERVAL_S \<le> e_time A (e_sleep A e)) \<and>
     (\<forall>c t e r e'. e_describe A c t e = (r, e') \<longrightarrow> e_time A e \<le> e_time A e'))"

lemma poll_task_ends:
  assumes "clock_law A" "deadline \<le> e_time A e + 30 * int fuel"
  shows "\<exists>out. poll_task (Suc fuel) A task_arn cluster cfg max_wait deadline e = Some out"
  using assms(2)
proof (induction fuel arbitrary: e)
  case 0
  obtain r e1 where d: "e_describe A cluster task_arn e = (r, e1)" by (cases "e_describe A cluster task_arn e")
  have "e_time A e \<le> e_time A e1" using assms(1) d by (auto simp: clock_law_def)
  then show ?case using 0 by (auto simp: d split: sum.splits option.splits prod.splits)
next
  case (Suc fuel)
  obtain r e1 where d: "e_describe A cluster task_arn e = (r, e1)" by (cases "e_describe A cluster task_arn e")
  have "e_time A e \<le> e_time A e1" "e_time A e1 + 30 \<le> e_time A (e_sleep A e1)"
    using assms(1) d by (auto simp: clock_law_def POLL_INTERVAL_S_def)
  then have "deadline \<le> e_time A (e_sleep A e1) + 30 * int fuel" using Suc.prems by simp
  from Suc.IH[OF this] show ?case
    by (subst poll_task.simps) (auto simp: d simp del: poll_task.simps split: sum.splits option.splits prod.splits)
qed

lemma poll_task_asks:
  "poll_task fuel A task_arn cluster cfg max_wait deadline e = Some (r, asked, e') \<Longrightarrow> asked \<Longrightarrow>
    \<exists>detail. r = Inr (None, detail)"
  by (induction fuel arbitrary: e)
    (auto split: sum.splits option.splits prod.splits if_splits)

lemma wait_asks:
  "wait_for_task_stop fuel A task_arn cfg e = Some (r, asked, e') \<Longrightarrow> asked \<Longrightarrow> \<exists>detail. r = Inr (None, detail)"
  using poll_task_asks[of fuel A task_arn _ cfg] by (auto simp: wait_for_task_stop_def split: json.splits sum.splits)

text \<open>Enough fuel for a configuration: a poll every 30 seconds up to the ceiling.\<close>

definition enough_fuel :: "(string \<times> json) list \<Rightarrow> nat \<Rightarrow> bool" where
  "enough_fuel cfg fuel = (case cfg_get cfg ''max_wait_seconds'' (JInt DEFAULT_MAX_WAIT_S) of
     JInt m \<Rightarrow> m \<le> 30 * int fuel | _ \<Rightarrow> True)"

lemma wait_ends:
  assumes "clock_law A" "enough_fuel cfg fuel"
  shows "\<exists>out. wait_for_task_stop (Suc fuel) A task_arn cfg e = Some out"
  using assms poll_task_ends[OF assms(1)]
  by (auto simp: wait_for_task_stop_def enough_fuel_def simp del: poll_task.simps split: json.splits sum.splits)

section \<open>What a job did\<close>

lemma logged_event_simps [simp]:
  "cloud_log (logged_event e st) = cloud_log st @ [e]" "tracked (logged_event e st) = tracked st"
  "outside (logged_event e st) = outside st"
  by (simp_all add: logged_event_def)

lemma finish_ends:
  assumes "clock_law A" "enough_fuel cfg fuel"
  shows "\<exists>r st'. finish_after_launch (Suc fuel) A env_bucket jurisdiction session_arg run_id root cfg task_arn label st = Some (r, st')"
  using wait_ends[OF assms, of task_arn "outside st"]
  by (auto simp: finish_after_launch_def Let_def split: sum.splits option.splits prod.splits)

definition finished_log :: "string \<Rightarrow> string \<Rightarrow> string \<Rightarrow> cloud_answer \<Rightarrow> cloud_event list \<Rightarrow> bool" where
  "finished_log label run_id task_arn a es \<longleftrightarrow>
     ca_success a \<and> ca_error a = None \<and> es = [LoadStarted run_id] \<or>
     (\<exists>pre s e. \<not> ca_success a \<and> ca_error a = Some e \<and> es = pre @ [CloudAlert label s] \<and>
       pre \<in> {[], [StopRequested task_arn], [LoadStarted run_id]})"

lemma finish_log:
  assumes "finish_after_launch fuel A env_bucket jurisdiction session_arg run_id root cfg task_arn label st = Some (r, st')"
  shows "tracked st' = tracked st"
    and "\<exists>es. cloud_log st' = cloud_log st @ es \<and>
      (case r of Inl _ \<Rightarrow> es = [] | Inr a \<Rightarrow> finished_log label run_id task_arn a es)"
proof -
  obtain w asked e where w: "wait_for_task_stop fuel A task_arn cfg (outside st) = Some (w, asked, e)"
    using assms by (cases "wait_for_task_stop fuel A task_arn cfg (outside st)") (auto simp: finish_after_launch_def)
  note asks = wait_asks[OF w]
  obtain bad ran e2 where l: "run_load A env_bucket jurisdiction session_arg run_id root cfg e = (bad, ran, e2)"
    by (cases "run_load A env_bucket jurisdiction session_arg run_id root cfg e") auto
  have ran: "bad = None \<Longrightarrow> ran" using l by (auto simp: run_load_def Let_def split: sum.splits prod.splits)
  show "tracked st' = tracked st"
    using assms by (auto simp: finish_after_launch_def w l Let_def split: sum.splits prod.splits if_splits option.splits)
  show "\<exists>es. cloud_log st' = cloud_log st @ es \<and>
      (case r of Inl _ \<Rightarrow> es = [] | Inr a \<Rightarrow> finished_log label run_id task_arn a es)"
    using assms asks ran
    by (auto simp: finish_after_launch_def w l Let_def finished_log_def cloud_failure_def
        split: sum.splits prod.splits if_splits option.splits)
qed

text \<open>What happened, for an answer: nothing but an alert; or a started task with its record and its end.\<close>

definition cloud_report :: "string \<Rightarrow> string \<Rightarrow> cloud_answer \<Rightarrow> cloud_event list \<Rightarrow> bool" where
  "cloud_report label run_id a es \<longleftrightarrow>
     (\<exists>s. \<not> ca_success a \<and> ca_error a = Some s \<and> es = [CloudAlert label s]) \<or>
     (\<exists>task_arn mid. finished_log label run_id task_arn a mid \<and>
       es = [TaskStarted run_id task_arn, Recorded run_id] @ mid @ [Cleared run_id]) \<or>
     (\<exists>task_arn s. \<not> ca_success a \<and> ca_error a = Some s \<and>
       es = [TaskStarted run_id task_arn, Recorded run_id, Cleared run_id, CloudAlert label s])"

lemma watch_job_log:
  assumes "watch_job fuel A H env_bucket jurisdiction session_arg run_id root cfg task_arn st = Some (a, st')"
  shows "\<exists>es. cloud_log st' = cloud_log st @ [Recorded run_id] @ es \<and>
    ((\<exists>mid. finished_log (label_of jurisdiction session_arg) run_id task_arn a mid \<and> es = mid @ [Cleared run_id]) \<or>
     (\<exists>s. \<not> ca_success a \<and> ca_error a = Some s \<and> es = [Cleared run_id, CloudAlert (label_of jurisdiction session_arg) s]))"
proof -
  define st1 where "st1 = record_job H run_id (job_record run_id jurisdiction session_arg task_arn (JObj cfg) root) st"
  note run = assms[unfolded watch_job_def Let_def, folded st1_def]
  have log1: "cloud_log st1 = cloud_log st @ [Recorded run_id]" by (simp add: st1_def record_job_def)
  obtain r st2 where f: "finish_after_launch fuel A env_bucket jurisdiction session_arg run_id root cfg task_arn
      (label_of jurisdiction session_arg) st1 = Some (r, st2)"
    using run by (auto split: option.splits)
  from finish_log(2)[OF f] obtain es where es: "cloud_log st2 = cloud_log st1 @ es"
    "case r of Inl _ \<Rightarrow> es = [] | Inr a \<Rightarrow> finished_log (label_of jurisdiction session_arg) run_id task_arn a es" by blast
  show ?thesis
  proof (cases r)
    case (Inl x)
    then show ?thesis using run es log1 unfolding f by (auto simp: clear_job_def unexpected_def cloud_failure_def)
  next
    case (Inr b)
    then show ?thesis using run es log1 unfolding f by (auto simp: clear_job_def)
  qed
qed

lemma watch_job_ends:
  assumes "clock_law A" "enough_fuel cfg fuel"
  shows "\<exists>a st'. watch_job (Suc fuel) A H env_bucket jurisdiction session_arg run_id root cfg task_arn st = Some (a, st')"
proof -
  obtain r st' where "finish_after_launch (Suc fuel) A env_bucket jurisdiction session_arg run_id root cfg task_arn
      (label_of jurisdiction session_arg)
      (record_job H run_id (job_record run_id jurisdiction session_arg task_arn (JObj cfg) root) st) = Some (r, st')"
    using finish_ends[OF assms] by blast
  then show ?thesis by (cases r) (auto simp: watch_job_def Let_def unexpected_def)
qed

lemma reading_ceiling:
  "fargate_config config (Some jurisdiction) = Inr cfg \<Longrightarrow>
    (\<forall>k \<in> set REQUIRED_KEYS. truthy (dict_get cfg k))"
proof -
  have ne: "k \<in> set REQUIRED_KEYS \<Longrightarrow> k \<noteq> ''max_wait_seconds''" for k by (auto simp: REQUIRED_KEYS_def)
  show "fargate_config config (Some jurisdiction) = Inr cfg \<Longrightarrow> (\<forall>k \<in> set REQUIRED_KEYS. truthy (dict_get cfg k))"
    using ne by (auto simp: fargate_config_def bind_res_Inr_iff Let_def filter_empty_conv dict_get_def
      split: if_splits json.splits option.splits)
qed

section \<open>Properties\<close>


text \<open>A demonstration cloud: the state is the time; a task runs for some time and stops with a code.\<close>

definition demo_stopped :: "int \<Rightarrow> json" where
  "demo_stopped code = JObj [(''tasks'', JArr [JObj [(''lastStatus'', JStr ''STOPPED''),
     (''containers'', JArr [JObj [(''name'', JStr ''scraper''), (''exitCode'', JInt code)]])]])]"

definition demo_aws :: "string option \<Rightarrow> int \<Rightarrow> int aws" where
  "demo_aws poll_error runs =
     \<lparr>e_time = \<lambda>t. t, e_sleep = \<lambda>t. t + 30, e_client = \<lambda>t. (Inr (), t),
      e_run_task = \<lambda>_ t. (Inr (JObj [(''tasks'', JArr [JObj [(''taskArn'', JStr ''arn'')]])]), t),
      e_describe = \<lambda>_ _ t. (case poll_error of Some x \<Rightarrow> (Inl x, t)
        | None \<Rightarrow> (Inr (if runs \<le> t then demo_stopped 0 else JObj [(''tasks'', JArr [JObj [(''lastStatus'', JStr ''RUNNING'')]])]), t)),
      e_stop_task = \<lambda>_ _ t. (Inr (), t), e_rds_url = \<lambda>t. (Inr ''url'', t), e_load = \<lambda>_ _ _ t. (Inr (0, []), t)\<rparr>"

definition demo_fargate :: "(string \<times> json) list" where
  "demo_fargate = [(''cluster'', JStr ''c''), (''task_definition'', JStr ''d''), (''subnets'', JArr [JStr ''s'']),
     (''security_groups'', JArr [JStr ''g'']), (''max_wait_seconds_by_jurisdiction'', JObj [(''ma'', JInt 120)])]"

definition demo_cloud_config :: json where
  "demo_cloud_config = JObj [(''cloud_path'', JObj [(''enabled'', JBool True), (''fargate'', JObj demo_fargate)])]"

definition demo_cloud_state :: "(int, mem_fields) cloud_state" where
  "demo_cloud_state = \<lparr>outside = 0, tracked = \<lparr>has_client = False, hash = []\<rparr>, cloud_log = []\<rparr>"

lemma demo_clock: "clock_law (demo_aws poll_error runs)"
  by (auto simp: clock_law_def demo_aws_def POLL_INTERVAL_S_def split: option.splits)


text \<open>C18: A process that starts after a crash finishes exactly the job that was running. On a Redis that answers, once a started
  task has been recorded, any later process that finds the hash as it was left lists the job under its run (and every other
  job as before), reads the same jurisdiction, session, task, configuration and root from the record, and resumes with
  exactly the tail a fresh run would have gone through; whatever comes out of it, the record is then gone and
  every other record is untouched.\<close>

theorem resumed_job_is_the_same:
  assumes "answering_hash H fields_of"
    and "job = job_record run_id jurisdiction session_arg task_arn (JObj cfg) root"
    and "fields_of (hash (tracked st2)) = fields_of (hash (tracked (record_job H run_id job st)))"
    and "e_client A (outside st2) = (Inr (), e)"
  shows "(run_id, job) \<in> set (fst (list_inflight H (tracked st2))) \<and>
    (\<forall>k v. k \<noteq> run_id \<longrightarrow> (k, v) \<in> set (fst (list_inflight H (tracked st2))) \<longleftrightarrow>
      (k, v) \<in> set (fst (list_inflight H (tracked st)))) \<and>
    resume_inflight_fargate_job fuel A H env_bucket run_id job st2 =
      (case finish_after_launch fuel A env_bucket jurisdiction session_arg run_id root cfg task_arn
              (label_of jurisdiction session_arg) (st2\<lparr>outside := e\<rparr>) of
         None \<Rightarrow> None
       | Some (Inl x, st3) \<Rightarrow> Some (fst (resume_failed run_id x st3), clear_job H run_id (snd (resume_failed run_id x st3)))
       | Some (Inr a, st3) \<Rightarrow> Some (a, clear_job H run_id st3)) \<and>
    (\<forall>a st4. resume_inflight_fargate_job fuel A H env_bucket run_id job st2 = Some (a, st4) \<longrightarrow>
      fields_of (hash (tracked st4)) = (fields_of (hash (tracked st)))(run_id := None))"
proof -
  note listed = answering_hash.list_inflight_exact[OF assms(1)]
  have rec: "fields_of (hash (tracked (record_job H run_id job st))) = (fields_of (hash (tracked st)))(run_id \<mapsto> JsonText job)"
    by (simp add: record_job_def answering_hash.record_started_fields[OF assms(1)])
  have read: "read_job job = Inr \<lparr>jf_jurisdiction = jurisdiction, jf_session = session_arg, jf_task_arn = task_arn,
      jf_cfg = cfg, jf_root = root\<rparr>"
    by (cases session_arg) (simp_all add: assms(2) job_record_def read_job_def text_field_def)
  have resume: "resume_inflight_fargate_job fuel A H env_bucket run_id job st2 =
      (case finish_after_launch fuel A env_bucket jurisdiction session_arg run_id root cfg task_arn
              (label_of jurisdiction session_arg) (st2\<lparr>outside := e\<rparr>) of
         None \<Rightarrow> None
       | Some (Inl x, st3) \<Rightarrow> Some (fst (resume_failed run_id x st3), clear_job H run_id (snd (resume_failed run_id x st3)))
       | Some (Inr a, st3) \<Rightarrow> Some (a, clear_job H run_id st3))"
    by (simp add: resume_inflight_fargate_job_def read assms(4) Let_def split: option.splits sum.splits prod.splits)
  have gone: "fields_of (hash (tracked st4)) = (fields_of (hash (tracked st)))(run_id := None)"
    if r: "resume_inflight_fargate_job fuel A H env_bucket run_id job st2 = Some (a, st4)" for a st4
  proof -
    obtain x st3 where f: "finish_after_launch fuel A env_bucket jurisdiction session_arg run_id root cfg task_arn
        (label_of jurisdiction session_arg) (st2\<lparr>outside := e\<rparr>) = Some (x, st3)"
      using r unfolding resume by (auto split: option.splits)
    have "tracked st3 = tracked st2" using finish_log(1)[OF f] by simp
    then have "\<exists>st5. st4 = clear_job H run_id st5 \<and> tracked st5 = tracked st2"
      using r unfolding resume f by (auto simp: resume_failed_def split: sum.splits)
    then show ?thesis
      by (auto simp: clear_job_def answering_hash.clear_record_fields[OF assms(1)] assms(3) rec)
  qed
  show ?thesis
  proof (intro conjI allI impI)
    show "(run_id, job) \<in> set (fst (list_inflight H (tracked st2)))"
      using listed[of "tracked st2"] by (simp add: assms(3) rec loads_def)
    show "(k, v) \<in> set (fst (list_inflight H (tracked st2))) \<longleftrightarrow> (k, v) \<in> set (fst (list_inflight H (tracked st)))"
      if "k \<noteq> run_id" for k v
      using listed[of "tracked st2"] listed[of "tracked st"] that by (simp add: assms(3) rec)
  qed (fact resume, fact gone)
qed

definition demo_job :: json where
  "demo_job = job_record ''ma-1'' ''ma'' None ''arn'' (JObj demo_fargate) ''/r''"

lemma resumed_job_is_the_same_witness:
  "(''ma-1'', demo_job) \<in> set (fst (list_inflight mem_hash
     (tracked (record_job mem_hash ''ma-1'' demo_job demo_cloud_state)\<lparr>has_client := False\<rparr>)))"
proof -
  let ?st2 = "(record_job mem_hash ''ma-1'' demo_job demo_cloud_state)\<lparr>tracked :=
     (tracked (record_job mem_hash ''ma-1'' demo_job demo_cloud_state))\<lparr>has_client := False\<rparr>\<rparr>"
  have f: "map_of (hash (tracked ?st2)) = map_of (hash (tracked (record_job mem_hash ''ma-1'' demo_job demo_cloud_state)))" by simp
  have e: "e_client (demo_aws None 0) (outside ?st2) = (Inr (), outside ?st2)" by (simp add: demo_aws_def)
  have "(''ma-1'', demo_job) \<in> set (fst (list_inflight mem_hash (tracked ?st2)))"
    by (rule resumed_job_is_the_same[OF mem_hash.answering_hash_axioms demo_job_def f e, THEN conjunct1])
  then show ?thesis by simp
qed

text \<open>One failing poll abandons a running task. When a started task has been recorded and ECS answers one DescribeTasks
  with an error, the job ends as a failure at once: nobody asks ECS to stop the task, nothing is loaded, and the
  record is removed, so no later process resumes it; what the task collects is never loaded.\<close>

lemma poll_error_abandons_task:
  assumes "answering_hash H fields_of"
    and "cfg_get cfg ''max_wait_seconds'' (JInt DEFAULT_MAX_WAIT_S) = JInt ceiling" "map_of cfg ''cluster'' = Some cluster"
    and "e_describe A cluster task_arn (outside st) = (Inl x, e)"
  shows "\<exists>a st'. watch_job (Suc fuel) A H env_bucket jurisdiction session_arg run_id root cfg task_arn st = Some (a, st') \<and>
    \<not> ca_success a \<and>
    cloud_log st' = cloud_log st @ [Recorded run_id, Cleared run_id, CloudAlert (label_of jurisdiction session_arg) x] \<and>
    run_id \<notin> fst ` set (fst (list_inflight H (tracked st')))"
proof -
  define st1 where "st1 = record_job H run_id (job_record run_id jurisdiction session_arg task_arn (JObj cfg) root) st"
  have o: "outside st1 = outside st" by (simp add: st1_def record_job_def)
  have f: "finish_after_launch (Suc fuel) A env_bucket jurisdiction session_arg run_id root cfg task_arn
      (label_of jurisdiction session_arg) st1 = Some (Inl x, st1\<lparr>outside := e\<rparr>)"
    using assms(2-4) by (simp add: finish_after_launch_def wait_for_task_stop_def o)
  let ?st' = "logged_event (CloudAlert (label_of jurisdiction session_arg) x) (clear_job H run_id (st1\<lparr>outside := e\<rparr>))"
  have w: "\<exists>a. watch_job (Suc fuel) A H env_bucket jurisdiction session_arg run_id root cfg task_arn st = Some (a, ?st') \<and> \<not> ca_success a"
    unfolding watch_job_def Let_def st1_def[symmetric] f by (simp add: unexpected_def cloud_failure_def)
  have "cloud_log ?st' = cloud_log st @ [Recorded run_id, Cleared run_id, CloudAlert (label_of jurisdiction session_arg) x]"
    by (simp add: clear_job_def st1_def record_job_def)
  moreover have "run_id \<notin> fst ` set (fst (list_inflight H (tracked ?st')))"
    using answering_hash.list_inflight_exact[OF assms(1), of "tracked ?st'"]
    by (auto simp: clear_job_def answering_hash.clear_record_fields[OF assms(1)])
  ultimately show ?thesis using w by blast
qed

lemma poll_error_abandons_task_witness:
  "\<exists>a st'. watch_job 1 (demo_aws (Some ''ThrottlingException'') 1000) mem_hash [] ''ma'' None ''ma-1'' ''/r'' demo_fargate ''arn''
     demo_cloud_state = Some (a, st') \<and>
     cloud_log st' = [Recorded ''ma-1'', Cleared ''ma-1'', CloudAlert ''ma'' ''ThrottlingException'']"
proof -
  have "cfg_get demo_fargate ''max_wait_seconds'' (JInt DEFAULT_MAX_WAIT_S) = JInt DEFAULT_MAX_WAIT_S"
    "map_of demo_fargate ''cluster'' = Some (JStr ''c'')" by (simp_all add: demo_fargate_def cfg_get_def)
  moreover have "e_describe (demo_aws (Some ''ThrottlingException'') 1000) (JStr ''c'') ''arn'' (outside demo_cloud_state) =
      (Inl ''ThrottlingException'', 0)" by (simp add: demo_aws_def demo_cloud_state_def)
  ultimately show ?thesis
    using poll_error_abandons_task[OF mem_hash.answering_hash_axioms, of demo_fargate DEFAULT_MAX_WAIT_S "JStr ''c''"
        "demo_aws (Some ''ThrottlingException'') 1000" "''arn''" demo_cloud_state "''ThrottlingException''" 0 0 "[]" "''ma''" None "''ma-1''" "''/r''"]
    by (auto simp: demo_cloud_state_def label_of_def)
qed

end
