(* ===== verification/Effects.thy ===== *)
theory Effects
  imports Complex_Main Enrollment Redis
begin

text \<open>
  What the code that talks to the other services does besides computing: it sends HTTP requests, sleeps, reads
  files that CAMS wrote, uses Redis, and raises. An \<^emph>\<open>action\<close> takes the state of a site and gives a value or an exception
  and the state after it. The outside is a record of operations on an abstract state \<open>'n\<close>; every request goes
  into the list \<open>sent\<close>, so that a property can say which requests an action makes, whatever the services answer.
  A loop that takes fuel ends with \<open>OutOfFuel\<close> when the fuel is used up; no handler of the code catches it.
\<close>

section \<open>Exceptions\<close>

datatype fault =
    BrokerClientError string
  | LegBotDispatchError string
  | ArchivedVersionMismatchError string
  | HTTPStatusError int string
  | RequestError string
  | PollGaveUp string
  | WebflowError string
  | WebflowRateLimitError string
  | OpenStatesError string
  | OpenStatesRateLimitError string
  | WebflowAssetError string
  | OutOfFuel
  | Raised py_error

definition fault_text :: "fault \<Rightarrow> string" where
  "fault_text e = (case e of
      BrokerClientError s \<Rightarrow> s | LegBotDispatchError s \<Rightarrow> s | ArchivedVersionMismatchError s \<Rightarrow> s
    | HTTPStatusError n s \<Rightarrow> s | RequestError s \<Rightarrow> s | PollGaveUp s \<Rightarrow> s
    | WebflowError s \<Rightarrow> s | WebflowRateLimitError s \<Rightarrow> s
    | OpenStatesError s \<Rightarrow> s | OpenStatesRateLimitError s \<Rightarrow> s | WebflowAssetError s \<Rightarrow> s
    | OutOfFuel \<Rightarrow> [] | Raised x \<Rightarrow> exception_text x)"

text \<open>\<open>type(e).__name__\<close>.\<close>

definition name_of :: "fault \<Rightarrow> string" where
  "name_of e = (case e of
      BrokerClientError _ \<Rightarrow> ''BrokerClientError'' | LegBotDispatchError _ \<Rightarrow> ''LegBotDispatchError''
    | ArchivedVersionMismatchError _ \<Rightarrow> ''ArchivedVersionMismatchError'' | HTTPStatusError _ _ \<Rightarrow> ''HTTPStatusError''
    | RequestError _ \<Rightarrow> ''RequestError'' | PollGaveUp _ \<Rightarrow> ''PollGaveUp'' | WebflowError _ \<Rightarrow> ''WebflowError''
    | WebflowRateLimitError _ \<Rightarrow> ''WebflowRateLimitError'' | OpenStatesError _ \<Rightarrow> ''OpenStatesError''
    | OpenStatesRateLimitError _ \<Rightarrow> ''OpenStatesRateLimitError'' | WebflowAssetError _ \<Rightarrow> ''WebflowAssetError'' | OutOfFuel \<Rightarrow> []
    | Raised x \<Rightarrow> (case x of ValueError _ \<Rightarrow> ''ValueError'' | KeyError _ \<Rightarrow> ''KeyError'' | TypeError \<Rightarrow> ''TypeError''
        | OverflowError \<Rightarrow> ''OverflowError'' | ZeroDivisionError \<Rightarrow> ''ZeroDivisionError'' | OtherError s \<Rightarrow> s))"

section \<open>The outside\<close>

datatype http_method = GET | POST | DELETE | PATCH | HEAD

record request =
  req_method :: http_method
  req_url :: string
  req_headers :: "(string \<times> string) list"
  req_params :: "(string \<times> string) list"
  req_body :: "json option"

record response =
  status_code :: int
  body_text :: string
  body_json :: "json option"
  headers_of :: "(string \<times> string) list"

text \<open>
  The names of the headers of a response are in lower case. A call that gets no response gives the text of the error;
  \<open>n_timeout\<close> says whether it is a timeout. \<open>n_random a b\<close> is \<open>random.uniform\<close>. A file of a finished task is the document, or the text of the \<open>OSError\<close> or of the error of the parser. \<open>n_stamp\<close> is
  \<open>datetime.now(timezone.utc).isoformat()\<close>, and \<open>n_age\<close> the seconds since such a stamp, \<open>None\<close> when it cannot be parsed;
  \<open>n_uuid\<close> is \<open>uuid.uuid4\<close>.
\<close>

record 'n network =
  n_call :: "request \<Rightarrow> 'n \<Rightarrow> (string + response) \<times> 'n"
  n_time :: "'n \<Rightarrow> rat"
  n_sleep :: "rat \<Rightarrow> 'n \<Rightarrow> 'n"
  n_file :: "string \<Rightarrow> 'n \<Rightarrow> string + json"
  n_stamp :: "'n \<Rightarrow> string"
  n_age :: "string \<Rightarrow> 'n \<Rightarrow> rat option"
  n_uuid :: "'n \<Rightarrow> string \<times> 'n"
  n_timeout :: "string \<Rightarrow> bool"
  n_random :: "rat \<Rightarrow> rat \<Rightarrow> 'n \<Rightarrow> rat \<times> 'n"

text \<open>The settings that the modelled code reads (\<open>config.py\<close>).\<close>

record settings =
  ddp_broker_api_base :: string
  ddp_broker_api_token :: string
  ondemand_broker_api_base_dev :: string
  ondemand_broker_api_token_dev :: string
  ondemand_broker_api_base_prod :: string
  ondemand_broker_api_token_prod :: string
  cams_base_url :: string
  cams_api_token :: string
  cams_artifacts_dir :: string
  legbot_dispatch_timeout_seconds :: rat
  legbot_queue_wait_timeout_seconds :: rat
  legbot_poll_interval_seconds :: rat
  legbot_poll_retry_max_attempts :: int
  legbot_poll_retry_backoff_seconds :: rat
  local_openstates_api_base :: string
  local_openstates_api_key :: string
  org_research_max_organizations :: int
  organization_content_enabled :: bool
  organization_resolution_mode :: string
  replica_freshness_check_enabled :: bool
  replica_freshness_content_check_enabled :: bool
  legbot_rds_replica_jurisdiction_allowlist :: "string list"

record ('n, 'r) host =
  network :: "'n network"
  redis_client :: "'r redis option"
  conf :: settings
  manifest :: world

record ('n, 'r) site =
  net :: 'n
  sent :: "request list"
  store :: 'r
  topics_cache :: "string \<rightharpoonup> rat \<times> json"
  current_task :: "json option"
  enrollment_state :: enrollment

section \<open>Actions\<close>

type_synonym ('n, 'r, 'a) act = "('n, 'r) site \<Rightarrow> (fault + 'a) \<times> ('n, 'r) site"

definition ret :: "'a \<Rightarrow> ('n, 'r, 'a) act" where
  "ret x s = (Inr x, s)"

definition raise :: "fault \<Rightarrow> ('n, 'r, 'a) act" where
  "raise e s = (Inl e, s)"

definition bnd :: "('n, 'r, 'a) act \<Rightarrow> ('a \<Rightarrow> ('n, 'r, 'b) act) \<Rightarrow> ('n, 'r, 'b) act" where
  "bnd m f s = (case m s of (Inl e, s') \<Rightarrow> (Inl e, s') | (Inr x, s') \<Rightarrow> f x s')"

text \<open>\<open>attempt m h f\<close> is \<open>m\<close> in a \<open>try\<close>: \<open>h\<close> handles its exceptions, and \<open>f\<close> goes on with its value outside of the \<open>try\<close>.\<close>

definition attempt :: "('n, 'r, 'a) act \<Rightarrow> (fault \<Rightarrow> ('n, 'r, 'b) act) \<Rightarrow> ('a \<Rightarrow> ('n, 'r, 'b) act) \<Rightarrow> ('n, 'r, 'b) act" where
  "attempt m h f s = (case m s of (Inl e, s') \<Rightarrow> h e s' | (Inr x, s') \<Rightarrow> f x s')"

definition lift_res :: "'a res \<Rightarrow> ('n, 'r, 'a) act" where
  "lift_res x = (case x of Inl e \<Rightarrow> raise (Raised e) | Inr v \<Rightarrow> ret v)"

definition http :: "('n, 'r) host \<Rightarrow> request \<Rightarrow> ('n, 'r, response) act" where
  "http H rq s =
     (let (x, n) = n_call (network H) rq (net s); s = s\<lparr>net := n, sent := sent s @ [rq]\<rparr> in
      case x of Inl e \<Rightarrow> (Inl (RequestError e), s) | Inr r \<Rightarrow> (Inr r, s))"

definition now :: "('n, 'r) host \<Rightarrow> ('n, 'r, rat) act" where
  "now H s = (Inr (n_time (network H) (net s)), s)"

definition sleep :: "('n, 'r) host \<Rightarrow> rat \<Rightarrow> ('n, 'r, unit) act" where
  "sleep H d s = (Inr (), s\<lparr>net := n_sleep (network H) d (net s)\<rparr>)"

definition read_file :: "('n, 'r) host \<Rightarrow> string \<Rightarrow> ('n, 'r, string + json) act" where
  "read_file H path s = (Inr (n_file (network H) path (net s)), s)"

definition new_uuid :: "('n, 'r) host \<Rightarrow> ('n, 'r, string) act" where
  "new_uuid H s = (let (u, n) = n_uuid (network H) (net s) in (Inr u, s\<lparr>net := n\<rparr>))"

definition on_store :: "('r \<Rightarrow> 'a \<times> 'r) \<Rightarrow> ('n, 'r, 'a) act" where
  "on_store f s = (let (x, r) = f (store s) in (Inr x, s\<lparr>store := r\<rparr>))"

text \<open>\<open>finally\<close>: \<open>f\<close> runs after \<open>m\<close>, whatever its outcome; an exception of \<open>f\<close> takes the place of the outcome.\<close>

definition lastly :: "('n, 'r, 'a) act \<Rightarrow> (fault + 'a \<Rightarrow> ('n, 'r, unit) act) \<Rightarrow> ('n, 'r, 'a) act" where
  "lastly m f s =
     (case m s of
        (Inl OutOfFuel, s') \<Rightarrow> (Inl OutOfFuel, s')
      | (x, s') \<Rightarrow> (case f x s' of (Inl e, s'') \<Rightarrow> (Inl e, s'') | (Inr _, s'') \<Rightarrow> (x, s'')))"

definition current :: "(('n, 'r) site \<Rightarrow> 'a) \<Rightarrow> ('n, 'r, 'a) act" where
  "current f s = (Inr (f s), s)"

definition update :: "(('n, 'r) site \<Rightarrow> ('n, 'r) site) \<Rightarrow> ('n, 'r, unit) act" where
  "update f s = (Inr (), f s)"

text \<open>\<open>resp.json()\<close> and \<open>resp.raise_for_status()\<close>.\<close>

definition json_body :: "response \<Rightarrow> ('n, 'r, json) act" where
  "json_body r = (case body_json r of
      None \<Rightarrow> raise (Raised (ValueError ''JSONDecodeError'')) | Some v \<Rightarrow> ret v)"

definition is_success :: "response \<Rightarrow> bool" where
  "is_success r = (200 \<le> status_code r \<and> status_code r \<le> 299)"

definition raise_for_status :: "response \<Rightarrow> ('n, 'r, unit) act" where
  "raise_for_status r = (if is_success r then ret ()
     else raise (HTTPStatusError (status_code r) (''status '' @ int_str (status_code r))))"

fun for_each :: "('a \<Rightarrow> 'b \<Rightarrow> ('n, 'r, 'b) act) \<Rightarrow> 'a list \<Rightarrow> 'b \<Rightarrow> ('n, 'r, 'b) act" where
  "for_each f [] acc = ret acc"
| "for_each f (x # xs) acc = bnd (f x acc) (for_each f xs)"

section \<open>Running an action\<close>

named_theorems acts \<open>equations that run an action\<close>

lemma run_ret [acts]: "ret x s = (Inr x, s)"
  by (simp add: ret_def)

lemma run_raise [acts]: "raise e s = (Inl e, s)"
  by (simp add: raise_def)

lemma run_bnd [acts]: "bnd m f s = (case m s of (Inl e, s') \<Rightarrow> (Inl e, s') | (Inr x, s') \<Rightarrow> f x s')"
  by (simp add: bnd_def)

lemma run_attempt [acts]: "attempt m h f s = (case m s of (Inl e, s') \<Rightarrow> h e s' | (Inr x, s') \<Rightarrow> f x s')"
  by (simp add: attempt_def)

lemma run_lift_res [acts]: "lift_res x s = (case x of Inl e \<Rightarrow> (Inl (Raised e), s) | Inr v \<Rightarrow> (Inr v, s))"
  by (simp add: lift_res_def ret_def raise_def split: sum.split)

lemma bnd_InrE:
  assumes "bnd m f s = (Inr y, s')"
  obtains x s1 where "m s = (Inr x, s1)" "f x s1 = (Inr y, s')"
  using assms by (auto simp: run_bnd split: prod.splits sum.splits)

lemma lift_bnd_InrE:
  assumes "bnd (lift_res x) f s = (Inr y, s')"
  obtains v where "x = Inr v" "f v s = (Inr y, s')"
  using assms by (auto simp: acts split: sum.splits)

lemmas [acts] = now_def sleep_def read_file_def current_def update_def

text \<open>What holds of every branch holds of a case distinction, as introduction rules for the predicates below.\<close>

lemma option_intro: "(x = None \<Longrightarrow> Q m) \<Longrightarrow> (\<And>y. x = Some y \<Longrightarrow> Q (f y)) \<Longrightarrow> Q (case x of None \<Rightarrow> m | Some y \<Rightarrow> f y)"
  by (cases x) auto

lemma sum_intro: "(\<And>y. x = Inl y \<Longrightarrow> Q (f y)) \<Longrightarrow> (\<And>y. x = Inr y \<Longrightarrow> Q (g y)) \<Longrightarrow> Q (case x of Inl y \<Rightarrow> f y | Inr y \<Rightarrow> g y)"
  by (cases x) auto

lemma prod_intro: "(\<And>a b. x = (a, b) \<Longrightarrow> Q (f a b)) \<Longrightarrow> Q (case x of (a, b) \<Rightarrow> f a b)"
  by (cases x) auto

lemma list_intro: "(x = [] \<Longrightarrow> Q m) \<Longrightarrow> (\<And>y ys. x = y # ys \<Longrightarrow> Q (f y ys)) \<Longrightarrow> Q (case x of [] \<Rightarrow> m | y # ys \<Rightarrow> f y ys)"
  by (cases x) auto

lemma let_intro: "Q (f x) \<Longrightarrow> Q (let y = x in f y)"
  by simp

lemma json_intro:
  "(x = JNull \<Longrightarrow> Q f1) \<Longrightarrow> (\<And>y. x = JBool y \<Longrightarrow> Q (f2 y)) \<Longrightarrow> (\<And>y. x = JInt y \<Longrightarrow> Q (f3 y)) \<Longrightarrow>
   (\<And>y. x = JStr y \<Longrightarrow> Q (f4 y)) \<Longrightarrow> (\<And>y. x = JArr y \<Longrightarrow> Q (f5 y)) \<Longrightarrow> (\<And>y. x = JObj y \<Longrightarrow> Q (f6 y)) \<Longrightarrow>
   Q (case x of JNull \<Rightarrow> f1 | JBool y \<Rightarrow> f2 y | JInt y \<Rightarrow> f3 y | JStr y \<Rightarrow> f4 y | JArr y \<Rightarrow> f5 y | JObj y \<Rightarrow> f6 y)"
  by (cases x) auto

lemma fault_intro:
  "(\<And>m. x = BrokerClientError m \<Longrightarrow> Q (f1 m)) \<Longrightarrow> (\<And>m. x = LegBotDispatchError m \<Longrightarrow> Q (f2 m)) \<Longrightarrow>
   (\<And>m. x = ArchivedVersionMismatchError m \<Longrightarrow> Q (f3 m)) \<Longrightarrow> (\<And>c m. x = HTTPStatusError c m \<Longrightarrow> Q (f4 c m)) \<Longrightarrow>
   (\<And>m. x = RequestError m \<Longrightarrow> Q (f5 m)) \<Longrightarrow> (\<And>m. x = PollGaveUp m \<Longrightarrow> Q (f6 m)) \<Longrightarrow> (x = OutOfFuel \<Longrightarrow> Q f7) \<Longrightarrow>
   (\<And>m. x = WebflowError m \<Longrightarrow> Q (f9 m)) \<Longrightarrow> (\<And>m. x = WebflowRateLimitError m \<Longrightarrow> Q (f10 m)) \<Longrightarrow>
   (\<And>m. x = OpenStatesError m \<Longrightarrow> Q (f11 m)) \<Longrightarrow> (\<And>m. x = OpenStatesRateLimitError m \<Longrightarrow> Q (f12 m)) \<Longrightarrow>
   (\<And>m. x = WebflowAssetError m \<Longrightarrow> Q (f13 m)) \<Longrightarrow>
   (\<And>m. x = Raised m \<Longrightarrow> Q (f8 m)) \<Longrightarrow>
   Q (case x of BrokerClientError m \<Rightarrow> f1 m | LegBotDispatchError m \<Rightarrow> f2 m | ArchivedVersionMismatchError m \<Rightarrow> f3 m
      | HTTPStatusError c m \<Rightarrow> f4 c m | RequestError m \<Rightarrow> f5 m | PollGaveUp m \<Rightarrow> f6 m
      | WebflowError m \<Rightarrow> f9 m | WebflowRateLimitError m \<Rightarrow> f10 m
      | OpenStatesError m \<Rightarrow> f11 m | OpenStatesRateLimitError m \<Rightarrow> f12 m | WebflowAssetError m \<Rightarrow> f13 m
      | OutOfFuel \<Rightarrow> f7 | Raised m \<Rightarrow> f8 m)"
  by (cases x) auto

lemmas branch_intros = option_intro sum_intro prod_intro list_intro let_intro json_intro fault_intro

section \<open>Which requests an action sends\<close>

text \<open>\<open>sends P m\<close>: \<open>m\<close> only adds to the requests sent, and every request it adds satisfies \<open>P\<close>.\<close>

definition sends :: "(request \<Rightarrow> bool) \<Rightarrow> ('n, 'r, 'a) act \<Rightarrow> bool" where
  "sends P m = (\<forall>s. \<exists>rqs. sent (snd (m s)) = sent s @ rqs \<and> list_all P rqs)"

named_theorems sending \<open>introduction rules for \<open>sends\<close>\<close>

lemma sendsI: "(\<And>s. \<exists>rqs. sent (snd (m s)) = sent s @ rqs \<and> list_all P rqs) \<Longrightarrow> sends P m"
  by (simp add: sends_def)

lemma sendsD: "sends P m \<Longrightarrow> \<exists>rqs. sent (snd (m s)) = sent s @ rqs \<and> list_all P rqs"
  by (simp add: sends_def)

lemma sends_mono: "sends P m \<Longrightarrow> (\<And>rq. P rq \<Longrightarrow> Q rq) \<Longrightarrow> sends Q m"
  unfolding sends_def by (metis list.pred_mono_strong)

lemma sends_silent: "(\<And>s. sent (snd (m s)) = sent s) \<Longrightarrow> sends P m"
  by (auto simp: sends_def)

lemma sends_ret [sending]: "sends P (ret x)"
  by (rule sends_silent) (simp add: acts)

lemma sends_raise [sending]: "sends P (raise e)"
  by (rule sends_silent) (simp add: acts)

lemma sends_lift_res [sending]: "sends P (lift_res x)"
  by (rule sends_silent) (simp add: acts split: sum.split)

lemma sends_now [sending]: "sends P (now H)"
  by (rule sends_silent) (simp add: acts)

lemma sends_sleep [sending]: "sends P (sleep H d)"
  by (rule sends_silent) (simp add: acts)

lemma sends_read_file [sending]: "sends P (read_file H p)"
  by (rule sends_silent) (simp add: acts)

lemma sends_on_store [sending]: "sends P (on_store f)"
  by (rule sends_silent) (simp add: on_store_def split: prod.split)

lemma sends_new_uuid [sending]: "sends P (new_uuid H)"
  by (rule sends_silent) (simp add: new_uuid_def split: prod.split)

lemma sends_current [sending]: "sends P (current f)"
  by (rule sends_silent) (simp add: acts)

lemma sends_update [sending]: "(\<And>s. sent (f s) = sent s) \<Longrightarrow> sends P (update f)"
  by (rule sends_silent) (simp add: acts)

lemma sends_http [sending]: "P rq \<Longrightarrow> sends P (http H rq)"
  by (rule sendsI) (auto simp: http_def Let_def split: prod.split sum.split)

lemma sends_json_body [sending]: "sends P (json_body r)"
  by (simp add: json_body_def sends_ret sends_raise split: option.split)

lemma sends_raise_for_status [sending]: "sends P (raise_for_status r)"
  by (simp add: raise_for_status_def sends_ret sends_raise)

lemma sends_attempt [sending]:
  assumes "sends P m" "\<And>e. sends P (h e)" "\<And>x. sends P (f x)"
  shows "sends P (attempt m h f)"
proof (rule sendsI)
  fix s
  obtain as where as: "sent (snd (m s)) = sent s @ as" "list_all P as"
    using sendsD[OF assms(1)] by blast
  obtain x s' where ms: "m s = (x, s')" by (cases "m s")
  show "\<exists>rqs. sent (snd (attempt m h f s)) = sent s @ rqs \<and> list_all P rqs"
  proof (cases x)
    case (Inl e)
    obtain bs where "sent (snd (h e s')) = sent s' @ bs" "list_all P bs"
      using sendsD[OF assms(2)] by blast
    with as ms Inl show ?thesis by (intro exI[of _ "as @ bs"]) (simp add: acts)
  next
    case (Inr v)
    obtain bs where "sent (snd (f v s')) = sent s' @ bs" "list_all P bs"
      using sendsD[OF assms(3)] by blast
    with as ms Inr show ?thesis by (intro exI[of _ "as @ bs"]) (simp add: acts)
  qed
qed

lemma bnd_as_attempt: "bnd m f = attempt m raise f"
  by (rule ext) (simp add: bnd_def attempt_def raise_def split: prod.split sum.split)

lemma sends_bnd [sending]: "sends P m \<Longrightarrow> (\<And>x. sends P (f x)) \<Longrightarrow> sends P (bnd m f)"
  unfolding bnd_as_attempt by (intro sends_attempt sends_raise)

lemma sends_if [sending]: "(b \<Longrightarrow> sends P m) \<Longrightarrow> (\<not> b \<Longrightarrow> sends P m') \<Longrightarrow> sends P (if b then m else m')"
  by simp

lemmas [sending] = branch_intros[where Q = "sends P" for P]

lemma lastly_as_attempt: "lastly m f = attempt m
    (\<lambda>e. if e = OutOfFuel then raise e else attempt (f (Inl e)) raise (\<lambda>_. raise e))
    (\<lambda>x. attempt (f (Inr x)) raise (\<lambda>_. ret x))"
  by (rule ext) (auto simp: lastly_def attempt_def raise_def ret_def split: prod.split sum.split fault.split)

lemma sends_lastly [sending]: "sends P m \<Longrightarrow> (\<And>x. sends P (f x)) \<Longrightarrow> sends P (lastly m f)"
  unfolding lastly_as_attempt by (intro sends_attempt sends_raise sends_ret sends_if)

lemma sends_for_each [sending]: "(\<And>x acc. sends P (f x acc)) \<Longrightarrow> sends P (for_each f xs acc)"
  by (induction xs arbitrary: acc) (simp_all add: sends_ret sends_bnd)

text \<open>A request that only reads.\<close>

definition is_read :: "request \<Rightarrow> bool" where
  "is_read rq = (req_method rq = GET)"

section \<open>Actions that leave the store alone\<close>

definition stores_nothing :: "('n, 'r, 'a) act \<Rightarrow> bool" where
  "stores_nothing m = (\<forall>s. store (snd (m s)) = store s)"

named_theorems storing \<open>introduction rules for \<open>stores_nothing\<close>\<close>

lemma stores_nothingD: "stores_nothing m \<Longrightarrow> m s = (x, s') \<Longrightarrow> store s' = store s"
  unfolding stores_nothing_def by (metis snd_conv)

lemma stores_nothing_basic [storing]:
  "stores_nothing (ret x)" "stores_nothing (raise e)" "stores_nothing (lift_res y)" "stores_nothing (now H)"
  "stores_nothing (sleep H d)" "stores_nothing (read_file H p)" "stores_nothing (current f)"
  by (simp_all add: stores_nothing_def acts split: sum.split)

lemma stores_nothing_http [storing]: "stores_nothing (http H rq)"
  by (auto simp: stores_nothing_def http_def Let_def split: prod.split sum.split)

lemma stores_nothing_answer [storing]: "stores_nothing (json_body r)" "stores_nothing (raise_for_status r)"
  by (simp_all add: json_body_def raise_for_status_def stores_nothing_basic split: option.split)

lemma stores_nothing_attempt [storing]:
  "stores_nothing m \<Longrightarrow> (\<And>e. stores_nothing (h e)) \<Longrightarrow> (\<And>x. stores_nothing (f x)) \<Longrightarrow> stores_nothing (attempt m h f)"
  unfolding stores_nothing_def acts by (auto split: prod.split sum.split) (metis snd_conv)+

lemma stores_nothing_bnd [storing]: "stores_nothing m \<Longrightarrow> (\<And>x. stores_nothing (f x)) \<Longrightarrow> stores_nothing (bnd m f)"
  unfolding bnd_as_attempt by (intro stores_nothing_attempt stores_nothing_basic)

lemma stores_nothing_if [storing]:
  "(b \<Longrightarrow> stores_nothing m) \<Longrightarrow> (\<not> b \<Longrightarrow> stores_nothing m') \<Longrightarrow> stores_nothing (if b then m else m')"
  by simp

lemmas [storing] = branch_intros[where Q = stores_nothing]

section \<open>Actions that end\<close>

text \<open>\<open>ends m\<close>: \<open>m\<close> never uses up its fuel.\<close>

definition ends :: "('n, 'r, 'a) act \<Rightarrow> bool" where
  "ends m = (\<forall>s. fst (m s) \<noteq> Inl OutOfFuel)"

named_theorems ending \<open>introduction rules for \<open>ends\<close>\<close>

lemma endsD: "ends m \<Longrightarrow> m s = (Inl e, s') \<Longrightarrow> e \<noteq> OutOfFuel"
  unfolding ends_def by (metis fst_conv)

lemma ends_ret [ending]: "ends (ret x)"
  by (simp add: ends_def acts)

lemma ends_raise [ending]: "e \<noteq> OutOfFuel \<Longrightarrow> ends (raise e)"
  by (simp add: ends_def acts)

lemma ends_lift_res [ending]: "ends (lift_res x)"
  by (simp add: ends_def acts split: sum.split)

lemma ends_now [ending]: "ends (now H)"
  by (simp add: ends_def acts)

lemma ends_sleep [ending]: "ends (sleep H d)"
  by (simp add: ends_def acts)

lemma ends_read_file [ending]: "ends (read_file H p)"
  by (simp add: ends_def acts)

lemma ends_current [ending]: "ends (current f)"
  by (simp add: ends_def acts)

lemma ends_update [ending]: "ends (update f)"
  by (simp add: ends_def acts)

lemma ends_on_store [ending]: "ends (on_store f)"
  by (simp add: ends_def on_store_def split: prod.split)

lemma ends_new_uuid [ending]: "ends (new_uuid H)"
  by (simp add: ends_def new_uuid_def split: prod.split)

lemma ends_http [ending]: "ends (http H rq)"
  by (auto simp: ends_def http_def Let_def split: prod.split sum.split)

lemma ends_json_body [ending]: "ends (json_body r)"
  by (simp add: json_body_def ends_ret ends_raise split: option.split)

lemma ends_raise_for_status [ending]: "ends (raise_for_status r)"
  by (simp add: raise_for_status_def ends_ret ends_raise)

lemma ends_attempt [ending]:
  "ends m \<Longrightarrow> (\<And>e. e \<noteq> OutOfFuel \<Longrightarrow> ends (h e)) \<Longrightarrow> (\<And>x. ends (f x)) \<Longrightarrow> ends (attempt m h f)"
  unfolding ends_def acts by (auto split: prod.split sum.split) (metis fst_conv)

lemma ends_bnd [ending]: "ends m \<Longrightarrow> (\<And>x. ends (f x)) \<Longrightarrow> ends (bnd m f)"
  unfolding bnd_as_attempt by (intro ends_attempt ends_raise)

lemma ends_lastly [ending]: "ends m \<Longrightarrow> (\<And>x. ends (f x)) \<Longrightarrow> ends (lastly m f)"
  unfolding lastly_as_attempt by (intro ends_attempt) (auto intro!: ends_attempt ends_raise ends_ret)

lemma ends_if [ending]: "(b \<Longrightarrow> ends m) \<Longrightarrow> (\<not> b \<Longrightarrow> ends m') \<Longrightarrow> ends (if b then m else m')"
  by simp

lemmas [ending] = branch_intros[where Q = ends]

lemma ends_for_each [ending]: "(\<And>x acc. ends (f x acc)) \<Longrightarrow> ends (for_each f xs acc)"
  by (induction xs arbitrary: acc) (simp_all add: ends_ret ends_bnd)

section \<open>Time\<close>

text \<open>A monotonic clock: no request turns it back, and sleeping takes at least the time asked for.\<close>

locale steady_clock =
  fixes N :: "'n network"
  assumes call_time: "n_time N n \<le> n_time N (snd (n_call N rq n))"
    and sleep_time: "0 \<le> d \<Longrightarrow> n_time N n + d \<le> n_time N (n_sleep N d n)"

definition time_of :: "('n, 'r) host \<Rightarrow> ('n, 'r) site \<Rightarrow> rat" where
  "time_of H s = n_time (network H) (net s)"

definition forward :: "('n, 'r) host \<Rightarrow> ('n, 'r, 'a) act \<Rightarrow> bool" where
  "forward H m = (\<forall>s. time_of H s \<le> time_of H (snd (m s)))"

named_theorems forwards \<open>introduction rules for \<open>forward\<close>\<close>

lemma forward_ret [forwards]: "forward H (ret x)"
  by (simp add: forward_def acts)

lemma forward_raise [forwards]: "forward H (raise e)"
  by (simp add: forward_def acts)

lemma forward_lift_res [forwards]: "forward H (lift_res x)"
  by (simp add: forward_def acts split: sum.split)

lemma forward_json_body [forwards]: "forward H (json_body r)"
  by (simp add: json_body_def forward_ret forward_raise split: option.split)

lemma forward_raise_for_status [forwards]: "forward H (raise_for_status r)"
  by (simp add: raise_for_status_def forward_ret forward_raise)

lemma forward_http [forwards]: "steady_clock (network H) \<Longrightarrow> forward H (http H rq)"
  using steady_clock.call_time[of "network H"]
  by (auto simp: forward_def time_of_def http_def Let_def split: prod.split sum.split) (metis snd_conv)+

lemma forward_sleep [forwards]: "steady_clock (network H) \<Longrightarrow> 0 \<le> d \<Longrightarrow> forward H (sleep H d)"
  unfolding forward_def time_of_def acts
  using steady_clock.sleep_time[of "network H" d] by simp (meson le_add_same_cancel1 order_trans)

lemma forward_attempt [forwards]:
  "forward H m \<Longrightarrow> (\<And>e. forward H (h e)) \<Longrightarrow> (\<And>x. forward H (f x)) \<Longrightarrow> forward H (attempt m h f)"
  unfolding forward_def acts by (auto split: prod.split sum.split) (metis order_trans snd_conv)+

lemma forward_bnd [forwards]: "forward H m \<Longrightarrow> (\<And>x. forward H (f x)) \<Longrightarrow> forward H (bnd m f)"
  unfolding bnd_as_attempt by (intro forward_attempt forward_raise)

lemma forward_if [forwards]: "(b \<Longrightarrow> forward H m) \<Longrightarrow> (\<not> b \<Longrightarrow> forward H m') \<Longrightarrow> forward H (if b then m else m')"
  by simp

lemma forwardD: "forward H m \<Longrightarrow> m s = (x, s') \<Longrightarrow> time_of H s \<le> time_of H s'"
  unfolding forward_def by (metis snd_conv)

section \<open>A scripted network\<close>

text \<open>A network that answers each request with the next of a list, and has a clock of its own.\<close>

record script =
  script_time :: rat
  script_answers :: "(string + response) list"
  script_files :: "(string \<times> json) list"

definition script_network :: "script network" where
  "script_network = \<lparr>
     n_call = (\<lambda>rq n. case script_answers n of
         [] \<Rightarrow> (Inl ''no answer'', n) | x # xs \<Rightarrow> (x, n\<lparr>script_answers := xs\<rparr>)),
     n_time = script_time,
     n_sleep = (\<lambda>d n. n\<lparr>script_time := script_time n + d\<rparr>),
     n_file = (\<lambda>path n. case map_of (script_files n) path of None \<Rightarrow> Inl ''no file'' | Some v \<Rightarrow> Inr v),
     n_stamp = (\<lambda>n. ''stamp''),
     n_age = (\<lambda>stamp n. if stamp = ''stamp'' then Some (script_time n) else None),
     n_uuid = (\<lambda>n. (''uuid'', n)),
     n_timeout = (\<lambda>m. m = ''timeout''),
     n_random = (\<lambda>a b n. (a, n))\<rparr>"

interpretation script: steady_clock script_network
  by unfold_locales (simp_all add: script_network_def split: list.split)

definition answer_ok :: "json \<Rightarrow> string + response" where
  "answer_ok v = Inr \<lparr>status_code = 200, body_text = [], body_json = Some v, headers_of = []\<rparr>"

definition answer_status :: "int \<Rightarrow> string + response" where
  "answer_status n = Inr \<lparr>status_code = n, body_text = [], body_json = None, headers_of = []\<rparr>"

text \<open>The defaults of \<open>config.py\<close>, and a host that runs on a script.\<close>

definition default_settings :: settings where
  "default_settings = \<lparr>
     ddp_broker_api_base = ''http://localhost:8080'', ddp_broker_api_token = [],
     ondemand_broker_api_base_dev = ''http://localhost:8080'', ondemand_broker_api_token_dev = [],
     ondemand_broker_api_base_prod = [], ondemand_broker_api_token_prod = [],
     cams_base_url = ''http://localhost:8000'', cams_api_token = [], cams_artifacts_dir = [],
     legbot_dispatch_timeout_seconds = 1200, legbot_queue_wait_timeout_seconds = 3600, legbot_poll_interval_seconds = 1,
     legbot_poll_retry_max_attempts = 5, legbot_poll_retry_backoff_seconds = 2,
     local_openstates_api_base = ''http://localhost:8002'', local_openstates_api_key = [],
     org_research_max_organizations = 500, organization_content_enabled = False, organization_resolution_mode = ''off'',
     replica_freshness_check_enabled = False, replica_freshness_content_check_enabled = True,
     legbot_rds_replica_jurisdiction_allowlist = []\<rparr>"

definition scripted_host :: "settings \<Rightarrow> (script, unit) host" where
  "scripted_host cfg = \<lparr>network = script_network, redis_client = None, conf = cfg,
     manifest = \<lparr>mtime = (\<lambda>_. None), yaml_at = (\<lambda>_. ReadFailed), mode_var = [], root_var = []\<rparr>\<rparr>"

definition scripted_site :: "(string + response) list \<Rightarrow> (string \<times> json) list \<Rightarrow> (script, unit) site" where
  "scripted_site answers files =
     \<lparr>net = \<lparr>script_time = 0, script_answers = answers, script_files = files\<rparr>, sent = [], store = (),
      topics_cache = (\<lambda>_. None), current_task = None, enrollment_state = \<lparr>cache = (\<lambda>_. None), logged = []\<rparr>\<rparr>"

end
