(* ===== verification/BrokerClient.thy ===== *)
theory BrokerClient
  imports Effects
begin

text \<open>
  The client of ddp-broker-py (\<open>services/broker_client.py\<close>): the reads and writes of bill versions, artifacts,
  concept statements, organization positions. The broker is an HTTP service of \<open>Effects\<close>; keyword
  arguments are an association list, with the defaults of the signature in a table. A long dash in a message is
  written \<open>-\<close>.
\<close>

section \<open>One request\<close>

definition bearer :: "string \<Rightarrow> (string \<times> string) list" where
  "bearer token = [(''Authorization'', ''Bearer '' @ token)]"

definition resolved :: "string option \<Rightarrow> string \<Rightarrow> string" where
  "resolved given setting = (case given of None \<Rightarrow> setting | Some x \<Rightarrow> x)"

text \<open>Every function first resolves the target and refuses an empty base address.\<close>

definition with_broker ::
  "('n, 'r) host \<Rightarrow> string option \<Rightarrow> string option \<Rightarrow> string \<Rightarrow> (string \<Rightarrow> string \<Rightarrow> ('n, 'r, 'a) act) \<Rightarrow> ('n, 'r, 'a) act" where
  "with_broker H base token what f =
     (let b = resolved base (ddp_broker_api_base (conf H)); t = resolved token (ddp_broker_api_token (conf H)) in
      if b = [] then raise (BrokerClientError (''DDP_BROKER_API_BASE is not configured - cannot '' @ what @ ''.''))
      else f b t)"

definition reach :: "('n, 'r) host \<Rightarrow> request \<Rightarrow> ('n, 'r, response) act" where
  "reach H rq = attempt (http H rq)
     (\<lambda>e. case e of RequestError m \<Rightarrow> raise (BrokerClientError (''ddp-broker-py unreachable: '' @ m)) | _ \<Rightarrow> raise e) ret"

definition rejected :: "string \<Rightarrow> response \<Rightarrow> fault" where
  "rejected what r = BrokerClientError (''ddp-broker-py rejected the '' @ what @ '' ('' @ int_str (status_code r) @ ''): '' @ body_text r)"

definition accepted :: "string \<Rightarrow> response \<Rightarrow> ('n, 'r, json) act" where
  "accepted what r = (if status_code r \<ge> 400 then raise (rejected what r) else json_body r)"

definition broker_post :: "string \<Rightarrow> string \<Rightarrow> json \<Rightarrow> request" where
  "broker_post token url payload =
     \<lparr>req_method = POST, req_url = url, req_headers = bearer token, req_params = [], req_body = Some payload\<rparr>"

definition broker_get :: "string \<Rightarrow> string \<Rightarrow> (string \<times> string) list \<Rightarrow> request" where
  "broker_get token url params =
     \<lparr>req_method = GET, req_url = url, req_headers = bearer token, req_params = params, req_body = None\<rparr>"

text \<open>What a write does with its answer: the log line reads \<open>result.get\<close>, so an answer that is no mapping raises.\<close>

definition written :: "json \<Rightarrow> ('n, 'r, json) act" where
  "written v = bnd (lift_res (attr_get v ''id'' JNull)) (\<lambda>_. ret v)"

definition post_json ::
  "('n, 'r) host \<Rightarrow> string option \<Rightarrow> string option \<Rightarrow> string \<Rightarrow> string \<Rightarrow> string \<Rightarrow> json \<Rightarrow> ('n, 'r, json) act" where
  "post_json H base token what rejects path payload =
     with_broker H base token what (\<lambda>b t.
       bnd (reach H (broker_post t (b @ path) payload)) (\<lambda>r. bnd (accepted rejects r) written))"

definition get_json_from ::
  "('n, 'r) host \<Rightarrow> string option \<Rightarrow> string option \<Rightarrow> string \<Rightarrow> string \<Rightarrow> string \<Rightarrow> (string \<times> string) list \<Rightarrow> ('n, 'r, json) act" where
  "get_json_from H base token what rejects path params =
     with_broker H base token what (\<lambda>b t. bnd (reach H (broker_get t (b @ path) params)) (accepted rejects))"

text \<open>\<open>if not result.pop("found", False): return None\<close>, for a dict, and for a value that has no such \<open>pop\<close>.\<close>

definition pop_found :: "json \<Rightarrow> json option res" where
  "pop_found v =
     (case v of
        JObj d \<Rightarrow> Inr (if truthy (dict_get d ''found'') then Some (JObj (filter (\<lambda>p. fst p \<noteq> ''found'') d)) else None)
      | JArr _ \<Rightarrow> Inl TypeError
      | _ \<Rightarrow> Inl (OtherError ''AttributeError''))"

definition kwarg :: "(string \<times> json) list \<Rightarrow> string \<Rightarrow> json \<Rightarrow> json" where
  "kwarg args k dflt = (case map_of args k of None \<Rightarrow> dflt | Some v \<Rightarrow> v)"

definition keyword_payload :: "(string \<times> json) list \<Rightarrow> (string \<times> json) list \<Rightarrow> (string \<times> json) list" where
  "keyword_payload table args = map (\<lambda>(k, dflt). (k, kwarg args k dflt)) table"

section \<open>Writing an artifact\<close>

definition FAILURE_REASON_MAX_LENGTH :: nat where "FAILURE_REASON_MAX_LENGTH = 100"

definition SOURCE_SUPPORT_INFERRED_NOTE :: string where
  "SOURCE_SUPPORT_INFERRED_NOTE = ''source_support=inferred: LegBot classified this answer as derived from '' @
     ''the bill text rather than stated in it (AGENTS-80). Needs a human read '' @
     ''before it is treated as quoted fact.''"

definition INSUFFICIENT_BUT_POPULATED_NOTE :: string where
  "INSUFFICIENT_BUT_POPULATED_NOTE = ''flagged_but_populated: LegBot set insufficient_information=true but also '' @
     ''returned real added/removed/modified content (SYNC-47). The policy-'' @
     ''implications summary above may only restate the refusal -- read the '' @
     ''structural sections directly before treating this as fully grounded.''"

definition validation_notes_for :: "json \<Rightarrow> string" where
  "validation_notes_for source_support =
     (if source_support = JStr ''inferred'' then SOURCE_SUPPORT_INFERRED_NOTE else [])"

text \<open>The bound on \<open>failure_reason\<close>: \<open>len\<close> and a slice, which raise on a value that has none.\<close>

definition bounded_reason :: "json \<Rightarrow> json res" where
  "bounded_reason v =
     (case v of
        JNull \<Rightarrow> Inr JNull
      | JStr s \<Rightarrow> Inr (JStr (take FAILURE_REASON_MAX_LENGTH s))
      | JArr xs \<Rightarrow> Inr (JArr (take FAILURE_REASON_MAX_LENGTH xs))
      | JObj d \<Rightarrow> if length d \<le> FAILURE_REASON_MAX_LENGTH then Inr v else Inl TypeError
      | _ \<Rightarrow> Inl TypeError)"

definition ARTIFACT_FIELDS :: "(string \<times> json) list" where
  "ARTIFACT_FIELDS =
     [(''bill_openstates_id'', JNull), (''jurisdiction'', JNull), (''session_code'', JNull), (''version_date'', JNull),
      (''version_note'', JNull), (''artifact_type'', JNull), (''content'', JNull), (''origin'', JStr ''ai_generated''),
      (''status'', JStr ''complete''), (''model_name'', JNull), (''model_version'', JNull), (''prompt_version'', JNull),
      (''prompt_hash'', JNull), (''generation_config'', JNull), (''failure_stage'', JNull), (''failure_reason'', JNull),
      (''chunk_count'', JInt 0), (''pinecone_synced_at'', JNull), (''compare_version_date'', JNull),
      (''compare_version_note'', JNull)]"

definition artifact_notes :: "(string \<times> json) list \<Rightarrow> string" where
  "artifact_notes args =
     (if truthy (kwarg args ''insufficient_but_populated'' (JBool False)) then INSUFFICIENT_BUT_POPULATED_NOTE
      else validation_notes_for (kwarg args ''source_support'' JNull))"

definition artifact_payload :: "(string \<times> json) list \<Rightarrow> (string \<times> json) list res" where
  "artifact_payload args =
     bind_res (bounded_reason (kwarg args ''failure_reason'' JNull)) (\<lambda>reason.
       Inr (keyword_payload ARTIFACT_FIELDS ((''failure_reason'', reason) # args) @
            (if artifact_notes args \<noteq> [] then [(''validation_notes'', JStr (artifact_notes args))] else []) @
            (if kwarg args ''artifact_id'' JNull \<noteq> JNull then [(''id'', kwarg args ''artifact_id'' JNull)] else [])))"

definition write_bill_artifact ::
  "('n, 'r) host \<Rightarrow> (string \<times> json) list \<Rightarrow> string option \<Rightarrow> string option \<Rightarrow> ('n, 'r, json) act" where
  "write_bill_artifact H args base token =
     with_broker H base token ''write BillArtifact'' (\<lambda>b t.
       bnd (lift_res (artifact_payload args)) (\<lambda>payload.
       bnd (reach H (broker_post t (b @ ''/api/bill-artifacts/'') (JObj payload))) (\<lambda>r.
       bnd (accepted ''BillArtifact write'' r) written)))"

section \<open>The other writes\<close>

definition ensure_bill_exists ::
  "('n, 'r) host \<Rightarrow> json \<Rightarrow> json \<Rightarrow> json \<Rightarrow> json \<Rightarrow> json \<Rightarrow> json \<Rightarrow> json \<Rightarrow> string option \<Rightarrow> string option \<Rightarrow> ('n, 'r, json) act" where
  "ensure_bill_exists H jurisdiction session_code gov_id title chamber jurisdiction_class bill_openstates_id base token =
     post_json H base token ''ensure Bill exists'' ''ensure-bill-exists request'' ''/api/bills/ensure/''
       (JObj [(''jurisdiction'', jurisdiction), (''session_code'', session_code), (''gov_id'', gov_id), (''title'', title),
         (''chamber_classification'', chamber), (''jurisdiction_classification'', jurisdiction_class),
         (''bill_openstates_id'', bill_openstates_id)])"

definition POSITION_FIELDS :: "(string \<times> json) list" where
  "POSITION_FIELDS =
     [(''bill_openstates_id'', JNull), (''jurisdiction'', JNull), (''session_code'', JNull), (''version_date'', JNull),
      (''version_note'', JNull), (''invocation_id'', JNull), (''org_name'', JNull), (''position'', JNull),
      (''citation_url'', JNull), (''citation_excerpt'', JStr []), (''find_model_name'', JNull),
      (''find_model_version'', JNull), (''find_prompt_version'', JNull), (''find_prompt_hash'', JNull),
      (''find_generation_config'', JNull), (''find_code_commit_sha'', JNull),
      (''verification_verdict'', JStr ''pending''), (''verification_insufficient_information'', JBool False),
      (''verification_content_incomplete'', JBool False), (''verification_explanation'', JStr []),
      (''verify_model_name'', JNull), (''verify_model_version'', JNull), (''verify_prompt_version'', JNull),
      (''verify_prompt_hash'', JNull), (''verify_generation_config'', JNull), (''verify_code_commit_sha'', JNull),
      (''status'', JStr ''complete''), (''failure_stage'', JNull), (''failure_reason'', JNull)]"

definition write_bill_organization_position ::
  "('n, 'r) host \<Rightarrow> (string \<times> json) list \<Rightarrow> string option \<Rightarrow> string option \<Rightarrow> ('n, 'r, json) act" where
  "write_bill_organization_position H args base token =
     post_json H base token ''write BillOrganizationPosition'' ''BillOrganizationPosition write''
       ''/api/bill-organization-positions/'' (JObj (keyword_payload POSITION_FIELDS args))"

text \<open>Blank values are dropped before sending.\<close>

definition worth_sending :: "json \<Rightarrow> bool" where
  "worth_sending v = (case v of JStr s \<Rightarrow> strip s \<noteq> [] | _ \<Rightarrow> False)"

definition write_organization_content ::
  "('n, 'r) host \<Rightarrow> json \<Rightarrow> (string \<times> json) list \<Rightarrow> string \<Rightarrow> string option \<Rightarrow> string option \<Rightarrow> ('n, 'r, json) act" where
  "write_organization_content H organization_id contents source base token =
     post_json H base token ''write organization content'' ''organization content write''
       (''/api/organizations/'' @ json_str organization_id @ ''/content/'')
       (JObj (dict_set ''source'' (JStr source) (filter (\<lambda>p. worth_sending (snd p)) contents)))"

definition request_bill_event_check :: "('n, 'r) host \<Rightarrow> string \<Rightarrow> ('n, 'r, unit) act" where
  "request_bill_event_check H jurisdiction =
     (let b = ddp_broker_api_base (conf H); t = ddp_broker_api_token (conf H) in
      if b = [] \<or> t = [] then raise (BrokerClientError ''DDP_BROKER_API_BASE/DDP_BROKER_API_TOKEN not configured'')
      else bnd (reach H (broker_post t (b @ ''/api/openstates-bill-events/check/'') (JObj [(''jurisdiction'', JStr jurisdiction)])))
        (\<lambda>r. if is_success r then ret ()
          else raise (BrokerClientError (''ddp-broker-py rejected the bill-event check ('' @ int_str (status_code r) @ ''): '' @
            take 200 (body_text r)))))"

definition write_bill_version ::
  "('n, 'r) host \<Rightarrow> (string \<times> json) list \<Rightarrow> string option \<Rightarrow> string option \<Rightarrow> ('n, 'r, json) act" where
  "write_bill_version H args base token =
     post_json H base token ''write BillVersion'' ''BillVersion write'' ''/api/bill-versions/''
       (JObj (keyword_payload [(''bill_openstates_id'', JNull), (''jurisdiction'', JNull), (''session_code'', JNull),
          (''version_date'', JNull), (''version_note'', JNull), (''text_url'', JStr []), (''media_type'', JStr []),
          (''chunk_count'', JInt 0), (''pinecone_ingested'', JBool False)] args))"

definition create_concept_statement_set ::
  "('n, 'r) host \<Rightarrow> json \<Rightarrow> json \<Rightarrow> json \<Rightarrow> json \<Rightarrow> json \<Rightarrow> json \<Rightarrow> string option \<Rightarrow> string option \<Rightarrow> ('n, 'r, json) act" where
  "create_concept_statement_set H gov_id jurisdiction_iso2 session_code statements source_document_url model_name base token =
     post_json H base token ''write ConceptStatementSet'' ''ConceptStatementSet write'' ''/api/concept-statement-sets/''
       (JObj [(''gov_id'', gov_id), (''jurisdiction_iso2'', jurisdiction_iso2), (''session_code'', session_code),
         (''statements'', statements), (''source_document_url'', source_document_url), (''model_name'', model_name)])"

definition write_bill_organization_research_run ::
  "('n, 'r) host \<Rightarrow> json \<Rightarrow> json \<Rightarrow> json \<Rightarrow> json \<Rightarrow> int \<Rightarrow> string option \<Rightarrow> string option \<Rightarrow> ('n, 'r, json) act" where
  "write_bill_organization_research_run H bill_openstates_id jurisdiction session_code invocation_id found base token =
     post_json H base token ''write BillOrganizationResearchRun'' ''BillOrganizationResearchRun write''
       ''/api/bill-organization-research-runs/''
       (JObj [(''bill_openstates_id'', bill_openstates_id), (''jurisdiction'', jurisdiction), (''session_code'', session_code),
         (''invocation_id'', invocation_id), (''positions_found_count'', JInt found)])"

section \<open>Organization resolution\<close>

definition post_organization_resolution ::
  "('n, 'r) host \<Rightarrow> string \<Rightarrow> (string \<times> json) list \<Rightarrow> string \<Rightarrow> string option \<Rightarrow> string option \<Rightarrow> ('n, 'r, json) act" where
  "post_organization_resolution H path payload what base token =
     with_broker H base token what (\<lambda>b t.
       bnd (reach H (broker_post t (b @ ''/api/organization-resolution/'' @ path) (JObj payload))) (accepted what))"

definition get_organization_resolution_shortlist ::
  "('n, 'r) host \<Rightarrow> json \<Rightarrow> string option \<Rightarrow> string option \<Rightarrow> ('n, 'r, json) act" where
  "get_organization_resolution_shortlist H position_id base token =
     post_organization_resolution H ''shortlist/'' [(''position_id'', position_id)] ''organization shortlist request'' base token"

definition report_organization_resolution_answer ::
  "('n, 'r) host \<Rightarrow> json \<Rightarrow> json \<Rightarrow> json \<Rightarrow> json \<Rightarrow> json \<Rightarrow> string option \<Rightarrow> string option \<Rightarrow> ('n, 'r, json) act" where
  "report_organization_resolution_answer H attempt_id model resolver_prompt_rev choice reason base token =
     post_organization_resolution H (''attempts/'' @ json_str attempt_id @ ''/answer/'')
       [(''model'', model), (''prompt_version'', resolver_prompt_rev), (''choice'', choice), (''reason'', reason)]
       ''organization resolution answer'' base token"

definition request_organization_resolution_act ::
  "('n, 'r) host \<Rightarrow> json \<Rightarrow> string option \<Rightarrow> string option \<Rightarrow> ('n, 'r, json) act" where
  "request_organization_resolution_act H attempt_id base token =
     post_organization_resolution H (''attempts/'' @ json_str attempt_id @ ''/act/'') [] ''organization resolution act request'' base token"

section \<open>The reads\<close>

text \<open>The live list of bill topics: a body that is no usable list is an error.\<close>

definition usable_taxonomy :: "json \<Rightarrow> bool" where
  "usable_taxonomy v =
     (case v of
        JObj d \<Rightarrow>
          (case dict_get d ''version'' of JStr s \<Rightarrow> s \<noteq> [] | _ \<Rightarrow> False) \<and>
          (case dict_get d ''max_topics'' of JInt n \<Rightarrow> n \<ge> 1 | _ \<Rightarrow> False) \<and>
          (case dict_get d ''topics'' of
             JArr ts \<Rightarrow> ts \<noteq> [] \<and> (\<forall>t \<in> set ts. worth_sending t)
           | _ \<Rightarrow> False)
      | _ \<Rightarrow> False)"

definition get_bill_topics_taxonomy :: "('n, 'r) host \<Rightarrow> string option \<Rightarrow> string option \<Rightarrow> ('n, 'r, json) act" where
  "get_bill_topics_taxonomy H base token =
     with_broker H base token ''read the bill-topics list'' (\<lambda>b t.
       bnd (reach H (broker_get t (b @ ''/api/bill-topics/taxonomy/'') [])) (\<lambda>r.
         if status_code r \<noteq> 200
         then raise (BrokerClientError (''ddp-broker-py did not return the bill-topics list ('' @ int_str (status_code r) @
           ''): '' @ take 200 (body_text r)))
         else (case body_json r of
             None \<Rightarrow> raise (BrokerClientError ''ddp-broker-py returned a bill-topics list that is not JSON'')
           | Some v \<Rightarrow>
               if usable_taxonomy v
               then (case v of JObj d \<Rightarrow> ret (JObj [(''version'', dict_get d ''version''),
                      (''max_topics'', dict_get d ''max_topics''), (''topics'', dict_get d ''topics'')]) | _ \<Rightarrow> ret v)
               else raise (BrokerClientError (''ddp-broker-py returned an unusable bill-topics list: '' @ take 200 (json_str v))))))"

definition get_latest_bill_version :: "('n, 'r) host \<Rightarrow> string \<Rightarrow> string option \<Rightarrow> ('n, 'r, json option) act" where
  "get_latest_bill_version H bill_openstates_id base =
     bnd (get_json_from H base None ''read BillVersion'' ''BillVersion read'' ''/api/bill-versions/latest/''
        [(''bill_openstates_id'', bill_openstates_id)]) (\<lambda>v. lift_res (pop_found v))"

definition bill_params :: "string \<Rightarrow> string \<Rightarrow> string \<Rightarrow> (string \<times> string) list" where
  "bill_params gov_id jurisdiction session_code =
     [(''gov_id'', gov_id), (''jurisdiction'', jurisdiction), (''session'', session_code)]"

definition get_concept_statement_set ::
  "('n, 'r) host \<Rightarrow> string \<Rightarrow> string \<Rightarrow> string \<Rightarrow> string option \<Rightarrow> string option \<Rightarrow> ('n, 'r, json option) act" where
  "get_concept_statement_set H gov_id jurisdiction_iso2 session_code base token =
     bnd (get_json_from H base token ''read ConceptStatementSet'' ''ConceptStatementSet read'' ''/api/concept-statements/''
        (bill_params gov_id jurisdiction_iso2 session_code)) (\<lambda>v. lift_res (pop_found v))"

text \<open>A 404 of the status endpoint falls back to the read of the published set.\<close>

definition get_concept_statement_statuses ::
  "('n, 'r) host \<Rightarrow> string \<Rightarrow> string \<Rightarrow> string \<Rightarrow> string option \<Rightarrow> string option \<Rightarrow> ('n, 'r, json list) act" where
  "get_concept_statement_statuses H gov_id jurisdiction_iso2 session_code base token =
     with_broker H base token ''read ConceptStatementSet status'' (\<lambda>b t.
       bnd (reach H (broker_get t (b @ ''/api/concept-statements/status/'') (bill_params gov_id jurisdiction_iso2 session_code))) (\<lambda>r.
         if status_code r = 404
         then bnd (get_concept_statement_set H gov_id jurisdiction_iso2 session_code base token) (\<lambda>published.
                ret (case published of None \<Rightarrow> [] | Some _ \<Rightarrow> [JStr ''published'']))
         else bnd (accepted ''ConceptStatementSet status read'' r) (\<lambda>v.
                bnd (lift_res (attr_get v ''found'' (JBool False))) (\<lambda>found.
                  if \<not> truthy found then ret []
                  else bnd (lift_res (attr_get v ''statuses'' (JArr []))) (\<lambda>l. lift_res (json_iter l))))))"

definition get_organization_json ::
  "('n, 'r) host \<Rightarrow> string \<Rightarrow> (string \<times> string) list \<Rightarrow> string option \<Rightarrow> string option \<Rightarrow> ('n, 'r, json) act" where
  "get_organization_json H path params base token =
     with_broker H base token ''read organizations'' (\<lambda>b t.
       bnd (reach H (broker_get t (b @ path) params)) (\<lambda>r.
         if status_code r \<ge> 400 then raise (rejected ''organization read'' r)
         else (case body_json r of
             None \<Rightarrow> raise (BrokerClientError ''ddp-broker-py returned a non-JSON organization body'')
           | Some v \<Rightarrow> if is_dict v then ret v
               else raise (BrokerClientError ''ddp-broker-py returned an unexpected organization body''))))"

definition list_organizations :: "('n, 'r) host \<Rightarrow> int \<Rightarrow> int \<Rightarrow> string option \<Rightarrow> string option \<Rightarrow> ('n, 'r, json) act" where
  "list_organizations H page page_size base token =
     get_organization_json H ''/api/organizations/'' [(''page'', int_str page), (''page_size'', int_str page_size)] base token"

definition get_organization :: "('n, 'r) host \<Rightarrow> json \<Rightarrow> string option \<Rightarrow> string option \<Rightarrow> ('n, 'r, json) act" where
  "get_organization H organization_id base token =
     get_organization_json H (''/api/organizations/'' @ json_str organization_id @ ''/'') [] base token"

text \<open>Does a coverage entry mean that the artifact exists? Every row but a rejected one does.\<close>

definition artifact_counts_as_present :: "json \<Rightarrow> bool res" where
  "artifact_counts_as_present entry =
     (if entry = JNull then Inr False
      else bind_res (attr_get entry ''review_status'' JNull) (\<lambda>x. Inr (x \<noteq> JStr ''rejected'')))"

definition get_bill_artifacts ::
  "('n, 'r) host \<Rightarrow> string \<Rightarrow> string \<Rightarrow> string \<Rightarrow> string option \<Rightarrow> string option \<Rightarrow> ('n, 'r, json option) act" where
  "get_bill_artifacts H jurisdiction session_code gov_id base token =
     bnd (get_json_from H base token ''read BillArtifact status'' ''BillArtifact status read'' ''/api/bill-artifacts/status/''
        [(''jurisdiction'', jurisdiction), (''session'', session_code), (''gov_id'', gov_id)]) (\<lambda>v. lift_res (pop_found v))"

definition get_bill_artifact_coverage_all_versions ::
  "('n, 'r) host \<Rightarrow> string \<Rightarrow> string \<Rightarrow> string \<Rightarrow> string option \<Rightarrow> string option \<Rightarrow> ('n, 'r, json option) act" where
  "get_bill_artifact_coverage_all_versions H jurisdiction session_code gov_id base token =
     bnd (get_json_from H base token ''read BillArtifact status'' ''all-versions BillArtifact status read''
        ''/api/bill-artifacts/status/''
        [(''jurisdiction'', jurisdiction), (''session'', session_code), (''gov_id'', gov_id), (''versions'', ''all'')]) (\<lambda>v.
     bnd (lift_res (pop_found v)) (\<lambda>found. case found of
         None \<Rightarrow> ret None
       | Some (JObj d) \<Rightarrow>
           if ''versions'' \<in> fst ` set d then ret (Some (JObj d))
           else raise (BrokerClientError (''ddp-broker-py returned a '' @ [quote1] @ ''found'' @ [quote1] @ '' response with no '' @ [quote1] @ ''versions'' @ [quote1] @ '' key for '' @
             ''?versions=all -- this broker instance predates BROKER-130 and does not '' @
             ''support the all-versions coverage read yet.''))
       | Some w \<Rightarrow> ret (Some w)))"

definition get_bill_organization_positions_status ::
  "('n, 'r) host \<Rightarrow> string \<Rightarrow> string option \<Rightarrow> string option \<Rightarrow> ('n, 'r, json) act" where
  "get_bill_organization_positions_status H bill_openstates_id base token =
     get_json_from H base token ''read organization-research status'' ''organization-research status read''
       ''/api/bill-organization-positions/status/'' [(''bill_openstates_id'', bill_openstates_id)]"

section \<open>Every operation ends, and the reads only read\<close>

lemma ends_with_broker [ending]: "(\<And>b t. ends (f b t)) \<Longrightarrow> ends (with_broker H base token what f)"
  unfolding with_broker_def by (intro ending) simp

lemma ends_reach [ending]: "ends (reach H rq)"
  unfolding reach_def by (intro ending; simp)

lemma ends_accepted [ending]: "ends (accepted what r)"
  unfolding accepted_def rejected_def by (intro ending; simp)

lemma ends_written [ending]: "ends (written v)"
  unfolding written_def by (intro ending)

lemma ends_writes [ending]:
  "ends (write_bill_artifact H args base token)"
  "ends (ensure_bill_exists H jurisdiction session gov title chamber kind bill base token)"
  "ends (write_bill_organization_position H args base token)"
  "ends (write_organization_content H organization contents source base token)"
  "ends (write_bill_version H args base token)"
  "ends (create_concept_statement_set H gov jurisdiction session statements url model base token)"
  "ends (write_bill_organization_research_run H bill jurisdiction session invocation found base token)"
  "ends (get_organization_resolution_shortlist H position base token)"
  "ends (report_organization_resolution_answer H aid model prompt choice reason base token)"
  "ends (request_organization_resolution_act H aid base token)"
  unfolding write_bill_artifact_def ensure_bill_exists_def write_bill_organization_position_def write_organization_content_def
    write_bill_version_def create_concept_statement_set_def write_bill_organization_research_run_def
    get_organization_resolution_shortlist_def report_organization_resolution_answer_def request_organization_resolution_act_def
    post_organization_resolution_def post_json_def
  by (intro ending)+

lemma ends_reads [ending]:
  "ends (get_bill_topics_taxonomy H base token)"
  "ends (get_concept_statement_statuses H g jc session base token)"
  "ends (get_bill_artifacts H jurisdiction session g base token)"
  "ends (get_bill_artifact_coverage_all_versions H jurisdiction session g base token)"
  "ends (get_bill_organization_positions_status H bill base token)"
  unfolding get_bill_topics_taxonomy_def get_concept_statement_statuses_def get_concept_statement_set_def get_bill_artifacts_def
    get_bill_artifact_coverage_all_versions_def get_bill_organization_positions_status_def get_json_from_def rejected_def
  by (intro ending; simp)+

lemma sends_with_broker [sending]: "(\<And>b t. sends P (f b t)) \<Longrightarrow> sends P (with_broker H base token what f)"
  unfolding with_broker_def Let_def by (intro sending)

lemma sends_reach [sending]: "P rq \<Longrightarrow> sends P (reach H rq)"
  unfolding reach_def by (intro sending)

lemma sends_accepted [sending]: "sends P (accepted what r)"
  unfolding accepted_def by (intro sending)

lemma read_broker_get: "is_read (broker_get t url params)"
  by (simp add: is_read_def broker_get_def)

lemma sends_reads [sending]:
  "sends is_read (get_bill_topics_taxonomy H base token)"
  "sends is_read (get_concept_statement_statuses H g jc session base token)"
  "sends is_read (get_bill_artifacts H jurisdiction session g base token)"
  "sends is_read (get_bill_artifact_coverage_all_versions H jurisdiction session g base token)"
  "sends is_read (get_bill_organization_positions_status H bill base token)"
  unfolding get_bill_topics_taxonomy_def get_concept_statement_statuses_def get_concept_statement_set_def get_bill_artifacts_def
    get_bill_artifact_coverage_all_versions_def get_bill_organization_positions_status_def get_json_from_def
  by (intro sending read_broker_get)+

lemma sends_written [sending]: "sends P (written v)"
  unfolding written_def by (intro sending)

lemma sends_write_bill_artifact [sending]:
  "(\<And>b t p. P (broker_post t (b @ ''/api/bill-artifacts/'') (JObj p))) \<Longrightarrow> sends P (write_bill_artifact H args base token)"
  unfolding write_bill_artifact_def by (intro sending)

section \<open>The rows that are written\<close>

text \<open>Writing an artifact sends at most one request, whatever the caller passes; its reason of failure fits the column of the
  broker, and the notes that a reviewer edits are only overwritten when there is a marker to write.\<close>

lemma artifact_row_contract:
  assumes "rq \<in> set (drop (length (sent s)) (sent (snd (write_bill_artifact H args base token s))))"
  shows "\<exists>p. sent (snd (write_bill_artifact H args base token s)) = sent s @ [rq] \<and> req_body rq = Some (JObj p) \<and>
    (\<forall>t. dict_get p ''failure_reason'' = JStr t \<longrightarrow> length t \<le> 100) \<and>
    (''validation_notes'' \<in> fst ` set p \<longleftrightarrow>
      truthy (kwarg args ''insufficient_but_populated'' (JBool False)) \<or> kwarg args ''source_support'' JNull = JStr ''inferred'') \<and>
    (''id'' \<in> fst ` set p \<longleftrightarrow> kwarg args ''artifact_id'' JNull \<noteq> JNull)"
proof -
  obtain b t p where send: "artifact_payload args = Inr p"
    and rq: "rq = broker_post t (b @ ''/api/bill-artifacts/'') (JObj p)"
    and sent: "sent (snd (write_bill_artifact H args base token s)) = sent s @ [rq]"
    using assms
    by (auto simp: write_bill_artifact_def with_broker_def acts Let_def reach_def http_def accepted_def json_body_def written_def
        split: if_splits sum.splits prod.splits option.splits)
  obtain reason where reason: "bounded_reason (kwarg args ''failure_reason'' JNull) = Inr reason"
    and p: "p = keyword_payload ARTIFACT_FIELDS ((''failure_reason'', reason) # args) @
            (if artifact_notes args \<noteq> [] then [(''validation_notes'', JStr (artifact_notes args))] else []) @
            (if kwarg args ''artifact_id'' JNull \<noteq> JNull then [(''id'', kwarg args ''artifact_id'' JNull)] else [])"
    using send by (auto simp: artifact_payload_def bind_res_Inr_iff)
  have keys: "fst ` set (keyword_payload ARTIFACT_FIELDS xs) = fst ` set ARTIFACT_FIELDS" for xs
    by (force simp: keyword_payload_def)
  have "dict_get p ''failure_reason'' = reason"
    by (simp add: p dict_get_def keyword_payload_def ARTIFACT_FIELDS_def kwarg_def)
  moreover have "reason = JStr u \<Longrightarrow> length u \<le> 100" for u
    using reason by (auto simp: bounded_reason_def FAILURE_REASON_MAX_LENGTH_def split: json.splits if_splits)
  moreover have "''validation_notes'' \<notin> fst ` set ARTIFACT_FIELDS" "''id'' \<notin> fst ` set ARTIFACT_FIELDS"
    by (simp_all add: ARTIFACT_FIELDS_def)
  moreover have "artifact_notes args \<noteq> [] \<longleftrightarrow>
      truthy (kwarg args ''insufficient_but_populated'' (JBool False)) \<or> kwarg args ''source_support'' JNull = JStr ''inferred''"
    by (simp add: artifact_notes_def validation_notes_for_def INSUFFICIENT_BUT_POPULATED_NOTE_def SOURCE_SUPPORT_INFERRED_NOTE_def)
  ultimately show ?thesis using sent
    by (intro exI[of _ p]) (auto simp: rq broker_post_def p keys image_Un)
qed

lemma artifact_row_contract_witness:
  "\<exists>rq p. sent (snd (write_bill_artifact (scripted_host default_settings)
      [(''failure_reason'', JStr (replicate 300 (CHR ''x''))), (''source_support'', JStr ''inferred'')] None None (scripted_site [] []))) = [rq] \<and>
    req_body rq = Some (JObj p) \<and> (\<exists>t. dict_get p ''failure_reason'' = JStr t \<and> length t = 100) \<and> ''validation_notes'' \<in> fst ` set p"
proof -
  let ?args = "[(''failure_reason'', JStr (replicate 300 (CHR ''x''))), (''source_support'', JStr ''inferred'')]"
  let ?run = "snd (write_bill_artifact (scripted_host default_settings) ?args None None (scripted_site [] []))"
  obtain rq where rq: "sent ?run = [rq]"
    by (auto simp: write_bill_artifact_def with_broker_def resolved_def scripted_host_def default_settings_def scripted_site_def acts Let_def
        artifact_payload_def bounded_reason_def kwarg_def reach_def http_def script_network_def)
  then have "rq \<in> set (drop (length (sent (scripted_site [] []))) (sent ?run))" by (simp add: scripted_site_def)
  from artifact_row_contract[OF this] obtain p where p: "req_body rq = Some (JObj p)" "''validation_notes'' \<in> fst ` set p"
    by (auto simp: kwarg_def)
  have "map (\<lambda>r. case req_body r of Some (JObj d) \<Rightarrow> (case dict_get d ''failure_reason'' of JStr t \<Rightarrow> length t | _ \<Rightarrow> 0) | _ \<Rightarrow> 0) (sent ?run) = [100]"
    by code_simp
  then have "\<exists>t. dict_get p ''failure_reason'' = JStr t \<and> length t = 100" using rq p(1) by (auto split: json.splits)
  with rq p show ?thesis by blast
qed

end
