(* ===== verification/LocalOpenstates.thy ===== *)
theory LocalOpenstates
  imports Effects
begin

text \<open>
  Reads of the archive behind api-v3 (\<open>services/local_openstates_client.py\<close>): the text of a bill's latest version, its
  identity, one document by its exact key, and the version transitions with a stored diff.
\<close>

section \<open>Requests\<close>

definition auth_headers :: "string \<Rightarrow> (string \<times> string) list" where
  "auth_headers api_key = (if api_key \<noteq> [] then [(''x-api-key'', api_key)] else [])"

definition api_get :: "string \<Rightarrow> (string \<times> string) list \<Rightarrow> string \<Rightarrow> request" where
  "api_get url params api_key =
     \<lparr>req_method = GET, req_url = url, req_headers = auth_headers api_key, req_params = params, req_body = None\<rparr>"

text \<open>\<open>except httpx.RequestError\<close>.\<close>

definition or_unreachable :: "('n, 'r, 'b) act \<Rightarrow> ('n, 'r, 'a) act \<Rightarrow> ('a \<Rightarrow> ('n, 'r, 'b) act) \<Rightarrow> ('n, 'r, 'b) act" where
  "or_unreachable fallback m f = attempt m (\<lambda>e. case e of RequestError _ \<Rightarrow> fallback | _ \<Rightarrow> raise e) f"

text \<open>The detail of one bill, as four functions read it: \<open>None\<close> when there is no base address, no answer, an error status, or no JSON.\<close>

definition bill_detail :: "('n, 'r) host \<Rightarrow> string \<Rightarrow> ('n, 'r, json option) act" where
  "bill_detail H bill_openstates_id =
     (if local_openstates_api_base (conf H) = [] then ret None
      else or_unreachable (ret None)
        (http H (api_get (local_openstates_api_base (conf H) @ ''/bills/ocd-bill/'' @ bill_openstates_id)
           [(''include'', ''versions'')] (local_openstates_api_key (conf H))))
        (\<lambda>r. ret (if status_code r \<ge> 400 then None else body_json r)))"

text \<open>What \<open>f\<close> reads in the detail, \<open>None\<close> when there is none.\<close>

definition read_detail :: "('n, 'r) host \<Rightarrow> string \<Rightarrow> (json \<Rightarrow> 'a option res) \<Rightarrow> ('n, 'r, 'a option) act" where
  "read_detail H bill_openstates_id f =
     bnd (bill_detail H bill_openstates_id) (\<lambda>d. case d of None \<Rightarrow> ret None | Some v \<Rightarrow> lift_res (f v))"

section \<open>Versions of a bill\<close>

definition or_list :: "json \<Rightarrow> json" where
  "or_list v = (if truthy v then v else JArr [])"

definition get_or_list :: "json \<Rightarrow> string \<Rightarrow> json res" where
  "get_or_list v k = bind_res (attr_get v k JNull) (\<lambda>x. Inr (or_list x))"

text \<open>\<open>versions[-1]\<close> of a value that is true.\<close>

definition last_item :: "json \<Rightarrow> json res" where
  "last_item v =
     (case v of
        JArr xs \<Rightarrow> Inr (last xs)
      | JStr s \<Rightarrow> Inr (JStr [last s])
      | JObj _ \<Rightarrow> Inl (KeyError ''-1'')
      | _ \<Rightarrow> Inl TypeError)"

text \<open>The first link that carries text.\<close>

fun first_text_link :: "json list \<Rightarrow> json option res" where
  "first_text_link [] = Inr None"
| "first_text_link (l # ls) =
     bind_res (attr_get l ''raw_text'' JNull) (\<lambda>t. if truthy t then Inr (Some l) else first_text_link ls)"

definition text_link :: "json \<Rightarrow> json option res" where
  "text_link version = bind_res (get_or_list version ''links'') (\<lambda>l. bind_res (json_iter l) first_text_link)"

definition link_text :: "json option \<Rightarrow> json option res" where
  "link_text l = (case l of None \<Rightarrow> Inr None | Some x \<Rightarrow> bind_res (attr_get x ''raw_text'' JNull) (\<lambda>t. Inr (Some t)))"

definition latest_text :: "json \<Rightarrow> json option res" where
  "latest_text data =
     bind_res (get_or_list data ''versions'') (\<lambda>versions.
       if \<not> truthy versions then Inr None
       else bind_res (last_item versions) (\<lambda>latest. bind_res (text_link latest) link_text))"

definition get_archived_bill_text :: "('n, 'r) host \<Rightarrow> string \<Rightarrow> ('n, 'r, json option) act" where
  "get_archived_bill_text H bill_openstates_id = read_detail H bill_openstates_id latest_text"

text \<open>The text of the row with an exact key: the first link with this address in a version with this note and date decides.\<close>

fun link_with_url :: "json \<Rightarrow> json list \<Rightarrow> json option option res" where
  "link_with_url source_url [] = Inr None"
| "link_with_url source_url (l # ls) =
     bind_res (attr_get l ''url'' JNull) (\<lambda>u.
       if u = source_url
       then bind_res (attr_get l ''raw_text'' JNull) (\<lambda>t. Inr (Some (if truthy t then Some t else None)))
       else link_with_url source_url ls)"

fun document_text :: "json \<Rightarrow> json \<Rightarrow> json \<Rightarrow> json list \<Rightarrow> json option res" where
  "document_text version_note version_date source_url [] = Inr None"
| "document_text version_note version_date source_url (v # vs) =
     bind_res (attr_get v ''note'' JNull) (\<lambda>note.
     bind_res (if note \<noteq> version_note then Inr False
               else bind_res (attr_get v ''date'' JNull) (\<lambda>d. Inr (d = version_date))) (\<lambda>matches.
       if \<not> matches then document_text version_note version_date source_url vs
       else bind_res (get_or_list v ''links'') (\<lambda>l. bind_res (json_iter l) (\<lambda>links.
         bind_res (link_with_url source_url links) (\<lambda>found. case found of
             Some t \<Rightarrow> Inr t
           | None \<Rightarrow> document_text version_note version_date source_url vs)))))"

definition get_bill_version_document_text ::
  "('n, 'r) host \<Rightarrow> string \<Rightarrow> json \<Rightarrow> json \<Rightarrow> json \<Rightarrow> ('n, 'r, json option) act" where
  "get_bill_version_document_text H bill_openstates_id version_note version_date source_url =
     read_detail H bill_openstates_id (\<lambda>data.
       bind_res (get_or_list data ''versions'') (\<lambda>l. bind_res (json_iter l)
         (document_text version_note version_date source_url)))"

text \<open>The identity of the latest version.\<close>

record version_identity =
  vi_date :: json
  vi_note :: json
  vi_title :: json
  vi_chamber :: json
  vi_jurisdiction :: json

definition classification_of :: "json \<Rightarrow> string \<Rightarrow> json res" where
  "classification_of data k =
     bind_res (attr_get data k JNull) (\<lambda>x. attr_get (or_empty x) ''classification'' (JStr []))"

definition latest_identity :: "json \<Rightarrow> version_identity option res" where
  "latest_identity data =
     bind_res (get_or_list data ''versions'') (\<lambda>versions.
       if \<not> truthy versions then Inr None
       else bind_res (last_item versions) (\<lambda>latest.
         bind_res (attr_get latest ''date'' (JStr [])) (\<lambda>d.
         bind_res (attr_get latest ''note'' (JStr [])) (\<lambda>note.
         bind_res (attr_get data ''title'' (JStr [])) (\<lambda>title.
         bind_res (classification_of data ''from_organization'') (\<lambda>chamber.
         bind_res (classification_of data ''jurisdiction'') (\<lambda>jurisdiction.
           Inr (Some \<lparr>vi_date = d, vi_note = note, vi_title = title, vi_chamber = chamber, vi_jurisdiction = jurisdiction\<rparr>))))))))"

definition get_current_version_identity :: "('n, 'r) host \<Rightarrow> string \<Rightarrow> ('n, 'r, version_identity option) act" where
  "get_current_version_identity H bill_openstates_id = read_detail H bill_openstates_id latest_identity"

section \<open>Transitions between versions\<close>

record transition =
  tr_old_source :: json
  tr_diff :: json
  tr_old_date :: json
  tr_old_note :: json
  tr_new_date :: json
  tr_new_note :: json

text \<open>The items of a value that \<open>len\<close> and integer subscripts read; a mapping has no key 1.\<close>

definition json_seq :: "json \<Rightarrow> json list res" where
  "json_seq v =
     (case v of
        JArr xs \<Rightarrow> Inr xs
      | JStr s \<Rightarrow> Inr (map (\<lambda>c. JStr [c]) s)
      | JObj d \<Rightarrow> if length d \<le> 1 then Inr [] else Inl (KeyError ''1'')
      | _ \<Rightarrow> Inl TypeError)"

text \<open>The latest earlier version with a diff (\<open>''''\<close> counts) and text.\<close>

fun baseline_with_diff :: "json list \<Rightarrow> nat \<Rightarrow> nat option res" where
  "baseline_with_diff versions 0 = Inr None"
| "baseline_with_diff versions (Suc j) =
     bind_res (attr_get (versions ! j) ''diff_from_previous_version'' JNull) (\<lambda>d.
     bind_res (if d = JNull then Inr None else text_link (versions ! j)) (\<lambda>l.
       case l of Some _ \<Rightarrow> Inr (Some j) | None \<Rightarrow> baseline_with_diff versions j))"

text \<open>The first version with text, among those with an index from \<open>j\<close> on below \<open>i\<close>.\<close>

fun first_with_text :: "json list \<Rightarrow> nat \<Rightarrow> nat option res" where
  "first_with_text [] j = Inr None"
| "first_with_text (v # vs) j =
     bind_res (text_link v) (\<lambda>l. case l of Some _ \<Rightarrow> Inr (Some j) | None \<Rightarrow> first_with_text vs (Suc j))"

definition diff_baseline_index :: "json list \<Rightarrow> nat \<Rightarrow> nat option res" where
  "diff_baseline_index versions i =
     bind_res (baseline_with_diff versions i) (\<lambda>b.
       case b of Some j \<Rightarrow> Inr (Some j) | None \<Rightarrow> first_with_text (take i versions) 0)"

definition media_type :: "json option \<Rightarrow> json res" where
  "media_type l = (case l of None \<Rightarrow> Inr JNull | Some x \<Rightarrow> attr_get x ''media_type'' JNull)"

text \<open>The transition into version \<open>i\<close>, when there is one.\<close>

definition transition_into :: "json list \<Rightarrow> nat \<Rightarrow> transition option res" where
  "transition_into versions i =
     (let newer = versions ! i in
      bind_res (attr_get newer ''diff_from_previous_version'' JNull) (\<lambda>diff.
      if \<not> truthy diff then Inr None
      else bind_res (diff_baseline_index versions i) (\<lambda>b. case b of
          None \<Rightarrow> Inr None
        | Some j \<Rightarrow>
            (let older = versions ! j in
             bind_res (text_link older) (\<lambda>old_link.
             bind_res (text_link newer) (\<lambda>new_link.
             bind_res (media_type old_link) (\<lambda>old_type.
             bind_res (media_type new_link) (\<lambda>new_type.
               if truthy old_type \<and> truthy new_type \<and> old_type \<noteq> new_type then Inr None
               else bind_res (link_text old_link) (\<lambda>source.
                 bind_res (attr_get older ''date'' (JStr [])) (\<lambda>old_date.
                 bind_res (attr_get older ''note'' (JStr [])) (\<lambda>old_note.
                 bind_res (attr_get newer ''date'' (JStr [])) (\<lambda>new_date.
                 bind_res (attr_get newer ''note'' (JStr [])) (\<lambda>new_note.
                   Inr (Some \<lparr>tr_old_source = (case source of None \<Rightarrow> JNull | Some t \<Rightarrow> t), tr_diff = diff,
                     tr_old_date = old_date, tr_old_note = old_note,
                     tr_new_date = new_date, tr_new_note = new_note\<rparr>))))))))))))))"

fun transitions_from :: "json list \<Rightarrow> nat list \<Rightarrow> transition list res" where
  "transitions_from versions [] = Inr []"
| "transitions_from versions (i # ixs) =
     bind_res (transition_into versions i) (\<lambda>t.
     bind_res (transitions_from versions ixs) (\<lambda>ts. Inr (case t of None \<Rightarrow> ts | Some x \<Rightarrow> x # ts)))"

definition version_transitions :: "json list \<Rightarrow> transition list res" where
  "version_transitions versions = transitions_from versions [1..<length versions]"

definition get_archived_version_transitions ::
  "('n, 'r) host \<Rightarrow> string \<Rightarrow> ('n, 'r, (transition list \<times> json list) option) act" where
  "get_archived_version_transitions H bill_openstates_id =
     read_detail H bill_openstates_id (\<lambda>data.
       bind_res (get_or_list data ''versions'') (\<lambda>l. bind_res (json_seq l) (\<lambda>versions.
       bind_res (version_transitions versions) (\<lambda>ts.
         Inr (if ts = [] then None else Some (ts, versions))))))"

text \<open>The inputs of the older changelog path: only the last two versions.\<close>

definition changelog_inputs :: "json \<Rightarrow> (transition \<times> json list) option res" where
  "changelog_inputs data =
     bind_res (get_or_list data ''versions'') (\<lambda>l. bind_res (json_seq l) (\<lambda>versions.
       if length versions < 2 then Inr None
       else (let latest = last versions; previous = last (butlast versions) in
         bind_res (attr_get latest ''diff_from_previous_version'' JNull) (\<lambda>diff.
         if \<not> truthy diff then Inr None
         else bind_res (bind_res (text_link previous) link_text) (\<lambda>source. case source of
             None \<Rightarrow> Inr None
           | Some t \<Rightarrow>
               bind_res (attr_get previous ''date'' (JStr [])) (\<lambda>old_date.
               bind_res (attr_get previous ''note'' (JStr [])) (\<lambda>old_note.
               bind_res (attr_get latest ''date'' (JStr [])) (\<lambda>new_date.
               bind_res (attr_get latest ''note'' (JStr [])) (\<lambda>new_note.
                 Inr (Some (\<lparr>tr_old_source = t, tr_diff = diff, tr_old_date = old_date, tr_old_note = old_note,
                   tr_new_date = new_date, tr_new_note = new_note\<rparr>, versions)))))))))))"

definition get_archived_changelog_inputs ::
  "('n, 'r) host \<Rightarrow> string \<Rightarrow> ('n, 'r, (transition \<times> json list) option) act" where
  "get_archived_changelog_inputs H bill_openstates_id = read_detail H bill_openstates_id changelog_inputs"

section \<open>Every operation ends and only reads\<close>

lemma ends_bill_detail [ending]: "ends (bill_detail H bill)"
  unfolding bill_detail_def or_unreachable_def by (intro ending; simp)

lemma sends_bill_detail [sending]: "sends is_read (bill_detail H bill)"
  unfolding bill_detail_def or_unreachable_def by (intro sending; simp add: is_read_def api_get_def)

lemma ends_details [ending]:
  "ends (get_archived_bill_text H bill)"
  "ends (get_bill_version_document_text H bill vnote vdate url)"
  "ends (get_current_version_identity H bill)"
  "ends (get_archived_version_transitions H bill)"
  unfolding get_archived_bill_text_def get_bill_version_document_text_def get_current_version_identity_def
    get_archived_version_transitions_def read_detail_def
  by (intro ending)+

lemma sends_details [sending]:
  "sends is_read (get_archived_bill_text H bill)"
  "sends is_read (get_bill_version_document_text H bill vnote vdate url)"
  "sends is_read (get_current_version_identity H bill)"
  "sends is_read (get_archived_version_transitions H bill)"
  unfolding get_archived_bill_text_def get_bill_version_document_text_def get_current_version_identity_def
    get_archived_version_transitions_def read_detail_def
  by (intro sending)+

end
