(* ===== verification/BillVersions.thy ===== *)
theory BillVersions
  imports BrokerClient LocalOpenstates
begin

text \<open>
  The part of \<open>pipelines/bill_version.py\<close> that the changelog path uses: the best address of a version's text, and the
  backfill of the ledger with every version but the latest.
\<close>

definition usual_type :: "json \<Rightarrow> string res" where
  "usual_type link = bind_res (bind_res (attr_get link ''media_type'' JNull) text_or_empty) (\<lambda>s. Inr (lower s))"

type_synonym best_links = "(json \<times> string) option \<times> (json \<times> string) option"

text \<open>The last PDF and the last page seen; another type only when nothing was kept before.\<close>

fun best_links :: "json list \<Rightarrow> best_links \<Rightarrow> best_links res" where
  "best_links [] acc = Inr acc"
| "best_links (link # links) (pdf, html) =
     bind_res (attr_get link ''url'' (JStr [])) (\<lambda>url. bind_res (usual_type link) (\<lambda>t.
       if \<not> truthy url then best_links links (pdf, html)
       else if contains ''application/pdf'' t then best_links links (Some (url, ''application/pdf''), html)
       else if contains ''text/html'' t then best_links links (pdf, Some (url, ''text/html''))
       else if pdf = None \<and> html = None then best_links links (pdf, Some (url, if t = [] then ''unknown'' else t))
       else best_links links (pdf, html)))"

definition get_best_text_url :: "json \<Rightarrow> (json \<times> string) option res" where
  "get_best_text_url version =
     bind_res (attr_get version ''links'' (JArr [])) (\<lambda>l.
       if \<not> truthy l then Inr None
       else bind_res (json_iter l) (\<lambda>links. bind_res (best_links links (None, None)) (\<lambda>(pdf, html).
         Inr (case pdf of Some x \<Rightarrow> Some x | None \<Rightarrow> html))))"

definition version_key :: "json \<Rightarrow> (json \<times> json) res" where
  "version_key v =
     bind_res (attr_get v ''date'' (JStr [])) (\<lambda>d. bind_res (attr_get v ''note'' (JStr [])) (\<lambda>note. Inr (d, note)))"

text \<open>One version of the ledger; \<open>except Exception\<close> around the write.\<close>

definition record_version ::
  "('n, 'r) host \<Rightarrow> json \<Rightarrow> json \<Rightarrow> json \<Rightarrow> string option \<Rightarrow> string option \<Rightarrow> json \<Rightarrow> json \<Rightarrow> json \<Rightarrow> ('n, 'r, bool) act" where
  "record_version H bill jurisdiction session base token version vdate vnote =
     attempt
       (bnd (lift_res (get_best_text_url version)) (\<lambda>best.
        bnd (write_bill_version H
          [(''bill_openstates_id'', bill), (''jurisdiction'', jurisdiction), (''session_code'', session),
           (''version_date'', vdate), (''version_note'', vnote),
           (''text_url'', case best of None \<Rightarrow> JStr [] | Some (u, t) \<Rightarrow> u),
           (''media_type'', JStr (case best of None \<Rightarrow> [] | Some (u, t) \<Rightarrow> t)),
           (''chunk_count'', JInt 0), (''pinecone_ingested'', JBool False)] base token) (\<lambda>v.
        lift_res (attr_get v ''created'' JNull))))
       (\<lambda>e. if e = OutOfFuel then raise e else ret False)
       (\<lambda>created. ret (truthy created))"

definition backfill_step ::
  "('n, 'r) host \<Rightarrow> json \<Rightarrow> json \<Rightarrow> json \<Rightarrow> json \<times> json \<Rightarrow> string option \<Rightarrow> string option \<Rightarrow> json \<Rightarrow> nat \<Rightarrow> ('n, 'r, nat) act" where
  "backfill_step H bill jurisdiction session latest_key base token version n =
     bnd (lift_res (version_key version)) (\<lambda>(vdate, vnote).
       if (vdate, vnote) = latest_key \<or> \<not> truthy vnote then ret n
       else bnd (record_version H bill jurisdiction session base token version vdate vnote)
         (\<lambda>created. ret (if created then Suc n else n)))"

definition backfill_missing_versions ::
  "('n, 'r) host \<Rightarrow> json \<Rightarrow> json \<Rightarrow> json \<Rightarrow> json list \<Rightarrow> json \<Rightarrow> string option \<Rightarrow> string option \<Rightarrow> ('n, 'r, nat) act" where
  "backfill_missing_versions H bill jurisdiction session versions latest_version base token =
     bnd (lift_res (version_key latest_version)) (\<lambda>latest_key.
       for_each (backfill_step H bill jurisdiction session latest_key base token) versions 0)"

lemma ends_backfill [ending]: "ends (backfill_missing_versions H bill jurisdiction session versions latest base token)"
  unfolding backfill_missing_versions_def backfill_step_def record_version_def by (intro ending; simp)

end
