(* ===== verification/LegbotClient.thy ===== *)
theory LegbotClient
  imports BrokerClient
begin

text \<open>
  The LegBot client (\<open>services/legbot_client.py\<close>): create a task on CAMS, poll it against a deadline of two phases, cancel
  it when giving up, and read its result from the shared disk. The poll loop takes fuel, one unit for each round; used
  up, it raises \<open>OutOfFuel\<close>, and the theorems give the fuel that is enough. The seconds of a timeout are not in its message.
\<close>

section \<open>Tasks\<close>

definition TERMINAL_STATUSES :: "json list" where
  "TERMINAL_STATUSES = [JStr ''completed'', JStr ''failed'', JStr ''cancelled'']"

definition cams_headers :: "('n, 'r) host \<Rightarrow> (string \<times> string) list" where
  "cams_headers H = bearer (cams_api_token (conf H))"

definition task_url :: "('n, 'r) host \<Rightarrow> json \<Rightarrow> string" where
  "task_url H task_id = cams_base_url (conf H) @ ''/api/v1/tasks/'' @ json_str task_id"

definition status_request :: "('n, 'r) host \<Rightarrow> json \<Rightarrow> request" where
  "status_request H task_id =
     \<lparr>req_method = GET, req_url = task_url H task_id, req_headers = cams_headers H, req_params = [], req_body = None\<rparr>"

definition cancel_request :: "('n, 'r) host \<Rightarrow> json \<Rightarrow> request" where
  "cancel_request H task_id =
     \<lparr>req_method = DELETE, req_url = task_url H task_id, req_headers = cams_headers H, req_params = [], req_body = None\<rparr>"

definition create_request :: "('n, 'r) host \<Rightarrow> (string \<times> json) list \<Rightarrow> request" where
  "create_request H payload =
     \<lparr>req_method = POST, req_url = cams_base_url (conf H) @ ''/api/v1/tasks'', req_headers = cams_headers H, req_params = [],
      req_body = Some (JObj [(''bot'', JStr ''legbot''), (''task_type'', JStr ''analyze_bill''), (''payload'', JObj payload)])\<rparr>"

text \<open>One read of the status, raising for an error status.\<close>

definition check_task_status :: "('n, 'r) host \<Rightarrow> json \<Rightarrow> ('n, 'r, json) act" where
  "check_task_status H task_id =
     bnd (http H (status_request H task_id)) (\<lambda>r. bnd (raise_for_status r) (\<lambda>_. json_body r))"

text \<open>A connection error or a server error is retried \<open>n\<close> times; any other failure is raised at once.\<close>

definition transient :: "fault \<Rightarrow> bool" where
  "transient e = (case e of RequestError _ \<Rightarrow> True | HTTPStatusError code _ \<Rightarrow> code \<ge> 500 | _ \<Rightarrow> False)"

fun poll_attempts :: "('n, 'r) host \<Rightarrow> json \<Rightarrow> nat \<Rightarrow> ('n, 'r, json) act" where
  "poll_attempts H task_id 0 = attempt (check_task_status H task_id)
     (\<lambda>e. if transient e then raise (PollGaveUp (fault_text e)) else raise e) ret"
| "poll_attempts H task_id (Suc n) = attempt (check_task_status H task_id)
     (\<lambda>e. if transient e
       then bnd (sleep H (legbot_poll_retry_backoff_seconds (conf H))) (\<lambda>_. poll_attempts H task_id n) else raise e) ret"

definition poll_task_status_with_retry :: "('n, 'r) host \<Rightarrow> json \<Rightarrow> ('n, 'r, json) act" where
  "poll_task_status_with_retry H task_id =
     poll_attempts H task_id (nat (legbot_poll_retry_max_attempts (conf H) - 1))"

text \<open>The cancel request: its own failures are logged only.\<close>

definition cancel_task_best_effort :: "('n, 'r) host \<Rightarrow> json \<Rightarrow> ('n, 'r, unit) act" where
  "cancel_task_best_effort H task_id =
     attempt (bnd (http H (cancel_request H task_id)) raise_for_status)
       (\<lambda>e. case e of RequestError _ \<Rightarrow> ret () | HTTPStatusError _ _ \<Rightarrow> ret () | _ \<Rightarrow> raise e) ret"

section \<open>The result of a task\<close>

record legbot_result =
  lr_answer :: json
  lr_backend :: json
  lr_request_id :: json

definition task_result_path :: "('n, 'r) host \<Rightarrow> string \<Rightarrow> string" where
  "task_result_path H task_id = path_join (path_join (cams_artifacts_dir (conf H)) task_id) ''task_result.json''"

definition type_name :: "json \<Rightarrow> string" where
  "type_name v = (case v of JNull \<Rightarrow> ''NoneType'' | JBool _ \<Rightarrow> ''bool'' | JInt _ \<Rightarrow> ''int'' | JStr _ \<Rightarrow> ''str''
     | JArr _ \<Rightarrow> ''list'' | JObj _ \<Rightarrow> ''dict'')"

definition result_of_snapshot :: "string \<Rightarrow> json \<Rightarrow> fault + legbot_result" where
  "result_of_snapshot task_id snapshot =
     (case snapshot of
        JObj d \<Rightarrow>
          (case dict_get d ''answer'' of
             JNull \<Rightarrow> Inl (LegBotDispatchError (''task_result.json for '' @ task_id @ '' has no '' @ [quote1] @ ''answer'' @ [quote1] @
               '' key: '' @ json_str snapshot))
           | JObj a \<Rightarrow> Inr \<lparr>lr_answer = JObj a, lr_backend = dict_get d ''backend'', lr_request_id = dict_get d ''request_id''\<rparr>
           | v \<Rightarrow> Inl (LegBotDispatchError (''task_result.json for '' @ task_id @ '' has a non-dict '' @ [quote1] @ ''answer'' @ [quote1] @
               '' (got '' @ type_name v @ ''): '' @ json_repr v)))
      | _ \<Rightarrow> Inl (Raised (OtherError ''AttributeError'')))"

definition read_task_result :: "('n, 'r) host \<Rightarrow> json \<Rightarrow> ('n, 'r, legbot_result) act" where
  "read_task_result H task_id =
     (case task_id of
        JStr t \<Rightarrow> bnd (read_file H (task_result_path H t)) (\<lambda>x. case x of
            Inl e \<Rightarrow> raise (LegBotDispatchError (''Could not read task_result.json for '' @ t @ '': '' @ e))
          | Inr snapshot \<Rightarrow> (case result_of_snapshot t snapshot of Inl e \<Rightarrow> raise e | Inr r \<Rightarrow> ret r))
      | _ \<Rightarrow> raise (Raised TypeError))"

section \<open>Dispatch and wait\<close>

record poll_state =
  deadline :: rat
  generation_started_seen :: bool
  legacy_no_marker_field :: bool
  last_status :: json

definition marker :: string where "marker = ''mlx_generation_started_at''"

text \<open>What a round does to the deadline, at the time \<open>t\<close>.\<close>

definition after_body :: "rat \<Rightarrow> rat \<Rightarrow> rat \<Rightarrow> json \<Rightarrow> poll_state \<Rightarrow> poll_state" where
  "after_body dispatch_time timeout t body p =
     (let d = (case body of JObj d \<Rightarrow> d | _ \<Rightarrow> []) in
      if marker \<notin> fst ` set d then
        (if legacy_no_marker_field p then p
         else p\<lparr>legacy_no_marker_field := True, deadline := dispatch_time + timeout\<rparr>)
      else if \<not> generation_started_seen p \<and> truthy (dict_get d marker) then
        p\<lparr>generation_started_seen := True, deadline := t + timeout\<rparr>
      else p)"

text \<open>\<open>True\<close> with the last state: the task reached a terminal status; \<open>False\<close>: the deadline passed.\<close>

fun poll_loop :: "('n, 'r) host \<Rightarrow> json \<Rightarrow> rat \<Rightarrow> rat \<Rightarrow> nat \<Rightarrow> poll_state \<Rightarrow> ('n, 'r, bool \<times> poll_state) act" where
  "poll_loop H task_id dispatch_time timeout 0 p = raise OutOfFuel"
| "poll_loop H task_id dispatch_time timeout (Suc fuel) p =
     bnd (now H) (\<lambda>t.
       if \<not> t < deadline p then ret (False, p)
       else attempt (poll_task_status_with_retry H task_id)
         (\<lambda>e. case e of
             PollGaveUp m \<Rightarrow> bnd (cancel_task_best_effort H task_id) (\<lambda>_. raise (LegBotDispatchError
               (''LegBot task '' @ json_str task_id @ '' status poll failed after '' @
                int_str (legbot_poll_retry_max_attempts (conf H)) @ '' attempts: '' @ m)))
           | _ \<Rightarrow> raise e)
         (\<lambda>body. bnd (lift_res (subscript body ''status'')) (\<lambda>st.
           let p = p\<lparr>last_status := st\<rparr> in
           if st \<in> set TERMINAL_STATUSES then ret (True, p)
           else bnd (now H) (\<lambda>t'.
             bnd (sleep H (legbot_poll_interval_seconds (conf H))) (\<lambda>_.
               poll_loop H task_id dispatch_time timeout fuel (after_body dispatch_time timeout t' body p))))))"

definition timeout_error :: "json \<Rightarrow> poll_state \<Rightarrow> fault" where
  "timeout_error task_id p = LegBotDispatchError
     (''LegBot task '' @ json_str task_id @ '' did not finish within its timeout window ('' @
      (if legacy_no_marker_field p then ''legacy dispatch timeout''
       else if generation_started_seen p then ''inference timeout (generation had started)''
       else ''queue-wait timeout (generation never started)'') @
      '') (last status: '' @ json_str (last_status p) @ '')'')"

text \<open>What follows the loop: the status must be \<open>completed\<close>, and the result must be for this request.\<close>

definition collect :: "('n, 'r) host \<Rightarrow> json \<Rightarrow> json \<Rightarrow> poll_state \<Rightarrow> ('n, 'r, legbot_result) act" where
  "collect H request_id task_id p =
     (if last_status p \<noteq> JStr ''completed''
      then raise (LegBotDispatchError (''LegBot task '' @ json_str task_id @ '' ended with status='' @ json_str (last_status p)))
      else bnd (read_task_result H task_id) (\<lambda>x.
        if request_id \<noteq> JNull \<and> lr_request_id x \<noteq> request_id
        then raise (LegBotDispatchError (''LegBot task '' @ json_str task_id @ '' answered for request_id '' @
          json_repr (lr_request_id x) @ '', not '' @ json_repr request_id @ '': its result is ignored''))
        else ret x))"

definition await_task :: "('n, 'r) host \<Rightarrow> nat \<Rightarrow> json \<Rightarrow> json \<Rightarrow> rat \<Rightarrow> ('n, 'r, legbot_result) act" where
  "await_task H fuel request_id task_id timeout =
     bnd (now H) (\<lambda>dispatch_time.
     bnd (poll_loop H task_id dispatch_time timeout fuel
            \<lparr>deadline = dispatch_time + legbot_queue_wait_timeout_seconds (conf H), generation_started_seen = False,
             legacy_no_marker_field = False, last_status = JStr ''queued''\<rparr>) (\<lambda>(finished, p).
       if finished then collect H request_id task_id p
       else bnd (cancel_task_best_effort H task_id) (\<lambda>_. raise (timeout_error task_id p))))"

definition dispatch_and_await ::
  "('n, 'r) host \<Rightarrow> nat \<Rightarrow> (string \<times> json) list \<Rightarrow> rat option \<Rightarrow> (json \<Rightarrow> ('n, 'r, unit) act) option \<Rightarrow>
    ('n, 'r, legbot_result) act" where
  "dispatch_and_await H fuel payload timeout_seconds on_task_created =
     (if cams_artifacts_dir (conf H) = []
      then raise (LegBotDispatchError (''CAMS_ARTIFACTS_DIR is not configured - cannot read LegBot'' @ [quote1] @ ''s result.''))
      else
        (let timeout = (case timeout_seconds of None \<Rightarrow> legbot_dispatch_timeout_seconds (conf H) | Some t \<Rightarrow> t);
             request_id = dict_get payload ''request_id'' in
         bnd (http H (create_request H payload)) (\<lambda>r.
           if request_id \<noteq> JNull \<and> status_code r = 409
           then raise (LegBotDispatchError (''LegBot has request_id '' @ json_repr request_id @
             '' claimed but no task stored for it (409): retry in a moment, or send a new request_id''))
           else bnd (raise_for_status r) (\<lambda>_.
             bnd (json_body r) (\<lambda>v. bnd (lift_res (subscript v ''task_id'')) (\<lambda>task_id.
             bnd (case on_task_created of None \<Rightarrow> ret () | Some f \<Rightarrow> f task_id) (\<lambda>_.
               await_task H fuel request_id task_id timeout)))))))"

section \<open>The question types\<close>

definition redo_payload :: "json \<Rightarrow> json res" where
  "redo_payload redo =
     bind_res (subscript redo ''reason'') (\<lambda>reason. bind_res (attr_get redo ''note'' JNull) (\<lambda>note.
       Inr (JObj ([(''reason'', reason)] @ (if truthy note then [(''note'', note)] else [])))))"

definition question_payload :: "json \<Rightarrow> string \<Rightarrow> json option \<Rightarrow> string option \<Rightarrow> json option \<Rightarrow> (string \<times> json) list res" where
  "question_payload bill_source question_type topic_list request_id redo =
     bind_res (case topic_list of
         None \<Rightarrow> Inr []
       | Some l \<Rightarrow> bind_res (bind_res (subscript l ''topics'') json_iter) (\<lambda>ts.
           bind_res (subscript l ''max_topics'') (\<lambda>m. bind_res (subscript l ''version'') (\<lambda>v.
             Inr [(''topics'', JArr ts), (''max_topics'', m), (''topics_version'', v)])))) (\<lambda>topics.
     if redo \<noteq> None \<and> request_id = None
     then Inl (ValueError ''a redo needs a request_id (the contract refuses one without)'')
     else bind_res (case redo of None \<Rightarrow> Inr [] | Some x \<Rightarrow> bind_res (redo_payload x) (\<lambda>y. Inr [(''redo'', y)])) (\<lambda>redos.
       Inr ([(''bill_source'', bill_source), (''question_type'', JStr question_type), (''caller'', JStr ''ddp_sync'')] @ topics @
            (case request_id of None \<Rightarrow> [] | Some i \<Rightarrow> [(''request_id'', JStr i)]) @ redos)))"

definition dispatch_bill_question ::
  "('n, 'r) host \<Rightarrow> nat \<Rightarrow> json \<Rightarrow> string \<Rightarrow> json option \<Rightarrow> string option \<Rightarrow> json option \<Rightarrow> ('n, 'r, legbot_result) act" where
  "dispatch_bill_question H fuel bill_source question_type topic_list request_id redo =
     bnd (lift_res (question_payload bill_source question_type topic_list request_id redo)) (\<lambda>payload.
       dispatch_and_await H fuel payload None None)"

definition dispatch_bill_changelog ::
  "('n, 'r) host \<Rightarrow> nat \<Rightarrow> json \<Rightarrow> json \<Rightarrow> (json \<Rightarrow> ('n, 'r, unit) act) option \<Rightarrow> ('n, 'r, legbot_result) act" where
  "dispatch_bill_changelog H fuel old_bill_source diff_source on_task_created =
     dispatch_and_await H fuel
       [(''old_bill_source'', old_bill_source), (''diff_source'', diff_source), (''diff_format'', JStr ''unified_diff_v1''),
        (''question_type'', JStr ''bill_changelog''), (''caller'', JStr ''ddp_sync'')] None on_task_created"

definition dispatch_bill_position_verification ::
  "('n, 'r) host \<Rightarrow> nat \<Rightarrow> json \<Rightarrow> json \<Rightarrow> ('n, 'r, legbot_result) act" where
  "dispatch_bill_position_verification H fuel url claim =
     dispatch_and_await H fuel [(''url'', url), (''claim'', claim), (''question_type'', JStr ''verify_bill_position''),
       (''caller'', JStr ''ddp_sync'')] None None"

definition dispatch_describe_organization :: "('n, 'r) host \<Rightarrow> nat \<Rightarrow> json \<Rightarrow> ('n, 'r, legbot_result) act" where
  "dispatch_describe_organization H fuel org_name =
     dispatch_and_await H fuel [(''org_name'', org_name), (''question_type'', JStr ''describe_organization''),
       (''caller'', JStr ''ddp_sync'')] None None"

definition dispatch_resolve_organization ::
  "('n, 'r) host \<Rightarrow> nat \<Rightarrow> json \<Rightarrow> json \<Rightarrow> json \<Rightarrow> json \<Rightarrow> ('n, 'r, legbot_result) act" where
  "dispatch_resolve_organization H fuel org_name candidates citation_url citation_excerpt =
     dispatch_and_await H fuel [(''org_name'', org_name), (''citation_url'', citation_url),
       (''citation_excerpt'', citation_excerpt), (''candidates'', candidates), (''question_type'', JStr ''resolve_organization''),
       (''caller'', JStr ''ddp_sync'')] None None"

section \<open>The wait ends\<close>

text \<open>The clock is steady, the pauses are positive, and the fuel covers the wait: the deadline is set at most three
  times, each time at most one timeout ahead, and every round takes at least one poll interval.\<close>

definition polls_needed :: "settings \<Rightarrow> nat" where
  "polls_needed cfg =
     3 * (nat \<lceil>max (legbot_queue_wait_timeout_seconds cfg) (legbot_dispatch_timeout_seconds cfg) / legbot_poll_interval_seconds cfg\<rceil> + 1)"

definition patient :: "('n, 'r) host \<Rightarrow> nat \<Rightarrow> bool" where
  "patient H fuel = (steady_clock (network H) \<and> 0 < legbot_poll_interval_seconds (conf H) \<and>
     0 \<le> legbot_poll_retry_backoff_seconds (conf H) \<and> polls_needed (conf H) \<le> fuel)"

lemma patientD:
  assumes "patient H fuel"
  shows "steady_clock (network H)" "0 < legbot_poll_interval_seconds (conf H)"
    "0 \<le> legbot_poll_retry_backoff_seconds (conf H)" "polls_needed (conf H) \<le> fuel"
  using assms unfolding patient_def by blast+

lemma ends_poll [ending]: "ends (poll_task_status_with_retry H task_id)"
proof -
  have "ends (poll_attempts H task_id n)" for n
    by (induction n) (simp_all add: check_task_status_def, (intro ending; simp)+)
  then show ?thesis by (simp add: poll_task_status_with_retry_def)
qed

lemma ends_cancel [ending]: "ends (cancel_task_best_effort H task_id)"
  unfolding cancel_task_best_effort_def by (intro ending; simp)

lemma forward_poll:
  assumes "patient H fuel"
  shows "forward H (poll_task_status_with_retry H task_id)"
proof -
  note [forwards] = patientD(1)[OF assms] patientD(3)[OF assms]
  have "forward H (poll_attempts H task_id n)" for n
    by (induction n) (simp_all add: check_task_status_def, (intro forwards | assumption)+)
  then show ?thesis by (simp add: poll_task_status_with_retry_def)
qed

definition flags_left :: "poll_state \<Rightarrow> nat" where
  "flags_left p = (if generation_started_seen p then 0 else 1) + (if legacy_no_marker_field p then 0 else 1)"

text \<open>A round leaves the deadline alone, or sets a flag and with it a deadline that is at most one timeout ahead.\<close>

lemma after_body_cases:
  assumes "dispatch_time \<le> t"
  shows "deadline (after_body dispatch_time timeout t body p) = deadline p \<and>
      flags_left (after_body dispatch_time timeout t body p) = flags_left p \<or>
    deadline (after_body dispatch_time timeout t body p) \<le> t + timeout \<and>
      Suc (flags_left (after_body dispatch_time timeout t body p)) = flags_left p"
  using assms by (auto simp: after_body_def flags_left_def Let_def)

lemma poll_loop_ends:
  assumes "patient H fuel'" and bound: "timeout \<le> of_nat k * legbot_poll_interval_seconds (conf H)"
  shows "n + 1 + flags_left p * (k + 1) \<le> fuel \<Longrightarrow> deadline p - time_of H s \<le> of_nat n * legbot_poll_interval_seconds (conf H) \<Longrightarrow>
    dispatch_time \<le> time_of H s \<Longrightarrow> fst (poll_loop H task_id dispatch_time timeout fuel p s) \<noteq> Inl OutOfFuel"
proof (induction fuel arbitrary: n p s)
  case (Suc fuel)
  let ?d = "legbot_poll_interval_seconds (conf H)"
  note H = patientD[OF assms(1)]
  obtain x s1 where poll: "poll_task_status_with_retry H task_id s = (x, s1)"
    by (cases "poll_task_status_with_retry H task_id s")
  have t1: "time_of H s \<le> time_of H s1"
    using forwardD[OF forward_poll[OF assms(1)] poll] .
  have now: "n_time (network H) (net s) = time_of H s" for s by (simp add: time_of_def)
  define s2 where "s2 = snd (sleep H ?d s1)"
  have t2: "time_of H s1 + ?d \<le> time_of H s2"
    using steady_clock.sleep_time[OF H(1)] H(2) by (simp add: s2_def acts time_of_def)
  show ?case
  proof (cases "time_of H s < deadline p")
    case False
    then show ?thesis by (simp add: acts now)
  next
    case before: True
    show ?thesis
    proof (cases x)
      case (Inl e)
      have "e \<noteq> OutOfFuel" using ends_poll[of H task_id] poll Inl by (metis endsD)
      moreover have "fst (cancel_task_best_effort H task_id s) \<noteq> Inl OutOfFuel" for s
        using ends_cancel[of H task_id] by (simp add: ends_def)
      ultimately show ?thesis using before poll Inl
        by (auto simp: acts now split: fault.split prod.split sum.split) (metis fst_conv)+
    next
      case (Inr body)
      show ?thesis
      proof (cases "subscript body ''status''")
        case st: (Inr st)
        let ?p = "p\<lparr>last_status := st\<rparr>"
        show ?thesis
        proof (cases "st \<in> set TERMINAL_STATUSES")
          case False
          define q where "q = after_body dispatch_time timeout (time_of H s1) body ?p"
          have le: "dispatch_time \<le> time_of H s1" "dispatch_time \<le> time_of H s2" using Suc.prems(3) t1 t2 H(2) by linarith+
          have flags: "flags_left ?p = flags_left p" by (simp add: flags_left_def)
          have "fst (poll_loop H task_id dispatch_time timeout fuel q s2) \<noteq> Inl OutOfFuel"
            using after_body_cases[OF le(1), of timeout body ?p, folded q_def]
          proof (elim disjE conjE)
            assume q: "deadline q = deadline ?p" "flags_left q = flags_left ?p"
            have "0 < of_nat n * ?d" using before Suc.prems(2) by linarith
            then obtain m where m: "n = Suc m" by (cases n) auto
            have "deadline q - time_of H s2 \<le> of_nat m * ?d"
              using Suc.prems(2) q(1) t1 t2 m by (simp add: algebra_simps)
            then show ?thesis using Suc.prems(1) q(2) flags m le(2) by (intro Suc.IH) auto
          next
            assume q: "deadline q \<le> time_of H s1 + timeout" "Suc (flags_left q) = flags_left ?p"
            have "deadline q - time_of H s2 \<le> of_nat k * ?d" using q(1) t2 bound H(2) by linarith
            moreover have "flags_left p = Suc (flags_left q)" using q(2) flags by simp
            ultimately show ?thesis using Suc.prems(1) le(2) by (intro Suc.IH) auto
          qed
          then show ?thesis using before poll Inr st False by (simp add: acts now q_def s2_def)
        qed (use before poll Inr st in \<open>simp add: acts now Let_def\<close>)
      qed (use before poll Inr in \<open>simp add: acts now\<close>)
    qed
  qed
qed simp

lemma within_polls:
  assumes "0 < legbot_poll_interval_seconds cfg"
    and "x \<le> max (legbot_queue_wait_timeout_seconds cfg) (legbot_dispatch_timeout_seconds cfg)"
  shows "x \<le> of_nat (nat \<lceil>max (legbot_queue_wait_timeout_seconds cfg) (legbot_dispatch_timeout_seconds cfg) /
    legbot_poll_interval_seconds cfg\<rceil>) * legbot_poll_interval_seconds cfg"
proof -
  let ?m = "max (legbot_queue_wait_timeout_seconds cfg) (legbot_dispatch_timeout_seconds cfg)"
  let ?d = "legbot_poll_interval_seconds cfg"
  have "?m / ?d \<le> of_int \<lceil>?m / ?d\<rceil>" by (rule le_of_int_ceiling)
  also have "\<dots> \<le> of_nat (nat \<lceil>?m / ?d\<rceil>)" by simp
  finally have "?m \<le> of_nat (nat \<lceil>?m / ?d\<rceil>) * ?d" using assms(1) by (simp only: pos_divide_le_eq)
  with assms(2) show ?thesis by (rule order_trans)
qed

lemma ends_collect [ending]: "ends (collect H request_id task_id p)"
  unfolding collect_def read_task_result_def by (intro ending; (auto simp: result_of_snapshot_def split: json.splits)?)

lemma ends_await_task:
  fixes H :: "('n, 'r) host"
  assumes "patient H fuel"
  shows "ends (await_task H fuel request_id task_id (legbot_dispatch_timeout_seconds (conf H)))"
  unfolding ends_def
proof
  fix s :: "('n, 'r) site"
  let ?cfg = "conf H"
  define k where "k = nat \<lceil>max (legbot_queue_wait_timeout_seconds ?cfg) (legbot_dispatch_timeout_seconds ?cfg) / legbot_poll_interval_seconds ?cfg\<rceil>"
  note H = patientD[OF assms]
  note within = within_polls[OF H(2), folded k_def]
  let ?p = "\<lparr>deadline = n_time (network H) (net s) + legbot_queue_wait_timeout_seconds ?cfg, generation_started_seen = False,
             legacy_no_marker_field = False, last_status = JStr ''queued''\<rparr>"
  have "fst (poll_loop H task_id (n_time (network H) (net s)) (legbot_dispatch_timeout_seconds ?cfg) fuel ?p s) \<noteq> Inl OutOfFuel"
  proof (rule poll_loop_ends[OF assms, where k = k and n = k])
    show "k + 1 + flags_left ?p * (k + 1) \<le> fuel" using H(4) by (simp add: flags_left_def polls_needed_def k_def)
    show "deadline ?p - time_of H s \<le> of_nat k * legbot_poll_interval_seconds ?cfg" using within by (simp add: time_of_def)
  qed (use within in \<open>simp_all add: time_of_def\<close>)
  moreover have "ends (if finished then collect H request_id task_id p else bnd (cancel_task_best_effort H task_id) (\<lambda>_. raise (timeout_error task_id p)))"
    for finished p
    by (intro ending) (simp add: timeout_error_def)
  ultimately show "fst (await_task H fuel request_id task_id (legbot_dispatch_timeout_seconds ?cfg) s) \<noteq> Inl OutOfFuel"
    unfolding await_task_def by (auto simp: acts ends_def split: prod.split sum.split)
qed

lemma ends_dispatch_and_await:
  assumes "patient H fuel" "\<And>f x. on_task_created = Some f \<Longrightarrow> ends (f x)"
  shows "ends (dispatch_and_await H fuel payload None on_task_created)"
  unfolding dispatch_and_await_def by (intro ending; (simp add: assms ends_await_task)?)

lemma ends_questions [ending]:
  assumes "patient H fuel"
  shows "ends (dispatch_bill_question H fuel bill_source question_type topic_list request_id redo)"
    and "(\<And>x. ends (f x)) \<Longrightarrow> ends (dispatch_bill_changelog H fuel old_bill_source diff_source (Some f))"
    and "ends (dispatch_bill_position_verification H fuel url claim)"
    and "ends (dispatch_describe_organization H fuel org_name)"
    and "ends (dispatch_resolve_organization H fuel org_name candidates citation_url citation_excerpt)"
  unfolding dispatch_bill_question_def dispatch_bill_changelog_def dispatch_bill_position_verification_def
    dispatch_describe_organization_def dispatch_resolve_organization_def
  by (intro ending ends_dispatch_and_await[OF assms]; simp)+

end
