(* ===== verification/ArtifactGeneration.thy ===== *)
theory ArtifactGeneration
  imports BillVersions LegbotClient RedisStore
begin

text \<open>
  From a LegBot answer to a row in the broker (\<open>pipelines/bill_artifact_generation.py\<close>): the content of each artifact
  type, the dispatch of one artifact, the changelog of every version transition, the background task of
  the on-demand endpoint, and the sweep that recovers dispatches whose process died. \<open>casefold\<close> is
  \<open>lower\<close> on ASCII letters. The nonlocal \<open>dispatched_task_id\<close> is \<open>current_task\<close> of the state.
\<close>

section \<open>Contents\<close>

definition ARTIFACT_TYPE_TO_QUESTION_TYPE :: "(string \<times> string) list" where
  "ARTIFACT_TYPE_TO_QUESTION_TYPE =
     [(''bill_summary'', ''summary_500char''), (''bill_pros_cons'', ''pros_cons''),
      (''bill_vote_yes_frame'', ''vote_yes_frame''), (''bill_vote_no_frame'', ''vote_no_frame''),
      (''bill_supporting_orgs'', ''supporting_orgs''), (''bill_opposing_orgs'', ''opposing_orgs''),
      (''bill_impact_analysis'', ''impact_analysis''), (''bill_topics'', ''bill_topics'')]"

definition TEXT_ANSWER_ARTIFACT_TYPES :: "string list" where
  "TEXT_ANSWER_ARTIFACT_TYPES = [''bill_summary'', ''bill_vote_yes_frame'', ''bill_vote_no_frame'']"

definition ORG_TYPES_ANSWER_ARTIFACT_TYPES :: "string list" where
  "ORG_TYPES_ANSWER_ARTIFACT_TYPES = [''bill_supporting_orgs'', ''bill_opposing_orgs'']"

fun lines_of :: "string list \<Rightarrow> string" where
  "lines_of [] = []"
| "lines_of [x] = x"
| "lines_of (x # y # xs) = x @ [newline] @ lines_of (y # xs)"

definition bullet_list :: "json \<Rightarrow> string res" where
  "bullet_list v =
     (if \<not> truthy v then Inr ''- None''
      else bind_res (json_iter v) (\<lambda>xs. Inr (lines_of (map (\<lambda>x. ''- '' @ json_str x) xs))))"

definition changelog_content :: "json \<Rightarrow> json \<Rightarrow> json \<Rightarrow> string res" where
  "changelog_content answer old_note new_note =
     bind_res (bind_res (get_or_list answer ''sections_added'') bullet_list) (\<lambda>added.
     bind_res (bind_res (get_or_list answer ''sections_removed'') bullet_list) (\<lambda>removed.
     bind_res (bind_res (get_or_list answer ''sections_modified'') bullet_list) (\<lambda>modified.
     bind_res (attr_get answer ''policy_implications'' JNull) (\<lambda>implications.
       Inr (lines_of
         [''**From:** '' @ json_str old_note, ''**To:** '' @ json_str new_note, [],
          ''### Sections Added'', added, [], ''### Sections Removed'', removed, [],
          ''### Sections Modified'', modified, [], ''### Key Policy Implications'',
          if truthy implications then json_str implications else ''None noted.''])))))"

definition CHANGELOG_STRUCTURAL_FIELDS :: "string list" where
  "CHANGELOG_STRUCTURAL_FIELDS = [''sections_added'', ''sections_removed'', ''sections_modified'']"

definition has_structural_content :: "(string \<times> json) list \<Rightarrow> bool" where
  "has_structural_content answer = list_ex (\<lambda>k. truthy (dict_get answer k)) CHANGELOG_STRUCTURAL_FIELDS"

section \<open>Bill topics\<close>

text \<open>The names of the list by their folded form; a later name takes the place of an earlier one.\<close>

definition fold_name :: "string \<Rightarrow> string" where
  "fold_name s = lower (strip s)"

definition canonical_names :: "string list \<Rightarrow> string \<rightharpoonup> string" where
  "canonical_names names = map_of (rev (map (\<lambda>n. (fold_name n, n)) names))"

definition canonicalize_bill_topic :: "string list \<Rightarrow> json \<Rightarrow> string option res" where
  "canonicalize_bill_topic names raw =
     (case raw of JStr s \<Rightarrow> Inr (canonical_names names (fold_name s)) | _ \<Rightarrow> Inl (OtherError ''AttributeError''))"

fun surviving_topics :: "string list \<Rightarrow> json list \<Rightarrow> string list \<Rightarrow> string list res" where
  "surviving_topics names [] acc = Inr acc"
| "surviving_topics names (raw # raws) acc =
     bind_res (canonicalize_bill_topic names raw) (\<lambda>c.
       surviving_topics names raws (case c of None \<Rightarrow> acc | Some t \<Rightarrow> if t \<in> set acc then acc else acc @ [t]))"

definition capped_topics :: "int \<Rightarrow> string option \<Rightarrow> string list \<Rightarrow> string list" where
  "capped_topics max_topics primary topics =
     (if int (length topics) > max_topics then
        (case primary of
           Some p \<Rightarrow> p # slice_to (max_topics - 1) (filter (\<lambda>t. t \<noteq> p) topics)
         | None \<Rightarrow> slice_to max_topics topics)
      else topics)"

definition filter_bill_topics :: "(string \<times> json) list \<Rightarrow> string list \<Rightarrow> int \<Rightarrow> (string \<times> string list) option res" where
  "filter_bill_topics answer names max_topics =
     bind_res (json_iter (or_list (dict_get answer ''topics''))) (\<lambda>raws.
     bind_res (surviving_topics names raws []) (\<lambda>topics.
     (let raw_primary = dict_get answer ''primary_topic'' in
      bind_res (if truthy raw_primary then canonicalize_bill_topic names raw_primary else Inr None) (\<lambda>primary.
      (let topics = (case primary of Some p \<Rightarrow> if p \<notin> set topics then p # topics else topics | None \<Rightarrow> topics);
           topics = capped_topics max_topics primary topics in
       Inr (case topics of
           [] \<Rightarrow> None
         | t # _ \<Rightarrow> Some (case primary of Some p \<Rightarrow> p | None \<Rightarrow> t, topics)))))))"

definition bill_topics_content :: "string \<Rightarrow> string list \<Rightarrow> string" where
  "bill_topics_content primary topics =
     ''**Primary:** '' @ primary @ [newline, newline] @
     (if topics = [] then ''- None'' else lines_of (map (\<lambda>t. ''- '' @ t) topics))"

text \<open>The list of names and the bound of a list that \<open>usable_taxonomy\<close> accepted.\<close>

definition taxonomy_names :: "json \<Rightarrow> string list" where
  "taxonomy_names taxonomy =
     (case taxonomy of
        JObj d \<Rightarrow> (case dict_get d ''topics'' of JArr ts \<Rightarrow> map json_str ts | _ \<Rightarrow> [])
      | _ \<Rightarrow> [])"

definition taxonomy_bound :: "json \<Rightarrow> int" where
  "taxonomy_bound taxonomy =
     (case taxonomy of JObj d \<Rightarrow> (case dict_get d ''max_topics'' of JInt n \<Rightarrow> n | _ \<Rightarrow> 0) | _ \<Rightarrow> 0)"

definition BILL_TOPICS_CACHE_SECONDS :: rat where "BILL_TOPICS_CACHE_SECONDS = 300"

text \<open>The list, cached per broker; when a refresh fails, the list it gave last.\<close>

definition bill_topics_taxonomy :: "('n, 'r) host \<Rightarrow> string option \<Rightarrow> string option \<Rightarrow> ('n, 'r, json) act" where
  "bill_topics_taxonomy H base token =
     (let key = resolved base (ddp_broker_api_base (conf H)) in
      bnd (current (\<lambda>s. topics_cache s key)) (\<lambda>cached.
      bnd (now H) (\<lambda>t.
        if (case cached of Some (t0, l) \<Rightarrow> t - t0 < BILL_TOPICS_CACHE_SECONDS | None \<Rightarrow> False) then ret (snd (the cached))
        else attempt (get_bill_topics_taxonomy H base token)
          (\<lambda>e. case e of
              BrokerClientError m \<Rightarrow> (case cached of
                  None \<Rightarrow> raise (BrokerClientError (''no bill-topics list, bill_topics not generated: '' @ m))
                | Some (t0, l) \<Rightarrow> ret l)
            | _ \<Rightarrow> raise e)
          (\<lambda>taxonomy. bnd (now H) (\<lambda>t'. bnd (update (\<lambda>s. s\<lparr>topics_cache := (topics_cache s)(key \<mapsto> (t', taxonomy))\<rparr>))
            (\<lambda>_. ret taxonomy))))))"

section \<open>One artifact\<close>

definition content_from_answer :: "string \<Rightarrow> json \<Rightarrow> json res" where
  "content_from_answer artifact_type answer =
     (if artifact_type \<in> set TEXT_ANSWER_ARTIFACT_TYPES then subscript answer ''text''
      else if artifact_type = ''bill_pros_cons'' then
        bind_res (subscript answer ''pros'') (\<lambda>p. bind_res (subscript answer ''cons'') (\<lambda>c.
          Inr (JStr (json_dumps (JObj [(''pros'', p), (''cons'', c)])))))
      else if artifact_type \<in> set ORG_TYPES_ANSWER_ARTIFACT_TYPES then
        bind_res (subscript answer ''org_types'') (\<lambda>o'. Inr (JStr (json_dumps (JObj [(''org_types'', o')]))))
      else if artifact_type = ''bill_impact_analysis'' then
        bind_res (subscript answer ''affected_parties'') (\<lambda>a.
        bind_res (subscript answer ''fiscal_or_programmatic_effects'') (\<lambda>f.
        bind_res (subscript answer ''effective_date'') (\<lambda>d.
          Inr (JStr (json_dumps (JObj [(''affected_parties'', a), (''fiscal_or_programmatic_effects'', f), (''effective_date'', d)]))))))
      else Inl (ValueError (''Unsupported artifact_type for content extraction: '' @ artifact_type)))"

text \<open>Which version of which bill a row belongs to, and where it goes.\<close>

record row_key =
  rk_bill :: json
  rk_jurisdiction :: json
  rk_session :: json
  rk_date :: json
  rk_note :: json
  rk_target :: json
  rk_base :: "string option"
  rk_token :: "string option"

definition key_args :: "row_key \<Rightarrow> (string \<times> json) list" where
  "key_args k =
     [(''bill_openstates_id'', rk_bill k), (''jurisdiction'', rk_jurisdiction k), (''session_code'', rk_session k),
      (''version_date'', rk_date k), (''version_note'', rk_note k), (''artifact_id'', rk_target k)]"

definition write_row ::
  "('n, 'r) host \<Rightarrow> row_key \<Rightarrow> string \<Rightarrow> json \<Rightarrow> string \<Rightarrow> (string \<times> json) list \<Rightarrow> ('n, 'r, json) act" where
  "write_row H k artifact_type contents status extra =
     write_bill_artifact H (key_args k @ [(''artifact_type'', JStr artifact_type), (''content'', contents),
       (''status'', JStr status)] @ extra) (rk_base k) (rk_token k)"

text \<open>\<open>{**broker_result, "status": status}\<close>.\<close>

definition with_status :: "string \<Rightarrow> json \<Rightarrow> json" where
  "with_status status v = (case v of JObj d \<Rightarrow> JObj (dict_set ''status'' (JStr status) d) | _ \<Rightarrow> v)"

definition write_outcome ::
  "('n, 'r) host \<Rightarrow> row_key \<Rightarrow> string \<Rightarrow> json \<Rightarrow> string \<Rightarrow> (string \<times> json) list \<Rightarrow> ('n, 'r, json) act" where
  "write_outcome H k artifact_type contents status extra =
     bnd (write_row H k artifact_type contents status extra) (\<lambda>v. ret (with_status status v))"

definition failed_because :: "json \<Rightarrow> (string \<times> json) list" where
  "failed_because reason = [(''failure_stage'', JStr ''generation''), (''failure_reason'', reason)]"

definition not_applicable :: json where
  "not_applicable = JObj [(''status'', JStr ''not_applicable'')]"

definition resolve_bill_source :: "('n, 'r) host \<Rightarrow> json \<Rightarrow> ('n, 'r, json option) act" where
  "resolve_bill_source H bill = bnd (get_archived_bill_text H (json_str bill)) (\<lambda>t.
     ret (case t of Some v \<Rightarrow> if truthy v then Some v else None | None \<Rightarrow> None))"

text \<open>What is written for an answer.\<close>

definition store_answer ::
  "('n, 'r) host \<Rightarrow> row_key \<Rightarrow> string \<Rightarrow> json option \<Rightarrow> legbot_result \<Rightarrow> ('n, 'r, json) act" where
  "store_answer H k artifact_type taxonomy result =
     (let answer = (case lr_answer result of JObj d \<Rightarrow> d | _ \<Rightarrow> []);
          common = [(''model_name'', lr_backend result),
            (''generation_config'', case taxonomy of None \<Rightarrow> JNull | Some t \<Rightarrow>
               JObj [(''bill_topics_list_version'', case t of JObj d \<Rightarrow> dict_get d ''version'' | _ \<Rightarrow> JNull)])] in
      if truthy (dict_get answer ''insufficient_information'')
      then write_outcome H k artifact_type (JStr []) ''failed'' (failed_because (JStr ''insufficient_information'') @ common)
      else bnd (lift_res (case taxonomy of
            Some t \<Rightarrow> bind_res (filter_bill_topics answer (taxonomy_names t) (taxonomy_bound t))
              (\<lambda>found. Inr (map_option (\<lambda>(p, ts). JStr (bill_topics_content p ts)) found))
          | None \<Rightarrow> bind_res (content_from_answer artifact_type (JObj answer)) (\<lambda>v. Inr (Some v)))) (\<lambda>contents.
        (case contents of
           None \<Rightarrow> write_outcome H k artifact_type (JStr []) ''failed'' (failed_because (JStr ''no_valid_topics'') @ common)
         | Some v \<Rightarrow> write_outcome H k artifact_type v ''complete''
             ((''source_support'', dict_get answer ''source_support'') # common))))"

definition generate_and_store_bill_artifact ::
  "('n, 'r) host \<Rightarrow> nat \<Rightarrow> row_key \<Rightarrow> string \<Rightarrow> string option \<Rightarrow> json option \<Rightarrow> ('n, 'r, json) act" where
  "generate_and_store_bill_artifact H fuel k artifact_type request_id redo =
     (case map_of ARTIFACT_TYPE_TO_QUESTION_TYPE artifact_type of
        None \<Rightarrow> raise (Raised (ValueError (''Unsupported artifact_type for Phase 8 dispatch: '' @ artifact_type)))
      | Some question_type \<Rightarrow>
          bnd (resolve_bill_source H (rk_bill k)) (\<lambda>source. case source of
              None \<Rightarrow> ret not_applicable
            | Some t \<Rightarrow>
                bnd (if artifact_type = ''bill_topics'' then bnd (bill_topics_taxonomy H (rk_base k) (rk_token k)) (\<lambda>l. ret (Some l))
                     else ret None) (\<lambda>taxonomy.
                bnd (dispatch_bill_question H fuel t question_type taxonomy request_id
                       (if request_id = None then None else redo)) (\<lambda>result.
                  store_answer H k artifact_type taxonomy result))))"

section \<open>Changelogs\<close>

definition write_changelog_answer ::
  "('n, 'r) host \<Rightarrow> row_key \<Rightarrow> json \<Rightarrow> json \<Rightarrow> json \<Rightarrow> json \<Rightarrow> ('n, 'r, json) act" where
  "write_changelog_answer H k old_date old_note answer model_name =
     (let common = [(''model_name'', model_name), (''compare_version_date'', old_date), (''compare_version_note'', old_note)] in
      case answer of
        JObj d \<Rightarrow>
          if truthy (dict_get d ''insufficient_information'') then
            if has_structural_content d then
              bnd (lift_res (changelog_content answer old_note (rk_note k))) (\<lambda>c.
                write_outcome H k ''bill_changelog'' (JStr c) ''complete'' ((''insufficient_but_populated'', JBool True) # common))
            else write_outcome H k ''bill_changelog'' (JStr []) ''failed''
              (failed_because (kwarg d ''reason'' (JStr ''insufficient_information'')) @ common)
          else bnd (lift_res (changelog_content answer old_note (rk_note k))) (\<lambda>c.
            write_outcome H k ''bill_changelog'' (JStr c) ''complete'' ((''source_support'', dict_get d ''source_support'') # common))
      | _ \<Rightarrow> raise (LegBotDispatchError (''bill_changelog answer is not a dict (got '' @ type_name answer @
          '') -- cannot be processed, likely a corrupted stored task_result.json'')))"

definition broker_api_token_for_base :: "settings \<Rightarrow> string option \<Rightarrow> string option" where
  "broker_api_token_for_base cfg base =
     (case base of
        None \<Rightarrow> None
      | Some b \<Rightarrow>
          if b = ondemand_broker_api_base_dev cfg then Some (ondemand_broker_api_token_dev cfg)
          else if b = ondemand_broker_api_base_prod cfg then Some (ondemand_broker_api_token_prod cfg)
          else if b = ddp_broker_api_base cfg then Some (ddp_broker_api_token cfg)
          else None)"

definition opt_str :: "string option \<Rightarrow> json" where
  "opt_str x = (case x of None \<Rightarrow> JNull | Some s \<Rightarrow> JStr s)"

text \<open>\<open>_track\<close>: what the recovery needs to finish the job; no token among it.\<close>

definition tracking_record :: "row_key \<Rightarrow> json \<Rightarrow> json \<Rightarrow> string \<Rightarrow> json" where
  "tracking_record k old_date old_note stamp = JObj
     [(''artifact_type'', JStr ''bill_changelog''), (''bill_openstates_id'', rk_bill k), (''jurisdiction'', rk_jurisdiction k),
      (''session_code'', rk_session k), (''version_date'', rk_date k), (''version_note'', rk_note k),
      (''old_version_date'', old_date), (''old_version_note'', old_note), (''target_artifact_id'', rk_target k),
      (''broker_api_base'', opt_str (rk_base k)), (''dispatched_at'', JStr stamp)]"

definition track_task :: "('n, 'r) host \<Rightarrow> row_key \<Rightarrow> json \<Rightarrow> json \<Rightarrow> json \<Rightarrow> ('n, 'r, unit) act" where
  "track_task H k old_date old_note task_id =
     bnd (update (\<lambda>s. s\<lparr>current_task := Some task_id\<rparr>)) (\<lambda>_.
     bnd (current (\<lambda>s. n_stamp (network H) (net s))) (\<lambda>stamp.
       on_store (\<lambda>r. ((), set_legbot_task (redis_client H) (json_str task_id) (tracking_record k old_date old_note stamp) r))))"

definition forget_task :: "('n, 'r) host \<Rightarrow> string \<Rightarrow> ('n, 'r, unit) act" where
  "forget_task H task_id = on_store (\<lambda>r. ((), delete_legbot_task (redis_client H) task_id r))"

text \<open>The record goes, unless only the write failed: then the recovery can repeat it.\<close>

definition cleanup_task :: "('n, 'r) host \<Rightarrow> fault + json \<Rightarrow> ('n, 'r, unit) act" where
  "cleanup_task H outcome =
     bnd (current current_task) (\<lambda>task. case task of
         None \<Rightarrow> ret ()
       | Some t \<Rightarrow> (case outcome of Inl (BrokerClientError _) \<Rightarrow> ret () | _ \<Rightarrow> forget_task H (json_str t)))"

definition dispatch_and_write_changelog ::
  "('n, 'r) host \<Rightarrow> nat \<Rightarrow> row_key \<Rightarrow> transition \<Rightarrow> ('n, 'r, json) act" where
  "dispatch_and_write_changelog H fuel k t =
     bnd (update (\<lambda>s. s\<lparr>current_task := None\<rparr>)) (\<lambda>_.
     lastly
       (bnd (dispatch_bill_changelog H fuel (tr_old_source t) (tr_diff t) (Some (track_task H k (tr_old_date t) (tr_old_note t))))
         (\<lambda>result. write_changelog_answer H k (tr_old_date t) (tr_old_note t) (lr_answer result) (lr_backend result)))
       (cleanup_task H))"

text \<open>The notes of the versions that already have a changelog.\<close>

fun covered_notes :: "json list \<Rightarrow> json list res" where
  "covered_notes [] = Inr []"
| "covered_notes (entry # entries) =
     bind_res (attr_get entry ''artifacts'' JNull) (\<lambda>a.
     bind_res (attr_get (or_empty a) ''bill_changelog'' JNull) (\<lambda>c.
     bind_res (artifact_counts_as_present c) (\<lambda>present.
     bind_res (if present then bind_res (bind_res (attr_get entry ''version_note'' JNull) json_key) (\<lambda>n. Inr [n]) else Inr []) (\<lambda>ns.
     bind_res (covered_notes entries) (\<lambda>ms. Inr (ns @ ms))))))"

definition list_of :: "json \<Rightarrow> json list res" where
  "list_of v = (case v of JArr xs \<Rightarrow> Inr xs | _ \<Rightarrow> Inl TypeError)"

definition already_covered :: "json option \<Rightarrow> json list res" where
  "already_covered coverage =
     (case coverage of
        None \<Rightarrow> Inr []
      | Some c \<Rightarrow>
          bind_res (bind_res (get_or_list c ''versions'') list_of) (\<lambda>vs.
          bind_res (bind_res (get_or_list c ''unclassified_versions'') list_of) (\<lambda>us. covered_notes (vs @ us))))"

fun uncovered :: "json list \<Rightarrow> transition list \<Rightarrow> transition list res" where
  "uncovered covered [] = Inr []"
| "uncovered covered (t # ts) =
     bind_res (json_key (tr_new_note t)) (\<lambda>n. bind_res (uncovered covered ts) (\<lambda>us.
       Inr (if n \<in> set covered then us else t # us)))"

record walk =
  first_failure :: "json option"
  last_result :: json
  requested_version_written :: bool

definition is_requested :: "row_key \<Rightarrow> transition \<Rightarrow> bool" where
  "is_requested k t = (tr_new_date t = rk_date k \<and> tr_new_note t = rk_note k)"

definition walk_step :: "('n, 'r) host \<Rightarrow> nat \<Rightarrow> row_key \<Rightarrow> transition \<Rightarrow> walk \<Rightarrow> ('n, 'r, walk) act" where
  "walk_step H fuel k t w =
     bnd (dispatch_and_write_changelog H fuel (k\<lparr>rk_date := tr_new_date t, rk_note := tr_new_note t,
            rk_target := (if is_requested k t then rk_target k else JNull)\<rparr>) t) (\<lambda>v.
     bnd (lift_res (attr_get v ''status'' JNull)) (\<lambda>st.
       ret \<lparr>first_failure = (if first_failure w = None \<and> st \<noteq> JStr ''complete'' then Some v else first_failure w),
            last_result = v, requested_version_written = (requested_version_written w \<or> is_requested k t)\<rparr>))"

definition walk_result :: "walk \<Rightarrow> json" where
  "walk_result w =
     (let v = (case first_failure w of Some f \<Rightarrow> f | None \<Rightarrow> last_result w) in
      if requested_version_written w then v
      else (case v of JObj d \<Rightarrow> JObj (dict_set ''requested_version_written'' (JBool False) d) | _ \<Rightarrow> v))"

definition mismatch_error :: "row_key \<Rightarrow> json \<times> json \<Rightarrow> fault" where
  "mismatch_error k latest = ArchivedVersionMismatchError
     (''Requested a bill_changelog for version_date='' @ json_repr (rk_date k) @ ''/version_note='' @ json_repr (rk_note k) @
      '', but get_archived_version_transitions resolved the bill'' @ [quote1] @ ''s true latest archived version as '' @
      json_repr (fst latest) @ ''/'' @ json_repr (snd latest) @
      '' -- refusing to write a changelog under a stale or mismatched version identity.'')"

definition generate_and_store_bill_changelog ::
  "('n, 'r) host \<Rightarrow> nat \<Rightarrow> row_key \<Rightarrow> string option \<Rightarrow> ('n, 'r, json) act" where
  "generate_and_store_bill_changelog H fuel k gov =
     bnd (get_archived_version_transitions H (json_str (rk_bill k))) (\<lambda>found. case found of
         None \<Rightarrow> ret not_applicable
       | Some (transitions, versions) \<Rightarrow>
           bnd (lift_res (version_key (last versions))) (\<lambda>latest.
           if latest \<noteq> (rk_date k, rk_note k) then raise (mismatch_error k latest)
           else bnd (case gov of
               None \<Rightarrow> ret transitions
             | Some g \<Rightarrow> bnd (get_bill_artifact_coverage_all_versions H (json_str (rk_jurisdiction k)) (json_str (rk_session k)) g
                   (rk_base k) (rk_token k)) (\<lambda>coverage.
                 lift_res (bind_res (already_covered coverage) (\<lambda>covered. uncovered covered transitions)))) (\<lambda>todo.
             if todo = [] then ret not_applicable
             else bnd (backfill_missing_versions H (rk_bill k) (rk_jurisdiction k) (rk_session k) versions
                   (JObj [(''date'', fst latest), (''note'', snd latest)]) (rk_base k) (rk_token k)) (\<lambda>_.
               bnd (for_each (walk_step H fuel k) todo
                     \<lparr>first_failure = None, last_result = not_applicable, requested_version_written = False\<rparr>) (\<lambda>w.
                 ret (walk_result w))))))"

section \<open>The on-demand endpoint\<close>

definition caught_by_dispatch :: "fault \<Rightarrow> bool" where
  "caught_by_dispatch e = (case e of
      LegBotDispatchError _ \<Rightarrow> True | BrokerClientError _ \<Rightarrow> True | ArchivedVersionMismatchError _ \<Rightarrow> True | _ \<Rightarrow> False)"

definition on_broker_error :: "('n, 'r, 'a) act \<Rightarrow> 'b \<Rightarrow> ('a \<Rightarrow> ('n, 'r, 'b) act) \<Rightarrow> ('n, 'r, 'b) act" where
  "on_broker_error m x f = attempt m (\<lambda>e. case e of BrokerClientError _ \<Rightarrow> ret x | _ \<Rightarrow> raise e) f"

definition run_on_demand :: "('n, 'r) host \<Rightarrow> nat \<Rightarrow> row_key \<Rightarrow> string \<Rightarrow> ('n, 'r, unit) act" where
  "run_on_demand H fuel k artifact_type =
     (if artifact_type = ''bill_changelog'' then
        bnd (generate_and_store_bill_changelog H fuel k None) (\<lambda>v.
        bnd (lift_res (attr_get v ''status'' JNull)) (\<lambda>st.
        bnd (lift_res (attr_get v ''requested_version_written'' JNull)) (\<lambda>w.
          if st = JStr ''not_applicable'' \<or> w = JBool False
          then bnd (write_row H k artifact_type (JStr []) ''failed'' (failed_because (JStr ''no_version_transition_available'')))
            (\<lambda>_. ret ())
          else ret ())))
      else bnd (generate_and_store_bill_artifact H fuel k artifact_type None None) (\<lambda>_. ret ()))"

definition dispatch_and_record_bill_artifact :: "('n, 'r) host \<Rightarrow> nat \<Rightarrow> row_key \<Rightarrow> string \<Rightarrow> ('n, 'r, unit) act" where
  "dispatch_and_record_bill_artifact H fuel k artifact_type =
     on_broker_error
       (bnd (write_row H (k\<lparr>rk_target := JNull\<rparr>) artifact_type (JStr []) ''pending'' []) (\<lambda>v. lift_res (attr_get v ''id'' JNull)))
       ()
       (\<lambda>placeholder_id.
         (let k = k\<lparr>rk_target := placeholder_id\<rparr> in
          attempt (run_on_demand H fuel k artifact_type)
            (\<lambda>e. if caught_by_dispatch e
              then on_broker_error (write_row H k artifact_type (JStr []) ''failed''
                [(''failure_stage'', JStr ''dispatch_error''), (''failure_reason'', JStr (fault_text e))]) () (\<lambda>_. ret ())
              else raise e)
            ret))"

section \<open>Recovery\<close>

definition LEGBOT_TASK_STALE_BUFFER_SECONDS :: rat where "LEGBOT_TASK_STALE_BUFFER_SECONDS = 300"

definition default_stale_after :: "settings \<Rightarrow> rat" where
  "default_stale_after cfg =
     legbot_queue_wait_timeout_seconds cfg + legbot_dispatch_timeout_seconds cfg + LEGBOT_TASK_STALE_BUFFER_SECONDS"

definition base_of_record :: "(string \<times> json) list \<Rightarrow> string option" where
  "base_of_record d = (case dict_get d ''broker_api_base'' of JNull \<Rightarrow> None | v \<Rightarrow> Some (json_str v))"

text \<open>\<open>record["bill_openstates_id"]\<close> and the other four subscripts, and the two optional parts.\<close>

definition key_of_record :: "('n, 'r) host \<Rightarrow> (string \<times> json) list \<Rightarrow> row_key res" where
  "key_of_record H d =
     bind_res (subscript (JObj d) ''bill_openstates_id'') (\<lambda>bill.
     bind_res (subscript (JObj d) ''jurisdiction'') (\<lambda>jurisdiction.
     bind_res (subscript (JObj d) ''session_code'') (\<lambda>session.
     bind_res (subscript (JObj d) ''version_date'') (\<lambda>vdate.
     bind_res (subscript (JObj d) ''version_note'') (\<lambda>vnote.
       Inr \<lparr>rk_bill = bill, rk_jurisdiction = jurisdiction, rk_session = session, rk_date = vdate, rk_note = vnote,
            rk_target = dict_get d ''target_artifact_id'', rk_base = base_of_record d,
            rk_token = broker_api_token_for_base (conf H) (base_of_record d)\<rparr>)))))"

text \<open>The failed row of a lost dispatch: was it written?\<close>

definition mark_stale_legbot_task_failed :: "('n, 'r) host \<Rightarrow> (string \<times> json) list \<Rightarrow> string \<Rightarrow> ('n, 'r, bool) act" where
  "mark_stale_legbot_task_failed H d reason =
     on_broker_error
       (bnd (lift_res (key_of_record H d)) (\<lambda>k.
          write_bill_artifact H (key_args k @ [(''artifact_type'', kwarg d ''artifact_type'' (JStr ''bill_changelog'')),
            (''content'', JStr []), (''status'', JStr ''failed''), (''failure_stage'', JStr ''generation''),
            (''failure_reason'', JStr (''legbot_dispatch_recovery: '' @ reason)),
            (''compare_version_date'', dict_get d ''old_version_date''), (''compare_version_note'', dict_get d ''old_version_note'')])
            (rk_base k) (rk_token k)))
       False (\<lambda>_. ret True)"

datatype resolution = Recovered | MarkedFailed | Unresolved

definition marked :: "bool \<Rightarrow> resolution" where
  "marked ok = (if ok then MarkedFailed else Unresolved)"

definition write_recovered :: "('n, 'r) host \<Rightarrow> (string \<times> json) list \<Rightarrow> legbot_result \<Rightarrow> ('n, 'r, json) act" where
  "write_recovered H d result =
     bnd (lift_res (bind_res (key_of_record H d) (\<lambda>k.
        bind_res (subscript (JObj d) ''old_version_date'') (\<lambda>old_date.
        bind_res (subscript (JObj d) ''old_version_note'') (\<lambda>old_note. Inr (k, old_date, old_note)))))) (\<lambda>(k, old_date, old_note).
     write_changelog_answer H k old_date old_note (lr_answer result) (lr_backend result))"

definition resolve_completed :: "('n, 'r) host \<Rightarrow> string \<Rightarrow> (string \<times> json) list \<Rightarrow> ('n, 'r, resolution) act" where
  "resolve_completed H task_id d =
     attempt (read_task_result H (JStr task_id))
       (\<lambda>e. case e of
           LegBotDispatchError m \<Rightarrow> bnd (mark_stale_legbot_task_failed H d (''completed_but_unreadable: '' @ m)) (\<lambda>w. ret (marked w))
         | _ \<Rightarrow> raise e)
       (\<lambda>result. attempt (write_recovered H d result)
          (\<lambda>e. case e of
              LegBotDispatchError m \<Rightarrow>
                bnd (mark_stale_legbot_task_failed H d (''completed_but_malformed_answer: '' @ m)) (\<lambda>w. ret (marked w))
            | BrokerClientError _ \<Rightarrow> ret Unresolved
            | _ \<Rightarrow> raise e)
          (\<lambda>_. ret Recovered))"

text \<open>What CAMS says about the task; an unknown task is the synthetic status \<open>not_found\<close>, no usable answer is \<open>None\<close>.\<close>

definition stale_status :: "('n, 'r) host \<Rightarrow> string \<Rightarrow> ('n, 'r, json option) act" where
  "stale_status H task_id =
     attempt (check_task_status H (JStr task_id))
       (\<lambda>e. case e of
           HTTPStatusError code _ \<Rightarrow> ret (if code = 404 then Some (JObj [(''status'', JStr ''not_found'')]) else None)
         | OutOfFuel \<Rightarrow> raise e
         | _ \<Rightarrow> ret None)
       (\<lambda>v. ret (Some v))"

definition resolve_stale :: "('n, 'r) host \<Rightarrow> string \<Rightarrow> (string \<times> json) list \<Rightarrow> ('n, 'r, resolution) act" where
  "resolve_stale H task_id d =
     bnd (stale_status H task_id) (\<lambda>body. case body of
         None \<Rightarrow> ret Unresolved
       | Some v \<Rightarrow> bnd (lift_res (attr_get v ''status'' JNull)) (\<lambda>st.
           if st = JStr ''completed'' then resolve_completed H task_id d
           else if st \<in> set TERMINAL_STATUSES \<or> st = JStr ''not_found''
           then bnd (mark_stale_legbot_task_failed H d (''cams_status='' @ json_str st)) (\<lambda>w. ret (marked w))
           else ret Unresolved))"

record sweep =
  checked :: nat
  recovered :: nat
  marked_failed :: nat

text \<open>How old a record is: no valid stamp is \<open>None\<close>; a stamp that is no text raises.\<close>

definition record_age :: "('n, 'r) host \<Rightarrow> json \<Rightarrow> ('n, 'r, rat option) act" where
  "record_age H v =
     (case subscript v ''dispatched_at'' of
        Inl (KeyError _) \<Rightarrow> ret None
      | Inl e \<Rightarrow> raise (Raised e)
      | Inr (JStr stamp) \<Rightarrow> current (\<lambda>s. n_age (network H) stamp (net s))
      | Inr _ \<Rightarrow> raise (Raised TypeError))"

definition sweep_task :: "('n, 'r) host \<Rightarrow> rat \<Rightarrow> string \<Rightarrow> sweep \<Rightarrow> ('n, 'r, sweep) act" where
  "sweep_task H stale_after task_id w =
     bnd (on_store (get_legbot_task (redis_client H) task_id)) (\<lambda>v.
       if v = JNull then ret w
       else bnd (record_age H v) (\<lambda>age. case age of
           None \<Rightarrow> ret w
         | Some a \<Rightarrow>
             if a < stale_after then ret w
             else (let w = w\<lparr>checked := Suc (checked w)\<rparr> in
               bnd (resolve_stale H task_id (case v of JObj d \<Rightarrow> d | _ \<Rightarrow> [])) (\<lambda>res. case res of
                   Unresolved \<Rightarrow> ret w
                 | Recovered \<Rightarrow> bnd (forget_task H task_id) (\<lambda>_. ret (w\<lparr>recovered := Suc (recovered w)\<rparr>))
                 | MarkedFailed \<Rightarrow> bnd (forget_task H task_id) (\<lambda>_. ret (w\<lparr>marked_failed := Suc (marked_failed w)\<rparr>))))))"

definition recover_stale_legbot_dispatches :: "('n, 'r) host \<Rightarrow> rat option \<Rightarrow> ('n, 'r, sweep) act" where
  "recover_stale_legbot_dispatches H stale_after_seconds =
     (let stale_after = (case stale_after_seconds of None \<Rightarrow> default_stale_after (conf H) | Some x \<Rightarrow> x) in
      bnd (on_store (get_all_legbot_task_ids (redis_client H))) (\<lambda>ids.
        for_each (sweep_task H stale_after) ids \<lparr>checked = 0, recovered = 0, marked_failed = 0\<rparr>))"

section \<open>Every operation ends\<close>

lemma ends_write_outcome [ending]: "ends (write_outcome H k artifact_type contents status extra)"
  unfolding write_outcome_def write_row_def by (intro ending)

lemma ends_artifact [ending]:
  assumes "patient H fuel"
  shows "ends (generate_and_store_bill_artifact H fuel k artifact_type request_id redo)"
  unfolding generate_and_store_bill_artifact_def resolve_bill_source_def bill_topics_taxonomy_def store_answer_def
  by (intro ending assms; simp)

lemma ends_write_changelog_answer [ending]: "ends (write_changelog_answer H k old_date old_note answer model_name)"
  unfolding write_changelog_answer_def by (intro ending; simp)

lemma ends_changelog [ending]:
  assumes "patient H fuel"
  shows "ends (generate_and_store_bill_changelog H fuel k gov)"
  unfolding generate_and_store_bill_changelog_def walk_step_def dispatch_and_write_changelog_def track_task_def cleanup_task_def
    forget_task_def mismatch_error_def
  by (intro ending assms; simp)

section \<open>The published topics\<close>

lemma canonical_names_mem: "canonical_names names k = Some t \<Longrightarrow> t \<in> set names"
  unfolding canonical_names_def by (drule map_of_SomeD) auto

lemma surviving_topics_props:
  "surviving_topics names raws acc = Inr ts \<Longrightarrow> set acc \<subseteq> set names \<Longrightarrow> distinct acc \<Longrightarrow>
    set ts \<subseteq> set names \<and> distinct ts"
proof (induction names raws acc rule: surviving_topics.induct)
  case (2 names raw raws acc)
  from "2.prems"(1) obtain c where c: "canonicalize_bill_topic names raw = Inr c" and
    rest: "surviving_topics names raws (case c of None \<Rightarrow> acc | Some t \<Rightarrow> if t \<in> set acc then acc else acc @ [t]) = Inr ts"
    by (auto simp: bind_res_Inr_iff)
  have "c = Some t \<Longrightarrow> t \<in> set names" for t
    using c by (auto simp: canonicalize_bill_topic_def split: json.splits dest: canonical_names_mem)
  with "2.prems"(2,3) show ?case by (intro "2.IH"[OF rest]) (auto split: option.splits)
qed simp

lemma capped_topics_props:
  assumes "1 \<le> m" "distinct ts" "case primary of Some p \<Rightarrow> p \<in> set ts | None \<Rightarrow> True"
  defines "us \<equiv> capped_topics m primary ts"
  shows "distinct us \<and> set us \<subseteq> set ts \<and> int (length us) \<le> m \<and> (ts \<noteq> [] \<longrightarrow> us \<noteq> []) \<and>
    (case primary of Some p \<Rightarrow> p \<in> set us | None \<Rightarrow> True)"
  using assms
  by (auto simp: capped_topics_def slice_to_def slice_bound_def distinct_take dest: in_set_takeD split: option.splits)

text \<open>The topics that are published are distinct names of the broker's list, at most \<open>max_topics\<close> of them, with the primary
  among them; a primary that the list knows stays the primary.\<close>

lemma topics_filtered:
  assumes "1 \<le> max_topics" "filter_bill_topics answer names max_topics = Inr (Some (primary, topics))"
  shows "primary \<in> set topics \<and> set topics \<subseteq> set names \<and> distinct topics \<and> int (length topics) \<le> max_topics \<and>
    (\<forall>p. dict_get answer ''primary_topic'' = JStr p \<longrightarrow> canonical_names names (fold_name p) \<noteq> None \<longrightarrow> p \<noteq> [] \<longrightarrow>
      Some primary = canonical_names names (fold_name p))"
proof -
  obtain raws ts q where
    ts: "surviving_topics names raws [] = Inr ts" and
    q: "(if truthy (dict_get answer ''primary_topic'') then canonicalize_bill_topic names (dict_get answer ''primary_topic'')
         else Inr None) = Inr q" and
    res: "(let topics = (case q of Some p \<Rightarrow> if p \<notin> set ts then p # ts else ts | None \<Rightarrow> ts);
           topics = capped_topics max_topics q topics in
       (case topics of [] \<Rightarrow> None | t # _ \<Rightarrow> Some (case q of Some p \<Rightarrow> p | None \<Rightarrow> t, topics))) = Some (primary, topics)"
    using assms(2) by (auto simp: filter_bill_topics_def bind_res_Inr_iff Let_def)
  define us where "us = (case q of Some p \<Rightarrow> if p \<notin> set ts then p # ts else ts | None \<Rightarrow> ts)"
  have "q = Some p \<Longrightarrow> p \<in> set names" for p
    using q by (auto simp: canonicalize_bill_topic_def split: if_splits json.splits dest: canonical_names_mem)
  with surviving_topics_props[OF ts] have us: "distinct us" "set us \<subseteq> set names" "case q of Some p \<Rightarrow> p \<in> set us | None \<Rightarrow> True"
    by (auto simp: us_def split: option.splits)
  note cap = capped_topics_props[OF assms(1) us(1,3)]
  define vs where "vs = capped_topics max_topics q us"
  have "(case vs of [] \<Rightarrow> None | t # _ \<Rightarrow> Some (case q of Some p \<Rightarrow> p | None \<Rightarrow> t, vs)) = Some (primary, topics)"
    using res unfolding Let_def us_def vs_def .
  then have "topics = vs \<and> vs \<noteq> [] \<and> primary = (case q of Some p \<Rightarrow> p | None \<Rightarrow> hd vs)"
    by (cases vs; cases q) auto
  then have t: "topics = vs" "vs \<noteq> []" "primary = (case q of Some p \<Rightarrow> p | None \<Rightarrow> hd vs)"
    by blast+
  have "primary \<in> set topics" using t cap by (cases q) (simp_all add: vs_def)
  moreover have "Some primary = canonical_names names (fold_name p)"
    if "dict_get answer ''primary_topic'' = JStr p" "canonical_names names (fold_name p) \<noteq> None" "p \<noteq> []" for p
    using q that t(3) by (auto simp: canonicalize_bill_topic_def)
  ultimately show ?thesis using cap us(2) t(1) by (auto simp: vs_def)
qed

lemma topics_filtered_witness:
  "filter_bill_topics [(''topics'', JArr [JStr '' tax'', JStr ''Roads'', JStr ''other'', JStr ''TAX'']), (''primary_topic'', JStr ''Water'')]
     [''Tax'', ''Roads'', ''Water''] 2 = Inr (Some (''Water'', [''Water'', ''Tax''])) \<and>
   ''Water'' \<in> set [''Water'', ''Tax''] \<and> distinct [''Water'', ''Tax'']"
proof -
  have "filter_bill_topics [(''topics'', JArr [JStr '' tax'', JStr ''Roads'', JStr ''other'', JStr ''TAX'']), (''primary_topic'', JStr ''Water'')]
     [''Tax'', ''Roads'', ''Water''] 2 = Inr (Some (''Water'', [''Water'', ''Tax'']))"
    by code_simp
  with topics_filtered[OF _ this] show ?thesis by simp
qed

section \<open>A record is forgotten only after a row was written\<close>

definition is_artifact_write :: "request \<Rightarrow> bool" where
  "is_artifact_write rq = (req_method rq = POST \<and> (\<exists>b. req_url rq = b @ ''/api/bill-artifacts/''))"

definition wrote :: "('n, 'r) site \<Rightarrow> ('n, 'r) site \<Rightarrow> bool" where
  "wrote s s' = (\<exists>rqs. sent s' = sent s @ rqs \<and> list_ex is_artifact_write rqs)"

lemma wrote_before: "sent s1 = sent s @ rqs \<Longrightarrow> wrote s1 s' \<Longrightarrow> wrote s s'"
  by (auto simp: wrote_def)

lemma wrote_after: "wrote s s1 \<Longrightarrow> sent s' = sent s1 @ rqs \<Longrightarrow> wrote s s'"
  by (auto simp: wrote_def)

lemma write_wrote: "write_bill_artifact H args base token s = (Inr v, s') \<Longrightarrow> wrote s s'"
  by (auto simp: write_bill_artifact_def with_broker_def acts Let_def reach_def http_def accepted_def json_body_def written_def
      wrote_def is_artifact_write_def broker_post_def split: if_splits sum.splits prod.splits option.splits)

lemma outcome_wrote: "write_outcome H k t c st extra s = (Inr v, s') \<Longrightarrow> wrote s s'"
  unfolding write_outcome_def write_row_def by (auto elim!: bnd_InrE dest: write_wrote simp: run_ret)

lemma changelog_wrote: "write_changelog_answer H k od on answer model s = (Inr v, s') \<Longrightarrow> wrote s s'"
  by (auto simp: write_changelog_answer_def Let_def run_raise elim!: lift_bnd_InrE dest: outcome_wrote split: json.splits if_splits)

lemma marked_wrote: "mark_stale_legbot_task_failed H d reason s = (Inr True, s') \<Longrightarrow> wrote s s'"
  by (auto simp: mark_stale_legbot_task_failed_def on_broker_error_def run_attempt run_raise run_ret run_bnd run_lift_res
      dest: write_wrote split: prod.splits sum.splits fault.splits)

lemma sends_write_outcome [sending]:
  "(\<And>b t p. P (broker_post t (b @ ''/api/bill-artifacts/'') (JObj p))) \<Longrightarrow> sends P (write_outcome H k artifact_type contents status extra)"
  unfolding write_outcome_def write_row_def by (intro sending)

lemma sends_write_changelog_answer [sending]:
  "(\<And>b t p. P (broker_post t (b @ ''/api/bill-artifacts/'') (JObj p))) \<Longrightarrow> sends P (write_changelog_answer H k od on answer model)"
  unfolding write_changelog_answer_def by (intro sending)

lemma sends_write_recovered: "sends (\<lambda>_. True) (write_recovered H d r)"
  unfolding write_recovered_def by (intro sending; simp)

lemma run_read_task_result: "read_task_result H (JStr t) s = (x, s') \<Longrightarrow> s' = s"
  by (auto simp: read_task_result_def acts split: sum.splits)

lemma resolve_completed_wrote:
  "resolve_completed H task_id d s = (Inr res, s') \<Longrightarrow> res \<noteq> Unresolved \<Longrightarrow> wrote s s'"
proof -
  assume run: "resolve_completed H task_id d s = (Inr res, s')" and res: "res \<noteq> Unresolved"
  obtain x s0 where x: "read_task_result H (JStr task_id) s = (x, s0)" by (cases "read_task_result H (JStr task_id) s")
  have s0: "s0 = s" using run_read_task_result[OF x] .
  show "wrote s s'"
  proof (cases x)
    case (Inl e)
    with run x s0 res show ?thesis
      by (auto simp: resolve_completed_def run_attempt run_raise run_ret marked_def
          dest: marked_wrote elim!: bnd_InrE split: fault.splits if_splits)
  next
    case (Inr result)
    obtain y s1 where y: "write_recovered H d result s = (y, s1)" by (cases "write_recovered H d result s")
    obtain rqs where rqs: "sent s1 = sent s @ rqs"
      using sendsD[OF sends_write_recovered, of H d result s] y by (metis snd_conv)
    show ?thesis
    proof (cases y)
      case (Inl e)
      with run x s0 y \<open>x = Inr result\<close> res have "wrote s1 s'"
        by (auto simp: resolve_completed_def run_attempt run_raise run_ret marked_def
            dest: marked_wrote elim!: bnd_InrE split: fault.splits if_splits)
      with rqs show ?thesis by (rule wrote_before)
    next
      case (Inr v)
      with run x s0 y \<open>x = Inr result\<close> have "s' = s1" by (simp add: resolve_completed_def run_attempt run_ret)
      with y Inr show ?thesis by (auto simp: write_recovered_def elim!: lift_bnd_InrE dest: changelog_wrote)
    qed
  qed
qed

lemma sends_stale_status [sending]: "sends (\<lambda>_. True) (stale_status H task_id)"
  unfolding stale_status_def check_task_status_def by (intro sending; simp)

lemma resolve_stale_wrote:
  assumes "resolve_stale H task_id d s = (Inr res, s')" "res \<noteq> Unresolved"
  shows "wrote s s'"
proof -
  obtain body s1 where body: "stale_status H task_id s = (Inr body, s1)"
    and rest: "(case body of None \<Rightarrow> ret Unresolved | Some v \<Rightarrow> bnd (lift_res (attr_get v ''status'' JNull)) (\<lambda>st.
           if st = JStr ''completed'' then resolve_completed H task_id d
           else if st \<in> set TERMINAL_STATUSES \<or> st = JStr ''not_found''
           then bnd (mark_stale_legbot_task_failed H d (''cams_status='' @ json_str st)) (\<lambda>w. ret (marked w))
           else ret Unresolved)) s1 = (Inr res, s')"
    using assms(1) unfolding resolve_stale_def by (rule bnd_InrE)
  obtain rqs where "sent s1 = sent s @ rqs" using sendsD[OF sends_stale_status, of H task_id s] body by (metis snd_conv)
  moreover have "wrote s1 s'"
  proof -
    obtain v st where v: "body = Some v" "attr_get v ''status'' JNull = Inr st"
      using rest assms(2) by (auto simp: run_ret elim!: lift_bnd_InrE split: option.splits)
    show ?thesis
    proof (cases "st = JStr ''completed''")
      case True
      with rest v have "resolve_completed H task_id d s1 = (Inr res, s')" by (simp add: run_bnd run_lift_res)
      from resolve_completed_wrote[OF this assms(2)] show ?thesis .
    next
      case False
      with rest v assms(2) have "\<exists>reason. mark_stale_legbot_task_failed H d reason s1 = (Inr True, s')"
        by (auto simp: run_bnd run_lift_res run_ret marked_def split: if_splits prod.splits sum.splits)
      then show ?thesis by (blast dest: marked_wrote)
    qed
  qed
  ultimately show ?thesis by (rule wrote_before)
qed

lemma stores_nothing_write [storing]: "stores_nothing (write_bill_artifact H args base token)"
  unfolding write_bill_artifact_def with_broker_def reach_def accepted_def written_def by (intro storing)

lemma stores_nothing_resolve [storing]: "stores_nothing (resolve_stale H task_id d)"
  unfolding resolve_stale_def stale_status_def check_task_status_def resolve_completed_def write_recovered_def
    mark_stale_legbot_task_failed_def on_broker_error_def read_task_result_def write_changelog_answer_def write_outcome_def write_row_def
  by (intro storing)

lemma stores_nothing_age [storing]: "stores_nothing (record_age H v)"
  unfolding record_age_def by (simp split: sum.split py_error.split json.split) (intro conjI allI impI storing)

lemma sends_record_age: "sends P (record_age H v)"
  unfolding record_age_def by (simp split: sum.split py_error.split json.split) (intro conjI allI impI sending)

lemma run_on_store: "on_store f s = (Inr (fst (f (store s))), s\<lparr>store := snd (f (store s))\<rparr>)"
  by (simp add: on_store_def split: prod.split)


text \<open>A server that holds the one tracking record, and whose other commands fail.\<close>

definition one_record_redis :: "json option redis" where
  "one_record_redis = \<lparr>r_ping = Pair None, r_publish = (\<lambda>_ _. Pair None), r_set = (\<lambda>_ _ _ _. Pair None),
     r_get = (\<lambda>_ m. (Some (map_option JsonText m), m)), r_mget = (\<lambda>_. Pair None), r_delete = (\<lambda>_ _. (Some (), None)),
     r_expire = (\<lambda>_ _. Pair None), r_ttls = (\<lambda>_. Pair None), r_persist = (\<lambda>_. Pair None), r_keys = (\<lambda>_. Pair None),
     r_sadd = (\<lambda>_ _. Pair None), r_smembers = (\<lambda>_. Pair None), r_smismember = (\<lambda>_ _. Pair None), r_scard = (\<lambda>_. Pair None),
     r_copy = (\<lambda>_ _. Pair None), r_sunionstore = (\<lambda>_ _. Pair None), r_rpush = (\<lambda>_ _. Pair None), r_ltrim = (\<lambda>_ _. Pair None),
     r_lrange = (\<lambda>_. Pair None)\<rparr>"

definition tracked_host :: "(script, json option) host" where
  "tracked_host = \<lparr>network = script_network, redis_client = Some one_record_redis, conf = default_settings,
     manifest = \<lparr>mtime = (\<lambda>_. None), yaml_at = (\<lambda>_. ReadFailed), mode_var = [], root_var = []\<rparr>\<rparr>"

definition tracked_site :: "(string + response) list \<Rightarrow> (script, json option) site" where
  "tracked_site answers =
     \<lparr>net = \<lparr>script_time = 0, script_answers = answers, script_files = []\<rparr>, sent = [],
      store = Some (tracking_record
        \<lparr>rk_bill = JStr ''b1'', rk_jurisdiction = JStr ''fl'', rk_session = JStr ''2026'', rk_date = JStr ''2026-03-01'',
         rk_note = JStr ''Enrolled'', rk_target = JNull, rk_base = None, rk_token = None\<rparr> (JStr ''2026-02-01'') (JStr ''Filed'') ''stamp''),
      topics_cache = (\<lambda>_. None), current_task = None, enrollment_state = \<lparr>cache = (\<lambda>_. None), logged = []\<rparr>\<rparr>"


section \<open>A placeholder that stays\<close>

definition cams_down :: "('n, 'r) host \<Rightarrow> bool" where
  "cams_down H = (cams_artifacts_dir (conf H) \<noteq> [] \<and> (\<forall>p n. \<exists>m. fst (n_call (network H) (create_request H p) n) = Inl m))"

definition row_status :: "request \<Rightarrow> json" where
  "row_status rq = (case req_body rq of Some (JObj p) \<Rightarrow> dict_get p ''status'' | _ \<Rightarrow> JNull)"

lemma no_write_reads: "sends is_read m \<Longrightarrow> sends (\<lambda>rq. \<not> is_artifact_write rq) m"
  by (erule sends_mono) (simp add: is_read_def is_artifact_write_def)

lemma no_write_create: "\<not> is_artifact_write (create_request H p)"
proof -
  have "last (u @ ''/api/v1/tasks'') \<noteq> last (b @ ''/api/bill-artifacts/'')" for u b by simp
  then show ?thesis by (fastforce simp: is_artifact_write_def create_request_def)
qed

text \<open>Neither written nor reported: the action sends no row, and it returns or raises what the endpoint does not catch.\<close>

definition unnoticed :: "('n, 'r, 'a) act \<Rightarrow> bool" where
  "unnoticed m = (\<forall>s. (\<exists>rqs. sent (snd (m s)) = sent s @ rqs \<and> list_all (\<lambda>rq. \<not> is_artifact_write rq) rqs) \<and>
     (\<forall>e. fst (m s) = Inl e \<longrightarrow> \<not> caught_by_dispatch e))"

lemma unnoticed_bnd:
  assumes "unnoticed m" "\<And>x. unnoticed (f x)"
  shows "unnoticed (bnd m f)"
  unfolding unnoticed_def
proof
  fix s
  obtain x s1 where m: "m s = (x, s1)" by (cases "m s")
  obtain as where as: "sent s1 = sent s @ as" "list_all (\<lambda>rq. \<not> is_artifact_write rq) as"
    and e: "\<And>e. x = Inl e \<Longrightarrow> \<not> caught_by_dispatch e"
    using assms(1) m unfolding unnoticed_def by (metis fst_conv snd_conv)
  show "(\<exists>rqs. sent (snd (bnd m f s)) = sent s @ rqs \<and> list_all (\<lambda>rq. \<not> is_artifact_write rq) rqs) \<and>
     (\<forall>e. fst (bnd m f s) = Inl e \<longrightarrow> \<not> caught_by_dispatch e)"
  proof (cases x)
    case (Inr y)
    obtain bs where "sent (snd (f y s1)) = sent s1 @ bs" "list_all (\<lambda>rq. \<not> is_artifact_write rq) bs"
      using assms(2)[of y] unfolding unnoticed_def by blast
    moreover have "fst (f y s1) = Inl e \<Longrightarrow> \<not> caught_by_dispatch e" for e
      using assms(2)[of y] unfolding unnoticed_def by blast
    ultimately show ?thesis using m as Inr by (auto simp: run_bnd intro: exI[of _ "as @ bs"])
  qed (use m as e in \<open>auto simp: run_bnd\<close>)
qed

lemma unnoticed_source: "unnoticed (resolve_bill_source H bill)"
proof -
  have "sends (\<lambda>rq. \<not> is_artifact_write rq) (resolve_bill_source H bill)"
    unfolding resolve_bill_source_def by (intro no_write_reads sending)
  moreover have "fst (resolve_bill_source H bill s) = Inl e \<Longrightarrow> \<not> caught_by_dispatch e" for s e
    by (auto simp: resolve_bill_source_def get_archived_bill_text_def read_detail_def bill_detail_def or_unreachable_def acts http_def
        Let_def caught_by_dispatch_def split: sum.splits prod.splits if_splits option.splits)
  ultimately show ?thesis unfolding unnoticed_def sends_def by blast
qed

lemma bnd_ret: "bnd (ret x) f = f x"
  by (rule ext) (simp add: run_bnd run_ret)

lemma bnd_raised: "m s = (Inl e, s') \<Longrightarrow> bnd m f s = (Inl e, s')"
  by (simp add: run_bnd)

lemma down_dispatch:
  fixes H :: "('n, 'r) host"
  assumes "cams_down H"
  shows "unnoticed (bnd (dispatch_bill_question H fuel t q None None None) f)"
  unfolding unnoticed_def
proof
  fix s :: "('n, 'r) site"
  define p where "p = [(''bill_source'', t), (''question_type'', JStr q), (''caller'', JStr ''ddp_sync'')]"
  obtain m n where "n_call (network H) (create_request H p) (net s) = (Inl m, n)"
    using assms unfolding cams_down_def by (metis prod.collapse)
  then obtain s' where "http H (create_request H p) s = (Inl (RequestError m), s')" and sent: "sent s' = sent s @ [create_request H p]"
    by (simp add: http_def)
  then have "dispatch_and_await H fuel p None None s = (Inl (RequestError m), s')"
    using assms unfolding dispatch_and_await_def cams_down_def Let_def by (simp add: bnd_raised)
  then have "dispatch_bill_question H fuel t q None None None s = (Inl (RequestError m), s')"
    unfolding dispatch_bill_question_def by (simp add: run_bnd run_lift_res question_payload_def p_def)
  then have "bnd (dispatch_bill_question H fuel t q None None None) f s = (Inl (RequestError m), s')" by (rule bnd_raised)
  then show "(\<exists>rqs. sent (snd (bnd (dispatch_bill_question H fuel t q None None None) f s)) = sent s @ rqs \<and>
      list_all (\<lambda>rq. \<not> is_artifact_write rq) rqs) \<and>
    (\<forall>e. fst (bnd (dispatch_bill_question H fuel t q None None None) f s) = Inl e \<longrightarrow> \<not> caught_by_dispatch e)"
    by (simp add: sent no_write_create caught_by_dispatch_def)
qed

lemma down_artifact:
  assumes "cams_down H" "map_of ARTIFACT_TYPE_TO_QUESTION_TYPE artifact_type = Some q" "artifact_type \<noteq> ''bill_topics''"
  shows "unnoticed (generate_and_store_bill_artifact H fuel k artifact_type None None)"
proof -
  have simple: "unnoticed (ret x)" for x :: json
    by (simp add: unnoticed_def run_ret)
  have "unnoticed (case source of None \<Rightarrow> ret not_applicable | Some t \<Rightarrow> bnd (ret None) (\<lambda>taxonomy.
      bnd (dispatch_bill_question H fuel t q taxonomy None None) (\<lambda>result. store_answer H k artifact_type taxonomy result)))" for source
  proof (cases source)
    case (Some t)
    with down_dispatch[OF assms(1)] show ?thesis by (simp add: bnd_ret)
  qed (simp add: simple)
  then show ?thesis using assms(2,3)
    unfolding generate_and_store_bill_artifact_def by simp (intro unnoticed_bnd unnoticed_source)
qed

lemma write_sends_row:
  assumes "resolved base (ddp_broker_api_base (conf H)) \<noteq> []" "artifact_payload args = Inr p"
  shows "\<exists>b t. sent (snd (write_bill_artifact H args base token s)) = sent s @ [broker_post t (b @ ''/api/bill-artifacts/'') (JObj p)]"
  using assms
  by (intro exI[of _ "resolved base (ddp_broker_api_base (conf H))"] exI[of _ "resolved token (ddp_broker_api_token (conf H))"])
    (auto simp: write_bill_artifact_def with_broker_def acts Let_def reach_def http_def accepted_def json_body_def written_def
      split: if_splits sum.splits prod.splits option.splits)

lemma pending_row:
  assumes "resolved (rk_base k) (ddp_broker_api_base (conf H)) \<noteq> []"
  shows "\<exists>rq. sent (snd (write_row H k artifact_type contents ''pending'' [] s)) = sent s @ [rq] \<and> is_artifact_write rq \<and>
    row_status rq = JStr ''pending''"
proof -
  let ?args = "key_args k @ [(''artifact_type'', JStr artifact_type), (''content'', contents), (''status'', JStr ''pending'')]"
  have "kwarg ?args ''failure_reason'' JNull = JNull" "kwarg ?args ''status'' x = JStr ''pending''" for x
    by (simp_all add: kwarg_def key_args_def)
  then obtain p where p: "artifact_payload ?args = Inr p" "dict_get p ''status'' = JStr ''pending''"
    by (simp add: artifact_payload_def bounded_reason_def keyword_payload_def ARTIFACT_FIELDS_def dict_get_def kwarg_def)
  from write_sends_row[OF assms p(1)] p(2) show ?thesis
    by (fastforce simp: write_row_def is_artifact_write_def broker_post_def row_status_def)
qed

text \<open>While CAMS does not accept connections, the on-demand endpoint leaves its placeholder pending for good: the pending row is
  the only row it writes, although the caller was promised a failed row for every failure. (The \<open>RequestError\<close> of the creation of
  the task is not among the exceptions that the wrapper catches.)\<close>

lemma placeholder_stays_pending:
  assumes "cams_down H" "map_of ARTIFACT_TYPE_TO_QUESTION_TYPE artifact_type = Some q" "artifact_type \<noteq> ''bill_topics''"
    and "resolved (rk_base k) (ddp_broker_api_base (conf H)) \<noteq> []"
  shows "map row_status (filter is_artifact_write (drop (length (sent s))
      (sent (snd (dispatch_and_record_bill_artifact H fuel k artifact_type s))))) = [JStr ''pending'']"
proof -
  let ?k = "k\<lparr>rk_target := JNull\<rparr>"
  obtain x s1 where x: "write_row H ?k artifact_type (JStr []) ''pending'' [] s = (x, s1)"
    by (cases "write_row H ?k artifact_type (JStr []) ''pending'' [] s")
  obtain rq where rq: "sent s1 = sent s @ [rq]" "is_artifact_write rq" "row_status rq = JStr ''pending''"
    using pending_row[of ?k H artifact_type "JStr []" s] assms(4) x by auto
  have demand: "unnoticed (run_on_demand H fuel k' artifact_type)" for k'
  proof -
    have "artifact_type \<noteq> ''bill_changelog''" using assms(2) by (auto simp: ARTIFACT_TYPE_TO_QUESTION_TYPE_def)
    then show ?thesis unfolding run_on_demand_def
      by simp (intro unnoticed_bnd down_artifact[OF assms(1-3)], simp add: unnoticed_def run_ret)
  qed
  have rest: "\<exists>rqs. sent (snd (dispatch_and_record_bill_artifact H fuel k artifact_type s)) = sent s1 @ rqs \<and>
      list_all (\<lambda>rq. \<not> is_artifact_write rq) rqs"
  proof (cases "case x of Inl e \<Rightarrow> None | Inr v \<Rightarrow> (case attr_get v ''id'' JNull of Inl _ \<Rightarrow> None | Inr i \<Rightarrow> Some i)")
    case None
    then show ?thesis using x
      by (auto simp: dispatch_and_record_bill_artifact_def on_broker_error_def acts split: sum.splits fault.splits)
  next
    case (Some i)
    obtain y s2 where y: "run_on_demand H fuel (k\<lparr>rk_target := i\<rparr>) artifact_type s1 = (y, s2)"
      by (cases "run_on_demand H fuel (k\<lparr>rk_target := i\<rparr>) artifact_type s1")
    have "\<not> (\<exists>e. y = Inl e \<and> caught_by_dispatch e)" and
      rqs: "\<exists>rqs. sent s2 = sent s1 @ rqs \<and> list_all (\<lambda>rq. \<not> is_artifact_write rq) rqs"
      using demand[of "k\<lparr>rk_target := i\<rparr>"] y unfolding unnoticed_def by (metis fst_conv, metis snd_conv)
    then have "snd (dispatch_and_record_bill_artifact H fuel k artifact_type s) = s2"
      using x y Some
      by (auto simp: dispatch_and_record_bill_artifact_def on_broker_error_def acts Let_def split: sum.splits)
    with rqs show ?thesis by simp
  qed
  then show ?thesis using rq by (auto simp: list_all_iff filter_empty_conv)
qed

text \<open>A host without CAMS whose broker stores every row and whose version archive has one text.\<close>

definition archived_answer :: response where
  "archived_answer = \<lparr>status_code = 200, body_text = [], body_json = Some (JObj
     [(''id'', JInt 7), (''openstates_bill_id'', JStr ''b1''), (''versions'', JArr [JObj [(''note'', JStr ''Enrolled''), (''date'', JStr ''2026-03-01''),
        (''links'', JArr [JObj [(''url'', JStr ''u''), (''raw_text'', JStr ''An act'')]])]])]), headers_of = []\<rparr>"

definition host_without_cams :: "(script, unit) host" where
  "host_without_cams = (scripted_host (default_settings\<lparr>cams_artifacts_dir := ''/artifacts''\<rparr>))\<lparr>network := script_network\<lparr>n_call :=
     (\<lambda>rq n. (if req_method rq = POST \<and> req_url rq = ''http://localhost:8000/api/v1/tasks'' then Inl ''connection refused''
       else Inr archived_answer, n))\<rparr>\<rparr>"

definition demanded :: row_key where
  "demanded = \<lparr>rk_bill = JStr ''b1'', rk_jurisdiction = JStr ''fl'', rk_session = JStr ''2026'', rk_date = JStr ''2026-03-01'',
     rk_note = JStr ''Enrolled'', rk_target = JNull, rk_base = None, rk_token = None\<rparr>"

lemma placeholder_stays_pending_witness:
  "cams_down host_without_cams \<and>
   fst (dispatch_and_record_bill_artifact host_without_cams 0 demanded ''bill_summary'' (scripted_site [] [])) =
     Inl (RequestError ''connection refused'') \<and>
   map row_status (filter is_artifact_write (sent (snd (dispatch_and_record_bill_artifact host_without_cams 0 demanded ''bill_summary''
     (scripted_site [] []))))) = [JStr ''pending'']"
proof -
  have down: "cams_down host_without_cams"
    by (simp add: cams_down_def host_without_cams_def scripted_host_def default_settings_def create_request_def)
  have "map_of ARTIFACT_TYPE_TO_QUESTION_TYPE ''bill_summary'' = Some ''summary_500char''" by code_simp
  moreover have "resolved (rk_base demanded) (ddp_broker_api_base (conf host_without_cams)) \<noteq> []" by code_simp
  moreover note placeholder_stays_pending[OF down calculation(1) _ calculation(2), of "scripted_site [] []" 0]
  moreover have "fst (dispatch_and_record_bill_artifact host_without_cams 0 demanded ''bill_summary'' (scripted_site [] [])) =
     Inl (RequestError ''connection refused'')" by code_simp
  ultimately show ?thesis using down by (simp add: scripted_site_def)
qed

end
