(* ===== verification/OrgResearch.thy ===== *)
theory OrgResearch
  imports ArtifactGeneration
begin

text \<open>
  Organization positions of a bill (\<open>pipelines/bill_organization_position_research.py\<close>): find them, verify each one
  against its page, write a row for each, and afterwards resolve and describe the organizations. A summary
  is a mapping, kept as an association list. Also the concept statements of a bill
  (\<open>pipelines/concept_statement_dispatch.py\<close>).
\<close>

section \<open>One position\<close>

definition build_claim :: "json \<Rightarrow> json \<Rightarrow> json \<Rightarrow> json \<Rightarrow> json \<Rightarrow> json \<Rightarrow> string" where
  "build_claim org_name position gov bill_title jurisdiction session =
     json_str org_name @ '' '' @ json_str position @ ''s '' @ json_str gov @ '' ('' @ json_str bill_title @ '', '' @
     json_str jurisdiction @ '' '' @ json_str session @ '')''"

definition RATE_LIMIT_MARKERS :: "string list" where
  "RATE_LIMIT_MARKERS = [''429'', ''rate_limit'', ''rate limit'', ''529'', ''overloaded'']"

definition or_text :: "json \<Rightarrow> json" where
  "or_text v = (if truthy v then v else JStr [])"

definition is_rate_limited :: "(string \<times> json) list \<Rightarrow> bool" where
  "is_rate_limited answer =
     (\<not> truthy (dict_get answer ''verdict'') \<and>
      list_ex (\<lambda>m. contains m (lower (json_str (or_text (dict_get answer ''reason''))))) RATE_LIMIT_MARKERS)"

type_synonym summary = "(string \<times> json) list"

definition position_summary ::
  "json \<Rightarrow> json \<Rightarrow> string \<Rightarrow> json \<Rightarrow> json \<Rightarrow> json \<Rightarrow> json \<Rightarrow> json \<Rightarrow> json \<Rightarrow> summary" where
  "position_summary org_name position outcome position_id res verdict attempted organization_id needs =
     [(''org_name'', org_name), (''position'', position), (''outcome'', JStr outcome), (''position_id'', position_id),
      (''result'', res), (''verification_verdict'', verdict), (''attempted_verdict'', attempted),
      (''organization_id'', organization_id), (''organization_needs_content'', needs)]"

definition nothing_written :: "json \<Rightarrow> json \<Rightarrow> string \<Rightarrow> json \<Rightarrow> summary" where
  "nothing_written org_name position outcome attempted =
     position_summary org_name position outcome JNull JNull JNull attempted JNull (JBool False)"

text \<open>A citation to check: the bill it is about and the finding.\<close>

record citation =
  cit_key :: row_key
  cit_gov :: json
  cit_title :: json
  cit_invocation :: json
  cit_org :: json
  cit_position :: json
  cit_url :: json
  cit_excerpt :: json
  cit_model :: json

definition claim_of :: "citation \<Rightarrow> string" where
  "claim_of c = build_claim (cit_org c) (cit_position c) (cit_gov c) (cit_title c) (rk_jurisdiction (cit_key c)) (rk_session (cit_key c))"

definition verdict_of :: "(string \<times> json) list \<Rightarrow> json" where
  "verdict_of answer = (let v = dict_get answer ''verdict'' in if truthy v then v else JStr ''pending'')"

definition explanation_of :: "(string \<times> json) list \<Rightarrow> json" where
  "explanation_of answer =
     (let e = dict_get answer ''explanation'' in if truthy e then e else kwarg answer ''reason'' (JStr []))"

text \<open>\<open>verified\<close> is the answer and its backend, or \<open>None\<close> when the dispatch failed.\<close>

definition position_args :: "citation \<Rightarrow> ((string \<times> json) list \<times> json) option \<Rightarrow> (string \<times> json) list" where
  "position_args c verified =
     (let k = cit_key c in
      [(''bill_openstates_id'', rk_bill k), (''jurisdiction'', rk_jurisdiction k), (''session_code'', rk_session k),
       (''version_date'', rk_date k), (''version_note'', rk_note k), (''invocation_id'', cit_invocation c),
       (''org_name'', cit_org c), (''position'', cit_position c), (''citation_url'', cit_url c),
       (''citation_excerpt'', cit_excerpt c), (''find_model_name'', cit_model c)] @
      (case verified of
         None \<Rightarrow> [(''status'', JStr ''failed''), (''failure_stage'', JStr ''verification''),
           (''failure_reason'', JStr ''legbot_dispatch_failed'')]
       | Some (answer, model) \<Rightarrow>
           [(''status'', JStr ''complete''), (''verification_verdict'', verdict_of answer),
            (''verification_insufficient_information'', kwarg answer ''insufficient_information'' (JBool False)),
            (''verification_content_incomplete'', kwarg answer ''content_looks_incomplete'' (JBool False)),
            (''verification_explanation'', explanation_of answer), (''verify_model_name'', model)]))"

definition answer_dict :: "legbot_result \<Rightarrow> (string \<times> json) list" where
  "answer_dict r = (case lr_answer r of JObj d \<Rightarrow> d | _ \<Rightarrow> [])"

definition store_position :: "('n, 'r) host \<Rightarrow> citation \<Rightarrow> ((string \<times> json) list \<times> json) option \<Rightarrow> ('n, 'r, summary) act" where
  "store_position H c verified =
     (let attempted = (case verified of None \<Rightarrow> JNull | Some (answer, _) \<Rightarrow> verdict_of answer) in
      on_broker_error
        (write_bill_organization_position H (position_args c verified) (rk_base (cit_key c)) (rk_token (cit_key c)))
        (nothing_written (cit_org c) (cit_position c) ''broker_write_failed'' attempted)
        (\<lambda>v. let d = (case v of JObj d \<Rightarrow> d | _ \<Rightarrow> []) in ret
          (position_summary (cit_org c) (cit_position c) (if verified = None then ''verification_failed'' else ''written'')
             (dict_get d ''id'') (dict_get d ''result'') (dict_get d ''verification_verdict'') attempted
             (dict_get d ''organization_id'') (JBool (truthy (dict_get d ''organization_needs_content''))))))"

definition verify_and_store_position :: "('n, 'r) host \<Rightarrow> nat \<Rightarrow> bool \<Rightarrow> citation \<Rightarrow> ('n, 'r, summary) act" where
  "verify_and_store_position H fuel skip_write_on_rate_limit c =
     bnd (attempt (dispatch_bill_position_verification H fuel (cit_url c) (JStr (claim_of c)))
        (\<lambda>e. case e of LegBotDispatchError _ \<Rightarrow> ret None | _ \<Rightarrow> raise e)
        (\<lambda>r. ret (Some (answer_dict r, lr_backend r)))) (\<lambda>verified.
     if skip_write_on_rate_limit \<and> (case verified of Some (answer, _) \<Rightarrow> is_rate_limited answer | None \<Rightarrow> False)
     then ret (nothing_written (cit_org c) (cit_position c) ''retryable'' JNull)
     else store_position H c verified)"

section \<open>Resolving an organization\<close>

record resolution_state =
  res_attempt :: json
  res_outcome :: string
  res_choice :: json
  res_organization :: json

definition resolution_dict :: "json \<Rightarrow> resolution_state \<Rightarrow> (string \<times> json) list" where
  "resolution_dict position_id x =
     [(''position_id'', position_id), (''attempt_id'', res_attempt x), (''outcome'', JStr (res_outcome x)),
      (''choice'', res_choice x), (''organization_id'', res_organization x)]"

definition ended :: "json \<Rightarrow> string \<Rightarrow> resolution_state" where
  "ended attempt_id outcome = \<lparr>res_attempt = attempt_id, res_outcome = outcome, res_choice = JNull, res_organization = JNull\<rparr>"

text \<open>The choice must be an \<open>int\<close> (not a \<open>bool\<close>) among the ids of the candidates.\<close>

fun candidate_ids :: "json list \<Rightarrow> json list res" where
  "candidate_ids [] = Inr []"
| "candidate_ids (c # cs) =
     bind_res (bind_res (attr_get c ''id'' JNull) json_key) (\<lambda>i. bind_res (candidate_ids cs) (\<lambda>is. Inr (i # is)))"

definition checked_choice :: "json \<Rightarrow> json list \<Rightarrow> json \<Rightarrow> (json \<times> json) res" where
  "checked_choice choice candidates reason =
     (if choice = JNull then Inr (JNull, reason)
      else bind_res (case choice of JInt i \<Rightarrow> bind_res (candidate_ids candidates) (\<lambda>is. Inr (JInt i \<in> set is)) | _ \<Rightarrow> Inr False) (\<lambda>ok.
        Inr (if ok then (choice, reason)
             else (JNull, JStr (''invalid choice '' @ json_repr choice @ '' (not in the shortlist); '' @ json_str reason)))))"

definition report_answer ::
  "('n, 'r) host \<Rightarrow> string option \<Rightarrow> string option \<Rightarrow> json \<Rightarrow> json \<Rightarrow> json \<Rightarrow> json \<Rightarrow> json \<Rightarrow> ('n, 'r, bool) act" where
  "report_answer H base token attempt_id choice reason model prompt_rev =
     on_broker_error (report_organization_resolution_answer H attempt_id model prompt_rev choice reason base token) False (\<lambda>_. ret True)"

definition act_on_choice :: "('n, 'r) host \<Rightarrow> string option \<Rightarrow> string option \<Rightarrow> string \<Rightarrow> json \<Rightarrow> json \<Rightarrow> ('n, 'r, resolution_state) act" where
  "act_on_choice H base token mode attempt_id choice =
     (let x = (ended attempt_id [])\<lparr>res_choice := choice\<rparr> in
      if choice = JNull then ret (x\<lparr>res_outcome := ''null_answer''\<rparr>)
      else if mode \<noteq> ''act'' then ret (x\<lparr>res_outcome := ''suggested''\<rparr>)
      else on_broker_error (request_organization_resolution_act H attempt_id base token) (x\<lparr>res_outcome := ''act_failed''\<rparr>) (\<lambda>v.
        bnd (lift_res (attr_get v ''acted'' JNull)) (\<lambda>acted.
          if truthy acted then bnd (lift_res (attr_get v ''organization_id'' JNull))
            (\<lambda>i. ret (x\<lparr>res_outcome := ''acted'', res_organization := i\<rparr>))
          else ret (x\<lparr>res_outcome := ''act_refused''\<rparr>))))"

definition resolve_organization_for_position ::
  "('n, 'r) host \<Rightarrow> nat \<Rightarrow> json \<Rightarrow> json \<Rightarrow> json \<Rightarrow> json \<Rightarrow> string \<Rightarrow> string option \<Rightarrow> string option \<Rightarrow> ('n, 'r, resolution_state) act" where
  "resolve_organization_for_position H fuel position_id org_name citation_url citation_excerpt mode base token =
     on_broker_error (get_organization_resolution_shortlist H position_id base token) (ended JNull ''shortlist_failed'') (\<lambda>shortlist.
     bnd (lift_res (attr_get shortlist ''attempt_id'' JNull)) (\<lambda>attempt_id.
     if attempt_id = JNull then ret (ended JNull ''not_eligible'')
     else bnd (lift_res (get_or_list shortlist ''candidates'')) (\<lambda>candidates.
       if \<not> truthy candidates then bnd (report_answer H base token attempt_id JNull (JStr ''no candidates'') JNull JNull)
         (\<lambda>ok. ret (ended attempt_id (if ok then ''no_candidates'' else ''report_failed'')))
       else attempt (dispatch_resolve_organization H fuel org_name candidates citation_url citation_excerpt)
         (\<lambda>e. case e of LegBotDispatchError _ \<Rightarrow> ret (ended attempt_id ''dispatch_failed'') | _ \<Rightarrow> raise e)
         (\<lambda>r. let answer = answer_dict r in
           bnd (lift_res (bind_res (json_iter candidates) (\<lambda>cs. checked_choice (dict_get answer ''choice'') cs
              (JStr (json_str (or_text (dict_get answer ''reason''))))))) (\<lambda>(choice, reason).
           bnd (report_answer H base token attempt_id choice reason (lr_backend r) (dict_get answer ''prompt_version'')) (\<lambda>ok.
             if \<not> ok then ret (ended attempt_id ''report_failed'')
             else act_on_choice H base token mode attempt_id choice))))))"

section \<open>Describing an organization\<close>

definition ABOUT_FIELDS :: "string list" where
  "ABOUT_FIELDS = [''description'', ''org_type'', ''policy_focus_areas'', ''funding'', ''affiliates'', ''website'', ''email'',
     ''contact_page_url'']"

fun join_with :: "string \<Rightarrow> string list \<Rightarrow> string" where
  "join_with sep [] = []"
| "join_with sep [x] = x"
| "join_with sep (x # y # xs) = x @ sep @ join_with sep (y # xs)"

definition as_text :: "json \<Rightarrow> string" where
  "as_text v =
     (case v of
        JArr xs \<Rightarrow> join_with ''; '' (filter (\<lambda>s. s \<noteq> []) (map (\<lambda>x. strip (json_str x)) xs))
      | JStr s \<Rightarrow> strip s
      | _ \<Rightarrow> [])"

record content_outcome =
  co_outcome :: string
  co_written :: json

definition generate_and_store_organization_content ::
  "('n, 'r) host \<Rightarrow> nat \<Rightarrow> json \<Rightarrow> json \<Rightarrow> string option \<Rightarrow> string option \<Rightarrow> ('n, 'r, content_outcome) act" where
  "generate_and_store_organization_content H fuel organization_id org_name base token =
     (let nothing = \<lparr>co_outcome = ''nothing_written'', co_written = JArr []\<rparr> in
      attempt (dispatch_describe_organization H fuel org_name)
        (\<lambda>e. case e of LegBotDispatchError _ \<Rightarrow> ret (nothing\<lparr>co_outcome := ''dispatch_failed''\<rparr>) | _ \<Rightarrow> raise e)
        (\<lambda>r. let answer = answer_dict r;
                  contents = map (\<lambda>f. (f, JStr (as_text (dict_get answer f)))) ABOUT_FIELDS;
                  source = ''legbot:describe_organization:'' @ (if truthy (lr_backend r) then json_str (lr_backend r) else ''unknown'') in
          if truthy (dict_get answer ''insufficient_information'') \<or> list_all (\<lambda>p. \<not> truthy (snd p)) contents then ret nothing
          else on_broker_error
            (write_organization_content H organization_id contents source base token)
            (nothing\<lparr>co_outcome := ''broker_write_failed''\<rparr>)
            (\<lambda>v. bnd (lift_res (attr_get v ''written'' (JArr []))) (\<lambda>w.
              ret \<lparr>co_outcome = (if truthy w then ''written'' else ''nothing_written''), co_written = w\<rparr>))))"

section \<open>After the positions\<close>

definition newly_confirmed :: "(json \<times> json \<times> json) list \<Rightarrow> summary \<Rightarrow> bool" where
  "newly_confirmed citations r =
     (dict_get r ''outcome'' = JStr ''written'' \<and> dict_get r ''result'' = JStr ''created'' \<and>
      dict_get r ''verification_verdict'' = JStr ''confirmed'' \<and> dict_get r ''position_id'' \<in> fst ` set citations)"

definition with_resolution :: "summary \<Rightarrow> resolution_state \<Rightarrow> summary" where
  "with_resolution r x =
     (let r = dict_set ''resolution'' (JObj (resolution_dict (dict_get r ''position_id'') x)) r in
      if res_outcome x = ''acted''
      then dict_set ''organization_needs_content'' (JBool False) (dict_set ''organization_id'' (res_organization x) r)
      else r)"

text \<open>Resolving never raises (\<open>except Exception\<close>).\<close>

definition resolve_step ::
  "('n, 'r) host \<Rightarrow> nat \<Rightarrow> (json \<times> json \<times> json) list \<Rightarrow> string option \<Rightarrow> string option \<Rightarrow> summary \<Rightarrow> summary list \<Rightarrow>
    ('n, 'r, summary list) act" where
  "resolve_step H fuel citations base token r acc =
     (if newly_confirmed citations r then
        (let (url, excerpt) = the (map_of citations (dict_get r ''position_id'')) in
         bnd (attempt
           (resolve_organization_for_position H fuel (dict_get r ''position_id'') (dict_get r ''org_name'') url excerpt
              (organization_resolution_mode (conf H)) base token)
           (\<lambda>e. if e = OutOfFuel then raise e else ret (ended JNull ''failed'')) ret) (\<lambda>x. ret (acc @ [with_resolution r x])))
      else ret (acc @ [r]))"

definition describe_step ::
  "('n, 'r) host \<Rightarrow> nat \<Rightarrow> string option \<Rightarrow> string option \<Rightarrow> summary \<Rightarrow> json list \<times> summary list \<Rightarrow>
    ('n, 'r, json list \<times> summary list) act" where
  "describe_step H fuel base token r acc =
     (let (asked, done) = acc; organization_id = dict_get r ''organization_id'' in
      if dict_get r ''verification_verdict'' = JStr ''confirmed'' \<and> truthy (dict_get r ''organization_needs_content'') \<and>
         organization_id \<notin> set asked
      then bnd (generate_and_store_organization_content H fuel organization_id (dict_get r ''org_name'') base token) (\<lambda>x.
        ret (asked @ [organization_id], done @ [dict_set ''about_content'' (JObj [(''organization_id'', organization_id),
          (''outcome'', JStr (co_outcome x)), (''written'', co_written x)]) r]))
      else ret (asked, done @ [r]))"

definition resolve_and_describe_organizations ::
  "('n, 'r) host \<Rightarrow> nat \<Rightarrow> (json \<times> json \<times> json) list \<Rightarrow> string option \<Rightarrow> string option \<Rightarrow> summary list \<Rightarrow> ('n, 'r, summary list) act" where
  "resolve_and_describe_organizations H fuel citations base token results =
     bnd (if organization_resolution_mode (conf H) \<noteq> ''off''
          then for_each (resolve_step H fuel citations base token) results [] else ret results) (\<lambda>results.
     if organization_content_enabled (conf H)
     then bnd (for_each (describe_step H fuel base token) results ([], [])) (\<lambda>(asked, done). ret done)
     else ret results)"

section \<open>The research of one bill\<close>

definition malformed_finding :: "json \<Rightarrow> json \<Rightarrow> summary" where
  "malformed_finding org_name position =
     [(''org_name'', org_name), (''position'', position), (''outcome'', JStr ''malformed_finding''), (''position_id'', JNull)]"

definition finding_step ::
  "('n, 'r) host \<Rightarrow> nat \<Rightarrow> citation \<Rightarrow> json \<Rightarrow> summary list \<times> (json \<times> json \<times> json) list \<Rightarrow>
    ('n, 'r, summary list \<times> (json \<times> json \<times> json) list) act" where
  "finding_step H fuel c finding acc =
     (let (done, citations) = acc in
      case finding of
        JObj d \<Rightarrow>
          (let org_name = kwarg d ''org_name'' (JStr []); position = kwarg d ''position'' (JStr []);
               url = kwarg d ''citation_url'' (JStr []); excerpt = kwarg d ''citation_excerpt'' (JStr []) in
           if \<not> (truthy org_name \<and> truthy position \<and> truthy url) then ret (done @ [malformed_finding org_name position], citations)
           else bnd (verify_and_store_position H fuel False
               (c\<lparr>cit_org := org_name, cit_position := position, cit_url := url, cit_excerpt := excerpt\<rparr>)) (\<lambda>r.
             ret (done @ [r], if dict_get r ''position_id'' = JNull then citations
               else dict_set (dict_get r ''position_id'') (url, excerpt) citations)))
      | _ \<Rightarrow> ret (done @ [malformed_finding (JStr []) (JStr [])], citations))"

definition length_of :: "json \<Rightarrow> int res" where
  "length_of v =
     (case v of
        JArr xs \<Rightarrow> Inr (int (length xs)) | JStr s \<Rightarrow> Inr (int (length s)) | JObj d \<Rightarrow> Inr (int (length d)) | _ \<Rightarrow> Inl TypeError)"

definition capped_positions :: "int \<Rightarrow> json \<Rightarrow> json list res" where
  "capped_positions bound v =
     bind_res (length_of v) (\<lambda>n.
       case v of
         JObj d \<Rightarrow> if n > bound then Inl TypeError else json_iter v
       | _ \<Rightarrow> bind_res (json_iter v) (\<lambda>xs. Inr (if n > bound then slice_to bound xs else xs)))"

definition generate_and_store_bill_organization_positions ::
  "('n, 'r) host \<Rightarrow> nat \<Rightarrow> row_key \<Rightarrow> json \<Rightarrow> json \<Rightarrow> ('n, 'r, summary list) act" where
  "generate_and_store_bill_organization_positions H fuel k gov bill_title =
     bnd (new_uuid H) (\<lambda>invocation.
     bnd (resolve_bill_source H (rk_bill k)) (\<lambda>source. case source of
         None \<Rightarrow> ret []
       | Some t \<Rightarrow>
           bnd (dispatch_bill_question H fuel t ''find_bill_positions'' None None None) (\<lambda>r.
           (let answer = answer_dict r in
            bnd (lift_res (length_of (or_list (dict_get answer ''positions'')))) (\<lambda>found.
            bnd (on_broker_error (write_bill_organization_research_run H (rk_bill k) (rk_jurisdiction k) (rk_session k)
                   (JStr invocation) found (rk_base k) (rk_token k)) JNull ret) (\<lambda>_.
            if truthy (dict_get answer ''insufficient_information'') \<or> \<not> truthy (dict_get answer ''positions'') then ret []
            else bnd (lift_res (capped_positions (org_research_max_organizations (conf H)) (dict_get answer ''positions''))) (\<lambda>positions.
              bnd (for_each (finding_step H fuel \<lparr>cit_key = k, cit_gov = gov, cit_title = bill_title,
                     cit_invocation = JStr invocation, cit_org = JNull, cit_position = JNull, cit_url = JNull,
                     cit_excerpt = JNull, cit_model = lr_backend r\<rparr>) positions ([], [])) (\<lambda>(done, citations).
                resolve_and_describe_organizations H fuel citations (rk_base k) (rk_token k) done))))))))"

section \<open>Concept statements\<close>

definition dispatch_and_store_concept_statements ::
  "('n, 'r) host \<Rightarrow> nat \<Rightarrow> row_key \<Rightarrow> json \<Rightarrow> json \<Rightarrow> ('n, 'r, json option) act" where
  "dispatch_and_store_concept_statements H fuel k gov bill_source =
     bnd (resolve_bill_source H (rk_bill k)) (\<lambda>source. case source of
         None \<Rightarrow> ret None
       | Some t \<Rightarrow>
           bnd (dispatch_bill_question H fuel t ''concept_statements'' None None None) (\<lambda>r.
           (let answer = answer_dict r in
            if truthy (dict_get answer ''insufficient_information'') then ret None
            else bnd (lift_res (subscript (JObj answer) ''statements'')) (\<lambda>statements.
              bnd (create_concept_statement_set H gov (rk_jurisdiction k) (rk_session k) statements bill_source (lr_backend r)
                     (rk_base k) (rk_token k)) (\<lambda>v. ret (Some v))))))"

section \<open>Every operation ends\<close>

lemma ends_positions [ending]:
  assumes "patient H fuel"
  shows "ends (generate_and_store_bill_organization_positions H fuel k gov bill_title)"
  unfolding generate_and_store_bill_organization_positions_def resolve_bill_source_def on_broker_error_def finding_step_def
    verify_and_store_position_def store_position_def resolve_and_describe_organizations_def resolve_step_def describe_step_def
    resolve_organization_for_position_def report_answer_def act_on_choice_def generate_and_store_organization_content_def
  by (intro ending assms; simp)

lemma ends_concept_statements [ending]:
  assumes "patient H fuel"
  shows "ends (dispatch_and_store_concept_statements H fuel k gov bill_source)"
  unfolding dispatch_and_store_concept_statements_def resolve_bill_source_def by (intro ending assms; simp)

end
