(* ===== verification/BillListing.thy ===== *)
theory BillListing
  imports LocalOpenstates
begin

text \<open>
  The paged reads of \<open>services/local_openstates_client.py\<close>: the bills of a session, the sessions that a run touched, the
  bills and the ledger of the embedder, one bill by its number, and the count of legislators. A paged read
  without a bound of its own takes fuel, one unit for each page; used up, it raises \<open>OutOfFuel\<close>.
\<close>

section \<open>The bills of a session\<close>

definition API_V3_MAX_PER_PAGE :: int where "API_V3_MAX_PER_PAGE = 20"

record candidate =
  gov_id :: string
  bill_openstates_id :: string
  session_code :: string
  live_url_fallback :: json

text \<open>\<open>s.rsplit("/", 1)[-1]\<close>.\<close>

definition after_slash :: "string \<Rightarrow> string" where
  "after_slash s = rev (takeWhile (\<lambda>c. c \<noteq> CHR ''/'') (rev s))"

definition identity_of :: "json \<Rightarrow> (string \<times> string) res" where
  "identity_of bill =
     bind_res (bind_res (attr_get bill ''identifier'' JNull) text_or_empty) (\<lambda>gov.
     bind_res (bind_res (attr_get bill ''id'' (JStr [])) text_or_empty) (\<lambda>raw. Inr (strip gov, after_slash raw)))"

definition first_source :: "json \<Rightarrow> json res" where
  "first_source bill =
     bind_res (get_or_list bill ''sources'') (\<lambda>l. bind_res (json_iter l) (\<lambda>sources.
       case sources of [] \<Rightarrow> Inr (JStr []) | x # _ \<Rightarrow> attr_get x ''url'' (JStr [])))"

text \<open>One page: a bill without a number or an id is skipped, and so is one that an earlier page gave.\<close>

fun add_bills :: "string \<Rightarrow> json list \<Rightarrow> candidate list \<Rightarrow> candidate list res" where
  "add_bills code [] acc = Inr acc"
| "add_bills code (bill # bills) acc =
     bind_res (identity_of bill) (\<lambda>(gov, uuid).
       if gov = [] \<or> uuid = [] \<or> uuid \<in> bill_openstates_id ` set acc then add_bills code bills acc
       else bind_res (first_source bill) (\<lambda>url. add_bills code bills
         (acc @ [\<lparr>gov_id = gov, bill_openstates_id = uuid, session_code = code, live_url_fallback = url\<rparr>])))"

definition page_items :: "json \<Rightarrow> json list res" where
  "page_items data = bind_res (get_or_list data ''results'') json_iter"

definition page_limit :: "json \<Rightarrow> int \<Rightarrow> int res" where
  "page_limit data page =
     bind_res (attr_get data ''pagination'' JNull) (\<lambda>p.
     bind_res (attr_get (or_empty p) ''max_page'' (JInt page)) (\<lambda>m. case m of
         JInt n \<Rightarrow> Inr n | JBool b \<Rightarrow> Inr (if b then 1 else 0) | _ \<Rightarrow> Inl TypeError))"

definition enough :: "int option \<Rightarrow> 'a list \<Rightarrow> bool" where
  "enough limit xs = (case limit of None \<Rightarrow> False | Some n \<Rightarrow> int (length xs) \<ge> n)"

definition page_size :: "int option \<Rightarrow> int" where
  "page_size limit = (case limit of None \<Rightarrow> API_V3_MAX_PER_PAGE | Some n \<Rightarrow> min API_V3_MAX_PER_PAGE n)"

definition bills_request :: "('n, 'r) host \<Rightarrow> string \<Rightarrow> string \<Rightarrow> int option \<Rightarrow> int \<Rightarrow> request" where
  "bills_request H jurisdiction_iso2 code limit page =
     api_get (local_openstates_api_base (conf H) @ ''/bills'')
       [(''jurisdiction'', upper jurisdiction_iso2), (''session'', code),
        (''per_page'', int_str (page_size limit)), (''page'', int_str page)] (local_openstates_api_key (conf H))"

fun candidate_pages ::
  "('n, 'r) host \<Rightarrow> string \<Rightarrow> string \<Rightarrow> int option \<Rightarrow> nat \<Rightarrow> int \<Rightarrow> candidate list \<Rightarrow> ('n, 'r, candidate list) act" where
  "candidate_pages H jurisdiction_iso2 code limit 0 page acc = raise OutOfFuel"
| "candidate_pages H jurisdiction_iso2 code limit (Suc fuel) page acc =
     (if enough limit acc then ret acc
      else or_unreachable (ret acc) (http H (bills_request H jurisdiction_iso2 code limit page)) (\<lambda>r.
        if status_code r \<ge> 400 then ret acc
        else (case body_json r of
            None \<Rightarrow> ret acc
          | Some data \<Rightarrow>
              bnd (lift_res (bind_res (page_items data) (\<lambda>bills. add_bills code bills acc))) (\<lambda>acc.
              bnd (lift_res (page_limit data page)) (\<lambda>max_page.
                if page \<ge> max_page \<or> enough limit acc then ret acc
                else candidate_pages H jurisdiction_iso2 code limit fuel (page + 1) acc)))))"

definition cap_at :: "int option \<Rightarrow> 'a list \<Rightarrow> 'a list" where
  "cap_at limit xs = (case limit of None \<Rightarrow> xs | Some n \<Rightarrow> take (nat n) xs)"

definition session_candidates ::
  "('n, 'r) host \<Rightarrow> nat \<Rightarrow> string \<Rightarrow> string \<Rightarrow> int option \<Rightarrow> ('n, 'r, candidate list) act" where
  "session_candidates H fuel jurisdiction_iso2 code limit =
     (if (case limit of Some n \<Rightarrow> n \<le> 0 | None \<Rightarrow> False) \<or> local_openstates_api_base (conf H) = [] then ret []
      else bnd (candidate_pages H jurisdiction_iso2 code limit fuel 1 [])
        (\<lambda>found. ret (cap_at limit found)))"

text \<open>Several current sessions share the one limit.\<close>

fun sessions_candidates ::
  "('n, 'r) host \<Rightarrow> nat \<Rightarrow> string \<Rightarrow> string list \<Rightarrow> int option \<Rightarrow> candidate list \<Rightarrow> ('n, 'r, candidate list) act" where
  "sessions_candidates H fuel jurisdiction_iso2 [] limit acc = ret acc"
| "sessions_candidates H fuel jurisdiction_iso2 (code # codes) limit acc =
     (if enough limit acc then ret acc
      else bnd (session_candidates H fuel jurisdiction_iso2 code (map_option (\<lambda>n. n - int (length acc)) limit)) (\<lambda>xs.
        sessions_candidates H fuel jurisdiction_iso2 codes limit (acc @ xs)))"

text \<open>\<open>current_codes\<close> stands for \<open>OpenStatesSource.get_current_session_identifiers\<close>.\<close>

definition list_current_session_bill_candidates ::
  "('n, 'r) host \<Rightarrow> nat \<Rightarrow> (string \<Rightarrow> ('n, 'r, string list) act) \<Rightarrow> string \<Rightarrow> string option \<Rightarrow> int option \<Rightarrow>
    ('n, 'r, candidate list) act" where
  "list_current_session_bill_candidates H fuel current_codes jurisdiction_iso2 given limit =
     (if (case limit of Some n \<Rightarrow> n \<le> 0 | None \<Rightarrow> False) then ret []
      else (case given of
          Some code \<Rightarrow> session_candidates H fuel jurisdiction_iso2 code limit
        | None \<Rightarrow> bnd (current_codes jurisdiction_iso2) (\<lambda>codes. case codes of
              [] \<Rightarrow> ret []
            | [code] \<Rightarrow> session_candidates H fuel jurisdiction_iso2 code limit
            | _ \<Rightarrow> sessions_candidates H fuel jurisdiction_iso2 codes limit [])))"

section \<open>The sessions that a run touched\<close>

definition RESOLVE_SESSIONS_MAX_ATTEMPTS :: nat where "RESOLVE_SESSIONS_MAX_ATTEMPTS = 3"
definition RESOLVE_SESSIONS_RETRY_BACKOFF_SECONDS :: rat where "RESOLVE_SESSIONS_RETRY_BACKOFF_SECONDS = 2"

text \<open>Up to \<open>n + 1\<close> attempts with a pause between them; \<open>None\<close> when none of them got an answer.\<close>

fun get_with_retry :: "('n, 'r) host \<Rightarrow> request \<Rightarrow> nat \<Rightarrow> ('n, 'r, response option) act" where
  "get_with_retry H rq 0 = or_unreachable (ret None) (http H rq) (\<lambda>r. ret (Some r))"
| "get_with_retry H rq (Suc n) = or_unreachable
     (bnd (sleep H RESOLVE_SESSIONS_RETRY_BACKOFF_SECONDS) (\<lambda>_. get_with_retry H rq n)) (http H rq) (\<lambda>r. ret (Some r))"

fun add_sessions :: "json list \<Rightarrow> string list \<Rightarrow> string list res" where
  "add_sessions [] codes = Inr codes"
| "add_sessions (bill # bills) codes =
     (if \<not> is_dict bill then add_sessions bills codes
      else bind_res (bind_res (attr_get bill ''session'' JNull) text_or_empty) (\<lambda>s.
        add_sessions bills (if strip s \<noteq> [] \<and> strip s \<notin> set codes then codes @ [strip s] else codes)))"

definition known_or_none :: "string list \<Rightarrow> string list option" where
  "known_or_none codes = (if codes \<noteq> [] then Some codes else None)"

record touched_query =
  tq_base :: string
  tq_key :: string
  tq_jurisdiction :: string
  tq_since_param :: string
  tq_since :: string

definition touched_request :: "touched_query \<Rightarrow> int \<Rightarrow> request" where
  "touched_request q page =
     api_get (tq_base q @ ''/bills'') [(''jurisdiction'', upper (tq_jurisdiction q)), (tq_since_param q, tq_since q),
       (''per_page'', int_str API_V3_MAX_PER_PAGE), (''page'', int_str page)] (tq_key q)"

text \<open>The items of a page: not a mapping, or \<open>results\<close> not a list, is \<open>None\<close>.\<close>

definition touched_items :: "response \<Rightarrow> (json \<times> json list) option" where
  "touched_items r =
     (if status_code r \<ge> 400 then None
      else (case body_json r of
          Some (JObj d) \<Rightarrow> (case or_list (dict_get d ''results'') of JArr xs \<Rightarrow> Some (JObj d, xs) | _ \<Rightarrow> None)
        | _ \<Rightarrow> None))"

text \<open>\<open>left\<close> is the number of bills that may still be scanned: every page that does not end the loop has one.\<close>

function touched_pages ::
  "('n, 'r) host \<Rightarrow> touched_query \<Rightarrow> nat \<Rightarrow> int \<Rightarrow> string list \<Rightarrow> ('n, 'r, string list option) act" where
  "touched_pages H q left page codes =
     (if left = 0 then ret (Some codes)
      else bnd (get_with_retry H (touched_request q page) (RESOLVE_SESSIONS_MAX_ATTEMPTS - 1)) (\<lambda>answer.
        (case (case answer of None \<Rightarrow> None | Some r \<Rightarrow> touched_items r) of
           None \<Rightarrow> ret (known_or_none codes)
         | Some (data, items) \<Rightarrow>
             bnd (lift_res (add_sessions items codes)) (\<lambda>codes.
             bnd (lift_res (page_limit data page)) (\<lambda>max_page.
               if page \<ge> max_page \<or> items = [] then ret (Some codes)
               else touched_pages H q (left - length items) (page + 1) codes)))))"
  by pat_completeness auto

termination
  by (relation "measure (\<lambda>(H, q, left, page, codes). left)") auto

declare touched_pages.simps [simp del]

definition resolve_touched_sessions ::
  "('n, 'r) host \<Rightarrow> string \<Rightarrow> string \<Rightarrow> int \<Rightarrow> string option \<Rightarrow> string option \<Rightarrow> string \<Rightarrow> ('n, 'r, string list option) act" where
  "resolve_touched_sessions H jurisdiction_iso2 since max_bills_scanned api_base api_key since_param =
     (let base = (case api_base of None \<Rightarrow> local_openstates_api_base (conf H) | Some b \<Rightarrow> b);
          key = (case api_key of None \<Rightarrow> local_openstates_api_key (conf H) | Some k \<Rightarrow> k) in
      if base = [] \<or> max_bills_scanned \<le> 0 then ret (Some [])
      else touched_pages H \<lparr>tq_base = base, tq_key = key, tq_jurisdiction = jurisdiction_iso2,
             tq_since_param = since_param, tq_since = since\<rparr> (nat max_bills_scanned) 1 [])"

section \<open>The reads of the embedder\<close>

definition get_json_with_retry :: "('n, 'r) host \<Rightarrow> request \<Rightarrow> ('n, 'r, json option) act" where
  "get_json_with_retry H rq =
     bnd (get_with_retry H rq (RESOLVE_SESSIONS_MAX_ATTEMPTS - 1)) (\<lambda>answer. ret (case answer of
         None \<Rightarrow> None
       | Some r \<Rightarrow> if status_code r \<ge> 400 then None
           else (case body_json r of Some v \<Rightarrow> if is_dict v then Some v else None | None \<Rightarrow> None)))"

text \<open>\<open>data.get("results") if data else None\<close>, when it is a list.\<close>

definition result_items :: "json option \<Rightarrow> (json \<times> json list) option" where
  "result_items answer =
     (case answer of
        Some (JObj d) \<Rightarrow> if d = [] then None else (case dict_get d ''results'' of JArr xs \<Rightarrow> Some (JObj d, xs) | _ \<Rightarrow> None)
      | _ \<Rightarrow> None)"

fun add_ids :: "json list \<Rightarrow> string list \<Rightarrow> string list res" where
  "add_ids [] ids = Inr ids"
| "add_ids (bill # bills) ids =
     (case bill of
        JObj d \<Rightarrow>
          (case dict_get d ''id'' of
             JStr s \<Rightarrow>
               (let bare = remove_prefix ''ocd-bill/'' s in
                add_ids bills (if s = [] \<or> bare \<in> set ids then ids else ids @ [bare]))
           | v \<Rightarrow> if truthy v then Inl (OtherError ''AttributeError'') else add_ids bills ids)
      | _ \<Rightarrow> add_ids bills ids)"

fun touched_id_pages ::
  "('n, 'r) host \<Rightarrow> (int \<Rightarrow> request) \<Rightarrow> nat \<Rightarrow> int \<Rightarrow> string list \<Rightarrow> ('n, 'r, (string list \<times> bool) option) act" where
  "touched_id_pages H request_for 0 page ids = raise OutOfFuel"
| "touched_id_pages H request_for (Suc fuel) page ids =
     bnd (get_json_with_retry H (request_for page)) (\<lambda>answer.
       (case result_items answer of
          None \<Rightarrow> ret (if ids \<noteq> [] then Some (ids, False) else None)
        | Some (data, items) \<Rightarrow>
            bnd (lift_res (add_ids items ids)) (\<lambda>ids.
            bnd (lift_res (page_limit data page)) (\<lambda>max_page.
              if page \<ge> max_page \<or> items = [] then ret (Some (ids, True))
              else touched_id_pages H request_for fuel (page + 1) ids))))"

definition list_touched_bill_ids ::
  "('n, 'r) host \<Rightarrow> nat \<Rightarrow> string \<Rightarrow> string \<Rightarrow> string \<Rightarrow> string \<Rightarrow> string option \<Rightarrow>
    ('n, 'r, (string list \<times> bool) option) act" where
  "list_touched_bill_ids H fuel jurisdiction_iso2 since api_base api_key session =
     (if api_base = [] then ret None
      else touched_id_pages H (\<lambda>page. api_get (api_base @ ''/bills'')
        ([(''jurisdiction'', upper jurisdiction_iso2), (''document_updated_since'', since),
          (''per_page'', int_str API_V3_MAX_PER_PAGE), (''page'', int_str page)] @
         (case session of Some s \<Rightarrow> if s \<noteq> [] then [(''session'', s)] else [] | None \<Rightarrow> [])) api_key) fuel 1 [])"

definition fetch_bill_for_embedding :: "('n, 'r) host \<Rightarrow> string \<Rightarrow> string \<Rightarrow> string \<Rightarrow> ('n, 'r, json option) act" where
  "fetch_bill_for_embedding H ocd_bill_id api_base api_key =
     (if api_base = [] then ret None
      else get_json_with_retry H (api_get (api_base @ ''/bills/ocd-bill/'' @ ocd_bill_id)
        [(''include'', ''versions''), (''include'', ''sources'')] api_key))"

definition LEDGER_PAGE_LIMIT :: int where "LEDGER_PAGE_LIMIT = 500"

text \<open>The documents of one entry of the ledger; an entry of another shape makes the whole page unusable.\<close>

definition ledger_document :: "json \<Rightarrow> (string \<times> json) res" where
  "ledger_document d =
     bind_res (subscript d ''archived_document_id'') (\<lambda>i.
     bind_res (attr_get d ''updated_at'' JNull) (\<lambda>u. Inr (json_str i, u)))"

definition ledger_entry :: "json \<Rightarrow> (json \<times> (string \<times> json) list) res" where
  "ledger_entry bill =
     bind_res (bind_res (subscript bill ''documents'') json_iter) (\<lambda>ds.
     bind_res (map_res ledger_document ds) (\<lambda>docs.
     bind_res (bind_res (subscript bill ''ocd_bill_id'') json_key) (\<lambda>k.
       Inr (k, fold (\<lambda>(i, u). dict_set i u) docs []))))"

type_synonym ledger = "(json \<times> (string \<times> json) list) list"

fun add_entries :: "json list \<Rightarrow> ledger \<Rightarrow> ledger \<times> bool" where
  "add_entries [] l = (l, True)"
| "add_entries (bill # bills) l =
     (case ledger_entry bill of Inl _ \<Rightarrow> (l, False) | Inr (k, docs) \<Rightarrow> add_entries bills (dict_set k docs l))"

definition ledger_so_far :: "ledger \<Rightarrow> (ledger \<times> bool) option" where
  "ledger_so_far l = (if l \<noteq> [] then Some (l, False) else None)"

fun ledger_pages ::
  "('n, 'r) host \<Rightarrow> (json \<Rightarrow> request) \<Rightarrow> nat \<Rightarrow> json \<Rightarrow> ledger \<Rightarrow> ('n, 'r, (ledger \<times> bool) option) act" where
  "ledger_pages H request_for 0 after l = raise OutOfFuel"
| "ledger_pages H request_for (Suc fuel) after l =
     bnd (get_json_with_retry H (request_for after)) (\<lambda>answer.
       (case result_items answer of
          None \<Rightarrow> ret (ledger_so_far l)
        | Some (data, items) \<Rightarrow>
            (let (l, ok) = add_entries items l in
             if \<not> ok then ret (ledger_so_far l)
             else bnd (lift_res (attr_get data ''next_after'' JNull)) (\<lambda>after.
               if \<not> truthy after then ret (Some (l, True))
               else ledger_pages H request_for fuel after l))))"

definition list_embedding_ledger ::
  "('n, 'r) host \<Rightarrow> nat \<Rightarrow> string \<Rightarrow> string \<Rightarrow> string \<Rightarrow> ('n, 'r, (ledger \<times> bool) option) act" where
  "list_embedding_ledger H fuel jurisdiction_iso2 api_base api_key =
     (if api_base = [] then ret None
      else ledger_pages H (\<lambda>after. api_get (api_base @ ''/ddp/embedding/ledger'')
        ([(''jurisdiction'', lower jurisdiction_iso2), (''limit'', int_str LEDGER_PAGE_LIMIT)] @
         (if truthy after then [(''after'', json_str after)] else [])) api_key) fuel JNull [])"

section \<open>One bill, and the people of a jurisdiction\<close>

text \<open>The second component: could api-v3 answer at all?\<close>

definition found_bill :: "string \<Rightarrow> string \<Rightarrow> json \<Rightarrow> json option res" where
  "found_bill jurisdiction_iso2 session data =
     (case bind_res (subscript data ''id'') (\<lambda>i. bind_res (subscript data ''identifier'') (\<lambda>g. Inr (i, g))) of
        Inl _ \<Rightarrow> Inr None
      | Inr (JStr i, g) \<Rightarrow> Inr (Some (JObj [(''bill_openstates_id'', JStr (remove_prefix ''ocd-bill/'' i)),
          (''jurisdiction'', JStr (upper jurisdiction_iso2)), (''session_code'', JStr session), (''gov_id'', g)]))
      | Inr _ \<Rightarrow> Inl (OtherError ''AttributeError''))"

definition find_bill :: "('n, 'r) host \<Rightarrow> string \<Rightarrow> string \<Rightarrow> string \<Rightarrow> ('n, 'r, json option \<times> bool) act" where
  "find_bill H jurisdiction_iso2 session identifier =
     (if local_openstates_api_base (conf H) = [] then ret (None, False)
      else or_unreachable (ret (None, False))
        (http H (api_get (local_openstates_api_base (conf H) @ ''/bills/'' @ lower jurisdiction_iso2 @ ''/'' @ session @ ''/'' @
           filter (\<lambda>c. c \<noteq> CHR '' '') identifier) [] (local_openstates_api_key (conf H))))
        (\<lambda>r. if status_code r = 404 then ret (None, True)
          else if status_code r \<ge> 400 then ret (None, False)
          else (case body_json r of
              None \<Rightarrow> ret (None, False)
            | Some data \<Rightarrow> bnd (lift_res (found_bill jurisdiction_iso2 session data)) (\<lambda>b. ret (b, b \<noteq> None)))))"

definition PEOPLE_COUNT_ATTEMPTS :: nat where "PEOPLE_COUNT_ATTEMPTS = 2"
definition PEOPLE_COUNT_RETRY_GAP_SECONDS :: rat where "PEOPLE_COUNT_RETRY_GAP_SECONDS = 1"

definition people_total :: "json option \<Rightarrow> int option res" where
  "people_total data =
     bind_res (attr_get (case data of Some v \<Rightarrow> if is_dict v then v else JObj [] | None \<Rightarrow> JObj []) ''pagination'' JNull) (\<lambda>p.
     bind_res (attr_get (or_empty p) ''total_items'' JNull) (\<lambda>t.
       Inr (case t of JInt n \<Rightarrow> if n \<ge> 0 then Some n else None | _ \<Rightarrow> None)))"

text \<open>\<open>n + 1\<close> attempts; every exception of the request is caught.\<close>

fun people_attempts :: "('n, 'r) host \<Rightarrow> request \<Rightarrow> nat \<Rightarrow> ('n, 'r, int option) act" where
  "people_attempts H rq n =
     bnd (attempt (http H rq) (\<lambda>_. ret None) (\<lambda>r. ret (if status_code r \<ge> 400 then None else body_json r))) (\<lambda>data.
     bnd (lift_res (people_total data)) (\<lambda>total.
       (case total of
          Some t \<Rightarrow> ret (Some t)
        | None \<Rightarrow> (case n of
            0 \<Rightarrow> ret None
          | Suc k \<Rightarrow> bnd (sleep H PEOPLE_COUNT_RETRY_GAP_SECONDS) (\<lambda>_. people_attempts H rq k)))))"

declare people_attempts.simps [simp del]

definition count_current_people :: "('n, 'r) host \<Rightarrow> string \<Rightarrow> string \<Rightarrow> string \<Rightarrow> ('n, 'r, int option) act" where
  "count_current_people H jurisdiction api_base api_key =
     (if api_base = [] then ret None
      else people_attempts H (api_get (api_base @ ''/people'')
        [(''jurisdiction'', upper jurisdiction), (''per_page'', ''1'')] api_key) (PEOPLE_COUNT_ATTEMPTS - 1))"

section \<open>A listing is complete\<close>

lemma add_bills_append: "add_bills code (xs @ ys) acc = bind_res (add_bills code xs acc) (add_bills code ys)"
proof (induction code xs acc rule: add_bills.induct)
  case (2 code bill bills acc)
  show ?case
  proof (cases "identity_of bill")
    case (Inr p)
    with 2 show ?thesis by (cases p; cases "first_source bill") auto
  qed simp
qed simp

definition page_answer :: "int \<Rightarrow> json list \<Rightarrow> json" where
  "page_answer pgs bills = JObj [(''results'', JArr bills), (''pagination'', JObj [(''max_page'', JInt pgs)])]"

lemma page_answer_read:
  "page_items (page_answer pgs bills) = Inr bills" "page_limit (page_answer pgs bills) page = Inr pgs"
  by (simp_all add: page_items_def page_limit_def page_answer_def get_or_list_def attr_get_def or_list_def json_iter_def or_empty_def)

lemma candidate_page_step:
  assumes "fst (n_call (network H) (bills_request H jurisdiction code None page) (net s)) = answer_ok (page_answer last_page bills)"
    and "add_bills code bills acc = Inr acc'"
  shows "\<exists>s'. candidate_pages H jurisdiction code None (Suc fuel) page acc s =
    (if page \<ge> last_page then (Inr acc', s') else candidate_pages H jurisdiction code None fuel (page + 1) acc' s')"
proof -
  obtain n' where "n_call (network H) (bills_request H jurisdiction code None page) (net s) = (answer_ok (page_answer last_page bills), n')"
    using assms(1) by (metis prod.collapse)
  then show ?thesis
    by (simp add: enough_def or_unreachable_def acts http_def answer_ok_def page_answer_read assms(2) Let_def) blast
qed

lemma candidate_pages_all:
  assumes server: "\<And>page n. 1 \<le> page \<Longrightarrow> page \<le> last_page \<Longrightarrow>
      fst (n_call (network H) (bills_request H jurisdiction code None page) n) = answer_ok (page_answer last_page (pages page))"
  shows "last_page = page + int m \<Longrightarrow> 1 \<le> page \<Longrightarrow> m < fuel \<Longrightarrow>
    add_bills code (concat (map pages [page..last_page])) acc = Inr result \<Longrightarrow>
    fst (candidate_pages H jurisdiction code None fuel page acc s) = Inr result"
proof (induction m arbitrary: page fuel acc s)
  case (0 page fuel acc s)
  then obtain fuel' where fuel: "fuel = Suc fuel'" by (cases fuel) auto
  show ?case using candidate_page_step[OF server, where page = page and s = s and acc = acc and acc' = result and fuel = fuel'] 0 by (auto simp: fuel)
next
  case (Suc m page fuel acc s)
  then obtain fuel' where fuel: "fuel = Suc fuel'" by (cases fuel) auto
  have upto: "[page..last_page] = page # [page + 1..last_page]"
    using Suc.prems(1) by (simp add: upto_rec1)
  obtain acc' where acc': "add_bills code (pages page) acc = Inr acc'"
    and rest: "add_bills code (concat (map pages [page + 1..last_page])) acc' = Inr result"
    using Suc.prems(4) unfolding upto by (auto simp: add_bills_append bind_res_Inr_iff)
  have "fst (candidate_pages H jurisdiction code None fuel' (page + 1) acc' s') = Inr result" for s'
    using Suc.prems(1-3) by (intro Suc.IH rest) (auto simp: fuel)
  then show ?case using candidate_page_step[OF server acc', where s = s and fuel = fuel'] Suc.prems(1,2) by (auto simp: fuel)
qed

text \<open>Listing a session without a limit returns, page by page, exactly what one page with all the bills would give: no bill of
  the last page is lost and none comes twice, when api-v3 serves every page it announces.\<close>

lemma listing_is_complete:
  assumes "local_openstates_api_base (conf H) \<noteq> []" "1 \<le> last_page" "nat last_page \<le> fuel"
    and "\<forall>page n. 1 \<le> page \<and> page \<le> last_page \<longrightarrow>
      fst (n_call (network H) (bills_request H jurisdiction code None page) n) = answer_ok (page_answer last_page (pages page))"
    and "add_bills code (concat (map pages [1..last_page])) [] = Inr result"
  shows "fst (session_candidates H fuel jurisdiction code None s) = Inr result"
proof -
  have "fst (candidate_pages H jurisdiction code None fuel 1 [] s) = Inr result"
    using assms(2-5) by (intro candidate_pages_all[where pages = pages and last_page = last_page and m = "nat (last_page - 1)"]) auto
  then show ?thesis using assms(1)
    by (auto simp: session_candidates_def acts cap_at_def split: prod.split sum.split)
qed

text \<open>A server of two pages, for the witness: the answer depends on the page asked for.\<close>

definition two_pages :: "int \<Rightarrow> json list" where
  "two_pages page = (if page = 1
     then [JObj [(''identifier'', JStr ''HB 1''), (''id'', JStr ''ocd-bill/b1'')], JObj [(''identifier'', JStr ''HB 2''), (''id'', JStr ''ocd-bill/b2'')]]
     else [JObj [(''identifier'', JStr ''HB 2''), (''id'', JStr ''ocd-bill/b2'')], JObj [(''identifier'', JStr ''HB 3''), (''id'', JStr ''ocd-bill/b3'')]])"

definition paged_host :: "(script, unit) host" where
  "paged_host = (scripted_host default_settings)\<lparr>network := script_network\<lparr>n_call := (\<lambda>rq n.
     (answer_ok (page_answer 2 (two_pages (if map_of (req_params rq) ''page'' = Some ''1'' then 1 else 2))), n))\<rparr>\<rparr>"

lemma listing_is_complete_witness:
  "fst (session_candidates paged_host 2 ''fl'' ''2026'' None (scripted_site [] [])) = Inr (map (\<lambda>(gov, uuid).
     \<lparr>gov_id = gov, bill_openstates_id = uuid, session_code = ''2026'', live_url_fallback = JStr []\<rparr>)
     [(''HB 1'', ''b1''), (''HB 2'', ''b2''), (''HB 3'', ''b3'')])"
proof -
  have bills: "add_bills ''2026'' (concat (map two_pages [1..2])) [] = Inr (map (\<lambda>(gov, uuid).
     \<lparr>gov_id = gov, bill_openstates_id = uuid, session_code = ''2026'', live_url_fallback = JStr []\<rparr>)
     [(''HB 1'', ''b1''), (''HB 2'', ''b2''), (''HB 3'', ''b3'')])"
    by code_simp
  have "fst (n_call (network paged_host) (bills_request paged_host ''fl'' ''2026'' None page) n) = answer_ok (page_answer 2 (two_pages page))"
    if "1 \<le> page \<and> page \<le> 2" for page n
  proof -
    have "page = 1 \<or> page = 2" using that by auto
    moreover have "int_str 1 = ''1''" "int_str 2 = ''2''" by code_simp+
    ultimately show ?thesis by (auto simp: paged_host_def bills_request_def api_get_def)
  qed
  then show ?thesis
    by (intro listing_is_complete[OF _ _ _ _ bills]) (simp_all add: paged_host_def scripted_host_def default_settings_def)
qed

end
