(* ===== verification/ReplicaFreshness.thy ===== *)
theory ReplicaFreshness
  imports LocalOpenstates RdsCredentials
begin

text \<open>
  Does the local replica hold the text that the database holds (\<open>services/replica_freshness.py\<close>)? The database is a
  record of operations: the secret, connecting, the latest row of a bill, closing; each may raise, with a text. MD5 is a
  function of that record, applied by the database to its text and by the code to the local one.
\<close>

record version_row =
  row_note :: json
  row_date :: json
  row_url :: json
  row_hash :: string

record 'n database =
  db_env :: rds_env
  db_secret :: "'n \<Rightarrow> secret_answer \<times> 'n"
  db_connect :: "string \<Rightarrow> 'n \<Rightarrow> (string + unit) \<times> 'n"
  db_latest :: "string \<Rightarrow> 'n \<Rightarrow> (string + version_row option) \<times> 'n"
  db_close :: "'n \<Rightarrow> (string + unit) \<times> 'n"
  md5 :: "string \<Rightarrow> string"

record freshness =
  is_fresh :: bool
  fresh_reason :: string

definition not_fresh :: "string \<Rightarrow> freshness" where
  "not_fresh why = \<lparr>is_fresh = False, fresh_reason = why\<rparr>"

definition on_net :: "('n \<Rightarrow> 'a \<times> 'n) \<Rightarrow> ('n, 'r, 'a) act" where
  "on_net f s = (let (x, n) = f (net s) in (Inr x, s\<lparr>net := n\<rparr>))"

definition compare_local :: "('n, 'r) host \<Rightarrow> 'n database \<Rightarrow> string \<Rightarrow> version_row \<Rightarrow> ('n, 'r, freshness) act" where
  "compare_local H D bill_openstates_id row =
     bnd (get_bill_version_document_text H bill_openstates_id (row_note row) (row_date row) (row_url row)) (\<lambda>local_text.
       case local_text of
         None \<Rightarrow> ret (not_fresh ''row_not_yet_replicated_locally'')
       | Some (JStr t) \<Rightarrow> ret (if md5 D t \<noteq> row_hash row then not_fresh ''content_hash_mismatch_stale_local_text''
           else \<lparr>is_fresh = True, fresh_reason = ''content_matches''\<rparr>)
       | Some _ \<Rightarrow> raise (Raised (OtherError ''AttributeError'')))"

text \<open>The connection is closed before the row is used, whatever closing says.\<close>

definition check_bill_version_freshness :: "('n, 'r) host \<Rightarrow> 'n database \<Rightarrow> string \<Rightarrow> ('n, 'r, freshness) act" where
  "check_bill_version_freshness H D bill_openstates_id =
     bnd (on_net (db_secret D)) (\<lambda>answer. case resolve_rds_database_url (db_env D) answer of
         Inl e \<Rightarrow> ret (not_fresh (''rds_credential_unavailable: '' @ e))
       | Inr url \<Rightarrow> bnd (on_net (db_connect D url)) (\<lambda>c. case c of
           Inl e \<Rightarrow> ret (not_fresh (''rds_connection_failed: '' @ e))
         | Inr _ \<Rightarrow>
             bnd (on_net (db_latest D (''ocd-bill/'' @ bill_openstates_id))) (\<lambda>found.
             bnd (on_net (db_close D)) (\<lambda>_. case found of
                 Inl e \<Rightarrow> ret (not_fresh (''rds_query_failed: '' @ e))
               | Inr None \<Rightarrow> ret (not_fresh ''no_version_document_row_on_rds'')
               | Inr (Some row) \<Rightarrow> compare_local H D bill_openstates_id row))))"

lemma run_on_net [acts]: "on_net f s = (Inr (fst (f (net s))), s\<lparr>net := snd (f (net s))\<rparr>)"
  by (simp add: on_net_def Let_def split: prod.split)

lemma sends_on_net [sending]: "sends P (on_net f)"
  by (rule sends_silent) (simp add: acts)

lemma ends_on_net [ending]: "ends (on_net f)"
  by (simp add: ends_def on_net_def Let_def split: prod.split)

lemma ends_freshness [ending]: "ends (check_bill_version_freshness H D bill)"
  unfolding check_bill_version_freshness_def compare_local_def by (intro ending; simp)

lemma bnd_on_net: "bnd (on_net f) g s = g (fst (f (net s))) (s\<lparr>net := snd (f (net s))\<rparr>)"
  by (simp add: acts)

text \<open>The check says fresh only when the archive returned, for the exact row that the database calls the latest, a text whose
  hash is the hash of that row; every failure of the database is not fresh.\<close>

lemma fresh_means_same_text:
  assumes "fst (check_bill_version_freshness H D bill s) = Inr f" "is_fresh f"
  shows "\<exists>n row s1 t. fst (db_latest D (''ocd-bill/'' @ bill) n) = Inr (Some row) \<and>
    fst (get_bill_version_document_text H bill (row_note row) (row_date row) (row_url row) s1) = Inr (Some (JStr t)) \<and>
    md5 D t = row_hash row"
proof -
  obtain n row s1 where row: "fst (db_latest D (''ocd-bill/'' @ bill) n) = Inr (Some row)" and
    compare: "fst (compare_local H D bill row s1) = Inr f"
    using assms
    by (auto simp: check_bill_version_freshness_def bnd_on_net run_ret not_fresh_def split: sum.splits option.splits)
  obtain t s2 where "get_bill_version_document_text H bill (row_note row) (row_date row) (row_url row) s1 = (Inr (Some (JStr t)), s2)"
    "md5 D t = row_hash row"
    using compare assms(2)
    by (auto simp: compare_local_def acts not_fresh_def split: sum.splits option.splits prod.splits json.splits if_splits)
  with row show ?thesis by (metis fst_conv)
qed

definition fresh_database :: "script database" where
  "fresh_database = \<lparr>db_env = demo_rds,
     db_secret = (\<lambda>n. (Secret (JObj [(''username'', JStr ''u''), (''password'', JStr ''p'')]), n)),
     db_connect = (\<lambda>_ n. (Inr (), n)),
     db_latest = (\<lambda>_ n. (Inr (Some \<lparr>row_note = JStr ''Enrolled'', row_date = JStr ''2026-03-01'', row_url = JStr ''u1'', row_hash = ''text''\<rparr>), n)),
     db_close = (\<lambda>n. (Inr (), n)), md5 = (\<lambda>t. t)\<rparr>"

lemma fresh_means_same_text_witness:
  "\<exists>n row s1 t. fst (db_latest fresh_database ''ocd-bill/b1'' n) = Inr (Some row) \<and>
    fst (get_bill_version_document_text (scripted_host default_settings) ''b1'' (row_note row) (row_date row) (row_url row) s1) = Inr (Some (JStr t)) \<and>
    md5 fresh_database t = row_hash row"
proof -
  let ?s = "scripted_site [answer_ok (JObj [(''versions'', JArr [JObj [(''note'', JStr ''Enrolled''), (''date'', JStr ''2026-03-01''),
    (''links'', JArr [JObj [(''url'', JStr ''u1''), (''raw_text'', JStr ''text'')]])]])])] []"
  have "fst (check_bill_version_freshness (scripted_host default_settings) fresh_database ''b1'' ?s) =
      Inr \<lparr>is_fresh = True, fresh_reason = ''content_matches''\<rparr>"
    by code_simp
  from fresh_means_same_text[OF this] show ?thesis by simp
qed

end
