(* ===== verification/SessionRunner.thy ===== *)
theory SessionRunner
  imports OrgResearch BillListing ReplicaFreshness "HOL-Library.Multiset"
begin

text \<open>
  The batch runner over the bills of a session (\<open>pipelines/session_pipeline_runner.py\<close>): what each bill still lacks, in
  the order of the pipeline, and the answer for each bill. The organization research of a bill is a task that runs beside
  the dispatches in the code; it touches rows of its own, and here it runs where the code awaits it. The bills of a run
  take their turns in the order of the list; the semaphore, durations and memory are not modelled.
\<close>

section \<open>Types and their order\<close>

definition ARTIFACT_DISPATCH_ORDER :: "string list" where
  "ARTIFACT_DISPATCH_ORDER =
     [''bill_summary'', ''bill_pros_cons'', ''bill_vote_yes_frame'', ''bill_vote_no_frame'', ''bill_supporting_orgs'',
      ''bill_opposing_orgs'', ''bill_impact_analysis'', ''bill_topics'', ''bill_changelog'']"

definition ALL_ARTIFACT_TYPES :: "string set" where
  "ALL_ARTIFACT_TYPES = {''bill_summary'', ''bill_pros_cons'', ''bill_vote_yes_frame'', ''bill_vote_no_frame'',
     ''bill_supporting_orgs'', ''bill_opposing_orgs'', ''bill_impact_analysis'', ''bill_topics'', ''bill_changelog''}"

definition OWN_CACHE_KEY_TYPES :: "string list" where
  "OWN_CACHE_KEY_TYPES = [''bill_changelog'']"

text \<open>\<open>list.index\<close>, of a type that is there.\<close>

definition dispatch_rank :: "string \<Rightarrow> nat" where
  "dispatch_rank t = length (takeWhile (\<lambda>x. x \<noteq> t) ARTIFACT_DISPATCH_ORDER)"

section \<open>Parameters and results\<close>

record run_options =
  ro_jurisdiction :: string
  ro_session :: string
  ro_types :: "string list"
  ro_org_research :: bool
  ro_concept_statements :: bool
  ro_dry_run :: bool
  ro_retry_failed :: bool
  ro_base :: "string option"
  ro_token :: "string option"
  ro_request_id :: "string option"
  ro_redo :: "json option"

record bill_result =
  br_gov_id :: json
  artifacts_generated :: "string list"
  artifacts_skipped_present :: "string list"
  artifacts_failed :: "string list"
  artifacts_skipped_failed_previously :: "string list"
  artifacts_not_applicable :: "string list"
  org_research_dispatched :: bool
  org_research_skipped_reason :: "string option"
  org_research_version_date :: json
  org_research_version_note :: json
  concept_statements_dispatched :: bool
  concept_statements_skipped_reason :: "string option"
  concept_statements_failed :: bool
  br_error :: "string option"
  content_check_bypassed :: bool

definition empty_result :: "json \<Rightarrow> bill_result" where
  "empty_result gov = \<lparr>br_gov_id = gov, artifacts_generated = [], artifacts_skipped_present = [], artifacts_failed = [],
     artifacts_skipped_failed_previously = [], artifacts_not_applicable = [], org_research_dispatched = False,
     org_research_skipped_reason = None, org_research_version_date = JNull, org_research_version_note = JNull,
     concept_statements_dispatched = False, concept_statements_skipped_reason = None, concept_statements_failed = False,
     br_error = None, content_check_bypassed = False\<rparr>"

definition key_for :: "run_options \<Rightarrow> json \<Rightarrow> version_identity \<Rightarrow> row_key" where
  "key_for opts bill version =
     \<lparr>rk_bill = bill, rk_jurisdiction = JStr (ro_jurisdiction opts), rk_session = JStr (ro_session opts), rk_date = vi_date version,
      rk_note = vi_note version, rk_target = JNull, rk_base = ro_base opts, rk_token = ro_token opts\<rparr>"

text \<open>\<open>except Exception\<close>.\<close>

definition on_exception :: "('n, 'r, 'a) act \<Rightarrow> (fault \<Rightarrow> 'b) \<Rightarrow> ('a \<Rightarrow> ('n, 'r, 'b) act) \<Rightarrow> ('n, 'r, 'b) act" where
  "on_exception m h f = attempt m (\<lambda>e. if e = OutOfFuel then raise e else ret (h e)) f"

section \<open>What a bill lacks\<close>

text \<open>Is there a changelog for every version that could have one? What cannot be read counts as covered.\<close>

fun all_have_changelog :: "json list \<Rightarrow> bool res" where
  "all_have_changelog [] = Inr True"
| "all_have_changelog (entry # entries) =
     bind_res (attr_get entry ''artifacts'' JNull) (\<lambda>a.
     bind_res (attr_get (or_empty a) ''bill_changelog'' JNull) (\<lambda>c.
     bind_res (artifact_counts_as_present c) (\<lambda>present. if present then all_have_changelog entries else Inr False)))"

definition changelog_covered :: "json option \<Rightarrow> bool res" where
  "changelog_covered coverage =
     (case coverage of
        None \<Rightarrow> Inr True
      | Some c \<Rightarrow>
          bind_res (get_or_list c ''versions'') (\<lambda>l. bind_res (json_seq l) (\<lambda>versions.
            if length versions < 2 then Inr True else all_have_changelog (tl versions))))"

definition changelog_fully_covered :: "('n, 'r) host \<Rightarrow> run_options \<Rightarrow> string \<Rightarrow> ('n, 'r, bool) act" where
  "changelog_fully_covered H opts gov =
     on_broker_error (get_bill_artifact_coverage_all_versions H (ro_jurisdiction opts) (ro_session opts) gov (ro_base opts) (ro_token opts))
       True (\<lambda>coverage. lift_res (changelog_covered coverage))"

datatype bucket = NeedsDispatch | SkippedFailed | SkippedPresent

definition bucket_of :: "('n, 'r) host \<Rightarrow> run_options \<Rightarrow> string \<Rightarrow> json \<Rightarrow> string \<Rightarrow> ('n, 'r, bucket) act" where
  "bucket_of H opts gov existing artifact_type =
     bnd (lift_res (attr_get existing artifact_type JNull)) (\<lambda>entry.
     bnd (lift_res (attr_get (or_empty entry) ''status'' JNull)) (\<lambda>status.
     bnd (lift_res (if status = JNull then Inr False else artifact_counts_as_present entry)) (\<lambda>present.
       if status = JNull \<or> \<not> present then ret NeedsDispatch
       else if status = JStr ''failed'' then ret (if ro_retry_failed opts then NeedsDispatch else SkippedFailed)
       else if artifact_type = ''bill_changelog'' then bnd (changelog_fully_covered H opts gov)
         (\<lambda>covered. ret (if covered then SkippedPresent else NeedsDispatch))
       else ret SkippedPresent)))"

type_synonym plan = "(string \<times> bucket) list"

definition plan_step :: "('n, 'r) host \<Rightarrow> run_options \<Rightarrow> string \<Rightarrow> json \<Rightarrow> string \<Rightarrow> plan \<Rightarrow> ('n, 'r, plan) act" where
  "plan_step H opts gov existing artifact_type p =
     bnd (bucket_of H opts gov existing artifact_type) (\<lambda>b. ret (p @ [(artifact_type, b)]))"

definition in_bucket :: "bucket \<Rightarrow> plan \<Rightarrow> string list" where
  "in_bucket b p = map fst (filter (\<lambda>x. snd x = b) p)"

text \<open>The order of the pipeline, and what shares the cache of the bill before what does not.\<close>

definition ordered_dispatch :: "plan \<Rightarrow> string list" where
  "ordered_dispatch p = sort_key dispatch_rank (in_bucket NeedsDispatch p)"

definition cache_sharing :: "plan \<Rightarrow> string list" where
  "cache_sharing p = filter (\<lambda>t. t \<notin> set OWN_CACHE_KEY_TYPES) (ordered_dispatch p)"

definition own_cache_key :: "plan \<Rightarrow> string list" where
  "own_cache_key p = filter (\<lambda>t. t \<in> set OWN_CACHE_KEY_TYPES) (ordered_dispatch p)"

section \<open>Dispatching\<close>

definition run_artifact ::
  "('n, 'r) host \<Rightarrow> nat \<Rightarrow> run_options \<Rightarrow> json \<Rightarrow> json \<Rightarrow> version_identity \<Rightarrow> string \<Rightarrow> ('n, 'r, json) act" where
  "run_artifact H fuel opts bill gov version artifact_type =
     (if artifact_type = ''bill_changelog''
      then generate_and_store_bill_changelog H fuel (key_for opts bill version) (Some (json_str gov))
      else generate_and_store_bill_artifact H fuel (key_for opts bill version) artifact_type (ro_request_id opts)
        (if ro_request_id opts = None then None else ro_redo opts))"

definition dispatch_artifact ::
  "('n, 'r) host \<Rightarrow> nat \<Rightarrow> run_options \<Rightarrow> json \<Rightarrow> json \<Rightarrow> version_identity option \<Rightarrow> string \<Rightarrow> bill_result \<Rightarrow>
    ('n, 'r, bill_result) act" where
  "dispatch_artifact H fuel opts bill gov version artifact_type x =
     (let failed = x\<lparr>artifacts_failed := artifacts_failed x @ [artifact_type]\<rparr> in
      if ro_dry_run opts then ret (x\<lparr>artifacts_generated := artifacts_generated x @ [artifact_type]\<rparr>)
      else (case version of
          None \<Rightarrow> ret failed
        | Some v \<Rightarrow>
            on_exception (bnd (run_artifact H fuel opts bill gov v artifact_type) (\<lambda>r. lift_res (attr_get r ''status'' JNull)))
              (\<lambda>_. failed)
              (\<lambda>status. ret (if status = JStr ''complete''
                 then x\<lparr>artifacts_generated := artifacts_generated x @ [artifact_type]\<rparr>
                 else if status = JStr ''not_applicable''
                 then x\<lparr>artifacts_not_applicable := artifacts_not_applicable x @ [artifact_type]\<rparr>
                 else failed))))"

definition run_org_research ::
  "('n, 'r) host \<Rightarrow> nat \<Rightarrow> run_options \<Rightarrow> json \<Rightarrow> json \<Rightarrow> version_identity option \<Rightarrow> bill_result \<Rightarrow> ('n, 'r, bill_result) act" where
  "run_org_research H fuel opts bill gov version x =
     attempt (get_bill_organization_positions_status H (json_str bill) (ro_base opts) (ro_token opts))
       (\<lambda>e. case e of
           BrokerClientError m \<Rightarrow> ret (x\<lparr>org_research_skipped_reason := Some (''status_check_failed: '' @ m)\<rparr>)
         | _ \<Rightarrow> raise e)
       (\<lambda>st. bnd (lift_res (subscript st ''has_rows'')) (\<lambda>has_rows.
         if truthy has_rows then ret (x\<lparr>org_research_skipped_reason := Some ''already_researched''\<rparr>)
         else (case version of
             None \<Rightarrow> ret (if ro_dry_run opts then x\<lparr>org_research_dispatched := True\<rparr>
               else x\<lparr>org_research_skipped_reason := Some ''no_current_version_resolved''\<rparr>)
           | Some v \<Rightarrow>
               (let x = x\<lparr>org_research_version_date := vi_date v, org_research_version_note := vi_note v\<rparr> in
                if ro_dry_run opts then ret (x\<lparr>org_research_dispatched := True\<rparr>)
                else on_exception (generate_and_store_bill_organization_positions H fuel (key_for opts bill v) gov (vi_title v))
                  (\<lambda>e. x\<lparr>org_research_skipped_reason := Some (''dispatch_failed: '' @ fault_text e)\<rparr>)
                  (\<lambda>_. ret (x\<lparr>org_research_dispatched := True\<rparr>))))))"

definition no_version :: version_identity where
  "no_version = \<lparr>vi_date = JNull, vi_note = JNull, vi_title = JNull, vi_chamber = JNull, vi_jurisdiction = JNull\<rparr>"

definition run_concept_statements ::
  "('n, 'r) host \<Rightarrow> nat \<Rightarrow> run_options \<Rightarrow> json \<Rightarrow> json \<Rightarrow> json \<Rightarrow> bill_result \<Rightarrow> ('n, 'r, bill_result) act" where
  "run_concept_statements H fuel opts bill gov bill_source x =
     attempt (get_concept_statement_statuses H (json_str gov) (ro_jurisdiction opts) (ro_session opts) (ro_base opts) (ro_token opts))
       (\<lambda>e. case e of
           BrokerClientError m \<Rightarrow> ret (x\<lparr>concept_statements_skipped_reason := Some (''status_check_failed: '' @ m),
             concept_statements_failed := True\<rparr>)
         | _ \<Rightarrow> raise e)
       (\<lambda>sts. if JStr ''published'' \<in> set sts then ret (x\<lparr>concept_statements_skipped_reason := Some ''already_published''\<rparr>)
         else if JStr ''pending'' \<in> set sts then ret (x\<lparr>concept_statements_skipped_reason := Some ''already_exists_pending''\<rparr>)
         else if ro_dry_run opts then ret (x\<lparr>concept_statements_dispatched := True\<rparr>)
         else on_exception (dispatch_and_store_concept_statements H fuel (key_for opts bill no_version) gov bill_source)
           (\<lambda>e. x\<lparr>concept_statements_skipped_reason := Some (''dispatch_failed: '' @ fault_text e),
             concept_statements_failed := True\<rparr>)
           (\<lambda>v. ret (if v = None then x\<lparr>concept_statements_skipped_reason := Some ''nothing_to_publish''\<rparr>
             else x\<lparr>concept_statements_dispatched := True\<rparr>)))"

section \<open>One bill\<close>

text \<open>The jurisdictions that LegBot may be sent bills for.\<close>

definition legbot_allowed_codes :: "('n, 'r) host \<Rightarrow> ('n, 'r, string list) act" where
  "legbot_allowed_codes H =
     bnd (current enrollment_state) (\<lambda>en.
       (let env_list = sort (map (\<lambda>c. lower (strip c)) (legbot_rds_replica_jurisdiction_allowlist (conf H)));
            (found, en') = enrolled (manifest H) ''legbot_replica'' (JArr (map JStr env_list)) (default_root (manifest H)) en in
        bnd (update (\<lambda>s. s\<lparr>enrollment_state := en'\<rparr>)) (\<lambda>_.
        bnd (lift_res found) (\<lambda>codes. ret (map upper (case codes of None \<Rightarrow> [] | Some cs \<Rightarrow> cs))))))"

text \<open>The two checks before anything else: the reason not to go on, and was the second one bypassed?\<close>

definition replica_gate :: "('n, 'r) host \<Rightarrow> 'n database \<Rightarrow> run_options \<Rightarrow> json \<Rightarrow> ('n, 'r, string option \<times> bool) act" where
  "replica_gate H D opts bill =
     (if \<not> replica_freshness_check_enabled (conf H) then ret (None, False)
      else bnd (legbot_allowed_codes H) (\<lambda>codes.
        if upper (ro_jurisdiction opts) \<notin> set codes
        then ret (Some (''jurisdiction_not_on_rds_replica_allowlist: '' @ upper (ro_jurisdiction opts)), False)
        else if \<not> replica_freshness_content_check_enabled (conf H) then ret (None, True)
        else bnd (check_bill_version_freshness H D (json_str bill)) (\<lambda>f.
          ret (if is_fresh f then None else Some (''replica_not_fresh: '' @ fresh_reason f), False))))"

definition planned :: "plan \<Rightarrow> bill_result \<Rightarrow> bill_result" where
  "planned p x = x\<lparr>artifacts_skipped_present := in_bucket SkippedPresent p,
     artifacts_skipped_failed_previously := in_bucket SkippedFailed p\<rparr>"

text \<open>The \<open>ensure_failed\<close> error, when the row of the bill cannot be made sure of.\<close>

definition ensure_step :: "('n, 'r) host \<Rightarrow> run_options \<Rightarrow> json \<Rightarrow> json \<Rightarrow> version_identity option \<Rightarrow> ('n, 'r, string option) act" where
  "ensure_step H opts bill gov version =
     (if ro_dry_run opts then ret None
      else (case version of
          None \<Rightarrow> ret None
        | Some v \<Rightarrow> bnd (get_archived_bill_text H (json_str bill)) (\<lambda>archived.
            if (case archived of Some t \<Rightarrow> truthy t | None \<Rightarrow> False)
            then attempt (ensure_bill_exists H (JStr (ro_jurisdiction opts)) (JStr (ro_session opts)) gov (vi_title v) (vi_chamber v)
                   (vi_jurisdiction v) bill (ro_base opts) (ro_token opts))
              (\<lambda>e. case e of BrokerClientError m \<Rightarrow> ret (Some (''ensure_failed: '' @ m)) | _ \<Rightarrow> raise e) (\<lambda>_. ret None)
            else ret None)))"

definition dispatch_all ::
  "('n, 'r) host \<Rightarrow> nat \<Rightarrow> run_options \<Rightarrow> json \<Rightarrow> json \<Rightarrow> json \<Rightarrow> plan \<Rightarrow> version_identity option \<Rightarrow> bill_result \<Rightarrow>
    ('n, 'r, bill_result) act" where
  "dispatch_all H fuel opts bill gov bill_source p version x =
     bnd (for_each (dispatch_artifact H fuel opts bill gov version) (cache_sharing p) x) (\<lambda>x.
     bnd (if ro_concept_statements opts then run_concept_statements H fuel opts bill gov bill_source x else ret x) (\<lambda>x.
     bnd (for_each (dispatch_artifact H fuel opts bill gov version) (own_cache_key p) x) (\<lambda>x.
       if ro_org_research opts then run_org_research H fuel opts bill gov version x else ret x)))"

definition process_covered ::
  "('n, 'r) host \<Rightarrow> nat \<Rightarrow> run_options \<Rightarrow> json \<Rightarrow> json \<Rightarrow> json \<Rightarrow> json option \<Rightarrow> bill_result \<Rightarrow> ('n, 'r, bill_result) act" where
  "process_covered H fuel opts bill gov bill_source coverage x =
     bnd (lift_res (case coverage of None \<Rightarrow> Inr (JObj []) | Some c \<Rightarrow> if truthy c then subscript c ''artifacts'' else Inr (JObj []))) (\<lambda>existing.
     bnd (for_each (plan_step H opts (json_str gov) existing) (ro_types opts) []) (\<lambda>p.
     (let x = planned p x in
      bnd (if ordered_dispatch p \<noteq> [] \<or> ro_org_research opts then get_current_version_identity H (json_str bill) else ret None) (\<lambda>version.
      bnd (ensure_step H opts bill gov version) (\<lambda>err. case err of
          Some e \<Rightarrow> ret (x\<lparr>br_error := Some e\<rparr>)
        | None \<Rightarrow> dispatch_all H fuel opts bill gov bill_source p version x)))))"

definition process_bill ::
  "('n, 'r) host \<Rightarrow> 'n database \<Rightarrow> nat \<Rightarrow> run_options \<Rightarrow> json \<Rightarrow> ('n, 'r, bill_result) act" where
  "process_bill H D fuel opts candidate =
     bnd (lift_res (bind_res (subscript candidate ''gov_id'') (\<lambda>g. bind_res (subscript candidate ''bill_openstates_id'') (\<lambda>b.
        bind_res (attr_get candidate ''live_url_fallback'' (JStr [])) (\<lambda>u. Inr (g, b, u)))))) (\<lambda>(gov, bill, bill_source).
     bnd (replica_gate H D opts bill) (\<lambda>(refusal, bypassed).
       (let x = (empty_result gov)\<lparr>content_check_bypassed := bypassed\<rparr> in
        case refusal of
          Some e \<Rightarrow> ret (x\<lparr>br_error := Some e\<rparr>)
        | None \<Rightarrow>
            attempt (get_bill_artifacts H (ro_jurisdiction opts) (ro_session opts) (json_str gov) (ro_base opts) (ro_token opts))
              (\<lambda>e. case e of BrokerClientError m \<Rightarrow> ret (x\<lparr>br_error := Some (''coverage_check_failed: '' @ m)\<rparr>) | _ \<Rightarrow> raise e)
              (\<lambda>coverage. process_covered H fuel opts bill gov bill_source coverage x))))"

section \<open>A run\<close>

definition usable_entry :: "json \<Rightarrow> bool" where
  "usable_entry entry =
     (case entry of JObj d \<Rightarrow> truthy (dict_get d ''gov_id'') \<and> truthy (dict_get d ''bill_openstates_id'') | _ \<Rightarrow> False)"

definition entry_id :: "json \<Rightarrow> json" where
  "entry_id entry = (case entry of JObj d \<Rightarrow> dict_get d ''bill_openstates_id'' | _ \<Rightarrow> JNull)"

text \<open>The first entry of each id.\<close>

fun first_entries :: "json list \<Rightarrow> json list \<Rightarrow> json list res" where
  "first_entries seen [] = Inr []"
| "first_entries seen (e # es) =
     bind_res (json_key (entry_id e)) (\<lambda>i.
       if i \<in> set seen then first_entries seen es
       else bind_res (first_entries (i # seen) es) (\<lambda>rest. Inr (e # rest)))"

definition bad_indices :: "json list \<Rightarrow> nat list" where
  "bad_indices entries = filter (\<lambda>i. \<not> usable_entry (entries ! i)) [0..<length entries]"

definition given_candidates :: "json list \<Rightarrow> json list res" where
  "given_candidates entries =
     (if bad_indices entries \<noteq> []
      then Inl (ValueError (''bill_candidates entries must be dicts with non-empty '' @ [quote1] @ ''gov_id'' @ [quote1] @
        '' and '' @ [quote1] @ ''bill_openstates_id'' @ [quote1] @ '' -- bad at index/indices: '' @
        json_repr (JArr (map (\<lambda>i. JInt (int i)) (bad_indices entries)))))
      else first_entries [] entries)"

definition unrecognized_types :: "string list \<Rightarrow> string list" where
  "unrecognized_types ts = sorted_set (filter (\<lambda>t. t \<notin> ALL_ARTIFACT_TYPES) ts)"

definition unrecognized_error :: "string list \<Rightarrow> py_error" where
  "unrecognized_error ts = ValueError (''Unrecognized artifact_types: '' @ json_repr (JArr (map JStr (unrecognized_types ts))))"

definition validated_run :: "run_options \<Rightarrow> int option \<Rightarrow> json list option \<Rightarrow> json list option res" where
  "validated_run opts limit bill_candidates =
     (if ro_jurisdiction opts = [] then Inl (ValueError ''jurisdiction_iso2 is required'')
      else if ro_session opts = [] then Inl (ValueError ''session_code is required'')
      else if (case limit of Some n \<Rightarrow> n \<le> 0 | None \<Rightarrow> False)
      then Inl (ValueError ''limit must be a positive integer, or None for no limit'')
      else if ro_types opts = [] then Inl (ValueError ''artifact_types must be non-empty'')
      else if unrecognized_types (ro_types opts) \<noteq> [] then Inl (unrecognized_error (ro_types opts))
      else (case bill_candidates of
          None \<Rightarrow> Inr None
        | Some entries \<Rightarrow> bind_res (given_candidates entries) (\<lambda>es. Inr (Some es))))"

definition candidate_json :: "candidate \<Rightarrow> json" where
  "candidate_json c = JObj [(''gov_id'', JStr (gov_id c)), (''bill_openstates_id'', JStr (bill_openstates_id c)),
     (''session_code'', JStr (session_code c)), (''live_url_fallback'', live_url_fallback c)]"

text \<open>The candidates of a run, and whether there are more.\<close>

definition run_candidates ::
  "('n, 'r) host \<Rightarrow> nat \<Rightarrow> run_options \<Rightarrow> int option \<Rightarrow> json list option \<Rightarrow> ('n, 'r, json list \<times> bool) act" where
  "run_candidates H pages opts limit given =
     (case given of
        Some entries \<Rightarrow> ret (entries, False)
      | None \<Rightarrow>
          bnd (list_current_session_bill_candidates H pages (\<lambda>_. ret []) (ro_jurisdiction opts) (Some (ro_session opts))
                 (map_option (\<lambda>n. n + 1) limit)) (\<lambda>found.
            ret (map candidate_json (cap_at limit found), (case limit of None \<Rightarrow> False | Some n \<Rightarrow> int (length found) > n))))"

text \<open>\<open>asyncio.gather\<close>: every bill is processed; an exception of one is raised in place of all results.\<close>

fun process_each :: "('a \<Rightarrow> ('n, 'r, 'b) act) \<Rightarrow> 'a list \<Rightarrow> ('n, 'r) site \<Rightarrow> (fault + 'b) list \<times> ('n, 'r) site" where
  "process_each f [] s = ([], s)"
| "process_each f (c # cs) s = (let (x, s) = f c s; (xs, s) = process_each f cs s in (x # xs, s))"

fun gathered :: "(fault + 'b) list \<Rightarrow> fault + 'b list" where
  "gathered [] = Inr []"
| "gathered (Inl e # xs) = Inl e"
| "gathered (Inr x # xs) = (case gathered xs of Inl e \<Rightarrow> Inl e | Inr ys \<Rightarrow> Inr (x # ys))"

definition gather_all :: "('a \<Rightarrow> ('n, 'r, 'b) act) \<Rightarrow> 'a list \<Rightarrow> ('n, 'r, 'b list) act" where
  "gather_all f cs s = (let (xs, s) = process_each f cs s in (gathered xs, s))"

record run_summary =
  bills_considered :: nat
  bills_processed :: nat
  truncated :: bool
  bill_results :: "bill_result list"

definition run_legbot_pipeline ::
  "('n, 'r) host \<Rightarrow> 'n database \<Rightarrow> nat \<Rightarrow> nat \<Rightarrow> run_options \<Rightarrow> int option \<Rightarrow> json list option \<Rightarrow> ('n, 'r, run_summary) act" where
  "run_legbot_pipeline H D pages fuel opts limit bill_candidates =
     bnd (lift_res (validated_run opts limit bill_candidates)) (\<lambda>given.
     bnd (run_candidates H pages opts limit given) (\<lambda>(candidates, more).
     bnd (gather_all (process_bill H D fuel (opts\<lparr>ro_request_id := None, ro_redo := None\<rparr>)) candidates) (\<lambda>results.
       ret \<lparr>bills_considered = length candidates, bills_processed = length results, truncated = more,
            bill_results = results\<rparr>)))"

section \<open>A single bill\<close>

definition validated_single :: "run_options \<Rightarrow> string \<Rightarrow> string \<Rightarrow> string \<Rightarrow> string list \<Rightarrow> unit res" where
  "validated_single opts bill gov bill_source ts =
     (if bill = [] then Inl (ValueError ''bill_openstates_id is required'')
      else if ro_jurisdiction opts = [] then Inl (ValueError ''jurisdiction_iso2 is required'')
      else if ro_session opts = [] then Inl (ValueError ''session_code is required'')
      else if gov = [] then Inl (ValueError ''gov_id is required'')
      else if bill_source = [] then Inl (ValueError ''bill_source is required'')
      else if ts = [] \<and> \<not> ro_org_research opts
      then Inl (ValueError ''artifact_types must be non-empty unless include_org_research is true'')
      else if unrecognized_types ts \<noteq> [] then Inl (unrecognized_error ts)
      else if ro_redo opts \<noteq> None \<and> ro_request_id opts = None then Inl (ValueError ''redo needs a request_id'')
      else if ro_request_id opts \<noteq> None \<and> length ts \<noteq> 1
      then Inl (ValueError ''request_id and redo belong to one LegBot task: send exactly one artifact type'')
      else if ro_request_id opts \<noteq> None \<and> ts = [''bill_changelog'']
      then Inl (ValueError (''request_id and redo are not supported for bill_changelog yet: it is generated once per '' @
        ''version change, so one request id cannot cover it''))
      else Inr ())"

text \<open>The order of \<open>list(ALL_ARTIFACT_TYPES)\<close> is not fixed by the code; \<open>ordered_dispatch\<close> fixes the dispatches.\<close>

definition run_single_bill_full ::
  "('n, 'r) host \<Rightarrow> 'n database \<Rightarrow> nat \<Rightarrow> run_options \<Rightarrow> string \<Rightarrow> string \<Rightarrow> string \<Rightarrow> string list option \<Rightarrow>
    ('n, 'r, string \<times> bill_result) act" where
  "run_single_bill_full H D fuel opts bill gov bill_source artifact_types =
     (let ts = (case artifact_types of None \<Rightarrow> ARTIFACT_DISPATCH_ORDER | Some l \<Rightarrow> l) in
      bnd (lift_res (validated_single opts bill gov bill_source ts)) (\<lambda>_.
      bnd (new_uuid H) (\<lambda>run_id.
      bnd (process_bill H D fuel (opts\<lparr>ro_types := ts\<rparr>)
             (JObj [(''gov_id'', JStr gov), (''bill_openstates_id'', JStr bill), (''live_url_fallback'', JStr bill_source)]))
        (\<lambda>x. ret (run_id, x)))))"

section \<open>A run ends\<close>

lemma ends_process_bill [ending]:
  assumes "patient H fuel"
  shows "ends (process_bill H D fuel opts candidate)"
  unfolding process_bill_def replica_gate_def legbot_allowed_codes_def process_covered_def plan_step_def bucket_of_def
    changelog_fully_covered_def on_broker_error_def ensure_step_def dispatch_all_def dispatch_artifact_def run_artifact_def
    on_exception_def run_concept_statements_def run_org_research_def
  by (intro ending assms; simp)

lemma gathered_ends: "Inl OutOfFuel \<notin> set xs \<Longrightarrow> gathered xs \<noteq> Inl OutOfFuel"
  by (induction xs rule: gathered.induct) (auto split: sum.split)

lemma ends_gather_all [ending]:
  assumes "\<And>c. ends (f c)"
  shows "ends (gather_all f cs)"
proof -
  have "Inl OutOfFuel \<notin> set (fst (process_each f cs s))" for s
  proof (induction cs arbitrary: s)
    case (Cons c cs)
    have "fst (f c s) \<noteq> Inl OutOfFuel" using assms by (simp add: ends_def)
    with Cons.IH[of "snd (f c s)"] show ?case by (auto simp: Let_def split: prod.split)
  qed simp
  then show ?thesis by (simp add: ends_def gather_all_def Let_def case_prod_beta gathered_ends)
qed

lemma ends_bnd_lift: "(\<And>v. x = Inr v \<Longrightarrow> ends (f v)) \<Longrightarrow> ends (bnd (lift_res x) f)"
  by (auto simp: ends_def acts split: sum.split)

text \<open>C19: A run over given bills ends, whatever the broker, the archive, CAMS and the database answer: with a steady clock and
  positive pauses, every wait for a LegBot task takes at most \<open>polls_needed\<close> polls.\<close>

theorem session_run_ends:
  assumes "patient H fuel"
  shows "fst (run_legbot_pipeline H D pages fuel opts limit (Some entries) s) \<noteq> Inl OutOfFuel"
proof -
  have "validated_run opts limit (Some entries) = Inr given \<Longrightarrow> ends (run_candidates H pages opts limit given)" for given
    by (auto simp: validated_run_def run_candidates_def bind_res_Inr_iff split: if_splits intro: ending)
  then have "ends (run_legbot_pipeline H D pages fuel opts limit (Some entries))"
    unfolding run_legbot_pipeline_def by (intro ends_bnd_lift ending assms) auto
  then show ?thesis by (simp add: ends_def)
qed

text \<open>A run that only looks.\<close>

lemma sends_freshness [sending]: "sends is_read (check_bill_version_freshness H D bill)"
  unfolding check_bill_version_freshness_def compare_local_def by (intro sending sends_details; simp)

lemma sends_dry_process_bill:
  assumes "ro_dry_run opts"
  shows "sends is_read (process_bill H D fuel opts candidate)"
  unfolding process_bill_def replica_gate_def legbot_allowed_codes_def process_covered_def plan_step_def bucket_of_def
    changelog_fully_covered_def on_broker_error_def ensure_step_def dispatch_all_def dispatch_artifact_def
    run_concept_statements_def run_org_research_def
  by (simp only: assms simp_thms if_True) (intro sending; simp)

lemma sends_gather_all [sending]:
  assumes "\<And>c. sends P (f c)"
  shows "sends P (gather_all f cs)"
proof -
  have "\<exists>rqs. sent (snd (process_each f cs s)) = sent s @ rqs \<and> list_all P rqs" for s
  proof (induction cs arbitrary: s)
    case (Cons c cs)
    obtain as where as: "sent (snd (f c s)) = sent s @ as" "list_all P as" using sendsD[OF assms] by blast
    obtain bs where "sent (snd (process_each f cs (snd (f c s)))) = sent (snd (f c s)) @ bs" "list_all P bs"
      using Cons.IH by blast
    with as show ?case by (intro exI[of _ "as @ bs"]) (simp add: Let_def case_prod_beta)
  qed simp
  then show ?thesis by (intro sendsI) (simp add: gather_all_def Let_def case_prod_beta)
qed

lemma sends_candidate_pages [sending]: "sends is_read (candidate_pages H jurisdiction session limit pages page acc)"
proof (induction pages arbitrary: page acc)
  case (Suc pages)
  have "is_read (bills_request H jurisdiction session limit page)" by (simp add: is_read_def bills_request_def api_get_def)
  then show ?case unfolding candidate_pages.simps or_unreachable_def by (intro sending Suc.IH)
qed (simp add: sends_raise)

lemma sends_run_candidates [sending]: "sends is_read (run_candidates H pages opts limit given)"
  unfolding run_candidates_def list_current_session_bill_candidates_def session_candidates_def
  by (intro sending; simp add: sends_ret)

text \<open>C21: A dry run sends no request that writes: for every bill of the run it reads what exists and what is archived, and
  creates no LegBot task, no row and no bill.\<close>

theorem dry_run_only_reads:
  assumes "ro_dry_run opts"
  shows "list_all (\<lambda>rq. req_method rq = GET) (drop (length (sent s)) (sent (snd (run_legbot_pipeline H D pages fuel opts limit given s))))"
proof -
  have "sends is_read (run_legbot_pipeline H D pages fuel opts limit given)"
    unfolding run_legbot_pipeline_def by (intro sending sends_dry_process_bill) (simp_all add: assms)
  then obtain rqs where "sent (snd (run_legbot_pipeline H D pages fuel opts limit given s)) = sent s @ rqs" "list_all is_read rqs"
    using sendsD by blast
  then show ?thesis by (simp add: list_all_iff is_read_def)
qed

text \<open>Values for the witnesses: no database, options for two types, one bill.\<close>

definition no_database :: "script database" where
  "no_database = \<lparr>db_env = \<lparr>secret_arn = [], rds_host = [], rds_port = [], rds_dbname = []\<rparr>,
     db_secret = (\<lambda>n. (FetchFailed [], n)), db_connect = (\<lambda>_ n. (Inl [], n)), db_latest = (\<lambda>_ n. (Inl [], n)),
     db_close = (\<lambda>n. (Inl [], n)), md5 = (\<lambda>_. [])\<rparr>"

definition two_types :: "bool \<Rightarrow> run_options" where
  "two_types dry = \<lparr>ro_jurisdiction = ''fl'', ro_session = ''2026'', ro_types = [''bill_changelog'', ''bill_summary''],
     ro_org_research = False, ro_concept_statements = False, ro_dry_run = dry, ro_retry_failed = False,
     ro_base = None, ro_token = None, ro_request_id = None, ro_redo = None\<rparr>"

definition one_bill :: json where
  "one_bill = JObj [(''gov_id'', JStr ''HB 1''), (''bill_openstates_id'', JStr ''b1'')]"

lemma dry_run_only_reads_witness:
  "ro_dry_run (two_types True) \<and>
   map req_method (sent (snd (run_legbot_pipeline (scripted_host default_settings) no_database 0 0 (two_types True) None (Some [one_bill])
     (scripted_site [answer_ok (JObj [(''found'', JBool False)]), answer_status 404] [])))) = [GET, GET] \<and>
   list_all (\<lambda>rq. req_method rq = GET) (drop 0 (sent (snd (run_legbot_pipeline (scripted_host default_settings) no_database 0 0
     (two_types True) None (Some [one_bill]) (scripted_site [answer_ok (JObj [(''found'', JBool False)]), answer_status 404] [])))))"
proof -
  have "ro_dry_run (two_types True)" by (simp add: two_types_def)
  moreover have "map req_method (sent (snd (run_legbot_pipeline (scripted_host default_settings) no_database 0 0 (two_types True) None (Some [one_bill])
     (scripted_site [answer_ok (JObj [(''found'', JBool False)]), answer_status 404] [])))) = [GET, GET]" by code_simp
  moreover note dry_run_only_reads[OF calculation(1), of "scripted_site [answer_ok (JObj [(''found'', JBool False)]), answer_status 404] []"
     "scripted_host default_settings" no_database 0 0 None "Some [one_bill]"]
  ultimately show ?thesis by (simp add: scripted_site_def)
qed

lemma session_run_ends_witness:
  "patient (scripted_host default_settings) 10803 \<and>
   fst (run_legbot_pipeline (scripted_host default_settings) no_database 0 10803 (two_types False) None (Some [one_bill]) (scripted_site [] []))
     \<noteq> Inl OutOfFuel"
proof -
  have "polls_needed default_settings = 10803" by code_simp
  then have "patient (scripted_host default_settings) 10803"
    by (simp add: patient_def scripted_host_def script.steady_clock_axioms) (simp add: default_settings_def)
  with session_run_ends[OF this] show ?thesis by blast
qed

section \<open>Every type is accounted for\<close>

definition dispatched_types :: "bill_result \<Rightarrow> string multiset" where
  "dispatched_types x = mset (artifacts_generated x) + mset (artifacts_failed x) + mset (artifacts_not_applicable x)"

definition skipped_types :: "bill_result \<Rightarrow> string list \<times> string list" where
  "skipped_types x = (artifacts_skipped_present x, artifacts_skipped_failed_previously x)"

lemma plan_types:
  "for_each (plan_step H opts gov existing) ts p s = (Inr q, s') \<Longrightarrow> map fst q = map fst p @ ts"
proof (induction ts arbitrary: p s)
  case (Cons t ts)
  then obtain r s1 where r: "plan_step H opts gov existing t p s = (Inr r, s1)" and
    rest: "for_each (plan_step H opts gov existing) ts r s1 = (Inr q, s')"
    by (auto elim: bnd_InrE)
  from r have "map fst r = map fst p @ [t]" by (auto simp: plan_step_def run_ret elim!: bnd_InrE)
  with Cons.IH[OF rest] show ?case by simp
qed (simp add: acts)

lemma mset_buckets:
  "mset (in_bucket NeedsDispatch p) + (mset (in_bucket SkippedPresent p) + mset (in_bucket SkippedFailed p)) = mset (map fst p)"
proof (induction p)
  case (Cons x p)
  obtain t b where "x = (t, b)" by (cases x)
  with Cons show ?case by (cases b) (auto simp: in_bucket_def)
qed (simp add: in_bucket_def)

lemma mset_dispatch: "mset (cache_sharing p) + mset (own_cache_key p) = mset (in_bucket NeedsDispatch p)"
proof -
  have "mset (cache_sharing p) + mset (own_cache_key p) = mset (ordered_dispatch p)"
    by (simp add: cache_sharing_def own_cache_key_def mset_filter union_commute)
  then show ?thesis by (simp add: ordered_dispatch_def)
qed

text \<open>What a dispatch leaves alone, and what it adds.\<close>

lemma dispatch_artifact_adds:
  "dispatch_artifact H fuel opts bill gov version t x s = (Inr y, s') \<Longrightarrow>
    dispatched_types y = dispatched_types x + {#t#} \<and> skipped_types y = skipped_types x \<and> br_error y = br_error x"
  by (auto simp: dispatch_artifact_def on_exception_def dispatched_types_def skipped_types_def acts Let_def
      split: if_splits option.splits prod.splits sum.splits)

lemma dispatches_add:
  "for_each (dispatch_artifact H fuel opts bill gov version) ts x s = (Inr y, s') \<Longrightarrow>
    dispatched_types y = dispatched_types x + mset ts \<and> skipped_types y = skipped_types x \<and> br_error y = br_error x"
proof (induction ts arbitrary: x s)
  case (Cons t ts)
  then obtain z s1 where z: "dispatch_artifact H fuel opts bill gov version t x s = (Inr z, s1)"
    and rest: "for_each (dispatch_artifact H fuel opts bill gov version) ts z s1 = (Inr y, s')"
    by (auto simp: acts split: prod.splits sum.splits)
  from dispatch_artifact_adds[OF z] Cons.IH[OF rest] show ?case by simp
qed (simp add: acts)

lemma concept_statements_keep:
  "run_concept_statements H fuel opts bill gov bill_source x s = (Inr y, s') \<Longrightarrow>
    dispatched_types y = dispatched_types x \<and> skipped_types y = skipped_types x \<and> br_error y = br_error x"
  by (auto simp: run_concept_statements_def on_exception_def dispatched_types_def skipped_types_def acts
      split: if_splits option.splits prod.splits sum.splits fault.splits)

lemma org_research_keeps:
  "run_org_research H fuel opts bill gov version x s = (Inr y, s') \<Longrightarrow>
    dispatched_types y = dispatched_types x \<and> skipped_types y = skipped_types x \<and> br_error y = br_error x"
  by (auto simp: run_org_research_def on_exception_def dispatched_types_def skipped_types_def acts Let_def
      split: if_splits option.splits prod.splits sum.splits fault.splits)

lemma dispatch_all_adds:
  assumes "dispatch_all H fuel opts bill gov bill_source p version x s = (Inr y, s')"
  shows "dispatched_types y = dispatched_types x + mset (in_bucket NeedsDispatch p) \<and> skipped_types y = skipped_types x \<and>
    br_error y = br_error x"
proof -
  obtain a s1 b s2 c s3 where
    a: "for_each (dispatch_artifact H fuel opts bill gov version) (cache_sharing p) x s = (Inr a, s1)" and
    b: "(if ro_concept_statements opts then run_concept_statements H fuel opts bill gov bill_source a else ret a) s1 = (Inr b, s2)" and
    c: "for_each (dispatch_artifact H fuel opts bill gov version) (own_cache_key p) b s2 = (Inr c, s3)" and
    y: "(if ro_org_research opts then run_org_research H fuel opts bill gov version c else ret c) s3 = (Inr y, s')"
    using assms unfolding dispatch_all_def run_bnd by (auto split: prod.splits sum.splits)
  have "dispatched_types b = dispatched_types a \<and> skipped_types b = skipped_types a \<and> br_error b = br_error a"
    using b concept_statements_keep[of H fuel opts bill gov bill_source a s1 b s2] by (auto simp: run_ret split: if_splits)
  moreover have "dispatched_types y = dispatched_types c \<and> skipped_types y = skipped_types c \<and> br_error y = br_error c"
    using y org_research_keeps[of H fuel opts bill gov version c s3 y s'] by (auto simp: run_ret split: if_splits)
  ultimately show ?thesis using dispatches_add[OF a] dispatches_add[OF c] mset_dispatch[of p] by (simp add: union_assoc)
qed

lemma process_covered_accounts:
  assumes "process_covered H fuel opts bill gov bill_source coverage x s = (Inr y, s')" "dispatched_types x = {#}" "br_error x = None"
  shows "(if br_error y = None then dispatched_types y + mset (artifacts_skipped_present y) + mset (artifacts_skipped_failed_previously y)
      = mset (ro_types opts) else dispatched_types y = {#})"
proof -
  obtain existing p s1 s2 version s3 err s4 where
    p: "for_each (plan_step H opts (json_str gov) existing) (ro_types opts) [] s1 = (Inr p, s2)" and
    y: "(case err of Some e \<Rightarrow> ret ((planned p x)\<lparr>br_error := Some e\<rparr>)
        | None \<Rightarrow> dispatch_all H fuel opts bill gov bill_source p version (planned p x)) s4 = (Inr y, s')"
    using assms(1) unfolding process_covered_def run_bnd Let_def by (auto split: prod.splits sum.splits)
  have planned: "dispatched_types (planned p x) = {#}" "skipped_types (planned p x) = (in_bucket SkippedPresent p, in_bucket SkippedFailed p)"
    "br_error (planned p x) = None"
    using assms(2,3) by (auto simp: dispatched_types_def skipped_types_def planned_def)
  show ?thesis
  proof (cases err)
    case None
    with y have "dispatch_all H fuel opts bill gov bill_source p version (planned p x) s4 = (Inr y, s')" by simp
    from dispatch_all_adds[OF this] planned mset_buckets[of p] plan_types[OF p] show ?thesis
      by (simp add: skipped_types_def union_assoc)
  next
    case (Some e)
    with y planned show ?thesis by (auto simp: acts dispatched_types_def)
  qed
qed

text \<open>C20: Every requested type of a bill ends up in exactly one of the five lists of its result, as often as it was requested;
  when the bill was given up with an error, nothing was dispatched.\<close>

theorem types_accounted:
  assumes "fst (process_bill H D fuel opts candidate s) = Inr r"
  shows "(if br_error r = None then dispatched_types r + mset (artifacts_skipped_present r) + mset (artifacts_skipped_failed_previously r)
      = mset (ro_types opts) else dispatched_types r = {#})"
proof -
  have start: "dispatched_types ((empty_result g)\<lparr>content_check_bypassed := b\<rparr>) = {#}"
    "br_error ((empty_result g)\<lparr>content_check_bypassed := b\<rparr>) = None" for g b
    by (simp_all add: dispatched_types_def empty_result_def)
  have errors: "dispatched_types ((empty_result g)\<lparr>content_check_bypassed := b, br_error := e\<rparr>) = {#}" for g b e
    by (simp add: dispatched_types_def empty_result_def)
  obtain s' where "process_bill H D fuel opts candidate s = (Inr r, s')" using assms by (metis prod.collapse)
  then show ?thesis unfolding process_bill_def run_bnd run_lift_res run_attempt Let_def
    by (auto simp: run_ret run_raise errors start dest!: process_covered_accounts[OF _ start]
        split: prod.splits sum.splits option.splits fault.splits if_splits)
qed

lemma types_accounted_witness:
  "fst (process_bill (scripted_host default_settings) no_database 0 (two_types True) one_bill
     (scripted_site [answer_ok (JObj [(''found'', JBool False)]), answer_status 404] [])) =
     Inr ((empty_result (JStr ''HB 1''))\<lparr>artifacts_generated := [''bill_summary'', ''bill_changelog'']\<rparr>) \<and>
   {#''bill_summary'', ''bill_changelog''#} = mset (ro_types (two_types True))"
proof -
  have run: "fst (process_bill (scripted_host default_settings) no_database 0 (two_types True) one_bill
     (scripted_site [answer_ok (JObj [(''found'', JBool False)]), answer_status 404] [])) =
     Inr ((empty_result (JStr ''HB 1''))\<lparr>artifacts_generated := [''bill_summary'', ''bill_changelog'']\<rparr>)"
    by code_simp
  with types_accounted[OF run] show ?thesis by (simp add: dispatched_types_def empty_result_def)
qed

section \<open>What exists is not made again\<close>

lemma plan_bucket:
  "for_each (plan_step H opts gov existing) ts p s = (Inr q, s') \<Longrightarrow> (t, b) \<in> set q \<Longrightarrow>
    (t, b) \<in> set p \<or> (\<exists>s1 s2. bucket_of H opts gov existing t s1 = (Inr b, s2))"
proof (induction ts arbitrary: p s)
  case (Cons u ts)
  then obtain r s1 where r: "plan_step H opts gov existing u p s = (Inr r, s1)" and
    rest: "for_each (plan_step H opts gov existing) ts r s1 = (Inr q, s')"
    by (auto elim: bnd_InrE)
  from r obtain a s2 where "bucket_of H opts gov existing u s = (Inr a, s2)" "r = p @ [(u, a)]"
    by (auto simp: plan_step_def run_ret elim!: bnd_InrE)
  with Cons.IH[OF rest Cons.prems(2)] show ?case by auto
qed (simp add: acts)

lemma bucket_of_present:
  assumes "dict_get e t = JObj row" "dict_get row ''status'' = JStr ''complete''"
    "dict_get row ''review_status'' \<noteq> JStr ''rejected''" "t \<noteq> ''bill_changelog''"
    "bucket_of H opts gov (JObj e) t s = (Inr b, s')"
  shows "b = SkippedPresent"
proof -
  have "row \<noteq> []" using assms(2) by (auto simp: dict_get_def)
  then have "attr_get (or_empty (JObj row)) ''status'' JNull = Inr (JStr ''complete'')"
    using assms(2) by (simp add: or_empty_def attr_get_def dict_get_def split: option.splits)
  then show ?thesis using assms
    by (auto simp: bucket_of_def acts artifact_counts_as_present_def attr_get_def dict_get_def split: option.splits)
qed



section \<open>A coverage answer that is no JSON\<close>

definition coverage_request :: "('n, 'r) host \<Rightarrow> run_options \<Rightarrow> string \<Rightarrow> request" where
  "coverage_request H opts gov = broker_get (resolved (ro_token opts) (ddp_broker_api_token (conf H)))
     (resolved (ro_base opts) (ddp_broker_api_base (conf H)) @ ''/api/bill-artifacts/status/'')
     [(''jurisdiction'', ro_jurisdiction opts), (''session'', ro_session opts), (''gov_id'', gov)]"

text \<open>The coverage read of a bill that is answered with success and a body that is no JSON raises out of the whole run: no bill
  of the batch gets a result, although only the error of one bill was to be recorded. (The error of \<open>resp.json()\<close> is not the
  \<open>BrokerClientError\<close> that the loop catches.)\<close>

lemma unparsable_coverage_aborts_the_run:
  assumes "\<not> replica_freshness_check_enabled (conf H)"
    and "resolved (ro_base opts) (ddp_broker_api_base (conf H)) \<noteq> []"
    and "validated_run opts limit given = Inr (Some (c # cs))"
    and "c = JObj d" "map_of d ''gov_id'' = Some g" "map_of d ''bill_openstates_id'' = Some b"
    and "n_call (network H) (coverage_request H opts (json_str g)) (net s) = (Inr r, n)" "status_code r < 400" "body_json r = None"
  shows "fst (run_legbot_pipeline H D pages fuel opts limit given s) = Inl (Raised (ValueError ''JSONDecodeError''))"
proof -
  let ?opts = "opts\<lparr>ro_request_id := None, ro_redo := None\<rparr>"
  obtain s1 where "get_bill_artifacts H (ro_jurisdiction opts) (ro_session opts) (json_str g) (ro_base opts) (ro_token opts) s =
      (Inl (Raised (ValueError ''JSONDecodeError'')), s1)"
    using assms(2,7-9)
    by (auto simp: get_bill_artifacts_def get_json_from_def with_broker_def reach_def accepted_def json_body_def http_def acts
        coverage_request_def Let_def split: prod.splits)
  then have "\<exists>s2. process_bill H D fuel ?opts c s = (Inl (Raised (ValueError ''JSONDecodeError'')), s2)"
    using assms(1,4-6)
    by (auto simp: process_bill_def replica_gate_def acts attr_get_def Let_def split: option.splits)
  then show ?thesis using assms(3)
    by (auto simp: run_legbot_pipeline_def run_candidates_def gather_all_def acts Let_def split: prod.splits)
qed
lemma unparsable_coverage_aborts_the_run_witness:
  "fst (run_legbot_pipeline (scripted_host default_settings) no_database 0 0 (two_types True) None (Some [one_bill, one_bill])
     (scripted_site [answer_status 200] [])) = Inl (Raised (ValueError ''JSONDecodeError''))"
proof -
  have given: "validated_run (two_types True) None (Some [one_bill, one_bill]) = Inr (Some [one_bill])" by code_simp
  show ?thesis
    by (rule unparsable_coverage_aborts_the_run[OF _ _ given, where r = "\<lparr>status_code = 200, body_text = [], body_json = None, headers_of = []\<rparr>"
          and g = "JStr ''HB 1''" and b = "JStr ''b1''"
          and d = "[(''gov_id'', JStr ''HB 1''), (''bill_openstates_id'', JStr ''b1'')]"])
      (simp_all add: one_bill_def scripted_host_def default_settings_def two_types_def resolved_def scripted_site_def script_network_def
        answer_status_def)
qed

end
