(* ===== verification/Methods.thy ===== *)
theory Methods
  imports Effects RateLimiter
begin

text \<open>
  Objects that keep state between the calls of their methods: a \<^emph>\<open>method\<close> takes the state of the object and gives the state
  after it with a value or an exception, since what it did to the object stays when it raises. Also what the clients
  of the two services share: the limiter, the headers of a response, and the settings they read.
\<close>

section \<open>Methods\<close>

type_synonym ('n, 'r, 's, 'a) meth = "'s \<Rightarrow> ('n, 'r, 's \<times> (fault + 'a)) act"

text \<open>\<open>caught m\<close> gives what \<open>m\<close> raised as a value.\<close>

definition caught :: "('n, 'r, 'a) act \<Rightarrow> ('n, 'r, fault + 'a) act" where
  "caught m = attempt m (\<lambda>e. if e = OutOfFuel then raise e else ret (Inl e)) (\<lambda>x. ret (Inr x))"

definition release_result :: "fault + 'a \<Rightarrow> ('n, 'r, 'a) act" where
  "release_result x = (case x of Inl e \<Rightarrow> raise e | Inr v \<Rightarrow> ret v)"

definition mret :: "'a \<Rightarrow> ('n, 'r, 's, 'a) meth" where
  "mret x st = ret (st, Inr x)"

definition mraise :: "fault \<Rightarrow> ('n, 'r, 's, 'a) meth" where
  "mraise e st = ret (st, Inl e)"

text \<open>\<open>mtry m h f\<close>: \<open>h\<close> handles the exceptions of \<open>m\<close>, and \<open>f\<close> goes on with its value.\<close>

definition mtry :: "('n, 'r, 's, 'a) meth \<Rightarrow> (fault \<Rightarrow> ('n, 'r, 's, 'b) meth) \<Rightarrow> ('a \<Rightarrow> ('n, 'r, 's, 'b) meth) \<Rightarrow> ('n, 'r, 's, 'b) meth" where
  "mtry m h f st = bnd (m st) (\<lambda>(st, x). case x of Inl e \<Rightarrow> h e st | Inr v \<Rightarrow> f v st)"

definition mbind :: "('n, 'r, 's, 'a) meth \<Rightarrow> ('a \<Rightarrow> ('n, 'r, 's, 'b) meth) \<Rightarrow> ('n, 'r, 's, 'b) meth" where
  "mbind m f = mtry m mraise f"

definition outer :: "('n, 'r, 'a) act \<Rightarrow> ('n, 'r, 's, 'a) meth" where
  "outer m st = bnd (caught m) (\<lambda>x. ret (st, x))"

definition mres :: "'a res \<Rightarrow> ('n, 'r, 's, 'a) meth" where
  "mres x st = (case x of Inl e \<Rightarrow> ret (st, Inl (Raised e)) | Inr v \<Rightarrow> ret (st, Inr v))"

definition mget :: "('s \<Rightarrow> 'a) \<Rightarrow> ('n, 'r, 's, 'a) meth" where
  "mget f st = ret (st, Inr (f st))"

definition mput :: "('s \<Rightarrow> 's) \<Rightarrow> ('n, 'r, 's, unit) meth" where
  "mput f st = ret (f st, Inr ())"

fun mfold :: "('a \<Rightarrow> 'b \<Rightarrow> ('n, 'r, 's, 'b) meth) \<Rightarrow> 'a list \<Rightarrow> 'b \<Rightarrow> ('n, 'r, 's, 'b) meth" where
  "mfold f [] acc = mret acc"
| "mfold f (x # xs) acc = mbind (f x acc) (mfold f xs)"

text \<open>Calling a method of an object that nobody keeps.\<close>

definition on_fresh :: "'s \<Rightarrow> ('n, 'r, 's, 'a) meth \<Rightarrow> ('n, 'r, 'a) act" where
  "on_fresh st m = bnd (m st) (\<lambda>(_, x). release_result x)"

text \<open>A method of a part of the object.\<close>

definition on_part :: "('s \<Rightarrow> 't) \<Rightarrow> ('t \<Rightarrow> 's \<Rightarrow> 's) \<Rightarrow> ('n, 'r, 't, 'a) meth \<Rightarrow> ('n, 'r, 's, 'a) meth" where
  "on_part part put m st = bnd (m (part st)) (\<lambda>(t, x). ret (put t st, x))"

section \<open>Running a method\<close>

lemma run_method [acts]:
  "mret x st s = (Inr (st, Inr x), s)" "mraise e st s = (Inr (st, Inl e), s)"
  "mget f st s = (Inr (st, Inr (f st)), s)" "mput g st s = (Inr (g st, Inr ()), s)"
  "mres y st s = (Inr (st, case y of Inl e \<Rightarrow> Inl (Raised e) | Inr v \<Rightarrow> Inr v), s)"
  by (simp_all add: mret_def mraise_def mget_def mput_def mres_def run_ret split: sum.split)

lemma run_mtry [acts]:
  "mtry m h f st s = (case m st s of (Inl e, s') \<Rightarrow> (Inl e, s')
     | (Inr (st', Inl e), s') \<Rightarrow> h e st' s' | (Inr (st', Inr v), s') \<Rightarrow> f v st' s')"
  by (simp add: mtry_def run_bnd split: prod.split sum.split)

lemma run_mbind [acts]:
  "mbind m f st s = (case m st s of (Inl e, s') \<Rightarrow> (Inl e, s')
     | (Inr (st', Inl e), s') \<Rightarrow> (Inr (st', Inl e), s') | (Inr (st', Inr v), s') \<Rightarrow> f v st' s')"
  by (simp add: mbind_def run_mtry run_method split: prod.split sum.split)

lemma run_caught [acts]:
  "caught m s = (case m s of (Inl e, s') \<Rightarrow> if e = OutOfFuel then (Inl e, s') else (Inr (Inl e), s') | (Inr v, s') \<Rightarrow> (Inr (Inr v), s'))"
  by (simp add: caught_def acts split: prod.split sum.split)

lemma run_outer [acts]:
  "outer m st s = (case m s of (Inl e, s') \<Rightarrow> if e = OutOfFuel then (Inl e, s') else (Inr (st, Inl e), s')
     | (Inr v, s') \<Rightarrow> (Inr (st, Inr v), s'))"
  by (simp add: outer_def acts split: prod.split sum.split)

lemma run_release [acts]: "release_result x s = (x, s)"
  by (simp add: release_result_def acts split: sum.split)

section \<open>Methods that end, and what they send\<close>

text \<open>The rules for \<open>ends\<close>, \<open>sends\<close> and \<open>stores_nothing\<close>, for a method in every state.\<close>

lemma ends_release [ending]: "x \<noteq> Inl OutOfFuel \<Longrightarrow> ends (release_result x)"
  by (auto simp: ends_def acts)

lemma ends_caught [ending]: "ends m \<Longrightarrow> ends (caught m)"
  unfolding caught_def by (intro ending; simp)

lemma ends_methods [ending]:
  "ends (mret x st)" "ends (mraise e st)" "ends (mget f st)" "ends (mput g st)" "ends (mres y st)"
  by (simp_all add: ends_def acts)

lemma ends_mtry [ending]:
  "ends (m st) \<Longrightarrow> (\<And>e st. ends (h e st)) \<Longrightarrow> (\<And>v st. ends (f v st)) \<Longrightarrow> ends (mtry m h f st)"
  unfolding mtry_def by (intro ending)

lemma ends_mbind [ending]: "ends (m st) \<Longrightarrow> (\<And>v st. ends (f v st)) \<Longrightarrow> ends (mbind m f st)"
  unfolding mbind_def by (intro ending)

lemma ends_outer [ending]: "ends m \<Longrightarrow> ends (outer m st)"
  unfolding outer_def by (intro ending)

lemma ends_within [ending]: "ends (m (part st)) \<Longrightarrow> ends (on_part part put m st)"
  unfolding on_part_def by (intro ending)

lemma ends_mfold [ending]: "(\<And>x acc st. ends (f x acc st)) \<Longrightarrow> ends (mfold f xs acc st)"
  by (induction xs arbitrary: acc st) (simp_all add: ends_methods ends_mbind)

lemma sends_methods [sending]:
  "sends P (mret x st)" "sends P (mraise e st)" "sends P (mget f st)" "sends P (mput g st)" "sends P (mres y st)"
  by (simp_all add: mret_def mraise_def mget_def mput_def mres_def sends_ret split: sum.split)

lemma sends_caught [sending]: "sends P m \<Longrightarrow> sends P (caught m)"
  unfolding caught_def by (intro sending)

lemma sends_release [sending]: "sends P (release_result x)"
  unfolding release_result_def by (intro sending)

lemma sends_mtry [sending]:
  "sends P (m st) \<Longrightarrow> (\<And>e st. sends P (h e st)) \<Longrightarrow> (\<And>v st. sends P (f v st)) \<Longrightarrow> sends P (mtry m h f st)"
  unfolding mtry_def by (intro sending)

lemma sends_mbind [sending]: "sends P (m st) \<Longrightarrow> (\<And>v st. sends P (f v st)) \<Longrightarrow> sends P (mbind m f st)"
  unfolding mbind_def by (intro sending)

lemma sends_outer [sending]: "sends P m \<Longrightarrow> sends P (outer m st)"
  unfolding outer_def by (intro sending)

lemma sends_within [sending]: "sends P (m (part st)) \<Longrightarrow> sends P (on_part part put m st)"
  unfolding on_part_def by (intro sending)

lemma sends_mfold [sending]: "(\<And>x acc st. sends P (f x acc st)) \<Longrightarrow> sends P (mfold f xs acc st)"
  by (induction xs arbitrary: acc st) (simp_all add: sends_methods sends_mbind)

section \<open>The shared limiter\<close>

text \<open>\<open>RateLimiter.apply\<close> reads the clock before and after it sleeps.\<close>

definition wait_turn :: "('n, 'r) host \<Rightarrow> ('n, 'r, limiter, unit) meth" where
  "wait_turn H =
     mbind (outer (now H)) (\<lambda>before.
     mbind (mget (\<lambda>l. sleep_time l before)) (\<lambda>d.
     mbind (mres d) (\<lambda>slept.
     mbind (outer (case slept of None \<Rightarrow> ret () | Some t \<Rightarrow> sleep H t)) (\<lambda>_.
     mbind (outer (now H)) (\<lambda>after.
     mbind (mget (apply_limit before after)) (\<lambda>l.
     mbind (mres l) (\<lambda>l. mput (\<lambda>_. l))))))))"

lemma ends_wait_turn [ending]: "ends (wait_turn H st)"
  unfolding wait_turn_def by (intro ending)

lemma sends_wait_turn [sending]: "sends P (wait_turn H st)"
  unfolding wait_turn_def by (intro sending)

section \<open>Headers and numbers\<close>

definition header :: "response \<Rightarrow> string \<Rightarrow> string option" where
  "header r name = map_of (headers_of r) name"

text \<open>\<open>float\<close> of a text, the mantissa before the exponent; the texts of infinity and of no number are not read.\<close>

definition digit_count :: "string \<Rightarrow> nat" where
  "digit_count s = length (filter is_digit s)"

definition mantissa :: "string \<Rightarrow> rat option" where
  "mantissa s =
     (let a = takeWhile (\<lambda>c. c \<noteq> CHR ''.'') s; b = drop (Suc (length a)) s in
      if a = [] \<and> b = [] then None
      else case (if a = [] then Some 0 else digits_val 0 a, if b = [] then Some 0 else digits_val 0 b) of
          (Some x, Some y) \<Rightarrow> Some (of_nat x + of_nat y / 10 ^ digit_count b)
        | _ \<Rightarrow> None)"

definition signed :: "string \<Rightarrow> bool \<times> string" where
  "signed s = (case s of
      c # cs \<Rightarrow> if c = CHR ''-'' then (True, cs) else if c = CHR ''+'' then (False, cs) else (False, c # cs)
    | [] \<Rightarrow> (False, []))"

definition exponent :: "string \<Rightarrow> rat option" where
  "exponent s = (let (neg, ds) = signed s in
     case digits_val 0 ds of None \<Rightarrow> None | Some n \<Rightarrow> Some (if neg then 1 / 10 ^ n else 10 ^ n))"

definition float_of_text :: "string \<Rightarrow> rat res" where
  "float_of_text s =
     (let (neg, t) = signed (strip s);
          m = takeWhile (\<lambda>c. c \<noteq> CHR ''e'' \<and> c \<noteq> CHR ''E'') t; e = drop (length m) t in
      case (mantissa m, if e = [] then Some 1 else exponent (tl e)) of
        (Some x, Some p) \<Rightarrow> Inr (if neg then - (x * p) else x * p)
      | _ \<Rightarrow> Inl (ValueError ''could not convert string to float''))"

text \<open>A number that is compared: \<open>bool\<close> is an integer, a value of another kind raises.\<close>

definition json_number :: "json \<Rightarrow> int res" where
  "json_number v = (case v of JInt i \<Rightarrow> Inr i | JBool b \<Rightarrow> Inr (if b then 1 else 0) | _ \<Rightarrow> Inl TypeError)"

section \<open>Settings of the synchronisation\<close>

record sync_settings =
  webflow_scheduler_api_key :: string
  webflow_votebot_api_key :: string
  webflow_bills_collection_id :: string
  webflow_legislators_collection_id :: string
  webflow_jurisdiction_collection_id :: string
  openstates_api_base :: string
  openstates_api_key :: string
  rds_openstates_api_base :: string
  rds_openstates_api_key :: string
  ddp_openstates_jurisdictions :: "string list"
  pdf_max_pages :: int

text \<open>\<open>a or b\<close> of two texts.\<close>

definition first_set :: "string \<Rightarrow> string \<Rightarrow> string" where
  "first_set a b = (if a = [] then b else a)"

end
