(* ===== verification/Vectors.thy ===== *)
theory Vectors
  imports Methods
begin

text \<open>
  The embeddings and the vector store (\<open>services/embeddings.py\<close>, \<open>services/vector_store.py\<close>). The clients of OpenAI and
  Pinecone are a record of calls on the state of the outside, each with its answer or the text of what it raised. The
  retries of tenacity are the loop \<open>tries\<close>: three attempts, with pauses of 1 and 2 seconds.
\<close>

section \<open>The clients\<close>

type_synonym embedding = "rat list"

type_synonym metadata = "(string \<times> json) list"

record vector =
  vec_id :: string
  vec_values :: "embedding option"
  vec_metadata :: metadata

datatype deletion = Everything | ByIds "string list" | ByFilter metadata

record found_match =
  match_id :: string
  match_score :: rat
  match_metadata :: "metadata option"

text \<open>The calls on an index take its name and the namespace.\<close>

record 'n vendor =
  embed_call :: "string list \<Rightarrow> 'n \<Rightarrow> (string + embedding list) \<times> 'n"
  index_list :: "'n \<Rightarrow> (string + string list) \<times> 'n"
  index_create :: "string \<Rightarrow> 'n \<Rightarrow> (string + unit) \<times> 'n"
  index_upsert :: "string \<Rightarrow> string \<Rightarrow> vector list \<Rightarrow> 'n \<Rightarrow> (string + unit) \<times> 'n"
  index_delete :: "string \<Rightarrow> string \<Rightarrow> deletion \<Rightarrow> 'n \<Rightarrow> (string + unit) \<times> 'n"
  index_query :: "string \<Rightarrow> string \<Rightarrow> embedding \<Rightarrow> nat \<Rightarrow> metadata option \<Rightarrow> bool \<Rightarrow> 'n \<Rightarrow> (string + found_match list) \<times> 'n"
  index_stats :: "string \<Rightarrow> 'n \<Rightarrow> (string + unit) \<times> 'n"

text \<open>A service object: the clients, the name of its index and its namespace, and whether it has opened the index.\<close>

record 'n vector_service =
  clients :: "'n vendor"
  index_name :: string
  index_namespace :: string

definition vend :: "('n \<Rightarrow> (string + 'a) \<times> 'n) \<Rightarrow> ('n, 'r, 'a) act" where
  "vend f s = (let (x, n) = f (net s) in
     (case x of Inl m \<Rightarrow> Inl (Raised (OtherError m)) | Inr v \<Rightarrow> Inr v, s\<lparr>net := n\<rparr>))"

section \<open>Retries\<close>

definition retry_error :: fault where "retry_error = Raised (OtherError ''RetryError'')"

text \<open>\<open>wait_exponential(multiplier=1, min=1, max=10)\<close> after the attempt with this number.\<close>

definition retry_wait :: "nat \<Rightarrow> rat" where
  "retry_wait a = max 1 (min (2 ^ (a - 1)) 10)"

text \<open>What an attempt leaves in the service object is there in the next one.\<close>

fun tries ::
  "('n, 'r) host \<Rightarrow> nat \<Rightarrow> nat \<Rightarrow> ('s \<Rightarrow> ('n, 'r, 's \<times> (fault + 'a)) act) \<Rightarrow> 's \<Rightarrow> ('n, 'r, 's \<times> (fault + 'a)) act" where
  "tries H a 0 m st = ret (st, Inl retry_error)"
| "tries H a (Suc left) m st = bnd (m st) (\<lambda>(st, x). case x of
       Inr v \<Rightarrow> ret (st, Inr v)
     | Inl e \<Rightarrow> if left = 0 then ret (st, Inl retry_error)
         else bnd (sleep H (retry_wait a)) (\<lambda>_. tries H (Suc a) left m st))"

definition retried :: "('n, 'r) host \<Rightarrow> ('n, 'r, 'a) act \<Rightarrow> ('n, 'r, 'a) act" where
  "retried H m = bnd (tries H 1 3 (\<lambda>_. bnd (caught m) (\<lambda>x. ret ((), x))) ()) (\<lambda>(_, x). release_result x)"

section \<open>Embeddings\<close>

definition EMBEDDING_DIMENSION :: nat where "EMBEDDING_DIMENSION = 3072"

text \<open>\<open>xs[i : i + n]\<close> for \<open>i = 0, n, 2n, \<dots>\<close>.\<close>

function batches :: "nat \<Rightarrow> 'a list \<Rightarrow> 'a list list" where
  "batches n xs = (if xs = [] \<or> n = 0 then [] else take n xs # batches n (drop n xs))"
  by pat_completeness auto
termination by (relation "measure (\<lambda>(n, xs). length xs)") auto

declare batches.simps [simp del]

fun embed_all :: "'n vendor \<Rightarrow> string list list \<Rightarrow> embedding list \<Rightarrow> ('n, 'r, embedding list) act" where
  "embed_all V [] acc = ret acc"
| "embed_all V (b # bs) acc = bnd (vend (embed_call V b)) (\<lambda>es. embed_all V bs (acc @ es))"

text \<open>A retry of \<open>embed_batch\<close> starts again with its first batch.\<close>

definition embed_batch :: "('n, 'r) host \<Rightarrow> 'n vendor \<Rightarrow> string list \<Rightarrow> ('n, 'r, embedding list) act" where
  "embed_batch H V texts = retried H (embed_all V (batches 100 texts) [])"

definition embed_documents :: "('n, 'r) host \<Rightarrow> 'n vendor \<Rightarrow> string list \<Rightarrow> ('n, 'r, embedding list) act" where
  "embed_documents H V documents = embed_batch H V documents"

text \<open>\<open>response.data[0]\<close> of an empty answer raises.\<close>

definition embed_query :: "('n, 'r) host \<Rightarrow> 'n vendor \<Rightarrow> string \<Rightarrow> ('n, 'r, embedding) act" where
  "embed_query H V query = retried H (bnd (vend (embed_call V [query]))
     (\<lambda>es. case es of [] \<Rightarrow> raise (Raised (OtherError ''IndexError'')) | e # _ \<Rightarrow> ret e))"

section \<open>The vector store\<close>

record document =
  doc_id :: string
  doc_content :: string
  doc_metadata :: metadata
  doc_embedding :: "embedding option"

text \<open>The property \<open>index\<close>: the first use of a service object looks the index up and creates it when it is missing.\<close>

definition open_index :: "'n vector_service \<Rightarrow> bool \<Rightarrow> ('n, 'r, unit) act" where
  "open_index sv opened =
     (if opened then ret ()
      else bnd (vend (index_list (clients sv))) (\<lambda>names.
        if index_name sv \<in> set names then ret () else vend (index_create (clients sv) (index_name sv))))"

fun fill_embeddings :: "document list \<Rightarrow> embedding list \<Rightarrow> document list" where
  "fill_embeddings [] es = []"
| "fill_embeddings (d # ds) es =
     (if doc_embedding d \<noteq> None then d # fill_embeddings ds es
      else (case es of [] \<Rightarrow> d # fill_embeddings ds [] | e # es \<Rightarrow> d\<lparr>doc_embedding := Some e\<rparr> # fill_embeddings ds es))"

definition embed_missing :: "('n, 'r) host \<Rightarrow> 'n vendor \<Rightarrow> document list \<Rightarrow> ('n, 'r, document list) act" where
  "embed_missing H V docs =
     (let texts = map doc_content (filter (\<lambda>d. doc_embedding d = None) docs) in
      if texts = [] then ret docs
      else bnd (embed_documents H V texts) (\<lambda>es. ret (fill_embeddings docs es)))"

definition METADATA_LIMIT :: nat where "METADATA_LIMIT = 40000"

definition vector_of :: "document \<Rightarrow> vector" where
  "vector_of d = \<lparr>vec_id = doc_id d, vec_values = doc_embedding d,
     vec_metadata = dict_update [(''content'', JStr (take METADATA_LIMIT (doc_content d)))] (doc_metadata d)\<rparr>"

definition with_index :: "'n vector_service \<Rightarrow> ('n, 'r, 'a) act \<Rightarrow> bool \<Rightarrow> ('n, 'r, bool \<times> (fault + 'a)) act" where
  "with_index sv m opened =
     bnd (caught (open_index sv opened)) (\<lambda>x. case x of
         Inl e \<Rightarrow> ret (opened, Inl e)
       | Inr _ \<Rightarrow> bnd (caught m) (\<lambda>y. ret (True, y)))"

text \<open>
  One pass over the batches. The embeddings of a batch and the open index are kept when a later call of the pass
  raises, so the pass gives the batches as they are then, beside its outcome.
\<close>

type_synonym pending = "document list list \<times> bool"

fun upsert_pass ::
  "('n, 'r) host \<Rightarrow> 'n vector_service \<Rightarrow> document list list \<Rightarrow> nat \<Rightarrow> pending \<Rightarrow> ('n, 'r, pending \<times> (fault + nat)) act" where
  "upsert_pass H sv done n ([], opened) = ret ((done, opened), Inr n)"
| "upsert_pass H sv done n (b # bs, opened) =
     bnd (caught (embed_missing H (clients sv) b)) (\<lambda>x. case x of
         Inl e \<Rightarrow> ret ((done @ b # bs, opened), Inl e)
       | Inr b' \<Rightarrow>
           bnd (with_index sv (vend (index_upsert (clients sv) (index_name sv) (index_namespace sv) (map vector_of b'))) opened)
             (\<lambda>(opened, y). case y of
                 Inl e \<Rightarrow> ret ((done @ b' # bs, opened), Inl e)
               | Inr _ \<Rightarrow> upsert_pass H sv (done @ [b']) (n + length b') (bs, opened)))"

text \<open>The number of documents written, or the \<open>RetryError\<close>, with whether the index is open now.\<close>

definition upsert_documents ::
  "('n, 'r) host \<Rightarrow> 'n vector_service \<Rightarrow> bool \<Rightarrow> document list \<Rightarrow> ('n, 'r, bool \<times> (fault + nat)) act" where
  "upsert_documents H sv opened docs =
     bnd (tries H 1 3 (upsert_pass H sv [] 0) (batches 100 docs, opened)) (\<lambda>((_, opened), x). ret (opened, x))"

text \<open>\<open>delete\<close>: no argument is no call.\<close>

definition delete_vectors :: "('n, 'r) host \<Rightarrow> 'n vector_service \<Rightarrow> bool \<Rightarrow> deletion option \<Rightarrow> ('n, 'r, unit) act" where
  "delete_vectors H sv opened what =
     (case what of
        None \<Rightarrow> ret ()
      | Some d \<Rightarrow> bnd (tries H 1 3 (with_index sv (vend (index_delete (clients sv) (index_name sv) (index_namespace sv) d))) opened)
          (\<lambda>(_, x). release_result x))"

definition deletion_of :: "string list option \<Rightarrow> metadata option \<Rightarrow> bool \<Rightarrow> deletion option" where
  "deletion_of ids flt delete_all =
     (if delete_all then Some Everything
      else case ids of
        Some (i # is) \<Rightarrow> Some (ByIds (i # is))
      | _ \<Rightarrow> (case flt of Some (p # ps) \<Rightarrow> Some (ByFilter (p # ps)) | _ \<Rightarrow> None))"

record search_result =
  res_id :: string
  res_content :: json
  res_score :: rat
  res_metadata :: metadata

definition search_result_of :: "found_match \<Rightarrow> search_result" where
  "search_result_of m = (let md = (case match_metadata m of None \<Rightarrow> [] | Some d \<Rightarrow> d) in
     \<lparr>res_id = match_id m, res_content = (case map_of md ''content'' of None \<Rightarrow> JStr [] | Some v \<Rightarrow> v),
      res_score = match_score m, res_metadata = filter (\<lambda>p. fst p \<noteq> ''content'') md\<rparr>)"

definition query_once ::
  "('n, 'r) host \<Rightarrow> 'n vector_service \<Rightarrow> string \<Rightarrow> nat \<Rightarrow> metadata option \<Rightarrow> bool \<Rightarrow> bool \<Rightarrow>
   ('n, 'r, bool \<times> (fault + found_match list)) act" where
  "query_once H sv query top_k flt include_metadata opened =
     bnd (caught (embed_query H (clients sv) query)) (\<lambda>x. case x of
         Inl e \<Rightarrow> ret (opened, Inl e)
       | Inr e \<Rightarrow> with_index sv
           (vend (index_query (clients sv) (index_name sv) (index_namespace sv) e top_k flt include_metadata)) opened)"

definition query_index ::
  "('n, 'r) host \<Rightarrow> 'n vector_service \<Rightarrow> bool \<Rightarrow> string \<Rightarrow> nat \<Rightarrow> metadata option \<Rightarrow> bool \<Rightarrow> ('n, 'r, search_result list) act" where
  "query_index H sv opened query top_k flt include_metadata =
     bnd (tries H 1 3 (query_once H sv query top_k flt include_metadata) opened) (\<lambda>(_, x).
       bnd (release_result x) (\<lambda>ms. ret (map search_result_of ms)))"

definition given_fields :: "(string \<times> string option) list \<Rightarrow> metadata" where
  "given_fields kvs = concat (map (\<lambda>(k, v). case v of Some s \<Rightarrow> if s = [] then [] else [(k, JStr s)] | None \<Rightarrow> []) kvs)"

definition query_with_filter ::
  "('n, 'r) host \<Rightarrow> 'n vector_service \<Rightarrow> bool \<Rightarrow> string \<Rightarrow> string option \<Rightarrow> string option \<Rightarrow> string option \<Rightarrow> string option \<Rightarrow> nat \<Rightarrow>
   ('n, 'r, search_result list) act" where
  "query_with_filter H sv opened query document_type bill_id legislator_id jurisdiction top_k =
     (let flt = given_fields [(''document_type'', document_type), (''bill_id'', bill_id),
        (''legislator_id'', legislator_id), (''jurisdiction'', jurisdiction)] in
      query_index H sv opened query top_k (if flt = [] then None else Some flt) True)"

definition health_check :: "'n vector_service \<Rightarrow> bool \<Rightarrow> ('n, 'r, bool) act" where
  "health_check sv opened =
     bnd (open_index sv opened) (\<lambda>_. bnd (vend (index_stats (clients sv) (index_name sv))) (\<lambda>_. ret True))"

end
