(* ===== verification/DocMetadata.thy ===== *)
theory DocMetadata
  imports Vectors
begin

text \<open>
  The metadata of documents (\<open>ingestion/metadata.py\<close>). What a field holds is a JSON value, since most come from the
  content service as they are; \<open>JNull\<close> is an unset field. Dates are their ISO text, and the clock is read once
  for the two default dates of a new record.
\<close>

record doc_info =
  di_id :: string
  di_type :: string
  di_source :: string
  di_title :: json
  di_jurisdiction :: json
  di_bill :: json
  di_legislator :: json
  di_effective :: json
  di_created :: string
  di_updated :: string
  di_url :: json
  di_extra :: "(string \<times> json) list"

definition new_info :: "string \<Rightarrow> string \<Rightarrow> string \<Rightarrow> string \<Rightarrow> doc_info" where
  "new_info stamp i t src = \<lparr>di_id = i, di_type = t, di_source = src, di_title = JNull, di_jurisdiction = JNull,
     di_bill = JNull, di_legislator = JNull, di_effective = JNull, di_created = stamp, di_updated = stamp,
     di_url = JNull, di_extra = []\<rparr>"

definition given :: "string \<Rightarrow> json \<Rightarrow> metadata" where
  "given k v = (if truthy v then [(k, v)] else [])"

text \<open>A value that Pinecone cannot keep is left out, a list becomes a text.\<close>

fun add_extra :: "metadata \<Rightarrow> (string \<times> json) list \<Rightarrow> metadata" where
  "add_extra d [] = d"
| "add_extra d ((k, v) # kvs) =
     add_extra (case v of
         JNull \<Rightarrow> d
       | JArr xs \<Rightarrow> dict_set k (JStr (commas (map json_str xs))) d
       | JObj _ \<Rightarrow> d
       | _ \<Rightarrow> dict_set k v d) kvs"

definition to_dict :: "doc_info \<Rightarrow> metadata" where
  "to_dict m = add_extra
     ([(''document_id'', JStr (di_id m)), (''document_type'', JStr (di_type m)), (''source'', JStr (di_source m))] @
      given ''title'' (di_title m) @ given ''jurisdiction'' (di_jurisdiction m) @ given ''bill_id'' (di_bill m) @
      given ''legislator_id'' (di_legislator m) @ given ''effective_date'' (di_effective m) @ given ''url'' (di_url m) @
      [(''created_at'', JStr (di_created m)), (''updated_at'', JStr (di_updated m))])
     (di_extra m)"

section \<open>Extractors\<close>

definition or_else :: "json \<Rightarrow> json \<Rightarrow> json" where
  "or_else v w = (if truthy v then v else w)"

definition get_or :: "(string \<times> json) list \<Rightarrow> string \<Rightarrow> json \<Rightarrow> json" where
  "get_or d k dflt = (case map_of d k of None \<Rightarrow> dflt | Some v \<Rightarrow> v)"

text \<open>\<open>v.lower()\<close> of any value.\<close>

definition json_lower :: "json \<Rightarrow> string res" where
  "json_lower v = (case v of JStr s \<Rightarrow> Inr (lower s) | _ \<Rightarrow> Inl (OtherError ''AttributeError''))"

definition normal_chamber :: "json \<Rightarrow> json res" where
  "normal_chamber chamber =
     (if \<not> truthy chamber then Inr chamber
      else bind_res (json_lower chamber) (\<lambda>c.
        Inr (if c \<in> {''upper'', ''senate''} then JStr ''upper''
             else if c \<in> {''lower'', ''house'', ''assembly''} then JStr ''lower'' else chamber)))"

definition role_title :: "json \<Rightarrow> (string \<times> json) list res" where
  "role_title role =
     (if \<not> truthy role then Inr []
      else bind_res (attr_get role ''title'' JNull) (\<lambda>t. Inr (given ''title'' t)))"

definition unless_null :: "string \<Rightarrow> json \<Rightarrow> (string \<times> json) list" where
  "unless_null k v = (if v = JNull then [] else [(k, v)])"

definition extract_legislator_metadata :: "string \<Rightarrow> (string \<times> json) list \<Rightarrow> string \<Rightarrow> doc_info res" where
  "extract_legislator_metadata stamp raw_data src =
     (let legislator_id = or_else (dict_get raw_data ''id'') (get_or raw_data ''bioguide_id'' (JStr []));
          name = or_else (dict_get raw_data ''name'') (get_or raw_data ''full_name'' (JStr ''Unknown''));
          state = get_or raw_data ''state'' (JStr []) in
      bind_res (normal_chamber (get_or raw_data ''chamber'' (JStr []))) (\<lambda>chamber.
      bind_res (role_title (dict_get raw_data ''current_role'')) (\<lambda>role.
        Inr ((new_info stamp (''legislator-'' @ json_str legislator_id) ''legislator'' src)
          \<lparr>di_title := name, di_jurisdiction := or_else state (JStr ''US''), di_legislator := legislator_id,
           di_extra := [(''party'', dict_get raw_data ''party''), (''chamber'', chamber), (''state'', state),
              (''district'', dict_get raw_data ''district'')] @
             unless_null ''ddp_score'' (dict_get raw_data ''ddp_score'') @
             given ''webflow_id'' (dict_get raw_data ''webflow_id'') @ given ''email'' (dict_get raw_data ''email'') @
             given ''image_url'' (dict_get raw_data ''image'') @ role\<rparr>))))"

definition extract_organization_metadata :: "string \<Rightarrow> (string \<times> json) list \<Rightarrow> string \<Rightarrow> doc_info" where
  "extract_organization_metadata stamp raw_data src =
     (let webflow_id = or_else (dict_get raw_data ''webflow_id'') (get_or raw_data ''id'' (JStr [])) in
      (new_info stamp (''organization-'' @ json_str webflow_id) ''organization'' src)
        \<lparr>di_title := get_or raw_data ''name'' (JStr ''Unknown Organization''),
         di_extra := [(''webflow_id'', webflow_id), (''organization_type'', get_or raw_data ''organization_type'' (JStr [])),
            (''website'', get_or raw_data ''website'' (JStr []))] @
           unless_null ''bills_support_count'' (dict_get raw_data ''bills_support_count'') @
           unless_null ''bills_oppose_count'' (dict_get raw_data ''bills_oppose_count'')\<rparr>)"

text \<open>\<open>s.split(sep)\<close> for a separator of one character, the part read so far reversed, and \<open>s.partition\<close> at a text.\<close>

fun split_at :: "char \<Rightarrow> string \<Rightarrow> string \<Rightarrow> string list" where
  "split_at c [] acc = [rev acc]"
| "split_at c (x # xs) acc = (if x = c then rev acc # split_at c xs [] else split_at c xs (x # acc))"

fun after_text :: "string \<Rightarrow> string \<Rightarrow> string option" where
  "after_text p [] = (if p = [] then Some [] else None)"
| "after_text p (c # cs) = (if starts_with p (c # cs) then Some (drop (length p) (c # cs)) else after_text p cs)"

fun before_text :: "string \<Rightarrow> string \<Rightarrow> string" where
  "before_text p [] = []"
| "before_text p (c # cs) = (if starts_with p (c # cs) then [] else c # before_text p cs)"

text \<open>\<open>s.replace(p, q)\<close> for \<open>p\<close> not empty.\<close>

function replace_text :: "string \<Rightarrow> string \<Rightarrow> string \<Rightarrow> string" where
  "replace_text p q [] = []"
| "replace_text p q (c # cs) =
     (if p \<noteq> [] \<and> starts_with p (c # cs) then q @ replace_text p q (drop (length p - 1) cs) else c # replace_text p q cs)"
  by pat_completeness auto
termination by (relation "measure (\<lambda>(p, q, s). length s)") auto

definition url_domain :: "string \<Rightarrow> string" where
  "url_domain url = (case after_text ''://'' url of
      None \<Rightarrow> []
    | Some rest \<Rightarrow> hd (split_at CHR ''.'' (replace_text ''www.'' [] (hd (split_at CHR ''/'' (before_text ''://'' rest) []))) []))"

text \<open>\<open>md5 x\<close> is the hexadecimal digest of the encoded text.\<close>

definition url_to_id :: "(string \<Rightarrow> string) \<Rightarrow> string \<Rightarrow> string" where
  "url_to_id md5 url = ''web-'' @ url_domain url @ ''-'' @ take 12 (md5 url)"

definition extract_web_content_metadata :: "(string \<Rightarrow> string) \<Rightarrow> string \<Rightarrow> string \<Rightarrow> json \<Rightarrow> string \<Rightarrow> doc_info" where
  "extract_web_content_metadata md5 stamp url' title' content_type =
     (new_info stamp (url_to_id md5 url') content_type ''web'')\<lparr>di_title := title', di_url := JStr url'\<rparr>"

definition basename :: "string \<Rightarrow> string" where
  "basename path = last (split_at CHR ''/'' path [])"

definition extract_pdf_metadata :: "(string \<Rightarrow> string) \<Rightarrow> string \<Rightarrow> string \<Rightarrow> (string \<times> json) list option \<Rightarrow> doc_info" where
  "extract_pdf_metadata md5 stamp file_path pdf_metadata =
     (let file_name = basename file_path;
          title' = (case pdf_metadata of
              Some (p # ps) \<Rightarrow> or_else (dict_get (p # ps) ''/Title'') (dict_get (p # ps) ''title'') | _ \<Rightarrow> JNull) in
      (new_info stamp (''pdf-'' @ take 12 (md5 file_path)) ''pdf'' ''pdf'')
        \<lparr>di_title := or_else title' (JStr file_name),
         di_extra := [(''file_path'', JStr file_path), (''file_name'', JStr file_name)]\<rparr>)"

definition code_or_name :: "json \<Rightarrow> json \<Rightarrow> json res" where
  "code_or_name code name =
     (case code of
        JStr s \<Rightarrow> Inr (if length s = 2 then JStr (upper s) else name)
      | JArr xs \<Rightarrow> if length xs = 2 then Inl (OtherError ''AttributeError'') else Inr name
      | JObj d \<Rightarrow> if length d = 2 then Inl (OtherError ''AttributeError'') else Inr name
      | _ \<Rightarrow> Inl TypeError)"

definition extract_openstates_bill_metadata :: "string \<Rightarrow> (string \<times> json) list \<Rightarrow> string \<Rightarrow> doc_info res" where
  "extract_openstates_bill_metadata stamp raw_data src =
     (let bill_id = get_or raw_data ''identifier'' (JStr []); j = get_or raw_data ''jurisdiction'' (JObj []) in
      bind_res (attr_get j ''name'' (JStr [])) (\<lambda>name.
      bind_res (attr_get j ''classification'' (JStr [])) (\<lambda>code.
      bind_res (code_or_name code name) (\<lambda>jurisdiction.
      bind_res (attr_get (get_or raw_data ''legislative_session'' (JObj [])) ''identifier'' JNull) (\<lambda>session.
        Inr ((new_info stamp (''bill-openstates-'' @ json_str bill_id) ''bill'' src)
          \<lparr>di_title := dict_get raw_data ''title'', di_jurisdiction := jurisdiction, di_bill := bill_id,
           di_url := dict_get raw_data ''openstates_url'',
           di_extra := [(''session'', session), (''classification'', dict_get raw_data ''classification'')]\<rparr>))))))"

definition extract_generic_bill_metadata :: "string \<Rightarrow> (string \<times> json) list \<Rightarrow> string \<Rightarrow> doc_info" where
  "extract_generic_bill_metadata stamp raw_data src =
     (let bill_id = or_else (dict_get raw_data ''id'') (get_or raw_data ''bill_id'' (JStr ''unknown'')) in
      (new_info stamp (''bill-'' @ src @ ''-'' @ json_str bill_id) ''bill'' src)
        \<lparr>di_title := dict_get raw_data ''title'', di_jurisdiction := dict_get raw_data ''jurisdiction'', di_bill := bill_id\<rparr>)"

text \<open>\<open>iso_time s\<close>: \<open>datetime.fromisoformat(s).isoformat()\<close>, or nothing when it raises.\<close>

definition congress_date :: "(string \<Rightarrow> string option) \<Rightarrow> json \<Rightarrow> json res" where
  "congress_date iso_time v =
     (if \<not> truthy v then Inr JNull
      else case v of
          JStr s \<Rightarrow> Inr (case iso_time (replace_text ''Z'' ''+00:00'' s) of Some t \<Rightarrow> JStr t | None \<Rightarrow> JNull)
        | _ \<Rightarrow> Inl (OtherError ''AttributeError''))"

definition extract_congress_bill_metadata :: "(string \<Rightarrow> string option) \<Rightarrow> string \<Rightarrow> (string \<times> json) list \<Rightarrow> doc_info res" where
  "extract_congress_bill_metadata iso_time stamp raw_data =
     (let number = get_or raw_data ''number'' (JStr []); t = get_or raw_data ''type'' (JStr []);
          congress = get_or raw_data ''congress'' (JStr []);
          bill_id = json_str t @ json_str number @ ''-'' @ json_str congress in
      bind_res (congress_date iso_time (dict_get raw_data ''introducedDate'')) (\<lambda>effective.
      bind_res (attr_get (get_or raw_data ''sponsor'' (JObj [])) ''name'' JNull) (\<lambda>sponsor.
      bind_res (attr_get (get_or raw_data ''latestAction'' (JObj [])) ''text'' JNull) (\<lambda>status.
        Inr ((new_info stamp (''bill-congress-'' @ bill_id) ''bill'' ''congress.gov'')
          \<lparr>di_title := dict_get raw_data ''title'', di_jurisdiction := JStr ''US'', di_bill := JStr bill_id,
           di_effective := effective, di_url := dict_get raw_data ''url'',
           di_extra := [(''congress'', congress), (''bill_type'', t), (''bill_number'', number), (''sponsor'', sponsor),
             (''status'', status)]\<rparr>)))))"

definition extract_bill_metadata ::
  "(string \<Rightarrow> string option) \<Rightarrow> string \<Rightarrow> (string \<times> json) list \<Rightarrow> string \<Rightarrow> doc_info res" where
  "extract_bill_metadata iso_time stamp raw_data src =
     (if src = ''congress.gov'' then extract_congress_bill_metadata iso_time stamp raw_data
      else if is_dict (dict_get raw_data ''jurisdiction'') \<or> ''legislative_session'' \<in> fst ` set raw_data
        then extract_openstates_bill_metadata stamp raw_data src
      else Inr (extract_generic_bill_metadata stamp raw_data src))"

definition JURISDICTION_CODES :: "(string \<times> string) list" where
  "JURISDICTION_CODES = [(''federal'', ''US''), (''united states'', ''US''), (''congress'', ''US'')]"

definition normalize_jurisdiction :: "string \<Rightarrow> string" where
  "normalize_jurisdiction value =
     (case map_of JURISDICTION_CODES (strip (lower value)) of
        Some code \<Rightarrow> code
      | None \<Rightarrow> if length value = 2 \<and> list_all is_letter value then upper value else value)"

end
