(* ===== verification/Ingestion.thy ===== *)
theory Ingestion
  imports DocMetadata Chunking
begin

text \<open>
  The ingestion pipeline (\<open>ingestion/pipeline.py\<close>): one document is hashed, cut (\<open>Chunking\<close>), embedded and written to
  the index under the ids \<open><document>-chunk-<i>\<close>. The object keeps the hashes it has processed and whether its vector
  service has opened the index; the tokenizer, the digest and the files are parameters. The pages of a website and the
  connectors of \<open>ingest_from_source\<close> are not modelled.
\<close>

section \<open>One document\<close>

record ('n, 't) pipeline =
  vectors :: "'n vector_service"
  chunker :: "'t service"
  sha256 :: "string \<Rightarrow> string"

record pipeline_state =
  processed_hashes :: "string list"
  index_opened :: bool

definition new_pipeline :: pipeline_state where
  "new_pipeline = \<lparr>processed_hashes = [], index_opened = False\<rparr>"

record ingestion_result =
  documents_processed :: nat
  chunks_created :: nat
  chunks_upserted :: nat
  ingestion_errors :: "string list"
  skipped :: nat

definition ingested :: "nat \<Rightarrow> nat \<Rightarrow> nat \<Rightarrow> string list \<Rightarrow> nat \<Rightarrow> ingestion_result" where
  "ingested p c u es k = \<lparr>documents_processed = p, chunks_created = c, chunks_upserted = u, ingestion_errors = es, skipped = k\<rparr>"

definition hash_content :: "('n, 't) pipeline \<Rightarrow> string \<Rightarrow> string" where
  "hash_content P text = take 16 (sha256 P text)"

definition chunk_id :: "string \<Rightarrow> nat \<Rightarrow> string" where
  "chunk_id doc i = doc @ ''-chunk-'' @ int_str (int i)"

definition chunk_document :: "doc_info \<Rightarrow> string \<Rightarrow> metadata chunk \<Rightarrow> document" where
  "chunk_document info digest c =
     \<lparr>doc_id = chunk_id (di_id info) (chunk_index c), doc_content = chunk_content c,
      doc_metadata = dict_set ''content_hash'' (JStr digest) (dict_set ''chunk_index'' (JInt (int (chunk_index c))) (to_dict info)),
      doc_embedding = None\<rparr>"

definition chunks_of :: "('n, 't) pipeline \<Rightarrow> string \<Rightarrow> doc_info \<Rightarrow> metadata chunk list" where
  "chunks_of P text info = chunk_text (chunker P) text (Some (to_dict info))"

definition documents_of :: "('n, 't) pipeline \<Rightarrow> string \<Rightarrow> doc_info \<Rightarrow> document list" where
  "documents_of P text info = map (chunk_document info (hash_content P text)) (chunks_of P text info)"

text \<open>The method never raises: a failed write is an error of the result, which still counts the chunks.\<close>

definition ingest_document ::
  "('n, 'r) host \<Rightarrow> ('n, 't) pipeline \<Rightarrow> string \<Rightarrow> doc_info \<Rightarrow> bool \<Rightarrow> pipeline_state \<Rightarrow>
   ('n, 'r, pipeline_state \<times> ingestion_result) act" where
  "ingest_document H P text info skip_duplicates st =
     (let digest = hash_content P text in
      if skip_duplicates \<and> digest \<in> set (processed_hashes st) then ret (st, ingested 0 0 0 [] 1)
      else
        let st = st\<lparr>processed_hashes := digest # processed_hashes st\<rparr>; chunks = chunks_of P text info in
        if chunks = [] then ret (st, ingested 1 0 0 [] 0)
        else bnd (upsert_documents H (vectors P) (index_opened st) (documents_of P text info)) (\<lambda>(opened, x).
          ret (st\<lparr>index_opened := opened\<rparr>,
            case x of
              Inl e \<Rightarrow> ingested 1 (length chunks) 0 [''Upsert failed: '' @ fault_text e] 0
            | Inr n \<Rightarrow> ingested 1 (length chunks) n [] 0)))"

section \<open>Many documents\<close>

record document_source =
  ds_content :: string
  ds_info :: doc_info

definition add_result :: "ingestion_result \<Rightarrow> ingestion_result \<Rightarrow> ingestion_result" where
  "add_result a b = ingested (documents_processed a + documents_processed b) (chunks_created a + chunks_created b)
     (chunks_upserted a + chunks_upserted b) (ingestion_errors a @ ingestion_errors b) (skipped a + skipped b)"

text \<open>The batches only group the log lines.\<close>

definition ingest_batch ::
  "('n, 'r) host \<Rightarrow> ('n, 't) pipeline \<Rightarrow> document_source list \<Rightarrow> pipeline_state \<Rightarrow>
   ('n, 'r, pipeline_state \<times> ingestion_result) act" where
  "ingest_batch H P sources st =
     for_each (\<lambda>d (st, total). bnd (ingest_document H P (ds_content d) (ds_info d) True st)
        (\<lambda>(st, r). ret (st, add_result total r))) sources (st, ingested 0 0 0 [] 0)"

definition delete_document :: "('n, 'r) host \<Rightarrow> ('n, 't) pipeline \<Rightarrow> string \<Rightarrow> pipeline_state \<Rightarrow> ('n, 'r, bool) act" where
  "delete_document H P doc st =
     attempt (delete_vectors H (vectors P) (index_opened st) (deletion_of None (Some [(''document_id'', JStr doc)]) False))
       (\<lambda>e. if e = OutOfFuel then raise e else ret False) (\<lambda>_. ret True)"

definition reset_hash_cache :: "pipeline_state \<Rightarrow> pipeline_state" where
  "reset_hash_cache st = st\<lparr>processed_hashes := []\<rparr>"

section \<open>Training documents\<close>

text \<open>\<open>s.title()\<close>: a letter after a letter in lower case, any other letter in upper case.\<close>

fun title_from :: "bool \<Rightarrow> string \<Rightarrow> string" where
  "title_from inside [] = []"
| "title_from inside (c # cs) =
     (if inside then lower_char c else upper_char c) # title_from (is_letter c) cs"

definition title_text :: "string \<Rightarrow> string" where
  "title_text s = title_from False s"

text \<open>\<open>path.stem\<close> of a path without a final slash: the name up to its last dot, which is neither its first nor its last character.\<close>

definition last_dot :: "string \<Rightarrow> nat option" where
  "last_dot s = (case filter (\<lambda>i. s ! i = CHR ''.'') (List.rev [0..<length s]) of
     [] \<Rightarrow> None | i # _ \<Rightarrow> if 0 < i \<and> Suc i < length s then Some i else None)"

definition stem :: "string \<Rightarrow> string" where
  "stem path = (let name = basename path in case last_dot name of None \<Rightarrow> name | Some i \<Rightarrow> take i name)"

datatype read_result = Decoded string | DecodeError | ReadError string

definition ENCODINGS :: "string list" where
  "ENCODINGS = [''utf-8'', ''latin-1'', ''cp1252'']"

text \<open>The first encoding that decodes; another error ends the search.\<close>

fun first_decoding :: "(string \<Rightarrow> read_result) \<Rightarrow> string list \<Rightarrow> string + string option" where
  "first_decoding read [] = Inr None"
| "first_decoding read (e # es) = (case read e of
      Decoded s \<Rightarrow> Inr (Some s) | DecodeError \<Rightarrow> first_decoding read es | ReadError m \<Rightarrow> Inl m)"

definition training_info :: "string \<Rightarrow> string \<Rightarrow> doc_info" where
  "training_info stamp path =
     (new_info stamp (''training-'' @ stem path) ''training'' ''Digital Democracy Project'')
       \<lparr>di_title := JStr (title_text (map (\<lambda>c. if c = CHR ''-'' \<or> c = CHR ''_'' then CHR '' '' else c) (stem path))),
        di_url := JStr ''https://digitaldemocracyproject.org'', di_extra := [(''filename'', JStr (basename path))]\<rparr>"

text \<open>The files: whether a path exists, and what reading it with an encoding gives.\<close>

fun load_training ::
  "(string \<Rightarrow> bool) \<Rightarrow> (string \<Rightarrow> string \<Rightarrow> read_result) \<Rightarrow> string \<Rightarrow> string list \<Rightarrow> document_source list \<times> string list" where
  "load_training exists read stamp [] = ([], [])"
| "load_training exists read stamp (f # fs) =
     (let (docs, errs) = load_training exists read stamp fs in
      if \<not> exists f then (docs, (''File not found: '' @ f) # errs)
      else case first_decoding (read f) ENCODINGS of
          Inl m \<Rightarrow> (docs, (''Failed to read '' @ f @ '': '' @ m) # errs)
        | Inr None \<Rightarrow> (docs, (''Could not decode: '' @ f) # errs)
        | Inr (Some s) \<Rightarrow> (\<lparr>ds_content = s, ds_info = training_info stamp f\<rparr> # docs, errs))"

definition ingest_training_docs ::
  "('n, 'r) host \<Rightarrow> ('n, 't) pipeline \<Rightarrow> (string \<Rightarrow> bool) \<Rightarrow> (string \<Rightarrow> string \<Rightarrow> read_result) \<Rightarrow> string list \<Rightarrow> pipeline_state \<Rightarrow>
   ('n, 'r, pipeline_state \<times> ingestion_result) act" where
  "ingest_training_docs H P exists read files st =
     (if files = [] then ret (st, ingested 0 0 0 [''No files provided''] 0)
      else bnd (current (\<lambda>s. n_stamp (network H) (net s))) (\<lambda>stamp.
        let (docs, errs) = load_training exists read stamp files in
        bnd (ingest_batch H P docs st) (\<lambda>(st, r). ret (st, r\<lparr>ingestion_errors := ingestion_errors r @ errs\<rparr>))))"

end
