(* ===== verification/BillText.thy ===== *)
theory BillText
  imports Ingestion
begin

text \<open>
  The text of a bill behind an address: the kind of an address (\<open>_get_url_content_type\<close>), the PDF of
  \<open>ingestion/sources/pdf.py\<close>, the page, and the document that \<open>ingestion/sources/webflow.py\<close> makes of either. The two
  PDF libraries, the HTML parser and the digest are parameters; a body is the list of its bytes. The requests follow
  redirects inside of the client. The other documents of \<open>WebflowSource\<close> are not modelled.
\<close>

section \<open>The libraries\<close>

text \<open>A page of a PDF has a text or raises; opening a PDF raises or gives its pages and its metadata.\<close>

type_synonym pdf_pages = "(string + string) list \<times> (string \<times> json) list option"

text \<open>\<open>soup tags html\<close>: the parsed page without the elements of these tags, as the text of what a selector finds first.\<close>

record text_tools =
  pdfplumber :: "string \<Rightarrow> string + pdf_pages"
  pypdf2 :: "string \<Rightarrow> string + pdf_pages"
  soup :: "string list \<Rightarrow> string \<Rightarrow> (string \<Rightarrow> string option) option"
  md5_hex :: "string \<Rightarrow> string"
  temp_path :: string

section \<open>PDF files\<close>

fun page_texts :: "(string + string) list \<Rightarrow> string list option" where
  "page_texts [] = Some []"
| "page_texts (Inl e # pages) = None"
| "page_texts (Inr t # pages) = (case page_texts pages of None \<Rightarrow> None | Some ts \<Rightarrow> Some (if t = [] then ts else t # ts))"

definition paragraphs :: "string list \<Rightarrow> string" where
  "paragraphs = join [newline, newline]"

definition limited :: "int \<Rightarrow> 'a list \<Rightarrow> 'a list" where
  "limited max_pages pages = (if 0 < max_pages \<and> max_pages < int (length pages) then take (nat max_pages) pages else pages)"

text \<open>The second library reads all pages, whatever the limit.\<close>

definition by_pypdf2 :: "text_tools \<Rightarrow> string \<Rightarrow> string \<times> (string \<times> json) list option" where
  "by_pypdf2 X bytes = (case pypdf2 X bytes of
      Inl _ \<Rightarrow> ([], None)
    | Inr (pages, md) \<Rightarrow> (case page_texts pages of None \<Rightarrow> ([], None) | Some ts \<Rightarrow> (paragraphs ts, md)))"

definition extract_text :: "text_tools \<Rightarrow> int \<Rightarrow> string \<Rightarrow> string \<times> (string \<times> json) list option" where
  "extract_text X max_pages bytes =
     (case pdfplumber X bytes of
        Inl _ \<Rightarrow> by_pypdf2 X bytes
      | Inr (pages, md) \<Rightarrow> (case page_texts (limited max_pages pages) of
            Some (t # ts) \<Rightarrow> (paragraphs (t # ts), md)
          | _ \<Rightarrow> by_pypdf2 X bytes))"

text \<open>The file at a path, or nothing.\<close>

definition process_file ::
  "text_tools \<Rightarrow> string \<Rightarrow> string \<Rightarrow> string option \<Rightarrow> int \<Rightarrow> document_source option" where
  "process_file X stamp path bytes max_pages =
     (case bytes of
        None \<Rightarrow> None
      | Some b \<Rightarrow>
          let (t, md) = extract_text X max_pages b in
          if length (strip t) < 100 then None
          else Some \<lparr>ds_content = t, ds_info = extract_pdf_metadata (md5_hex X) stamp path md\<rparr>)"

definition plain_request :: "http_method \<Rightarrow> string \<Rightarrow> request" where
  "plain_request m u = \<lparr>req_method = m, req_url = u, req_headers = [], req_params = [], req_body = None\<rparr>"

definition download :: "('n, 'r) host \<Rightarrow> string \<Rightarrow> ('n, 'r, string) act" where
  "download H u = bnd (http H (plain_request GET u)) (\<lambda>r. bnd (raise_for_status r) (\<lambda>_. ret (body_text r)))"

definition process_url ::
  "('n, 'r) host \<Rightarrow> text_tools \<Rightarrow> string \<Rightarrow> int \<Rightarrow> ('n, 'r, document_source option) act" where
  "process_url H X u max_pages =
     attempt (download H u) (\<lambda>e. if e = OutOfFuel then raise e else ret None) (\<lambda>bytes.
     bnd (current (\<lambda>s. n_stamp (network H) (net s))) (\<lambda>stamp.
       ret (case process_file X stamp (temp_path X) (Some bytes) max_pages of
           None \<Rightarrow> None
         | Some d \<Rightarrow> Some (d\<lparr>ds_info := (ds_info d)\<lparr>di_url := JStr u\<rparr>\<rparr>))))"

section \<open>Names of the source\<close>

text \<open>\<open>urlparse(url).netloc\<close>: the text between \<open>//\<close> after the scheme and the next of \<open>/?#\<close>. An unpaired bracket raises; a host in brackets is taken as valid.\<close>

definition is_scheme_char :: "char \<Rightarrow> bool" where
  "is_scheme_char c = (is_letter c \<or> is_digit c \<or> c \<in> {CHR ''+'', CHR ''-'', CHR ''.''})"

definition cleaned_url :: "string \<Rightarrow> string" where
  "cleaned_url s = filter (\<lambda>c. ord_of c \<notin> {9, 10, 13}) (dropWhile (\<lambda>c. ord_of c \<le> 32) s)"

definition after_scheme :: "string \<Rightarrow> string" where
  "after_scheme s = (let scheme = takeWhile (\<lambda>c. c \<noteq> CHR '':'') s; rest = drop (length scheme) s in
     if rest \<noteq> [] \<and> scheme \<noteq> [] \<and> is_letter (hd scheme) \<and> list_all is_scheme_char scheme then tl rest else s)"

definition netloc :: "string \<Rightarrow> string res" where
  "netloc u = (let s = after_scheme (cleaned_url u) in
     if starts_with ''//'' s then
       let h = takeWhile (\<lambda>c. c \<notin> {CHR ''/'', CHR ''?'', CHR ''#''}) (drop 2 s) in
       if (CHR ''['' \<in> set h) \<noteq> (CHR '']'' \<in> set h) then Inl (ValueError ''Invalid IPv6 URL'') else Inr h
     else Inr [])"

definition SOURCE_NAMES :: "(string \<times> string) list" where
  "SOURCE_NAMES = [(''congress.gov'', ''Congress.gov''), (''flsenate.gov'', ''Florida Senate''), (''flhouse.gov'', ''Florida House''),
     (''myfloridahouse.gov'', ''Florida House''), (''leg.wa.gov'', ''Washington Legislature''),
     (''apps.leg.wa.gov'', ''Washington Legislature''), (''legislature.mi.gov'', ''Michigan Legislature''),
     (''le.utah.gov'', ''Utah Legislature''), (''azleg.gov'', ''Arizona Legislature''),
     (''malegislature.gov'', ''Massachusetts Legislature''), (''lis.virginia.gov'', ''Virginia Legislature''),
     (''virginiageneralassembly.gov'', ''Virginia Legislature'')]"

definition get_source_from_url :: "string \<Rightarrow> string" where
  "get_source_from_url u =
     (case netloc u of
        Inl _ \<Rightarrow> ''Government Source''
      | Inr h \<Rightarrow>
          let domain = remove_prefix ''www.'' (lower h) in
          case map_of SOURCE_NAMES domain of
            Some name \<Rightarrow> name
          | None \<Rightarrow> (case find (\<lambda>(k, name). contains k domain) SOURCE_NAMES of
                Some (k, name) \<Rightarrow> name
              | None \<Rightarrow> replace_text '' Gov'' ''.gov'' (title_text (replace_text ''.'' '' '' domain))))"

section \<open>The kind of an address\<close>

datatype url_kind = PdfUrl | HtmlUrl

definition ends_in :: "string \<Rightarrow> string \<Rightarrow> bool" where
  "ends_in p s = starts_with (rev p) (rev s)"

text \<open>What the first bytes say; a page that only loads a script has no text.\<close>

definition kind_of_bytes :: "string \<Rightarrow> url_kind option" where
  "kind_of_bytes bytes =
     (let start = lower (take 1024 bytes) in
      if starts_with ''%pdf'' start then Some PdfUrl
      else if contains ''<!doctype html'' start \<or> contains ''<html'' start
        then (if contains (''<div id='' @ [quote2] @ ''root'' @ [quote2] @ ''></div>'') start
                \<or> contains (''<div id='' @ [quote1] @ ''root'' @ [quote1] @ ''></div>'') start then None else Some HtmlUrl)
      else None)"

definition detect_kind :: "('n, 'r) host \<Rightarrow> string \<Rightarrow> ('n, 'r, url_kind option) act" where
  "detect_kind H u =
     bnd (http H (plain_request HEAD u)) (\<lambda>r.
       let t = (case header r ''content-type'' of None \<Rightarrow> [] | Some h \<Rightarrow> lower h) in
       if contains ''application/pdf'' t then ret (Some PdfUrl)
       else if contains ''text/html'' t then ret (Some HtmlUrl)
       else if t \<noteq> [] then ret None
       else bnd (http H (plain_request GET u)) (\<lambda>r. ret (kind_of_bytes (body_text r))))"

definition get_url_content_type :: "('n, 'r) host \<Rightarrow> json \<Rightarrow> ('n, 'r, url_kind option) act" where
  "get_url_content_type H url =
     (case url of
        JStr u \<Rightarrow>
          if ends_in ''.pdf'' (lower u) \<or> ends_in ''/pdf'' (lower u) then ret (Some PdfUrl)
          else attempt (detect_kind H u) (\<lambda>e. if e = OutOfFuel then raise e else ret None) ret
      | _ \<Rightarrow> raise (Raised (OtherError ''AttributeError'')))"

section \<open>The document of a bill\<close>

definition get_jurisdiction :: "(string \<times> json) list \<Rightarrow> json" where
  "get_jurisdiction cms = (case dict_get cms ''jurisdiction'' of
      JStr s \<Rightarrow> JStr s | JObj d \<Rightarrow> get_or d ''name'' (JStr ''US'') | _ \<Rightarrow> JStr ''US'')"

definition get_bill_id :: "(string \<times> json) list \<Rightarrow> json" where
  "get_bill_id cms =
     (let prefix = get_or cms ''bill-prefix'' (JStr []); number = get_or cms ''bill-number'' (JStr []);
          session = get_or cms ''session-code'' (get_or cms ''bill-session'' (JStr [])) in
      if truthy prefix \<and> truthy number
      then JStr (json_str prefix @ ''-'' @ json_str number @ (if truthy session then ''-'' @ json_str session else []))
      else get_or cms ''govid'' (get_or cms ''name'' (JStr ''unknown'')))"

definition bill_header :: "(string \<times> json) list \<Rightarrow> string \<Rightarrow> string" where
  "bill_header cms u =
     (let name = json_str (get_or cms ''name'' (JStr ''Unknown Bill'')); slug = get_or cms ''slug'' (JStr []);
          bill = json_str (get_bill_id cms);
          ddp_url = ''https://digitaldemocracyproject.org/bills/'' @ json_str slug in
      join [newline]
        ((if truthy slug
          then [''# ['' @ name @ ''](''@ ddp_url @ '')'', ''**Bill:** ['' @ bill @ ''](''@ ddp_url @ '')'']
          else [''# '' @ name, ''**Bill:** '' @ bill]) @
         [''**Source:** [Official Legislative Text]('' @ u @ '')'', [newline] @ ''---'' @ [newline]]))"

definition bill_info :: "string \<Rightarrow> string \<Rightarrow> string \<Rightarrow> (string \<times> json) list \<Rightarrow> json \<Rightarrow> doc_info" where
  "bill_info stamp kind u cms item_id =
     (new_info stamp (''bill-'' @ kind @ ''-'' @ json_str item_id) ''bill-text'' (get_source_from_url u))
       \<lparr>di_title := JStr (json_str (get_or cms ''name'' (JStr ''Unknown Bill'')) @ '' - Full Text''),
        di_jurisdiction := get_jurisdiction cms, di_bill := get_bill_id cms, di_url := JStr u,
        di_extra := [(''webflow_id'', item_id), (''slug'', get_or cms ''slug'' (JStr [])), (''content_type'', JStr kind),
          (''session'', dict_get cms ''bill-session''), (''bill_prefix'', dict_get cms ''bill-prefix''),
          (''bill_number'', dict_get cms ''bill-number'')]\<rparr>"

definition bill_document :: "('n, 'r) host \<Rightarrow> string \<Rightarrow> string \<Rightarrow> (string \<times> json) list \<Rightarrow> json \<Rightarrow> string \<Rightarrow> ('n, 'r, document_source option) act" where
  "bill_document H kind u cms item_id body =
     bnd (current (\<lambda>s. n_stamp (network H) (net s))) (\<lambda>stamp.
       ret (Some \<lparr>ds_content = bill_header cms u @ body, ds_info = bill_info stamp kind u cms item_id\<rparr>))"

text \<open>A download that fails, and an address that is no text, give no document.\<close>

definition process_bill_pdf ::
  "('n, 'r) host \<Rightarrow> text_tools \<Rightarrow> int \<Rightarrow> json \<Rightarrow> (string \<times> json) list \<Rightarrow> json \<Rightarrow> ('n, 'r, document_source option) act" where
  "process_bill_pdf H X max_pages url cms item_id =
     (case url of
        JStr u \<Rightarrow> bnd (process_url H X u max_pages) (\<lambda>d. case d of
            None \<Rightarrow> ret None
          | Some doc \<Rightarrow> bill_document H ''pdf'' u cms item_id (ds_content doc))
      | _ \<Rightarrow> ret None)"

definition REMOVED_TAGS :: "string list" where
  "REMOVED_TAGS = [''script'', ''style'', ''nav'', ''header'', ''footer'', ''aside'']"

definition BILL_TEXT_SELECTORS :: "string list" where
  "BILL_TEXT_SELECTORS = [''div.bill-text'', ''div.legislation-text'', ''div.bill-content'', ''article.bill'', ''main'',
     ''div.content'', ''div#content'', ''div.document-content'', ''pre'']"

text \<open>The first text of more than 500 characters, or else the last one found.\<close>

fun selected_text :: "(string \<Rightarrow> string option) \<Rightarrow> string list \<Rightarrow> string option \<Rightarrow> string option" where
  "selected_text found [] acc = acc"
| "selected_text found (s # ss) acc = (case found s of
      None \<Rightarrow> selected_text found ss acc
    | Some t \<Rightarrow> if length t > 500 then Some t else selected_text found ss (Some t))"

definition html_body :: "(string \<Rightarrow> string option) \<Rightarrow> string option" where
  "html_body found =
     (let t = selected_text found BILL_TEXT_SELECTORS None;
          t = (case t of
              Some x \<Rightarrow> if length x < 500 then (case found ''body'' of Some b \<Rightarrow> Some b | None \<Rightarrow> Some x) else Some x
            | None \<Rightarrow> found ''body'') in
      case t of None \<Rightarrow> None | Some x \<Rightarrow> if length x < 200 then None else Some x)"

definition cleaned_lines :: "string \<Rightarrow> string" where
  "cleaned_lines s = join [newline] (filter (\<lambda>l. l \<noteq> []) (map strip (split_at newline s [])))"

definition process_bill_html ::
  "('n, 'r) host \<Rightarrow> text_tools \<Rightarrow> json \<Rightarrow> (string \<times> json) list \<Rightarrow> json \<Rightarrow> ('n, 'r, document_source option) act" where
  "process_bill_html H X url cms item_id =
     (case url of
        JStr u \<Rightarrow> attempt (download H u) (\<lambda>e. if e = OutOfFuel then raise e else ret None) (\<lambda>html.
          case soup X REMOVED_TAGS html of
            None \<Rightarrow> ret None
          | Some found \<Rightarrow> (case html_body found of
                None \<Rightarrow> ret None
              | Some t \<Rightarrow> bill_document H ''html'' u cms item_id (cleaned_lines t)))
      | _ \<Rightarrow> ret None)"

end
