(* ===== verification/OpenStatesSource.thy ===== *)
theory OpenStatesSource
  imports Methods LegislativeCalendar
begin

text \<open>
  The jurisdictions of OpenStates (\<open>ingestion/sources/openstates.py\<close>, the part the synchronisations use): which api
  serves a jurisdiction, the fetch of its metadata with its retries, and the one rule for the current session. The
  fields of a session are texts, as the api publishes them; a value of another kind is read as no text. The names of
  the sources of documents are those of \<open>services/jurisdiction_names.py\<close>. The fetches of bills and people for the
  knowledge base are not modelled.
\<close>

section \<open>Source names\<close>

definition JURISDICTION_SOURCE_NAMES :: "(string \<times> string) list" where
  "JURISDICTION_SOURCE_NAMES = [(''us'', ''US Congress''), (''fl'', ''Florida Legislature''), (''wa'', ''Washington Legislature''),
     (''va'', ''Virginia Legislature''), (''mi'', ''Michigan Legislature''), (''ma'', ''Massachusetts Legislature''),
     (''ut'', ''Utah Legislature''), (''az'', ''Arizona Legislature''), (''al'', ''Alabama Legislature''),
     (''nc'', ''North Carolina Legislature''), (''pa'', ''Pennsylvania Legislature''), (''ne'', ''Nebraska Legislature''),
     (''la'', ''Louisiana Legislature''), (''ca'', ''California Legislature''), (''ny'', ''New York Legislature''),
     (''tx'', ''Texas Legislature'')]"

definition source_name :: "('n, 'r) host \<Rightarrow> string \<Rightarrow> ('n, 'r, string) act" where
  "source_name H code =
     (case map_of JURISDICTION_SOURCE_NAMES (lower code) of
        Some name \<Rightarrow> ret name
      | None \<Rightarrow>
          if code = [] then ret ''State Legislature''
          else bnd (current enrollment_state) (\<lambda>en.
            let (name, en') = manifest_name (manifest H) (lower code) None en in
            bnd (update (\<lambda>s. s\<lparr>enrollment_state := en'\<rparr>)) (\<lambda>_.
              ret ((case name of Some n \<Rightarrow> n | None \<Rightarrow> upper code) @ '' Legislature''))))"

section \<open>Sessions\<close>

record leg_session =
  live_part :: live_session
  is_current :: json
  is_previous :: json

record jurisdiction_info =
  ji_id :: json
  ji_name :: json
  ji_classification :: json
  ji_url :: json
  latest_bill_update :: "string option"
  latest_people_update :: "string option"
  ji_sessions :: "leg_session list"
  ji_organizations :: json

definition session_identifier :: "leg_session \<Rightarrow> string" where
  "session_identifier s = ls_identifier (live_part s)"

definition flags_published :: "jurisdiction_info \<Rightarrow> bool" where
  "flags_published info = (ji_sessions info \<noteq> [] \<and> list_all (\<lambda>s. is_current s \<noteq> JNull) (ji_sessions info))"

definition current_sessions :: "jurisdiction_info \<Rightarrow> leg_session list" where
  "current_sessions info = filter (\<lambda>s. truthy (is_current s)) (ji_sessions info)"

definition get_session_by_identifier :: "jurisdiction_info \<Rightarrow> string \<Rightarrow> leg_session option" where
  "get_session_by_identifier info identifier = find (\<lambda>s. session_identifier s = identifier) (ji_sessions info)"

section \<open>Which api\<close>

type_synonym route = "string \<times> string \<times> bool"

text \<open>\<open>BillSyncService._get_api_base_and_key\<close>, which the class of this module says it mirrors.\<close>

definition bill_route :: "('n, 'r) host \<Rightarrow> sync_settings \<Rightarrow> string \<Rightarrow> route" where
  "bill_route H cfg code =
     (if upper code \<in> upper ` set (ddp_openstates_jurisdictions cfg)
      then (local_openstates_api_base (conf H), local_openstates_api_key (conf H), True)
      else (openstates_api_base cfg, openstates_api_key cfg, False))"

definition source_route :: "('n, 'r) host \<Rightarrow> sync_settings \<Rightarrow> string \<Rightarrow> route" where
  "source_route H cfg code =
     (if upper code \<in> upper ` set (ddp_openstates_jurisdictions cfg)
      then (if cams_api_token (conf H) = [] \<and> rds_openstates_api_base cfg \<noteq> []
            then (rds_openstates_api_base cfg, rds_openstates_api_key cfg, False)
            else (local_openstates_api_base (conf H), local_openstates_api_key (conf H), True))
      else (openstates_api_base cfg, openstates_api_key cfg, False))"

section \<open>Fetching a jurisdiction\<close>

definition jurisdiction_request :: "('n, 'r) host \<Rightarrow> sync_settings \<Rightarrow> string \<Rightarrow> request" where
  "jurisdiction_request H cfg code =
     (let (base, key, _) = source_route H cfg code in
      \<lparr>req_method = GET, req_url = base @ ''/jurisdictions/'' @ lower code,
       req_headers = [(''accept'', ''application/json'')] @ (if key = [] then [] else [(''X-API-Key'', key)]),
       req_params = [(''include'', ''organizations''), (''include'', ''legislative_sessions''), (''include'', ''latest_runs'')],
       req_body = None\<rparr>)"

text \<open>The document, or nothing: an error, a status that is no success, a 404, a body that is no JSON, or no attempt left.\<close>

fun jurisdiction_attempts :: "('n, 'r) host \<Rightarrow> request \<Rightarrow> nat \<Rightarrow> ('n, 'r, json option) act" where
  "jurisdiction_attempts H rq 0 = ret None"
| "jurisdiction_attempts H rq (Suc left) =
     attempt (http H rq) (\<lambda>e. if e = OutOfFuel then raise e else ret None) (\<lambda>r.
       if status_code r = 429
       then (case header r ''retry-after'' of
           None \<Rightarrow> bnd (sleep H 2) (\<lambda>_. jurisdiction_attempts H rq left)
         | Some s \<Rightarrow> (case int_of_text s of
               Inl _ \<Rightarrow> ret None
             | Inr n \<Rightarrow> bnd (sleep H (of_int n)) (\<lambda>_. jurisdiction_attempts H rq left)))
       else if status_code r = 404 \<or> \<not> is_success r then ret None
       else ret (body_json r))"

definition field_text :: "(string \<times> json) list \<Rightarrow> string \<Rightarrow> string" where
  "field_text d k = (case map_of d k of Some (JStr s) \<Rightarrow> s | _ \<Rightarrow> [])"

definition read_session :: "json \<Rightarrow> leg_session res" where
  "read_session v =
     (case v of
        JObj d \<Rightarrow> Inr \<lparr>live_part = \<lparr>ls_start = Some (field_text d ''start_date''), ls_end = Some (field_text d ''end_date''),
            ls_classification = field_text d ''classification'', ls_identifier = field_text d ''identifier'', ls_name = field_text d ''name''\<rparr>,
          is_current = dict_get d ''is_current'', is_previous = dict_get d ''is_previous''\<rparr>
      | _ \<Rightarrow> Inl (OtherError ''AttributeError''))"

text \<open>A time that \<open>datetime.fromisoformat\<close> reads, which is \<open>isodate\<close>; \<open>Z\<close> stands for the offset of UTC.\<close>

definition zulu :: "string \<Rightarrow> string" where
  "zulu s = concat (map (\<lambda>c. if c = CHR ''Z'' then ''+00:00'' else [c]) s)"

definition read_time :: "(string \<Rightarrow> bool) \<Rightarrow> json \<Rightarrow> string option res" where
  "read_time isodate v =
     (if \<not> truthy v then Inr None
      else case v of JStr s \<Rightarrow> Inr (if isodate (zulu s) then Some (zulu s) else None) | _ \<Rightarrow> Inl (OtherError ''AttributeError''))"

definition read_jurisdiction :: "(string \<Rightarrow> bool) \<Rightarrow> json \<Rightarrow> jurisdiction_info res" where
  "read_jurisdiction isodate data =
     bind_res (attr_get data ''legislative_sessions'' (JArr [])) (\<lambda>l. bind_res (json_iter l) (\<lambda>xs.
     bind_res (map_res read_session xs) (\<lambda>sessions.
     bind_res (bind_res (attr_get data ''latest_bill_update'' JNull) (read_time isodate)) (\<lambda>bills.
     bind_res (bind_res (attr_get data ''latest_people_update'' JNull) (read_time isodate)) (\<lambda>people.
     bind_res (attr_get data ''id'' (JStr [])) (\<lambda>i. bind_res (attr_get data ''name'' (JStr [])) (\<lambda>name.
     bind_res (attr_get data ''classification'' (JStr [])) (\<lambda>c. bind_res (attr_get data ''url'' (JStr [])) (\<lambda>u.
     bind_res (attr_get data ''organizations'' (JArr [])) (\<lambda>orgs.
       Inr \<lparr>ji_id = i, ji_name = name, ji_classification = c, ji_url = u, latest_bill_update = bills,
            latest_people_update = people, ji_sessions = sessions, ji_organizations = orgs\<rparr>))))))))))"

definition fetch_jurisdiction ::
  "('n, 'r) host \<Rightarrow> sync_settings \<Rightarrow> (string \<Rightarrow> bool) \<Rightarrow> string \<Rightarrow> nat \<Rightarrow> ('n, 'r, jurisdiction_info option) act" where
  "fetch_jurisdiction H cfg isodate code max_retries =
     bnd (jurisdiction_attempts H (jurisdiction_request H cfg code) max_retries) (\<lambda>data. case data of
         None \<Rightarrow> ret None
       | Some v \<Rightarrow> bnd (lift_res (read_jurisdiction isodate v)) (\<lambda>info. ret (Some info)))"

definition get_current_session_identifiers ::
  "('n, 'r) host \<Rightarrow> sync_settings \<Rightarrow> (string \<Rightarrow> bool) \<Rightarrow> string \<Rightarrow> ('n, 'r, string list) act" where
  "get_current_session_identifiers H cfg isodate code =
     bnd (fetch_jurisdiction H cfg isodate code 3) (\<lambda>info. ret (case info of
         None \<Rightarrow> []
       | Some i \<Rightarrow> if flags_published i then map session_identifier (current_sessions i) else []))"

end
