(* ===== verification/FederalCache.thy ===== *)
theory FederalCache
  imports Methods OpenStatesSource
begin

text \<open>
  The ids of the members of Congress by name (\<open>sync/federal_legislator_cache.py\<close>): the votes of Congress name a voter
  only by a text, so the members are fetched, kept in a file, and found again by any of the forms of their name. The
  file and its directory are parameters; the object is a singleton of the process. The command line is not modelled.
\<close>

section \<open>The index of names\<close>

record federal_cache =
  fc_people :: "(string \<times> json) list"
  fc_names :: "(string \<times> string) list"
  fc_loaded :: bool

definition new_cache :: federal_cache where
  "new_cache = \<lparr>fc_people = [], fc_names = [], fc_loaded = False\<rparr>"

definition PARTY_LETTERS :: "(string \<times> string) list" where
  "PARTY_LETTERS = [(''Democratic'', ''D''), (''Republican'', ''R''), (''Independent'', ''I'')]"

definition party_letter :: "string \<Rightarrow> string" where
  "party_letter party = (case map_of PARTY_LETTERS party of Some l \<Rightarrow> l | None \<Rightarrow> take 1 party)"

definition NAME_SUFFIXES :: "string list" where
  "NAME_SUFFIXES = [''jr.'', ''jr'', ''sr.'', ''sr'', ''ii'', ''iii'', ''iv'', ''v'']"

definition rstrip_dots :: "string \<Rightarrow> string" where
  "rstrip_dots s = rev (dropWhile (\<lambda>c. c = CHR ''.'') (rev s))"

definition last_name :: "string \<Rightarrow> string" where
  "last_name full_name =
     (case find (\<lambda>p. rstrip_dots (lower p) \<notin> set NAME_SUFFIXES) (rev (split_words full_name [])) of
        None \<Rightarrow> [] | Some p \<Rightarrow> p)"

definition generate_name_variants :: "string \<Rightarrow> string \<Rightarrow> string \<Rightarrow> string list" where
  "generate_name_variants full_name party_abbrev state =
     (if full_name = [] then []
      else let l = last_name full_name in
        full_name # (if l = [] then []
          else l #
            (if party_abbrev \<noteq> [] \<and> state \<noteq> [] then [l @ '' ('' @ party_abbrev @ ''-'' @ state @ '')''] else []) @
            (if party_abbrev \<noteq> [] then [l @ '' ('' @ party_abbrev @ '')''] else [])))"

definition normalized :: "string \<Rightarrow> string" where
  "normalized name = strip (lower name)"

text \<open>The first member of a form of a name keeps it.\<close>

fun add_variants :: "string \<Rightarrow> string list \<Rightarrow> (string \<times> string) list \<Rightarrow> (string \<times> string) list" where
  "add_variants person [] names = names"
| "add_variants person (v # vs) names =
     add_variants person vs
       (if normalized v \<noteq> [] \<and> normalized v \<notin> fst ` set names then names @ [(normalized v, person)] else names)"

text \<open>The name, the letter of the party and the state of an entry: what is empty or unset gives no text.\<close>

definition entry_name :: "json \<Rightarrow> string res" where
  "entry_name info = bind_res (attr_get info ''name'' (JStr [])) text_or_empty"

definition entry_party :: "json \<Rightarrow> string res" where
  "entry_party info = bind_res (attr_get info ''party'' (JStr [])) (\<lambda>v. case v of
      JStr s \<Rightarrow> Inr (party_letter s) | JNull \<Rightarrow> Inr [] | JBool b \<Rightarrow> if b then Inl TypeError else Inr []
    | JInt i \<Rightarrow> if i \<noteq> 0 then Inl TypeError else Inr [] | _ \<Rightarrow> Inl TypeError)"

definition entry_state :: "json \<Rightarrow> string res" where
  "entry_state info = bind_res (attr_get info ''state'' (JStr [])) (\<lambda>v. Inr (if truthy v then json_str v else []))"

text \<open>The index, and the exception of the entry that ended it.\<close>

fun build_name_index :: "(string \<times> json) list \<Rightarrow> (string \<times> string) list \<Rightarrow> (string \<times> string) list \<times> py_error option" where
  "build_name_index [] names = (names, None)"
| "build_name_index ((person, info) # people) names =
     (case bind_res (entry_name info) (\<lambda>name. bind_res (entry_party info) (\<lambda>party. bind_res (entry_state info) (\<lambda>state.
         Inr (generate_name_variants name party state)))) of
        Inl e \<Rightarrow> (names, Some e)
      | Inr variants \<Rightarrow> build_name_index people (add_variants person variants names))"

text \<open>The file: absent, unreadable or no JSON, or a document.\<close>

definition people_of :: "json \<Rightarrow> (string \<times> json) list res" where
  "people_of data = bind_res (attr_get data ''legislators'' (JObj [])) (\<lambda>v.
     case v of JObj d \<Rightarrow> Inr d | _ \<Rightarrow> Inl (OtherError ''AttributeError''))"

text \<open>A file that cannot be used leaves no member; the names indexed before an entry raised stay.\<close>

definition ensure_loaded :: "config_file \<Rightarrow> federal_cache \<Rightarrow> federal_cache" where
  "ensure_loaded file fc =
     (if fc_loaded fc then fc
      else case file of
          NoFile \<Rightarrow> fc\<lparr>fc_loaded := True\<rparr>
        | Unreadable \<Rightarrow> fc\<lparr>fc_people := [], fc_loaded := True\<rparr>
        | Parsed data \<Rightarrow> (case people_of data of
              Inl _ \<Rightarrow> fc\<lparr>fc_people := [], fc_names := (if is_dict data then [] else fc_names fc), fc_loaded := True\<rparr>
            | Inr d \<Rightarrow> (let (names, e) = build_name_index d [] in
                \<lparr>fc_people = (if e = None then d else []), fc_names = names, fc_loaded = True\<rparr>)))"

definition lookup_person :: "federal_cache \<Rightarrow> string \<Rightarrow> string option" where
  "lookup_person fc voter_name = map_of (fc_names fc) (normalized voter_name)"

definition lookup_with_info :: "federal_cache \<Rightarrow> string \<Rightarrow> (string \<times> json) list option" where
  "lookup_with_info fc voter_name =
     (case lookup_person fc voter_name of
        None \<Rightarrow> None
      | Some person \<Rightarrow>
          if person = [] then None
          else case map_of (fc_people fc) person of
              Some (JObj d) \<Rightarrow> Some (dict_set ''person_id'' (JStr person) d)
            | _ \<Rightarrow> None)"

definition get_all :: "federal_cache \<Rightarrow> (string \<times> json) list" where
  "get_all fc = fc_people fc"

definition get_by_person_id :: "federal_cache \<Rightarrow> string \<Rightarrow> json option" where
  "get_by_person_id fc person_id = map_of (fc_people fc) person_id"

section \<open>Refreshing it\<close>

text \<open>\<open>re.search(r"/state:([a-z]{2})", s)\<close>: the first place where two small letters follow.\<close>

fun state_in :: "string \<Rightarrow> string option" where
  "state_in [] = None"
| "state_in (c # cs) =
     (if starts_with ''/state:'' (c # cs) \<and> length cs \<ge> 8 \<and> list_all is_lower (take 2 (drop 6 cs))
      then Some (take 2 (drop 6 cs)) else state_in cs)"

definition role_state :: "json \<Rightarrow> string res" where
  "role_state role =
     (if \<not> truthy role then Inr []
      else bind_res (attr_get role ''division_id'' (JStr [])) (\<lambda>d. case d of
          JStr s \<Rightarrow> Inr (case state_in s of None \<Rightarrow> [] | Some c \<Rightarrow> upper c)
        | _ \<Rightarrow> Inl TypeError))"

definition member_entry :: "string \<Rightarrow> json \<Rightarrow> (string \<times> json) option res" where
  "member_entry chamber_name person =
     bind_res (attr_get person ''id'' (JStr [])) (\<lambda>i.
       if \<not> truthy i then Inr None
       else bind_res (attr_get person ''current_role'' (JObj [])) (\<lambda>role. bind_res (role_state role) (\<lambda>state.
         bind_res (attr_get person ''name'' (JStr [])) (\<lambda>name. bind_res (attr_get person ''party'' (JStr [])) (\<lambda>party.
         bind_res (attr_get person ''image'' (JStr [])) (\<lambda>image.
           Inr (Some (json_str i, JObj [(''name'', name), (''party'', party), (''state'', JStr state),
             (''chamber'', JStr (lower chamber_name)), (''image'', image)]))))))))"

text \<open>The members so far are kept when an entry raises.\<close>

fun add_members :: "string \<Rightarrow> json list \<Rightarrow> (string \<times> json) list \<Rightarrow> (string \<times> json) list \<times> py_error option" where
  "add_members chamber_name [] d = (d, None)"
| "add_members chamber_name (p # ps) d =
     (case member_entry chamber_name p of
        Inl e \<Rightarrow> (d, Some e)
      | Inr None \<Rightarrow> add_members chamber_name ps d
      | Inr (Some (i, info)) \<Rightarrow> add_members chamber_name ps (dict_set i info d))"

definition federal_route :: "('n, 'r) host \<Rightarrow> sync_settings \<Rightarrow> route" where
  "federal_route H cfg = bill_route H cfg ''us''"

definition people_request :: "string \<Rightarrow> string \<Rightarrow> string \<Rightarrow> int \<Rightarrow> request" where
  "people_request base key chamber page =
     \<lparr>req_method = GET, req_url = base @ ''/people'', req_headers = (if key = [] then [] else [(''X-API-KEY'', key)]),
      req_params = [(''jurisdiction'', ''us''), (''org_classification'', chamber), (''page'', int_str page), (''per_page'', ''50'')],
      req_body = None\<rparr>"

definition results_of :: "json \<Rightarrow> json list res" where
  "results_of data = bind_res (attr_get data ''results'' (JArr [])) (\<lambda>v. if truthy v then json_iter v else Inr [])"

definition max_page_of :: "json \<Rightarrow> int res" where
  "max_page_of data = bind_res (attr_get data ''pagination'' (JObj [])) (\<lambda>p. bind_res (attr_get p ''max_page'' (JInt 1)) json_number)"

text \<open>The text of an error of a page.\<close>

definition page_error :: "string \<Rightarrow> int \<Rightarrow> fault \<Rightarrow> string" where
  "page_error chamber_name page e =
     (case e of HTTPStatusError _ _ \<Rightarrow> ''HTTP error fetching '' | _ \<Rightarrow> ''Error fetching '') @ chamber_name @ '' page '' @ int_str page @
     '': '' @ fault_text e"

definition people_page :: "('n, 'r) host \<Rightarrow> request \<Rightarrow> ('n, 'r, json) act" where
  "people_page H rq = bnd (http H rq) (\<lambda>r. bnd (raise_for_status r) (\<lambda>_. json_body r))"

text \<open>The members of a chamber and the errors, page by page; the fuel bounds the pages.\<close>

fun chamber_pages ::
  "('n, 'r) host \<Rightarrow> (int \<Rightarrow> request) \<Rightarrow> string \<Rightarrow> nat \<Rightarrow> int \<Rightarrow> (string \<times> json) list \<Rightarrow>
   ('n, 'r, (string \<times> json) list \<times> string list) act" where
  "chamber_pages H rq chamber_name 0 page d = raise OutOfFuel"
| "chamber_pages H rq chamber_name (Suc fuel) page d =
     attempt (people_page H (rq page))
       (\<lambda>e. if e = OutOfFuel then raise e else ret (d, [page_error chamber_name page e])) (\<lambda>data.
       case results_of data of
         Inl e \<Rightarrow> ret (d, [page_error chamber_name page (Raised e)])
       | Inr [] \<Rightarrow> ret (d, [])
       | Inr people \<Rightarrow> (case add_members chamber_name people d of
             (d, Some e) \<Rightarrow> ret (d, [page_error chamber_name page (Raised e)])
           | (d, None) \<Rightarrow> (case max_page_of data of
                 Inl e \<Rightarrow> ret (d, [page_error chamber_name page (Raised e)])
               | Inr n \<Rightarrow>
                   if page \<ge> n then ret (d, [])
                   else bnd (sleep H (1 / 2)) (\<lambda>_. chamber_pages H rq chamber_name fuel (page + 1) d))))"

definition fetch_chamber_members ::
  "('n, 'r) host \<Rightarrow> nat \<Rightarrow> string \<Rightarrow> string \<Rightarrow> string \<Rightarrow> ('n, 'r, (string \<times> json) list \<times> string list) act" where
  "fetch_chamber_members H fuel base key chamber =
     chamber_pages H (people_request base key chamber) (if chamber = ''upper'' then ''Senate'' else ''House'') fuel 1 []"

record refresh_stats =
  rf_total :: nat
  rf_senate :: nat
  rf_house :: nat
  rf_variants :: nat
  rf_errors :: "string list"

text \<open>
  The object after it, the file that is written before the object changes, and the answer, or the exception that the
  index of the new names raises.
\<close>

definition refresh ::
  "('n, 'r) host \<Rightarrow> sync_settings \<Rightarrow> nat \<Rightarrow> federal_cache \<Rightarrow>
   ('n, 'r, federal_cache \<times> (string \<times> json) list option \<times> (py_error + (string + refresh_stats))) act" where
  "refresh H cfg fuel fc =
     (let (base, key, local_replica) = federal_route H cfg in
      if key = [] then ret (fc, None, Inr (Inl (if local_replica then ''Local OpenStates replica API key not configured''
        else ''OpenStates API key not configured'')))
      else bnd (fetch_chamber_members H fuel base key ''upper'') (\<lambda>(senate, e1).
           bnd (fetch_chamber_members H fuel base key ''lower'') (\<lambda>(house, e2).
           let people = dict_update (dict_update [] senate) house; (names, e) = build_name_index people [] in
           ret (\<lparr>fc_people = people, fc_names = names, fc_loaded = (case e of None \<Rightarrow> True | Some _ \<Rightarrow> fc_loaded fc)\<rparr>, Some people,
             case e of
               Some x \<Rightarrow> Inl x
             | None \<Rightarrow> Inr (Inr \<lparr>rf_total = length people, rf_senate = length senate, rf_house = length house,
                    rf_variants = length names, rf_errors = take 5 (e1 @ e2)\<rparr>)))))"

section \<open>Whom a name finds\<close>

text \<open>The normalised forms of the name of an entry.\<close>

definition entry_forms :: "json \<Rightarrow> string list" where
  "entry_forms info = (case bind_res (entry_name info) (\<lambda>name. bind_res (entry_party info) (\<lambda>party. bind_res (entry_state info) (\<lambda>state.
     Inr (generate_name_variants name party state)))) of Inl _ \<Rightarrow> [] | Inr vs \<Rightarrow> map normalized vs)"

definition owner_of :: "(string \<times> json) list \<Rightarrow> string \<Rightarrow> string option" where
  "owner_of people form = map_option fst (find (\<lambda>p. form \<in> set (entry_forms (snd p))) people)"

lemma map_of_add_variants:
  "map_of (add_variants person vs names) form =
    (case map_of names form of Some p \<Rightarrow> Some p
     | None \<Rightarrow> if form \<noteq> [] \<and> form \<in> set (map normalized vs) then Some person else None)"
proof (induction person vs names rule: add_variants.induct)
  case (2 person v vs names)
  have "normalized v \<in> fst ` set names \<longleftrightarrow> map_of names (normalized v) \<noteq> None" by (simp add: map_of_eq_None_iff)
  with 2 show ?case by (auto simp: map_add_def split: option.split)
qed (simp split: option.split)

lemma map_of_name_index:
  "build_name_index people names = (names', None) \<Longrightarrow> form \<noteq> [] \<Longrightarrow>
    map_of names' form = (case map_of names form of Some p \<Rightarrow> Some p | None \<Rightarrow> owner_of people form)"
proof (induction people names rule: build_name_index.induct)
  case (2 person info people names)
  then show ?case
    by (auto simp: map_of_add_variants owner_of_def entry_forms_def split: sum.splits option.splits)
qed (simp add: owner_of_def split: option.split)

text \<open>C29: Once the file is loaded, a voter is found under every form of the name of a member, in any case: the one found is the
  first member of the file that has this form, and a text that is no form of any member finds nobody.\<close>

theorem voter_found_by_form:
  assumes "ensure_loaded (Parsed data) new_cache = fc" "people_of data = Inr people" "snd (build_name_index people []) = None"
    and "normalized voter \<noteq> []"
  shows "lookup_person fc voter = owner_of people (normalized voter)"
  using assms by (auto simp: ensure_loaded_def new_cache_def lookup_person_def map_of_name_index split: prod.splits)

lemma voter_found_by_form_witness:
  "lookup_person (ensure_loaded (Parsed (JObj [(''legislators'', JObj
      [(''p1'', JObj [(''name'', JStr ''Rick Scott''), (''party'', JStr ''Republican''), (''state'', JStr ''FL'')]),
       (''p2'', JObj [(''name'', JStr ''Tim Scott''), (''party'', JStr ''Republican''), (''state'', JStr ''SC'')])])])) new_cache)
     '' scott (R-SC)'' = Some ''p2''"
proof -
  let ?people = "[(''p1'', JObj [(''name'', JStr ''Rick Scott''), (''party'', JStr ''Republican''), (''state'', JStr ''FL'')]),
       (''p2'', JObj [(''name'', JStr ''Tim Scott''), (''party'', JStr ''Republican''), (''state'', JStr ''SC'')])]"
  have "people_of (JObj [(''legislators'', JObj ?people)]) = Inr ?people" "snd (build_name_index ?people []) = None"
    "normalized '' scott (R-SC)'' \<noteq> []" "owner_of ?people (normalized '' scott (R-SC)'') = Some ''p2''"
    by code_simp+
  with voter_found_by_form[OF refl this(1,2,3)] show ?thesis by simp
qed

section \<open>A refresh while OpenStates does not answer\<close>

text \<open>A refresh during an outage answers with success and leaves nobody in the cache: the file and the object are overwritten
  with no members, whatever they held, and the errors are only listed in the answer.\<close>

lemma failed_refresh_empties_cache:
  assumes "\<forall>rq n. \<exists>e. fst (n_call (network H) rq n) = Inl e" "fst (snd (federal_route H cfg)) \<noteq> []"
  shows "\<exists>fc' r s'. refresh H cfg (Suc fuel) fc s = (Inr (fc', Some [], Inr (Inr r)), s') \<and> rf_total r = 0 \<and> length (rf_errors r) = 2 \<and>
    fc_loaded fc' \<and> (\<forall>voter. lookup_person fc' voter = None)"
proof -
  have "\<exists>m s'. chamber_pages H rq name (Suc fuel) 1 [] s = (Inr ([], [m]), s')" for rq name s
  proof -
    obtain e n where "n_call (network H) (rq 1) (net s) = (Inl e, n)" using assms(1) by (metis prod.collapse)
    then show ?thesis by (simp add: people_page_def acts http_def)
  qed
  then obtain m1 s1 m2 s2 where
    "fetch_chamber_members H (Suc fuel) (fst (federal_route H cfg)) (fst (snd (federal_route H cfg))) ''upper'' s = (Inr ([], [m1]), s1)"
    "fetch_chamber_members H (Suc fuel) (fst (federal_route H cfg)) (fst (snd (federal_route H cfg))) ''lower'' s1 = (Inr ([], [m2]), s2)"
    unfolding fetch_chamber_members_def by metis
  with assms(2) show ?thesis
    by (auto simp: refresh_def acts lookup_person_def split: prod.splits)
qed

definition silent_host :: "(script, unit) host" where
  "silent_host = (scripted_host default_settings)\<lparr>network := script_network\<lparr>n_call := (\<lambda>rq n. (Inl ''refused'', n))\<rparr>\<rparr>"

definition federal_settings :: sync_settings where
  "federal_settings = \<lparr>webflow_scheduler_api_key = [], webflow_votebot_api_key = [], webflow_bills_collection_id = [],
     webflow_legislators_collection_id = [], webflow_jurisdiction_collection_id = [],
     openstates_api_base = ''https://v3.openstates.org'', openstates_api_key = ''key'', rds_openstates_api_base = [],
     rds_openstates_api_key = [], ddp_openstates_jurisdictions = [], pdf_max_pages = 0\<rparr>"

lemma failed_refresh_empties_cache_witness:
  "\<exists>fc' r s'. refresh silent_host federal_settings 1
      \<lparr>fc_people = [(''p1'', JObj [])], fc_names = [(''scott'', ''p1'')], fc_loaded = True\<rparr> (scripted_site [] [])
    = (Inr (fc', Some [], Inr (Inr r)), s') \<and> lookup_person fc' ''Scott'' = None"
proof -
  have "\<forall>rq n. \<exists>e. fst (n_call (network silent_host) rq n) = Inl e" by (simp add: silent_host_def)
  moreover have "fst (snd (federal_route silent_host federal_settings)) \<noteq> []"
    by (simp add: federal_route_def bill_route_def federal_settings_def)
  ultimately show ?thesis using failed_refresh_empties_cache[of silent_host federal_settings 0] by fastforce
qed

end
