(* ===== verification/BillSync.thy ===== *)
theory BillSync
  imports Ingestion OpenStatesSource FederalCache
begin

text \<open>
  The synchronisation of bills with OpenStates (\<open>pipelines/bill_sync.py\<close>): the addresses of bills, the fetch of a bill
  with its retries, the rule for the current session, the document of the votes of a bill, and the two batches. The
  object keeps its limiter, its caches and its calendar. A Python set of codes is iterated in the order in which the codes
  were added. A callback that keeps a lock alive is an action.
\<close>

section \<open>The object\<close>

text \<open>What the object is made with: settings, the pipeline, the limits of the yaml, the clock, the file of the federal cache.\<close>

record ('n, 't) services =
  sync_conf :: sync_settings
  ingest :: "('n, 't) pipeline"
  limits :: rate_limit_config
  isodate :: "string \<Rightarrow> bool"
  today_of :: "'n \<Rightarrow> date"
  federal_file :: config_file

record sync_object =
  so_limiter :: limiter
  legislator_cache :: "(json \<times> json \<times> json) list"
  jurisdiction_cache :: "string \<rightharpoonup> jurisdiction_info"
  so_calendar :: calendar
  so_pipeline :: pipeline_state
  so_federal :: federal_cache

definition new_sync :: "('n, 't) services \<Rightarrow> federal_cache \<Rightarrow> sync_object" where
  "new_sync E federal = \<lparr>so_limiter = new_limiter (Some (limits E)), legislator_cache = [], jurisdiction_cache = Map.empty,
     so_calendar = new_calendar, so_pipeline = new_pipeline, so_federal = federal\<rparr>"

definition sync_turn :: "('n, 'r) host \<Rightarrow> ('n, 'r, sync_object, unit) meth" where
  "sync_turn H = on_part so_limiter (\<lambda>l st. st\<lparr>so_limiter := l\<rparr>) (wait_turn H)"

section \<open>Addresses\<close>

record openstates_url =
  ou_jurisdiction :: string
  ou_session :: string
  ou_bill :: string
  ou_original :: string

text \<open>A literal part of the pattern, in any case.\<close>

definition after_ci :: "string \<Rightarrow> string \<Rightarrow> string option" where
  "after_ci p s = (if length p \<le> length s \<and> lower (take (length p) s) = p then Some (drop (length p) s) else None)"

definition up_to_slash :: "string \<Rightarrow> string \<times> string" where
  "up_to_slash s = (takeWhile (\<lambda>c. c \<noteq> CHR ''/'') s, dropWhile (\<lambda>c. c \<noteq> CHR ''/'') s)"

definition after_host :: "string \<Rightarrow> string option" where
  "after_host s = (case (case after_ci ''https://'' s of None \<Rightarrow> after_ci ''http://'' s | Some t \<Rightarrow> Some t) of
     None \<Rightarrow> None | Some t \<Rightarrow> after_ci ''openstates.org/'' t)"

definition parse_openstates_url :: "string \<Rightarrow> openstates_url option" where
  "parse_openstates_url s =
     (case after_host s of
        None \<Rightarrow> None
      | Some t \<Rightarrow>
          if length t < 2 \<or> \<not> list_all is_letter (take 2 t) then None
          else (case after_ci ''/bills/'' (drop 2 t) of
              None \<Rightarrow> None
            | Some u \<Rightarrow>
                let (session, rest) = up_to_slash u in
                if session = [] \<or> rest = [] then None
                else let (bill, _) = up_to_slash (tl rest) in
                  if bill = [] then None
                  else Some \<lparr>ou_jurisdiction = lower (take 2 t), ou_session = session, ou_bill = bill, ou_original = s\<rparr>))"

text \<open>An address that is no text cannot be matched.\<close>

definition parse_url :: "json \<Rightarrow> openstates_url option res" where
  "parse_url v = (if \<not> truthy v then Inr None else case v of JStr s \<Rightarrow> Inr (parse_openstates_url s) | _ \<Rightarrow> Inl TypeError)"

definition JURISDICTION_MAP :: "(string \<times> string) list" where
  "JURISDICTION_MAP = [(''655288ef928edb128306745f'', ''fl''), (''65810f6b889af86635a71b49'', ''us''),
     (''691294466973f77ba7924c9b'', ''wa''), (''6912910d68fa6adb1b2b630f'', ''va''), (''6912929f5ec63fd925b99c10'', ''mi''),
     (''6912928fd6eec8ac6bccb2c8'', ''ma''), (''69129425a577496525c8e52a'', ''ut''), (''6912916752bfa901425f1e76'', ''az''),
     (''69129146d6eec8ac6bcc8280'', ''al'')]"

definition mapped_code :: "json \<Rightarrow> string option res" where
  "mapped_code i = bind_res (json_key i) (\<lambda>k. Inr (case k of JStr s \<Rightarrow> map_of JURISDICTION_MAP s | _ \<Rightarrow> None))"

definition resolve_jurisdiction_code :: "json \<Rightarrow> json \<Rightarrow> string res" where
  "resolve_jurisdiction_code jurisdiction_id openstates_url =
     bind_res (mapped_code jurisdiction_id) (\<lambda>m. case m of
         Some code \<Rightarrow> Inr (upper code)
       | None \<Rightarrow> bind_res (parse_url openstates_url) (\<lambda>p.
           Inr (case p of None \<Rightarrow> [] | Some u \<Rightarrow> upper (ou_jurisdiction u))))"

section \<open>Legislators\<close>

text \<open>The entries so far are kept when an item raises.\<close>

fun add_legislators :: "json list \<Rightarrow> (json \<times> json \<times> json) list \<Rightarrow> (json \<times> json \<times> json) list \<times> py_error option" where
  "add_legislators [] m = (m, None)"
| "add_legislators (item # items) m =
     (case bind_res (attr_get item ''fieldData'' (JObj [])) (\<lambda>f. bind_res (attr_get f ''openstatesid'' (JStr [])) (\<lambda>i.
         bind_res (attr_get f ''name'' (JStr [])) (\<lambda>name. bind_res (attr_get f ''slug'' (JStr [])) (\<lambda>slug.
         if truthy i \<and> truthy slug then bind_res (json_key i) (\<lambda>k. Inr (Some (k, name, slug))) else Inr None)))) of
        Inl e \<Rightarrow> (m, Some e)
      | Inr None \<Rightarrow> add_legislators items m
      | Inr (Some (k, name, slug)) \<Rightarrow> add_legislators items (dict_set k (name, slug) m))"

definition legislators_request :: "sync_settings \<Rightarrow> int \<Rightarrow> request" where
  "legislators_request cfg from_item =
     \<lparr>req_method = GET, req_url = ''https://api.webflow.com/v2/collections/'' @ webflow_legislators_collection_id cfg @ ''/items'',
      req_headers = [(''Authorization'', ''Bearer '' @ webflow_votebot_api_key cfg), (''accept'', ''application/json'')],
      req_params = [(''limit'', ''100''), (''offset'', int_str from_item)], req_body = None\<rparr>"

definition given_items :: "json \<Rightarrow> json list res" where
  "given_items data = bind_res (attr_get data ''items'' (JArr [])) (\<lambda>v. if truthy v then json_iter v else Inr [])"

definition given_total :: "json \<Rightarrow> int res" where
  "given_total data = bind_res (attr_get data ''pagination'' (JObj [])) (\<lambda>p. bind_res (attr_get p ''total'' (JInt 0)) json_number)"

text \<open>The cache after the pages; whatever raises ends them. The fuel bounds the pages.\<close>

fun legislator_mapping_pages ::
  "('n, 'r) host \<Rightarrow> sync_settings \<Rightarrow> nat \<Rightarrow> int \<Rightarrow> (json \<times> json \<times> json) list \<Rightarrow> ('n, 'r, (json \<times> json \<times> json) list) act" where
  "legislator_mapping_pages H cfg 0 from_item m = raise OutOfFuel"
| "legislator_mapping_pages H cfg (Suc fuel) from_item m =
     attempt (people_page H (legislators_request cfg from_item)) (\<lambda>e. if e = OutOfFuel then raise e else ret m) (\<lambda>data.
       case given_items data of
         Inl _ \<Rightarrow> ret m
       | Inr [] \<Rightarrow> ret m
       | Inr items \<Rightarrow> (case add_legislators items m of
             (m, Some _) \<Rightarrow> ret m
           | (m, None) \<Rightarrow> (case given_total data of
                 Inl _ \<Rightarrow> ret m
               | Inr n \<Rightarrow>
                   if int (length m) \<ge> n \<or> length items < 100 then ret m
                   else legislator_mapping_pages H cfg fuel (from_item + 100) m)))"

definition build_legislator_mapping ::
  "('n, 'r) host \<Rightarrow> ('n, 't) services \<Rightarrow> nat \<Rightarrow> ('n, 'r, sync_object, unit) meth" where
  "build_legislator_mapping H E fuel =
     mbind (mget legislator_cache) (\<lambda>m.
       if m \<noteq> [] \<or> webflow_legislators_collection_id (sync_conf E) = [] \<or> webflow_votebot_api_key (sync_conf E) = [] then mret ()
       else mbind (outer (legislator_mapping_pages H (sync_conf E) fuel 0 [])) (\<lambda>m.
         mput (\<lambda>st. st\<lparr>legislator_cache := m\<rparr>)))"

definition legislator_link :: "(json \<times> json \<times> json) list \<Rightarrow> json \<Rightarrow> string \<Rightarrow> string option" where
  "legislator_link m person name =
     (if \<not> truthy person then None
      else case map_of m person of
          Some (_, slug) \<Rightarrow> if truthy slug
            then Some (''['' @ name @ ''](https://digitaldemocracyproject.org/legislators/'' @ json_str slug @ '')'') else None
        | None \<Rightarrow> None)"

definition format_sponsor_with_link :: "(json \<times> json \<times> json) list \<Rightarrow> (string \<times> json) list \<Rightarrow> json" where
  "format_sponsor_with_link m sponsorship =
     (let name = (case map_of sponsorship ''name'' of None \<Rightarrow> JStr ''Unknown'' | Some v \<Rightarrow> v) in
      case dict_get sponsorship ''person'' of
        JObj p \<Rightarrow> (case legislator_link m (dict_get p ''id'') (json_str name) of None \<Rightarrow> name | Some s \<Rightarrow> JStr s)
      | _ \<Rightarrow> name)"

definition format_voter_with_link :: "(json \<times> json \<times> json) list \<Rightarrow> string \<Rightarrow> string \<Rightarrow> string" where
  "format_voter_with_link m legislator_id name =
     (case legislator_link m (JStr legislator_id) name of None \<Rightarrow> name | Some s \<Rightarrow> s)"

section \<open>Fetching a bill\<close>

definition BILL_INCLUDES :: "string list" where
  "BILL_INCLUDES = [''sponsorships'', ''abstracts'', ''other_titles'', ''other_identifiers'', ''actions'', ''sources'',
     ''documents'', ''versions'', ''votes'', ''related_bills'']"

definition bill_request :: "('n, 'r) host \<Rightarrow> sync_settings \<Rightarrow> string \<Rightarrow> string \<Rightarrow> string \<Rightarrow> request" where
  "bill_request H cfg code session bill =
     (let (base, key, _) = bill_route H cfg code in
      \<lparr>req_method = GET, req_url = base @ ''/bills/'' @ code @ ''/'' @ session @ ''/'' @ filter (\<lambda>c. c \<noteq> CHR '' '') bill,
       req_headers = [(''accept'', ''application/json'')] @ (if key = [] then [] else [(''x-api-key'', key)]),
       req_params = map (\<lambda>p. (''include'', p)) BILL_INCLUDES, req_body = None\<rparr>)"

definition bill_backoff :: "rate_limit_config \<Rightarrow> nat \<Rightarrow> rat" where
  "bill_backoff L attempt_no = of_int (retry_backoff_seconds L) * 2 ^ attempt_no"

text \<open>The document, or nothing. A 429 without a usable pause, another error and a body that is no JSON end the attempts.\<close>

fun bill_attempts ::
  "('n, 'r) host \<Rightarrow> rate_limit_config \<Rightarrow> request \<Rightarrow> nat \<Rightarrow> nat \<Rightarrow> ('n, 'r, sync_object, json option) meth" where
  "bill_attempts H L rq a 0 = mret None"
| "bill_attempts H L rq a (Suc left) =
     mbind (sync_turn H) (\<lambda>_.
     mtry (outer (http H rq))
       (\<lambda>e. case e of
           RequestError m \<Rightarrow>
             if n_timeout (network H) m
             then mbind (outer (sleep H (bill_backoff L a))) (\<lambda>_. bill_attempts H L rq (Suc a) left)
             else mret None
         | _ \<Rightarrow> mret None)
       (\<lambda>r.
         if status_code r = 404 then mret None
         else if status_code r = 429 then
           (case (case header r ''retry-after'' of None \<Rightarrow> Inr (retry_backoff_seconds L) | Some s \<Rightarrow> int_of_text s) of
              Inl _ \<Rightarrow> mret None
            | Inr n \<Rightarrow> mbind (outer (sleep H (of_int n * 2 ^ a))) (\<lambda>_. bill_attempts H L rq (Suc a) left))
         else if status_code r \<ge> 500
         then mbind (outer (sleep H (bill_backoff L a))) (\<lambda>_. bill_attempts H L rq (Suc a) left)
         else if \<not> is_success r then mret None
         else mret (body_json r)))"

definition fetch_bill_from_openstates ::
  "('n, 'r) host \<Rightarrow> ('n, 't) services \<Rightarrow> string \<Rightarrow> string \<Rightarrow> string \<Rightarrow> ('n, 'r, sync_object, json option) meth" where
  "fetch_bill_from_openstates H E code session bill =
     bill_attempts H (limits E) (bill_request H (sync_conf E) code session bill) 0 (nat (max_retry_attempts (limits E)))"

section \<open>Sessions\<close>

definition get_jurisdiction_info ::
  "('n, 'r) host \<Rightarrow> ('n, 't) services \<Rightarrow> string \<Rightarrow> ('n, 'r, sync_object, jurisdiction_info option) meth" where
  "get_jurisdiction_info H E code =
     mbind (mget (\<lambda>st. jurisdiction_cache st (lower code))) (\<lambda>known. case known of
         Some info \<Rightarrow> mret (Some info)
       | None \<Rightarrow> mbind (outer (fetch_jurisdiction H (sync_conf E) (isodate E) (lower code) 3)) (\<lambda>info. case info of
             None \<Rightarrow> mret None
           | Some i \<Rightarrow> mbind (mput (\<lambda>st. st\<lparr>jurisdiction_cache := (jurisdiction_cache st)(lower code \<mapsto> i)\<rparr>)) (\<lambda>_. mret (Some i))))"

definition session_matches :: "string \<Rightarrow> json \<Rightarrow> leg_session \<Rightarrow> bool" where
  "session_matches session_year session_code s =
     (let i = session_identifier s in
      (truthy session_code \<and> session_code = JStr i) \<or>
      (session_year \<noteq> [] \<and> session_year = i) \<or> (session_year \<noteq> [] \<and> contains i session_year))"

definition is_current_session ::
  "('n, 'r) host \<Rightarrow> ('n, 't) services \<Rightarrow> string \<Rightarrow> json \<Rightarrow> string \<Rightarrow> ('n, 'r, sync_object, bool) meth" where
  "is_current_session H E session_year session_code code =
     mbind (get_jurisdiction_info H E code) (\<lambda>info. mret (case info of
         None \<Rightarrow> False
       | Some i \<Rightarrow> flags_published i \<and> list_ex (session_matches session_year session_code) (current_sessions i)))"

text \<open>Federal always; a state in session, or unknown to the calendar, or on a Monday.\<close>

definition should_sync_jurisdiction :: "('n, 't) services \<Rightarrow> string \<Rightarrow> ('n, 'r, sync_object, bool) meth" where
  "should_sync_jurisdiction E code =
     mbind (outer (current (\<lambda>s. today_of E (net s)))) (\<lambda>today.
     mbind (mget so_calendar) (\<lambda>cal.
       if upper code = ''US'' then mret True
       else case is_in_session cal code today False of
           Inr True \<Rightarrow> mret True
         | Inr False \<Rightarrow> mret (weekday today = 0)
         | Inl (ValueError _) \<Rightarrow> mret True
         | Inl e \<Rightarrow> mraise (Raised e)))"

end
