(* ===== verification/WebflowLookup.thy ===== *)
theory WebflowLookup
  imports Methods
begin

text \<open>
  The write service of the content management service (\<open>services/webflow_lookup.py\<close>): the PATCH and POST with three
  attempts on 429, the cached schema of a collection, the cached mapping of jurisdictions, the reads of the
  legislators, and the two contracts: a bill update answers whether it succeeded, a legislator update raises.
  The object keeps its limiter and its two caches; one coroutine at a time refreshes the mapping.
\<close>

section \<open>The object\<close>

record lookup =
  lookup_limiter :: limiter
  field_slug_cache :: "string \<rightharpoonup> rat \<times> json list"
  jurisdiction_mapping :: "(rat \<times> (json \<times> string) list) option"

definition DEFAULT_MAX_REQUESTS_PER_MINUTE :: int where "DEFAULT_MAX_REQUESTS_PER_MINUTE = 60"

definition lookup_config :: "int \<Rightarrow> rate_limit_config" where
  "lookup_config max_requests_per_minute = default_config
     \<lparr>requests_per_minute := max_requests_per_minute, delay_between_requests_ms := 0\<rparr>"

definition new_lookup :: "int \<Rightarrow> lookup" where
  "new_lookup max_requests_per_minute = \<lparr>lookup_limiter = new_limiter (Some (lookup_config max_requests_per_minute)),
     field_slug_cache = Map.empty, jurisdiction_mapping = None\<rparr>"

definition lookup_turn :: "('n, 'r) host \<Rightarrow> ('n, 'r, lookup, unit) meth" where
  "lookup_turn H = on_part lookup_limiter (\<lambda>l st. st\<lparr>lookup_limiter := l\<rparr>) (wait_turn H)"

definition lookup_key :: "sync_settings \<Rightarrow> string" where
  "lookup_key cfg = first_set (webflow_scheduler_api_key cfg) (webflow_votebot_api_key cfg)"

definition SCHEMA_CACHE_TTL_SECONDS :: rat where "SCHEMA_CACHE_TTL_SECONDS = 60 * 60"
definition JURISDICTION_CACHE_TTL_SECONDS :: rat where "JURISDICTION_CACHE_TTL_SECONDS = 60 * 60"

definition WEBFLOW_URL :: string where "WEBFLOW_URL = ''https://api.webflow.com/v2''"

text \<open>The message of a \<open>WebflowError\<close> with its response.\<close>

definition with_body :: "string \<Rightarrow> response \<Rightarrow> string" where
  "with_body message r = (let detail = take 500 (body_text r) in
     if detail = [] then message else message @ '' body='' @ repr_str detail)"

section \<open>Sending\<close>

definition write_headers :: "string \<Rightarrow> (string \<times> string) list" where
  "write_headers key = [(''Authorization'', ''Bearer '' @ key), (''accept'', ''application/json''), (''content-type'', ''application/json'')]"

definition read_headers :: "string \<Rightarrow> (string \<times> string) list" where
  "read_headers key = [(''Authorization'', ''Bearer '' @ key), (''accept'', ''application/json'')]"

definition webflow_write :: "http_method \<Rightarrow> string \<Rightarrow> string \<Rightarrow> json \<Rightarrow> request" where
  "webflow_write method url key payload =
     \<lparr>req_method = method, req_url = url, req_headers = write_headers key, req_params = [], req_body = Some payload\<rparr>"

definition jitter :: "('n, 'r) host \<Rightarrow> ('n, 'r, rat) act" where
  "jitter H s = (let (x, n) = n_random (network H) 0 (1 / 2) (net s) in (Inr x, s\<lparr>net := n\<rparr>))"

definition backoff_seconds :: "response \<Rightarrow> nat \<Rightarrow> rat res" where
  "backoff_seconds r attempt_no =
     (case header r ''retry-after'' of None \<Rightarrow> Inr (2 ^ attempt_no) | Some s \<Rightarrow> float_of_text s)"

fun send_loop :: "('n, 'r) host \<Rightarrow> request \<Rightarrow> nat \<Rightarrow> nat \<Rightarrow> string \<Rightarrow> ('n, 'r, lookup, response) meth" where
  "send_loop H rq a 0 gave_up_text = mraise (WebflowRateLimitError gave_up_text)"
| "send_loop H rq a (Suc left) gave_up_text =
     mbind (lookup_turn H) (\<lambda>_.
     mbind (outer (http H rq)) (\<lambda>r.
       if status_code r \<noteq> 429 then mret r
       else mbind (mres (backoff_seconds r a)) (\<lambda>wait.
            mbind (outer (jitter H)) (\<lambda>extra_wait.
            mbind (outer (sleep H (wait + extra_wait))) (\<lambda>_.
              send_loop H rq (Suc a) left
                (with_body (''Webflow returned 429 after 3 retries: '' @
                   (case req_method rq of PATCH \<Rightarrow> ''PATCH'' | _ \<Rightarrow> ''POST'') @ '' '' @ req_url rq) r))))))"

definition send_with_backoff :: "('n, 'r) host \<Rightarrow> request \<Rightarrow> ('n, 'r, lookup, response) meth" where
  "send_with_backoff H rq = send_loop H rq 0 3 []"

section \<open>The schema of a collection\<close>

fun slugs_of :: "json list \<Rightarrow> json list res" where
  "slugs_of [] = Inr []"
| "slugs_of (f # fs) =
     bind_res (attr_get f ''slug'' JNull) (\<lambda>s. bind_res (if truthy s then json_key s else Inr s) (\<lambda>k.
       bind_res (slugs_of fs) (\<lambda>rest. Inr (if truthy s then k # rest else rest))))"

definition schema_slugs :: "json \<Rightarrow> json list res" where
  "schema_slugs data = bind_res (attr_get data ''fields'' (JArr [])) (\<lambda>l. bind_res (json_iter l) slugs_of)"

definition webflow_get :: "string \<Rightarrow> string \<Rightarrow> (string \<times> string) list \<Rightarrow> request" where
  "webflow_get url key params = \<lparr>req_method = GET, req_url = url, req_headers = read_headers key, req_params = params, req_body = None\<rparr>"

definition keep_schema :: "('n, 'r) host \<Rightarrow> string \<Rightarrow> json list \<Rightarrow> ('n, 'r, lookup, json list) meth" where
  "keep_schema H collection_id slugs =
     mbind (outer (now H)) (\<lambda>t.
     mbind (mput (\<lambda>st. st\<lparr>field_slug_cache := (field_slug_cache st)(collection_id \<mapsto> (t, slugs))\<rparr>)) (\<lambda>_. mret slugs))"

definition fresh_schema :: "('n, 'r) host \<Rightarrow> (string \<times> string) list \<Rightarrow> string \<Rightarrow> (rat \<times> json list) option \<Rightarrow> ('n, 'r, lookup, json list) meth" where
  "fresh_schema H headers collection_id cached =
     mbind (lookup_turn H) (\<lambda>_.
     mtry (outer (http H \<lparr>req_method = GET, req_url = WEBFLOW_URL @ ''/collections/'' @ collection_id, req_headers = headers,
         req_params = [], req_body = None\<rparr>))
       (\<lambda>e. case e of
           RequestError m \<Rightarrow> (case cached of
               Some (t, slugs) \<Rightarrow> mret slugs
             | None \<Rightarrow> mraise (WebflowError (''Failed to fetch collection schema (no cache available): '' @ collection_id @ '' - '' @ m)))
         | _ \<Rightarrow> mraise e)
       (\<lambda>r. if status_code r \<noteq> 200
          then (case cached of
              Some (t, slugs) \<Rightarrow> mret slugs
            | None \<Rightarrow> mraise (WebflowError (with_body (''Failed to fetch collection schema: '' @ collection_id) r)))
          else mbind (outer (json_body r)) (\<lambda>data. mbind (mres (schema_slugs data)) (keep_schema H collection_id))))"

definition get_field_slugs :: "('n, 'r) host \<Rightarrow> (string \<times> string) list \<Rightarrow> string \<Rightarrow> ('n, 'r, lookup, json list) meth" where
  "get_field_slugs H headers collection_id =
     mbind (mget (\<lambda>st. field_slug_cache st collection_id)) (\<lambda>cached. case cached of
         None \<Rightarrow> fresh_schema H headers collection_id None
       | Some (t, slugs) \<Rightarrow> mbind (outer (now H)) (\<lambda>current_time.
           if current_time - t < SCHEMA_CACHE_TTL_SECONDS then mret slugs
           else fresh_schema H headers collection_id (Some (t, slugs))))"

definition filter_known_fields :: "(string \<times> json) list \<Rightarrow> json list \<Rightarrow> (string \<times> json) list \<times> string list" where
  "filter_known_fields field_data known =
     (let kept = filter (\<lambda>p. JStr (fst p) \<in> set known) field_data in
      (kept, filter (\<lambda>k. k \<notin> fst ` set kept) (map fst field_data)))"

definition partition_payload ::
  "('n, 'r) host \<Rightarrow> (string \<times> string) list \<Rightarrow> (string \<times> json) list \<Rightarrow> string \<Rightarrow>
   ('n, 'r, lookup, (string \<times> json) list \<times> string list) meth" where
  "partition_payload H headers field_data collection_id =
     mbind (get_field_slugs H headers collection_id) (\<lambda>known. mret (filter_known_fields field_data known))"

section \<open>Bills\<close>

definition bill_url :: "sync_settings \<Rightarrow> string \<Rightarrow> string" where
  "bill_url cfg webflow_id =
     WEBFLOW_URL @ ''/collections/'' @ webflow_bills_collection_id cfg @ ''/items/'' @ webflow_id @ ''/live''"

definition bill_patch :: "sync_settings \<Rightarrow> string \<Rightarrow> (string \<times> json) list \<Rightarrow> string \<Rightarrow> request" where
  "bill_patch cfg webflow_id field_data api_key =
     webflow_write PATCH (bill_url cfg webflow_id) (first_set api_key (lookup_key cfg)) (JObj [(''fieldData'', JObj field_data)])"

text \<open>The answer is whether the update succeeded; nothing is raised.\<close>

definition update_bill_fields ::
  "('n, 'r) host \<Rightarrow> sync_settings \<Rightarrow> string \<Rightarrow> (string \<times> json) list \<Rightarrow> string \<Rightarrow> ('n, 'r, lookup, bool) meth" where
  "update_bill_fields H cfg webflow_id field_data api_key =
     (if webflow_id = [] \<or> field_data = [] then mret False
      else mtry (send_with_backoff H (bill_patch cfg webflow_id field_data api_key))
        (\<lambda>_. mret False) (\<lambda>r. mret (200 \<le> status_code r \<and> status_code r < 300)))"

definition update_bill_gov_url ::
  "('n, 'r) host \<Rightarrow> sync_settings \<Rightarrow> string \<Rightarrow> string \<Rightarrow> string \<Rightarrow> ('n, 'r, lookup, bool) meth" where
  "update_bill_gov_url H cfg webflow_id new_url api_key =
     (if new_url = [] then mret False
      else update_bill_fields H cfg webflow_id [(''gov-url'', JStr new_url)] api_key)"

section \<open>Legislators\<close>

record patch_result =
  patch_success :: bool
  patch_id :: string
  dropped_fields :: "string list"
  patch_status :: int

definition patched :: "string \<Rightarrow> string list \<Rightarrow> int \<Rightarrow> patch_result" where
  "patched i dropped n = \<lparr>patch_success = True, patch_id = i, dropped_fields = dropped, patch_status = n\<rparr>"

definition strict_schema_text :: "string list \<Rightarrow> string" where
  "strict_schema_text dropped = ''strict_schema: payload fields not in live CMS collection schema: '' @
     json_repr (JArr (map JStr dropped)) @ ''. Add the field(s) in the Webflow Designer + publish the site, then re-run.''"

definition legislator_url :: "sync_settings \<Rightarrow> string" where
  "legislator_url cfg = WEBFLOW_URL @ ''/collections/'' @ webflow_legislators_collection_id cfg @ ''/items''"

text \<open>\<open>order_names\<close> sorts the names of the dropped fields (\<open>sorted\<close>).\<close>

definition order_names :: "string list \<Rightarrow> string list" where
  "order_names names = sort_key (map ord_of) (remdups names)"

definition update_legislator_fields ::
  "('n, 'r) host \<Rightarrow> sync_settings \<Rightarrow> string \<Rightarrow> (string \<times> json) list \<Rightarrow> bool \<Rightarrow> string \<Rightarrow> bool \<Rightarrow> ('n, 'r, lookup, patch_result) meth" where
  "update_legislator_fields H cfg webflow_id field_data publish_live api_key strict_schema =
     (if webflow_legislators_collection_id cfg = [] then mraise (WebflowError ''legislators_collection_id is not configured'')
      else if webflow_id = [] then mraise (WebflowError ''webflow_id is required'')
      else if field_data = [] then mret (patched webflow_id [] 200)
      else let key = first_set api_key (lookup_key cfg) in
        if key = [] then mraise (WebflowError ''No Webflow API key available'')
        else mbind (partition_payload H (write_headers key) field_data (webflow_legislators_collection_id cfg)) (\<lambda>(kept, dropped).
          if dropped \<noteq> [] \<and> strict_schema then mraise (WebflowError (strict_schema_text (order_names dropped)))
          else if kept = [] then mret (patched webflow_id dropped 200)
          else mbind (send_with_backoff H (webflow_write PATCH
                 (legislator_url cfg @ ''/'' @ webflow_id @ (if publish_live then ''/live'' else [])) key
                 (JObj [(''fieldData'', JObj kept)]))) (\<lambda>r.
            if is_success r then mret (patched webflow_id dropped (status_code r))
            else mraise (WebflowError (with_body (''Webflow PATCH failed: status='' @ int_str (status_code r)) r)))))"

definition created_id :: "json \<Rightarrow> json res" where
  "created_id data = bind_res (attr_get data ''id'' JNull) (\<lambda>i.
     if truthy i then Inr i else attr_get data ''_id'' JNull)"

definition create_legislator_draft ::
  "('n, 'r) host \<Rightarrow> sync_settings \<Rightarrow> (string \<times> json) list \<Rightarrow> string \<Rightarrow> ('n, 'r, lookup, json \<times> string list \<times> int) meth" where
  "create_legislator_draft H cfg field_data api_key =
     (if webflow_legislators_collection_id cfg = [] then mraise (WebflowError ''legislators_collection_id is not configured'')
      else if field_data = [] then mraise (WebflowError ''field_data is required to create a draft'')
      else let key = first_set api_key (lookup_key cfg) in
        if key = [] then mraise (WebflowError ''No Webflow API key available'')
        else mbind (partition_payload H (write_headers key) field_data (webflow_legislators_collection_id cfg)) (\<lambda>(kept, dropped).
          mbind (send_with_backoff H (webflow_write POST (legislator_url cfg) key
              (JObj [(''isDraft'', JBool True), (''fieldData'', JObj kept)]))) (\<lambda>r.
            if is_success r
            then mbind (outer (json_body r)) (\<lambda>data. mbind (mres (created_id data)) (\<lambda>i.
              if truthy i then mret (i, dropped, status_code r)
              else mraise (WebflowError (with_body ''Webflow create returned 2xx but no item id'' r))))
            else mraise (WebflowError (with_body (''Webflow create failed: status='' @ int_str (status_code r)) r)))))"

section \<open>Reading the legislators\<close>

definition page_params :: "int \<Rightarrow> int \<Rightarrow> (string \<times> string) list" where
  "page_params per_page from_item = [(''limit'', int_str per_page), (''offset'', int_str from_item)]"

definition page_total :: "json \<Rightarrow> json res" where
  "page_total data = bind_res (attr_get data ''pagination'' JNull) (\<lambda>p.
     if truthy p then attr_get p ''total'' (JInt 0) else Inr (JInt 0))"

definition items_of :: "json \<Rightarrow> json list res" where
  "items_of data = bind_res (attr_get data ''items'' JNull) (\<lambda>v. if truthy v then json_iter v else Inr [])"

definition legislator_page :: "('n, 'r) host \<Rightarrow> request \<Rightarrow> ('n, 'r, lookup, json list \<times> json) meth" where
  "legislator_page H rq =
     mbind (lookup_turn H) (\<lambda>_.
     mbind (outer (http H rq)) (\<lambda>r.
       if status_code r \<noteq> 200
       then mraise (WebflowError (with_body (''Webflow legislator read failed: status='' @ int_str (status_code r)) r))
       else mbind (outer (json_body r)) (\<lambda>data. mbind (mres (items_of data)) (\<lambda>items. mret (items, data)))))"

text \<open>The items that the generator yields, page by page and at most \<open>pages\<close> pages, and the exception it ends with.\<close>

fun legislator_pages ::
  "('n, 'r) host \<Rightarrow> request \<Rightarrow> int \<Rightarrow> nat \<Rightarrow> int \<Rightarrow> json list \<Rightarrow> ('n, 'r, lookup, json list \<times> fault option) meth" where
  "legislator_pages H rq per_page 0 from_item acc = mret (acc, None)"
| "legislator_pages H rq per_page (Suc pages) from_item acc =
     mtry (legislator_page H (rq\<lparr>req_params := page_params per_page from_item\<rparr>)) (\<lambda>e. mret (acc, Some e)) (\<lambda>(items, data).
       if items = [] then mret (acc, None)
       else (case bind_res (page_total data) json_number of
           Inl e \<Rightarrow> mret (acc @ items, Some (Raised e))
         | Inr count \<Rightarrow>
             let next_item = from_item + int (length items) in
             if next_item \<ge> count \<or> int (length items) < per_page then mret (acc @ items, None)
             else legislator_pages H rq per_page pages next_item (acc @ items)))"

definition iter_legislator_items ::
  "('n, 'r) host \<Rightarrow> sync_settings \<Rightarrow> int \<Rightarrow> nat \<Rightarrow> ('n, 'r, lookup, json list \<times> fault option) meth" where
  "iter_legislator_items H cfg per_page max_pages =
     (if webflow_legislators_collection_id cfg = [] then mraise (WebflowError ''legislators_collection_id is not configured'')
      else let key = first_set (webflow_votebot_api_key cfg) (webflow_scheduler_api_key cfg) in
        if key = [] then mraise (WebflowError ''No Webflow API key available'')
        else legislator_pages H (webflow_get (legislator_url cfg) key []) per_page max_pages 0 [])"

section \<open>Jurisdictions\<close>

definition normalize_state_code :: "json \<Rightarrow> string option" where
  "normalize_state_code v =
     (case v of
        JStr s \<Rightarrow> (let cleaned = upper (strip s) in
          if length cleaned = 2 \<and> list_all is_letter cleaned then Some cleaned else None)
      | _ \<Rightarrow> None)"

fun resolve_jurisdiction_ref :: "json \<Rightarrow> (json \<times> string) list \<Rightarrow> string option" where
  "resolve_jurisdiction_ref (JArr []) mapping = None"
| "resolve_jurisdiction_ref (JArr (r # rs)) mapping =
     (case resolve_jurisdiction_ref r mapping of Some c \<Rightarrow> Some c | None \<Rightarrow> resolve_jurisdiction_ref (JArr rs) mapping)"
| "resolve_jurisdiction_ref (JStr s) mapping =
     (if s = [] then None
      else case normalize_state_code (JStr s) of
          Some c \<Rightarrow> if c \<noteq> ''US'' then Some c else
            (case map_of mapping (JStr s) of None \<Rightarrow> None | Some m \<Rightarrow>
              (case normalize_state_code (JStr m) of Some d \<Rightarrow> if d = ''US'' then None else Some d | None \<Rightarrow> None))
        | None \<Rightarrow> (case map_of mapping (JStr s) of None \<Rightarrow> None | Some m \<Rightarrow>
              (case normalize_state_code (JStr m) of Some d \<Rightarrow> if d = ''US'' then None else Some d | None \<Rightarrow> None)))"
| "resolve_jurisdiction_ref _ mapping = None"

text \<open>The first two characters of \<open>name or ""\<close>.\<close>

definition name_start :: "json \<Rightarrow> json res" where
  "name_start v =
     (if \<not> truthy v then Inr (JStr [])
      else case v of JStr s \<Rightarrow> Inr (JStr (take 2 s)) | JArr xs \<Rightarrow> Inr (JArr (take 2 xs)) | JObj _ \<Rightarrow> Inl TypeError | _ \<Rightarrow> Inl TypeError)"

definition first_code :: "json \<Rightarrow> json res" where
  "first_code data =
     bind_res (attr_get data ''state-code'' JNull) (\<lambda>a. if truthy a then Inr a else
     bind_res (attr_get data ''code'' JNull) (\<lambda>b. if truthy b then Inr b else
     bind_res (attr_get data ''abbreviation'' JNull) (\<lambda>c. if truthy c then Inr c else
     bind_res (attr_get data ''name'' JNull) name_start)))"

text \<open>The mapping so far is kept when an item raises.\<close>

fun add_jurisdictions :: "json list \<Rightarrow> (json \<times> string) list \<Rightarrow> (json \<times> string) list \<times> py_error option" where
  "add_jurisdictions [] m = (m, None)"
| "add_jurisdictions (item # items) m =
     (case bind_res (attr_get item ''id'' JNull) (\<lambda>i. bind_res (attr_get item ''fieldData'' JNull) (\<lambda>f.
         bind_res (first_code (or_empty f)) (\<lambda>c.
           case (truthy i, normalize_state_code c) of
             (True, Some code) \<Rightarrow> bind_res (json_key i) (\<lambda>k. Inr (Some (k, code))) | _ \<Rightarrow> Inr None))) of
        Inl e \<Rightarrow> (m, Some e)
      | Inr None \<Rightarrow> add_jurisdictions items m
      | Inr (Some (i, code)) \<Rightarrow> add_jurisdictions items (dict_set i code m))"

fun jurisdiction_pages ::
  "('n, 'r) host \<Rightarrow> request \<Rightarrow> nat \<Rightarrow> int \<Rightarrow> (json \<times> string) list \<Rightarrow> ('n, 'r, lookup, (json \<times> string) list) meth" where
  "jurisdiction_pages H rq 0 from_item m = mret m"
| "jurisdiction_pages H rq (Suc pages) from_item m =
     mtry (mbind (lookup_turn H) (\<lambda>_. outer (http H (rq\<lparr>req_params := page_params 100 from_item\<rparr>)))) (\<lambda>_. mret m) (\<lambda>r.
       if status_code r \<noteq> 200 then mret m
       else (case body_json r of
           None \<Rightarrow> mret m
         | Some data \<Rightarrow> (case items_of data of
               Inl _ \<Rightarrow> mret m
             | Inr [] \<Rightarrow> mret m
             | Inr items \<Rightarrow> (case add_jurisdictions items m of
                   (m, Some _) \<Rightarrow> mret m
                 | (m, None) \<Rightarrow> (case bind_res (page_total data) json_number of
                       Inl _ \<Rightarrow> mret m
                     | Inr count \<Rightarrow>
                         let next_item = from_item + int (length items) in
                         if next_item \<ge> count \<or> length items < 100 then mret m
                         else jurisdiction_pages H rq pages next_item m)))))"

definition fetch_jurisdiction_mapping_fresh ::
  "('n, 'r) host \<Rightarrow> sync_settings \<Rightarrow> ('n, 'r, lookup, (json \<times> string) list) meth" where
  "fetch_jurisdiction_mapping_fresh H cfg =
     (let key = first_set (webflow_votebot_api_key cfg) (webflow_scheduler_api_key cfg) in
      if webflow_jurisdiction_collection_id cfg = [] \<or> key = [] then mret []
      else jurisdiction_pages H
        (webflow_get (WEBFLOW_URL @ ''/collections/'' @ webflow_jurisdiction_collection_id cfg @ ''/items'') key []) 50 0 [])"

definition keep_mapping :: "('n, 'r) host \<Rightarrow> (json \<times> string) list \<Rightarrow> ('n, 'r, lookup, (json \<times> string) list) meth" where
  "keep_mapping H m = mbind (outer (now H)) (\<lambda>t.
     mbind (mput (\<lambda>st. st\<lparr>jurisdiction_mapping := Some (t, m)\<rparr>)) (\<lambda>_. mret m))"

definition refreshed_mapping ::
  "('n, 'r) host \<Rightarrow> sync_settings \<Rightarrow> (json \<times> string) list \<Rightarrow> ('n, 'r, lookup, (json \<times> string) list) meth" where
  "refreshed_mapping H cfg stale =
     mbind (fetch_jurisdiction_mapping_fresh H cfg) (\<lambda>fresh. keep_mapping H (if fresh \<noteq> [] then fresh else stale))"

definition get_jurisdiction_mapping :: "('n, 'r) host \<Rightarrow> sync_settings \<Rightarrow> ('n, 'r, lookup, (json \<times> string) list) meth" where
  "get_jurisdiction_mapping H cfg =
     mbind (mget jurisdiction_mapping) (\<lambda>cached. case cached of
         None \<Rightarrow> refreshed_mapping H cfg []
       | Some (t, m) \<Rightarrow> mbind (outer (now H)) (\<lambda>current_time.
           if current_time - t < JURISDICTION_CACHE_TTL_SECONDS then mret m else refreshed_mapping H cfg m))"

end
