(* ===== verification/VersionCheck.thy ===== *)
theory VersionCheck
  imports BillText BillSync BillVersions WebflowLookup LegbotClient RedisStore
begin

text \<open>
  One bill in \<open>pipelines/bill_version.py\<close>: the latest version against the ledger of the broker, the text, history and
  changelog documents of a new version, the surplus chunks of the old one, and the status of the row of the content
  service. Every service is made anew for its call, as in the code. The result of the version check is the state of
  its methods, since what was written into it stays when a later step raises. \<open>difflib.unified_diff\<close> and the conversion
  of a time to UTC are parameters, and the fuel bounds the polls of the changelog task.
\<close>

section \<open>The services\<close>

record ('n, 't) version_services =
  sync_services :: "('n, 't) services"
  tools :: text_tools
  version_yaml :: config_file
  utc_text :: "string \<Rightarrow> string option"
  unified_diff :: "string list \<Rightarrow> string list \<Rightarrow> string \<Rightarrow> string \<Rightarrow> string list"
  poll_fuel :: nat

definition version_settings :: "('n, 't) version_services \<Rightarrow> sync_settings" where
  "version_settings V = sync_conf (sync_services V)"

definition load_config :: "config_file \<Rightarrow> json" where
  "load_config file = (case file of
      Parsed v \<Rightarrow> (case attr_get (or_empty v) ''bill_version_check'' (JObj []) of Inl _ \<Rightarrow> JObj [] | Inr c \<Rightarrow> c)
    | _ \<Rightarrow> JObj [])"

definition version_option :: "('n, 't) version_services \<Rightarrow> string \<Rightarrow> json \<Rightarrow> json res" where
  "version_option V k dflt = attr_get (load_config (version_yaml V)) k dflt"

section \<open>Surplus chunks\<close>

definition surplus_ids :: "string \<Rightarrow> nat \<Rightarrow> int \<Rightarrow> string list" where
  "surplus_ids doc new old = map (chunk_id doc) [new..<nat old]"

text \<open>The number deleted; a service object of its own, whose index is not open yet.\<close>

definition delete_surplus_chunks ::
  "('n, 'r) host \<Rightarrow> 'n vector_service \<Rightarrow> string \<Rightarrow> json \<Rightarrow> nat \<Rightarrow> ('n, 'r, nat) act" where
  "delete_surplus_chunks H sv doc old_chunk_count new_chunk_count =
     (if \<not> truthy old_chunk_count then ret 0
      else bnd (lift_res (json_number old_chunk_count)) (\<lambda>old.
        if old > int new_chunk_count * 4 then ret 0
        else if old \<le> int new_chunk_count then ret 0
        else let ids = surplus_ids doc new_chunk_count old in
          bnd (delete_vectors H sv False (deletion_of (Some ids) None False)) (\<lambda>_. ret (length ids))))"

section \<open>Reading the bill\<close>

text \<open>Dates as keys of a sort: texts, or numbers; a sort of both kinds raises. A list as a date is not modelled.\<close>

definition all_texts :: "json list \<Rightarrow> bool" where
  "all_texts vs = list_all (\<lambda>v. case v of JStr _ \<Rightarrow> True | _ \<Rightarrow> False) vs"

definition text_key :: "json \<Rightarrow> nat list" where
  "text_key v = (case v of JStr s \<Rightarrow> map ord_of s | _ \<Rightarrow> [])"

text \<open>The first element with the greatest key, which a stable descending sort puts first.\<close>

fun first_max :: "('k::linorder \<times> 'a) list \<Rightarrow> ('k \<times> 'a) option" where
  "first_max [] = None"
| "first_max (x # xs) = (case first_max xs of
     None \<Rightarrow> Some x | Some y \<Rightarrow> if fst y > fst x then Some y else Some x)"

definition date_key :: "json \<Rightarrow> json res" where
  "date_key v = bind_res (attr_get v ''date'' JNull) (\<lambda>d. Inr (or_else d (JStr [])))"

definition get_latest_version :: "json \<Rightarrow> json option res" where
  "get_latest_version versions =
     (if \<not> truthy versions then Inr None
      else bind_res (json_iter versions) (\<lambda>vs. bind_res (map_res date_key vs) (\<lambda>keys.
        if length vs = 1 then Inr (Some (hd vs))
        else if all_texts keys then Inr (map_option snd (first_max (zip (map text_key keys) vs)))
        else bind_res (map_res json_number keys) (\<lambda>ns. Inr (map_option snd (first_max (zip ns vs)))))))"

definition extract_bill_openstates_id :: "json \<Rightarrow> string option res" where
  "extract_bill_openstates_id bill_data =
     bind_res (attr_get bill_data ''id'' JNull) (\<lambda>i.
       if \<not> truthy i then Inr None
       else case i of JStr s \<Rightarrow> Inr (Some (basename s)) | _ \<Rightarrow> Inl (OtherError ''AttributeError''))"

text \<open>\<open>a > b\<close>: texts with texts, numbers with numbers.\<close>

definition json_greater :: "json \<Rightarrow> json \<Rightarrow> bool res" where
  "json_greater a b = (if all_texts [a, b] then Inr (text_key a > text_key b)
     else bind_res (json_number a) (\<lambda>x. bind_res (json_number b) (\<lambda>y. Inr (x > y))))"

definition is_newer_version :: "json \<Rightarrow> json option \<Rightarrow> bool res" where
  "is_newer_version latest_version cached =
     (case cached of
        None \<Rightarrow> Inr True
      | Some c \<Rightarrow>
          bind_res (attr_get latest_version ''date'' JNull) (\<lambda>d. bind_res (attr_get c ''version_date'' JNull) (\<lambda>cd.
          let latest_date = or_else d (JStr []); cached_date = or_else cd (JStr []) in
          bind_res (json_greater latest_date cached_date) (\<lambda>newer.
          if newer then Inr True
          else bind_res (attr_get latest_version ''note'' JNull) (\<lambda>n. bind_res (attr_get c ''version_note'' JNull) (\<lambda>cn.
            if latest_date = cached_date \<and> or_else n (JStr []) \<noteq> or_else cn (JStr []) then Inr True
            else bind_res (get_best_text_url latest_version) (\<lambda>best. case best of
                None \<Rightarrow> Inr False
              | Some (url, _) \<Rightarrow> bind_res (attr_get c ''text_url'' (JStr [])) (\<lambda>u. Inr (url \<noteq> u)))))))))"

definition action_date_of :: "(string \<Rightarrow> string option) \<Rightarrow> json \<Rightarrow> json res" where
  "action_date_of utc v =
     (if \<not> truthy v then Inr JNull
      else bind_res (str_in ''T'' v) (\<lambda>b.
        if \<not> b then Inr (JStr (json_str v @ ''T00:00:00.000Z''))
        else case v of JStr s \<Rightarrow> Inr (case utc s of Some t \<Rightarrow> JStr t | None \<Rightarrow> v) | _ \<Rightarrow> Inr v))"

definition last_value :: "json \<Rightarrow> json res" where
  "last_value v = (case v of JArr xs \<Rightarrow> Inr (last xs) | JStr s \<Rightarrow> Inr (JStr [last s]) | JObj _ \<Rightarrow> Inl (KeyError ''-1'') | _ \<Rightarrow> Inl TypeError)"

definition chamber_of :: "json \<Rightarrow> json res" where
  "chamber_of actions =
     (if \<not> truthy actions then Inr JNull
      else bind_res (last_value actions) (\<lambda>a. bind_res (attr_get a ''organization'' JNull) (\<lambda>org.
        bind_res (attr_get (or_empty org) ''name'' JNull) (\<lambda>name. Inr (or_null name)))))"

definition extract_latest_action :: "(string \<Rightarrow> string option) \<Rightarrow> json \<Rightarrow> (json \<times> json \<times> json) res" where
  "extract_latest_action utc bill_data =
     bind_res (attr_get bill_data ''latest_action_description'' JNull) (\<lambda>desc.
     bind_res (attr_get bill_data ''latest_action_date'' JNull) (\<lambda>d. bind_res (action_date_of utc d) (\<lambda>iso_date.
     bind_res (attr_get bill_data ''actions'' JNull) (\<lambda>actions. bind_res (chamber_of actions) (\<lambda>chamber.
       Inr (or_null desc, iso_date, chamber))))))"

definition first_10 :: "json \<Rightarrow> json res" where
  "first_10 v = (case v of JStr s \<Rightarrow> Inr (JStr (take 10 s)) | JArr xs \<Rightarrow> Inr (JArr (take 10 xs)) | _ \<Rightarrow> Inl TypeError)"

definition dates_match :: "json \<Rightarrow> json \<Rightarrow> bool res" where
  "dates_match cms_date openstates_date =
     (if \<not> truthy cms_date \<and> \<not> truthy openstates_date then Inr True
      else if \<not> truthy cms_date \<or> \<not> truthy openstates_date then Inr False
      else bind_res (first_10 cms_date) (\<lambda>a. bind_res (first_10 openstates_date) (\<lambda>b. Inr (a = b))))"

section \<open>The status of the row\<close>

record status_result =
  sx_status_updated :: bool
  sx_webflow_updated :: bool
  sx_patch_skipped :: bool
  sx_latest_action :: json
  sx_action_date :: json
  sx_action_chamber :: json
  sx_gov_url :: json

definition id_text :: "json \<Rightarrow> string" where
  "id_text webflow_id = (if truthy webflow_id then json_str webflow_id else [])"

definition patch_row ::
  "('n, 'r) host \<Rightarrow> ('n, 't) version_services \<Rightarrow> json \<Rightarrow> (string \<times> json) list \<Rightarrow> ('n, 'r, bool) act" where
  "patch_row H V webflow_id field_data =
     attempt (on_fresh (new_lookup DEFAULT_MAX_REQUESTS_PER_MINUTE)
         (update_bill_fields H (version_settings V) (id_text webflow_id) field_data (webflow_scheduler_api_key (version_settings V))))
       (\<lambda>e. if e = OutOfFuel then raise e else ret False) ret"

definition update_webflow_status ::
  "('n, 'r) host \<Rightarrow> ('n, 't) version_services \<Rightarrow> json \<Rightarrow> json \<Rightarrow> json \<Rightarrow> json \<Rightarrow> ('n, 'r, bool) act" where
  "update_webflow_status H V webflow_id new_status status_date status_chamber =
     patch_row H V webflow_id ((''status'', new_status) # given ''status-date'' status_date @ given ''status-chamber'' status_chamber)"

definition text_address :: "json \<Rightarrow> json res" where
  "text_address bill_data =
     bind_res (attr_get bill_data ''versions'' (JArr [])) (\<lambda>versions. bind_res (get_latest_version versions) (\<lambda>latest.
       case latest of
         None \<Rightarrow> Inr JNull
       | Some v \<Rightarrow> if \<not> truthy v then Inr JNull
           else bind_res (get_best_text_url v) (\<lambda>best. Inr (case best of None \<Rightarrow> JNull | Some (u, _) \<Rightarrow> u))))"

text \<open>The fields that differ from the row.\<close>

definition changed_fields ::
  "(string \<times> json) list \<Rightarrow> json \<Rightarrow> json \<Rightarrow> json \<Rightarrow> json \<Rightarrow> (string \<times> json) list res" where
  "changed_fields cms text_url latest_action action_date action_chamber =
     bind_res (if truthy action_date then dates_match (dict_get cms ''status-date'') action_date else Inr True) (\<lambda>same_date.
       Inr ((if truthy text_url \<and> dict_get cms ''gov-url'' \<noteq> text_url then [(''gov-url'', text_url)] else []) @
            (if dict_get cms ''status'' \<noteq> latest_action then [(''status'', latest_action)] else []) @
            (if \<not> same_date then [(''status-date'', action_date)] else []) @
            (if truthy action_chamber \<and> dict_get cms ''status-chamber'' \<noteq> action_chamber
             then [(''status-chamber'', action_chamber)] else [])))"

definition status_record :: "status_result \<Rightarrow> string \<Rightarrow> json" where
  "status_record r stamp = JObj [(''status'', sx_latest_action r), (''status_date'', or_else (sx_action_date r) (JStr [])),
     (''status_chamber'', or_else (sx_action_chamber r) (JStr [])), (''gov_url'', or_else (sx_gov_url r) (JStr [])),
     (''last_synced'', JStr stamp)]"

definition send_changes ::
  "('n, 'r) host \<Rightarrow> ('n, 't) version_services \<Rightarrow> json \<Rightarrow> (string \<times> json) list \<Rightarrow> status_result \<Rightarrow> ('n, 'r, status_result) act" where
  "send_changes H V webflow_id field_data r =
     (if field_data = [] then ret (r\<lparr>sx_patch_skipped := True\<rparr>)
      else bnd (patch_row H V webflow_id field_data) (\<lambda>ok.
        ret (if ok then r\<lparr>sx_webflow_updated := True, sx_status_updated := ''status'' \<in> fst ` set field_data\<rparr> else r)))"

definition keep_status :: "('n, 'r) host \<Rightarrow> json \<Rightarrow> status_result \<Rightarrow> ('n, 'r, unit) act" where
  "keep_status H webflow_id r =
     bnd (current (\<lambda>s. n_stamp (network H) (net s))) (\<lambda>stamp.
       on_store (\<lambda>store. ((), set_bill_status (redis_client H) (json_str webflow_id) (status_record r stamp) store)))"

definition update_bill_status ::
  "('n, 'r) host \<Rightarrow> ('n, 't) version_services \<Rightarrow> json \<Rightarrow> json \<Rightarrow> (string \<times> json) list \<Rightarrow> ('n, 'r, status_result) act" where
  "update_bill_status H V webflow_id bill_data cms =
     bnd (lift_res (extract_latest_action (utc_text V) bill_data)) (\<lambda>(latest_action, action_date, action_chamber).
     bnd (lift_res (text_address bill_data)) (\<lambda>text_url.
     let r = \<lparr>sx_status_updated = False, sx_webflow_updated = False, sx_patch_skipped = False, sx_latest_action = latest_action,
              sx_action_date = action_date, sx_action_chamber = action_chamber, sx_gov_url = text_url\<rparr> in
     if \<not> truthy latest_action then ret r
     else bnd (lift_res (version_option V ''skip_webflow_update'' (JBool False))) (\<lambda>skip.
       if truthy skip then ret r
       else bnd (lift_res (changed_fields cms text_url latest_action action_date action_chamber)) (\<lambda>field_data.
         bnd (send_changes H V webflow_id field_data r) (\<lambda>r.
         bnd (keep_status H webflow_id r) (\<lambda>_. ret r))))))"

section \<open>The text of a version\<close>

text \<open>The document behind an address, or nothing at all when its kind is unknown.\<close>

definition fetch_document ::
  "('n, 'r) host \<Rightarrow> ('n, 't) version_services \<Rightarrow> json \<Rightarrow> string \<Rightarrow> (string \<times> json) list \<Rightarrow> json \<Rightarrow>
   ('n, 'r, document_source option option) act" where
  "fetch_document H V url media cms item_id =
     (let pdf = bnd (process_bill_pdf H (tools V) (pdf_max_pages (version_settings V)) url cms item_id) (\<lambda>d. ret (Some d));
          html = bnd (process_bill_html H (tools V) url cms item_id) (\<lambda>d. ret (Some d)) in
      if contains ''pdf'' (lower media) then pdf
      else if contains ''html'' (lower media) then html
      else bnd (get_url_content_type H url) (\<lambda>k. case k of
          None \<Rightarrow> ret None | Some x \<Rightarrow> (case x of PdfUrl \<Rightarrow> pdf | HtmlUrl \<Rightarrow> html)))"

text \<open>A new pipeline for every document: what it keeps is gone after it.\<close>

definition ingest_anew :: "('n, 'r) host \<Rightarrow> ('n, 't) version_services \<Rightarrow> string \<Rightarrow> doc_info \<Rightarrow> ('n, 'r, ingestion_result) act" where
  "ingest_anew H V body info =
     bnd (ingest_document H (ingest (sync_services V)) body info False new_pipeline) (\<lambda>(_, r). ret r)"

definition ingest_bill_text ::
  "('n, 'r) host \<Rightarrow> ('n, 't) version_services \<Rightarrow> json \<Rightarrow> json \<Rightarrow> string \<Rightarrow> (string \<times> json) list \<Rightarrow> ('n, 'r, nat \<times> string) act" where
  "ingest_bill_text H V webflow_id text_url media cms =
     bnd (fetch_document H V text_url media cms webflow_id) (\<lambda>d. case d of
         Some (Some doc) \<Rightarrow> bnd (ingest_anew H V (ds_content doc) (ds_info doc)) (\<lambda>r. ret (chunks_created r, ds_content doc))
       | _ \<Rightarrow> ret (0, []))"

definition ddp_url_of :: "json \<Rightarrow> json" where
  "ddp_url_of bill_slug =
     (if truthy bill_slug then JStr (''https://digitaldemocracyproject.org/bills/'' @ json_str bill_slug) else JNull)"

definition history_info ::
  "string \<Rightarrow> json \<Rightarrow> json \<Rightarrow> json \<Rightarrow> json \<Rightarrow> string \<Rightarrow> json \<Rightarrow> json \<Rightarrow> json \<Rightarrow> doc_info" where
  "history_info stamp webflow_id bill_title bill_slug text_url media version_date version_note jurisdiction =
     (new_info stamp (''bill-text-history-'' @ json_str webflow_id @ ''-'' @ json_str version_date) ''bill-text-history''
        ''OpenStates / Government Source'')
       \<lparr>di_title := (if truthy version_note then JStr (json_str bill_title @ '' - '' @ json_str version_note) else bill_title),
        di_jurisdiction := or_null jurisdiction, di_url := ddp_url_of bill_slug,
        di_extra := [(''webflow_id'', webflow_id), (''bill_slug'', or_else bill_slug (JStr [])), (''version_date'', version_date),
          (''version_note'', version_note), (''text_url'', text_url), (''media_type'', JStr media)]\<rparr>"

definition ingest_bill_history ::
  "('n, 'r) host \<Rightarrow> ('n, 't) version_services \<Rightarrow> json \<Rightarrow> json \<Rightarrow> json \<Rightarrow> json \<Rightarrow> string \<Rightarrow> json \<Rightarrow> json \<Rightarrow> json \<Rightarrow> string \<Rightarrow>
   ('n, 'r, nat) act" where
  "ingest_bill_history H V webflow_id bill_title bill_slug text_url media version_date version_note jurisdiction body =
     (if body = [] then ret 0
      else bnd (current (\<lambda>s. n_stamp (network H) (net s))) (\<lambda>stamp.
        bnd (ingest_anew H V body
          (history_info stamp webflow_id bill_title bill_slug text_url media version_date version_note jurisdiction)) (\<lambda>r.
        ret (chunks_created r))))"

end
