(* ===== verification/VersionUpdate.thy ===== *)
theory VersionUpdate
  imports VersionCheck
begin

text \<open>
  The changelog of a new version, and the check of one bill from end to end: \<open>_generate_and_ingest_changelog\<close>,
  \<open>check_and_reingest_version\<close> and \<open>check_and_update_bill\<close> of \<open>pipelines/bill_version.py\<close>. The two signs of the title of a
  changelog outside of ASCII are the bytes of their encoding.
\<close>

section \<open>The changelog\<close>

text \<open>No changelog with a reason, or what to compare: the old text and the difference.\<close>

type_synonym changelog_inputs = "json + json \<times> json"

definition no_changelog :: "string \<Rightarrow> changelog_inputs" where
  "no_changelog reason = Inl (JStr reason)"

definition label_of :: "json \<Rightarrow> string \<Rightarrow> string res" where
  "label_of v dflt = (if \<not> truthy v then Inr dflt else case v of JStr s \<Rightarrow> Inr s | _ \<Rightarrow> Inl TypeError)"

definition compared ::
  "('n, 't) version_services \<Rightarrow> string \<Rightarrow> string \<Rightarrow> json \<Rightarrow> json \<Rightarrow> changelog_inputs res" where
  "compared V old_body new_body old_note new_note =
     (if length old_body < 500 then Inr (no_changelog ''old_content_too_short'')
      else bind_res (label_of old_note ''previous version'') (\<lambda>a. bind_res (label_of new_note ''this version'') (\<lambda>b.
        let d = join [newline] (unified_diff V (split_lines old_body []) (split_lines new_body []) a b) in
        Inr (if strip d = [] then no_changelog ''no_diff_produced'' else Inr (JStr old_body, JStr d)))))"

definition usual_media :: "json \<Rightarrow> string res" where
  "usual_media v = (case v of JStr s \<Rightarrow> Inr s | _ \<Rightarrow> Inl (OtherError ''AttributeError''))"

definition old_document ::
  "('n, 'r) host \<Rightarrow> ('n, 't) version_services \<Rightarrow> json \<Rightarrow> json \<Rightarrow> json \<Rightarrow> ('n, 'r, document_source option option) act" where
  "old_document H V old_url old_media webflow_id =
     bnd (lift_res (usual_media old_media)) (\<lambda>m. fetch_document H V old_url m [] webflow_id)"

text \<open>The old text is loaded again from its address.\<close>

definition refetched ::
  "('n, 'r) host \<Rightarrow> ('n, 't) version_services \<Rightarrow> json \<Rightarrow> json \<Rightarrow> json \<Rightarrow> string \<Rightarrow> json \<Rightarrow> json \<Rightarrow> ('n, 'r, changelog_inputs) act" where
  "refetched H V webflow_id old_url old_media new_body old_note new_note =
     (if \<not> truthy old_url then ret (no_changelog ''no_old_url'')
      else attempt (old_document H V old_url old_media webflow_id)
        (\<lambda>e. case e of
            OutOfFuel \<Rightarrow> raise e
          | HTTPStatusError _ _ \<Rightarrow> ret (no_changelog (''old_url_fetch_failed: '' @ name_of e))
          | RequestError _ \<Rightarrow> ret (no_changelog (''old_url_fetch_failed: '' @ name_of e))
          | _ \<Rightarrow> ret (no_changelog (''old_text_extraction_failed: '' @ name_of e)))
        (\<lambda>d. case d of
            None \<Rightarrow> ret (no_changelog ''old_url_unknown_content_type'')
          | Some None \<Rightarrow> ret (no_changelog ''old_url_no_content'')
          | Some (Some doc) \<Rightarrow>
              if ds_content doc = [] then ret (no_changelog ''old_url_no_content'')
              else lift_res (compared V (ds_content doc) new_body old_note new_note)))"

definition changelog_source ::
  "('n, 'r) host \<Rightarrow> ('n, 't) version_services \<Rightarrow> json \<Rightarrow> json \<Rightarrow> json \<Rightarrow> string \<Rightarrow> json \<Rightarrow> json \<Rightarrow> string option \<Rightarrow>
   ('n, 'r, changelog_inputs) act" where
  "changelog_source H V webflow_id old_url old_media new_body old_note new_note bill_openstates_id =
     bnd (case bill_openstates_id of None \<Rightarrow> ret None | Some b \<Rightarrow> get_archived_changelog_inputs H b) (\<lambda>archived.
       case archived of
         Some (t, _) \<Rightarrow> ret (Inr (tr_old_source t, tr_diff t))
       | None \<Rightarrow> refetched H V webflow_id old_url old_media new_body old_note new_note)"

definition bullet_list :: "json \<Rightarrow> string res" where
  "bullet_list items =
     (if \<not> truthy items then Inr ''- None''
      else bind_res (json_iter items) (\<lambda>xs. Inr (join [newline] (map (\<lambda>x. ''- '' @ json_str x) xs))))"

definition changelog_text :: "json \<Rightarrow> json \<Rightarrow> json \<Rightarrow> json \<Rightarrow> json \<Rightarrow> json \<Rightarrow> string res" where
  "changelog_text answer bill_title old_note old_date new_note new_date =
     bind_res (attr_get answer ''sections_added'' JNull) (\<lambda>a. bind_res (bullet_list a) (\<lambda>added.
     bind_res (attr_get answer ''sections_removed'' JNull) (\<lambda>r. bind_res (bullet_list r) (\<lambda>removed.
     bind_res (attr_get answer ''sections_modified'' JNull) (\<lambda>m. bind_res (bullet_list m) (\<lambda>modified.
     bind_res (attr_get answer ''policy_implications'' JNull) (\<lambda>p.
       Inr (join [newline] [''## What Changed: '' @ json_str bill_title,
         ''**From:** '' @ json_str old_note @ '' ('' @ json_str old_date @ '')'',
         ''**To:** '' @ json_str new_note @ '' ('' @ json_str new_date @ '')'', [],
         ''### Sections Added'', added, [], ''### Sections Removed'', removed, [], ''### Sections Modified'', modified, [],
         ''### Key Policy Implications'', json_str (or_else p (JStr ''None noted.''))]))))))))"

definition right_arrow :: string where "right_arrow = map char_of [226::nat, 134, 146]"

definition changelog_info ::
  "string \<Rightarrow> json \<Rightarrow> json \<Rightarrow> json \<Rightarrow> json \<Rightarrow> json \<Rightarrow> json \<Rightarrow> json \<Rightarrow> json \<Rightarrow> doc_info" where
  "changelog_info stamp webflow_id bill_title bill_slug jurisdiction old_date old_note new_date new_note =
     (new_info stamp (''bill-changelog-'' @ json_str webflow_id @ ''-'' @ json_str new_date) ''bill-changelog''
        ''Digital Democracy Project'')
       \<lparr>di_title := JStr (json_str bill_title @ '' '' @ em_dash @ '' Changelog ('' @ json_str old_note @ '' '' @ right_arrow @ '' '' @
          json_str new_note @ '')''),
        di_jurisdiction := or_null jurisdiction, di_url := ddp_url_of bill_slug,
        di_extra := [(''webflow_id'', webflow_id), (''bill_slug'', or_else bill_slug (JStr [])),
          (''version_from_date'', old_date), (''version_from_note'', old_note),
          (''version_to_date'', new_date), (''version_to_note'', new_note)]\<rparr>"

text \<open>The chunks of the changelog, or the reason why there is none.\<close>

definition publish_changelog ::
  "('n, 'r) host \<Rightarrow> ('n, 't) version_services \<Rightarrow> json \<Rightarrow> json \<Rightarrow> json \<Rightarrow> json \<Rightarrow> json \<Rightarrow> json \<Rightarrow> json \<Rightarrow> json \<Rightarrow> json \<Rightarrow>
   ('n, 'r, json + nat) act" where
  "publish_changelog H V webflow_id bill_title bill_slug jurisdiction old_date old_note new_date new_note answer =
     bnd (lift_res (attr_get answer ''insufficient_information'' JNull)) (\<lambda>insufficient.
       if truthy insufficient
       then bnd (lift_res (attr_get answer ''reason'' (JStr ''legbot_insufficient_information''))) (\<lambda>reason. ret (Inl reason))
       else bnd (lift_res (changelog_text answer bill_title old_note old_date new_note new_date)) (\<lambda>body.
         if strip body = [] then ret (Inl (JStr ''legbot_empty_response''))
         else bnd (current (\<lambda>s. n_stamp (network H) (net s))) (\<lambda>stamp.
           bnd (ingest_anew H V body
             (changelog_info stamp webflow_id bill_title bill_slug jurisdiction old_date old_note new_date new_note)) (\<lambda>r.
           ret (Inr (chunks_created r))))))"

definition generate_and_ingest_changelog ::
  "('n, 'r) host \<Rightarrow> ('n, 't) version_services \<Rightarrow> json \<Rightarrow> json \<Rightarrow> json \<Rightarrow> json \<Rightarrow> json \<Rightarrow> json \<Rightarrow> json \<Rightarrow> string \<Rightarrow>
   string option \<Rightarrow> ('n, 'r, json + nat) act" where
  "generate_and_ingest_changelog H V webflow_id bill_title bill_slug jurisdiction old_version new_date new_note new_body
       bill_openstates_id =
     bnd (lift_res (map_res (\<lambda>k. attr_get old_version k (JStr [])) [''text_url'', ''media_type'', ''version_date'', ''version_note''])) (\<lambda>vs.
     let old_url = vs ! 0; old_media = vs ! 1; old_date = vs ! 2; old_note = vs ! 3 in
     bnd (changelog_source H V webflow_id old_url old_media new_body old_note new_note bill_openstates_id) (\<lambda>x. case x of
         Inl reason \<Rightarrow> ret (Inl reason)
       | Inr (old_bill_source, diff_source) \<Rightarrow>
           attempt (dispatch_bill_changelog H (poll_fuel V) old_bill_source diff_source None)
             (\<lambda>e. case e of LegBotDispatchError _ \<Rightarrow> ret (Inl (JStr (''legbot_dispatch_failed: '' @ name_of e))) | _ \<Rightarrow> raise e)
             (\<lambda>result. publish_changelog H V webflow_id bill_title bill_slug jurisdiction old_date old_note new_date new_note
                (lr_answer result))))"

section \<open>The version check\<close>

record reingest =
  ri_newer :: bool
  ri_chunks :: nat
  ri_history :: nat
  ri_changelog :: nat
  ri_changelog_skipped :: bool
  ri_skip_reason :: json
  ri_surplus :: nat
  ri_note :: json
  ri_date :: json
  ri_url :: json
  ri_error :: "string option"

definition new_reingest :: reingest where
  "new_reingest = \<lparr>ri_newer = False, ri_chunks = 0, ri_history = 0, ri_changelog = 0, ri_changelog_skipped = False,
     ri_skip_reason = JStr [], ri_surplus = 0, ri_note = JStr [], ri_date = JStr [], ri_url = JStr [], ri_error = None\<rparr>"

text \<open>The bill as the batch hands it over.\<close>

record bill_job =
  bj_id :: json
  bj_title :: json
  bj_code :: string
  bj_slug :: json
  bj_cms :: "(string \<times> json) list"

text \<open>The slug of the row under its id; the versions are dictionaries when this is reached, and nothing is raised.\<close>

definition refresh_slug_cache :: "('n, 'r) host \<Rightarrow> bill_job \<Rightarrow> json \<Rightarrow> ('n, 'r, unit) act" where
  "refresh_slug_cache H B latest_version =
     (case map_res (\<lambda>k. attr_get latest_version k (JStr [])) [''date'', ''note''] of
        Inr [vdate, vnote] \<Rightarrow> on_store (\<lambda>store. ((), snd (set_bill_version (redis_client H) (json_str (bj_id B))
          (JObj [(''version_date'', vdate), (''version_note'', vnote), (''bill_slug'', or_else (bj_slug B) (JStr []))])
          False False store)))
      | _ \<Rightarrow> ret ())"

definition read_ledger ::
  "('n, 'r) host \<Rightarrow> bill_job \<Rightarrow> string option \<Rightarrow> json list \<Rightarrow> json \<Rightarrow> ('n, 'r, json option) act" where
  "read_ledger H B bill_openstates_id versions latest_version =
     (case bill_openstates_id of
        None \<Rightarrow> ret None
      | Some b \<Rightarrow> bnd (get_latest_bill_version H b None) (\<lambda>cached.
          if cached = None \<and> length versions > 1
          then bnd (backfill_missing_versions H (JStr b) (JStr (bj_code B)) (get_or (bj_cms B) ''session-code'' (JStr []))
                 versions latest_version None None) (\<lambda>_. ret cached)
          else ret cached))"

definition old_chunks_of :: "json option \<Rightarrow> json res" where
  "old_chunks_of cached = (if truthy_opt cached then attr_get (the cached) ''chunk_count'' JNull else Inr JNull)"

text \<open>The three documents of a new version; an exception leaves what was written into the result.\<close>

definition changelog_step ::
  "('n, 'r) host \<Rightarrow> ('n, 't) version_services \<Rightarrow> bill_job \<Rightarrow> json option \<Rightarrow> string \<Rightarrow> string option \<Rightarrow> ('n, 'r, reingest, unit) meth" where
  "changelog_step H V B cached body bill_openstates_id =
     (if \<not> truthy_opt cached then mret ()
      else mbind (mget (\<lambda>r. (ri_date r, ri_note r))) (\<lambda>(vdate, vnote).
        mbind (outer (generate_and_ingest_changelog H V (bj_id B) (bj_title B) (bj_slug B)
            (get_or (bj_cms B) ''jurisdiction'' (JStr [])) (the cached) vdate vnote body bill_openstates_id)) (\<lambda>x.
        mput (\<lambda>r. case x of
            Inl reason \<Rightarrow> r\<lparr>ri_changelog := 0, ri_changelog_skipped := True, ri_skip_reason := reason\<rparr>
          | Inr n \<Rightarrow> r\<lparr>ri_changelog := n, ri_changelog_skipped := False, ri_skip_reason := JStr []\<rparr>))))"

definition after_text_step ::
  "('n, 'r) host \<Rightarrow> ('n, 't) version_services \<Rightarrow> bill_job \<Rightarrow> json option \<Rightarrow> json \<Rightarrow> string \<Rightarrow> string \<Rightarrow> nat \<Rightarrow> string option \<Rightarrow>
   ('n, 'r, reingest, unit) meth" where
  "after_text_step H V B cached text_url media body n bill_openstates_id =
     mbind (mres (old_chunks_of cached)) (\<lambda>old.
     mbind (outer (delete_surplus_chunks H (vectors (ingest (sync_services V))) (''bill-pdf-'' @ json_str (bj_id B)) old n)) (\<lambda>k.
     mbind (mput (\<lambda>r. r\<lparr>ri_surplus := k\<rparr>)) (\<lambda>_.
     mbind (mget (\<lambda>r. (ri_date r, ri_note r))) (\<lambda>(vdate, vnote).
     mbind (outer (ingest_bill_history H V (bj_id B) (bj_title B) (bj_slug B) text_url media vdate vnote
         (get_or (bj_cms B) ''jurisdiction'' (JStr [])) body)) (\<lambda>h.
     mbind (mput (\<lambda>r. r\<lparr>ri_history := h\<rparr>)) (\<lambda>_.
       changelog_step H V B cached body bill_openstates_id))))))"

definition ingest_version ::
  "('n, 'r) host \<Rightarrow> ('n, 't) version_services \<Rightarrow> bill_job \<Rightarrow> json option \<Rightarrow> json \<Rightarrow> string \<Rightarrow> string option \<Rightarrow>
   ('n, 'r, reingest, unit) meth" where
  "ingest_version H V B cached text_url media bill_openstates_id =
     mbind (outer (ingest_bill_text H V (bj_id B) text_url media (bj_cms B))) (\<lambda>(n, body).
     mbind (mput (\<lambda>r. r\<lparr>ri_chunks := n\<rparr>)) (\<lambda>_.
       if n > 0 then after_text_step H V B cached text_url media body n bill_openstates_id else mret ()))"

text \<open>The row of the ledger; \<open>except BrokerClientError\<close>.\<close>

definition record_ingested ::
  "('n, 'r) host \<Rightarrow> bill_job \<Rightarrow> string option \<Rightarrow> json \<Rightarrow> string \<Rightarrow> reingest \<Rightarrow> ('n, 'r, unit) act" where
  "record_ingested H B bill_openstates_id text_url media r =
     (case bill_openstates_id of
        None \<Rightarrow> ret ()
      | Some b \<Rightarrow> attempt (write_bill_version H
            [(''bill_openstates_id'', JStr b), (''jurisdiction'', JStr (bj_code B)),
             (''session_code'', get_or (bj_cms B) ''session-code'' (JStr [])), (''version_date'', ri_date r),
             (''version_note'', ri_note r), (''text_url'', text_url), (''media_type'', JStr media),
             (''chunk_count'', JInt (int (ri_chunks r))), (''pinecone_ingested'', JBool (ri_chunks r > 0))] None None)
          (\<lambda>e. case e of BrokerClientError _ \<Rightarrow> ret () | _ \<Rightarrow> raise e) (\<lambda>_. ret ()))"

definition invalidation :: "bill_job \<Rightarrow> json \<Rightarrow> json" where
  "invalidation B vnote = JObj [(''slug'', bj_slug B), (''reason'', JStr ''bill_version_change''), (''version_note'', vnote)]"

definition publish_invalidation :: "('n, 'r) host \<Rightarrow> bill_job \<Rightarrow> reingest \<Rightarrow> ('n, 'r, unit) act" where
  "publish_invalidation H B r =
     (if ri_chunks r > 0 \<and> truthy (bj_slug B)
      then on_store (\<lambda>store. ((), snd (publish (redis_client H) ''votebot:cache:invalidate''
             (json_dumps (invalidation B (ri_note r))) store)))
      else ret ())"

definition update_version ::
  "('n, 'r) host \<Rightarrow> ('n, 't) version_services \<Rightarrow> bill_job \<Rightarrow> json option \<Rightarrow> json \<Rightarrow> json \<Rightarrow> string \<Rightarrow> string option \<Rightarrow>
   ('n, 'r, reingest, unit) meth" where
  "update_version H V B cached latest_version text_url media bill_openstates_id =
     mbind (mput (\<lambda>r. r\<lparr>ri_newer := True\<rparr>)) (\<lambda>_.
     mbind (mtry (ingest_version H V B cached text_url media bill_openstates_id)
         (\<lambda>e. mput (\<lambda>r. r\<lparr>ri_error := Some (fault_text e)\<rparr>)) mret) (\<lambda>_.
     mbind (mget (\<lambda>r. r)) (\<lambda>r.
     mbind (outer (record_ingested H B bill_openstates_id text_url media r)) (\<lambda>_.
     mbind (outer (refresh_slug_cache H B latest_version)) (\<lambda>_.
       outer (publish_invalidation H B r))))))"

text \<open>What follows once the latest version has an address: the ledger is read, and a newer version is ingested.\<close>

definition check_version ::
  "('n, 'r) host \<Rightarrow> ('n, 't) version_services \<Rightarrow> bill_job \<Rightarrow> json \<Rightarrow> json list \<Rightarrow> json \<Rightarrow> json \<Rightarrow> string \<Rightarrow> ('n, 'r, reingest, unit) meth" where
  "check_version H V B bill_data versions latest_version text_url media =
     mbind (mres (extract_bill_openstates_id bill_data)) (\<lambda>b.
     mtry (outer (read_ledger H B b versions latest_version))
       (\<lambda>e. case e of BrokerClientError _ \<Rightarrow> outer (refresh_slug_cache H B latest_version) | _ \<Rightarrow> mraise e)
       (\<lambda>cached. mbind (mres (is_newer_version latest_version cached)) (\<lambda>newer.
         if newer then update_version H V B cached latest_version text_url media b
         else outer (refresh_slug_cache H B latest_version))))"

definition version_steps ::
  "('n, 'r) host \<Rightarrow> ('n, 't) version_services \<Rightarrow> bill_job \<Rightarrow> json \<Rightarrow> ('n, 'r, reingest, unit) meth" where
  "version_steps H V B bill_data =
     mbind (mres (attr_get bill_data ''versions'' (JArr []))) (\<lambda>l.
     mbind (mres (get_latest_version l)) (\<lambda>latest.
       if \<not> truthy_opt latest then mret ()
       else let v = the latest in
         mbind (mres (attr_get v ''note'' (JStr []))) (\<lambda>vnote.
         mbind (mres (attr_get v ''date'' (JStr []))) (\<lambda>vdate.
         mbind (mput (\<lambda>r. r\<lparr>ri_note := vnote, ri_date := vdate\<rparr>)) (\<lambda>_.
         mbind (mres (get_best_text_url v)) (\<lambda>best. case best of
             None \<Rightarrow> mret ()
           | Some (text_url, media) \<Rightarrow>
               mbind (mput (\<lambda>r. r\<lparr>ri_url := text_url\<rparr>)) (\<lambda>_.
               mbind (mres (json_iter l)) (\<lambda>versions. check_version H V B bill_data versions v text_url media))))))))"

definition check_and_reingest_version ::
  "('n, 'r) host \<Rightarrow> ('n, 't) version_services \<Rightarrow> bill_job \<Rightarrow> json \<Rightarrow> ('n, 'r, reingest) act" where
  "check_and_reingest_version H V B bill_data =
     bnd (version_steps H V B bill_data new_reingest) (\<lambda>(r, x). bnd (release_result x) (\<lambda>_. ret r))"

section \<open>One bill\<close>

datatype check_status = Updated | Unchanged | Partial | NoVersions | CheckError

record version_check =
  vc_status :: check_status
  vc_result :: reingest
  vc_webflow_updated :: bool
  vc_status_updated :: bool
  vc_patch_skipped :: bool
  vc_error :: "string option"

definition failed_check :: "string \<Rightarrow> version_check" where
  "failed_check e = \<lparr>vc_status = CheckError, vc_result = new_reingest, vc_webflow_updated = False, vc_status_updated = False,
     vc_patch_skipped = False, vc_error = Some e\<rparr>"

text \<open>The answer for a version that is not newer has three of the fields of the check, and leaves \<open>webflow_updated\<close> at its default.\<close>

definition unchanged_result :: "reingest \<Rightarrow> reingest" where
  "unchanged_result r = new_reingest\<lparr>ri_note := ri_note r, ri_date := ri_date r, ri_url := ri_url r\<rparr>"

definition combine :: "reingest \<Rightarrow> status_result \<Rightarrow> version_check" where
  "combine r x =
     (if ri_newer r
      then \<lparr>vc_status = (case ri_error r of Some (_ # _) \<Rightarrow> Partial | _ \<Rightarrow> Updated), vc_result = r,
            vc_webflow_updated = sx_webflow_updated x, vc_status_updated = sx_status_updated x,
            vc_patch_skipped = sx_patch_skipped x,
            vc_error = (case ri_error r of Some (c # cs) \<Rightarrow> Some (''Ingestion failed: '' @ c # cs) | _ \<Rightarrow> None)\<rparr>
      else \<lparr>vc_status = Unchanged, vc_result = unchanged_result r, vc_webflow_updated = False,
            vc_status_updated = sx_status_updated x, vc_patch_skipped = sx_patch_skipped x, vc_error = None\<rparr>)"

definition check_and_update_bill ::
  "('n, 'r) host \<Rightarrow> ('n, 't) version_services \<Rightarrow> bill_job \<Rightarrow> json \<Rightarrow> ('n, 'r, version_check) act" where
  "check_and_update_bill H V B openstates_url =
     bnd (lift_res (parse_url openstates_url)) (\<lambda>p. case p of
         None \<Rightarrow> ret (failed_check (''Could not parse OpenStates URL: '' @ json_str openstates_url))
       | Some u \<Rightarrow>
           bnd (on_fresh (new_sync (sync_services V) new_cache)
             (fetch_bill_from_openstates H (sync_services V) (ou_jurisdiction u) (ou_session u) (ou_bill u))) (\<lambda>data.
           if \<not> truthy_opt data then ret (failed_check (''Failed to fetch bill from OpenStates: '' @ json_str openstates_url))
           else bnd (check_and_reingest_version H V B (the data)) (\<lambda>r.
                bnd (update_bill_status H V (bj_id B) (the data) (bj_cms B)) (\<lambda>x. ret (combine r x)))))"

end
