(* ===== verification/VoteDocument.thy ===== *)
theory VoteDocument
  imports BillSync
begin

text \<open>
  The document of the votes of a bill (\<open>format_bill_votes_chunk\<close> and \<open>extract_metadata_from_openstates\<close> of
  \<open>pipelines/bill_sync.py\<close>). Names, ids and parties of voters are texts; a value of another kind raises, as it does a
  little later in the code. \<open>m\<close> is the cache of legislators and \<open>fc\<close> the loaded cache of Congress.
\<close>

section \<open>One voter\<close>

definition text_value :: "json \<Rightarrow> string res" where
  "text_value v = (case v of JStr s \<Rightarrow> Inr s | _ \<Rightarrow> Inl TypeError)"

definition text_or_none :: "json \<Rightarrow> string res" where
  "text_or_none v = (if truthy v then text_value v else Inr [])"

text \<open>\<open>re.search(r"\([RDI]-[A-Z]{2}\)$", s)\<close>; \<open>$\<close> also matches before a final line end.\<close>

definition party_suffix :: "string \<Rightarrow> bool" where
  "party_suffix s =
     (let t = (if s \<noteq> [] \<and> last s = newline then butlast s else s) in
      case rev t of
         e # c2 # c1 # d # p # o' # _ \<Rightarrow>
           e = CHR '')'' \<and> is_upper c2 \<and> is_upper c1 \<and> d = CHR ''-'' \<and> p \<in> {CHR ''R'', CHR ''D'', CHR ''I''} \<and> o' = CHR ''(''
       | _ \<Rightarrow> False)"

record voter =
  v_option :: string
  v_name :: string
  v_person :: string
  v_party :: string

definition voter_object :: "json \<Rightarrow> string \<times> string \<Rightarrow> (string \<times> string \<times> string) res" where
  "voter_object obj d =
     (let (name, _) = d in
      case obj of
        JObj o' \<Rightarrow>
          bind_res (text_or_none (case map_of o' ''id'' of None \<Rightarrow> JStr [] | Some v \<Rightarrow> v)) (\<lambda>person.
          bind_res (text_or_none (case map_of o' ''party'' of None \<Rightarrow> JStr [] | Some v \<Rightarrow> v)) (\<lambda>party.
          bind_res (if truthy (dict_get o' ''name'') then text_value (dict_get o' ''name'') else Inr name) (\<lambda>name.
            Inr (name, person, party))))
      | _ \<Rightarrow> Inr (name, [], []))"

text \<open>For a federal bill, what is missing comes from the cache.\<close>

definition from_cache :: "federal_cache \<Rightarrow> bool \<Rightarrow> string \<Rightarrow> string \<Rightarrow> string \<Rightarrow> (string \<times> string) res" where
  "from_cache fc is_federal name person party =
     (if person \<noteq> [] \<or> \<not> is_federal then Inr (person, party)
      else case lookup_with_info fc name of
          None \<Rightarrow> Inr (person, party)
        | Some info \<Rightarrow>
            bind_res (text_or_none (dict_get info ''person_id'')) (\<lambda>i.
            bind_res (if party \<noteq> [] then Inr party else text_or_none (dict_get info ''party'')) (\<lambda>p. Inr (i, p))))"

definition read_voter :: "federal_cache \<Rightarrow> bool \<Rightarrow> json \<Rightarrow> voter res" where
  "read_voter fc is_federal v =
     bind_res (attr_get v ''option'' (JStr [])) (\<lambda>o'. bind_res (json_lower o') (\<lambda>option.
     bind_res (attr_get v ''voter_name'' (JStr ''Unknown'')) (\<lambda>n.
     bind_res (attr_get v ''voter'' (JObj [])) (\<lambda>obj.
     bind_res (case (obj, n) of
         (JObj o', JStr s) \<Rightarrow> voter_object obj (s, [])
       | (JObj o', _) \<Rightarrow> if truthy (dict_get o' ''name'') then voter_object obj ([], []) else Inl TypeError
       | (_, JStr s) \<Rightarrow> Inr (s, [], []) | _ \<Rightarrow> Inl TypeError) (\<lambda>(name, person, party).
     bind_res (from_cache fc is_federal name person party) (\<lambda>(person, party).
       Inr \<lparr>v_option = option, v_name = name, v_person = person, v_party = party\<rparr>))))))"

definition alphabetic :: "string \<Rightarrow> bool" where
  "alphabetic s = (s \<noteq> [] \<and> list_all is_letter s)"

definition name_code :: "string \<Rightarrow> string" where
  "name_code jurisdiction_name = (if length jurisdiction_name \<ge> 2 then take 2 (upper jurisdiction_name) else [])"

definition with_party :: "string \<Rightarrow> string \<Rightarrow> string \<Rightarrow> string" where
  "with_party name party_abbrev state_code =
     (if alphabetic state_code then name @ '' ('' @ party_abbrev @ ''-'' @ state_code @ '')''
      else name @ '' ('' @ party_abbrev @ '')'')"

definition federal_state :: "federal_cache \<Rightarrow> string \<Rightarrow> string res" where
  "federal_state fc name = (case lookup_with_info fc name of
      None \<Rightarrow> Inr [] | Some info \<Rightarrow> text_or_none (case map_of info ''state'' of None \<Rightarrow> JStr [] | Some v \<Rightarrow> v))"

definition voter_text ::
  "(json \<times> json \<times> json) list \<Rightarrow> federal_cache \<Rightarrow> bool \<Rightarrow> string \<Rightarrow> voter \<Rightarrow> string res" where
  "voter_text m fc is_federal jurisdiction_name v =
     (let name = v_name v; abbrev = (if v_party v = [] then [] else party_letter (v_party v));
          tagged = ''['' @ v_person v @ '']'' @ name in
      if starts_with ''ocd-person/'' (v_person v) then
        (if party_suffix name then Inr tagged
         else if abbrev \<noteq> [] then
           bind_res (if is_federal then federal_state fc name else Inr (name_code jurisdiction_name)) (\<lambda>state.
             Inr (with_party tagged abbrev state))
         else Inr tagged)
      else if party_suffix name then Inr name
      else if abbrev \<noteq> [] then Inr (with_party name abbrev (name_code jurisdiction_name))
      else Inr (format_voter_with_link m (v_person v) name))"

section \<open>One vote\<close>

record tally =
  yes_voters :: "string list"
  no_voters :: "string list"
  other_voters :: "(string \<times> string list) list"
  voter_ids :: "string list"

definition add_voter :: "string \<Rightarrow> string \<Rightarrow> tally \<Rightarrow> tally" where
  "add_voter option line t =
     (if option = ''yes'' then t\<lparr>yes_voters := yes_voters t @ [line]\<rparr>
      else if option = ''no'' then t\<lparr>no_voters := no_voters t @ [line]\<rparr>
      else t\<lparr>other_voters := dict_set option ((case map_of (other_voters t) option of None \<Rightarrow> [] | Some xs \<Rightarrow> xs) @ [line])
             (other_voters t)\<rparr>)"

definition add_id :: "string \<Rightarrow> tally \<Rightarrow> tally" where
  "add_id person t = (if person = [] \<or> person \<in> set (voter_ids t) then t else t\<lparr>voter_ids := voter_ids t @ [person]\<rparr>)"

fun count_voters ::
  "(json \<times> json \<times> json) list \<Rightarrow> federal_cache \<Rightarrow> bool \<Rightarrow> string \<Rightarrow> json list \<Rightarrow> tally \<Rightarrow> tally res" where
  "count_voters m fc is_federal jurisdiction_name [] t = Inr t"
| "count_voters m fc is_federal jurisdiction_name (x # xs) t =
     bind_res (read_voter fc is_federal x) (\<lambda>v.
     bind_res (voter_text m fc is_federal jurisdiction_name v) (\<lambda>line.
       count_voters m fc is_federal jurisdiction_name xs (add_voter (v_option v) line (add_id (v_person v) t))))"

text \<open>The counts: the first count for yes and for no, and the sum of the others.\<close>

fun count_for :: "string \<Rightarrow> json list \<Rightarrow> json res" where
  "count_for option [] = Inr (JInt 0)"
| "count_for option (c # cs) =
     bind_res (attr_get c ''option'' JNull) (\<lambda>o'.
       if o' = JStr option then attr_get c ''value'' (JInt 0) else count_for option cs)"

fun other_count :: "json list \<Rightarrow> int res" where
  "other_count [] = Inr 0"
| "other_count (c # cs) =
     bind_res (attr_get c ''option'' JNull) (\<lambda>o'.
     bind_res (if o' = JStr ''yes'' \<or> o' = JStr ''no'' then Inr 0 else bind_res (attr_get c ''value'' (JInt 0)) json_number) (\<lambda>n.
     bind_res (other_count cs) (\<lambda>k. Inr (n + k))))"

definition listed_lines :: "string \<Rightarrow> nat \<Rightarrow> string list \<Rightarrow> string list" where
  "listed_lines label most voters =
     (if voters = [] then []
      else [''**'' @ label @ '' ('' @ int_str (int (length voters)) @ ''):** '' @ commas (take most voters)] @
        (if length voters > most then [''  ...and '' @ int_str (int (length voters - most)) @ '' others''] else []))"

definition display_option :: "string \<Rightarrow> string" where
  "display_option option = title_text (map (\<lambda>c. if c = CHR ''_'' then CHR '' '' else c) option)"

definition tally_lines :: "tally \<Rightarrow> string list" where
  "tally_lines t = listed_lines ''Voted Yes'' 100 (yes_voters t) @ listed_lines ''Voted No'' 100 (no_voters t) @
     concat (map (\<lambda>(option, voters). listed_lines (display_option option) 50 voters) (other_voters t))"

definition org_field :: "json \<Rightarrow> string \<Rightarrow> json \<Rightarrow> json \<Rightarrow> json" where
  "org_field org k dflt otherwise = (case org of JObj d \<Rightarrow> (case map_of d k of None \<Rightarrow> dflt | Some v \<Rightarrow> v) | _ \<Rightarrow> otherwise)"

definition chamber_line :: "json \<Rightarrow> string list res" where
  "chamber_line chamber = (if \<not> truthy chamber then Inr []
     else bind_res (case chamber of JStr s \<Rightarrow> Inr s | _ \<Rightarrow> Inl (OtherError ''AttributeError'')) (\<lambda>s. Inr [''**Chamber:** '' @ title_text s]))"

definition json_upper :: "json \<Rightarrow> string res" where
  "json_upper v = (case v of JStr s \<Rightarrow> Inr (upper s) | _ \<Rightarrow> Inl (OtherError ''AttributeError''))"

record vote_state =
  vs_lines :: "string list"
  vs_ids :: "string list"
  vs_orgs :: "json list"

definition vote_lines ::
  "(json \<times> json \<times> json) list \<Rightarrow> federal_cache \<Rightarrow> json \<Rightarrow> json \<Rightarrow> vote_state \<Rightarrow> vote_state res" where
  "vote_lines m fc jurisdiction_name vote w =
     bind_res (attr_get vote ''motion_text'' (JStr ''Vote'')) (\<lambda>motion.
     bind_res (attr_get vote ''result'' (JStr ''Unknown'')) (\<lambda>result.
     bind_res (attr_get vote ''start_date'' (JStr ''Unknown date'')) (\<lambda>vote_date.
     bind_res (attr_get vote ''organization'' (JObj [])) (\<lambda>org.
     bind_res (bind_res (attr_get vote ''counts'' (JArr [])) json_iter) (\<lambda>counts.
     bind_res (count_for ''yes'' counts) (\<lambda>yes. bind_res (count_for ''no'' counts) (\<lambda>no.
     bind_res (other_count counts) (\<lambda>others.
     bind_res (chamber_line (org_field org ''classification'' (JStr []) (JStr []))) (\<lambda>chamber.
     bind_res (json_upper result) (\<lambda>r.
     bind_res (attr_get vote ''votes'' (JArr [])) (\<lambda>votes.
     bind_res (if \<not> truthy votes then Inr \<lparr>yes_voters = [], no_voters = [], other_voters = [], voter_ids = vs_ids w\<rparr>
               else bind_res (json_lower jurisdiction_name) (\<lambda>j. bind_res (json_iter votes) (\<lambda>xs.
                 count_voters m fc (j = ''us'' \<or> j = ''united states'') (json_str jurisdiction_name) xs
                   \<lparr>yes_voters = [], no_voters = [], other_voters = [], voter_ids = vs_ids w\<rparr>))) (\<lambda>t.
     let org_id = org_field org ''id'' (JStr []) (JStr []) in
       Inr \<lparr>vs_lines = vs_lines w @
              [[newline] @ ''### '' @ json_str (org_field org ''name'' (JStr ''Unknown'') (JStr ''Unknown'')) @ '' - '' @ json_str vote_date] @
              chamber @ [''**Motion:** '' @ json_str motion,
                ''**Result:** '' @ r @ '' (Yes: '' @ json_str yes @ '', No: '' @ json_str no @ '', Other: '' @ int_str others @ '')''] @
              tally_lines t,
            vs_ids = voter_ids t,
            vs_orgs = (if truthy org_id \<and> org_id \<notin> set (vs_orgs w) then vs_orgs w @ [org_id] else vs_orgs w)\<rparr>))))))))))))"

fun all_votes ::
  "(json \<times> json \<times> json) list \<Rightarrow> federal_cache \<Rightarrow> json \<Rightarrow> json list \<Rightarrow> vote_state \<Rightarrow> vote_state res" where
  "all_votes m fc jurisdiction_name [] w = Inr w"
| "all_votes m fc jurisdiction_name (v # vs) w =
     bind_res (vote_lines m fc jurisdiction_name v w) (all_votes m fc jurisdiction_name vs)"

section \<open>The document\<close>

definition vote_header :: "json \<Rightarrow> json \<Rightarrow> string option \<Rightarrow> json \<Rightarrow> string list" where
  "vote_header identifier title ddp_url jurisdiction_name =
     (case ddp_url of
        Some u \<Rightarrow> [''## Voting Record: ['' @ json_str identifier @ '']('' @ u @ '')'', ''**Bill Title:** ['' @ json_str title @ '']('' @ u @ '')'']
      | None \<Rightarrow> [''## Voting Record: '' @ json_str identifier, ''**Bill Title:** '' @ json_str title]) @
     [''**Jurisdiction:** '' @ json_str jurisdiction_name]"

definition ids_metadata :: "json \<Rightarrow> json \<Rightarrow> vote_state \<Rightarrow> (string \<times> json) list" where
  "ids_metadata bill jurisdiction_id w =
     (let with_ids = filter (starts_with ''ocd-person/'') (vs_ids w) in
      [(''openstates_bill_id'', bill), (''openstates_jurisdiction_id'', jurisdiction_id),
       (''openstates_organization_ids'', JArr (vs_orgs w)), (''voter_count'', JInt (int (length (vs_ids w)))),
       (''voters_with_person_ids'', JInt (int (length with_ids))),
       (''voters_without_person_ids'', JInt (int (length (vs_ids w) - length with_ids))),
       (''voter_person_ids'', JArr (map JStr (take 200 with_ids)))])"

definition format_bill_votes_chunk ::
  "(json \<times> json \<times> json) list \<Rightarrow> federal_cache \<Rightarrow> json \<Rightarrow> string option \<Rightarrow> (string \<times> (string \<times> json) list) option res" where
  "format_bill_votes_chunk m fc bill_data ddp_url =
     bind_res (attr_get bill_data ''votes'' (JArr [])) (\<lambda>votes.
       if \<not> truthy votes then Inr None
       else bind_res (attr_get bill_data ''identifier'' (JStr ''Unknown'')) (\<lambda>identifier.
         bind_res (attr_get bill_data ''title'' (JStr ''Unknown Bill'')) (\<lambda>title.
         bind_res (attr_get bill_data ''id'' (JStr [])) (\<lambda>bill.
         bind_res (attr_get bill_data ''jurisdiction'' (JObj [])) (\<lambda>j.
         bind_res (json_iter votes) (\<lambda>vs.
         let jurisdiction_name = (case j of JObj d \<Rightarrow> (case map_of d ''name'' of None \<Rightarrow> JStr ''Unknown'' | Some v \<Rightarrow> v) | _ \<Rightarrow> JStr (json_str j));
             jurisdiction_id = org_field j ''id'' (JStr []) (JStr []) in
         bind_res (all_votes m fc jurisdiction_name vs
             \<lparr>vs_lines = vote_header identifier title ddp_url jurisdiction_name, vs_ids = [], vs_orgs = []\<rparr>) (\<lambda>w.
           Inr (Some (join [newline] (vs_lines w), ids_metadata bill jurisdiction_id w)))))))))"

section \<open>The metadata of a bill\<close>

text \<open>The status by the first group of classifications that occurs.\<close>

definition any_in :: "string list \<Rightarrow> json \<Rightarrow> bool res" where
  "any_in names v = foldr (\<lambda>n rest. bind_res (str_in n v) (\<lambda>b. if b then Inr True else rest)) names (Inr False)"

definition status_of_classes :: "json \<Rightarrow> string res" where
  "status_of_classes v =
     bind_res (any_in [''became-law'', ''governor-signed''] v) (\<lambda>a. if a then Inr ''signed'' else
     bind_res (any_in [''passed''] v) (\<lambda>b. if b then Inr ''passed'' else
     bind_res (any_in [''failed'', ''vetoed''] v) (\<lambda>c. if c then Inr ''failed'' else
     bind_res (any_in [''introduced'', ''filed''] v) (\<lambda>d. if d then Inr ''introduced'' else
     bind_res (any_in [''referred-to-committee''] v) (\<lambda>e. Inr (if e then ''in_committee'' else ''unknown''))))))"

definition first_200 :: "json \<Rightarrow> json res" where
  "first_200 v = (case v of JStr s \<Rightarrow> Inr (JStr (take 200 s)) | JArr xs \<Rightarrow> Inr (JArr (take 200 xs)) | _ \<Rightarrow> Inl TypeError)"

text \<open>\<open>isoformat\<close> of a date, with years of four digits.\<close>

definition two_digits :: "int \<Rightarrow> string" where
  "two_digits n = (if n < 10 then ''0'' else []) @ int_str n"

definition day_of :: "date \<Rightarrow> int" where
  "day_of d = ordinal d - ymd_ordinal (year_of d) (month_of d) 1 + 1"

definition iso_date :: "date \<Rightarrow> string" where
  "iso_date d = (let y = int_str (year_of d) in replicate (4 - length y) (CHR ''0'') @ y @ ''-'' @
     two_digits (month_of d) @ ''-'' @ two_digits (day_of d))"

definition extract_metadata_from_openstates :: "json \<Rightarrow> json \<Rightarrow> date \<Rightarrow> (string \<times> json) list res" where
  "extract_metadata_from_openstates bill_data webflow_bill_id today =
     bind_res (attr_get bill_data ''latest_action'' (JObj [])) (\<lambda>action.
     bind_res (if truthy action then attr_get action ''classification'' (JArr []) else Inr (JArr [])) (\<lambda>classes.
     bind_res (status_of_classes classes) (\<lambda>status.
     bind_res (if truthy action then attr_get action ''date'' JNull else Inr JNull) (\<lambda>adate.
     bind_res (if truthy action then bind_res (attr_get action ''description'' (JStr [])) first_200 else Inr JNull) (\<lambda>desc.
     bind_res (attr_get bill_data ''id'' JNull) (\<lambda>i.
       Inr [(''webflow_id'', webflow_bill_id), (''bill_status'', JStr status), (''latest_action_date'', adate),
            (''latest_action_description'', desc), (''openstates_id'', i), (''last_synced'', JStr (iso_date today))]))))))"

end
