(* ===== verification/BillBatches.thy ===== *)
theory BillBatches
  imports VoteDocument RedisStore
begin

text \<open>
  One bill and the two batches of \<open>pipelines/bill_sync.py\<close>: \<open>sync_bill\<close> writes the document of the votes,
  \<open>sync_current_session_bills\<close> takes the bills of the current sessions, \<open>backload_all_bills\<close> all of them. What a bill
  raises outside of \<open>sync_bill\<close>'s own handler ends the batch.
\<close>

section \<open>One bill\<close>

record sync_result =
  sr_bill :: json
  sr_jurisdiction :: string
  sr_success :: bool
  sr_chunks :: nat
  sr_error :: "string option"

definition failed_sync :: "json \<Rightarrow> string \<Rightarrow> string \<Rightarrow> sync_result" where
  "failed_sync bill code e = \<lparr>sr_bill = bill, sr_jurisdiction = code, sr_success = False, sr_chunks = 0, sr_error = Some e\<rparr>"

definition ddp_bill_url :: "json \<Rightarrow> string option" where
  "ddp_bill_url slug = (if truthy slug then Some (''https://digitaldemocracyproject.org/bills/'' @ json_str slug) else None)"

definition vote_info ::
  "string \<Rightarrow> string \<Rightarrow> json \<Rightarrow> json \<Rightarrow> string \<Rightarrow> openstates_url \<Rightarrow> nat \<Rightarrow> (string \<times> json) list \<Rightarrow> (string \<times> json) list \<Rightarrow> doc_info" where
  "vote_info stamp src webflow_bill_id bill_title code parsed vote_count extra_metadata ids =
     (new_info stamp (''bill-votes-'' @ json_str webflow_bill_id) ''bill-votes'' src)
       \<lparr>di_title := JStr (json_str bill_title @ '' - Voting Record''), di_jurisdiction := JStr code,
        di_bill := JStr (ou_bill parsed), di_url := JStr (ou_original parsed),
        di_extra := dict_update extra_metadata ((''vote_count'', JInt (int vote_count)) #
          map (\<lambda>k. (k, dict_get ids k)) [''openstates_bill_id'', ''openstates_jurisdiction_id'', ''openstates_organization_ids'',
            ''voter_count'', ''voter_person_ids''])\<rparr>"

definition on_pipeline ::
  "(pipeline_state \<Rightarrow> ('n, 'r, pipeline_state \<times> 'a) act) \<Rightarrow> ('n, 'r, sync_object, 'a) meth" where
  "on_pipeline f st = bnd (f (so_pipeline st)) (\<lambda>(p, x). ret (st\<lparr>so_pipeline := p\<rparr>, Inr x))"

definition json_length :: "json \<Rightarrow> nat" where
  "json_length v = (case v of JArr xs \<Rightarrow> length xs | JObj d \<Rightarrow> length d | JStr s \<Rightarrow> length s | _ \<Rightarrow> 0)"

text \<open>The chunks of the document of the votes; no votes, no document.\<close>

definition ingest_votes ::
  "('n, 'r) host \<Rightarrow> ('n, 't) services \<Rightarrow> json \<Rightarrow> json \<Rightarrow> json \<Rightarrow> string \<Rightarrow> string \<Rightarrow> openstates_url \<Rightarrow> json \<Rightarrow> (string \<times> json) list \<Rightarrow>
   ('n, 'r, sync_object, nat) meth" where
  "ingest_votes H E bill_data webflow_bill_id bill_title code src parsed slug extra_metadata =
     mbind (mget (\<lambda>st. format_bill_votes_chunk (legislator_cache st) (ensure_loaded (federal_file E) (so_federal st))
         bill_data (ddp_bill_url slug))) (\<lambda>chunk.
     mbind (mres chunk) (\<lambda>c. case c of
         None \<Rightarrow> mret 0
       | Some (t, ids) \<Rightarrow>
           mbind (mres (attr_get bill_data ''votes'' (JArr []))) (\<lambda>votes.
           mbind (outer (current (\<lambda>s. n_stamp (network H) (net s)))) (\<lambda>stamp.
           mbind (on_pipeline (ingest_document H (ingest E) t
               (vote_info stamp src webflow_bill_id bill_title code parsed (json_length votes) extra_metadata ids) False)) (\<lambda>r.
             mret (chunks_created r))))))"

definition with_slug :: "json \<Rightarrow> (string \<times> json) list \<Rightarrow> (string \<times> json) list" where
  "with_slug slug d = (if truthy slug then dict_set ''slug'' slug d else d)"

definition sync_bill ::
  "('n, 'r) host \<Rightarrow> ('n, 't) services \<Rightarrow> json \<Rightarrow> json \<Rightarrow> json \<Rightarrow> string \<Rightarrow> json \<Rightarrow> ('n, 'r, sync_object, sync_result) meth" where
  "sync_bill H E openstates_url webflow_bill_id bill_title code slug =
     mbind (mres (parse_url openstates_url)) (\<lambda>p. case p of
         None \<Rightarrow> mret (failed_sync webflow_bill_id code (''Invalid OpenStates URL: '' @ json_str openstates_url))
       | Some parsed \<Rightarrow>
           mbind (fetch_bill_from_openstates H E (ou_jurisdiction parsed) (ou_session parsed) (ou_bill parsed)) (\<lambda>data.
             if \<not> truthy_opt data then mret (failed_sync webflow_bill_id code ''Bill not found in OpenStates'')
             else let bill_data = (case data of None \<Rightarrow> JNull | Some v \<Rightarrow> v) in
               mbind (outer (current (\<lambda>s. today_of E (net s)))) (\<lambda>today.
               mbind (mres (extract_metadata_from_openstates bill_data webflow_bill_id today)) (\<lambda>md.
               mbind (outer (source_name H code)) (\<lambda>src.
               mtry (ingest_votes H E bill_data webflow_bill_id bill_title code src parsed slug (with_slug slug md))
                 (\<lambda>e. mret (failed_sync webflow_bill_id code (fault_text e)))
                 (\<lambda>n. mret \<lparr>sr_bill = webflow_bill_id, sr_jurisdiction = code, sr_success = True, sr_chunks = n, sr_error = None\<rparr>))))))"

section \<open>The rows of the content service\<close>

record bill_row =
  row_fields :: "(string \<times> json) list"
  row_id :: json
  row_title :: json
  row_openstates_url :: json
  row_session_year :: string
  row_session_code :: json
  row_jurisdiction_id :: json
  row_slug :: json

definition read_row :: "json \<Rightarrow> bill_row res" where
  "read_row bill =
     bind_res (attr_get bill ''fieldData'' (JObj [])) (\<lambda>f. case f of
         JObj d \<Rightarrow> bind_res (attr_get bill ''id'' (JStr [])) (\<lambda>i.
           let field = (\<lambda>k. case map_of d k of None \<Rightarrow> JStr [] | Some v \<Rightarrow> v) in
           Inr \<lparr>row_fields = d, row_id = i, row_title = (case map_of d ''name'' of None \<Rightarrow> JStr ''Unknown'' | Some v \<Rightarrow> v),
                row_openstates_url = field ''open-states-url-2'', row_session_year = json_str (field ''bill-session''),
                row_session_code = field ''session-code'', row_jurisdiction_id = field ''jurisdiction'', row_slug = field ''slug''\<rparr>)
       | _ \<Rightarrow> Inl (OtherError ''AttributeError''))"

definition row_code :: "bill_row \<Rightarrow> string res" where
  "row_code x = resolve_jurisdiction_code (row_jurisdiction_id x) (row_openstates_url x)"

fun codes_of :: "json list \<Rightarrow> string list res" where
  "codes_of [] = Inr []"
| "codes_of (b # bs) = bind_res (bind_res (read_row b) row_code) (\<lambda>c. bind_res (codes_of bs) (\<lambda>cs.
     Inr (if c = [] then cs else List.insert c cs)))"

text \<open>What an unreachable jurisdiction raises is logged; the calendar gets the sessions of the others.\<close>

definition collect_info ::
  "('n, 'r) host \<Rightarrow> ('n, 't) services \<Rightarrow> string \<Rightarrow> (string \<times> live_session list) list \<Rightarrow>
   ('n, 'r, sync_object, (string \<times> live_session list) list) meth" where
  "collect_info H E code acc =
     mtry (get_jurisdiction_info H E code) (\<lambda>_. mret acc) (\<lambda>info. mret (case info of
         None \<Rightarrow> acc | Some i \<Rightarrow> acc @ [(code, map live_part (ji_sessions i))]))"

definition warm_calendar :: "('n, 'r) host \<Rightarrow> ('n, 't) services \<Rightarrow> string list \<Rightarrow> ('n, 'r, sync_object, unit) meth" where
  "warm_calendar H E codes =
     mbind (mfold (collect_info H E) codes []) (\<lambda>data.
       mput (\<lambda>st. st\<lparr>so_calendar := fst (warm_cache (so_calendar st) data)\<rparr>))"

definition mark_active :: "('n, 'r) host \<Rightarrow> string list \<Rightarrow> ('n, 'r, unit) act" where
  "mark_active H codes = for_each (\<lambda>c _. on_store (\<lambda>r. ((), add_active_jurisdiction (redis_client H) c r))) codes ()"

section \<open>The batches\<close>

record sync_batch =
  sb_total :: nat
  sb_successful :: nat
  sb_failed :: nat
  sb_chunks :: nat
  sb_errors :: "string list"

definition add_sync :: "json \<Rightarrow> sync_result \<Rightarrow> sync_batch \<Rightarrow> sync_batch" where
  "add_sync title r w =
     (if sr_success r then w\<lparr>sb_successful := Suc (sb_successful w), sb_chunks := sb_chunks w + sr_chunks r\<rparr>
      else w\<lparr>sb_failed := Suc (sb_failed w),
             sb_errors := sb_errors w @ (case sr_error r of Some (c # cs) \<Rightarrow> [json_str title @ '': '' @ c # cs] | _ \<Rightarrow> [])\<rparr>)"

definition wanted_now :: "('n, 'r) host \<Rightarrow> ('n, 't) services \<Rightarrow> bill_row \<Rightarrow> string \<Rightarrow> ('n, 'r, sync_object, bool) meth" where
  "wanted_now H E x code =
     (if \<not> truthy (row_openstates_url x) then mret False
      else mbind (is_current_session H E (row_session_year x) (row_session_code x) code) (\<lambda>b.
        if b then should_sync_jurisdiction E code else mret False))"

definition sync_row ::
  "('n, 'r) host \<Rightarrow> ('n, 't) services \<Rightarrow> ('n, 'r, unit) act option \<Rightarrow> json \<Rightarrow> sync_batch \<Rightarrow> ('n, 'r, sync_object, sync_batch) meth" where
  "sync_row H E beat bill w =
     mbind (mres (read_row bill)) (\<lambda>x. mbind (mres (row_code x)) (\<lambda>code.
     mbind (wanted_now H E x code) (\<lambda>b.
       if \<not> b then mret w
       else mbind (sync_bill H E (row_openstates_url x) (row_id x) (row_title x) code (row_slug x)) (\<lambda>r.
         let w = add_sync (row_title x) r w in
         mbind (outer (case beat of
             None \<Rightarrow> ret ()
           | Some m \<Rightarrow> if (sb_successful w + sb_failed w) mod 10 = 0 then m else ret ())) (\<lambda>_. mret w)))))"

definition sync_current_session_bills ::
  "('n, 'r) host \<Rightarrow> ('n, 't) services \<Rightarrow> nat \<Rightarrow> json list \<Rightarrow> ('n, 'r, unit) act option \<Rightarrow> ('n, 'r, sync_object, sync_batch) meth" where
  "sync_current_session_bills H E fuel bills beat =
     mbind (build_legislator_mapping H E fuel) (\<lambda>_.
     mbind (mres (codes_of bills)) (\<lambda>codes.
     mbind (warm_calendar H E codes) (\<lambda>_.
     mbind (outer (mark_active H codes)) (\<lambda>_.
       mfold (sync_row H E beat) bills
         \<lparr>sb_total = length bills, sb_successful = 0, sb_failed = 0, sb_chunks = 0, sb_errors = []\<rparr>))))"

text \<open>\<open>jurisdiction_id[:8]\<close> stands in for an unknown code.\<close>

definition code_or_start :: "bill_row \<Rightarrow> string \<Rightarrow> string res" where
  "code_or_start x code =
     (if code \<noteq> [] then Inr code
      else case row_jurisdiction_id x of JStr s \<Rightarrow> Inr (take 8 s) | _ \<Rightarrow> Inl TypeError)"

definition backload_row :: "('n, 'r) host \<Rightarrow> ('n, 't) services \<Rightarrow> json \<Rightarrow> sync_batch \<Rightarrow> ('n, 'r, sync_object, sync_batch) meth" where
  "backload_row H E bill w =
     mbind (mres (read_row bill)) (\<lambda>x. mbind (mres (bind_res (row_code x) (code_or_start x))) (\<lambda>code.
       if \<not> truthy (row_openstates_url x) then mret w
       else mbind (sync_bill H E (row_openstates_url x) (row_id x) (row_title x) code (row_slug x)) (\<lambda>r.
         mret (add_sync (row_title x) r w))))"

text \<open>Counting the bills with an address reads the fields of every bill first.\<close>

fun count_addresses :: "json list \<Rightarrow> nat res" where
  "count_addresses [] = Inr 0"
| "count_addresses (b # bs) =
     bind_res (bind_res (attr_get b ''fieldData'' (JObj [])) (\<lambda>f. attr_get f ''open-states-url-2'' JNull)) (\<lambda>u.
     bind_res (count_addresses bs) (\<lambda>n. Inr (if truthy u then Suc n else n)))"

definition backload_all_bills ::
  "('n, 'r) host \<Rightarrow> ('n, 't) services \<Rightarrow> nat \<Rightarrow> json list \<Rightarrow> ('n, 'r, sync_object, sync_batch) meth" where
  "backload_all_bills H E fuel bills =
     mbind (build_legislator_mapping H E fuel) (\<lambda>_.
     mbind (mres (count_addresses bills)) (\<lambda>_.
       mfold (backload_row H E) bills
         \<lparr>sb_total = length bills, sb_successful = 0, sb_failed = 0, sb_chunks = 0, sb_errors = []\<rparr>))"

end
