(* ===== verification/VersionBatches.thy ===== *)
theory VersionBatches
  imports VersionUpdate BillBatches
begin

text \<open>
  The two batches of \<open>pipelines/bill_version.py\<close> over the rows of the content service: \<open>sync_bill_versions\<close> checks the
  bills of the current sessions, \<open>sync_bill_statuses\<close> only writes their status. Both count what they did; what a bill
  raises in its check is counted as failed, what a row raises before its check ends the batch.
\<close>

section \<open>The counters\<close>

record version_batch =
  vb_total :: nat
  vb_checked :: nat
  vb_updated :: nat
  vb_unchanged :: nat
  vb_no_versions :: nat
  vb_skipped :: nat
  vb_failed :: nat
  vb_chunks :: nat
  vb_history :: nat
  vb_changelog :: nat
  vb_changelogs_skipped :: nat
  vb_surplus :: nat
  vb_webflow_updates :: nat
  vb_status_updates :: nat
  vb_webflow_skipped :: nat
  vb_patch_failures :: nat
  vb_no_action :: nat
  vb_no_url :: nat
  vb_not_current :: nat
  vb_jurisdiction :: nat
  vb_errors :: "string list"

definition new_batch :: "nat \<Rightarrow> version_batch" where
  "new_batch n = \<lparr>vb_total = n, vb_checked = 0, vb_updated = 0, vb_unchanged = 0, vb_no_versions = 0, vb_skipped = 0,
     vb_failed = 0, vb_chunks = 0, vb_history = 0, vb_changelog = 0, vb_changelogs_skipped = 0, vb_surplus = 0,
     vb_webflow_updates = 0, vb_status_updates = 0, vb_webflow_skipped = 0, vb_patch_failures = 0, vb_no_action = 0,
     vb_no_url = 0, vb_not_current = 0, vb_jurisdiction = 0, vb_errors = []\<rparr>"

definition count :: "bool \<Rightarrow> nat" where
  "count b = (if b then 1 else 0)"

definition error_line :: "json \<Rightarrow> string option \<Rightarrow> string list" where
  "error_line title e = (case e of Some (c # cs) \<Rightarrow> [json_str title @ '': '' @ c # cs] | _ \<Rightarrow> [])"

definition count_updated :: "version_check \<Rightarrow> version_batch \<Rightarrow> version_batch" where
  "count_updated x w = (let r = vc_result x in
     w\<lparr>vb_updated := Suc (vb_updated w), vb_chunks := vb_chunks w + ri_chunks r, vb_history := vb_history w + ri_history r,
       vb_changelog := vb_changelog w + ri_changelog r,
       vb_changelogs_skipped := vb_changelogs_skipped w + count (ri_changelog_skipped r),
       vb_surplus := vb_surplus w + ri_surplus r,
       vb_webflow_updates := vb_webflow_updates w + count (vc_webflow_updated x),
       vb_status_updates := vb_status_updates w + count (vc_status_updated x),
       vb_webflow_skipped := vb_webflow_skipped w + count (vc_patch_skipped x),
       vb_patch_failures := vb_patch_failures w + count (\<not> vc_webflow_updated x \<and> \<not> vc_patch_skipped x)\<rparr>)"

definition count_unchanged :: "version_check \<Rightarrow> version_batch \<Rightarrow> version_batch" where
  "count_unchanged x w =
     w\<lparr>vb_unchanged := Suc (vb_unchanged w), vb_status_updates := vb_status_updates w + count (vc_status_updated x),
       vb_webflow_skipped := vb_webflow_skipped w + count (vc_patch_skipped x),
       vb_patch_failures := vb_patch_failures w + count (\<not> vc_status_updated x \<and> \<not> vc_patch_skipped x)\<rparr>"

definition count_partial :: "json \<Rightarrow> version_check \<Rightarrow> version_batch \<Rightarrow> version_batch" where
  "count_partial title x w =
     w\<lparr>vb_updated := Suc (vb_updated w), vb_webflow_updates := vb_webflow_updates w + count (vc_webflow_updated x),
       vb_status_updates := vb_status_updates w + count (vc_status_updated x),
       vb_errors := vb_errors w @ error_line title (vc_error x)\<rparr>"

definition count_failure :: "json \<Rightarrow> string \<Rightarrow> version_batch \<Rightarrow> version_batch" where
  "count_failure title e w = w\<lparr>vb_failed := Suc (vb_failed w), vb_errors := vb_errors w @ [json_str title @ '': '' @ e]\<rparr>"

text \<open>The counters after a check, and whether it counts against the limit of the run.\<close>

definition count_check :: "json \<Rightarrow> version_check \<Rightarrow> version_batch \<Rightarrow> version_batch \<times> nat" where
  "count_check title x w =
     (let w = w\<lparr>vb_checked := Suc (vb_checked w)\<rparr> in
      case vc_status x of
        Updated \<Rightarrow> (count_updated x w, 1)
      | Unchanged \<Rightarrow> (count_unchanged x w, 0)
      | Partial \<Rightarrow> (count_partial title x w, 0)
      | NoVersions \<Rightarrow> (w\<lparr>vb_no_versions := Suc (vb_no_versions w)\<rparr>, 0)
      | CheckError \<Rightarrow> (w\<lparr>vb_failed := Suc (vb_failed w), vb_errors := vb_errors w @ error_line title (vc_error x)\<rparr>, 0))"

definition skip_bill :: "version_batch \<Rightarrow> version_batch" where
  "skip_bill w = w\<lparr>vb_skipped := Suc (vb_skipped w)\<rparr>"

definition skip_no_url :: "version_batch \<Rightarrow> version_batch" where
  "skip_no_url w = skip_bill (w\<lparr>vb_no_url := Suc (vb_no_url w)\<rparr>)"

definition skip_not_current :: "version_batch \<Rightarrow> version_batch" where
  "skip_not_current w = skip_bill (w\<lparr>vb_not_current := Suc (vb_not_current w)\<rparr>)"

definition skip_jurisdiction :: "version_batch \<Rightarrow> version_batch" where
  "skip_jurisdiction w = skip_bill (w\<lparr>vb_jurisdiction := Suc (vb_jurisdiction w)\<rparr>)"

section \<open>The versions of all bills\<close>

definition job_of :: "bill_row \<Rightarrow> string \<Rightarrow> bill_job" where
  "job_of x code = \<lparr>bj_id = row_id x, bj_title = row_title x, bj_code = code, bj_slug = row_slug x, bj_cms = row_fields x\<rparr>"

text \<open>\<open>max_updates > 0 and updates >= max_updates\<close>.\<close>

definition limit_reached :: "json \<Rightarrow> nat \<Rightarrow> bool res" where
  "limit_reached max_updates n = bind_res (json_number max_updates) (\<lambda>m. Inr (0 < m \<and> m \<le> int n))"

definition beat_when :: "('n, 'r, unit) act option \<Rightarrow> nat \<Rightarrow> ('n, 'r, sync_object, unit) meth" where
  "beat_when beat n = outer (case beat of None \<Rightarrow> ret () | Some m \<Rightarrow> if n mod 10 = 0 then m else ret ())"

definition check_row ::
  "('n, 'r) host \<Rightarrow> ('n, 't) version_services \<Rightarrow> ('n, 'r, unit) act option \<Rightarrow> bill_row \<Rightarrow> string \<Rightarrow> version_batch \<Rightarrow> nat \<Rightarrow>
   ('n, 'r, sync_object, version_batch \<times> nat) meth" where
  "check_row H V beat x code w n =
     mbind (sync_turn H) (\<lambda>_.
     mbind (mtry (outer (check_and_update_bill H V (job_of x code) (row_openstates_url x)))
         (\<lambda>e. mret (count_failure (row_title x) (fault_text e) w, 0)) (\<lambda>c. mret (count_check (row_title x) c w))) (\<lambda>(w, k).
     mbind (beat_when beat (vb_checked w)) (\<lambda>_. mret (w, n + k))))"

definition version_row ::
  "('n, 'r) host \<Rightarrow> ('n, 't) version_services \<Rightarrow> json \<Rightarrow> ('n, 'r, unit) act option \<Rightarrow> json \<Rightarrow> version_batch \<times> nat \<Rightarrow>
   ('n, 'r, sync_object, version_batch \<times> nat) meth" where
  "version_row H V max_updates beat bill acc =
     (let (w, n) = acc; E = sync_services V in
      mbind (mres (read_row bill)) (\<lambda>x. mbind (mres (row_code x)) (\<lambda>code.
      if \<not> truthy (row_openstates_url x) then mret (skip_no_url w, n)
      else mbind (is_current_session H E (row_session_year x) (row_session_code x) code) (\<lambda>current_now.
        if \<not> current_now then mret (skip_not_current w, n)
        else mbind (should_sync_jurisdiction E code) (\<lambda>today.
          if \<not> today then mret (skip_jurisdiction w, n)
          else mbind (mres (limit_reached max_updates n)) (\<lambda>full.
            if full then mret (skip_bill w, n) else check_row H V beat x code w n))))))"

definition sync_bill_versions ::
  "('n, 'r) host \<Rightarrow> ('n, 't) version_services \<Rightarrow> json list \<Rightarrow> ('n, 'r, unit) act option \<Rightarrow> ('n, 'r, sync_object, version_batch) meth" where
  "sync_bill_versions H V bills beat =
     mbind (mres (version_option V ''max_updates_per_run'' (JInt 0))) (\<lambda>max_updates.
     mbind (mres (codes_of bills)) (\<lambda>codes.
     mbind (warm_calendar H (sync_services V) codes) (\<lambda>_.
     mbind (outer (mark_active H codes)) (\<lambda>_.
     mbind (mfold (version_row H V max_updates beat) bills (new_batch (length bills), 0)) (\<lambda>(w, _). mret w)))))"

section \<open>The status of all bills\<close>

definition count_status :: "status_result \<Rightarrow> version_batch \<Rightarrow> version_batch" where
  "count_status x w =
     w\<lparr>vb_status_updates := vb_status_updates w + count (sx_status_updated x),
       vb_webflow_updates := vb_webflow_updates w + count (sx_webflow_updated x),
       vb_webflow_skipped := vb_webflow_skipped w + count (sx_patch_skipped x),
       vb_patch_failures := vb_patch_failures w +
         count (\<not> sx_webflow_updated x \<and> \<not> sx_patch_skipped x \<and> truthy (sx_latest_action x)),
       vb_no_action := vb_no_action w +
         count (\<not> sx_webflow_updated x \<and> \<not> sx_patch_skipped x \<and> \<not> truthy (sx_latest_action x)),
       vb_unchanged := Suc (vb_unchanged w)\<rparr>"

text \<open>The fetched bill; a bill that cannot be fetched is counted, and has no heartbeat.\<close>

definition fetch_row ::
  "('n, 'r) host \<Rightarrow> ('n, 't) version_services \<Rightarrow> bill_row \<Rightarrow> ('n, 'r, sync_object, string + json) meth" where
  "fetch_row H V x =
     mbind (mres (parse_url (row_openstates_url x))) (\<lambda>p. case p of
         None \<Rightarrow> mret (Inl ''Could not parse OpenStates URL'')
       | Some u \<Rightarrow> mbind (fetch_bill_from_openstates H (sync_services V) (ou_jurisdiction u) (ou_session u) (ou_bill u)) (\<lambda>data.
           mret (if truthy_opt data then Inr (the data) else Inl ''Failed to fetch from OpenStates'')))"

definition status_of_row ::
  "('n, 'r) host \<Rightarrow> ('n, 't) version_services \<Rightarrow> bill_row \<Rightarrow> json \<Rightarrow> version_batch \<Rightarrow> ('n, 'r, sync_object, version_batch) meth" where
  "status_of_row H V x data w =
     (let w = w\<lparr>vb_checked := Suc (vb_checked w)\<rparr> in
      mtry (outer (update_bill_status H V (row_id x) data (row_fields x)))
        (\<lambda>e. mret (count_failure (row_title x) (fault_text e) w)) (\<lambda>r. mret (count_status r w)))"

definition check_status_row ::
  "('n, 'r) host \<Rightarrow> ('n, 't) version_services \<Rightarrow> ('n, 'r, unit) act option \<Rightarrow> bill_row \<Rightarrow> version_batch \<Rightarrow>
   ('n, 'r, sync_object, version_batch) meth" where
  "check_status_row H V beat x w =
     (let go_on = (\<lambda>w. mbind (beat_when beat (vb_checked w)) (\<lambda>_. mret w)) in
      mbind (sync_turn H) (\<lambda>_.
      mtry (fetch_row H V x) (\<lambda>e. go_on (count_failure (row_title x) (fault_text e) w)) (\<lambda>d. case d of
          Inl e \<Rightarrow> mret (count_failure (row_title x) e w)
        | Inr data \<Rightarrow> mbind (status_of_row H V x data w) go_on)))"

definition status_row ::
  "('n, 'r) host \<Rightarrow> ('n, 't) version_services \<Rightarrow> bool \<Rightarrow> string \<Rightarrow> ('n, 'r, unit) act option \<Rightarrow> json \<Rightarrow> version_batch \<Rightarrow>
   ('n, 'r, sync_object, version_batch) meth" where
  "status_row H V all_sessions jurisdiction beat bill w =
     (let E = sync_services V in
      mbind (mres (read_row bill)) (\<lambda>x. mbind (mres (row_code x)) (\<lambda>code.
      if \<not> truthy (row_openstates_url x) then mret (skip_no_url w)
      else if jurisdiction \<noteq> [] \<and> upper code \<noteq> upper jurisdiction then mret (skip_jurisdiction w)
      else if all_sessions then check_status_row H V beat x w
      else mbind (is_current_session H E (row_session_year x) (row_session_code x) code) (\<lambda>current_now.
        if \<not> current_now then mret (skip_not_current w)
        else mbind (should_sync_jurisdiction E code) (\<lambda>today.
          if \<not> today then mret (skip_jurisdiction w) else check_status_row H V beat x w)))))"

definition sync_bill_statuses ::
  "('n, 'r) host \<Rightarrow> ('n, 't) version_services \<Rightarrow> json list \<Rightarrow> bool \<Rightarrow> string \<Rightarrow> ('n, 'r, unit) act option \<Rightarrow>
   ('n, 'r, sync_object, version_batch) meth" where
  "sync_bill_statuses H V bills all_sessions jurisdiction beat =
     mbind (if all_sessions then mret ()
         else mbind (mres (codes_of bills)) (warm_calendar H (sync_services V))) (\<lambda>_.
       mfold (status_row H V all_sessions jurisdiction beat) bills (new_batch (length bills)))"

end
