(* ===== verification/Steps.thy ===== *)
theory Steps
  imports Methods
begin

text \<open>
  What an action does to the outside, as a relation between the state before and after it. \<open>net_steps\<close> is the interface
  to a relation that every elementary step respects; \<open>moving\<close> are its rules along the structure of an action, as \<open>sending\<close>
  and \<open>ending\<close> are those of the requests and of the fuel.
\<close>

definition moves :: "('n \<Rightarrow> 'n \<Rightarrow> bool) \<Rightarrow> ('n, 'r, 'a) act \<Rightarrow> bool" where
  "moves R m = (\<forall>s. R (net s) (net (snd (m s))))"

named_theorems moving \<open>introduction rules for \<open>moves\<close>\<close>

lemma movesD: "moves R m \<Longrightarrow> m s = (x, s') \<Longrightarrow> R (net s) (net s')"
  unfolding moves_def by (metis snd_conv)

lemma movesI: "(\<And>s x s'. m s = (x, s') \<Longrightarrow> R (net s) (net s')) \<Longrightarrow> moves R m"
  unfolding moves_def by (metis prod.collapse)

lemmas [moving] = branch_intros[where Q = "moves R" for R]

lemma moves_if [moving]: "(b \<Longrightarrow> moves R m) \<Longrightarrow> (\<not> b \<Longrightarrow> moves R m') \<Longrightarrow> moves R (if b then m else m')"
  by simp

locale net_steps =
  fixes H :: "('n, 'r) host" and R :: "'n \<Rightarrow> 'n \<Rightarrow> bool"
  assumes stays: "R n n"
    and chain: "R a b \<Longrightarrow> R b c \<Longrightarrow> R a c"
    and called: "R n (snd (n_call (network H) rq n))"
    and slept: "R n (n_sleep (network H) d n)"
    and drawn: "R n (snd (n_random (network H) x y n))"
begin

lemma moves_basic [moving]:
  "moves R (ret x)" "moves R (raise e)" "moves R (lift_res y)" "moves R (now H)" "moves R (read_file H p)"
  "moves R (current f)" "moves R (json_body r)" "moves R (raise_for_status r)" "moves R (on_store g)" "moves R (release_result z)"
  by (auto simp: moves_def acts json_body_def raise_for_status_def on_store_def stays split: sum.split option.split prod.split)

lemma moves_update [moving]: "(\<And>s. net (f s) = net s) \<Longrightarrow> moves R (update f)"
  by (simp add: moves_def acts stays)

lemma moves_sleep [moving]: "moves R (sleep H d)"
  by (simp add: moves_def acts slept)

lemma moves_http [moving]: "moves R (http H rq)"
  using called unfolding moves_def http_def Let_def by (auto split: prod.split sum.split) (metis snd_conv)+

lemma moves_attempt [moving]:
  "moves R m \<Longrightarrow> (\<And>e. moves R (h e)) \<Longrightarrow> (\<And>x. moves R (f x)) \<Longrightarrow> moves R (attempt m h f)"
  unfolding moves_def acts by (auto split: prod.split sum.split) (metis chain snd_conv)+

lemma moves_bnd [moving]: "moves R m \<Longrightarrow> (\<And>x. moves R (f x)) \<Longrightarrow> moves R (bnd m f)"
  unfolding bnd_as_attempt by (intro moves_attempt moves_basic)

lemma moves_lastly [moving]: "moves R m \<Longrightarrow> (\<And>x. moves R (f x)) \<Longrightarrow> moves R (lastly m f)"
  unfolding lastly_as_attempt by (intro moving)

lemma moves_for_each [moving]: "(\<And>x acc. moves R (f x acc)) \<Longrightarrow> moves R (for_each f xs acc)"
  by (induction xs arbitrary: acc) (simp_all add: moves_basic moves_bnd)

lemma moves_caught [moving]: "moves R m \<Longrightarrow> moves R (caught m)"
  unfolding caught_def by (intro moving)

lemma moves_methods [moving]:
  "moves R (mret x st)" "moves R (mraise e st)" "moves R (mget f st)" "moves R (mput g st)" "moves R (mres y st)"
  by (simp_all add: mret_def mraise_def mget_def mput_def mres_def moves_basic split: sum.split)

lemma moves_mtry [moving]:
  "moves R (m st) \<Longrightarrow> (\<And>e st. moves R (h e st)) \<Longrightarrow> (\<And>v st. moves R (f v st)) \<Longrightarrow> moves R (mtry m h f st)"
  unfolding mtry_def by (intro moving)

lemma moves_mbind [moving]: "moves R (m st) \<Longrightarrow> (\<And>v st. moves R (f v st)) \<Longrightarrow> moves R (mbind m f st)"
  unfolding mbind_def by (intro moving)

lemma moves_outer [moving]: "moves R m \<Longrightarrow> moves R (outer m st)"
  unfolding outer_def by (intro moving)

lemma moves_part [moving]: "moves R (m (part st)) \<Longrightarrow> moves R (on_part part put m st)"
  unfolding on_part_def by (intro moving)

lemma moves_fresh [moving]: "moves R (m st) \<Longrightarrow> moves R (on_fresh st m)"
  unfolding on_fresh_def by (intro moving)

lemma moves_mfold [moving]: "(\<And>x acc st. moves R (f x acc st)) \<Longrightarrow> moves R (mfold f xs acc st)"
  by (induction xs arbitrary: acc st) (simp_all add: moves_methods moves_mbind)

lemma moves_wait_turn [moving]: "moves R (wait_turn H st)"
  unfolding wait_turn_def by (intro moving)

end

section \<open>Actions that never raise\<close>

text \<open>\<open>answers m\<close>: \<open>m\<close> gives a value, in every state. A method that keeps its exceptions as values is such an action.\<close>

definition answers :: "('n, 'r, 'a) act \<Rightarrow> bool" where
  "answers m = (\<forall>s. \<exists>v s'. m s = (Inr v, s'))"

named_theorems answering \<open>introduction rules for \<open>answers\<close>\<close>

lemma answersE:
  assumes "answers m"
  obtains v s' where "m s = (Inr v, s')"
  using assms unfolding answers_def by blast

lemma answers_basic [answering]:
  "answers (ret x)" "answers (now H)" "answers (sleep H d)" "answers (read_file H p)" "answers (current f)" "answers (update g)"
  "answers (on_store h)"
  by (auto simp: answers_def acts on_store_def split: prod.splits)

lemma answers_bnd [answering]: "answers m \<Longrightarrow> (\<And>x. answers (f x)) \<Longrightarrow> answers (bnd m f)"
  unfolding answers_def run_bnd by (metis (no_types, lifting) old.prod.case old.sum.simps(6))

lemma answers_attempt [answering]:
  assumes "ends m" "\<And>e. e \<noteq> OutOfFuel \<Longrightarrow> answers (h e)" "\<And>x. answers (f x)"
  shows "answers (attempt m h f)"
  unfolding answers_def
proof
  fix s
  obtain x s1 where "m s = (x, s1)" by (cases "m s")
  moreover have "x \<noteq> Inl OutOfFuel" using assms(1) calculation by (metis ends_def fst_conv)
  ultimately show "\<exists>v s'. attempt m h f s = (Inr v, s')"
    using assms(2,3) by (cases x) (auto simp: run_attempt answers_def)
qed

lemma answers_caught [answering]: "ends m \<Longrightarrow> answers (caught m)"
  unfolding caught_def by (intro answering; simp add: answering)

lemma answers_if [answering]: "(b \<Longrightarrow> answers m) \<Longrightarrow> (\<not> b \<Longrightarrow> answers m') \<Longrightarrow> answers (if b then m else m')"
  by simp

lemmas [answering] = branch_intros[where Q = answers]

lemma answers_methods [answering]:
  "answers (mret x st)" "answers (mraise e st)" "answers (mget f st)" "answers (mput g st)" "answers (mres y st)"
  by (simp_all add: mret_def mraise_def mget_def mput_def mres_def answers_basic split: sum.split)

lemma answers_mtry [answering]:
  "answers (m st) \<Longrightarrow> (\<And>e st. answers (h e st)) \<Longrightarrow> (\<And>v st. answers (f v st)) \<Longrightarrow> answers (mtry m h f st)"
  unfolding mtry_def by (intro answering)

lemma answers_mbind [answering]: "answers (m st) \<Longrightarrow> (\<And>v st. answers (f v st)) \<Longrightarrow> answers (mbind m f st)"
  unfolding mbind_def by (intro answering)

lemma answers_outer [answering]: "ends m \<Longrightarrow> answers (outer m st)"
  unfolding outer_def by (intro answering)

lemma answers_part [answering]: "answers (m (part st)) \<Longrightarrow> answers (on_part part put m st)"
  unfolding on_part_def by (intro answering)

lemma answers_wait_turn [answering]: "answers (wait_turn H st)"
  unfolding wait_turn_def by (intro answering ending)

end
