(* ===== verification/VectorIndex.thy ===== *)
theory VectorIndex
  imports Ingestion Steps
begin

text \<open>
  What the ingestion relies on: the laws of the vector index, as a locale over the clients and the network, with a view
  of the vectors by index, namespace and id. Inside it: what a write with its retries leaves in the index, and
  what one document leaves there. \<open>mem_index\<close> is an index that keeps the laws.
\<close>

section \<open>Chunks have distinct ids\<close>

lemma nat_str_nonempty: "nat_str n \<noteq> []"
  by (subst nat_str.simps) simp

lemma nat_str_inj: "nat_str m = nat_str n \<Longrightarrow> m = n"
proof (induction m arbitrary: n rule: nat_str.induct)
  case (1 m)
  have digit: "char_of (48 + a) = (char_of (48 + b) :: char) \<Longrightarrow> a = b" if "a < 10" "b < 10" for a b :: nat
    using that by (auto dest!: arg_cong[where f = "of_char :: char \<Rightarrow> nat"])
  consider "m < 10" "n < 10" | "m < 10" "\<not> n < 10" | "\<not> m < 10" "n < 10" | "\<not> m < 10" "\<not> n < 10" by blast
  then show ?case
  proof cases
    case 1
    with \<open>nat_str m = nat_str n\<close> show ?thesis
      by (subst (asm) (1 2) nat_str.simps) (simp add: digit)
  next
    case 4
    have "nat_str (m div 10) = nat_str (n div 10)" "char_of (48 + m mod 10) = (char_of (48 + n mod 10) :: char)"
      using \<open>nat_str m = nat_str n\<close> 4 by (subst (asm) (1 2) nat_str.simps, simp)+
    then have "m div 10 = n div 10" "m mod 10 = n mod 10"
      using 1(1)[OF 4(1)] digit[of "m mod 10" "n mod 10"] by auto
    then show ?thesis by (metis div_mult_mod_eq)
  qed (use \<open>nat_str m = nat_str n\<close> in \<open>subst (asm) (1 2) nat_str.simps, simp add: nat_str_nonempty\<close>)+
qed

lemma chunk_id_inj: "chunk_id d i = chunk_id d j \<Longrightarrow> i = j"
  by (simp add: chunk_id_def int_str_def nat_str_inj)

lemma numbered_from_indices: "numbered_from i cs \<Longrightarrow> map chunk_index cs = [i..<i + length cs]"
proof (induction cs arbitrary: i)
  case (Cons c cs)
  then have "map chunk_index cs = [Suc i..<Suc i + length cs]" by (metis numbered_from.simps(2))
  moreover have "[i..<i + length (c # cs)] = i # [Suc i..<Suc i + length cs]"
    by (subst upt_conv_Cons) (simp_all del: upt_Suc)
  ultimately show ?case using Cons.prems by simp
qed simp

lemma chunk_text_indices: "map chunk_index (chunk_text sv t md) = [0..<length (chunk_text sv t md)]"
  using chunk_by_paragraphs_inv[of sv "split_into_paragraphs (clean_text t)" md]
    numbered_from_indices[OF chunk_loop_indices[of 0 sv md "enc sv (clean_text t)" 0]]
  by (auto simp: chunk_text_def chunk_by_tokens_def numbered_def Let_def)

lemma documents_ids: "map doc_id (documents_of P text info) = map (chunk_id (di_id info)) [0..<length (chunks_of P text info)]"
proof -
  have "map doc_id (documents_of P text info) = map (chunk_id (di_id info)) (map chunk_index (chunks_of P text info))"
    by (simp add: documents_of_def chunk_document_def)
  then show ?thesis by (simp add: chunks_of_def chunk_text_indices)
qed

lemma documents_distinct: "distinct (map doc_id (documents_of P text info))"
  unfolding documents_ids by (auto simp: distinct_map inj_on_def dest: chunk_id_inj)

section \<open>The laws\<close>

type_synonym index_view = "string \<times> string \<times> string \<Rightarrow> vector option"

text \<open>The state of the index agrees with an earlier one outside of some places.\<close>

definition same_outside :: "('n \<Rightarrow> index_view) \<Rightarrow> (string \<times> string \<times> string) set \<Rightarrow> 'n \<Rightarrow> 'n \<Rightarrow> bool" where
  "same_outside view places a b = (\<forall>k. k \<notin> places \<longrightarrow> view b k = view a k)"

definition places_of :: "string \<Rightarrow> string \<Rightarrow> string set \<Rightarrow> (string \<times> string \<times> string) set" where
  "places_of ix ns ids = (\<lambda>i. (ix, ns, i)) ` ids"

lemma same_outside_refl: "same_outside view places n n"
  by (simp add: same_outside_def)

lemma same_outside_trans: "same_outside view P a b \<Longrightarrow> same_outside view P b c \<Longrightarrow> same_outside view P a c"
  by (simp add: same_outside_def)

lemma same_outside_mono: "same_outside view P a b \<Longrightarrow> P \<subseteq> Q \<Longrightarrow> same_outside view Q a b"
  by (auto simp: same_outside_def)

lemma same_outside_eq: "view b = view a \<Longrightarrow> same_outside view P a b"
  by (simp add: same_outside_def)

locale vector_index =
  fixes V :: "'n vendor" and H :: "('n, 'r) host" and view :: "'n \<Rightarrow> index_view"
  assumes upserted: "index_upsert V ix ns vs n = (Inr u, n') \<Longrightarrow> distinct (map vec_id vs) \<Longrightarrow>
      view n' = view n ++ map_of (map (\<lambda>v. ((ix, ns, vec_id v), v)) vs)"
    and upsert_touches: "same_outside view (places_of ix ns (vec_id ` set vs)) n (snd (index_upsert V ix ns vs n))"
    and deleted: "index_delete V ix ns (ByIds ids) n = (Inr u, n') \<Longrightarrow> view n' = view n |` (- places_of ix ns (set ids))"
    and delete_touches: "same_outside view (places_of ix ns (set ids)) n (snd (index_delete V ix ns (ByIds ids) n))"
    and other_calls: "view (snd (embed_call V texts n)) = view n" "view (snd (index_list V n)) = view n"
      "view (snd (index_create V ix n)) = view n"
    and other_steps: "view (snd (n_call (network H) rq n)) = view n" "view (n_sleep (network H) d n) = view n"
      "view (snd (n_random (network H) x y n)) = view n"

sublocale vector_index \<subseteq> outside: net_steps H "same_outside view places" for places
  by unfold_locales (auto intro: same_outside_trans simp: same_outside_def other_steps)

section \<open>Documents that only differ in their embedding\<close>

definition bare :: "document \<Rightarrow> document" where
  "bare d = d\<lparr>doc_embedding := None\<rparr>"

lemma bare_simps [simp]: "doc_id (bare d) = doc_id d" "doc_content (bare d) = doc_content d" "doc_metadata (bare d) = doc_metadata d"
  by (simp_all add: bare_def)

lemma bare_id: "map bare ds = map bare ds' \<Longrightarrow> map doc_id ds = map doc_id ds'"
proof -
  have "map doc_id ds = map doc_id (map bare ds)" for ds by simp
  then show "map bare ds = map bare ds' \<Longrightarrow> map doc_id ds = map doc_id ds'" by metis
qed

lemma bare_fill: "map bare (fill_embeddings ds es) = map bare ds"
  by (induction ds es rule: fill_embeddings.induct) (auto simp: bare_def split: list.splits)

lemma vector_of_bare: "\<exists>e. vector_of d = vector_of (bare d\<lparr>doc_embedding := e\<rparr>)"
  by (rule exI[of _ "doc_embedding d"]) (simp add: bare_def vector_of_def)

lemma vec_id_vector_of [simp]: "vec_id (vector_of d) = doc_id d"
  by (simp add: vector_of_def)

text \<open>The place of a document holds its text and metadata, under whatever embedding.\<close>

definition holds_document :: "index_view \<Rightarrow> string \<Rightarrow> string \<Rightarrow> document \<Rightarrow> bool" where
  "holds_document w ix ns d = (\<exists>e. w (ix, ns, doc_id d) = Some (vector_of (bare d\<lparr>doc_embedding := e\<rparr>)))"

lemma holds_bare: "bare d = bare d' \<Longrightarrow> holds_document w ix ns d = holds_document w ix ns d'"
  unfolding holds_document_def by (metis bare_simps(1))

lemma moves_vend: "(\<And>n. R n (snd (f n))) \<Longrightarrow> moves R (vend f)"
  by (simp add: moves_def vend_def Let_def split: prod.split) (metis snd_conv)

context vector_index begin

text \<open>Embedding and opening the index leave every place alone.\<close>

lemma quiet: "moves (same_outside view {}) m \<Longrightarrow> m s = (x, s') \<Longrightarrow> view (net s') = view (net s)"
  by (drule (1) movesD) (auto simp: same_outside_def)

lemma quiet_calls [moving]:
  "moves (same_outside view P) (vend (embed_call V texts))" "moves (same_outside view P) (vend (index_list V))"
  "moves (same_outside view P) (vend (index_create V ix))"
  by (rule moves_vend, simp add: same_outside_eq other_calls)+

lemma moves_tries [moving]:
  "(\<And>st. moves (same_outside view P) (m st)) \<Longrightarrow> moves (same_outside view P) (tries H a k m st)"
proof (induction k arbitrary: a st)
  case (Suc k)
  have "moves (same_outside view P) (tries H a k m st)" for a st using Suc by blast
  then show ?case by (simp, intro moving Suc.prems)
qed (simp, intro moving)

lemma moves_embed_all [moving]: "moves (same_outside view P) (embed_all V bs acc)"
  by (induction bs arbitrary: acc) (simp_all, (intro moving | assumption)+)

lemma moves_embed_missing [moving]: "moves (same_outside view P) (embed_missing H V docs)"
  unfolding embed_missing_def embed_documents_def embed_batch_def retried_def by (intro moving)

lemma moves_open_index [moving]:
  assumes "clients sv = V"
  shows "moves (same_outside view P) (open_index sv opened)"
  unfolding open_index_def assms by (intro moving)

lemma moves_with_index [moving]:
  "clients sv = V \<Longrightarrow> moves (same_outside view P) m \<Longrightarrow> moves (same_outside view P) (with_index sv m opened)"
  unfolding with_index_def by (intro moving)

text \<open>One write of a batch with an open index: its documents are there.\<close>

lemma holds_after_upsert:
  assumes "index_upsert V ix ns (map vector_of b') n = (Inr u, n')" "distinct (map doc_id b')" "map bare b' = map bare b" "d \<in> set b"
  shows "holds_document (view n') ix ns d"
proof -
  obtain d' where d': "d' \<in> set b'" "bare d' = bare d"
    using assms(3,4) by (metis (mono_tags, lifting) image_eqI image_iff list.set_map)
  let ?m = "map_of (map (\<lambda>v. ((ix, ns, vec_id v), v)) (map vector_of b'))"
  have "map fst (map (\<lambda>v. ((ix, ns, vec_id v), v)) (map vector_of b')) = map (\<lambda>i. (ix, ns, i)) (map doc_id b')" by simp
  then have "distinct (map fst (map (\<lambda>v. ((ix, ns, vec_id v), v)) (map vector_of b')))"
    using assms(2) by (simp add: distinct_map inj_on_def del: map_map)
  then have "?m (ix, ns, doc_id d') = Some (vector_of d')"
    using d'(1) by (intro map_of_is_SomeI) (auto simp: image_iff)
  moreover have "view n' = view n ++ ?m"
    using upserted[OF assms(1)] assms(2) by (simp add: comp_def)
  ultimately have "view n' (ix, ns, doc_id d') = Some (vector_of d')" by simp
  then show ?thesis
    using vector_of_bare[of d'] d'(2) unfolding holds_document_def by (metis bare_simps(1))
qed

lemma moves_upsert:
  "moves (same_outside view (places_of ix ns (doc_id ` set b))) (vend (index_upsert V ix ns (map vector_of b)))"
proof -
  have "vec_id ` set (map vector_of b) = doc_id ` set b" by (simp add: image_image)
  then show ?thesis using upsert_touches[of ix ns "map vector_of b"] by (intro moves_vend) metis
qed

end

context vector_index begin

lemma embed_missing_bare: "embed_missing H V b s = (Inr b', s') \<Longrightarrow> map bare b' = map bare b"
  by (auto simp: embed_missing_def acts bare_fill Let_def split: if_splits prod.splits sum.splits)

lemma holds_outside:
  assumes "holds_document (view a) ix ns d" "same_outside view (places_of ix ns ids) a b" "doc_id d \<notin> ids"
  shows "holds_document (view b) ix ns d"
proof -
  have "(ix, ns, doc_id d) \<notin> places_of ix ns ids" using assms(3) by (auto simp: places_of_def)
  then have "view b (ix, ns, doc_id d) = view a (ix, ns, doc_id d)" using assms(2) unfolding same_outside_def by blast
  with assms(1) show ?thesis by (simp add: holds_document_def)
qed

lemma with_index_result:
  assumes "clients sv = V" "with_index sv (vend f) opened s = (Inr (opened', Inr u), s')"
  obtains n where "f n = (Inr u, net s')" "view n = view (net s)"
proof -
  obtain z s1 where 1: "caught (open_index sv opened) s = (Inr (Inr z), s1)" "caught (vend f) s1 = (Inr (Inr u), s')"
    using assms(2) unfolding with_index_def
    by (auto simp: run_bnd acts split: prod.splits sum.splits if_splits)
  have "view (net s1) = view (net s)"
    using quiet[OF outside.moves_caught[OF moves_open_index[OF assms(1)]] 1(1)] by simp
  moreover have "f (net s1) = (Inr u, net s')"
    using 1(2) by (auto simp: run_caught vend_def Let_def split: prod.splits sum.splits if_splits)
  ultimately show ?thesis by (intro that[of "net s1"]) simp_all
qed

lemma upsert_pass_result:
  assumes sv: "clients sv = V"
  defines "ix \<equiv> index_name sv" and "ns \<equiv> index_namespace sv"
  shows "upsert_pass H sv earlier k (bs, opened) s = (Inr ((bs', opened'), x), s') \<Longrightarrow> distinct (map doc_id (concat bs)) \<Longrightarrow>
    map (map bare) bs' = map (map bare) (earlier @ bs) \<and>
    same_outside view (places_of ix ns (doc_id ` set (concat bs))) (net s) (net s') \<and>
    (\<forall>n. x = Inr n \<longrightarrow> n = k + length (concat bs) \<and> (\<forall>d \<in> set (concat bs). holds_document (view (net s')) ix ns d))"
proof (induction bs arbitrary: earlier k opened s)
  case Nil
  then show ?case by (auto simp: acts same_outside_refl)
next
  case (Cons b bs)
  let ?up = "\<lambda>b'. vend (index_upsert V ix ns (map vector_of b'))"
  obtain y s1 where y: "caught (embed_missing H V b) s = (Inr y, s1)"
    using Cons.prems(1) by (auto simp: run_bnd sv split: prod.splits sum.splits)
  have v1: "view (net s1) = view (net s)"
    using quiet[OF outside.moves_caught[OF moves_embed_missing] y] .
  show ?case
  proof (cases y)
    case (Inl e)
    with Cons.prems(1) y have "bs' = earlier @ b # bs" "x = Inl e" "s' = s1" by (simp_all add: run_bnd acts sv)
    with v1 show ?thesis by (simp add: same_outside_eq)
  next
    case (Inr b')
    have b': "map bare b' = map bare b"
      using y Inr embed_missing_bare[of b s b' s1] by (auto simp: run_caught split: prod.splits sum.splits if_splits)
    then have ids: "map doc_id b' = map doc_id b" by (rule bare_id)
    then have set_ids: "doc_id ` set b' = doc_id ` set b" by (metis list.set_map)
    have len: "length b' = length b" using b' by (metis length_map)
    obtain op z s2 where z: "with_index sv (?up b') opened s1 = (Inr (op, z), s2)"
      using Cons.prems(1) y Inr unfolding ix_def ns_def by (auto simp: run_bnd sv split: prod.splits sum.splits)
    have o2: "same_outside view (places_of ix ns (doc_id ` set b)) (net s) (net s2)"
      using movesD[OF moves_with_index[OF sv moves_upsert[of ix ns b']] z] v1 unfolding same_outside_def set_ids by simp
    have all: "same_outside view (places_of ix ns (doc_id ` set (concat (b # bs)))) (net s) (net s2)"
      by (rule same_outside_mono[OF o2]) (auto simp: places_of_def)
    show ?thesis
    proof (cases z)
      case z: (Inl e)
      with Cons.prems(1) y Inr \<open>with_index _ _ _ _ = _\<close> have "bs' = earlier @ b' # bs" "x = Inl e" "s' = s2"
        unfolding ix_def ns_def by (simp_all add: run_bnd acts sv)
      with all b' show ?thesis by simp
    next
      case u: (Inr u)
      then have rest: "upsert_pass H sv (earlier @ [b']) (k + length b') (bs, op) s2 = (Inr ((bs', opened'), x), s')"
        using Cons.prems(1) y Inr z unfolding ix_def ns_def by (simp add: run_bnd sv)
      have ih: "map (map bare) bs' = map (map bare) ((earlier @ [b']) @ bs)"
        "same_outside view (places_of ix ns (doc_id ` set (concat bs))) (net s2) (net s')"
        "\<And>n. x = Inr n \<Longrightarrow> n = k + length b' + length (concat bs)"
        "\<And>n d. x = Inr n \<Longrightarrow> d \<in> set (concat bs) \<Longrightarrow> holds_document (view (net s')) ix ns d"
        using Cons.IH[OF rest] Cons.prems(2) by (simp_all, blast)
      obtain n where n: "index_upsert V ix ns (map vector_of b') n = (Inr u, net s2)" "view n = view (net s1)"
        using with_index_result[OF sv z[unfolded u]] by blast
      have here: "holds_document (view (net s')) ix ns d" if "d \<in> set b" for d
      proof (rule holds_outside)
        show "holds_document (view (net s2)) ix ns d"
          using holds_after_upsert[OF n(1) _ b' that] Cons.prems(2) ids by simp
        show "same_outside view (places_of ix ns (doc_id ` set (concat bs))) (net s2) (net s')" by (rule ih(2))
        show "doc_id d \<notin> doc_id ` set (concat bs)" using Cons.prems(2) that by auto
      qed
      have "same_outside view (places_of ix ns (doc_id ` set (concat (b # bs)))) (net s2) (net s')"
        by (rule same_outside_mono[OF ih(2)]) (auto simp: places_of_def)
      with all have "same_outside view (places_of ix ns (doc_id ` set (concat (b # bs)))) (net s) (net s')"
        by (rule same_outside_trans)
      with ih here b' len show ?thesis by (auto simp: ball_Un)
    qed
  qed
qed

text \<open>Lists of batches that only differ in embeddings.\<close>

lemma same_bare:
  assumes "map (map bare) bs' = map (map bare) bs"
  shows "map bare (concat bs') = map bare (concat bs)" "map doc_id (concat bs') = map doc_id (concat bs)"
    "doc_id ` set (concat bs') = doc_id ` set (concat bs)" "length (concat bs') = length (concat bs)"
proof -
  show 1: "map bare (concat bs') = map bare (concat bs)" using assms by (simp add: map_concat)
  show "map doc_id (concat bs') = map doc_id (concat bs)" using bare_id[OF 1] .
  then show "doc_id ` set (concat bs') = doc_id ` set (concat bs)" by (metis list.set_map)
  show "length (concat bs') = length (concat bs)" using 1 by (metis length_map)
qed

lemma tries_upsert:
  assumes sv: "clients sv = V"
  defines "ix \<equiv> index_name sv" and "ns \<equiv> index_namespace sv"
  shows "tries H a k (upsert_pass H sv [] 0) (bs, opened) s = (Inr (p, x), s') \<Longrightarrow> distinct (map doc_id (concat bs)) \<Longrightarrow>
    same_outside view (places_of ix ns (doc_id ` set (concat bs))) (net s) (net s') \<and>
    (\<forall>n. x = Inr n \<longrightarrow> n = length (concat bs) \<and> (\<forall>d \<in> set (concat bs). holds_document (view (net s')) ix ns d))"
proof (induction k arbitrary: a bs opened s)
  case 0
  then show ?case by (auto simp: acts same_outside_refl)
next
  case (Suc k)
  obtain bs1 op1 y s1 where pass: "upsert_pass H sv [] 0 (bs, opened) s = (Inr ((bs1, op1), y), s1)"
    using Suc.prems(1) by (auto simp: run_bnd split: prod.splits sum.splits)
  have r: "map (map bare) bs1 = map (map bare) bs"
    "same_outside view (places_of ix ns (doc_id ` set (concat bs))) (net s) (net s1)"
    "\<And>n. y = Inr n \<Longrightarrow> n = length (concat bs)"
    "\<And>n d. y = Inr n \<Longrightarrow> d \<in> set (concat bs) \<Longrightarrow> holds_document (view (net s1)) ix ns d"
    using upsert_pass_result[OF sv pass Suc.prems(2)] unfolding ix_def ns_def by (simp_all, blast)
  show ?case
  proof (cases y)
    case (Inr n)
    with Suc.prems(1) pass have "x = Inr n" "s' = s1" by (simp_all add: run_bnd acts)
    with r Inr show ?thesis by blast
  next
    case (Inl e)
    show ?thesis
    proof (cases "k = 0")
      case True
      with Suc.prems(1) pass Inl have "\<forall>n. x \<noteq> Inr n" "s' = s1" by (auto simp: run_bnd acts)
      with r(2) show ?thesis by simp
    next
      case False
      define s2 where "s2 = snd (sleep H (retry_wait a) s1)"
      have again: "tries H (Suc a) k (upsert_pass H sv [] 0) (bs1, op1) s2 = (Inr (p, x), s')"
        using Suc.prems(1) pass Inl False by (simp add: run_bnd acts s2_def)
      have "same_outside view (places_of ix ns (doc_id ` set (concat bs))) (net s1) (net s2)"
        by (simp add: s2_def acts same_outside_eq other_steps)
      then have "same_outside view (places_of ix ns (doc_id ` set (concat bs))) (net s) (net s2)"
        by (rule same_outside_trans[OF r(2)])
      moreover have "distinct (map doc_id (concat bs1))" using Suc.prems(2) same_bare(2)[OF r(1)] by metis
      note ih = Suc.IH[OF again this]
      have "holds_document (view (net s')) ix ns d" if "x = Inr n" "d \<in> set (concat bs)" for n d
      proof -
        have "bare d \<in> set (map bare (concat bs1))" using same_bare(1)[OF r(1)] that(2) by simp
        then obtain d' where "d' \<in> set (concat bs1)" "bare d' = bare d"
          by (metis (mono_tags, lifting) image_eqI image_iff list.set_map)
        with ih that(1) show ?thesis by (metis holds_bare)
      qed
      ultimately show ?thesis
        using ih same_bare(3,4)[OF r(1)] by (metis same_outside_trans)
    qed
  qed
qed

end

lemma concat_batches: "0 < n \<Longrightarrow> concat (batches n xs) = xs"
  by (induction n xs rule: batches.induct) (subst batches.simps, auto)

context vector_index begin

lemma upsert_documents_result:
  assumes "clients sv = V" "upsert_documents H sv opened docs s = (Inr (opened', x), s')" "distinct (map doc_id docs)"
  shows "same_outside view (places_of (index_name sv) (index_namespace sv) (doc_id ` set docs)) (net s) (net s')"
    "x = Inr n \<Longrightarrow> n = length docs \<and> (\<forall>d \<in> set docs. holds_document (view (net s')) (index_name sv) (index_namespace sv) d)"
proof -
  obtain p where "tries H 1 3 (upsert_pass H sv [] 0) (batches 100 docs, opened) s = (Inr (p, x), s')"
    using assms(2) unfolding upsert_documents_def by (auto simp: run_bnd acts split: prod.splits sum.splits)
  from tries_upsert[OF assms(1) this] assms(3)
  show "same_outside view (places_of (index_name sv) (index_namespace sv) (doc_id ` set docs)) (net s) (net s')"
    "x = Inr n \<Longrightarrow> n = length docs \<and> (\<forall>d \<in> set docs. holds_document (view (net s')) (index_name sv) (index_namespace sv) d)"
    by (simp_all add: concat_batches)
qed

end

section \<open>A write gives an answer\<close>

lemma ends_vend [ending]: "ends (vend f)"
  by (auto simp: ends_def vend_def Let_def split: prod.split sum.split)

lemma answers_tries [answering]: "(\<And>st. answers (m st)) \<Longrightarrow> answers (tries H a k m st)"
proof (induction k arbitrary: a st)
  case (Suc k)
  have "answers (tries H a k m st)" for a st using Suc by blast
  then show ?case by (simp, intro answering Suc.prems)
qed (simp add: answering)

lemma tries_error: "tries H a k m st s = (Inr (st', Inl e), s') \<Longrightarrow> e = retry_error"
  by (induction k arbitrary: a st s) (auto simp: acts split: prod.splits sum.splits if_splits)

lemma ends_tries [ending]: "(\<And>st. ends (m st)) \<Longrightarrow> ends (tries H a k m st)"
proof (induction k arbitrary: a st)
  case (Suc k)
  have "ends (tries H a k m st)" for a st using Suc by blast
  then show ?case by (simp, intro ending Suc.prems)
qed (simp add: ends_ret)

lemma ends_release_tries [ending]:
  assumes "\<And>st. ends (m st)" "\<And>y. ends (f y)"
  shows "ends (bnd (tries H a k m st) (\<lambda>(_, x). bnd (release_result x) f))"
  unfolding ends_def
proof
  fix s
  obtain x s1 where run: "tries H a k m st s = (x, s1)" by (cases "tries H a k m st s")
  show "fst (bnd (tries H a k m st) (\<lambda>(_, x). bnd (release_result x) f) s) \<noteq> Inl OutOfFuel"
  proof (cases x)
    case (Inl e)
    with run endsD[OF ends_tries[OF assms(1)]] show ?thesis by (simp add: run_bnd)
  next
    case (Inr y)
    obtain st' z where "y = (st', z)" by (cases y)
    with run Inr tries_error[of H a k m st s st' _ s1] assms(2) show ?thesis
      by (cases z) (auto simp: acts retry_error_def ends_def)
  qed
qed

lemma release_bnd: "bnd (release_result x) ret = release_result x"
  by (rule ext) (simp add: acts split: sum.split)

lemma ends_retried [ending]: "ends m \<Longrightarrow> ends (retried H m)"
  unfolding retried_def by (rule ends_release_tries[where f = ret, unfolded release_bnd]) (intro ending ends_ret | simp)+

lemma ends_embed_missing [ending]: "ends (embed_missing H V docs)"
proof -
  have "ends (embed_all V bs acc)" for bs acc by (induction bs arbitrary: acc) (simp_all, (intro ending | assumption)+)
  then show ?thesis unfolding embed_missing_def embed_documents_def embed_batch_def by (intro ending)
qed

lemma ends_open_index [ending]: "ends (open_index sv opened)"
  unfolding open_index_def by (intro ending)

lemma answers_with_index [answering]: "ends m \<Longrightarrow> answers (with_index sv m opened)"
  unfolding with_index_def by (intro answering ending)

lemma answers_upsert_pass: "answers (upsert_pass H sv earlier k (bs, opened))"
proof (induction bs arbitrary: earlier k opened)
  case (Cons b bs)
  show ?case by (simp, intro answering ending Cons.IH)
qed (simp add: answering)

lemma answers_upsert_documents [answering]: "answers (upsert_documents H sv opened docs)"
proof -
  have "answers (upsert_pass H sv [] 0 p)" for p by (cases p) (simp add: answers_upsert_pass)
  then show ?thesis unfolding upsert_documents_def
    by (intro answers_bnd answers_tries) (auto split: prod.split simp: answers_basic)
qed

lemma answers_ingest [answering]: "answers (ingest_document H P body info sd st)"
  unfolding ingest_document_def by (intro answering)

section \<open>One document\<close>

context vector_index begin

lemma ingest_document_result:
  assumes "clients (vectors P) = V" "ingest_document H P body info sd st s = (Inr (st', r), s')"
  defines "ix \<equiv> index_name (vectors P)" and "ns \<equiv> index_namespace (vectors P)"
    and "ids \<equiv> chunk_id (di_id info) ` {..<length (chunks_of P body info)}"
  shows "same_outside view (places_of ix ns ids) (net s) (net s')"
    "ingestion_errors r = [] \<Longrightarrow> skipped r = 0 \<Longrightarrow> chunks_upserted r = length (chunks_of P body info) \<and>
      (\<forall>d \<in> set (documents_of P body info). holds_document (view (net s')) ix ns d)"
proof -
  have ids: "doc_id ` set (documents_of P body info) = ids"
    using documents_ids[of P body info] by (metis (no_types, lifting) atLeast0LessThan ids_def list.set_map set_upt)
  have none: "documents_of P body info = []" if "chunks_of P body info = []"
    using that by (simp add: documents_of_def)
  have len: "length (documents_of P body info) = length (chunks_of P body info)" by (simp add: documents_of_def)
  consider (nothing) "s' = s" "skipped r \<noteq> 0 \<or> chunks_of P body info = [] \<and> chunks_upserted r = 0"
    | (upsert) opened x where "upsert_documents H (vectors P) (index_opened st) (documents_of P body info) s = (Inr (opened, x), s')"
        "\<And>e. x = Inl e \<Longrightarrow> ingestion_errors r \<noteq> []" "\<And>n. x = Inr n \<Longrightarrow> chunks_upserted r = n"
    using assms(2) unfolding ingest_document_def
    by (auto simp: acts Let_def ingested_def split: if_splits prod.splits sum.splits)
  then have "same_outside view (places_of ix ns ids) (net s) (net s') \<and>
    (ingestion_errors r = [] \<longrightarrow> skipped r = 0 \<longrightarrow> chunks_upserted r = length (chunks_of P body info) \<and>
      (\<forall>d \<in> set (documents_of P body info). holds_document (view (net s')) ix ns d))"
  proof cases
    case nothing
    then show ?thesis using none by (auto simp: same_outside_refl)
  next
    case upsert
    note u = upsert_documents_result[OF assms(1) upsert(1) documents_distinct, folded ix_def ns_def, unfolded ids len]
    show ?thesis
    proof (cases x)
      case (Inl e)
      with u(1) upsert(2) show ?thesis by simp
    next
      case (Inr n)
      with u(1) u(2)[OF Inr] upsert(3)[OF Inr] show ?thesis by simp
    qed
  qed
  then show "same_outside view (places_of ix ns ids) (net s) (net s')"
    "ingestion_errors r = [] \<Longrightarrow> skipped r = 0 \<Longrightarrow> chunks_upserted r = length (chunks_of P body info) \<and>
      (\<forall>d \<in> set (documents_of P body info). holds_document (view (net s')) ix ns d)" by blast+
qed

lemma moves_ingest:
  assumes "clients (vectors P) = V"
  shows "moves (same_outside view (places_of (index_name (vectors P)) (index_namespace (vectors P))
    (chunk_id (di_id info) ` {..<length (chunks_of P body info)}))) (ingest_document H P body info sd st)"
proof (rule movesI)
  fix s x s' assume run: "ingest_document H P body info sd st s = (x, s')"
  then obtain st' r where "x = Inr (st', r)" using answers_ingest by (metis answersE fst_conv surj_pair)
  with run ingest_document_result(1)[OF assms] show "same_outside view (places_of (index_name (vectors P)) (index_namespace (vectors P))
    (chunk_id (di_id info) ` {..<length (chunks_of P body info)})) (net s) (net s')" by blast
qed

end

section \<open>An index in memory\<close>

record index_world =
  script_part :: script
  held :: index_view
  outcomes :: "bool list"

definition index_network :: "index_world network" where
  "index_network = \<lparr>
     n_call = (\<lambda>rq w. let (x, c) = n_call script_network rq (script_part w) in (x, w\<lparr>script_part := c\<rparr>)),
     n_time = (\<lambda>w. n_time script_network (script_part w)),
     n_sleep = (\<lambda>d w. w\<lparr>script_part := n_sleep script_network d (script_part w)\<rparr>),
     n_file = (\<lambda>p w. n_file script_network p (script_part w)),
     n_stamp = (\<lambda>w. n_stamp script_network (script_part w)),
     n_age = (\<lambda>t w. n_age script_network t (script_part w)),
     n_uuid = (\<lambda>w. let (u, c) = n_uuid script_network (script_part w) in (u, w\<lparr>script_part := c\<rparr>)),
     n_timeout = n_timeout script_network,
     n_random = (\<lambda>a b w. let (r, c) = n_random script_network a b (script_part w) in (r, w\<lparr>script_part := c\<rparr>))\<rparr>"

definition index_host :: "'r redis option \<Rightarrow> settings \<Rightarrow> (index_world, 'r) host" where
  "index_host c cfg = \<lparr>network = index_network, redis_client = c, conf = cfg,
     manifest = \<lparr>mtime = (\<lambda>_. None), yaml_at = (\<lambda>_. ReadFailed), mode_var = [], root_var = []\<rparr>\<rparr>"

text \<open>An index that answers, or fails where the script says so.\<close>

definition mem_index :: "index_world vendor" where
  "mem_index = \<lparr>
     embed_call = (\<lambda>texts w. (Inr (map (\<lambda>t. [of_nat (length t)]) texts), w)),
     index_list = (\<lambda>w. (Inr [''ddp''], w)),
     index_create = (\<lambda>ix w. (Inr (), w)),
     index_upsert = (\<lambda>ix ns vs w. case outcomes w of
         False # xs \<Rightarrow> (Inl ''unavailable'', w\<lparr>outcomes := xs\<rparr>)
       | xs \<Rightarrow> (Inr (), w\<lparr>held := held w ++ map_of (map (\<lambda>v. ((ix, ns, vec_id v), v)) vs), outcomes := tl xs\<rparr>)),
     index_delete = (\<lambda>ix ns d w. case d of
         ByIds ids \<Rightarrow> (Inr (), w\<lparr>held := held w |` (- places_of ix ns (set ids))\<rparr>)
       | _ \<Rightarrow> (Inl ''not supported'', w)),
     index_query = (\<lambda>ix ns e k f b w. (Inr [], w)),
     index_stats = (\<lambda>ix w. (Inr (), w))\<rparr>"

interpretation mem: vector_index mem_index "index_host c cfg" held for c cfg
proof unfold_locales
  show "same_outside held (places_of ix ns (vec_id ` set vs)) n (snd (index_upsert mem_index ix ns vs n))" for ix ns vs n
    by (auto simp: mem_index_def same_outside_def places_of_def map_add_dom_app_simps dom_map_of_conv_image_fst image_image
        split: list.split bool.split)
qed (auto simp: mem_index_def index_host_def index_network_def same_outside_def script_network_def Let_def
    split: list.splits bool.splits prod.split)

end
