(* ===== verification/VersionLaws.thy ===== *)
theory VersionLaws
  imports VersionBatches VectorIndex
begin

text \<open>
  What the version check of bills guarantees: synchronising a status settles, the counters of both batches add up, the
  documents of a version are in the index, and what a failed write or a failing service leaves behind. \<open>yields\<close>
  is a rule set for the values of methods, as \<open>sends\<close> is for their requests.
\<close>

section \<open>A row that shows what was sent needs nothing\<close>

lemma map_of_dict_update: "distinct (map fst fs) \<Longrightarrow> map_of (dict_update d fs) = map_of d ++ map_of fs"
  by (induction d fs rule: dict_update.induct) (auto simp: map_add_upd_left dom_map_of_conv_image_fst)

lemma changed_fields_keys: "changed_fields cms u act d c = Inr fs \<Longrightarrow> distinct (map fst fs)"
  by (auto simp: changed_fields_def bind_res_Inr_iff)

lemma changed_fields_settle:
  assumes "changed_fields cms u act d c = Inr fs" "d = JNull \<or> (\<exists>t. d = JStr t)"
  shows "changed_fields (dict_update cms fs) u act d c = Inr []"
proof -
  have get: "dict_get (dict_update cms fs) k = (case map_of fs k of None \<Rightarrow> dict_get cms k | Some v \<Rightarrow> v)" for k
    using changed_fields_keys[OF assms(1)] by (simp add: dict_get_def map_of_dict_update map_add_def split: option.split)
  obtain b where b: "(if truthy d then dates_match (dict_get cms ''status-date'') d else Inr True) = Inr b"
    and fs: "fs = (if truthy u \<and> dict_get cms ''gov-url'' \<noteq> u then [(''gov-url'', u)] else []) @
      (if dict_get cms ''status'' \<noteq> act then [(''status'', act)] else []) @ (if \<not> b then [(''status-date'', d)] else []) @
      (if truthy c \<and> dict_get cms ''status-chamber'' \<noteq> c then [(''status-chamber'', c)] else [])"
    using assms(1) by (auto simp: changed_fields_def bind_res_Inr_iff)
  have fields: "dict_get (dict_update cms fs) ''gov-url'' = (if truthy u then u else dict_get cms ''gov-url'')"
    "dict_get (dict_update cms fs) ''status'' = act"
    "dict_get (dict_update cms fs) ''status-date'' = (if b then dict_get cms ''status-date'' else d)"
    "dict_get (dict_update cms fs) ''status-chamber'' = (if truthy c then c else dict_get cms ''status-chamber'')"
    unfolding get by (auto simp: fs)
  have "(if truthy d then dates_match (if b then dict_get cms ''status-date'' else d) d else Inr True) = Inr True"
    using b assms(2) by (auto simp: dates_match_def first_10_def)
  then show ?thesis by (cases "truthy d"; cases b) (simp_all add: changed_fields_def fields)
qed

lemma lift_Inr [simp]: "bnd (lift_res (Inr x)) f = f x"
  by (rule ext) (simp add: acts)

lemma branch_at:
  "(b \<Longrightarrow> Q (m st)) \<Longrightarrow> (\<not> b \<Longrightarrow> Q (m' st)) \<Longrightarrow> Q ((if b then m else m') st)"
  "(x = None \<Longrightarrow> Q (m st)) \<Longrightarrow> (\<And>y. x = Some y \<Longrightarrow> Q (f y st)) \<Longrightarrow> Q ((case x of None \<Rightarrow> m | Some y \<Rightarrow> f y) st)"
  "(\<And>y. z = Inl y \<Longrightarrow> Q (g y st)) \<Longrightarrow> (\<And>y. z = Inr y \<Longrightarrow> Q (h y st)) \<Longrightarrow> Q ((case z of Inl y \<Rightarrow> g y | Inr y \<Rightarrow> h y) st)"
  "(\<And>a c. p = (a, c) \<Longrightarrow> Q (k a c st)) \<Longrightarrow> Q ((case p of (a, c) \<Rightarrow> k a c) st)"
  by (auto split: option.split sum.split prod.split)

lemmas [sending] = branch_at[where Q = "sends P" for P]
lemmas [ending] = branch_at[where Q = ends]
lemmas [answering] = branch_at[where Q = answers]
lemmas [moving] = branch_at[where Q = "moves R" for R]

lemma sends_patch_row:
  "sends (\<lambda>rq. rq = bill_patch (version_settings V) (id_text i) fs (webflow_scheduler_api_key (version_settings V))) (patch_row H V i fs)"
proof -
  have loop: "sends (\<lambda>rq. rq = q) (send_loop H q a k msg st)" for q a k msg st
  proof (induction k arbitrary: a msg st)
    case (Suc k)
    have "sends (\<lambda>rq. rq = q) (send_loop H q a k msg st)" for a msg st using Suc by blast
    moreover have "sends P (jitter H)" for P
      by (rule sends_silent) (simp add: jitter_def split: prod.split)
    ultimately show ?case unfolding send_loop.simps lookup_turn_def by (intro sending refl)
  qed (simp add: sending)
  show ?thesis
    unfolding patch_row_def on_fresh_def update_bill_fields_def send_with_backoff_def
    by (intro sending loop)
qed



section \<open>Values for the witnesses\<close>

text \<open>A tokenizer with one token for a text, a page that is its own text, the index in memory, and default limits.\<close>

definition sample_tools :: text_tools where
  "sample_tools = \<lparr>pdfplumber = (\<lambda>_. Inl ''no pdf''), pypdf2 = (\<lambda>_. Inl ''no pdf''),
     soup = (\<lambda>_ html. Some (\<lambda>sel. if sel = ''main'' then Some html else None)), md5_hex = (\<lambda>s. s), temp_path = ''/tmp/x''\<rparr>"

definition sample_conf :: sync_settings where
  "sample_conf = \<lparr>webflow_scheduler_api_key = ''key'', webflow_votebot_api_key = ''key'', webflow_bills_collection_id = ''bills'',
     webflow_legislators_collection_id = [], webflow_jurisdiction_collection_id = [],
     openstates_api_base = ''https://v3.openstates.org'', openstates_api_key = ''key'', rds_openstates_api_base = [],
     rds_openstates_api_key = [], ddp_openstates_jurisdictions = [], pdf_max_pages = 0\<rparr>"

definition sample_pipeline :: "(index_world, string) pipeline" where
  "sample_pipeline = \<lparr>vectors = \<lparr>clients = mem_index, index_name = ''ddp'', index_namespace = ''default''\<rparr>,
     chunker = \<lparr>chunk_size = 2000, chunk_overlap = 0, encoding = \<lparr>encode = (\<lambda>s. [s]), decode = concat\<rparr>\<rparr>, sha256 = (\<lambda>s. s)\<rparr>"

definition sample_sync :: "(index_world, string) services" where
  "sample_sync = \<lparr>sync_conf = sample_conf, ingest = sample_pipeline, limits = default_config, isodate = (\<lambda>_. True),
     today_of = (\<lambda>_. Date 739677), federal_file = NoFile\<rparr>"

definition sample_version :: "(index_world, string) version_services" where
  "sample_version = \<lparr>sync_services = sample_sync, tools = sample_tools, version_yaml = NoFile, utc_text = (\<lambda>_. None),
     unified_diff = (\<lambda>_ _ _ _. []), poll_fuel = 0\<rparr>"

definition index_site :: "(string + response) list \<Rightarrow> bool list \<Rightarrow> (index_world, unit) site" where
  "index_site xs writes =
     \<lparr>net = \<lparr>script_part = \<lparr>script_time = 0, script_answers = xs, script_files = []\<rparr>, held = Map.empty, outcomes = writes\<rparr>,
      sent = [], store = (), topics_cache = Map.empty, current_task = None, enrollment_state = \<lparr>cache = Map.empty, logged = []\<rparr>\<rparr>"

definition plain_index_host :: "(index_world, unit) host" where
  "plain_index_host = index_host None default_settings"

definition sample_bill :: json where
  "sample_bill = JObj [(''latest_action_description'', JStr ''Signed''), (''latest_action_date'', JStr ''2026-03-01'')]"


section \<open>Accounting of the batches\<close>

text \<open>\<open>yields P m\<close>: a value of the method \<open>m\<close>, in any state, satisfies \<open>P\<close>.\<close>

definition yields :: "('a \<Rightarrow> bool) \<Rightarrow> ('n, 'r, 's \<times> (fault + 'a)) act \<Rightarrow> bool" where
  "yields P m = (\<forall>s st v s'. m s = (Inr (st, Inr v), s') \<longrightarrow> P v)"

named_theorems yielding

lemma yieldsD: "yields P m \<Longrightarrow> m s = (Inr (st, Inr v), s') \<Longrightarrow> P v"
  by (auto simp: yields_def)

lemma yields_mret [yielding]: "P x \<Longrightarrow> yields P (mret x st)"
  by (simp add: yields_def acts)

lemma yields_mtry:
  assumes "yields Q (m st)" "\<And>e st. yields P (h e st)" "\<And>v st. Q v \<Longrightarrow> yields P (f v st)"
  shows "yields P (mtry m h f st)"
  unfolding yields_def
proof (intro allI impI)
  fix s st' v s' assume run: "mtry m h f st s = (Inr (st', Inr v), s')"
  then obtain st1 x s1 where m: "m st s = (Inr (st1, x), s1)" by (auto simp: run_mtry split: prod.splits sum.splits)
  show "P v"
  proof (cases x)
    case (Inl e)
    with run m have "h e st1 s1 = (Inr (st', Inr v), s')" by (simp add: run_mtry)
    then show ?thesis by (rule yieldsD[OF assms(2)])
  next
    case (Inr y)
    with run m have "f y st1 s1 = (Inr (st', Inr v), s')" by (simp add: run_mtry)
    with yieldsD[OF assms(1)] m Inr show ?thesis by (blast intro: yieldsD[OF assms(3)])
  qed
qed

lemma yields_mbind: "yields Q (m st) \<Longrightarrow> (\<And>v st. Q v \<Longrightarrow> yields P (f v st)) \<Longrightarrow> yields P (mbind m f st)"
  unfolding mbind_def by (erule yields_mtry) (simp_all add: yields_def acts)

lemma yields_any: "yields (\<lambda>_. True) m"
  by (simp add: yields_def)

lemma yields_after [yielding]: "(\<And>v st. yields P (f v st)) \<Longrightarrow> yields P (mbind m f st)"
  by (rule yields_mbind[OF yields_any])

lemma yields_handled [yielding]:
  "(\<And>e st. yields P (h e st)) \<Longrightarrow> (\<And>v st. yields P (f v st)) \<Longrightarrow> yields P (mtry m h f st)"
  by (rule yields_mtry[OF yields_any])

lemma yields_mono: "yields Q m \<Longrightarrow> (\<And>v. Q v \<Longrightarrow> P v) \<Longrightarrow> yields P m"
  by (auto simp: yields_def)

text \<open>The state of a fold after each of its elements.\<close>

lemma yields_mfold:
  assumes "\<And>x acc k st. I k acc \<Longrightarrow> yields (I (Suc k)) (f x acc st)"
  shows "I k acc \<Longrightarrow> yields (I (k + length xs)) (mfold f xs acc st)"
proof (induction xs arbitrary: k acc st)
  case (Cons x xs)
  have "yields (I (Suc k + length xs)) (mfold f (x # xs) acc st)"
    unfolding mfold.simps by (rule yields_mbind[OF assms[OF Cons.prems] Cons.IH])
  then show ?case by simp
qed (simp add: yields_mret)

lemmas [yielding] = branch_intros[where Q = "yields P" for P] branch_at[where Q = "yields P" for P]

text \<open>What holds of the counters after \<open>k\<close> rows.\<close>

definition accounts :: "nat \<Rightarrow> nat \<Rightarrow> version_batch \<Rightarrow> bool" where
  "accounts n k w \<longleftrightarrow> vb_total w = n \<and> vb_skipped w + vb_updated w + vb_unchanged w + vb_failed w = k \<and>
     vb_no_versions w = 0 \<and> vb_checked w \<le> vb_updated w + vb_unchanged w + vb_failed w \<and>
     vb_no_url w + vb_not_current w + vb_jurisdiction w \<le> vb_skipped w \<and>
     length (vb_errors w) \<le> vb_updated w + vb_failed w \<and>
     vb_webflow_skipped w + vb_patch_failures w \<le> vb_updated w + vb_unchanged w"

lemma check_never_without_versions:
  "check_and_update_bill H V B u s = (Inr c, s') \<Longrightarrow> vc_status c \<noteq> NoVersions"
  unfolding check_and_update_bill_def
  by (auto simp: acts failed_check_def combine_def split: prod.splits sum.splits option.splits list.splits if_splits)

lemma accounts_check:
  "accounts n k w \<Longrightarrow> vc_status c \<noteq> NoVersions \<Longrightarrow> accounts n (Suc k) (fst (count_check title c w))"
  by (cases "vc_status c") (auto simp: accounts_def count_check_def count_updated_def count_unchanged_def count_partial_def
      error_line_def count_def Let_def split: option.splits list.splits)


lemma accounts_failure: "accounts n k w \<Longrightarrow> accounts n (Suc k) (count_failure title e w)"
  by (simp add: accounts_def count_failure_def)

lemma accounts_skip:
  "accounts n k w \<Longrightarrow> accounts n (Suc k) (skip_bill w)" "accounts n k w \<Longrightarrow> accounts n (Suc k) (skip_no_url w)"
  "accounts n k w \<Longrightarrow> accounts n (Suc k) (skip_not_current w)" "accounts n k w \<Longrightarrow> accounts n (Suc k) (skip_jurisdiction w)"
  by (simp_all add: accounts_def skip_bill_def skip_no_url_def skip_not_current_def skip_jurisdiction_def)

lemma yields_outer: "(\<And>s x s'. m s = (Inr x, s') \<Longrightarrow> P x) \<Longrightarrow> yields P (outer m st)"
  by (auto simp: yields_def acts split: prod.splits sum.splits if_splits)

lemma yields_check_row:
  assumes "accounts n k w"
  shows "yields (\<lambda>(w, _). accounts n (Suc k) w) (check_row H V beat x code w l st)"
proof -
  have check: "yields (\<lambda>(w, _). accounts n (Suc k) w)
     (mtry (outer (check_and_update_bill H V (job_of x code) (row_openstates_url x)))
         (\<lambda>e. mret (count_failure (row_title x) (fault_text e) w, 0)) (\<lambda>c. mret (count_check (row_title x) c w)) st)" for st
    by (rule yields_mtry[OF yields_outer[where P = "\<lambda>c. vc_status c \<noteq> NoVersions"]])
      (simp_all add: check_never_without_versions yields_mret accounts_failure[OF assms] accounts_check[OF assms] case_prod_beta)
  show ?thesis
    unfolding check_row_def
    by (rule yields_after, rule yields_mbind, rule check) (auto intro!: yields_after yields_mret)
qed


lemma yields_version_row:
  assumes "(\<lambda>(w, _). accounts n k w) acc"
  shows "yields (\<lambda>(w, _). accounts n (Suc k) w) (version_row H V m beat bill acc st)"
proof -
  obtain w l where acc: "acc = (w, l)" "accounts n k w" using assms by (cases acc) simp
  show ?thesis
    unfolding version_row_def acc Let_def prod.case
    by (intro yielding yields_check_row acc(2); simp add: accounts_skip[OF acc(2)])
qed

text \<open>C28: The counters of a version batch add up: every row of the batch is counted exactly once as skipped, updated, unchanged or
  failed (never as without versions), a skip has one of the reasons or the limit, no more errors are listed than rows
  were updated or failed, and no row is counted both as skipped by the content service and as a failed write.\<close>

theorem version_batch_adds_up:
  assumes "sync_bill_versions H V bills beat st s = (Inr (st', Inr w), s')"
  shows "accounts (length bills) (length bills) w"
proof -
  have new: "accounts (length bills) 0 (new_batch (length bills))" by (simp add: accounts_def new_batch_def)
  have rows: "yields (\<lambda>(w, _). accounts (length bills) (length bills) w)
      (mfold (version_row H V m beat) bills (new_batch (length bills), 0) st)" for m st
    using yields_mfold[of "\<lambda>k (w, _). accounts (length bills) k w" "version_row H V m beat" 0 "(new_batch (length bills), 0)" bills st]
      yields_version_row new by fastforce
  have "yields (accounts (length bills) (length bills)) (sync_bill_versions H V bills beat st)"
    unfolding sync_bill_versions_def
    by (rule yields_after, rule yields_after, rule yields_after, rule yields_after, rule yields_mbind, rule rows)
      (auto intro: yields_mret)
  then show ?thesis using assms by (rule yieldsD)
qed


definition status_accounts :: "nat \<Rightarrow> nat \<Rightarrow> version_batch \<Rightarrow> bool" where
  "status_accounts n k w \<longleftrightarrow> vb_total w = n \<and> vb_skipped w + vb_unchanged w + vb_failed w = k \<and>
     vb_no_url w + vb_not_current w + vb_jurisdiction w = vb_skipped w \<and>
     vb_webflow_updates w + vb_webflow_skipped w + vb_patch_failures w + vb_no_action w = vb_unchanged w \<and>
     vb_status_updates w \<le> vb_webflow_updates w \<and> length (vb_errors w) = vb_failed w \<and>
     vb_unchanged w \<le> vb_checked w \<and> vb_checked w \<le> vb_unchanged w + vb_failed w"

definition one_outcome :: "status_result \<Rightarrow> bool" where
  "one_outcome x \<longleftrightarrow> (sx_webflow_updated x \<longrightarrow> \<not> sx_patch_skipped x) \<and> (sx_status_updated x \<longrightarrow> sx_webflow_updated x)"

lemma send_changes_outcome:
  "send_changes H V i fs r s = (Inr x, s') \<Longrightarrow> one_outcome r \<Longrightarrow> \<not> sx_webflow_updated r \<Longrightarrow> \<not> sx_patch_skipped r \<Longrightarrow> one_outcome x"
  by (auto simp: send_changes_def acts one_outcome_def split: if_splits prod.splits sum.splits)

lemma update_status_outcome: "update_bill_status H V i bill cms s = (Inr x, s') \<Longrightarrow> one_outcome x"
  by (auto simp: update_bill_status_def keep_status_def acts on_store_def Let_def one_outcome_def
      split: if_splits prod.splits sum.splits dest!: send_changes_outcome)

lemma status_accounts_rows:
  assumes "status_accounts n k w"
  shows "status_accounts n (Suc k) (count_failure title e w)" "status_accounts n (Suc k) (skip_no_url w)"
    "status_accounts n (Suc k) (skip_not_current w)" "status_accounts n (Suc k) (skip_jurisdiction w)"
    "status_accounts n (Suc k) (count_failure title e (w\<lparr>vb_checked := Suc (vb_checked w)\<rparr>))"
    "one_outcome x \<Longrightarrow> status_accounts n (Suc k) (count_status x (w\<lparr>vb_checked := Suc (vb_checked w)\<rparr>))"
  using assms by (auto simp: status_accounts_def count_failure_def skip_no_url_def skip_not_current_def skip_jurisdiction_def
      skip_bill_def count_status_def count_def one_outcome_def)

lemma yields_check_status_row:
  assumes "status_accounts n k w"
  shows "yields (status_accounts n (Suc k)) (check_status_row H V beat x w st)"
proof -
  note acc = status_accounts_rows[OF assms]
  have beat: "yields P (mbind (beat_when beat m) (\<lambda>_. mret v) st)" if "P v" for P m v st
    using that by (intro yielding)
  have status: "yields (status_accounts n (Suc k)) (status_of_row H V x d w st)" for d st
    unfolding status_of_row_def Let_def
    by (rule yields_mtry[OF yields_outer[where P = one_outcome]]) (auto intro: update_status_outcome yields_mret acc)
  show ?thesis
    unfolding check_status_row_def Let_def
    by (rule yields_after, rule yields_handled, rule beat, rule acc, rule branch_at(3)[where Q = "yields P" for P],
        rule yields_mret, rule acc, rule yields_mbind, rule status, rule beat)
qed

text \<open>The counters of a status batch add up: every row is skipped for one stated reason, failed with exactly one error line, or
  handled; and a handled row is counted in exactly one of updated, nothing to write, write failed, and no action.\<close>

lemma status_batch_adds_up:
  assumes "sync_bill_statuses H V bills all_sessions code beat st s = (Inr (st', Inr w), s')"
  shows "status_accounts (length bills) (length bills) w"
proof -
  have new: "status_accounts (length bills) 0 (new_batch (length bills))" by (simp add: status_accounts_def new_batch_def)
  have row: "yields (status_accounts (length bills) (Suc k)) (status_row H V all_sessions code beat bill w st)"
    if "status_accounts (length bills) k w" for bill w k st
    unfolding status_row_def Let_def
    by (intro yielding yields_check_status_row that status_accounts_rows)
  have "yields (status_accounts (length bills) (0 + length bills)) (sync_bill_statuses H V bills all_sessions code beat st)"
    unfolding sync_bill_statuses_def by (rule yields_after, rule yields_mfold) (auto intro: row new)
  with assms show ?thesis by (auto dest: yieldsD)
qed


text \<open>A row without an address, and one in the current session whose address is none.\<close>

definition sample_rows :: "json list" where
  "sample_rows = [JObj [(''id'', JStr ''r1'')],
     JObj [(''id'', JStr ''r2''), (''fieldData'', JObj [(''open-states-url-2'', JStr ''none''), (''session-code'', JStr ''2026'')])]]"

definition sample_session :: "string + response" where
  "sample_session = answer_ok (JObj [(''legislative_sessions'', JArr [JObj [(''identifier'', JStr ''2026''), (''is_current'', JBool True)]])])"

lemma run_cases:
  "(case fst r of Inr (_, Inr w) \<Rightarrow> P w | _ \<Rightarrow> False) \<Longrightarrow> \<exists>st w s'. r = (Inr (st, Inr w), s') \<and> P w"
  by (cases r) (auto split: sum.splits prod.splits, metis sum.exhaust)

lemma version_batch_adds_up_witness:
  "\<exists>st w s'. sync_bill_versions plain_index_host sample_version sample_rows None (new_sync sample_sync new_cache) (index_site [sample_session] [])
      = (Inr (st, Inr w), s') \<and> vb_failed w = 1 \<and> vb_skipped w = 1 \<and> accounts 2 2 w"
proof -
  let ?run = "sync_bill_versions plain_index_host sample_version sample_rows None (new_sync sample_sync new_cache) (index_site [sample_session] [])"
  have "case fst ?run of Inr (_, Inr w) \<Rightarrow> vb_failed w = 1 \<and> vb_skipped w = 1 | _ \<Rightarrow> False"
    by code_simp
  then obtain st w s' where run: "?run = (Inr (st, Inr w), s')" "vb_failed w = 1" "vb_skipped w = 1"
    using run_cases by blast
  with version_batch_adds_up[OF run(1)] show ?thesis by (auto simp: sample_rows_def numeral_2_eq_2)
qed

lemma status_batch_adds_up_witness:
  "\<exists>st w s'. sync_bill_statuses plain_index_host sample_version sample_rows True [] None (new_sync sample_sync new_cache) (index_site [] [])
      = (Inr (st, Inr w), s') \<and> vb_failed w = 1 \<and> vb_skipped w = 1 \<and> status_accounts 2 2 w"
proof -
  let ?run = "sync_bill_statuses plain_index_host sample_version sample_rows True [] None (new_sync sample_sync new_cache) (index_site [] [])"
  have "case fst ?run of Inr (_, Inr w) \<Rightarrow> vb_failed w = 1 \<and> vb_skipped w = 1 | _ \<Rightarrow> False"
    by code_simp
  then obtain st w s' where run: "?run = (Inr (st, Inr w), s')" "vb_failed w = 1" "vb_skipped w = 1"
    using run_cases by blast
  with status_batch_adds_up[OF run(1)] show ?thesis by (auto simp: sample_rows_def numeral_2_eq_2)
qed

section \<open>The index after a document\<close>

text \<open>C26: A document that is ingested without an error is in the index: every chunk of it is held under its own id, whatever
  attempts failed before, and no place of another document has changed.\<close>

theorem ingested_document_is_indexed:
  assumes "vector_index (clients (vectors P)) H view" "ingest_document H P body info sd st s = (Inr (st', r), s')"
    and "ingestion_errors r = []" "skipped r = 0"
  shows "chunks_upserted r = length (chunks_of P body info) \<and>
    (\<forall>d \<in> set (documents_of P body info). holds_document (view (net s')) (index_name (vectors P)) (index_namespace (vectors P)) d) \<and>
    same_outside view (places_of (index_name (vectors P)) (index_namespace (vectors P))
      (chunk_id (di_id info) ` {..<length (chunks_of P body info)})) (net s) (net s')"
  using vector_index.ingest_document_result[OF assms(1) refl assms(2)] assms(3,4) by simp

text \<open>The index in memory, with a first write that fails, on one document.\<close>

lemma sample_vectors: "vectors sample_pipeline = \<lparr>clients = mem_index, index_name = ''ddp'', index_namespace = ''default''\<rparr>"
  by (simp add: sample_pipeline_def)

lemmas run_index = acts plain_index_host_def index_host_def index_network_def script_network_def sample_vectors index_site_def
  mem_index_def vend_def Let_def batches.simps numeral_3_eq_3 embed_missing_def embed_documents_def embed_batch_def retried_def
  with_index_def open_index_def upsert_documents_def

definition sample_info :: doc_info where
  "sample_info = new_info ''now'' ''d'' ''bill-text'' ''s''"

lemma sample_chunks: "strip body \<noteq> [] \<Longrightarrow> length (chunks_of sample_pipeline body info) = 1"
  by (simp add: chunks_of_def chunk_text_flat sample_pipeline_def count_tokens_def Let_def)

lemma sample_document:
  assumes "strip body \<noteq> []"
  obtains d where "documents_of sample_pipeline body info = [d]" "doc_embedding d = None"
  using sample_chunks[OF assms, of info] by (auto simp: documents_of_def chunk_document_def length_Suc_conv)

lemma ingested_document_is_indexed_witness:
  "\<exists>st r s'. ingest_document plain_index_host sample_pipeline ''An act'' sample_info False new_pipeline (index_site [] [False])
      = (Inr (st, r), s') \<and> chunks_upserted r = 1 \<and>
    holds_document (held (net s')) ''ddp'' ''default'' (hd (documents_of sample_pipeline ''An act'' sample_info))"
proof -
  let ?run = "ingest_document plain_index_host sample_pipeline ''An act'' sample_info False new_pipeline (index_site [] [False])"
  have act: "strip ''An act'' \<noteq> []" by code_simp
  obtain d where d: "documents_of sample_pipeline ''An act'' sample_info = [d]" "doc_embedding d = None"
    using sample_document[OF act] by blast
  have "chunks_of sample_pipeline ''An act'' sample_info \<noteq> []" using sample_chunks[OF act, of sample_info] by auto
  then obtain st r s' where r: "?run = (Inr (st, r), s')" "ingestion_errors r = []" "skipped r = 0"
    using d by (auto simp: ingest_document_def run_index new_pipeline_def ingested_def)
  have "vector_index (clients (vectors sample_pipeline)) plain_index_host held"
    using mem.vector_index_axioms by (simp add: sample_vectors plain_index_host_def)
  from ingested_document_is_indexed[OF this r] d sample_chunks[OF act, of sample_info] r(1) show ?thesis by (simp add: sample_vectors)
qed

section \<open>Surplus chunks\<close>

context vector_index begin

lemma moves_delete:
  "moves (same_outside view (places_of ix ns (set ids))) (vend (index_delete V ix ns (ByIds ids)))"
  by (rule moves_vend) (rule delete_touches)

text \<open>A deletion with its retries: what is deleted at last are the given places, and nothing else changed before.\<close>

lemma tries_delete:
  assumes sv: "clients sv = V" and before: "same_outside view (places_of ix ns (set ids)) n0 (net s)"
  shows "tries H a k (with_index sv (vend (index_delete V ix ns (ByIds ids)))) opened s = (Inr (o', Inr u), s') \<Longrightarrow>
    view (net s') = view n0 |` (- places_of ix ns (set ids))"
  using before
proof (induction k arbitrary: a opened s)
  case 0
  then show ?case by (simp add: acts)
next
  case (Suc k)
  let ?m = "with_index sv (vend (index_delete V ix ns (ByIds ids)))"
  obtain op y s1 where m: "?m opened s = (Inr (op, y), s1)"
    using Suc.prems(1) by (auto simp: run_bnd split: prod.splits sum.splits)
  show ?case
  proof (cases y)
    case (Inr u')
    with Suc.prems(1) m have "s' = s1" by (simp add: run_bnd acts)
    moreover obtain n where "index_delete V ix ns (ByIds ids) n = (Inr u', net s1)" "view n = view (net s)"
      using with_index_result[OF sv m[unfolded Inr]] by blast
    ultimately have "view (net s') = view (net s) |` (- places_of ix ns (set ids))" using deleted by metis
    then show ?thesis using Suc.prems(2) by (auto simp: same_outside_def restrict_map_def fun_eq_iff)
  next
    case (Inl e)
    define s2 where "s2 = snd (sleep H (retry_wait a) s1)"
    have again: "tries H (Suc a) k ?m op s2 = (Inr (o', Inr u), s')"
      using Suc.prems(1) m Inl by (cases "k = 0") (simp_all add: run_bnd acts s2_def)
    have "same_outside view (places_of ix ns (set ids)) (net s) (net s1)"
      using movesD[OF moves_with_index[OF sv moves_delete] m] .
    moreover have "same_outside view (places_of ix ns (set ids)) (net s1) (net s2)"
      by (simp add: s2_def acts same_outside_eq other_steps)
    ultimately show ?thesis using Suc.IH[OF again] Suc.prems(2) by (blast intro: same_outside_trans)
  qed
qed

lemma delete_surplus_result:
  assumes "clients sv = V" "delete_surplus_chunks H sv doc old n s = (Inr k, s')"
  defines "gone \<equiv> places_of (index_name sv) (index_namespace sv) (chunk_id doc ` {n..<n + k})"
  shows "view (net s') = view (net s) |` (- gone)"
    "k \<noteq> 0 \<Longrightarrow> json_number old = Inr (int (n + k)) \<and> n + k \<le> 4 * n"
proof -
  have "k = 0 \<and> s' = s \<or> (\<exists>m. json_number old = Inr m \<and> int n < m \<and> m \<le> int n * 4 \<and> k = nat m - n \<and>
      delete_vectors H sv False (Some (ByIds (surplus_ids doc n m))) s = (Inr (), s'))"
    using assms(2) unfolding delete_surplus_chunks_def
    by (auto simp: acts Let_def surplus_ids_def deletion_of_def upt_rec[of n] split: if_splits sum.splits prod.splits)
  then have "view (net s') = view (net s) |` (- gone) \<and> (k \<noteq> 0 \<longrightarrow> json_number old = Inr (int (n + k)) \<and> n + k \<le> 4 * n)"
  proof (elim disjE exE conjE)
    fix m assume m: "json_number old = Inr m" "int n < m" "m \<le> int n * 4" "k = nat m - n"
      and run: "delete_vectors H sv False (Some (ByIds (surplus_ids doc n m))) s = (Inr (), s')"
    have gone: "gone = places_of (index_name sv) (index_namespace sv) (set (surplus_ids doc n m))"
      using m by (simp add: gone_def surplus_ids_def)
    obtain o' where "tries H 1 3 (with_index sv (vend (index_delete V (index_name sv) (index_namespace sv)
        (ByIds (surplus_ids doc n m))))) False s = (Inr (o', Inr ()), s')"
      using run assms(1) by (auto simp: delete_vectors_def acts split: prod.splits sum.splits)
    from tries_delete[OF assms(1) same_outside_refl this] show ?thesis using m by (simp add: gone) arith
  qed (simp add: gone_def places_of_def restrict_map_def)
  then show "view (net s') = view (net s) |` (- gone)"
    "k \<noteq> 0 \<Longrightarrow> json_number old = Inr (int (n + k)) \<and> n + k \<le> 4 * n" by simp_all
qed

end


lemma html_id_differs: "chunk_id (''bill-pdf-'' @ x) i \<noteq> ''bill-html-'' @ y"
  by (simp add: chunk_id_def)

text \<open>After a new version the chunks of the old one beyond its end, and nothing else, are removed: the new chunks stay, a
  count more than four times as large removes nothing, and no id that begins with \<open>bill-html-\<close> is ever among them, so a bill
  whose text is a page keeps its surplus chunks.\<close>

lemma surplus_deletion_exact:
  assumes "vector_index (clients sv) H view" "delete_surplus_chunks H sv (''bill-pdf-'' @ x) old n s = (Inr k, s')"
  shows "view (net s') = view (net s) |` (- places_of (index_name sv) (index_namespace sv) (chunk_id (''bill-pdf-'' @ x) ` {n..<n + k})) \<and>
    (k \<noteq> 0 \<longrightarrow> json_number old = Inr (int (n + k)) \<and> n + k \<le> 4 * n) \<and>
    (\<forall>i<n. view (net s') (index_name sv, index_namespace sv, chunk_id (''bill-pdf-'' @ x) i)
      = view (net s) (index_name sv, index_namespace sv, chunk_id (''bill-pdf-'' @ x) i)) \<and>
    (\<forall>y. view (net s') (index_name sv, index_namespace sv, ''bill-html-'' @ y)
      = view (net s) (index_name sv, index_namespace sv, ''bill-html-'' @ y))"
proof -
  note r = vector_index.delete_surplus_result[OF assms(1) refl assms(2)]
  have "view (net s') (index_name sv, index_namespace sv, j) = view (net s) (index_name sv, index_namespace sv, j)"
    if "j \<notin> chunk_id (''bill-pdf-'' @ x) ` {n..<n + k}" for j
    using that by (auto simp: r(1) places_of_def restrict_map_def)
  moreover have "chunk_id (''bill-pdf-'' @ x) i \<notin> chunk_id (''bill-pdf-'' @ x) ` {n..<n + k}" if "i < n" for i
    using that by (auto dest: chunk_id_inj)
  moreover have "''bill-html-'' @ y \<notin> chunk_id (''bill-pdf-'' @ x) ` {n..<n + k}" for y
    by (rule notI, erule imageE) (drule sym, erule notE[OF html_id_differs])
  ultimately show ?thesis using r by blast
qed

lemma surplus_deletion_exact_witness:
  "\<exists>s'. delete_surplus_chunks plain_index_host (vectors sample_pipeline) (''bill-pdf-'' @ ''r1'') (JInt 3) 2 (index_site [] []) = (Inr 1, s') \<and>
    held (net s') = held (net (index_site [] [])) |` (- places_of ''ddp'' ''default'' (chunk_id (''bill-pdf-'' @ ''r1'') ` {2..<3}))"
proof -
  let ?run = "delete_surplus_chunks plain_index_host (vectors sample_pipeline) (''bill-pdf-'' @ ''r1'') (JInt 3) 2 (index_site [] [])"
  have "fst ?run = Inr 1"
    by (simp add: delete_surplus_chunks_def surplus_ids_def upt_rec json_number_def deletion_of_def delete_vectors_def run_index)
  then obtain s' where run: "?run = (Inr 1, s')" by (metis prod.collapse)
  have "vector_index (clients (vectors sample_pipeline)) plain_index_host held"
    using mem.vector_index_axioms by (simp add: sample_vectors plain_index_host_def)
  from surplus_deletion_exact[OF this run] run show ?thesis by (simp add: sample_vectors)
qed

lemma mbind_mres_Inr: "mbind (mres (Inr x)) f = f x"
  by (rule ext, rule ext) (simp add: acts)

lemma kind_intro: "(x = PdfUrl \<Longrightarrow> Q a) \<Longrightarrow> (x = HtmlUrl \<Longrightarrow> Q c) \<Longrightarrow> Q (case x of PdfUrl \<Rightarrow> a | HtmlUrl \<Rightarrow> c)"
  by (cases x) auto

lemma no_ledger_row: "old_chunks_of None = Inr JNull" "changelog_step H W B None body b = mret ()"
  by (simp_all add: old_chunks_of_def changelog_step_def truthy_opt_def)

section \<open>A write that the index refuses\<close>

text \<open>Every write is answered by an error and changes nothing.\<close>

definition refuses_writes :: "'n vendor \<Rightarrow> ('n \<Rightarrow> index_view) \<Rightarrow> bool" where
  "refuses_writes V view = (\<forall>ix ns vs n. \<exists>e n'. index_upsert V ix ns vs n = (Inl e, n') \<and> view n' = view n)"

context vector_index begin

lemma moves_refused [moving]:
  assumes "refuses_writes V view"
  shows "moves (same_outside view P) (vend (index_upsert V ix ns vs))"
proof (rule moves_vend)
  fix n
  obtain e n' where "index_upsert V ix ns vs n = (Inl e, n')" "view n' = view n"
    using assms unfolding refuses_writes_def by blast
  then show "same_outside view P n (snd (index_upsert V ix ns vs n))" by (simp add: same_outside_eq)
qed

lemma moves_refused_pass [moving]:
  assumes "refuses_writes V view" "clients sv = V"
  shows "moves (same_outside view P) (upsert_pass H sv xs k p)"
proof -
  have "moves (same_outside view P) (upsert_pass H sv xs k (bs, opened))" for bs xs k opened
    using assms by (induction bs arbitrary: xs k opened) (simp_all, (intro moving | assumption)+)
  then show ?thesis by (cases p) simp
qed

lemma moves_refused_ingest [moving]:
  assumes "refuses_writes V view" "clients (vectors P) = V"
  shows "moves (same_outside view Q) (ingest_document H P body info sd st)"
  unfolding ingest_document_def upsert_documents_def by (intro moving assms)

lemma moves_fetch_document [moving]: "moves (same_outside view P) (fetch_document H W url media cms i)"
  unfolding fetch_document_def process_bill_pdf_def process_bill_html_def process_url_def download_def bill_document_def
    get_url_content_type_def detect_kind_def Let_def
  by (intro moving kind_intro[where Q = "moves R" for R])

lemma moves_refused_anew [moving]:
  assumes "refuses_writes V view" "clients (vectors (ingest (sync_services W))) = V"
  shows "moves (same_outside view Q) (ingest_anew H W body info)"
  unfolding ingest_anew_def by (intro moving assms)

lemma moves_refused_update:
  assumes "refuses_writes V view" "clients (vectors (ingest (sync_services W))) = V"
  shows "moves (same_outside view {}) (update_version H W B None latest text_url media b st)"
proof -
  have "moves (same_outside view {}) (delete_surplus_chunks H sv doc JNull k)" for sv doc k
    by (simp add: delete_surplus_chunks_def, intro moving)
  then show ?thesis
    unfolding update_version_def ingest_version_def after_text_step_def no_ledger_row mbind_mres_Inr ingest_bill_text_def
      ingest_bill_history_def record_ingested_def refresh_slug_cache_def publish_invalidation_def write_bill_version_def
      post_json_def with_broker_def reach_def accepted_def written_def
    by (intro moving assms | assumption | simp)+
qed

end

text \<open>What is sent when the rest of an action sends nothing.\<close>

abbreviation silent :: "('n, 'r, 'a) act \<Rightarrow> bool" where
  "silent \<equiv> sends (\<lambda>_. False)"

lemma silentD: "silent m \<Longrightarrow> sent (snd (m s)) = sent s"
  using sendsD[of "\<lambda>_. False" m s] by (auto simp: list_all_iff)

lemma sent_attempt:
  "(\<And>e. silent (h e)) \<Longrightarrow> (\<And>x. silent (f x)) \<Longrightarrow> sent (snd (attempt m h f s)) = sent (snd (m s))"
  by (auto simp: run_attempt silentD split: prod.split sum.split)

lemma sent_bnd: "(\<And>x. silent (f x)) \<Longrightarrow> sent (snd (bnd m f s)) = sent (snd (m s))"
  unfolding bnd_as_attempt by (intro sent_attempt sending)

lemma sent_http: "sent (snd (http H rq s)) = sent s @ [rq]"
  by (simp add: http_def Let_def split: prod.split sum.split)

lemma answers_anew [answering]: "answers (ingest_anew H W body info)"
  unfolding ingest_anew_def by (intro answering)

lemma answers_history [answering]: "answers (ingest_bill_history H W i t sl u m vd vn j body)"
  unfolding ingest_bill_history_def by (intro answering)

definition ledger_row :: "bill_job \<Rightarrow> string \<Rightarrow> json \<Rightarrow> string \<Rightarrow> reingest \<Rightarrow> (string \<times> json) list" where
  "ledger_row B b text_url media r =
     [(''bill_openstates_id'', JStr b), (''jurisdiction'', JStr (bj_code B)),
      (''session_code'', get_or (bj_cms B) ''session-code'' (JStr [])), (''version_date'', ri_date r), (''version_note'', ri_note r),
      (''text_url'', text_url), (''media_type'', JStr media), (''chunk_count'', JInt (int (ri_chunks r))),
      (''pinecone_ingested'', JBool (ri_chunks r > 0))]"

text \<open>The ledger gets one request, with that row.\<close>

lemma record_ingested_sent:
  assumes "ddp_broker_api_base (conf H) \<noteq> []"
  shows "sent (snd (record_ingested H B (Some b) text_url media r s)) = sent s @
    [broker_post (ddp_broker_api_token (conf H)) (ddp_broker_api_base (conf H) @ ''/api/bill-versions/'') (JObj (ledger_row B b text_url media r))]"
proof -
  have payload: "keyword_payload [(''bill_openstates_id'', JNull), (''jurisdiction'', JNull), (''session_code'', JNull),
      (''version_date'', JNull), (''version_note'', JNull), (''text_url'', JStr []), (''media_type'', JStr []),
      (''chunk_count'', JInt 0), (''pinecone_ingested'', JBool False)] (ledger_row B b text_url media r) = ledger_row B b text_url media r"
    by (simp add: keyword_payload_def kwarg_def ledger_row_def)
  have post: "sent (snd (post_json H None None what rejects path p s)) = sent s @
      [broker_post (ddp_broker_api_token (conf H)) (ddp_broker_api_base (conf H) @ path) p]" for what rejects path p
    using assms unfolding post_json_def with_broker_def resolved_def reach_def accepted_def written_def Let_def
    by (simp add: sent_bnd sent_attempt, subst sent_bnd, (intro sending)+, simp add: sent_attempt sent_http sending)
  show ?thesis
    unfolding record_ingested_def option.case write_bill_version_def ledger_row_def[symmetric] payload
    by (subst sent_attempt) (intro sending | simp add: post)+
qed

lemma ingest_version_first:
  assumes "ingest_bill_text H V (bj_id B) text_url media (bj_cms B) s = (Inr (n, body), s1)" "n > 0"
  obtains h s2 where "ingest_version H V B None text_url media b st s
    = (Inr (st\<lparr>ri_chunks := n, ri_surplus := 0, ri_history := h\<rparr>, Inr ()), s2)"
proof -
  obtain h s2 where h: "ingest_bill_history H V (bj_id B) (bj_title B) (bj_slug B) text_url media (ri_date st) (ri_note st)
      (get_or (bj_cms B) ''jurisdiction'' (JStr [])) body s1 = (Inr h, s2)"
    using answers_history by (metis answersE)
  have surplus: "delete_surplus_chunks H sv doc JNull n s1 = (Inr 0, s1)" for sv doc
    by (simp add: delete_surplus_chunks_def acts)
  have "ingest_version H V B None text_url media b st s = (Inr (st\<lparr>ri_chunks := n, ri_surplus := 0, ri_history := h\<rparr>, Inr ()), s2)"
    using assms(2) by (simp add: ingest_version_def after_text_step_def no_ledger_row acts assms(1) surplus h)
  then show ?thesis using that by blast
qed

lemma update_version_first:
  assumes "ingest_bill_text H V (bj_id B) text_url media (bj_cms B) s = (Inr (n, body), s1)" "n > 0"
    and "update_version H V B None latest text_url media (Some b) st s = (Inr (r, x), s')"
    and "ddp_broker_api_base (conf H) \<noteq> []"
  shows "ri_newer r \<and> ri_error r = ri_error st \<and> ri_chunks r = n \<and>
    last (sent s') = broker_post (ddp_broker_api_token (conf H)) (ddp_broker_api_base (conf H) @ ''/api/bill-versions/'')
      (JObj (ledger_row B b text_url media r))"
proof -
  let ?st = "st\<lparr>ri_newer := True\<rparr>"
  obtain h s2 where v: "ingest_version H V B None text_url media (Some b) ?st s
    = (Inr (?st\<lparr>ri_chunks := n, ri_surplus := 0, ri_history := h\<rparr>, Inr ()), s2)"
    using ingest_version_first[OF assms(1,2)] by blast
  let ?r = "?st\<lparr>ri_chunks := n, ri_surplus := 0, ri_history := h\<rparr>"
  obtain y s3 where y: "record_ingested H B (Some b) text_url media ?r s2 = (y, s3)" by (cases "record_ingested H B (Some b) text_url media ?r s2")
  have "r = ?r \<and> sent s' = sent s3"
    using assms(3) by (auto simp: update_version_def refresh_slug_cache_def publish_invalidation_def on_store_def acts v y
        split: sum.splits if_splits prod.splits list.splits)
  moreover have "sent s3 = sent s2 @ [broker_post (ddp_broker_api_token (conf H)) (ddp_broker_api_base (conf H) @ ''/api/bill-versions/'')
      (JObj (ledger_row B b text_url media ?r))]"
    using record_ingested_sent[OF assms(4), of B b text_url media ?r s2] y by simp
  ultimately show ?thesis by simp
qed


text \<open>The index in memory, refusing every write; one page with a text; a broker that answers.\<close>

definition refusing_index :: "index_world vendor" where
  "refusing_index = mem_index\<lparr>index_upsert := (\<lambda>ix ns vs w. (Inl ''unavailable'', w))\<rparr>"

interpretation refusing: vector_index refusing_index "index_host c cfg" held for c cfg
proof unfold_locales
  fix ix ns vs n u n'
  show "index_upsert refusing_index ix ns vs n = (Inr u, n') \<Longrightarrow> distinct (map vec_id vs) \<Longrightarrow>
      held n' = held n ++ map_of (map (\<lambda>v. ((ix, ns, vec_id v), v)) vs)"
    by (simp add: refusing_index_def)
  show "same_outside held (places_of ix ns (vec_id ` set vs)) n (snd (index_upsert refusing_index ix ns vs n))"
    by (simp add: refusing_index_def same_outside_refl)
qed (use mem.deleted mem.delete_touches mem.other_calls mem.other_steps in \<open>simp_all add: refusing_index_def\<close>)

definition refusing_version :: "(index_world, string) version_services" where
  "refusing_version = sample_version\<lparr>sync_services := sample_sync\<lparr>ingest := sample_pipeline
     \<lparr>vectors := \<lparr>clients = refusing_index, index_name = ''ddp'', index_namespace = ''default''\<rparr>\<rparr>\<rparr>\<rparr>"

definition sample_job :: bill_job where
  "sample_job = \<lparr>bj_id = JStr ''r1'', bj_title = JStr ''An act'', bj_code = ''FL'', bj_slug = JStr ''hb-1'', bj_cms = []\<rparr>"

definition page_answers :: "(string + response) list" where
  "page_answers = [Inr \<lparr>status_code = 200, body_text = replicate 300 CHR ''a'', body_json = None, headers_of = []\<rparr>,
     answer_ok (JObj [(''id'', JInt 1)])]"

lemma page_text: "html_body (\<lambda>sel. if sel = ''main'' then Some (replicate 300 CHR ''a'') else None) = Some (replicate 300 CHR ''a'')"
  by (simp add: html_body_def BILL_TEXT_SELECTORS_def)

lemma header_has_text: "strip (bill_header cms u @ c) \<noteq> []"
proof -
  have "CHR ''#'' \<in> set (bill_header cms u)" by (simp add: bill_header_def Let_def)
  moreover have "\<not> is_space CHR ''#''" by code_simp
  ultimately show ?thesis by (auto simp: strip_eq_Nil_iff)
qed

lemma refused_text:
  "\<exists>body s1. ingest_bill_text plain_index_host refusing_version (JStr ''r1'') (JStr ''u'') ''text/html'' [] (index_site page_answers [])
    = (Inr (1, body), s1)"
proof -
  have tools: "tools refusing_version = sample_tools" "ingest (sync_services refusing_version) = sample_pipeline
     \<lparr>vectors := \<lparr>clients = refusing_index, index_name = ''ddp'', index_namespace = ''default''\<rparr>\<rparr>"
    by (simp_all add: refusing_version_def sample_version_def sample_sync_def)
  let ?P = "ingest (sync_services refusing_version)"
  have chunks: "length (chunks_of ?P (bill_header [] ''u'' @ c) info) = 1" for c info
    using sample_chunks[OF header_has_text] by (simp add: tools chunks_of_def)
  have ingest: "\<exists>r s'. ingest_anew plain_index_host refusing_version (bill_header [] ''u'' @ c) info s = (Inr r, s') \<and> chunks_created r = 1"
    for c info s
  proof -
    obtain r s' where "ingest_anew plain_index_host refusing_version (bill_header [] ''u'' @ c) info s = (Inr r, s')"
      using answers_anew by (metis answersE)
    moreover from this have "chunks_created r = 1"
      using chunks[of c info] by (auto simp: ingest_anew_def ingest_document_def new_pipeline_def ingested_def acts Let_def
          split: prod.splits sum.splits if_splits)
    ultimately show ?thesis by blast
  qed
  have kind: "\<not> contains ''pdf'' (lower ''text/html'')" "contains ''html'' (lower ''text/html'')" by code_simp+
  obtain s1 where page: "download plain_index_host ''u'' (index_site page_answers []) = (Inr (replicate 300 CHR ''a''), s1)"
    by (simp add: download_def acts http_def page_answers_def index_site_def plain_index_host_def index_host_def index_network_def
        script_network_def raise_for_status_def is_success_def)
  define doc where "doc = \<lparr>ds_content = bill_header [] ''u'' @ cleaned_lines (replicate 300 CHR ''a''),
    ds_info = bill_info (n_stamp (network plain_index_host) (net s1)) ''html'' ''u'' [] (JStr ''r1'')\<rparr>"
  have "fetch_document plain_index_host refusing_version (JStr ''u'') ''text/html'' [] (JStr ''r1'') (index_site page_answers [])
    = (Inr (Some (Some doc)), s1)"
    using kind page by (simp add: fetch_document_def process_bill_html_def tools sample_tools_def page_text bill_document_def acts doc_def)
  moreover obtain r s2 where "ingest_anew plain_index_host refusing_version (ds_content doc) (ds_info doc) s1 = (Inr r, s2)"
    "chunks_created r = 1"
    using ingest[of "cleaned_lines (replicate 300 CHR ''a'')" "ds_info doc" s1] by (auto simp: doc_def)
  ultimately show ?thesis by (auto simp: ingest_bill_text_def acts)
qed

lemma answers_ends: "answers m \<Longrightarrow> ends m"
  unfolding answers_def ends_def by (metis fst_conv sum.distinct(1))

lemma ends_fetch_document [ending]: "ends (fetch_document H W url media cms i)"
  unfolding fetch_document_def process_bill_pdf_def process_bill_html_def process_url_def download_def bill_document_def
    get_url_content_type_def detect_kind_def Let_def
  by (intro ending kind_intro[where Q = ends] | simp)+

lemma ends_version_steps [ending]:
  "ends (ingest_bill_text H W i url media cms)" "ends (record_ingested H B b url media r)" "ends (refresh_slug_cache H B v)"
  "ends (publish_invalidation H B r)" "ends (ingest_bill_history H W i t sl u m vd vn j body)"
  unfolding ingest_bill_text_def record_ingested_def refresh_slug_cache_def publish_invalidation_def write_bill_version_def
      post_json_def with_broker_def reach_def accepted_def written_def Let_def
  by (intro ending answers_ends[OF answers_anew] answers_ends[OF answers_history] | simp add: rejected_def)+

lemma answers_update_first: "answers (update_version H W B None latest text_url media b st)"
proof -
  have "ends (delete_surplus_chunks H sv doc JNull k)" for sv doc k
    by (simp add: delete_surplus_chunks_def ends_ret)
  then show ?thesis
    unfolding update_version_def ingest_version_def after_text_step_def no_ledger_row mbind_mres_Inr
    by (intro answering ending)
qed


section \<open>The ledger is not reachable\<close>

text \<open>No request to the broker gets a response.\<close>

definition broker_down :: "('n, 'r) host \<Rightarrow> bool" where
  "broker_down H = (\<forall>rq n. starts_with (ddp_broker_api_base (conf H)) (req_url rq) \<longrightarrow> (\<exists>e. fst (n_call (network H) rq n) = Inl e))"

lemma sends_latest_version: "sends is_read (get_latest_bill_version H b base)"
  unfolding get_latest_bill_version_def get_json_from_def with_broker_def reach_def accepted_def Let_def
  by (intro sending) (simp add: broker_get_def is_read_def)

lemma latest_version_down:
  assumes "broker_down H"
  obtains m s1 where "get_latest_bill_version H b None s = (Inl (BrokerClientError m), s1)"
proof (cases "ddp_broker_api_base (conf H) = []")
  case True
  then show ?thesis using that by (simp add: get_latest_bill_version_def get_json_from_def with_broker_def resolved_def acts)
next
  case False
  let ?rq = "broker_get (ddp_broker_api_token (conf H)) (ddp_broker_api_base (conf H) @ ''/api/bill-versions/latest/'') [(''bill_openstates_id'', b)]"
  obtain e n where "n_call (network H) ?rq (net s) = (Inl e, n)"
  proof -
    have "starts_with (ddp_broker_api_base (conf H)) (req_url ?rq)" by (simp add: broker_get_def starts_with_append)
    then show ?thesis using assms that unfolding broker_down_def by (metis prod.collapse)
  qed
  with False show ?thesis
    using that by (auto simp: get_latest_bill_version_def get_json_from_def with_broker_def resolved_def reach_def acts http_def Let_def)
qed

lemma check_version_down:
  assumes "broker_down H" "extract_bill_openstates_id data = Inr (Some b)"
  obtains m s1 s' where "get_latest_bill_version H b None s = (Inl (BrokerClientError m), s1)"
    "check_version H V B data versions latest url media st s = (Inr (st, Inr ()), s')" "sent s' = sent s1" "net s' = net s1"
proof -
  obtain m s1 where read: "get_latest_bill_version H b None s = (Inl (BrokerClientError m), s1)"
    using latest_version_down[OF assms(1)] .
  moreover have "\<exists>s'. refresh_slug_cache H B latest s1 = (Inr (), s') \<and> sent s' = sent s1 \<and> net s' = net s1"
    by (auto simp: refresh_slug_cache_def acts on_store_def Let_def split: sum.split list.split prod.split)
  ultimately show ?thesis using that by (auto simp: check_version_def read_ledger_def acts assms(2))
qed

text \<open>A check either ends before the ledger, or is \<open>check_version\<close> from a result in which nothing is ingested.\<close>

definition nothing_ingested :: "reingest \<Rightarrow> bool" where
  "nothing_ingested r = (\<not> ri_newer r \<and> ri_chunks r = 0 \<and> ri_error r = None)"

lemma check_cases:
  assumes "check_and_reingest_version H V B data s = (Inr r, s')"
  obtains "s' = s" "nothing_ingested r"
  | st versions latest url media where "nothing_ingested st" "check_version H V B data versions latest url media st s = (Inr (r, Inr ()), s')"
proof -
  have new: "nothing_ingested (new_reingest\<lparr>ri_note := n, ri_date := d, ri_url := u\<rparr>)" "nothing_ingested new_reingest"
      "nothing_ingested (new_reingest\<lparr>ri_note := n, ri_date := d\<rparr>)" for n d u
    by (simp_all add: nothing_ingested_def new_reingest_def)
  have "s' = s \<and> nothing_ingested r \<or> (\<exists>versions latest url media n d. check_version H V B data versions latest url media
      (new_reingest\<lparr>ri_note := n, ri_date := d, ri_url := url\<rparr>) s = (Inr (r, Inr ()), s'))"
    using assms new unfolding check_and_reingest_version_def version_steps_def
    by (auto simp: acts Let_def split: sum.splits option.splits if_splits prod.splits)
  then show ?thesis using that new by blast
qed

context vector_index begin

lemma moves_latest_version [moving]: "moves (same_outside view P) (get_latest_bill_version H b base)"
  unfolding get_latest_bill_version_def get_json_from_def with_broker_def reach_def accepted_def Let_def
  by (intro moving)

end


text \<open>A host that no service answers, and a bill with one version.\<close>

definition cut_off_host :: "(index_world, unit) host" where
  "cut_off_host = plain_index_host\<lparr>network := index_network\<lparr>n_call := (\<lambda>rq w. (Inl ''refused'', w))\<rparr>\<rparr>"

interpretation cut_off: vector_index mem_index cut_off_host held
  by unfold_locales
    (use mem.upserted mem.upsert_touches mem.deleted mem.delete_touches mem.other_calls mem.other_steps[where c = None and cfg = default_settings]
      in \<open>simp_all add: cut_off_host_def plain_index_host_def index_host_def\<close>)

definition versioned_bill :: json where
  "versioned_bill = JObj [(''id'', JStr ''ocd-bill/b1''), (''versions'', JArr [JObj [(''note'', JStr ''Introduced''), (''date'', JStr ''2026-01-05''),
     (''links'', JArr [JObj [(''url'', JStr ''u''), (''media_type'', JStr ''text/html'')]])]])]"


section \<open>What a successful write is counted as\<close>

lemma update_status_flags:
  assumes "extract_latest_action (utc_text V) bill = Inr (act, d, c)" "text_address bill = Inr u"
    and "update_bill_status H V i bill cms s = (Inr x, s')" "sx_webflow_updated x"
  shows "\<exists>fs. changed_fields cms u act d c = Inr fs \<and> sx_status_updated x = (''status'' \<in> fst ` set fs)"
  using assms(3,4)
  by (auto simp: update_bill_status_def assms(1,2) send_changes_def keep_status_def acts on_store_def Let_def
      split: if_splits prod.splits sum.splits) (drule imageI[where f = fst], simp)

text \<open>When a bill has no newer version and its row was written successfully, but for fields other than the status, the batch
  counts the write as a failure and not as an update.\<close>

lemma written_row_counted_as_failure:
  assumes "extract_latest_action (utc_text V) bill = Inr (act, d, c)" "text_address bill = Inr u"
    and "dict_get cms ''status'' = act" "update_bill_status H V i bill cms s = (Inr x, s')" "sx_webflow_updated x" "\<not> ri_newer r"
  shows "vb_patch_failures (fst (count_check title (combine r x) w)) = Suc (vb_patch_failures w) \<and>
    vb_webflow_updates (fst (count_check title (combine r x) w)) = vb_webflow_updates w"
proof -
  obtain fs where "changed_fields cms u act d c = Inr fs" "sx_status_updated x = (''status'' \<in> fst ` set fs)"
    using update_status_flags[OF assms(1,2,4,5)] by blast
  then have "\<not> sx_status_updated x" using assms(3) by (auto simp: changed_fields_def bind_res_Inr_iff split: if_splits)
  moreover have "\<not> sx_patch_skipped x" using update_status_outcome[OF assms(4)] assms(5) by (simp add: one_outcome_def)
  ultimately show ?thesis
    using assms(5,6) by (simp add: combine_def count_check_def count_unchanged_def count_def unchanged_result_def Let_def)
qed

lemmas run_host = plain_index_host_def index_host_def index_network_def script_network_def index_site_def http_def Let_def

lemma written_row_counted_as_failure_witness:
  "\<exists>x s'. update_bill_status plain_index_host sample_version (JStr ''r1'') sample_bill [(''status'', JStr ''Signed'')]
      (index_site [answer_ok (JObj [])] []) = (Inr x, s') \<and> map req_method (sent s') = [PATCH] \<and> sx_webflow_updated x \<and>
    vb_patch_failures (fst (count_check JNull (combine new_reingest x) (new_batch 1))) = 1"
proof -
  let ?run = "update_bill_status plain_index_host sample_version (JStr ''r1'') sample_bill [(''status'', JStr ''Signed'')]
      (index_site [answer_ok (JObj [])] [])"
  have facts: "extract_latest_action (utc_text sample_version) sample_bill = Inr (JStr ''Signed'', JStr ''2026-03-01T00:00:00.000Z'', JNull)"
    "text_address sample_bill = Inr JNull" by code_simp+
  have turn: "sleep_time (lookup_limiter (new_lookup DEFAULT_MAX_REQUESTS_PER_MINUTE)) 0 = Inr None"
    "apply_limit 0 0 (lookup_limiter (new_lookup DEFAULT_MAX_REQUESTS_PER_MINUTE)) = Inr (lookup_limiter (new_lookup DEFAULT_MAX_REQUESTS_PER_MINUTE))"
    by (simp_all add: apply_limit_def sleep_time_def new_lookup_def new_limiter_def lookup_config_def DEFAULT_MAX_REQUESTS_PER_MINUTE_def
      default_config_def min_delay_seconds_def)
  have fields: "changed_fields [(''status'', JStr ''Signed'')] JNull (JStr ''Signed'') (JStr ''2026-03-01T00:00:00.000Z'') JNull
    = Inr [(''status-date'', JStr ''2026-03-01T00:00:00.000Z'')]"
    "version_option sample_version ''skip_webflow_update'' (JBool False) = Inr (JBool False)" by code_simp+
  have "case fst ?run of Inr x \<Rightarrow> sx_webflow_updated x | _ \<Rightarrow> False" "map req_method (sent (snd ?run)) = [PATCH]"
    by (simp_all add: update_bill_status_def facts fields send_changes_def keep_status_def patch_row_def on_fresh_def
      update_bill_fields_def send_with_backoff_def numeral_3_eq_3 lookup_turn_def on_part_def wait_turn_def acts run_host on_store_def turn id_text_def json_str_def answer_ok_def bill_patch_def webflow_write_def)
  then obtain x s' where run: "?run = (Inr x, s')" "sx_webflow_updated x" "map req_method (sent s') = [PATCH]"
    by (cases ?run) (auto split: sum.splits)
  have "dict_get [(''status'', JStr ''Signed'')] ''status'' = JStr ''Signed''" "\<not> ri_newer new_reingest"
    by (simp_all add: dict_get_def new_reingest_def)
  from written_row_counted_as_failure[OF facts this(1) run(1,2) this(2)] run show ?thesis by (simp add: new_batch_def)
qed

section \<open>What a fetch sends\<close>

text \<open>A turn with a budget gives no exception, sends nothing and keeps the budget.\<close>

definition has_budget :: "limiter \<Rightarrow> bool" where
  "has_budget l = (requests_per_minute (config l) \<noteq> 0)"

lemma turn_with_budget:
  assumes "has_budget (so_limiter st)"
  obtains st' s' where "sync_turn H st s = (Inr (st', Inr ()), s')" "sent s' = sent s" "has_budget (so_limiter st')"
proof -
  obtain d where d: "sleep_time (so_limiter st) (n_time (network H) (net s)) = Inr d"
    using assms by (auto simp: has_budget_def sleep_time_def min_delay_seconds_def Let_def)
  then show ?thesis
    using assms that
    by (cases d) (auto simp: sync_turn_def on_part_def wait_turn_def acts apply_limit_def has_budget_def Let_def)
qed

definition same_requests :: "nat \<Rightarrow> request \<Rightarrow> ('n, 'r) site \<Rightarrow> ('n, 'r) site \<Rightarrow> bool" where
  "same_requests k rq s s' = (\<exists>j\<le>k. sent s' = sent s @ replicate j rq)"

lemma same_requests_step:
  "sent s1 = sent s @ [rq] \<Longrightarrow> same_requests k rq s1 s' \<Longrightarrow> same_requests (Suc k) rq s s'"
  unfolding same_requests_def by (metis (no_types, opaque_lifting) Suc_le_mono append.assoc append_Cons append_Nil replicate_Suc)

lemma bill_attempts_bounded:
  "has_budget (so_limiter st) \<Longrightarrow> \<exists>st' v s'. bill_attempts H L rq a k st s = (Inr (st', Inr v), s') \<and> same_requests k rq s s'"
proof (induction k arbitrary: a st s)
  case 0
  then show ?case by (auto simp: acts same_requests_def)
next
  case (Suc k)
  obtain st1 s1 where turn: "sync_turn H st s = (Inr (st1, Inr ()), s1)" "sent s1 = sent s" "has_budget (so_limiter st1)"
    using turn_with_budget[OF Suc.prems] .
  obtain x s2 where run: "http H rq s1 = (x, s2)" by (cases "http H rq s1")
  then have call: "http H rq s1 = (x, s2)" "sent s2 = sent s @ [rq]" "\<And>e. x = Inl e \<Longrightarrow> \<exists>m. e = RequestError m"
    using turn(2) by (auto simp: http_def Let_def split: prod.splits sum.splits)
  have end_now: "same_requests (Suc k) rq s s2" unfolding same_requests_def using call(2) by (intro exI[of _ 1]) simp
  have go_on: "\<exists>st' v s'. mbind (outer (sleep H d)) (\<lambda>_. bill_attempts H L rq (Suc a) k) st1 s2 = (Inr (st', Inr v), s') \<and>
      same_requests (Suc k) rq s s'" for d
  proof -
    define s3 where "s3 = snd (sleep H d s2)"
    have s3: "sent s3 = sent s @ [rq]" using call(2) by (simp add: s3_def acts)
    have "mbind (outer (sleep H d)) (\<lambda>_. bill_attempts H L rq (Suc a) k) st1 s2 = bill_attempts H L rq (Suc a) k st1 s3"
      by (simp add: acts s3_def)
    with Suc.IH[OF turn(3)] same_requests_step[OF s3] show ?thesis by metis
  qed
  show ?case
  proof (cases x)
    case (Inl e)
    then obtain m where "e = RequestError m" using call(3) by blast
    with Inl turn(1) call(1) end_now go_on show ?thesis by (auto simp: run_mbind run_mtry run_outer run_method)
  next
    case (Inr r)
    with turn(1) call(1) end_now go_on show ?thesis
      by (auto simp: run_mbind run_mtry run_outer run_method split: sum.split)
  qed
qed


text \<open>Fetching a bill always returns, with the document or nothing and without an exception, after at most as many requests as the
  settings allow, each the same read of the same bill, whatever the service answers.\<close>

lemma bill_fetch_bounded:
  assumes "requests_per_minute (config (so_limiter st)) \<noteq> 0"
  shows "\<exists>st' v s' k. fetch_bill_from_openstates H E code session bill st s = (Inr (st', Inr v), s') \<and>
    k \<le> nat (max_retry_attempts (limits E)) \<and> sent s' = sent s @ replicate k (bill_request H (sync_conf E) code session bill)"
  using bill_attempts_bounded[of st H "limits E" "bill_request H (sync_conf E) code session bill" 0 "nat (max_retry_attempts (limits E))" s] assms
  unfolding fetch_bill_from_openstates_def has_budget_def same_requests_def by blast

lemma bill_fetch_bounded_witness:
  "\<exists>st' v s' k. fetch_bill_from_openstates plain_index_host sample_sync ''fl'' ''2026'' ''HB 1'' (new_sync sample_sync new_cache)
      (index_site [answer_status 503, answer_ok (JObj [])] []) = (Inr (st', Inr v), s') \<and>
    k \<le> 3 \<and> sent s' = replicate k (bill_request plain_index_host sample_conf ''fl'' ''2026'' ''HB 1'')"
  using bill_fetch_bounded[of "new_sync sample_sync new_cache" plain_index_host sample_sync "''fl''" "''2026''" "''HB 1''"
      "index_site [answer_status 503, answer_ok (JObj [])] []"]
  by (simp add: new_sync_def new_limiter_def sample_sync_def default_config_def index_site_def)

end
