(* ===== verification/OpenStatesPeople.thy ===== *)
theory OpenStatesPeople
  imports WebflowLookup LocalOpenstates
begin

text \<open>
  The client of the people of OpenStates (\<open>services/openstates_people.py\<close>): the record of a person, a lookup by id, and
  the pages of a jurisdiction. Transport errors, 429 and (for a lookup) 404 are tried again within a budget; only a 404 that
  stays is the answer \<open>JNull\<close>. The fields of a person are the values of the document, \<open>JNull\<close> for \<open>None\<close>. The client keeps
  nothing but its limiter.
\<close>

section \<open>A person\<close>

record person =
  os_id :: json
  os_name :: json
  os_family_name :: json
  os_given_name :: json
  os_party :: json
  os_gender :: json
  os_birth_date :: json
  os_death_date :: json
  os_email :: json
  os_image :: json
  os_biography :: json
  os_jurisdiction_name :: json
  os_url :: json
  os_current_role :: json
  os_other_identifiers :: json
  os_other_names :: json
  os_links :: json
  os_sources :: json
  os_offices :: json
  os_raw :: json

definition jurisdiction_name_of :: "json \<Rightarrow> json" where
  "jurisdiction_name_of v =
     (case v of JObj d \<Rightarrow> or_null (dict_get d ''name'') | JStr s \<Rightarrow> or_null v | _ \<Rightarrow> JNull)"

definition from_api :: "json \<Rightarrow> person res" where
  "from_api data =
     (case data of
        JObj d \<Rightarrow>
          (let given_or = (\<lambda>k dflt. case map_of d k of None \<Rightarrow> dflt | Some v \<Rightarrow> v); opt = (\<lambda>k. or_null (dict_get d k));
               items = (\<lambda>k. or_list (dict_get d k)) in
           Inr \<lparr>os_id = given_or ''id'' (JStr []), os_name = given_or ''name'' (JStr []), os_family_name = opt ''family_name'',
             os_given_name = opt ''given_name'', os_party = opt ''party'', os_gender = opt ''gender'',
             os_birth_date = opt ''birth_date'', os_death_date = opt ''death_date'', os_email = opt ''email'',
             os_image = opt ''image'', os_biography = opt ''biography'',
             os_jurisdiction_name = jurisdiction_name_of (dict_get d ''jurisdiction''), os_url = opt ''openstates_url'',
             os_current_role = or_empty (dict_get d ''current_role''), os_other_identifiers = items ''other_identifiers'',
             os_other_names = items ''other_names'', os_links = items ''links'', os_sources = items ''sources'',
             os_offices = items ''offices'', os_raw = data\<rparr>)
      | _ \<Rightarrow> Inl (OtherError ''AttributeError''))"

text \<open>The first entry of the scheme; what is not a mapping is passed over.\<close>

fun other_id_in :: "string \<Rightarrow> json list \<Rightarrow> json" where
  "other_id_in scheme [] = JNull"
| "other_id_in scheme (JObj d # es) =
     (if dict_get d ''scheme'' = JStr scheme then dict_get d ''identifier'' else other_id_in scheme es)"
| "other_id_in scheme (_ # es) = other_id_in scheme es"

definition extract_other_id :: "json \<Rightarrow> string \<Rightarrow> json res" where
  "extract_other_id p scheme =
     bind_res (get_or_list p ''other_identifiers'') (\<lambda>l. bind_res (json_iter l) (\<lambda>es. Inr (other_id_in scheme es)))"

definition get_other_id :: "person \<Rightarrow> string \<Rightarrow> json res" where
  "get_other_id p scheme = extract_other_id (os_raw p) scheme"

definition person_chamber :: "person \<Rightarrow> json res" where
  "person_chamber p = attr_get (os_current_role p) ''org_classification'' JNull"

definition person_district :: "person \<Rightarrow> json res" where
  "person_district p = attr_get (os_current_role p) ''district'' JNull"

definition person_is_federal :: "person \<Rightarrow> bool res" where
  "person_is_federal p =
     bind_res (text_or_empty (os_jurisdiction_name p)) (\<lambda>t. Inr (lower (strip t) = ''united states''))"

section \<open>The client\<close>

record people_config =
  pc_api_key :: string
  pc_attempts :: nat
  pc_per_page :: int
  pc_max_pages :: nat
  pc_api_base :: string
  pc_local_base :: string
  pc_local_key :: string
  pc_local_jurisdictions :: "string list"

definition PEOPLE_BASE_URL :: string where "PEOPLE_BASE_URL = ''https://v3.openstates.org''"
definition PEOPLE_RETRY_ATTEMPTS :: nat where "PEOPLE_RETRY_ATTEMPTS = 3"
definition PEOPLE_PER_PAGE :: int where "PEOPLE_PER_PAGE = 50"
definition PEOPLE_MAX_PAGES :: nat where "PEOPLE_MAX_PAGES = 200"
definition INCLUDE_PARAMS :: "string list" where
  "INCLUDE_PARAMS = [''other_names'', ''other_identifiers'', ''links'', ''sources'', ''offices'']"

text \<open>The constructor: without a key it raises.\<close>

definition new_people_config :: "string \<Rightarrow> string \<Rightarrow> string \<Rightarrow> string \<Rightarrow> string list \<Rightarrow> people_config res" where
  "new_people_config api_key api_base local_base local_key jurisdictions =
     (if api_key = [] then Inl (ValueError ''api_key is required'')
      else Inr \<lparr>pc_api_key = api_key, pc_attempts = PEOPLE_RETRY_ATTEMPTS, pc_per_page = PEOPLE_PER_PAGE,
        pc_max_pages = PEOPLE_MAX_PAGES, pc_api_base = first_set api_base PEOPLE_BASE_URL, pc_local_base = local_base,
        pc_local_key = local_key, pc_local_jurisdictions = jurisdictions\<rparr>)"

definition people_route :: "people_config \<Rightarrow> string \<Rightarrow> string \<times> string" where
  "people_route P jurisdiction =
     (if upper jurisdiction \<in> upper ` set (pc_local_jurisdictions P) then (pc_local_base P, pc_local_key P)
      else (pc_api_base P, pc_api_key P))"

text \<open>A value as a parameter of an address.\<close>

definition query_text :: "json \<Rightarrow> string" where
  "query_text v = (case v of JBool b \<Rightarrow> if b then ''true'' else ''false'' | JNull \<Rightarrow> [] | _ \<Rightarrow> json_str v)"

definition include_params :: "(string \<times> string) list" where
  "include_params = map (\<lambda>p. (''include'', p)) INCLUDE_PARAMS"

definition people_request :: "string \<times> string \<Rightarrow> string \<Rightarrow> (string \<times> string) list \<Rightarrow> request" where
  "people_request route path params =
     \<lparr>req_method = GET, req_url = fst route @ path,
      req_headers = (''accept'', ''application/json'') # (if snd route \<noteq> [] then [(''x-api-key'', snd route)] else []),
      req_params = params, req_body = None\<rparr>"

definition transient_wait :: "('n, 'r) host \<Rightarrow> nat \<Rightarrow> ('n, 'r, limiter, unit) meth" where
  "transient_wait H a = mbind (outer (jitter H)) (\<lambda>extra_wait. outer (sleep H (2 ^ a + extra_wait)))"

text \<open>What is raised or given when the budget is used up; \<open>n\<close> is the budget.\<close>

definition people_gave_up :: "nat \<Rightarrow> string \<Rightarrow> bool \<Rightarrow> response option \<Rightarrow> string option \<Rightarrow> ('n, 'r, limiter, json) meth" where
  "people_gave_up n path allow_404 last_resp last_exc =
     (if allow_404 \<and> map_option status_code last_resp = Some 404 then mret JNull
      else if map_option status_code last_resp = Some 429
      then mraise (OpenStatesRateLimitError (''OpenStates 429 persisted after '' @ nat_str n @ '' retries: '' @ path))
      else case last_exc of
          Some m \<Rightarrow> mraise (OpenStatesError (''OpenStates transport error persisted after '' @ nat_str n @ '' retries: '' @ path @ '' '' @ em_dash @ '' '' @ m))
        | None \<Rightarrow> mraise (OpenStatesError (''OpenStates request failed after '' @ nat_str n @ '' attempts: '' @ path)))"

fun people_attempts ::
  "('n, 'r) host \<Rightarrow> request \<Rightarrow> nat \<Rightarrow> string \<Rightarrow> bool \<Rightarrow> nat \<Rightarrow> nat \<Rightarrow> response option \<Rightarrow> string option \<Rightarrow> ('n, 'r, limiter, json) meth" where
  "people_attempts H rq n path allow_404 a 0 last_resp last_exc = people_gave_up n path allow_404 last_resp last_exc"
| "people_attempts H rq n path allow_404 a (Suc left) last_resp last_exc =
     mbind (wait_turn H) (\<lambda>_.
     mtry (outer (http H rq))
       (\<lambda>e. case e of
           RequestError m \<Rightarrow> mbind (transient_wait H a) (\<lambda>_.
             people_attempts H rq n path allow_404 (Suc a) left last_resp (Some m))
         | _ \<Rightarrow> mraise e)
       (\<lambda>r. if is_success r then outer (json_body r)
          else if status_code r = 404 \<and> allow_404
          then (if left > 0 then mbind (transient_wait H a) (\<lambda>_.
                  people_attempts H rq n path allow_404 (Suc a) left (Some r) last_exc)
                else mret JNull)
          else if status_code r = 429
          then mbind (mres (backoff_seconds r a)) (\<lambda>wait.
               mbind (outer (jitter H)) (\<lambda>extra_wait.
               mbind (outer (sleep H (wait + extra_wait))) (\<lambda>_.
                 people_attempts H rq n path allow_404 (Suc a) left (Some r) last_exc)))
          else mraise (OpenStatesError (''OpenStates '' @ int_str (status_code r) @ '' on '' @ path))))"

definition people_json ::
  "('n, 'r) host \<Rightarrow> people_config \<Rightarrow> string \<Rightarrow> (string \<times> string) list \<Rightarrow> bool \<Rightarrow> string option \<Rightarrow> ('n, 'r, limiter, json) meth" where
  "people_json H P path params allow_404 jurisdiction =
     people_attempts H (people_request
         (case jurisdiction of Some j \<Rightarrow> people_route P j | None \<Rightarrow> (pc_api_base P, pc_api_key P)) path params)
       (pc_attempts P) path allow_404 0 (pc_attempts P) None None"

text \<open>\<open>results[0]\<close> of a value that is true.\<close>

definition first_result :: "json \<Rightarrow> json res" where
  "first_result v =
     (case v of
        JArr (x # xs) \<Rightarrow> Inr x
      | JStr (c # cs) \<Rightarrow> Inr (JStr [c])
      | JObj _ \<Rightarrow> Inl (KeyError ''0'')
      | _ \<Rightarrow> Inl TypeError)"

definition found_person :: "json \<Rightarrow> person option res" where
  "found_person data =
     (if data = JNull then Inr None
      else bind_res (get_or_list data ''results'') (\<lambda>results.
        if \<not> truthy results then Inr None
        else bind_res (first_result results) (\<lambda>x. bind_res (from_api x) (\<lambda>p. Inr (Some p)))))"

definition fetch_by_id :: "('n, 'r) host \<Rightarrow> people_config \<Rightarrow> json \<Rightarrow> ('n, 'r, limiter, person option) meth" where
  "fetch_by_id H P openstates_id =
     (if \<not> truthy openstates_id then mraise (Raised (ValueError ''openstates_id is required''))
      else mbind (people_json H P ''/people'' ((''id'', query_text openstates_id) # include_params) True None) (\<lambda>data.
        mres (found_person data)))"

text \<open>The people that the generator yields and the exception it ends with.\<close>

fun read_people :: "json list \<Rightarrow> person list \<Rightarrow> person list \<times> fault option" where
  "read_people [] acc = (acc, None)"
| "read_people (x # xs) acc =
     (case from_api x of Inl e \<Rightarrow> (acc, Some (Raised e)) | Inr p \<Rightarrow> read_people xs (acc @ [p]))"

definition people_max_page :: "json \<Rightarrow> int res" where
  "people_max_page data =
     bind_res (attr_get data ''pagination'' JNull) (\<lambda>p.
     bind_res (attr_get (or_empty p) ''max_page'' (JInt 1)) json_number)"

fun people_pages ::
  "('n, 'r) host \<Rightarrow> people_config \<Rightarrow> string \<Rightarrow> nat \<Rightarrow> int \<Rightarrow> person list \<Rightarrow> ('n, 'r, limiter, person list \<times> fault option) meth" where
  "people_pages H P jurisdiction 0 page acc = mret (acc, None)"
| "people_pages H P jurisdiction (Suc left) page acc =
     mtry (people_json H P ''/people'' ([(''jurisdiction'', jurisdiction), (''per_page'', int_str (pc_per_page P)),
         (''page'', int_str page)] @ include_params) False (Some jurisdiction))
       (\<lambda>e. mret (acc, Some e))
       (\<lambda>data. if \<not> truthy data then mret (acc, None)
          else (case bind_res (get_or_list data ''results'') (\<lambda>l. if truthy l then json_iter l else Inr []) of
              Inl e \<Rightarrow> mret (acc, Some (Raised e))
            | Inr results \<Rightarrow>
                if results = [] then mret (acc, None)
                else (case read_people results acc of
                    (acc, Some e) \<Rightarrow> mret (acc, Some e)
                  | (acc, None) \<Rightarrow> (case people_max_page data of
                        Inl e \<Rightarrow> mret (acc, Some (Raised e))
                      | Inr max_page \<Rightarrow> if page \<ge> max_page then mret (acc, None)
                          else people_pages H P jurisdiction left (page + 1) acc))))"

definition iter_jurisdiction :: "('n, 'r) host \<Rightarrow> people_config \<Rightarrow> string \<Rightarrow> ('n, 'r, limiter, person list \<times> fault option) meth" where
  "iter_jurisdiction H P jurisdiction = people_pages H P jurisdiction (pc_max_pages P) 1 []"

end
