(* ===== verification/CongressLegislators.thy ===== *)
theory CongressLegislators
  imports WebflowLookup LocalOpenstates PyDate
begin

text \<open>
  The dataset of the members of Congress (\<open>services/congress_legislators.py\<close>): three YAML files, kept on the disk for a day
  and downloaded otherwise, and the index of the members by their bioguide id. The disk is a record of operations on the
  state of the outside; \<open>set_order\<close> is the order in which Python iterates over a set, given the elements in the order of their
  insertion, and \<open>iso_day\<close> is \<open>date.fromisoformat\<close>. The object keeps its index when loading raises half way.
\<close>

section \<open>Members\<close>

record member =
  m_bioguide :: json
  m_name :: json
  m_bio :: json
  m_terms :: json
  m_ids :: json
  m_social :: json
  m_historical :: bool

text \<open>\<open>terms[0]\<close> and \<open>terms[-1]\<close>; no term is an \<open>IndexError\<close>.\<close>

definition item_at :: "bool \<Rightarrow> json \<Rightarrow> json res" where
  "item_at at_end v =
     (case v of
        JArr xs \<Rightarrow> if xs = [] then Inl (OtherError ''IndexError'') else Inr (if at_end then last xs else hd xs)
      | JStr s \<Rightarrow> if s = [] then Inl (OtherError ''IndexError'') else Inr (JStr [if at_end then last s else hd s])
      | JObj _ \<Rightarrow> Inl (KeyError (if at_end then ''-1'' else ''0''))
      | _ \<Rightarrow> Inl TypeError)"

definition latest_term :: "member \<Rightarrow> json res" where
  "latest_term m = item_at True (m_terms m)"

definition first_term :: "member \<Rightarrow> json res" where
  "first_term m = item_at False (m_terms m)"

definition last_term_end :: "(string \<Rightarrow> date option) \<Rightarrow> member \<Rightarrow> date option res" where
  "last_term_end iso_day m =
     bind_res (latest_term m) (\<lambda>t. bind_res (attr_get t ''end'' JNull) (\<lambda>e.
       Inr (if truthy e then iso_day (json_str e) else None)))"

section \<open>The source\<close>

record congress =
  index_by_bioguide :: "(json \<times> member) list"
  current_bioguides :: "json list"
  historical_bioguides :: "json list"
  warmed :: bool

record 'n disk =
  d_mkdir :: "string \<Rightarrow> 'n \<Rightarrow> py_error option \<times> 'n"
  d_age :: "string \<Rightarrow> 'n \<Rightarrow> rat option"
  d_write :: "string \<Rightarrow> string \<Rightarrow> 'n \<Rightarrow> py_error option \<times> 'n"
  d_yaml :: "string \<Rightarrow> 'n \<Rightarrow> json res"

record 'n dataset =
  disk :: "'n disk"
  cache_dir :: string
  cache_ttl_seconds :: int
  set_order :: "json list \<Rightarrow> json list"

definition CONGRESS_BASE_URL :: string where
  "CONGRESS_BASE_URL = ''https://unitedstates.github.io/congress-legislators''"
definition CONGRESS_CACHE_TTL_SECONDS :: int where "CONGRESS_CACHE_TTL_SECONDS = 24 * 60 * 60"
definition FILE_CURRENT :: string where "FILE_CURRENT = ''legislators-current.yaml''"
definition FILE_HISTORICAL :: string where "FILE_HISTORICAL = ''legislators-historical.yaml''"
definition FILE_SOCIAL :: string where "FILE_SOCIAL = ''legislators-social-media.yaml''"

definition new_congress :: congress where
  "new_congress = \<lparr>index_by_bioguide = [], current_bioguides = [], historical_bioguides = [], warmed = False\<rparr>"

definition add_once :: "'a \<Rightarrow> 'a list \<Rightarrow> 'a list" where
  "add_once x xs = (if x \<in> set xs then xs else xs @ [x])"

definition disk_step :: "('n \<Rightarrow> py_error option \<times> 'n) \<Rightarrow> ('n, 'r, unit) act" where
  "disk_step f s = (let (x, n) = f (net s); s = s\<lparr>net := n\<rparr> in
     case x of None \<Rightarrow> (Inr (), s) | Some e \<Rightarrow> (Inl (Raised e), s))"

definition read_yaml :: "'n dataset \<Rightarrow> string \<Rightarrow> ('n, 'r, json) act" where
  "read_yaml D path = bnd (current (\<lambda>s. d_yaml (disk D) path (net s))) (\<lambda>x.
     bnd (lift_res x) (\<lambda>data. ret (or_list data)))"

definition cache_is_fresh :: "'n dataset \<Rightarrow> string \<Rightarrow> ('n, 'r, bool) act" where
  "cache_is_fresh D path = bnd (current (\<lambda>s. d_age (disk D) path (net s))) (\<lambda>age.
     ret (case age of None \<Rightarrow> False | Some t \<Rightarrow> t < of_int (cache_ttl_seconds D)))"

definition dataset_request :: "string \<Rightarrow> request" where
  "dataset_request filename = \<lparr>req_method = GET, req_url = CONGRESS_BASE_URL @ ''/'' @ filename, req_headers = [],
     req_params = [], req_body = None\<rparr>"

definition fetch_or_cache_one :: "('n, 'r) host \<Rightarrow> 'n dataset \<Rightarrow> string \<Rightarrow> ('n, 'r, json) act" where
  "fetch_or_cache_one H D filename =
     (let path = path_join (cache_dir D) filename in
      bnd (cache_is_fresh D path) (\<lambda>fresh.
        if fresh then read_yaml D path
        else bnd (http H (dataset_request filename)) (\<lambda>r.
             bnd (raise_for_status r) (\<lambda>_.
             bnd (disk_step (d_write (disk D) path (body_text r))) (\<lambda>_. read_yaml D path)))))"

definition load_all :: "('n, 'r) host \<Rightarrow> 'n dataset \<Rightarrow> ('n, 'r, json \<times> json \<times> json) act" where
  "load_all H D =
     bnd (fetch_or_cache_one H D FILE_CURRENT) (\<lambda>c.
     bnd (fetch_or_cache_one H D FILE_HISTORICAL) (\<lambda>h.
     bnd (fetch_or_cache_one H D FILE_SOCIAL) (\<lambda>s. ret (c, h, s))))"

definition bioguide_of :: "json \<Rightarrow> (json \<times> json) res" where
  "bioguide_of raw = bind_res (attr_get raw ''id'' JNull) (\<lambda>i.
     bind_res (attr_get (or_empty i) ''bioguide'' JNull) (\<lambda>b. Inr (or_empty i, b)))"

fun social_index :: "json list \<Rightarrow> (json \<times> json) list \<Rightarrow> (json \<times> json) list res" where
  "social_index [] m = Inr m"
| "social_index (e # es) m =
     bind_res (bioguide_of e) (\<lambda>(_, b).
       if \<not> truthy b then social_index es m
       else bind_res (attr_get e ''social'' JNull) (\<lambda>s. bind_res (json_key b) (\<lambda>k.
              social_index es (dict_set k (or_empty s) m))))"

text \<open>A record without a bioguide id is left out; a later record takes the place of an earlier one in the index.\<close>

definition member_of :: "json \<Rightarrow> (json \<times> json) list \<Rightarrow> bool \<Rightarrow> (json \<times> member) option res" where
  "member_of raw social_by_bioguide historical =
     bind_res (bioguide_of raw) (\<lambda>(ids, b).
       if \<not> truthy b then Inr None
       else bind_res (attr_get raw ''name'' JNull) (\<lambda>name.
            bind_res (attr_get raw ''bio'' JNull) (\<lambda>bio.
            bind_res (attr_get raw ''terms'' JNull) (\<lambda>terms.
            bind_res (json_key b) (\<lambda>k.
              Inr (Some (k, \<lparr>m_bioguide = b, m_name = or_empty name, m_bio = or_empty bio, m_terms = or_list terms,
                m_ids = ids, m_social = (case map_of social_by_bioguide k of None \<Rightarrow> JObj [] | Some v \<Rightarrow> v),
                m_historical = historical\<rparr>)))))))"

definition ingest_member :: "json \<Rightarrow> (json \<times> json) list \<Rightarrow> bool \<Rightarrow> congress \<Rightarrow> congress res" where
  "ingest_member raw social_by_bioguide historical C =
     bind_res (member_of raw social_by_bioguide historical) (\<lambda>x. case x of
         None \<Rightarrow> Inr C
       | Some (k, m) \<Rightarrow>
           (let C = C\<lparr>index_by_bioguide := dict_set k m (index_by_bioguide C)\<rparr> in
            Inr (if historical then C\<lparr>historical_bioguides := add_once k (historical_bioguides C)\<rparr>
                 else C\<lparr>current_bioguides := add_once k (current_bioguides C)\<rparr>)))"

fun ingest_members :: "json list \<Rightarrow> (json \<times> json) list \<Rightarrow> bool \<Rightarrow> congress \<Rightarrow> congress \<times> py_error option" where
  "ingest_members [] soc historical C = (C, None)"
| "ingest_members (raw # raws) soc historical C =
     (case ingest_member raw soc historical C of
        Inl e \<Rightarrow> (C, Some e) | Inr C \<Rightarrow> ingest_members raws soc historical C)"

definition ingest_all :: "json \<Rightarrow> (json \<times> json) list \<Rightarrow> bool \<Rightarrow> ('n, 'r, congress, unit) meth" where
  "ingest_all data soc historical =
     mbind (mres (json_iter data)) (\<lambda>raws.
     mbind (mget (ingest_members raws soc historical)) (\<lambda>(C, e).
     mbind (mput (\<lambda>_. C)) (\<lambda>_. case e of None \<Rightarrow> mret () | Some e \<Rightarrow> mraise (Raised e))))"

definition warm_cache :: "('n, 'r) host \<Rightarrow> 'n dataset \<Rightarrow> ('n, 'r, congress, unit) meth" where
  "warm_cache H D =
     mbind (mget warmed) (\<lambda>b.
       if b then mret ()
       else mbind (outer (disk_step (d_mkdir (disk D) (cache_dir D)))) (\<lambda>_.
            mbind (outer (load_all H D)) (\<lambda>(current_data, historical_data, social_data).
            mbind (mres (bind_res (json_iter social_data) (\<lambda>es. social_index es []))) (\<lambda>soc.
            mbind (ingest_all current_data soc False) (\<lambda>_.
            mbind (ingest_all historical_data soc True) (\<lambda>_.
              mput (\<lambda>C. C\<lparr>warmed := True\<rparr>)))))))"

section \<open>Lookups\<close>

definition get_by_bioguide :: "('n, 'r) host \<Rightarrow> 'n dataset \<Rightarrow> json \<Rightarrow> ('n, 'r, congress, member option) meth" where
  "get_by_bioguide H D b =
     mbind (warm_cache H D) (\<lambda>_. mbind (mres (json_key b)) (\<lambda>k. mget (\<lambda>C. map_of (index_by_bioguide C) k)))"

text \<open>The members of one of the two sets, in the order of its iteration.\<close>

definition members_in :: "'n dataset \<Rightarrow> (congress \<Rightarrow> json list) \<Rightarrow> congress \<Rightarrow> member list" where
  "members_in D f C = map (\<lambda>k. the (map_of (index_by_bioguide C) k)) (set_order D (f C))"

definition iter_current :: "('n, 'r) host \<Rightarrow> 'n dataset \<Rightarrow> ('n, 'r, congress, member list) meth" where
  "iter_current H D = mbind (warm_cache H D) (\<lambda>_. mget (members_in D current_bioguides))"

fun ended_since :: "(string \<Rightarrow> date option) \<Rightarrow> date \<Rightarrow> member list \<Rightarrow> member list \<times> py_error option" where
  "ended_since iso_day d [] = ([], None)"
| "ended_since iso_day d (m # ms) =
     (case last_term_end iso_day m of
        Inl e \<Rightarrow> ([], Some e)
      | Inr e \<Rightarrow> (let (xs, x) = ended_since iso_day d ms in
          (if (case e of None \<Rightarrow> False | Some t \<Rightarrow> d \<le> t) then m # xs else xs, x)))"

definition iter_historical_since ::
  "('n, 'r) host \<Rightarrow> 'n dataset \<Rightarrow> (string \<Rightarrow> date option) \<Rightarrow> date \<Rightarrow> ('n, 'r, congress, member list \<times> py_error option) meth" where
  "iter_historical_since H D iso_day end_date =
     mbind (warm_cache H D) (\<lambda>_. mget (\<lambda>C. ended_since iso_day end_date (members_in D historical_bioguides C)))"

end
