(* ===== verification/LegislatorFields.thy ===== *)
theory LegislatorFields
  imports OpenStatesPeople CongressLegislators BillText
begin

text \<open>
  The pure part of the synchronisation of legislators (\<open>pipelines/legislator_bio.py\<close>): which values count as empty, the rule
  that decides whether a field is written, the record of an item of the content service, the two builders of a payload, and
  the search for an entry of the same person. A payload is an association list in the order of its keys; \<open>JNull\<close> is \<open>None\<close>.
\<close>

section \<open>Empty values\<close>

definition EMPTY_TEXTS :: "string list" where
  "EMPTY_TEXTS = [[], ''-'', em_dash, ''N/A'', ''n/a'', ''NA'', ''na'', ''TBD'', ''tbd'', ''UNKNOWN'', ''unknown'', ''null'', ''NULL'']"

definition is_empty :: "json \<Rightarrow> bool" where
  "is_empty v =
     (case v of
        JArr xs \<Rightarrow> xs = []
      | JObj d \<Rightarrow> d = []
      | JStr s \<Rightarrow> strip s = [] \<or> s \<in> set EMPTY_TEXTS
      | JNull \<Rightarrow> True
      | _ \<Rightarrow> False)"

text \<open>\<open>==\<close> of two values: \<open>True == 1\<close>, and the order of the keys of a mapping does not matter.\<close>

fun canonical :: "json \<Rightarrow> json" where
  "canonical (JBool b) = JInt (if b then 1 else 0)"
| "canonical (JArr xs) = JArr (map canonical xs)"
| "canonical (JObj d) = JObj (sort_key fst (map (\<lambda>(k, v). (k, canonical v)) d))"
| "canonical v = v"

definition same_value :: "json \<Rightarrow> json \<Rightarrow> bool" where
  "same_value a b = (canonical a = canonical b)"

definition should_write :: "string \<Rightarrow> json \<Rightarrow> json \<Rightarrow> string list \<Rightarrow> bool" where
  "should_write field_name cms_value upstream_value locked_fields =
     (\<not> is_empty upstream_value \<and> \<not> same_value cms_value upstream_value \<and> field_name \<notin> set locked_fields)"

definition diff_payload :: "(string \<times> json) list \<Rightarrow> (string \<times> json) list \<Rightarrow> string list \<Rightarrow> (string \<times> json) list" where
  "diff_payload cms_fields payload locked_fields =
     filter (\<lambda>(k, v). should_write k (dict_get cms_fields k) v locked_fields) payload"

section \<open>Items of the content service\<close>

record cms =
  cms_id :: json
  cms_slug :: json
  cms_name :: json
  cms_openstates_id :: json
  cms_bioguide :: json
  cms_federal :: bool
  cms_state :: "string option"
  cms_seats :: "string list"
  cms_fields :: "(string \<times> json) list"
  cms_item :: json

definition SEAT_REF_TO_SLUG :: "(string \<times> string) list" where
  "SEAT_REF_TO_SLUG =
     [(''66316e20ae88354aed5df702'', ''us-house''), (''66316e0956dc73af879134b4'', ''us-senate''),
      (''655288ef928edb1283067463'', ''state-house''), (''655288ef928edb12830673e8'', ''state-senate'')]"

definition FEDERAL_SEAT_REF_IDS :: "string list" where
  "FEDERAL_SEAT_REF_IDS = [''66316e20ae88354aed5df702'', ''66316e0956dc73af879134b4'']"

definition normalize_seat_refs :: "json \<Rightarrow> string list" where
  "normalize_seat_refs v =
     (case v of
        JStr s \<Rightarrow> if s = [] then [] else [s]
      | JArr xs \<Rightarrow> List.map_filter (\<lambda>x. case x of JStr s \<Rightarrow> if s = [] then None else Some s | _ \<Rightarrow> None) xs
      | _ \<Rightarrow> [])"

definition seat_slugs :: "cms \<Rightarrow> string list" where
  "seat_slugs c = List.map_filter (map_of SEAT_REF_TO_SLUG) (cms_seats c)"

definition from_webflow_item :: "(json \<times> string) list \<Rightarrow> json \<Rightarrow> cms res" where
  "from_webflow_item mapping it =
     bind_res (attr_get it ''fieldData'' JNull) (\<lambda>f. case or_empty f of
         JObj d \<Rightarrow>
           (let seats = normalize_seat_refs (dict_get d ''seat'') in
            bind_res (attr_get it ''id'' JNull) (\<lambda>i.
              Inr \<lparr>cms_id = or_else i (JStr []), cms_slug = or_else (dict_get d ''slug'') (JStr []),
                cms_name = or_else (dict_get d ''name'') (JStr []), cms_openstates_id = or_null (dict_get d ''openstatesid''),
                cms_bioguide = or_null (dict_get d ''bioguide-id''),
                cms_federal = list_ex (\<lambda>r. r \<in> set FEDERAL_SEAT_REF_IDS) seats,
                cms_state = resolve_jurisdiction_ref (dict_get d ''jurisdiction'') mapping, cms_seats = seats,
                cms_fields = d, cms_item = it\<rparr>))
       | _ \<Rightarrow> Inl (OtherError ''AttributeError''))"

definition matches_jurisdiction :: "cms \<Rightarrow> string \<Rightarrow> bool" where
  "matches_jurisdiction c jurisdiction =
     (let wanted = upper (strip jurisdiction) in if wanted = ''US'' then cms_federal c else cms_state c = Some wanted)"

section \<open>Values\<close>

text \<open>An address of a form goes to one field, a mail address to the other.\<close>

definition split_email_field :: "json \<Rightarrow> string option \<times> string option" where
  "split_email_field v =
     (case v of
        JStr s \<Rightarrow>
          (let stripped = strip s; l = lower stripped in
           if stripped = [] then (None, None)
           else if starts_with ''mailto:'' l then (if drop 7 stripped = [] then None else Some (drop 7 stripped), None)
           else if starts_with ''http://'' l \<or> starts_with ''https://'' l then (None, Some stripped)
           else (Some stripped, None))
      | _ \<Rightarrow> (None, None))"

definition year_from_iso :: "json \<Rightarrow> json" where
  "year_from_iso v =
     (case v of
        JStr s \<Rightarrow> if length s < 4 then JNull else (case int_of_text (take 4 s) of Inl _ \<Rightarrow> JNull | Inr y \<Rightarrow> JInt y)
      | _ \<Rightarrow> JNull)"

definition date_to_webflow_iso :: "json \<Rightarrow> json" where
  "date_to_webflow_iso v =
     (case v of
        JStr t \<Rightarrow> (let s = strip t in
          if s = [] then JNull else if CHR ''T'' \<in> set s then JStr s else JStr (s @ ''T00:00:00.000Z''))
      | _ \<Rightarrow> JNull)"

fun office_in :: "string \<Rightarrow> json list \<Rightarrow> json option res" where
  "office_in classification [] = Inr None"
| "office_in classification (x # xs) =
     bind_res (attr_get (or_empty x) ''classification'' JNull) (\<lambda>c.
       if c = JStr classification then Inr (Some x) else office_in classification xs)"

definition first_office :: "json \<Rightarrow> string \<Rightarrow> json option res" where
  "first_office offices classification = bind_res (json_iter (or_list offices)) (office_in classification)"

section \<open>Payloads\<close>

type_synonym payload = "(string \<times> json) list"

definition set_default :: "string \<Rightarrow> json \<Rightarrow> payload \<Rightarrow> payload" where
  "set_default k v p = (if k \<in> fst ` set p then p else dict_set k v p)"

text \<open>\<open>p[field] = source.get(key)\<close>, one after the other.\<close>

fun put_fields :: "json \<Rightarrow> (string \<times> string) list \<Rightarrow> payload \<Rightarrow> payload res" where
  "put_fields src [] p = Inr p"
| "put_fields src ((f, k) # fks) p = bind_res (attr_get src k JNull) (\<lambda>v. put_fields src fks (dict_set f v p))"

definition without_nulls :: "payload \<Rightarrow> payload" where
  "without_nulls p = filter (\<lambda>(k, v). v \<noteq> JNull) p"

text \<open>\<open>s.rstrip("/")\<close>.\<close>

definition trim_slashes :: "string \<Rightarrow> string" where
  "trim_slashes s = rev (dropWhile (\<lambda>c. c = CHR ''/'') (rev s))"

definition put_profile :: "person \<Rightarrow> payload \<Rightarrow> payload res" where
  "put_profile r p =
     (if \<not> truthy (os_url r) then Inr p
      else case os_url r of
          JStr u \<Rightarrow> Inr (dict_set ''open-states-url'' (JStr (trim_slashes u)) p)
        | _ \<Rightarrow> Inl (OtherError ''AttributeError''))"

definition put_ids :: "member \<Rightarrow> payload \<Rightarrow> payload res" where
  "put_ids m p =
     (let ids = or_empty (m_ids m) in
      bind_res (put_fields ids [(''bioguide-id'', ''bioguide''), (''wikidata-id'', ''wikidata''), (''opensecrets-id'', ''opensecrets'')] p) (\<lambda>p.
      bind_res (attr_get ids ''ballotpedia'' JNull) (\<lambda>bp.
      bind_res (if \<not> truthy bp then Inr p
          else case bp of
              JStr s \<Rightarrow> Inr (dict_set ''ballotpedia-slug'' (JStr (''https://ballotpedia.org/'' @ replace_text '' '' ''_'' s)) p)
            | _ \<Rightarrow> Inl (OtherError ''AttributeError'')) (\<lambda>p.
      bind_res (attr_get ids ''govtrack'' JNull) (\<lambda>g.
        Inr (if g = JNull then p
             else dict_set ''govtrack-id'' (JStr (''https://www.govtrack.us/congress/members/'' @ json_str g)) p))))))"

definition put_bio :: "member \<Rightarrow> payload \<Rightarrow> payload res" where
  "put_bio m p =
     bind_res (attr_get (or_empty (m_bio m)) ''birthday'' JNull) (\<lambda>bd.
     bind_res (attr_get (or_empty (m_bio m)) ''gender'' JNull) (\<lambda>g.
       Inr (dict_set ''gender'' g (dict_set ''birth-year'' (year_from_iso bd) p))))"

definition put_person_bio :: "person \<Rightarrow> payload \<Rightarrow> payload" where
  "put_person_bio r p = dict_set ''gender'' (os_gender r) (dict_set ''birth-year'' (year_from_iso (os_birth_date r)) p)"

definition put_terms :: "member \<Rightarrow> payload \<Rightarrow> payload res" where
  "put_terms m p =
     (if \<not> truthy (m_terms m) then Inr p
      else bind_res (first_term m) (\<lambda>t0. bind_res (attr_get t0 ''start'' JNull) (\<lambda>start_day.
           bind_res (latest_term m) (\<lambda>t. bind_res (attr_get t ''end'' JNull) (\<lambda>end_day.
           put_fields t [(''seniority-rank'', ''state_rank''), (''phone-capitol'', ''phone''), (''office-address-capitol'', ''address''),
               (''contact-form-url'', ''contact_form''), (''official-website'', ''url'')]
             (dict_set ''term-end'' (date_to_webflow_iso end_day) (dict_set ''term-start'' (date_to_webflow_iso start_day) p)))))))"

text \<open>What OpenStates adds to a federal payload: \<open>setdefault\<close> keeps a key that is there, also with the value \<open>None\<close>.\<close>

definition put_capitol_office :: "person \<Rightarrow> payload \<Rightarrow> payload res" where
  "put_capitol_office r p =
     (if truthy (dict_get p ''phone-capitol'') then Inr p
      else bind_res (first_office (os_offices r) ''capitol'') (\<lambda>office. case office of
          None \<Rightarrow> Inr p
        | Some cap \<Rightarrow> bind_res (attr_get cap ''voice'' JNull) (\<lambda>voice. bind_res (attr_get cap ''address'' JNull) (\<lambda>address.
            Inr (set_default ''office-address-capitol'' address (set_default ''phone-capitol'' voice p))))))"

definition put_contact :: "person \<Rightarrow> payload \<Rightarrow> payload" where
  "put_contact r p =
     (let (email, form) = split_email_field (os_email r);
          p = (case email of None \<Rightarrow> p
               | Some e \<Rightarrow> if truthy (dict_get p ''office-email'') then p else dict_set ''office-email'' (JStr (lower e)) p) in
      case form of None \<Rightarrow> p
      | Some f \<Rightarrow> if truthy (dict_get p ''contact-form-url'') then p else dict_set ''contact-form-url'' (JStr f) p)"

definition put_social :: "member \<Rightarrow> payload \<Rightarrow> payload res" where
  "put_social m p = put_fields (or_empty (m_social m)) [(''twitter-handle'', ''twitter''), (''facebook-handle'', ''facebook''),
     (''instagram-handle'', ''instagram''), (''youtube-handle'', ''youtube'')] p"

definition photo_bioguide :: "cms \<Rightarrow> member option \<Rightarrow> person option \<Rightarrow> json res" where
  "photo_bioguide c federal os_record =
     (let b = (case federal of Some m \<Rightarrow> m_bioguide m | None \<Rightarrow> JNull) in
      if truthy b then Inr b else if truthy (cms_bioguide c) then Inr (cms_bioguide c)
      else case os_record of Some r \<Rightarrow> get_other_id r ''bioguide'' | None \<Rightarrow> Inr JNull)"

definition if_some :: "'a option \<Rightarrow> ('a \<Rightarrow> payload \<Rightarrow> payload res) \<Rightarrow> payload \<Rightarrow> payload res" where
  "if_some x f p = (case x of None \<Rightarrow> Inr p | Some y \<Rightarrow> f y p)"

definition build_federal_payload :: "cms \<Rightarrow> member option \<Rightarrow> person option \<Rightarrow> payload res" where
  "build_federal_payload c federal os_record =
     bind_res (if_some os_record put_profile []) (\<lambda>p.
     bind_res (if_some federal put_ids p) (\<lambda>p.
     bind_res (case federal of Some m \<Rightarrow> put_bio m p | None \<Rightarrow> Inr (case os_record of Some r \<Rightarrow> put_person_bio r p | None \<Rightarrow> p)) (\<lambda>p.
     bind_res (if_some federal put_terms p) (\<lambda>p.
     bind_res (if_some os_record (\<lambda>r p. bind_res (put_capitol_office r p) (\<lambda>p. Inr (put_contact r p))) p) (\<lambda>p.
     bind_res (if_some federal put_social p) (\<lambda>p.
     bind_res (photo_bioguide c federal os_record) (\<lambda>b.
       Inr (without_nulls (if truthy b then dict_set ''photo-source-url''
           (JStr (''https://unitedstates.github.io/images/congress/450x550/'' @ json_str b @ ''.jpg'')) p else p)))))))))"

section \<open>State payloads\<close>

definition FL_OFFICIAL_WEBSITE_HOSTS :: "string list" where
  "FL_OFFICIAL_WEBSITE_HOSTS = [''myfloridahouse.gov'', ''www.myfloridahouse.gov'', ''flsenate.gov'', ''www.flsenate.gov'']"

definition FL_PROFILE_LINK_NOTES :: "string list" where "FL_PROFILE_LINK_NOTES = [''member detail page'']"

fun profile_link :: "json list \<Rightarrow> json res" where
  "profile_link [] = Inr JNull"
| "profile_link (l # ls) =
     bind_res (attr_get l ''note'' JNull) (\<lambda>n. bind_res (text_or_empty n) (\<lambda>note.
       if lower (strip note) \<in> set FL_PROFILE_LINK_NOTES then attr_get l ''url'' JNull else profile_link ls))"

definition on_official_host :: "json \<Rightarrow> bool" where
  "on_official_host v = (case v of
      JStr u \<Rightarrow> (case netloc u of Inl _ \<Rightarrow> False | Inr h \<Rightarrow> lower h \<in> set FL_OFFICIAL_WEBSITE_HOSTS) | _ \<Rightarrow> False)"

fun official_link :: "json list \<Rightarrow> json res" where
  "official_link [] = Inr JNull"
| "official_link (l # ls) =
     bind_res (attr_get l ''url'' JNull) (\<lambda>u.
       if on_official_host (or_else u (JStr [])) then Inr (or_else u (JStr [])) else official_link ls)"

definition fl_state_override :: "person \<Rightarrow> payload res" where
  "fl_state_override r =
     bind_res (json_iter (or_list (os_links r))) (\<lambda>links.
     bind_res (profile_link links) (\<lambda>by_note.
     bind_res (if truthy by_note then Inr by_note else official_link links) (\<lambda>chosen.
       Inr (if truthy chosen then [(''official-website'', chosen)] else []))))"

text \<open>The override of a state; what it raises is ignored.\<close>

definition state_extra :: "string option \<Rightarrow> person \<Rightarrow> payload" where
  "state_extra state r =
     (if state = Some ''FL'' then (case fl_state_override r of Inl _ \<Rightarrow> [] | Inr p \<Rightarrow> p) else [])"

definition put_office :: "person \<Rightarrow> payload \<Rightarrow> payload res" where
  "put_office r p =
     bind_res (first_office (os_offices r) ''capitol'') (\<lambda>office. case office of
         None \<Rightarrow> Inr p
       | Some cap \<Rightarrow> put_fields cap [(''phone-capitol'', ''voice''), (''office-address-capitol'', ''address'')] p)"

definition put_state_contact :: "person \<Rightarrow> payload \<Rightarrow> payload" where
  "put_state_contact r p =
     (let (email, form) = split_email_field (os_email r);
          p = (case email of None \<Rightarrow> p | Some e \<Rightarrow> dict_set ''office-email'' (JStr (lower e)) p);
          p = (case form of None \<Rightarrow> p | Some f \<Rightarrow> dict_set ''contact-form-url'' (JStr f) p) in
      if truthy (os_image r) then dict_set ''photo-source-url'' (os_image r) p else p)"

definition build_state_payload :: "cms \<Rightarrow> person \<Rightarrow> payload res" where
  "build_state_payload c r =
     bind_res (put_profile r []) (\<lambda>p.
     bind_res (put_office r (put_person_bio r p)) (\<lambda>p.
       Inr (without_nulls (dict_update (put_state_contact r p) (state_extra (cms_state c) r)))))"

section \<open>Merge candidates\<close>

text \<open>The last word of a name, and its first character.\<close>

definition last_word :: "string \<Rightarrow> string" where
  "last_word s = rev (takeWhile (\<lambda>c. c \<noteq> CHR '' '') (rev s))"

definition text_part :: "json \<Rightarrow> string \<Rightarrow> string res" where
  "text_part v k = bind_res (attr_get v k JNull) text_or_empty"

definition merge_signals :: "member \<Rightarrow> json \<Rightarrow> cms \<Rightarrow> string list res" where
  "merge_signals m birth_year c =
     bind_res (text_or_empty (cms_name c)) (\<lambda>n.
     let name = lower (strip n) in
     bind_res (text_part (m_name m) ''last'') (\<lambda>l.
     bind_res (text_part (m_name m) ''first'') (\<lambda>f.
     let by_name = (if last_word name = lower l \<and> take 1 name = take 1 (lower f) then [''name_match''] else []);
         cms_year = dict_get (cms_fields c) ''birth-year'' in
     bind_res (if truthy birth_year \<and> truthy cms_year
               then bind_res (json_int cms_year) (\<lambda>y. Inr (if JInt y = birth_year then [''birth_year_match''] else [])) else Inr []) (\<lambda>by_year.
       Inr (by_name @ by_year @
         (if truthy (cms_bioguide c) \<and> same_value (m_bioguide m) (cms_bioguide c) then [''bioguide_match''] else []))))))"

definition merge_score :: "string list \<Rightarrow> nat" where
  "merge_score signals = (if ''bioguide_match'' \<in> set signals then 2 else length signals)"

fun best_candidate :: "member \<Rightarrow> json \<Rightarrow> cms list \<Rightarrow> cms option \<times> string list \<Rightarrow> (cms option \<times> string list) res" where
  "best_candidate m birth_year [] best = Inr best"
| "best_candidate m birth_year (c # cs) best =
     bind_res (merge_signals m birth_year c) (\<lambda>signals.
       best_candidate m birth_year cs
         (if 2 \<le> merge_score signals \<and> length (snd best) < length signals then (Some c, signals) else best))"

text \<open>The full name and the start of the first term are computed and not used; what they raise is kept.\<close>

definition full_name_checked :: "member \<Rightarrow> unit res" where
  "full_name_checked m =
     bind_res (attr_get (m_name m) ''official_full'' JNull) (\<lambda>n.
       if truthy n then bind_res (text_or_empty n) (\<lambda>_. Inr ()) else Inr ())"

definition find_merge_candidate :: "member \<Rightarrow> (string \<times> cms list) list \<Rightarrow> (cms option \<times> string list) res" where
  "find_merge_candidate m cms_index =
     (if \<not> truthy (m_terms m) then Inr (None, [])
      else bind_res (bind_res (latest_term m) (\<lambda>t. text_part t ''state'')) (\<lambda>state.
           case map_of cms_index (upper state) of
             None \<Rightarrow> Inr (None, [])
           | Some [] \<Rightarrow> Inr (None, [])
           | Some candidates \<Rightarrow>
               bind_res (full_name_checked m) (\<lambda>_.
               bind_res (attr_get (or_empty (m_bio m)) ''birthday'' JNull) (\<lambda>bd.
               bind_res (bind_res (first_term m) (\<lambda>t. attr_get t ''start'' JNull)) (\<lambda>_.
                 best_candidate m (year_from_iso bd) candidates (None, []))))))"

end
