(* ===== verification/WebflowAssets.thy ===== *)
theory WebflowAssets
  imports WebflowLookup BillText
begin

text \<open>
  The upload of photos to the content management service (\<open>services/webflow_assets.py\<close>): fetch the image from its address or
  a fallback, register the asset, and send the bytes to the address that the service signed. The object keeps the assets
  of the run by the address they came from. The bytes of an answer are its text, \<open>md5\<close> is their hexadecimal digest, and a
  multipart form is the object of its parts, the file as the list of its name, bytes and type.
\<close>

section \<open>The object\<close>

record asset_ref =
  asset_id :: json
  hosted_url :: json
  alt_text :: json

record assets =
  asset_token :: string
  asset_site :: string
  max_image_bytes :: int
  asset_cache :: "(json \<times> asset_ref) list"

definition to_image_field_value :: "asset_ref \<Rightarrow> json" where
  "to_image_field_value a = JObj [(''fileId'', asset_id a), (''url'', hosted_url a), (''alt'', alt_text a)]"

definition MAX_IMAGE_BYTES :: int where "MAX_IMAGE_BYTES = 10 * 1024 * 1024"

definition new_assets :: "string \<Rightarrow> string \<Rightarrow> assets res" where
  "new_assets api_token site_id =
     (if api_token = [] then Inl (ValueError ''api_token is required'')
      else if site_id = [] then Inl (ValueError ''site_id is required'')
      else Inr \<lparr>asset_token = api_token, asset_site = site_id, max_image_bytes = MAX_IMAGE_BYTES, asset_cache = []\<rparr>)"

text \<open>The failure of a call without a response, as the error of this service.\<close>

definition as_asset_error :: "string \<Rightarrow> fault \<Rightarrow> ('n, 'r, 's, 'a) meth" where
  "as_asset_error context e = (case e of RequestError m \<Rightarrow> mraise (WebflowAssetError (context @ m)) | _ \<Rightarrow> mraise e)"

section \<open>The steps\<close>

text \<open>An address that is not a text is refused by the HTTP library.\<close>

definition url_text :: "json \<Rightarrow> string res" where
  "url_text v = (case v of JStr u \<Rightarrow> Inr u | _ \<Rightarrow> Inl TypeError)"

definition media_of :: "response \<Rightarrow> string" where
  "media_of r = strip (takeWhile (\<lambda>c. c \<noteq> CHR '';'') (case header r ''content-type'' of None \<Rightarrow> ''image/jpeg'' | Some t \<Rightarrow> t))"

definition fetch_image :: "('n, 'r) host \<Rightarrow> json \<Rightarrow> ('n, 'r, assets, string \<times> string) meth" where
  "fetch_image H source_url =
     mbind (mres (url_text source_url)) (\<lambda>u.
     mtry (outer (http H (plain_request GET u)))
       (as_asset_error (''Failed to fetch source image: '' @ u @ '' '' @ em_dash @ '' ''))
       (\<lambda>r. mbind (mget max_image_bytes) (\<lambda>limit.
          if status_code r \<noteq> 200
          then mraise (WebflowAssetError (with_body (''Source image returned '' @ int_str (status_code r) @ '': '' @ u) r))
          else if int (length (body_text r)) > limit
          then mraise (WebflowAssetError (''Source image exceeds '' @ int_str limit @ '' bytes: '' @ u @ '' ('' @
                 nat_str (length (body_text r)) @ '' bytes)''))
          else mret (body_text r, media_of r))))"

text \<open>The first of the addresses that gives an image, or the error of the last one.\<close>

fun fetch_first ::
  "('n, 'r) host \<Rightarrow> json list \<Rightarrow> string \<Rightarrow> ('n, 'r, assets, string \<times> string \<times> json) meth" where
  "fetch_first H [] last_err = mraise (WebflowAssetError last_err)"
| "fetch_first H (url # urls) last_err =
     mtry (fetch_image H url)
       (\<lambda>e. case e of WebflowAssetError m \<Rightarrow> fetch_first H urls m | _ \<Rightarrow> mraise e)
       (\<lambda>(bytes, content_type). mret (bytes, content_type, url))"

text \<open>\<open>urlparse(u).path\<close> for a scheme with parameters: what follows the host up to \<open>?\<close> or \<open>#\<close>, without the parameters of the last part.\<close>

definition url_path :: "string \<Rightarrow> string res" where
  "url_path u =
     bind_res (netloc u) (\<lambda>h.
       let s = after_scheme (cleaned_url u);
           rest = (if starts_with ''//'' s then drop (2 + length h) s else s);
           path = takeWhile (\<lambda>c. c \<notin> {CHR ''?'', CHR ''#''}) rest;
           tail = rev (takeWhile (\<lambda>c. c \<noteq> CHR ''/'') (rev path)) in
       Inr (take (length path - length tail) path @ takeWhile (\<lambda>c. c \<noteq> CHR '';'') tail))"

definition PHOTO_EXTENSIONS :: "(string \<times> string) list" where
  "PHOTO_EXTENSIONS = [(''image/jpeg'', ''jpg''), (''image/jpg'', ''jpg''), (''image/png'', ''png''), (''image/gif'', ''gif''),
     (''image/webp'', ''webp'')]"

definition derive_filename :: "string \<Rightarrow> string \<Rightarrow> string res" where
  "derive_filename source_url content_type =
     bind_res (url_path source_url) (\<lambda>path.
       let base = rev (takeWhile (\<lambda>c. c \<noteq> CHR ''/'') (rev path)) in
       Inr (if base \<noteq> [] \<and> CHR ''.'' \<in> set base then base
            else ''legislator-photo.'' @ (case map_of PHOTO_EXTENSIONS content_type of None \<Rightarrow> ''jpg'' | Some x \<Rightarrow> x)))"

fun missing_key :: "string list \<Rightarrow> json \<Rightarrow> string option res" where
  "missing_key [] body = Inr None"
| "missing_key (k # ks) body =
     bind_res (attr_get body k JNull) (\<lambda>v. if truthy v then missing_key ks body else Inr (Some k))"

definition asset_request :: "assets \<Rightarrow> string \<Rightarrow> string \<Rightarrow> request" where
  "asset_request A file_name file_hash =
     \<lparr>req_method = POST, req_url = WEBFLOW_URL @ ''/sites/'' @ asset_site A @ ''/assets'',
      req_headers = [(''Authorization'', ''Bearer '' @ asset_token A), (''accept-version'', ''2.0.0''), (''Content-Type'', ''application/json'')],
      req_params = [], req_body = Some (JObj [(''fileName'', JStr file_name), (''fileHash'', JStr file_hash)])\<rparr>"

definition create_asset :: "('n, 'r) host \<Rightarrow> string \<Rightarrow> string \<Rightarrow> ('n, 'r, assets, json) meth" where
  "create_asset H file_name file_hash =
     mbind (mget (\<lambda>A. asset_request A file_name file_hash)) (\<lambda>rq.
     mtry (outer (http H rq)) (as_asset_error ''Failed to create Webflow asset metadata: '') (\<lambda>r.
       if \<not> is_success r
       then mraise (WebflowAssetError (with_body (''Webflow asset create failed: status='' @ int_str (status_code r)) r))
       else mbind (outer (json_body r)) (\<lambda>body.
            mbind (mres (missing_key [''id'', ''uploadUrl''] body)) (\<lambda>k. case k of
                Some k \<Rightarrow> mraise (WebflowAssetError (''Webflow asset create response missing '' @ repr_str k @ '': '' @ json_repr body))
              | None \<Rightarrow> mret body))))"

definition form_fields :: "json \<Rightarrow> (string \<times> json) list res" where
  "form_fields details = (case details of
      JObj d \<Rightarrow> Inr (map (\<lambda>(k, v). (k, JStr (json_str v))) d) | _ \<Rightarrow> Inl (OtherError ''AttributeError''))"

definition signed_upload :: "string \<Rightarrow> (string \<times> json) list \<Rightarrow> string \<Rightarrow> string \<Rightarrow> string \<Rightarrow> request" where
  "signed_upload u form bytes content_type file_name =
     \<lparr>req_method = POST, req_url = u, req_headers = [], req_params = [],
      req_body = Some (JObj (dict_set ''file'' (JArr [JStr file_name, JStr bytes, JStr content_type]) form))\<rparr>"

definition put_to_signed_url ::
  "('n, 'r) host \<Rightarrow> json \<Rightarrow> json \<Rightarrow> string \<Rightarrow> string \<Rightarrow> string \<Rightarrow> ('n, 'r, assets, unit) meth" where
  "put_to_signed_url H upload_url details bytes content_type file_name =
     mbind (mres (form_fields (or_empty details))) (\<lambda>form.
     mbind (mres (url_text upload_url)) (\<lambda>u.
     mtry (outer (http H (signed_upload u form bytes content_type file_name)))
       (as_asset_error ''Failed to PUT bytes to signed url: '') (\<lambda>r.
         if is_success r then mret ()
         else mraise (WebflowAssetError (with_body (''Signed-URL upload failed: status='' @ int_str (status_code r)) r)))))"

section \<open>The upload\<close>

definition keep_asset :: "json \<Rightarrow> json \<Rightarrow> asset_ref \<Rightarrow> ('n, 'r, assets, unit) meth" where
  "keep_asset source_url winning_url ref =
     mput (\<lambda>A. let A = A\<lparr>asset_cache := dict_set source_url ref (asset_cache A)\<rparr> in
       if winning_url \<noteq> source_url then A\<lparr>asset_cache := dict_set winning_url ref (asset_cache A)\<rparr> else A)"

definition register_asset ::
  "('n, 'r) host \<Rightarrow> json \<Rightarrow> json \<Rightarrow> json \<Rightarrow> string \<Rightarrow> string \<Rightarrow> string \<Rightarrow> string \<Rightarrow> ('n, 'r, assets, asset_ref option) meth" where
  "register_asset H source_url winning_url alt bytes content_type file_name file_hash =
     mbind (create_asset H file_name file_hash) (\<lambda>meta.
     mbind (mres (subscript meta ''uploadUrl'')) (\<lambda>upload_url.
     mbind (mres (attr_get meta ''uploadDetails'' JNull)) (\<lambda>details.
     mbind (put_to_signed_url H upload_url (or_empty details) bytes content_type file_name) (\<lambda>_.
     mbind (mres (subscript meta ''id'')) (\<lambda>i.
     mbind (mres (attr_get meta ''hostedUrl'' (JStr []))) (\<lambda>hosted.
       let ref = \<lparr>asset_id = i, hosted_url = hosted, alt_text = alt\<rparr> in
       mbind (keep_asset source_url winning_url ref) (\<lambda>_. mret (Some ref))))))))"

definition upload_from_url ::
  "('n, 'r) host \<Rightarrow> (string \<Rightarrow> string) \<Rightarrow> json \<Rightarrow> json list \<Rightarrow> json \<Rightarrow> bool \<Rightarrow> ('n, 'r, assets, asset_ref option) meth" where
  "upload_from_url H md5 source_url fallback_urls alt dry_run =
     (if \<not> truthy source_url then mraise (Raised (ValueError ''source_url is required''))
      else mbind (mres (json_key source_url)) (\<lambda>key.
           mbind (mget (\<lambda>A. map_of (asset_cache A) key)) (\<lambda>cached. case cached of
               Some a \<Rightarrow> mret (Some (a\<lparr>alt_text := if truthy alt then alt else alt_text a\<rparr>))
             | None \<Rightarrow>
                 mbind (fetch_first H (source_url # fallback_urls) []) (\<lambda>(bytes, content_type, winning_url).
                 mbind (mres (bind_res (url_text winning_url) (\<lambda>u. derive_filename u content_type))) (\<lambda>file_name.
                   if dry_run then mret None
                   else register_asset H source_url winning_url alt bytes content_type file_name (md5 bytes))))))"

end
