(* ===== verification/LegislatorBio.thy ===== *)
theory LegislatorBio
  imports LegislatorFields WebflowAssets
begin

text \<open>
  The synchronisation of the legislators (\<open>pipelines/legislator_bio.py\<close>): one pass over the items of the content service,
  each resolved at OpenStates or in the dataset of Congress, compared, and patched; the photos; the drafts for members who
  have no item; the summary for the editors. The pipeline owns the objects of its services, and the report of a run grows
  in its state, so that what an aborted run did is kept.
\<close>

section \<open>Options and report\<close>

record bio_options =
  bo_target :: string
  bo_jurisdiction :: string
  bo_auto_create :: bool
  bo_dry_run :: bool
  bo_limit :: int
  bo_locked_fields :: "string list"
  bo_strict_schema :: bool
  bo_upload_photos :: bool
  bo_upload_photos_dry_run :: bool

record bio_report =
  cms_items_seen :: nat
  resolved_via_openstates :: nat
  resolved_via_bioguide :: nat
  would_patch :: "json list"
  would_create :: "json list"
  potential_merges :: "json list"
  upstream_orphans :: "json list"
  bio_errors :: "string list"
  bio_aborted :: bool
  abort_reason :: "string option"
  photos_attempted :: nat
  photos_succeeded :: nat
  photos_failed :: nat

definition new_bio_report :: bio_report where
  "new_bio_report = \<lparr>cms_items_seen = 0, resolved_via_openstates = 0, resolved_via_bioguide = 0, would_patch = [],
     would_create = [], potential_merges = [], upstream_orphans = [], bio_errors = [], bio_aborted = False,
     abort_reason = None, photos_attempted = 0, photos_succeeded = 0, photos_failed = 0\<rparr>"

text \<open>The service of photos: not yet made, given up for the run, or there.\<close>

datatype asset_slot = NoService | Disabled | Service assets

record bio =
  bio_webflow :: lookup
  bio_congress :: congress
  bio_openstates :: limiter
  bio_assets :: asset_slot
  bio_report :: bio_report

text \<open>What does not change: the settings, the client's configuration, the dataset, \<open>md5\<close>, and the number that \<open>round(a / b, 3)\<close> gives.\<close>

record 'n bio_tools =
  bt_settings :: sync_settings
  bt_people :: people_config
  bt_dataset :: "'n dataset"
  bt_assets_key :: string
  bt_site_id :: string
  bt_webhook :: string
  bt_md5 :: "string \<Rightarrow> string"
  bt_ratio :: "nat \<Rightarrow> nat \<Rightarrow> json"

text \<open>The constructor, which needs the key of OpenStates.\<close>

definition new_bio_pipeline :: "settings \<Rightarrow> sync_settings \<Rightarrow> (bio \<times> people_config) res" where
  "new_bio_pipeline cfg S =
     (if openstates_api_key S = [] then Inl (ValueError ''OPENSTATES_API_KEY is required for legislator bio sync'')
      else bind_res (new_people_config (openstates_api_key S) (openstates_api_base S) (local_openstates_api_base cfg)
               (local_openstates_api_key cfg) (ddp_openstates_jurisdictions S)) (\<lambda>P.
        Inr (\<lparr>bio_webflow = new_lookup DEFAULT_MAX_REQUESTS_PER_MINUTE, bio_congress = new_congress,
          bio_openstates = new_limiter None, bio_assets = NoService, bio_report = new_bio_report\<rparr>, P)))"

definition on_webflow :: "('n, 'r, lookup, 'a) meth \<Rightarrow> ('n, 'r, bio, 'a) meth" where
  "on_webflow = on_part bio_webflow (\<lambda>x B. B\<lparr>bio_webflow := x\<rparr>)"

definition on_congress :: "('n, 'r, congress, 'a) meth \<Rightarrow> ('n, 'r, bio, 'a) meth" where
  "on_congress = on_part bio_congress (\<lambda>x B. B\<lparr>bio_congress := x\<rparr>)"

definition on_openstates :: "('n, 'r, limiter, 'a) meth \<Rightarrow> ('n, 'r, bio, 'a) meth" where
  "on_openstates = on_part bio_openstates (\<lambda>x B. B\<lparr>bio_openstates := x\<rparr>)"

definition reporting :: "(bio_report \<Rightarrow> bio_report) \<Rightarrow> ('n, 'r, bio, unit) meth" where
  "reporting f = mput (\<lambda>B. B\<lparr>bio_report := f (bio_report B)\<rparr>)"

section \<open>The loop over the items\<close>

text \<open>
  \<open>async for item in iter_legislator_items()\<close>: the body runs for the items of a page before the next page is read. The state
  of the loop has the service as a part; a body that answers \<open>True\<close> leaves the loop.
\<close>

fun for_items :: "(json \<Rightarrow> ('n, 'r, 's, bool) meth) \<Rightarrow> json list \<Rightarrow> ('n, 'r, 's, bool) meth" where
  "for_items body [] = mret False"
| "for_items body (x # xs) = mbind (body x) (\<lambda>stop. if stop then mret True else for_items body xs)"

fun for_pages ::
  "('n, 'r) host \<Rightarrow> request \<Rightarrow> (('n, 'r, lookup, json list \<times> json) meth \<Rightarrow> ('n, 'r, 's, json list \<times> json) meth) \<Rightarrow>
    (json \<Rightarrow> ('n, 'r, 's, bool) meth) \<Rightarrow> nat \<Rightarrow> int \<Rightarrow> ('n, 'r, 's, unit) meth" where
  "for_pages H rq on_service body 0 from_item = mret ()"
| "for_pages H rq on_service body (Suc pages) from_item =
     mbind (on_service (legislator_page H (rq\<lparr>req_params := page_params 100 from_item\<rparr>))) (\<lambda>(items, data).
       if items = [] then mret ()
       else mbind (for_items body items) (\<lambda>stop.
         if stop then mret ()
         else mbind (mres (bind_res (page_total data) json_number)) (\<lambda>count.
           let next_item = from_item + int (length items) in
           if next_item \<ge> count \<or> length items < 100 then mret ()
           else for_pages H rq on_service body pages next_item)))"

definition for_legislators ::
  "('n, 'r) host \<Rightarrow> sync_settings \<Rightarrow> (('n, 'r, lookup, json list \<times> json) meth \<Rightarrow> ('n, 'r, 's, json list \<times> json) meth) \<Rightarrow>
    (json \<Rightarrow> ('n, 'r, 's, bool) meth) \<Rightarrow> ('n, 'r, 's, unit) meth" where
  "for_legislators H cfg on_service body =
     (if webflow_legislators_collection_id cfg = [] then mraise (WebflowError ''legislators_collection_id is not configured'')
      else let key = first_set (webflow_votebot_api_key cfg) (webflow_scheduler_api_key cfg) in
        if key = [] then mraise (WebflowError ''No Webflow API key available'')
        else for_pages H (webflow_get (legislator_url cfg) key []) on_service body 200 0)"

section \<open>Photos\<close>

definition record_label :: "cms \<Rightarrow> string" where
  "record_label c = json_str (or_else (cms_slug c) (cms_id c))"

text \<open>The service is made on first use; without its key or its site it is given up for the run.\<close>

definition ensure_assets :: "'n bio_tools \<Rightarrow> ('n, 'r, bio, assets option) meth" where
  "ensure_assets T =
     mbind (mget bio_assets) (\<lambda>slot. case slot of
         Service a \<Rightarrow> mret (Some a)
       | Disabled \<Rightarrow> mret None
       | NoService \<Rightarrow>
           (case (if bt_assets_key T = [] then Inl TypeError else new_assets (bt_assets_key T) (bt_site_id T)) of
              Inl _ \<Rightarrow> mbind (mput (\<lambda>B. B\<lparr>bio_assets := Disabled\<rparr>)) (\<lambda>_. mret None)
            | Inr a \<Rightarrow> mbind (mput (\<lambda>B. B\<lparr>bio_assets := Service a\<rparr>)) (\<lambda>_. mret (Some a))))"

definition photo_fallbacks :: "cms \<Rightarrow> json list res" where
  "photo_fallbacks c =
     (if cms_federal c \<and> truthy (cms_bioguide c)
      then bind_res (json_lower (cms_bioguide c)) (\<lambda>b. Inr [JStr (''https://www.congress.gov/img/member/'' @ b @ ''.jpg'')])
      else Inr [])"

definition photo_failed :: "string \<Rightarrow> ('n, 'r, bio, json) meth" where
  "photo_failed line =
     mbind (reporting (\<lambda>R. R\<lparr>bio_errors := bio_errors R @ [line], photos_failed := Suc (photos_failed R)\<rparr>)) (\<lambda>_. mret JNull)"

definition maybe_upload_photo :: "('n, 'r) host \<Rightarrow> 'n bio_tools \<Rightarrow> cms \<Rightarrow> json \<Rightarrow> bool \<Rightarrow> ('n, 'r, bio, json) meth" where
  "maybe_upload_photo H T c source_url dry_run =
     mbind (ensure_assets T) (\<lambda>service. case service of
         None \<Rightarrow> mret JNull
       | Some a \<Rightarrow>
           mbind (mres (photo_fallbacks c)) (\<lambda>fallback_urls.
           mbind (reporting (\<lambda>R. R\<lparr>photos_attempted := Suc (photos_attempted R)\<rparr>)) (\<lambda>_.
           mtry (on_part (\<lambda>_. a) (\<lambda>a B. B\<lparr>bio_assets := Service a\<rparr>)
               (upload_from_url H (bt_md5 T) source_url fallback_urls (cms_name c) dry_run))
             (\<lambda>e. case e of
                 WebflowAssetError m \<Rightarrow> photo_failed (record_label c @ '': photo upload failed: '' @ m)
               | _ \<Rightarrow> photo_failed (record_label c @ '': photo upload unhandled: '' @ fault_text e))
             (\<lambda>ref. mbind (reporting (\<lambda>R. R\<lparr>photos_succeeded := Suc (photos_succeeded R)\<rparr>)) (\<lambda>_.
                mret (case ref of None \<Rightarrow> JNull | Some a \<Rightarrow> to_image_field_value a))))))"

section \<open>One record\<close>

text \<open>The record at OpenStates: whatever the client raises of its own, also after 429, counts as not found.\<close>

definition fetch_openstates :: "('n, 'r) host \<Rightarrow> 'n bio_tools \<Rightarrow> cms \<Rightarrow> ('n, 'r, bio, person option) meth" where
  "fetch_openstates H T c =
     (if \<not> truthy (cms_openstates_id c) then mret None
      else mtry (on_openstates (fetch_by_id H (bt_people T) (cms_openstates_id c)))
        (\<lambda>e. case e of OpenStatesError _ \<Rightarrow> mret None | OpenStatesRateLimitError _ \<Rightarrow> mret None | _ \<Rightarrow> mraise e)
        (\<lambda>r. case r of
            None \<Rightarrow> mret None
          | Some p \<Rightarrow> mbind (reporting (\<lambda>R. R\<lparr>resolved_via_openstates := Suc (resolved_via_openstates R)\<rparr>)) (\<lambda>_. mret (Some p))))"

definition bioguide_fallback :: "('n, 'r) host \<Rightarrow> 'n bio_tools \<Rightarrow> cms \<Rightarrow> ('n, 'r, bio, member option) meth" where
  "bioguide_fallback H T c =
     (if cms_federal c \<and> truthy (cms_bioguide c)
      then mbind (on_congress (get_by_bioguide H (bt_dataset T) (cms_bioguide c))) (\<lambda>m. case m of
          None \<Rightarrow> mret None
        | Some m \<Rightarrow> mbind (reporting (\<lambda>R. R\<lparr>resolved_via_bioguide := Suc (resolved_via_bioguide R)\<rparr>)) (\<lambda>_. mret (Some m)))
      else mret None)"

definition federal_details :: "('n, 'r) host \<Rightarrow> 'n bio_tools \<Rightarrow> cms \<Rightarrow> person \<Rightarrow> ('n, 'r, bio, member option) meth" where
  "federal_details H T c p =
     mbind (mres (person_is_federal p)) (\<lambda>federal.
       if \<not> federal then mret None
       else mbind (mres (if truthy (cms_bioguide c) then Inr (cms_bioguide c) else get_other_id p ''bioguide'')) (\<lambda>b.
            if truthy b then on_congress (get_by_bioguide H (bt_dataset T) b) else mret None))"

text \<open>The two records of a legislator, at OpenStates and in the dataset.\<close>

definition resolve_upstream :: "('n, 'r) host \<Rightarrow> 'n bio_tools \<Rightarrow> cms \<Rightarrow> ('n, 'r, bio, person option \<times> member option) meth" where
  "resolve_upstream H T c =
     mbind (fetch_openstates H T c) (\<lambda>os_record. case os_record of
         None \<Rightarrow> mbind (bioguide_fallback H T c) (\<lambda>m. mret (None, m))
       | Some p \<Rightarrow> mbind (federal_details H T c p) (\<lambda>m. mret (Some p, m)))"

definition orphan_entry :: "cms \<Rightarrow> json" where
  "orphan_entry c = JObj [(''webflow_id'', cms_id c), (''slug'', cms_slug c), (''name'', cms_name c),
     (''openstates_id'', cms_openstates_id c), (''bioguide_id'', cms_bioguide c)]"

definition build_payload :: "cms \<Rightarrow> person option \<Rightarrow> member option \<Rightarrow> payload option res" where
  "build_payload c os_record federal =
     (if cms_federal c then bind_res (build_federal_payload c federal os_record) (\<lambda>p. Inr (Some p))
      else case os_record of None \<Rightarrow> Inr None | Some r \<Rightarrow> bind_res (build_state_payload c r) (\<lambda>p. Inr (Some p)))"

definition with_photo :: "('n, 'r) host \<Rightarrow> 'n bio_tools \<Rightarrow> bio_options \<Rightarrow> cms \<Rightarrow> payload \<Rightarrow> ('n, 'r, bio, payload) meth" where
  "with_photo H T opts c p =
     (if bo_upload_photos opts \<and> \<not> truthy (dict_get (cms_fields c) ''legislator-image'') \<and> truthy (dict_get p ''photo-source-url'')
      then mbind (maybe_upload_photo H T c (dict_get p ''photo-source-url'') (bo_upload_photos_dry_run opts)) (\<lambda>v.
        mret (if v = JNull then p else dict_set ''legislator-image'' v p))
      else mret p)"

definition patch_entry :: "cms \<Rightarrow> payload \<Rightarrow> (string \<times> json) list \<Rightarrow> json" where
  "patch_entry c changed extra = JObj ([(''webflow_id'', cms_id c), (''name'', cms_name c),
     (''changed_fields'', JArr (map JStr (order_names (map fst changed))))] @ extra)"

definition add_patch :: "json \<Rightarrow> ('n, 'r, bio, unit) meth" where
  "add_patch entry = reporting (\<lambda>R. R\<lparr>would_patch := would_patch R @ [entry]\<rparr>)"

definition write_changes :: "('n, 'r) host \<Rightarrow> 'n bio_tools \<Rightarrow> bio_options \<Rightarrow> cms \<Rightarrow> payload \<Rightarrow> ('n, 'r, bio, unit) meth" where
  "write_changes H T opts c changed =
     (if changed = [] then mret ()
      else if bo_dry_run opts \<or> bo_target opts = ''pinecone'' then add_patch (patch_entry c changed [])
      else mbind (on_webflow (update_legislator_fields H (bt_settings T) (json_str (cms_id c)) changed True [] (bo_strict_schema opts))) (\<lambda>r.
           add_patch (patch_entry c changed [(''dropped_fields'', JArr (map JStr (order_names (dropped_fields r))))])))"

definition sync_one_record :: "('n, 'r) host \<Rightarrow> 'n bio_tools \<Rightarrow> bio_options \<Rightarrow> cms \<Rightarrow> ('n, 'r, bio, unit) meth" where
  "sync_one_record H T opts c =
     mbind (resolve_upstream H T c) (\<lambda>(os_record, federal).
       if os_record = None \<and> federal = None
       then reporting (\<lambda>R. R\<lparr>upstream_orphans := upstream_orphans R @ [orphan_entry c]\<rparr>)
       else mbind (mres (build_payload c os_record federal)) (\<lambda>p. case p of
           None \<Rightarrow> mret ()
         | Some p \<Rightarrow> mbind (with_photo H T opts c p) (\<lambda>p.
             write_changes H T opts c (diff_payload (cms_fields c) p (bo_locked_fields opts)))))"

section \<open>The pass over all records\<close>

definition is_rate_limit :: "fault \<Rightarrow> bool" where
  "is_rate_limit e = (case e of WebflowRateLimitError _ \<Rightarrow> True | OpenStatesRateLimitError _ \<Rightarrow> True | _ \<Rightarrow> False)"

definition record_error_line :: "cms \<Rightarrow> fault \<Rightarrow> string" where
  "record_error_line c e = record_label c @ '': '' @
     (case e of WebflowError _ \<Rightarrow> name_of e | OpenStatesError _ \<Rightarrow> name_of e | _ \<Rightarrow> ''unhandled'') @ '': '' @ fault_text e"

definition limit_reached :: "bio_options \<Rightarrow> bio_report \<Rightarrow> bool" where
  "limit_reached opts R = (bo_limit opts \<noteq> 0 \<and> int (length (would_patch R) + length (bio_errors R)) \<ge> bo_limit opts)"

definition process_record :: "('n, 'r) host \<Rightarrow> 'n bio_tools \<Rightarrow> bio_options \<Rightarrow> cms \<Rightarrow> ('n, 'r, bio, bool) meth" where
  "process_record H T opts c =
     mtry (sync_one_record H T opts c)
       (\<lambda>e. if is_rate_limit e then mraise e
            else mbind (reporting (\<lambda>R. R\<lparr>bio_errors := bio_errors R @ [record_error_line c e]\<rparr>)) (\<lambda>_. mret False))
       (\<lambda>_. mret False)"

definition process_item ::
  "('n, 'r) host \<Rightarrow> 'n bio_tools \<Rightarrow> bio_options \<Rightarrow> (json \<times> string) list \<Rightarrow> json \<Rightarrow> ('n, 'r, bio, bool) meth" where
  "process_item H T opts mapping it =
     mbind (mres (from_webflow_item mapping it)) (\<lambda>c.
     mbind (reporting (\<lambda>R. R\<lparr>cms_items_seen := Suc (cms_items_seen R)\<rparr>)) (\<lambda>_.
       if bo_jurisdiction opts \<noteq> [] \<and> \<not> matches_jurisdiction c (bo_jurisdiction opts) then mret False
       else mbind (mget (\<lambda>B. limit_reached opts (bio_report B))) (\<lambda>full.
            if full then mret True else process_record H T opts c)))"

definition process_cms_records :: "('n, 'r) host \<Rightarrow> 'n bio_tools \<Rightarrow> bio_options \<Rightarrow> ('n, 'r, bio, unit) meth" where
  "process_cms_records H T opts =
     mbind (on_webflow (get_jurisdiction_mapping H (bt_settings T))) (\<lambda>mapping.
       for_legislators H (bt_settings T) on_webflow (process_item H T opts mapping))"

section \<open>Members without an item\<close>

text \<open>A method with local variables of its own.\<close>

definition with_locals :: "'l \<Rightarrow> ('n, 'r, 's \<times> 'l, 'a) meth \<Rightarrow> ('n, 'r, 's, 'l \<times> 'a) meth" where
  "with_locals l m st = bnd (m (st, l)) (\<lambda>((st', l'), x). ret (st', case x of Inl e \<Rightarrow> Inl e | Inr v \<Rightarrow> Inr (l', v)))"

definition on_object :: "('n, 'r, 's, 'a) meth \<Rightarrow> ('n, 'r, 's \<times> 'l, 'a) meth" where
  "on_object = on_part fst (\<lambda>st p. (st, snd p))"

definition index_add :: "string \<Rightarrow> cms \<Rightarrow> (string \<times> cms list) list \<Rightarrow> (string \<times> cms list) list" where
  "index_add state c m = dict_set state ((case map_of m state of None \<Rightarrow> [] | Some cs \<Rightarrow> cs) @ [c]) m"

type_synonym cms_index = "json list \<times> (string \<times> cms list) list"

definition index_item :: "(json \<times> string) list \<Rightarrow> json \<Rightarrow> ('n, 'r, bio \<times> cms_index, bool) meth" where
  "index_item mapping it =
     mbind (mres (from_webflow_item mapping it)) (\<lambda>c.
     mbind (mres (if truthy (cms_bioguide c) then bind_res (json_key (cms_bioguide c)) (\<lambda>k. Inr [k]) else Inr [])) (\<lambda>ks.
     mbind (mput (\<lambda>(B, bs, m). (B, ks @ bs, case cms_state c of None \<Rightarrow> m | Some s \<Rightarrow> index_add s c m))) (\<lambda>_.
       mret False)))"

definition index_cms :: "('n, 'r) host \<Rightarrow> 'n bio_tools \<Rightarrow> ('n, 'r, bio, cms_index) meth" where
  "index_cms H T =
     mbind (on_webflow (get_jurisdiction_mapping H (bt_settings T))) (\<lambda>mapping.
     mbind (with_locals ([], []) (for_legislators H (bt_settings T) (\<lambda>m. on_object (on_webflow m)) (index_item mapping)))
       (\<lambda>(index, _). mret index))"

definition member_label :: "member \<Rightarrow> json res" where
  "member_label m = bind_res (attr_get (m_name m) ''official_full'' JNull) (\<lambda>n. Inr (or_else n (m_bioguide m)))"

text \<open>\<open>CMSLegislator(...)\<close> as the draft calls it: the required argument \<open>seat_refs\<close> is missing.\<close>

definition draft_record :: "member \<Rightarrow> cms res" where
  "draft_record m = bind_res (member_label m) (\<lambda>_. Inl TypeError)"

definition create_draft :: "('n, 'r) host \<Rightarrow> 'n bio_tools \<Rightarrow> member \<Rightarrow> ('n, 'r, bio, unit) meth" where
  "create_draft H T m =
     mbind (mres (draft_record m)) (\<lambda>c.
     mbind (mres (build_federal_payload c (Some m) None)) (\<lambda>p.
     mbind (mres (member_label m)) (\<lambda>label.
     let p = dict_set ''name'' label p in
     mbind (on_webflow (create_legislator_draft H (bt_settings T) p [])) (\<lambda>(i, dropped, status).
       reporting (\<lambda>R. R\<lparr>would_create := would_create R @
         [JObj [(''bioguide_id'', m_bioguide m), (''name'', label), (''webflow_id'', i)]]\<rparr>)))))"

definition discover_member :: "('n, 'r) host \<Rightarrow> 'n bio_tools \<Rightarrow> bio_options \<Rightarrow> cms_index \<Rightarrow> member \<Rightarrow> unit \<Rightarrow> ('n, 'r, bio, unit) meth" where
  "discover_member H T opts index m u =
     mbind (mres (json_key (m_bioguide m))) (\<lambda>k.
       if k \<in> set (fst index) then mret ()
       else mbind (mres (find_merge_candidate m (snd index))) (\<lambda>(candidate, signals). case candidate of
           Some c \<Rightarrow> mbind (mres (member_label m)) (\<lambda>label.
             reporting (\<lambda>R. R\<lparr>potential_merges := potential_merges R @ [JObj [(''candidate_webflow_id'', cms_id c),
               (''candidate_name'', cms_name c), (''new_bioguide_id'', m_bioguide m), (''new_name'', label),
               (''matched_signals'', JArr (map JStr signals))]]\<rparr>))
         | None \<Rightarrow>
             if bo_dry_run opts
             then mbind (mres (member_label m)) (\<lambda>label.
               reporting (\<lambda>R. R\<lparr>would_create := would_create R @ [JObj [(''bioguide_id'', m_bioguide m), (''name'', label)]]\<rparr>))
             else create_draft H T m))"

definition discover_and_create :: "('n, 'r) host \<Rightarrow> 'n bio_tools \<Rightarrow> bio_options \<Rightarrow> ('n, 'r, bio, unit) meth" where
  "discover_and_create H T opts =
     mbind (index_cms H T) (\<lambda>index.
     mbind (on_congress (iter_current H (bt_dataset T))) (\<lambda>ms. mfold (discover_member H T opts index) ms ()))"

section \<open>The summary\<close>

definition LARGE_CHANGES_THRESHOLD :: nat where "LARGE_CHANGES_THRESHOLD = 100"

text \<open>The warning sign, by the bytes of its encoding.\<close>

definition warning_sign :: string where "warning_sign = map char_of [226::nat, 154, 160, 239, 184, 143]"

definition summary_line :: "bio_report \<Rightarrow> string" where
  "summary_line R = ''items_seen='' @ nat_str (cms_items_seen R) @ '' patched='' @ nat_str (length (would_patch R)) @
     '' created='' @ nat_str (length (would_create R)) @ '' merges='' @ nat_str (length (potential_merges R)) @
     '' orphans='' @ nat_str (length (upstream_orphans R)) @ '' errors='' @ nat_str (length (bio_errors R)) @
     '' photos='' @ nat_str (photos_succeeded R) @ ''/'' @ nat_str (photos_attempted R)"

definition on_failure :: "bio_report \<Rightarrow> bool" where
  "on_failure R = (bio_errors R \<noteq> [] \<or> bio_aborted R)"

definition on_large_changes :: "nat \<Rightarrow> bio_report \<Rightarrow> bool" where
  "on_large_changes threshold R = (length (would_patch R) + length (would_create R) > threshold)"

definition alert_payload :: "(nat \<Rightarrow> nat \<Rightarrow> json) \<Rightarrow> nat \<Rightarrow> string \<Rightarrow> bio_report \<Rightarrow> json" where
  "alert_payload ratio threshold stamp R =
     (let num = (\<lambda>n. JInt (int n)); patched = length (would_patch R); created = length (would_create R) in
      JObj [(''alert_type'', JStr ''legislator_bio_sync_complete''), (''summary'', JStr (summary_line R)),
        (''items_seen'', num (cms_items_seen R)), (''items_resolved_via_openstates'', num (resolved_via_openstates R)),
        (''items_resolved_via_bioguide_fallback'', num (resolved_via_bioguide R)), (''patched'', num patched),
        (''created'', num created), (''potential_merges'', num (length (potential_merges R))),
        (''upstream_orphans'', num (length (upstream_orphans R))), (''errors'', num (length (bio_errors R))),
        (''aborted'', JBool (bio_aborted R)),
        (''abort_reason'', case abort_reason R of None \<Rightarrow> JNull | Some t \<Rightarrow> JStr t),
        (''on_failure'', JBool (on_failure R)), (''on_large_changes'', JBool (on_large_changes threshold R)),
        (''large_changes_threshold'', num threshold),
        (''failure_warning'', JStr (if on_failure R then warning_sign @ '' Failure flag set '' @ em_dash @ '' investigate'' else [])),
        (''large_changes_warning'', JStr (if on_large_changes threshold R then warning_sign @ '' Large-changes flag set ('' @
           nat_str patched @ '' + '' @ nat_str created @ '' > '' @ nat_str threshold @ '')'' else [])),
        (''photo_uploads_attempted'', num (photos_attempted R)), (''photo_uploads_succeeded'', num (photos_succeeded R)),
        (''photo_uploads_failed'', num (photos_failed R)),
        (''photo_coverage_ratio'', if photos_attempted R > 0 then ratio (photos_succeeded R) (photos_attempted R) else JNull),
        (''synced_at'', JStr stamp)])"

definition push_bio_sync_alert :: "('n, 'r) host \<Rightarrow> 'n bio_tools \<Rightarrow> string \<Rightarrow> bio_report \<Rightarrow> nat \<Rightarrow> ('n, 'r, bool) act" where
  "push_bio_sync_alert H T webhook_url R threshold =
     (if webhook_url = [] then ret False
      else bnd (current (\<lambda>s. n_stamp (network H) (net s))) (\<lambda>stamp.
           attempt (http H \<lparr>req_method = POST, req_url = webhook_url, req_headers = [], req_params = [],
               req_body = Some (alert_payload (bt_ratio T) threshold stamp R)\<rparr>)
             (\<lambda>_. ret False) (\<lambda>r. ret (is_success r))))"

text \<open>The \<open>finally\<close> of the run.\<close>

definition send_alert :: "('n, 'r) host \<Rightarrow> 'n bio_tools \<Rightarrow> bio_options \<Rightarrow> ('n, 'r, bio, unit) meth" where
  "send_alert H T opts =
     (if bo_dry_run opts \<or> bt_webhook T = [] then mret ()
      else mbind (mget bio_report) (\<lambda>R.
           mtry (outer (push_bio_sync_alert H T (bt_webhook T) R LARGE_CHANGES_THRESHOLD)) (\<lambda>_. mret ()) (\<lambda>_. mret ())))"

section \<open>The run\<close>

definition abort_with :: "string \<Rightarrow> ('n, 'r, bio, bool) meth" where
  "abort_with reason = mbind (reporting (\<lambda>R. R\<lparr>bio_aborted := True, abort_reason := Some reason\<rparr>)) (\<lambda>_. mret False)"

definition on_rate_limit :: "string \<Rightarrow> ('n, 'r, bio, unit) meth \<Rightarrow> ('n, 'r, bio, bool) meth" where
  "on_rate_limit prefix m =
     mtry m (\<lambda>e. if is_rate_limit e then abort_with (prefix @ fault_text e) else mraise e) (\<lambda>_. mret True)"

definition run_steps :: "('n, 'r) host \<Rightarrow> 'n bio_tools \<Rightarrow> bio_options \<Rightarrow> ('n, 'r, bio, bool) meth" where
  "run_steps H T opts =
     mbind (on_rate_limit ''Rate-limit error aborted run: '' (process_cms_records H T opts)) (\<lambda>going.
       if going \<and> bo_auto_create opts
       then on_rate_limit ''Rate-limit error during auto-create: '' (discover_and_create H T opts)
       else mret going)"

definition run_bio_sync :: "('n, 'r) host \<Rightarrow> 'n bio_tools \<Rightarrow> bio_options \<Rightarrow> ('n, 'r, bio, bio_report) meth" where
  "run_bio_sync H T opts =
     mbind (reporting (\<lambda>_. new_bio_report)) (\<lambda>_.
     mbind (on_congress (warm_cache H (bt_dataset T))) (\<lambda>_.
     mtry (run_steps H T opts)
       (\<lambda>e. mbind (send_alert H T opts) (\<lambda>_. mraise e))
       (\<lambda>_. mbind (send_alert H T opts) (\<lambda>_. mget bio_report))))"

end
