(* ===== verification/LegislatorAudits.thy ===== *)
theory LegislatorAudits
  imports LegislatorBio
begin

text \<open>
  The three audits of the items of the legislators (\<open>pipelines/legislator_bio.py\<close>): federal items without a join key (A), items
  that miss an OpenStates id or share one (B), state items without one (C). An error of the content service ends the
  reading, and the report holds what was seen until then. The counters and lists of an audit are its local variables.
\<close>

section \<open>Reports\<close>

record audit_entry =
  ae_id :: json
  ae_slug :: json
  ae_name :: json
  ae_seat :: "string list"
  ae_state :: "string option"
  ae_openstates_id :: json
  ae_bioguide :: json
  ae_reason :: "string option"

record audit_report =
  audit_name :: string
  total_scanned :: nat
  flagged_count :: nat
  flagged :: "audit_entry list"
  audit_jurisdiction :: "string option"
  audit_aborted :: bool
  audit_abort_reason :: "string option"

definition entry_of :: "cms \<Rightarrow> json \<Rightarrow> json \<Rightarrow> audit_entry" where
  "entry_of c openstates_id bioguide = \<lparr>ae_id = cms_id c, ae_slug = cms_slug c, ae_name = cms_name c, ae_seat = seat_slugs c,
     ae_state = cms_state c, ae_openstates_id = openstates_id, ae_bioguide = bioguide, ae_reason = None\<rparr>"

definition audit_result :: "string \<Rightarrow> string option \<Rightarrow> fault option \<Rightarrow> nat \<Rightarrow> audit_entry list \<Rightarrow> audit_report" where
  "audit_result name jurisdiction e n fl = \<lparr>audit_name = name, total_scanned = n, flagged_count = length fl, flagged = fl,
     audit_jurisdiction = jurisdiction, audit_aborted = (e \<noteq> None),
     audit_abort_reason = map_option (\<lambda>e. name_of e @ '': '' @ fault_text e) e\<rparr>"

section \<open>Reading the items\<close>

record audit_acc =
  seen :: nat
  marked :: "audit_entry list"
  by_id :: "(json \<times> audit_entry list) list"

definition no_marks :: audit_acc where
  "no_marks = \<lparr>seen = 0, marked = [], by_id = []\<rparr>"

text \<open>The reading of one audit: \<open>step\<close> is what the loop does with a record. \<open>WebflowError\<close> and its subclass are caught.\<close>

definition audit_item ::
  "(cms \<Rightarrow> audit_acc \<Rightarrow> audit_acc res) \<Rightarrow> (json \<times> string) list \<Rightarrow> json \<Rightarrow> ('n, 'r, lookup \<times> audit_acc, bool) meth" where
  "audit_item step mapping it =
     mbind (mres (from_webflow_item mapping it)) (\<lambda>c.
     mbind (mget (\<lambda>(_, acc). step c acc)) (\<lambda>x.
     mbind (mres x) (\<lambda>acc. mbind (mput (\<lambda>(L, _). (L, acc))) (\<lambda>_. mret False))))"

definition audit_reading ::
  "('n, 'r) host \<Rightarrow> sync_settings \<Rightarrow> (cms \<Rightarrow> audit_acc \<Rightarrow> audit_acc res) \<Rightarrow> (json \<times> string) list \<Rightarrow>
    ('n, 'r, lookup, audit_acc \<times> fault option) meth" where
  "audit_reading H cfg step mapping =
     with_locals no_marks
       (mtry (for_legislators H cfg on_object (audit_item step mapping))
         (\<lambda>e. case e of WebflowError _ \<Rightarrow> mret (Some e) | WebflowRateLimitError _ \<Rightarrow> mret (Some e) | _ \<Rightarrow> mraise e)
         (\<lambda>_. mret None))"

definition audit_with ::
  "('n, 'r) host \<Rightarrow> sync_settings \<Rightarrow> (cms \<Rightarrow> audit_acc \<Rightarrow> audit_acc res) \<Rightarrow> (audit_acc \<Rightarrow> fault option \<Rightarrow> audit_report) \<Rightarrow>
    ('n, 'r, lookup, audit_report) meth" where
  "audit_with H cfg step result =
     mbind (get_jurisdiction_mapping H cfg) (\<lambda>mapping.
     mbind (audit_reading H cfg step mapping) (\<lambda>(acc, e). mret (result acc e)))"

section \<open>The audits\<close>

definition step_A :: "cms \<Rightarrow> audit_acc \<Rightarrow> audit_acc res" where
  "step_A c acc = Inr (if \<not> cms_federal c then acc
     else acc\<lparr>seen := Suc (seen acc), marked := marked acc @
       (if \<not> truthy (cms_openstates_id c) \<and> \<not> truthy (cms_bioguide c) then [entry_of c JNull JNull] else [])\<rparr>)"

definition step_C :: "string option \<Rightarrow> cms \<Rightarrow> audit_acc \<Rightarrow> audit_acc res" where
  "step_C wanted c acc = Inr (if cms_federal c \<or> (wanted \<noteq> None \<and> cms_state c \<noteq> wanted) then acc
     else acc\<lparr>seen := Suc (seen acc), marked := marked acc @
       (if \<not> truthy (cms_openstates_id c) then [entry_of c JNull (cms_bioguide c)] else [])\<rparr>)"

definition group_entry :: "json \<Rightarrow> audit_entry \<Rightarrow> (json \<times> audit_entry list) list \<Rightarrow> (json \<times> audit_entry list) list" where
  "group_entry k e m = dict_set k ((case map_of m k of None \<Rightarrow> [] | Some es \<Rightarrow> es) @ [e]) m"

definition step_B :: "cms \<Rightarrow> audit_acc \<Rightarrow> audit_acc res" where
  "step_B c acc =
     (let acc = acc\<lparr>seen := Suc (seen acc)\<rparr>; e = entry_of c (cms_openstates_id c) (cms_bioguide c) in
      if \<not> truthy (cms_openstates_id c) then Inr (acc\<lparr>marked := marked acc @ [e\<lparr>ae_reason := Some ''missing_openstatesid''\<rparr>]\<rparr>)
      else bind_res (json_key (cms_openstates_id c)) (\<lambda>k. Inr (acc\<lparr>by_id := group_entry k e (by_id acc)\<rparr>)))"

text \<open>The second pass of B: everything in a group of more than one.\<close>

definition duplicates_in :: "(json \<times> audit_entry list) list \<Rightarrow> audit_entry list" where
  "duplicates_in groups = concat (map (\<lambda>(k, es). if length es > 1
     then map (\<lambda>e. e\<lparr>ae_reason := Some (''duplicate_openstatesid:'' @ json_str k)\<rparr>) es else []) groups)"

definition audit_federal_join_keys :: "('n, 'r) host \<Rightarrow> sync_settings \<Rightarrow> ('n, 'r, lookup, audit_report) meth" where
  "audit_federal_join_keys H cfg = audit_with H cfg step_A (\<lambda>acc e. audit_result ''A'' None e (seen acc) (marked acc))"

definition audit_state_join_keys :: "('n, 'r) host \<Rightarrow> sync_settings \<Rightarrow> string \<Rightarrow> ('n, 'r, lookup, audit_report) meth" where
  "audit_state_join_keys H cfg jurisdiction =
     (let wanted = (if jurisdiction = [] then None else normalize_state_code (JStr jurisdiction)) in
      audit_with H cfg (step_C wanted) (\<lambda>acc e. audit_result ''C'' wanted e (seen acc) (marked acc)))"

definition audit_bulk_import_readiness :: "('n, 'r) host \<Rightarrow> sync_settings \<Rightarrow> ('n, 'r, lookup, audit_report) meth" where
  "audit_bulk_import_readiness H cfg =
     audit_with H cfg step_B (\<lambda>acc e. audit_result ''B'' None e (seen acc)
       (marked acc @ (if e = None then duplicates_in (by_id acc) else [])))"

end
