(* ===== verification/LegislatorRequests.thy ===== *)
theory LegislatorRequests
  imports VersionLaws LegislatorAudits
begin

text \<open>
  Which requests a run of the legislator synchronisation sends. \<open>allows_reads\<close> is the interface to a condition on requests that
  every read satisfies; the reading half of the pipeline keeps it, and it has two instances: a dry run only reads, and the
  patches of a live run respect what the editors wrote.
\<close>

lemmas more_branches_at = fault_intro[where Q = "\<lambda>m. Q (m st)" for Q st] list_intro[where Q = "\<lambda>m. Q (m st)" for Q st]

lemmas [sending] = more_branches_at[where Q = "sends P" for P]
lemmas [ending] = more_branches_at[where Q = ends]

section \<open>Which requests a run sends\<close>

text \<open>A condition on requests that every read satisfies: what the reading half of the pipeline sends satisfies it.\<close>

locale allows_reads =
  fixes P :: "request \<Rightarrow> bool"
  assumes reads: "req_method rq = GET \<Longrightarrow> P rq"
begin

lemma sends_jitter: "sends P (jitter H)"
  by (rule sends_silent) (simp add: jitter_def split: prod.split)

lemma sends_turn: "sends P (lookup_turn H st)"
  unfolding lookup_turn_def by (intro sending)

lemma sends_transient_wait: "sends P (transient_wait H a st)"
  unfolding transient_wait_def by (intro sending sends_jitter)

lemma sends_people_attempts: "req_method rq = GET \<Longrightarrow> sends P (people_attempts H rq n path allow a k r x st)"
proof (induction k arbitrary: a r x st)
  case 0
  then show ?case unfolding people_attempts.simps people_gave_up_def by (intro sending)
next
  case (Suc k)
  show ?case unfolding people_attempts.simps
    by (intro sending sends_transient_wait sends_jitter Suc.IH Suc.prems reads)
qed

lemma sends_fetch_by_id: "sends P (fetch_by_id H Q i st)"
  unfolding fetch_by_id_def people_json_def by (intro sending sends_people_attempts) (simp add: people_request_def)

lemma sends_warm_cache: "sends P (warm_cache H D st)"
proof -
  have one: "sends P (fetch_or_cache_one H D f)" for f
    unfolding fetch_or_cache_one_def cache_is_fresh_def read_yaml_def Let_def
    by (intro sending reads sends_silent[of "disk_step g" for g])
      (simp_all add: dataset_request_def disk_step_def Let_def split: prod.split option.split)
  have all: "sends P (ingest_all data soc b st)" for data soc b st
    unfolding ingest_all_def by (intro sending)
  show ?thesis unfolding warm_cache_def load_all_def
    by (intro sending one all sends_silent[of "disk_step g" for g]) (simp add: disk_step_def Let_def split: prod.split option.split)
qed

lemma sends_get_by_bioguide: "sends P (get_by_bioguide H D b st)"
  unfolding get_by_bioguide_def by (intro sending sends_warm_cache)

lemma sends_iter_current: "sends P (iter_current H D st)"
  unfolding iter_current_def by (intro sending sends_warm_cache)

lemma sends_jurisdiction_pages: "req_method rq = GET \<Longrightarrow> sends P (jurisdiction_pages H rq n i m st)"
proof (induction n arbitrary: i m st)
  case (Suc n)
  show ?case unfolding jurisdiction_pages.simps Let_def
    by (intro sending sends_turn Suc.IH Suc.prems reads) (simp_all add: Suc.prems)
qed (simp add: sending)

lemma sends_mapping: "sends P (get_jurisdiction_mapping H cfg st)"
  unfolding get_jurisdiction_mapping_def refreshed_mapping_def fetch_jurisdiction_mapping_fresh_def keep_mapping_def Let_def
  by (intro sending sends_jurisdiction_pages) (simp_all add: webflow_get_def)

lemma sends_legislator_page: "req_method rq = GET \<Longrightarrow> sends P (legislator_page H rq st)"
  unfolding legislator_page_def by (intro sending sends_turn reads)

lemma sends_for_items: "(\<And>x st. sends P (body x st)) \<Longrightarrow> sends P (for_items body xs st)"
  by (induction xs arbitrary: st) (simp_all add: sends_methods sends_mbind branch_at)

lemma sends_for_legislators:
  assumes "\<And>m st. (\<And>t. sends P (m t)) \<Longrightarrow> sends P (on_service m st)" "\<And>x st. sends P (body x st)"
  shows "sends P (for_legislators H cfg on_service body st)"
proof -
  have pages: "req_method rq = GET \<Longrightarrow> sends P (for_pages H rq on_service body n i st)" for rq n i st
  proof (induction n arbitrary: i st)
    case (Suc n)
    show ?case unfolding for_pages.simps Let_def
      by (intro sending assms(1) sends_legislator_page sends_for_items assms(2) Suc.IH Suc.prems) (simp add: Suc.prems)
  qed (simp add: sending)
  show ?thesis unfolding for_legislators_def Let_def
    by (intro sending pages) (simp add: webflow_get_def)
qed

end

lemma sends_mbind_value:
  assumes "sends P (m st)" "yields Q (m st)" "\<And>v st. Q v \<Longrightarrow> sends P (f v st)"
  shows "sends P (mbind m f st)"
proof (rule sendsI)
  fix s
  obtain as where as: "sent (snd (m st s)) = sent s @ as" "list_all P as" using sendsD[OF assms(1)] by blast
  show "\<exists>rqs. sent (snd (mbind m f st s)) = sent s @ rqs \<and> list_all P rqs"
  proof (cases "m st s")
    case (Pair x s1)
    show ?thesis
    proof (cases "\<exists>st1 v. x = Inr (st1, Inr v)")
      case True
      then obtain st1 v where x: "x = Inr (st1, Inr v)" by blast
      then obtain bs where "sent (snd (f v st1 s1)) = sent s1 @ bs" "list_all P bs"
        using sendsD[OF assms(3)] yieldsD[OF assms(2)] Pair by meson
      with as Pair x show ?thesis by (intro exI[of _ "as @ bs"]) (simp add: run_mbind)
    next
      case False
      with as Pair show ?thesis by (auto simp: run_mbind split: sum.split prod.split)
    qed
  qed
qed

context allows_reads begin

lemma sends_partition: "sends P (partition_payload H h fs c st)"
  unfolding partition_payload_def get_field_slugs_def fresh_schema_def keep_schema_def
  by (intro sending sends_turn reads) simp_all

lemma partition_kept: "yields (\<lambda>(kf, d). set kf \<subseteq> set fs) (partition_payload H h fs c st)"
  unfolding partition_payload_def by (intro yielding) (auto simp: filter_known_fields_def Let_def)

lemma sends_send_with_backoff: "P rq \<Longrightarrow> sends P (send_with_backoff H rq st)"
proof -
  have "P rq \<Longrightarrow> sends P (send_loop H rq a k msg st)" for a k msg st
  proof (induction k arbitrary: a msg st)
    case (Suc k)
    then show ?case unfolding send_loop.simps by (intro sending sends_turn sends_jitter)
  qed (simp add: sending)
  then show "P rq \<Longrightarrow> ?thesis" unfolding send_with_backoff_def by blast
qed

lemma sends_update_fields:
  assumes "\<And>u key kf. set kf \<subseteq> set fs \<Longrightarrow> P (webflow_write PATCH u key (JObj [(''fieldData'', JObj kf)]))"
  shows "sends P (update_legislator_fields H cfg i fs b k strict st)"
proof -
  have kept: "sends P ((case y of (kf, dropped) \<Rightarrow> f kf dropped) st)"
    if "case y of (kf, d) \<Rightarrow> set kf \<subseteq> set fs" "\<And>kf dropped. set kf \<subseteq> set fs \<Longrightarrow> sends P (f kf dropped st)"
    for y f st using that by (cases y) simp
  show ?thesis
    unfolding update_legislator_fields_def Let_def
    by (intro sending sends_mbind_value[OF sends_partition partition_kept] kept sends_send_with_backoff assms) assumption+
qed

lemma sends_fetch_first: "sends P (fetch_first H us e st)"
proof (induction us arbitrary: e st)
  case (Cons u us)
  show ?case unfolding fetch_first.simps fetch_image_def as_asset_error_def
    by (intro sending reads Cons.IH) (simp add: plain_request_def)
qed (simp add: sending)

lemma sends_dry_upload: "sends P (upload_from_url H md5 u us alt True st)"
  unfolding upload_from_url_def if_True by (intro sending sends_fetch_first)

lemma sends_resolve: "sends P (resolve_upstream H T c st)"
  unfolding resolve_upstream_def fetch_openstates_def bioguide_fallback_def federal_details_def on_openstates_def on_congress_def
    reporting_def
  by (intro sending sends_fetch_by_id sends_get_by_bioguide)

lemma sends_ensure: "sends P (ensure_assets T st)"
  unfolding ensure_assets_def
  by (rule sends_mbind) (auto intro!: sending split: asset_slot.split sum.split)

lemma sends_photo:
  assumes "\<And>u us alt st. sends P (upload_from_url H (bt_md5 T) u us alt dry st)"
  shows "sends P (maybe_upload_photo H T c u dry st)"
  unfolding maybe_upload_photo_def reporting_def photo_failed_def
  by (intro sending sends_ensure assms)

lemma sends_index_item: "sends P (index_item mapping it st)"
  unfolding index_item_def by (intro sending)

lemma sends_with_locals: "sends P (m (st, l)) \<Longrightarrow> sends P (with_locals l m st)"
  unfolding with_locals_def by (intro sending) auto

lemma sends_on_object: "(\<And>t. sends P (m t)) \<Longrightarrow> sends P (on_object m st)"
  unfolding on_object_def by (intro sending)

lemma sends_on_webflow: "(\<And>t. sends P (m t)) \<Longrightarrow> sends P (on_webflow m st)"
  unfolding on_webflow_def by (intro sending)

lemma sends_index_cms: "sends P (index_cms H T st)"
  unfolding index_cms_def
  by (intro sending sends_on_webflow sends_mapping sends_with_locals sends_for_legislators sends_on_object sends_index_item) assumption+

end

definition well_written :: "string list \<Rightarrow> payload \<Rightarrow> bool" where
  "well_written locked fs = list_all (\<lambda>(k, v). \<not> is_empty v \<and> k \<notin> set locked) fs"

lemma diff_well_written: "well_written locked (diff_payload old p locked)"
  by (auto simp: well_written_def diff_payload_def should_write_def list_all_iff)

lemma well_written_subset: "well_written locked fs \<Longrightarrow> set gs \<subseteq> set fs \<Longrightarrow> well_written locked gs"
  by (auto simp: well_written_def list_all_iff)

text \<open>The request that writes the fields of an item.\<close>

definition writes_fields :: "payload \<Rightarrow> request \<Rightarrow> bool" where
  "writes_fields fs rq = (\<exists>u key. rq = webflow_write PATCH u key (JObj [(''fieldData'', JObj fs)]))"

context allows_reads begin

lemma sends_reporting: "sends P (reporting f st)"
  unfolding reporting_def by (intro sending)

lemma sends_write_changes:
  assumes "\<And>rq fs. \<not> bo_dry_run opts \<Longrightarrow> well_written locked fs \<Longrightarrow> writes_fields fs rq \<Longrightarrow> P rq"
    and "well_written locked changed"
  shows "sends P (write_changes H T opts c changed st)"
proof (cases "bo_dry_run opts")
  case True
  then show ?thesis unfolding write_changes_def add_patch_def by (simp add: sends_methods sends_reporting)
next
  case False
  have "P (webflow_write PATCH u key (JObj [(''fieldData'', JObj fs)]))" if "set fs \<subseteq> set changed" for u key fs
    using assms(1)[OF False well_written_subset[OF assms(2) that]] unfolding writes_fields_def by blast
  then show ?thesis unfolding write_changes_def add_patch_def
    by (intro sending sends_on_webflow sends_update_fields sends_reporting) assumption+
qed

lemma sends_sync_one_record:
  assumes photo: "\<And>u us alt st. bo_upload_photos opts \<Longrightarrow> sends P (upload_from_url H (bt_md5 T) u us alt (bo_upload_photos_dry_run opts) st)"
    and patch: "\<And>rq fs. \<not> bo_dry_run opts \<Longrightarrow> well_written (bo_locked_fields opts) fs \<Longrightarrow> writes_fields fs rq \<Longrightarrow> P rq"
  shows "sends P (sync_one_record H T opts c st)"
  unfolding sync_one_record_def with_photo_def
  by (intro sending sends_resolve sends_reporting sends_photo photo sends_write_changes[OF patch diff_well_written]; simp)

lemma sends_process_cms_records:
  assumes "\<And>u us alt st. bo_upload_photos opts \<Longrightarrow> sends P (upload_from_url H (bt_md5 T) u us alt (bo_upload_photos_dry_run opts) st)"
    and "\<And>rq fs. \<not> bo_dry_run opts \<Longrightarrow> well_written (bo_locked_fields opts) fs \<Longrightarrow> writes_fields fs rq \<Longrightarrow> P rq"
  shows "sends P (process_cms_records H T opts st)"
  unfolding process_cms_records_def process_item_def process_record_def
  by (intro sending sends_on_webflow sends_mapping sends_for_legislators sends_reporting sends_sync_one_record assms) assumption+

lemma sends_discover_and_create:
  assumes "\<And>m st. \<not> bo_dry_run opts \<Longrightarrow> sends P (create_draft H T m st)"
  shows "sends P (discover_and_create H T opts st)"
  unfolding discover_and_create_def discover_member_def on_congress_def
  by (intro sending sends_index_cms sends_iter_current sends_reporting assms; simp)

lemma sends_run:
  assumes "\<And>u us alt st. bo_upload_photos opts \<Longrightarrow> sends P (upload_from_url H (bt_md5 T) u us alt (bo_upload_photos_dry_run opts) st)"
    and "\<And>rq fs. \<not> bo_dry_run opts \<Longrightarrow> well_written (bo_locked_fields opts) fs \<Longrightarrow> writes_fields fs rq \<Longrightarrow> P rq"
    and "\<And>m st. \<not> bo_dry_run opts \<Longrightarrow> sends P (create_draft H T m st)"
    and "\<And>rq. \<not> bo_dry_run opts \<Longrightarrow> req_method rq = POST \<Longrightarrow> P rq"
  shows "sends P (run_bio_sync H T opts st)"
  unfolding run_bio_sync_def run_steps_def on_rate_limit_def abort_with_def send_alert_def push_bio_sync_alert_def on_congress_def
  by (intro sending sends_reporting sends_warm_cache sends_process_cms_records sends_discover_and_create assms; simp)

end

text \<open>\<open>create_draft\<close> never gets as far as a request.\<close>

lemma create_draft_sends_nothing: "sends P (create_draft H T m st)"
proof (rule sends_silent)
  fix s show "sent (snd (create_draft H T m st s)) = sent s"
    by (cases "member_label m") (simp_all add: create_draft_def draft_record_def acts)
qed

interpretation only_reads: allows_reads is_read
  by unfold_locales (simp add: is_read_def)

text \<open>C30: A dry run of the legislator synchronisation with photos off, or also dry, only sends requests that read: no item is
  patched, no draft and no asset is created, and no summary is posted. The condition on the photos is needed: the step that
  uploads a photo is the same in a dry run as in a live one.\<close>

theorem bio_dry_run_only_reads:
  assumes "bo_dry_run opts" "bo_upload_photos opts \<longrightarrow> bo_upload_photos_dry_run opts"
  shows "sends is_read (run_bio_sync H T opts st) \<and>
    with_photo H T (opts'\<lparr>bo_dry_run := True\<rparr>) c p = with_photo H T (opts'\<lparr>bo_dry_run := False\<rparr>) c p"
proof
  show "sends is_read (run_bio_sync H T opts st)"
    using assms only_reads.sends_dry_upload by (intro only_reads.sends_run) auto
  show "with_photo H T (opts'\<lparr>bo_dry_run := True\<rparr>) c p = with_photo H T (opts'\<lparr>bo_dry_run := False\<rparr>) c p"
    by (simp add: with_photo_def)
qed

text \<open>A request of the synchronisation that keeps to the rule of the editors: a patch carries no empty value and no locked field.\<close>

definition keeps_edits :: "string list \<Rightarrow> request \<Rightarrow> bool" where
  "keeps_edits locked rq = (req_method rq = PATCH \<longrightarrow> (\<exists>fs. writes_fields fs rq \<and> well_written locked fs))"

interpretation editing: allows_reads "keeps_edits locked" for locked
  by unfold_locales (simp add: keeps_edits_def)

lemma mbind_mget: "mbind (mget f) g st = g (f st) st"
  by (rule ext) (simp add: acts)

lemma upload_keeps_edits: "sends (keeps_edits locked) (upload_from_url H md5 u us alt dry st)"
proof -
  have "sends (keeps_edits locked) (create_asset H n h st)" for n h st
    unfolding create_asset_def as_asset_error_def mbind_mget
    by (intro sending; simp add: keeps_edits_def asset_request_def)
  then show ?thesis
    unfolding upload_from_url_def register_asset_def put_to_signed_url_def keep_asset_def as_asset_error_def Let_def
    by (intro sending editing.sends_fetch_first; simp add: keeps_edits_def signed_upload_def)
qed

text \<open>C31: Whatever the services answer, every patch of a run of the legislator synchronisation carries only fields with a
  value that is not empty, and no field that the editors locked.\<close>

theorem editors_keep_their_fields:
  "sends (keeps_edits (bo_locked_fields opts)) (run_bio_sync H T opts st)"
  by (intro editing.sends_run upload_keeps_edits create_draft_sends_nothing) (auto simp: keeps_edits_def)

end
