(* ===== verification/LegislatorLaws.thy ===== *)
theory LegislatorLaws
  imports LegislatorRequests
begin

text \<open>
  What the legislator synchronisation guarantees: the difference settles, where the errors of OpenStates go, the counts of the
  photos, the candidates for a merge, the cache of uploads, the budget of the client, the audit of duplicates, and that a run
  comes back. \<open>raises_no\<close>, \<open>leaves\<close> and \<open>repeats\<close> are rule sets for the exceptions, the state and the requests of a method.
\<close>

section \<open>The difference settles\<close>

abbreviation keyed :: "payload \<Rightarrow> bool" where
  "keyed p \<equiv> distinct (map fst p)"

text \<open>\<open>key_safe x\<close>: a payload that \<open>x\<close> gives has every key once.\<close>

definition key_safe :: "payload res \<Rightarrow> bool" where
  "key_safe x = (\<forall>p. x = Inr p \<longrightarrow> keyed p)"

named_theorems keys \<open>introduction rules for \<open>key_safe\<close>\<close>

lemma key_safe_basic [keys]: "keyed p \<Longrightarrow> key_safe (Inr p)" "key_safe (Inl e)"
  by (simp_all add: key_safe_def)

lemma key_safe_chain [keys]: "key_safe x \<Longrightarrow> (\<And>p. keyed p \<Longrightarrow> key_safe (f p)) \<Longrightarrow> key_safe (bind_res x f)"
  by (auto simp: key_safe_def bind_res_Inr_iff)

lemma key_safe_after [keys]: "(\<And>y. key_safe (f y)) \<Longrightarrow> key_safe (bind_res x f)"
  by (auto simp: key_safe_def bind_res_Inr_iff)

lemma key_safe_if [keys]: "(b \<Longrightarrow> key_safe x) \<Longrightarrow> (\<not> b \<Longrightarrow> key_safe y) \<Longrightarrow> key_safe (if b then x else y)"
  by simp

lemmas [keys] = option_intro[where Q = key_safe] json_intro[where Q = key_safe]

lemma key_safe_fields [keys]: "keyed p \<Longrightarrow> key_safe (put_fields src fks p)"
  by (induction src fks p rule: put_fields.induct) (auto simp: distinct_dict_set intro!: keys)

lemma keyed_update: "keyed p \<Longrightarrow> keyed (dict_update p q)"
  by (induction p q rule: dict_update.induct) (simp_all add: distinct_dict_set)

lemma keyed_filter: "keyed p \<Longrightarrow> keyed (filter Q p)"
  by (simp add: distinct_map_filter)

lemma keyed_default: "keyed p \<Longrightarrow> keyed (set_default k v p)"
  by (simp add: set_default_def distinct_dict_set)

lemma keyed_steps [keys]:
  "keyed p \<Longrightarrow> keyed (put_person_bio r p)" "keyed p \<Longrightarrow> keyed (put_contact r p)" "keyed p \<Longrightarrow> keyed (put_state_contact r p)"
  by (simp_all add: put_person_bio_def put_contact_def put_state_contact_def Let_def distinct_dict_set split: prod.split option.split)

lemma key_safe_steps [keys]:
  "keyed p \<Longrightarrow> key_safe (put_profile r p)" "keyed p \<Longrightarrow> key_safe (put_ids m p)" "keyed p \<Longrightarrow> key_safe (put_bio m p)"
  "keyed p \<Longrightarrow> key_safe (put_terms m p)" "keyed p \<Longrightarrow> key_safe (put_capitol_office r p)"
  "keyed p \<Longrightarrow> key_safe (put_social m p)" "keyed p \<Longrightarrow> key_safe (put_office r p)"
  unfolding put_profile_def put_ids_def put_bio_def put_terms_def put_capitol_office_def put_social_def put_office_def Let_def
  by (intro keys distinct_dict_set keyed_default | simp add: distinct_dict_set keyed_default)+

lemma key_safe_federal: "key_safe (build_federal_payload c m r)"
  unfolding build_federal_payload_def if_some_def without_nulls_def
  by (intro keys keyed_filter; simp add: distinct_dict_set keyed_steps split: option.split)

lemma key_safe_state: "key_safe (build_state_payload c r)"
  unfolding build_state_payload_def without_nulls_def
  by (intro keys keyed_filter keyed_update; simp)

lemma keyed_payload: "build_payload c r m = Inr (Some p) \<Longrightarrow> keyed p"
  using key_safe_federal[of c m r] key_safe_state
  by (auto simp: build_payload_def bind_res_Inr_iff key_safe_def split: if_splits option.splits)

lemma diff_applied:
  assumes "keyed p"
  shows "diff_payload (dict_update old (diff_payload old p locked)) p locked = []"
proof -
  let ?d = "diff_payload old p locked"
  have d: "keyed ?d" unfolding diff_payload_def by (rule keyed_filter[OF assms])
  have get: "dict_get (dict_update old ?d) k = (case map_of ?d k of None \<Rightarrow> dict_get old k | Some v \<Rightarrow> v)" for k
    by (simp add: dict_get_def map_of_dict_update[OF d] map_add_def split: option.split)
  have "\<not> should_write k (dict_get (dict_update old ?d) k) v locked" if "(k, v) \<in> set p" for k v
  proof (cases "map_of ?d k")
    case None
    then have "(k, v) \<notin> set ?d" using map_of_eq_None_iff[of ?d k] by force
    with that have "\<not> should_write k (dict_get old k) v locked" by (auto simp: diff_payload_def)
    with None show ?thesis by (simp add: get)
  next
    case (Some w)
    then have "(k, w) \<in> set p" using map_of_SomeD[OF Some] by (auto simp: diff_payload_def)
    then have "w = v" using eq_key_imp_eq_value[OF assms that] by blast
    with Some show ?thesis by (simp add: get should_write_def same_value_def)
  qed
  then show ?thesis unfolding diff_payload_def by (auto simp: filter_empty_conv)
qed

text \<open>C33: The synchronisation of a legislator settles: once the item shows what was written, the same records upstream (with a
  photo or without) lead to no change, so the next pass writes nothing, reports nothing and sends nothing for it.\<close>

theorem bio_diff_settles:
  assumes "build_payload c r m = Inr (Some p)" and "q = (if v = JNull then p else dict_set ''legislator-image'' v p)"
  shows "write_changes H T opts c (diff_payload
      (dict_update (cms_fields c) (diff_payload (cms_fields c) q (bo_locked_fields opts))) q (bo_locked_fields opts)) = mret ()"
  using keyed_payload[OF assms(1)] diff_applied[of q "cms_fields c" "bo_locked_fields opts"]
  by (simp add: assms(2) write_changes_def distinct_dict_set split: if_splits)

section \<open>The telephone of a federal member\<close>

lemma put_terms_phone:
  assumes "put_terms m p = Inr q" "truthy (m_terms m)" "latest_term m = Inr t" "attr_get t ''phone'' JNull = Inr v"
  shows "map_of q ''phone-capitol'' = Some v"
  using assms by (auto simp: put_terms_def bind_res_Inr_iff)

lemma map_of_put_fields:
  "put_fields src fks p = Inr q \<Longrightarrow> k \<notin> fst ` set fks \<Longrightarrow> map_of q k = map_of p k"
  by (induction src fks p rule: put_fields.induct) (auto simp: bind_res_Inr_iff)

lemma map_of_set_default: "map_of (set_default k v p) j = (if j = k \<and> map_of p k = None then Some v else map_of p j)"
  by (auto simp: set_default_def map_of_eq_None_iff)

lemma map_of_without_nulls: "keyed p \<Longrightarrow> dict_get (without_nulls p) k = dict_get p k"
proof (induction p)
  case (Cons x p)
  obtain j v where x: "x = (j, v)" by (cases x)
  have "map_of p j = None" "map_of (without_nulls p) j = None"
    using Cons.prems by (auto simp: x map_of_eq_None_iff without_nulls_def)
  with Cons show ?case by (auto simp: x dict_get_def without_nulls_def)
qed (simp add: without_nulls_def)

text \<open>C40: A federal member with terms but without a telephone in the dataset gets none from OpenStates: the missing value is
  stored under the key first, and \<open>setdefault\<close> keeps it, whatever offices OpenStates lists.\<close>

theorem openstates_phone_never_used:
  assumes "build_federal_payload c (Some m) (Some r) = Inr p"
    and "truthy (m_terms m)" "latest_term m = Inr t" "attr_get t ''phone'' JNull = Inr v" "\<not> truthy v"
  shows "dict_get p ''phone-capitol'' = v"
proof -
  obtain p0 p1 p2 p3 p4 p5 b where steps: "put_profile r [] = Inr p0" "put_ids m p0 = Inr p1" "put_bio m p1 = Inr p2"
      "put_terms m p2 = Inr p3" "put_capitol_office r p3 = Inr p4" "put_social m (put_contact r p4) = Inr p5"
    and p: "p = without_nulls (if truthy b then dict_set ''photo-source-url''
           (JStr (''https://unitedstates.github.io/images/congress/450x550/'' @ json_str b @ ''.jpg'')) p5 else p5)"
    using assms(1) by (auto simp: build_federal_payload_def bind_res_Inr_iff if_some_def)
  have "map_of p3 ''phone-capitol'' = Some v" using put_terms_phone[OF steps(4) assms(2-4)] .
  then have "map_of p4 ''phone-capitol'' = Some v"
    using steps(5) by (auto simp: put_capitol_office_def bind_res_Inr_iff map_of_set_default split: if_splits option.splits)
  then have "map_of (put_contact r p4) ''phone-capitol'' = Some v"
    by (auto simp: put_contact_def Let_def split: prod.split option.split)
  then have p5: "map_of p5 ''phone-capitol'' = Some v"
    using map_of_put_fields[OF steps(6)[unfolded put_social_def]] by (simp add: image_iff)
  have "key_safe (put_profile r [])" "keyed p0 \<Longrightarrow> key_safe (put_ids m p0)" "keyed p1 \<Longrightarrow> key_safe (put_bio m p1)"
    "keyed p2 \<Longrightarrow> key_safe (put_terms m p2)" "keyed p3 \<Longrightarrow> key_safe (put_capitol_office r p3)"
    "keyed p4 \<Longrightarrow> key_safe (put_social m (put_contact r p4))"
    by (intro keys; simp)+
  then have "keyed p5" using steps by (simp add: key_safe_def)
  then have "keyed (if truthy b then dict_set ''photo-source-url'' w p5 else p5)" for w by (simp add: distinct_dict_set)
  then show ?thesis unfolding p by (subst map_of_without_nulls) (simp_all add: dict_get_def p5)
qed

section \<open>Where the faults of OpenStates go\<close>

text \<open>\<open>raises_no F m\<close>: what the method \<open>m\<close> raises, in any state, is not among \<open>F\<close>; the same of an action.\<close>

definition raises_no :: "(fault \<Rightarrow> bool) \<Rightarrow> ('n, 'r, 's \<times> (fault + 'a)) act \<Rightarrow> bool" where
  "raises_no F m = (\<forall>s st e s'. m s = (Inr (st, Inl e), s') \<longrightarrow> \<not> F e)"

definition fails_no :: "(fault \<Rightarrow> bool) \<Rightarrow> ('n, 'r, 'a) act \<Rightarrow> bool" where
  "fails_no F m = (\<forall>s e s'. m s = (Inl e, s') \<longrightarrow> \<not> F e)"

named_theorems clearing \<open>introduction rules for \<open>raises_no\<close> and \<open>fails_no\<close>\<close>

lemma raises_noD: "raises_no F m \<Longrightarrow> m s = (Inr (st, Inl e), s') \<Longrightarrow> \<not> F e"
  by (auto simp: raises_no_def)

definition of_openstates :: "fault \<Rightarrow> bool" where
  "of_openstates e = (case e of OpenStatesError _ \<Rightarrow> True | OpenStatesRateLimitError _ \<Rightarrow> True | _ \<Rightarrow> False)"

lemma fails_no_basic [clearing]:
  "fails_no of_openstates (ret x)" "fails_no of_openstates (lift_res y)" "fails_no of_openstates (now H)"
  "fails_no of_openstates (sleep H d)" "fails_no of_openstates (current f)" "fails_no of_openstates (http H rq)"
  "fails_no of_openstates (json_body r)" "fails_no of_openstates (raise_for_status r)" "fails_no of_openstates (jitter H)"
  "fails_no of_openstates (disk_step g)"
  by (auto simp: fails_no_def of_openstates_def acts http_def json_body_def raise_for_status_def jitter_def disk_step_def Let_def
      split: sum.splits option.splits prod.splits if_splits)

lemma fails_no_bnd [clearing]: "fails_no F m \<Longrightarrow> (\<And>x. fails_no F (f x)) \<Longrightarrow> fails_no F (bnd m f)"
  by (auto simp: fails_no_def run_bnd split: sum.splits prod.splits)

lemma not_of_openstates [clearing, simp]:
  "\<not> of_openstates (Raised e)" "\<not> of_openstates (WebflowError m)" "\<not> of_openstates (WebflowRateLimitError m)"
  by (simp_all add: of_openstates_def)

lemmas [clearing] = branch_intros[where Q = "fails_no F" for F]

lemma fails_no_if [clearing]: "(b \<Longrightarrow> fails_no F m) \<Longrightarrow> (\<not> b \<Longrightarrow> fails_no F m') \<Longrightarrow> fails_no F (if b then m else m')"
  by simp

lemma raises_no_basic [clearing]:
  "raises_no F (mret x st)" "raises_no F (mget f st)" "raises_no F (mput g st)" "raises_no of_openstates (mres y st)"
  "\<not> F e \<Longrightarrow> raises_no F (mraise e st)"
  by (auto simp: raises_no_def of_openstates_def acts split: sum.splits)

lemma raises_no_outer [clearing]: "fails_no F m \<Longrightarrow> raises_no F (outer m st)"
  by (auto simp: raises_no_def fails_no_def run_outer split: sum.splits prod.splits if_splits)

text \<open>A handler sees what the method raises.\<close>

lemma raises_no_handled:
  assumes "raises_no G (m st)" "\<And>e st. \<not> G e \<Longrightarrow> raises_no F (h e st)" "\<And>v st. raises_no F (f v st)"
  shows "raises_no F (mtry m h f st)"
  using assms unfolding raises_no_def run_mtry
  by (auto split: sum.splits prod.splits) (metis sum.exhaust)+

lemma raises_no_mtry [clearing]:
  "raises_no F (m st) \<Longrightarrow> (\<And>e st. \<not> F e \<Longrightarrow> raises_no F (h e st)) \<Longrightarrow> (\<And>v st. raises_no F (f v st)) \<Longrightarrow> raises_no F (mtry m h f st)"
  by (rule raises_no_handled)

lemma raises_no_mbind [clearing]:
  "raises_no F (m st) \<Longrightarrow> (\<And>v st. raises_no F (f v st)) \<Longrightarrow> raises_no F (mbind m f st)"
  unfolding mbind_def by (rule raises_no_handled) (auto intro: clearing)

lemma raises_no_part [clearing]: "raises_no F (m (part st)) \<Longrightarrow> raises_no F (on_part part put m st)"
  by (auto simp: raises_no_def on_part_def acts split: sum.splits prod.splits)

lemma raises_no_if [clearing]: "(b \<Longrightarrow> raises_no F m) \<Longrightarrow> (\<not> b \<Longrightarrow> raises_no F m') \<Longrightarrow> raises_no F (if b then m else m')"
  by simp

lemmas [clearing] = branch_intros[where Q = "raises_no F" for F] branch_at[where Q = "raises_no F" for F]
  more_branches_at[where Q = "raises_no F" for F]

lemma raises_no_mfold [clearing]: "(\<And>x acc st. raises_no F (f x acc st)) \<Longrightarrow> raises_no F (mfold f xs acc st)"
  by (induction xs arbitrary: acc st) (auto intro!: clearing)

lemma clear_turn [clearing]: "raises_no of_openstates (wait_turn H st)"
  unfolding wait_turn_def by (intro clearing)

lemma clear_lookup_turn [clearing]: "raises_no of_openstates (lookup_turn H st)"
  unfolding lookup_turn_def by (intro clearing)

lemma clear_webflow_loops:
  "raises_no of_openstates (jurisdiction_pages H rq n i m st)" "raises_no of_openstates (send_loop H rq a n msg st)"
proof (induction n arbitrary: a i m msg st)
  case 0
  {
    case 1
    show ?case by (simp add: clearing)
  next
    case 2
    show ?case by (simp add: raises_no_basic of_openstates_def)
  }
next
  case (Suc n)
  {
    case 1
    show ?case unfolding jurisdiction_pages.simps Let_def by (intro clearing Suc.IH)
  next
    case 2
    show ?case unfolding send_loop.simps by (intro clearing Suc.IH)
  }
qed

lemma clear_webflow [clearing]:
  "raises_no of_openstates (get_jurisdiction_mapping H cfg st)"
  "raises_no of_openstates (legislator_page H rq st)"
  "raises_no of_openstates (update_legislator_fields H cfg i fs b k strict st)"
  unfolding get_jurisdiction_mapping_def refreshed_mapping_def fetch_jurisdiction_mapping_fresh_def keep_mapping_def
    legislator_page_def update_legislator_fields_def partition_payload_def get_field_slugs_def fresh_schema_def keep_schema_def
    send_with_backoff_def Let_def
  by (intro clearing clear_webflow_loops; simp)+

lemma clear_warm_cache [clearing]: "raises_no of_openstates (CongressLegislators.warm_cache H D st)"
  unfolding CongressLegislators.warm_cache_def load_all_def fetch_or_cache_one_def cache_is_fresh_def read_yaml_def ingest_all_def Let_def
  by (intro clearing)

lemma clear_get_by_bioguide [clearing]: "raises_no of_openstates (get_by_bioguide H D b st)"
  unfolding get_by_bioguide_def by (intro clearing)

lemma clear_upload [clearing]: "raises_no of_openstates (maybe_upload_photo H T c u dry st)"
proof -
  have ensure: "raises_no of_openstates (ensure_assets T st)" for st
    unfolding ensure_assets_def
    by (rule raises_no_mbind) (auto intro!: clearing split: asset_slot.split sum.split)
  show ?thesis
    unfolding maybe_upload_photo_def photo_failed_def reporting_def
    by (intro clearing ensure raises_no_handled[where G = "\<lambda>_. False"]; simp add: raises_no_def[of "\<lambda>_. False"])
qed

lemma clear_sync_one_record [clearing]: "raises_no of_openstates (sync_one_record H T opts c st)"
proof -
  have fetch: "raises_no of_openstates (fetch_openstates H T c st)" for st
    unfolding fetch_openstates_def reporting_def
    by (intro clearing raises_no_handled[where G = "\<lambda>_. False"]; simp add: raises_no_def[of "\<lambda>_. False"] of_openstates_def)
  show ?thesis
    unfolding sync_one_record_def resolve_upstream_def bioguide_fallback_def federal_details_def reporting_def with_photo_def
      write_changes_def add_patch_def on_congress_def on_webflow_def
    by (intro clearing fetch)
qed

lemma clear_for_legislators:
  assumes "\<And>m st. (\<And>t. raises_no of_openstates (m t)) \<Longrightarrow> raises_no of_openstates (on_service m st)"
    and "\<And>x st. raises_no of_openstates (body x st)"
  shows "raises_no of_openstates (for_legislators H cfg on_service body st)"
proof -
  have items: "raises_no of_openstates (for_items body xs st)" for xs st
    by (induction xs arbitrary: st) (auto intro!: clearing assms(2))
  have pages: "raises_no of_openstates (for_pages H rq on_service body n i st)" for rq n i st
  proof (induction n arbitrary: i st)
    case (Suc n)
    show ?case unfolding for_pages.simps Let_def by (intro clearing assms(1) items Suc.IH)
  qed (simp add: clearing)
  show ?thesis unfolding for_legislators_def Let_def by (intro clearing pages)
qed

lemma clear_process_cms_records: "raises_no of_openstates (process_cms_records H T opts st)"
  unfolding process_cms_records_def process_item_def process_record_def reporting_def on_webflow_def
  by (intro clearing clear_for_legislators) assumption+

text \<open>C38: Neither a record nor the pass over the records ever raises the rate limit error of OpenStates, so no run is aborted by it:
  the record during which the limit is hit is entered among those that OpenStates does not know (a federal member with a
  bioguide id is looked up in the dataset instead).\<close>

theorem openstates_limit_is_an_orphan:
  assumes "truthy (cms_openstates_id c)"
    and "fetch_by_id H (bt_people T) (cms_openstates_id c) (bio_openstates B) s = (Inr (l, Inl (OpenStatesRateLimitError m)), s')"
    and "\<not> (cms_federal c \<and> truthy (cms_bioguide c))"
  shows "sync_one_record H T opts c B s = (Inr (B\<lparr>bio_openstates := l, bio_report := (bio_report B)
        \<lparr>upstream_orphans := upstream_orphans (bio_report B) @ [orphan_entry c]\<rparr>\<rparr>, Inr ()), s') \<and>
    \<not> (\<exists>B0 s0 B1 m s1. process_cms_records H T opts B0 s0 = (Inr (B1, Inl (OpenStatesRateLimitError m)), s1))"
proof
  show "sync_one_record H T opts c B s = (Inr (B\<lparr>bio_openstates := l, bio_report := (bio_report B)
        \<lparr>upstream_orphans := upstream_orphans (bio_report B) @ [orphan_entry c]\<rparr>\<rparr>, Inr ()), s')"
    using assms by (cases "cms_federal c") (simp_all add: sync_one_record_def resolve_upstream_def fetch_openstates_def
        bioguide_fallback_def on_openstates_def on_part_def reporting_def acts)
  show "\<not> (\<exists>B0 s0 B1 m s1. process_cms_records H T opts B0 s0 = (Inr (B1, Inl (OpenStatesRateLimitError m)), s1))"
    using raises_noD[OF clear_process_cms_records] by (fastforce simp: of_openstates_def)
qed

section \<open>The photos of a report add up\<close>

text \<open>\<open>leaves I m\<close>: the state after the method \<open>m\<close> satisfies \<open>I\<close>, whatever its outcome.\<close>

definition leaves :: "('s \<Rightarrow> bool) \<Rightarrow> ('n, 'r, 's \<times> (fault + 'a)) act \<Rightarrow> bool" where
  "leaves I m = (\<forall>s st x s'. m s = (Inr (st, x), s') \<longrightarrow> I st)"

named_theorems leaving \<open>introduction rules for \<open>leaves\<close>\<close>

lemma leavesD: "leaves I m \<Longrightarrow> m s = (Inr (st, x), s') \<Longrightarrow> I st"
  by (auto simp: leaves_def)

lemma leaves_basic [leaving]:
  "I st \<Longrightarrow> leaves I (mret x st)" "I st \<Longrightarrow> leaves I (mraise e st)" "I st \<Longrightarrow> leaves I (mget f st)"
  "I st \<Longrightarrow> leaves I (mres y st)" "I st \<Longrightarrow> leaves I (outer m st)" "I (g st) \<Longrightarrow> leaves I (mput g st)"
  by (auto simp: leaves_def acts split: prod.splits sum.splits if_splits)

lemma leaves_through:
  assumes "leaves J (m st)" "\<And>e st. J st \<Longrightarrow> leaves I (h e st)" "\<And>v st. J st \<Longrightarrow> leaves I (f v st)"
  shows "leaves I (mtry m h f st)"
  unfolding leaves_def
proof (intro allI impI)
  fix s st' y s' assume run: "mtry m h f st s = (Inr (st', y), s')"
  then obtain st1 x s1 where m: "m st s = (Inr (st1, x), s1)" by (auto simp: run_mtry split: prod.splits sum.splits)
  have st1: "J st1" by (rule leavesD[OF assms(1) m])
  show "I st'"
  proof (cases x)
    case (Inl e)
    with run m have "h e st1 s1 = (Inr (st', y), s')" by (simp add: run_mtry)
    then show ?thesis by (rule leavesD[OF assms(2)[OF st1]])
  next
    case (Inr v)
    with run m have "f v st1 s1 = (Inr (st', y), s')" by (simp add: run_mtry)
    then show ?thesis by (rule leavesD[OF assms(3)[OF st1]])
  qed
qed

lemmas leaves_mtry [leaving] = leaves_through[where J = I and I = I for I]

lemma leaves_mbind [leaving]: "leaves I (m st) \<Longrightarrow> (\<And>v st. I st \<Longrightarrow> leaves I (f v st)) \<Longrightarrow> leaves I (mbind m f st)"
  unfolding mbind_def by (intro leaving)

lemma leaves_part: "(\<And>t. I (put t st)) \<Longrightarrow> leaves I (on_part part put m st)"
  by (auto simp: leaves_def on_part_def acts split: prod.splits sum.splits)

lemma leaves_if [leaving]: "(b \<Longrightarrow> leaves I m) \<Longrightarrow> (\<not> b \<Longrightarrow> leaves I m') \<Longrightarrow> leaves I (if b then m else m')"
  by simp

lemmas [leaving] = branch_intros[where Q = "leaves I" for I] branch_at[where Q = "leaves I" for I]
  more_branches_at[where Q = "leaves I" for I]

lemma leaves_mfold: "(\<And>x acc st. I st \<Longrightarrow> leaves I (f x acc st)) \<Longrightarrow> I st \<Longrightarrow> leaves I (mfold f xs acc st)"
  by (induction xs arbitrary: acc st) (auto intro!: leaving)

lemma leaves_for_legislators:
  assumes "\<And>m st. I st \<Longrightarrow> leaves I (on_service m st)" "\<And>x st. I st \<Longrightarrow> leaves I (body x st)"
  shows "I st \<Longrightarrow> leaves I (for_legislators H cfg on_service body st)"
proof -
  have items: "I st \<Longrightarrow> leaves I (for_items body xs st)" for xs st
    by (induction xs arbitrary: st) (auto intro!: leaving assms(2))
  have pages: "I st \<Longrightarrow> leaves I (for_pages H rq on_service body n i st)" for rq n i st
  proof (induction n arbitrary: i st)
    case (Suc n)
    then show ?case unfolding for_pages.simps Let_def by (intro leaving assms(1) items)
  qed (auto intro: leaving)
  show "I st \<Longrightarrow> ?thesis" unfolding for_legislators_def Let_def by (intro leaving pages)
qed

lemma leaves_with_locals: "leaves (\<lambda>p. I (fst p)) (m (st, l)) \<Longrightarrow> leaves I (with_locals l m st)"
  by (fastforce simp: leaves_def with_locals_def acts split: prod.splits sum.splits)

text \<open>Every photo that was tried succeeded or failed; \<open>k\<close> is the number of those in flight.\<close>

definition photos_balanced :: "nat \<Rightarrow> bool \<Rightarrow> bio \<Rightarrow> bool" where
  "photos_balanced k upload B = (photos_attempted (bio_report B) = photos_succeeded (bio_report B) + photos_failed (bio_report B) + k \<and>
     (upload \<or> photos_attempted (bio_report B) = 0))"

lemma leaves_reporting: "I (B\<lparr>bio_report := f (bio_report B)\<rparr>) \<Longrightarrow> leaves I (reporting f B)"
  unfolding reporting_def by (intro leaving)

lemma mbind_reporting: "mbind (reporting f) g B = g () (B\<lparr>bio_report := f (bio_report B)\<rparr>)"
  by (rule ext) (simp add: reporting_def acts)

lemma balanced_counting [leaving]:
  assumes "photos_balanced k u B"
  shows "leaves (photos_balanced k u) (reporting (\<lambda>R. R\<lparr>cms_items_seen := f1 R\<rparr>) B)"
    "leaves (photos_balanced k u) (reporting (\<lambda>R. R\<lparr>resolved_via_openstates := f2 R\<rparr>) B)"
    "leaves (photos_balanced k u) (reporting (\<lambda>R. R\<lparr>resolved_via_bioguide := f3 R\<rparr>) B)"
    "leaves (photos_balanced k u) (reporting (\<lambda>R. R\<lparr>would_patch := f4 R\<rparr>) B)"
    "leaves (photos_balanced k u) (reporting (\<lambda>R. R\<lparr>would_create := f5 R\<rparr>) B)"
    "leaves (photos_balanced k u) (reporting (\<lambda>R. R\<lparr>potential_merges := f6 R\<rparr>) B)"
    "leaves (photos_balanced k u) (reporting (\<lambda>R. R\<lparr>upstream_orphans := f7 R\<rparr>) B)"
    "leaves (photos_balanced k u) (reporting (\<lambda>R. R\<lparr>bio_errors := f8 R\<rparr>) B)"
    "leaves (photos_balanced k u) (reporting (\<lambda>R. R\<lparr>bio_aborted := f9 R, abort_reason := f10 R\<rparr>) B)"
  using assms by (auto simp: photos_balanced_def intro!: leaves_reporting)

lemma balanced_parts [leaving]:
  assumes "photos_balanced k u B"
  shows "leaves (photos_balanced k u) (on_webflow m1 B)" "leaves (photos_balanced k u) (on_congress m2 B)"
    "leaves (photos_balanced k u) (on_openstates m3 B)"
  using assms by (auto simp: photos_balanced_def on_webflow_def on_congress_def on_openstates_def intro!: leaves_part)

lemma balanced_upload: "photos_balanced 0 True B \<Longrightarrow> leaves (photos_balanced 0 True) (maybe_upload_photo H T c u dry B)"
proof -
  assume B: "photos_balanced 0 True B"
  have ensure: "leaves (photos_balanced 0 True) (ensure_assets T B)"
    unfolding ensure_assets_def mbind_mget using B
    by (auto intro!: leaving simp: photos_balanced_def split: asset_slot.split sum.split)
  have start: "leaves (photos_balanced 0 True) (mbind (reporting (\<lambda>R. R\<lparr>photos_attempted := Suc (photos_attempted R)\<rparr>)) g B')"
    if "photos_balanced 0 True B'" "\<And>B'. photos_balanced 1 True B' \<Longrightarrow> leaves (photos_balanced 0 True) (g () B')" for B' g
    unfolding mbind_reporting by (rule that(2)) (use that(1) in \<open>simp add: photos_balanced_def\<close>)
  have settled: "leaves (photos_balanced 0 True) (reporting (\<lambda>R. R\<lparr>bio_errors := g R, photos_failed := Suc (photos_failed R)\<rparr>) B')"
    "leaves (photos_balanced 0 True) (reporting (\<lambda>R. R\<lparr>photos_succeeded := Suc (photos_succeeded R)\<rparr>) B')"
    if "photos_balanced 1 True B'" for B' g
    using that by (auto simp: photos_balanced_def intro!: leaves_reporting)
  have service: "leaves (photos_balanced 1 True) (on_part (\<lambda>_. a) (\<lambda>a B. B\<lparr>bio_assets := Service a\<rparr>) up B')"
    if "photos_balanced 1 True B'" for a up B'
    using that by (auto simp: photos_balanced_def intro!: leaves_part)
  show ?thesis
    unfolding maybe_upload_photo_def photo_failed_def
    by (assumption | rule settled start leaves_through[OF service] ensure | rule leaving)+
qed

lemma balanced_sync_one_record:
  assumes "photos_balanced 0 (bo_upload_photos opts) B"
  shows "leaves (photos_balanced 0 (bo_upload_photos opts)) (sync_one_record H T opts c B)"
proof -
  have photo: "leaves (photos_balanced 0 (bo_upload_photos opts)) (with_photo H T opts c p B')"
    if "photos_balanced 0 (bo_upload_photos opts) B'" for p B'
    unfolding with_photo_def using that balanced_upload[of B' H T c] by (auto intro!: leaving)
  show ?thesis
    unfolding sync_one_record_def resolve_upstream_def fetch_openstates_def bioguide_fallback_def federal_details_def
      write_changes_def add_patch_def
    by (assumption | rule photo assms | rule leaving)+
qed

lemma balanced_run_steps:
  "photos_balanced 0 (bo_upload_photos opts) B \<Longrightarrow> leaves (photos_balanced 0 (bo_upload_photos opts)) (run_steps H T opts B)"
proof -
  assume B: "photos_balanced 0 (bo_upload_photos opts) B"
  let ?I = "photos_balanced 0 (bo_upload_photos opts)"
  have pass: "?I B' \<Longrightarrow> leaves ?I (process_cms_records H T opts B')" for B'
    unfolding process_cms_records_def process_item_def process_record_def
    by (assumption | rule leaves_for_legislators balanced_sync_one_record | rule leaving)+
  have object: "?I (fst q) \<Longrightarrow> leaves (\<lambda>q. ?I (fst q)) (on_object (on_webflow m) q)" for m and q :: "bio \<times> cms_index"
    by (auto simp: photos_balanced_def on_object_def on_webflow_def on_part_def acts leaves_def split: prod.splits sum.splits)
  have local_put: "?I (fst q) \<Longrightarrow> leaves (\<lambda>q. ?I (fst q)) (mput (\<lambda>(B, bs, m). (B, g1 bs, g2 m)) q)" for g1 g2 and q :: "bio \<times> cms_index"
    by (cases q) (simp add: leaves_def acts)
  have index: "?I B' \<Longrightarrow> leaves ?I (index_cms H T B')" for B'
    unfolding index_cms_def index_item_def
    by (assumption | rule local_put leaves_with_locals leaves_for_legislators object | rule leaving | simp only: fst_conv)+
  have draft: "?I B' \<Longrightarrow> leaves ?I (create_draft H T m B')" for m B'
    unfolding create_draft_def Let_def by (assumption | rule leaving)+
  have found: "?I B' \<Longrightarrow> leaves ?I (discover_and_create H T opts B')" for B'
    unfolding discover_and_create_def discover_member_def
    by (assumption | rule leaves_mfold index draft | rule leaving)+
  show ?thesis
    unfolding run_steps_def on_rate_limit_def abort_with_def
    by (assumption | rule pass found B | rule leaving)+
qed

lemma photos_stay_balanced:
  assumes "run_bio_sync H T opts B s = (Inr (B', x), s')"
  shows "photos_balanced 0 (bo_upload_photos opts) B'"
proof -
  let ?I = "photos_balanced 0 (bo_upload_photos opts)"
  have start: "?I (B\<lparr>bio_report := new_bio_report\<rparr>)" by (simp add: photos_balanced_def new_bio_report_def)
  have alert: "?I B'' \<Longrightarrow> leaves ?I (send_alert H T opts B'')" for B''
    unfolding send_alert_def by (assumption | rule leaving)+
  have "leaves ?I (run_bio_sync H T opts B)"
    unfolding run_bio_sync_def mbind_reporting
    by (assumption | rule start balanced_run_steps alert | rule leaving)+
  then show "?I B'" using assms by (rule leavesD)
qed


section \<open>Drafts and merges\<close>


lemma best_candidate_step:
  assumes "best_candidate m y (c # cs) best = Inr r"
  obtains sg where "merge_signals m y c = Inr sg"
    "best_candidate m y cs (if 2 \<le> merge_score sg \<and> length (snd best) < length sg then (Some c, sg) else best) = Inr r"
  using assms by (auto simp: bind_res_Inr_iff)

lemma best_candidate_sound:
  "best_candidate m y cs best = Inr (Some c, signals) \<Longrightarrow>
   best = (Some c, signals) \<or> (c \<in> set cs \<and> merge_signals m y c = Inr signals \<and> 2 \<le> merge_score signals)"
proof (induction cs arbitrary: best)
  case (Cons d cs)
  obtain sg where sg: "merge_signals m y d = Inr sg"
    "best_candidate m y cs (if 2 \<le> merge_score sg \<and> length (snd best) < length sg then (Some d, sg) else best) = Inr (Some c, signals)"
    using Cons.prems by (rule best_candidate_step)
  from Cons.IH[OF sg(2)] sg(1) show ?case by (cases "2 \<le> merge_score sg \<and> length (snd best) < length sg") auto
qed simp

lemma best_candidate_max:
  "best_candidate m y cs best = Inr (r, signals) \<Longrightarrow> length (snd best) \<le> length signals \<and>
    (\<forall>c \<in> set cs. \<forall>sg. merge_signals m y c = Inr sg \<and> 2 \<le> merge_score sg \<longrightarrow> length sg \<le> length signals)"
proof (induction cs arbitrary: best)
  case (Cons d cs)
  obtain sg where sg: "merge_signals m y d = Inr sg"
    "best_candidate m y cs (if 2 \<le> merge_score sg \<and> length (snd best) < length sg then (Some d, sg) else best) = Inr (r, signals)"
    using Cons.prems by (rule best_candidate_step)
  from Cons.IH[OF sg(2)] sg(1) show ?case by (cases "2 \<le> merge_score sg \<and> length (snd best) < length sg") auto
qed auto


section \<open>Photos are uploaded once\<close>

lemma register_caches:
  assumes "register_asset H u w alt bytes ct fn h A s = (Inr (A', Inr (Some ref)), s')"
  shows "map_of (asset_cache A') u = Some ref \<and> alt_text ref = alt"
  using assms unfolding register_asset_def keep_asset_def Let_def
  by (auto simp: run_mbind run_method split: prod.splits sum.splits if_splits)

lemma upload_from_cache:
  "map_of (asset_cache A) (JStr u) = Some ref \<Longrightarrow> u \<noteq> [] \<Longrightarrow> upload_from_url H md5 (JStr u) fb alt dry A s =
    (Inr (A, Inr (Some (ref\<lparr>alt_text := if truthy alt then alt else alt_text ref\<rparr>))), s)"
  by (simp add: upload_from_url_def json_key_def acts)

text \<open>C36: A photo that was uploaded is not fetched or uploaded again in the same run: the next call for its address answers with
  the same asset, sends nothing and changes nothing, whatever happened to the network meanwhile and also when it is dry.\<close>

theorem photo_uploaded_once:
  assumes "upload_from_url H md5 (JStr u) fallbacks alt False A s = (Inr (A', Inr (Some ref)), s')"
  shows "upload_from_url H md5 (JStr u) fallbacks' alt dry A' s'' = (Inr (A', Inr (Some ref)), s'')"
proof -
  have u: "u \<noteq> []" using assms by (auto simp: upload_from_url_def acts)
  show ?thesis
  proof (cases "map_of (asset_cache A) (JStr u)")
    case (Some a)
    with assms u have "A' = A" "ref = a\<lparr>alt_text := if truthy alt then alt else alt_text a\<rparr>"
      by (simp_all add: upload_from_cache)
    with Some u show ?thesis by (simp add: upload_from_cache)
  next
    case None
    obtain r1 s1 where f: "fetch_first H (JStr u # fallbacks) [] A s = (r1, s1)" by (cases "fetch_first H (JStr u # fallbacks) [] A s")
    have "\<exists>w bytes ct fn A1 s1. register_asset H (JStr u) w alt bytes ct fn (md5 bytes) A1 s1 = (Inr (A', Inr (Some ref)), s')"
      using assms u None f
      by (auto simp: upload_from_url_def json_key_def run_mbind run_method simp del: fetch_first.simps split: sum.splits prod.splits) blast
    then have "map_of (asset_cache A') (JStr u) = Some ref" "alt_text ref = alt" using register_caches by blast+
    with u show ?thesis by (simp add: upload_from_cache)
  qed
qed

section \<open>The budget of the people client\<close>

text \<open>\<open>repeats k rq m\<close>: all that \<open>m\<close> sends is the request \<open>rq\<close>, at most \<open>k\<close> times.\<close>

definition repeats :: "nat \<Rightarrow> request \<Rightarrow> ('n, 'r, 'a) act \<Rightarrow> bool" where
  "repeats k rq m = (\<forall>s. same_requests k rq s (snd (m s)))"

lemma repeats_silent: "sends (\<lambda>_. False) m \<Longrightarrow> repeats k rq m"
proof (unfold repeats_def, intro allI)
  fix s assume "sends (\<lambda>_. False) m"
  then obtain rqs where "sent (snd (m s)) = sent s @ rqs" "list_all (\<lambda>_. False) rqs" by (rule sendsD[THEN exE]) blast
  then show "same_requests k rq s (snd (m s))"
    by (cases rqs) (auto simp: same_requests_def intro: exI[of _ 0])
qed

lemma repeats_http: "repeats 1 rq (outer (http H rq) st)"
  by (auto simp: repeats_def same_requests_def run_outer http_def Let_def intro!: exI[of _ 1] split: prod.split sum.split)

lemma same_requests_add: "same_requests a rq s s1 \<Longrightarrow> same_requests b rq s1 s' \<Longrightarrow> same_requests (a + b) rq s s'"
  unfolding same_requests_def by (metis add_mono append.assoc replicate_add)

lemma same_requests_mono: "same_requests a rq s s1 \<Longrightarrow> a \<le> b \<Longrightarrow> same_requests b rq s s1"
  unfolding same_requests_def by (meson order_trans)

lemma repeats_mtry:
  assumes "repeats a rq (m st)" "\<And>e st. repeats b rq (h e st)" "\<And>v st. repeats b rq (f v st)"
  shows "repeats (a + b) rq (mtry m h f st)"
  unfolding repeats_def
proof
  fix s
  obtain x s1 where m: "m st s = (x, s1)" by (cases "m st s")
  have first: "same_requests a rq s s1" using assms(1) m unfolding repeats_def by (metis snd_conv)
  show "same_requests (a + b) rq s (snd (mtry m h f st s))"
  proof (cases x)
    case (Inl e)
    with m show ?thesis using same_requests_mono[OF first, of "a + b"] by (simp add: run_mtry)
  next
    case (Inr y)
    then obtain st1 z where "x = Inr (st1, z)" by (cases y) simp
    with m show ?thesis using assms(2,3) same_requests_add[OF first] unfolding repeats_def
      by (cases z) (simp_all add: run_mtry)
  qed
qed

lemma repeats_mbind:
  "repeats a rq (m st) \<Longrightarrow> (\<And>v st. repeats b rq (f v st)) \<Longrightarrow> repeats (a + b) rq (mbind m f st)"
  unfolding mbind_def by (rule repeats_mtry) (auto intro: repeats_silent sending)

lemma repeats_then:
  assumes "sends (\<lambda>_. False) (m st)" "\<And>v st. repeats k rq (f v st)"
  shows "repeats k rq (mbind m f st)"
  using repeats_mbind[where a = 0 and b = k and m = m and f = f and st = st and rq = rq] repeats_silent[OF assms(1)] assms(2) by simp

lemma repeats_request:
  assumes "\<And>e st. repeats k rq (h e st)" "\<And>v st. repeats k rq (f v st)"
  shows "repeats (Suc k) rq (mtry (outer (http H rq)) h f st)"
  using repeats_mtry[where a = 1 and b = k and m = "outer (http H rq)" and h = h and f = f and st = st and rq = rq] repeats_http[of rq H st] assms
  by simp

lemma repeats_if: "(c \<Longrightarrow> repeats k rq m) \<Longrightarrow> (\<not> c \<Longrightarrow> repeats k rq m') \<Longrightarrow> repeats k rq (if c then m else m')"
  by simp

lemmas repeats_branches = branch_at[where Q = "repeats k rq" for k rq] more_branches_at[where Q = "repeats k rq" for k rq]

lemma jitter_silent: "sends P (outer (jitter H) st)"
  by (intro sending sends_silent) (simp add: jitter_def split: prod.split)

lemma transient_wait_silent: "sends P (transient_wait H a st)"
  unfolding transient_wait_def by (intro sending jitter_silent)

lemma quiet_basic: "repeats k rq (mraise e st)" "repeats k rq (mret v st)" "repeats k rq (outer (json_body r) st)"
  by (intro repeats_silent sending)+

lemma quiet_waits:
  "(\<And>v st. repeats k rq (f1 v st)) \<Longrightarrow> repeats k rq (mbind (transient_wait H a) f1 st1)"
  "(\<And>v st. repeats k rq (f2 v st)) \<Longrightarrow> repeats k rq (mbind (outer (jitter H)) f2 st2)"
  "(\<And>v st. repeats k rq (f3 v st)) \<Longrightarrow> repeats k rq (mbind (outer (sleep H d)) f3 st3)"
  "(\<And>v st. repeats k rq (f4 v st)) \<Longrightarrow> repeats k rq (mbind (mres y) f4 st4)"
  by (auto intro!: repeats_then sending jitter_silent transient_wait_silent)

lemma people_attempts_repeat: "repeats k rq (people_attempts H rq n path allow a k r x st)"
proof (induction k arbitrary: a r x st)
  case 0
  show ?case unfolding people_attempts.simps people_gave_up_def by (intro repeats_silent sending)
next
  case (Suc k)
  have turn: "(\<And>v st. repeats (Suc k) rq (f v st)) \<Longrightarrow> repeats (Suc k) rq (mbind (wait_turn H) f st)" for f st
    by (rule repeats_then) (rule sends_wait_turn)
  show ?case
    unfolding people_attempts.simps
    by (intro turn repeats_request repeats_branches quiet_waits quiet_basic Suc.IH)
qed

lemma answers_jitter: "answers (outer (jitter H) st)"
  by (intro answering) (simp add: ends_def jitter_def split: prod.split)

lemmas [answering] = more_branches_at[where Q = answers]

lemma people_attempts_answer: "answers (people_attempts H rq n path allow a k r x st)"
proof (induction k arbitrary: a r x st)
  case 0
  show ?case unfolding people_attempts.simps people_gave_up_def by (intro answering)
next
  case (Suc k)
  show ?case unfolding people_attempts.simps transient_wait_def
    by (intro answering answers_jitter Suc.IH ending)
qed

text \<open>C37: A question to OpenStates always comes back, with a document or an exception, after at most as many requests as the client
  has attempts, and all of them are the same read with the key of its route, whatever the service answers.\<close>

theorem people_request_bounded:
  "\<exists>st' x s' k. people_json H P path params allow_404 jurisdiction st s = (Inr (st', x), s') \<and> k \<le> pc_attempts P \<and>
    sent s' = sent s @ replicate k (people_request
      (case jurisdiction of Some j \<Rightarrow> people_route P j | None \<Rightarrow> (pc_api_base P, pc_api_key P)) path params)"
proof -
  let ?rq = "people_request (case jurisdiction of Some j \<Rightarrow> people_route P j | None \<Rightarrow> (pc_api_base P, pc_api_key P)) path params"
  have run: "people_json H P path params allow_404 jurisdiction st =
      people_attempts H ?rq (pc_attempts P) path allow_404 0 (pc_attempts P) None None st"
    unfolding people_json_def by simp
  obtain v s' where "people_json H P path params allow_404 jurisdiction st s = (Inr v, s')"
    using people_attempts_answer unfolding run by (rule answersE)
  then show ?thesis
    using people_attempts_repeat[of "pc_attempts P" ?rq H "pc_attempts P" path allow_404 0 None None st] unfolding run
    by (cases v) (metis repeats_def same_requests_def snd_conv)
qed

section \<open>The audit of duplicates\<close>

text \<open>What an audit does with items, as a fold.\<close>

fun audit_fold :: "(cms \<Rightarrow> audit_acc \<Rightarrow> audit_acc res) \<Rightarrow> (json \<times> string) list \<Rightarrow> json list \<Rightarrow> audit_acc \<Rightarrow> audit_acc res" where
  "audit_fold step mapping [] acc = Inr acc"
| "audit_fold step mapping (x # xs) acc =
     bind_res (from_webflow_item mapping x) (\<lambda>c. bind_res (step c acc) (audit_fold step mapping xs))"

lemma for_items_fold:
  "audit_fold step mapping xs acc = Inr acc' \<Longrightarrow>
   for_items (audit_item step mapping) xs (L, acc) s = (Inr ((L, acc'), Inr False), s)"
  by (induction xs arbitrary: acc) (auto simp: audit_item_def acts bind_res_Inr_iff)

lemma bind_res_assoc: "bind_res (bind_res m f) g = bind_res m (\<lambda>x. bind_res (f x) g)"
  by (cases m) simp_all

lemma audit_fold_append:
  "audit_fold step mapping (xs @ ys) = (\<lambda>acc. bind_res (audit_fold step mapping xs acc) (audit_fold step mapping ys))"
  by (induction xs) (rule ext, simp add: bind_res_assoc)+

lemma run_on_object:
  "on_object m (L, a) s = (case m L s of (Inl e, s') \<Rightarrow> (Inl e, s') | (Inr (L', x), s') \<Rightarrow> (Inr ((L', a), x), s'))"
  by (simp add: on_object_def on_part_def acts split: prod.split sum.split)

lemma pages_extend:
  "legislator_pages H rq k n i xs L s = (Inr (L', Inr (zs, e)), s') \<Longrightarrow> \<exists>ys. zs = xs @ ys"
proof (induction n arbitrary: i xs L s)
  case (Suc n)
  from Suc.prems show ?case
    by (auto simp: run_mtry run_method Let_def split: prod.splits sum.splits if_splits dest: Suc.IH)
qed (simp add: acts)

text \<open>Reading page by page, with the audit in between, gives what the whole list gives.\<close>

lemma for_pages_fold:
  fixes L :: lookup and s :: "('n, 'r) site"
  assumes "legislator_pages H rq 100 n i xs L s = (Inr (L', Inr (xs @ ys, None)), s')"
    and "audit_fold step mapping ys acc = Inr acc'"
  shows "for_pages H rq on_object (audit_item step mapping) n i (L, acc) s = (Inr ((L', acc'), Inr ()), s')"
  using assms
proof (induction n arbitrary: i xs ys L s acc)
  case 0
  then show ?case by (auto simp: acts)
next
  case (Suc n)
  let ?page = "legislator_page H (rq\<lparr>req_params := page_params 100 i\<rparr>)"
  obtain L1 items data s1 where page: "?page L s = (Inr (L1, Inr (items, data)), s1)"
    using Suc.prems(1) by (auto simp: acts split: prod.splits sum.splits)
  have step: "for_pages H rq on_object (audit_item step mapping) (Suc n) i (L, acc) s =
     (if items = [] then mret () else mbind (for_items (audit_item step mapping) items) (\<lambda>stop.
         if stop then mret ()
         else mbind (mres (bind_res (page_total data) json_number)) (\<lambda>count.
           if i + int (length items) \<ge> count \<or> length items < 100 then mret ()
           else for_pages H rq on_object (audit_item step mapping) n (i + int (length items))))) (L1, acc) s1"
    unfolding for_pages.simps Let_def by (simp add: run_mbind[where m = "on_object ?page"] run_on_object page)
  show ?case
  proof (cases "items = []")
    case True
    with Suc.prems page show ?thesis unfolding step by (auto simp: acts)
  next
    case False
    obtain c where c: "bind_res (page_total data) json_number = Inr c"
      using Suc.prems(1) page False by (auto simp: acts split: sum.splits)
    show ?thesis
    proof (cases "c \<le> i + int (length items) \<or> length items < 100")
      case True
      with Suc.prems(1) page False c have ys: "ys = items" "L' = L1" "s' = s1" by (auto simp: acts)
      have items: "for_items (audit_item step mapping) items (L1, acc) s1 = (Inr ((L1, acc'), Inr False), s1)"
        by (rule for_items_fold) (use Suc.prems(2) ys(1) in simp)
      show ?thesis unfolding step using False True c ys(2,3) by (auto simp: run_mbind items run_method)
    next
      case go: False
      then have rest: "legislator_pages H rq 100 n (i + int (length items)) (xs @ items) L1 s1 = (Inr (L', Inr (xs @ ys, None)), s')"
        using Suc.prems(1) page False c by (auto simp: acts)
      from pages_extend[OF this] obtain zs where "xs @ ys = (xs @ items) @ zs" by blast
      then have ys: "ys = items @ zs" by simp
      with Suc.prems(2) obtain acc1 where acc1: "audit_fold step mapping items acc = Inr acc1" "audit_fold step mapping zs acc1 = Inr acc'"
        by (auto simp: audit_fold_append bind_res_Inr_iff)
      have items: "for_items (audit_item step mapping) items (L1, acc) s1 = (Inr ((L1, acc1), Inr False), s1)"
        by (rule for_items_fold[OF acc1(1)])
      have "for_pages H rq on_object (audit_item step mapping) n (i + int (length items)) (L1, acc1) s1 = (Inr ((L', acc'), Inr ()), s')"
        by (rule Suc.IH[where xs = "xs @ items", OF _ acc1(2)]) (use rest ys in simp)
      then show ?thesis unfolding step using False go c by (simp add: run_mbind items run_method)
    qed
  qed
qed

lemma reading_items:
  fixes L :: lookup and s :: "('n, 'r) site"
  assumes "iter_legislator_items H cfg 100 200 L s = (Inr (L', Inr (items, None)), s')" "audit_fold step mapping items no_marks = Inr acc"
  shows "audit_reading H cfg step mapping L s = (Inr (L', Inr (acc, None)), s')"
proof -
  let ?key = "first_set (webflow_votebot_api_key cfg) (webflow_scheduler_api_key cfg)"
  have cfg: "webflow_legislators_collection_id cfg \<noteq> []" "?key \<noteq> []"
    and pages: "legislator_pages H (webflow_get (legislator_url cfg) ?key []) 100 200 0 [] L s = (Inr (L', Inr ([] @ items, None)), s')"
    using assms(1) by (auto simp: iter_legislator_items_def Let_def run_method split: if_splits)
  from for_pages_fold[OF pages assms(2)] cfg
  have "for_legislators H cfg on_object (audit_item step mapping) (L, no_marks) s = (Inr ((L', acc), Inr ()), s')"
    by (simp add: for_legislators_def Let_def)
  then show ?thesis by (simp add: audit_reading_def with_locals_def acts)
qed

text \<open>The groups of the audit after some records: one for every id, with the entries of the records that have it, in order.\<close>

definition full_entry :: "cms \<Rightarrow> audit_entry" where
  "full_entry c = entry_of c (cms_openstates_id c) (cms_bioguide c)"

definition sharing :: "json \<Rightarrow> cms list \<Rightarrow> cms list" where
  "sharing i cs = filter (\<lambda>c. cms_openstates_id c = i) cs"

definition groups_of :: "cms list \<Rightarrow> (json \<times> audit_entry list) list \<Rightarrow> bool" where
  "groups_of cs m = (distinct (map fst m) \<and> (\<forall>i. truthy i \<longrightarrow>
     map_of m i = (if sharing i cs = [] then None else Some (map full_entry (sharing i cs)))) \<and> (\<forall>i \<in> fst ` set m. truthy i))"

definition text_id :: "cms \<Rightarrow> bool" where
  "text_id c = (cms_openstates_id c = JNull \<or> (\<exists>i. cms_openstates_id c = JStr i \<and> i \<noteq> []))"

lemma groups_add:
  assumes "groups_of cs m" "truthy (cms_openstates_id c)"
  shows "groups_of (cs @ [c]) (group_entry (cms_openstates_id c) (full_entry c) m)"
  using assms by (auto simp: groups_of_def group_entry_def sharing_def distinct_dict_set dom_map_of_dict_set split: option.split)

lemma groups_skip: "groups_of cs m \<Longrightarrow> \<not> truthy (cms_openstates_id c) \<Longrightarrow> groups_of (cs @ [c]) m"
  by (auto simp: groups_of_def sharing_def)

definition missing_entry :: "cms \<Rightarrow> audit_entry" where
  "missing_entry c = (full_entry c)\<lparr>ae_reason := Some ''missing_openstatesid''\<rparr>"

definition duplicate_entry :: "cms \<Rightarrow> audit_entry" where
  "duplicate_entry c = (full_entry c)\<lparr>ae_reason := Some (''duplicate_openstatesid:'' @ json_str (cms_openstates_id c))\<rparr>"

lemma audit_fold_B:
  assumes "list_all text_id cs" "map_res (from_webflow_item mapping) items = Inr cs"
    and "marked acc = map missing_entry (filter (\<lambda>c. cms_openstates_id c = JNull) before)" "groups_of before (by_id acc)"
  shows "\<exists>acc'. audit_fold step_B mapping items acc = Inr acc' \<and> seen acc' = seen acc + length cs \<and>
    marked acc' = map missing_entry (filter (\<lambda>c. cms_openstates_id c = JNull) (before @ cs)) \<and> groups_of (before @ cs) (by_id acc')"
  using assms
proof (induction items arbitrary: cs acc before)
  case (Cons x items)
  obtain c ds where c: "from_webflow_item mapping x = Inr c" "map_res (from_webflow_item mapping) items = Inr ds" "cs = c # ds"
    using Cons.prems(2) by (auto simp: bind_res_Inr_iff)
  show ?case
  proof (cases "cms_openstates_id c = JNull")
    case True
    let ?acc = "acc\<lparr>seen := Suc (seen acc), marked := marked acc @ [missing_entry c]\<rparr>"
    have step: "step_B c acc = Inr ?acc"
      using True by (simp add: step_B_def missing_entry_def full_entry_def Let_def)
    have "\<exists>acc'. audit_fold step_B mapping items ?acc = Inr acc' \<and> seen acc' = seen ?acc + length ds \<and>
      marked acc' = map missing_entry (filter (\<lambda>c. cms_openstates_id c = JNull) ((before @ [c]) @ ds)) \<and> groups_of ((before @ [c]) @ ds) (by_id acc')"
      by (rule Cons.IH) (use Cons.prems c True in \<open>auto intro: groups_skip\<close>)
    with step c show ?thesis by auto
  next
    case False
    then obtain i where i: "cms_openstates_id c = JStr i" "i \<noteq> []" using Cons.prems(1) c by (auto simp: text_id_def)
    let ?acc = "acc\<lparr>seen := Suc (seen acc), by_id := group_entry (JStr i) (full_entry c) (by_id acc)\<rparr>"
    have step: "step_B c acc = Inr ?acc"
      using i by (simp add: step_B_def full_entry_def Let_def json_key_def)
    have "\<exists>acc'. audit_fold step_B mapping items ?acc = Inr acc' \<and> seen acc' = seen ?acc + length ds \<and>
      marked acc' = map missing_entry (filter (\<lambda>c. cms_openstates_id c = JNull) ((before @ [c]) @ ds)) \<and> groups_of ((before @ [c]) @ ds) (by_id acc')"
      by (rule Cons.IH) (use Cons.prems c i groups_add[of before "by_id acc" c] in auto)
    with step c show ?thesis by auto
  qed
qed simp

lemma duplicates_exact:
  assumes "groups_of cs m" "list_all text_id cs"
  shows "set (duplicates_in m) = duplicate_entry ` {c \<in> set cs. cms_openstates_id c \<noteq> JNull \<and> 1 < length (sharing (cms_openstates_id c) cs)}"
proof -
  have group: "(k, es) \<in> set m \<longleftrightarrow> truthy k \<and> sharing k cs \<noteq> [] \<and> es = map full_entry (sharing k cs)" for k es
  proof -
    have at: "(k, es) \<in> set m \<longleftrightarrow> map_of m k = Some es" using assms(1) by (simp add: groups_of_def)
    have true: "(k, es) \<in> set m \<Longrightarrow> truthy k" using assms(1) by (force simp: groups_of_def)
    have "truthy k \<Longrightarrow> map_of m k = (if sharing k cs = [] then None else Some (map full_entry (sharing k cs)))"
      using assms(1) unfolding groups_of_def by blast
    with at true show ?thesis by (cases "truthy k") auto
  qed
  have "set (duplicates_in m) = {e. \<exists>k es. (k, es) \<in> set m \<and> 1 < length es \<and>
      (\<exists>x \<in> set es. e = x\<lparr>ae_reason := Some (''duplicate_openstatesid:'' @ json_str k)\<rparr>)}"
    unfolding duplicates_in_def by (auto split: if_splits)
  also have "\<dots> = {e. \<exists>c. truthy (cms_openstates_id c) \<and> c \<in> set cs \<and> 1 < length (sharing (cms_openstates_id c) cs) \<and> e = duplicate_entry c}"
    (is "?A = ?B")
  proof
    show "?A \<subseteq> ?B"
    proof
      fix e assume "e \<in> ?A"
      then obtain k c where "truthy k" "c \<in> set (sharing k cs)" "1 < length (sharing k cs)"
        "e = (full_entry c)\<lparr>ae_reason := Some (''duplicate_openstatesid:'' @ json_str k)\<rparr>" unfolding group by auto
      then show "e \<in> ?B" by (auto simp: sharing_def duplicate_entry_def)
    qed
    show "?B \<subseteq> ?A"
    proof
      fix e assume "e \<in> ?B"
      then obtain c where c: "truthy (cms_openstates_id c)" "c \<in> set (sharing (cms_openstates_id c) cs)"
        "1 < length (sharing (cms_openstates_id c) cs)" "e = duplicate_entry c" by (auto simp: sharing_def)
      show "e \<in> ?A" unfolding group
        by (intro CollectI exI[of _ "cms_openstates_id c"] exI[of _ "map full_entry (sharing (cms_openstates_id c) cs)"])
          (use c in \<open>auto simp: duplicate_entry_def\<close>)
    qed
  qed
  finally have mark: "set (duplicates_in m) = \<dots>" .
  have "truthy (cms_openstates_id c) \<longleftrightarrow> cms_openstates_id c \<noteq> JNull" if "c \<in> set cs" for c
    using assms(2) that by (auto simp: list_all_iff text_id_def)
  then show ?thesis unfolding mark by auto
qed

text \<open>C34: When the items can be read, the audit before a bulk import looks at every item once and flags exactly the records without
  an OpenStates id and the records that share theirs with another, each with its reason.\<close>

theorem bulk_audit_exact:
  assumes "get_jurisdiction_mapping H cfg L0 s0 = (Inr (L, Inr mapping), s)"
    and "iter_legislator_items H cfg 100 200 L s = (Inr (L', Inr (items, None)), s')"
    and "map_res (from_webflow_item mapping) items = Inr cs" "list_all text_id cs"
  shows "\<exists>rep. audit_bulk_import_readiness H cfg L0 s0 = (Inr (L', Inr rep), s') \<and> \<not> audit_aborted rep \<and>
    total_scanned rep = length items \<and> flagged_count rep = length (flagged rep) \<and>
    set (flagged rep) = missing_entry ` {c \<in> set cs. cms_openstates_id c = JNull} \<union>
      duplicate_entry ` {c \<in> set cs. cms_openstates_id c \<noteq> JNull \<and> 1 < length (sharing (cms_openstates_id c) cs)}"
proof -
  have start: "groups_of [] (by_id no_marks)" "marked no_marks = []" "seen no_marks = 0"
    by (simp_all add: groups_of_def sharing_def no_marks_def)
  obtain acc where acc: "audit_fold step_B mapping items no_marks = Inr acc" "seen acc = length cs"
    "marked acc = map missing_entry (filter (\<lambda>c. cms_openstates_id c = JNull) cs)" "groups_of cs (by_id acc)"
    using audit_fold_B[OF assms(4,3), of no_marks "[]"] start by auto
  have "audit_bulk_import_readiness H cfg L0 s0 =
      (Inr (L', Inr (audit_result ''B'' None None (seen acc) (marked acc @ duplicates_in (by_id acc)))), s')"
    using assms(1) reading_items[OF assms(2) acc(1)]
    by (simp add: audit_bulk_import_readiness_def audit_with_def acts)
  moreover have "length cs = length items" using assms(3) by (rule map_res_Inr_length)
  ultimately show ?thesis
    using acc duplicates_exact[OF acc(4) assms(4)] by (auto simp: audit_result_def)
qed

section \<open>A run comes back\<close>

lemma ends_jitter: "ends (jitter H)"
  by (simp add: ends_def jitter_def split: prod.split)

lemma ends_disk_step: "ends (disk_step g)"
  by (simp add: ends_def disk_step_def Let_def split: prod.split option.split)

lemma answers_lookup_turn: "answers (lookup_turn H st)"
  unfolding lookup_turn_def by (intro answering)

lemma answers_warm_cache: "answers (CongressLegislators.warm_cache H D st)"
  unfolding CongressLegislators.warm_cache_def load_all_def fetch_or_cache_one_def cache_is_fresh_def read_yaml_def ingest_all_def Let_def
  by (intro answering ending ends_disk_step)

lemma answers_loops:
  "answers (jurisdiction_pages H rq n i m st)" "answers (send_loop H rq a n msg st)"
proof (induction n arbitrary: a i m msg st)
  case 0
  {
    case 1
    show ?case by (simp add: answering)
  next
    case 2
    show ?case by (simp add: answering)
  }
next
  case (Suc n)
  {
    case 1
    show ?case unfolding jurisdiction_pages.simps Let_def by (intro answering ending answers_lookup_turn Suc.IH)
  next
    case 2
    show ?case unfolding send_loop.simps by (intro answering ending ends_jitter answers_lookup_turn Suc.IH)
  }
qed

lemma answers_mapping: "answers (get_jurisdiction_mapping H cfg st)"
  unfolding get_jurisdiction_mapping_def refreshed_mapping_def fetch_jurisdiction_mapping_fresh_def keep_mapping_def Let_def
  by (intro answering ending answers_loops)

lemma answers_page: "answers (legislator_page H rq st)"
  unfolding legislator_page_def by (intro answering ending answers_lookup_turn)

lemma answers_update: "answers (update_legislator_fields H cfg i fs b k strict st)"
  unfolding update_legislator_fields_def partition_payload_def get_field_slugs_def fresh_schema_def keep_schema_def send_with_backoff_def Let_def
  by (intro answering ending answers_lookup_turn answers_loops)

lemma answers_fetch_first: "answers (fetch_first H us e st)"
proof (induction us arbitrary: e st)
  case (Cons u us)
  show ?case unfolding fetch_first.simps fetch_image_def as_asset_error_def by (intro answering ending Cons.IH)
qed (simp add: answering)

lemma answers_upload: "answers (upload_from_url H md5 u us alt dry st)"
  unfolding upload_from_url_def register_asset_def create_asset_def put_to_signed_url_def keep_asset_def as_asset_error_def Let_def
  by (intro answering ending answers_fetch_first)

lemma answers_photo: "answers (maybe_upload_photo H T c u dry st)"
proof -
  have ensure: "answers (ensure_assets T st)" for st
    unfolding ensure_assets_def by (rule answers_mbind) (auto intro!: answering split: asset_slot.split sum.split)
  show ?thesis unfolding maybe_upload_photo_def photo_failed_def reporting_def by (intro answering ensure answers_upload)
qed

lemma answers_sync_one_record: "answers (sync_one_record H T opts c st)"
  unfolding sync_one_record_def resolve_upstream_def fetch_openstates_def bioguide_fallback_def federal_details_def fetch_by_id_def
    people_json_def with_photo_def write_changes_def add_patch_def reporting_def on_openstates_def on_congress_def on_webflow_def get_by_bioguide_def
  by (intro answering people_attempts_answer answers_warm_cache answers_photo answers_update)

lemma answers_for_legislators:
  assumes "\<And>m st. (\<And>t. answers (m t)) \<Longrightarrow> answers (on_service m st)" "\<And>x st. answers (body x st)"
  shows "answers (for_legislators H cfg on_service body st)"
proof -
  have items: "answers (for_items body xs st)" for xs st
    by (induction xs arbitrary: st) (auto intro!: answering assms(2))
  have pages: "answers (for_pages H rq on_service body n i st)" for rq n i st
  proof (induction n arbitrary: i st)
    case (Suc n)
    show ?case unfolding for_pages.simps Let_def by (intro answering assms(1) answers_page items Suc.IH)
  qed (simp add: answering)
  show ?thesis unfolding for_legislators_def Let_def by (intro answering pages)
qed

lemma answers_process: "answers (process_cms_records H T opts st)"
  unfolding process_cms_records_def process_item_def process_record_def reporting_def on_webflow_def
  by (intro answering answers_mapping answers_for_legislators answers_sync_one_record; simp)

lemma answers_index: "answers (index_cms H T st)"
  unfolding index_cms_def index_item_def with_locals_def on_object_def on_webflow_def
  by (intro answering answers_mapping answers_for_legislators; simp)

lemma answers_mfold: "(\<And>x acc st. answers (f x acc st)) \<Longrightarrow> answers (mfold f xs acc st)"
  by (induction xs arbitrary: acc st) (auto intro!: answering)

lemma answers_discover: "answers (discover_and_create H T opts st)"
proof -
  have draft: "answers (create_draft H T m st)" for m st
    by (cases "member_label m") (auto simp: create_draft_def draft_record_def answers_def acts)
  show ?thesis unfolding discover_and_create_def discover_member_def iter_current_def reporting_def on_congress_def
    by (intro answering answers_index answers_mfold answers_warm_cache draft)
qed

lemma answers_run: "answers (run_bio_sync H T opts st)"
  unfolding run_bio_sync_def run_steps_def on_rate_limit_def abort_with_def send_alert_def push_bio_sync_alert_def reporting_def on_congress_def
  by (intro answering ending answers_warm_cache answers_process answers_discover)

text \<open>C32: A run of the legislator synchronisation always comes back, with a report or with an exception that is not the end of a
  fuel, whatever the services, the disk and the content of their answers; and in the report every photo that was tried is
  counted as uploaded or as failed, and none was tried unless photos are on.\<close>

theorem run_ends_and_photos_add_up:
  "\<exists>B' x s'. run_bio_sync H T opts B s = (Inr (B', x), s') \<and>
    photos_attempted (bio_report B') = photos_succeeded (bio_report B') + photos_failed (bio_report B') \<and>
    (bo_upload_photos opts \<or> photos_attempted (bio_report B') = 0)"
proof -
  obtain y s' where run: "run_bio_sync H T opts B s = (Inr y, s')" using answers_run by (rule answersE)
  obtain B' x where y: "y = (B', x)" by (cases y)
  from photos_stay_balanced[OF run[unfolded y]] have
    "photos_attempted (bio_report B') = photos_succeeded (bio_report B') + photos_failed (bio_report B') \<and>
     (bo_upload_photos opts \<or> photos_attempted (bio_report B') = 0)" unfolding photos_balanced_def add_0_right .
  with run y show ?thesis by blast
qed

section \<open>Values for the witnesses\<close>

definition bio_conf :: sync_settings where
  "bio_conf = sample_conf\<lparr>webflow_legislators_collection_id := ''legs''\<rparr>"

definition empty_disk :: "script disk" where
  "empty_disk = \<lparr>d_mkdir = (\<lambda>_ n. (None, n)), d_age = (\<lambda>_ _. Some 0), d_write = (\<lambda>_ _ n. (None, n)), d_yaml = (\<lambda>_ _. Inr (JArr []))\<rparr>"

definition bio_people :: people_config where
  "bio_people = \<lparr>pc_api_key = ''key'', pc_attempts = 1, pc_per_page = 50, pc_max_pages = 200, pc_api_base = PEOPLE_BASE_URL,
     pc_local_base = [], pc_local_key = [], pc_local_jurisdictions = []\<rparr>"

definition sample_bio_tools :: "script bio_tools" where
  "sample_bio_tools = \<lparr>bt_settings = bio_conf, bt_people = bio_people,
     bt_dataset = \<lparr>disk = empty_disk, cache_dir = ''/c'', cache_ttl_seconds = 86400, set_order = (\<lambda>xs. xs)\<rparr>,
     bt_assets_key = ''key'', bt_site_id = ''site'', bt_webhook = [], bt_md5 = (\<lambda>s. s), bt_ratio = (\<lambda>a b. JNull)\<rparr>"

definition bio_host :: "(script, unit) host" where
  "bio_host = scripted_host default_settings"

definition bio_start :: bio where
  "bio_start = \<lparr>bio_webflow = new_lookup DEFAULT_MAX_REQUESTS_PER_MINUTE, bio_congress = new_congress,
     bio_openstates = new_limiter None, bio_assets = NoService, bio_report = new_bio_report\<rparr>"

definition dry_options :: bio_options where
  "dry_options = \<lparr>bo_target = ''all'', bo_jurisdiction = [], bo_auto_create = True, bo_dry_run = True, bo_limit = 0,
     bo_locked_fields = [], bo_strict_schema = False, bo_upload_photos = True, bo_upload_photos_dry_run = True\<rparr>"

definition sample_cms :: cms where
  "sample_cms = \<lparr>cms_id = JStr ''i1'', cms_slug = JStr ''jane'', cms_name = JStr ''Jane Doe'', cms_openstates_id = JStr ''p1'',
     cms_bioguide = JNull, cms_federal = False, cms_state = Some ''FL'', cms_seats = [], cms_fields = [(''gender'', JStr ''Female'')],
     cms_item = JObj []\<rparr>"

definition sample_raw :: json where
  "sample_raw = JObj [(''id'', JStr ''p1''), (''name'', JStr ''Jane Doe''), (''gender'', JStr ''F''), (''birth_date'', JStr ''1970-01-02''),
     (''image'', JStr ''http://x/p.jpg''), (''offices'', JArr [JObj [(''classification'', JStr ''capitol''), (''voice'', JStr ''555'')]])]"

definition sample_person :: person where
  "sample_person = (case from_api sample_raw of Inr p \<Rightarrow> p)"

definition sample_member :: member where
  "sample_member = \<lparr>m_bioguide = JStr ''D000001'', m_name = JObj [(''first'', JStr ''Jane''), (''last'', JStr ''Doe'')],
     m_bio = JObj [(''birthday'', JStr ''1970-01-02'')], m_terms = JArr [JObj [(''state'', JStr ''FL''), (''start'', JStr ''2025-01-03'')]],
     m_ids = JObj [(''bioguide'', JStr ''D000001'')], m_social = JObj [], m_historical = False\<rparr>"

section \<open>Witnesses\<close>

lemma bio_diff_settles_witness:
  "\<exists>p. build_payload sample_cms (Some sample_person) None = Inr (Some p) \<and> p \<noteq> [] \<and>
    write_changes bio_host sample_bio_tools dry_options sample_cms (diff_payload
      (dict_update (cms_fields sample_cms) (diff_payload (cms_fields sample_cms) p [])) p []) = mret ()"
proof -
  have "case build_payload sample_cms (Some sample_person) None of Inr (Some p) \<Rightarrow> p \<noteq> [] | _ \<Rightarrow> False"
    by code_simp
  then obtain p where p: "build_payload sample_cms (Some sample_person) None = Inr (Some p)" "p \<noteq> []"
    by (auto split: sum.splits option.splits)
  with bio_diff_settles[OF p(1), of p JNull bio_host sample_bio_tools dry_options] show ?thesis
    by (simp add: dry_options_def)
qed

lemma openstates_phone_never_used_witness:
  "\<exists>p. build_federal_payload (sample_cms\<lparr>cms_federal := True\<rparr>) (Some sample_member) (Some sample_person) = Inr p \<and>
    dict_get p ''phone-capitol'' = JNull \<and> first_office (os_offices sample_person) ''capitol'' \<noteq> Inr None"
proof -
  have "case build_federal_payload (sample_cms\<lparr>cms_federal := True\<rparr>) (Some sample_member) (Some sample_person) of Inr p \<Rightarrow> True | Inl _ \<Rightarrow> False"
    "truthy (m_terms sample_member)" "latest_term sample_member = Inr (JObj [(''state'', JStr ''FL''), (''start'', JStr ''2025-01-03'')])"
    "attr_get (JObj [(''state'', JStr ''FL''), (''start'', JStr ''2025-01-03'')]) ''phone'' JNull = Inr JNull" "\<not> truthy JNull"
    "first_office (os_offices sample_person) ''capitol'' \<noteq> Inr None"
    by code_simp+
  then show ?thesis using openstates_phone_never_used[of "sample_cms\<lparr>cms_federal := True\<rparr>" sample_member sample_person]
    by (auto split: sum.splits)
qed



lemma bio_dry_run_only_reads_witness:
  "sends is_read (run_bio_sync bio_host sample_bio_tools dry_options bio_start) \<and>
   with_photo bio_host sample_bio_tools (dry_options\<lparr>bo_dry_run := True\<rparr>) sample_cms [] =
     with_photo bio_host sample_bio_tools (dry_options\<lparr>bo_dry_run := False\<rparr>) sample_cms []"
  by (rule bio_dry_run_only_reads) (simp_all add: dry_options_def)

text \<open>Running on the scripted host.\<close>

lemmas run_bio = bio_host_def scripted_host_def script_network_def scripted_site_def http_def Let_def jitter_def json_body_def is_success_def
  answer_ok_def answer_status_def header_def

lemma first_turn: "wait_turn bio_host (new_limiter None) (scripted_site xs []) = (Inr (new_limiter None, Inr ()), scripted_site xs [])"
  by (simp add: wait_turn_def run_bio acts sleep_time_def apply_limit_def new_limiter_def min_delay_seconds_def default_config_def)

lemma openstates_limit_is_an_orphan_witness:
  "\<exists>l s'. sync_one_record bio_host sample_bio_tools dry_options sample_cms bio_start (scripted_site [answer_status 429] []) =
      (Inr (bio_start\<lparr>bio_openstates := l, bio_report := new_bio_report\<lparr>upstream_orphans := [orphan_entry sample_cms]\<rparr>\<rparr>, Inr ()), s') \<and>
    length (sent s') = 1"
proof -
  let ?s = "scripted_site [answer_status 429] []"
  have start: "bio_openstates bio_start = new_limiter None" "bio_report bio_start = new_bio_report" by (simp_all add: bio_start_def)
  have "\<exists>m s'. fetch_by_id bio_host bio_people (cms_openstates_id sample_cms) (new_limiter None) ?s =
      (Inr (new_limiter None, Inl (OpenStatesRateLimitError m)), s') \<and> length (sent s') = 1"
    using first_turn[of "[answer_status 429]"]
    by (simp add: fetch_by_id_def people_json_def bio_people_def run_mtry run_mbind run_outer run_method acts sample_cms_def
        people_gave_up_def backoff_seconds_def run_bio)
  then obtain m s' where run: "fetch_by_id bio_host (bt_people sample_bio_tools) (cms_openstates_id sample_cms) (bio_openstates bio_start) ?s =
      (Inr (new_limiter None, Inl (OpenStatesRateLimitError m)), s')" "length (sent s') = 1"
    unfolding start by (auto simp: sample_bio_tools_def)
  have "truthy (cms_openstates_id sample_cms)" "\<not> (cms_federal sample_cms \<and> truthy (cms_bioguide sample_cms))"
    by (simp_all add: sample_cms_def)
  from openstates_limit_is_an_orphan[OF this(1) run(1) this(2), of dry_options] run(2) start show ?thesis
    by (auto simp: new_bio_report_def)
qed

lemma photo_uploaded_once_witness:
  "\<exists>A A' ref s'. upload_from_url bio_host (\<lambda>s. s) (JStr ''http://x/p.jpg'') [] (JStr ''Jane'') False A
      (scripted_site [Inr \<lparr>status_code = 200, body_text = ''photo'', body_json = None, headers_of = []\<rparr>,
         answer_ok (JObj [(''id'', JStr ''a1''), (''uploadUrl'', JStr ''http://s3'')]), answer_status 204] []) = (Inr (A', Inr (Some ref)), s') \<and>
    length (sent s') = 3 \<and>
    upload_from_url bio_host (\<lambda>s. s) (JStr ''http://x/p.jpg'') [] (JStr ''Jane'') True A' (scripted_site [] []) = (Inr (A', Inr (Some ref)), scripted_site [] [])"
proof -
  let ?A = "\<lparr>asset_token = ''key'', asset_site = ''site'', max_image_bytes = MAX_IMAGE_BYTES, asset_cache = []\<rparr>"
  let ?s = "scripted_site [Inr \<lparr>status_code = 200, body_text = ''photo'', body_json = None, headers_of = []\<rparr>,
         answer_ok (JObj [(''id'', JStr ''a1''), (''uploadUrl'', JStr ''http://s3'')]), answer_status 204] []"
  have name: "derive_filename ''http://x/p.jpg'' ''image/jpeg'' = Inr ''p.jpg''"
    "media_of \<lparr>status_code = 200, body_text = ''photo'', body_json = None, headers_of = []\<rparr> = ''image/jpeg''" by code_simp+
  have "\<exists>A' ref s'. upload_from_url bio_host (\<lambda>s. s) (JStr ''http://x/p.jpg'') [] (JStr ''Jane'') False ?A ?s = (Inr (A', Inr (Some ref)), s') \<and>
      length (sent s') = 3"
    by (simp add: upload_from_url_def fetch_image_def json_key_def url_text_def name register_asset_def create_asset_def asset_request_def
        put_to_signed_url_def form_fields_def signed_upload_def keep_asset_def acts run_bio plain_request_def MAX_IMAGE_BYTES_def or_empty_def)
  then obtain A' ref s' where run: "upload_from_url bio_host (\<lambda>s. s) (JStr ''http://x/p.jpg'') [] (JStr ''Jane'') False ?A ?s = (Inr (A', Inr (Some ref)), s')"
    "length (sent s') = 3" by blast
  with photo_uploaded_once[OF run(1)] show ?thesis by blast
qed

definition sample_item :: "string \<Rightarrow> json" where
  "sample_item i = JObj [(''id'', JStr i), (''fieldData'', JObj [(''name'', JStr ''Jane Doe''), (''slug'', JStr ''jane''), (''openstatesid'', JStr ''p1'')])]"

definition page_of :: "json list \<Rightarrow> string + response" where
  "page_of items = answer_ok (JObj [(''items'', JArr items), (''pagination'', JObj [(''total'', JInt (int (length items)))])])"

lemma two_hundred: "(200 :: nat) = Suc 199"
  by simp

lemma bulk_audit_exact_witness:
  "\<exists>L' rep s'. audit_bulk_import_readiness bio_host bio_conf (new_lookup DEFAULT_MAX_REQUESTS_PER_MINUTE)
      (scripted_site [page_of [sample_item ''i1'', sample_item ''i2'']] []) = (Inr (L', Inr rep), s') \<and>
    total_scanned rep = 2 \<and> flagged rep \<noteq> []"
proof -
  let ?L = "new_lookup DEFAULT_MAX_REQUESTS_PER_MINUTE" and ?s = "scripted_site [page_of [sample_item ''i1'', sample_item ''i2'']] []"
  let ?L1 = "?L\<lparr>jurisdiction_mapping := Some (0, [])\<rparr>"
  have mapping: "get_jurisdiction_mapping bio_host bio_conf ?L ?s = (Inr (?L1, Inr []), ?s)"
    by (simp add: get_jurisdiction_mapping_def refreshed_mapping_def fetch_jurisdiction_mapping_fresh_def keep_mapping_def acts run_bio
        new_lookup_def bio_conf_def sample_conf_def)
  have turn: "lookup_turn bio_host ?L1 ?s = (Inr (?L1, Inr ()), ?s)"
    by (simp add: lookup_turn_def on_part_def wait_turn_def run_bio acts sleep_time_def apply_limit_def new_limiter_def min_delay_seconds_def
        default_config_def lookup_config_def DEFAULT_MAX_REQUESTS_PER_MINUTE_def new_lookup_def)
  let ?items = "[sample_item ''i1'', sample_item ''i2'']"
  have page: "\<exists>s1. legislator_page bio_host rq ?L1 ?s = (Inr (?L1, Inr (?items, JObj [(''items'', JArr ?items),
      (''pagination'', JObj [(''total'', JInt 2)])])), s1)" for rq
    unfolding legislator_page_def run_mbind turn prod.case sum.case
    by (simp add: acts page_of_def run_bio items_of_def)
  have "\<exists>s'. iter_legislator_items bio_host bio_conf 100 200 ?L1 ?s = (Inr (?L1, Inr (?items, None)), s')"
  proof -
    obtain s1 where "legislator_page bio_host ((webflow_get (legislator_url bio_conf) ''key'' [])\<lparr>req_params := page_params 100 0\<rparr>) ?L1 ?s =
      (Inr (?L1, Inr (?items, JObj [(''items'', JArr ?items), (''pagination'', JObj [(''total'', JInt 2)])])), s1)" using page by blast
    moreover have "webflow_legislators_collection_id bio_conf = ''legs''" "webflow_votebot_api_key bio_conf = ''key''"
      by (simp_all add: bio_conf_def sample_conf_def)
    ultimately show ?thesis
      unfolding two_hundred iter_legislator_items_def legislator_pages.simps Let_def
      by (simp add: first_set_def run_mtry run_method page_total_def json_number_def)
  qed
  then obtain s' where read: "iter_legislator_items bio_host bio_conf 100 200 ?L1 ?s = (Inr (?L1, Inr ([sample_item ''i1'', sample_item ''i2''], None)), s')" by blast
  define cs where "cs = (case map_res (from_webflow_item []) [sample_item ''i1'', sample_item ''i2''] of Inr cs \<Rightarrow> cs)"
  have cs: "map_res (from_webflow_item []) [sample_item ''i1'', sample_item ''i2''] = Inr cs" "list_all text_id cs"
    "\<exists>c \<in> set cs. cms_openstates_id c \<noteq> JNull \<and> 1 < length (sharing (cms_openstates_id c) cs)"
    by (simp_all add: cs_def sample_item_def from_webflow_item_def or_empty_def normalize_seat_refs_def dict_get_def or_null_def or_else_def
        text_id_def sharing_def)
  from bulk_audit_exact[OF mapping read cs(1,2)] cs(3) show ?thesis by (fastforce simp: numeral_2_eq_2)
qed

end
