(* ===== verification/Spec2Isabelle.thy ===== *)
theory Spec2Isabelle
  imports ScrapeCadence LegislativeCalendar Chunking WebflowServices SessionLock OrgGates GroupKill RateLimiter ScrapeJobs CloudScrape SessionRunner VersionLaws LegislatorLaws
begin

text \<open>
  A verification library for ddp-sync, the service that moves legislative data between OpenStates, the content
  management service (Webflow), the vector store, the scrapers and LegBot. The theories follow the modules under
  \<open>src/src/ddp_sync\<close>; every definition bears the name of the function it translates, up to a suffix.

  \<^bold>\<open>The program.\<close> A scheduler and an HTTP interface start \<^emph>\<open>jobs\<close>. The scrape jobs
  (\<open>pipelines/openstates_scrape.py\<close>) decide per jurisdiction whether, where and how to scrape
  (\<open>services/scrape_cadence.py\<close>, \<open>services/jurisdiction_enrollment.py\<close>, the calendar of
  \<open>services/legislative_calendar.py\<close>), run a scraper under a watchdog or a Fargate task
  (\<open>pipelines/cloud_scrape_trigger.py\<close>), record what happened in Redis (\<open>services/redis_store.py\<close>) and alert. A
  finished scrape starts LegBot runs under an overlap lock (\<open>pipelines/scraper_triggered_legbot.py\<close>). Bills, their
  versions and the biographies of legislators are compared with their sources and patched. The editing
  services of \<open>webflow_cms\<close> keep the content management service in order. Documents are cut by
  \<open>ingestion/chunking.py\<close> before they are embedded.

  \<^bold>\<open>How values are modelled\<close> (\<open>Prelude\<close>, \<open>PyJson\<close>, \<open>PyDate\<close>). A \<open>str\<close> is a list of characters, a document is the
  datatype \<open>json\<close>, an exception is a value of \<open>py_error\<close> in a sum type, a \<open>dict\<close> whose order is observed is an
  association list, a date is its proleptic Gregorian ordinal. Python integers are unbounded, so no machine
  word occurs. Log lines and durations are not modelled unless the code decides on them.

  \<^bold>\<open>Services the code calls\<close> are parameters: a record of functions over an abstract state. Their documented laws are
  locales: \<open>redis_service\<close> (\<open>Redis\<close>, extended by \<open>answering_redis\<close>), \<open>file_service\<close> (\<open>Files\<close>), \<open>hash_service\<close>
  (\<open>Inflight\<close>), \<open>cms_service\<close> (\<open>WebflowClient\<close>), \<open>disjoint_sets\<close> (\<open>UnionFind\<close>), \<open>vector_index\<close> (\<open>VectorIndex\<close>),
  \<open>allows_reads\<close> (\<open>LegislatorRequests\<close>: which requests a run may send); each is interpreted on a concrete service or on the model's own
  definitions, and the properties have a witness there.

  \<^bold>\<open>Theories.\<close>
  \<^item> \<open>ScrapeCadence\<close>: the effective cadence is the maximum of floor and override; what a review escalates.
  \<^item> \<open>CalendarData\<close>, \<open>LegislativeCalendar\<close>: the table of the states, the live data, which sessions are open on a date.
  \<^item> \<open>Chunking\<close>: the two chunkers; windows, overlap, and that nothing but white space is lost.
  \<^item> \<open>WebflowUtils\<close>, \<open>WebflowClient\<close>, \<open>UnionFind\<close>, \<open>DuplicateBills\<close>, \<open>WebflowServices\<close>: the package \<open>webflow_cms\<close>: retries and
    paging of the client, grouping of duplicates (an equivalence relation, refined by a forest), the resolution of a
    group, and the fillers, with the references between bills and organizations.
  \<^item> \<open>Redis\<close>, \<open>RedisStore\<close>, \<open>SessionLock\<close>: the store's methods, the overlap lock as a function and as a step relation
    in which clients interleave and leases expire; mutual exclusion by rule induction, and the one way it is lost.
  \<^item> \<open>OrgGates\<close>: the two gates before organization resolution may act.
  \<^item> \<open>Enrollment\<close>: the manifest, its cache and the three modes of \<open>enrolled\<close>.
  \<^item> \<open>ScrapeHistory\<close>, \<open>ScrapeGates\<close>, \<open>Files\<close>, \<open>FullWalk\<close>, \<open>GroupKill\<close>, \<open>ScrapeRun\<close>, \<open>ScrapeJobs\<close>: the scrape pipeline: run history and
    alerts, the per-jurisdiction gates, the full-walk marker across a crash, the watchdog, one scrape, and all jobs.
  \<^item> \<open>RateLimiter\<close>, \<open>Scrapebot\<close>, \<open>RdsCredentials\<close>, \<open>Inflight\<close>, \<open>CloudScrape\<close>: throttling, cookie tasks, the database address, and the
    cloud scrape with its record of tasks in flight and its resumption after a restart.
  \<^item> \<open>Effects\<close>: what the LegBot pipelines share: an action threads the \<open>site\<close> (the network, the requests sent, Redis, the
    caches of the process) and ends with a value or a \<open>fault\<close>, the exception it raises. Collections of rules follow the
    structure of an action: \<open>ending\<close> (it never lacks fuel), \<open>sending\<close> (what it may send), \<open>storing\<close> (it keeps Redis).
    The locale \<open>steady_clock\<close> says that answers take no negative time and that a sleep takes its time.
  \<^item> \<open>BrokerClient\<close>, \<open>LocalOpenstates\<close>, \<open>BillListing\<close>, \<open>LegbotClient\<close>: the clients of the broker (\<open>services/broker_client.py\<close>), of the
    archive (\<open>services/local_openstates_client.py\<close>, texts first, then the paged listings) and of LegBot
    (\<open>services/legbot_client.py\<close>: dispatch, poll with retries, deadline, cancel, result file).
  \<^item> \<open>BillVersions\<close>, \<open>ArtifactGeneration\<close>, \<open>OrgResearch\<close>: one artifact of one bill, the changelog walk, the on-demand wrapper and
    the recovery sweep (\<open>pipelines/bill_artifact_generation.py\<close>); organization positions and concept statements.
  \<^item> \<open>ReplicaFreshness\<close>, \<open>SessionRunner\<close>: the gate of the replica, and a run over the bills of a session
    (\<open>pipelines/session_pipeline_runner.py\<close>): it ends, accounts for every type, writes nothing in a dry run.
  \<^item> \<open>Methods\<close>: objects that keep state between calls: a method gives the state after it with a value or an exception, since
    what it did to the object stays when it raises; the limiter and settings the two services share.
  \<^item> \<open>Vectors\<close>, \<open>DocMetadata\<close>, \<open>Ingestion\<close>: embeddings and the vector store with their retries (\<open>services/embeddings.py\<close>,
    \<open>services/vector_store.py\<close>), the metadata of documents, one document and batches (\<open>ingestion/pipeline.py\<close>).
  \<^item> \<open>WebflowLookup\<close>, \<open>OpenStatesSource\<close>, \<open>FederalCache\<close>: the lookup service of the content management service, the sessions of
    a jurisdiction, and the members of Congress by any form of their name.
  \<^item> \<open>BillSync\<close>, \<open>VoteDocument\<close>, \<open>BillBatches\<close>: the votes of bills (\<open>pipelines/bill_sync.py\<close>): addresses, the fetch with its
    retries, the text with links, one bill and both batches.
  \<^item> \<open>BillText\<close>, \<open>VersionCheck\<close>, \<open>VersionUpdate\<close>, \<open>VersionBatches\<close>: the versions of bills (\<open>pipelines/bill_version.py\<close>): the text
    behind an address, the ledger, text, history and changelog documents, surplus chunks, the status of the row, both batches.
  \<^item> \<open>Steps\<close>, \<open>VectorIndex\<close>, \<open>VersionLaws\<close>: what an action does to the outside, as a relation that the rules \<open>moving\<close> carry through
    it (locale \<open>net_steps\<close>), and actions that always answer (\<open>answering\<close>); the laws of a vector index (locale \<open>vector_index\<close>,
    interpreted on an index in memory); and what the version check guarantees: which documents are in the index
    afterwards, that a synchronised status settles, that the counters add up, and what a failure leaves behind.
  \<^item> \<open>OpenStatesPeople\<close>, \<open>CongressLegislators\<close>, \<open>WebflowAssets\<close>: the people of OpenStates with the retries of a question
    (\<open>services/openstates_people.py\<close>), the dataset of Congress on the disk and its index (\<open>services/congress_legislators.py\<close>),
    and the upload of a photo in two steps (\<open>services/webflow_assets.py\<close>).
  \<^item> \<open>LegislatorFields\<close>, \<open>LegislatorBio\<close>, \<open>LegislatorAudits\<close>: \<open>pipelines/legislator_bio.py\<close>: which fields are written, the payloads and
    the search for the same person; one record, the pass over all, photos, drafts, the summary and the run; the audits.
  \<^item> \<open>LegislatorRequests\<close>, \<open>LegislatorLaws\<close>: what such a run may send, proved once in the locale \<open>allows_reads\<close> for every set of
    requests that has all reads, and interpreted on reads alone and on patches that respect the editors; that a record
    settles, every run comes back, the photos add up and are uploaded once, the audit is exact, and three failures.

  \<^bold>\<open>Loops and bounds.\<close> Loops over data are structural recursions. The retry loop of the content client that may never
  end is a \<open>partial_function\<close>. A loop that waits for a task takes fuel: one unit for each poll. The fuel of
  \<open>CloudScrape\<close> is the number of polls within its ceiling (one per 30 seconds), that of \<open>Scrapebot\<close> the 48 polls of its
  timeout; the properties show that these suffice, so no answer depends on the fuel.
  A LegBot task is polled at most \<open>polls_needed\<close> times: the deadline moves at most twice, and every poll sleeps. \<open>patient\<close>
  says that the fuel covers this bound; with it no operation of the LegBot pipelines ends with \<open>OutOfFuel\<close>. The paged
  listings take one unit of fuel for each page.

  \<^bold>\<open>Not modelled.\<close> Job registration and cron triggers (\<open>scheduler.py\<close>), the routes (\<open>app.py\<close>, \<open>api\<close>) and the settings
  (\<open>config.py\<close>), which are declarations handed to libraries; most of the connectors of external services
  (\<open>ingestion/sources\<close>); the older synchronisation of legislators (\<open>pipelines/legislator_sync.py\<close>); the unified synchronisation (\<open>sync\<close>); the
  knowledge base; scripts and tests. In the biographies the disk with its YAML parser (days are texts), the order of a set, \<open>md5\<close>
  and a rounded ratio are parameters.
  The PDF libraries, the HTML parser, the tokenizer and \<open>difflib\<close> are parameters. Texts of exceptions of third-party libraries are shortened. Concurrency is modelled where the code relies on it
  (\<open>SessionLock\<close>, \<open>GroupKill\<close>); jobs that run side by side on separate data are run one after the other (the bills of a
  session run, whose semaphore only limits how many are processed at a time). A background research task is run where it
  is awaited. Dashes in messages are written as hyphens.

  \<^bold>\<open>Next.\<close> The archive trigger, the older synchronisation of legislators, and the unified synchronisation service.
\<close>

end
